(* ===== verification/Prelude.thy ===== *)
theory Prelude
  imports Main "HOL-Library.Sublist"
begin

text \<open>
  The library every component of the development imports: results with errors, Go strings as
  byte lists, SQL tables with auto-increment keys, and the named collections of facts the
  component proofs use.

  \<^item> A Go function that returns \<open>(T, error)\<close> returns a value of \<open>'e + 'a\<close>: \<open>Err e\<close> for the
    error, \<open>Ok x\<close> for the value.
  \<^item> A Go string is a byte sequence, a \<^typ>\<open>string\<close> here. The functions of the package
    \<open>strings\<close> that the code calls are below. Functions that look at white space
    (\<open>TrimSpace\<close>, \<open>Fields\<close>) are given for the ASCII white space; on ASCII input they
    are exactly Go's.
  \<^item> A SQL table is a list of rows with their integer primary keys, in the order of insertion,
    together with the last key handed out (\<open>INTEGER PRIMARY KEY AUTOINCREMENT\<close>), so
    \<open>ORDER BY id\<close> is the order of the list.
  \<^item> Keys and other \<open>int64\<close> values are \<^typ>\<open>int\<close>; \<open>time.Time\<close> is an \<^typ>\<open>int\<close>
    (nanoseconds), and the clock is an argument \<open>now\<close> of the operations that read it.
\<close>

named_theorems sql_simps \<open>equations of the SQL table operations\<close>
named_theorems sql_wf \<open>preservation of table well-formedness\<close>
named_theorems go_str \<open>facts on Go strings\<close>

section \<open>Results\<close>

abbreviation Ok :: "'a \<Rightarrow> 'e + 'a" where "Ok \<equiv> Inr"
abbreviation Err :: "'e \<Rightarrow> 'e + 'a" where "Err \<equiv> Inl"

definition is_ok :: "'e + 'a \<Rightarrow> bool" where
  "is_ok r \<longleftrightarrow> (case r of Inl _ \<Rightarrow> False | Inr _ \<Rightarrow> True)"

lemma is_ok_simps [simp]: "is_ok (Ok x)" "\<not> is_ok (Err e)"
  by (simp_all add: is_ok_def)

section \<open>Go strings\<close>

definition has_prefix :: "string \<Rightarrow> string \<Rightarrow> bool" where
  "has_prefix s p \<longleftrightarrow> take (length p) s = p"

definition has_suffix :: "string \<Rightarrow> string \<Rightarrow> bool" where
  "has_suffix s p \<longleftrightarrow> length p \<le> length s \<and> drop (length s - length p) s = p"

definition trim_prefix :: "string \<Rightarrow> string \<Rightarrow> string" where
  "trim_prefix s p = (if has_prefix s p then drop (length p) s else s)"

definition trim_suffix :: "string \<Rightarrow> string \<Rightarrow> string" where
  "trim_suffix s p = (if has_suffix s p then take (length s - length p) s else s)"

fun contains :: "string \<Rightarrow> string \<Rightarrow> bool" where
  "contains [] sub \<longleftrightarrow> sub = []"
| "contains (c # cs) sub \<longleftrightarrow> has_prefix (c # cs) sub \<or> contains cs sub"

text \<open>\<open>strings.Split(s, sep)\<close> with a separator of one byte: never an empty result.\<close>

fun split_on :: "char \<Rightarrow> string \<Rightarrow> string list" where
  "split_on sep [] = [[]]"
| "split_on sep (c # cs) =
     (if c = sep then [] # split_on sep cs
      else case split_on sep cs of [] \<Rightarrow> [[c]] | w # ws \<Rightarrow> (c # w) # ws)"

fun join :: "string \<Rightarrow> string list \<Rightarrow> string" where
  "join sep [] = []"
| "join sep [w] = w"
| "join sep (w # v # ws) = w @ sep @ join sep (v # ws)"

text \<open>ASCII white space: tab, line feed, vertical tab, form feed, carriage return, space.\<close>

definition is_space :: "char \<Rightarrow> bool" where
  "is_space c \<longleftrightarrow> of_char c \<in> {9, 10, 11, 12, 13, 32 :: nat}"

definition trim_left :: "string \<Rightarrow> string" where
  "trim_left s = dropWhile is_space s"

definition trim_space :: "string \<Rightarrow> string" where
  "trim_space s = rev (trim_left (rev (trim_left s)))"

fun fields_acc :: "string \<Rightarrow> string \<Rightarrow> string list" where
  "fields_acc [] acc = (if acc = [] then [] else [rev acc])"
| "fields_acc (c # cs) acc =
     (if is_space c then (if acc = [] then fields_acc cs [] else rev acc # fields_acc cs [])
      else fields_acc cs (c # acc))"

text \<open>\<open>strings.Fields\<close>: the maximal runs of bytes that are not white space.\<close>

definition str_fields :: "string \<Rightarrow> string list" where
  "str_fields s = fields_acc s []"

text \<open>\<open>s[:strings.IndexByte(s, c)]\<close>, or all of \<open>s\<close> where the byte does not occur.\<close>

definition before_byte :: "char \<Rightarrow> string \<Rightarrow> string" where
  "before_byte c s = takeWhile (\<lambda>x. x \<noteq> c) s"

lemma has_prefix_iff [go_str]: "has_prefix s p \<longleftrightarrow> prefix p s"
  by (metis append_eq_conv_conj append_take_drop_id has_prefix_def prefix_def)

lemma has_suffix_iff [go_str]: "has_suffix s p \<longleftrightarrow> suffix p s"
proof
  assume "has_suffix s p"
  then have "s = take (length s - length p) s @ p"
    by (metis append_take_drop_id has_suffix_def)
  then show "suffix p s"
    by (metis suffixI)
next
  assume "suffix p s"
  then show "has_suffix s p"
    by (auto simp: has_suffix_def suffix_def)
qed

lemma contains_iff [go_str]: "contains s sub \<longleftrightarrow> sublist sub s"
proof (induction s)
  case Nil
  then show ?case by simp
next
  case (Cons c cs)
  then show ?case by (simp add: has_prefix_iff sublist_Cons_right)
qed

lemma trim_prefix_append [simp]: "trim_prefix (p @ s) p = s"
  by (simp add: trim_prefix_def has_prefix_def)

lemma trim_suffix_append [simp]: "trim_suffix (s @ p) p = s"
  by (simp add: trim_suffix_def has_suffix_def)

lemma split_on_not_Nil [simp]: "split_on sep s \<noteq> []"
  by (cases s) (simp_all split: list.splits)

lemma join_Cons: "ws \<noteq> [] \<Longrightarrow> join sep (w # ws) = w @ sep @ join sep ws"
  by (cases ws) simp_all

text \<open>Splitting at a byte and joining with it give the string back.\<close>

lemma join_split_on [go_str]: "join [sep] (split_on sep s) = s"
proof (induction s)
  case Nil
  then show ?case by simp
next
  case (Cons c cs)
  obtain w ws where w: "split_on sep cs = w # ws"
    using list.exhaust split_on_not_Nil by metis
  show ?case
  proof (cases "c = sep")
    case True
    then show ?thesis using Cons.IH by (simp add: join_Cons)
  next
    case False
    then show ?thesis using Cons.IH w by (cases ws) simp_all
  qed
qed

lemma split_on_parts: "w \<in> set (split_on sep s) \<Longrightarrow> sep \<notin> set w"
proof (induction s arbitrary: w)
  case Nil
  then show ?case by simp
next
  case (Cons c cs)
  obtain v vs where v: "split_on sep cs = v # vs"
    using list.exhaust split_on_not_Nil by metis
  then show ?case using Cons by (auto split: if_splits)
qed

lemma split_on_no_sep: "sep \<notin> set s \<Longrightarrow> split_on sep s = [s]"
  by (induction s) auto

lemma split_on_append: "split_on c (a @ c # b) = split_on c a @ split_on c b"
proof (induction a)
  case (Cons x a)
  then show ?case using split_on_not_Nil [of c a] by (auto split: list.splits)
qed simp

lemma split_join: "ws \<noteq> [] \<Longrightarrow> \<forall>w \<in> set ws. c \<notin> set w \<Longrightarrow> split_on c (join [c] ws) = ws"
proof (induction "[c]" ws rule: join.induct)
  case (3 w v ws)
  then have "split_on c (w @ c # join [c] (v # ws)) = split_on c w @ (v # ws)" by (simp add: split_on_append)
  with 3 show ?case by (simp add: split_on_no_sep)
qed (simp_all add: split_on_no_sep)

lemma fields_acc_parts:
  "\<forall>c \<in> set acc. \<not> is_space c \<Longrightarrow> w \<in> set (fields_acc s acc) \<Longrightarrow>
     w \<noteq> [] \<and> (\<forall>c \<in> set w. \<not> is_space c)"
proof (induction s acc arbitrary: w rule: fields_acc.induct)
  case (1 acc)
  then show ?case by (auto split: if_splits)
next
  case (2 c cs acc)
  show ?case
  proof (cases "is_space c \<and> acc \<noteq> [] \<and> w = rev acc")
    case True
    with "2.prems" show ?thesis by simp
  next
    case False
    with "2.prems" consider "is_space c" "w \<in> set (fields_acc cs [])"
      | "\<not> is_space c" "w \<in> set (fields_acc cs (c # acc))"
      by (auto split: if_splits)
    then show ?thesis
    proof cases
      case 1
      show ?thesis
      proof (cases "acc = []")
        case True
        show ?thesis by (rule "2.IH"(1) [OF 1(1) True _ 1(2)]) simp
      next
        case False
        show ?thesis by (rule "2.IH"(2) [OF 1(1) False _ 1(2)]) simp
      qed
    next
      case 2
      then show ?thesis using "2.IH"(3) "2.prems"(1) by simp
    qed
  qed
qed

lemma fields_acc_word: "\<forall>c \<in> set w. \<not> is_space c \<Longrightarrow> fields_acc (w @ s) acc = fields_acc s (rev w @ acc)"
  by (induction w arbitrary: acc) auto

lemma str_fields_parts:
  "w \<in> set (str_fields s) \<Longrightarrow> w \<noteq> [] \<and> (\<forall>c \<in> set w. \<not> is_space c)"
  unfolding str_fields_def by (rule fields_acc_parts [of "[]"]) simp_all

lemma append_sep_inject:
  assumes "c \<notin> set xs" and "c \<notin> set ys" and "xs @ c # us = ys @ c # vs"
  shows "xs = ys \<and> us = vs"
  using assms by (induction xs arbitrary: ys) (auto simp: Cons_eq_append_conv append_eq_Cons_conv)

section \<open>Decimal numbers\<close>

text \<open>\<open>strconv.FormatInt(i, 10)\<close> and a reader for it.\<close>

definition digit_char :: "nat \<Rightarrow> char" where
  "digit_char d = char_of (48 + d)"

fun nat_str :: "nat \<Rightarrow> string" where
  "nat_str n = (if n < 10 then [digit_char n] else nat_str (n div 10) @ [digit_char (n mod 10)])"

declare nat_str.simps [simp del]

definition FormatInt :: "int \<Rightarrow> string" where
  "FormatInt i = (if i < 0 then CHR ''-'' # nat_str (nat (- i)) else nat_str (nat i))"

definition nat_val :: "string \<Rightarrow> nat" where
  "nat_val s = foldl (\<lambda>n c. 10 * n + (of_char c - 48)) 0 s"

lemma of_char_digit [simp]: "d < 10 \<Longrightarrow> of_char (digit_char d) = 48 + d"
  by (simp add: digit_char_def)

lemma nat_val_str [simp]: "nat_val (nat_str n) = n"
proof (induction n rule: nat_str.induct)
  case (1 n)
  show ?case
  proof (cases "n < 10")
    case True
    then show ?thesis by (simp add: nat_str.simps [of n] nat_val_def)
  next
    case False
    have "nat_val (nat_str n) = 10 * nat_val (nat_str (n div 10)) + n mod 10"
      using False by (simp add: nat_str.simps [of n] nat_val_def)
    with 1 False show ?thesis by simp
  qed
qed

lemma nat_str_digits: "c \<in> set (nat_str n) \<Longrightarrow> 48 \<le> (of_char c :: nat) \<and> (of_char c :: nat) \<le> 57"
proof (induction n rule: nat_str.induct)
  case (1 n)
  then show ?case
    by (cases "n < 10") (auto simp: nat_str.simps [of n])
qed

lemma nat_str_inject [simp]: "nat_str a = nat_str b \<longleftrightarrow> a = b"
  by (metis nat_val_str)

lemma nat_str_no_minus: "nat_str n \<noteq> CHR ''-'' # s"
  using nat_str_digits [of "CHR ''-''" n] by auto

lemma FormatInt_inject [simp]: "FormatInt i = FormatInt j \<longleftrightarrow> i = j"
  using nat_str_no_minus [of "nat i"] nat_str_no_minus [of "nat j"] nat_str_no_minus [of "nat j", symmetric]
  by (auto simp: FormatInt_def)

lemma FormatInt_no_colon [simp]: "CHR '':'' \<notin> set (FormatInt i)"
  using nat_str_digits [of "CHR '':''"] by (auto simp: FormatInt_def)

section \<open>SQL tables\<close>

record 'r table =
  seq :: int
  rows :: "(int \<times> 'r) list"

definition empty_table :: "'r table" where
  "empty_table = \<lparr>seq = 0, rows = []\<rparr>"

text \<open>\<open>INSERT\<close>; the new row's key, what \<open>LastInsertId\<close> returns, is \<open>seq\<close> of the result.\<close>

definition tbl_insert :: "'r \<Rightarrow> 'r table \<Rightarrow> 'r table" where
  "tbl_insert r t = t\<lparr>seq := seq t + 1, rows := rows t @ [(seq t + 1, r)]\<rparr>"

definition tbl_select :: "(int \<Rightarrow> 'r \<Rightarrow> bool) \<Rightarrow> 'r table \<Rightarrow> (int \<times> 'r) list" where
  "tbl_select P t = filter (\<lambda>(i, r). P i r) (rows t)"

text \<open>\<open>QueryRow\<close>: the first row of the answer, \<^const>\<open>None\<close> for \<open>sql.ErrNoRows\<close>.\<close>

definition tbl_find :: "(int \<Rightarrow> 'r \<Rightarrow> bool) \<Rightarrow> 'r table \<Rightarrow> (int \<times> 'r) option" where
  "tbl_find P t = List.find (\<lambda>(i, r). P i r) (rows t)"

definition tbl_update :: "(int \<Rightarrow> 'r \<Rightarrow> bool) \<Rightarrow> ('r \<Rightarrow> 'r) \<Rightarrow> 'r table \<Rightarrow> 'r table" where
  "tbl_update P f t = t\<lparr>rows := map (\<lambda>(i, r). (i, if P i r then f r else r)) (rows t)\<rparr>"

definition tbl_delete :: "(int \<Rightarrow> 'r \<Rightarrow> bool) \<Rightarrow> 'r table \<Rightarrow> 'r table" where
  "tbl_delete P t = t\<lparr>rows := filter (\<lambda>(i, r). \<not> P i r) (rows t)\<rparr>"

definition tbl_exists :: "(int \<Rightarrow> 'r \<Rightarrow> bool) \<Rightarrow> 'r table \<Rightarrow> bool" where
  "tbl_exists P t \<longleftrightarrow> list_ex (\<lambda>(i, r). P i r) (rows t)"

text \<open>\<open>RowsAffected\<close> of an \<open>UPDATE\<close> or \<open>DELETE\<close> with the condition \<open>P\<close>.\<close>

definition tbl_count :: "(int \<Rightarrow> 'r \<Rightarrow> bool) \<Rightarrow> 'r table \<Rightarrow> nat" where
  "tbl_count P t = length (tbl_select P t)"

definition tbl_by_id :: "int \<Rightarrow> 'r table \<Rightarrow> 'r option" where
  "tbl_by_id i t = map_of (rows t) i"

definition tbl_wf :: "'r table \<Rightarrow> bool" where
  "tbl_wf t \<longleftrightarrow> sorted_wrt (<) (map fst (rows t)) \<and> (\<forall>i \<in> set (map fst (rows t)). 0 < i \<and> i \<le> seq t)
     \<and> 0 \<le> seq t"

text \<open>A \<open>UNIQUE\<close> constraint: no two rows share the key the constraint names.\<close>

definition unique_on :: "('r \<Rightarrow> 'k) \<Rightarrow> 'r table \<Rightarrow> bool" where
  "unique_on key t \<longleftrightarrow> distinct (map (\<lambda>(i, r). key r) (rows t))"

lemma rows_empty [simp, sql_simps]: "rows empty_table = []" "seq empty_table = 0"
  by (simp_all add: empty_table_def)

lemma rows_insert [simp, sql_simps]:
  "rows (tbl_insert r t) = rows t @ [(seq t + 1, r)]" "seq (tbl_insert r t) = seq t + 1"
  by (simp_all add: tbl_insert_def)

lemma seq_update [simp]: "seq (tbl_update P f t) = seq t"
  by (simp add: tbl_update_def)

lemma seq_delete [simp]: "seq (tbl_delete P t) = seq t"
  by (simp add: tbl_delete_def)

lemma set_rows_delete [simp, sql_simps]:
  "(i, r) \<in> set (rows (tbl_delete P t)) \<longleftrightarrow> (i, r) \<in> set (rows t) \<and> \<not> P i r"
  by (simp add: tbl_delete_def)

lemma set_rows_update [sql_simps]:
  "(i, r) \<in> set (rows (tbl_update P f t)) \<longleftrightarrow>
     (\<exists>r0. (i, r0) \<in> set (rows t) \<and> r = (if P i r0 then f r0 else r0))"
  by (force simp: tbl_update_def)

lemma set_select [simp, sql_simps]:
  "(i, r) \<in> set (tbl_select P t) \<longleftrightarrow> (i, r) \<in> set (rows t) \<and> P i r"
  by (simp add: tbl_select_def)

lemma tbl_find_Some [sql_simps]:
  "tbl_find P t = Some (i, r) \<Longrightarrow> (i, r) \<in> set (rows t) \<and> P i r"
  by (auto simp: tbl_find_def find_Some_iff) (metis nth_mem)

lemma tbl_find_None [sql_simps]:
  "tbl_find P t = None \<longleftrightarrow> (\<forall>(i, r) \<in> set (rows t). \<not> P i r)"
  by (auto simp: tbl_find_def find_None_iff)

lemma tbl_exists_iff [sql_simps]:
  "tbl_exists P t \<longleftrightarrow> (\<exists>(i, r) \<in> set (rows t). P i r)"
  by (simp add: tbl_exists_def list_ex_iff)

lemma tbl_find_exists: "tbl_find P t \<noteq> None \<longleftrightarrow> tbl_exists P t"
  by (auto simp: tbl_find_None tbl_exists_iff)

lemma tbl_count_0 [sql_simps]: "tbl_count P t = 0 \<longleftrightarrow> \<not> tbl_exists P t"
  by (auto simp: tbl_count_def tbl_select_def tbl_exists_iff filter_empty_conv)

lemma tbl_wf_empty [simp, sql_wf]: "tbl_wf empty_table"
  by (simp add: tbl_wf_def)

lemma tbl_wf_insert [sql_wf]: "tbl_wf t \<Longrightarrow> tbl_wf (tbl_insert r t)"
  by (fastforce simp: tbl_wf_def sorted_wrt_append)

lemma map_fst_update [simp]: "map fst (rows (tbl_update P f t)) = map fst (rows t)"
  by (simp add: tbl_update_def comp_def case_prod_unfold)

lemma tbl_wf_update [sql_wf]: "tbl_wf t \<Longrightarrow> tbl_wf (tbl_update P f t)"
  by (simp add: tbl_wf_def)

lemma sorted_wrt_map_filter:
  "sorted_wrt R (map f xs) \<Longrightarrow> sorted_wrt R (map f (filter P xs))"
  by (induction xs) auto

lemma tbl_wf_delete [sql_wf]: "tbl_wf t \<Longrightarrow> tbl_wf (tbl_delete P t)"
  by (auto simp: tbl_wf_def tbl_delete_def intro: sorted_wrt_map_filter)

lemma tbl_wf_distinct: "tbl_wf t \<Longrightarrow> distinct (map fst (rows t))"
  by (simp add: tbl_wf_def strict_sorted_iff)

lemma tbl_wf_id_unique:
  "tbl_wf t \<Longrightarrow> (i, r) \<in> set (rows t) \<Longrightarrow> (i, r') \<in> set (rows t) \<Longrightarrow> r = r'"
  using tbl_wf_distinct eq_key_imp_eq_value by fast

lemma tbl_wf_bound: "tbl_wf t \<Longrightarrow> (i, r) \<in> set (rows t) \<Longrightarrow> 0 < i \<and> i \<le> seq t"
  by (force simp: tbl_wf_def)

lemma tbl_by_id_iff: "tbl_wf t \<Longrightarrow> tbl_by_id i t = Some r \<longleftrightarrow> (i, r) \<in> set (rows t)"
  by (simp add: tbl_by_id_def tbl_wf_distinct)

lemma tbl_by_id_inserted: "tbl_wf t \<Longrightarrow> tbl_by_id (seq t + 1) (tbl_insert r t) = Some r"
  by (simp add: tbl_by_id_iff tbl_wf_insert)

lemma tbl_by_id_insert_other: "i \<noteq> seq t + 1 \<Longrightarrow> tbl_by_id i (tbl_insert r t) = tbl_by_id i t"
  by (simp add: tbl_by_id_def map_add_def split: option.splits)

lemma tbl_find_by_id:
  assumes "tbl_wf t" and "(i, r) \<in> set (rows t)" and "P i r"
    and "\<And>j s. (j, s) \<in> set (rows t) \<Longrightarrow> P j s \<Longrightarrow> j = i"
  shows "tbl_find P t = Some (i, r)"
proof -
  have "tbl_find P t \<noteq> None"
    using assms(2,3) by (auto simp: tbl_find_None)
  then obtain j s where js: "tbl_find P t = Some (j, s)" by auto
  then have "(j, s) \<in> set (rows t)" and "P j s" by (auto dest: tbl_find_Some)
  with assms have "j = i" and "s = r" by (auto dest: tbl_wf_id_unique)
  with js show ?thesis by simp
qed

text \<open>The rows of a table without their keys.\<close>

definition vals :: "'r table \<Rightarrow> 'r set" where
  "vals t = {r. \<exists>i. (i, r) \<in> set (rows t)}"

lemma valsI [intro]: "(i, r) \<in> set (rows t) \<Longrightarrow> r \<in> vals t"
  by (auto simp: vals_def)

lemma valsE [elim]: "r \<in> vals t \<Longrightarrow> (\<And>i. (i, r) \<in> set (rows t) \<Longrightarrow> P) \<Longrightarrow> P"
  by (auto simp: vals_def)

lemma vals_insert [simp]: "vals (tbl_insert r t) = insert r (vals t)"
  by (auto simp: vals_def)

lemma vals_empty [simp]: "vals empty_table = {}"
  by (auto simp: vals_def)

lemma tbl_exists_vals: "tbl_exists (\<lambda>_ r. P r) t \<longleftrightarrow> (\<exists>r \<in> vals t. P r)"
  by (auto simp: tbl_exists_iff vals_def)

lemma unique_on_empty [simp]: "unique_on key empty_table"
  by (simp add: unique_on_def)

lemma unique_on_insert:
  "unique_on key t \<Longrightarrow> \<not> tbl_exists (\<lambda>_ r'. key r' = key r) t \<Longrightarrow> unique_on key (tbl_insert r t)"
  by (force simp: unique_on_def tbl_exists_iff)

lemma distinct_map_filter_strong: "distinct (map f xs) \<Longrightarrow> distinct (map f (filter P xs))"
  by (induction xs) auto

lemma unique_on_delete: "unique_on key t \<Longrightarrow> unique_on key (tbl_delete P t)"
  by (simp add: unique_on_def tbl_delete_def distinct_map_filter_strong)

lemma unique_on_update:
  assumes "unique_on key t" and "\<And>i r. (i, r) \<in> set (rows t) \<Longrightarrow> key (f r) = key r"
  shows "unique_on key (tbl_update P f t)"
proof -
  have "map (\<lambda>(i, r). key r) (rows (tbl_update P f t)) = map (\<lambda>(i, r). key r) (rows t)"
    using assms(2) by (auto simp: tbl_update_def)
  with assms(1) show ?thesis by (simp add: unique_on_def)
qed

lemma unique_onD:
  assumes "unique_on key t" and "(i, r) \<in> set (rows t)" and "(j, s) \<in> set (rows t)"
    and "key r = key s"
  shows "i = j \<and> r = s"
  using assms unfolding unique_on_def distinct_map inj_on_def by fastforce

section \<open>Queries after changes\<close>

lemma select_insert [sql_simps]:
  "tbl_select P (tbl_insert r t) = tbl_select P t @ (if P (seq t + 1) r then [(seq t + 1, r)] else [])"
  by (simp add: tbl_select_def)

lemma select_delete_own [sql_simps]:
  "tbl_select (\<lambda>_ r. own r = w) (tbl_delete (\<lambda>j r. j = i \<and> own r = w) t) =
     filter (\<lambda>x. fst x \<noteq> i) (tbl_select (\<lambda>_ r. own r = w) t)"
  by (auto simp: tbl_select_def tbl_delete_def intro!: filter_cong)

lemma select_delete_foreign [sql_simps]:
  "v \<noteq> w \<Longrightarrow> tbl_select (\<lambda>_ r. own r = v) (tbl_delete (\<lambda>j r. j = i \<and> own r = w) t) =
     tbl_select (\<lambda>_ r. own r = v) t"
  by (auto simp: tbl_select_def tbl_delete_def intro!: filter_cong)

lemma fresh_row [sql_simps]: "tbl_wf t \<Longrightarrow> (seq t + 1, r) \<notin> set (rows t)"
  by (auto dest: tbl_wf_bound)

lemma fresh_id: "tbl_wf t \<Longrightarrow> seq t + 1 \<notin> fst ` set (tbl_select P t)"
  by (auto dest: tbl_wf_bound)

lemma tbl_exists_insert [sql_simps]: "tbl_exists P (tbl_insert r t) \<longleftrightarrow> tbl_exists P t \<or> P (seq t + 1) r"
  by (auto simp: tbl_exists_def)

lemma tbl_exists_delete [sql_simps]:
  "tbl_exists P (tbl_delete Q t) \<longleftrightarrow> tbl_exists (\<lambda>i r. P i r \<and> \<not> Q i r) t"
  by (auto simp: tbl_exists_def tbl_delete_def list_ex_iff)

lemma tbl_count_pos [sql_simps]: "0 < tbl_count P t \<longleftrightarrow> tbl_exists P t"
  using tbl_count_0 [of P t] by auto

lemma select_delete_other:
  "(\<And>i r. P i r \<Longrightarrow> \<not> Q i r) \<Longrightarrow> tbl_select P (tbl_delete Q t) = tbl_select P t"
  unfolding tbl_select_def tbl_delete_def by (auto intro!: filter_cong)

lemma select_update_other:
  "(\<And>i r. Q i r \<Longrightarrow> \<not> P i r \<and> \<not> P i (f r)) \<Longrightarrow> tbl_select P (tbl_update Q f t) = tbl_select P t"
proof -
  assume other: "\<And>i r. Q i r \<Longrightarrow> \<not> P i r \<and> \<not> P i (f r)"
  have "filter (\<lambda>(i, r). P i r) (map (\<lambda>(i, r). (i, if Q i r then f r else r)) xs) = filter (\<lambda>(i, r). P i r) xs" for xs
    using other by (induction xs) (auto split: if_splits)
  then show ?thesis by (simp add: tbl_select_def tbl_update_def)
qed

lemma tbl_delete_none: "\<not> tbl_exists P t \<Longrightarrow> tbl_delete P t = t"
  by (cases t) (auto simp: tbl_exists_def tbl_delete_def list_ex_iff filter_id_conv)

lemma tbl_update_none: "\<not> tbl_exists P t \<Longrightarrow> tbl_update P f t = t"
  by (cases t) (auto simp: tbl_exists_def tbl_update_def list_ex_iff intro!: map_idI)

text \<open>A query without \<open>ORDER BY\<close> or with \<open>ORDER BY id\<close> finds the row with the least key.\<close>

lemma tbl_find_least:
  assumes wf: "tbl_wf t" and f: "tbl_find P t = Some (i, r)" and k: "(k, x) \<in> set (rows t)" "P k x"
  shows "i \<le> k"
proof -
  obtain n where n: "n < length (rows t)" "rows t ! n = (i, r)" "\<forall>m < n. \<not> P (fst (rows t ! m)) (snd (rows t ! m))"
    using f by (auto simp: tbl_find_def find_Some_iff split_beta)
  obtain m where m: "m < length (rows t)" "rows t ! m = (k, x)" using k(1) by (auto simp: in_set_conv_nth)
  have "n \<le> m" using n(3) m k(2) by (metis fst_conv snd_conv not_le)
  moreover have "sorted_wrt (<) (map fst (rows t))" using wf by (simp add: tbl_wf_def)
  ultimately show ?thesis
    using n m sorted_wrt_nth_less [of "(<)" "map fst (rows t)" n m] by (cases "n = m") auto
qed

text \<open>An update that leaves the condition of a query alone does not change which row it finds.\<close>

lemma find_update:
  assumes "tbl_find (\<lambda>_. P) t = Some (i, r)" and "\<And>x. P (f x) \<longleftrightarrow> P x"
  shows "tbl_find (\<lambda>_. P) (tbl_update Q f t) = Some (i, if Q i r then f r else r)"
proof -
  have "List.find (\<lambda>(i, r). P r) xs = Some (i, r) \<Longrightarrow>
      List.find (\<lambda>(i, r). P r) (map (\<lambda>(i, r). (i, if Q i r then f r else r)) xs) = Some (i, if Q i r then f r else r)" for xs
  proof (induction xs)
    case (Cons x xs)
    then show ?case using assms(2) by (cases x; cases "P (snd x)") (simp_all split: if_splits)
  qed simp
  with assms(1) show ?thesis by (simp add: tbl_find_def tbl_update_def)
qed

text \<open>Reading back the row just inserted.\<close>

lemma find_inserted:
  assumes wf: "tbl_wf t" and r: "P (seq t + 1) r" and key: "\<And>i x. P i x \<Longrightarrow> i = seq t + 1"
  shows "tbl_find P (tbl_insert r t) = Some (seq t + 1, r)"
proof -
  have old: "\<not> P i x" if "(i, x) \<in> set (rows t)" for i x
    using key [of i x] tbl_wf_bound [OF wf that] by auto
  have "List.find (\<lambda>(i, x). P i x) (xs @ [(seq t + 1, r)]) = Some (seq t + 1, r)"
    if "\<forall>(i, x) \<in> set xs. \<not> P i x" for xs
    using that r by (induction xs) auto
  from this [of "rows t"] old show ?thesis by (auto simp: tbl_find_def)
qed

lemma tbl_by_id_find: "tbl_wf t \<Longrightarrow> (i, r) \<in> set (rows t) \<Longrightarrow> tbl_find (\<lambda>j _. j = i) t = Some (i, r)"
  by (rule tbl_find_by_id [where P = "\<lambda>j _. j = i"]) auto

lemma find_first_new:
  "\<not> tbl_exists (\<lambda>_. P) t \<Longrightarrow> P r \<Longrightarrow> tbl_find (\<lambda>_. P) (tbl_insert r t) = Some (seq t + 1, r)"
proof -
  assume "\<not> tbl_exists (\<lambda>_. P) t" and r: "P r"
  then have "\<forall>(i, x) \<in> set (rows t). \<not> P x" by (auto simp: tbl_exists_def list_ex_iff)
  moreover have "List.find (\<lambda>(i, x). P x) (xs @ [(seq t + 1, r)]) = Some (seq t + 1, r)"
    if "\<forall>(i, x) \<in> set xs. \<not> P x" for xs
    using that r by (induction xs) auto
  ultimately show ?thesis by (simp add: tbl_find_def)
qed

lemma find_delete:
  assumes "tbl_find (\<lambda>_. P) t = Some (i, r)" and "\<not> Q i r"
  shows "tbl_find (\<lambda>_. P) (tbl_delete Q t) = Some (i, r)"
proof -
  have "List.find (\<lambda>(i, x). P x) (filter (\<lambda>(i, x). \<not> Q i x) xs) = Some (i, r)"
    if "List.find (\<lambda>(i, x). P x) xs = Some (i, r)" for xs
    using that assms(2) by (induction xs) (auto split: if_splits)
  with assms(1) show ?thesis by (simp add: tbl_find_def tbl_delete_def)
qed

text \<open>Deleting one row by its key.\<close>

lemma filter_key:
  assumes "distinct (map fst xs)" and "(i, r) \<in> set xs"
  shows "P i r \<Longrightarrow> length (filter (\<lambda>(j, x). P j x) xs) = Suc (length (filter (\<lambda>(j, x). P j x) (filter (\<lambda>(j, _). j \<noteq> i) xs)))"
    and "\<not> P i r \<Longrightarrow> filter (\<lambda>(j, x). P j x) (filter (\<lambda>(j, _). j \<noteq> i) xs) = filter (\<lambda>(j, x). P j x) xs"
proof -
  obtain as bs where xs: "xs = as @ (i, r) # bs" using assms(2) by (meson split_list)
  then have as: "filter (\<lambda>(j, _). j \<noteq> i) as = as" and bs: "filter (\<lambda>(j, _). j \<noteq> i) bs = bs"
    using assms(1) by (force simp: filter_id_conv)+
  show "P i r \<Longrightarrow> length (filter (\<lambda>(j, x). P j x) xs) = Suc (length (filter (\<lambda>(j, x). P j x) (filter (\<lambda>(j, _). j \<noteq> i) xs)))"
    and "\<not> P i r \<Longrightarrow> filter (\<lambda>(j, x). P j x) (filter (\<lambda>(j, _). j \<noteq> i) xs) = filter (\<lambda>(j, x). P j x) xs"
    using as bs by (simp_all add: xs)
qed

lemma tbl_count_delete_id:
  "tbl_wf t \<Longrightarrow> (i, r) \<in> set (rows t) \<Longrightarrow> P i r \<Longrightarrow> tbl_count P t = Suc (tbl_count P (tbl_delete (\<lambda>j _. j = i) t))"
  using filter_key(1) [of "rows t" i r P] by (simp add: tbl_wf_def tbl_count_def tbl_select_def tbl_delete_def strict_sorted_iff)

lemma select_delete_id:
  "tbl_wf t \<Longrightarrow> (i, r) \<in> set (rows t) \<Longrightarrow> \<not> P i r \<Longrightarrow> tbl_select P (tbl_delete (\<lambda>j _. j = i) t) = tbl_select P t"
  using filter_key(2) [of "rows t" i r P] by (simp add: tbl_wf_def tbl_select_def tbl_delete_def strict_sorted_iff)

end
