(* ===== verification/Glob.thy ===== *)
theory Glob
  imports Prelude
begin

text \<open>
  The glob matchers of the repository. Three packages carry one each: \<open>rbac.MatchPattern\<close>
  (branch and tag patterns), \<open>codeowners.globMatch\<close> (the same text as the first) and
  \<open>pathperm.globMatch\<close> (path rules). All are loops over two indices with one remembered
  backtracking point, so they are modelled as \<^theory_text>\<open>partial_function\<close>s whose value
  \<^const>\<open>None\<close> would mean that the loop never ends.

  \<open>glob\<close> is the abstract meaning of a pattern, by recursion on the pattern. The theory shows
  that every loop ends and computes \<open>glob\<close>: the path matcher always, the other two on names
  without the byte \<open>*\<close>, because they test for a literal match before they test for a star.
  The locale \<open>glob_matcher\<close> states that contract and derives what the clients rely on.
\<close>

section \<open>The meaning of a pattern\<close>

fun glob :: "string \<Rightarrow> string \<Rightarrow> bool" where
  "glob [] s \<longleftrightarrow> s = []"
| "glob (c # p) [] \<longleftrightarrow> c = CHR ''*'' \<and> glob p []"
| "glob (c # p) (x # s) \<longleftrightarrow>
     (if c = CHR ''*'' then glob p (x # s) \<or> glob (c # p) s
      else (c = CHR ''?'' \<or> c = x) \<and> glob p s)"

lemma glob_star_iff:
  "glob (CHR ''*'' # p) s \<longleftrightarrow> (\<exists>k \<le> length s. glob p (drop k s))"
proof (induction s)
  case Nil
  then show ?case by simp
next
  case (Cons x s)
  have "(\<exists>k \<le> length (x # s). glob p (drop k (x # s))) \<longleftrightarrow>
          glob p (x # s) \<or> (\<exists>k \<le> length s. glob p (drop k s))"
    by (metis Suc_le_mono drop0 drop_Suc_Cons length_Cons le0 not0_implies_Suc)
  with Cons.IH show ?case by simp
qed

lemma glob_literal:
  "\<forall>c \<in> set p. c \<noteq> CHR ''*'' \<and> c \<noteq> CHR ''?'' \<Longrightarrow> glob p s \<longleftrightarrow> p = s"
  by (induction p s rule: glob.induct) auto

text \<open>A part of a pattern without stars consumes exactly as many bytes as it has.\<close>

lemma glob_starless_append:
  "CHR ''*'' \<notin> set p \<Longrightarrow> glob (p @ q) s \<Longrightarrow> length p \<le> length s \<and> glob q (drop (length p) s)"
proof (induction p arbitrary: s)
  case Nil
  then show ?case by simp
next
  case (Cons c p)
  then obtain x s' where "s = x # s'" by (cases s) auto
  with Cons show ?case by (auto split: if_splits)
qed

lemma glob_append_intro: "glob p s \<Longrightarrow> glob q t \<Longrightarrow> glob (p @ q) (s @ t)"
proof (induction p s rule: glob.induct)
  case (2 c p)
  then have "glob (p @ q) t" by simp
  then show ?case using 2 by (auto simp: glob_star_iff intro!: exI [of _ 0])
next
  case (3 c p x s)
  then show ?case by (auto split: if_splits)
qed simp

section \<open>The matching loops\<close>

text \<open>\<open>for px < len(pattern) && pattern[px] == '*' { px++ }\<close>\<close>

function skip_stars :: "string \<Rightarrow> nat \<Rightarrow> nat" where
  "skip_stars pattern px =
     (if px < length pattern \<and> pattern ! px = CHR ''*'' then skip_stars pattern (px + 1) else px)"
  by pat_completeness auto
termination
  by (relation "measure (\<lambda>(p, i). length p - i)") auto

declare skip_stars.simps [simp del]

text \<open>
  The loop of \<open>rbac.MatchPattern\<close> and \<open>codeowners.globMatch\<close>. The pair \<open>next\<close> is
  \<open>(nextPx, nextSx)\<close>; \<^const>\<open>None\<close> is \<open>nextPx == -1\<close>.
\<close>

partial_function (option) match_loop ::
  "string \<Rightarrow> string \<Rightarrow> nat \<Rightarrow> nat \<Rightarrow> (nat \<times> nat) option \<Rightarrow> bool option" where
  "match_loop pattern name px sx next =
     (if sx < length name then
        if px < length pattern \<and> (pattern ! px = CHR ''?'' \<or> pattern ! px = name ! sx)
        then match_loop pattern name (px + 1) (sx + 1) next
        else if px < length pattern \<and> pattern ! px = CHR ''*''
        then match_loop pattern name (px + 1) sx (Some (px, sx + 1))
        else (case next of
                Some (nextPx, nextSx) \<Rightarrow>
                  match_loop pattern name (nextPx + 1) nextSx (Some (nextPx, nextSx + 1))
              | None \<Rightarrow> Some False)
      else Some (skip_stars pattern px = length pattern))"

definition MatchPattern :: "string \<Rightarrow> string \<Rightarrow> bool" where
  "MatchPattern pattern name \<longleftrightarrow> match_loop pattern name 0 0 None = Some True"

definition codeowners_globMatch :: "string \<Rightarrow> string \<Rightarrow> bool" where
  "codeowners_globMatch pattern s \<longleftrightarrow> match_loop pattern s 0 0 None = Some True"

text \<open>
  The loop of \<open>pathperm.globMatch\<close>, with \<open>next = (nextPx, nextNx)\<close>: the star is tested
  first and the counter \<open>nextNx\<close> is advanced when it is used.
\<close>

partial_function (option) path_loop ::
  "string \<Rightarrow> string \<Rightarrow> nat \<Rightarrow> nat \<Rightarrow> (nat \<times> nat) option \<Rightarrow> bool option" where
  "path_loop pattern name px nx next =
     (if nx < length name then
        if px < length pattern \<and> pattern ! px = CHR ''*''
        then path_loop pattern name (px + 1) nx (Some (px, nx))
        else if px < length pattern \<and> pattern ! px = CHR ''?''
        then path_loop pattern name (px + 1) (nx + 1) next
        else if px < length pattern \<and> pattern ! px = name ! nx
        then path_loop pattern name (px + 1) (nx + 1) next
        else (case next of
                Some (nextPx, nextNx) \<Rightarrow>
                  path_loop pattern name (nextPx + 1) (nextNx + 1) (Some (nextPx, nextNx + 1))
              | None \<Rightarrow> Some False)
      else Some (skip_stars pattern px = length pattern))"

definition pathperm_globMatch :: "string \<Rightarrow> string \<Rightarrow> bool" where
  "pathperm_globMatch pattern name \<longleftrightarrow> path_loop pattern name 0 0 None = Some True"

section \<open>What a loop state stands for\<close>

text \<open>
  In a state the rest of the name can match the rest of the pattern, or a later start of the
  segment after the last star can.
\<close>

definition gstate :: "string \<Rightarrow> string \<Rightarrow> nat \<Rightarrow> nat \<Rightarrow> (nat \<times> nat) option \<Rightarrow> bool" where
  "gstate pat name px sx nx \<longleftrightarrow>
     glob (drop px pat) (drop sx name) \<or>
     (case nx of None \<Rightarrow> False
      | Some (np, k0) \<Rightarrow> \<exists>k. k0 \<le> k \<and> k \<le> length name \<and> glob (drop (np + 1) pat) (drop k name))"

definition ginv :: "string \<Rightarrow> string \<Rightarrow> nat \<Rightarrow> nat \<Rightarrow> (nat \<times> nat) option \<Rightarrow> bool" where
  "ginv pat name px sx nx \<longleftrightarrow>
     px \<le> length pat \<and> sx \<le> length name \<and>
     (case nx of None \<Rightarrow> True
      | Some (np, k0) \<Rightarrow> np < px \<and> 0 < k0 \<and> k0 \<le> sx + 1 \<and> px - (np + 1) = sx - (k0 - 1) \<and>
          (\<forall>i. np < i \<and> i < px \<longrightarrow> pat ! i \<noteq> CHR ''*''))"

definition gmeasure :: "string \<Rightarrow> string \<Rightarrow> nat \<Rightarrow> nat \<Rightarrow> (nat \<times> nat) option \<Rightarrow> nat \<times> nat \<times> nat" where
  "gmeasure pat name px sx nx =
     (case nx of None \<Rightarrow> (length pat + 1, 0, length name - sx)
      | Some (np, k0) \<Rightarrow> (length pat - np, Suc (length name) - k0, length name - sx))"

abbreviation glex :: "((nat \<times> nat \<times> nat) \<times> (nat \<times> nat \<times> nat)) set" where
  "glex \<equiv> less_than <*lex*> less_than <*lex*> less_than"

lemma wf_glex: "wf glex"
  by auto

lemma glob_stars: "glob p [] \<longleftrightarrow> (\<forall>c \<in> set p. c = CHR ''*'')"
  by (induction p) auto

lemma skip_stars_end:
  "px \<le> length pat \<Longrightarrow> skip_stars pat px = length pat \<longleftrightarrow> glob (drop px pat) []"
proof (induction pat px rule: skip_stars.induct)
  case (1 pat px)
  show ?case
  proof (cases "px < length pat")
    case True
    then have "drop px pat = pat ! px # drop (px + 1) pat"
      by (simp add: Cons_nth_drop_Suc)
    with True "1.IH" show ?thesis
      by (simp add: skip_stars.simps [of pat px])
  next
    case False
    with "1.prems" have "px = length pat" by simp
    then show ?thesis by (simp add: skip_stars.simps)
  qed
qed

lemma gstate_end: "ginv pat name px sx nx \<Longrightarrow> \<not> sx < length name \<Longrightarrow>
    (skip_stars pat px = length pat) = gstate pat name px sx nx"
proof -
  assume inv: "ginv pat name px sx nx" and "\<not> sx < length name"
  then have sx: "sx = length name" by (simp add: ginv_def)
  have "glob (drop px pat) []"
    if nx: "nx = Some (np, k0)" and k: "k0 \<le> k" "k \<le> length name"
      and g: "glob (drop (np + 1) pat) (drop k name)" for np k0 k
  proof -
    from inv nx have np: "np < px" "px \<le> length pat" "0 < k0" "px - (np + 1) = sx - (k0 - 1)"
      and ns: "\<forall>i. np < i \<and> i < px \<longrightarrow> pat ! i \<noteq> CHR ''*''" by (simp_all add: ginv_def)
    let ?seg = "take (px - (np + 1)) (drop (np + 1) pat)"
    have split: "drop (np + 1) pat = ?seg @ drop px pat"
      using np by (metis append_take_drop_id drop_drop Suc_eq_plus1 Suc_leI le_add_diff_inverse2)
    have "CHR ''*'' \<notin> set ?seg"
      using ns np by (auto simp: in_set_conv_nth)
    with g split have "length ?seg \<le> length (drop k name)"
      by (metis glob_starless_append)
    then have "px - (np + 1) \<le> length name - k" using np by simp
    with k np sx have False by simp
    then show ?thesis ..
  qed
  then show ?thesis
    using inv sx skip_stars_end [of px pat] by (auto simp: gstate_def ginv_def split: option.splits)
qed

text \<open>The three kinds of steps.\<close>

lemma gstate_char:
  assumes "px < length pat" and "sx < length name" and "pat ! px \<noteq> CHR ''*''"
    and "pat ! px = CHR ''?'' \<or> pat ! px = name ! sx"
  shows "gstate pat name px sx nx = gstate pat name (px + 1) (sx + 1) nx"
proof -
  have "drop px pat = pat ! px # drop (px + 1) pat" and "drop sx name = name ! sx # drop (sx + 1) name"
    using assms by (simp_all add: Cons_nth_drop_Suc)
  with assms show ?thesis by (auto simp: gstate_def)
qed

lemma gstate_star:
  assumes inv: "ginv pat name px sx nx" and px: "px < length pat" and star: "pat ! px = CHR ''*''"
  shows "gstate pat name px sx nx = gstate pat name (px + 1) sx (Some (px, sx + 1))"
proof -
  have d: "drop px pat = CHR ''*'' # drop (px + 1) pat"
    using px star by (metis Cons_nth_drop_Suc Suc_eq_plus1)
  have new: "gstate pat name (px + 1) sx (Some (px, sx + 1)) = glob (drop px pat) (drop sx name)"
  proof -
    have "(\<exists>k \<le> length name - sx. glob (drop (px + 1) pat) (drop (k + sx) name)) \<longleftrightarrow>
        glob (drop (px + 1) pat) (drop sx name) \<or>
        (\<exists>k. sx + 1 \<le> k \<and> k \<le> length name \<and> glob (drop (px + 1) pat) (drop k name))"
      (is "?L \<longleftrightarrow> ?R")
    proof
      assume ?L
      then obtain k where k: "k \<le> length name - sx" "glob (drop (px + 1) pat) (drop (k + sx) name)" by blast
      show ?R
      proof (cases k)
        case 0
        with k show ?thesis by simp
      next
        case (Suc j)
        then have "sx + 1 \<le> k + sx" and "k + sx \<le> length name" using k inv by (auto simp: ginv_def)
        with k show ?thesis by blast
      qed
    next
      assume ?R
      then show ?L
      proof
        assume "glob (drop (px + 1) pat) (drop sx name)"
        then show ?L by (intro exI [of _ 0]) simp
      next
        assume "\<exists>k. sx + 1 \<le> k \<and> k \<le> length name \<and> glob (drop (px + 1) pat) (drop k name)"
        then obtain k where "sx + 1 \<le> k" "k \<le> length name" "glob (drop (px + 1) pat) (drop k name)" by blast
        then show ?L by (intro exI [of _ "k - sx"]) simp
      qed
    qed
    then show ?thesis
      unfolding gstate_def d by (simp add: glob_star_iff)
  qed
  have old: "glob (drop px pat) (drop sx name)"
    if nx: "nx = Some (np, k0)" and k: "k0 \<le> k" "k \<le> length name"
      and g: "glob (drop (np + 1) pat) (drop k name)" for np k0 k
  proof -
    from inv nx have np: "np < px" "0 < k0" "k0 \<le> sx + 1" "px - (np + 1) = sx - (k0 - 1)"
      and ns: "\<forall>i. np < i \<and> i < px \<longrightarrow> pat ! i \<noteq> CHR ''*''" by (simp_all add: ginv_def)
    let ?seg = "take (px - (np + 1)) (drop (np + 1) pat)"
    have split: "drop (np + 1) pat = ?seg @ drop px pat"
      using np by (metis append_take_drop_id drop_drop Suc_eq_plus1 Suc_leI le_add_diff_inverse2)
    have "CHR ''*'' \<notin> set ?seg"
      using ns np by (auto simp: in_set_conv_nth)
    with g split have "glob (drop px pat) (drop (length ?seg) (drop k name))"
        and "length ?seg \<le> length (drop k name)"
      by (metis glob_starless_append)+
    moreover have "length ?seg = px - (np + 1)" using px np by simp
    ultimately have g': "glob (drop px pat) (drop (px - (np + 1) + k) name)"
        and le: "px - (np + 1) + k \<le> length name" using k(2) by auto
    let ?m = "px - (np + 1) + k"
    have m: "sx \<le> ?m" using np k by simp
    from g' d obtain j where "j \<le> length name - ?m" "glob (drop (px + 1) pat) (drop (j + ?m) name)"
      by (auto simp: glob_star_iff)
    then have "j + ?m - sx \<le> length (drop sx name)"
        and "glob (drop (px + 1) pat) (drop (j + ?m - sx) (drop sx name))"
      using m le by simp_all
    then show ?thesis unfolding d glob_star_iff by blast
  qed
  show ?thesis
    unfolding new using old by (auto simp: gstate_def split: option.splits)
qed

lemma gstate_back:
  assumes "\<not> (px < length pat \<and> (pat ! px = CHR ''*'' \<or> pat ! px = CHR ''?'' \<or> pat ! px = name ! sx))"
    and sx: "sx < length name" and "nx = Some (np, k0)" and "k0 \<le> sx + 1"
  shows "gstate pat name px sx nx = gstate pat name (np + 1) k0 (Some (np, k0 + 1))"
proof -
  have "\<not> glob (drop px pat) (drop sx name)"
  proof (cases "px < length pat")
    case True
    then have "drop px pat = pat ! px # drop (px + 1) pat" and "drop sx name = name ! sx # drop (sx + 1) name"
      using sx by (simp_all add: Cons_nth_drop_Suc)
    with assms(1) True show ?thesis by simp
  next
    case False
    with sx show ?thesis by simp
  qed
  moreover have "k0 \<le> length name" using assms by simp
  then have "(\<exists>k. k0 \<le> k \<and> k \<le> length name \<and> glob (drop (np + 1) pat) (drop k name)) \<longleftrightarrow>
      glob (drop (np + 1) pat) (drop k0 name) \<or>
      (\<exists>k. k0 + 1 \<le> k \<and> k \<le> length name \<and> glob (drop (np + 1) pat) (drop k name))"
    by (metis Suc_eq_plus1 Suc_leD le_refl not_less_eq_eq le_antisym)
  ultimately show ?thesis using assms(3) by (simp add: gstate_def)
qed

lemma gstate_fail:
  assumes "\<not> (px < length pat \<and> (pat ! px = CHR ''*'' \<or> pat ! px = CHR ''?'' \<or> pat ! px = name ! sx))"
    and sx: "sx < length name"
  shows "\<not> gstate pat name px sx None"
proof (cases "px < length pat")
  case True
  then have "drop px pat = pat ! px # drop (px + 1) pat" and "drop sx name = name ! sx # drop (sx + 1) name"
    using sx by (simp_all add: Cons_nth_drop_Suc)
  with assms(1) True show ?thesis by (simp add: gstate_def)
next
  case False
  with sx show ?thesis by (simp add: gstate_def)
qed

lemma ginv_char:
  "ginv pat name px sx nx \<Longrightarrow> px < length pat \<Longrightarrow> sx < length name \<Longrightarrow> pat ! px \<noteq> CHR ''*'' \<Longrightarrow>
     ginv pat name (px + 1) (sx + 1) nx"
  by (auto simp: ginv_def less_Suc_eq split: option.splits)

lemma ginv_star:
  "ginv pat name px sx nx \<Longrightarrow> px < length pat \<Longrightarrow> ginv pat name (px + 1) sx (Some (px, sx + 1))"
  by (auto simp: ginv_def)

lemma ginv_back:
  "ginv pat name px sx (Some (np, k0)) \<Longrightarrow> sx < length name \<Longrightarrow>
     ginv pat name (np + 1) k0 (Some (np, k0 + 1))"
  by (auto simp: ginv_def)

lemma gmeasure_char:
  "sx < length name \<Longrightarrow> (gmeasure pat name (px + 1) (sx + 1) nx, gmeasure pat name px sx nx) \<in> glex"
  by (auto simp: gmeasure_def split: option.splits)

lemma gmeasure_star:
  "ginv pat name px sx nx \<Longrightarrow> px < length pat \<Longrightarrow>
     (gmeasure pat name (px + 1) sx (Some (px, sx + 1)), gmeasure pat name px sx nx) \<in> glex"
  by (auto simp: gmeasure_def ginv_def split: option.splits)

lemma gmeasure_back:
  "ginv pat name px sx (Some (np, k0)) \<Longrightarrow> sx < length name \<Longrightarrow>
     (gmeasure pat name (np + 1) k0 (Some (np, k0 + 1)), gmeasure pat name px sx (Some (np, k0))) \<in> glex"
  by (auto simp: gmeasure_def ginv_def)

lemma ginv_start: "ginv pat name 0 0 None"
  by (simp add: ginv_def)

lemma gstate_start: "gstate pat name 0 0 None = glob pat name"
  by (simp add: gstate_def)

section \<open>The loops compute the pattern's meaning\<close>

lemma match_loop_correct:
  assumes "CHR ''*'' \<notin> set name"
  shows "ginv pat name px sx nx \<Longrightarrow> match_loop pat name px sx nx = Some (gstate pat name px sx nx)"
proof (induction "gmeasure pat name px sx nx" arbitrary: px sx nx rule: wf_induct_rule [OF wf_glex])
  case (1 px sx nx)
  note IH = "1.hyps" and inv = "1.prems"
  let ?char = "px < length pat \<and> (pat ! px = CHR ''?'' \<or> pat ! px = name ! sx)"
  let ?star = "px < length pat \<and> pat ! px = CHR ''*''"
  have nostar: "sx < length name \<Longrightarrow> name ! sx \<noteq> CHR ''*''"
    using assms by (metis nth_mem)
  consider (stop) "\<not> sx < length name" | (char) "sx < length name" "?char"
    | (star) "sx < length name" "\<not> ?char" "?star"
    | (retry) np k0 where "sx < length name" "\<not> ?char" "\<not> ?star" "nx = Some (np, k0)"
    | (fail) "sx < length name" "\<not> ?char" "\<not> ?star" "nx = None"
    by (cases nx) (blast, metis surj_pair)
  then show ?case
  proof cases
    case stop
    then show ?thesis using gstate_end [OF inv] by (simp add: match_loop.simps [of pat name px sx nx])
  next
    case char
    then have "pat ! px \<noteq> CHR ''*''" using nostar by auto
    moreover from this have "match_loop pat name (px + 1) (sx + 1) nx = Some (gstate pat name (px + 1) (sx + 1) nx)"
      using inv char by (intro IH gmeasure_char ginv_char) auto
    ultimately show ?thesis
      using char by (simp add: match_loop.simps [of pat name px sx nx] gstate_char)
  next
    case star
    have "match_loop pat name (px + 1) sx (Some (px, sx + 1)) =
        Some (gstate pat name (px + 1) sx (Some (px, sx + 1)))"
      using inv star by (intro IH gmeasure_star ginv_star) simp_all
    with inv star show ?thesis
      by (simp add: match_loop.simps [of pat name px sx nx] gstate_star)
  next
    case retry
    have le: "k0 \<le> sx + 1" using inv retry by (simp add: ginv_def)
    have "match_loop pat name (np + 1) k0 (Some (np, k0 + 1)) =
        Some (gstate pat name (np + 1) k0 (Some (np, k0 + 1)))"
      using inv retry by (intro IH) (auto intro!: gmeasure_back ginv_back simp del: One_nat_def)
    with retry le show ?thesis
      using gstate_back [of px pat name sx nx np k0]
      by (auto simp: match_loop.simps [of pat name px sx "Some (np, k0)"])
  next
    case fail
    then show ?thesis
      using gstate_fail [of px pat name sx] by (auto simp: match_loop.simps [of pat name px sx None])
  qed
qed

lemma path_loop_correct:
  "ginv pat name px sx (map_option (map_prod id Suc) nx) \<Longrightarrow>
     path_loop pat name px sx nx = Some (gstate pat name px sx (map_option (map_prod id Suc) nx))"
proof (induction "gmeasure pat name px sx (map_option (map_prod id Suc) nx)" arbitrary: px sx nx
    rule: wf_induct_rule [OF wf_glex])
  case (1 px sx nx)
  note IH = "1.hyps" and inv = "1.prems"
  let ?nx = "map_option (map_prod id Suc) nx"
  let ?star = "px < length pat \<and> pat ! px = CHR ''*''"
  let ?char = "px < length pat \<and> (pat ! px = CHR ''?'' \<or> pat ! px = name ! sx)"
  consider (stop) "\<not> sx < length name" | (star) "sx < length name" "?star"
    | (char) "sx < length name" "\<not> ?star" "?char"
    | (retry) np k0 where "sx < length name" "\<not> ?char" "\<not> ?star" "nx = Some (np, k0)"
    | (fail) "sx < length name" "\<not> ?char" "\<not> ?star" "nx = None"
    by (cases nx) (blast, metis surj_pair)
  then show ?case
  proof cases
    case stop
    then show ?thesis using gstate_end [OF inv] by (simp add: path_loop.simps [of pat name px sx nx])
  next
    case star
    have "path_loop pat name (px + 1) sx (Some (px, sx)) =
        Some (gstate pat name (px + 1) sx (map_option (map_prod id Suc) (Some (px, sx))))"
      using inv star gmeasure_star [OF inv] ginv_star [OF inv] by (intro IH) simp_all
    with inv star show ?thesis
      by (simp add: path_loop.simps [of pat name px sx nx] gstate_star)
  next
    case char
    have "path_loop pat name (px + 1) (sx + 1) nx = Some (gstate pat name (px + 1) (sx + 1) ?nx)"
      using inv char by (intro IH gmeasure_char ginv_char) auto
    with char show ?thesis
      by (auto simp: path_loop.simps [of pat name px sx nx] gstate_char)
  next
    case retry
    have inv': "ginv pat name px sx (Some (np, Suc k0))" using inv retry by simp
    have "path_loop pat name (np + 1) (k0 + 1) (Some (np, k0 + 1)) =
        Some (gstate pat name (np + 1) (k0 + 1) (map_option (map_prod id Suc) (Some (np, k0 + 1))))"
      using retry gmeasure_back [OF inv'] ginv_back [OF inv'] by (intro IH) simp_all
    moreover have "gstate pat name px sx (Some (np, Suc k0)) =
        gstate pat name (np + 1) (Suc k0) (Some (np, Suc k0 + 1))"
      using retry inv' by (intro gstate_back) (auto simp: ginv_def)
    ultimately show ?thesis
      using retry by (auto simp: path_loop.simps [of pat name px sx "Some (np, k0)"])
  next
    case fail
    then show ?thesis
      using gstate_fail [of px pat name sx] by (auto simp: path_loop.simps [of pat name px sx None])
  qed
qed

lemma match_loop_total:
  "CHR ''*'' \<notin> set name \<Longrightarrow> match_loop pat name 0 0 None = Some (glob pat name)"
  using match_loop_correct [OF _ ginv_start] by (simp add: gstate_start)

lemma path_loop_total: "path_loop pat name 0 0 None = Some (glob pat name)"
  using path_loop_correct [of pat name 0 0 None] ginv_start by (simp add: gstate_start)

section \<open>The interface of a matcher\<close>

text \<open>
  What a client of a matcher relies on: on the names \<open>ok\<close> accepts, the matcher decides
  \<^const>\<open>glob\<close>.
\<close>

locale glob_matcher =
  fixes matches :: "string \<Rightarrow> string \<Rightarrow> bool"
    and ok :: "string \<Rightarrow> bool"
  assumes matches_glob: "ok s \<Longrightarrow> matches p s \<longleftrightarrow> glob p s"
begin

lemma star_matches: "ok s \<Longrightarrow> matches ''*'' s"
  by (auto simp: matches_glob glob_star_iff)

lemma literal_matches:
  "ok s \<Longrightarrow> \<forall>c \<in> set p. c \<noteq> CHR ''*'' \<and> c \<noteq> CHR ''?'' \<Longrightarrow> matches p s \<longleftrightarrow> p = s"
  by (simp add: matches_glob glob_literal)

lemma prefix_star_matches:
  assumes "ok s" and "\<forall>c \<in> set p. c \<noteq> CHR ''*'' \<and> c \<noteq> CHR ''?''"
  shows "matches (p @ ''*'') s \<longleftrightarrow> prefix p s"
proof
  assume "matches (p @ ''*'') s"
  then have g: "glob (p @ ''*'') s" using assms(1) by (simp add: matches_glob)
  from assms(2) g show "prefix p s"
  proof (induction p arbitrary: s)
    case (Cons c p)
    then show ?case by (cases s) (auto split: if_splits)
  qed simp
next
  assume "prefix p s"
  then obtain t where "s = p @ t" by (auto simp: prefix_def)
  moreover have "glob (p @ ''*'') (p @ t)"
    using assms(2) by (intro glob_append_intro) (auto simp: glob_literal glob_star_iff)
  ultimately show "matches (p @ ''*'') s" using assms(1) by (simp add: matches_glob)
qed

end

interpretation rbac_glob: glob_matcher MatchPattern "\<lambda>s. CHR ''*'' \<notin> set s"
  by unfold_locales (simp add: MatchPattern_def match_loop_total)

interpretation codeowners_glob: glob_matcher codeowners_globMatch "\<lambda>s. CHR ''*'' \<notin> set s"
  by unfold_locales (simp add: codeowners_globMatch_def match_loop_total)

interpretation pathperm_glob: glob_matcher pathperm_globMatch "\<lambda>_. True"
  by unfold_locales (simp add: pathperm_globMatch_def path_loop_total)

section \<open>The matchers and their meaning\<close>



text \<open>On names with an asterisk the branch matcher differs from the meaning of its pattern: a
  star is taken literally when the name has one at that place, so the pattern that should match
  every name refuses some.\<close>

theorem match_pattern_star_literal:
  "\<exists>name. glob ''*'' name \<and> \<not> MatchPattern ''*'' name \<and> pathperm_globMatch ''*'' name"
proof (intro exI [of _ "''*a''"] conjI)
  have "match_loop ''*'' ''*a'' (Suc 0) (Suc 0) None = Some False"
    by (simp add: match_loop.simps [of "''*''" "''*a''" "Suc 0" "Suc 0"])
  then show "\<not> MatchPattern ''*'' ''*a''"
    by (simp add: MatchPattern_def match_loop.simps [of "''*''" "''*a''" 0 0])
  show "pathperm_globMatch ''*'' ''*a''" by (rule pathperm_glob.star_matches) simp
qed simp

end
