(* ===== verification/RbacModel.thy ===== *)
theory RbacModel
  imports Glob
begin

text \<open>
  \<open>internal/service/rbac/model.go\<close>: permissions \<open>resource:action\<close>, the built-in permissions
  and the ladder of built-in roles, with \<open>ladderPermissions\<close> of \<open>rbac.go\<close>. The lemmas show
  that printing and parsing a permission are inverse, that the ladder grows with the rank of the
  role, and that every role grants built-in permissions only.
\<close>

section \<open>Permissions\<close>

record permission =
  Resource :: string
  Action :: string

definition perm :: "string \<Rightarrow> string \<Rightarrow> permission" where
  "perm r a = \<lparr>Resource = r, Action = a\<rparr>"

definition Permission_String :: "permission \<Rightarrow> string" where
  "Permission_String p = Resource p @ '':'' @ Action p"

datatype parse_error = InvalidPermission string

function ParsePermission_loop :: "string \<Rightarrow> nat \<Rightarrow> parse_error + permission" where
  "ParsePermission_loop s i =
     (if i < length s then
        if s ! i = CHR '':'' then Ok \<lparr>Resource = take i s, Action = drop (i + 1) s\<rparr>
        else ParsePermission_loop s (i + 1)
      else Err (InvalidPermission s))"
  by pat_completeness auto
termination
  by (relation "measure (\<lambda>(s, i). length s - i)") auto

declare ParsePermission_loop.simps [simp del]

definition ParsePermission :: "string \<Rightarrow> parse_error + permission" where
  "ParsePermission s = ParsePermission_loop s 0"

record requirement =
  req_Resource :: string
  req_Action :: string
  req_RepoID :: int
  req_OrgID :: int

section \<open>Built-in permissions and roles\<close>

definition BuiltinPermissions :: "permission list" where
  "BuiltinPermissions =
     [perm ''repo'' ''read'',
      perm ''repo'' ''write'',
      perm ''repo'' ''admin'',
      perm ''repo'' ''maintain'',
      perm ''repo'' ''triage'',
      perm ''contents'' ''read'',
      perm ''contents'' ''write'',
      perm ''issues'' ''read'',
      perm ''issues'' ''write'',
      perm ''issues'' ''triage'',
      perm ''pulls'' ''read'',
      perm ''pulls'' ''write'',
      perm ''pulls'' ''review'',
      perm ''pulls'' ''merge'',
      perm ''actions'' ''read'',
      perm ''actions'' ''write'',
      perm ''actions'' ''run'',
      perm ''packages'' ''read'',
      perm ''packages'' ''write'',
      perm ''packages'' ''delete'',
      perm ''wiki'' ''read'',
      perm ''wiki'' ''write'',
      perm ''settings'' ''read'',
      perm ''settings'' ''write'',
      perm ''settings'' ''delete'',
      perm ''webhooks'' ''read'',
      perm ''webhooks'' ''write'',
      perm ''members'' ''read'',
      perm ''members'' ''invite'',
      perm ''members'' ''remove'',
      perm ''org'' ''read'',
      perm ''org'' ''write'',
      perm ''org'' ''admin'',
      perm ''org'' ''billing'',
      perm ''team'' ''read'',
      perm ''team'' ''write'',
      perm ''team'' ''manage_members'',
      perm ''audit'' ''read'']"

definition readPerms :: "permission list" where
  "readPerms =
     [perm ''repo'' ''read'',
      perm ''contents'' ''read'',
      perm ''issues'' ''read'',
      perm ''pulls'' ''read'',
      perm ''actions'' ''read'',
      perm ''packages'' ''read'',
      perm ''wiki'' ''read'',
      perm ''members'' ''read'',
      perm ''org'' ''read'',
      perm ''team'' ''read'']"

definition triagePerms :: "permission list" where
  "triagePerms = [perm ''issues'' ''triage'',
      perm ''pulls'' ''review'']"

definition writePerms :: "permission list" where
  "writePerms =
     [perm ''repo'' ''write'',
      perm ''contents'' ''write'',
      perm ''issues'' ''write'',
      perm ''pulls'' ''write'',
      perm ''actions'' ''write'',
      perm ''actions'' ''run'',
      perm ''packages'' ''write'',
      perm ''wiki'' ''write'',
      perm ''webhooks'' ''read'',
      perm ''webhooks'' ''write'']"

definition maintainPerms :: "permission list" where
  "maintainPerms =
     [perm ''repo'' ''maintain'',
      perm ''pulls'' ''merge'',
      perm ''settings'' ''read'',
      perm ''members'' ''invite'']"

definition allPerms :: "permission list" where
  "allPerms = BuiltinPermissions"

text \<open>The two loops of \<open>union\<close>: \<open>seen\<close> holds the permissions already in the output.\<close>

fun union_one :: "permission list \<Rightarrow> permission list \<Rightarrow> permission list" where
  "union_one out [] = out"
| "union_one out (p # ps) = union_one (if p \<in> set out then out else out @ [p]) ps"

definition union_perms :: "permission list list \<Rightarrow> permission list" where
  "union_perms sets = foldl union_one [] sets"

record builtin_role =
  br_Name :: string
  br_Permissions :: "permission list"

definition RoleNone :: builtin_role where
  "RoleNone = \<lparr>br_Name = ''none'', br_Permissions = []\<rparr>"

definition RoleRead :: builtin_role where
  "RoleRead = \<lparr>br_Name = ''read'', br_Permissions = readPerms\<rparr>"

definition RoleTriage :: builtin_role where
  "RoleTriage = \<lparr>br_Name = ''triage'', br_Permissions = union_perms [readPerms, triagePerms]\<rparr>"

definition RoleWrite :: builtin_role where
  "RoleWrite = \<lparr>br_Name = ''write'', br_Permissions = union_perms [readPerms, triagePerms, writePerms]\<rparr>"

definition RoleMaintain :: builtin_role where
  "RoleMaintain = \<lparr>br_Name = ''maintain'',
     br_Permissions = union_perms [readPerms, triagePerms, writePerms, maintainPerms]\<rparr>"

definition RoleAdmin :: builtin_role where
  "RoleAdmin = \<lparr>br_Name = ''admin'', br_Permissions = allPerms\<rparr>"

definition BuiltinRoles :: "builtin_role list" where
  "BuiltinRoles = [RoleRead, RoleTriage, RoleWrite, RoleMaintain, RoleAdmin]"

definition RankOf :: "string \<Rightarrow> int" where
  "RankOf name =
     (if name = ''read'' then 0 else if name = ''triage'' then 1 else if name = ''write'' then 2
      else if name = ''maintain'' then 3 else if name = ''admin'' then 4 else -1)"

definition ladderPermissions :: "string \<Rightarrow> permission list" where
  "ladderPermissions p =
     (if p = ''admin'' then allPerms
      else if p = ''maintain'' then union_perms [readPerms, triagePerms, writePerms, maintainPerms]
      else if p = ''write'' then union_perms [readPerms, triagePerms, writePerms]
      else if p = ''triage'' then union_perms [readPerms, triagePerms]
      else if p = ''read'' then readPerms
      else [])"

section \<open>Printing and parsing\<close>

lemma ParsePermission_loop_eq:
  "CHR '':'' \<notin> set (take i s) \<Longrightarrow>
     ParsePermission_loop s i =
       (if CHR '':'' \<in> set s
        then Ok \<lparr>Resource = takeWhile (\<lambda>c. c \<noteq> CHR '':'') s, Action = tl (dropWhile (\<lambda>c. c \<noteq> CHR '':'') s)\<rparr>
        else Err (InvalidPermission s))"
proof (induction s i rule: ParsePermission_loop.induct)
  case (1 s i)
  note IH = "1.IH" and before = "1.prems"
  consider (stop) "\<not> i < length s" | (colon) "i < length s" "s ! i = CHR '':''"
    | (other) "i < length s" "s ! i \<noteq> CHR '':''" by blast
  then show ?case
  proof cases
    case stop
    with before show ?thesis by (simp add: ParsePermission_loop.simps)
  next
    case colon
    then have s: "s = take i s @ CHR '':'' # drop (i + 1) s"
      by (metis Suc_eq_plus1 id_take_nth_drop)
    have all: "\<forall>c \<in> set (take i s). c \<noteq> CHR '':''" using before by auto
    have "takeWhile (\<lambda>c. c \<noteq> CHR '':'') s = take i s"
      by (subst s) (use all in \<open>simp add: takeWhile_append2\<close>)
    moreover have "dropWhile (\<lambda>c. c \<noteq> CHR '':'') s = CHR '':'' # drop (i + 1) s"
      by (subst s) (use all in \<open>simp add: dropWhile_append2\<close>)
    moreover have "CHR '':'' \<in> set s" using colon by (metis nth_mem)
    ultimately show ?thesis using colon by (simp add: ParsePermission_loop.simps [of s i])
  next
    case other
    then have "CHR '':'' \<notin> set (take (i + 1) s)" using before by (simp add: take_Suc_conv_app_nth)
    with other IH show ?thesis by (simp add: ParsePermission_loop.simps [of s i])
  qed
qed

lemma ParsePermission_eq:
  "ParsePermission s =
     (if CHR '':'' \<in> set s
      then Ok \<lparr>Resource = takeWhile (\<lambda>c. c \<noteq> CHR '':'') s, Action = tl (dropWhile (\<lambda>c. c \<noteq> CHR '':'') s)\<rparr>
      else Err (InvalidPermission s))"
  unfolding ParsePermission_def by (rule ParsePermission_loop_eq) simp

lemma Permission_String_inject:
  assumes "CHR '':'' \<notin> set (Resource p)" and "CHR '':'' \<notin> set (Resource q)"
    and "Permission_String p = Permission_String q"
  shows "p = q"
proof -
  have "Resource p = Resource q \<and> Action p = Action q"
    using append_sep_inject [OF assms(1,2)] assms(3) by (simp add: Permission_String_def)
  then show ?thesis by simp
qed

section \<open>The ladder\<close>

lemma set_union_one: "set (union_one out ps) = set out \<union> set ps"
  by (induction out ps rule: union_one.induct) auto

lemma distinct_union_one: "distinct out \<Longrightarrow> distinct (union_one out ps)"
  by (induction out ps rule: union_one.induct) auto

lemma set_foldl_union: "set (foldl union_one out sets) = set out \<union> \<Union> (set ` set sets)"
  by (induction sets arbitrary: out) (auto simp: set_union_one)

lemma set_union_perms [simp]: "set (union_perms sets) = \<Union> (set ` set sets)"
  by (simp add: union_perms_def set_foldl_union)

lemma distinct_foldl_union: "distinct out \<Longrightarrow> distinct (foldl union_one out sets)"
  by (induction sets arbitrary: out) (auto simp: distinct_union_one)

lemma distinct_union_perms: "distinct (union_perms sets)"
  by (simp add: union_perms_def distinct_foldl_union)

lemmas perm_groups = readPerms_def triagePerms_def writePerms_def maintainPerms_def

lemma groups_builtin:
  "set readPerms \<subseteq> set BuiltinPermissions" "set triagePerms \<subseteq> set BuiltinPermissions"
  "set writePerms \<subseteq> set BuiltinPermissions" "set maintainPerms \<subseteq> set BuiltinPermissions"
  by (simp_all add: perm_groups BuiltinPermissions_def)

lemma distinct_BuiltinPermissions: "distinct BuiltinPermissions"
  by (simp add: BuiltinPermissions_def perm_def)

lemma ladder_builtin: "set (ladderPermissions p) \<subseteq> set BuiltinPermissions"
proof (cases "p = ''read''")
  case True
  then show ?thesis using groups_builtin by (simp add: ladderPermissions_def)
next
  case False
  then show ?thesis using groups_builtin by (simp add: ladderPermissions_def allPerms_def)
qed

lemma BuiltinRoles_ladder:
  "r \<in> set BuiltinRoles \<Longrightarrow> br_Permissions r = ladderPermissions (br_Name r) \<and> 0 \<le> RankOf (br_Name r)"
  by (auto simp: BuiltinRoles_def RoleRead_def RoleTriage_def RoleWrite_def RoleMaintain_def
      RoleAdmin_def ladderPermissions_def RankOf_def)

lemma ladder_by_rank:
  "set (ladderPermissions n) =
     (if RankOf n < 0 then {} else if RankOf n = 0 then set readPerms
      else if RankOf n = 1 then set readPerms \<union> set triagePerms
      else if RankOf n = 2 then set readPerms \<union> set triagePerms \<union> set writePerms
      else if RankOf n = 3 then set readPerms \<union> set triagePerms \<union> set writePerms \<union> set maintainPerms
      else set BuiltinPermissions)"
  unfolding ladderPermissions_def RankOf_def allPerms_def
  by (simp add: Un_assoc)

lemma RankOf_range: "RankOf n \<in> {-1, 0, 1, 2, 3, 4}"
  by (simp add: RankOf_def)

end
