(* ===== verification/PermCache.thy ===== *)
theory PermCache
  imports RbacModel "HOL-Library.AList"
begin

text \<open>
  \<open>internal/service/rbac/cache.go\<close>: the bounded cache of permission decisions with a time to
  live. Every method holds the mutex, so each is one atomic operation here. Go iterates over a map
  in no fixed order: where the code ranges over \<open>entries\<close> the order is an argument
  \<open>order\<close>, and the lemmas hold for every order.

  A Go map is an association list with distinct keys; a set of strings is a list of them.
\<close>

section \<open>State and operations\<close>

record cache_entry =
  ce_value :: bool
  ce_expires :: int

record perm_cache =
  pc_max :: int
  pc_ttl :: int
  pc_entries :: "(string \<times> cache_entry) list"
  pc_byUser :: "(int \<times> string list) list"

definition minute :: int where "minute = 60 * 1000000000"

definition newPermCache :: "int \<Rightarrow> int \<Rightarrow> perm_cache" where
  "newPermCache mx ttl =
     \<lparr>pc_max = (if mx \<le> 0 then 10000 else mx), pc_ttl = (if ttl \<le> 0 then 5 * minute else ttl),
      pc_entries = [], pc_byUser = []\<rparr>"

definition del_key :: "string \<Rightarrow> (int \<times> string list) list \<Rightarrow> (int \<times> string list) list" where
  "del_key key bu = filter (\<lambda>(u, ks). ks \<noteq> []) (map (\<lambda>(u, ks). (u, removeAll key ks)) bu)"

definition delLocked :: "string \<Rightarrow> perm_cache \<Rightarrow> perm_cache" where
  "delLocked key c =
     c\<lparr>pc_entries := AList.delete key (pc_entries c), pc_byUser := del_key key (pc_byUser c)\<rparr>"

definition cache_get :: "int \<Rightarrow> string \<Rightarrow> perm_cache \<Rightarrow> bool option \<times> perm_cache" where
  "cache_get now key c =
     (case map_of (pc_entries c) key of
        None \<Rightarrow> (None, c)
      | Some e \<Rightarrow> if ce_expires e < now then (None, delLocked key c) else (Some (ce_value e), c))"

text \<open>The two loops of \<open>evictLocked\<close>.\<close>

fun evict_expired :: "int \<Rightarrow> string list \<Rightarrow> perm_cache \<Rightarrow> perm_cache" where
  "evict_expired now [] c = c"
| "evict_expired now (k # ks) c =
     (case map_of (pc_entries c) k of
        Some e \<Rightarrow> evict_expired now ks (if ce_expires e < now then delLocked k c else c)
      | None \<Rightarrow> evict_expired now ks c)"

fun evict_excess :: "string list \<Rightarrow> perm_cache \<Rightarrow> perm_cache" where
  "evict_excess [] c = c"
| "evict_excess (k # ks) c =
     (if map_of (pc_entries c) k = None then evict_excess ks c
      else if int (length (pc_entries c)) < pc_max c then c
      else evict_excess ks (delLocked k c))"

definition evictLocked :: "string list \<Rightarrow> int \<Rightarrow> perm_cache \<Rightarrow> perm_cache" where
  "evictLocked order now c = evict_excess order (evict_expired now order c)"

definition add_key :: "int \<Rightarrow> string \<Rightarrow> (int \<times> string list) list \<Rightarrow> (int \<times> string list) list" where
  "add_key u key bu =
     AList.update u (List.insert key (case map_of bu u of None \<Rightarrow> [] | Some ks \<Rightarrow> ks)) bu"

definition cache_set ::
  "string list \<Rightarrow> int \<Rightarrow> int \<Rightarrow> string \<Rightarrow> bool \<Rightarrow> perm_cache \<Rightarrow> perm_cache" where
  "cache_set order now userID key value c =
     (let c1 = (if map_of (pc_entries c) key = None \<and> pc_max c \<le> int (length (pc_entries c))
                then evictLocked order now c else c)
      in c1\<lparr>pc_entries := AList.update key \<lparr>ce_value = value, ce_expires = now + pc_ttl c1\<rparr> (pc_entries c1),
            pc_byUser := add_key userID key (pc_byUser c1)\<rparr>)"

definition delete_keys :: "string list \<Rightarrow> (string \<times> cache_entry) list \<Rightarrow> (string \<times> cache_entry) list" where
  "delete_keys ks es = fold AList.delete ks es"

definition invalidateUser :: "int \<Rightarrow> perm_cache \<Rightarrow> perm_cache" where
  "invalidateUser userID c =
     c\<lparr>pc_entries := delete_keys (case map_of (pc_byUser c) userID of None \<Rightarrow> [] | Some ks \<Rightarrow> ks) (pc_entries c),
       pc_byUser := AList.delete userID (pc_byUser c)\<rparr>"

definition invalidateAll :: "perm_cache \<Rightarrow> perm_cache" where
  "invalidateAll c = c\<lparr>pc_entries := [], pc_byUser := []\<rparr>"

section \<open>Lookups and the invariant\<close>

abbreviation entry :: "perm_cache \<Rightarrow> string \<Rightarrow> cache_entry option" where
  "entry c \<equiv> map_of (pc_entries c)"

definition user_keys :: "perm_cache \<Rightarrow> int \<Rightarrow> string set" where
  "user_keys c u = (case map_of (pc_byUser c) u of None \<Rightarrow> {} | Some ks \<Rightarrow> set ks)"

text \<open>
  The cache is well formed for an assignment of keys to users: the keys are distinct, there are
  no more than \<open>max\<close> entries, and every entry is listed under the user it belongs to.
\<close>

definition cache_inv :: "(string \<Rightarrow> int) \<Rightarrow> perm_cache \<Rightarrow> bool" where
  "cache_inv owner c \<longleftrightarrow>
     distinct (map fst (pc_entries c)) \<and> distinct (map fst (pc_byUser c)) \<and> 0 < pc_max c \<and> 0 < pc_ttl c \<and>
     int (length (pc_entries c)) \<le> pc_max c \<and> (\<forall>k. entry c k \<noteq> None \<longrightarrow> k \<in> user_keys c (owner k))"

lemma map_of_filter_ne:
  "distinct (map fst xs) \<Longrightarrow>
     map_of (filter (\<lambda>(u, ks). P ks) xs) u = (case map_of xs u of Some ks \<Rightarrow> if P ks then Some ks else None | None \<Rightarrow> None)"
  by (induction xs) (auto split: option.splits simp: map_of_eq_None_iff image_iff dest: map_of_SomeD)

lemma map_of_map_removeAll:
  "map_of (map (\<lambda>(u, ks). (u, removeAll key ks)) bu) u = map_option (removeAll key) (map_of bu u)"
  by (induction bu) auto

lemma distinct_del_key: "distinct (map fst bu) \<Longrightarrow> distinct (map fst (del_key key bu))"
  unfolding del_key_def by (rule distinct_map_filter_strong) (simp add: comp_def case_prod_unfold)

lemma map_of_del_key:
  "distinct (map fst bu) \<Longrightarrow>
     (case map_of (del_key key bu) u of None \<Rightarrow> {} | Some ks \<Rightarrow> set ks) =
     (case map_of bu u of None \<Rightarrow> {} | Some ks \<Rightarrow> set ks) - {key}"
proof -
  assume d: "distinct (map fst bu)"
  then have "distinct (map fst (map (\<lambda>(u, ks). (u, removeAll key ks)) bu))"
    by (simp add: comp_def case_prod_unfold)
  then have "map_of (del_key key bu) u =
      (case map_option (removeAll key) (map_of bu u) of Some ks \<Rightarrow> if ks \<noteq> [] then Some ks else None | None \<Rightarrow> None)"
    unfolding del_key_def by (simp add: map_of_filter_ne map_of_map_removeAll)
  moreover have "removeAll key ks = [] \<Longrightarrow> set ks - {key} = {}" for ks
    by (metis empty_set set_removeAll)
  ultimately show ?thesis by (cases "map_of bu u") auto
qed

lemma user_keys_delLocked:
  "distinct (map fst (pc_byUser c)) \<Longrightarrow> user_keys (delLocked key c) u = user_keys c u - {key}"
  by (simp add: user_keys_def delLocked_def map_of_del_key)

lemma entry_delLocked [simp]: "entry (delLocked key c) = (entry c)(key := None)"
  by (simp add: delLocked_def AList.delete_conv')

lemma delLocked_fields [simp]:
  "pc_max (delLocked key c) = pc_max c" "pc_ttl (delLocked key c) = pc_ttl c"
  by (simp_all add: delLocked_def)

lemma length_AList_delete: "length (AList.delete k xs) \<le> length xs"
  by (simp add: AList.delete_eq)

lemma length_AList_delete_less:
  "map_of xs k \<noteq> None \<Longrightarrow> length (AList.delete k xs) < length xs"
  by (induction xs) (auto simp: AList.delete_eq le_imp_less_Suc split: if_splits)

lemma length_AList_update:
  "length (AList.update k v xs) = (if map_of xs k = None then Suc (length xs) else length xs)"
  by (induction xs) auto

lemma distinct_AList_update: "distinct (map fst xs) \<Longrightarrow> distinct (map fst (AList.update k v xs))"
  by (rule AList.distinct_update)

lemma distinct_AList_delete: "distinct (map fst xs) \<Longrightarrow> distinct (map fst (AList.delete k xs))"
  by (rule AList.distinct_delete)

lemma delLocked_inv: "cache_inv owner c \<Longrightarrow> cache_inv owner (delLocked key c)"
proof -
  assume inv: "cache_inv owner c"
  have "int (length (pc_entries (delLocked key c))) \<le> pc_max c"
    using inv length_AList_delete [of key "pc_entries c"] by (simp add: cache_inv_def delLocked_def)
  moreover have "distinct (map fst (pc_entries (delLocked key c)))"
    and "distinct (map fst (pc_byUser (delLocked key c)))"
    using inv by (simp_all add: cache_inv_def delLocked_def distinct_AList_delete distinct_del_key)
  ultimately show ?thesis
    using inv by (auto simp: cache_inv_def user_keys_delLocked)
qed

lemma cache_get_inv: "cache_inv owner c \<Longrightarrow> cache_inv owner (snd (cache_get now key c))"
  by (auto simp: cache_get_def delLocked_inv split: option.splits)

lemma evict_expired_inv: "cache_inv owner c \<Longrightarrow> cache_inv owner (evict_expired now ks c)"
  by (induction now ks c rule: evict_expired.induct) (auto simp: delLocked_inv split: option.splits)

lemma evict_excess_inv: "cache_inv owner c \<Longrightarrow> cache_inv owner (evict_excess ks c)"
  by (induction ks c rule: evict_excess.induct) (auto simp: delLocked_inv)

lemma evictLocked_inv: "cache_inv owner c \<Longrightarrow> cache_inv owner (evictLocked order now c)"
  by (simp add: evictLocked_def evict_excess_inv evict_expired_inv)

text \<open>The entries left by an eviction are entries of the cache before it.\<close>

lemma evict_expired_sub: "entry (evict_expired now ks c) \<subseteq>\<^sub>m entry c"
proof (induction now ks c rule: evict_expired.induct)
  case (2 now k ks c)
  then show ?case
    by (auto simp: map_le_def split: option.splits if_splits) (metis fun_upd_apply option.distinct(1) domI)+
qed simp

lemma evict_excess_sub: "entry (evict_excess ks c) \<subseteq>\<^sub>m entry c"
proof (induction ks c rule: evict_excess.induct)
  case (2 k ks c)
  then show ?case
    by (auto simp: map_le_def split: if_splits) (metis fun_upd_apply option.distinct(1) domI)+
qed simp

lemma evictLocked_sub: "entry (evictLocked order now c) \<subseteq>\<^sub>m entry c"
  unfolding evictLocked_def using evict_expired_sub evict_excess_sub map_le_trans by blast

lemma evict_expired_fields [simp]:
  "pc_max (evict_expired now ks c) = pc_max c" "pc_ttl (evict_expired now ks c) = pc_ttl c"
  by (induction now ks c rule: evict_expired.induct) (auto split: option.splits)

lemma evict_excess_fields [simp]:
  "pc_max (evict_excess ks c) = pc_max c" "pc_ttl (evict_excess ks c) = pc_ttl c"
  by (induction ks c rule: evict_excess.induct) auto

text \<open>When the order covers the keys, there is room for one more entry after an eviction.\<close>

lemma evict_excess_room:
  "0 < pc_max c \<Longrightarrow> dom (entry c) \<subseteq> set ks \<Longrightarrow> int (length (pc_entries (evict_excess ks c))) < pc_max c"
proof (induction ks c rule: evict_excess.induct)
  case (1 c)
  then have "pc_entries c = []" using map_of_eq_empty_iff by (metis dom_eq_empty_conv subset_empty list.set(1))
  with 1 show ?case by simp
next
  case (2 k ks c)
  show ?case
  proof (cases "entry c k = None")
    case True
    with "2.prems"(2) have "dom (entry c) \<subseteq> set ks" by (auto simp: dom_def)
    with True 2 show ?thesis by simp
  next
    case False
    have sub: "dom (entry (delLocked k c)) \<subseteq> set ks" using "2.prems"(2) by auto
    show ?thesis
    proof (cases "int (length (pc_entries c)) < pc_max c")
      case True
      with False show ?thesis by auto
    next
      case full: False
      have "int (length (pc_entries (evict_excess ks (delLocked k c)))) < pc_max (delLocked k c)"
        using "2.prems"(1) by (intro "2.IH"(2) [OF False full _ sub]) simp
      with False full show ?thesis by auto
    qed
  qed
qed

lemma evictLocked_room:
  "0 < pc_max c \<Longrightarrow> dom (entry c) \<subseteq> set order \<Longrightarrow>
     int (length (pc_entries (evictLocked order now c))) < pc_max c"
  unfolding evictLocked_def
  using evict_excess_room [of "evict_expired now order c" order] evict_expired_sub [of now order c]
  by (metis evict_expired_fields(1) map_le_implies_dom_le order_trans)

section \<open>Storing and dropping decisions\<close>

lemma user_keys_add:
  "(case map_of (add_key u key bu) v of None \<Rightarrow> {} | Some ks \<Rightarrow> set ks) =
     (case map_of bu v of None \<Rightarrow> {} | Some ks \<Rightarrow> set ks) \<union> (if v = u then {key} else {})"
  by (auto simp: add_key_def AList.update_conv' split: option.splits)

lemma delete_keys_eq: "delete_keys ks es = filter (\<lambda>(k, e). k \<notin> set ks) es"
proof (induction ks arbitrary: es)
  case (Cons k ks)
  have "delete_keys (k # ks) es = delete_keys ks (AList.delete k es)"
    by (simp add: delete_keys_def)
  then show ?case
    unfolding Cons.IH by (auto simp: AList.delete_eq intro!: filter_cong)
qed (simp add: delete_keys_def)

lemma entry_invalidateUser:
  "entry (invalidateUser u c) k = (if k \<in> user_keys c u then None else entry c k)"
proof -
  have "map_of (filter (\<lambda>(k', e). k' \<notin> A) xs) k = (if k \<in> A then None else map_of xs k)"
    for A and xs :: "(string \<times> cache_entry) list"
    by (induction xs) auto
  then show ?thesis
    by (auto simp: invalidateUser_def delete_keys_eq user_keys_def split: option.splits)
qed

lemma entry_invalidateAll [simp]: "entry (invalidateAll c) k = None"
  by (simp add: invalidateAll_def)

lemma user_keys_invalidateUser: "user_keys (invalidateUser u c) v = (if v = u then {} else user_keys c v)"
  by (simp add: user_keys_def invalidateUser_def AList.delete_conv')

lemma entry_cache_set:
  "entry (cache_set order now u key v c) key = Some \<lparr>ce_value = v, ce_expires = now + pc_ttl c\<rparr>"
  "k \<noteq> key \<Longrightarrow> entry (cache_set order now u key v c) k = Some e \<Longrightarrow> entry c k = Some e"
  using evictLocked_sub [of order now c]
  by (auto simp: cache_set_def Let_def AList.update_conv' evictLocked_def map_le_def dom_def split: if_splits)

lemma cache_set_inv:
  assumes inv: "cache_inv owner c" and own: "owner key = u" and cover: "dom (entry c) \<subseteq> set order"
  shows "cache_inv owner (cache_set order now u key v c)"
proof -
  define c1 where "c1 = (if entry c key = None \<and> pc_max c \<le> int (length (pc_entries c))
      then evictLocked order now c else c)"
  have inv1: "cache_inv owner c1"
    using inv by (simp add: c1_def evictLocked_inv)
  have max1: "pc_max c1 = pc_max c"
    by (simp add: c1_def evictLocked_def)
  have pos: "0 < pc_max c" using inv by (simp add: cache_inv_def)
  have room: "int (length (AList.update key x (pc_entries c1))) \<le> pc_max c1" for x
    using evictLocked_room [OF pos cover, of now] inv1 max1
    by (auto simp: c1_def length_AList_update cache_inv_def split: if_splits)
  have "distinct (map fst (add_key u key (pc_byUser c1)))"
    using inv1 by (simp add: cache_inv_def add_key_def distinct_AList_update)
  moreover have "k \<in> user_keys (c1\<lparr>pc_entries := y, pc_byUser := add_key u key (pc_byUser c1)\<rparr>) (owner k)"
    if k: "map_of (AList.update key x (pc_entries c1)) k \<noteq> None" for x y k
  proof (cases "k = key")
    case True
    with own show ?thesis by (simp add: user_keys_def user_keys_add)
  next
    case False
    with k have "entry c1 k \<noteq> None" by (simp add: AList.update_conv' del: not_None_eq)
    then have "k \<in> user_keys c1 (owner k)" using inv1 unfolding cache_inv_def by blast
    then show ?thesis by (simp add: user_keys_def user_keys_add)
  qed
  moreover have "cache_set order now u key v c =
      c1\<lparr>pc_entries := AList.update key \<lparr>ce_value = v, ce_expires = now + pc_ttl c1\<rparr> (pc_entries c1),
         pc_byUser := add_key u key (pc_byUser c1)\<rparr>"
    by (simp add: cache_set_def c1_def Let_def)
  ultimately show ?thesis
    using inv1 room by (simp add: cache_inv_def distinct_AList_update)
qed

lemma invalidateUser_inv:
  assumes "cache_inv owner c"
  shows "cache_inv owner (invalidateUser u c)"
proof -
  have "length (delete_keys ks (pc_entries c)) \<le> length (pc_entries c)" for ks
    by (simp add: delete_keys_eq)
  then have "int (length (pc_entries (invalidateUser u c))) \<le> pc_max c"
    using assms unfolding invalidateUser_def cache_inv_def
    by (auto split: option.splits) (metis of_nat_mono order_trans)+
  moreover have "distinct (map fst (pc_entries (invalidateUser u c)))"
    and "distinct (map fst (pc_byUser (invalidateUser u c)))"
    using assms by (simp_all add: cache_inv_def invalidateUser_def delete_keys_eq
        distinct_map_filter_strong distinct_AList_delete)
  moreover have "k \<in> user_keys (invalidateUser u c) (owner k)" if "entry (invalidateUser u c) k \<noteq> None" for k
    using that assms by (auto simp: entry_invalidateUser user_keys_invalidateUser cache_inv_def split: if_splits)
  ultimately show ?thesis
    using assms by (simp add: cache_inv_def invalidateUser_def)
qed

lemma invalidateAll_inv: "cache_inv owner c \<Longrightarrow> cache_inv owner (invalidateAll c)"
  by (simp add: cache_inv_def invalidateAll_def)

lemma newPermCache_inv: "cache_inv owner (newPermCache m t)"
  by (simp add: cache_inv_def newPermCache_def minute_def)

lemma cache_get_Some: "fst (cache_get now key c) = Some v \<Longrightarrow> \<exists>e. entry c key = Some e \<and> ce_value e = v \<and> now \<le> ce_expires e"
  by (auto simp: cache_get_def split: option.splits if_splits)

lemma entry_cache_get: "entry (snd (cache_get now key c)) k = Some e \<Longrightarrow> entry c k = Some e"
  by (auto simp: cache_get_def split: option.splits if_splits)

section \<open>The interface of a decision cache\<close>

text \<open>
  What the permission service relies on. \<open>stored c k v\<close> says that the cache may answer \<open>v\<close>
  for the key \<open>k\<close>. A look-up returns stored answers only, storing adds one answer, dropping a
  user removes the answers of the keys the user owns, and no operation invents an answer. A cache
  is coherent with a decision procedure \<open>truth\<close> when everything it stores is true; the lemmas
  of the locale carry coherence over the operations.
\<close>

locale decision_cache =
  fixes get :: "'t \<Rightarrow> 'k \<Rightarrow> 'c \<Rightarrow> bool option \<times> 'c"
    and put :: "'o \<Rightarrow> 't \<Rightarrow> int \<Rightarrow> 'k \<Rightarrow> bool \<Rightarrow> 'c \<Rightarrow> 'c"
    and drop_user :: "int \<Rightarrow> 'c \<Rightarrow> 'c"
    and drop_all :: "'c \<Rightarrow> 'c"
    and inv :: "('k \<Rightarrow> int) \<Rightarrow> 'c \<Rightarrow> bool"
    and stored :: "'c \<Rightarrow> 'k \<Rightarrow> bool \<Rightarrow> bool"
  assumes get_stored: "fst (get t k c) = Some v \<Longrightarrow> stored c k v"
    and get_keeps: "stored (snd (get t k c)) k' v \<Longrightarrow> stored c k' v"
    and put_keeps: "stored (put ord t u k v c) k' v' \<Longrightarrow> (k' = k \<and> v' = v) \<or> (k' \<noteq> k \<and> stored c k' v')"
    and drop_user_keeps: "stored (drop_user u c) k v \<Longrightarrow> stored c k v"
    and drop_user_drops: "inv owner c \<Longrightarrow> owner k = u \<Longrightarrow> \<not> stored (drop_user u c) k v"
    and drop_all_drops: "\<not> stored (drop_all c) k v"
begin

definition coherent :: "('k \<Rightarrow> bool \<Rightarrow> bool) \<Rightarrow> 'c \<Rightarrow> bool" where
  "coherent truth c \<longleftrightarrow> (\<forall>k v. stored c k v \<longrightarrow> truth k v)"

lemma coherent_get: "coherent truth c \<Longrightarrow> coherent truth (snd (get t k c))"
  unfolding coherent_def using get_keeps [of t k c] by blast

lemma coherent_answer: "coherent truth c \<Longrightarrow> fst (get t k c) = Some v \<Longrightarrow> truth k v"
  by (simp add: coherent_def get_stored)

lemma coherent_put: "coherent truth c \<Longrightarrow> truth k v \<Longrightarrow> coherent truth (put ord t u k v c)"
  unfolding coherent_def using put_keeps [of ord t u k v c] by blast

lemma coherent_drop_all: "coherent truth (drop_all c)"
  by (simp add: coherent_def drop_all_drops)

text \<open>Dropping a user lets the truth of that user's keys change freely.\<close>

lemma coherent_drop_user:
  assumes "coherent truth c" and "inv owner c"
    and "\<And>k v. owner k \<noteq> u \<Longrightarrow> truth k v \<Longrightarrow> truth' k v"
  shows "coherent truth' (drop_user u c)"
  unfolding coherent_def
  using assms drop_user_drops [OF assms(2)] drop_user_keeps [of u c] unfolding coherent_def by metis

end

definition stored :: "perm_cache \<Rightarrow> string \<Rightarrow> bool \<Rightarrow> bool" where
  "stored c k v \<longleftrightarrow> (\<exists>e. entry c k = Some e \<and> ce_value e = v)"

interpretation perm_dc: decision_cache cache_get cache_set invalidateUser invalidateAll cache_inv stored
proof unfold_locales
  show "fst (cache_get t k c) = Some v \<Longrightarrow> stored c k v" for t k c v
    by (auto dest: cache_get_Some simp: stored_def)
  show "stored (snd (cache_get t k c)) k' v \<Longrightarrow> stored c k' v" for t k c k' v
    by (auto simp: stored_def dest: entry_cache_get)
  show "stored (cache_set ord t u k v c) k' v' \<Longrightarrow> k' = k \<and> v' = v \<or> k' \<noteq> k \<and> stored c k' v'"
    for ord t u k v c k' v'
    using entry_cache_set(1) [of ord t u k v c] entry_cache_set(2) [of k' k ord t u v c]
    by (cases "k' = k") (auto simp: stored_def)
  show "stored (invalidateUser u c) k v \<Longrightarrow> stored c k v" for u c k v
    by (auto simp: stored_def entry_invalidateUser split: if_splits)
  show "cache_inv owner c \<Longrightarrow> owner k = u \<Longrightarrow> \<not> stored (invalidateUser u c) k v" for owner c k u v
    unfolding stored_def entry_invalidateUser cache_inv_def by (metis option.distinct(1))
  show "\<not> stored (invalidateAll c) k v" for c k v
    by (simp add: stored_def)
qed

section \<open>Capacity and invalidation\<close>

text \<open>Storing a decision keeps the cache within its capacity and makes exactly that decision
  readable until its time to live is over; no other stored decision changes. Dropping a user removes
  every decision of that user and no decision of another.\<close>

theorem cache_bounded_and_coherent:
  assumes "cache_inv owner c" and "owner key = u" and "dom (entry c) \<subseteq> set order"
  shows "int (length (pc_entries (cache_set order now u key v c))) \<le> pc_max c \<and>
    (t \<le> now + pc_ttl c \<longrightarrow> fst (cache_get t key (cache_set order now u key v c)) = Some v) \<and>
    (k \<noteq> key \<longrightarrow> entry (cache_set order now u key v c) k = Some e \<longrightarrow> entry c k = Some e) \<and>
    (owner k = u \<longrightarrow> entry (invalidateUser u (cache_set order now u key v c)) k = None)"
proof -
  let ?c = "cache_set order now u key v c"
  have inv: "cache_inv owner ?c" by (rule cache_set_inv [OF assms])
  have mx: "pc_max ?c = pc_max c" by (simp add: cache_set_def Let_def evictLocked_def)
  have "int (length (pc_entries ?c)) \<le> pc_max c" using inv unfolding cache_inv_def mx by blast
  moreover have "entry (invalidateUser u ?c) k = None" if "owner k = u"
    using inv that unfolding entry_invalidateUser cache_inv_def by metis
  moreover have "fst (cache_get t key ?c) = Some v" if "t \<le> now + pc_ttl c"
    using that entry_cache_set(1) [of order now u key v c] by (simp add: cache_get_def)
  ultimately show ?thesis using entry_cache_set(2) [of k key order now u v c e] by blast
qed

theorem cache_bounded_and_coherent_witness:
  "cache_inv (\<lambda>_. 1) (newPermCache 1 60) \<and>
   fst (cache_get 50 ''k'' (cache_set [] 0 1 ''k'' True (newPermCache 1 60))) = Some True \<and>
   length (pc_entries (cache_set [] 0 1 ''k'' True (newPermCache 1 60))) \<le> 1"
proof -
  have inv: "cache_inv (\<lambda>_. 1) (newPermCache 1 60)" by (rule newPermCache_inv)
  have "dom (entry (newPermCache 1 60)) \<subseteq> set []" by (simp add: newPermCache_def)
  from cache_bounded_and_coherent [OF inv refl this, of 0 "''k''" True 50] inv
  show ?thesis by (simp add: newPermCache_def)
qed

end
