(* ===== verification/Rbac.thy ===== *)
theory Rbac
  imports PermCache
begin

text \<open>
  \<open>internal/service/rbac/rbac.go\<close>: the tables of the permission service, seeding, team nesting
  and the evaluation of permissions. The tables and their \<open>UNIQUE\<close> constraints are those of
  \<open>internal/migrations/*/0001_init.sql\<close> and \<open>0002_rbac.sql\<close>.

  The driver may fail any statement: \<open>db_faulty\<close> says of each table whether statements on it
  fail with a driver error (\<open>ErrDriver\<close>); \<open>ErrConstraint\<close> is a violated constraint. The loops
  that follow parent links terminate because the teams visited are recorded: the measure is the
  number of teams not visited yet.
\<close>

section \<open>Tables and errors\<close>

record role_row =
  ro_org :: "int option"
  ro_name :: string
  ro_builtin :: bool
  ro_scope :: string

record team_row =
  tm_org :: int
  tm_name :: string
  tm_description :: string
  tm_permission :: string
  tm_parent :: "int option"
  tm_role :: "int option"

record team_member_row =
  mb_team :: int
  mb_user :: int
  mb_role :: string

record org_member_row =
  om_org :: int
  om_user :: int
  om_role :: "int option"
  om_membership :: string

record team_repo_row =
  tr_team :: int
  tr_repo :: int
  tr_role :: "int option"
  tr_permission :: string

record collab_row =
  co_repo :: int
  co_user :: int
  co_role :: "int option"
  co_permission :: string

record audit_row =
  au_actor :: int
  au_target_type :: string
  au_target :: int
  au_action :: string
  au_new :: string

record branch_rule =
  bp_repo :: int
  bp_pattern :: string
  bp_require_reviews :: bool
  bp_require_signed :: bool
  bp_require_ci :: string
  bp_push_roles :: string
  bp_merge_roles :: string

record rbac_db =
  db_permissions :: "permission table"
  db_roles :: "role_row table"
  db_role_permissions :: "(int \<times> int) table"
  db_teams :: "team_row table"
  db_team_members :: "team_member_row table"
  db_org_members :: "org_member_row table"
  db_team_repos :: "team_repo_row table"
  db_collabs :: "collab_row table"
  db_audit :: "audit_row table"
  db_branch_rules :: "branch_rule table"
  db_repo_org :: "(int \<times> int option) list"
  db_org_owner :: "(int \<times> int) list"
  db_faulty :: "string \<Rightarrow> bool"

datatype rbac_error =
    ErrNotFound | ErrCycle | ErrMaxDepth | ErrBuiltinRole | ErrCrossOrg | ErrTeamNotFound
  | ErrParentOtherOrg | ErrRoleNotFound | ErrRoleScope | ErrPrivilegeEscalation
  | ErrNoRows | ErrDriver | ErrConstraint

definition MaxNestDepth :: nat where "MaxNestDepth = 5"

record rbac_service =
  rb_db :: rbac_db
  rb_cache :: perm_cache

definition empty_db :: "(string \<Rightarrow> bool) \<Rightarrow> rbac_db" where
  "empty_db faulty =
     \<lparr>db_permissions = empty_table, db_roles = empty_table, db_role_permissions = empty_table,
      db_teams = empty_table, db_team_members = empty_table, db_org_members = empty_table,
      db_team_repos = empty_table, db_collabs = empty_table, db_audit = empty_table,
      db_branch_rules = empty_table, db_repo_org = [], db_org_owner = [], db_faulty = faulty\<rparr>"

definition New :: "rbac_db \<Rightarrow> rbac_service" where
  "New db = \<lparr>rb_db = db, rb_cache = newPermCache 10000 (5 * minute)\<rparr>"

section \<open>Seeding\<close>

definition permission_id :: "rbac_db \<Rightarrow> permission \<Rightarrow> int option" where
  "permission_id db p = map_option fst (tbl_find (\<lambda>_ q. q = p) (db_permissions db))"

fun seed_permissions :: "rbac_db \<Rightarrow> permission list \<Rightarrow> rbac_error + rbac_db" where
  "seed_permissions db [] = Ok db"
| "seed_permissions db (p # ps) =
     (if db_faulty db ''permissions'' then Err ErrDriver
      else seed_permissions
             (if permission_id db p = None
              then db\<lparr>db_permissions := tbl_insert p (db_permissions db)\<rparr> else db) ps)"

text \<open>The loop of \<open>seedRole\<close> that links permissions: every failure is ignored.\<close>

fun seed_links :: "rbac_db \<Rightarrow> int \<Rightarrow> permission list \<Rightarrow> rbac_db" where
  "seed_links db rid [] = db"
| "seed_links db rid (p # ps) =
     (case (if db_faulty db ''permissions'' then None else permission_id db p) of
        None \<Rightarrow> seed_links db rid ps
      | Some pid \<Rightarrow>
          if db_faulty db ''role_permissions''
             \<or> tbl_exists (\<lambda>_ l. l = (rid, pid)) (db_role_permissions db)
          then seed_links db rid ps
          else seed_links
                 (db\<lparr>db_role_permissions := tbl_insert (rid, pid) (db_role_permissions db)\<rparr>) rid ps)"

definition seedRole :: "rbac_db \<Rightarrow> builtin_role \<Rightarrow> rbac_error + rbac_db" where
  "seedRole db r =
     (if db_faulty db ''roles'' then Err ErrDriver
      else case tbl_find (\<lambda>_ x. ro_org x = None \<and> ro_name x = br_Name r) (db_roles db) of
             Some (i, _) \<Rightarrow> Ok (seed_links db i (br_Permissions r))
           | None \<Rightarrow>
               let db1 = db\<lparr>db_roles := tbl_insert \<lparr>ro_org = None, ro_name = br_Name r,
                                          ro_builtin = True, ro_scope = ''repo''\<rparr> (db_roles db)\<rparr>
               in Ok (seed_links db1 (seq (db_roles db1)) (br_Permissions r)))"

fun seed_roles :: "rbac_db \<Rightarrow> builtin_role list \<Rightarrow> rbac_error + rbac_db" where
  "seed_roles db [] = Ok db"
| "seed_roles db (r # rs) = (case seedRole db r of Inl e \<Rightarrow> Err e | Inr db' \<Rightarrow> seed_roles db' rs)"

definition Seed :: "rbac_db \<Rightarrow> rbac_error + rbac_db" where
  "Seed db = (case seed_permissions db BuiltinPermissions of
                Inl e \<Rightarrow> Err e | Inr db' \<Rightarrow> seed_roles db' BuiltinRoles)"

section \<open>Team nesting\<close>

definition team_find :: "rbac_db \<Rightarrow> int \<Rightarrow> team_row option" where
  "team_find db i = map_option snd (tbl_find (\<lambda>j _. j = i) (db_teams db))"

text \<open>\<open>teamParent\<close>: the organization and the parent, 0 for no parent.\<close>

definition teamParent :: "rbac_db \<Rightarrow> int \<Rightarrow> rbac_error + (int \<times> int)" where
  "teamParent db i =
     (if db_faulty db ''teams'' then Err ErrDriver
      else case team_find db i of
             None \<Rightarrow> Err ErrNotFound
           | Some t \<Rightarrow> Ok (tm_org t, case tm_parent t of None \<Rightarrow> 0 | Some p \<Rightarrow> p))"

definition teamOrg :: "rbac_db \<Rightarrow> int \<Rightarrow> rbac_error + int" where
  "teamOrg db i = (case teamParent db i of Inl e \<Rightarrow> Err e | Inr (orgID, _) \<Rightarrow> Ok orgID)"

text \<open>The teams a walk has not visited yet, the measure of the walks.\<close>

definition unvisited :: "rbac_db \<Rightarrow> int list \<Rightarrow> nat" where
  "unvisited db visited = length (filter (\<lambda>(i, t). i \<notin> set visited) (rows (db_teams db)))"

lemma teamParent_found:
  "teamParent db i = Ok x \<Longrightarrow> \<exists>t. (i, t) \<in> set (rows (db_teams db)) \<and> team_find db i = Some t"
  by (auto simp: teamParent_def team_find_def dest: tbl_find_Some split: option.splits if_splits)

lemma unvisited_less:
  assumes "teamParent db i = Ok x" and "i \<notin> set visited"
  shows "unvisited db (i # visited) < unvisited db visited"
proof -
  obtain t where t: "(i, t) \<in> set (rows (db_teams db))"
    using assms(1) teamParent_found by blast
  let ?rest = "filter (\<lambda>(i, t). i \<notin> set visited) (rows (db_teams db))"
  have "filter (\<lambda>(j, t). j \<notin> set (i # visited)) (rows (db_teams db)) = filter (\<lambda>(j, t). j \<noteq> i) ?rest"
    by (auto intro!: filter_cong)
  moreover have "length (filter (\<lambda>(j, t). j \<noteq> i) ?rest) < length ?rest"
    using t assms(2) by (intro length_filter_less [of "(i, t)"]) auto
  ultimately show ?thesis by (simp add: unvisited_def)
qed

function validate_loop :: "rbac_db \<Rightarrow> int \<Rightarrow> nat \<Rightarrow> int list \<Rightarrow> int \<Rightarrow> rbac_error + unit" where
  "validate_loop db orgID depth visited cur =
     (if cur = 0 then Ok ()
      else if cur \<in> set visited then Err ErrCycle
      else if depth + 1 > MaxNestDepth then Err ErrMaxDepth
      else case teamParent db cur of
             Inl e \<Rightarrow> Err e
           | Inr (mOrg, parent) \<Rightarrow>
               if orgID \<noteq> 0 \<and> mOrg \<noteq> orgID then Err ErrParentOtherOrg
               else validate_loop db orgID (depth + 1) (cur # visited) parent)"
  by pat_completeness auto
termination
  by (relation "measure (\<lambda>(db, orgID, depth, visited, cur). MaxNestDepth - depth)") auto

declare validate_loop.simps [simp del]

definition validateNesting :: "rbac_db \<Rightarrow> int \<Rightarrow> int \<Rightarrow> int \<Rightarrow> rbac_error + unit" where
  "validateNesting db orgID childTeam parentTeam = validate_loop db orgID 1 [] parentTeam"

function descendant_loop :: "rbac_db \<Rightarrow> int \<Rightarrow> int list \<Rightarrow> int \<Rightarrow> rbac_error + bool" where
  "descendant_loop db ancestor visited cur =
     (if cur = 0 then Ok False
      else if cur = ancestor then Ok True
      else if cur \<in> set visited then Err ErrCycle
      else case teamParent db cur of
             Inl e \<Rightarrow> Err e
           | Inr (_, parent) \<Rightarrow> descendant_loop db ancestor (cur # visited) parent)"
  by pat_completeness auto
termination
  by (relation "measure (\<lambda>(db, ancestor, visited, cur). unvisited db visited)") (auto intro: unvisited_less)

declare descendant_loop.simps [simp del]

definition isDescendant :: "rbac_db \<Rightarrow> int \<Rightarrow> int \<Rightarrow> rbac_error + bool" where
  "isDescendant db candidate ancestor = descendant_loop db ancestor [] candidate"

record create_team_params =
  ct_OrgID :: int
  ct_Name :: string
  ct_Description :: string
  ct_ParentTeamID :: "int option"
  ct_RoleID :: "int option"
  ct_Permission :: string

definition insert_team :: "rbac_db \<Rightarrow> create_team_params \<Rightarrow> rbac_db" where
  "insert_team db p =
     db\<lparr>db_teams := tbl_insert
          \<lparr>tm_org = ct_OrgID p, tm_name = ct_Name p, tm_description = ct_Description p,
           tm_permission = (if ct_Permission p = [] then ''read'' else ct_Permission p),
           tm_parent = ct_ParentTeamID p, tm_role = ct_RoleID p\<rparr> (db_teams db)\<rparr>"

definition CreateTeam :: "rbac_service \<Rightarrow> create_team_params \<Rightarrow> (rbac_error + int) \<times> rbac_service" where
  "CreateTeam s p =
     (let db = rb_db s in
      case (case ct_ParentTeamID p of None \<Rightarrow> Ok () | Some q \<Rightarrow> validateNesting db (ct_OrgID p) 0 q) of
        Inl e \<Rightarrow> (Err e, s)
      | Inr _ \<Rightarrow>
          if db_faulty db ''teams'' then (Err ErrDriver, s)
          else let db' = insert_team db p
               in (Ok (seq (db_teams db')), s\<lparr>rb_db := db', rb_cache := invalidateAll (rb_cache s)\<rparr>))"

text \<open>The checks of \<open>ReparentTeam\<close> for a new parent, in the order of the code.\<close>

definition reparent_check :: "rbac_db \<Rightarrow> int \<Rightarrow> int \<Rightarrow> rbac_error + unit" where
  "reparent_check db teamID newParent =
     (if newParent = teamID then Err ErrCycle
      else case teamOrg db teamID of
        Inl e \<Rightarrow> Err e
      | Inr orgID \<Rightarrow>
          (case isDescendant db newParent teamID of
             Inl e \<Rightarrow> Err e
           | Inr desc \<Rightarrow>
               if desc then Err ErrCycle
               else case teamOrg db newParent of
                 Inl e \<Rightarrow> Err ErrTeamNotFound
               | Inr parentOrg \<Rightarrow>
                   if parentOrg \<noteq> orgID then Err ErrCrossOrg
                   else validateNesting db orgID teamID newParent))"

definition set_parent :: "rbac_db \<Rightarrow> int \<Rightarrow> int option \<Rightarrow> rbac_db" where
  "set_parent db teamID newParent =
     db\<lparr>db_teams := tbl_update (\<lambda>i _. i = teamID) (\<lambda>t. t\<lparr>tm_parent := newParent\<rparr>) (db_teams db)\<rparr>"

definition ReparentTeam :: "rbac_service \<Rightarrow> int \<Rightarrow> int option \<Rightarrow> (rbac_error + unit) \<times> rbac_service" where
  "ReparentTeam s teamID newParent =
     (let db = rb_db s in
      case (case newParent of None \<Rightarrow> Ok () | Some q \<Rightarrow> reparent_check db teamID q) of
        Inl e \<Rightarrow> (Err e, s)
      | Inr _ \<Rightarrow>
          if db_faulty db ''teams'' then (Err ErrDriver, s)
          else (Ok (), s\<lparr>rb_db := set_parent db teamID newParent, rb_cache := invalidateAll (rb_cache s)\<rparr>))"

section \<open>Permission evaluation\<close>

definition userTeams :: "rbac_db \<Rightarrow> int \<Rightarrow> rbac_error + int list" where
  "userTeams db userID =
     (if db_faulty db ''team_members'' then Err ErrDriver
      else Ok (map (\<lambda>(_, m). mb_team m) (tbl_select (\<lambda>_ m. mb_user m = userID) (db_team_members db))))"

definition add_role :: "int option \<Rightarrow> int list \<Rightarrow> int list" where
  "add_role r roleIDs = (case r of None \<Rightarrow> roleIDs | Some i \<Rightarrow> List.insert i roleIDs)"

definition team_role :: "rbac_db \<Rightarrow> int \<Rightarrow> int option" where
  "team_role db i = (case team_find db i of None \<Rightarrow> None | Some t \<Rightarrow> tm_role t)"

function collectTeamAncestors ::
  "rbac_db \<Rightarrow> int \<Rightarrow> int list \<Rightarrow> int list \<Rightarrow> rbac_error + int list" where
  "collectTeamAncestors db teamID roleIDs visited =
     (if teamID \<in> set visited then Ok roleIDs
      else case teamParent db teamID of
             Inl e \<Rightarrow> Err e
           | Inr (_, parent) \<Rightarrow>
               let roleIDs' = add_role (team_role db teamID) roleIDs
               in if parent \<noteq> 0 then collectTeamAncestors db parent roleIDs' (teamID # visited)
                  else Ok roleIDs')"
  by pat_completeness auto
termination
  by (relation "measure (\<lambda>(db, teamID, roleIDs, visited). unvisited db visited)") (auto intro: unvisited_less)

declare collectTeamAncestors.simps [simp del]

definition team_repo_role :: "rbac_db \<Rightarrow> int \<Rightarrow> int \<Rightarrow> int option" where
  "team_repo_role db tid repoID =
     (if db_faulty db ''team_repos'' then None
      else case tbl_find (\<lambda>_ g. tr_team g = tid \<and> tr_repo g = repoID) (db_team_repos db) of
             None \<Rightarrow> None | Some (_, g) \<Rightarrow> tr_role g)"

fun collect_repo_teams :: "rbac_db \<Rightarrow> int \<Rightarrow> int list \<Rightarrow> int list \<Rightarrow> rbac_error + int list" where
  "collect_repo_teams db repoID [] roleIDs = Ok roleIDs"
| "collect_repo_teams db repoID (tid # tids) roleIDs =
     (case collectTeamAncestors db tid roleIDs [] of
        Inl e \<Rightarrow> Err e
      | Inr rs \<Rightarrow> collect_repo_teams db repoID tids (add_role (team_repo_role db tid repoID) rs))"

definition collectRepoRoleIDs :: "rbac_db \<Rightarrow> int \<Rightarrow> int \<Rightarrow> rbac_error + int list" where
  "collectRepoRoleIDs db userID repoID =
     (case userTeams db userID of Inl e \<Rightarrow> Err e | Inr seed \<Rightarrow> collect_repo_teams db repoID seed [])"

fun collect_org_teams :: "rbac_db \<Rightarrow> int list \<Rightarrow> int list \<Rightarrow> rbac_error + int list" where
  "collect_org_teams db [] roleIDs = Ok roleIDs"
| "collect_org_teams db (tid # tids) roleIDs =
     (case collectTeamAncestors db tid roleIDs [] of
        Inl e \<Rightarrow> Err e | Inr rs \<Rightarrow> collect_org_teams db tids rs)"

definition org_member_roles :: "rbac_db \<Rightarrow> int \<Rightarrow> int list" where
  "org_member_roles db userID =
     map (\<lambda>(_, m). the (om_role m))
       (tbl_select (\<lambda>_ m. om_user m = userID \<and> om_role m \<noteq> None) (db_org_members db))"

definition collectOrgRoleIDs :: "rbac_db \<Rightarrow> int \<Rightarrow> rbac_error + int list" where
  "collectOrgRoleIDs db userID =
     (case userTeams db userID of
        Inl e \<Rightarrow> Err e
      | Inr seed \<Rightarrow>
          (case collect_org_teams db seed [] of
             Inl e \<Rightarrow> Err e
           | Inr rs \<Rightarrow>
               if db_faulty db ''org_members'' then Err ErrDriver
               else Ok (fold List.insert (org_member_roles db userID) rs)))"

definition applyDirectPermission :: "rbac_db \<Rightarrow> int \<Rightarrow> int \<Rightarrow> rbac_error + permission list" where
  "applyDirectPermission db userID repoID =
     (if db_faulty db ''repo_collaborators'' then Err ErrDriver
      else case tbl_find (\<lambda>_ c. co_repo c = repoID \<and> co_user c = userID) (db_collabs db) of
             None \<Rightarrow> Ok []
           | Some (_, c) \<Rightarrow> Ok (ladderPermissions (co_permission c)))"

text \<open>The join of \<open>role_permissions\<close> and \<open>permissions\<close>.\<close>

definition role_perm_join :: "rbac_db \<Rightarrow> int \<Rightarrow> permission list" where
  "role_perm_join db roleID =
     concat (map (\<lambda>(_, l). map snd (tbl_select (\<lambda>i _. i = snd l) (db_permissions db)))
               (tbl_select (\<lambda>_ l. fst l = roleID) (db_role_permissions db)))"

definition rolePermissions :: "rbac_db \<Rightarrow> int \<Rightarrow> rbac_error + permission list" where
  "rolePermissions db roleID =
     (if db_faulty db ''role_permissions'' \<or> db_faulty db ''permissions'' then Err ErrDriver
      else Ok (role_perm_join db roleID))"

fun add_role_permissions :: "rbac_db \<Rightarrow> int list \<Rightarrow> permission list \<Rightarrow> rbac_error + permission list" where
  "add_role_permissions db [] out = Ok out"
| "add_role_permissions db (rid # rids) out =
     (case rolePermissions db rid of
        Inl e \<Rightarrow> Err e | Inr ps \<Rightarrow> add_role_permissions db rids (union_one out ps))"

definition EffectivePermissions :: "rbac_db \<Rightarrow> int \<Rightarrow> int \<Rightarrow> rbac_error + permission list" where
  "EffectivePermissions db userID repoID =
     (case (if repoID > 0 then collectRepoRoleIDs db userID repoID else collectOrgRoleIDs db userID) of
        Inl e \<Rightarrow> Err e
      | Inr roleIDs \<Rightarrow>
          (case (if repoID > 0 then applyDirectPermission db userID repoID else Ok []) of
             Inl e \<Rightarrow> Err e
           | Inr out \<Rightarrow> add_role_permissions db roleIDs out))"

definition evaluate :: "rbac_db \<Rightarrow> int \<Rightarrow> requirement \<Rightarrow> rbac_error + bool" where
  "evaluate db userID req =
     (case EffectivePermissions db userID (req_RepoID req) of
        Inl e \<Rightarrow> Err e
      | Inr perms \<Rightarrow> Ok (\<lparr>Resource = req_Resource req, Action = req_Action req\<rparr> \<in> set perms))"

definition cacheKey :: "int \<Rightarrow> requirement \<Rightarrow> string" where
  "cacheKey userID req =
     FormatInt userID @ '':'' @ FormatInt (req_RepoID req) @ '':'' @ req_Resource req @ '':'' @ req_Action req"

definition Check ::
  "string list \<Rightarrow> int \<Rightarrow> rbac_service \<Rightarrow> int \<Rightarrow> bool \<Rightarrow> requirement \<Rightarrow> bool \<times> rbac_service" where
  "Check order now s userID isAdmin req =
     (if isAdmin then (True, s)
      else let key = cacheKey userID req; (hit, c) = cache_get now key (rb_cache s)
           in case hit of
                Some v \<Rightarrow> (v, s\<lparr>rb_cache := c\<rparr>)
              | None \<Rightarrow>
                  (case evaluate (rb_db s) userID req of
                     Inl e \<Rightarrow> (False, s\<lparr>rb_cache := c\<rparr>)
                   | Inr granted \<Rightarrow> (granted, s\<lparr>rb_cache := cache_set order now userID key granted c\<rparr>)))"

definition InvalidateUser :: "int \<Rightarrow> rbac_service \<Rightarrow> rbac_service" where
  "InvalidateUser userID s = s\<lparr>rb_cache := invalidateUser userID (rb_cache s)\<rparr>"

definition InvalidateAll :: "rbac_service \<Rightarrow> rbac_service" where
  "InvalidateAll s = s\<lparr>rb_cache := invalidateAll (rb_cache s)\<rparr>"

end
