(* ===== verification/RbacTeams.thy ===== *)
theory RbacTeams
  imports Rbac
begin

text \<open>
  The team forest. \<open>up\<close> is the parent relation of the \<open>teams\<close> table; \<open>forest\<close> says that it
  has no cycle and stays inside an organization, \<open>nest_bounded\<close> that no team has five or more
  ancestors. The lemmas relate the loops of \<open>rbac.go\<close> to the closure of \<open>up\<close>: what
  \<open>isDescendant\<close> decides, what \<open>validateNesting\<close> bounds, and which roles
  \<open>collectTeamAncestors\<close> gathers.
\<close>

section \<open>The parent relation\<close>

definition up :: "rbac_db \<Rightarrow> (int \<times> int) set" where
  "up db = {(i, p). \<exists>t. (i, t) \<in> set (rows (db_teams db)) \<and> tm_parent t = Some p \<and> p \<noteq> 0}"

definition forest :: "rbac_db \<Rightarrow> bool" where
  "forest db \<longleftrightarrow> tbl_wf (db_teams db) \<and> acyclic (up db) \<and>
     (\<forall>i t p. (i, t) \<in> set (rows (db_teams db)) \<and> tm_parent t = Some p \<and> p \<noteq> 0 \<longrightarrow>
        (\<exists>t'. (p, t') \<in> set (rows (db_teams db)) \<and> tm_org t' = tm_org t))"

definition nest_bounded :: "rbac_db \<Rightarrow> bool" where
  "nest_bounded db \<longleftrightarrow> (\<forall>i a. (i, a) \<notin> up db ^^ MaxNestDepth)"

lemma team_find_iff:
  "tbl_wf (db_teams db) \<Longrightarrow> team_find db i = Some t \<longleftrightarrow> (i, t) \<in> set (rows (db_teams db))"
proof
  assume wf: "tbl_wf (db_teams db)" and "(i, t) \<in> set (rows (db_teams db))"
  then have "tbl_find (\<lambda>j _. j = i) (db_teams db) = Some (i, t)"
    by (intro tbl_find_by_id) simp_all
  then show "team_find db i = Some t" by (simp add: team_find_def)
qed (auto simp: team_find_def dest: tbl_find_Some)

lemma teamParent_Ok:
  assumes "tbl_wf (db_teams db)" and "teamParent db i = Ok (org, p)"
  shows "\<exists>t. (i, t) \<in> set (rows (db_teams db)) \<and> org = tm_org t \<and>
           p = (case tm_parent t of None \<Rightarrow> 0 | Some q \<Rightarrow> q)"
  using assms by (auto simp: teamParent_def team_find_iff split: if_splits option.splits)

text \<open>The parent a walk reads is the only successor of the team.\<close>

lemma up_teamParent:
  assumes wf: "tbl_wf (db_teams db)" and par: "teamParent db i = Ok (org, p)"
  shows "(i, q) \<in> up db \<longleftrightarrow> p \<noteq> 0 \<and> q = p"
proof -
  obtain t where t: "(i, t) \<in> set (rows (db_teams db))"
    and p: "p = (case tm_parent t of None \<Rightarrow> 0 | Some q \<Rightarrow> q)"
    using teamParent_Ok [OF assms] by blast
  have "(i, q) \<in> up db \<longleftrightarrow> tm_parent t = Some q \<and> q \<noteq> 0"
    unfolding up_def using t tbl_wf_id_unique [OF wf t] by blast
  with p show ?thesis by (cases "tm_parent t") auto
qed

lemma up_target_nonzero: "(i, p) \<in> up db \<Longrightarrow> p \<noteq> 0"
  by (auto simp: up_def)

lemma descendant_loop_correct:
  "descendant_loop db anc visited cur = Ok b \<Longrightarrow> cur \<noteq> 0 \<Longrightarrow> tbl_wf (db_teams db) \<Longrightarrow> b \<longleftrightarrow> (cur, anc) \<in> (up db)\<^sup>*"
proof (induction db anc visited cur rule: descendant_loop.induct)
  case (1 db anc visited cur)
  show ?case
  proof (cases "cur = anc")
    case True
    with "1.prems" show ?thesis by (simp add: descendant_loop.simps [of db anc visited anc])
  next
    case False
    with "1.prems" obtain org p where par: "teamParent db cur = Ok (org, p)" and nv: "cur \<notin> set visited"
      and rec: "descendant_loop db anc (cur # visited) p = Ok b"
      by (auto simp: descendant_loop.simps [of db anc visited cur] split: if_splits sum.splits)
    have step: "(cur, anc) \<in> (up db)\<^sup>* \<longleftrightarrow> p \<noteq> 0 \<and> (p, anc) \<in> (up db)\<^sup>*"
      using False up_teamParent [OF "1.prems"(3) par] by (metis converse_rtranclE converse_rtrancl_into_rtrancl)
    show ?thesis
    proof (cases "p = 0")
      case True
      with rec have "\<not> b" by (simp add: descendant_loop.simps)
      with True step show ?thesis by simp
    next
      case nz: False
      then show ?thesis
        using "1.IH" [OF "1.prems"(2) False nv par refl rec nz] step "1.prems"(3) by simp
    qed
  qed
qed

lemma isDescendant_correct:
  "isDescendant db candidate anc = Ok b \<Longrightarrow> candidate \<noteq> 0 \<Longrightarrow> tbl_wf (db_teams db) \<Longrightarrow>
     b \<longleftrightarrow> (candidate, anc) \<in> (up db)\<^sup>*"
  unfolding isDescendant_def by (rule descendant_loop_correct)

section \<open>What \<open>validateNesting\<close> guarantees\<close>

lemma validate_loop_bound:
  "validate_loop db orgID d visited cur = Ok () \<Longrightarrow> cur \<noteq> 0 \<Longrightarrow> tbl_wf (db_teams db) \<Longrightarrow>
     MaxNestDepth \<le> d + n \<Longrightarrow> (cur, a) \<notin> up db ^^ n"
proof (induction db orgID d visited cur arbitrary: n rule: validate_loop.induct)
  case (1 db orgID d visited cur)
  from "1.prems"(1,2) obtain org p where par: "teamParent db cur = Ok (org, p)"
    and nv: "cur \<notin> set visited" and d: "\<not> d + 1 > MaxNestDepth"
    and org: "\<not> (orgID \<noteq> 0 \<and> org \<noteq> orgID)"
    and rec: "validate_loop db orgID (d + 1) (cur # visited) p = Ok ()"
    by (auto simp: validate_loop.simps [of db orgID d visited cur] split: if_splits sum.splits)
  show ?case
  proof
    assume path: "(cur, a) \<in> up db ^^ n"
    obtain m where n: "n = Suc m" using "1.prems"(4) d by (cases n) auto
    with path obtain y where y: "(cur, y) \<in> up db" "(y, a) \<in> up db ^^ m"
      by (metis relpow_Suc_D2)
    then have "p \<noteq> 0" and yp: "y = p" using up_teamParent [OF "1.prems"(3) par] by auto
    have "(p, a) \<notin> up db ^^ m"
      using "1.prems"(3,4) n
      by (intro "1.IH" [OF "1.prems"(2) nv d par refl org rec \<open>p \<noteq> 0\<close>]) auto
    with y yp show False by simp
  qed
qed

lemma validate_loop_first:
  "validate_loop db orgID d visited cur = Ok () \<Longrightarrow> cur \<noteq> 0 \<Longrightarrow> tbl_wf (db_teams db) \<Longrightarrow>
     \<exists>t. (cur, t) \<in> set (rows (db_teams db)) \<and> (orgID \<noteq> 0 \<longrightarrow> tm_org t = orgID)"
  by (auto simp: validate_loop.simps [of db orgID d visited cur] dest!: teamParent_Ok
      split: if_splits sum.splits)

lemma validateNesting_bound:
  "validateNesting db orgID child q = Ok () \<Longrightarrow> q \<noteq> 0 \<Longrightarrow> tbl_wf (db_teams db) \<Longrightarrow> (q, a) \<notin> up db ^^ 4"
  unfolding validateNesting_def by (erule validate_loop_bound) (simp_all add: MaxNestDepth_def)

lemma validateNesting_first:
  "validateNesting db orgID child q = Ok () \<Longrightarrow> q \<noteq> 0 \<Longrightarrow> tbl_wf (db_teams db) \<Longrightarrow>
     \<exists>t. (q, t) \<in> set (rows (db_teams db)) \<and> (orgID \<noteq> 0 \<longrightarrow> tm_org t = orgID)"
  unfolding validateNesting_def by (rule validate_loop_first)

section \<open>Adding and moving a team\<close>

lemma up_insert_team_iff:
  "(i, q) \<in> up (insert_team db p) \<longleftrightarrow>
     (i, q) \<in> up db \<or> (i = seq (db_teams db) + 1 \<and> ct_ParentTeamID p = Some q \<and> q \<noteq> 0)"
  by (simp add: up_def insert_team_def conj_disj_distribR ex_disj_distrib) blast

lemma up_insert_team:
  "up (insert_team db p) =
     (case ct_ParentTeamID p of None \<Rightarrow> up db
      | Some q \<Rightarrow> if q = 0 then up db else insert (seq (db_teams db) + 1, q) (up db))"
  by (cases "ct_ParentTeamID p") (auto simp: up_insert_team_iff)

lemma forest_target: "forest db \<Longrightarrow> (i, q) \<in> up db \<Longrightarrow> \<exists>t. (q, t) \<in> set (rows (db_teams db))"
  unfolding forest_def up_def by blast

lemma forest_new_id:
  "forest db \<Longrightarrow> (i, t) \<in> set (rows (db_teams db)) \<Longrightarrow> i \<noteq> seq (db_teams db) + 1"
  using tbl_wf_bound [of "db_teams db" i t] by (auto simp: forest_def)

lemma new_id_unreachable:
  "forest db \<Longrightarrow> (q, t) \<in> set (rows (db_teams db)) \<Longrightarrow> (q, seq (db_teams db) + 1) \<notin> (up db)\<^sup>*"
proof
  assume f: "forest db" and q: "(q, t) \<in> set (rows (db_teams db))"
    and "(q, seq (db_teams db) + 1) \<in> (up db)\<^sup>*"
  then consider "q = seq (db_teams db) + 1" | x where "(x, seq (db_teams db) + 1) \<in> up db"
    by (auto elim: rtranclE)
  then show False
    using forest_new_id [OF f] q forest_target [OF f] by cases blast+
qed

lemma insert_team_forest:
  assumes f: "forest db"
    and ok: "\<And>q. ct_ParentTeamID p = Some q \<Longrightarrow> q \<noteq> 0 \<Longrightarrow>
      \<exists>t. (q, t) \<in> set (rows (db_teams db)) \<and> tm_org t = ct_OrgID p"
  shows "forest (insert_team db p)"
proof -
  have wf: "tbl_wf (db_teams (insert_team db p))"
    using f by (simp add: forest_def insert_team_def tbl_wf_insert)
  have ac: "acyclic (up (insert_team db p))"
  proof (cases "ct_ParentTeamID p")
    case None
    with f show ?thesis by (simp add: up_insert_team) (simp add: forest_def)
  next
    case (Some q)
    show ?thesis
    proof (cases "q = 0")
      case True
      with Some f show ?thesis by (simp add: up_insert_team) (simp add: forest_def)
    next
      case False
      with ok Some obtain t where "(q, t) \<in> set (rows (db_teams db))" by blast
      then have "(q, seq (db_teams db) + 1) \<notin> (up db)\<^sup>*" by (rule new_id_unreachable [OF f])
      with Some False f show ?thesis by (simp add: up_insert_team acyclic_insert) (simp add: forest_def)
    qed
  qed
  have "\<exists>t'. (q, t') \<in> set (rows (db_teams (insert_team db p))) \<and> tm_org t' = tm_org t"
    if "(i, t) \<in> set (rows (db_teams (insert_team db p)))" "tm_parent t = Some q" "q \<noteq> 0" for i t q
  proof (cases "(i, t) \<in> set (rows (db_teams db))")
    case True
    with that f obtain t' where "(q, t') \<in> set (rows (db_teams db))" "tm_org t' = tm_org t"
      unfolding forest_def by blast
    then show ?thesis by (auto simp: insert_team_def)
  next
    case False
    with that have "ct_ParentTeamID p = Some q" and org: "tm_org t = ct_OrgID p"
      by (auto simp: insert_team_def)
    with ok that(3) obtain t' where "(q, t') \<in> set (rows (db_teams db))" "tm_org t' = ct_OrgID p" by blast
    with org show ?thesis by (auto simp: insert_team_def)
  qed
  with wf ac show ?thesis unfolding forest_def by blast
qed

lemma tm_parent_update_same [simp]: "t\<lparr>tm_parent := x\<rparr> = t \<longleftrightarrow> tm_parent t = x"
  by (cases t) auto

lemma up_set_parent:
  assumes "tbl_wf (db_teams db)"
  shows "up (set_parent db tid np) =
     {(i, p) \<in> up db. i \<noteq> tid} \<union>
     (case np of None \<Rightarrow> {} | Some q \<Rightarrow>
        if q \<noteq> 0 \<and> (\<exists>t. (tid, t) \<in> set (rows (db_teams db))) then {(tid, q)} else {})"
  unfolding up_def set_parent_def
  by (auto simp: set_rows_update split: option.splits if_splits)

text \<open>A relation with one edge replaced: no new path through the source of the edge.\<close>

lemma relpow_avoid:
  assumes "\<And>x y. (x, y) \<in> r' \<Longrightarrow> x \<noteq> z \<Longrightarrow> (x, y) \<in> r" and "(x, z) \<notin> r\<^sup>*"
  shows "(x, a) \<in> r' ^^ n \<Longrightarrow> (x, a) \<in> r ^^ n"
proof (induction n arbitrary: a)
  case 0
  then show ?case by simp
next
  case (Suc n)
  then obtain b where b: "(x, b) \<in> r' ^^ n" "(b, a) \<in> r'" by auto
  with Suc.IH have xb: "(x, b) \<in> r ^^ n" by blast
  then have "b \<noteq> z" using assms(2) relpow_imp_rtrancl by blast
  with assms(1) b(2) xb show ?case by auto
qed

lemma reparent_check_Ok:
  assumes f: "forest db" and ok: "reparent_check db tid q = Ok ()"
  shows "q \<noteq> 0" and "(q, tid) \<notin> (up db)\<^sup>*"
    and "\<exists>t t'. (tid, t) \<in> set (rows (db_teams db)) \<and> (q, t') \<in> set (rows (db_teams db)) \<and> tm_org t' = tm_org t"
    and "\<exists>org. validateNesting db org tid q = Ok ()"
proof -
  have wf: "tbl_wf (db_teams db)" using f by (simp add: forest_def)
  from ok obtain org where o1: "teamOrg db tid = Ok org" and d: "isDescendant db q tid = Ok False"
    and o2: "teamOrg db q = Ok org" and v: "validateNesting db org tid q = Ok ()"
    by (auto simp: reparent_check_def split: if_splits sum.splits)
  obtain t where t: "(tid, t) \<in> set (rows (db_teams db))" "tm_org t = org"
    using o1 wf by (auto simp: teamOrg_def dest!: teamParent_Ok split: sum.splits)
  obtain t' where t': "(q, t') \<in> set (rows (db_teams db))" "tm_org t' = org"
    using o2 wf by (auto simp: teamOrg_def dest!: teamParent_Ok split: sum.splits)
  show q: "q \<noteq> 0" using tbl_wf_bound [OF wf t'(1)] by simp
  show "(q, tid) \<notin> (up db)\<^sup>*" using isDescendant_correct [OF d q wf] by simp
  show "\<exists>t t'. (tid, t) \<in> set (rows (db_teams db)) \<and> (q, t') \<in> set (rows (db_teams db)) \<and> tm_org t' = tm_org t"
    using t t' by blast
  show "\<exists>org. validateNesting db org tid q = Ok ()" using v by blast
qed

lemma set_parent_wf: "tbl_wf (db_teams db) \<Longrightarrow> tbl_wf (db_teams (set_parent db tid np))"
  by (simp add: set_parent_def tbl_wf_update)

lemma set_parent_rows:
  "(i, t) \<in> set (rows (db_teams (set_parent db tid np))) \<longleftrightarrow>
     (\<exists>t0. (i, t0) \<in> set (rows (db_teams db)) \<and> t = (if i = tid then t0\<lparr>tm_parent := np\<rparr> else t0))"
  by (simp add: set_parent_def set_rows_update)

lemma set_parent_org:
  "(i, t) \<in> set (rows (db_teams db)) \<Longrightarrow>
     \<exists>t'. (i, t') \<in> set (rows (db_teams (set_parent db tid np))) \<and> tm_org t' = tm_org t"
  unfolding set_parent_rows by (cases "i = tid") auto

lemma set_parent_forest:
  assumes f: "forest db"
    and ok: "\<And>q. np = Some q \<Longrightarrow> (q, tid) \<notin> (up db)\<^sup>* \<and>
      (\<exists>t t'. (tid, t) \<in> set (rows (db_teams db)) \<and> (q, t') \<in> set (rows (db_teams db)) \<and> tm_org t' = tm_org t)"
  shows "forest (set_parent db tid np)"
proof -
  have wf: "tbl_wf (db_teams db)" and ac: "acyclic (up db)" using f by (auto simp: forest_def)
  have sub: "{(i, p) \<in> up db. i \<noteq> tid} \<subseteq> up db" by blast
  have ac': "acyclic (up (set_parent db tid np))"
  proof (cases np)
    case None
    then show ?thesis using acyclic_subset [OF ac sub] by (simp add: up_set_parent [OF wf])
  next
    case (Some q)
    have "(q, tid) \<notin> {(i, p) \<in> up db. i \<noteq> tid}\<^sup>*"
      using ok [OF Some] rtrancl_mono [OF sub] by blast
    then have "acyclic (insert (tid, q) {(i, p) \<in> up db. i \<noteq> tid})"
      using acyclic_subset [OF ac sub] by (simp add: acyclic_insert)
    moreover have "up (set_parent db tid np) \<subseteq> insert (tid, q) {(i, p) \<in> up db. i \<noteq> tid}"
      using Some by (auto simp: up_set_parent [OF wf])
    ultimately show ?thesis by (rule acyclic_subset)
  qed
  have "\<exists>t'. (q, t') \<in> set (rows (db_teams (set_parent db tid np))) \<and> tm_org t' = tm_org t"
    if row: "(i, t) \<in> set (rows (db_teams (set_parent db tid np)))" and par: "tm_parent t = Some q" "q \<noteq> 0"
    for i t q
  proof -
    obtain t0 where t0: "(i, t0) \<in> set (rows (db_teams db))" "t = (if i = tid then t0\<lparr>tm_parent := np\<rparr> else t0)"
      using row set_parent_rows by blast
    have "\<exists>t'. (q, t') \<in> set (rows (db_teams db)) \<and> tm_org t' = tm_org t0"
    proof (cases "i = tid")
      case True
      with t0 par have "np = Some q" by simp
      from ok [OF this] obtain s s' where "(tid, s) \<in> set (rows (db_teams db))"
        "(q, s') \<in> set (rows (db_teams db))" "tm_org s' = tm_org s" by blast
      with tbl_wf_id_unique [OF wf] t0(1) True show ?thesis by blast
    next
      case False
      with t0 par f show ?thesis unfolding forest_def by auto
    qed
    moreover have "tm_org t = tm_org t0" using t0 by simp
    ultimately show ?thesis using set_parent_org by metis
  qed
  with wf ac' show ?thesis unfolding forest_def using set_parent_wf by blast
qed

text \<open>The moved team keeps to the bound; \<open>validateNesting\<close> looks at the new parent's chain only.\<close>

lemma relpow_max_step: "(x, a) \<in> r ^^ MaxNestDepth \<Longrightarrow> \<exists>y. (x, y) \<in> r \<and> (y, a) \<in> r ^^ 4"
  using relpow_Suc_D2 [of x a 4 r] by (simp add: MaxNestDepth_def eval_nat_numeral)

lemma set_parent_depth:
  assumes f: "forest db" and ok: "reparent_check db tid q = Ok ()"
  shows "(tid, a) \<notin> up (set_parent db tid (Some q)) ^^ MaxNestDepth"
proof
  assume path: "(tid, a) \<in> up (set_parent db tid (Some q)) ^^ MaxNestDepth"
  have wf: "tbl_wf (db_teams db)" using f by (simp add: forest_def)
  note rc = reparent_check_Ok [OF f ok]
  have step: "(x, y) \<in> up (set_parent db tid (Some q)) \<Longrightarrow> x \<noteq> tid \<Longrightarrow> (x, y) \<in> up db" for x y
    by (auto simp: up_set_parent [OF wf] split: if_splits)
  from relpow_max_step [OF path] obtain y where y: "(tid, y) \<in> up (set_parent db tid (Some q))"
    "(y, a) \<in> up (set_parent db tid (Some q)) ^^ 4"
    by blast
  then have "y = q" by (auto simp: up_set_parent [OF wf] split: if_splits)
  with y relpow_avoid [OF step rc(2)] have "(q, a) \<in> up db ^^ 4" by blast
  moreover obtain org where "validateNesting db org tid q = Ok ()" using rc(4) by blast
  then have "(q, a) \<notin> up db ^^ 4" using rc(1) wf by (rule validateNesting_bound)
  ultimately show False by simp
qed

lemma insert_team_bounded:
  assumes f: "forest db" and b: "nest_bounded db"
    and ok: "\<And>q. ct_ParentTeamID p = Some q \<Longrightarrow> validateNesting db (ct_OrgID p) 0 q = Ok ()"
  shows "nest_bounded (insert_team db p)"
proof -
  have wf: "tbl_wf (db_teams db)" using f by (simp add: forest_def)
  let ?n = "seq (db_teams db) + 1"
  have step: "(x, y) \<in> up (insert_team db p) \<Longrightarrow> x \<noteq> ?n \<Longrightarrow> (x, y) \<in> up db" for x y
    by (simp add: up_insert_team_iff)
  have no_new: "(x, ?n) \<notin> (up db)\<^sup>*" if "x \<noteq> ?n" for x
  proof
    assume "(x, ?n) \<in> (up db)\<^sup>*"
    with that obtain y where "(y, ?n) \<in> up db" by (auto elim: rtranclE)
    with forest_target [OF f] forest_new_id [OF f] show False by blast
  qed
  have "(x, a) \<notin> up (insert_team db p) ^^ MaxNestDepth" for x a
  proof
    assume path: "(x, a) \<in> up (insert_team db p) ^^ MaxNestDepth"
    show False
    proof (cases "x = ?n")
      case False
      with relpow_avoid [OF step no_new path] b show False by (auto simp: nest_bounded_def)
    next
      case True
      from relpow_max_step [OF path] obtain q where q: "(x, q) \<in> up (insert_team db p)" "(q, a) \<in> up (insert_team db p) ^^ 4"
        by blast
      have "(x, q) \<notin> up db" using True forest_new_id [OF f] by (auto simp: up_def)
      with q(1) have par: "ct_ParentTeamID p = Some q" "q \<noteq> 0" by (auto simp: up_insert_team_iff)
      from validateNesting_first [OF ok [OF par(1)] par(2) wf] have "q \<noteq> ?n"
        using forest_new_id [OF f] by blast
      then have "(q, a) \<in> up db ^^ 4" using relpow_avoid [OF step no_new q(2)] by blast
      with validateNesting_bound [OF ok [OF par(1)] par(2) wf, of a] show False
        by simp
    qed
  qed
  then show ?thesis by (simp add: nest_bounded_def)
qed

section \<open>The roles a walk to the root collects\<close>

definition chain_roles :: "rbac_db \<Rightarrow> int \<Rightarrow> int set" where
  "chain_roles db i = {r. \<exists>a. (i, a) \<in> (up db)\<^sup>* \<and> team_role db a = Some r}"

lemma set_add_role: "set (add_role r rs) = set rs \<union> set_option r"
  by (auto simp: add_role_def split: option.splits)

lemma closed_reach: "x \<in> A \<Longrightarrow> (\<And>u v. u \<in> A \<Longrightarrow> (u, v) \<in> r \<Longrightarrow> v \<in> A) \<Longrightarrow> (x, y) \<in> r\<^sup>* \<Longrightarrow> y \<in> A"
  by (rotate_tac 2, induction rule: rtrancl_induct) auto

lemma chain_roles_step:
  assumes "tbl_wf (db_teams db)" and "teamParent db i = Ok (org, p)"
  shows "chain_roles db i = set_option (team_role db i) \<union> (if p = 0 then {} else chain_roles db p)"
proof -
  have "(i, a) \<in> (up db)\<^sup>* \<longleftrightarrow> a = i \<or> (p \<noteq> 0 \<and> (p, a) \<in> (up db)\<^sup>*)" for a
    using up_teamParent [OF assms]
    by (metis converse_rtranclE converse_rtrancl_into_rtrancl rtrancl.rtrancl_refl)
  then show ?thesis by (auto simp: chain_roles_def)
qed

lemma collectTeamAncestors_correct:
  "collectTeamAncestors db i rs visited = Ok rs' \<Longrightarrow> tbl_wf (db_teams db) \<Longrightarrow>
     (\<And>u v. u \<in> set visited \<Longrightarrow> (u, v) \<in> up db \<Longrightarrow> v \<in> insert i (set visited)) \<Longrightarrow>
     (\<And>u r. u \<in> set visited \<Longrightarrow> team_role db u = Some r \<Longrightarrow> r \<in> set rs) \<Longrightarrow>
     set rs' = set rs \<union> chain_roles db i"
proof (induction db i rs visited arbitrary: rs' rule: collectTeamAncestors.induct)
  case (1 db i rs visited)
  note unf = collectTeamAncestors.simps [of db i rs visited]
  show ?case
  proof (cases "i \<in> set visited")
    case True
    have "\<And>u v. u \<in> set visited \<Longrightarrow> (u, v) \<in> up db \<Longrightarrow> v \<in> set visited"
      using "1.prems"(3) True by (metis insertE)
    then have reach: "(i, a) \<in> (up db)\<^sup>* \<Longrightarrow> a \<in> set visited" for a
      using closed_reach [of i "set visited" "up db" a] True by blast
    have "chain_roles db i \<subseteq> set rs"
    proof
      fix r
      assume "r \<in> chain_roles db i"
      then obtain a where a: "(i, a) \<in> (up db)\<^sup>*" "team_role db a = Some r" by (auto simp: chain_roles_def)
      show "r \<in> set rs" by (rule "1.prems"(4) [OF reach [OF a(1)] a(2)])
    qed
    moreover have "rs' = rs" using True "1.prems"(1) unf by simp
    ultimately show ?thesis by blast
  next
    case nv: False
    with "1.prems"(1) obtain org p where par: "teamParent db i = Ok (org, p)"
      by (auto simp: unf split: sum.splits)
    let ?rs = "add_role (team_role db i) rs"
    note step = chain_roles_step [OF "1.prems"(2) par]
    show ?thesis
    proof (cases "p = 0")
      case True
      with nv par "1.prems"(1) have "rs' = ?rs" by (simp add: unf)
      with True step show ?thesis by (simp add: set_add_role)
    next
      case False
      with nv par "1.prems"(1) have rec: "collectTeamAncestors db p ?rs (i # visited) = Ok rs'"
        by (simp add: unf)
      have "set rs' = set ?rs \<union> chain_roles db p"
      proof (rule "1.IH" [OF nv par refl refl False rec "1.prems"(2)])
        show "v \<in> insert p (set (i # visited))" if "u \<in> set (i # visited)" "(u, v) \<in> up db" for u v
          using that "1.prems"(3) up_teamParent [OF "1.prems"(2) par] by auto
        show "r \<in> set ?rs" if "u \<in> set (i # visited)" "team_role db u = Some r" for u r
          using that "1.prems"(4) by (auto simp: set_add_role)
      qed
      with False step show ?thesis by (auto simp: set_add_role)
    qed
  qed
qed

lemma collectTeamAncestors_total:
  "(i, t) \<in> set (rows (db_teams db)) \<Longrightarrow> forest db \<Longrightarrow> \<not> db_faulty db ''teams'' \<Longrightarrow>
     \<exists>rs'. collectTeamAncestors db i rs visited = Ok rs'"
proof (induction db i rs visited arbitrary: t rule: collectTeamAncestors.induct)
  case (1 db i rs visited)
  note unf = collectTeamAncestors.simps [of db i rs visited]
  have wf: "tbl_wf (db_teams db)" using "1.prems"(2) by (simp add: forest_def)
  then have "team_find db i = Some t" using "1.prems"(1) by (simp add: team_find_iff)
  then obtain org p where par: "teamParent db i = Ok (org, p)" using "1.prems"(3) by (simp add: teamParent_def)
  show ?case
  proof (cases "i \<in> set visited \<or> p = 0")
    case True
    with par show ?thesis by (auto simp: unf)
  next
    case False
    then have "(i, p) \<in> up db" using up_teamParent [OF wf par] by simp
    then obtain t' where "(p, t') \<in> set (rows (db_teams db))" using forest_target "1.prems"(2) by blast
    with "1.IH" [of "(org, p)" org p] False par "1.prems" show ?thesis by (simp add: unf)
  qed
qed

end
