(* ===== verification/RbacEval.thy ===== *)
theory RbacEval
  imports RbacTeams
begin

text \<open>
  What permission evaluation computes. \<open>effective_spec\<close> states the permissions of a user for a
  repository (or for the organization level, \<open>repoID <= 0\<close>) as a set: the ladder of a direct
  grant, and the permissions of every role attached to a team of the user or one of its ancestors,
  granted to one of the user's own teams on the repository, or attached to an organization
  membership. The lemmas show that the loops compute this set, that they return on every
  database without driver faults, which rows the answer for a user depends on, and that the
  service with its cache answers what the evaluation says.
\<close>

section \<open>The specification\<close>

definition user_team_set :: "rbac_db \<Rightarrow> int \<Rightarrow> int set" where
  "user_team_set db u = {mb_team m | i m. (i, m) \<in> set (rows (db_team_members db)) \<and> mb_user m = u}"

definition member_role_set :: "rbac_db \<Rightarrow> int \<Rightarrow> int set" where
  "member_role_set db u =
     {r. \<exists>i m. (i, m) \<in> set (rows (db_org_members db)) \<and> om_user m = u \<and> om_role m = Some r}"

definition granted_roles :: "rbac_db \<Rightarrow> int \<Rightarrow> int \<Rightarrow> int set" where
  "granted_roles db u repoID =
     (\<Union>t \<in> user_team_set db u. chain_roles db t) \<union>
     (if repoID > 0 then {r. \<exists>t \<in> user_team_set db u. team_repo_role db t repoID = Some r}
      else member_role_set db u)"

definition direct_perms :: "rbac_db \<Rightarrow> int \<Rightarrow> int \<Rightarrow> permission set" where
  "direct_perms db u repoID =
     (case tbl_find (\<lambda>_ c. co_repo c = repoID \<and> co_user c = u) (db_collabs db) of
        None \<Rightarrow> {} | Some (_, c) \<Rightarrow> set (ladderPermissions (co_permission c)))"

definition effective_spec :: "rbac_db \<Rightarrow> int \<Rightarrow> int \<Rightarrow> permission set" where
  "effective_spec db u repoID =
     (if repoID > 0 then direct_perms db u repoID else {}) \<union>
     (\<Union>r \<in> granted_roles db u repoID. set (role_perm_join db r))"

section \<open>The loops compute it\<close>

lemma userTeams_Ok: "userTeams db u = Ok ts \<Longrightarrow> set ts = user_team_set db u"
  by (force simp: userTeams_def user_team_set_def split: if_splits)

lemma collect_fresh:
  "collectTeamAncestors db i rs [] = Ok rs' \<Longrightarrow> tbl_wf (db_teams db) \<Longrightarrow> set rs' = set rs \<union> chain_roles db i"
  by (rule collectTeamAncestors_correct) auto

lemma collect_repo_teams_Ok:
  "collect_repo_teams db repoID tids rs = Ok rs' \<Longrightarrow> tbl_wf (db_teams db) \<Longrightarrow>
     set rs' = set rs \<union> (\<Union>t \<in> set tids. chain_roles db t) \<union>
       {r. \<exists>t \<in> set tids. team_repo_role db t repoID = Some r}"
proof (induction db repoID tids rs rule: collect_repo_teams.induct)
  case (2 db repoID tid tids rs)
  then obtain rs1 where rs1: "collectTeamAncestors db tid rs [] = Ok rs1"
    and rec: "collect_repo_teams db repoID tids (add_role (team_repo_role db tid repoID) rs1) = Ok rs'"
    by (auto split: sum.splits)
  from "2.IH" [OF rs1 rec "2.prems"(2)] collect_fresh [OF rs1 "2.prems"(2)]
  show ?case by (auto simp: set_add_role)
qed simp

lemma collect_org_teams_Ok:
  "collect_org_teams db tids rs = Ok rs' \<Longrightarrow> tbl_wf (db_teams db) \<Longrightarrow>
     set rs' = set rs \<union> (\<Union>t \<in> set tids. chain_roles db t)"
proof (induction db tids rs rule: collect_org_teams.induct)
  case (2 db tid tids rs)
  then obtain rs1 where rs1: "collectTeamAncestors db tid rs [] = Ok rs1"
    and rec: "collect_org_teams db tids rs1 = Ok rs'"
    by (auto split: sum.splits)
  from "2.IH" [OF rs1 rec "2.prems"(2)] collect_fresh [OF rs1 "2.prems"(2)] show ?case by auto
qed simp

lemma set_fold_insert: "set (fold List.insert xs ys) = set xs \<union> set ys"
  by (induction xs arbitrary: ys) auto

lemma org_member_roles_set: "set (org_member_roles db u) = member_role_set db u"
proof (intro equalityI subsetI)
  fix r
  assume "r \<in> set (org_member_roles db u)"
  then obtain i m where "(i, m) \<in> set (rows (db_org_members db))" "om_user m = u" "om_role m \<noteq> None" "r = the (om_role m)"
    by (auto simp: org_member_roles_def)
  then show "r \<in> member_role_set db u" by (auto simp: member_role_set_def)
next
  fix r
  assume "r \<in> member_role_set db u"
  then obtain i m where m: "(i, m) \<in> set (rows (db_org_members db))" "om_user m = u" "om_role m = Some r"
    by (auto simp: member_role_set_def)
  then have "(i, m) \<in> set (tbl_select (\<lambda>_ m. om_user m = u \<and> om_role m \<noteq> None) (db_org_members db))" by simp
  from imageI [OF this, of "\<lambda>(_, m). the (om_role m)"] m show "r \<in> set (org_member_roles db u)"
    by (simp add: org_member_roles_def)
qed

lemma add_role_permissions_Ok:
  "add_role_permissions db rids out = Ok out' \<Longrightarrow>
     set out' = set out \<union> (\<Union>r \<in> set rids. set (role_perm_join db r))"
proof (induction db rids out rule: add_role_permissions.induct)
  case (2 db rid rids out)
  then obtain ps where ps: "rolePermissions db rid = Ok ps"
    and rec: "add_role_permissions db rids (union_one out ps) = Ok out'"
    by (auto split: sum.splits)
  have "ps = role_perm_join db rid" using ps by (simp add: rolePermissions_def split: if_splits)
  with "2.IH" [OF ps rec] show ?case by (auto simp: set_union_one)
qed simp

lemma collectRepoRoleIDs_Ok:
  assumes "collectRepoRoleIDs db u repoID = Ok rs" and "tbl_wf (db_teams db)" and "repoID > 0"
  shows "set rs = granted_roles db u repoID"
proof -
  from assms(1) obtain ts where ts: "userTeams db u = Ok ts" and c: "collect_repo_teams db repoID ts [] = Ok rs"
    by (auto simp: collectRepoRoleIDs_def split: sum.splits)
  from collect_repo_teams_Ok [OF c assms(2)] userTeams_Ok [OF ts] assms(3) show ?thesis
    by (simp add: granted_roles_def)
qed

lemma collectOrgRoleIDs_Ok:
  assumes "collectOrgRoleIDs db u = Ok rs" and "tbl_wf (db_teams db)" and "\<not> repoID > 0"
  shows "set rs = granted_roles db u repoID"
proof -
  from assms(1) obtain ts rs1 where ts: "userTeams db u = Ok ts"
    and c: "collect_org_teams db ts [] = Ok rs1" and rs: "rs = fold List.insert (org_member_roles db u) rs1"
    by (auto simp: collectOrgRoleIDs_def split: sum.splits if_splits)
  from collect_org_teams_Ok [OF c assms(2)] userTeams_Ok [OF ts] assms(3) show ?thesis
    by (auto simp: granted_roles_def rs set_fold_insert org_member_roles_set)
qed

lemma EffectivePermissions_Ok:
  assumes ok: "EffectivePermissions db u repoID = Ok ps" and wf: "tbl_wf (db_teams db)"
  shows "set ps = effective_spec db u repoID"
proof (cases "repoID > 0")
  case True
  with ok obtain rs out where rs: "collectRepoRoleIDs db u repoID = Ok rs"
    and out: "applyDirectPermission db u repoID = Ok out" and p: "add_role_permissions db rs out = Ok ps"
    by (auto simp: EffectivePermissions_def split: sum.splits)
  have "set out = direct_perms db u repoID"
    using out by (auto simp: applyDirectPermission_def direct_perms_def split: if_splits option.splits)
  with True add_role_permissions_Ok [OF p] collectRepoRoleIDs_Ok [OF rs wf True] show ?thesis
    by (simp add: effective_spec_def)
next
  case False
  with ok obtain rs where rs: "collectOrgRoleIDs db u = Ok rs" and p: "add_role_permissions db rs [] = Ok ps"
    by (auto simp: EffectivePermissions_def split: sum.splits)
  with False add_role_permissions_Ok [OF p] collectOrgRoleIDs_Ok [OF rs wf False] show ?thesis
    by (simp add: effective_spec_def)
qed

section \<open>Evaluation returns\<close>

text \<open>No driver fault, teams form a forest, memberships refer to teams that exist.\<close>

definition healthy :: "rbac_db \<Rightarrow> bool" where
  "healthy db \<longleftrightarrow> (\<forall>t. \<not> db_faulty db t) \<and> forest db \<and>
     (\<forall>i m. (i, m) \<in> set (rows (db_team_members db)) \<longrightarrow>
        (\<exists>t. (mb_team m, t) \<in> set (rows (db_teams db))))"

lemma healthy_collect:
  "healthy db \<Longrightarrow> (i, t) \<in> set (rows (db_teams db)) \<Longrightarrow> \<exists>rs'. collectTeamAncestors db i rs [] = Ok rs'"
  by (rule collectTeamAncestors_total) (auto simp: healthy_def)

lemma healthy_repo_teams:
  "healthy db \<Longrightarrow> \<forall>i \<in> set tids. \<exists>t. (i, t) \<in> set (rows (db_teams db)) \<Longrightarrow>
     \<exists>rs'. collect_repo_teams db repoID tids rs = Ok rs'"
proof (induction db repoID tids rs rule: collect_repo_teams.induct)
  case (2 db repoID tid tids rs)
  then obtain rs1 where "collectTeamAncestors db tid rs [] = Ok rs1" using healthy_collect by fastforce
  with 2 show ?case by simp
qed simp

lemma healthy_org_teams:
  "healthy db \<Longrightarrow> \<forall>i \<in> set tids. \<exists>t. (i, t) \<in> set (rows (db_teams db)) \<Longrightarrow>
     \<exists>rs'. collect_org_teams db tids rs = Ok rs'"
proof (induction db tids rs rule: collect_org_teams.induct)
  case (2 db tid tids rs)
  then obtain rs1 where "collectTeamAncestors db tid rs [] = Ok rs1" using healthy_collect by fastforce
  with 2 show ?case by simp
qed simp

lemma healthy_userTeams:
  assumes "healthy db"
  shows "\<exists>ts. userTeams db u = Ok ts \<and> (\<forall>i \<in> set ts. \<exists>t. (i, t) \<in> set (rows (db_teams db)))"
  using assms by (fastforce simp: healthy_def userTeams_def)

lemma healthy_add_permissions: "healthy db \<Longrightarrow> \<exists>out'. add_role_permissions db rids out = Ok out'"
  by (induction rids arbitrary: out) (simp_all add: healthy_def rolePermissions_def)

lemma healthy_returns: "healthy db \<Longrightarrow> \<exists>ps. EffectivePermissions db u repoID = Ok ps"
proof -
  assume h: "healthy db"
  obtain ts where ts: "userTeams db u = Ok ts" "\<forall>i \<in> set ts. \<exists>t. (i, t) \<in> set (rows (db_teams db))"
    using healthy_userTeams [OF h] by blast
  obtain rs where "collect_repo_teams db repoID ts [] = Ok rs" using healthy_repo_teams [OF h ts(2)] by blast
  moreover obtain rs' where "collect_org_teams db ts [] = Ok rs'" using healthy_org_teams [OF h ts(2)] by blast
  moreover have "\<exists>out. applyDirectPermission db u repoID = Ok out"
    using h by (auto simp: applyDirectPermission_def healthy_def split: option.splits)
  moreover have "\<not> db_faulty db ''org_members''" using h by (simp add: healthy_def)
  ultimately show ?thesis
    using ts(1) healthy_add_permissions [OF h]
    by (auto simp: EffectivePermissions_def collectRepoRoleIDs_def collectOrgRoleIDs_def)
qed

section \<open>What the answer for a user depends on\<close>

definition user_view where
  "user_view db u =
     (db_faulty db, db_teams db, db_role_permissions db, db_permissions db, db_team_repos db,
      tbl_select (\<lambda>_ m. mb_user m = u) (db_team_members db),
      tbl_select (\<lambda>_ m. om_user m = u) (db_org_members db),
      tbl_select (\<lambda>_ c. co_user c = u) (db_collabs db))"

lemma find_filter: "(\<And>x. P x \<Longrightarrow> Q x) \<Longrightarrow> List.find P xs = List.find P (filter Q xs)"
  by (induction xs) auto

lemma tbl_find_select:
  "(\<And>i r. P i r \<Longrightarrow> Q i r) \<Longrightarrow> tbl_find P t = List.find (\<lambda>(i, r). P i r) (tbl_select Q t)"
  unfolding tbl_find_def tbl_select_def by (rule find_filter) auto

lemma tbl_select_select: "tbl_select (\<lambda>i r. P i r \<and> Q i r) t = filter (\<lambda>(i, r). Q i r) (tbl_select P t)"
  unfolding tbl_select_def filter_filter by (rule filter_cong) auto

lemma teamParent_cong:
  "db_teams db = db_teams db' \<Longrightarrow> db_faulty db = db_faulty db' \<Longrightarrow> teamParent db i = teamParent db' i"
  by (simp add: teamParent_def team_find_def)

lemma collectTeamAncestors_cong:
  "db_teams db = db_teams db' \<Longrightarrow> db_faulty db = db_faulty db' \<Longrightarrow>
     collectTeamAncestors db i rs visited = collectTeamAncestors db' i rs visited"
proof (induction db i rs visited rule: collectTeamAncestors.induct)
  case (1 db i rs visited)
  have role: "team_role db i = team_role db' i" using "1.prems" by (simp add: team_role_def team_find_def)
  note par = teamParent_cong [OF "1.prems", of i]
  show ?case
    using "1.IH" "1.prems" role par
    by (auto simp: collectTeamAncestors.simps [of db i rs visited] collectTeamAncestors.simps [of db' i rs visited]
        Let_def split: sum.splits)
qed

lemma collect_repo_teams_cong:
  "db_teams db = db_teams db' \<Longrightarrow> db_faulty db = db_faulty db' \<Longrightarrow> db_team_repos db = db_team_repos db' \<Longrightarrow>
     collect_repo_teams db repoID tids rs = collect_repo_teams db' repoID tids rs"
  by (induction tids arbitrary: rs)
    (simp_all add: collectTeamAncestors_cong [of db db'] team_repo_role_def split: sum.splits)

lemma collect_org_teams_cong:
  "db_teams db = db_teams db' \<Longrightarrow> db_faulty db = db_faulty db' \<Longrightarrow>
     collect_org_teams db tids rs = collect_org_teams db' tids rs"
  by (induction tids arbitrary: rs)
    (simp_all add: collectTeamAncestors_cong [of db db'] split: sum.splits)

lemma add_role_permissions_cong:
  "db_role_permissions db = db_role_permissions db' \<Longrightarrow> db_permissions db = db_permissions db' \<Longrightarrow>
   db_faulty db = db_faulty db' \<Longrightarrow> add_role_permissions db rids out = add_role_permissions db' rids out"
  by (induction rids arbitrary: out) (simp_all add: rolePermissions_def role_perm_join_def)

lemma evaluate_cong:
  assumes "user_view db u = user_view db' u"
  shows "evaluate db u req = evaluate db' u req"
proof -
  have eqs: "db_faulty db = db_faulty db'" "db_teams db = db_teams db'"
    "db_role_permissions db = db_role_permissions db'" "db_permissions db = db_permissions db'"
    "db_team_repos db = db_team_repos db'"
    and sel: "tbl_select (\<lambda>_ m. mb_user m = u) (db_team_members db) = tbl_select (\<lambda>_ m. mb_user m = u) (db_team_members db')"
    "tbl_select (\<lambda>_ m. om_user m = u) (db_org_members db) = tbl_select (\<lambda>_ m. om_user m = u) (db_org_members db')"
    "tbl_select (\<lambda>_ c. co_user c = u) (db_collabs db) = tbl_select (\<lambda>_ c. co_user c = u) (db_collabs db')"
    using assms by (auto simp: user_view_def)
  have "userTeams db u = userTeams db' u" using eqs sel by (simp add: userTeams_def)
  moreover have "org_member_roles db u = org_member_roles db' u"
    unfolding org_member_roles_def tbl_select_select using sel(2) by simp
  moreover have "tbl_find (\<lambda>_ c. co_repo c = repoID \<and> co_user c = u) (db_collabs db) =
      tbl_find (\<lambda>_ c. co_repo c = repoID \<and> co_user c = u) (db_collabs db')" for repoID
  proof -
    have "tbl_find (\<lambda>_ c. co_repo c = repoID \<and> co_user c = u) t =
        List.find (\<lambda>(i, c). co_repo c = repoID \<and> co_user c = u) (tbl_select (\<lambda>_ c. co_user c = u) t)"
      for t :: "collab_row table"
      by (rule tbl_find_select) simp
    with sel(3) show ?thesis by simp
  qed
  moreover have "collect_repo_teams db = collect_repo_teams db'" "collect_org_teams db = collect_org_teams db'"
    "add_role_permissions db = add_role_permissions db'"
    using eqs by (auto intro!: ext collect_repo_teams_cong collect_org_teams_cong add_role_permissions_cong)
  ultimately show ?thesis
    by (simp add: evaluate_def EffectivePermissions_def collectRepoRoleIDs_def collectOrgRoleIDs_def
        applyDirectPermission_def eqs(1) cong: sum.case_cong if_cong)
qed

section \<open>Cache keys\<close>

definition wf_req :: "requirement \<Rightarrow> bool" where
  "wf_req r \<longleftrightarrow> CHR '':'' \<notin> set (req_Resource r)"

definition key_owner :: "string \<Rightarrow> int" where
  "key_owner k =
     (let h = takeWhile (\<lambda>c. c \<noteq> CHR '':'') k
      in if h \<noteq> [] \<and> hd h = CHR ''-'' then - int (nat_val (tl h)) else int (nat_val h))"

lemma takeWhile_sep: "c \<notin> set xs \<Longrightarrow> takeWhile (\<lambda>x. x \<noteq> c) (xs @ c # ys) = xs"
  by (induction xs) auto

lemma key_owner_cacheKey [simp]: "key_owner (cacheKey u r) = u"
proof -
  have "takeWhile (\<lambda>c. c \<noteq> CHR '':'') (cacheKey u r) = FormatInt u"
    using takeWhile_sep [of "CHR '':''" "FormatInt u"] by (simp add: cacheKey_def)
  moreover have "\<not> (nat_str n \<noteq> [] \<and> hd (nat_str n) = CHR ''-'')" for n
    using nat_str_no_minus by (metis list.collapse)
  ultimately show ?thesis by (cases "u < 0") (auto simp: key_owner_def FormatInt_def Let_def)
qed

lemma cacheKey_inject:
  assumes "cacheKey u r = cacheKey v s" and "wf_req r" and "wf_req s"
  shows "u = v \<and> req_RepoID r = req_RepoID s \<and> req_Resource r = req_Resource s \<and> req_Action r = req_Action s"
proof -
  have "FormatInt u = FormatInt v \<and>
      FormatInt (req_RepoID r) @ '':'' @ req_Resource r @ '':'' @ req_Action r =
      FormatInt (req_RepoID s) @ '':'' @ req_Resource s @ '':'' @ req_Action s"
    using assms(1) by (intro append_sep_inject [of "CHR '':''"]) (simp_all add: cacheKey_def)
  moreover then have "FormatInt (req_RepoID r) = FormatInt (req_RepoID s) \<and>
      req_Resource r @ '':'' @ req_Action r = req_Resource s @ '':'' @ req_Action s"
    by (intro append_sep_inject [of "CHR '':''"]) simp_all
  moreover then have "req_Resource r = req_Resource s \<and> req_Action r = req_Action s"
    using assms(2,3) by (intro append_sep_inject [of "CHR '':''"]) (simp_all add: wf_req_def)
  ultimately show ?thesis by simp
qed

lemma evaluate_key:
  "cacheKey u r = cacheKey v s \<Longrightarrow> wf_req r \<Longrightarrow> wf_req s \<Longrightarrow> evaluate db u r = evaluate db v s"
  using cacheKey_inject [of u r v s] by (metis evaluate_def)

section \<open>The service with its cache\<close>

text \<open>A stored answer is true when it is the evaluation's answer for every request of its key.\<close>

definition truth :: "rbac_db \<Rightarrow> string \<Rightarrow> bool \<Rightarrow> bool" where
  "truth db k v \<longleftrightarrow> (\<forall>u r. wf_req r \<and> k = cacheKey u r \<longrightarrow> evaluate db u r = Ok v)"

definition service_inv :: "rbac_service \<Rightarrow> bool" where
  "service_inv s \<longleftrightarrow> cache_inv key_owner (rb_cache s) \<and> perm_dc.coherent (truth (rb_db s)) (rb_cache s)"

lemma truth_evaluate: "wf_req r \<Longrightarrow> evaluate db u r = Ok v \<Longrightarrow> truth db (cacheKey u r) v"
  unfolding truth_def using evaluate_key by metis

lemma New_inv: "service_inv (New db)"
  using newPermCache_inv [of key_owner 10000 "5 * minute"]
  by (simp add: service_inv_def New_def perm_dc.coherent_def stored_def newPermCache_def)

lemma Check_inv:
  assumes "service_inv s" and "wf_req req" and "dom (entry (rb_cache s)) \<subseteq> set order"
  shows "service_inv (snd (Check order now s u adm req))"
proof (cases adm)
  case True
  with assms show ?thesis by (simp add: Check_def)
next
  case False
  let ?k = "cacheKey u req"
  obtain hit c where g: "cache_get now ?k (rb_cache s) = (hit, c)" by (cases "cache_get now ?k (rb_cache s)")
  have inv: "cache_inv key_owner c" and coh: "perm_dc.coherent (truth (rb_db s)) c"
    using assms(1) cache_get_inv [of key_owner "rb_cache s" now ?k] perm_dc.coherent_get [of _ "rb_cache s" now ?k] g
    by (auto simp: service_inv_def)
  have dom: "dom (entry c) \<subseteq> set order"
    using assms(3) entry_cache_get [of now ?k "rb_cache s"] g by (fastforce simp: dom_def)
  show ?thesis
    using False g inv coh truth_evaluate [OF assms(2)] cache_set_inv [OF inv _ dom, of ?k u]
      perm_dc.coherent_put [OF coh]
    by (auto simp: Check_def service_inv_def split: option.splits sum.splits)
qed

lemma Check_answer:
  assumes "service_inv s" and "wf_req req"
  shows "fst (Check order now s u adm req) \<longleftrightarrow> adm \<or> evaluate (rb_db s) u req = Ok True"
proof (cases adm)
  case True
  then show ?thesis by (simp add: Check_def)
next
  case False
  let ?k = "cacheKey u req"
  obtain hit c where g: "cache_get now ?k (rb_cache s) = (hit, c)" by (cases "cache_get now ?k (rb_cache s)")
  show ?thesis
  proof (cases hit)
    case None
    with False g show ?thesis by (auto simp: Check_def split: sum.splits)
  next
    case (Some v)
    then have "truth (rb_db s) ?k v"
      using assms(1) g perm_dc.coherent_answer [of _ "rb_cache s" now ?k] by (auto simp: service_inv_def)
    then have "evaluate (rb_db s) u req = Ok v" using assms(2) by (auto simp: truth_def)
    with False g Some show ?thesis by (simp add: Check_def)
  qed
qed

lemma Check_db [simp]: "rb_db (snd (Check order now s u adm req)) = rb_db s"
  by (auto simp: Check_def Let_def split: prod.splits option.splits sum.splits)

text \<open>Dropping the whole cache allows any change of the tables, dropping a user any change of
  that user's view.\<close>

lemma service_inv_all: "service_inv s \<Longrightarrow> service_inv (s\<lparr>rb_db := db', rb_cache := invalidateAll (rb_cache s)\<rparr>)"
  by (simp add: service_inv_def invalidateAll_inv perm_dc.coherent_drop_all)

lemma service_inv_user:
  assumes inv: "service_inv s" and others: "\<And>v. v \<noteq> u \<Longrightarrow> user_view db' v = user_view (rb_db s) v"
  shows "service_inv (s\<lparr>rb_db := db', rb_cache := invalidateUser u (rb_cache s)\<rparr>)"
proof -
  have "truth db' k v" if "key_owner k \<noteq> u" "truth (rb_db s) k v" for k v
    unfolding truth_def
  proof (intro allI impI)
    fix w r
    assume wr: "wf_req r \<and> k = cacheKey w r"
    then have "w \<noteq> u" using that(1) by auto
    then have "evaluate db' w r = evaluate (rb_db s) w r" by (intro evaluate_cong others)
    then show "evaluate db' w r = Ok v" using that(2) wr by (auto simp: truth_def)
  qed
  then have "perm_dc.coherent (truth db') (invalidateUser u (rb_cache s))"
    using inv by (intro perm_dc.coherent_drop_user [where owner = key_owner and truth = "truth (rb_db s)"])
      (auto simp: service_inv_def)
  with inv show ?thesis by (simp add: service_inv_def invalidateUser_inv)
qed

end
