(* ===== verification/RbacManage.thy ===== *)
theory RbacManage
  imports RbacEval
begin

text \<open>
  \<open>internal/service/rbac/manage.go\<close>: custom roles, memberships, grants, branch rules and the
  audit log. A transaction that fails leaves the tables as they were; the audit row is written on a
  best-effort basis, and every change of what a user may do drops the cached decisions it can
  affect. The step relation \<open>rbac_step\<close> runs these operations, those of \<open>rbac.go\<close> and
  permission checks in any order; the invariant \<open>service_inv\<close> holds along every run.
\<close>

section \<open>Audit and custom roles\<close>

definition recordAudit :: "int \<Rightarrow> string \<Rightarrow> int \<Rightarrow> string \<Rightarrow> string \<Rightarrow> rbac_db \<Rightarrow> rbac_db" where
  "recordAudit actor ttype target action newv db =
     (if db_faulty db ''permission_audit'' then db
      else db\<lparr>db_audit := tbl_insert \<lparr>au_actor = actor, au_target_type = ttype, au_target = target,
                                        au_action = action, au_new = newv\<rparr> (db_audit db)\<rparr>)"

text \<open>The loop that links permissions inside a transaction: unknown permissions are skipped, a
  second link of the same permission violates \<open>UNIQUE (role_id, permission_id)\<close>.\<close>

fun link_permissions :: "rbac_db \<Rightarrow> int \<Rightarrow> permission list \<Rightarrow> rbac_error + rbac_db" where
  "link_permissions db rid [] = Ok db"
| "link_permissions db rid (p # ps) =
     (if db_faulty db ''permissions'' then Err ErrDriver
      else case permission_id db p of
        None \<Rightarrow> link_permissions db rid ps
      | Some pid \<Rightarrow>
          if db_faulty db ''role_permissions'' then Err ErrDriver
          else if tbl_exists (\<lambda>_ l. l = (rid, pid)) (db_role_permissions db) then Err ErrConstraint
          else link_permissions
                 (db\<lparr>db_role_permissions := tbl_insert (rid, pid) (db_role_permissions db)\<rparr>) rid ps)"

record create_role_params =
  cr_ActorID :: int
  cr_OrgID :: int
  cr_Name :: string
  cr_Permissions :: "permission list"
  cr_Scope :: string

definition insert_role :: "rbac_db \<Rightarrow> create_role_params \<Rightarrow> rbac_db" where
  "insert_role db p =
     db\<lparr>db_roles := tbl_insert \<lparr>ro_org = Some (cr_OrgID p), ro_name = cr_Name p, ro_builtin = False,
          ro_scope = (if cr_Scope p = [] then ''org'' else cr_Scope p)\<rparr> (db_roles db)\<rparr>"

definition CreateRole :: "rbac_service \<Rightarrow> create_role_params \<Rightarrow> (rbac_error + int) \<times> rbac_service" where
  "CreateRole s p =
     (let db = rb_db s in
      if db_faulty db ''roles'' then (Err ErrDriver, s)
      else if tbl_exists (\<lambda>_ r. ro_org r = Some (cr_OrgID p) \<and> ro_name r = cr_Name p) (db_roles db)
      then (Err ErrConstraint, s)
      else let db1 = insert_role db p; rid = seq (db_roles db1)
           in case link_permissions db1 rid (cr_Permissions p) of
                Inl e \<Rightarrow> (Err e, s)
              | Inr db2 \<Rightarrow>
                  (Ok rid, s\<lparr>rb_db := recordAudit (cr_ActorID p) ''role'' rid ''create'' (cr_Name p) db2,
                             rb_cache := invalidateAll (rb_cache s)\<rparr>))"

definition isBuiltinRole :: "rbac_db \<Rightarrow> int \<Rightarrow> rbac_error + bool" where
  "isBuiltinRole db roleID =
     (if db_faulty db ''roles'' then Err ErrDriver
      else case tbl_find (\<lambda>i _. i = roleID) (db_roles db) of
             None \<Rightarrow> Err ErrNotFound | Some (_, r) \<Rightarrow> Ok (ro_builtin r))"

definition permsString :: "permission list \<Rightarrow> string" where
  "permsString perms = join '','' (map Permission_String perms)"

definition drop_links :: "int \<Rightarrow> rbac_db \<Rightarrow> rbac_db" where
  "drop_links roleID db =
     db\<lparr>db_role_permissions := tbl_delete (\<lambda>_ l. fst l = roleID) (db_role_permissions db)\<rparr>"

definition SetRolePermissions ::
  "rbac_service \<Rightarrow> int \<Rightarrow> int \<Rightarrow> permission list \<Rightarrow> (rbac_error + unit) \<times> rbac_service" where
  "SetRolePermissions s actorID roleID perms =
     (let db = rb_db s in
      case isBuiltinRole db roleID of
        Inl e \<Rightarrow> (Err e, s)
      | Inr builtin \<Rightarrow>
          if builtin then (Err ErrBuiltinRole, s)
          else if db_faulty db ''role_permissions'' then (Err ErrDriver, s)
          else case link_permissions (drop_links roleID db) roleID perms of
                 Inl e \<Rightarrow> (Err e, s)
               | Inr db' \<Rightarrow>
                   (Ok (), s\<lparr>rb_db := recordAudit actorID ''role'' roleID ''set_permissions'' (permsString perms) db',
                             rb_cache := invalidateAll (rb_cache s)\<rparr>))"

definition DeleteRole :: "rbac_service \<Rightarrow> int \<Rightarrow> int \<Rightarrow> (rbac_error + unit) \<times> rbac_service" where
  "DeleteRole s actorID roleID =
     (let db = rb_db s in
      case isBuiltinRole db roleID of
        Inl e \<Rightarrow> (Err e, s)
      | Inr builtin \<Rightarrow>
          if builtin then (Err ErrBuiltinRole, s)
          else if db_faulty db ''role_permissions'' then (Err ErrDriver, s)
          else let db1 = drop_links roleID db;
                   db2 = db1\<lparr>db_roles := tbl_delete (\<lambda>i _. i = roleID) (db_roles db1)\<rparr>
               in (Ok (), s\<lparr>rb_db := recordAudit actorID ''role'' roleID ''delete'' [] db2,
                            rb_cache := invalidateAll (rb_cache s)\<rparr>))"

section \<open>Memberships and grants\<close>

text \<open>An \<open>INSERT\<close> that violates \<open>UNIQUE\<close> is followed by an \<open>UPDATE\<close> of the row.\<close>

definition upsert :: "('r \<Rightarrow> bool) \<Rightarrow> ('r \<Rightarrow> 'r) \<Rightarrow> 'r \<Rightarrow> 'r table \<Rightarrow> 'r table" where
  "upsert same upd r t =
     (if tbl_exists (\<lambda>_ x. same x) t then tbl_update (\<lambda>_ x. same x) upd t else tbl_insert r t)"

definition AddOrgMember ::
  "rbac_service \<Rightarrow> int \<Rightarrow> int \<Rightarrow> int \<Rightarrow> int option \<Rightarrow> string \<Rightarrow> (rbac_error + unit) \<times> rbac_service" where
  "AddOrgMember s actorID orgID userID roleID membership0 =
     (let db = rb_db s; membership = (if membership0 = [] then ''member'' else membership0) in
      if db_faulty db ''org_members'' then (Err ErrDriver, s)
      else let db' = db\<lparr>db_org_members :=
                 upsert (\<lambda>m. om_org m = orgID \<and> om_user m = userID)
                   (\<lambda>m. m\<lparr>om_role := roleID, om_membership := membership\<rparr>)
                   \<lparr>om_org = orgID, om_user = userID, om_role = roleID, om_membership = membership\<rparr>
                   (db_org_members db)\<rparr>
           in (Ok (), s\<lparr>rb_db := recordAudit actorID ''org_member'' userID ''add'' membership db',
                        rb_cache := invalidateUser userID (rb_cache s)\<rparr>))"

definition RemoveOrgMember :: "rbac_service \<Rightarrow> int \<Rightarrow> int \<Rightarrow> int \<Rightarrow> (rbac_error + unit) \<times> rbac_service" where
  "RemoveOrgMember s actorID orgID userID =
     (let db = rb_db s in
      if db_faulty db ''org_members'' then (Err ErrDriver, s)
      else let db' = db\<lparr>db_org_members :=
                 tbl_delete (\<lambda>_ m. om_org m = orgID \<and> om_user m = userID) (db_org_members db)\<rparr>
           in (Ok (), s\<lparr>rb_db := recordAudit actorID ''org_member'' userID ''remove'' [] db',
                        rb_cache := invalidateUser userID (rb_cache s)\<rparr>))"

definition AddTeamMember ::
  "rbac_service \<Rightarrow> int \<Rightarrow> int \<Rightarrow> int \<Rightarrow> string \<Rightarrow> (rbac_error + unit) \<times> rbac_service" where
  "AddTeamMember s actorID teamID userID role0 =
     (let db = rb_db s; role = (if role0 = [] then ''member'' else role0) in
      if db_faulty db ''team_members'' then (Err ErrDriver, s)
      else let db' = db\<lparr>db_team_members :=
                 tbl_insert \<lparr>mb_team = teamID, mb_user = userID, mb_role = role\<rparr> (db_team_members db)\<rparr>
           in (Ok (), s\<lparr>rb_db := recordAudit actorID ''team_member'' userID ''add'' role db',
                        rb_cache := invalidateUser userID (rb_cache s)\<rparr>))"

definition RemoveTeamMember :: "rbac_service \<Rightarrow> int \<Rightarrow> int \<Rightarrow> int \<Rightarrow> (rbac_error + unit) \<times> rbac_service" where
  "RemoveTeamMember s actorID teamID userID =
     (let db = rb_db s in
      if db_faulty db ''team_members'' then (Err ErrDriver, s)
      else let db' = db\<lparr>db_team_members :=
                 tbl_delete (\<lambda>_ m. mb_team m = teamID \<and> mb_user m = userID) (db_team_members db)\<rparr>
           in (Ok (), s\<lparr>rb_db := recordAudit actorID ''team_member'' userID ''remove'' [] db',
                        rb_cache := invalidateUser userID (rb_cache s)\<rparr>))"

definition GrantTeamRepo ::
  "rbac_service \<Rightarrow> int \<Rightarrow> int \<Rightarrow> int \<Rightarrow> int option \<Rightarrow> string \<Rightarrow> (rbac_error + unit) \<times> rbac_service" where
  "GrantTeamRepo s actorID teamID repoID roleID permission0 =
     (let db = rb_db s; permission = (if permission0 = [] then ''read'' else permission0) in
      if db_faulty db ''team_repos'' then (Err ErrDriver, s)
      else let db' = db\<lparr>db_team_repos :=
                 upsert (\<lambda>g. tr_team g = teamID \<and> tr_repo g = repoID)
                   (\<lambda>g. g\<lparr>tr_role := roleID, tr_permission := permission\<rparr>)
                   \<lparr>tr_team = teamID, tr_repo = repoID, tr_role = roleID, tr_permission = permission\<rparr>
                   (db_team_repos db)\<rparr>
           in (Ok (), s\<lparr>rb_db := recordAudit actorID ''team_repo'' repoID ''grant'' permission db',
                        rb_cache := invalidateAll (rb_cache s)\<rparr>))"

text \<open>The permissions a user holds through organization roles, the \<open>SELECT DISTINCT\<close> join.\<close>

definition rolePermissionsForUser :: "rbac_db \<Rightarrow> int \<Rightarrow> int \<Rightarrow> rbac_error + permission list" where
  "rolePermissionsForUser db userID orgID =
     (if db_faulty db ''org_members'' \<or> db_faulty db ''role_permissions'' \<or> db_faulty db ''permissions''
      then Err ErrDriver
      else Ok (remdups (concat (map (\<lambda>(_, m). case om_role m of None \<Rightarrow> [] | Some r \<Rightarrow> role_perm_join db r)
                 (tbl_select (\<lambda>_ m. om_user m = userID \<and> om_org m = orgID) (db_org_members db))))))"

definition validateRoleForRepo :: "rbac_db \<Rightarrow> int \<Rightarrow> int \<Rightarrow> int \<Rightarrow> rbac_error + unit" where
  "validateRoleForRepo db actorID repoID roleID =
     (if db_faulty db ''roles'' then Err ErrDriver
      else case tbl_find (\<lambda>i _. i = roleID) (db_roles db) of
        None \<Rightarrow> Err ErrRoleNotFound
      | Some (_, role) \<Rightarrow>
          if db_faulty db ''repos'' then Err ErrDriver
          else case map_of (db_repo_org db) repoID of
            None \<Rightarrow> Err ErrNoRows
          | Some repoOrg \<Rightarrow>
              (case (ro_org role, repoOrg) of
                 (Some ro, Some po) \<Rightarrow>
                   if ro \<noteq> po then Err ErrRoleScope
                   else (case rolePermissions db roleID of
                     Inl e \<Rightarrow> Err e
                   | Inr rolePerms \<Rightarrow>
                       (case rolePermissionsForUser db actorID po of
                          Inl e \<Rightarrow> Err e
                        | Inr actorPerms \<Rightarrow>
                            if list_all (\<lambda>p. Permission_String p \<in> set (map Permission_String actorPerms)) rolePerms
                            then Ok () else Err ErrPrivilegeEscalation))
               | _ \<Rightarrow> Err ErrRoleScope))"

definition SetCollaborator ::
  "rbac_service \<Rightarrow> int \<Rightarrow> int \<Rightarrow> int \<Rightarrow> int option \<Rightarrow> string \<Rightarrow> (rbac_error + unit) \<times> rbac_service" where
  "SetCollaborator s actorID repoID userID roleID permission0 =
     (let db = rb_db s; permission = (if permission0 = [] then ''read'' else permission0) in
      case (case roleID of None \<Rightarrow> Ok () | Some r \<Rightarrow> validateRoleForRepo db actorID repoID r) of
        Inl e \<Rightarrow> (Err e, s)
      | Inr _ \<Rightarrow>
          if db_faulty db ''repo_collaborators'' then (Err ErrDriver, s)
          else let db' = db\<lparr>db_collabs :=
                     upsert (\<lambda>c. co_repo c = repoID \<and> co_user c = userID)
                       (\<lambda>c. c\<lparr>co_role := roleID, co_permission := permission\<rparr>)
                       \<lparr>co_repo = repoID, co_user = userID, co_role = roleID, co_permission = permission\<rparr>
                       (db_collabs db)\<rparr>
               in (Ok (), s\<lparr>rb_db := recordAudit actorID ''repo_collaborator'' userID ''set'' permission db',
                            rb_cache := invalidateUser userID (rb_cache s)\<rparr>))"

definition RemoveCollaborator :: "rbac_service \<Rightarrow> int \<Rightarrow> int \<Rightarrow> int \<Rightarrow> (rbac_error + unit) \<times> rbac_service" where
  "RemoveCollaborator s actorID repoID userID =
     (let db = rb_db s in
      if db_faulty db ''repo_collaborators'' then (Err ErrDriver, s)
      else let db' = db\<lparr>db_collabs :=
                 tbl_delete (\<lambda>_ c. co_repo c = repoID \<and> co_user c = userID) (db_collabs db)\<rparr>
           in (Ok (), s\<lparr>rb_db := recordAudit actorID ''repo_collaborator'' userID ''remove'' [] db',
                        rb_cache := invalidateUser userID (rb_cache s)\<rparr>))"

section \<open>Branch rules and ownership\<close>

definition AddBranchRule :: "rbac_service \<Rightarrow> int \<Rightarrow> branch_rule \<Rightarrow> (rbac_error + int) \<times> rbac_service" where
  "AddBranchRule s actorID r =
     (let db = rb_db s in
      if db_faulty db ''branch_protection_rules'' then (Err ErrDriver, s)
      else let db' = db\<lparr>db_branch_rules := tbl_insert r (db_branch_rules db)\<rparr>;
               rid = seq (db_branch_rules db')
           in (Ok rid, s\<lparr>rb_db := recordAudit actorID ''branch_rule'' rid ''add'' (bp_pattern r) db'\<rparr>))"

definition ListBranchRules :: "rbac_db \<Rightarrow> int \<Rightarrow> rbac_error + (int \<times> branch_rule) list" where
  "ListBranchRules db repoID =
     (if db_faulty db ''branch_protection_rules'' then Err ErrDriver
      else Ok (tbl_select (\<lambda>_ r. bp_repo r = repoID) (db_branch_rules db)))"

definition IsOrgOwner :: "rbac_db \<Rightarrow> int \<Rightarrow> int \<Rightarrow> rbac_error + bool" where
  "IsOrgOwner db orgID userID =
     (if db_faulty db ''orgs'' then Err ErrDriver
      else case map_of (db_org_owner db) orgID of None \<Rightarrow> Err ErrNotFound | Some owner \<Rightarrow> Ok (owner = userID))"

section \<open>Runs of the service\<close>

inductive rbac_step :: "rbac_service \<Rightarrow> rbac_service \<Rightarrow> bool" where
  check: "wf_req req \<Longrightarrow> set order = dom (entry (rb_cache s)) \<Longrightarrow>
     rbac_step s (snd (Check order now s u adm req))"
| create_team: "rbac_step s (snd (CreateTeam s p))"
| reparent_team: "rbac_step s (snd (ReparentTeam s tid np))"
| create_role: "rbac_step s (snd (CreateRole s rp))"
| set_role_permissions: "rbac_step s (snd (SetRolePermissions s actor rid perms))"
| delete_role: "rbac_step s (snd (DeleteRole s actor rid))"
| add_org_member: "rbac_step s (snd (AddOrgMember s actor org u role m))"
| remove_org_member: "rbac_step s (snd (RemoveOrgMember s actor org u))"
| add_team_member: "rbac_step s (snd (AddTeamMember s actor tid u m))"
| remove_team_member: "rbac_step s (snd (RemoveTeamMember s actor tid u))"
| grant_team_repo: "rbac_step s (snd (GrantTeamRepo s actor tid repo role m))"
| set_collaborator: "rbac_step s (snd (SetCollaborator s actor repo u role m))"
| remove_collaborator: "rbac_step s (snd (RemoveCollaborator s actor repo u))"
| add_branch_rule: "rbac_step s (snd (AddBranchRule s actor br))"
| invalidate_user: "rbac_step s (InvalidateUser u s)"
| invalidate_all: "rbac_step s (InvalidateAll s)"

inductive rbac_reachable :: "rbac_service \<Rightarrow> bool" where
  start: "rbac_reachable (New db)"
| step: "rbac_reachable s \<Longrightarrow> rbac_step s t \<Longrightarrow> rbac_reachable t"

section \<open>The operations keep the cache coherent\<close>

lemma recordAudit_fields [simp]:
  "db_permissions (recordAudit a t i c v db) = db_permissions db"
  "db_roles (recordAudit a t i c v db) = db_roles db"
  "db_role_permissions (recordAudit a t i c v db) = db_role_permissions db"
  "db_teams (recordAudit a t i c v db) = db_teams db"
  "db_team_members (recordAudit a t i c v db) = db_team_members db"
  "db_org_members (recordAudit a t i c v db) = db_org_members db"
  "db_team_repos (recordAudit a t i c v db) = db_team_repos db"
  "db_collabs (recordAudit a t i c v db) = db_collabs db"
  "db_branch_rules (recordAudit a t i c v db) = db_branch_rules db"
  "db_repo_org (recordAudit a t i c v db) = db_repo_org db"
  "db_faulty (recordAudit a t i c v db) = db_faulty db"
  by (simp_all add: recordAudit_def)

lemma user_view_recordAudit [simp]: "user_view (recordAudit a t i c v db) u = user_view db u"
  by (simp add: user_view_def)

lemma select_upsert_other:
  "(\<And>x. same x \<Longrightarrow> \<not> P x \<and> \<not> P (upd x)) \<Longrightarrow> \<not> P r \<Longrightarrow>
     tbl_select (\<lambda>_. P) (upsert same upd r t) = tbl_select (\<lambda>_. P) t"
  by (simp add: upsert_def select_insert select_update_other)

lemmas service_ops =
  AddOrgMember_def RemoveOrgMember_def AddTeamMember_def RemoveTeamMember_def
  SetCollaborator_def RemoveCollaborator_def

lemmas all_ops = CreateTeam_def ReparentTeam_def CreateRole_def SetRolePermissions_def DeleteRole_def
  GrantTeamRepo_def

lemma member_ops_inv:
  assumes "service_inv s"
  shows "service_inv (snd (AddOrgMember s a g u r m))" "service_inv (snd (RemoveOrgMember s a g u))"
    "service_inv (snd (AddTeamMember s a g u m))" "service_inv (snd (RemoveTeamMember s a g u))"
    "service_inv (snd (SetCollaborator s a g u r m))" "service_inv (snd (RemoveCollaborator s a g u))"
  using assms
  by (auto simp: service_ops Let_def split: sum.splits intro!: service_inv_user)
    (auto simp: user_view_def select_insert intro!: select_upsert_other select_delete_other)

lemma global_ops_inv:
  assumes "service_inv s"
  shows "service_inv (snd (CreateTeam s p))" "service_inv (snd (ReparentTeam s i q))"
    "service_inv (snd (CreateRole s cp))" "service_inv (snd (SetRolePermissions s a r ps))"
    "service_inv (snd (DeleteRole s a r))" "service_inv (snd (GrantTeamRepo s a t rp ro m))"
  using assms by (auto simp: all_ops Let_def split: sum.splits option.splits intro!: service_inv_all)

lemma AddBranchRule_inv: "service_inv s \<Longrightarrow> service_inv (snd (AddBranchRule s a br))"
proof -
  assume inv: "service_inv s"
  let ?db = "rb_db (snd (AddBranchRule s a br))"
  have "user_view ?db v = user_view (rb_db s) v" for v
    by (simp add: AddBranchRule_def Let_def user_view_def)
  then have "evaluate ?db v r = evaluate (rb_db s) v r" for v r by (rule evaluate_cong)
  then have "truth ?db = truth (rb_db s)" by (simp add: truth_def fun_eq_iff)
  moreover have "rb_cache (snd (AddBranchRule s a br)) = rb_cache s" by (simp add: AddBranchRule_def Let_def)
  ultimately show ?thesis using inv by (simp add: service_inv_def)
qed

lemma rbac_step_inv: "rbac_step s t \<Longrightarrow> service_inv s \<Longrightarrow> service_inv t"
proof (induction rule: rbac_step.induct)
  case (check req order s now u adm)
  then show ?case by (intro Check_inv) auto
next
  case (invalidate_user s u)
  then show ?case using service_inv_user [of s u "rb_db s"] by (simp add: InvalidateUser_def)
next
  case (invalidate_all s)
  then show ?case using service_inv_all [of s "rb_db s"] by (simp add: InvalidateAll_def)
qed (simp_all add: member_ops_inv global_ops_inv AddBranchRule_inv)

lemma rbac_reachable_inv: "rbac_reachable s \<Longrightarrow> service_inv s"
  by (induction rule: rbac_reachable.induct) (auto simp: New_inv rbac_step_inv)

end
