(* ===== verification/RbacProps.thy ===== *)
theory RbacProps
  imports RbacManage
begin

text \<open>
  The properties of the permission service: soundness of cached checks along every run, the exact
  meaning of evaluation, the team forest, the ladder of roles, seeding, role protection, and two
  behaviours the code does not intend (a subtree moved too deep, a team role that reaches into
  repositories of other organizations).
\<close>

section \<open>Lemmas on seeding and links\<close>

lemma permission_id_Some: "permission_id db p = Some i \<Longrightarrow> (i, p) \<in> set (rows (db_permissions db))"
  by (auto simp: permission_id_def dest: tbl_find_Some)

lemma role_perm_join_iff:
  "p \<in> set (role_perm_join db r) \<longleftrightarrow>
     (\<exists>j i. (j, (r, i)) \<in> set (rows (db_role_permissions db)) \<and> (i, p) \<in> set (rows (db_permissions db)))"
proof
  assume "p \<in> set (role_perm_join db r)"
  then show "\<exists>j i. (j, (r, i)) \<in> set (rows (db_role_permissions db)) \<and> (i, p) \<in> set (rows (db_permissions db))"
    by (auto simp: role_perm_join_def) blast
next
  assume "\<exists>j i. (j, (r, i)) \<in> set (rows (db_role_permissions db)) \<and> (i, p) \<in> set (rows (db_permissions db))"
  then obtain j i where "(j, (r, i)) \<in> set (tbl_select (\<lambda>_ l. fst l = r) (db_role_permissions db))"
    and "(i, p) \<in> set (tbl_select (\<lambda>k _. k = i) (db_permissions db))" by auto
  then show "p \<in> set (role_perm_join db r)"
    unfolding role_perm_join_def by (force simp del: set_select)
qed

lemma role_perm_join_cong:
  "tbl_select (\<lambda>_ l. fst l = r) (db_role_permissions db) = tbl_select (\<lambda>_ l. fst l = r) (db_role_permissions db') \<Longrightarrow>
   db_permissions db = db_permissions db' \<Longrightarrow> role_perm_join db r = role_perm_join db' r"
  by (simp add: role_perm_join_def)

lemma link_permissions_Ok:
  "link_permissions db rid ps = Ok db' \<Longrightarrow>
     db_roles db' = db_roles db \<and> db_permissions db' = db_permissions db \<and>
     (\<forall>r. r \<noteq> rid \<longrightarrow> tbl_select (\<lambda>_ l. fst l = r) (db_role_permissions db') =
                     tbl_select (\<lambda>_ l. fst l = r) (db_role_permissions db))"
  by (induction db rid ps rule: link_permissions.induct)
    (auto simp: select_insert split: if_splits option.splits)

lemma permission_id_exists:
  "p \<in> vals (db_permissions db) \<Longrightarrow> \<exists>i. permission_id db p = Some i"
  by (cases "tbl_find (\<lambda>_ q. q = p) (db_permissions db)") (auto simp: permission_id_def tbl_find_None)

lemma seed_permissions_Ok:
  "\<forall>t. \<not> db_faulty db t \<Longrightarrow>
     \<exists>db'. seed_permissions db ps = Ok db' \<and> (\<forall>t. \<not> db_faulty db' t) \<and>
       set ps \<union> vals (db_permissions db) \<subseteq> vals (db_permissions db')"
proof (induction ps arbitrary: db)
  case Nil
  then show ?case by simp
next
  case (Cons p ps)
  let ?db = "if permission_id db p = None then db\<lparr>db_permissions := tbl_insert p (db_permissions db)\<rparr> else db"
  have "\<forall>t. \<not> db_faulty ?db t" using Cons.prems by simp
  from Cons.IH [OF this] obtain db' where db': "seed_permissions ?db ps = Ok db'" "\<forall>t. \<not> db_faulty db' t"
    "set ps \<union> vals (db_permissions ?db) \<subseteq> vals (db_permissions db')" by blast
  have "insert p (vals (db_permissions db)) \<subseteq> vals (db_permissions ?db)"
    by (auto dest: permission_id_Some)
  with db' Cons.prems show ?case by auto
qed

lemma seed_links_Ok:
  "\<forall>t. \<not> db_faulty db t \<Longrightarrow>
     (\<forall>t. \<not> db_faulty (seed_links db rid ps) t) \<and>
     db_permissions (seed_links db rid ps) = db_permissions db \<and> db_roles (seed_links db rid ps) = db_roles db \<and>
     vals (db_role_permissions db) \<subseteq> vals (db_role_permissions (seed_links db rid ps)) \<and>
     (\<forall>p \<in> set ps. \<forall>i. permission_id db p = Some i \<longrightarrow>
        (rid, i) \<in> vals (db_role_permissions (seed_links db rid ps)))"
proof (induction ps arbitrary: db)
  case Nil
  then show ?case by simp
next
  case (Cons p ps)
  show ?case
  proof (cases "permission_id db p")
    case None
    with Cons show ?thesis by auto
  next
    case (Some i)
    show ?thesis
    proof (cases "tbl_exists (\<lambda>_ l. l = (rid, i)) (db_role_permissions db)")
      case True
      then have "(rid, i) \<in> vals (db_role_permissions db)" by (auto simp: tbl_exists_vals)
      with Cons.IH [OF Cons.prems] Some True Cons.prems show ?thesis by auto
    next
      case False
      let ?db = "db\<lparr>db_role_permissions := tbl_insert (rid, i) (db_role_permissions db)\<rparr>"
      have f: "\<forall>t. \<not> db_faulty ?db t" using Cons.prems by simp
      have s: "seed_links db rid (p # ps) = seed_links ?db rid ps" using Some False Cons.prems by simp
      have pid: "permission_id ?db q = permission_id db q" for q by (simp add: permission_id_def)
      have mem: "(rid, i) \<in> vals (db_role_permissions ?db)" by simp
      show ?thesis unfolding s using Cons.IH [OF f] mem Some pid by auto
    qed
  qed
qed

lemma seed_role_perms:
  assumes "\<forall>p \<in> set ps. p \<in> vals (db_permissions db)"
    and "\<forall>p \<in> set ps. \<forall>i. permission_id db p = Some i \<longrightarrow> (r, i) \<in> vals (db_role_permissions db)"
  shows "set ps \<subseteq> set (role_perm_join db r)"
proof
  fix p
  assume p: "p \<in> set ps"
  then obtain i where i: "permission_id db p = Some i" using assms(1) permission_id_exists by blast
  then obtain j where "(j, (r, i)) \<in> set (rows (db_role_permissions db))" using assms(2) p by (meson valsE)
  with permission_id_Some [OF i] show "p \<in> set (role_perm_join db r)" unfolding role_perm_join_iff by blast
qed

text \<open>A role of the ladder is present with at least its permissions.\<close>

definition role_seeded :: "rbac_db \<Rightarrow> builtin_role \<Rightarrow> bool" where
  "role_seeded db r \<longleftrightarrow> (\<exists>i x. (i, x) \<in> set (rows (db_roles db)) \<and> ro_org x = None \<and> ro_name x = br_Name r \<and>
     set (br_Permissions r) \<subseteq> set (role_perm_join db i))"

lemma role_seeded_mono:
  assumes "role_seeded db r" and "set (rows (db_roles db)) \<subseteq> set (rows (db_roles db'))"
    and "db_permissions db' = db_permissions db"
    and "vals (db_role_permissions db) \<subseteq> vals (db_role_permissions db')"
  shows "role_seeded db' r"
proof -
  have "set (role_perm_join db i) \<subseteq> set (role_perm_join db' i)" for i
  proof
    fix p
    assume "p \<in> set (role_perm_join db i)"
    then obtain j k where "(j, (i, k)) \<in> set (rows (db_role_permissions db))" "(k, p) \<in> set (rows (db_permissions db))"
      by (auto simp: role_perm_join_iff)
    moreover from this have "(i, k) \<in> vals (db_role_permissions db')" using assms(4) by blast
    ultimately show "p \<in> set (role_perm_join db' i)" unfolding role_perm_join_iff assms(3) by (meson valsE)
  qed
  with assms(1,2) show ?thesis unfolding role_seeded_def by blast
qed

lemma seedRole_Ok:
  assumes f: "\<forall>t. \<not> db_faulty db t"
    and ps: "\<forall>p \<in> set (br_Permissions r). p \<in> vals (db_permissions db)"
  shows "\<exists>db'. seedRole db r = Ok db' \<and> (\<forall>t. \<not> db_faulty db' t) \<and> db_permissions db' = db_permissions db \<and>
    set (rows (db_roles db)) \<subseteq> set (rows (db_roles db')) \<and>
    vals (db_role_permissions db) \<subseteq> vals (db_role_permissions db') \<and> role_seeded db' r"
proof -
  define found where "found = tbl_find (\<lambda>_ x. ro_org x = None \<and> ro_name x = br_Name r) (db_roles db)"
  define db1 where "db1 = (if found = None then db\<lparr>db_roles := tbl_insert \<lparr>ro_org = None, ro_name = br_Name r,
      ro_builtin = True, ro_scope = ''repo''\<rparr> (db_roles db)\<rparr> else db)"
  define rid where "rid = (case found of None \<Rightarrow> seq (db_roles db1) | Some (i, _) \<Rightarrow> i)"
  let ?db' = "seed_links db1 rid (br_Permissions r)"
  have res: "seedRole db r = Ok ?db'"
    using f unfolding seedRole_def found_def [symmetric]
    by (cases found) (auto simp: db1_def rid_def Let_def)
  have f1: "\<forall>t. \<not> db_faulty db1 t" using f by (simp add: db1_def)
  have same: "db_permissions db1 = db_permissions db" "db_role_permissions db1 = db_role_permissions db"
    and roles: "set (rows (db_roles db)) \<subseteq> set (rows (db_roles db1))"
    by (auto simp: db1_def)
  have row: "\<exists>x. (rid, x) \<in> set (rows (db_roles db1)) \<and> ro_org x = None \<and> ro_name x = br_Name r"
  proof (cases found)
    case None
    then have "rid = seq (db_roles db) + 1" and "db1 = db\<lparr>db_roles := tbl_insert \<lparr>ro_org = None, ro_name = br_Name r,
        ro_builtin = True, ro_scope = ''repo''\<rparr> (db_roles db)\<rparr>" by (simp_all add: rid_def db1_def)
    then show ?thesis by (intro exI [of _ "\<lparr>ro_org = None, ro_name = br_Name r, ro_builtin = True, ro_scope = ''repo''\<rparr>"]) simp
  next
    case (Some ix)
    then obtain i x where ix: "found = Some (i, x)" by (cases ix) simp
    then have "(i, x) \<in> set (rows (db_roles db)) \<and> ro_org x = None \<and> ro_name x = br_Name r"
      unfolding found_def by (rule tbl_find_Some)
    with ix show ?thesis by (intro exI [of _ x]) (simp add: rid_def db1_def)
  qed
  note links = seed_links_Ok [OF f1, of rid "br_Permissions r"]
  have pid: "permission_id ?db' p = permission_id db1 p" for p using links by (simp add: permission_id_def)
  have "set (br_Permissions r) \<subseteq> set (role_perm_join ?db' rid)"
    using links ps same pid by (intro seed_role_perms) auto
  then have "role_seeded ?db' r" using row links unfolding role_seeded_def by metis
  with res links same roles show ?thesis by auto
qed

lemma seed_roles_Ok:
  "\<forall>t. \<not> db_faulty db t \<Longrightarrow>
   \<forall>r \<in> set rs. \<forall>p \<in> set (br_Permissions r). p \<in> vals (db_permissions db) \<Longrightarrow>
     \<exists>db'. seed_roles db rs = Ok db' \<and> (\<forall>r \<in> set rs. role_seeded db' r) \<and>
       db_permissions db' = db_permissions db \<and> set (rows (db_roles db)) \<subseteq> set (rows (db_roles db')) \<and>
       vals (db_role_permissions db) \<subseteq> vals (db_role_permissions db')"
proof (induction rs arbitrary: db)
  case Nil
  then show ?case by simp
next
  case (Cons r rs)
  have "\<forall>p \<in> set (br_Permissions r). p \<in> vals (db_permissions db)" using Cons.prems(2) by simp
  from seedRole_Ok [OF Cons.prems(1) this] obtain db1 where d1: "seedRole db r = Ok db1" "\<forall>t. \<not> db_faulty db1 t"
    "db_permissions db1 = db_permissions db" "set (rows (db_roles db)) \<subseteq> set (rows (db_roles db1))"
    "vals (db_role_permissions db) \<subseteq> vals (db_role_permissions db1)" "role_seeded db1 r"
    by blast
  have "\<forall>r \<in> set rs. \<forall>p \<in> set (br_Permissions r). p \<in> vals (db_permissions db1)"
    using Cons.prems(2) d1(3) by simp
  from Cons.IH [OF d1(2) this] obtain db2 where d2: "seed_roles db1 rs = Ok db2" "\<forall>r \<in> set rs. role_seeded db2 r"
    "db_permissions db2 = db_permissions db1" "set (rows (db_roles db1)) \<subseteq> set (rows (db_roles db2))"
    "vals (db_role_permissions db1) \<subseteq> vals (db_role_permissions db2)" by blast
  have "role_seeded db2 r" using role_seeded_mono [OF d1(6) d2(4,3,5)] .
  with d1 d2 show ?case by auto
qed

lemma builtin_perms_of_roles: "r \<in> set BuiltinRoles \<Longrightarrow> set (br_Permissions r) \<subseteq> set BuiltinPermissions"
  using BuiltinRoles_ladder [of r] ladder_builtin [of "br_Name r"] by simp

section \<open>Example databases\<close>

definition tbl_of :: "'r list \<Rightarrow> 'r table" where
  "tbl_of rs = fold tbl_insert rs empty_table"

definition team_in :: "int \<Rightarrow> int option \<Rightarrow> int option \<Rightarrow> team_row" where
  "team_in org parent role =
     \<lparr>tm_org = org, tm_name = ''team'', tm_description = [], tm_permission = ''read'',
      tm_parent = parent, tm_role = role\<rparr>"

text \<open>Two chains in one organization: 4 below 3 below 2 below 1, and 6 below 5.\<close>

definition deep_db :: rbac_db where
  "deep_db = (empty_db (\<lambda>_. False))\<lparr>db_teams := tbl_of
     [team_in 1 None None, team_in 1 (Some 1) None, team_in 1 (Some 2) None, team_in 1 (Some 3) None,
      team_in 1 None None, team_in 1 (Some 5) None]\<rparr>"

text \<open>Team 1 of organization 10 carries a role that may administer repositories; user 7 is in
  the team. Repository 99 belongs to organization 20, repository 98 to organization 10.\<close>

definition org_db :: rbac_db where
  "org_db = (empty_db (\<lambda>_. False))\<lparr>
     db_permissions := tbl_of [perm ''repo'' ''admin''],
     db_roles := tbl_of [\<lparr>ro_org = Some 10, ro_name = ''ops'', ro_builtin = False, ro_scope = ''org''\<rparr>],
     db_role_permissions := tbl_of [(1, 1)],
     db_teams := tbl_of [team_in 10 None (Some 1)],
     db_team_members := tbl_of [\<lparr>mb_team = 1, mb_user = 7, mb_role = ''member''\<rparr>],
     db_org_members := tbl_of [\<lparr>om_org = 10, om_user = 3, om_role = Some 1, om_membership = ''owner''\<rparr>],
     db_repo_org := [(99, Some 20), (98, Some 10)]\<rparr>"

definition admin_req :: requirement where
  "admin_req = \<lparr>req_Resource = ''repo'', req_Action = ''admin'', req_RepoID = 99, req_OrgID = 20\<rparr>"

lemma rows_tbl_of [simp]: "rows (tbl_of []) = []" "seq (tbl_of []) = 0"
  by (simp_all add: tbl_of_def)

lemmas fixture_defs = tbl_of_def team_in_def empty_db_def perm_def

lemma deep_rows:
  "rows (db_teams deep_db) =
     [(1, team_in 1 None None), (2, team_in 1 (Some 1) None), (3, team_in 1 (Some 2) None),
      (4, team_in 1 (Some 3) None), (5, team_in 1 None None), (6, team_in 1 (Some 5) None)]"
  by (simp add: deep_db_def tbl_of_def)

lemma deep_seq: "seq (db_teams deep_db) = 6"
  by (simp add: deep_db_def tbl_of_def)

lemma up_Bex: "(i, p) \<in> up db \<longleftrightarrow> (\<exists>x \<in> set (rows (db_teams db)). fst x = i \<and> tm_parent (snd x) = Some p \<and> p \<noteq> 0)"
  unfolding up_def by force

lemma deep_up: "up deep_db = {(2, 1), (3, 2), (4, 3), (6, 5)}"
proof -
  have "(i, p) \<in> up deep_db \<longleftrightarrow> (i, p) \<in> {(2, 1), (3, 2), (4, 3), (6, 5)}" for i p
    unfolding up_Bex deep_rows by (simp add: team_in_def) auto
  then show ?thesis by auto
qed

lemma acyclic_decreasing: "(\<And>x y. (x, y) \<in> r \<Longrightarrow> y < (x :: int)) \<Longrightarrow> acyclic r"
proof (rule acyclicI, intro allI notI)
  fix x
  assume dec: "\<And>x y. (x, y) \<in> r \<Longrightarrow> y < x" and "(x, x) \<in> r\<^sup>+"
  have "(a, b) \<in> r\<^sup>+ \<Longrightarrow> b < a" for a b
    by (induction rule: trancl_induct) (auto dest: dec)
  with \<open>(x, x) \<in> r\<^sup>+\<close> show False by blast
qed

lemma deep_forest: "forest deep_db"
proof -
  have "acyclic (up deep_db)" unfolding deep_up by (rule acyclic_decreasing) auto
  moreover have "tbl_wf (db_teams deep_db)" unfolding tbl_wf_def deep_rows deep_seq by simp
  moreover have "\<exists>t'. (p, t') \<in> set (rows (db_teams deep_db)) \<and> tm_org t' = tm_org t"
    if "(i, t) \<in> set (rows (db_teams deep_db))" "tm_parent t = Some p" for i t p
    using that unfolding deep_rows by (auto simp: team_in_def)
  ultimately show ?thesis unfolding forest_def by blast
qed

lemma deep_bounded: "nest_bounded deep_db"
proof -
  have "up deep_db ^^ 2 = {(3, 1), (4, 2)}" unfolding deep_up by (auto simp: numeral_2_eq_2 relcomp_unfold)
  then have "up deep_db ^^ 4 = {}"
    using relpow_add [of 2 2 "up deep_db"] by (auto simp: relcomp_unfold)
  then have "up deep_db ^^ MaxNestDepth = {}"
    using relpow_add [of 4 1 "up deep_db"] by (simp add: MaxNestDepth_def)
  then show ?thesis by (simp add: nest_bounded_def)
qed

lemma deep_reparent:
  "fst (ReparentTeam (New deep_db) 5 (Some 4)) = Ok ()"
  "rb_db (snd (ReparentTeam (New deep_db) 5 (Some 4))) = set_parent deep_db 5 (Some 4)"
proof -
  have f: "db_faulty deep_db t = False" for t by (simp add: deep_db_def empty_db_def)
  have "reparent_check deep_db 5 4 = Ok ()"
    by (simp add: reparent_check_def teamOrg_def teamParent_def f team_find_def tbl_find_def deep_rows isDescendant_def
        validateNesting_def descendant_loop.simps validate_loop.simps MaxNestDepth_def team_in_def)
  then show "fst (ReparentTeam (New deep_db) 5 (Some 4)) = Ok ()"
    and "rb_db (snd (ReparentTeam (New deep_db) 5 (Some 4))) = set_parent deep_db 5 (Some 4)"
    by (simp_all add: ReparentTeam_def New_def f)
qed

lemma deep_after: "(6, 1) \<in> up (set_parent deep_db 5 (Some 4)) ^^ MaxNestDepth"
proof -
  have wf: "tbl_wf (db_teams deep_db)" using deep_forest by (simp add: forest_def)
  have "up (set_parent deep_db 5 (Some 4)) = {(2, 1), (3, 2), (4, 3), (6, 5), (5, 4)}"
    unfolding up_set_parent [OF wf] deep_up deep_rows by auto
  then show ?thesis
    unfolding MaxNestDepth_def by (auto simp: eval_nat_numeral relcomp_unfold)
qed

lemma org_faulty: "db_faulty org_db t = False"
  by (simp add: org_db_def empty_db_def)

lemma org_rows:
  "rows (db_permissions org_db) = [(1, perm ''repo'' ''admin'')]"
  "rows (db_role_permissions org_db) = [(1, (1, 1))]"
  "rows (db_teams org_db) = [(1, team_in 10 None (Some 1))]"
  "rows (db_team_members org_db) = [(1, \<lparr>mb_team = 1, mb_user = 7, mb_role = ''member''\<rparr>)]"
  "rows (db_org_members org_db) = [(1, \<lparr>om_org = 10, om_user = 3, om_role = Some 1, om_membership = ''owner''\<rparr>)]"
  "rows (db_team_repos org_db) = []" "rows (db_collabs org_db) = []"
  "rows (db_roles org_db) = [(1, \<lparr>ro_org = Some 10, ro_name = ''ops'', ro_builtin = False, ro_scope = ''org''\<rparr>)]"
  "db_repo_org org_db = [(99, Some 20), (98, Some 10)]"
  "seq (db_teams org_db) = 1"
  by (simp_all add: org_db_def tbl_of_def empty_db_def)

lemma org_up: "up org_db = {}"
proof -
  have "(i, p) \<notin> up org_db" for i p unfolding up_Bex org_rows by (simp add: team_in_def)
  then show ?thesis by auto
qed

lemma org_healthy: "healthy org_db"
proof -
  have "tbl_wf (db_teams org_db)" by (simp add: tbl_wf_def org_rows)
  then have "forest org_db" by (simp add: forest_def org_up org_rows team_in_def acyclic_def)
  then show ?thesis by (auto simp: healthy_def org_faulty org_rows)
qed

lemma org_evaluate: "evaluate org_db 7 admin_req = Ok True"
  by (simp add: evaluate_def EffectivePermissions_def collectRepoRoleIDs_def userTeams_def org_faulty tbl_select_def
      org_rows collectTeamAncestors.simps teamParent_def team_find_def tbl_find_def team_role_def team_in_def
      add_role_def team_repo_role_def applyDirectPermission_def rolePermissions_def role_perm_join_def admin_req_def
      perm_def Let_def)

end
