(* ===== verification/RbacClaims.thy ===== *)
theory RbacClaims
  imports RbacProps
begin

text \<open>
  The properties of the permission service, each with an input at which its hypotheses hold:
  soundness of cached checks along every run, the exact meaning of evaluation, the team forest,
  protection of the built-in roles, seeding, and two behaviours of the code that its comments do
  not intend.
\<close>

lemma admin_req_sel [simp]:
  "req_Resource admin_req = ''repo''" "req_Action admin_req = ''admin''" "req_RepoID admin_req = 99"
  by (simp_all add: admin_req_def)

section \<open>Checks and evaluation\<close>



text \<open>C2: On a database without driver faults whose teams form a forest, evaluation returns, and
  the permissions it returns are those of the specification: the ladder of a direct grant and the
  permissions of every role attached to a team of the user or to one of its ancestors, granted to a
  team of the user on the repository, or (at organization level) attached to a membership.\<close>

theorem effective_permissions_exact:
  assumes "healthy db"
  shows "\<exists>ps. EffectivePermissions db u repoID = Ok ps \<and> set ps = effective_spec db u repoID"
proof -
  obtain ps where ps: "EffectivePermissions db u repoID = Ok ps" using healthy_returns [OF assms] by blast
  have "tbl_wf (db_teams db)" using assms by (simp add: healthy_def forest_def)
  with ps EffectivePermissions_Ok [OF ps] show ?thesis by blast
qed

theorem effective_permissions_exact_witness:
  "healthy org_db \<and> (\<exists>ps. EffectivePermissions org_db 7 99 = Ok ps \<and> set ps = effective_spec org_db 7 99)"
  using effective_permissions_exact [OF org_healthy, of 7 99] org_healthy by simp

text \<open>Cache keys separate requests: two requests with the same key are of the same user, on
  the same repository, for the same resource and action.\<close>

theorem cache_key_separates:
  assumes "wf_req r" and "wf_req s"
  shows "cacheKey u r = cacheKey v s \<longleftrightarrow>
    u = v \<and> req_RepoID r = req_RepoID s \<and> req_Resource r = req_Resource s \<and> req_Action r = req_Action s"
  using cacheKey_inject [OF _ assms, of u v] by (auto simp: cacheKey_def)

theorem cache_key_separates_witness:
  "wf_req admin_req \<and> wf_req (admin_req\<lparr>req_RepoID := 9\<rparr>) \<and> cacheKey 1 admin_req \<noteq> cacheKey 1 (admin_req\<lparr>req_RepoID := 9\<rparr>)"
proof -
  have w: "wf_req admin_req" "wf_req (admin_req\<lparr>req_RepoID := 9\<rparr>)" by (simp_all add: wf_req_def admin_req_def)
  show ?thesis using cache_key_separates [OF w, of 1 1] w by (simp add: admin_req_def)
qed

section \<open>Teams\<close>

text \<open>\<open>CreateTeam\<close> keeps the teams a forest inside their organization with at most four
  ancestors for every team, whether it succeeds or fails.\<close>

theorem create_team_forest:
  assumes "forest (rb_db s)" and "nest_bounded (rb_db s)" and "ct_OrgID p \<noteq> 0"
  shows "forest (rb_db (snd (CreateTeam s p))) \<and> nest_bounded (rb_db (snd (CreateTeam s p)))"
proof (cases "fst (CreateTeam s p)")
  case (Inl e)
  then have "snd (CreateTeam s p) = s"
    by (auto simp: CreateTeam_def Let_def split: sum.splits if_splits option.splits)
  with assms show ?thesis by simp
next
  case (Inr i)
  then have v: "ct_ParentTeamID p = Some q \<Longrightarrow> validateNesting (rb_db s) (ct_OrgID p) 0 q = Ok ()"
    and db: "rb_db (snd (CreateTeam s p)) = insert_team (rb_db s) p" for q
    by (auto simp: CreateTeam_def Let_def split: sum.splits if_splits option.splits)
  have wf: "tbl_wf (db_teams (rb_db s))" using assms(1) by (simp add: forest_def)
  have "\<exists>t. (q, t) \<in> set (rows (db_teams (rb_db s))) \<and> tm_org t = ct_OrgID p"
    if "ct_ParentTeamID p = Some q" "q \<noteq> 0" for q
    using validateNesting_first [OF v [OF that(1)] that(2) wf] assms(3) by blast
  then show ?thesis
    unfolding db using insert_team_forest [OF assms(1)] insert_team_bounded [OF assms(1,2) v] by simp
qed

definition new_team :: create_team_params where
  "new_team = \<lparr>ct_OrgID = 1, ct_Name = ''qa'', ct_Description = [], ct_ParentTeamID = Some 4,
     ct_RoleID = None, ct_Permission = []\<rparr>"

theorem create_team_forest_witness:
  "forest deep_db \<and> nest_bounded deep_db \<and> forest (rb_db (snd (CreateTeam (New deep_db) new_team)))"
  using create_team_forest [of "New deep_db" new_team] deep_forest deep_bounded
  by (simp add: New_def new_team_def)

text \<open>C3: \<open>ReparentTeam\<close> keeps the teams a forest inside their organization: no cycle can be
  made. When it accepts a new parent, the moved team has at most four ancestors afterwards.\<close>

theorem reparent_team_forest:
  assumes "forest (rb_db s)"
  shows "forest (rb_db (snd (ReparentTeam s tid np))) \<and>
    (\<forall>q a. np = Some q \<and> fst (ReparentTeam s tid np) = Ok () \<longrightarrow>
       (tid, a) \<notin> up (rb_db (snd (ReparentTeam s tid np))) ^^ MaxNestDepth)"
proof (cases "fst (ReparentTeam s tid np)")
  case (Inl e)
  then have "snd (ReparentTeam s tid np) = s"
    by (auto simp: ReparentTeam_def Let_def split: sum.splits if_splits option.splits)
  with assms Inl show ?thesis by simp
next
  case (Inr x)
  then have v: "np = Some q \<Longrightarrow> reparent_check (rb_db s) tid q = Ok ()"
    and db: "rb_db (snd (ReparentTeam s tid np)) = set_parent (rb_db s) tid np" for q
    by (auto simp: ReparentTeam_def Let_def split: sum.splits if_splits option.splits)
  have "forest (set_parent (rb_db s) tid np)"
    using reparent_check_Ok [OF assms v] by (intro set_parent_forest [OF assms]) blast
  with set_parent_depth [OF assms v] show ?thesis unfolding db by blast
qed

theorem reparent_team_forest_witness:
  "forest (rb_db (New deep_db)) \<and> forest (rb_db (snd (ReparentTeam (New deep_db) 5 (Some 4)))) \<and>
   (5, 1) \<notin> up (rb_db (snd (ReparentTeam (New deep_db) 5 (Some 4)))) ^^ MaxNestDepth"
proof -
  have f: "forest (rb_db (New deep_db))" using deep_forest by (simp add: New_def)
  show ?thesis using reparent_team_forest [OF f, of 5 "Some 4"] f deep_reparent(1) by simp
qed

text \<open>\<open>ReparentTeam\<close> does not bound the teams below the moved one: there is a database
  within the bound on which it accepts a move after which a team has five ancestors.\<close>

theorem reparent_subtree_too_deep:
  "\<exists>s tid q. forest (rb_db s) \<and> nest_bounded (rb_db s) \<and> fst (ReparentTeam s tid (Some q)) = Ok () \<and>
     \<not> nest_bounded (rb_db (snd (ReparentTeam s tid (Some q))))"
proof (intro exI conjI)
  show "forest (rb_db (New deep_db))" "nest_bounded (rb_db (New deep_db))"
    using deep_forest deep_bounded by (simp_all add: New_def)
  show "fst (ReparentTeam (New deep_db) 5 (Some 4)) = Ok ()" by (rule deep_reparent)
  show "\<not> nest_bounded (rb_db (snd (ReparentTeam (New deep_db) 5 (Some 4))))"
    unfolding deep_reparent(2) nest_bounded_def using deep_after by blast
qed

text \<open>A role attached to a team reaches into repositories of other organizations: there is a
  database in which a user administers a repository although no team, grant, membership or
  collaborator row connects the user to the repository or its organization.\<close>

theorem team_role_crosses_orgs:
  "\<exists>db u req org. healthy db \<and> evaluate db u req = Ok True \<and> req_Resource req = ''repo'' \<and> req_Action req = ''admin'' \<and>
     map_of (db_repo_org db) (req_RepoID req) = Some (Some org) \<and>
     \<not> tbl_exists (\<lambda>_ t. tm_org t = org) (db_teams db) \<and>
     \<not> tbl_exists (\<lambda>_ m. om_org m = org) (db_org_members db) \<and>
     \<not> tbl_exists (\<lambda>_ g. tr_repo g = req_RepoID req) (db_team_repos db) \<and>
     \<not> tbl_exists (\<lambda>_ c. co_repo c = req_RepoID req) (db_collabs db)"
  by (rule exI [of _ org_db], rule exI [of _ 7], rule exI [of _ admin_req], rule exI [of _ 20])
    (simp add: org_healthy org_evaluate org_rows tbl_exists_def team_in_def)

section \<open>Roles\<close>

text \<open>The ladder: a direct grant of a higher rank has all the permissions of a lower one, every
  grant is of built-in permissions, and the built-in roles have exactly the permissions of their
  rung.\<close>

theorem ladder_monotone:
  "(RankOf a \<le> RankOf b \<longrightarrow> set (ladderPermissions a) \<subseteq> set (ladderPermissions b)) \<and>
   set (ladderPermissions a) \<subseteq> set BuiltinPermissions \<and>
   (\<forall>r \<in> set BuiltinRoles. br_Permissions r = ladderPermissions (br_Name r))"
proof (intro conjI impI)
  assume le: "RankOf a \<le> RankOf b"
  have "set (ladderPermissions a) \<subseteq> set (ladderPermissions b)" if "RankOf b = 4"
    using that ladder_builtin [of a] by (simp add: ladder_by_rank [of b])
  then show "set (ladderPermissions a) \<subseteq> set (ladderPermissions b)"
    using le RankOf_range [of a] RankOf_range [of b] unfolding ladder_by_rank by auto
qed (simp_all add: ladder_builtin BuiltinRoles_ladder)

theorem ladder_monotone_witness:
  "RankOf ''triage'' \<le> RankOf ''maintain'' \<and>
   set (ladderPermissions ''triage'') \<subseteq> set (ladderPermissions ''maintain'') \<and> RoleWrite \<in> set BuiltinRoles"
  using ladder_monotone [of "''triage''" "''maintain''"] by (simp add: RankOf_def BuiltinRoles_def)

text \<open>Printing and parsing permissions are inverse: a printed permission parses to itself when
  its resource has no colon, whatever parses prints back to the same text, and a text is refused
  exactly when it has no colon.\<close>

theorem permission_roundtrip:
  "(CHR '':'' \<notin> set (Resource p) \<longrightarrow> ParsePermission (Permission_String p) = Ok p) \<and>
   (ParsePermission s = Ok q \<longrightarrow> Permission_String q = s) \<and>
   (ParsePermission s = Err (InvalidPermission s) \<longleftrightarrow> CHR '':'' \<notin> set s)"
proof (intro conjI impI)
  assume "CHR '':'' \<notin> set (Resource p)"
  then have "\<forall>c \<in> set (Resource p). c \<noteq> CHR '':''" by auto
  then show "ParsePermission (Permission_String p) = Ok p"
    by (simp add: ParsePermission_eq Permission_String_def takeWhile_append2 dropWhile_append2)
next
  assume ok: "ParsePermission s = Ok q"
  then have col: "CHR '':'' \<in> set s" by (auto simp: ParsePermission_eq split: if_splits)
  then have "dropWhile (\<lambda>c. c \<noteq> CHR '':'') s \<noteq> []" by (auto simp: dropWhile_eq_Nil_conv)
  moreover from hd_dropWhile [OF this] have "hd (dropWhile (\<lambda>c. c \<noteq> CHR '':'') s) = CHR '':''" by simp
  ultimately have "dropWhile (\<lambda>c. c \<noteq> CHR '':'') s = CHR '':'' # tl (dropWhile (\<lambda>c. c \<noteq> CHR '':'') s)"
    by (metis list.collapse)
  then have "takeWhile (\<lambda>c. c \<noteq> CHR '':'') s @ CHR '':'' # tl (dropWhile (\<lambda>c. c \<noteq> CHR '':'') s) = s"
    by (metis takeWhile_dropWhile_id)
  with ok col show "Permission_String q = s"
    by (auto simp: ParsePermission_eq Permission_String_def)
qed (simp add: ParsePermission_eq)

theorem permission_roundtrip_witness:
  "CHR '':'' \<notin> set (Resource (perm ''repo'' ''read'')) \<and> ParsePermission ''repo:read'' = Ok (perm ''repo'' ''read'')"
  using permission_roundtrip [of "perm ''repo'' ''read''"] by (simp add: perm_def Permission_String_def)

text \<open>Seeding a database without driver faults succeeds, and afterwards every built-in role is
  there with at least its permissions.\<close>

theorem seed_roles_present:
  assumes "\<forall>t. \<not> db_faulty db t"
  shows "\<exists>db'. Seed db = Ok db' \<and> (\<forall>r \<in> set BuiltinRoles. role_seeded db' r)"
proof -
  obtain db1 where d1: "seed_permissions db BuiltinPermissions = Ok db1" "\<forall>t. \<not> db_faulty db1 t"
    "set BuiltinPermissions \<union> vals (db_permissions db) \<subseteq> vals (db_permissions db1)"
    using seed_permissions_Ok [OF assms, of BuiltinPermissions] by blast
  have "\<forall>r \<in> set BuiltinRoles. \<forall>p \<in> set (br_Permissions r). p \<in> vals (db_permissions db1)"
    using d1(3) builtin_perms_of_roles by blast
  from seed_roles_Ok [OF d1(2) this] d1(1) show ?thesis by (auto simp: Seed_def)
qed

theorem seed_roles_present_witness:
  "(\<forall>t. \<not> db_faulty (empty_db (\<lambda>_. False)) t) \<and>
   (\<exists>db'. Seed (empty_db (\<lambda>_. False)) = Ok db' \<and> role_seeded db' RoleAdmin)"
  using seed_roles_present [of "empty_db (\<lambda>_. False)"] by (force simp: empty_db_def BuiltinRoles_def)

text \<open>What a step may do to the roles: keep a given row and its links.\<close>

definition role_kept :: "int \<Rightarrow> role_row \<Rightarrow> rbac_db \<Rightarrow> rbac_db \<Rightarrow> bool" where
  "role_kept i r db db' \<longleftrightarrow> tbl_wf (db_roles db') \<and> (i, r) \<in> set (rows (db_roles db')) \<and>
     db_permissions db' = db_permissions db \<and>
     tbl_select (\<lambda>_ l. fst l = i) (db_role_permissions db') = tbl_select (\<lambda>_ l. fst l = i) (db_role_permissions db)"

lemma role_keptI:
  "tbl_wf (db_roles db) \<Longrightarrow> (i, r) \<in> set (rows (db_roles db)) \<Longrightarrow> db_roles db' = db_roles db \<Longrightarrow>
     db_permissions db' = db_permissions db \<Longrightarrow> db_role_permissions db' = db_role_permissions db \<Longrightarrow> role_kept i r db db'"
  by (simp add: role_kept_def)

lemma role_kept_audit [simp]: "role_kept i r db (recordAudit a t k c v db') = role_kept i r db db'"
  by (simp add: role_kept_def)

lemma isBuiltinRole_other:
  "isBuiltinRole db rid = Ok False \<Longrightarrow> tbl_wf (db_roles db) \<Longrightarrow> (i, r) \<in> set (rows (db_roles db)) \<Longrightarrow> ro_builtin r \<Longrightarrow> i \<noteq> rid"
  by (auto simp: isBuiltinRole_def dest!: tbl_find_Some dest: tbl_wf_id_unique split: option.splits if_splits)

lemma role_kept_links:
  assumes "link_permissions db1 rid ps = Ok db'" and "role_kept i r db db1" and "i \<noteq> rid"
  shows "role_kept i r db db'"
  using link_permissions_Ok [OF assms(1)] assms(2,3) by (simp add: role_kept_def)

lemma role_kept_create:
  assumes "tbl_wf (db_roles (rb_db s))" and "(i, r) \<in> set (rows (db_roles (rb_db s)))"
  shows "role_kept i r (rb_db s) (rb_db (snd (CreateRole s rp)))"
proof -
  have "role_kept i r (rb_db s) (insert_role (rb_db s) rp)" and "role_kept i r (rb_db s) (rb_db s)"
    using assms by (simp_all add: role_kept_def insert_role_def tbl_wf_insert)
  moreover have "i \<noteq> seq (db_roles (insert_role (rb_db s) rp))"
    using tbl_wf_bound [OF assms] by (simp add: insert_role_def)
  ultimately show ?thesis
    using role_kept_links by (simp add: CreateRole_def Let_def split: sum.split)
qed

lemma role_kept_change:
  assumes "tbl_wf (db_roles (rb_db s))" and "(i, r) \<in> set (rows (db_roles (rb_db s)))" and "ro_builtin r"
  shows "role_kept i r (rb_db s) (rb_db (snd (SetRolePermissions s actor rid ps)))"
    and "role_kept i r (rb_db s) (rb_db (snd (DeleteRole s actor rid)))"
proof -
  have same: "role_kept i r (rb_db s) (rb_db s)" using assms by (simp add: role_kept_def)
  have dropped: "role_kept i r (rb_db s) (drop_links rid (rb_db s))"
    and gone: "role_kept i r (rb_db s) ((drop_links rid (rb_db s))\<lparr>db_roles := tbl_delete (\<lambda>i _. i = rid) (db_roles (rb_db s))\<rparr>)"
    if "i \<noteq> rid"
    using assms that by (auto simp: role_kept_def drop_links_def tbl_wf_delete intro!: select_delete_other)
  have other: "isBuiltinRole (rb_db s) rid = Ok False \<Longrightarrow> i \<noteq> rid"
    using isBuiltinRole_other assms by blast
  show "role_kept i r (rb_db s) (rb_db (snd (SetRolePermissions s actor rid ps)))"
    using same other dropped role_kept_links [of "drop_links rid (rb_db s)" rid ps]
    by (simp add: SetRolePermissions_def Let_def split: sum.split)
  show "role_kept i r (rb_db s) (rb_db (snd (DeleteRole s actor rid)))"
    using same other gone by (simp add: DeleteRole_def Let_def drop_links_def split: sum.split)
qed

lemma builtin_kept:
  assumes "rbac_step s t" and "tbl_wf (db_roles (rb_db s))" and "(i, r) \<in> set (rows (db_roles (rb_db s)))" and "ro_builtin r"
  shows "role_kept i r (rb_db s) (rb_db t)"
  using assms
proof (induction rule: rbac_step.induct)
  case (create_role s rp)
  then show ?case by (intro role_kept_create)
next
  case (set_role_permissions s actor rid perms)
  then show ?case by (intro role_kept_change)
next
  case (delete_role s actor rid)
  then show ?case by (intro role_kept_change)
qed (simp_all add: role_keptI service_ops CreateTeam_def ReparentTeam_def GrantTeamRepo_def AddBranchRule_def
    InvalidateUser_def InvalidateAll_def insert_team_def set_parent_def Let_def split: sum.split)

text \<open>No run of the service changes a built-in role: the row stays and its permissions stay
  the same, whatever operations are called with whatever arguments.\<close>

theorem builtin_roles_immutable:
  assumes "rbac_step\<^sup>*\<^sup>* s t" and "tbl_wf (db_roles (rb_db s))"
    and "(i, r) \<in> set (rows (db_roles (rb_db s)))" and "ro_builtin r"
  shows "(i, r) \<in> set (rows (db_roles (rb_db t))) \<and> role_perm_join (rb_db t) i = role_perm_join (rb_db s) i"
proof -
  have "role_kept i r (rb_db s) (rb_db t)"
    using assms(1)
  proof (induction rule: rtranclp_induct)
    case (step t u)
    with builtin_kept [OF step(2) _ _ assms(4), of i] show ?case by (simp add: role_kept_def)
  qed (simp add: assms role_kept_def)
  then show ?thesis using role_perm_join_cong [of i "rb_db t" "rb_db s"] by (simp add: role_kept_def)
qed

definition builtin_db :: rbac_db where
  "builtin_db = (empty_db (\<lambda>_. False))\<lparr>db_roles := tbl_of
     [\<lparr>ro_org = None, ro_name = ''read'', ro_builtin = True, ro_scope = ''repo''\<rparr>]\<rparr>"

theorem builtin_roles_immutable_witness:
  "rbac_step (New builtin_db) (snd (DeleteRole (New builtin_db) 1 1)) \<and>
   (1, \<lparr>ro_org = None, ro_name = ''read'', ro_builtin = True, ro_scope = ''repo''\<rparr>)
     \<in> set (rows (db_roles (rb_db (snd (DeleteRole (New builtin_db) 1 1)))))"
  using builtin_roles_immutable [OF r_into_rtranclp [of rbac_step, OF rbac_step.delete_role [of "New builtin_db" 1 1]],
      of 1 "\<lparr>ro_org = None, ro_name = ''read'', ro_builtin = True, ro_scope = ''repo''\<rparr>"]
    rbac_step.delete_role [of "New builtin_db" 1 1]
  by (simp add: New_def builtin_db_def tbl_of_def tbl_wf_def)

text \<open>The permissions an actor holds through the roles of memberships in an organization.\<close>

definition actor_org_perms :: "rbac_db \<Rightarrow> int \<Rightarrow> int \<Rightarrow> permission set" where
  "actor_org_perms db actor org =
     {p. \<exists>i m r. (i, m) \<in> set (rows (db_org_members db)) \<and> om_user m = actor \<and> om_org m = org \<and> om_role m = Some r \<and>
        p \<in> set (role_perm_join db r)}"

lemma rolePermissionsForUser_Ok:
  "rolePermissionsForUser db u org = Ok ps \<Longrightarrow> set ps \<subseteq> actor_org_perms db u org"
proof
  fix p
  assume "rolePermissionsForUser db u org = Ok ps" and "p \<in> set ps"
  then obtain i m r where "(i, m) \<in> set (rows (db_org_members db))" "om_user m = u" "om_org m = org" "om_role m = Some r"
    "p \<in> set (role_perm_join db r)"
    by (auto simp: rolePermissionsForUser_def split: if_splits option.splits) (metis sym)
  then show "p \<in> actor_org_perms db u org" unfolding actor_org_perms_def by blast
qed

lemma validateRoleForRepo_Ok:
  assumes "validateRoleForRepo db actor repo r = Ok ()"
  shows "\<exists>org x. map_of (db_repo_org db) repo = Some (Some org) \<and> (r, x) \<in> set (rows (db_roles db)) \<and> ro_org x = Some org \<and>
    Permission_String ` set (role_perm_join db r) \<subseteq> Permission_String ` actor_org_perms db actor org"
proof -
  obtain i x where f: "tbl_find (\<lambda>i _. i = r) (db_roles db) = Some (i, x)"
    using assms by (auto simp: validateRoleForRepo_def split: if_splits option.splits)
  then have x: "(r, x) \<in> set (rows (db_roles db))" using tbl_find_Some by fastforce
  obtain org rp ap where o: "map_of (db_repo_org db) repo = Some (Some org)" "ro_org x = Some org"
    and rp: "rolePermissions db r = Ok rp" and ap: "rolePermissionsForUser db actor org = Ok ap"
    and sub: "list_all (\<lambda>p. Permission_String p \<in> set (map Permission_String ap)) rp"
    using assms f by (auto simp: validateRoleForRepo_def split: if_splits option.splits sum.splits)
  have "rp = role_perm_join db r" using rp by (simp add: rolePermissions_def split: if_splits)
  with sub rolePermissionsForUser_Ok [OF ap]
  have "Permission_String ` set (role_perm_join db r) \<subseteq> Permission_String ` actor_org_perms db actor org"
    by (auto simp: list_all_iff)
  with x o show ?thesis by blast
qed

text \<open>C4: Nobody hands out more than they have: when \<open>SetCollaborator\<close> accepts a role, the role
  belongs to the organization that owns the repository, and every permission of the role is one the
  actor holds through a membership in that organization.\<close>

theorem set_collaborator_no_escalation:
  assumes "fst (SetCollaborator s actor repo u (Some r) m) = Ok ()"
    and "\<forall>p \<in> vals (db_permissions (rb_db s)). CHR '':'' \<notin> set (Resource p)"
  shows "\<exists>org x. map_of (db_repo_org (rb_db s)) repo = Some (Some org) \<and>
    (r, x) \<in> set (rows (db_roles (rb_db s))) \<and> ro_org x = Some org \<and>
    set (role_perm_join (rb_db s) r) \<subseteq> actor_org_perms (rb_db s) actor org"
proof -
  let ?db = "rb_db s"
  have "validateRoleForRepo ?db actor repo r = Ok ()"
    using assms(1) by (auto simp: SetCollaborator_def Let_def split: sum.splits if_splits)
  from validateRoleForRepo_Ok [OF this] obtain org x where ox: "map_of (db_repo_org ?db) repo = Some (Some org)"
    "(r, x) \<in> set (rows (db_roles ?db))" "ro_org x = Some org"
    and img: "Permission_String ` set (role_perm_join ?db r) \<subseteq> Permission_String ` actor_org_perms ?db actor org"
    by blast
  have clean: "CHR '':'' \<notin> set (Resource p)" if "p \<in> set (role_perm_join ?db j)" for p j
    using that assms(2) by (auto simp: role_perm_join_iff)
  have "p \<in> actor_org_perms ?db actor org" if p: "p \<in> set (role_perm_join ?db r)" for p
  proof -
    obtain q where q: "q \<in> actor_org_perms ?db actor org" "Permission_String p = Permission_String q"
      using img p by blast
    then obtain j where "q \<in> set (role_perm_join ?db j)" by (auto simp: actor_org_perms_def)
    from Permission_String_inject [OF clean [OF p] clean [OF this] q(2)] q(1) show ?thesis by simp
  qed
  with ox show ?thesis by blast
qed

theorem set_collaborator_no_escalation_witness:
  "fst (SetCollaborator (New org_db) 3 98 5 (Some 1) []) = Ok () \<and>
   set (role_perm_join org_db 1) \<subseteq> actor_org_perms org_db 3 10"
proof -
  have ok: "fst (SetCollaborator (New org_db) 3 98 5 (Some 1) []) = Ok ()"
    by (simp add: SetCollaborator_def New_def validateRoleForRepo_def org_faulty org_rows tbl_find_def
        rolePermissions_def rolePermissionsForUser_def tbl_select_def role_perm_join_def Let_def)
  have "\<forall>p \<in> vals (db_permissions (rb_db (New org_db))). CHR '':'' \<notin> set (Resource p)"
    by (auto simp: New_def org_rows perm_def vals_def)
  from set_collaborator_no_escalation [OF ok this] ok show ?thesis by (simp add: New_def org_rows)
qed

end
