(* ===== verification/Stores.thy ===== *)
theory Stores
  imports Prelude
begin

text \<open>
  Two interfaces that many services of \<open>internal/service\<close> implement over one SQL table.

  \<^item> \<open>relation_store\<close>: a set of keys with add, remove and a membership query (follows, blocks,
    subscriptions, reactions). Its lemmas show that every run of operations refines the same run on
    a mathematical set, that adding and removing are idempotent, and that no key is stored twice.
  \<^item> \<open>scoped_store\<close>: rows that belong to an owner (a user or a repository) with create and delete
    by owner and key (path rules, saved replies, deploy keys, webhooks). Its lemmas show that the
    operations of other owners never change what an owner sees, and that deleting a created row
    restores the list.

  A service with one table is a state \<open>sql\<close>: the table and whether the driver fails.
\<close>

record 'r sql =
  tab :: "'r table"
  down :: bool

definition sql_empty :: "'r sql" where
  "sql_empty = \<lparr>tab = empty_table, down = False\<rparr>"

section \<open>Sets of keys\<close>

datatype 'k rel_op = Add 'k | Remove 'k

primrec rel_spec :: "'k rel_op \<Rightarrow> 'k set \<Rightarrow> 'k set" where
  "rel_spec (Add k) A = insert k A"
| "rel_spec (Remove k) A = A - {k}"

locale relation_store =
  fixes add :: "'k \<Rightarrow> 's \<Rightarrow> ('e + unit) \<times> 's"
    and remove :: "'k \<Rightarrow> 's \<Rightarrow> ('e + unit) \<times> 's"
    and has :: "'k \<Rightarrow> 's \<Rightarrow> bool"
    and once :: "'s \<Rightarrow> bool"
  assumes add_Ok: "fst (add k s) = Ok () \<Longrightarrow> has j (snd (add k s)) \<longleftrightarrow> j = k \<or> has j s"
    and add_Err: "fst (add k s) = Err e \<Longrightarrow> snd (add k s) = s"
    and remove_Ok: "fst (remove k s) = Ok () \<Longrightarrow> has j (snd (remove k s)) \<longleftrightarrow> j \<noteq> k \<and> has j s"
    and remove_Err: "fst (remove k s) = Err e \<Longrightarrow> snd (remove k s) = s"
    and add_once: "once s \<Longrightarrow> once (snd (add k s))"
    and remove_once: "once s \<Longrightarrow> once (snd (remove k s))"
begin

definition members :: "'s \<Rightarrow> 'k set" where
  "members s = {k. has k s}"

definition rel_step :: "'k rel_op \<Rightarrow> 's \<Rightarrow> ('e + unit) \<times> 's" where
  "rel_step x s = (case x of Add k \<Rightarrow> add k s | Remove k \<Rightarrow> remove k s)"

fun rel_run :: "'k rel_op list \<Rightarrow> 's \<Rightarrow> 's" where
  "rel_run [] s = s"
| "rel_run (x # xs) s = rel_run xs (snd (rel_step x s))"

text \<open>The operations of a run that succeeded, in order.\<close>

fun accepted :: "'k rel_op list \<Rightarrow> 's \<Rightarrow> 'k rel_op list" where
  "accepted [] s = []"
| "accepted (x # xs) s =
     (case fst (rel_step x s) of Inl _ \<Rightarrow> [] | Inr _ \<Rightarrow> [x]) @ accepted xs (snd (rel_step x s))"

lemma members_step_Ok: "fst (rel_step x s) = Ok () \<Longrightarrow> members (snd (rel_step x s)) = rel_spec x (members s)"
  by (cases x) (auto simp: rel_step_def members_def add_Ok remove_Ok)

lemma step_Err: "fst (rel_step x s) = Err e \<Longrightarrow> snd (rel_step x s) = s"
  by (cases x) (auto simp: rel_step_def add_Err remove_Err)

lemma run_refines: "members (rel_run xs s) = fold rel_spec (accepted xs s) (members s)"
proof (induction xs arbitrary: s)
  case (Cons x xs)
  show ?case
  proof (cases "fst (rel_step x s)")
    case (Inl e)
    then show ?thesis using Cons.IH [of s] step_Err [OF Inl] by simp
  next
    case (Inr u)
    then have "fst (rel_step x s) = Ok ()" by simp
    then show ?thesis using Cons.IH [of "snd (rel_step x s)"] members_step_Ok by simp
  qed
qed simp

lemma run_once: "once s \<Longrightarrow> once (rel_run xs s)"
proof (induction xs arbitrary: s)
  case (Cons x xs)
  then show ?case by (cases x) (auto simp: rel_step_def add_once remove_once)
qed simp

lemma add_idem: "fst (add k s) = Ok () \<Longrightarrow> fst (add k (snd (add k s))) = Ok () \<Longrightarrow>
    members (snd (add k (snd (add k s)))) = members (snd (add k s))"
  by (auto simp: members_def add_Ok)

lemma remove_after_add: "fst (add k s) = Ok () \<Longrightarrow> fst (remove k (snd (add k s))) = Ok () \<Longrightarrow>
    members (snd (remove k (snd (add k s)))) = members s - {k}"
  by (auto simp: members_def add_Ok remove_Ok)

end

section \<open>Rows with an owner\<close>

datatype ('o, 'a) own_op = Create 'o 'a | Delete 'o int

primrec op_owner :: "('o, 'a) own_op \<Rightarrow> 'o" where
  "op_owner (Create w a) = w"
| "op_owner (Delete w i) = w"

locale scoped_store =
  fixes list_of :: "'o \<Rightarrow> 's \<Rightarrow> (int \<times> 'r) list"
    and create :: "'o \<Rightarrow> 'a \<Rightarrow> 's \<Rightarrow> ('e + int) \<times> 's"
    and delete :: "'o \<Rightarrow> int \<Rightarrow> 's \<Rightarrow> ('f + unit) \<times> 's"
    and inv :: "'s \<Rightarrow> bool"
  assumes create_Err: "inv s \<Longrightarrow> fst (create w a s) = Err e \<Longrightarrow> list_of v (snd (create w a s)) = list_of v s"
    and create_Ok: "inv s \<Longrightarrow> fst (create w a s) = Ok i \<Longrightarrow>
      i \<notin> fst ` set (list_of w s) \<and> (\<exists>r. list_of w (snd (create w a s)) = list_of w s @ [(i, r)])"
    and create_inv: "inv s \<Longrightarrow> inv (snd (create w a s))"
    and create_other: "v \<noteq> w \<Longrightarrow> list_of v (snd (create w a s)) = list_of v s"
    and delete_Err: "fst (delete w i s) = Err f \<Longrightarrow> list_of v (snd (delete w i s)) = list_of v s"
    and delete_Ok: "fst (delete w i s) = Ok () \<Longrightarrow>
      list_of w (snd (delete w i s)) = filter (\<lambda>x. fst x \<noteq> i) (list_of w s)"
    and delete_inv: "inv s \<Longrightarrow> inv (snd (delete w i s))"
    and delete_other: "v \<noteq> w \<Longrightarrow> list_of v (snd (delete w i s)) = list_of v s"
begin

definition own_step :: "('o, 'a) own_op \<Rightarrow> 's \<Rightarrow> 's" where
  "own_step x s = (case x of Create w a \<Rightarrow> snd (create w a s) | Delete w i \<Rightarrow> snd (delete w i s))"

lemma run_other:
  "\<forall>x \<in> set xs. op_owner x \<noteq> v \<Longrightarrow> list_of v (fold own_step xs s) = list_of v s"
proof (induction xs arbitrary: s)
  case (Cons x xs)
  then have "list_of v (own_step x s) = list_of v s"
    by (cases x) (auto simp: own_step_def create_other delete_other)
  with Cons show ?case by simp
qed simp

lemma run_inv: "inv s \<Longrightarrow> inv (fold own_step xs s)"
proof (induction xs arbitrary: s)
  case (Cons x xs)
  then show ?case by (cases x) (auto simp: own_step_def create_inv delete_inv)
qed simp

lemma create_delete:
  assumes "inv s" and "fst (create w a s) = Ok i" and "fst (delete w i (snd (create w a s))) = Ok ()"
  shows "list_of w (snd (delete w i (snd (create w a s)))) = list_of w s"
proof -
  have "i \<notin> fst ` set (list_of w s)" and "\<exists>r. list_of w (snd (create w a s)) = list_of w s @ [(i, r)]"
    using create_Ok [OF assms(1,2)] by auto
  then show ?thesis using delete_Ok [OF assms(3)] by (auto simp: filter_id_conv)
qed

end

end
