(* ===== verification/PathRules.thy ===== *)
theory PathRules
  imports Glob Stores
begin

text \<open>
  \<open>internal/service/pathperm/pathperm.go\<close> and \<open>internal/service/codeowners/codeowners.go\<close>:
  rules that attach a permission or owners to the paths a pattern matches. A path rule set is a SQL
  table; the most specific (longest) matching pattern wins. A code owners file is parsed line by
  line; the last matching rule wins. \<open>role_id\<close> of a path rule is never written by the service.
\<close>

section \<open>Path permissions\<close>

record path_rule =
  pr_RepoID :: int
  pr_Pattern :: string
  pr_RoleID :: "int option"
  pr_Permission :: string

datatype pathperm_error =
    InvalidRepo | InvalidPathPermission string | PatternRequired | PatternDotDot | PatternControl
  | RuleNotFound | PathDriver

definition validPermissions :: "string \<Rightarrow> bool" where
  "validPermissions p \<longleftrightarrow> p \<in> {''read'', ''write'', ''admin''}"

text \<open>
  \<open>unicode.IsControl\<close> of some rune of the string: the bytes below 32, byte 127, and the runes
  128 to 159, which UTF-8 writes as the byte \<open>0xC2\<close> followed by a byte from \<open>0x80\<close> to \<open>0x9F\<close>.
\<close>

fun has_control :: "string \<Rightarrow> bool" where
  "has_control [] \<longleftrightarrow> False"
| "has_control (c # cs) \<longleftrightarrow>
     (of_char c :: nat) < 32 \<or> (of_char c :: nat) = 127 \<or>
     ((of_char c :: nat) = 194 \<and> (case cs of [] \<Rightarrow> False | d # _ \<Rightarrow> 128 \<le> (of_char d :: nat) \<and> (of_char d :: nat) \<le> 159)) \<or>
     has_control cs"

definition validatePattern :: "string \<Rightarrow> pathperm_error + unit" where
  "validatePattern pattern =
     (if trim_space pattern = [] then Err PatternRequired
      else if contains pattern ''..'' then Err PatternDotDot
      else if has_control pattern then Err PatternControl
      else Ok ())"

definition pathperm_Create ::
  "int \<Rightarrow> string \<Rightarrow> string \<Rightarrow> path_rule sql \<Rightarrow> (pathperm_error + int \<times> path_rule) \<times> path_rule sql" where
  "pathperm_Create repoID pattern permission0 s =
     (if repoID \<le> 0 then (Err InvalidRepo, s)
      else let permission = (if permission0 = [] then ''read'' else permission0) in
        if \<not> validPermissions permission then (Err (InvalidPathPermission permission), s)
        else case validatePattern pattern of
          Inl e \<Rightarrow> (Err e, s)
        | Inr _ \<Rightarrow>
            if down s then (Err PathDriver, s)
            else let r = \<lparr>pr_RepoID = repoID, pr_Pattern = pattern, pr_RoleID = None, pr_Permission = permission\<rparr>;
                     t = tbl_insert r (tab s)
                 in (Ok (seq t, r), s\<lparr>tab := t\<rparr>))"

definition pathperm_List :: "int \<Rightarrow> path_rule sql \<Rightarrow> pathperm_error + (int \<times> path_rule) list" where
  "pathperm_List repoID s =
     (if down s then Err PathDriver else Ok (tbl_select (\<lambda>_ r. pr_RepoID r = repoID) (tab s)))"

definition pathperm_Delete :: "int \<Rightarrow> int \<Rightarrow> path_rule sql \<Rightarrow> (pathperm_error + unit) \<times> path_rule sql" where
  "pathperm_Delete repoID i s =
     (if down s then (Err PathDriver, s)
      else let n = tbl_count (\<lambda>j r. j = i \<and> pr_RepoID r = repoID) (tab s);
               s' = s\<lparr>tab := tbl_delete (\<lambda>j r. j = i \<and> pr_RepoID r = repoID) (tab s)\<rparr>
           in if n = 0 then (Err RuleNotFound, s') else (Ok (), s'))"

text \<open>The first loop of \<open>Match\<close>: the state is \<open>(best, found)\<close>.\<close>

fun match_best :: "path_rule list \<Rightarrow> string \<Rightarrow> string \<times> bool \<Rightarrow> string \<times> bool" where
  "match_best [] path bf = bf"
| "match_best (r # rs) path (best, found) =
     (if \<not> pathperm_globMatch (pr_Pattern r) path then match_best rs path (best, found)
      else if \<not> found \<or> length best < length (pr_Pattern r) then match_best rs path (pr_Pattern r, True)
      else match_best rs path (best, found))"

definition pathperm_Match :: "path_rule list \<Rightarrow> string \<Rightarrow> string option" where
  "pathperm_Match rules path =
     (case match_best rules path ([], False) of
        (best, found) \<Rightarrow>
          if \<not> found then None
          else map_option pr_Permission (List.find (\<lambda>r. pr_Pattern r = best) rules))"

section \<open>Code owners\<close>

record owner_rule =
  cw_Pattern :: string
  cw_Owners :: "string list"

datatype codeowners_error = LineTooLong

definition parseLine :: "string \<Rightarrow> owner_rule option" where
  "parseLine line =
     (case str_fields (before_byte (CHR ''#'') line) of
        pattern # f # fs \<Rightarrow>
          (let owners = filter (\<lambda>w. w \<noteq> []) (map (\<lambda>w. trim_prefix w ''@'') (f # fs))
           in if owners = [] then None else Some \<lparr>cw_Pattern = pattern, cw_Owners = owners\<rparr>)
      | _ \<Rightarrow> None)"

text \<open>
  \<open>bufio.Scanner\<close> with \<open>ScanLines\<close>: the lines without their line feed and without one carriage
  return before it; no empty line after the last line feed. A line of \<open>2^20\<close> bytes or more fills
  the buffer and is an error.
\<close>

definition LF :: char where "LF = CHR 0x0A"
definition CR :: char where "CR = CHR 0x0D"
definition maxLine :: nat where "maxLine = 1048576"

definition raw_lines :: "string \<Rightarrow> string list" where
  "raw_lines data = (let ls = split_on LF data in if last ls = [] then butlast ls else ls)"

definition drop_cr :: "string \<Rightarrow> string" where
  "drop_cr l = (if l \<noteq> [] \<and> last l = CR then butlast l else l)"

definition codeowners_Parse :: "string \<Rightarrow> codeowners_error + owner_rule list" where
  "codeowners_Parse data =
     (if list_ex (\<lambda>l. maxLine \<le> length l) (raw_lines data) then Err LineTooLong
      else Ok (List.map_filter parseLine (map drop_cr (raw_lines data))))"

definition baseName :: "string \<Rightarrow> string" where
  "baseName path =
     (if CHR ''/'' \<in> set path then rev (takeWhile (\<lambda>c. c \<noteq> CHR ''/'') (rev path)) else path)"

definition matchSegments :: "string \<Rightarrow> string \<Rightarrow> bool" where
  "matchSegments pattern s \<longleftrightarrow> codeowners_globMatch pattern s"

text \<open>\<open>for i := range segs\<close>: the joined suffixes of the segments of a path.\<close>

definition path_suffixes :: "string \<Rightarrow> string list" where
  "path_suffixes path =
     (let segs = split_on (CHR ''/'') path in map (\<lambda>i. join ''/'' (drop i segs)) [0 ..< length segs])"

definition matchPattern :: "string \<Rightarrow> string \<Rightarrow> bool" where
  "matchPattern pattern0 path \<longleftrightarrow>
     (let anchored = has_prefix pattern0 ''/'';
          pattern1 = trim_prefix pattern0 ''/'';
          dirOnly = has_suffix pattern1 ''/'';
          pattern = trim_suffix pattern1 ''/''
      in if dirOnly then
           has_prefix path (pattern @ ''/'') \<or>
           (\<not> anchored \<and> list_ex (\<lambda>s. has_prefix s (pattern @ ''/'')) (path_suffixes path))
         else if \<not> contains pattern ''/'' \<and> \<not> anchored then
           matchSegments pattern path \<or> matchSegments pattern (baseName path)
         else if anchored then matchSegments pattern path
         else list_ex (matchSegments pattern) (path_suffixes path))"

fun owners_loop :: "owner_rule list \<Rightarrow> string \<Rightarrow> string list \<Rightarrow> string list" where
  "owners_loop [] path owners = owners"
| "owners_loop (r # rs) path owners =
     owners_loop rs path (if matchPattern (cw_Pattern r) path then cw_Owners r else owners)"

definition OwnersFor :: "owner_rule list \<Rightarrow> string \<Rightarrow> string list" where
  "OwnersFor rules path = owners_loop rules path []"

section \<open>The path rules of a repository\<close>

abbreviation repo_rules :: "int \<Rightarrow> path_rule sql \<Rightarrow> (int \<times> path_rule) list" where
  "repo_rules repoID s \<equiv> tbl_select (\<lambda>_ r. pr_RepoID r = repoID) (tab s)"

definition pathperm_create_id :: "int \<Rightarrow> string \<times> string \<Rightarrow> path_rule sql \<Rightarrow> (pathperm_error + int) \<times> path_rule sql" where
  "pathperm_create_id repoID pp s =
     (case pathperm_Create repoID (fst pp) (snd pp) s of (r, s') \<Rightarrow> (map_sum id fst r, s'))"

lemmas pathperm_ops = pathperm_create_id_def pathperm_Create_def pathperm_Delete_def

interpretation path_store: scoped_store repo_rules pathperm_create_id pathperm_Delete "\<lambda>s. tbl_wf (tab s)"
  by unfold_locales
    (auto simp: pathperm_ops Let_def sql_simps tbl_wf_insert tbl_wf_delete tbl_delete_none dest: tbl_wf_bound
      split: if_splits sum.splits)

section \<open>The longest match wins\<close>

definition best_inv :: "path_rule list \<Rightarrow> string \<Rightarrow> string \<times> bool \<Rightarrow> bool" where
  "best_inv rs path bf \<longleftrightarrow>
     (if snd bf
      then \<exists>i < length rs. pr_Pattern (rs ! i) = fst bf \<and> glob (fst bf) path \<and>
        (\<forall>j < length rs. glob (pr_Pattern (rs ! j)) path \<longrightarrow>
           length (pr_Pattern (rs ! j)) \<le> length (fst bf) \<and> (j < i \<longrightarrow> length (pr_Pattern (rs ! j)) < length (fst bf)))
      else \<forall>r \<in> set rs. \<not> glob (pr_Pattern r) path)"

lemma best_inv_skip:
  "best_inv rs path (b, f) \<Longrightarrow> \<not> glob (pr_Pattern r) path \<or> (f \<and> length (pr_Pattern r) \<le> length b) \<Longrightarrow>
     best_inv (rs @ [r]) path (b, f)"
  by (cases f) (auto simp: best_inv_def nth_append less_Suc_eq)

lemma best_inv_take:
  assumes "best_inv rs path (b, f)" and "glob (pr_Pattern r) path" and "\<not> f \<or> length b < length (pr_Pattern r)"
  shows "best_inv (rs @ [r]) path (pr_Pattern r, True)"
proof -
  have "length (pr_Pattern (rs ! j)) < length (pr_Pattern r)" if "j < length rs" "glob (pr_Pattern (rs ! j)) path" for j
  proof (cases f)
    case True
    with assms(1) that have "length (pr_Pattern (rs ! j)) \<le> length b" by (auto simp: best_inv_def)
    with True assms(3) show ?thesis by simp
  next
    case False
    with assms(1) that show ?thesis by (auto simp: best_inv_def)
  qed
  then have all: "\<forall>j < length (rs @ [r]). glob (pr_Pattern ((rs @ [r]) ! j)) path \<longrightarrow>
      length (pr_Pattern ((rs @ [r]) ! j)) \<le> length (pr_Pattern r) \<and>
      (j < length rs \<longrightarrow> length (pr_Pattern ((rs @ [r]) ! j)) < length (pr_Pattern r))"
    by (auto simp: nth_append less_Suc_eq intro: less_imp_le)
  show ?thesis unfolding best_inv_def snd_conv fst_conv if_True
  proof (intro exI [of _ "length rs"] conjI)
    show "pr_Pattern ((rs @ [r]) ! length rs) = pr_Pattern r" by simp
  qed (use all assms(2) in auto)
qed

lemma match_best_inv: "best_inv pre path bf \<Longrightarrow> best_inv (pre @ rs) path (match_best rs path bf)"
proof (induction rs path bf arbitrary: pre rule: match_best.induct)
  case (2 r rs path best found)
  have g: "pathperm_globMatch (pr_Pattern r) path \<longleftrightarrow> glob (pr_Pattern r) path"
    by (simp add: pathperm_glob.matches_glob)
  show ?case
    using "2.IH" [of "pre @ [r]"] best_inv_skip [OF "2.prems", of r] best_inv_take [OF "2.prems", of r]
    by (auto simp: g)
qed simp

text \<open>Of the path rules that match a path the most specific one decides: the permission is that
  of the first rule whose pattern is longest among the patterns that match; there is no answer
  exactly when no rule matches.\<close>

theorem path_match_longest:
  "case pathperm_Match rules path of
     None \<Rightarrow> \<forall>r \<in> set rules. \<not> glob (pr_Pattern r) path
   | Some p \<Rightarrow> \<exists>i < length rules. pr_Permission (rules ! i) = p \<and> glob (pr_Pattern (rules ! i)) path \<and>
       (\<forall>j < length rules. glob (pr_Pattern (rules ! j)) path \<longrightarrow>
          length (pr_Pattern (rules ! j)) \<le> length (pr_Pattern (rules ! i)) \<and>
          (j < i \<longrightarrow> length (pr_Pattern (rules ! j)) < length (pr_Pattern (rules ! i))))"
proof -
  obtain b f where bf: "match_best rules path ([], False) = (b, f)" by fastforce
  have inv: "best_inv rules path (b, f)"
    using match_best_inv [of "[]" path "([], False)" rules] bf by (simp add: best_inv_def)
  show ?thesis
  proof (cases f)
    case False
    with inv bf show ?thesis by (simp add: pathperm_Match_def best_inv_def)
  next
    case True
    with inv obtain i where i: "i < length rules" "pr_Pattern (rules ! i) = b" "glob b path"
      and best: "\<And>j. j < length rules \<Longrightarrow> glob (pr_Pattern (rules ! j)) path \<Longrightarrow>
        length (pr_Pattern (rules ! j)) \<le> length b \<and> (j < i \<longrightarrow> length (pr_Pattern (rules ! j)) < length b)"
      by (auto simp: best_inv_def)
    have "\<forall>j < i. pr_Pattern (rules ! j) \<noteq> b" using best i by (metis less_irrefl order_less_trans)
    then have "List.find (\<lambda>r. pr_Pattern r = b) rules = Some (rules ! i)"
      using i by (auto simp: find_Some_iff)
    then have "pathperm_Match rules path = Some (pr_Permission (rules ! i))"
      using bf True by (simp add: pathperm_Match_def)
    then show ?thesis using i best by auto
  qed
qed

definition sample_rules :: "path_rule list" where
  "sample_rules =
     [\<lparr>pr_RepoID = 1, pr_Pattern = ''*'', pr_RoleID = None, pr_Permission = ''read''\<rparr>,
      \<lparr>pr_RepoID = 1, pr_Pattern = ''docs/*'', pr_RoleID = None, pr_Permission = ''write''\<rparr>]"

theorem path_match_longest_witness:
  "pathperm_Match sample_rules ''docs/a'' = Some ''write'' \<and> glob ''docs/*'' ''docs/a''"
proof -
  have "pathperm_Match sample_rules ''docs/a'' \<noteq> None"
    using path_match_longest [of sample_rules "''docs/a''"] by (auto simp: sample_rules_def split: option.splits)
  then obtain p where p: "pathperm_Match sample_rules ''docs/a'' = Some p" by blast
  with path_match_longest [of sample_rules "''docs/a''"] obtain i where i: "i < length sample_rules"
    "pr_Permission (sample_rules ! i) = p" and all: "\<forall>j < length sample_rules. glob (pr_Pattern (sample_rules ! j)) ''docs/a'' \<longrightarrow>
      length (pr_Pattern (sample_rules ! j)) \<le> length (pr_Pattern (sample_rules ! i))" by auto
  have "length (pr_Pattern (sample_rules ! 1)) \<le> length (pr_Pattern (sample_rules ! i))"
    using all [rule_format, of 1] by (simp add: sample_rules_def)
  with i have "p = ''write''" by (auto simp: sample_rules_def less_Suc_eq)
  with p show ?thesis by simp
qed

section \<open>The last matching owner rule wins\<close>

lemma owners_loop_last:
  "owners_loop rs path ows =
     (case List.find (\<lambda>r. matchPattern (cw_Pattern r) path) (rev rs) of None \<Rightarrow> ows | Some r \<Rightarrow> cw_Owners r)"
proof (induction rs path ows rule: owners_loop.induct)
  case (2 r rs path ows)
  have "List.find P (xs @ [x]) = (case List.find P xs of None \<Rightarrow> if P x then Some x else None | Some y \<Rightarrow> Some y)"
    for P and xs :: "owner_rule list" and x by (induction xs) auto
  with 2 show ?case by (auto split: option.splits)
qed simp

fun join_suffixes :: "string list \<Rightarrow> string list" where
  "join_suffixes [] = []"
| "join_suffixes (w # ws) = join ''/'' (w # ws) # join_suffixes ws"

lemma join_suffixes_eq: "map (\<lambda>i. join ''/'' (drop i ws)) [0 ..< length ws] = join_suffixes ws"
proof (induction ws)
  case (Cons w ws)
  have "[0 ..< length (w # ws)] = 0 # map Suc [0 ..< length ws]" by (simp add: upt_rec [of 0 "Suc _"] map_Suc_upt del: upt_Suc)
  then have "map (\<lambda>i. join ''/'' (drop i (w # ws))) [0 ..< length (w # ws)] =
      join ''/'' (w # ws) # map (\<lambda>i. join ''/'' (drop i ws)) [0 ..< length ws]" by (simp add: comp_def)
  with Cons show ?case by simp
qed simp

lemma join_suffixes_split:
  "join_suffixes (split_on (CHR ''/'') path) = path # join_suffixes (tl (split_on (CHR ''/'') path))"
  using join_split_on [of "CHR ''/''" path] by (cases "split_on (CHR ''/'') path") auto

lemma proper_suffixes:
  "set (join_suffixes (tl (split_on (CHR ''/'') path))) = {s. \<exists>pre. path = pre @ s \<and> pre \<noteq> [] \<and> last pre = CHR ''/''}"
proof (induction path)
  case (Cons c cs)
  show ?case
  proof (cases "c = CHR ''/''")
    case True
    have "(\<exists>pre. c # cs = pre @ s \<and> pre \<noteq> [] \<and> last pre = CHR ''/'') \<longleftrightarrow>
        s = cs \<or> (\<exists>pre. cs = pre @ s \<and> pre \<noteq> [] \<and> last pre = CHR ''/'')" for s
      using True by (auto simp: Cons_eq_append_conv)
    with True Cons show ?thesis by (simp add: join_suffixes_split) blast
  next
    case False
    obtain w ws where w: "split_on (CHR ''/'') cs = w # ws" by (cases "split_on (CHR ''/'') cs") auto
    have "(\<exists>pre. c # cs = pre @ s \<and> pre \<noteq> [] \<and> last pre = CHR ''/'') \<longleftrightarrow>
        (\<exists>pre. cs = pre @ s \<and> pre \<noteq> [] \<and> last pre = CHR ''/'')" for s
      using False by (auto simp: Cons_eq_append_conv split: if_splits)
    with False Cons w show ?thesis by simp
  qed
qed simp

lemma path_suffixes_iff:
  "s \<in> set (path_suffixes path) \<longleftrightarrow> (\<exists>pre. path = pre @ s \<and> (pre = [] \<or> last pre = CHR ''/''))"
proof -
  have "path_suffixes path = path # join_suffixes (tl (split_on (CHR ''/'') path))"
    unfolding path_suffixes_def Let_def join_suffixes_eq join_suffixes_split ..
  then have "s \<in> set (path_suffixes path) \<longleftrightarrow> s = path \<or> (\<exists>pre. path = pre @ s \<and> pre \<noteq> [] \<and> last pre = CHR ''/'')"
    using proper_suffixes [of path] by auto
  then show ?thesis by auto
qed

lemma trim_slash [simp]: "trim_prefix (CHR ''/'' # p) ''/'' = p" "trim_suffix (p @ ''/'') ''/'' = p"
  using trim_prefix_append [of "''/''" p] trim_suffix_append [of p "''/''"] by simp_all

lemma slash_ends [simp]: "has_prefix (CHR ''/'' # p) ''/''" "has_suffix (p @ ''/'') ''/''"
  by (simp_all add: has_prefix_iff has_suffix_iff)

lemma matchPattern_root_dir: "matchPattern (''/'' @ d @ ''/'') path \<longleftrightarrow> prefix (d @ ''/'') path"
  by (simp add: matchPattern_def Let_def has_prefix_iff)

lemma matchPattern_dir:
  assumes "\<not> prefix ''/'' d" and "d \<noteq> []"
  shows "matchPattern (d @ ''/'') path \<longleftrightarrow>
    (\<exists>pre rest. path = pre @ d @ ''/'' @ rest \<and> (pre = [] \<or> last pre = CHR ''/''))"
proof -
  have "\<not> has_prefix (d @ ''/'') ''/''" using assms by (cases d) (auto simp: has_prefix_iff)
  moreover from this have "trim_prefix (d @ ''/'') ''/'' = d @ ''/''" by (simp add: trim_prefix_def)
  ultimately have "matchPattern (d @ ''/'') path \<longleftrightarrow>
      prefix (d @ ''/'') path \<or> (\<exists>s \<in> set (path_suffixes path). prefix (d @ ''/'') s)"
    by (simp add: matchPattern_def Let_def has_prefix_iff list_ex_iff)
  also have "\<dots> \<longleftrightarrow> (\<exists>s \<in> set (path_suffixes path). prefix (d @ ''/'') s)"
    using path_suffixes_iff [of path path] by auto
  also have "\<dots> \<longleftrightarrow> (\<exists>s. (\<exists>pre. path = pre @ s \<and> (pre = [] \<or> last pre = CHR ''/'')) \<and> (\<exists>rest. s = d @ ''/'' @ rest))"
    unfolding path_suffixes_iff [symmetric] by (auto simp: prefix_def)
  finally show ?thesis by blast
qed

text \<open>The owners of a path are those of the last rule whose pattern matches it. A pattern for a
  directory matches what lies below a directory of that name: from the root when it starts with a
  slash, at any depth otherwise.\<close>

theorem owners_of_last_match:
  "OwnersFor rules path =
     (case List.find (\<lambda>r. matchPattern (cw_Pattern r) path) (rev rules) of None \<Rightarrow> [] | Some r \<Rightarrow> cw_Owners r) \<and>
   (matchPattern (''/'' @ d @ ''/'') path \<longleftrightarrow> prefix (d @ ''/'') path) \<and>
   (d \<noteq> [] \<and> \<not> prefix ''/'' d \<longrightarrow>
     (matchPattern (d @ ''/'') path \<longleftrightarrow>
        (\<exists>pre rest. path = pre @ d @ ''/'' @ rest \<and> (pre = [] \<or> last pre = CHR ''/''))))"
  using owners_loop_last [of rules path "[]"] matchPattern_root_dir matchPattern_dir by (simp add: OwnersFor_def)

theorem owners_of_last_match_witness:
  "''docs'' \<noteq> [] \<and> \<not> prefix ''/'' ''docs'' \<and> matchPattern ''docs/'' ''a/docs/b''"
proof -
  have "(\<exists>pre rest. ''a/docs/b'' = pre @ ''docs'' @ ''/'' @ rest \<and> (pre = [] \<or> last pre = CHR ''/''))"
    by (intro exI [of _ "''a/''"] exI [of _ "''b''"]) simp
  with owners_of_last_match [of "[]" "''a/docs/b''" "''docs''"] show ?thesis by simp
qed

section \<open>Files that parse\<close>

definition wf_word :: "string \<Rightarrow> bool" where
  "wf_word w \<longleftrightarrow> w \<noteq> [] \<and> (\<forall>c \<in> set w. \<not> is_space c \<and> c \<noteq> CHR ''#'')"

definition wf_owner_rule :: "owner_rule \<Rightarrow> bool" where
  "wf_owner_rule r \<longleftrightarrow> wf_word (cw_Pattern r) \<and> cw_Owners r \<noteq> [] \<and> (\<forall>w \<in> set (cw_Owners r). wf_word w)"

definition print_owner_rule :: "owner_rule \<Rightarrow> string" where
  "print_owner_rule r = join '' '' (cw_Pattern r # map ((#) (CHR ''@'')) (cw_Owners r))"

definition print_owners :: "owner_rule list \<Rightarrow> string" where
  "print_owners rs = concat (map (\<lambda>r. print_owner_rule r @ [LF]) rs)"

lemma str_fields_join:
  "\<forall>w \<in> set ws. wf_word w \<Longrightarrow> str_fields (join '' '' ws) = ws"
proof (induction "'' ''" ws rule: join.induct)
  case (2 w)
  then show ?case using fields_acc_word [of w "[]" "[]"] by (auto simp: str_fields_def wf_word_def)
next
  case (3 w v ws)
  have "is_space (CHR '' '')" by (simp add: is_space_def)
  moreover have "w \<noteq> []" "\<forall>c \<in> set w. \<not> is_space c" using "3.prems" by (auto simp: wf_word_def)
  ultimately show ?case using 3 fields_acc_word [of w "'' '' @ join '' '' (v # ws)" "[]"]
    by (simp add: str_fields_def)
qed (simp add: str_fields_def)

lemma set_join: "set (join sep ws) \<subseteq> set sep \<union> (\<Union>w \<in> set ws. set w)"
  by (induction sep ws rule: join.induct) auto

lemma print_owner_rule_chars:
  assumes "wf_owner_rule r" and "c \<in> set (print_owner_rule r)"
  shows "c \<noteq> CHR ''#'' \<and> c \<noteq> LF"
proof -
  have "c = CHR '' '' \<or> c = CHR ''@'' \<or> (\<not> is_space c \<and> c \<noteq> CHR ''#'')"
    using assms set_join [of "'' ''" "cw_Pattern r # map ((#) (CHR ''@'')) (cw_Owners r)"]
    by (auto simp: print_owner_rule_def wf_owner_rule_def wf_word_def)
  moreover have "is_space LF" "CHR '' '' \<noteq> LF" "CHR ''@'' \<noteq> LF" by (auto simp: is_space_def LF_def)
  ultimately show ?thesis by auto
qed

lemma last_join: "ws \<noteq> [] \<Longrightarrow> last ws \<noteq> [] \<Longrightarrow> join sep ws \<noteq> [] \<and> last (join sep ws) = last (last ws)"
  by (induction sep ws rule: join.induct) auto

lemma parseLine_print:
  assumes "wf_owner_rule r"
  shows "parseLine (print_owner_rule r) = Some r"
proof -
  obtain o1 os where os: "cw_Owners r = o1 # os" using assms by (cases "cw_Owners r") (auto simp: wf_owner_rule_def)
  have "before_byte (CHR ''#'') (print_owner_rule r) = print_owner_rule r"
    using print_owner_rule_chars [OF assms] by (auto simp: before_byte_def takeWhile_eq_all_conv)
  moreover have "\<forall>w \<in> set (cw_Pattern r # map ((#) (CHR ''@'')) (cw_Owners r)). wf_word w"
    using assms by (auto simp: wf_owner_rule_def wf_word_def is_space_def)
  then have "str_fields (print_owner_rule r) = cw_Pattern r # map ((#) (CHR ''@'')) (cw_Owners r)"
    unfolding print_owner_rule_def by (rule str_fields_join)
  moreover have "trim_prefix (CHR ''@'' # w) ''@'' = w" for w using trim_prefix_append [of "''@''" w] by simp
  moreover have "filter (\<lambda>w. w \<noteq> []) (cw_Owners r) = cw_Owners r"
    using assms by (auto simp: filter_id_conv wf_owner_rule_def wf_word_def)
  ultimately have "parseLine (print_owner_rule r) = Some \<lparr>cw_Pattern = cw_Pattern r, cw_Owners = cw_Owners r\<rparr>"
    by (simp add: parseLine_def Let_def comp_def os split: if_splits)
  then show ?thesis by simp
qed

lemma drop_cr_print: "wf_owner_rule r \<Longrightarrow> drop_cr (print_owner_rule r) = print_owner_rule r"
proof -
  assume wf: "wf_owner_rule r"
  let ?ws = "cw_Pattern r # map ((#) (CHR ''@'')) (cw_Owners r)"
  have ne: "cw_Owners r \<noteq> []" "last (cw_Owners r) \<in> set (cw_Owners r)" using wf by (auto simp: wf_owner_rule_def)
  then have l: "last ?ws = CHR ''@'' # last (cw_Owners r)" by (simp add: last_map)
  have "wf_word (last (cw_Owners r))" using wf ne by (simp add: wf_owner_rule_def)
  then have "\<not> is_space (last (last ?ws))" unfolding l by (auto simp: wf_word_def)
  moreover have "is_space CR" by (simp add: is_space_def CR_def)
  ultimately have "last (last ?ws) \<noteq> CR" by auto
  moreover have "last (print_owner_rule r) = last (last ?ws)"
    unfolding print_owner_rule_def using last_join [of ?ws "'' ''"] l by simp
  ultimately show ?thesis by (simp add: drop_cr_def)
qed

lemma split_on_line: "c \<notin> set l \<Longrightarrow> split_on c (l @ c # s) = l # split_on c s"
  by (induction l) auto

lemma raw_lines_concat:
  assumes "\<forall>l \<in> set ls. LF \<notin> set l"
  shows "raw_lines (concat (map (\<lambda>l. l @ [LF]) ls)) = ls"
proof -
  have "split_on LF (concat (map (\<lambda>l. l @ [LF]) ls)) = ls @ [[]]"
    using assms by (induction ls) (auto simp: split_on_line)
  then show ?thesis by (simp add: raw_lines_def)
qed

lemma parse_print_owners:
  assumes "\<forall>r \<in> set rs. wf_owner_rule r \<and> length (print_owner_rule r) < maxLine"
  shows "codeowners_Parse (print_owners rs) = Ok rs"
proof -
  have lines: "raw_lines (print_owners rs) = map print_owner_rule rs"
    using raw_lines_concat [of "map print_owner_rule rs"] print_owner_rule_chars assms
    by (auto simp: print_owners_def comp_def)
  have "List.map_filter parseLine (map drop_cr (map print_owner_rule rs)) = rs"
    using assms by (induction rs) (auto simp: map_filter_simps drop_cr_print parseLine_print)
  with lines assms show ?thesis
    by (auto simp: codeowners_Parse_def list_ex_iff not_le)
qed

lemma fields_acc_chars: "w \<in> set (fields_acc s acc) \<Longrightarrow> set w \<subseteq> set s \<union> set acc"
  by (induction s acc rule: fields_acc.induct) (auto split: if_splits)

lemma str_fields_chars: "w \<in> set (str_fields s) \<Longrightarrow> set w \<subseteq> set s"
  unfolding str_fields_def using fields_acc_chars [of w s "[]"] by simp

lemma parseLine_wf: "parseLine l = Some r \<Longrightarrow> wf_owner_rule r"
proof -
  assume "parseLine l = Some r"
  then obtain p f fs where fl: "str_fields (before_byte (CHR ''#'') l) = p # f # fs"
    and r: "cw_Pattern r = p" "cw_Owners r = filter (\<lambda>w. w \<noteq> []) (map (\<lambda>w. trim_prefix w ''@'') (f # fs))" "cw_Owners r \<noteq> []"
    by (auto simp: parseLine_def Let_def split: list.splits if_splits)
  have word: "wf_word w" if "w \<in> set (p # f # fs)" for w
  proof -
    have w: "w \<in> set (str_fields (before_byte (CHR ''#'') l))" using that fl by simp
    have "CHR ''#'' \<notin> set (before_byte (CHR ''#'') l)" by (auto simp: before_byte_def dest: set_takeWhileD)
    with str_fields_chars [OF w] str_fields_parts [OF w] show ?thesis by (auto simp: wf_word_def)
  qed
  have "wf_word w" if w: "w \<in> set (cw_Owners r)" for w
  proof -
    obtain v where v: "v \<in> set (f # fs)" "w = trim_prefix v ''@''" "w \<noteq> []" using w unfolding r(2) set_filter set_map by blast
    have "set w \<subseteq> set v" unfolding v(2) by (auto simp: trim_prefix_def dest: in_set_dropD)
    with v word [of v] show ?thesis by (auto simp: wf_word_def)
  qed
  with word r show ?thesis by (simp add: wf_owner_rule_def)
qed

text \<open>Every rule a code owners file yields has a pattern and at least one owner, all non-empty
  and free of white space and comment marks, and writing the rules out, one per line with an at sign
  before each owner, gives a file that parses to the same rules.\<close>

theorem codeowners_roundtrip:
  assumes "codeowners_Parse data = Ok rs" and "\<forall>r \<in> set rs. length (print_owner_rule r) < maxLine"
  shows "(\<forall>r \<in> set rs. wf_owner_rule r) \<and> codeowners_Parse (print_owners rs) = Ok rs"
proof -
  have "\<forall>r \<in> set rs. wf_owner_rule r"
    using assms(1) parseLine_wf by (auto simp: codeowners_Parse_def map_filter_def split: if_splits)
  with assms(2) parse_print_owners [of rs] show ?thesis by blast
qed

theorem codeowners_roundtrip_witness:
  "codeowners_Parse ''docs @ann bob # both'' = Ok [\<lparr>cw_Pattern = ''docs'', cw_Owners = [''ann'', ''bob'']\<rparr>] \<and>
   codeowners_Parse (print_owners [\<lparr>cw_Pattern = ''docs'', cw_Owners = [''ann'', ''bob'']\<rparr>]) =
     Ok [\<lparr>cw_Pattern = ''docs'', cw_Owners = [''ann'', ''bob'']\<rparr>]"
proof -
  have p: "codeowners_Parse ''docs @ann bob # both'' = Ok [\<lparr>cw_Pattern = ''docs'', cw_Owners = [''ann'', ''bob'']\<rparr>]"
  proof -
    have "raw_lines ''docs @ann bob # both'' = [''docs @ann bob # both'']" by (simp add: raw_lines_def LF_def)
    moreover have "drop_cr ''docs @ann bob # both'' = ''docs @ann bob # both''" by (simp add: drop_cr_def CR_def)
    moreover have "str_fields (before_byte (CHR ''#'') ''docs @ann bob # both'') = [''docs'', ''@ann'', ''bob'']"
      by (simp add: before_byte_def str_fields_def is_space_def)
    then have "parseLine ''docs @ann bob # both'' = Some \<lparr>cw_Pattern = ''docs'', cw_Owners = [''ann'', ''bob'']\<rparr>"
      by (simp add: parseLine_def trim_prefix_def has_prefix_def)
    ultimately show ?thesis by (simp add: codeowners_Parse_def maxLine_def map_filter_simps)
  qed
  have "\<forall>r \<in> set [\<lparr>cw_Pattern = ''docs'', cw_Owners = [''ann'', ''bob'']\<rparr>]. length (print_owner_rule r) < maxLine"
    by (simp add: print_owner_rule_def maxLine_def)
  from codeowners_roundtrip [OF p this] p show ?thesis by simp
qed

section \<open>Rules of a repository\<close>

definition valid_rule :: "path_rule \<Rightarrow> bool" where
  "valid_rule r \<longleftrightarrow> 0 < pr_RepoID r \<and> validPermissions (pr_Permission r) \<and> validatePattern (pr_Pattern r) = Ok ()"

lemma pathperm_step_valid:
  "\<forall>r \<in> vals (tab s). valid_rule r \<Longrightarrow> \<forall>r \<in> vals (tab (path_store.own_step x s)). valid_rule r"
  by (cases x) (auto simp: path_store.own_step_def pathperm_ops valid_rule_def Let_def validPermissions_def vals_def
      split: if_splits sum.splits)

text \<open>Along every sequence of calls to create and delete path rules, the stored rules stay valid
  (a known permission, a non-blank pattern without dot-dot or control characters), and the calls for
  other repositories do not change what is listed for a repository.\<close>

theorem path_rules_isolated:
  assumes "\<forall>r \<in> vals (tab s). valid_rule r"
  shows "(\<forall>r \<in> vals (tab (fold path_store.own_step xs s)). valid_rule r) \<and>
    ((\<forall>x \<in> set xs. op_owner x \<noteq> repo) \<longrightarrow> repo_rules repo (fold path_store.own_step xs s) = repo_rules repo s)"
proof -
  have "\<forall>r \<in> vals (tab (fold path_store.own_step xs s)). valid_rule r"
    using assms
  proof (induction xs arbitrary: s)
    case (Cons x xs)
    from Cons.IH [OF pathperm_step_valid [OF Cons.prems]] show ?case by simp
  qed simp
  then show ?thesis using path_store.run_other [of xs repo s] by blast
qed

theorem path_rules_isolated_witness:
  "vals (tab (sql_empty :: path_rule sql)) = {} \<and>
   repo_rules 1 (fold path_store.own_step [Create 2 (''docs/*'', ''write'')] sql_empty) = []"
proof -
  have v: "\<forall>r \<in> vals (tab (sql_empty :: path_rule sql)). valid_rule r" by (simp add: sql_empty_def)
  have "\<forall>x \<in> set [Create 2 (''docs/*'', ''write'')]. op_owner x \<noteq> (1 :: int)" by simp
  then have "repo_rules 1 (fold path_store.own_step [Create 2 (''docs/*'', ''write'')] sql_empty) = repo_rules 1 sql_empty"
    using path_rules_isolated [OF v] by blast
  also have "\<dots> = []" by (simp add: sql_empty_def tbl_select_def)
  finally show ?thesis by (intro conjI) (simp add: sql_empty_def, simp only:)
qed

end
