(* ===== verification/Codec.thy ===== *)
theory Codec
  imports Prelude "HOL-Library.Word"
begin

unbundle bit_operations_syntax

text \<open>
  The encodings of the Go standard library that the code stores secrets in: \<open>encoding/hex\<close>,
  \<open>encoding/base64\<close> without padding, decimal numbers read by \<open>fmt.Sscanf\<close>, ASCII letter case, and the loop of the comparisons in constant time.
  Bytes are characters. The lemmas are the round trips and the alphabets of the encoders.
\<close>

section \<open>Letter case\<close>

text \<open>\<open>strings.ToLower\<close> and \<open>strings.ToUpper\<close> on ASCII strings; other bytes are left alone.\<close>

definition lower_char :: "char \<Rightarrow> char" where
  "lower_char c = (let n = of_char c :: nat in if 65 \<le> n \<and> n \<le> 90 then char_of (n + 32) else c)"

definition upper_char :: "char \<Rightarrow> char" where
  "upper_char c = (let n = of_char c :: nat in if 97 \<le> n \<and> n \<le> 122 then char_of (n - 32) else c)"

definition to_lower :: "string \<Rightarrow> string" where "to_lower s = map lower_char s"
definition to_upper :: "string \<Rightarrow> string" where "to_upper s = map upper_char s"

section \<open>Hexadecimal\<close>

definition hex_digit :: "nat \<Rightarrow> char" where
  "hex_digit n = ''0123456789abcdef'' ! n"

definition hex_encode :: "string \<Rightarrow> string" where
  "hex_encode bs = concat (map (\<lambda>c. [hex_digit (of_char c div 16), hex_digit (of_char c mod 16)]) bs)"

definition hex_val :: "char \<Rightarrow> nat option" where
  "hex_val c =
     (let n = of_char c :: nat in
      if 48 \<le> n \<and> n \<le> 57 then Some (n - 48)
      else if 97 \<le> n \<and> n \<le> 102 then Some (n - 87)
      else if 65 \<le> n \<and> n \<le> 70 then Some (n - 55)
      else None)"

text \<open>\<open>hex.DecodeString\<close>; \<^const>\<open>None\<close> for an odd length or a byte that is no digit.\<close>

fun hex_decode :: "string \<Rightarrow> string option" where
  "hex_decode [] = Some []"
| "hex_decode [_] = None"
| "hex_decode (a # b # s) =
     (case (hex_val a, hex_val b, hex_decode s) of
        (Some x, Some y, Some r) \<Rightarrow> Some (char_of (16 * x + y) # r)
      | _ \<Rightarrow> None)"

lemma hex_digits: "\<forall>n \<in> {..<16}. hex_val (hex_digit n) = Some n"
  by code_simp

lemma hex_val_digit [simp]: "n < 16 \<Longrightarrow> hex_val (hex_digit n) = Some n"
  using hex_digits by blast

lemma hex_roundtrip [simp]: "hex_decode (hex_encode bs) = Some bs"
proof (induction bs)
  case (Cons c bs)
  have "(of_char c :: nat) div 16 < 16" using nat_of_char_less_256 [of c] by linarith
  then show ?case using Cons by (simp add: hex_encode_def)
qed (simp add: hex_encode_def)

lemma hex_length [simp]: "length (hex_encode bs) = 2 * length bs"
  by (induction bs) (simp_all add: hex_encode_def)

section \<open>Base64 without padding\<close>

definition std_alphabet :: string where
  "std_alphabet = ''ABCDEFGHIJKLMNOPQRSTUVWXYZabcdefghijklmnopqrstuvwxyz0123456789+/''"

definition url_alphabet :: string where
  "url_alphabet = ''ABCDEFGHIJKLMNOPQRSTUVWXYZabcdefghijklmnopqrstuvwxyz0123456789-_''"

fun b64_sextets :: "nat list \<Rightarrow> nat list" where
  "b64_sextets [] = []"
| "b64_sextets [a] = [a div 4, a mod 4 * 16]"
| "b64_sextets [a, b] = [a div 4, a mod 4 * 16 + b div 16, b mod 16 * 4]"
| "b64_sextets (a # b # c # s) =
     [a div 4, a mod 4 * 16 + b div 16, b mod 16 * 4 + c div 64, c mod 64] @ b64_sextets s"

definition b64_encode :: "string \<Rightarrow> string \<Rightarrow> string" where
  "b64_encode alphabet bs = map ((!) alphabet) (b64_sextets (map of_char bs))"

fun b64_bytes :: "nat list \<Rightarrow> nat list option" where
  "b64_bytes [] = Some []"
| "b64_bytes [_] = None"
| "b64_bytes [p, q] = Some [4 * p + q div 16]"
| "b64_bytes [p, q, r] = Some [4 * p + q div 16, q mod 16 * 16 + r div 4]"
| "b64_bytes (p # q # r # s # t) =
     map_option (\<lambda>bs. [4 * p + q div 16, q mod 16 * 16 + r div 4, r mod 4 * 64 + s] @ bs) (b64_bytes t)"

fun index_of :: "char \<Rightarrow> string \<Rightarrow> nat option" where
  "index_of c [] = None"
| "index_of c (d # ds) = (if c = d then Some 0 else map_option Suc (index_of c ds))"

fun sextets_of :: "string \<Rightarrow> string \<Rightarrow> nat list option" where
  "sextets_of alphabet [] = Some []"
| "sextets_of alphabet (c # cs) =
     (case (index_of c alphabet, sextets_of alphabet cs) of
        (Some n, Some ns) \<Rightarrow> Some (n # ns) | _ \<Rightarrow> None)"

text \<open>\<open>DecodeString\<close>: line ends are skipped, any other byte outside the alphabet is an error, and so is
  a single left-over digit; left-over bits are ignored.\<close>

definition b64_decode :: "string \<Rightarrow> string \<Rightarrow> string option" where
  "b64_decode alphabet s =
     (case sextets_of alphabet (filter (\<lambda>c. c \<noteq> CHR 0x0A \<and> c \<noteq> CHR 0x0D) s) of
        None \<Rightarrow> None
      | Some ns \<Rightarrow> map_option (map char_of) (b64_bytes ns))"

lemma b64_sextets_bound: "\<forall>n \<in> set bs. n < 256 \<Longrightarrow> k \<in> set (b64_sextets bs) \<Longrightarrow> k < 64"
proof (induction bs rule: b64_sextets.induct)
  case (4 a b c s)
  then have "a div 4 < 64" "a mod 4 * 16 + b div 16 < 64" "b mod 16 * 4 + c div 64 < 64" by auto
  with 4 show ?case by auto
qed auto

lemma b64_bytes_sextets: "\<forall>n \<in> set bs. n < 256 \<Longrightarrow> b64_bytes (b64_sextets bs) = Some bs"
  by (induction bs rule: b64_sextets.induct) (auto simp: div_mult2_eq [symmetric])

lemma index_of_nth: "distinct ds \<Longrightarrow> n < length ds \<Longrightarrow> index_of (ds ! n) ds = Some n"
proof (induction ds arbitrary: n)
  case (Cons d ds)
  then show ?case by (cases n) auto
qed simp

lemma sextets_of_nth:
  "distinct al \<Longrightarrow> \<forall>n \<in> set ns. n < length al \<Longrightarrow> sextets_of al (map ((!) al) ns) = Some ns"
  by (induction ns) (auto simp: index_of_nth)

lemma b64_encode_set: "length al = 64 \<Longrightarrow> set (b64_encode al bs) \<subseteq> set al"
  using b64_sextets_bound [of "map of_char bs"] nat_of_char_less_256
  by (auto simp: b64_encode_def intro!: nth_mem)

lemma b64_roundtrip:
  assumes "distinct al" and "length al = 64" and "CHR 0x0A \<notin> set al" and "CHR 0x0D \<notin> set al"
  shows "b64_decode al (b64_encode al bs) = Some bs"
proof -
  let ?ns = "b64_sextets (map of_char bs)"
  have ns: "\<forall>n \<in> set ?ns. n < length al"
    using b64_sextets_bound [of "map of_char bs"] nat_of_char_less_256 assms(2) by auto
  have "filter (\<lambda>c. c \<noteq> CHR 0x0A \<and> c \<noteq> CHR 0x0D) (b64_encode al bs) = b64_encode al bs"
    using b64_encode_set [OF assms(2), of bs] assms(3,4) by (auto simp: filter_id_conv)
  moreover have "sextets_of al (b64_encode al bs) = Some ?ns"
    unfolding b64_encode_def by (rule sextets_of_nth [OF assms(1) ns])
  moreover have "b64_bytes ?ns = Some (map of_char bs)"
    by (rule b64_bytes_sextets) (use nat_of_char_less_256 in auto)
  ultimately show ?thesis by (simp add: b64_decode_def comp_def)
qed

lemma std_alphabet_ok:
  "distinct std_alphabet" "length std_alphabet = 64" "CHR 0x0A \<notin> set std_alphabet"
  "CHR 0x0D \<notin> set std_alphabet" "CHR ''$'' \<notin> set std_alphabet"
  by code_simp+

lemmas b64_std_roundtrip [simp] = b64_roundtrip [OF std_alphabet_ok(1-4)]

lemma b64_std_no_dollar [simp]: "CHR ''$'' \<notin> set (b64_encode std_alphabet bs)"
  using b64_encode_set [OF std_alphabet_ok(2)] std_alphabet_ok(5) by blast

section \<open>Decimal numbers in a format\<close>

definition is_digit :: "char \<Rightarrow> bool" where
  "is_digit c \<longleftrightarrow> 48 \<le> (of_char c :: nat) \<and> (of_char c :: nat) \<le> 57"

text \<open>The verb \<open>%d\<close> of \<open>fmt.Sscanf\<close> for an unsigned number below \<open>bound\<close>, and the rest of the input:
  blanks are skipped, a line feed is not; no digit or too large a number is an error.\<close>

definition scan_uint :: "nat \<Rightarrow> string \<Rightarrow> (nat \<times> string) option" where
  "scan_uint bound s =
     (let t = dropWhile (\<lambda>c. is_space c \<and> c \<noteq> CHR 0x0A) s; ds = takeWhile is_digit t in
      if ds = [] \<or> nat_val ds \<ge> bound then None else Some (nat_val ds, dropWhile is_digit t))"

text \<open>The same for \<open>int\<close>, with an optional sign.\<close>

definition scan_int :: "string \<Rightarrow> (int \<times> string) option" where
  "scan_int s =
     (let t = dropWhile (\<lambda>c. is_space c \<and> c \<noteq> CHR 0x0A) s;
          neg = (t \<noteq> [] \<and> hd t = CHR ''-'');
          u = (if t \<noteq> [] \<and> (hd t = CHR ''-'' \<or> hd t = CHR ''+'') then tl t else t);
          ds = takeWhile is_digit u
      in if ds = [] \<or> (if neg then 2 ^ 63 < int (nat_val ds) else 2 ^ 63 \<le> int (nat_val ds)) then None
         else Some (if neg then - int (nat_val ds) else int (nat_val ds), dropWhile is_digit u))"

text \<open>A literal piece of the format.\<close>

definition scan_lit :: "string \<Rightarrow> string \<Rightarrow> string option" where
  "scan_lit p s = (if has_prefix s p then Some (drop (length p) s) else None)"

lemma nat_str_ne [simp]: "nat_str n \<noteq> []"
  by (simp add: nat_str.simps [of n])

lemma nat_str_is_digit: "c \<in> set (nat_str n) \<Longrightarrow> is_digit c"
  using nat_str_digits by (simp add: is_digit_def)

lemma digit_not_space: "is_digit c \<Longrightarrow> \<not> is_space c"
  by (auto simp: is_digit_def is_space_def)

lemma span_nat_str:
  assumes "rest = [] \<or> \<not> is_digit (hd rest)"
  shows "dropWhile (\<lambda>c. is_space c \<and> c \<noteq> CHR 0x0A) (nat_str n @ rest) = nat_str n @ rest"
    and "takeWhile is_digit (nat_str n @ rest) = nat_str n"
    and "dropWhile is_digit (nat_str n @ rest) = rest"
proof -
  obtain c cs where c: "nat_str n = c # cs" using nat_str_ne by (meson list.exhaust)
  then have "is_digit c" using nat_str_is_digit [of c n] by simp
  then show "dropWhile (\<lambda>c. is_space c \<and> c \<noteq> CHR 0x0A) (nat_str n @ rest) = nat_str n @ rest"
    using c digit_not_space by simp
  show "takeWhile is_digit (nat_str n @ rest) = nat_str n" and "dropWhile is_digit (nat_str n @ rest) = rest"
    using assms nat_str_is_digit [of _ n] by (cases rest; simp add: takeWhile_append dropWhile_append)+
qed

lemma scan_uint_nat_str [simp]:
  "n < bound \<Longrightarrow> rest = [] \<or> \<not> is_digit (hd rest) \<Longrightarrow> scan_uint bound (nat_str n @ rest) = Some (n, rest)"
  by (simp add: scan_uint_def span_nat_str Let_def)

lemma scan_int_nat_str:
  assumes "int n < 2 ^ 63" and "rest = [] \<or> \<not> is_digit (hd rest)"
  shows "scan_int (nat_str n @ rest) = Some (int n, rest)"
proof -
  obtain c cs where c: "nat_str n = c # cs" using nat_str_ne by (meson list.exhaust)
  then have "is_digit c" using nat_str_is_digit [of c n] by simp
  then have "hd (nat_str n @ rest) \<noteq> CHR ''-''" "hd (nat_str n @ rest) \<noteq> CHR ''+''"
    using c by (auto simp: is_digit_def)
  moreover have "\<not> 2 ^ 63 \<le> int n" using assms(1) by (simp only: not_le)
  ultimately show ?thesis
    by (simp add: scan_int_def Let_def span_nat_str [OF assms(2)] del: hd_append2)
qed

lemma scan_lit_append [simp]: "scan_lit p (p @ s) = Some s"
  by (simp add: scan_lit_def has_prefix_def)

section \<open>Comparison in constant time\<close>

text \<open>The loop of the byte-wise comparisons: the differences are collected in one byte.\<close>

definition byte_of :: "char \<Rightarrow> 8 word" where
  "byte_of c = word_of_nat (of_char c)"

fun diff_loop :: "string \<Rightarrow> string \<Rightarrow> 8 word \<Rightarrow> 8 word" where
  "diff_loop (a # as) (b # bs) v = diff_loop as bs (v OR (byte_of a XOR byte_of b))"
| "diff_loop _ _ v = v"

lemma unat_byte_of [simp]: "unat (byte_of c) = of_char c"
  by (simp add: byte_of_def unat_of_nat)

lemma byte_of_inject [simp]: "byte_of a = byte_of b \<longleftrightarrow> a = b"
  by (metis unat_byte_of of_char_eq_iff)

lemma diff_loop_zero: "length as = length bs \<Longrightarrow> diff_loop as bs v = 0 \<longleftrightarrow> v = 0 \<and> as = bs"
proof (induction as bs v rule: diff_loop.induct)
  case (1 a as b bs v)
  have "v OR (byte_of a XOR byte_of b) = 0 \<longleftrightarrow> v = 0 \<and> byte_of a = byte_of b"
    by (auto simp: bit_eq_iff bit_or_iff bit_xor_iff)
  with 1 show ?case by auto
qed auto

end
