(* ===== verification/Runner.thy ===== *)
theory Runner
  imports Codec
begin

unbundle bit_operations_syntax

text \<open>
  \<open>internal/service/runner/runner.go\<close> and \<open>job.go\<close>, the runner registry and the job queue of the
  CI system, with the request handlers of \<open>internal/transport/http/handlers_runner.go\<close> that
  runners call. The state holds the tables \<open>runners\<close>, \<open>runner_jobs\<close> and \<open>runner_job_logs\<close>.

  Code outside the repository is a parameter: \<open>hash\<close> is the hex form of SHA-256, \<open>rnd\<close> what the
  random source returns (\<^const>\<open>None\<close> when it fails), \<open>len\<close> the SQL function \<open>LENGTH\<close>, which counts
  bytes in MySQL and characters in SQLite and PostgreSQL.
\<close>

section \<open>State\<close>

record runner_row =
  rr_RunnerID :: string
  rr_Name :: string
  rr_TokenHash :: string
  rr_Labels :: string
  rr_Version :: string
  rr_OS :: string
  rr_Arch :: string
  rr_LastSeenAt :: "int option"
  rr_Status :: string

record job_row =
  jb_RunnerID :: "string option"
  jb_RepoID :: int
  jb_CommitSHA :: string
  jb_Ref :: string
  jb_WorkflowPath :: string
  jb_WorkflowContent :: string
  jb_Status :: string
  jb_StartedAt :: "int option"
  jb_FinishedAt :: "int option"
  jb_ExitCode :: "int option"

record create_job_params =
  cj_RepoID :: int
  cj_CommitSHA :: string
  cj_Ref :: string
  cj_WorkflowPath :: string
  cj_WorkflowContent :: string

record log_row =
  lg_job :: int
  lg_chunk :: string

record runner_state =
  rn_runners :: "runner_row table"
  rn_jobs :: "job_row table"
  rn_logs :: "log_row table"
  rn_logMax :: int
  rn_down :: bool

datatype runner_error =
    RnNotFound | RnUnauthorized | RnNoJob | RnInvalidStatus string | RnRandom | RnConstraint | RnDriver

definition runner_New :: "int \<Rightarrow> runner_state" where
  "runner_New logMaxMB =
     \<lparr>rn_runners = empty_table, rn_jobs = empty_table, rn_logs = empty_table,
      rn_logMax = (if logMaxMB \<le> 0 then 10 else logMaxMB) * 2 ^ 20, rn_down = False\<rparr>"

section \<open>Tokens\<close>

definition generateToken :: "string option \<Rightarrow> runner_error + string" where
  "generateToken rnd = (case rnd of None \<Rightarrow> Err RnRandom | Some buf \<Rightarrow> Ok (''glr_'' @ hex_encode buf))"

definition generateRunnerID :: "string option \<Rightarrow> runner_error + string" where
  "generateRunnerID rnd = (case rnd of None \<Rightarrow> Err RnRandom | Some buf \<Rightarrow> Ok (''runner-'' @ take 6 (hex_encode buf)))"

definition subtleEqual :: "string \<Rightarrow> string \<Rightarrow> bool" where
  "subtleEqual a b \<longleftrightarrow> (if length a \<noteq> length b then False else diff_loop a b 0 = 0)"

section \<open>The runner registry\<close>

definition runner_ByID :: "runner_state \<Rightarrow> int \<Rightarrow> runner_error + int \<times> runner_row" where
  "runner_ByID s i =
     (if rn_down s then Err RnDriver
      else case tbl_find (\<lambda>j _. j = i) (rn_runners s) of None \<Rightarrow> Err RnNotFound | Some x \<Rightarrow> Ok x)"

definition ByRunnerID :: "runner_state \<Rightarrow> string \<Rightarrow> runner_error + int \<times> runner_row" where
  "ByRunnerID s runnerID =
     (if rn_down s then Err RnDriver
      else case tbl_find (\<lambda>_ r. rr_RunnerID r = runnerID) (rn_runners s) of
             None \<Rightarrow> Err RnNotFound | Some x \<Rightarrow> Ok x)"

definition runner_List :: "runner_state \<Rightarrow> runner_error + (int \<times> runner_row) list" where
  "runner_List s = (if rn_down s then Err RnDriver else Ok (rev (rows (rn_runners s))))"

definition runner_Create ::
  "(string \<Rightarrow> string) \<Rightarrow> string option \<Rightarrow> string option \<Rightarrow> string \<Rightarrow> string \<Rightarrow> runner_state \<Rightarrow>
     (runner_error + (int \<times> runner_row) \<times> string) \<times> runner_state" where
  "runner_Create hash rndID rndTok name0 labels0 s =
     (let name = (if name0 = [] then ''runner'' else name0);
          labels = (if labels0 = [] then ''[]'' else labels0)
      in case generateRunnerID rndID of
           Inl e \<Rightarrow> (Err e, s)
         | Inr runnerID \<Rightarrow>
             (case generateToken rndTok of
                Inl e \<Rightarrow> (Err e, s)
              | Inr token \<Rightarrow>
                  if rn_down s then (Err RnDriver, s)
                  else if tbl_exists (\<lambda>_ r. rr_RunnerID r = runnerID \<or> rr_TokenHash r = hash token) (rn_runners s)
                  then (Err RnConstraint, s)
                  else let s' = s\<lparr>rn_runners := tbl_insert
                             \<lparr>rr_RunnerID = runnerID, rr_Name = name, rr_TokenHash = hash token, rr_Labels = labels,
                              rr_Version = [], rr_OS = [], rr_Arch = [], rr_LastSeenAt = None, rr_Status = ''active''\<rparr>
                             (rn_runners s)\<rparr>
                       in case runner_ByID s' (seq (rn_runners s')) of
                            Inl e \<Rightarrow> (Err e, s')
                          | Inr r \<Rightarrow> (Ok (r, token), s')))"

definition ResetToken ::
  "(string \<Rightarrow> string) \<Rightarrow> string option \<Rightarrow> int \<Rightarrow> runner_state \<Rightarrow> (runner_error + string) \<times> runner_state" where
  "ResetToken hash rndTok i s =
     (case generateToken rndTok of
        Inl e \<Rightarrow> (Err e, s)
      | Inr token \<Rightarrow>
          if rn_down s then (Err RnDriver, s)
          else if tbl_exists (\<lambda>j r. j \<noteq> i \<and> rr_TokenHash r = hash token) (rn_runners s)
                  \<and> tbl_exists (\<lambda>j _. j = i) (rn_runners s)
          then (Err RnConstraint, s)
          else if tbl_count (\<lambda>j _. j = i) (rn_runners s) = 0 then (Err RnNotFound, s)
          else (Ok token, s\<lparr>rn_runners := tbl_update (\<lambda>j _. j = i) (\<lambda>r. r\<lparr>rr_TokenHash := hash token\<rparr>) (rn_runners s)\<rparr>))"

definition runner_Update ::
  "int \<Rightarrow> string \<Rightarrow> string \<Rightarrow> string \<Rightarrow> runner_state \<Rightarrow> (runner_error + unit) \<times> runner_state" where
  "runner_Update i name labels status s =
     (if status \<noteq> [] \<and> status \<noteq> ''active'' \<and> status \<noteq> ''offline'' \<and> status \<noteq> ''disabled''
      then (Err (RnInvalidStatus status), s)
      else if name = [] \<and> labels = [] \<and> status = [] then (Ok (), s)
      else if rn_down s then (Err RnDriver, s)
      else (Ok (), s\<lparr>rn_runners := tbl_update (\<lambda>j _. j = i)
              (\<lambda>r. r\<lparr>rr_Name := (if name \<noteq> [] then name else rr_Name r),
                     rr_Labels := (if labels \<noteq> [] then labels else rr_Labels r),
                     rr_Status := (if status \<noteq> [] then status else rr_Status r)\<rparr>) (rn_runners s)\<rparr>))"

definition runner_Delete :: "int \<Rightarrow> runner_state \<Rightarrow> (runner_error + unit) \<times> runner_state" where
  "runner_Delete i s =
     (if rn_down s then (Err RnDriver, s)
      else (Ok (), s\<lparr>rn_runners := tbl_delete (\<lambda>j _. j = i) (rn_runners s)\<rparr>))"

definition Authenticate ::
  "(string \<Rightarrow> string) \<Rightarrow> runner_state \<Rightarrow> string \<Rightarrow> string \<Rightarrow> runner_error + int \<times> runner_row" where
  "Authenticate hash s runnerID token =
     (case ByRunnerID s runnerID of
        Inl e \<Rightarrow> Err RnUnauthorized
      | Inr r \<Rightarrow>
          if rr_Status (snd r) = ''disabled'' then Err RnUnauthorized
          else if subtleEqual (hash token) (rr_TokenHash (snd r)) then Ok r
          else Err RnUnauthorized)"

definition Heartbeat ::
  "int \<Rightarrow> string \<Rightarrow> string \<Rightarrow> string \<Rightarrow> string \<Rightarrow> string \<Rightarrow> string \<Rightarrow> runner_state \<Rightarrow>
     (runner_error + unit) \<times> runner_state" where
  "Heartbeat now runnerID status0 version osName arch labels s =
     (let status = (if status0 = [] then ''active'' else status0) in
      if rn_down s then (Err RnDriver, s)
      else (Ok (), s\<lparr>rn_runners := tbl_update (\<lambda>_ r. rr_RunnerID r = runnerID)
              (\<lambda>r. r\<lparr>rr_LastSeenAt := Some now, rr_Status := status, rr_Version := version, rr_OS := osName,
                     rr_Arch := arch, rr_Labels := (if labels = [] then rr_Labels r else labels)\<rparr>) (rn_runners s)\<rparr>))"

definition stale :: "int \<Rightarrow> runner_row \<Rightarrow> bool" where
  "stale cutoff r \<longleftrightarrow>
     rr_Status r = ''active'' \<and> (case rr_LastSeenAt r of None \<Rightarrow> True | Some t \<Rightarrow> t < cutoff)"

definition SweepOffline :: "int \<Rightarrow> int \<Rightarrow> runner_state \<Rightarrow> (runner_error + nat) \<times> runner_state" where
  "SweepOffline now timeout s =
     (if rn_down s then (Err RnDriver, s)
      else (Ok (tbl_count (\<lambda>_ r. stale (now - timeout) r) (rn_runners s)),
            s\<lparr>rn_runners := tbl_update (\<lambda>_ r. stale (now - timeout) r) (\<lambda>r. r\<lparr>rr_Status := ''offline''\<rparr>) (rn_runners s)\<rparr>))"

section \<open>Jobs\<close>

definition JobByID :: "runner_state \<Rightarrow> int \<Rightarrow> runner_error + int \<times> job_row" where
  "JobByID s i =
     (if rn_down s then Err RnDriver
      else case tbl_find (\<lambda>j _. j = i) (rn_jobs s) of None \<Rightarrow> Err RnNotFound | Some x \<Rightarrow> Ok x)"

definition CreateJob :: "create_job_params \<Rightarrow> runner_state \<Rightarrow> (runner_error + int \<times> job_row) \<times> runner_state" where
  "CreateJob p s =
     (if rn_down s then (Err RnDriver, s)
      else let s' = s\<lparr>rn_jobs := tbl_insert
                 \<lparr>jb_RunnerID = None, jb_RepoID = cj_RepoID p, jb_CommitSHA = cj_CommitSHA p, jb_Ref = cj_Ref p,
                  jb_WorkflowPath = cj_WorkflowPath p, jb_WorkflowContent = cj_WorkflowContent p,
                  jb_Status = ''pending'', jb_StartedAt = None, jb_FinishedAt = None, jb_ExitCode = None\<rparr> (rn_jobs s)\<rparr>
           in (JobByID s' (seq (rn_jobs s')), s'))"

text \<open>
  \<open>ClaimJob\<close>: the query for the oldest pending job, then the guarded update. The two statements are
  separate definitions so that another runner's statements can come in between.
\<close>

definition claim_select :: "runner_state \<Rightarrow> runner_error + int" where
  "claim_select s =
     (if rn_down s then Err RnDriver
      else case tbl_find (\<lambda>_ j. jb_Status j = ''pending'') (rn_jobs s) of
             None \<Rightarrow> Err RnNoJob | Some (i, _) \<Rightarrow> Ok i)"

definition claim_update :: "int \<Rightarrow> string \<Rightarrow> int \<Rightarrow> runner_state \<Rightarrow> (runner_error + int \<times> job_row) \<times> runner_state" where
  "claim_update now runnerID i s =
     (if rn_down s then (Err RnDriver, s)
      else if tbl_count (\<lambda>j r. j = i \<and> jb_Status r = ''pending'') (rn_jobs s) = 0 then (Err RnNoJob, s)
      else let s' = s\<lparr>rn_jobs := tbl_update (\<lambda>j r. j = i \<and> jb_Status r = ''pending'')
                 (\<lambda>r. r\<lparr>jb_Status := ''running'', jb_RunnerID := Some runnerID, jb_StartedAt := Some now\<rparr>) (rn_jobs s)\<rparr>
           in (JobByID s' i, s'))"

definition ClaimJob :: "int \<Rightarrow> string \<Rightarrow> runner_state \<Rightarrow> (runner_error + int \<times> job_row) \<times> runner_state" where
  "ClaimJob now runnerID s =
     (case claim_select s of Inl e \<Rightarrow> (Err e, s) | Inr i \<Rightarrow> claim_update now runnerID i s)"

definition final_status :: "string \<Rightarrow> string" where
  "final_status status = (if status \<in> {''success'', ''failed'', ''cancelled''} then status else ''failed'')"

definition CompleteJob :: "int \<Rightarrow> int \<Rightarrow> string \<Rightarrow> int \<Rightarrow> runner_state \<Rightarrow> (runner_error + unit) \<times> runner_state" where
  "CompleteJob now i status exitCode s =
     (if rn_down s then (Err RnDriver, s)
      else (Ok (), s\<lparr>rn_jobs := tbl_update (\<lambda>j _. j = i)
              (\<lambda>r. r\<lparr>jb_Status := final_status status, jb_ExitCode := Some exitCode, jb_FinishedAt := Some now\<rparr>)
              (rn_jobs s)\<rparr>))"

definition CancelJob :: "int \<Rightarrow> int \<Rightarrow> runner_state \<Rightarrow> (runner_error + unit) \<times> runner_state" where
  "CancelJob now i s =
     (if rn_down s then (Err RnDriver, s)
      else (Ok (), s\<lparr>rn_jobs := tbl_update (\<lambda>j r. j = i \<and> jb_Status r \<in> {''pending'', ''running''})
              (\<lambda>r. r\<lparr>jb_Status := ''cancelled'', jb_FinishedAt := Some now\<rparr>) (rn_jobs s)\<rparr>))"

definition page :: "int \<Rightarrow> nat" where
  "page limit = (if limit \<le> 0 \<or> limit > 200 then 50 else nat limit)"

definition ListJobsByRepo :: "runner_state \<Rightarrow> int \<Rightarrow> int \<Rightarrow> runner_error + (int \<times> job_row) list" where
  "ListJobsByRepo s repoID limit =
     (if rn_down s then Err RnDriver
      else Ok (take (page limit) (rev (tbl_select (\<lambda>_ j. jb_RepoID j = repoID) (rn_jobs s)))))"

definition ListJobsByRunner :: "runner_state \<Rightarrow> string \<Rightarrow> int \<Rightarrow> runner_error + (int \<times> job_row) list" where
  "ListJobsByRunner s runnerID limit =
     (if rn_down s then Err RnDriver
      else Ok (take (page limit) (rev (tbl_select (\<lambda>_ j. jb_RunnerID j = Some runnerID) (rn_jobs s)))))"

definition LogSize :: "(string \<Rightarrow> int) \<Rightarrow> runner_state \<Rightarrow> int \<Rightarrow> runner_error + int" where
  "LogSize len s jobID =
     (if rn_down s then Err RnDriver
      else Ok (sum_list (map (\<lambda>(_, l). len (lg_chunk l)) (tbl_select (\<lambda>_ l. lg_job l = jobID) (rn_logs s)))))"

definition AppendLog ::
  "(string \<Rightarrow> int) \<Rightarrow> int \<Rightarrow> string \<Rightarrow> runner_state \<Rightarrow> (runner_error + unit) \<times> runner_state" where
  "AppendLog len jobID chunk s =
     (if chunk = [] then (Ok (), s)
      else case LogSize len s jobID of
        Inl e \<Rightarrow> (Err e, s)
      | Inr current \<Rightarrow>
          if current \<ge> rn_logMax s then (Ok (), s)
          else let remaining = rn_logMax s - current;
                   chunk' = (if int (length chunk) > remaining then take (nat remaining) chunk else chunk)
               in (Ok (), s\<lparr>rn_logs := tbl_insert \<lparr>lg_job = jobID, lg_chunk = chunk'\<rparr> (rn_logs s)\<rparr>))"

definition runner_Logs :: "runner_state \<Rightarrow> int \<Rightarrow> int \<Rightarrow> int \<Rightarrow> runner_error + (int \<times> log_row) list" where
  "runner_Logs s jobID afterID limit =
     (if rn_down s then Err RnDriver
      else Ok (take (if limit \<le> 0 \<or> limit > 1000 then 500 else nat limit)
                 (tbl_select (\<lambda>i l. lg_job l = jobID \<and> i > afterID) (rn_logs s))))"

end
