(* ===== verification/RunnerHttp.thy ===== *)
theory RunnerHttp
  imports Runner
begin

text \<open>
  The handlers of \<open>internal/transport/http/handlers_runner.go\<close> that change the state of the runner
  service: registration, heartbeats, fetching the next job, streaming logs, reporting the result,
  and cancelling from the web. A handler returns the HTTP status and the new state. What the
  handlers take from the request is an argument: the headers, the job number of the path
  (\<^const>\<open>None\<close> when it is not a number), the decoded body (\<^const>\<open>None\<close> when it does not decode),
  and for logs the pieces that reading the body returns. \<open>ok_repo\<close> is the lookup of the repository.

  The step relation \<open>http_step\<close> runs them in any order; \<open>jobs_wf\<close> is the invariant of the job
  table.
\<close>

section \<open>Handlers\<close>

record runner_creds =
  auth_header :: string
  x_runner_id :: string
  query_runner_id :: string

definition bearer :: "string \<Rightarrow> string" where
  "bearer auth = (if length auth > 7 \<and> take 7 auth = ''Bearer '' then drop 7 auth else [])"

definition runnerAuth :: "(string \<Rightarrow> string) \<Rightarrow> runner_state \<Rightarrow> runner_creds \<Rightarrow> (int \<times> runner_row) option" where
  "runnerAuth hash s c =
     (let token = bearer (auth_header c);
          runnerID = (if x_runner_id c = [] then query_runner_id c else x_runner_id c)
      in if token = [] \<or> runnerID = [] then None
         else case Authenticate hash s runnerID token of Inl _ \<Rightarrow> None | Inr r \<Rightarrow> Some r)"

definition firstNonEmpty :: "string \<Rightarrow> string \<Rightarrow> string" where
  "firstNonEmpty v d = (if v = [] then d else v)"

record heartbeat_req =
  hb_Status :: string
  hb_Version :: string
  hb_OS :: string
  hb_Arch :: string
  hb_Labels :: string

definition http_of :: "(runner_error + 'a) \<times> runner_state \<Rightarrow> nat \<times> runner_state" where
  "http_of x = (case fst x of Inl _ \<Rightarrow> 500 | Inr _ \<Rightarrow> 200, snd x)"

definition handleRunnerHeartbeat ::
  "(string \<Rightarrow> string) \<Rightarrow> int \<Rightarrow> runner_creds \<Rightarrow> heartbeat_req \<Rightarrow> runner_state \<Rightarrow> nat \<times> runner_state" where
  "handleRunnerHeartbeat hash now c req s =
     (case runnerAuth hash s c of
        None \<Rightarrow> (401, s)
      | Some rr \<Rightarrow> http_of (Heartbeat now (rr_RunnerID (snd rr)) (firstNonEmpty (hb_Status req) ''active'')
                            (hb_Version req) (hb_OS req) (hb_Arch req) (hb_Labels req) s))"

definition handleRunnerRegister ::
  "(string \<Rightarrow> string) \<Rightarrow> int \<Rightarrow> runner_creds \<Rightarrow> heartbeat_req \<Rightarrow> runner_state \<Rightarrow> nat \<times> runner_state" where
  "handleRunnerRegister hash now c req s =
     (case runnerAuth hash s c of
        None \<Rightarrow> (401, s)
      | Some rr \<Rightarrow> http_of (Heartbeat now (rr_RunnerID (snd rr)) ''active''
                            (hb_Version req) (hb_OS req) (hb_Arch req) (hb_Labels req) s))"

definition handleRunnerNextJob ::
  "(string \<Rightarrow> string) \<Rightarrow> (int \<Rightarrow> bool) \<Rightarrow> int \<Rightarrow> runner_creds \<Rightarrow> runner_state \<Rightarrow>
     (nat \<times> (int \<times> job_row) option) \<times> runner_state" where
  "handleRunnerNextJob hash ok_repo now c s =
     (case runnerAuth hash s c of
        None \<Rightarrow> ((401, None), s)
      | Some rr \<Rightarrow>
          let r = snd rr;
              s1 = snd (Heartbeat now (rr_RunnerID r) ''active'' (rr_Version r) (rr_OS r) (rr_Arch r) [] s)
          in case ClaimJob now (rr_RunnerID r) s1 of
               (Inl e, s2) \<Rightarrow> ((if e = RnNoJob then 204 else 500, None), s2)
             | (Inr job, s2) \<Rightarrow>
                 if \<not> ok_repo (jb_RepoID (snd job)) then ((500, None), s2) else ((200, Some job), s2))"

text \<open>The check both job handlers make: the job exists and is assigned to this runner.\<close>

definition job_of_runner :: "runner_state \<Rightarrow> int \<Rightarrow> runner_row \<Rightarrow> bool" where
  "job_of_runner s jobID r =
     (case JobByID s jobID of
        Inl _ \<Rightarrow> False
      | Inr job \<Rightarrow> (case jb_RunnerID (snd job) of None \<Rightarrow> [] | Some x \<Rightarrow> x) = rr_RunnerID r)"

text \<open>The loop over the body: \<open>buf\<close> is sent when it holds 32 KiB; \<open>eof\<close> says how reading ended.\<close>

fun log_body :: "(string \<Rightarrow> int) \<Rightarrow> int \<Rightarrow> string \<Rightarrow> string list \<Rightarrow> bool \<Rightarrow> runner_state \<Rightarrow> nat \<times> runner_state" where
  "log_body len jobID buf [] eof s =
     (if \<not> eof then (400, s)
      else if buf \<noteq> [] then http_of (AppendLog len jobID buf s) else (200, s))"
| "log_body len jobID buf (piece # reads) eof s =
     (let buf' = buf @ piece in
      if piece \<noteq> [] \<and> length buf' \<ge> 32 * 1024 then
        (case AppendLog len jobID buf' s of
           (Inl e, s') \<Rightarrow> (500, s')
         | (Inr _, s') \<Rightarrow> log_body len jobID [] reads eof s')
      else log_body len jobID buf' reads eof s)"

definition handleRunnerJobLogs ::
  "(string \<Rightarrow> string) \<Rightarrow> (string \<Rightarrow> int) \<Rightarrow> runner_creds \<Rightarrow> int option \<Rightarrow> string list \<Rightarrow> bool \<Rightarrow> runner_state \<Rightarrow>
     nat \<times> runner_state" where
  "handleRunnerJobLogs hash len c jobID reads eof s =
     (case runnerAuth hash s c of
        None \<Rightarrow> (401, s)
      | Some rr \<Rightarrow>
          (case jobID of
             None \<Rightarrow> (400, s)
           | Some i \<Rightarrow>
               if \<not> job_of_runner s i (snd rr) then (403, s)
               else log_body len i [] reads eof s))"

record result_req =
  rq_Status :: string
  rq_ExitCode :: int
  rq_Error :: string

definition newline :: char where "newline = CHR 0x0A"

definition handleRunnerJobResult ::
  "(string \<Rightarrow> string) \<Rightarrow> (string \<Rightarrow> int) \<Rightarrow> int \<Rightarrow> runner_creds \<Rightarrow> int option \<Rightarrow> result_req option \<Rightarrow> runner_state \<Rightarrow>
     nat \<times> runner_state" where
  "handleRunnerJobResult hash len now c jobID req s =
     (case runnerAuth hash s c of
        None \<Rightarrow> (401, s)
      | Some rr \<Rightarrow>
          (case jobID of
             None \<Rightarrow> (400, s)
           | Some i \<Rightarrow>
               if \<not> job_of_runner s i (snd rr) then (403, s)
               else (case req of
                       None \<Rightarrow> (400, s)
                     | Some q \<Rightarrow>
                         let s1 = (if rq_Error q \<noteq> []
                                   then snd (AppendLog len i (newline # rq_Error q @ [newline]) s) else s)
                         in http_of (CompleteJob now i (rq_Status q) (rq_ExitCode q) s1))))"

text \<open>\<open>repo\<close> is the repository the caller may write to, after the permission check.\<close>

definition handleCancelWorkflowJob :: "int \<Rightarrow> int \<Rightarrow> int option \<Rightarrow> runner_state \<Rightarrow> nat \<times> runner_state" where
  "handleCancelWorkflowJob now repo jobID s =
     (case jobID of
        None \<Rightarrow> (400, s)
      | Some i \<Rightarrow>
          (case JobByID s i of
             Inl _ \<Rightarrow> (404, s)
           | Inr job \<Rightarrow> if jb_RepoID (snd job) \<noteq> repo then (404, s) else http_of (CancelJob now i s)))"

section \<open>Runs\<close>

inductive http_step :: "(string \<Rightarrow> string) \<Rightarrow> (string \<Rightarrow> int) \<Rightarrow> runner_state \<Rightarrow> runner_state \<Rightarrow> bool"
  for hash len where
  heartbeat: "http_step hash len s (snd (handleRunnerHeartbeat hash now c req s))"
| register: "http_step hash len s (snd (handleRunnerRegister hash now c req s))"
| next_job: "http_step hash len s (snd (handleRunnerNextJob hash ok_repo now c s))"
| job_logs: "http_step hash len s (snd (handleRunnerJobLogs hash len c jobID reads eof s))"
| job_result: "http_step hash len s (snd (handleRunnerJobResult hash len now c jobID rq s))"
| cancel: "http_step hash len s (snd (handleCancelWorkflowJob now repo jobID s))"
| create_job: "http_step hash len s (snd (CreateJob p s))"
| create_runner: "http_step hash len s (snd (runner_Create hash rndID rndTok name labels s))"
| reset_token: "http_step hash len s (snd (ResetToken hash rndTok i s))"
| update_runner: "http_step hash len s (snd (runner_Update i name labels status s))"
| delete_runner: "http_step hash len s (snd (runner_Delete i s))"
| sweep: "http_step hash len s (snd (SweepOffline now timeout s))"

text \<open>What a job row says at each stage of its life.\<close>

definition job_wf :: "job_row \<Rightarrow> bool" where
  "job_wf j \<longleftrightarrow>
     (jb_Status j = ''pending'' \<and> jb_RunnerID j = None \<and> jb_StartedAt j = None \<and> jb_FinishedAt j = None \<and> jb_ExitCode j = None) \<or>
     (jb_Status j = ''running'' \<and> jb_RunnerID j \<noteq> None \<and> jb_StartedAt j \<noteq> None \<and> jb_FinishedAt j = None \<and> jb_ExitCode j = None) \<or>
     (jb_Status j \<in> {''success'', ''failed''} \<and> jb_RunnerID j \<noteq> None \<and> jb_StartedAt j \<noteq> None \<and> jb_FinishedAt j \<noteq> None \<and> jb_ExitCode j \<noteq> None) \<or>
     (jb_Status j = ''cancelled'' \<and> jb_FinishedAt j \<noteq> None \<and> (jb_RunnerID j = None \<longleftrightarrow> jb_StartedAt j = None))"

definition named :: "runner_row table \<Rightarrow> bool" where
  "named t \<longleftrightarrow> (\<forall>r \<in> vals t. rr_RunnerID r \<noteq> [])"

definition jobs_wf :: "runner_state \<Rightarrow> bool" where
  "jobs_wf s \<longleftrightarrow> tbl_wf (rn_jobs s) \<and> (\<forall>j \<in> vals (rn_jobs s). job_wf j \<and> jb_RunnerID j \<noteq> Some []) \<and>
     named (rn_runners s)"

section \<open>What the operations do to jobs\<close>

lemma subtleEqual_eq: "subtleEqual a b \<longleftrightarrow> a = b"
  by (auto simp: subtleEqual_def diff_loop_zero)

lemma Authenticate_iff:
  "Authenticate hash s rid token = Ok x \<longleftrightarrow>
     \<not> rn_down s \<and> tbl_find (\<lambda>_ r. rr_RunnerID r = rid) (rn_runners s) = Some x \<and>
     rr_Status (snd x) \<noteq> ''disabled'' \<and> hash token = rr_TokenHash (snd x)"
proof (cases "tbl_find (\<lambda>_ r. rr_RunnerID r = rid) (rn_runners s)")
  case None
  then show ?thesis by (simp add: Authenticate_def ByRunnerID_def)
next
  case (Some y)
  then show ?thesis by (cases "rn_down s") (simp_all add: Authenticate_def ByRunnerID_def subtleEqual_eq, blast)
qed

text \<open>The parts of the state an operation leaves alone.\<close>

lemma Heartbeat_frame [simp]:
  "rn_jobs (snd (Heartbeat now rid st v os ar lb s)) = rn_jobs s"
  "rn_logs (snd (Heartbeat now rid st v os ar lb s)) = rn_logs s"
  "rn_logMax (snd (Heartbeat now rid st v os ar lb s)) = rn_logMax s"
  "rn_down (snd (Heartbeat now rid st v os ar lb s)) = rn_down s"
  by (simp_all add: Heartbeat_def Let_def)

lemma snd_http_of [simp]: "snd (http_of x) = snd x"
  by (simp add: http_of_def)

lemma AppendLog_frame [simp]:
  "rn_jobs (snd (AppendLog len i c s)) = rn_jobs s" "rn_runners (snd (AppendLog len i c s)) = rn_runners s"
  "rn_logMax (snd (AppendLog len i c s)) = rn_logMax s"
  by (simp_all add: AppendLog_def Let_def split: sum.split)

lemma log_body_frame [simp]:
  "rn_jobs (snd (log_body len i buf rs eof s)) = rn_jobs s"
  "rn_runners (snd (log_body len i buf rs eof s)) = rn_runners s"
  "rn_logMax (snd (log_body len i buf rs eof s)) = rn_logMax s"
proof (induction len i buf rs eof s rule: log_body.induct)
  case (2 len i buf p rs eof s)
  obtain r s' where a: "AppendLog len i (buf @ p) s = (r, s')" by fastforce
  have f: "rn_jobs s' = rn_jobs s" "rn_runners s' = rn_runners s" "rn_logMax s' = rn_logMax s"
    using AppendLog_frame [of len i "buf @ p" s] a by simp_all
  { case 1 show ?case using 2 a f by (cases r) (auto simp: Let_def)
  next case 2 show ?case using "2.IH" a f by (cases r) (auto simp: Let_def)
  next case 3 show ?case using "2.IH" a f by (cases r) (auto simp: Let_def) }
qed simp_all

section \<open>The life of a job\<close>

definition final :: "string set" where
  "final = {''success'', ''failed'', ''cancelled''}"

text \<open>What may happen to a job row: what it runs never changes, a runner once assigned stays, a
  finished job stays finished, no job becomes pending again, and one cancelled before a runner took
  it is never touched.\<close>

definition life :: "job_row \<Rightarrow> job_row \<Rightarrow> bool" where
  "life j j' \<longleftrightarrow>
     jb_RepoID j' = jb_RepoID j \<and> jb_CommitSHA j' = jb_CommitSHA j \<and> jb_Ref j' = jb_Ref j \<and>
     jb_WorkflowPath j' = jb_WorkflowPath j \<and> jb_WorkflowContent j' = jb_WorkflowContent j \<and>
     (jb_RunnerID j \<noteq> None \<longrightarrow> jb_RunnerID j' = jb_RunnerID j \<and> jb_StartedAt j' = jb_StartedAt j) \<and>
     (jb_Status j \<in> final \<longrightarrow> jb_Status j' \<in> final) \<and>
     (jb_Status j' = ''pending'' \<longrightarrow> jb_Status j = ''pending'') \<and>
     (jb_Status j = ''cancelled'' \<and> jb_RunnerID j = None \<longrightarrow> j' = j)"

lemma life_refl [simp]: "life j j"
  by (simp add: life_def)

lemma life_trans: "life a b \<Longrightarrow> life b c \<Longrightarrow> life a c"
  unfolding life_def by metis

lemma final_simps [simp]: "final_status st \<in> final" "''pending'' \<notin> final" "''running'' \<notin> final" "''cancelled'' \<in> final"
  by (auto simp: final_def final_status_def)

lemma final_status_not_pending [simp]: "final_status st \<noteq> ''pending''" "final_status st \<noteq> ''running''"
  by (auto simp: final_status_def)

lemma rows_update_mem:
  "(k, r) \<in> set (rows t) \<Longrightarrow> (k, if P k r then f r else r) \<in> set (rows (tbl_update P f t))"
  by (force simp: set_rows_update)

lemma vals_update: "vals (tbl_update P f t) = (\<lambda>(k, r). if P k r then f r else r) ` set (rows t)"
  by (auto simp: vals_def tbl_update_def image_iff split_beta)

text \<open>An update that changes rows only along \<open>life\<close> and keeps them well formed keeps the invariant.\<close>

definition jobs_ok :: "runner_state \<Rightarrow> runner_state \<Rightarrow> bool" where
  "jobs_ok s t \<longleftrightarrow> jobs_wf t \<and> (\<forall>k j. (k, j) \<in> set (rows (rn_jobs s)) \<longrightarrow> (\<exists>j'. (k, j') \<in> set (rows (rn_jobs t)) \<and> life j j'))"

lemma jobs_ok_same:
  "jobs_wf s \<Longrightarrow> rn_jobs t = rn_jobs s \<Longrightarrow> named (rn_runners t) \<Longrightarrow> jobs_ok s t"
  unfolding jobs_ok_def jobs_wf_def by (auto intro: life_refl)

lemma jobs_ok_update:
  assumes wf: "jobs_wf s" and t: "rn_jobs t = tbl_update P f (rn_jobs s)"
    and run: "named (rn_runners t)"
    and ok: "\<And>k j. (k, j) \<in> set (rows (rn_jobs s)) \<Longrightarrow> P k j \<Longrightarrow> job_wf j \<Longrightarrow>
      life j (f j) \<and> job_wf (f j) \<and> jb_RunnerID (f j) \<noteq> Some []"
  shows "jobs_ok s t"
proof -
  have j: "job_wf j \<and> jb_RunnerID j \<noteq> Some []" if "(k, j) \<in> set (rows (rn_jobs s))" for k j
    using wf that by (auto simp: jobs_wf_def)
  have "\<exists>j'. (k, j') \<in> set (rows (rn_jobs t)) \<and> life j j'" if "(k, j) \<in> set (rows (rn_jobs s))" for k j
    using rows_update_mem [OF that, of P f] ok [OF that] j [OF that] unfolding t by (cases "P k j") auto
  moreover have "\<forall>j \<in> vals (rn_jobs t). job_wf j \<and> jb_RunnerID j \<noteq> Some []"
    unfolding t vals_update using j ok by (auto split: if_splits)
  ultimately show ?thesis using wf run unfolding jobs_ok_def jobs_wf_def by (simp add: t tbl_wf_update)
qed

lemma jobs_ok_trans: "jobs_ok s t \<Longrightarrow> jobs_ok t u \<Longrightarrow> jobs_ok s u"
  unfolding jobs_ok_def using life_trans by meson

lemma runnerAuth_row: "runnerAuth hash s c = Some rr \<Longrightarrow> snd rr \<in> vals (rn_runners s)"
  by (auto simp: runnerAuth_def Let_def Authenticate_iff split: if_splits sum.splits dest!: tbl_find_Some)

lemma named_update: "named t \<Longrightarrow> (\<And>r. rr_RunnerID (f r) = rr_RunnerID r) \<Longrightarrow> named (tbl_update P f t)"
  unfolding named_def vals_update by (auto split: if_splits)

lemma named_delete: "named t \<Longrightarrow> named (tbl_delete P t)"
  unfolding named_def by (auto simp: vals_def tbl_delete_def)

lemma named_insert: "named t \<Longrightarrow> rr_RunnerID r \<noteq> [] \<Longrightarrow> named (tbl_insert r t)"
  by (simp add: named_def)

lemma Heartbeat_ok: "jobs_wf s \<Longrightarrow> jobs_ok s (snd (Heartbeat now rid st v os ar lb s))"
  by (rule jobs_ok_same) (auto simp: Heartbeat_def Let_def jobs_wf_def intro!: named_update)

lemma claim_update_ok:
  assumes wf: "jobs_wf s" and rid: "rid \<noteq> []"
  shows "jobs_ok s (snd (claim_update now rid i s))"
proof (cases "rn_down s \<or> tbl_count (\<lambda>j r. j = i \<and> jb_Status r = ''pending'') (rn_jobs s) = 0")
  case True
  then have "snd (claim_update now rid i s) = s" by (auto simp: claim_update_def)
  with wf show ?thesis by (auto intro: jobs_ok_same simp: jobs_wf_def)
next
  case False
  show ?thesis
  proof (rule jobs_ok_update [OF wf])
    show "rn_jobs (snd (claim_update now rid i s)) = tbl_update (\<lambda>j r. j = i \<and> jb_Status r = ''pending'')
        (\<lambda>r. r\<lparr>jb_Status := ''running'', jb_RunnerID := Some rid, jb_StartedAt := Some now\<rparr>) (rn_jobs s)"
      using False by (simp add: claim_update_def Let_def)
    show "named (rn_runners (snd (claim_update now rid i s)))"
      using wf False by (simp add: claim_update_def Let_def jobs_wf_def)
  qed (use rid in \<open>auto simp: life_def job_wf_def\<close>)
qed

lemma cancel_row:
  "job_wf j \<Longrightarrow> jb_Status j \<in> {''pending'', ''running''} \<Longrightarrow>
     life j (j\<lparr>jb_Status := ''cancelled'', jb_FinishedAt := Some now\<rparr>) \<and>
     job_wf (j\<lparr>jb_Status := ''cancelled'', jb_FinishedAt := Some now\<rparr>)"
  by (cases "jb_Status j = ''pending''") (simp_all add: life_def job_wf_def, auto)

lemma CancelJob_ok:
  assumes wf: "jobs_wf s"
  shows "jobs_ok s (snd (CancelJob now i s))"
proof (cases "rn_down s")
  case False
  show ?thesis
  proof (rule jobs_ok_update [OF wf])
    show "rn_jobs (snd (CancelJob now i s)) = tbl_update (\<lambda>j r. j = i \<and> jb_Status r \<in> {''pending'', ''running''})
        (\<lambda>r. r\<lparr>jb_Status := ''cancelled'', jb_FinishedAt := Some now\<rparr>) (rn_jobs s)"
      using False by (simp add: CancelJob_def)
    show "named (rn_runners (snd (CancelJob now i s)))" using wf by (simp add: CancelJob_def jobs_wf_def)
    fix k j
    assume "(k, j) \<in> set (rows (rn_jobs s))" and p: "k = i \<and> jb_Status j \<in> {''pending'', ''running''}" and w: "job_wf j"
    then have "jb_RunnerID j \<noteq> Some []" using wf by (auto simp: jobs_wf_def)
    then show "life j (j\<lparr>jb_Status := ''cancelled'', jb_FinishedAt := Some now\<rparr>) \<and>
        job_wf (j\<lparr>jb_Status := ''cancelled'', jb_FinishedAt := Some now\<rparr>) \<and>
        jb_RunnerID (j\<lparr>jb_Status := ''cancelled'', jb_FinishedAt := Some now\<rparr>) \<noteq> Some []"
      using cancel_row [OF w, of now] p by simp
  qed
qed (use wf in \<open>auto intro: jobs_ok_same simp: jobs_wf_def CancelJob_def\<close>)

lemma job_of_runner_iff:
  assumes "jobs_wf s" and "job_of_runner s i r" and "rr_RunnerID r \<noteq> []" and "(i, j) \<in> set (rows (rn_jobs s))"
  shows "jb_RunnerID j = Some (rr_RunnerID r)"
proof -
  obtain x where x: "tbl_find (\<lambda>k _. k = i) (rn_jobs s) = Some x"
    and rid: "(case jb_RunnerID (snd x) of None \<Rightarrow> [] | Some y \<Rightarrow> y) = rr_RunnerID r"
    using assms(2) by (auto simp: job_of_runner_def JobByID_def split: sum.splits if_splits option.splits)
  have "(i, snd x) \<in> set (rows (rn_jobs s))" using tbl_find_Some [of "\<lambda>k _. k = i" "rn_jobs s" "fst x" "snd x"] x by (cases x) simp
  then have "snd x = j" using assms(1,4) tbl_wf_id_unique by (auto simp: jobs_wf_def)
  with rid assms(3) show ?thesis by (cases "jb_RunnerID j") auto
qed

lemma CompleteJob_ok:
  assumes wf: "jobs_wf s" and own: "job_of_runner s i r" and rid: "rr_RunnerID r \<noteq> []"
  shows "jobs_ok s (snd (CompleteJob now i st ec s))"
proof (cases "rn_down s")
  case False
  show ?thesis
  proof (rule jobs_ok_update [OF wf, where P = "\<lambda>j _. j = i"
        and f = "\<lambda>r. r\<lparr>jb_Status := final_status st, jb_ExitCode := Some ec, jb_FinishedAt := Some now\<rparr>"])
    fix k j
    assume j: "(k, j) \<in> set (rows (rn_jobs s))" "k = i" "job_wf j"
    have a: "jb_RunnerID j = Some (rr_RunnerID r)" using job_of_runner_iff [OF wf own rid] j by simp
    then have b: "jb_StartedAt j \<noteq> None" using j(3) by (auto simp: job_wf_def)
    show "life j (j\<lparr>jb_Status := final_status st, jb_ExitCode := Some ec, jb_FinishedAt := Some now\<rparr>) \<and>
        job_wf (j\<lparr>jb_Status := final_status st, jb_ExitCode := Some ec, jb_FinishedAt := Some now\<rparr>) \<and>
        jb_RunnerID (j\<lparr>jb_Status := final_status st, jb_ExitCode := Some ec, jb_FinishedAt := Some now\<rparr>) \<noteq> Some []"
      using a b rid by (simp add: life_def job_wf_def) (simp add: final_status_def)
  qed (use False wf in \<open>auto simp: CompleteJob_def jobs_wf_def\<close>)
qed (use wf in \<open>auto intro: jobs_ok_same simp: jobs_wf_def CompleteJob_def\<close>)

lemma CreateJob_ok: "jobs_wf s \<Longrightarrow> jobs_ok s (snd (CreateJob p s))"
  by (auto simp: CreateJob_def Let_def jobs_ok_def jobs_wf_def tbl_wf_insert job_wf_def intro: life_refl)

lemma auth_named: "jobs_wf s \<Longrightarrow> runnerAuth hash s c = Some rr \<Longrightarrow> rr_RunnerID (snd rr) \<noteq> []"
  using runnerAuth_row by (fastforce simp: jobs_wf_def named_def)

lemma jobs_ok_refl: "jobs_wf s \<Longrightarrow> jobs_ok s s"
  by (rule jobs_ok_same) (auto simp: jobs_wf_def)

lemma ClaimJob_ok: "jobs_wf s \<Longrightarrow> rid \<noteq> [] \<Longrightarrow> jobs_ok s (snd (ClaimJob now rid s))"
  by (simp add: ClaimJob_def claim_update_ok jobs_ok_refl split: sum.split)

lemma NextJob_ok:
  assumes "jobs_wf s"
  shows "jobs_ok s (snd (handleRunnerNextJob hash ok now c s))"
proof (cases "runnerAuth hash s c")
  case None
  with assms show ?thesis by (simp add: handleRunnerNextJob_def jobs_ok_refl)
next
  case (Some rr)
  let ?r = "snd rr"
  let ?s1 = "snd (Heartbeat now (rr_RunnerID ?r) ''active'' (rr_Version ?r) (rr_OS ?r) (rr_Arch ?r) [] s)"
  have a: "jobs_ok s ?s1" using Heartbeat_ok assms by blast
  have "snd (handleRunnerNextJob hash ok now c s) = snd (ClaimJob now (rr_RunnerID ?r) ?s1)"
    using Some by (auto simp: handleRunnerNextJob_def Let_def split: prod.split sum.split)
  moreover have "jobs_ok ?s1 (snd (ClaimJob now (rr_RunnerID ?r) ?s1))"
    using a auth_named [OF assms Some] by (intro ClaimJob_ok) (auto simp: jobs_ok_def)
  ultimately show ?thesis using jobs_ok_trans [OF a] by simp
qed

lemma JobLogs_ok: "jobs_wf s \<Longrightarrow> jobs_ok s (snd (handleRunnerJobLogs hash len c jobID reads eof s))"
  by (rule jobs_ok_same) (auto simp: handleRunnerJobLogs_def jobs_wf_def split: option.split)

lemma job_of_runner_cong: "rn_jobs t = rn_jobs s \<Longrightarrow> rn_down t = rn_down s \<Longrightarrow> job_of_runner t = job_of_runner s"
  by (simp add: job_of_runner_def JobByID_def fun_eq_iff)

lemma AppendLog_down [simp]: "rn_down (snd (AppendLog len i c s)) = rn_down s"
  by (simp add: AppendLog_def Let_def split: sum.split)

lemma JobResult_ok:
  assumes "jobs_wf s"
  shows "jobs_ok s (snd (handleRunnerJobResult hash len now c jobID rq s))"
proof -
  have "jobs_ok s (snd (CompleteJob now i st ec t))"
    if "runnerAuth hash s c = Some rr" "job_of_runner s i (snd rr)"
      "t = s \<or> t = snd (AppendLog len i chunk s)" for rr i st ec t chunk
  proof -
    have f: "rn_jobs t = rn_jobs s" "rn_down t = rn_down s" "rn_runners t = rn_runners s"
      using that(3) by (elim disjE; simp)+
    have "jobs_ok s t" using assms f by (intro jobs_ok_same) (auto simp: jobs_wf_def)
    moreover have "jobs_ok t (snd (CompleteJob now i st ec t))"
      using that(2) auth_named [OF assms that(1)] job_of_runner_cong [OF f(1,2)] assms f
      by (intro CompleteJob_ok [of t i "snd rr"]) (auto simp: jobs_wf_def)
    ultimately show ?thesis by (rule jobs_ok_trans)
  qed
  note fin = this [OF _ _ disjI1 [OF refl]] this [OF _ _ disjI2 [OF refl]]
  show ?thesis
    using jobs_ok_refl [OF assms] fin
    by (cases jobID; cases rq; cases "runnerAuth hash s c") (simp_all add: handleRunnerJobResult_def Let_def)
qed

lemma Cancel_ok: "jobs_wf s \<Longrightarrow> jobs_ok s (snd (handleCancelWorkflowJob now repo jobID s))"
  by (auto simp: handleCancelWorkflowJob_def CancelJob_ok jobs_ok_refl split: option.split sum.split)

lemma registry_ok:
  assumes "jobs_wf s"
  shows "jobs_ok s (snd (runner_Create hash r1 r2 name labels s))" "jobs_ok s (snd (ResetToken hash r2 i s))"
    "jobs_ok s (snd (runner_Update i name labels status s))" "jobs_ok s (snd (runner_Delete i s))"
    "jobs_ok s (snd (SweepOffline now timeout s))"
proof -
  have n: "named (rn_runners s)" using assms by (simp add: jobs_wf_def)
  show "jobs_ok s (snd (runner_Create hash r1 r2 name labels s))"
    by (rule jobs_ok_same [OF assms])
      (use n in \<open>auto simp: runner_Create_def generateRunnerID_def Let_def intro!: named_insert split: sum.split option.split\<close>)
  show "jobs_ok s (snd (ResetToken hash r2 i s))"
    by (rule jobs_ok_same [OF assms]) (use n in \<open>auto simp: ResetToken_def intro!: named_update split: sum.split\<close>)
  show "jobs_ok s (snd (runner_Update i name labels status s))"
    by (rule jobs_ok_same [OF assms]) (use n in \<open>auto simp: runner_Update_def intro!: named_update\<close>)
  show "jobs_ok s (snd (runner_Delete i s))"
    by (rule jobs_ok_same [OF assms]) (use n in \<open>auto simp: runner_Delete_def intro!: named_delete\<close>)
  show "jobs_ok s (snd (SweepOffline now timeout s))"
    by (rule jobs_ok_same [OF assms]) (use n in \<open>auto simp: SweepOffline_def intro!: named_update\<close>)
qed

lemma http_step_ok: "http_step hash len s t \<Longrightarrow> jobs_wf s \<Longrightarrow> jobs_ok s t"
proof (induction rule: http_step.induct)
  case (heartbeat s now c req)
  then show ?case by (simp add: handleRunnerHeartbeat_def Heartbeat_ok jobs_ok_refl split: option.split)
next
  case (register s now c req)
  then show ?case by (simp add: handleRunnerRegister_def Heartbeat_ok jobs_ok_refl split: option.split)
qed (simp_all only: NextJob_ok JobLogs_ok JobResult_ok Cancel_ok CreateJob_ok registry_ok)

lemma http_run_ok: "(http_step hash len)\<^sup>*\<^sup>* s t \<Longrightarrow> jobs_wf s \<Longrightarrow> jobs_ok s t"
proof (induction rule: rtranclp_induct)
  case (step t u)
  then have "jobs_ok s t" by simp
  moreover from this have "jobs_ok t u" using http_step_ok [OF step(2)] by (simp add: jobs_ok_def)
  ultimately show ?case by (rule jobs_ok_trans)
qed (rule jobs_ok_refl)

text \<open>C6: Along every sequence of requests, jobs go through their life in order: a job row is always
  consistent (pending, running on a runner since some time, finished with an exit code, or
  cancelled), no job disappears, what it runs never changes, the runner it was given to stays the
  same, a finished job never runs again, and one cancelled before a runner took it stays as it
  is.\<close>

theorem job_lifecycle:
  assumes "(http_step hash len)\<^sup>*\<^sup>* s t" and "jobs_wf s"
  shows "jobs_wf t \<and> (\<forall>k j. (k, j) \<in> set (rows (rn_jobs s)) \<longrightarrow> (\<exists>j'. (k, j') \<in> set (rows (rn_jobs t)) \<and> life j j'))"
  using http_run_ok [OF assms] by (simp add: jobs_ok_def)

definition build_job :: create_job_params where
  "build_job = \<lparr>cj_RepoID = 1, cj_CommitSHA = ''c0ffee'', cj_Ref = ''main'', cj_WorkflowPath = ''ci.yml'', cj_WorkflowContent = []\<rparr>"

theorem job_lifecycle_witness:
  "jobs_wf (runner_New 1) \<and> jobs_wf (snd (CreateJob build_job (runner_New 1)))"
proof -
  have w: "jobs_wf (runner_New 1)" by (simp add: jobs_wf_def named_def runner_New_def)
  have "http_step id (\<lambda>c. int (length c)) (runner_New 1) (snd (CreateJob build_job (runner_New 1)))"
    by (rule http_step.create_job)
  then have "(http_step id (\<lambda>c. int (length c)))\<^sup>*\<^sup>* (runner_New 1) (snd (CreateJob build_job (runner_New 1)))"
    by (rule r_into_rtranclp)
  from job_lifecycle [OF this w] w show ?thesis by blast
qed

end
