(* ===== verification/RunnerClaims.thy ===== *)
theory RunnerClaims
  imports RunnerHttp
begin

text \<open>
  What the runner service guarantees beyond the life of a job: runners do not touch each other's
  jobs, a job is claimed once, what lets a runner in, and how large a log can get.
\<close>

section \<open>Runners do not touch each other's jobs\<close>

lemma AppendLog_other: "k \<noteq> i \<Longrightarrow>
  tbl_select (\<lambda>_ l. lg_job l = k) (rn_logs (snd (AppendLog len i c s))) = tbl_select (\<lambda>_ l. lg_job l = k) (rn_logs s)"
  by (simp add: AppendLog_def Let_def select_insert split: sum.split)

lemma log_body_other: "k \<noteq> i \<Longrightarrow>
  tbl_select (\<lambda>_ l. lg_job l = k) (rn_logs (snd (log_body len i buf rs eof s))) = tbl_select (\<lambda>_ l. lg_job l = k) (rn_logs s)"
proof (induction len i buf rs eof s rule: log_body.induct)
  case (1 len i buf eof s)
  then show ?case by (simp add: AppendLog_other)
next
  case (2 len i buf p rs eof s)
  obtain r s' where a: "AppendLog len i (buf @ p) s = (r, s')" by fastforce
  then have "tbl_select (\<lambda>_ l. lg_job l = k) (rn_logs s') = tbl_select (\<lambda>_ l. lg_job l = k) (rn_logs s)"
    using AppendLog_other [OF "2.prems", of len "buf @ p" s] by simp
  then show ?case using 2 a by (cases r) (auto simp: Let_def)
qed

definition untouched :: "int \<Rightarrow> job_row \<Rightarrow> runner_state \<Rightarrow> runner_state \<Rightarrow> bool" where
  "untouched k j s t \<longleftrightarrow> (k, j) \<in> set (rows (rn_jobs t)) \<and>
     tbl_select (\<lambda>_ l. lg_job l = k) (rn_logs t) = tbl_select (\<lambda>_ l. lg_job l = k) (rn_logs s)"

lemma claim_untouched:
  assumes "(k, j) \<in> set (rows (rn_jobs s))" and "jb_Status j \<noteq> ''pending''"
  shows "untouched k j s (snd (ClaimJob now rid s))"
  using assms
  by (auto simp: untouched_def ClaimJob_def claim_update_def Let_def set_rows_update split: sum.split)

lemma untouched_eq:
  "(k, j) \<in> set (rows (rn_jobs s)) \<Longrightarrow> rn_jobs t = rn_jobs s \<Longrightarrow> rn_logs t = rn_logs s \<Longrightarrow> untouched k j s t"
  by (simp add: untouched_def)

lemma foreign_job:
  assumes "jobs_wf s" and "(k, j) \<in> set (rows (rn_jobs s))" and "jb_RunnerID j = Some other"
    and "runnerAuth hash s c = Some rr" and "rr_RunnerID (snd rr) \<noteq> other" and "job_of_runner s i (snd rr)"
  shows "k \<noteq> i"
proof
  assume "k = i"
  then have "jb_RunnerID j = Some (rr_RunnerID (snd rr))"
    using job_of_runner_iff [OF assms(1,6) auth_named [OF assms(1,4)]] assms(2) by blast
  with assms(3,5) show False by simp
qed

text \<open>C7: A runner cannot touch the job of another: whatever it sends to the handlers for the next
  job, for logs and for results, and under whatever credentials other than those of the runner a job
  is assigned to, the job's row and its log stay exactly as they are.\<close>

theorem runner_isolation:
  assumes wf: "jobs_wf s" and j: "(k, j) \<in> set (rows (rn_jobs s))" "jb_RunnerID j = Some other"
    and foreign: "\<And>rr. runnerAuth hash s c = Some rr \<Longrightarrow> rr_RunnerID (snd rr) \<noteq> other"
  shows "untouched k j s (snd (handleRunnerNextJob hash ok now c s)) \<and>
    untouched k j s (snd (handleRunnerJobLogs hash len c jobID reads eof s)) \<and>
    untouched k j s (snd (handleRunnerJobResult hash len now c jobID rq s))"
proof (cases "runnerAuth hash s c")
  case None
  then show ?thesis
    using j by (simp add: handleRunnerNextJob_def handleRunnerJobLogs_def handleRunnerJobResult_def untouched_eq)
next
  case (Some rr)
  have "job_wf j" using wf j(1) unfolding jobs_wf_def by blast
  with j(2) have np: "jb_Status j \<noteq> ''pending''" by (auto simp: job_wf_def)
  let ?s1 = "snd (Heartbeat now (rr_RunnerID (snd rr)) ''active'' (rr_Version (snd rr)) (rr_OS (snd rr)) (rr_Arch (snd rr)) [] s)"
  have "snd (handleRunnerNextJob hash ok now c s) = snd (ClaimJob now (rr_RunnerID (snd rr)) ?s1)"
    using Some by (auto simp: handleRunnerNextJob_def Let_def split: prod.split sum.split)
  then have a: "untouched k j s (snd (handleRunnerNextJob hash ok now c s))"
    using claim_untouched [of k j ?s1] j np by (simp add: untouched_def)
  note other = foreign_job [OF wf j Some foreign [OF Some]]
  have b: "untouched k j s (snd (handleRunnerJobLogs hash len c jobID reads eof s))"
    using Some j other log_body_other [of k]
    by (cases jobID) (auto simp: handleRunnerJobLogs_def untouched_def)
  have "untouched k j s (snd (CompleteJob now i st ec t))"
    if "k \<noteq> i" "rn_jobs t = rn_jobs s" "tbl_select (\<lambda>_ l. lg_job l = k) (rn_logs t) = tbl_select (\<lambda>_ l. lg_job l = k) (rn_logs s)"
    for i st ec t
    using that j by (auto simp: untouched_def CompleteJob_def set_rows_update)
  then have "untouched k j s (snd (handleRunnerJobResult hash len now c jobID rq s))"
    using Some j other AppendLog_other [of k]
    by (cases jobID; cases rq) (simp_all add: handleRunnerJobResult_def Let_def untouched_eq)
  with a b show ?thesis by blast
qed

definition busy_state :: runner_state where
  "busy_state = (runner_New 1)\<lparr>
     rn_runners := tbl_insert \<lparr>rr_RunnerID = ''r2'', rr_Name = ''b'', rr_TokenHash = ''t2'', rr_Labels = ''[]'', rr_Version = [],
       rr_OS = [], rr_Arch = [], rr_LastSeenAt = None, rr_Status = ''active''\<rparr> empty_table,
     rn_jobs := tbl_insert \<lparr>jb_RunnerID = Some ''r1'', jb_RepoID = 1, jb_CommitSHA = [], jb_Ref = [], jb_WorkflowPath = [],
       jb_WorkflowContent = [], jb_Status = ''running'', jb_StartedAt = Some 5, jb_FinishedAt = None, jb_ExitCode = None\<rparr> empty_table\<rparr>"

definition r2_creds :: runner_creds where
  "r2_creds = \<lparr>auth_header = ''Bearer t2'', x_runner_id = ''r2'', query_runner_id = []\<rparr>"

lemma busy_auth: "runnerAuth id busy_state r2_creds = Some (1, \<lparr>rr_RunnerID = ''r2'', rr_Name = ''b'', rr_TokenHash = ''t2'',
    rr_Labels = ''[]'', rr_Version = [], rr_OS = [], rr_Arch = [], rr_LastSeenAt = None, rr_Status = ''active''\<rparr>)"
  by (simp add: runnerAuth_def r2_creds_def bearer_def Authenticate_def ByRunnerID_def busy_state_def runner_New_def
      tbl_find_def subtleEqual_eq)

theorem runner_isolation_witness:
  "runnerAuth id busy_state r2_creds \<noteq> None \<and>
   untouched 1 (snd (hd (rows (rn_jobs busy_state)))) busy_state
     (snd (handleRunnerJobResult id (\<lambda>c. int (length c)) 9 r2_creds (Some 1)
        (Some \<lparr>rq_Status = ''success'', rq_ExitCode = 0, rq_Error = []\<rparr>) busy_state))"
proof -
  let ?j = "snd (hd (rows (rn_jobs busy_state)))"
  have w: "jobs_wf busy_state"
    by (auto simp: jobs_wf_def busy_state_def runner_New_def named_def vals_def job_wf_def intro!: tbl_wf_insert)
  have j: "(1, ?j) \<in> set (rows (rn_jobs busy_state))" "jb_RunnerID ?j = Some ''r1''" by (simp_all add: busy_state_def)
  have f: "runnerAuth id busy_state r2_creds = Some rr \<Longrightarrow> rr_RunnerID (snd rr) \<noteq> ''r1''" for rr
    using busy_auth by auto
  have "runnerAuth id busy_state r2_creds \<noteq> None" by (simp add: busy_auth)
  with runner_isolation [OF w j, of id r2_creds, OF f] show ?thesis by blast
qed

section \<open>Claims and credentials\<close>

text \<open>C8: A job is given to one runner only. \<open>ClaimJob\<close> returns the oldest pending job, now running
  and assigned to the caller, and when a second runner that had found the same job reaches its update
  afterwards, it gets no job and changes nothing.\<close>

theorem claim_exclusive:
  assumes wf: "jobs_wf s" and sel: "claim_select s = Ok i"
  shows "\<exists>j s'. claim_update now r i s = (Ok (i, j), s') \<and> jb_RunnerID j = Some r \<and> jb_Status j = ''running'' \<and>
    (\<forall>k x. (k, x) \<in> set (rows (rn_jobs s)) \<and> jb_Status x = ''pending'' \<longrightarrow> i \<le> k) \<and>
    claim_update now' r' i s' = (Err RnNoJob, s')"
proof -
  let ?P = "\<lambda>j x. j = i \<and> jb_Status x = ''pending''"
  let ?f = "\<lambda>x. x\<lparr>jb_Status := ''running'', jb_RunnerID := Some r, jb_StartedAt := Some now\<rparr>"
  let ?s = "s\<lparr>rn_jobs := tbl_update ?P ?f (rn_jobs s)\<rparr>"
  have twf: "tbl_wf (rn_jobs s)" using wf by (simp add: jobs_wf_def)
  from sel obtain x where up: "\<not> rn_down s" and f: "tbl_find (\<lambda>_ j. jb_Status j = ''pending'') (rn_jobs s) = Some (i, x)"
    by (auto simp: claim_select_def split: if_splits option.splits)
  from tbl_find_Some [OF f] have x: "(i, x) \<in> set (rows (rn_jobs s))" "jb_Status x = ''pending''" by auto
  have x': "(i, ?f x) \<in> set (rows (rn_jobs ?s))" using rows_update_mem [OF x(1), of ?P ?f] x(2) by simp
  have found: "tbl_find (\<lambda>j _. j = i) (rn_jobs ?s) = Some (i, ?f x)"
    using tbl_find_by_id [of "rn_jobs ?s" i "?f x"] x' tbl_wf_update [OF twf] by simp
  have none: "\<not> tbl_exists ?P (rn_jobs ?s)"
  proof -
    have "tbl_wf (rn_jobs ?s)" using twf by (simp add: tbl_wf_update)
    then have "jb_Status b = ''running''" if "(i, b) \<in> set (rows (rn_jobs ?s))" for b
      using tbl_wf_id_unique [OF _ x' that] by auto
    then show ?thesis by (auto simp: tbl_exists_iff)
  qed
  have "tbl_exists ?P (rn_jobs s)" using x by (force simp: tbl_exists_iff)
  then have first: "claim_update now r i s = (Ok (i, ?f x), ?s)"
    using up found by (simp add: claim_update_def Let_def JobByID_def tbl_count_0)
  have second: "claim_update now' r' i ?s = (Err RnNoJob, ?s)"
    using up none by (simp add: claim_update_def tbl_count_0)
  have "i \<le> k" if k: "(k, y) \<in> set (rows (rn_jobs s))" "jb_Status y = ''pending''" for k y
    using tbl_find_least [where P = "\<lambda>_ j. jb_Status j = ''pending''", OF twf f k(1)] k(2) by simp
  with first second show ?thesis by auto
qed

definition queue_state :: runner_state where
  "queue_state = snd (CreateJob build_job (runner_New 1))"

theorem claim_exclusive_witness:
  "claim_select queue_state = Ok 1 \<and>
   (\<exists>j s'. claim_update 0 ''r1'' 1 queue_state = (Ok (1, j), s') \<and> claim_update 1 ''r2'' 1 s' = (Err RnNoJob, s'))"
proof -
  have w: "jobs_wf queue_state"
    by (auto simp: queue_state_def CreateJob_def Let_def runner_New_def jobs_wf_def named_def vals_def job_wf_def
        intro!: tbl_wf_insert)
  have c: "claim_select queue_state = Ok 1"
    by (simp add: queue_state_def CreateJob_def runner_New_def claim_select_def tbl_find_def Let_def)
  from claim_exclusive [OF w c, of 0 "''r1''" 1 "''r2''"] c show ?thesis by blast
qed

text \<open>A runner is let in exactly when its row exists and is not disabled and the hash of the token
  equals the stored one, compared byte by byte without an early exit. After the token is reset, the
  new one is accepted and every token with another hash is refused.\<close>

theorem runner_authentication:
  "(Authenticate hash s rid token = Ok x \<longleftrightarrow>
      \<not> rn_down s \<and> tbl_find (\<lambda>_ r. rr_RunnerID r = rid) (rn_runners s) = Some x \<and>
      rr_Status (snd x) \<noteq> ''disabled'' \<and> hash token = rr_TokenHash (snd x)) \<and>
   (Authenticate hash s rid token = Ok (i, r) \<and> ResetToken hash rnd i s = (Ok fresh, s') \<longrightarrow>
      (Authenticate hash s' rid tok = Ok (i, r\<lparr>rr_TokenHash := hash fresh\<rparr>) \<longleftrightarrow> hash tok = hash fresh) \<and>
      (hash tok \<noteq> hash fresh \<longrightarrow> Authenticate hash s' rid tok = Err RnUnauthorized))"
proof (intro conjI impI Authenticate_iff)
  assume a: "Authenticate hash s rid token = Ok (i, r) \<and> ResetToken hash rnd i s = (Ok fresh, s')"
  then have f: "tbl_find (\<lambda>_ r. rr_RunnerID r = rid) (rn_runners s) = Some (i, r)" and st: "rr_Status r \<noteq> ''disabled''"
    and up: "\<not> rn_down s"
    by (auto simp: Authenticate_iff)
  have s': "s' = s\<lparr>rn_runners := tbl_update (\<lambda>j _. j = i) (\<lambda>r. r\<lparr>rr_TokenHash := hash fresh\<rparr>) (rn_runners s)\<rparr>"
    using a by (auto simp: ResetToken_def split: sum.splits if_splits)
  have f': "tbl_find (\<lambda>_ r. rr_RunnerID r = rid) (rn_runners s') = Some (i, r\<lparr>rr_TokenHash := hash fresh\<rparr>)"
    using find_update [where Q = "\<lambda>j _. j = i" and f = "\<lambda>r. r\<lparr>rr_TokenHash := hash fresh\<rparr>", OF f] by (simp add: s')
  have up': "\<not> rn_down s'" using up by (simp add: s')
  show "Authenticate hash s' rid tok = Ok (i, r\<lparr>rr_TokenHash := hash fresh\<rparr>) \<longleftrightarrow> hash tok = hash fresh"
    using f' up' st by (simp add: Authenticate_iff)
  show "Authenticate hash s' rid tok = Err RnUnauthorized" if "hash tok \<noteq> hash fresh"
    using f' up' st that by (simp add: Authenticate_def ByRunnerID_def subtleEqual_eq)
qed

theorem runner_authentication_witness:
  "Authenticate id busy_state ''r2'' ''t2'' = Ok (1, snd (hd (rows (rn_runners busy_state)))) \<and>
   fst (ResetToken id (Some ''ab'') 1 busy_state) = Ok ''glr_6162'' \<and>
   Authenticate id (snd (ResetToken id (Some ''ab'') 1 busy_state)) ''r2'' ''t2'' = Err RnUnauthorized"
proof -
  have a: "Authenticate id busy_state ''r2'' ''t2'' = Ok (1, snd (hd (rows (rn_runners busy_state))))"
    by (simp add: Authenticate_def ByRunnerID_def busy_state_def runner_New_def tbl_find_def subtleEqual_eq)
  have t: "generateToken (Some ''ab'') = Ok ''glr_6162''"
    by (simp add: generateToken_def hex_encode_def hex_digit_def)
  have r: "fst (ResetToken id (Some ''ab'') 1 busy_state) = Ok ''glr_6162''"
    by (simp add: ResetToken_def t busy_state_def runner_New_def tbl_exists_def tbl_count_def tbl_select_def)
  then have r': "ResetToken id (Some ''ab'') 1 busy_state = (Ok ''glr_6162'', snd (ResetToken id (Some ''ab'') 1 busy_state))"
    by (metis prod.collapse)
  have ne: "id ''t2'' \<noteq> id ''glr_6162''" by simp
  show ?thesis using runner_authentication [where tok = "''t2''" and hash = id] a r r' ne by blast
qed

section \<open>The size of a log\<close>

definition log_bytes :: "runner_state \<Rightarrow> int \<Rightarrow> int" where
  "log_bytes s i = sum_list (map (\<lambda>(_, l). int (length (lg_chunk l))) (tbl_select (\<lambda>_ l. lg_job l = i) (rn_logs s)))"

definition logs_capped :: "runner_state \<Rightarrow> bool" where
  "logs_capped s \<longleftrightarrow> 0 \<le> rn_logMax s \<and> (\<forall>i. log_bytes s i \<le> rn_logMax s)"

lemma LogSize_bytes:
  "(\<And>c. len c = int (length c)) \<Longrightarrow> LogSize len s i = (if rn_down s then Err RnDriver else Ok (log_bytes s i))"
  by (simp add: LogSize_def log_bytes_def)

lemma log_bytes_insert:
  "log_bytes (s\<lparr>rn_logs := tbl_insert l (rn_logs s)\<rparr>) i = log_bytes s i + (if lg_job l = i then int (length (lg_chunk l)) else 0)"
  by (simp add: log_bytes_def select_insert)

lemma AppendLog_capped:
  assumes len: "\<And>c. len c = int (length c)" and s: "logs_capped s"
  shows "logs_capped (snd (AppendLog len i c s))"
proof (cases "c = [] \<or> rn_down s \<or> rn_logMax s \<le> log_bytes s i")
  case True
  then have "snd (AppendLog len i c s) = s" by (auto simp: AppendLog_def LogSize_bytes [OF len])
  with s show ?thesis by simp
next
  case False
  define c' where "c' = (if rn_logMax s - log_bytes s i < int (length c) then take (nat (rn_logMax s - log_bytes s i)) c else c)"
  have "snd (AppendLog len i c s) = s\<lparr>rn_logs := tbl_insert \<lparr>lg_job = i, lg_chunk = c'\<rparr> (rn_logs s)\<rparr>"
    using False by (simp add: AppendLog_def LogSize_bytes [OF len] Let_def c'_def)
  moreover have "int (length c') \<le> rn_logMax s - log_bytes s i" using False by (auto simp: c'_def)
  ultimately show ?thesis using s by (auto simp: logs_capped_def log_bytes_insert)
qed

lemma log_body_capped:
  assumes len: "\<And>c. len c = int (length c)"
  shows "logs_capped s \<Longrightarrow> logs_capped (snd (log_body len i buf rs eof s))"
proof (induction rs arbitrary: buf s)
  case Nil
  then show ?case using AppendLog_capped [OF len] by simp
next
  case (Cons p rs)
  obtain r s' where a: "AppendLog len i (buf @ p) s = (r, s')" by fastforce
  have "logs_capped s'" using AppendLog_capped [OF len Cons.prems, of i "buf @ p"] a by simp
  then show ?case using Cons a by (cases r) (auto simp: Let_def)
qed

lemma capped_same: "logs_capped s \<Longrightarrow> rn_logs t = rn_logs s \<Longrightarrow> rn_logMax t = rn_logMax s \<Longrightarrow> logs_capped t"
  by (simp add: logs_capped_def log_bytes_def)

lemma NextJob_logs:
  "rn_logs (snd (handleRunnerNextJob hash ok now c s)) = rn_logs s \<and>
   rn_logMax (snd (handleRunnerNextJob hash ok now c s)) = rn_logMax s"
  by (auto simp: handleRunnerNextJob_def Let_def ClaimJob_def claim_update_def split: option.split prod.splits sum.splits if_splits)

lemma JobResult_capped:
  assumes "\<And>c. len c = int (length c)" and "logs_capped s"
  shows "logs_capped (snd (handleRunnerJobResult hash len now c jobID rq s))"
proof -
  have "logs_capped (snd (CompleteJob now i st ec t))" if "logs_capped t" for i st ec t
    by (rule capped_same [OF that]) (simp_all add: CompleteJob_def)
  then show ?thesis
    using assms(2) AppendLog_capped [OF assms]
    by (simp add: handleRunnerJobResult_def Let_def split: option.split)
qed

lemma http_step_capped:
  assumes len: "\<And>c. len c = int (length c)"
  shows "http_step hash len s t \<Longrightarrow> logs_capped s \<Longrightarrow> logs_capped t"
proof (induction rule: http_step.induct)
  case (next_job s ok now c)
  then show ?case using NextJob_logs capped_same by blast
next
  case (job_logs s c jobID reads eof)
  then show ?case using log_body_capped [OF len] by (simp add: handleRunnerJobLogs_def split: option.split)
next
  case (job_result s now c jobID rq)
  then show ?case by (rule JobResult_capped [OF len])
qed (erule capped_same; simp add: handleRunnerHeartbeat_def handleRunnerRegister_def handleCancelWorkflowJob_def CancelJob_def
      CreateJob_def runner_Create_def ResetToken_def runner_Update_def runner_Delete_def SweepOffline_def Let_def
      split: option.split sum.split)+

text \<open>Where the database counts bytes in \<open>LENGTH\<close>, the log of a job never exceeds the configured
  size, whatever runners send and in whatever pieces.\<close>

theorem log_size_bounded:
  assumes len: "\<And>c. len c = int (length c)" and run: "(http_step hash len)\<^sup>*\<^sup>* s t" and s: "logs_capped s"
  shows "log_bytes t i \<le> rn_logMax t"
proof -
  have "logs_capped t" using run s
    by (induction rule: rtranclp_induct) (auto intro: http_step_capped [OF len])
  then show ?thesis by (simp add: logs_capped_def)
qed

theorem log_size_bounded_witness:
  "logs_capped (runner_New 1) \<and>
   log_bytes (snd (CreateJob build_job (runner_New 1))) 1 \<le> rn_logMax (snd (CreateJob build_job (runner_New 1)))"
proof -
  have c: "logs_capped (runner_New 1)" by (simp add: logs_capped_def log_bytes_def runner_New_def tbl_select_def)
  have "http_step id (\<lambda>c. int (length c)) (runner_New 1) (snd (CreateJob build_job (runner_New 1)))"
    by (rule http_step.create_job)
  then have "(http_step id (\<lambda>c. int (length c)))\<^sup>*\<^sup>* (runner_New 1) (snd (CreateJob build_job (runner_New 1)))"
    by (rule r_into_rtranclp)
  from log_size_bounded [OF _ this c] c show ?thesis by simp
qed

text \<open>\<open>LENGTH\<close> of a text in SQLite: the characters before the first NUL.\<close>

definition sqlite_length :: "string \<Rightarrow> int" where
  "sqlite_length c = int (length (filter (\<lambda>b. \<not> (128 \<le> (of_char b :: nat) \<and> (of_char b :: nat) < 192))
     (takeWhile (\<lambda>b. b \<noteq> CHR 0x00) c)))"

lemma sum_list_zero: "(\<And>x. x \<in> set xs \<Longrightarrow> f x = 0) \<Longrightarrow> sum_list (map f xs) = (0 :: int)"
  by (induction xs) auto

lemma append_nul:
  assumes "\<not> rn_down s" and "0 < rn_logMax s"
    and zero: "\<forall>(_, l) \<in> set (rows (rn_logs s)). sqlite_length (lg_chunk l) = 0"
  shows "fst (AppendLog sqlite_length i [CHR 0x00] s) = Ok () \<and>
    snd (AppendLog sqlite_length i [CHR 0x00] s) = s\<lparr>rn_logs := tbl_insert \<lparr>lg_job = i, lg_chunk = [CHR 0x00]\<rparr> (rn_logs s)\<rparr>"
proof -
  have "sum_list (map (\<lambda>(_, l). sqlite_length (lg_chunk l)) (tbl_select (\<lambda>_ l. lg_job l = i) (rn_logs s))) = 0"
    using zero by (auto intro!: sum_list_zero)
  then show ?thesis using assms(1,2) by (simp add: AppendLog_def LogSize_def Let_def)
qed

text \<open>Where the database counts characters, as SQLite does, the limit does not hold: chunks that
  start with a NUL byte count as empty, so a log can grow beyond every bound.\<close>

theorem log_size_unbounded_sqlite:
  "\<exists>xs. log_bytes (fold (\<lambda>c s. snd (AppendLog sqlite_length 1 c s)) xs (runner_New 1)) 1 > bound"
proof -
  have "\<not> rn_down s \<and> 0 < rn_logMax s \<and> (\<forall>(_, l) \<in> set (rows (rn_logs s)). sqlite_length (lg_chunk l) = 0) \<and> log_bytes s 1 = int n"
    if "s = fold (\<lambda>c s. snd (AppendLog sqlite_length 1 c s)) (replicate n [CHR 0x00]) (runner_New 1)" for n s
    using that
  proof (induction n arbitrary: s)
    case 0
    then show ?case by (simp add: runner_New_def log_bytes_def tbl_select_def)
  next
    case (Suc n)
    let ?s = "fold (\<lambda>c s. snd (AppendLog sqlite_length 1 c s)) (replicate n [CHR 0x00]) (runner_New 1)"
    have "replicate (Suc n) [CHR 0x00] = replicate n [CHR 0x00] @ [[CHR 0x00]]" by (simp add: replicate_append_same)
    then have "s = snd (AppendLog sqlite_length 1 [CHR 0x00] ?s)" unfolding Suc.prems by simp
    with append_nul [of ?s 1] Suc.IH [OF refl]
    have s: "s = ?s\<lparr>rn_logs := tbl_insert \<lparr>lg_job = 1, lg_chunk = [CHR 0x00]\<rparr> (rn_logs ?s)\<rparr>" by simp
    have "sqlite_length [CHR 0x00] = 0" by (simp add: sqlite_length_def)
    then show ?case using Suc.IH [OF refl] unfolding s log_bytes_insert by simp
  qed
  from this [OF refl, of "nat (bound + 1)"] show ?thesis by (intro exI [of _ "replicate (nat (bound + 1)) [CHR 0x00]"]) linarith
qed

definition cancelled_state :: runner_state where
  "cancelled_state = busy_state\<lparr>rn_jobs := tbl_insert
     \<lparr>jb_RunnerID = Some ''r2'', jb_RepoID = 1, jb_CommitSHA = [], jb_Ref = [], jb_WorkflowPath = [], jb_WorkflowContent = [],
      jb_Status = ''cancelled'', jb_StartedAt = Some 5, jb_FinishedAt = Some 7, jb_ExitCode = None\<rparr> empty_table\<rparr>"

lemma cancelled_auth: "runnerAuth id cancelled_state r2_creds = runnerAuth id busy_state r2_creds"
proof -
  have "Authenticate id cancelled_state rid tok = Authenticate id busy_state rid tok" for rid tok
    by (simp add: Authenticate_def ByRunnerID_def cancelled_state_def)
  then show ?thesis by (simp add: runnerAuth_def Let_def)
qed

text \<open>A cancelled job can still be reported as successful: the handler for results checks whose
  job it is but not whether it is running.\<close>

theorem cancelled_job_reported_success:
  "\<exists>s c i now rq j j'. jobs_wf s \<and> (i, j) \<in> set (rows (rn_jobs s)) \<and> jb_Status j = ''cancelled'' \<and>
     fst (handleRunnerJobResult id sqlite_length now c (Some i) rq s) = 200 \<and>
     (i, j') \<in> set (rows (rn_jobs (snd (handleRunnerJobResult id sqlite_length now c (Some i) rq s)))) \<and> jb_Status j' = ''success''"
proof (intro exI conjI)
  let ?rq = "Some \<lparr>rq_Status = ''success'', rq_ExitCode = 0, rq_Error = []\<rparr>"
  let ?res = "handleRunnerJobResult id sqlite_length 9 r2_creds (Some 1) ?rq cancelled_state"
  have up: "rn_down cancelled_state = False" by (simp add: cancelled_state_def busy_state_def runner_New_def)
  have own: "job_of_runner cancelled_state 1 (snd (the (runnerAuth id busy_state r2_creds)))"
    using up by (simp add: busy_auth job_of_runner_def JobByID_def) (simp add: cancelled_state_def tbl_find_def)
  have res: "?res = http_of (CompleteJob 9 1 ''success'' 0 cancelled_state)"
    using own by (simp add: handleRunnerJobResult_def cancelled_auth busy_auth)
  show "jobs_wf cancelled_state"
    by (auto simp: cancelled_state_def jobs_wf_def busy_state_def runner_New_def named_def vals_def job_wf_def intro!: tbl_wf_insert)
  show "(1, snd (hd (rows (rn_jobs cancelled_state)))) \<in> set (rows (rn_jobs cancelled_state))"
    and "jb_Status (snd (hd (rows (rn_jobs cancelled_state)))) = ''cancelled''" by (simp_all add: cancelled_state_def)
  show "fst ?res = 200" unfolding res by (simp add: http_of_def CompleteJob_def up)
  show "(1, snd (hd (rows (rn_jobs (snd ?res))))) \<in> set (rows (rn_jobs (snd ?res)))"
    and "jb_Status (snd (hd (rows (rn_jobs (snd ?res))))) = ''success''"
    unfolding res by (simp_all add: CompleteJob_def up) (simp_all add: cancelled_state_def tbl_update_def final_status_def)
qed
end
