(* ===== verification/Secutil.thy ===== *)
theory Secutil
  imports Prelude "HOL-Library.Word"
begin

unbundle bit_operations_syntax

text \<open>
  \<open>internal/infra/secutil/secutil.go\<close>: names, git arguments, outbound addresses, path containment
  and permission bits. The regular expression for names is a predicate on its characters,
  \<open>filepath.Clean\<close> and \<open>filepath.Join\<close> are those of a system with slash as the separator, and the
  predicates on IP addresses are those of the package \<open>net\<close> on addresses of 4 or 16 bytes.
  What the code asks of its environment is a parameter: \<open>parse_url\<close> gives the scheme and host name
  of a URL, \<open>lookup\<close> the addresses of a host, \<open>stat\<close> the permission bits of a path.
\<close>

section \<open>Names and git arguments\<close>

datatype sec_error =
    NameRequired | NameInvalid | NameIllegalChars | NamePattern
  | EmptyRef | RefOption | RefControl | EmptyPath | PathOption | PathForbidden
  | UrlInvalid | UrlScheme string | UrlNoHost | UrlPrivate "nat list"
  | PathEscapes | StatFailed | ModeTooOpen nat

definition alnum :: "char \<Rightarrow> bool" where
  "alnum c \<longleftrightarrow> (let n = of_char c :: nat in (48 \<le> n \<and> n \<le> 57) \<or> (65 \<le> n \<and> n \<le> 90) \<or> (97 \<le> n \<and> n \<le> 122))"

definition name_char :: "char \<Rightarrow> bool" where
  "name_char c \<longleftrightarrow> alnum c \<or> c = CHR ''.'' \<or> c = CHR ''_'' \<or> c = CHR ''-''"

definition nameRe :: "string \<Rightarrow> bool" where
  "nameRe s \<longleftrightarrow> s \<noteq> [] \<and> alnum (hd s) \<and> alnum (last s) \<and> list_all name_char s \<and> length s \<le> 100"

definition contains_any :: "string \<Rightarrow> string \<Rightarrow> bool" where
  "contains_any s chars \<longleftrightarrow> list_ex (\<lambda>c. c \<in> set chars) s"

definition backslash :: char where "backslash = CHR 0x5C"

definition ValidateName :: "string \<Rightarrow> sec_error + unit" where
  "ValidateName name =
     (if name = [] then Err NameRequired
      else if name = ''.'' \<or> name = ''..'' then Err NameInvalid
      else if contains_any name [CHR ''/'', backslash, CHR ''~''] \<or> contains name ''..'' then Err NameIllegalChars
      else if \<not> nameRe name then Err NamePattern
      else Ok ())"

definition line_controls :: string where
  "line_controls = [CHR 0x00, CHR 0x0A, CHR 0x0D]"

definition ValidateRef :: "string \<Rightarrow> sec_error + unit" where
  "ValidateRef ref =
     (if ref = [] then Err EmptyRef
      else if has_prefix ref ''-'' then Err RefOption
      else if contains_any ref line_controls then Err RefControl
      else Ok ())"

definition ValidateSubPath :: "string \<Rightarrow> sec_error + unit" where
  "ValidateSubPath p =
     (if p = [] then Err EmptyPath
      else if has_prefix p ''-'' then Err PathOption
      else if contains p ''..'' \<or> contains_any p line_controls then Err PathForbidden
      else Ok ())"

section \<open>Addresses\<close>

text \<open>\<open>net.IP.To4\<close>: the four bytes of an IPv4 address, also when it is mapped into IPv6.\<close>

definition To4 :: "nat list \<Rightarrow> nat list option" where
  "To4 ip =
     (if length ip = 4 then Some ip
      else if length ip = 16 \<and> take 12 ip = replicate 10 0 @ [255, 255] then Some (drop 12 ip)
      else None)"

definition IsLoopback :: "nat list \<Rightarrow> bool" where
  "IsLoopback ip = (case To4 ip of Some q \<Rightarrow> q ! 0 = 127 | None \<Rightarrow> ip = replicate 15 0 @ [1])"

definition IsUnspecified :: "nat list \<Rightarrow> bool" where
  "IsUnspecified ip = (case To4 ip of Some q \<Rightarrow> q = [0, 0, 0, 0] | None \<Rightarrow> ip = replicate 16 0)"

definition IsPrivate :: "nat list \<Rightarrow> bool" where
  "IsPrivate ip =
     (case To4 ip of
        Some q \<Rightarrow> q ! 0 = 10 \<or> (q ! 0 = 172 \<and> 16 \<le> q ! 1 \<and> q ! 1 < 32) \<or> (q ! 0 = 192 \<and> q ! 1 = 168)
      | None \<Rightarrow> length ip = 16 \<and> 252 \<le> ip ! 0 \<and> ip ! 0 < 254)"

definition IsLinkLocalUnicast :: "nat list \<Rightarrow> bool" where
  "IsLinkLocalUnicast ip =
     (case To4 ip of
        Some q \<Rightarrow> q ! 0 = 169 \<and> q ! 1 = 254
      | None \<Rightarrow> length ip = 16 \<and> ip ! 0 = 254 \<and> 128 \<le> ip ! 1 \<and> ip ! 1 < 192)"

definition IsLinkLocalMulticast :: "nat list \<Rightarrow> bool" where
  "IsLinkLocalMulticast ip =
     (case To4 ip of
        Some q \<Rightarrow> q ! 0 = 224 \<and> q ! 1 = 0 \<and> q ! 2 = 0
      | None \<Rightarrow> length ip = 16 \<and> ip ! 0 = 255 \<and> ip ! 1 mod 16 = 2)"

definition internal_ip :: "nat list \<Rightarrow> bool" where
  "internal_ip ip \<longleftrightarrow>
     IsLoopback ip \<or> IsLinkLocalUnicast ip \<or> IsLinkLocalMulticast ip \<or> IsPrivate ip \<or> IsUnspecified ip"

definition ValidateOutboundURL ::
  "(string \<Rightarrow> (string \<times> string) option) \<Rightarrow> (string \<Rightarrow> nat list list option) \<Rightarrow> string \<Rightarrow> bool \<Rightarrow> sec_error + unit" where
  "ValidateOutboundURL parse_url lookup raw blockPrivate =
     (case parse_url raw of
        None \<Rightarrow> Err UrlInvalid
      | Some (scheme, host) \<Rightarrow>
          if scheme \<noteq> ''http'' \<and> scheme \<noteq> ''https'' then Err (UrlScheme scheme)
          else if host = [] then Err UrlNoHost
          else if \<not> blockPrivate then Ok ()
          else case lookup host of
            None \<Rightarrow> Ok ()
          | Some ips \<Rightarrow> (case List.find internal_ip ips of Some ip \<Rightarrow> Err (UrlPrivate ip) | None \<Rightarrow> Ok ()))"

definition BlockedHost :: "(string \<Rightarrow> nat list list option) \<Rightarrow> string \<Rightarrow> bool" where
  "BlockedHost lookup host0 =
     (let host = trim_space host0 in
      if host = [] then True
      else case lookup host of None \<Rightarrow> False | Some ips \<Rightarrow> list_ex internal_ip ips)"

section \<open>Paths\<close>

text \<open>The elements of a cleaned path; \<open>out\<close> holds them in reverse order.\<close>

fun clean_loop :: "bool \<Rightarrow> string list \<Rightarrow> string list \<Rightarrow> string list" where
  "clean_loop rooted out [] = rev out"
| "clean_loop rooted out (seg # segs) =
     (if seg = [] \<or> seg = ''.'' then clean_loop rooted out segs
      else if seg = ''..'' then
        (case out of
           p # ps \<Rightarrow> if p \<noteq> ''..'' then clean_loop rooted ps segs
                     else clean_loop rooted (if rooted then out else ''..'' # out) segs
         | [] \<Rightarrow> clean_loop rooted (if rooted then [] else [''..'']) segs)
      else clean_loop rooted (seg # out) segs)"

definition is_rooted :: "string \<Rightarrow> bool" where
  "is_rooted p \<longleftrightarrow> has_prefix p ''/''"

definition Clean :: "string \<Rightarrow> string" where
  "Clean path =
     (let out = join ''/'' (clean_loop (is_rooted path) [] (split_on (CHR ''/'') path))
      in if is_rooted path then ''/'' @ out else if out = [] then ''.'' else out)"

definition path_join :: "string list \<Rightarrow> string" where
  "path_join elems =
     (case filter (\<lambda>e. e \<noteq> []) elems of [] \<Rightarrow> [] | es \<Rightarrow> Clean (join ''/'' es))"

definition EnsureWithin :: "string \<Rightarrow> string \<Rightarrow> sec_error + string" where
  "EnsureWithin base target =
     (let cleanBase = Clean base; cleanTarget = Clean target
      in if cleanTarget = cleanBase then Ok cleanTarget
         else if \<not> has_prefix cleanTarget (cleanBase @ ''/'') then Err PathEscapes
         else Ok cleanTarget)"

definition SafeJoin :: "string \<Rightarrow> string list \<Rightarrow> sec_error + string" where
  "SafeJoin base elem = EnsureWithin base (path_join (base # elem))"

section \<open>Permission bits\<close>

definition CheckPerms :: "(string \<Rightarrow> 32 word option) \<Rightarrow> string \<Rightarrow> 32 word \<Rightarrow> sec_error + unit" where
  "CheckPerms stat path want =
     (case stat path of
        None \<Rightarrow> Err StatFailed
      | Some mode \<Rightarrow>
          let got = mode AND 511
          in if got AND NOT want \<noteq> 0 then Err (ModeTooOpen (unat got)) else Ok ())"

fun EnforceDirPerms :: "(string \<Rightarrow> 32 word option) \<Rightarrow> (string \<times> 32 word) list \<Rightarrow> sec_error + unit" where
  "EnforceDirPerms stat [] = Ok ()"
| "EnforceDirPerms stat ((p, want) # checks) =
     (if p = [] then EnforceDirPerms stat checks
      else if stat p = None then EnforceDirPerms stat checks
      else case CheckPerms stat p want of
        Inl e \<Rightarrow> Err e
      | Inr _ \<Rightarrow> EnforceDirPerms stat checks)"

section \<open>Segments of a path\<close>

definition segs :: "string \<Rightarrow> string list" where
  "segs p = filter (\<lambda>s. s \<noteq> []) (split_on (CHR ''/'') p)"

lemma segs_append: "segs (a @ CHR ''/'' # b) = segs a @ segs b"
  by (simp add: segs_def split_on_append)

lemma segs_join: "\<forall>w \<in> set ws. w \<noteq> [] \<and> CHR ''/'' \<notin> set w \<Longrightarrow> segs (join ''/'' ws) = ws"
  by (cases "ws = []") (auto simp: segs_def split_join filter_id_conv)

text \<open>A proper segment names a file or directory of its parent.\<close>

definition proper :: "string \<Rightarrow> bool" where
  "proper s \<longleftrightarrow> s \<noteq> [] \<and> s \<noteq> ''.'' \<and> s \<noteq> ''..'' \<and> CHR ''/'' \<notin> set s"

lemma clean_loop_proper:
  "list_all proper out \<Longrightarrow> list_all (\<lambda>s. CHR ''/'' \<notin> set s) ss \<Longrightarrow> list_all proper (clean_loop True out ss)"
proof (induction True out ss rule: clean_loop.induct)
  case (2 out seg ss)
  then show ?case by (cases out) (simp_all add: proper_def)
qed (simp add: list_all_iff)

lemma clean_loop_snoc:
  "proper n \<Longrightarrow> clean_loop r out (ss @ [n]) = clean_loop r out ss @ [n]"
  by (induction r out ss rule: clean_loop.induct) (auto simp: proper_def split: list.splits)

lemma join_snoc: "ws \<noteq> [] \<Longrightarrow> join sep (ws @ [w]) = join sep ws @ sep @ w"
proof (induction sep ws rule: join.induct)
  case (3 sep u v ws)
  then show ?case by (cases ws) auto
qed auto

lemma clean_loop_id: "list_all proper ss \<Longrightarrow> clean_loop r out ss = rev out @ ss"
  by (induction r out ss rule: clean_loop.induct) (auto simp: proper_def)

lemma clean_root_proper: "s \<in> set (clean_loop True [] (split_on (CHR ''/'') p)) \<Longrightarrow> proper s"
  using clean_loop_proper [of "[]" "split_on (CHR ''/'') p"] split_on_parts by (fastforce simp: list_all_iff)

lemma segs_root: "segs (CHR ''/'' # p) = segs p"
  using segs_append [of "[]" p] by (simp add: segs_def)

lemma segs_Clean: "is_rooted p \<Longrightarrow> segs (Clean p) = clean_loop True [] (split_on (CHR ''/'') p)"
  using clean_root_proper [of _ p] by (auto simp: Clean_def Let_def segs_root proper_def intro!: segs_join)

lemma Clean_proper: "is_rooted p \<Longrightarrow> s \<in> set (segs (Clean p)) \<Longrightarrow> proper s"
  by (simp add: segs_Clean clean_root_proper)

lemma clean_loop_skip: "clean_loop r out ss = clean_loop r out (filter (\<lambda>s. s \<noteq> []) ss)"
  by (induction r out ss rule: clean_loop.induct) (auto split: list.splits)

lemma Clean_segs: "is_rooted p \<Longrightarrow> Clean p = ''/'' @ join ''/'' (clean_loop True [] (segs p))"
  using clean_loop_skip [of True "[]" "split_on (CHR ''/'') p"] by (simp add: Clean_def Let_def segs_def)

lemma Clean_idem: "is_rooted p \<Longrightarrow> Clean (Clean p) = Clean p"
proof -
  assume r: "is_rooted p"
  have "is_rooted (Clean p)" using r by (simp add: Clean_def Let_def is_rooted_def has_prefix_def)
  moreover have "list_all proper (segs (Clean p))" using Clean_proper [OF r] by (simp add: list_all_iff)
  ultimately show ?thesis
    using Clean_segs [of "Clean p"] clean_loop_id [of "segs (Clean p)" True "[]"] r
    by (simp add: segs_Clean) (simp add: Clean_def Let_def)
qed

lemma rooted_Clean: "is_rooted (Clean p) \<longleftrightarrow> is_rooted p"
proof (cases "is_rooted p")
  case False
  have "\<not> prefix ''/'' (Clean p)"
  proof
    assume pre: "prefix ''/'' (Clean p)"
    let ?cs = "clean_loop False [] (split_on (CHR ''/'') p)"
    have nosl: "CHR ''/'' \<notin> set s \<and> s \<noteq> []" if "s \<in> set (clean_loop r out ss)" "\<forall>s \<in> set out \<union> set ss. CHR ''/'' \<notin> set s"
      "\<forall>s \<in> set out. s \<noteq> []" for r out ss s
      using that by (induction r out ss rule: clean_loop.induct) (auto split: if_splits list.splits)
    have "\<forall>s \<in> set ?cs. CHR ''/'' \<notin> set s \<and> s \<noteq> []" using nosl [of _ False "[]"] split_on_parts by fastforce
    moreover have "Clean p = (if join ''/'' ?cs = [] then ''.'' else join ''/'' ?cs)" using False by (simp add: Clean_def)
    ultimately show False using pre
      by (cases ?cs; cases "tl ?cs"; cases "hd ?cs") (auto simp: prefix_def split: if_splits)
  qed
  then show ?thesis using False by (simp add: is_rooted_def has_prefix_iff)
qed (simp add: Clean_def Let_def is_rooted_def has_prefix_def)

section \<open>Containment\<close>

lemma EnsureWithin_rooted: "EnsureWithin base target = Ok p \<Longrightarrow> is_rooted base \<Longrightarrow> is_rooted target"
proof -
  assume ok: "EnsureWithin base target = Ok p" and b: "is_rooted base"
  have "prefix ''/'' (Clean base)" using rooted_Clean [of base] b by (simp add: is_rooted_def has_prefix_iff)
  moreover have "prefix (Clean base) (Clean target)"
    using ok by (auto simp: EnsureWithin_def Let_def has_prefix_iff split: if_splits dest: append_prefixD)
  ultimately have "is_rooted (Clean target)" unfolding is_rooted_def has_prefix_iff by (rule prefix_order.trans)
  then show ?thesis by (simp add: rooted_Clean)
qed

lemma EnsureWithin_below:
  assumes ok: "EnsureWithin base target = Ok p" and b: "is_rooted base"
  shows "prefix (segs (Clean base)) (segs p) \<and> (\<forall>s \<in> set (segs p). proper s)"
proof -
  have p: "p = Clean target" using ok by (auto simp: EnsureWithin_def Let_def split: if_splits)
  have "p = Clean base \<or> prefix (Clean base @ ''/'') p"
    using ok by (auto simp: EnsureWithin_def Let_def has_prefix_iff split: if_splits)
  then have "prefix (segs (Clean base)) (segs p)"
    by (auto simp: prefix_def segs_append)
  moreover have "\<forall>s \<in> set (segs p). proper s"
    using Clean_proper EnsureWithin_rooted [OF ok b] by (simp add: p)
  ultimately show ?thesis by blast
qed

lemma ValidateName_proper: "ValidateName n = Ok () \<Longrightarrow> proper n"
  by (auto simp: ValidateName_def proper_def contains_any_def list_ex_iff split: if_splits)

lemma Clean_child:
  assumes b: "is_rooted base" and nr: "Clean base \<noteq> ''/''" and pn: "proper n"
  shows "Clean (base @ ''/'' @ n) = Clean base @ ''/'' @ n"
proof -
  let ?cs = "clean_loop True [] (split_on (CHR ''/'') base)"
  have "split_on (CHR ''/'') (base @ ''/'' @ n) = split_on (CHR ''/'') base @ [n]"
    using split_on_append [of "CHR ''/''" base n] pn by (simp add: split_on_no_sep proper_def)
  moreover have "is_rooted (base @ ''/'' @ n)" using b by (simp add: is_rooted_def has_prefix_iff)
  ultimately have "Clean (base @ ''/'' @ n) = ''/'' @ join ''/'' (?cs @ [n])"
    by (simp add: Clean_def Let_def clean_loop_snoc [OF pn])
  moreover have "Clean base = ''/'' @ join ''/'' ?cs" using b by (simp add: Clean_def Let_def)
  moreover from this nr have "?cs \<noteq> []" by auto
  then have "join ''/'' (?cs @ [n]) = join ''/'' ?cs @ ''/'' @ n" by (rule join_snoc)
  ultimately show ?thesis by simp
qed

lemma SafeJoin_child:
  assumes b: "is_rooted base" and nr: "Clean base \<noteq> ''/''" and n: "ValidateName n = Ok ()"
  shows "SafeJoin base [n] = Ok (Clean base @ ''/'' @ n)"
proof -
  have pn: "proper n" using n by (rule ValidateName_proper)
  have ne: "base \<noteq> []" "n \<noteq> []" using b pn by (auto simp: is_rooted_def has_prefix_def proper_def)
  have r: "is_rooted (base @ ''/'' @ n)" using b by (simp add: is_rooted_def has_prefix_iff)
  have "path_join [base, n] = Clean (base @ ''/'' @ n)" using ne by (simp add: path_join_def)
  moreover have "Clean (Clean (base @ ''/'' @ n)) = Clean (base @ ''/'' @ n)" by (rule Clean_idem [OF r])
  ultimately show ?thesis using Clean_child [OF b nr pn] by (simp add: SafeJoin_def EnsureWithin_def Let_def has_prefix_iff)
qed

text \<open>Joining never leaves the base directory: for an absolute base, a path that \<open>SafeJoin\<close> or
  \<open>EnsureWithin\<close> accepts has the segments of the base first and contains no dot-dot, and a validated
  name always gives the direct child of that name.\<close>

theorem safe_join_contained:
  assumes "is_rooted base"
  shows "(SafeJoin base elems = Ok p \<longrightarrow> prefix (segs (Clean base)) (segs p) \<and> (\<forall>s \<in> set (segs p). proper s)) \<and>
    (Clean base \<noteq> ''/'' \<and> ValidateName n = Ok () \<longrightarrow> SafeJoin base [n] = Ok (Clean base @ ''/'' @ n))"
  using EnsureWithin_below [OF _ assms] SafeJoin_child [OF assms] by (auto simp: SafeJoin_def)

theorem safe_join_contained_witness:
  "is_rooted ''/data/repos/'' \<and> SafeJoin ''/data/repos/'' [''ann''] = Ok ''/data/repos/ann''"
proof -
  have r: "is_rooted ''/data/repos/''" by (simp add: is_rooted_def has_prefix_def)
  have c: "Clean ''/data/repos/'' = ''/data/repos''" by (simp add: Clean_def is_rooted_def has_prefix_def)
  have n: "ValidateName ''ann'' = Ok ()"
    by (simp add: ValidateName_def contains_any_def backslash_def has_prefix_def nameRe_def name_char_def alnum_def)
  show ?thesis using safe_join_contained [OF r, of _ _ "''ann''"] r c n by simp
qed

section \<open>Outbound requests\<close>

lemma To4_mapped: "length q = 4 \<Longrightarrow> To4 (replicate 10 0 @ [255, 255] @ q) = Some q"
  by (simp add: To4_def)

text \<open>A URL whose host resolves is accepted for outbound requests exactly when its scheme is http or
  https, it has a host, and none of the addresses is a loopback, private, link-local or unspecified
  one; writing an IPv4 address in its IPv6 form does not change that.\<close>

theorem outbound_url_guard:
  assumes "parse_url raw = Some (scheme, host)" and "lookup host = Some ips"
  shows "(ValidateOutboundURL parse_url lookup raw True = Ok () \<longleftrightarrow>
      scheme \<in> {''http'', ''https''} \<and> host \<noteq> [] \<and> (\<forall>ip \<in> set ips. \<not> internal_ip ip)) \<and>
    (length q = 4 \<longrightarrow> internal_ip (replicate 10 0 @ [255, 255] @ q) = internal_ip q)"
proof (intro conjI impI)
  show "ValidateOutboundURL parse_url lookup raw True = Ok () \<longleftrightarrow>
      scheme \<in> {''http'', ''https''} \<and> host \<noteq> [] \<and> (\<forall>ip \<in> set ips. \<not> internal_ip ip)"
  proof -
    have "(case List.find internal_ip ips of Some ip \<Rightarrow> Err (UrlPrivate ip) | None \<Rightarrow> Ok ()) = Ok () \<longleftrightarrow>
        (\<forall>ip \<in> set ips. \<not> internal_ip ip)"
      using find_None_iff [of internal_ip ips] by (cases "List.find internal_ip ips") auto
    with assms show ?thesis by (auto simp: ValidateOutboundURL_def)
  qed
next
  assume q: "length q = 4"
  then have "To4 q = Some q" by (simp add: To4_def)
  with To4_mapped [OF q] show "internal_ip (replicate 10 0 @ [255, 255] @ q) = internal_ip q"
    by (simp only: internal_ip_def IsLoopback_def IsLinkLocalUnicast_def IsLinkLocalMulticast_def IsPrivate_def
        IsUnspecified_def option.case)
qed

theorem outbound_url_guard_witness:
  "ValidateOutboundURL (\<lambda>_. Some (''http'', ''localhost'')) (\<lambda>_. Some [[127, 0, 0, 1]]) ''http://localhost'' True \<noteq> Ok ()"
  using outbound_url_guard [of "\<lambda>_. Some (''http'', ''localhost'')" "''http://localhost''" "''http''" "''localhost''"
      "\<lambda>_. Some [[127, 0, 0, 1]]" "[[127, 0, 0, 1]]"]
  by (simp add: internal_ip_def IsLoopback_def To4_def)

end
