(* ===== verification/Social.thy ===== *)
theory Social
  imports Stores "HOL-Library.List_Lexorder" "HOL-Library.Char_ord"
begin

text \<open>
  The services that store a relation: \<open>internal/service/follow\<close>, \<open>block\<close>, \<open>subscription\<close> and
  \<open>reaction\<close>. Each is one table and one \<open>sql\<close> state; each is an instance of \<open>relation_store\<close>.
  Only \<open>follows\<close> has a \<open>UNIQUE\<close> constraint; the others look the row up before they insert it.
\<close>

section \<open>Follows\<close>

datatype social_error = SelfRelation | InvalidTarget string | EmojiRequired | SocialDriver

definition Follow :: "int \<times> int \<Rightarrow> (int \<times> int) sql \<Rightarrow> (social_error + unit) \<times> (int \<times> int) sql" where
  "Follow k s =
     (if fst k = snd k then (Err SelfRelation, s)
      else if down s then (Err SocialDriver, s)
      else (Ok (), if tbl_exists (\<lambda>_ r. r = k) (tab s) then s else s\<lparr>tab := tbl_insert k (tab s)\<rparr>))"

definition Unfollow :: "int \<times> int \<Rightarrow> (int \<times> int) sql \<Rightarrow> (social_error + unit) \<times> (int \<times> int) sql" where
  "Unfollow k s =
     (if down s then (Err SocialDriver, s) else (Ok (), s\<lparr>tab := tbl_delete (\<lambda>_ r. r = k) (tab s)\<rparr>))"

text \<open>A failing query counts as not following.\<close>

definition IsFollowing :: "(int \<times> int) sql \<Rightarrow> int \<Rightarrow> int \<Rightarrow> bool" where
  "IsFollowing s follower following = (\<not> down s \<and> tbl_exists (\<lambda>_ r. r = (follower, following)) (tab s))"

definition Counts :: "(int \<times> int) sql \<Rightarrow> int \<Rightarrow> social_error + nat \<times> nat" where
  "Counts s userID =
     (if down s then Err SocialDriver
      else Ok (tbl_count (\<lambda>_ r. snd r = userID) (tab s), tbl_count (\<lambda>_ r. fst r = userID) (tab s)))"

definition follow_limit :: "int \<Rightarrow> nat" where
  "follow_limit limit = (if limit \<le> 0 \<or> limit > 200 then 50 else nat limit)"

definition ListFollowers :: "(int \<times> int) sql \<Rightarrow> int \<Rightarrow> int \<Rightarrow> social_error + int list" where
  "ListFollowers s userID limit =
     (if down s then Err SocialDriver
      else Ok (take (follow_limit limit) (rev (map (\<lambda>(_, r). fst r) (tbl_select (\<lambda>_ r. snd r = userID) (tab s))))))"

definition ListFollowing :: "(int \<times> int) sql \<Rightarrow> int \<Rightarrow> int \<Rightarrow> social_error + int list" where
  "ListFollowing s userID limit =
     (if down s then Err SocialDriver
      else Ok (take (follow_limit limit) (rev (map (\<lambda>(_, r). snd r) (tbl_select (\<lambda>_ r. fst r = userID) (tab s))))))"

section \<open>Blocks\<close>

definition Block :: "int \<times> int \<Rightarrow> (int \<times> int) sql \<Rightarrow> (social_error + unit) \<times> (int \<times> int) sql" where
  "Block k s =
     (if fst k = snd k then (Err SelfRelation, s)
      else if down s then (Err SocialDriver, s)
      else if tbl_count (\<lambda>_ r. r = k) (tab s) > 0 then (Ok (), s)
      else (Ok (), s\<lparr>tab := tbl_insert k (tab s)\<rparr>))"

definition Unblock :: "int \<times> int \<Rightarrow> (int \<times> int) sql \<Rightarrow> (social_error + unit) \<times> (int \<times> int) sql" where
  "Unblock k s =
     (if down s then (Err SocialDriver, s) else (Ok (), s\<lparr>tab := tbl_delete (\<lambda>_ r. r = k) (tab s)\<rparr>))"

definition IsBlocked :: "(int \<times> int) sql \<Rightarrow> int \<Rightarrow> int \<Rightarrow> social_error + bool" where
  "IsBlocked s blocker blocked =
     (if down s then Err SocialDriver else Ok (tbl_count (\<lambda>_ r. r = (blocker, blocked)) (tab s) > 0))"

definition ListBlocked :: "(int \<times> int) sql \<Rightarrow> int \<Rightarrow> social_error + int list" where
  "ListBlocked s blocker =
     (if down s then Err SocialDriver
      else Ok (sort (map (\<lambda>(_, r). snd r) (tbl_select (\<lambda>_ r. fst r = blocker) (tab s)))))"

section \<open>Subscriptions\<close>

type_synonym sub_key = "int \<times> string \<times> int"

definition sub_validTargets :: "string \<Rightarrow> bool" where
  "sub_validTargets t \<longleftrightarrow> t \<in> {''issue'', ''pull'', ''repo''}"

definition Subscribe :: "sub_key \<Rightarrow> sub_key sql \<Rightarrow> (social_error + unit) \<times> sub_key sql" where
  "Subscribe k s =
     (if \<not> sub_validTargets (fst (snd k)) then (Err (InvalidTarget (fst (snd k))), s)
      else if down s then (Err SocialDriver, s)
      else if tbl_count (\<lambda>_ r. r = k) (tab s) > 0 then (Ok (), s)
      else (Ok (), s\<lparr>tab := tbl_insert k (tab s)\<rparr>))"

definition Unsubscribe :: "sub_key \<Rightarrow> sub_key sql \<Rightarrow> (social_error + unit) \<times> sub_key sql" where
  "Unsubscribe k s =
     (if \<not> sub_validTargets (fst (snd k)) then (Err (InvalidTarget (fst (snd k))), s)
      else if down s then (Err SocialDriver, s)
      else (Ok (), s\<lparr>tab := tbl_delete (\<lambda>_ r. r = k) (tab s)\<rparr>))"

definition IsSubscribed :: "sub_key sql \<Rightarrow> sub_key \<Rightarrow> social_error + bool" where
  "IsSubscribed s k =
     (if \<not> sub_validTargets (fst (snd k)) then Err (InvalidTarget (fst (snd k)))
      else if down s then Err SocialDriver
      else Ok (tbl_count (\<lambda>_ r. r = k) (tab s) > 0))"

definition sub_ListByUser :: "sub_key sql \<Rightarrow> int \<Rightarrow> string \<Rightarrow> social_error + int list" where
  "sub_ListByUser s userID targetType =
     (if \<not> sub_validTargets targetType then Err (InvalidTarget targetType)
      else if down s then Err SocialDriver
      else Ok (sort (map (\<lambda>(_, r). snd (snd r)) (tbl_select (\<lambda>_ r. fst r = userID \<and> fst (snd r) = targetType) (tab s)))))"

section \<open>Reactions\<close>

record reaction =
  re_user :: int
  re_type :: string
  re_target :: int
  re_emoji :: string

definition react_validTargets :: "string \<Rightarrow> bool" where
  "react_validTargets t \<longleftrightarrow> t \<in> {''issue'', ''pull'', ''comment''}"

definition reaction_Add :: "reaction \<Rightarrow> reaction sql \<Rightarrow> (social_error + unit) \<times> reaction sql" where
  "reaction_Add k s =
     (if \<not> react_validTargets (re_type k) then (Err (InvalidTarget (re_type k)), s)
      else if re_emoji k = [] then (Err EmojiRequired, s)
      else if down s then (Err SocialDriver, s)
      else if tbl_count (\<lambda>_ r. r = k) (tab s) > 0 then (Ok (), s)
      else (Ok (), s\<lparr>tab := tbl_insert k (tab s)\<rparr>))"

definition reaction_Remove :: "reaction \<Rightarrow> reaction sql \<Rightarrow> (social_error + unit) \<times> reaction sql" where
  "reaction_Remove k s =
     (if \<not> react_validTargets (re_type k) then (Err (InvalidTarget (re_type k)), s)
      else if down s then (Err SocialDriver, s)
      else (Ok (), s\<lparr>tab := tbl_delete (\<lambda>_ r. r = k) (tab s)\<rparr>))"

text \<open>\<open>GROUP BY emoji\<close>: every emoji of the target with the number of its rows.\<close>

definition reaction_List :: "reaction sql \<Rightarrow> string \<Rightarrow> int \<Rightarrow> social_error + (string \<times> nat) list" where
  "reaction_List s targetType targetID =
     (if down s then Err SocialDriver
      else let rs = map snd (tbl_select (\<lambda>_ r. re_type r = targetType \<and> re_target r = targetID) (tab s))
           in Ok (map (\<lambda>e. (e, length (filter (\<lambda>r. re_emoji r = e) rs))) (remdups (map re_emoji rs))))"

definition reaction_ListByUser :: "reaction sql \<Rightarrow> int \<Rightarrow> string \<Rightarrow> int \<Rightarrow> social_error + string list" where
  "reaction_ListByUser s userID targetType targetID =
     (if down s then Err SocialDriver
      else Ok (sort (map (\<lambda>(_, r). re_emoji r)
                 (tbl_select (\<lambda>_ r. re_user r = userID \<and> re_type r = targetType \<and> re_target r = targetID) (tab s)))))"

section \<open>The four services are sets of keys\<close>

definition stored_key :: "'k \<Rightarrow> 'k sql \<Rightarrow> bool" where
  "stored_key k s \<longleftrightarrow> tbl_exists (\<lambda>_ r. r = k) (tab s)"

definition no_duplicates :: "'k sql \<Rightarrow> bool" where
  "no_duplicates s \<longleftrightarrow> unique_on id (tab s)"

lemma stored_insert: "stored_key j (s\<lparr>tab := tbl_insert k (tab s)\<rparr>) \<longleftrightarrow> j = k \<or> stored_key j s"
  by (auto simp: stored_key_def tbl_exists_insert)

lemma stored_delete: "stored_key j (s\<lparr>tab := tbl_delete (\<lambda>_ r. r = k) (tab s)\<rparr>) \<longleftrightarrow> j \<noteq> k \<and> stored_key j s"
  by (auto simp: stored_key_def tbl_exists_def tbl_delete_def list_ex_iff)

lemma once_insert:
  "no_duplicates s \<Longrightarrow> \<not> stored_key k s \<Longrightarrow> no_duplicates (s\<lparr>tab := tbl_insert k (tab s)\<rparr>)"
  by (auto simp: no_duplicates_def stored_key_def intro!: unique_on_insert)

lemma once_delete: "no_duplicates s \<Longrightarrow> no_duplicates (s\<lparr>tab := tbl_delete P (tab s)\<rparr>)"
  by (simp add: no_duplicates_def unique_on_delete)

lemmas rel_ops = stored_insert stored_delete tbl_count_pos

interpretation follow_store: relation_store Follow Unfollow stored_key no_duplicates
  by unfold_locales
    (auto simp: Follow_def Unfollow_def rel_ops once_insert once_delete stored_key_def [symmetric] split: if_splits)

interpretation block_store: relation_store Block Unblock stored_key no_duplicates
  by unfold_locales
    (auto simp: Block_def Unblock_def rel_ops once_insert once_delete stored_key_def [symmetric] split: if_splits)

interpretation sub_store: relation_store Subscribe Unsubscribe stored_key no_duplicates
  by unfold_locales
    (auto simp: Subscribe_def Unsubscribe_def rel_ops once_insert once_delete stored_key_def [symmetric] split: if_splits)

interpretation react_store: relation_store reaction_Add reaction_Remove stored_key no_duplicates
  by unfold_locales
    (auto simp: reaction_Add_def reaction_Remove_def rel_ops once_insert once_delete stored_key_def [symmetric] split: if_splits)

section \<open>Runs and counts\<close>

text \<open>Follows, blocks, subscriptions and reactions behave as sets: after any sequence of calls the
  stored keys are those obtained by inserting and removing, in order, the keys of the calls that
  succeeded, and no key is stored twice.\<close>

theorem relations_refine_sets:
  "follow_store.members (follow_store.rel_run xs f) = fold rel_spec (follow_store.accepted xs f) (follow_store.members f) \<and>
   block_store.members (block_store.rel_run ys b) = fold rel_spec (block_store.accepted ys b) (block_store.members b) \<and>
   sub_store.members (sub_store.rel_run zs u) = fold rel_spec (sub_store.accepted zs u) (sub_store.members u) \<and>
   react_store.members (react_store.rel_run ws r) = fold rel_spec (react_store.accepted ws r) (react_store.members r) \<and>
   (no_duplicates f \<longrightarrow> no_duplicates (follow_store.rel_run xs f)) \<and>
   (no_duplicates b \<longrightarrow> no_duplicates (block_store.rel_run ys b)) \<and>
   (no_duplicates u \<longrightarrow> no_duplicates (sub_store.rel_run zs u)) \<and>
   (no_duplicates r \<longrightarrow> no_duplicates (react_store.rel_run ws r))"
  by (intro conjI impI follow_store.run_refines block_store.run_refines sub_store.run_refines react_store.run_refines
      follow_store.run_once block_store.run_once sub_store.run_once react_store.run_once)

theorem relations_refine_sets_witness:
  "no_duplicates (follow_store.rel_run [Add (1, 2), Add (1, 2), Remove (3, 4)] sql_empty)"
proof -
  have "no_duplicates (sql_empty :: (int \<times> int) sql)" by (simp add: no_duplicates_def sql_empty_def)
  then show ?thesis using relations_refine_sets by blast
qed

lemma distinct_rows_count:
  assumes "distinct (map snd xs)"
  shows "length (filter (\<lambda>(i, r). P r) xs) = card {r \<in> snd ` set xs. P r}"
proof -
  have "filter P (map snd xs) = map snd (filter (\<lambda>(i, r). P r) xs)"
    by (simp add: filter_map comp_def case_prod_unfold)
  then have "length (filter (\<lambda>(i, r). P r) xs) = length (filter P (map snd xs))" by simp
  also have "\<dots> = card (set (filter P (map snd xs)))"
    using distinct_card [of "filter P (map snd xs)"] distinct_filter [OF assms] by (simp only:)
  finally show ?thesis by (simp add: conj_commute)
qed

lemma count_stored:
  assumes "no_duplicates s"
  shows "tbl_count (\<lambda>_ r. P r) (tab s) = card {k. stored_key k s \<and> P k}"
proof -
  have "distinct (map snd (rows (tab s)))" using assms by (simp add: no_duplicates_def unique_on_def case_prod_unfold)
  from distinct_rows_count [OF this, of P]
  have "tbl_count (\<lambda>_ r. P r) (tab s) = card {r \<in> snd ` set (rows (tab s)). P r}"
    by (simp add: tbl_count_def tbl_select_def)
  moreover have "{r \<in> snd ` set (rows (tab s)). P r} = {k. stored_key k s \<and> P k}"
    by (force simp: stored_key_def tbl_exists_def list_ex_iff)
  ultimately show ?thesis by simp
qed

text \<open>The numbers shown are numbers of people: the counts of followers and of followed users are
  the sizes of those sets, and an emoji is listed on a target exactly when somebody reacted with it,
  with the number of the users who did.\<close>

theorem counts_are_cardinalities:
  assumes "no_duplicates f" and "\<not> down f" and "no_duplicates r" and "\<not> down r"
  shows "Counts f u = Ok (card {v. IsFollowing f v u}, card {v. IsFollowing f u v}) \<and>
    (\<exists>es. reaction_List r tt ti = Ok es \<and>
      (\<forall>e n. (e, n) \<in> set es \<longleftrightarrow> n > 0 \<and>
         n = card {v. stored_key \<lparr>re_user = v, re_type = tt, re_target = ti, re_emoji = e\<rparr> r}))"
proof
  have "{k. stored_key k f \<and> snd k = u} = (\<lambda>v. (v, u)) ` {v. IsFollowing f v u}"
    and "{k. stored_key k f \<and> fst k = u} = (\<lambda>v. (u, v)) ` {v. IsFollowing f u v}"
    using assms(2) by (auto simp: IsFollowing_def stored_key_def)
  then show "Counts f u = Ok (card {v. IsFollowing f v u}, card {v. IsFollowing f u v})"
    using assms(2) by (simp add: Counts_def count_stored [OF assms(1)] card_image inj_on_def)
next
  let ?rs = "map snd (tbl_select (\<lambda>_ x. re_type x = tt \<and> re_target x = ti) (tab r))"
  have cnt: "length (filter (\<lambda>x. re_emoji x = e) ?rs) =
      card {v. stored_key \<lparr>re_user = v, re_type = tt, re_target = ti, re_emoji = e\<rparr> r}" for e
  proof -
    have "length (filter (\<lambda>x. re_emoji x = e) ?rs) = tbl_count (\<lambda>_ x. re_type x = tt \<and> re_target x = ti \<and> re_emoji x = e) (tab r)"
      unfolding tbl_count_def tbl_select_def by (simp add: filter_map comp_def case_prod_unfold conj_ac)
    also have "\<dots> = card {k. stored_key k r \<and> re_type k = tt \<and> re_target k = ti \<and> re_emoji k = e}"
      by (rule count_stored [OF assms(3)])
    also have "{k. stored_key k r \<and> re_type k = tt \<and> re_target k = ti \<and> re_emoji k = e} =
        (\<lambda>v. \<lparr>re_user = v, re_type = tt, re_target = ti, re_emoji = e\<rparr>) `
          {v. stored_key \<lparr>re_user = v, re_type = tt, re_target = ti, re_emoji = e\<rparr> r}"
      by (auto simp: image_iff) (metis reaction.surjective old.unit.exhaust)+
    finally show ?thesis by (simp add: card_image inj_on_def)
  qed
  define rs where "rs = ?rs"
  have mem: "e \<in> set (map re_emoji rs) \<longleftrightarrow> 0 < length (filter (\<lambda>x. re_emoji x = e) rs)" for e
    by (auto simp: filter_empty_conv)
  have "reaction_List r tt ti = Ok (map (\<lambda>e. (e, length (filter (\<lambda>x. re_emoji x = e) rs))) (remdups (map re_emoji rs)))"
    using assms(4) by (simp add: reaction_List_def rs_def Let_def)
  moreover have "(e, n) \<in> set (map (\<lambda>e. (e, length (filter (\<lambda>x. re_emoji x = e) rs))) (remdups (map re_emoji rs))) \<longleftrightarrow>
      n > 0 \<and> n = length (filter (\<lambda>x. re_emoji x = e) rs)" for e n
    using mem [of e] by auto
  ultimately show "\<exists>es. reaction_List r tt ti = Ok es \<and>
      (\<forall>e n. (e, n) \<in> set es \<longleftrightarrow> n > 0 \<and>
         n = card {v. stored_key \<lparr>re_user = v, re_type = tt, re_target = ti, re_emoji = e\<rparr> r})"
    unfolding rs_def cnt by blast
qed

theorem counts_are_cardinalities_witness:
  "no_duplicates (sql_empty :: (int \<times> int) sql) \<and> no_duplicates (sql_empty :: reaction sql) \<and>
   Counts sql_empty 5 = Ok (card {v. IsFollowing sql_empty v 5}, card {v. IsFollowing sql_empty 5 v})"
proof -
  have d: "no_duplicates (sql_empty :: (int \<times> int) sql)" "no_duplicates (sql_empty :: reaction sql)"
    "\<not> down (sql_empty :: (int \<times> int) sql)" "\<not> down (sql_empty :: reaction sql)"
    by (simp_all add: no_duplicates_def sql_empty_def)
  show ?thesis using counts_are_cardinalities [OF d(1,3,2,4), of 5] d(1,2) by blast
qed

end
