(* ===== verification/Owned.thy ===== *)
theory Owned
  imports Stores Secutil
begin

text \<open>
  The services that store rows of an owner: \<open>internal/service/savedreply\<close> (owner: a user),
  \<open>deploykey\<close> (owner: a repository) and \<open>userwebhook\<close> (owner: a user). Each is an instance of
  \<open>scoped_store\<close>. The parser of SSH keys is a parameter: \<open>fp\<close> gives the fingerprint of a public
  key, \<^const>\<open>None\<close> when it does not parse.
\<close>

section \<open>Saved replies\<close>

record reply =
  sr_UserID :: int
  sr_Title :: string
  sr_Body :: string

datatype owned_error = OwnedNotFound | TitleRequired | KeyUnparsable | BadUrl sec_error | OwnedConstraint | OwnedDriver

definition reply_ByID :: "reply sql \<Rightarrow> int \<Rightarrow> owned_error + int \<times> reply" where
  "reply_ByID s i =
     (if down s then Err OwnedDriver
      else case tbl_find (\<lambda>j _. j = i) (tab s) of None \<Rightarrow> Err OwnedNotFound | Some x \<Rightarrow> Ok x)"

definition reply_Create :: "int \<Rightarrow> string \<Rightarrow> string \<Rightarrow> reply sql \<Rightarrow> (owned_error + int \<times> reply) \<times> reply sql" where
  "reply_Create userID title body s =
     (if title = [] then (Err TitleRequired, s)
      else if down s then (Err OwnedDriver, s)
      else let s' = s\<lparr>tab := tbl_insert \<lparr>sr_UserID = userID, sr_Title = title, sr_Body = body\<rparr> (tab s)\<rparr>
           in (reply_ByID s' (seq (tab s')), s'))"

definition reply_List :: "reply sql \<Rightarrow> int \<Rightarrow> owned_error + (int \<times> reply) list" where
  "reply_List s userID =
     (if down s then Err OwnedDriver else Ok (rev (tbl_select (\<lambda>_ r. sr_UserID r = userID) (tab s))))"

definition reply_Update ::
  "int \<Rightarrow> int \<Rightarrow> string \<Rightarrow> string \<Rightarrow> reply sql \<Rightarrow> (owned_error + unit) \<times> reply sql" where
  "reply_Update userID i title body s =
     (if down s then (Err OwnedDriver, s)
      else let n = tbl_count (\<lambda>j r. j = i \<and> sr_UserID r = userID) (tab s);
               s' = s\<lparr>tab := tbl_update (\<lambda>j r. j = i \<and> sr_UserID r = userID)
                      (\<lambda>r. r\<lparr>sr_Title := title, sr_Body := body\<rparr>) (tab s)\<rparr>
           in if n = 0 then (Err OwnedNotFound, s') else (Ok (), s'))"

definition reply_Delete :: "int \<Rightarrow> int \<Rightarrow> reply sql \<Rightarrow> (owned_error + unit) \<times> reply sql" where
  "reply_Delete userID i s =
     (if down s then (Err OwnedDriver, s)
      else (Ok (), s\<lparr>tab := tbl_delete (\<lambda>j r. j = i \<and> sr_UserID r = userID) (tab s)\<rparr>))"

section \<open>Deploy keys\<close>

record deploy_key =
  dk_RepoID :: int
  dk_Title :: string
  dk_Fingerprint :: string
  dk_PublicKey :: string
  dk_ReadOnly :: bool
  dk_LastUsed :: "int option"

definition key_Add ::
  "(string \<Rightarrow> string option) \<Rightarrow> int \<Rightarrow> string \<Rightarrow> string \<Rightarrow> bool \<Rightarrow> deploy_key sql \<Rightarrow>
     (owned_error + int \<times> deploy_key) \<times> deploy_key sql" where
  "key_Add fp repoID title pubKey readOnly s =
     (case fp pubKey of
        None \<Rightarrow> (Err KeyUnparsable, s)
      | Some f \<Rightarrow>
          if down s then (Err OwnedDriver, s)
          else if tbl_exists (\<lambda>_ k. dk_Fingerprint k = f) (tab s) then (Err OwnedConstraint, s)
          else let k = \<lparr>dk_RepoID = repoID, dk_Title = title, dk_Fingerprint = f, dk_PublicKey = pubKey,
                        dk_ReadOnly = readOnly, dk_LastUsed = None\<rparr>;
                   t = tbl_insert k (tab s)
               in (Ok (seq t, k), s\<lparr>tab := t\<rparr>))"

definition key_List :: "deploy_key sql \<Rightarrow> int \<Rightarrow> owned_error + (int \<times> deploy_key) list" where
  "key_List s repoID =
     (if down s then Err OwnedDriver else Ok (tbl_select (\<lambda>_ k. dk_RepoID k = repoID) (tab s)))"

definition SetReadOnly :: "int \<Rightarrow> int \<Rightarrow> bool \<Rightarrow> deploy_key sql \<Rightarrow> (owned_error + unit) \<times> deploy_key sql" where
  "SetReadOnly repoID keyID readOnly s =
     (if down s then (Err OwnedDriver, s)
      else let n = tbl_count (\<lambda>j k. j = keyID \<and> dk_RepoID k = repoID) (tab s);
               s' = s\<lparr>tab := tbl_update (\<lambda>j k. j = keyID \<and> dk_RepoID k = repoID) (\<lambda>k. k\<lparr>dk_ReadOnly := readOnly\<rparr>) (tab s)\<rparr>
           in if n = 0 then (Err OwnedNotFound, s') else (Ok (), s'))"

definition key_Delete :: "int \<Rightarrow> int \<Rightarrow> deploy_key sql \<Rightarrow> (owned_error + unit) \<times> deploy_key sql" where
  "key_Delete repoID keyID s =
     (if down s then (Err OwnedDriver, s)
      else (Ok (), s\<lparr>tab := tbl_delete (\<lambda>j k. j = keyID \<and> dk_RepoID k = repoID) (tab s)\<rparr>))"

definition Resolve :: "deploy_key sql \<Rightarrow> string \<Rightarrow> owned_error + int \<times> bool" where
  "Resolve s fingerprint =
     (if down s then Err OwnedDriver
      else case tbl_find (\<lambda>_ k. dk_Fingerprint k = fingerprint) (tab s) of
             None \<Rightarrow> Err OwnedNotFound | Some (_, k) \<Rightarrow> Ok (dk_RepoID k, dk_ReadOnly k))"

definition Touch :: "int \<Rightarrow> string \<Rightarrow> deploy_key sql \<Rightarrow> (owned_error + unit) \<times> deploy_key sql" where
  "Touch now fingerprint s =
     (if down s then (Err OwnedDriver, s)
      else (Ok (), s\<lparr>tab := tbl_update (\<lambda>_ k. dk_Fingerprint k = fingerprint) (\<lambda>k. k\<lparr>dk_LastUsed := Some now\<rparr>) (tab s)\<rparr>))"

section \<open>Webhooks of a user\<close>

record user_hook =
  uh_UserID :: int
  uh_URL :: string
  uh_Secret :: string
  uh_events :: string
  uh_Active :: bool

record hook_view =
  hk_ID :: int
  hk_UserID :: int
  hk_URL :: string
  hk_Secret :: string
  hk_Events :: "string list"
  hk_Active :: bool

definition splitCSV :: "string \<Rightarrow> string list" where
  "splitCSV s =
     (if trim_space s = [] then []
      else filter (\<lambda>p. p \<noteq> []) (map trim_space (split_on (CHR '','') s)))"

definition view_hook :: "int \<times> user_hook \<Rightarrow> hook_view" where
  "view_hook x =
     (case x of (i, h) \<Rightarrow> \<lparr>hk_ID = i, hk_UserID = uh_UserID h, hk_URL = uh_URL h, hk_Secret = uh_Secret h,
                          hk_Events = splitCSV (uh_events h), hk_Active = uh_Active h\<rparr>)"

definition hook_ByID :: "user_hook sql \<Rightarrow> int \<Rightarrow> int \<Rightarrow> owned_error + hook_view" where
  "hook_ByID s userID i =
     (if down s then Err OwnedDriver
      else case tbl_find (\<lambda>j h. j = i \<and> uh_UserID h = userID) (tab s) of
             None \<Rightarrow> Err OwnedNotFound | Some x \<Rightarrow> Ok (view_hook x))"

definition hook_Create ::
  "(string \<Rightarrow> bool \<Rightarrow> sec_error + unit) \<Rightarrow> int \<Rightarrow> string \<Rightarrow> string \<Rightarrow> string list \<Rightarrow> user_hook sql \<Rightarrow>
     (owned_error + hook_view) \<times> user_hook sql" where
  "hook_Create validate userID url secret events s =
     (case validate url True of
        Inl e \<Rightarrow> (Err (BadUrl e), s)
      | Inr _ \<Rightarrow>
          if down s then (Err OwnedDriver, s)
          else let s' = s\<lparr>tab := tbl_insert \<lparr>uh_UserID = userID, uh_URL = url, uh_Secret = secret,
                                   uh_events = join '','' events, uh_Active = True\<rparr> (tab s)\<rparr>
               in (hook_ByID s' userID (seq (tab s')), s'))"

definition hook_List :: "user_hook sql \<Rightarrow> int \<Rightarrow> owned_error + hook_view list" where
  "hook_List s userID =
     (if down s then Err OwnedDriver else Ok (map view_hook (tbl_select (\<lambda>_ h. uh_UserID h = userID) (tab s))))"

definition hook_Delete :: "int \<Rightarrow> int \<Rightarrow> user_hook sql \<Rightarrow> (owned_error + unit) \<times> user_hook sql" where
  "hook_Delete userID i s =
     (if down s then (Err OwnedDriver, s)
      else let n = tbl_count (\<lambda>j h. j = i \<and> uh_UserID h = userID) (tab s);
               s' = s\<lparr>tab := tbl_delete (\<lambda>j h. j = i \<and> uh_UserID h = userID) (tab s)\<rparr>
           in if n = 0 then (Err OwnedNotFound, s') else (Ok (), s'))"

definition SetActive :: "int \<Rightarrow> int \<Rightarrow> bool \<Rightarrow> user_hook sql \<Rightarrow> (owned_error + unit) \<times> user_hook sql" where
  "SetActive userID i active s =
     (if down s then (Err OwnedDriver, s)
      else let n = tbl_count (\<lambda>j h. j = i \<and> uh_UserID h = userID) (tab s);
               s' = s\<lparr>tab := tbl_update (\<lambda>j h. j = i \<and> uh_UserID h = userID) (\<lambda>h. h\<lparr>uh_Active := active\<rparr>) (tab s)\<rparr>
           in if n = 0 then (Err OwnedNotFound, s') else (Ok (), s'))"

section \<open>The three services separate their owners\<close>

abbreviation replies_of :: "int \<Rightarrow> reply sql \<Rightarrow> (int \<times> reply) list" where
  "replies_of u s \<equiv> tbl_select (\<lambda>_ r. sr_UserID r = u) (tab s)"

abbreviation keys_of :: "int \<Rightarrow> deploy_key sql \<Rightarrow> (int \<times> deploy_key) list" where
  "keys_of r s \<equiv> tbl_select (\<lambda>_ k. dk_RepoID k = r) (tab s)"

abbreviation hooks_of :: "int \<Rightarrow> user_hook sql \<Rightarrow> (int \<times> user_hook) list" where
  "hooks_of u s \<equiv> tbl_select (\<lambda>_ h. uh_UserID h = u) (tab s)"

text \<open>The create operations by owner and arguments, with the key of the new row as the result.\<close>

definition reply_new :: "int \<Rightarrow> string \<times> string \<Rightarrow> reply sql \<Rightarrow> (owned_error + int) \<times> reply sql" where
  "reply_new u tb s = (case reply_Create u (fst tb) (snd tb) s of (r, s') \<Rightarrow> (map_sum id fst r, s'))"

definition key_new ::
  "(string \<Rightarrow> string option) \<Rightarrow> int \<Rightarrow> string \<times> string \<times> bool \<Rightarrow> deploy_key sql \<Rightarrow> (owned_error + int) \<times> deploy_key sql" where
  "key_new fp repo a s =
     (case key_Add fp repo (fst a) (fst (snd a)) (snd (snd a)) s of (r, s') \<Rightarrow> (map_sum id fst r, s'))"

definition hook_new ::
  "(string \<Rightarrow> bool \<Rightarrow> sec_error + unit) \<Rightarrow> int \<Rightarrow> string \<times> string \<times> string list \<Rightarrow> user_hook sql \<Rightarrow>
     (owned_error + int) \<times> user_hook sql" where
  "hook_new validate u a s =
     (case hook_Create validate u (fst a) (fst (snd a)) (snd (snd a)) s of (r, s') \<Rightarrow> (map_sum id hk_ID r, s'))"

lemma reply_new_eq:
  "tbl_wf (tab s) \<Longrightarrow> reply_new u (t, b) s =
     (if t = [] then (Err TitleRequired, s) else if down s then (Err OwnedDriver, s)
      else (Ok (seq (tab s) + 1), s\<lparr>tab := tbl_insert \<lparr>sr_UserID = u, sr_Title = t, sr_Body = b\<rparr> (tab s)\<rparr>))"
  using find_inserted [of "tab s" "\<lambda>j _. j = seq (tab s) + 1"]
  by (simp add: reply_new_def reply_Create_def reply_ByID_def Let_def)

lemma hook_new_eq:
  "tbl_wf (tab s) \<Longrightarrow> hook_new validate u (url, sec, evs) s =
     (case validate url True of Inl e \<Rightarrow> (Err (BadUrl e), s)
      | Inr _ \<Rightarrow> if down s then (Err OwnedDriver, s)
          else (Ok (seq (tab s) + 1), s\<lparr>tab := tbl_insert \<lparr>uh_UserID = u, uh_URL = url, uh_Secret = sec,
                  uh_events = join '','' evs, uh_Active = True\<rparr> (tab s)\<rparr>))"
  using find_inserted [of "tab s" "\<lambda>j h. j = seq (tab s) + 1 \<and> uh_UserID h = u"]
  by (simp add: hook_new_def hook_Create_def hook_ByID_def view_hook_def Let_def split: sum.split)

text \<open>What holds of a create operation that only inserts a row of its owner also when the table is not
  known to be well formed.\<close>

lemma reply_new_other: "v \<noteq> u \<Longrightarrow> replies_of v (snd (reply_new u a s)) = replies_of v s"
  by (simp add: reply_new_def reply_Create_def Let_def select_insert)

lemma hook_new_other: "v \<noteq> u \<Longrightarrow> hooks_of v (snd (hook_new validate u a s)) = hooks_of v s"
  by (simp add: hook_new_def hook_Create_def Let_def select_insert split: sum.split)

lemmas owned_ops = reply_new_eq reply_Delete_def key_new_def key_Add_def key_Delete_def hook_new_eq hook_Delete_def
  reply_new_other hook_new_other

interpretation reply_store: scoped_store replies_of reply_new reply_Delete "\<lambda>s. tbl_wf (tab s)"
  by unfold_locales
    (auto simp: owned_ops Let_def sql_simps tbl_wf_insert tbl_wf_delete dest: tbl_wf_bound split: if_splits)

interpretation key_store: scoped_store keys_of "key_new fp" key_Delete "\<lambda>s. tbl_wf (tab s)" for fp
  by unfold_locales
    (auto simp: owned_ops Let_def sql_simps tbl_wf_insert tbl_wf_delete dest: tbl_wf_bound split: if_splits option.splits)

interpretation hook_store: scoped_store hooks_of "hook_new validate" hook_Delete "\<lambda>s. tbl_wf (tab s)" for validate
  by unfold_locales
    (auto simp: owned_ops Let_def sql_simps tbl_wf_insert tbl_wf_delete tbl_delete_none dest: tbl_wf_bound
      split: if_splits sum.splits)

section \<open>What owners see\<close>

text \<open>Users and repositories are separated: whatever sequence of calls to create and delete is made
  for other owners, what is stored for an owner (saved replies, deploy keys, webhooks) does not
  change; and deleting a deploy key just added restores the list.\<close>

theorem owners_separated:
  "((\<forall>x \<in> set xs. op_owner x \<noteq> v) \<longrightarrow> replies_of v (fold reply_store.own_step xs s) = replies_of v s) \<and>
   ((\<forall>y \<in> set ys. op_owner y \<noteq> v) \<longrightarrow> keys_of v (fold (key_store.own_step fp) ys k) = keys_of v k) \<and>
   ((\<forall>z \<in> set zs. op_owner z \<noteq> v) \<longrightarrow> hooks_of v (fold (hook_store.own_step validate) zs h) = hooks_of v h) \<and>
   (tbl_wf (tab k) \<and> fst (key_new fp v a k) = Ok i \<and> fst (key_Delete v i (snd (key_new fp v a k))) = Ok () \<longrightarrow>
     keys_of v (snd (key_Delete v i (snd (key_new fp v a k)))) = keys_of v k)"
  using reply_store.run_other key_store.run_other hook_store.run_other key_store.create_delete by blast

theorem owners_separated_witness:
  "replies_of 1 (fold reply_store.own_step [Create 2 (''hi'', ''there''), Delete 2 7] sql_empty) = []"
proof -
  have "\<forall>x \<in> set [Create 2 (''hi'', ''there''), Delete 2 7]. op_owner x \<noteq> (1 :: int)" by simp
  then have "replies_of 1 (fold reply_store.own_step [Create 2 (''hi'', ''there''), Delete 2 7] sql_empty) = replies_of 1 sql_empty"
    using owners_separated by blast
  also have "\<dots> = []" by (simp add: sql_empty_def tbl_select_def)
  finally show ?thesis .
qed

lemma trim_left_id: "s = [] \<or> \<not> is_space (hd s) \<Longrightarrow> trim_left s = s"
  by (cases s) (auto simp: trim_left_def)

lemma trim_space_id: "\<forall>c \<in> set w. \<not> is_space c \<Longrightarrow> trim_space w = w"
proof -
  assume a: "\<forall>c \<in> set w. \<not> is_space c"
  then have "trim_left w = w" by (intro trim_left_id) (cases w; simp)
  moreover have "trim_left (rev w) = rev w"
    using a by (intro trim_left_id) (cases "rev w"; simp; metis list.set_intros(1) set_rev)
  ultimately show ?thesis by (simp add: trim_space_def)
qed

lemma trim_left_Nil: "trim_left s = [] \<longleftrightarrow> (\<forall>c \<in> set s. is_space c)"
  by (simp add: trim_left_def dropWhile_eq_Nil_conv)

lemma trim_space_Nil: "trim_space s = [] \<longleftrightarrow> (\<forall>c \<in> set s. is_space c)"
proof -
  have "trim_space s = [] \<longleftrightarrow> (\<forall>c \<in> set (trim_left s). is_space c)" by (simp add: trim_space_def trim_left_Nil)
  also have "\<dots> \<longleftrightarrow> trim_left s = []"
  proof (cases "trim_left s")
    case (Cons c cs)
    then have "\<not> is_space c" using hd_dropWhile [of is_space s] unfolding trim_left_def by fastforce
    with Cons show ?thesis by simp
  qed simp
  finally show ?thesis by (simp add: trim_left_Nil)
qed

definition event_name :: "string \<Rightarrow> bool" where
  "event_name e \<longleftrightarrow> e \<noteq> [] \<and> (\<forall>c \<in> set e. \<not> is_space c \<and> c \<noteq> CHR '','')"

lemma splitCSV_join: "\<forall>e \<in> set es. event_name e \<Longrightarrow> splitCSV (join '','' es) = es"
proof (cases "es = []")
  case False
  assume ev: "\<forall>e \<in> set es. event_name e"
  have "split_on (CHR '','') (join '','' es) = es" using False ev by (intro split_join) (auto simp: event_name_def)
  moreover have "map trim_space es = es" using ev by (intro map_idI trim_space_id) (auto simp: event_name_def)
  moreover have "filter (\<lambda>p. p \<noteq> []) es = es" using ev by (auto simp: filter_id_conv event_name_def)
  moreover have "trim_space (join '','' es) \<noteq> []"
  proof -
    obtain e es' where e: "es = e # es'" using False by (cases es) auto
    then have "event_name e" using ev by simp
    then have "hd e \<in> set (join '','' es)" "\<not> is_space (hd e)"
      unfolding e by (cases es'; auto simp: event_name_def)+
    then show ?thesis by (auto simp: trim_space_Nil)
  qed
  ultimately show ?thesis by (simp add: splitCSV_def)
qed (simp add: splitCSV_def trim_space_def trim_left_def)

text \<open>A webhook is stored only with a URL the validator accepts, and reading it back, right after it
  was created or later from the list, gives the event names it was created with.\<close>

theorem hook_roundtrip:
  assumes "tbl_wf (tab s)" and "\<not> down s" and "\<forall>e \<in> set events. event_name e"
  shows "(case hook_Create validate u url secret events s of
      (Inl e, s') \<Rightarrow> s' = s \<and> (\<exists>x. validate url True = Err x)
    | (Inr h, s') \<Rightarrow> validate url True = Ok () \<and> hk_Events h = events \<and> hk_UserID h = u \<and> hk_URL h = url \<and> hk_Active h \<and>
        hook_ByID s' u (hk_ID h) = Ok h \<and> (\<exists>hs. hook_List s' u = Ok (hs @ [h])))"
proof (cases "validate url True")
  case (Inl e)
  then show ?thesis by (simp add: hook_Create_def)
next
  case (Inr x)
  let ?r = "\<lparr>uh_UserID = u, uh_URL = url, uh_Secret = secret, uh_events = join '','' events, uh_Active = True\<rparr>"
  have f: "tbl_find (\<lambda>j h. j = seq (tab s) + 1 \<and> uh_UserID h = u) (tbl_insert ?r (tab s)) = Some (seq (tab s) + 1, ?r)"
    by (rule find_inserted [OF assms(1)]) auto
  have "hook_Create validate u url secret events s = (Ok (view_hook (seq (tab s) + 1, ?r)), s\<lparr>tab := tbl_insert ?r (tab s)\<rparr>)"
    using Inr f assms(2) by (simp add: hook_Create_def hook_ByID_def Let_def)
  then show ?thesis
    using Inr f assms(2) splitCSV_join [OF assms(3)] by (simp add: hook_ByID_def hook_List_def view_hook_def select_insert)
qed

theorem hook_roundtrip_witness:
  "(case hook_Create (\<lambda>_ _. Ok ()) 3 ''http://x'' [] [''push'', ''issue''] sql_empty of
      (Inl e, s') \<Rightarrow> False | (Inr h, s') \<Rightarrow> hk_Events h = [''push'', ''issue''] \<and> hook_ByID s' 3 (hk_ID h) = Ok h)"
proof -
  have a: "tbl_wf (tab (sql_empty :: user_hook sql))" "\<not> down (sql_empty :: user_hook sql)" by (simp_all add: sql_empty_def)
  have b: "\<forall>e \<in> set [''push'', ''issue'']. event_name e" by (simp add: event_name_def is_space_def)
  show ?thesis
    using hook_roundtrip [OF a b, where validate = "\<lambda>_ _. Ok ()" and u = 3 and url = "''http://x''" and secret = "[]"] by (auto split: prod.splits sum.splits)
qed

section \<open>Deploy keys\<close>

lemma key_table_unique:
  "unique_on dk_Fingerprint (tab s) \<Longrightarrow> unique_on dk_Fingerprint (tab (key_store.own_step fp x s))"
  by (cases x) (auto simp: key_store.own_step_def key_new_def key_Add_def key_Delete_def Let_def unique_on_delete
      intro!: unique_on_insert split: option.split)

text \<open>A deploy key grants one repository: fingerprints stay unique along every sequence of calls, a
  key that was added resolves to the repository it was added to with the access it was given, and no
  other repository can change that access.\<close>

theorem deploy_key_resolution:
  assumes "unique_on dk_Fingerprint (tab s)" and "key_Add fp repo title pub ro s = (Ok (i, k), s')" and "other \<noteq> repo"
  shows "unique_on dk_Fingerprint (tab (fold (key_store.own_step fp) xs s')) \<and>
    fp pub = Some (dk_Fingerprint k) \<and> Resolve s' (dk_Fingerprint k) = Ok (repo, ro) \<and>
    Resolve (snd (SetReadOnly other j b s')) (dk_Fingerprint k) = Ok (repo, ro) \<and>
    Resolve (snd (key_Delete other j s')) (dk_Fingerprint k) = Ok (repo, ro)"
proof -
  from assms(2) obtain f where f: "fp pub = Some f" "\<not> down s" "\<not> tbl_exists (\<lambda>_ k. dk_Fingerprint k = f) (tab s)"
    and k: "k = \<lparr>dk_RepoID = repo, dk_Title = title, dk_Fingerprint = f, dk_PublicKey = pub, dk_ReadOnly = ro, dk_LastUsed = None\<rparr>"
    and s': "s' = s\<lparr>tab := tbl_insert k (tab s)\<rparr>"
    by (auto simp: key_Add_def Let_def split: option.splits if_splits)
  let ?P = "\<lambda>k. dk_Fingerprint k = f"
  have fnd: "tbl_find (\<lambda>_. ?P) (tbl_insert k (tab s)) = Some (seq (tab s) + 1, k)"
    using find_first_new [of ?P "tab s" k] f(3) by (simp add: k)
  have u: "unique_on dk_Fingerprint (tab s')" using assms(1) f(3) by (auto simp: s' k intro!: unique_on_insert)
  have "unique_on dk_Fingerprint (tab (fold (key_store.own_step fp) xs t))" if "unique_on dk_Fingerprint (tab t)" for t
    using that
  proof (induction xs arbitrary: t)
    case (Cons x xs)
    from Cons.IH [OF key_table_unique [OF Cons.prems]] show ?case by simp
  qed simp
  moreover have "Resolve s' f = Ok (repo, ro)" using fnd f(2) by (simp add: Resolve_def s') (simp add: k)
  moreover have "Resolve (snd (SetReadOnly other j b s')) f = Ok (repo, ro)"
    using find_update [where P = ?P and f = "\<lambda>k. k\<lparr>dk_ReadOnly := b\<rparr>" and Q = "\<lambda>i k. i = j \<and> dk_RepoID k = other", OF fnd]
      f(2) assms(3) by (simp add: Resolve_def SetReadOnly_def s' Let_def k)
  moreover have "Resolve (snd (key_Delete other j s')) f = Ok (repo, ro)"
    using find_delete [where P = ?P and Q = "\<lambda>i k. i = j \<and> dk_RepoID k = other", OF fnd] f(2) assms(3)
    by (simp add: Resolve_def key_Delete_def s' k)
  ultimately show ?thesis using u f(1) by (simp add: k)
qed

theorem deploy_key_resolution_witness:
  "fst (key_Add (\<lambda>p. Some p) 1 [] ''K'' True sql_empty) \<noteq> Err OwnedConstraint \<and>
   Resolve (snd (key_Add (\<lambda>p. Some p) 1 [] ''K'' True sql_empty)) ''K'' = Ok (1, True)"
proof -
  let ?k = "\<lparr>dk_RepoID = 1, dk_Title = [], dk_Fingerprint = ''K'', dk_PublicKey = ''K'', dk_ReadOnly = True, dk_LastUsed = None\<rparr>"
  have u: "unique_on dk_Fingerprint (tab (sql_empty :: deploy_key sql))" by (simp add: sql_empty_def)
  have a: "key_Add (\<lambda>p. Some p) 1 [] ''K'' True sql_empty = (Ok (1, ?k), snd (key_Add (\<lambda>p. Some p) 1 [] ''K'' True sql_empty))"
    by (simp add: key_Add_def sql_empty_def tbl_exists_def Let_def)
  from deploy_key_resolution [OF u a, of 2] a show ?thesis by (metis deploy_key.select_convs(3) fst_conv sum.distinct(1) numeral_eq_one_iff semiring_norm(85))
qed

end
