(* ===== verification/Limiter.thy ===== *)
theory Limiter
  imports Prelude
begin

text \<open>
  \<open>internal/service/auth/limiter.go\<close>, the limiter of login attempts. Its map of attempts is a HOL
  map from keys to records. \<open>time.Now()\<close> is the argument \<open>now\<close> in nanoseconds, read once for an
  operation; the zero \<open>time.Time\<close> of \<open>lastSweep\<close> is \<^const>\<open>None\<close>. The mutex makes each operation
  one step.

  The reference definition is \<open>streak\<close>: the failures of one key, counted from its history alone.
  The limiter is proved to decide by it whatever else happens in between.
\<close>

section \<open>The limiter\<close>

record attemptRecord =
  at_count :: int
  at_lastAt :: int

record loginLimiter =
  li_attempts :: "string \<rightharpoonup> attemptRecord"
  li_max :: int
  li_lockout :: int
  li_lastSweep :: "int option"

definition sweepInterval :: int where
  "sweepInterval = 5 * 60 * 1000000000"

definition newLoginLimiter :: "int \<Rightarrow> int \<Rightarrow> loginLimiter" where
  "newLoginLimiter mx lockout = \<lparr>li_attempts = Map.empty, li_max = mx, li_lockout = lockout, li_lastSweep = None\<rparr>"

definition expired :: "int \<Rightarrow> loginLimiter \<Rightarrow> attemptRecord \<Rightarrow> bool" where
  "expired now l rec \<longleftrightarrow> now - at_lastAt rec \<ge> li_lockout l"

definition sweep_due :: "int \<Rightarrow> loginLimiter \<Rightarrow> bool" where
  "sweep_due now l = (case li_lastSweep l of None \<Rightarrow> True | Some t \<Rightarrow> \<not> now - t < sweepInterval)"

definition sweepLocked :: "int \<Rightarrow> loginLimiter \<Rightarrow> loginLimiter" where
  "sweepLocked now l =
     (if \<not> sweep_due now l then l
      else l\<lparr>li_lastSweep := Some now,
             li_attempts := (\<lambda>k. case li_attempts l k of
                None \<Rightarrow> None
              | Some rec \<Rightarrow> if expired now l rec then None else Some rec)\<rparr>)"

definition lim_delete :: "string \<Rightarrow> loginLimiter \<Rightarrow> loginLimiter" where
  "lim_delete key l = l\<lparr>li_attempts := (li_attempts l)(key := None)\<rparr>"

definition allow :: "int \<Rightarrow> string \<Rightarrow> loginLimiter \<Rightarrow> bool \<times> loginLimiter" where
  "allow now key l0 =
     (let l = sweepLocked now l0 in
      case li_attempts l key of
        None \<Rightarrow> (True, l)
      | Some rec \<Rightarrow>
          if expired now l rec then (True, lim_delete key l)
          else (at_count rec < li_max l, l))"

definition lim_fail :: "int \<Rightarrow> string \<Rightarrow> loginLimiter \<Rightarrow> loginLimiter" where
  "lim_fail now key l0 =
     (let l = sweepLocked now l0;
          fresh = l\<lparr>li_attempts := (li_attempts l)(key \<mapsto> \<lparr>at_count = 1, at_lastAt = now\<rparr>)\<rparr>
      in case li_attempts l key of
           None \<Rightarrow> fresh
         | Some rec \<Rightarrow>
             if expired now l rec then fresh
             else l\<lparr>li_attempts := (li_attempts l)(key \<mapsto> rec\<lparr>at_count := at_count rec + 1, at_lastAt := now\<rparr>)\<rparr>)"

definition lim_success :: "string \<Rightarrow> loginLimiter \<Rightarrow> loginLimiter" where
  "lim_success key l = lim_delete key l"

definition lim_reset :: "string \<Rightarrow> loginLimiter \<Rightarrow> loginLimiter" where
  "lim_reset key l = lim_delete key l"

section \<open>Failures counted from the history\<close>

datatype lim_call = CallAllow string | CallFail string | CallSuccess string | CallReset string

definition lim_step :: "int \<times> lim_call \<Rightarrow> loginLimiter \<Rightarrow> loginLimiter" where
  "lim_step e l =
     (case e of (now, c) \<Rightarrow>
        (case c of
           CallAllow k \<Rightarrow> snd (allow now k l)
         | CallFail k \<Rightarrow> lim_fail now k l
         | CallSuccess k \<Rightarrow> lim_success k l
         | CallReset k \<Rightarrow> lim_reset k l))"

text \<open>The history of a key, latest first: \<^term>\<open>Some t\<close> for a failure at \<open>t\<close>, \<^const>\<open>None\<close> where its
  counter was cleared.\<close>

definition own_event :: "string \<Rightarrow> int \<times> lim_call \<Rightarrow> int option list" where
  "own_event key e =
     (case snd e of
        CallAllow k \<Rightarrow> []
      | CallFail k \<Rightarrow> if k = key then [Some (fst e)] else []
      | CallSuccess k \<Rightarrow> if k = key then [None] else []
      | CallReset k \<Rightarrow> if k = key then [None] else [])"

definition history :: "string \<Rightarrow> (int \<times> lim_call) list \<Rightarrow> int option list" where
  "history key es = concat (map (own_event key) (rev es))"

text \<open>The failures in a row before \<open>now\<close>: none is followed by a pause of \<open>lockout\<close> or by a reset.\<close>

fun streak :: "int \<Rightarrow> int \<Rightarrow> int option list \<Rightarrow> int" where
  "streak lockout now (Some t # h) = (if now - t < lockout then 1 + streak lockout t h else 0)"
| "streak lockout now _ = 0"

text \<open>The clock does not run backwards.\<close>

definition in_order :: "(int \<times> lim_call) list \<Rightarrow> int \<Rightarrow> bool" where
  "in_order es now \<longleftrightarrow> sorted (map fst es @ [now])"

definition live :: "int \<Rightarrow> string \<Rightarrow> loginLimiter \<Rightarrow> int" where
  "live now key l =
     (case li_attempts l key of
        None \<Rightarrow> 0 | Some rec \<Rightarrow> if expired now l rec then 0 else at_count rec)"

lemma lim_const [simp]:
  "li_max (sweepLocked now l) = li_max l" "li_lockout (sweepLocked now l) = li_lockout l"
  "li_max (lim_delete key l) = li_max l" "li_lockout (lim_delete key l) = li_lockout l"
  by (simp_all add: sweepLocked_def lim_delete_def)

lemma lim_step_simps [simp]:
  "lim_step (now, CallAllow k) l = snd (allow now k l)" "lim_step (now, CallFail k) l = lim_fail now k l"
  "lim_step (now, CallSuccess k) l = lim_delete k l" "lim_step (now, CallReset k) l = lim_delete k l"
  by (simp_all add: lim_step_def lim_success_def lim_reset_def)

lemma lim_step_const [simp]: "li_max (lim_step e l) = li_max l" "li_lockout (lim_step e l) = li_lockout l"
  by (simp_all add: lim_step_def allow_def lim_fail_def lim_success_def lim_reset_def Let_def
      split: prod.splits lim_call.splits option.splits)

lemma expired_mono: "expired now l rec \<Longrightarrow> now \<le> now' \<Longrightarrow> expired now' l rec"
  by (simp add: expired_def)

lemma expired_sweep [simp]: "expired now' (sweepLocked now l) rec = expired now' l rec"
  by (simp add: expired_def)

lemma live_sweep: "now \<le> now' \<Longrightarrow> live now' key (sweepLocked now l) = live now' key l"
  using expired_mono [of now l _ now']
  by (auto simp: live_def sweepLocked_def expired_def split: option.splits)

lemma live_delete: "live now key (lim_delete k l) = (if key = k then 0 else live now key l)"
  by (simp add: live_def lim_delete_def expired_def split: option.splits)

lemma allow_live: "0 < li_max l \<Longrightarrow> fst (allow now key l) \<longleftrightarrow> live now key l < li_max l"
  using live_sweep [of now now key l]
  by (auto simp: allow_def live_def Let_def split: option.splits if_splits)

lemma live_allow: "now \<le> now' \<Longrightarrow> live now' key (snd (allow now k l)) = live now' key l"
  using live_sweep [of now now' key l] expired_mono [of now l _ now']
  by (auto simp: allow_def Let_def live_delete split: option.splits)
    (auto simp: live_def split: option.splits)

lemma live_fail:
  assumes "now \<le> now'"
  shows "live now' key (lim_fail now k l) =
    (if key = k then (if now' - now < li_lockout l then 1 + live now key l else 0) else live now' key l)"
  using live_sweep [OF assms, of key l] live_sweep [of now now k l]
  by (auto simp: lim_fail_def Let_def live_def expired_def split: option.splits if_splits)

text \<open>One step of the limiter is one entry of the history, for every later point in time.\<close>

lemma live_step:
  assumes "now \<le> now'" and "\<And>t. now \<le> t \<Longrightarrow> live t key l = streak (li_lockout l) t h"
  shows "live now' key (lim_step (now, c) l) = streak (li_lockout l) now' (own_event key (now, c) @ h)"
proof (cases c)
  case (CallFail k)
  then show ?thesis using assms by (auto simp: own_event_def live_fail)
qed (use assms in \<open>auto simp: own_event_def live_allow live_delete\<close>)

lemma live_run:
  assumes "sorted (map fst es)" and "\<And>t. t \<in> fst ` set es \<Longrightarrow> t \<le> now"
  shows "live now key (fold lim_step es (newLoginLimiter mx lockout)) = streak lockout now (history key es)
     \<and> li_max (fold lim_step es (newLoginLimiter mx lockout)) = mx
     \<and> li_lockout (fold lim_step es (newLoginLimiter mx lockout)) = lockout"
  using assms
proof (induction es arbitrary: now rule: rev_induct)
  case Nil
  then show ?case by (simp add: live_def newLoginLimiter_def history_def)
next
  case (snoc e es)
  let ?l = "fold lim_step es (newLoginLimiter mx lockout)"
  obtain t c where e: "e = (t, c)" by force
  have bnd: "u \<le> t" if "u \<in> fst ` set es" for u
    using snoc.prems(1) that e by (auto simp: sorted_append)
  have srt: "sorted (map fst es)" using snoc.prems(1) by (simp add: sorted_append)
  have IH: "live t' key ?l = streak lockout t' (history key es) \<and> li_max ?l = mx \<and> li_lockout ?l = lockout"
    if "t \<le> t'" for t'
    by (rule snoc.IH [OF srt]) (use bnd that in force)
  have "t \<le> now" using snoc.prems(2) e by force
  then have "live now key (lim_step (t, c) ?l) = streak (li_lockout ?l) now (own_event key (t, c) @ history key es)"
    by (rule live_step) (use IH in force)
  then show ?case using IH [of t] e by (simp add: history_def)
qed

section \<open>Records are dropped\<close>

text \<open>Every record belongs to a failure that is recent at the last sweep or later than it.\<close>

definition swept :: "(int \<times> lim_call) list \<Rightarrow> loginLimiter \<Rightarrow> bool" where
  "swept es l \<longleftrightarrow>
     (\<forall>k rec. li_attempts l k = Some rec \<longrightarrow>
        (at_lastAt rec, CallFail k) \<in> set es
        \<and> (case li_lastSweep l of None \<Rightarrow> False | Some s \<Rightarrow> s - at_lastAt rec < li_lockout l))
     \<and> (case li_lastSweep l of None \<Rightarrow> True | Some s \<Rightarrow> s \<in> fst ` set es)"

lemma sweptD:
  assumes "swept es l" and "li_attempts l k = Some rec"
  shows "(at_lastAt rec, CallFail k) \<in> set es" and "\<exists>s. li_lastSweep l = Some s \<and> s - at_lastAt rec < li_lockout l"
  using assms unfolding swept_def by (force split: option.splits)+

lemma swept_sweep: "swept es l \<Longrightarrow> swept (es @ [(now, c)]) (sweepLocked now l)"
  by (auto simp: swept_def sweepLocked_def sweep_due_def expired_def split: option.splits if_splits)

lemma sweep_recent: "\<exists>s. li_lastSweep (sweepLocked now l) = Some s \<and> now - s < sweepInterval"
  by (auto simp: sweepLocked_def sweep_due_def sweepInterval_def split: option.splits)

lemma swept_delete: "swept es l \<Longrightarrow> swept es (lim_delete k l)"
  by (auto simp: swept_def lim_delete_def split: option.splits)

lemma swept_snoc: "swept es l \<Longrightarrow> swept (es @ [e]) l"
  unfolding swept_def by (auto split: option.splits)

lemma swept_allow: "swept es l \<Longrightarrow> swept (es @ [(now, CallAllow k)]) (snd (allow now k l))"
  using swept_sweep [of es l now "CallAllow k"]
  by (auto simp: allow_def Let_def swept_delete split: option.splits)

lemma swept_put:
  assumes "swept es l" and "(now, CallFail k) \<in> set es" and "li_lastSweep l = Some s" and "s - now < li_lockout l"
    and "at_lastAt rec = now"
  shows "swept es (l\<lparr>li_attempts := (li_attempts l)(k \<mapsto> rec)\<rparr>)"
  using assms unfolding swept_def by auto

lemma swept_fail:
  assumes "swept es l" and lo: "0 < li_lockout l" and now: "\<And>t. t \<in> fst ` set es \<Longrightarrow> t \<le> now"
  shows "swept (es @ [(now, CallFail k)]) (lim_fail now k l)"
proof -
  let ?l = "sweepLocked now l" and ?es = "es @ [(now, CallFail k)]"
  have sw: "swept ?es ?l" by (rule swept_sweep [OF assms(1)])
  obtain s where s: "li_lastSweep ?l = Some s" using sweep_recent by blast
  have "s \<in> fst ` set ?es" using sw s unfolding swept_def by simp
  then have "s - now < li_lockout ?l" using now lo by fastforce
  then have put: "swept ?es (?l\<lparr>li_attempts := (li_attempts ?l)(k \<mapsto> rec)\<rparr>)" if "at_lastAt rec = now" for rec
    using swept_put [OF sw _ s _ that] by simp
  show ?thesis by (auto simp: lim_fail_def Let_def split: option.splits intro!: put)
qed

lemma swept_run:
  assumes "sorted (map fst es)" and "0 < lockout"
  shows "swept es (fold lim_step es (newLoginLimiter mx lockout))"
  using assms(1)
proof (induction es rule: rev_induct)
  case Nil
  then show ?case by (simp add: swept_def newLoginLimiter_def)
next
  case (snoc e es)
  let ?l = "fold lim_step es (newLoginLimiter mx lockout)"
  obtain t c where e: "e = (t, c)" by force
  have srt: "sorted (map fst es)" using snoc.prems by (simp add: sorted_append)
  have IH: "swept es ?l" by (rule snoc.IH [OF srt])
  have lo: "li_lockout ?l = lockout" using live_run [OF srt, of "Max (fst ` set es)"] by simp
  have bnd: "u \<le> t" if "u \<in> fst ` set es" for u
    using snoc.prems that e by (auto simp: sorted_append)
  show ?case
  proof (cases c)
    case (CallFail k)
    then show ?thesis using swept_fail [OF IH _ bnd] lo assms(2) e by simp
  qed (use IH e in \<open>auto simp: swept_allow intro!: swept_delete swept_snoc\<close>)
qed

section \<open>Claims\<close>

text \<open>C9: The login limiter locks a key out exactly when the number of its failures in a row, none followed
  by a success, a reset or a pause of the lockout time, has reached the maximum. The answer depends
  on the history of that key alone: attempts for other keys, calls that only ask, and the sweeps that
  drop old records in between never change it, for every sequence of calls at increasing times.\<close>

theorem lockout_exact:
  assumes "0 < mx" and "in_order es now"
  shows "fst (allow now key (fold lim_step es (newLoginLimiter mx lockout)))
    \<longleftrightarrow> streak lockout now (history key es) < mx"
proof -
  have "sorted (map fst es)" and "\<And>t. t \<in> fst ` set es \<Longrightarrow> t \<le> now"
    using assms(2) by (auto simp: in_order_def sorted_append)
  then have "live now key (fold lim_step es (newLoginLimiter mx lockout)) = streak lockout now (history key es)"
    and "li_max (fold lim_step es (newLoginLimiter mx lockout)) = mx"
    using live_run by blast+
  then show ?thesis using assms(1) by (simp add: allow_live)
qed

theorem lockout_exact_witness:
  "\<not> fst (allow 109 ''bob'' (fold lim_step
      [(0, CallFail ''bob''), (60, CallFail ''eve''), (90, CallFail ''bob'')] (newLoginLimiter 2 100)))
   \<and> fst (allow 190 ''bob'' (fold lim_step
      [(0, CallFail ''bob''), (60, CallFail ''eve''), (90, CallFail ''bob'')] (newLoginLimiter 2 100)))"
  using lockout_exact [of 2 "[(0, CallFail ''bob''), (60, CallFail ''eve''), (90, CallFail ''bob'')]" 109 "''bob''" 100]
    lockout_exact [of 2 "[(0, CallFail ''bob''), (60, CallFail ''eve''), (90, CallFail ''bob'')]" 190 "''bob''" 100]
  by (simp add: in_order_def history_def own_event_def)

text \<open>The limiter forgets. After any call that consults it, at whatever point of whatever sequence of
  calls, it holds records only for keys that failed less than the lockout time plus the sweep interval
  of five minutes ago, so names chosen by an attacker do not pile up.\<close>

theorem limiter_memory_bounded:
  assumes "0 < lockout" and "in_order es now"
  shows "dom (li_attempts (snd (allow now key (fold lim_step es (newLoginLimiter mx lockout)))))
    \<subseteq> {k. \<exists>t. (t, CallFail k) \<in> set es \<and> now - t < lockout + sweepInterval}"
proof -
  let ?l = "fold lim_step es (newLoginLimiter mx lockout)"
  have srt: "sorted (map fst es)" using assms(2) by (auto simp: in_order_def sorted_append)
  have lo: "li_lockout ?l = lockout" using live_run [OF srt, of "Max (fst ` set es)"] by simp
  have sw: "swept (es @ [(now, CallAllow key)]) (sweepLocked now ?l)"
    by (rule swept_sweep [OF swept_run [OF srt assms(1)]])
  have "(at_lastAt rec, CallFail k) \<in> set es \<and> now - at_lastAt rec < lockout + sweepInterval"
    if "li_attempts (sweepLocked now ?l) k = Some rec" for k rec
    using sweptD [OF sw that] sweep_recent [of now ?l] lo by auto
  moreover have "dom (li_attempts (snd (allow now key ?l))) \<subseteq> dom (li_attempts (sweepLocked now ?l))"
    by (auto simp: allow_def Let_def lim_delete_def split: option.splits if_splits)
  ultimately show ?thesis by fast
qed

theorem limiter_memory_bounded_witness:
  "dom (li_attempts (snd (allow 400000000000 ''x'' (fold lim_step [(0, CallFail ''a''), (350000000000, CallFail ''b'')]
       (newLoginLimiter 5 60000000000)))))
    \<subseteq> {k. \<exists>t. (t, CallFail k) \<in> set [(0, CallFail ''a''), (350000000000, CallFail ''b'')]
            \<and> 400000000000 - t < 60000000000 + sweepInterval}"
  using limiter_memory_bounded [of 60000000000 "[(0, CallFail ''a''), (350000000000, CallFail ''b'')]" 400000000000 "''x''" 5]
  by (simp add: in_order_def)

end
