(* ===== verification/Secrets.thy ===== *)
theory Secrets
  imports Codec "HOL-Library.Monad_Syntax"
begin

text \<open>
  The packages that hold secrets: \<open>internal/infra/token\<close> (opaque tokens and their hashes),
  \<open>internal/infra/crypto\<close> (sealed secrets), \<open>internal/infra/password\<close> (password hashes in PHC
  format) and \<open>internal/infra/weakpass\<close> (the password policy).

  Cryptographic primitives are parameters: \<open>sha\<close> and \<open>sha1\<close> are the digests, \<open>kdf\<close> is
  \<open>argon2.IDKey\<close>, \<open>gcm\<close> makes the AEAD of a key. What the random source returns is an argument
  (\<^const>\<open>None\<close> when it fails). The semaphore around the key derivation only orders the calls.
\<close>

section \<open>Tokens\<close>

record Token =
  tk_Plain :: string
  tk_Hash :: string
  tk_Prefix :: string

definition token_Hash :: "(string \<Rightarrow> string) \<Rightarrow> string \<Rightarrow> string" where
  "token_Hash sha plain = hex_encode (sha plain)"

definition token_New :: "(string \<Rightarrow> string) \<Rightarrow> string option \<Rightarrow> string \<Rightarrow> unit + Token" where
  "token_New sha rnd pfx =
     (case rnd of
        None \<Rightarrow> Err ()
      | Some raw \<Rightarrow>
          let body = b64_encode url_alphabet raw;
              plain = (if pfx \<noteq> [] then pfx @ ''_'' @ body else body)
          in Ok \<lparr>tk_Plain = plain, tk_Hash = token_Hash sha plain, tk_Prefix = take 8 body\<rparr>)"

definition token_subtleEqual :: "string \<Rightarrow> string \<Rightarrow> bool" where
  "token_subtleEqual a b \<longleftrightarrow> (if length a \<noteq> length b then False else diff_loop a b 0 = 0)"

definition token_Verify :: "(string \<Rightarrow> string) \<Rightarrow> string \<Rightarrow> string \<Rightarrow> bool" where
  "token_Verify sha plain storedHash = token_subtleEqual (token_Hash sha plain) storedHash"

lemma token_subtleEqual_eq: "token_subtleEqual a b \<longleftrightarrow> a = b"
  by (auto simp: token_subtleEqual_def diff_loop_zero)

lemma token_Hash_inject [simp]: "token_Hash sha a = token_Hash sha b \<longleftrightarrow> sha a = sha b"
  unfolding token_Hash_def by (metis hex_roundtrip option.inject)

lemma url_alphabet_ok:
  "distinct url_alphabet" "length url_alphabet = 64" "CHR 0x0A \<notin> set url_alphabet" "CHR 0x0D \<notin> set url_alphabet"
  by code_simp+

lemma token_body_inject:
  "b64_encode url_alphabet a = b64_encode url_alphabet b \<longleftrightarrow> a = b"
  by (metis b64_roundtrip [OF url_alphabet_ok] option.inject)

section \<open>Sealed secrets\<close>

record aead =
  ad_nonceSize :: nat
  ad_seal :: "string \<Rightarrow> string \<Rightarrow> string"
  ad_open :: "string \<Rightarrow> string \<Rightarrow> string option"

datatype crypto_error = InvalidKey | CiphertextTooShort | KeyEncoding | ReadRandom | OpenFailed

definition KeySize :: nat where "KeySize = 32"

definition cipher_New :: "(string \<Rightarrow> aead) \<Rightarrow> string \<Rightarrow> crypto_error + aead" where
  "cipher_New gcm key = (if length key \<noteq> KeySize then Err InvalidKey else Ok (gcm key))"

definition NewFromHex :: "(string \<Rightarrow> aead) \<Rightarrow> string \<Rightarrow> crypto_error + aead" where
  "NewFromHex gcm keyHex = (case hex_decode keyHex of None \<Rightarrow> Err KeyEncoding | Some key \<Rightarrow> cipher_New gcm key)"

definition Encrypt :: "string option \<Rightarrow> aead \<Rightarrow> string \<Rightarrow> crypto_error + string" where
  "Encrypt rnd c plaintext =
     (case rnd of None \<Rightarrow> Err ReadRandom | Some nonce \<Rightarrow> Ok (nonce @ ad_seal c nonce plaintext))"

definition Decrypt :: "aead \<Rightarrow> string \<Rightarrow> crypto_error + string" where
  "Decrypt c sealed =
     (let ns = ad_nonceSize c in
      if length sealed < ns then Err CiphertextTooShort
      else case ad_open c (take ns sealed) (drop ns sealed) of None \<Rightarrow> Err OpenFailed | Some out \<Rightarrow> Ok out)"

definition GenerateKey :: "string option \<Rightarrow> crypto_error + string" where
  "GenerateKey rnd = (case rnd of None \<Rightarrow> Err ReadRandom | Some key \<Rightarrow> Ok key)"

text \<open>What an AEAD promises: it opens what it sealed under the same nonce.\<close>

definition aead_ok :: "aead \<Rightarrow> bool" where
  "aead_ok c \<longleftrightarrow> (\<forall>nonce p. length nonce = ad_nonceSize c \<longrightarrow> ad_open c nonce (ad_seal c nonce p) = Some p)"

lemma decrypt_encrypt:
  "aead_ok c \<Longrightarrow> length nonce = ad_nonceSize c \<Longrightarrow> Encrypt (Some nonce) c p = Ok sealed \<Longrightarrow> Decrypt c sealed = Ok p"
  by (auto simp: aead_ok_def Encrypt_def Decrypt_def)

lemma key_from_hex: "GenerateKey (Some key) = Ok k \<Longrightarrow> length k = KeySize \<Longrightarrow> NewFromHex gcm (hex_encode k) = Ok (gcm k)"
  by (simp add: NewFromHex_def cipher_New_def)

section \<open>Password hashes\<close>

record pw_params =
  pp_Memory :: "32 word"
  pp_Iterations :: "32 word"
  pp_Parallelism :: "8 word"
  pp_SaltLength :: "32 word"
  pp_KeyLength :: "32 word"

definition DefaultParams :: pw_params where
  "DefaultParams = \<lparr>pp_Memory = 64 * 1024, pp_Iterations = 3, pp_Parallelism = 2, pp_SaltLength = 16, pp_KeyLength = 32\<rparr>"

record Hasher =
  ha_params :: pw_params
  ha_pepper :: string

definition NewHasher :: "pw_params \<Rightarrow> string \<Rightarrow> Hasher" where
  "NewHasher p pepper = \<lparr>ha_params = (if pp_Memory p = 0 then DefaultParams else p), ha_pepper = pepper\<rparr>"

datatype pw_error = InvalidHash | IncompatibleVersion | PwMismatch | ReadSalt

type_synonym kdf = "string \<Rightarrow> string \<Rightarrow> 32 word \<Rightarrow> 32 word \<Rightarrow> 8 word \<Rightarrow> 32 word \<Rightarrow> string"

definition argon2_Version :: int where "argon2_Version = 19"

definition peppered :: "Hasher \<Rightarrow> string \<Rightarrow> string" where
  "peppered h plaintext = (if length (ha_pepper h) = 0 then plaintext else plaintext @ ha_pepper h)"

definition pw_Hash :: "kdf \<Rightarrow> string option \<Rightarrow> Hasher \<Rightarrow> string \<Rightarrow> pw_error + string" where
  "pw_Hash kdf rnd h plaintext =
     (case rnd of
        None \<Rightarrow> Err ReadSalt
      | Some salt \<Rightarrow>
          let p = ha_params h;
              key = kdf (peppered h plaintext) salt (pp_Iterations p) (pp_Memory p) (pp_Parallelism p) (pp_KeyLength p)
          in Ok (''$argon2id$v='' @ FormatInt argon2_Version @ ''$m='' @ nat_str (unat (pp_Memory p)) @
                 '',t='' @ nat_str (unat (pp_Iterations p)) @ '',p='' @ nat_str (unat (pp_Parallelism p)) @
                 ''$'' @ b64_encode std_alphabet salt @ ''$'' @ b64_encode std_alphabet key))"

definition scan_version :: "string \<Rightarrow> int option" where
  "scan_version s = do { s1 \<leftarrow> scan_lit ''v='' s; (v, _) \<leftarrow> scan_int s1; Some v }"

definition scan_params :: "string \<Rightarrow> (nat \<times> nat \<times> nat) option" where
  "scan_params s =
     do { s1 \<leftarrow> scan_lit ''m='' s; (m, s2) \<leftarrow> scan_uint (2 ^ 32) s1;
          s3 \<leftarrow> scan_lit '',t='' s2; (t, s4) \<leftarrow> scan_uint (2 ^ 32) s3;
          s5 \<leftarrow> scan_lit '',p='' s4; (p, _) \<leftarrow> scan_uint (2 ^ 8) s5;
          Some (m, t, p) }"

definition decodeHash :: "string \<Rightarrow> pw_error + pw_params \<times> string \<times> string" where
  "decodeHash encoded =
     (let parts = split_on (CHR ''$'') encoded in
      if length parts \<noteq> 6 \<or> parts ! 1 \<noteq> ''argon2id'' then Err InvalidHash
      else case scan_version (parts ! 2) of
        None \<Rightarrow> Err InvalidHash
      | Some version \<Rightarrow>
          if version \<noteq> argon2_Version then Err IncompatibleVersion
          else case scan_params (parts ! 3) of
            None \<Rightarrow> Err InvalidHash
          | Some (m, t, p) \<Rightarrow>
              (case b64_decode std_alphabet (parts ! 4) of
                 None \<Rightarrow> Err InvalidHash
               | Some salt \<Rightarrow>
                   (case b64_decode std_alphabet (parts ! 5) of
                      None \<Rightarrow> Err InvalidHash
                    | Some key \<Rightarrow>
                        Ok (\<lparr>pp_Memory = of_nat m, pp_Iterations = of_nat t, pp_Parallelism = of_nat p,
                             pp_SaltLength = of_nat (length salt), pp_KeyLength = of_nat (length key)\<rparr>, salt, key))))"

definition pw_Verify :: "kdf \<Rightarrow> Hasher \<Rightarrow> string \<Rightarrow> string \<Rightarrow> pw_error + unit" where
  "pw_Verify kdf h plaintext encoded =
     (case decodeHash encoded of
        Inl e \<Rightarrow> Err e
      | Inr (p, salt, key) \<Rightarrow>
          let computed = kdf (peppered h plaintext) salt (pp_Iterations p) (pp_Memory p) (pp_Parallelism p)
                (of_nat (length key))
          in if key \<noteq> computed then Err PwMismatch else Ok ())"

section \<open>The password policy\<close>

record HIBP_reply =
  hr_status :: int
  hr_body :: string

record Checker =
  ck_weak :: "string list"
  ck_hibp :: "(string \<Rightarrow> bool option) option"
  ck_minLen :: int

datatype weak_error = TooShort int | TooCommon | Breached

definition minLength :: int where "minLength = 12"

text \<open>Lines as \<open>bufio.Scanner\<close> returns them, without the line feed and a carriage return before it.\<close>

definition scan_lines :: "string \<Rightarrow> string list" where
  "scan_lines s =
     (let ls = split_on (CHR 0x0A) s; ms = (if last ls = [] then butlast ls else ls)
      in map (\<lambda>l. trim_suffix l [CHR 0x0D]) ms)"

definition loadDefault :: "string \<Rightarrow> string list" where
  "loadDefault embedded =
     map to_lower (filter (\<lambda>l. \<not> (l = [] \<or> has_prefix l ''#'')) (map trim_space (scan_lines embedded)))"

definition weak_New :: "string \<Rightarrow> int \<Rightarrow> Checker" where
  "weak_New embedded minLen =
     \<lparr>ck_weak = loadDefault embedded, ck_hibp = None, ck_minLen = (if minLen < minLength then minLength else minLen)\<rparr>"

definition WithHIBP :: "(string \<Rightarrow> bool option) \<Rightarrow> Checker \<Rightarrow> Checker" where
  "WithHIBP h c = c\<lparr>ck_hibp := Some h\<rparr>"

definition Validate :: "Checker \<Rightarrow> string \<Rightarrow> weak_error + unit" where
  "Validate c pw =
     (if int (length pw) < ck_minLen c then Err (TooShort (ck_minLen c))
      else if to_lower pw \<in> set (ck_weak c) then Err TooCommon
      else case ck_hibp c of
        None \<Rightarrow> Ok ()
      | Some pwned \<Rightarrow> (case pwned pw of Some True \<Rightarrow> Err Breached | _ \<Rightarrow> Ok ()))"

text \<open>The breach lookup: \<open>fetch\<close> is the answer of the range service to a prefix of five digits, \<^const>\<open>None\<close>
  when the request fails.\<close>

definition Pwned :: "(string \<Rightarrow> string) \<Rightarrow> (string \<Rightarrow> HIBP_reply option) \<Rightarrow> string \<Rightarrow> bool option" where
  "Pwned sha1 fetch pw =
     (let hexHash = to_upper (hex_encode (sha1 pw)); pfx = take 5 hexHash; sfx = drop 5 hexHash in
      case fetch pfx of
        None \<Rightarrow> None
      | Some resp \<Rightarrow>
          if hr_status resp \<noteq> 200 then None
          else Some (list_ex (\<lambda>l. CHR '':'' \<in> set l \<and> trim_space (before_byte (CHR '':'') l) = sfx)
                 (scan_lines (hr_body resp))))"

lemma Validate_Ok:
  "Validate c pw = Ok () \<longleftrightarrow>
     ck_minLen c \<le> int (length pw) \<and> to_lower pw \<notin> set (ck_weak c)
     \<and> (case ck_hibp c of None \<Rightarrow> True | Some pwned \<Rightarrow> pwned pw \<noteq> Some True)"
  by (auto simp: Validate_def split: option.splits bool.splits)

section \<open>Hashes verify\<close>

text \<open>What \<open>argon2.IDKey\<close> promises: a key of the length asked for.\<close>

definition kdf_len :: "kdf \<Rightarrow> bool" where
  "kdf_len kdf \<longleftrightarrow> (\<forall>secret salt t m p n. length (kdf secret salt t m p n) = unat n)"

lemma scan_params_format:
  "m < 2 ^ 32 \<Longrightarrow> t < 2 ^ 32 \<Longrightarrow> p < 2 ^ 8 \<Longrightarrow>
     scan_params (''m='' @ nat_str m @ '',t='' @ nat_str t @ '',p='' @ nat_str p) = Some (m, t, p)"
  using scan_uint_nat_str [of m "2 ^ 32" "'',t='' @ nat_str t @ '',p='' @ nat_str p"]
    scan_uint_nat_str [of t "2 ^ 32" "'',p='' @ nat_str p"] scan_uint_nat_str [of p "2 ^ 8" "[]"]
  by (simp add: scan_params_def scan_lit_def has_prefix_def is_digit_def)

lemma scan_version_19: "scan_version ''v=19'' = Some argon2_Version"
proof -
  have "''v=19'' = ''v='' @ nat_str 19 @ []" by code_simp
  then show ?thesis using scan_int_nat_str [of 19 "[]"]
    by (simp add: scan_version_def scan_lit_def has_prefix_def argon2_Version_def)
qed

lemma nat_str_no_dollar [simp]: "CHR ''$'' \<notin> set (nat_str n)"
  using nat_str_is_digit [of "CHR ''$''" n] by (auto simp: is_digit_def)

lemma phc_parts:
  "split_on (CHR ''$'') (''$argon2id$v='' @ FormatInt argon2_Version @ ''$m='' @ nat_str m @ '',t='' @ nat_str t @
      '',p='' @ nat_str p @ ''$'' @ b64_encode std_alphabet salt @ ''$'' @ b64_encode std_alphabet key)
   = [[], ''argon2id'', ''v=19'', ''m='' @ nat_str m @ '',t='' @ nat_str t @ '',p='' @ nat_str p,
      b64_encode std_alphabet salt, b64_encode std_alphabet key]"
proof -
  have "FormatInt argon2_Version = ''19''" by code_simp
  then show ?thesis
    using split_join [of "[[], ''argon2id'', ''v=19'', ''m='' @ nat_str m @ '',t='' @ nat_str t @ '',p='' @ nat_str p,
      b64_encode std_alphabet salt, b64_encode std_alphabet key]" "CHR ''$''"]
    by simp
qed

lemma decodeHash_Hash:
  assumes "pw_Hash kdf (Some salt) h pw = Ok enc" and "p = ha_params h"
    and "key = kdf (peppered h pw) salt (pp_Iterations p) (pp_Memory p) (pp_Parallelism p) (pp_KeyLength p)"
  shows "decodeHash enc = Ok (p\<lparr>pp_SaltLength := of_nat (length salt), pp_KeyLength := of_nat (length key)\<rparr>, salt, key)"
proof -
  have b: "unat (pp_Memory p) < 2 ^ 32" "unat (pp_Iterations p) < 2 ^ 32" "unat (pp_Parallelism p) < 2 ^ 8"
    using unsigned_less [of "pp_Memory p"] unsigned_less [of "pp_Iterations p"] unsigned_less [of "pp_Parallelism p"]
    by simp_all
  have enc: "split_on (CHR ''$'') enc = [[], ''argon2id'', ''v=19'',
      ''m='' @ nat_str (unat (pp_Memory p)) @ '',t='' @ nat_str (unat (pp_Iterations p)) @ '',p='' @ nat_str (unat (pp_Parallelism p)),
      b64_encode std_alphabet salt, b64_encode std_alphabet key]"
    unfolding phc_parts [symmetric] using assms by (auto simp: pw_Hash_def Let_def simp del: append.simps)
  show ?thesis
    using scan_params_format [OF b] by (cases p) (simp add: decodeHash_def enc scan_version_19 Let_def)
qed

lemma pw_Verify_own:
  assumes "kdf_len kdf" and "pw_Hash kdf (Some salt) h pw = Ok enc"
  shows "pw_Verify kdf h pw enc = Ok ()"
proof -
  let ?p = "ha_params h"
  have "length (kdf (peppered h pw) salt (pp_Iterations ?p) (pp_Memory ?p) (pp_Parallelism ?p) (pp_KeyLength ?p))
      = unat (pp_KeyLength ?p)"
    using assms(1) by (simp add: kdf_len_def)
  then show ?thesis using decodeHash_Hash [OF assms(2) refl refl] by (simp add: pw_Verify_def)
qed

section \<open>Claims\<close>

text \<open>A stored password hash verifies the password it was made from and no other, up to collisions of the
  key derivation: for whatever salt and cost parameters it was made with, and also when the hasher that verifies
  has other cost parameters, verification succeeds exactly when the peppered passwords derive the same
  key under the stored salt and parameters. With the same pepper the right password is always accepted.\<close>

theorem password_roundtrip:
  assumes "kdf_len kdf" and "pw_Hash kdf (Some salt) h pw = Ok enc" and "p = ha_params h"
  shows "pw_Verify kdf h' pw' enc =
      (if kdf (peppered h' pw') salt (pp_Iterations p) (pp_Memory p) (pp_Parallelism p) (pp_KeyLength p)
          = kdf (peppered h pw) salt (pp_Iterations p) (pp_Memory p) (pp_Parallelism p) (pp_KeyLength p)
       then Ok () else Err PwMismatch)
    \<and> (ha_pepper h' = ha_pepper h \<longrightarrow> pw_Verify kdf h' pw enc = Ok ())"
proof -
  have "length (kdf (peppered h pw) salt (pp_Iterations p) (pp_Memory p) (pp_Parallelism p) (pp_KeyLength p))
      = unat (pp_KeyLength p)"
    using assms(1) by (simp add: kdf_len_def)
  moreover have "peppered h' pw = peppered h pw" if "ha_pepper h' = ha_pepper h"
    using that by (simp add: peppered_def)
  ultimately show ?thesis
    using decodeHash_Hash [OF assms(2,3) refl] by (auto simp: pw_Verify_def)
qed

text \<open>A key derivation for examples: the secret and the salt, cut or padded to the length asked for.\<close>

definition pad_kdf :: kdf where
  "pad_kdf secret salt t m p n = take (unat n) (secret @ salt @ replicate (unat n) CHR 0x00)"

lemma pad_kdf_len: "kdf_len pad_kdf"
  by (auto simp: kdf_len_def pad_kdf_def min_def)

theorem password_roundtrip_witness:
  "pw_Verify pad_kdf (NewHasher DefaultParams ''pp'') ''s3cret''
      (case pw_Hash pad_kdf (Some ''salt'') (NewHasher DefaultParams ''pp'') ''s3cret'' of Inr e \<Rightarrow> e | Inl _ \<Rightarrow> [])
     = Ok ()"
proof -
  obtain e where "pw_Hash pad_kdf (Some ''salt'') (NewHasher DefaultParams ''pp'') ''s3cret'' = Ok e"
    by (simp add: pw_Hash_def Let_def)
  then show ?thesis using password_roundtrip [OF pad_kdf_len _ refl] by simp
qed

end
