(* ===== verification/Users.thy ===== *)
theory Users
  imports Stores
begin

text \<open>
  \<open>internal/service/user/user.go\<close> and \<open>admin.go\<close>: accounts. The state holds the tables \<open>users\<close> (\<open>username\<close> and \<open>email\<close> are
  \<open>UNIQUE\<close>) and \<open>user_redirects\<close> (\<open>old_username\<close> is \<open>UNIQUE\<close>); columns that \<open>INSERT\<close> does not set have the
  defaults of the schema. An account is its row with its key. \<open>CURRENT_TIMESTAMP\<close> and \<open>time.Now()\<close> are the
  argument \<open>now\<close>.
\<close>

section \<open>State\<close>

record user_row =
  u_Username :: string
  u_Email :: string
  u_PasswordHash :: string
  u_FullName :: string
  u_Bio :: string
  u_AvatarURL :: string
  u_Website :: string
  u_Location :: string
  u_IsAdmin :: bool
  u_IsActive :: bool
  u_TOTPEnabled :: bool
  u_TOTPSecret :: string
  u_CreatedAt :: int
  u_UpdatedAt :: int

type_synonym user = "int \<times> user_row"

record redirect_row =
  rd_old :: string
  rd_user :: int

record user_store =
  us_users :: "user_row table"
  us_redirects :: "redirect_row table"
  us_down :: bool

datatype user_error = UserNotFound | UserConstraint | UserDriver

record user_params =
  up_Username :: string
  up_Email :: string
  up_PasswordHash :: string
  up_IsAdmin :: bool

definition users_New :: user_store where
  "users_New = \<lparr>us_users = empty_table, us_redirects = empty_table, us_down = False\<rparr>"

section \<open>Operations\<close>

text \<open>A query for one row.\<close>

definition user_scanOne :: "user_store \<Rightarrow> (int \<Rightarrow> user_row \<Rightarrow> bool) \<Rightarrow> user_error + user" where
  "user_scanOne s P =
     (if us_down s then Err UserDriver
      else case tbl_find P (us_users s) of None \<Rightarrow> Err UserNotFound | Some u \<Rightarrow> Ok u)"

definition user_ByID :: "user_store \<Rightarrow> int \<Rightarrow> user_error + user" where
  "user_ByID s i = user_scanOne s (\<lambda>j _. j = i)"

definition ByUsername :: "user_store \<Rightarrow> string \<Rightarrow> user_error + user" where
  "ByUsername s username = user_scanOne s (\<lambda>_ r. u_Username r = username)"

definition ByEmail :: "user_store \<Rightarrow> string \<Rightarrow> user_error + user" where
  "ByEmail s email = user_scanOne s (\<lambda>_ r. u_Email r = email)"

text \<open>The row that \<open>INSERT\<close> makes.\<close>

definition new_user :: "int \<Rightarrow> user_params \<Rightarrow> user_row" where
  "new_user now p =
     \<lparr>u_Username = up_Username p, u_Email = up_Email p, u_PasswordHash = up_PasswordHash p,
      u_FullName = [], u_Bio = [], u_AvatarURL = [], u_Website = [], u_Location = [],
      u_IsAdmin = up_IsAdmin p, u_IsActive = True, u_TOTPEnabled = False, u_TOTPSecret = [],
      u_CreatedAt = now, u_UpdatedAt = now\<rparr>"

lemma new_user_simps [simp]:
  "u_Username (new_user now p) = up_Username p" "u_Email (new_user now p) = up_Email p"
  "u_PasswordHash (new_user now p) = up_PasswordHash p" "u_IsAdmin (new_user now p) = up_IsAdmin p"
  "u_IsActive (new_user now p)" "\<not> u_TOTPEnabled (new_user now p)" "u_TOTPSecret (new_user now p) = []"
  by (simp_all add: new_user_def)

definition user_Create :: "int \<Rightarrow> user_params \<Rightarrow> user_store \<Rightarrow> (user_error + user) \<times> user_store" where
  "user_Create now p s =
     (if us_down s then (Err UserDriver, s)
      else if tbl_exists (\<lambda>_ r. u_Username r = up_Username p \<or> u_Email r = up_Email p) (us_users s)
      then (Err UserConstraint, s)
      else let s' = s\<lparr>us_users := tbl_insert (new_user now p) (us_users s)\<rparr>
           in (user_ByID s' (seq (us_users s')), s'))"

definition user_Exists :: "user_store \<Rightarrow> string \<Rightarrow> user_error + bool" where
  "user_Exists s username =
     (if us_down s then Err UserDriver
      else Ok (tbl_exists (\<lambda>_ r. u_Username r = username) (us_users s)))"

text \<open>\<open>LIMIT\<close> and \<open>OFFSET\<close>; a negative offset counts as none.\<close>

definition user_List :: "user_store \<Rightarrow> int \<Rightarrow> int \<Rightarrow> user_error + user list" where
  "user_List s limit0 offset =
     (let limit = (if limit0 \<le> 0 \<or> limit0 > 100 then 30 else limit0) in
      if us_down s then Err UserDriver
      else Ok (take (nat limit) (drop (nat offset) (rows (us_users s)))))"

definition user_update ::
  "(user_row \<Rightarrow> user_row) \<Rightarrow> int \<Rightarrow> user_store \<Rightarrow> (user_error + unit) \<times> user_store" where
  "user_update f i s =
     (if us_down s then (Err UserDriver, s)
      else (Ok (), s\<lparr>us_users := tbl_update (\<lambda>j _. j = i) f (us_users s)\<rparr>))"

definition UpdateProfile :: "int \<Rightarrow> user \<Rightarrow> user_store \<Rightarrow> (user_error + unit) \<times> user_store" where
  "UpdateProfile now u =
     user_update (\<lambda>r. r\<lparr>u_FullName := u_FullName (snd u), u_Bio := u_Bio (snd u), u_Website := u_Website (snd u),
                       u_Location := u_Location (snd u), u_UpdatedAt := now\<rparr>) (fst u)"

definition user_UpdatePassword :: "int \<Rightarrow> int \<Rightarrow> string \<Rightarrow> user_store \<Rightarrow> (user_error + unit) \<times> user_store" where
  "user_UpdatePassword now userID hash = user_update (\<lambda>r. r\<lparr>u_PasswordHash := hash, u_UpdatedAt := now\<rparr>) userID"

definition UpdateTOTP :: "int \<Rightarrow> int \<Rightarrow> string \<Rightarrow> bool \<Rightarrow> user_store \<Rightarrow> (user_error + unit) \<times> user_store" where
  "UpdateTOTP now userID secret enabled =
     user_update (\<lambda>r. r\<lparr>u_TOTPSecret := secret, u_TOTPEnabled := enabled, u_UpdatedAt := now\<rparr>) userID"

text \<open>The transaction of \<open>Rename\<close>: a failing statement rolls everything back.\<close>

definition Rename :: "int \<Rightarrow> int \<Rightarrow> string \<Rightarrow> user_store \<Rightarrow> (user_error + unit) \<times> user_store" where
  "Rename now userID newName s =
     (if us_down s then (Err UserDriver, s)
      else case tbl_find (\<lambda>j _. j = userID) (us_users s) of
        None \<Rightarrow> (Err UserNotFound, s)
      | Some (_, r) \<Rightarrow>
          if tbl_exists (\<lambda>j x. j \<noteq> userID \<and> u_Username x = newName) (us_users s) then (Err UserConstraint, s)
          else if tbl_exists (\<lambda>_ x. rd_old x = u_Username r) (us_redirects s) then (Err UserConstraint, s)
          else (Ok (), s\<lparr>us_users := tbl_update (\<lambda>j _. j = userID) (\<lambda>x. x\<lparr>u_Username := newName, u_UpdatedAt := now\<rparr>) (us_users s),
                        us_redirects := tbl_insert \<lparr>rd_old = u_Username r, rd_user = userID\<rparr> (us_redirects s)\<rparr>))"

definition ResolveRedirect :: "user_store \<Rightarrow> string \<Rightarrow> user_error + int" where
  "ResolveRedirect s oldName =
     (if us_down s then Err UserDriver
      else case tbl_find (\<lambda>_ r. rd_old r = oldName) (us_redirects s) of
        None \<Rightarrow> Err UserNotFound | Some (_, r) \<Rightarrow> Ok (rd_user r))"

section \<open>Administration\<close>

definition SetAdmin :: "int \<Rightarrow> int \<Rightarrow> bool \<Rightarrow> user_store \<Rightarrow> (user_error + unit) \<times> user_store" where
  "SetAdmin now userID admin = user_update (\<lambda>r. r\<lparr>u_IsAdmin := admin, u_UpdatedAt := now\<rparr>) userID"

definition user_SetActive :: "int \<Rightarrow> int \<Rightarrow> bool \<Rightarrow> user_store \<Rightarrow> (user_error + unit) \<times> user_store" where
  "user_SetActive now userID active = user_update (\<lambda>r. r\<lparr>u_IsActive := active, u_UpdatedAt := now\<rparr>) userID"

definition SetEmail :: "int \<Rightarrow> int \<Rightarrow> string \<Rightarrow> user_store \<Rightarrow> (user_error + unit) \<times> user_store" where
  "SetEmail now userID email s =
     (if tbl_exists (\<lambda>j x. j \<noteq> userID \<and> u_Email x = email) (us_users s)
         \<and> tbl_exists (\<lambda>j _. j = userID) (us_users s) \<and> \<not> us_down s
      then (Err UserConstraint, s)
      else user_update (\<lambda>r. r\<lparr>u_Email := email, u_UpdatedAt := now\<rparr>) userID s)"

definition ListAll :: "user_store \<Rightarrow> user_error + user list" where
  "ListAll s = (if us_down s then Err UserDriver else Ok (rows (us_users s)))"

definition CountAdmins :: "user_store \<Rightarrow> user_error + nat" where
  "CountAdmins s = (if us_down s then Err UserDriver else Ok (tbl_count (\<lambda>_ r. u_IsAdmin r \<and> u_IsActive r) (us_users s)))"

definition user_Delete :: "int \<Rightarrow> user_store \<Rightarrow> (user_error + unit) \<times> user_store" where
  "user_Delete userID s =
     (if us_down s then (Err UserDriver, s)
      else (Ok (), s\<lparr>us_users := tbl_delete (\<lambda>j _. j = userID) (us_users s)\<rparr>))"

section \<open>Invariant\<close>

text \<open>The tables are well formed, the names and addresses of accounts are unique, and so are former names.\<close>

definition users_wf :: "user_store \<Rightarrow> bool" where
  "users_wf s \<longleftrightarrow> tbl_wf (us_users s) \<and> unique_on u_Username (us_users s) \<and> unique_on u_Email (us_users s)
     \<and> tbl_wf (us_redirects s) \<and> unique_on rd_old (us_redirects s)"

lemma users_wfD:
  assumes "users_wf s"
  shows "tbl_wf (us_users s)" "unique_on u_Username (us_users s)" "unique_on u_Email (us_users s)"
    "tbl_wf (us_redirects s)" "unique_on rd_old (us_redirects s)"
  using assms unfolding users_wf_def by auto

lemma users_New_wf: "users_wf users_New"
  by (auto simp: users_wf_def users_New_def tbl_wf_def vals_def)

lemma user_Create_wf: "users_wf s \<Longrightarrow> users_wf (snd (user_Create now p s))"
  by (auto simp: user_Create_def users_wf_def Let_def sql_wf tbl_exists_iff intro!: unique_on_insert)

lemma user_update_wf:
  assumes wf: "users_wf s" and f: "\<And>r. u_Username (f r) = u_Username r" "\<And>r. u_Email (f r) = u_Email r"
  shows "users_wf (snd (user_update f i s))"
proof -
  have "users_wf (s\<lparr>us_users := tbl_update (\<lambda>j _. j = i) f (us_users s)\<rparr>)"
    using users_wfD [OF wf] f unfolding users_wf_def
    by (auto simp: sql_wf intro: unique_on_update)
  then show ?thesis using wf by (simp add: user_update_def)
qed

lemma unique_on_change:
  assumes u: "unique_on key t" and wf: "tbl_wf t"
    and new: "\<not> tbl_exists (\<lambda>j x. j \<noteq> i \<and> key x = k) t" and f: "\<And>x. key (f x) = k"
  shows "unique_on key (tbl_update (\<lambda>j _. j = i) f t)"
proof -
  have "distinct (map fst (rows t))" using wf by (simp add: tbl_wf_def strict_sorted_iff)
  moreover have "distinct (map (\<lambda>(j, r). key r) (rows t))" using u by (simp add: unique_on_def)
  moreover have "\<forall>(j, x) \<in> set (rows t). j \<noteq> i \<longrightarrow> key x \<noteq> k" using new by (auto simp: tbl_exists_iff)
  ultimately have "distinct (map (\<lambda>(j, r). key (if j = i then f r else r)) (rows t))"
  proof (induction "rows t" arbitrary: t)
    case (Cons a as)
    then show ?case
      using Cons.hyps(1) [of "t\<lparr>rows := as\<rparr>"] by (simp flip: Cons.hyps(2)) (force simp: f split: if_splits)
  qed simp
  then show ?thesis by (simp add: unique_on_def tbl_update_def comp_def case_prod_unfold)
qed

lemma Rename_wf:
  assumes wf: "users_wf s"
  shows "users_wf (snd (Rename now i newName s))"
proof (cases "us_down s \<or> tbl_find (\<lambda>j _. j = i) (us_users s) = None")
  case True
  then show ?thesis using wf by (auto simp: Rename_def)
next
  case False
  then obtain j r where r: "tbl_find (\<lambda>j _. j = i) (us_users s) = Some (j, r)" by force
  let ?ok = "s\<lparr>us_users := tbl_update (\<lambda>j _. j = i) (\<lambda>x. x\<lparr>u_Username := newName, u_UpdatedAt := now\<rparr>) (us_users s),
     us_redirects := tbl_insert \<lparr>rd_old = u_Username r, rd_user = i\<rparr> (us_redirects s)\<rparr>"
  have "users_wf ?ok"
    if free: "\<not> tbl_exists (\<lambda>j x. j \<noteq> i \<and> u_Username x = newName) (us_users s)"
      and fresh: "\<not> tbl_exists (\<lambda>_ x. rd_old x = u_Username r) (us_redirects s)"
    using users_wfD [OF wf] unique_on_change [OF users_wfD(2,1) [OF wf] free]
      unique_on_insert [where key = rd_old and r = "\<lparr>rd_old = u_Username r, rd_user = i\<rparr>", OF users_wfD(5) [OF wf]] fresh
    unfolding users_wf_def by (auto simp: sql_wf intro: unique_on_update)
  then show ?thesis using False r wf by (auto simp: Rename_def)
qed

lemma SetEmail_wf:
  assumes wf: "users_wf s"
  shows "users_wf (snd (SetEmail now i email s))"
proof -
  have "unique_on u_Email (tbl_update (\<lambda>j _. j = i) (\<lambda>r. r\<lparr>u_Email := email, u_UpdatedAt := now\<rparr>) (us_users s))"
    if "\<not> (tbl_exists (\<lambda>j x. j \<noteq> i \<and> u_Email x = email) (us_users s) \<and> tbl_exists (\<lambda>j _. j = i) (us_users s))"
  proof (cases "tbl_exists (\<lambda>j _. j = i) (us_users s)")
    case True
    with that show ?thesis using unique_on_change [OF users_wfD(3,1) [OF wf]] by simp
  next
    case False
    then show ?thesis using users_wfD(3) [OF wf] by (simp add: tbl_update_none)
  qed
  then show ?thesis using users_wfD [OF wf]
    by (auto simp: SetEmail_def user_update_def users_wf_def sql_wf intro: unique_on_update)
qed

lemma user_Delete_wf: "users_wf s \<Longrightarrow> users_wf (snd (user_Delete i s))"
  by (simp add: user_Delete_def users_wf_def sql_wf unique_on_delete)

section \<open>Lookups\<close>

lemma find_unique:
  assumes "unique_on key t" and "(i, r) \<in> set (rows t)" and "key r = k"
  shows "tbl_find (\<lambda>_ x. key x = k) t = Some (i, r)"
proof -
  have "tbl_find (\<lambda>_ x. key x = k) t \<noteq> None" using assms(2,3) by (auto simp: tbl_find_None)
  then obtain j x where f: "tbl_find (\<lambda>_ x. key x = k) t = Some (j, x)" by auto
  then have "(j, x) \<in> set (rows t)" "key x = k" using tbl_find_Some [OF f] by auto
  then show ?thesis using unique_onD [OF assms(1) _ assms(2)] assms(3) f by auto
qed

lemma ByUsername_iff:
  assumes "users_wf s"
  shows "ByUsername s name = Ok (i, r) \<longleftrightarrow> \<not> us_down s \<and> (i, r) \<in> set (rows (us_users s)) \<and> u_Username r = name"
proof
  assume "ByUsername s name = Ok (i, r)"
  then show "\<not> us_down s \<and> (i, r) \<in> set (rows (us_users s)) \<and> u_Username r = name"
    using tbl_find_Some by (fastforce simp: ByUsername_def user_scanOne_def split: if_splits option.splits)
next
  assume "\<not> us_down s \<and> (i, r) \<in> set (rows (us_users s)) \<and> u_Username r = name"
  then show "ByUsername s name = Ok (i, r)"
    using find_unique [OF users_wfD(2) [OF assms], of i r name] by (simp add: ByUsername_def user_scanOne_def)
qed

lemma user_ByID_iff:
  assumes "users_wf s"
  shows "user_ByID s i = Ok (j, r) \<longleftrightarrow> \<not> us_down s \<and> j = i \<and> (i, r) \<in> set (rows (us_users s))"
proof
  assume "user_ByID s i = Ok (j, r)"
  then show "\<not> us_down s \<and> j = i \<and> (i, r) \<in> set (rows (us_users s))"
    using tbl_find_Some [where P = "\<lambda>j _. j = i"] by (force simp: user_ByID_def user_scanOne_def split: if_splits option.splits)
next
  assume "\<not> us_down s \<and> j = i \<and> (i, r) \<in> set (rows (us_users s))"
  then show "user_ByID s i = Ok (j, r)"
    using tbl_by_id_find [OF users_wfD(1) [OF assms], of i r] by (simp add: user_ByID_def user_scanOne_def)
qed


text \<open>Updates by key: the row of that key changes, the others stay.\<close>

lemma user_update_rows:
  "fst (user_update f i s) = Ok () \<Longrightarrow>
     (j, r) \<in> set (rows (us_users (snd (user_update f i s)))) \<longleftrightarrow>
     (\<exists>x. (j, x) \<in> set (rows (us_users s)) \<and> r = (if j = i then f x else x))"
  by (auto simp: user_update_def set_rows_update split: if_splits)

lemma user_Create_Ok:
  assumes "users_wf s" and "fst (user_Create now p s) = Ok (i, r)"
  shows "i = seq (us_users s) + 1" and "u_Username r = up_Username p" and "u_Email r = up_Email p"
    and "u_PasswordHash r = up_PasswordHash p" and "u_IsAdmin r = up_IsAdmin p" and "u_IsActive r" and "\<not> u_TOTPEnabled r"
    and "us_users (snd (user_Create now p s)) = tbl_insert r (us_users s)"
    and "\<not> us_down (snd (user_Create now p s))"
proof -
  have wf: "users_wf (snd (user_Create now p s))" by (rule user_Create_wf [OF assms(1)])
  have new: "\<not> us_down s" "\<not> tbl_exists (\<lambda>_ r. u_Username r = up_Username p \<or> u_Email r = up_Email p) (us_users s)"
    using assms(2) by (auto simp: user_Create_def split: if_splits)
  let ?s' = "s\<lparr>us_users := tbl_insert (new_user now p) (us_users s)\<rparr>"
  have c: "user_Create now p s = (user_ByID ?s' (seq (us_users s) + 1), ?s')"
    using new by (simp add: user_Create_def Let_def)
  then have b: "user_ByID ?s' (seq (us_users s) + 1) = Ok (i, r)" using assms(2) by simp
  have "i = seq (us_users s) + 1 \<and> (i, r) \<in> set (rows (us_users ?s'))"
    using b user_ByID_iff [OF wf] c by simp
  moreover have "tbl_wf (us_users s)" using users_wfD(1) [OF assms(1)] .
  ultimately have ir: "i = seq (us_users s) + 1" "r = new_user now p" using fresh_row [of "us_users s" r] by auto
  show "i = seq (us_users s) + 1" "u_Username r = up_Username p" "u_Email r = up_Email p"
    "u_PasswordHash r = up_PasswordHash p" "u_IsAdmin r = up_IsAdmin p" "u_IsActive r" "\<not> u_TOTPEnabled r"
    "us_users (snd (user_Create now p s)) = tbl_insert r (us_users s)" "\<not> us_down (snd (user_Create now p s))"
    using ir c new by simp_all
qed

section \<open>Reachable states\<close>

datatype user_op =
    OpCreate user_params | OpProfile user | OpPassword int string | OpTOTP int string bool
  | OpRename int string | OpAdmin int bool | OpActive int bool | OpEmail int string | OpDelete int | OpFault bool

definition user_step :: "int \<times> user_op \<Rightarrow> user_store \<Rightarrow> user_store" where
  "user_step x s =
     (case x of (now, op) \<Rightarrow>
        (case op of
           OpCreate p \<Rightarrow> snd (user_Create now p s)
         | OpProfile u \<Rightarrow> snd (UpdateProfile now u s)
         | OpPassword i h \<Rightarrow> snd (user_UpdatePassword now i h s)
         | OpTOTP i secret e \<Rightarrow> snd (UpdateTOTP now i secret e s)
         | OpRename i name \<Rightarrow> snd (Rename now i name s)
         | OpAdmin i b \<Rightarrow> snd (SetAdmin now i b s)
         | OpActive i b \<Rightarrow> snd (user_SetActive now i b s)
         | OpEmail i email \<Rightarrow> snd (SetEmail now i email s)
         | OpDelete i \<Rightarrow> snd (user_Delete i s)
         | OpFault b \<Rightarrow> s\<lparr>us_down := b\<rparr>))"

lemma user_step_wf: "users_wf s \<Longrightarrow> users_wf (user_step x s)"
proof (cases x)
  case (Pair now op)
  moreover assume "users_wf s"
  moreover from this have "users_wf (s\<lparr>us_down := b\<rparr>)" for b by (simp add: users_wf_def)
  ultimately show ?thesis
    by (cases op) (simp_all add: user_step_def user_Create_wf Rename_wf UpdateProfile_def user_UpdatePassword_def
        UpdateTOTP_def SetAdmin_def user_SetActive_def user_update_wf SetEmail_wf user_Delete_wf)
qed

lemma user_run_wf: "users_wf s \<Longrightarrow> users_wf (fold user_step xs s)"
proof (induction xs arbitrary: s)
  case (Cons x xs)
  then show ?case using Cons.IH [OF user_step_wf [OF Cons.prems]] by simp
qed simp

text \<open>Only deletion removes accounts.\<close>

definition user_ids :: "user_store \<Rightarrow> int set" where
  "user_ids s = fst ` set (rows (us_users s))"

lemma user_ids_update [simp]: "user_ids (s\<lparr>us_users := tbl_update P f (us_users s)\<rparr>) = user_ids s"
  by (force simp: user_ids_def tbl_update_def)

lemma user_ids_down [simp]: "user_ids (s\<lparr>us_down := b\<rparr>) = user_ids s"
  by (simp add: user_ids_def)

lemma user_ids_Create: "user_ids s \<subseteq> user_ids (snd (user_Create now p s))"
  by (auto simp: user_Create_def Let_def user_ids_def)

lemma user_ids_user_update: "user_ids (snd (user_update f i s)) = user_ids s"
  by (simp add: user_update_def)

lemma user_ids_Rename: "user_ids (snd (Rename now i name s)) = user_ids s"
proof -
  have "user_ids (s\<lparr>us_users := tbl_update P f (us_users s), us_redirects := t\<rparr>) = user_ids s" for P f t
    by (force simp: user_ids_def tbl_update_def)
  then show ?thesis by (auto simp: Rename_def split: option.splits)
qed

lemma user_step_ids:
  assumes "\<And>i. snd x \<noteq> OpDelete i"
  shows "user_ids s \<subseteq> user_ids (user_step x s)"
proof (cases x)
  case (Pair now op)
  then show ?thesis using assms user_ids_Create [of s now]
    by (cases op) (auto simp: user_step_def UpdateProfile_def user_UpdatePassword_def UpdateTOTP_def SetAdmin_def
        user_SetActive_def SetEmail_def user_ids_user_update user_ids_Rename)
qed

text \<open>Operations that leave the rights of accounts alone, and the accounts that can administer.\<close>

primrec harmless :: "user_op \<Rightarrow> bool" where
  "harmless (OpCreate p) = True" | "harmless (OpProfile u) = True" | "harmless (OpPassword i h) = True"
| "harmless (OpTOTP i k e) = True" | "harmless (OpRename i n) = True" | "harmless (OpEmail i m) = True"
| "harmless (OpFault b) = True" | "harmless (OpAdmin i b) = False" | "harmless (OpActive i b) = False"
| "harmless (OpDelete i) = False"

definition active_admins :: "user_store \<Rightarrow> int set" where
  "active_admins s = {i. \<exists>r. (i, r) \<in> set (rows (us_users s)) \<and> u_IsAdmin r \<and> u_IsActive r}"

lemma admins_update:
  assumes "\<And>r. u_IsAdmin (f r) = u_IsAdmin r" "\<And>r. u_IsActive (f r) = u_IsActive r"
  shows "active_admins (s\<lparr>us_users := tbl_update P f (us_users s)\<rparr>) = active_admins s"
proof -
  let ?g = "\<lambda>j r. if P j r then f r else r"
  have q: "u_IsAdmin (?g j r) = u_IsAdmin r" "u_IsActive (?g j r) = u_IsActive r" for j r using assms by simp_all
  have "(\<exists>r. (\<exists>r0. (j, r0) \<in> A \<and> r = ?g j r0) \<and> u_IsAdmin r \<and> u_IsActive r) \<longleftrightarrow> (\<exists>r. (j, r) \<in> A \<and> u_IsAdmin r \<and> u_IsActive r)" for j A
    using q by metis
  moreover have u: "us_users (s\<lparr>us_users := tbl_update P f (us_users s)\<rparr>) = tbl_update P f (us_users s)" by simp
  ultimately show ?thesis unfolding active_admins_def u set_rows_update by (simp only:)
qed

lemma admins_user_update:
  assumes "\<And>r. u_IsAdmin (f r) = u_IsAdmin r" "\<And>r. u_IsActive (f r) = u_IsActive r"
  shows "active_admins (snd (user_update f i s)) = active_admins s"
  using admins_update [OF assms] by (simp add: user_update_def)

lemma admins_Create: "active_admins s \<subseteq> active_admins (snd (user_Create now p s))"
  by (auto simp: user_Create_def Let_def active_admins_def)

lemma admins_Rename: "active_admins (snd (Rename now i name s)) = active_admins s"
proof -
  have "active_admins (t\<lparr>us_redirects := d\<rparr>) = active_admins t" for t d by (simp add: active_admins_def)
  moreover have "active_admins (s\<lparr>us_users := tbl_update (\<lambda>j _. j = i) (\<lambda>x. x\<lparr>u_Username := name, u_UpdatedAt := now\<rparr>) (us_users s)\<rparr>) = active_admins s"
    by (rule admins_update) simp_all
  ultimately show ?thesis by (simp add: Rename_def split: option.splits)
qed

lemma user_step_admins:
  assumes "harmless (snd x)"
  shows "active_admins s \<subseteq> active_admins (user_step x s)"
proof (cases x)
  case (Pair now op)
  moreover have "active_admins (s\<lparr>us_down := b\<rparr>) = active_admins s" for b by (simp add: active_admins_def)
  ultimately show ?thesis using assms admins_Create [of s now]
    by (cases op) (auto simp: user_step_def UpdateProfile_def user_UpdatePassword_def UpdateTOTP_def SetEmail_def
        admins_user_update admins_Rename)
qed

text \<open>The other operations take the rights of one account at most.\<close>

lemma admins_changed:
  assumes "j \<in> active_admins s" and "j \<noteq> i"
  shows "j \<in> active_admins (snd (user_update f i s))" and "j \<in> active_admins (snd (user_Delete i s))"
proof -
  obtain r where r: "(j, r) \<in> set (rows (us_users s))" "u_IsAdmin r" "u_IsActive r" using assms(1) by (auto simp: active_admins_def)
  have "(j, r) \<in> set (rows (tbl_update (\<lambda>k _. k = i) f (us_users s)))" unfolding set_rows_update using r(1) assms(2) by auto
  then show "j \<in> active_admins (snd (user_update f i s))" using r by (auto simp: active_admins_def user_update_def)
  show "j \<in> active_admins (snd (user_Delete i s))" using r assms(2) by (auto simp: active_admins_def user_Delete_def)
qed

lemma Rename_Ok:
  assumes "fst (Rename now i newName s) = Ok ()"
  obtains r where "\<not> us_down s" and "tbl_find (\<lambda>j _. j = i) (us_users s) = Some (i, r)"
    and "\<not> tbl_exists (\<lambda>_ x. rd_old x = u_Username r) (us_redirects s)"
    and "\<not> tbl_exists (\<lambda>j x. j \<noteq> i \<and> u_Username x = newName) (us_users s)"
    and "snd (Rename now i newName s) = s\<lparr>us_users := tbl_update (\<lambda>j _. j = i) (\<lambda>x. x\<lparr>u_Username := newName, u_UpdatedAt := now\<rparr>) (us_users s),
           us_redirects := tbl_insert \<lparr>rd_old = u_Username r, rd_user = i\<rparr> (us_redirects s)\<rparr>"
proof -
  obtain j r where f: "tbl_find (\<lambda>j _. j = i) (us_users s) = Some (j, r)"
    using assms by (auto simp: Rename_def split: if_splits option.splits)
  moreover have "j = i" using tbl_find_Some [OF f] by simp
  ultimately show thesis using that [of r] assms by (auto simp: Rename_def split: if_splits)
qed

lemma redirect_insert:
  assumes "tbl_find (\<lambda>_ r. rd_old r = name) t = Some x"
  shows "tbl_find (\<lambda>_ r. rd_old r = name) (tbl_insert r t) = Some x"
proof -
  have "List.find P xs = Some x \<Longrightarrow> List.find P (xs @ ys) = Some x" for P ys xs
    by (induction xs) (auto split: if_splits)
  then show ?thesis using assms by (simp add: tbl_find_def)
qed

section \<open>Claims\<close>

text \<open>Renaming an account keeps every name meaningful. In every reachable state user names and addresses
  are unique; after a successful rename the new name finds the account,
  the old name finds none any more but redirects to it, every other account is still found under its
  name, and every earlier redirect still leads to the same account.\<close>

theorem rename_redirects:
  assumes "s = fold user_step xs users_New" and "fst (Rename now i newName s) = Ok ()"
    and "s' = snd (Rename now i newName s)"
  shows "users_wf s'
    \<and> (\<exists>r. user_ByID s i = Ok (i, r)
         \<and> ByUsername s' newName = Ok (i, r\<lparr>u_Username := newName, u_UpdatedAt := now\<rparr>)
         \<and> ResolveRedirect s' (u_Username r) = Ok i
         \<and> (u_Username r \<noteq> newName \<longrightarrow> ByUsername s' (u_Username r) = Err UserNotFound))
    \<and> (\<forall>name j x. j \<noteq> i \<longrightarrow> ByUsername s name = Ok (j, x) \<longrightarrow> ByUsername s' name = Ok (j, x))
    \<and> (\<forall>name j. ResolveRedirect s name = Ok j \<longrightarrow> ResolveRedirect s' name = Ok j)"
proof -
  have wf: "users_wf s" unfolding assms(1) by (rule user_run_wf [OF users_New_wf])
  have wf': "users_wf s'" unfolding assms(3) by (rule Rename_wf [OF wf])
  from assms(2) obtain r where up: "\<not> us_down s" and f: "tbl_find (\<lambda>j _. j = i) (us_users s) = Some (i, r)"
    and fresh: "\<not> tbl_exists (\<lambda>_ x. rd_old x = u_Username r) (us_redirects s)"
    and s': "s' = s\<lparr>us_users := tbl_update (\<lambda>j _. j = i) (\<lambda>x. x\<lparr>u_Username := newName, u_UpdatedAt := now\<rparr>) (us_users s),
           us_redirects := tbl_insert \<lparr>rd_old = u_Username r, rd_user = i\<rparr> (us_redirects s)\<rparr>"
    unfolding assms(3) by (rule Rename_Ok)
  have row: "(i, r) \<in> set (rows (us_users s))" using tbl_find_Some [OF f] by simp
  have up': "\<not> us_down s'" using up s' by simp
  have rows': "(j, x) \<in> set (rows (us_users s')) \<longleftrightarrow> (\<exists>y. (j, y) \<in> set (rows (us_users s)) \<and>
      x = (if j = i then y\<lparr>u_Username := newName, u_UpdatedAt := now\<rparr> else y))" for j x
    unfolding s' by (simp add: set_rows_update)
  have 1: "user_ByID s i = Ok (i, r)" using user_ByID_iff [OF wf] up row by simp
  have 2: "ByUsername s' newName = Ok (i, r\<lparr>u_Username := newName, u_UpdatedAt := now\<rparr>)"
    using ByUsername_iff [OF wf'] up' rows' row by auto
  have 3: "ResolveRedirect s' (u_Username r) = Ok i"
    using find_first_new [where P = "\<lambda>x. rd_old x = u_Username r", OF fresh] up s'
    by (simp add: ResolveRedirect_def)
  have no: "u_Username x \<noteq> u_Username r" if ne: "u_Username r \<noteq> newName" and jx: "(j, x) \<in> set (rows (us_users s'))" for j x
  proof -
    obtain y where y: "(j, y) \<in> set (rows (us_users s))"
      and x: "x = (if j = i then y\<lparr>u_Username := newName, u_UpdatedAt := now\<rparr> else y)"
      using jx unfolding rows' by blast
    show ?thesis
    proof (cases "j = i")
      case True
      then show ?thesis using x ne by simp
    next
      case False
      then show ?thesis using x unique_onD [OF users_wfD(2) [OF wf] y row] by auto
    qed
  qed
  have 4: "ByUsername s' (u_Username r) = Err UserNotFound" if "u_Username r \<noteq> newName"
  proof -
    have "tbl_find (\<lambda>_ x. u_Username x = u_Username r) (us_users s') = None"
      using no [OF that] by (auto simp: tbl_find_None)
    then show ?thesis using up' by (simp add: ByUsername_def user_scanOne_def)
  qed
  have 5: "ByUsername s' name = Ok (j, x)" if "j \<noteq> i" "ByUsername s name = Ok (j, x)" for name j x
    using that ByUsername_iff [OF wf] ByUsername_iff [OF wf'] up' rows' by auto
  have 6: "ResolveRedirect s' name = Ok j" if "ResolveRedirect s name = Ok j" for name j
    using that redirect_insert [of name "us_redirects s"] up s'
    by (auto simp: ResolveRedirect_def split: option.splits)
  from wf' 1 2 3 4 5 6 show ?thesis by blast
qed

definition alice :: user_params where
  "alice = \<lparr>up_Username = ''alice'', up_Email = ''a@x'', up_PasswordHash = ''h'', up_IsAdmin = False\<rparr>"

lemmas user_eval = Rename_def user_step_def user_Create_def ByUsername_def user_scanOne_def user_ByID_def
  users_New_def empty_table_def tbl_insert_def tbl_find_def tbl_exists_def tbl_update_def alice_def new_user_def

theorem rename_redirects_witness:
  "ResolveRedirect (snd (Rename 2 1 ''bob'' (fold user_step [(1, OpCreate alice)] users_New))) ''alice'' = Ok 1"
proof -
  let ?s = "fold user_step [(1, OpCreate alice)] users_New"
  have "fst (Rename 2 1 ''bob'' ?s) = Ok ()" by (simp add: user_eval)
  from rename_redirects [OF refl this refl] obtain r where "user_ByID ?s 1 = Ok (1, r)"
    and "ResolveRedirect (snd (Rename 2 1 ''bob'' ?s)) (u_Username r) = Ok 1" by auto
  moreover from this(1) have "u_Username r = ''alice''" by (auto simp: user_eval)
  ultimately show ?thesis by simp
qed

text \<open>A name can be renamed away only once on the whole instance: while a redirect from the present name of
  an account exists, left behind by an earlier owner of the name or by the account itself, renaming
  the account fails and changes nothing, whatever the new name.\<close>

theorem renamed_name_sticks:
  assumes "user_ByID s i = Ok (i, r)" and "ResolveRedirect s (u_Username r) = Ok j"
  shows "\<exists>e. Rename now i newName s = (Err e, s)"
proof -
  have up: "\<not> us_down s" and f: "tbl_find (\<lambda>j _. j = i) (us_users s) = Some (i, r)"
    using assms(1) by (auto simp: user_ByID_def user_scanOne_def split: if_splits option.splits)
  have "tbl_find (\<lambda>_ x. rd_old x = u_Username r) (us_redirects s) \<noteq> None"
    using assms(2) by (auto simp: ResolveRedirect_def split: if_splits option.splits)
  then have "tbl_exists (\<lambda>_ x. rd_old x = u_Username r) (us_redirects s)" by (simp only: tbl_find_exists)
  then show ?thesis using up f by (simp add: Rename_def)
qed

theorem renamed_name_sticks_witness:
  "\<exists>e. fst (Rename 4 1 ''carol'' (fold user_step [(1, OpCreate alice), (2, OpRename 1 ''bob''), (3, OpRename 1 ''alice'')] users_New)) = Err e"
proof -
  let ?s = "fold user_step [(1, OpCreate alice), (2, OpRename 1 ''bob''), (3, OpRename 1 ''alice'')] users_New"
  obtain r where "user_ByID ?s 1 = Ok (1, r)" and "ResolveRedirect ?s (u_Username r) = Ok 1"
    by (simp add: user_eval ResolveRedirect_def)
  from renamed_name_sticks [OF this, of 4 "''carol''"] show ?thesis by auto
qed

end
