(* ===== verification/Auth.thy ===== *)
theory Auth
  imports Limiter Secrets Users
begin

text \<open>
  \<open>internal/service/auth/auth.go\<close> and the recovery codes of \<open>limiter.go\<close>: registration, login, sessions and
  the second factor. The service is \<open>auth_cfg\<close> (its fixed fields; the digest, the key derivation and the
  TOTP library are fields too) and the state \<open>auth_state\<close>: the accounts, the tables \<open>sessions\<close>
  (\<open>token_hash\<close> is \<open>UNIQUE\<close>), \<open>totp_used_codes\<close> and \<open>user_secrets\<close>, and the login limiter.

  \<open>now\<close> is \<open>time.Now()\<close>, read once for an operation; \<open>rnd\<close>, \<open>salt\<close> and \<open>nonce\<close> are what the random source
  returns. The database of all tables fails together, which is \<open>us_down\<close> of the accounts.
\<close>

section \<open>State\<close>

record session_row =
  se_UserID :: int
  se_TokenHash :: string
  se_IP :: string
  se_UserAgent :: string
  se_ExpiresAt :: "int option"
  se_CreatedAt :: int
  se_LastSeenAt :: "int option"

type_synonym session = "int \<times> session_row"

record used_code =
  uc_user :: int
  uc_hash :: string

record secret_row =
  sr_user :: int
  sr_name :: string
  sr_ciphertext :: string

record auth_state =
  au_users :: user_store
  au_sessions :: "session_row table"
  au_used :: "used_code table"
  au_secrets :: "secret_row table"
  au_limiter :: loginLimiter

text \<open>An LDAP directory answers with the name, the address and the full name of the account it accepts.\<close>

type_synonym ldap = "string \<Rightarrow> string \<Rightarrow> (string \<times> string \<times> string) option"

record auth_cfg =
  ac_sha :: "string \<Rightarrow> string"
  ac_kdf :: kdf
  ac_totp :: "int \<Rightarrow> string \<Rightarrow> string \<Rightarrow> bool"
  ac_hasher :: Hasher
  ac_cipher :: "aead option"
  ac_weak :: "Checker option"
  ac_bindIP :: bool
  ac_bindAgent :: bool
  ac_ldap :: "ldap option"

record auth_options =
  ao_Cipher :: "aead option"
  ao_MaxAttempt :: int
  ao_Lockout :: int
  ao_MinPasswordLength :: int
  ao_BindIP :: bool
  ao_BindAgent :: bool
  ao_LDAP :: "ldap option"

datatype auth_error =
    InvalidCredentials | LockedOut | TOTPRequired | InvalidTOTP | UserExists | WeakPassword | AlreadySetUp
  | AccountInactive | NoCipher | SecretEncoding | RandomFailed | AuthConstraint | AuthDriver
  | OfUsers user_error | OfPassword pw_error | OfPolicy weak_error | OfCrypto crypto_error

abbreviation au_down :: "auth_state \<Rightarrow> bool" where "au_down s \<equiv> us_down (au_users s)"

definition minutes :: "int \<Rightarrow> int" where "minutes n = n * 60 * 1000000000"

definition auth_New ::
  "(string \<Rightarrow> string) \<Rightarrow> kdf \<Rightarrow> (int \<Rightarrow> string \<Rightarrow> string \<Rightarrow> bool) \<Rightarrow> string \<Rightarrow> user_store \<Rightarrow> auth_options \<Rightarrow> auth_cfg \<times> auth_state" where
  "auth_New sha kdf totp embedded users opts =
     (let mx = (if ao_MaxAttempt opts \<le> 0 then 5 else ao_MaxAttempt opts);
          lockout = (if ao_Lockout opts \<le> 0 then minutes 15 else ao_Lockout opts)
      in (\<lparr>ac_sha = sha, ac_kdf = kdf, ac_totp = totp, ac_hasher = NewHasher DefaultParams [],
           ac_cipher = ao_Cipher opts, ac_weak = Some (weak_New embedded (ao_MinPasswordLength opts)),
           ac_bindIP = ao_BindIP opts, ac_bindAgent = ao_BindAgent opts, ac_ldap = None\<rparr>,
          \<lparr>au_users = users, au_sessions = empty_table, au_used = empty_table, au_secrets = empty_table,
           au_limiter = newLoginLimiter mx lockout\<rparr>))"

definition SetHIBP :: "(string \<Rightarrow> bool option) \<Rightarrow> auth_cfg \<Rightarrow> auth_cfg" where
  "SetHIBP h c = c\<lparr>ac_weak := map_option (WithHIBP h) (ac_weak c)\<rparr>"

definition SetPepper :: "string \<Rightarrow> auth_cfg \<Rightarrow> auth_cfg" where
  "SetPepper p c = c\<lparr>ac_hasher := NewHasher DefaultParams p\<rparr>"

definition with_users ::
  "(user_store \<Rightarrow> (user_error + 'a) \<times> user_store) \<Rightarrow> auth_state \<Rightarrow> (auth_error + 'a) \<times> auth_state" where
  "with_users op s =
     (case op (au_users s) of (r, us) \<Rightarrow>
        (case r of Inl e \<Rightarrow> Err (OfUsers e) | Inr x \<Rightarrow> Ok x, s\<lparr>au_users := us\<rparr>))"

section \<open>Registration\<close>

definition isFirstUser :: "auth_state \<Rightarrow> auth_error + bool" where
  "isFirstUser s = (if au_down s then Err AuthDriver else Ok (length (rows (us_users (au_users s))) = 0))"

definition IsInitialized :: "auth_state \<Rightarrow> auth_error + bool" where
  "IsInitialized s = (case isFirstUser s of Inl e \<Rightarrow> Err e | Inr first \<Rightarrow> Ok (\<not> first))"

record register_params =
  rp_Username :: string
  rp_Email :: string
  rp_Password :: string

definition Register ::
  "auth_cfg \<Rightarrow> int \<Rightarrow> string option \<Rightarrow> register_params \<Rightarrow> auth_state \<Rightarrow> (auth_error + user) \<times> auth_state" where
  "Register c now salt p s =
     (if int (length (rp_Password p)) < 12 then (Err WeakPassword, s)
      else case user_Exists (au_users s) (rp_Username p) of
        Inl e \<Rightarrow> (Err (OfUsers e), s)
      | Inr exists \<Rightarrow>
          if exists then (Err UserExists, s)
          else case pw_Hash (ac_kdf c) salt (ac_hasher c) (rp_Password p) of
            Inl e \<Rightarrow> (Err (OfPassword e), s)
          | Inr hash \<Rightarrow>
              (case isFirstUser s of
                 Inl e \<Rightarrow> (Err e, s)
               | Inr firstUser \<Rightarrow>
                   with_users (user_Create now \<lparr>up_Username = rp_Username p, up_Email = rp_Email p,
                     up_PasswordHash = hash, up_IsAdmin = firstUser\<rparr>) s))"

definition Setup ::
  "auth_cfg \<Rightarrow> int \<Rightarrow> string option \<Rightarrow> register_params \<Rightarrow> auth_state \<Rightarrow> (auth_error + user) \<times> auth_state" where
  "Setup c now salt p s =
     (if int (length (rp_Password p)) < 8 then (Err WeakPassword, s)
      else case isFirstUser s of
        Inl e \<Rightarrow> (Err e, s)
      | Inr first \<Rightarrow>
          if \<not> first then (Err AlreadySetUp, s)
          else case pw_Hash (ac_kdf c) salt (ac_hasher c) (rp_Password p) of
            Inl e \<Rightarrow> (Err (OfPassword e), s)
          | Inr hash \<Rightarrow>
              with_users (user_Create now \<lparr>up_Username = rp_Username p, up_Email = rp_Email p,
                up_PasswordHash = hash, up_IsAdmin = True\<rparr>) s)"

section \<open>Sessions\<close>

definition session_life :: int where "session_life = 30 * 24 * 60 * 60 * 1000000000"

definition createSession ::
  "auth_cfg \<Rightarrow> int \<Rightarrow> string option \<Rightarrow> int \<Rightarrow> string \<Rightarrow> string \<Rightarrow> auth_state \<Rightarrow>
     (auth_error + session \<times> string) \<times> auth_state" where
  "createSession c now rnd userID ip agent s =
     (case token_New (ac_sha c) rnd ''gls'' of
        Inl _ \<Rightarrow> (Err RandomFailed, s)
      | Inr tok \<Rightarrow>
          let expires = now + session_life;
              row = \<lparr>se_UserID = userID, se_TokenHash = tk_Hash tok, se_IP = ip, se_UserAgent = agent,
                     se_ExpiresAt = Some expires, se_CreatedAt = now, se_LastSeenAt = None\<rparr>
          in if au_down s then (Err AuthDriver, s)
             else if tbl_exists (\<lambda>_ r. se_TokenHash r = tk_Hash tok) (au_sessions s) then (Err AuthConstraint, s)
             else (Ok ((seq (au_sessions s) + 1, row\<lparr>se_TokenHash := [], se_CreatedAt := 0\<rparr>), tk_Plain tok),
                   s\<lparr>au_sessions := tbl_insert row (au_sessions s)\<rparr>))"

definition CreateSession ::
  "auth_cfg \<Rightarrow> int \<Rightarrow> string option \<Rightarrow> user \<Rightarrow> string \<Rightarrow> string \<Rightarrow> auth_state \<Rightarrow> (auth_error + string) \<times> auth_state" where
  "CreateSession c now rnd u ip agent s =
     (case createSession c now rnd (fst u) ip agent s of
        (Inl e, s') \<Rightarrow> (Err e, s') | (Inr (_, raw), s') \<Rightarrow> (Ok raw, s'))"

definition delete_sessions :: "(int \<Rightarrow> session_row \<Rightarrow> bool) \<Rightarrow> auth_state \<Rightarrow> (auth_error + unit) \<times> auth_state" where
  "delete_sessions P s =
     (if au_down s then (Err AuthDriver, s) else (Ok (), s\<lparr>au_sessions := tbl_delete P (au_sessions s)\<rparr>))"

definition Logout :: "auth_cfg \<Rightarrow> string \<Rightarrow> auth_state \<Rightarrow> (auth_error + unit) \<times> auth_state" where
  "Logout c rawToken = delete_sessions (\<lambda>_ r. se_TokenHash r = token_Hash (ac_sha c) rawToken)"

definition RevokeSession :: "int \<Rightarrow> int \<Rightarrow> auth_state \<Rightarrow> (auth_error + unit) \<times> auth_state" where
  "RevokeSession userID sessionID = delete_sessions (\<lambda>i r. i = sessionID \<and> se_UserID r = userID)"

definition RevokeOtherSessions :: "auth_cfg \<Rightarrow> int \<Rightarrow> string \<Rightarrow> auth_state \<Rightarrow> (auth_error + unit) \<times> auth_state" where
  "RevokeOtherSessions c userID rawCurrent =
     delete_sessions (\<lambda>_ r. se_UserID r = userID \<and> se_TokenHash r \<noteq> token_Hash (ac_sha c) rawCurrent)"

definition RevokeAllSessions :: "int \<Rightarrow> auth_state \<Rightarrow> (auth_error + unit) \<times> auth_state" where
  "RevokeAllSessions userID = delete_sessions (\<lambda>_ r. se_UserID r = userID)"

definition session_expired :: "int \<Rightarrow> session_row \<Rightarrow> bool" where
  "session_expired now r = (case se_ExpiresAt r of None \<Rightarrow> False | Some t \<Rightarrow> t < now)"

definition AuthenticateRequest ::
  "auth_cfg \<Rightarrow> int \<Rightarrow> string \<Rightarrow> string \<Rightarrow> string \<Rightarrow> auth_state \<Rightarrow> (auth_error + user \<times> session) \<times> auth_state" where
  "AuthenticateRequest c now rawToken ip agent s =
     (let hash = token_Hash (ac_sha c) rawToken in
      if au_down s then (Err AuthDriver, s)
      else case tbl_find (\<lambda>_ r. se_TokenHash r = hash) (au_sessions s) of
        None \<Rightarrow> (Err InvalidCredentials, s)
      | Some (i, r) \<Rightarrow>
          if session_expired now r then (Err InvalidCredentials, snd (Logout c rawToken s))
          else if ac_bindIP c \<and> ip \<noteq> [] \<and> se_IP r \<noteq> [] \<and> se_IP r \<noteq> ip then (Err InvalidCredentials, s)
          else if ac_bindAgent c \<and> agent \<noteq> [] \<and> se_UserAgent r \<noteq> [] \<and> se_UserAgent r \<noteq> agent
          then (Err InvalidCredentials, s)
          else let s' = s\<lparr>au_sessions := tbl_update (\<lambda>j _. j = i) (\<lambda>x. x\<lparr>se_LastSeenAt := Some now\<rparr>) (au_sessions s)\<rparr>
               in case user_ByID (au_users s') (se_UserID r) of
                    Inl e \<Rightarrow> (Err (OfUsers e), s')
                  | Inr u \<Rightarrow>
                      if \<not> u_IsActive (snd u) then (Err AccountInactive, snd (Logout c rawToken s'))
                      else (Ok (u, (i, r)), s'))"

definition auth_Authenticate ::
  "auth_cfg \<Rightarrow> int \<Rightarrow> string \<Rightarrow> auth_state \<Rightarrow> (auth_error + user \<times> session) \<times> auth_state" where
  "auth_Authenticate c now rawToken s = AuthenticateRequest c now rawToken [] [] s"

record SessionInfo =
  si_ID :: int
  si_IP :: string
  si_UserAgent :: string
  si_CreatedAt :: int
  si_LastSeenAt :: "int option"
  si_ExpiresAt :: "int option"
  si_Current :: bool

definition ListSessions :: "auth_cfg \<Rightarrow> int \<Rightarrow> string \<Rightarrow> auth_state \<Rightarrow> auth_error + SessionInfo list" where
  "ListSessions c userID rawCurrent s =
     (let currentHash = (if rawCurrent \<noteq> [] then token_Hash (ac_sha c) rawCurrent else []) in
      if au_down s then Err AuthDriver
      else Ok (map (\<lambda>(i, r). \<lparr>si_ID = i, si_IP = se_IP r, si_UserAgent = se_UserAgent r, si_CreatedAt = se_CreatedAt r,
                             si_LastSeenAt = se_LastSeenAt r, si_ExpiresAt = se_ExpiresAt r,
                             si_Current = (currentHash \<noteq> [] \<and> se_TokenHash r = currentHash)\<rparr>)
                 (rev (tbl_select (\<lambda>_ r. se_UserID r = userID) (au_sessions s)))))"

section \<open>The second factor\<close>

definition hashString :: "auth_cfg \<Rightarrow> string \<Rightarrow> string" where
  "hashString c s = hex_encode (ac_sha c s)"

definition encryptSecret :: "auth_cfg \<Rightarrow> string option \<Rightarrow> string \<Rightarrow> auth_error + string" where
  "encryptSecret c nonce plain =
     (case ac_cipher c of
        None \<Rightarrow> Ok plain
      | Some cipher \<Rightarrow>
          (case Encrypt nonce cipher plain of
             Inl e \<Rightarrow> Err (OfCrypto e) | Inr sealed \<Rightarrow> Ok (''enc:'' @ hex_encode sealed)))"

definition decryptSecret :: "auth_cfg \<Rightarrow> string \<Rightarrow> auth_error + string" where
  "decryptSecret c stored =
     (if \<not> has_prefix stored ''enc:'' then Ok stored
      else case ac_cipher c of
        None \<Rightarrow> Err NoCipher
      | Some cipher \<Rightarrow>
          (case hex_decode (trim_prefix stored ''enc:'') of
             None \<Rightarrow> Err SecretEncoding
           | Some raw \<Rightarrow> (case Decrypt cipher raw of Inl e \<Rightarrow> Err (OfCrypto e) | Inr plain \<Rightarrow> Ok plain)))"

text \<open>The codes and their hashes; \<open>rnd i\<close> is the \<open>i\<close>-th buffer of five bytes.\<close>

definition generateRecoveryCodes ::
  "auth_cfg \<Rightarrow> (nat \<Rightarrow> string option) \<Rightarrow> nat \<Rightarrow> auth_error + string list \<times> string list" where
  "generateRecoveryCodes c rnd n =
     (case those (map rnd [0 ..< n]) of
        None \<Rightarrow> Err RandomFailed
      | Some bufs \<Rightarrow> let plain = map hex_encode bufs in Ok (plain, map (hashString c) plain))"

definition storeRecoveryCodes :: "int \<Rightarrow> string list \<Rightarrow> auth_state \<Rightarrow> (auth_error + unit) \<times> auth_state" where
  "storeRecoveryCodes userID hashes s =
     (if au_down s then (Err AuthDriver, s)
      else let t = tbl_delete (\<lambda>_ r. sr_user r = userID \<and> sr_name r = ''recovery'') (au_secrets s)
           in (Ok (), s\<lparr>au_secrets := fold (\<lambda>h. tbl_insert \<lparr>sr_user = userID, sr_name = ''recovery'', sr_ciphertext = h\<rparr>) hashes t\<rparr>))"

definition verifyRecoveryCode :: "auth_cfg \<Rightarrow> int \<Rightarrow> string \<Rightarrow> auth_state \<Rightarrow> (auth_error + bool) \<times> auth_state" where
  "verifyRecoveryCode c userID code s =
     (let hash = hashString c code in
      if au_down s then (Err AuthDriver, s)
      else case tbl_find (\<lambda>_ r. sr_user r = userID \<and> sr_name r = ''recovery'' \<and> sr_ciphertext r = hash) (au_secrets s) of
        None \<Rightarrow> (Ok False, s)
      | Some (i, _) \<Rightarrow> (Ok True, s\<lparr>au_secrets := tbl_delete (\<lambda>j _. j = i) (au_secrets s)\<rparr>))"

definition checkAndMarkCode :: "auth_cfg \<Rightarrow> int \<Rightarrow> string \<Rightarrow> auth_state \<Rightarrow> (auth_error + unit) \<times> auth_state" where
  "checkAndMarkCode c userID code s =
     (let codeHash = hashString c code in
      if au_down s then (Err AuthDriver, s)
      else if tbl_exists (\<lambda>_ r. uc_user r = userID \<and> uc_hash r = codeHash) (au_used s) then (Err InvalidTOTP, s)
      else (Ok (), s\<lparr>au_used := tbl_insert \<lparr>uc_user = userID, uc_hash = codeHash\<rparr> (au_used s)\<rparr>))"

definition verifyTOTP :: "auth_cfg \<Rightarrow> int \<Rightarrow> user \<Rightarrow> string \<Rightarrow> auth_state \<Rightarrow> (auth_error + unit) \<times> auth_state" where
  "verifyTOTP c now u code s =
     (case decryptSecret c (u_TOTPSecret (snd u)) of
        Inl e \<Rightarrow> (Err e, s)
      | Inr secret \<Rightarrow>
          if ac_totp c now code secret then checkAndMarkCode c (fst u) code s
          else case verifyRecoveryCode c (fst u) code s of
            (Inl e, s') \<Rightarrow> (Err e, s')
          | (Inr ok, s') \<Rightarrow> (if ok then Ok () else Err InvalidTOTP, s'))"

text \<open>\<open>gen\<close> is the secret and the URL that \<open>totp.Generate\<close> returns.\<close>

definition BeginTOTP ::
  "auth_cfg \<Rightarrow> int \<Rightarrow> (string \<times> string) option \<Rightarrow> string option \<Rightarrow> user \<Rightarrow> auth_state \<Rightarrow>
     (auth_error + string \<times> string) \<times> auth_state" where
  "BeginTOTP c now gen nonce u s =
     (case gen of
        None \<Rightarrow> (Err RandomFailed, s)
      | Some (secret, url) \<Rightarrow>
          (case encryptSecret c nonce secret of
             Inl e \<Rightarrow> (Err e, s)
           | Inr enc \<Rightarrow>
               (case with_users (UpdateTOTP now (fst u) enc False) s of
                  (Inl e, s') \<Rightarrow> (Err e, s') | (Inr _, s') \<Rightarrow> (Ok (secret, url), s'))))"

definition EnableTOTP ::
  "auth_cfg \<Rightarrow> int \<Rightarrow> (nat \<Rightarrow> string option) \<Rightarrow> user \<Rightarrow> string \<Rightarrow> auth_state \<Rightarrow> (auth_error + string list) \<times> auth_state" where
  "EnableTOTP c now rnd u code s =
     (case decryptSecret c (u_TOTPSecret (snd u)) of
        Inl e \<Rightarrow> (Err e, s)
      | Inr secret \<Rightarrow>
          if \<not> ac_totp c now code secret then (Err InvalidTOTP, s)
          else case generateRecoveryCodes c rnd 10 of
            Inl e \<Rightarrow> (Err e, s)
          | Inr (recodes, hashes) \<Rightarrow>
              (case storeRecoveryCodes (fst u) hashes s of
                 (Inl e, s1) \<Rightarrow> (Err e, s1)
               | (Inr _, s1) \<Rightarrow>
                   (case with_users (UpdateTOTP now (fst u) (u_TOTPSecret (snd u)) True) s1 of
                      (Inl e, s2) \<Rightarrow> (Err e, s2) | (Inr _, s2) \<Rightarrow> (Ok recodes, s2))))"

definition DisableTOTP :: "auth_cfg \<Rightarrow> int \<Rightarrow> user \<Rightarrow> string \<Rightarrow> auth_state \<Rightarrow> (auth_error + unit) \<times> auth_state" where
  "DisableTOTP c now u code s =
     (if u_TOTPEnabled (snd u) then
        (case verifyTOTP c now u code s of
           (Inl e, s') \<Rightarrow> (Err e, s')
         | (Inr _, s') \<Rightarrow> with_users (UpdateTOTP now (fst u) [] False) s')
      else with_users (UpdateTOTP now (fst u) [] False) s)"

text \<open>\<open>ResetTOTP\<close> of \<open>internal/service/user/admin.go\<close>.\<close>

definition ResetTOTP :: "int \<Rightarrow> int \<Rightarrow> auth_state \<Rightarrow> (auth_error + unit) \<times> auth_state" where
  "ResetTOTP now userID s =
     (case with_users (UpdateTOTP now userID [] False) s of
        (Inl e, s') \<Rightarrow> (Err e, s')
      | (Inr _, s') \<Rightarrow>
          (Ok (), s'\<lparr>au_secrets := tbl_delete (\<lambda>_ r. sr_user r = userID \<and> sr_name r = ''recovery'') (au_secrets s')\<rparr>))"

section \<open>Passwords\<close>

definition validatePassword :: "auth_cfg \<Rightarrow> string \<Rightarrow> auth_error + unit" where
  "validatePassword c pw =
     (case ac_weak c of
        Some ck \<Rightarrow> (case Validate ck pw of Inl e \<Rightarrow> Err (OfPolicy e) | Inr _ \<Rightarrow> Ok ())
      | None \<Rightarrow> if int (length pw) < 12 then Err WeakPassword else Ok ())"

definition auth_UpdatePassword ::
  "auth_cfg \<Rightarrow> int \<Rightarrow> string option \<Rightarrow> user \<Rightarrow> string \<Rightarrow> auth_state \<Rightarrow> (auth_error + unit) \<times> auth_state" where
  "auth_UpdatePassword c now salt u newPassword s =
     (case validatePassword c newPassword of
        Inl e \<Rightarrow> (Err e, s)
      | Inr _ \<Rightarrow>
          (case pw_Hash (ac_kdf c) salt (ac_hasher c) newPassword of
             Inl e \<Rightarrow> (Err (OfPassword e), s)
           | Inr hash \<Rightarrow> with_users (user_UpdatePassword now (fst u) hash) s))"

definition randomBytes :: "string option \<Rightarrow> auth_error + string" where
  "randomBytes rnd = (case rnd of None \<Rightarrow> Err RandomFailed | Some buf \<Rightarrow> Ok buf)"

definition ResetPassword ::
  "auth_cfg \<Rightarrow> int \<Rightarrow> string option \<Rightarrow> string option \<Rightarrow> user \<Rightarrow> auth_state \<Rightarrow> (auth_error + string) \<times> auth_state" where
  "ResetPassword c now rnd salt u s =
     (case randomBytes rnd of
        Inl e \<Rightarrow> (Err e, s)
      | Inr key \<Rightarrow>
          let pw = hex_encode key in
          (case pw_Hash (ac_kdf c) salt (ac_hasher c) pw of
             Inl e \<Rightarrow> (Err (OfPassword e), s)
           | Inr hash \<Rightarrow>
               (case with_users (user_UpdatePassword now (fst u) hash) s of
                  (Inl e, s') \<Rightarrow> (Err e, s') | (Inr _, s') \<Rightarrow> (Ok pw, s'))))"

section \<open>Login\<close>

text \<open>The account made for a directory user that is not known yet.\<close>

definition ldap_provision ::
  "int \<Rightarrow> string \<Rightarrow> string \<Rightarrow> string \<Rightarrow> string \<Rightarrow> auth_state \<Rightarrow> (auth_error + user) \<times> auth_state" where
  "ldap_provision now username ldapUser email0 fullName s =
     (let name = (if ldapUser = [] then username else ldapUser);
          email = (if email0 = [] then name @ ''@ldap.local'' else email0)
      in (case with_users (user_Create now \<lparr>up_Username = name, up_Email = email,
                up_PasswordHash = [], up_IsAdmin = False\<rparr>) s of
            (Inl e, s') \<Rightarrow>
              (case ByUsername (au_users s') username of
                 Inr u2 \<Rightarrow> (Ok u2, s') | Inl _ \<Rightarrow> (Err e, s'))
          | (Inr u, s') \<Rightarrow>
              if fullName \<noteq> [] then
                let u' = (fst u, (snd u)\<lparr>u_FullName := fullName\<rparr>)
                in (Ok u', snd (with_users (UpdateProfile now u') s'))
              else (Ok u, s')))"

definition loginLDAP :: "auth_cfg \<Rightarrow> int \<Rightarrow> string \<Rightarrow> string \<Rightarrow> auth_state \<Rightarrow> (auth_error + user) \<times> auth_state" where
  "loginLDAP c now username pw s =
     (case ac_ldap c of
        None \<Rightarrow> (Err InvalidCredentials, s)
      | Some directory \<Rightarrow>
          (case directory username pw of
             None \<Rightarrow> (Err InvalidCredentials, s)
           | Some (ldapUser, email0, fullName) \<Rightarrow>
               (case ByUsername (au_users s) username of
                  Inr u \<Rightarrow> (Ok u, s)
                | Inl _ \<Rightarrow>
                    (case (if email0 \<noteq> [] then ByEmail (au_users s) email0 else Err UserNotFound) of
                       Inr u \<Rightarrow> (Ok u, s)
                     | Inl _ \<Rightarrow> ldap_provision now username ldapUser email0 fullName s))))"

record login_params =
  lp_Username :: string
  lp_Password :: string
  lp_TOTPCode :: string
  lp_IP :: string
  lp_Agent :: string

definition login_key :: "login_params \<Rightarrow> string" where
  "login_key p = to_lower (lp_Username p) @ ''|'' @ lp_IP p"

definition count_failure :: "int \<Rightarrow> string \<Rightarrow> auth_state \<Rightarrow> auth_state" where
  "count_failure now key s = s\<lparr>au_limiter := lim_fail now key (au_limiter s)\<rparr>"

text \<open>The account that the name and the password select, from the local table or from LDAP; failures are
  counted.\<close>

definition login_account :: "auth_cfg \<Rightarrow> int \<Rightarrow> login_params \<Rightarrow> auth_state \<Rightarrow> (auth_error + user) \<times> auth_state" where
  "login_account c now p s =
     (let key = login_key p in
      case ByUsername (au_users s) (lp_Username p) of
        Inl e \<Rightarrow>
          if e \<noteq> UserNotFound then (Err (OfUsers e), s)
          else (case loginLDAP c now (lp_Username p) (lp_Password p) s of
                  (Inl _, s') \<Rightarrow> (Err InvalidCredentials, count_failure now key s')
                | (Inr u, s') \<Rightarrow>
                    if \<not> u_IsActive (snd u) then (Err AccountInactive, count_failure now key s') else (Ok u, s'))
      | Inr u \<Rightarrow>
          if \<not> u_IsActive (snd u) then (Err AccountInactive, count_failure now key s)
          else case pw_Verify (ac_kdf c) (ac_hasher c) (lp_Password p) (u_PasswordHash (snd u)) of
            Inr _ \<Rightarrow> (Ok u, s)
          | Inl _ \<Rightarrow>
              (case loginLDAP c now (lp_Username p) (lp_Password p) s of
                 (Inl _, s') \<Rightarrow> (Err InvalidCredentials, count_failure now key s')
               | (Inr lu, s') \<Rightarrow> (Ok lu, s')))"

text \<open>The second factor, for accounts that have one.\<close>

definition login_factor :: "auth_cfg \<Rightarrow> int \<Rightarrow> login_params \<Rightarrow> user \<Rightarrow> auth_state \<Rightarrow> (auth_error + unit) \<times> auth_state" where
  "login_factor c now p u s =
     (if u_TOTPEnabled (snd u) then
        (if lp_TOTPCode p = [] then (Err TOTPRequired, s)
         else case verifyTOTP c now u (lp_TOTPCode p) s of
           (Inl e, s') \<Rightarrow> (Err e, count_failure now (login_key p) s')
         | (Inr _, s') \<Rightarrow> (Ok (), s'))
      else (Ok (), s))"

definition Login ::
  "auth_cfg \<Rightarrow> int \<Rightarrow> string option \<Rightarrow> login_params \<Rightarrow> auth_state \<Rightarrow>
     (auth_error + user \<times> session \<times> string) \<times> auth_state" where
  "Login c now rnd p s0 =
     (let key = login_key p in
      case allow now key (au_limiter s0) of (allowed, lim) \<Rightarrow>
      (let s = s0\<lparr>au_limiter := lim\<rparr> in
       if \<not> allowed then (Err LockedOut, s)
       else case login_account c now p s of
         (Inl e, s1) \<Rightarrow> (Err e, s1)
       | (Inr u, s1) \<Rightarrow>
           (case login_factor c now p u s1 of
              (Inl e, s2) \<Rightarrow> (Err e, s2)
            | (Inr _, s2) \<Rightarrow>
                let s3 = s2\<lparr>au_limiter := lim_reset key (au_limiter s2)\<rparr> in
                (case createSession c now rnd (fst u) (lp_IP p) (lp_Agent p) s3 of
                   (Inl e, s4) \<Rightarrow> (Err e, s4)
                 | (Inr (sess, raw), s4) \<Rightarrow> (Ok (u, sess, raw), s4)))))"

definition VerifyPassword ::
  "auth_cfg \<Rightarrow> int \<Rightarrow> string \<Rightarrow> string \<Rightarrow> auth_state \<Rightarrow> (auth_error + user) \<times> auth_state" where
  "VerifyPassword c now username pw s0 =
     (let key = to_lower username @ ''|git'' in
      case allow now key (au_limiter s0) of (allowed, lim) \<Rightarrow>
      (let s = s0\<lparr>au_limiter := lim\<rparr> in
       if \<not> allowed then (Err LockedOut, s)
       else case ByUsername (au_users s) username of
         Inl _ \<Rightarrow> (Err InvalidCredentials, count_failure now key s)
       | Inr u \<Rightarrow>
           if \<not> u_IsActive (snd u) then (Err AccountInactive, count_failure now key s)
           else case pw_Verify (ac_kdf c) (ac_hasher c) pw (u_PasswordHash (snd u)) of
             Inl _ \<Rightarrow> (Err InvalidCredentials, count_failure now key s)
           | Inr _ \<Rightarrow> (Ok u, s\<lparr>au_limiter := lim_success key (au_limiter s)\<rparr>)))"

end
