(* ===== verification/AuthProps.thy ===== *)
theory AuthProps
  imports Auth
begin

text \<open>
  Every operation of the authentication service moves the state along \<open>evolves\<close>: the accounts change only by
  operations of \<open>Users\<close>, used codes are never forgotten and the tables stay well formed. The facts on
  reachable states, on sessions and on codes follow from it.
\<close>

named_theorems evo \<open>operations move the state along \<open>evolves\<close>\<close>

section \<open>The order of states\<close>

definition auth_wf :: "auth_state \<Rightarrow> bool" where
  "auth_wf s \<longleftrightarrow> users_wf (au_users s) \<and> tbl_wf (au_sessions s) \<and> unique_on se_TokenHash (au_sessions s)
     \<and> tbl_wf (au_used s) \<and> tbl_wf (au_secrets s)"

definition evolves :: "auth_state \<Rightarrow> auth_state \<Rightarrow> bool" where
  "evolves s s' \<longleftrightarrow> (\<exists>ys. (\<forall>y \<in> set ys. harmless (snd y)) \<and> au_users s' = fold user_step ys (au_users s))
     \<and> user_ids (au_users s) \<subseteq> user_ids (au_users s')
     \<and> set (rows (au_used s)) \<subseteq> set (rows (au_used s')) \<and> (auth_wf s \<longrightarrow> auth_wf s')"

lemma evolves_refl [simp, evo]: "evolves s s"
  unfolding evolves_def by (auto intro: exI [of _ "[]"])

lemma evolves_trans:
  assumes "evolves s1 s2" and "evolves s2 s3"
  shows "evolves s1 s3"
proof -
  from assms obtain xs ys where "au_users s2 = fold user_step xs (au_users s1)" "au_users s3 = fold user_step ys (au_users s2)"
    and h: "\<forall>y \<in> set xs. harmless (snd y)" "\<forall>y \<in> set ys. harmless (snd y)"
    unfolding evolves_def by blast
  then have "au_users s3 = fold user_step (xs @ ys) (au_users s1)" "\<forall>y \<in> set (xs @ ys). harmless (snd y)" by auto
  with assms show ?thesis unfolding evolves_def by blast
qed

lemma evolves_limiter [evo]: "evolves s (s\<lparr>au_limiter := l\<rparr>)"
  unfolding evolves_def auth_wf_def by (auto intro: exI [of _ "[]"])

lemma evolves_with_users:
  assumes "snd (op (au_users s)) = user_step y (au_users s)" and "harmless (snd y)"
  shows "evolves s (snd (with_users op s))"
proof -
  have "snd (with_users op s) = s\<lparr>au_users := user_step y (au_users s)\<rparr>"
    using assms(1) by (cases "op (au_users s)") (simp add: with_users_def)
  moreover have "snd y \<noteq> OpDelete i" for i using assms(2) by auto
  ultimately show ?thesis using user_step_ids [of y "au_users s"] assms(2) unfolding evolves_def auth_wf_def
    by (auto simp: user_step_wf intro: exI [of _ "[y]"])
qed

lemma evolves_Create [evo]: "evolves s (snd (with_users (user_Create now p) s))"
  by (rule evolves_with_users [of _ _ "(now, OpCreate p)"]) (simp_all add: user_step_def)

lemma evolves_Profile [evo]: "evolves s (snd (with_users (UpdateProfile now u) s))"
  by (rule evolves_with_users [of _ _ "(now, OpProfile u)"]) (simp_all add: user_step_def)

lemma evolves_Password [evo]: "evolves s (snd (with_users (user_UpdatePassword now i h) s))"
  by (rule evolves_with_users [of _ _ "(now, OpPassword i h)"]) (simp_all add: user_step_def)

lemma evolves_UpdateTOTP [evo]: "evolves s (snd (with_users (UpdateTOTP now i k e) s))"
  by (rule evolves_with_users [of _ _ "(now, OpTOTP i k e)"]) (simp_all add: user_step_def)

lemma evolves_sessions:
  "(auth_wf s \<Longrightarrow> tbl_wf t \<and> unique_on se_TokenHash t) \<Longrightarrow> evolves s (s\<lparr>au_sessions := t\<rparr>)"
  unfolding evolves_def auth_wf_def by (auto intro: exI [of _ "[]"])

lemma evolves_secrets: "(auth_wf s \<Longrightarrow> tbl_wf t) \<Longrightarrow> evolves s (s\<lparr>au_secrets := t\<rparr>)"
  unfolding evolves_def auth_wf_def by (auto intro: exI [of _ "[]"])

lemma evolves_delete_sessions [evo]: "evolves s (snd (delete_sessions P s))"
  by (auto simp: delete_sessions_def auth_wf_def intro!: evolves_sessions sql_wf unique_on_delete)

lemma evolves_Logout [evo]: "evolves s (snd (Logout c raw s))"
  by (simp add: Logout_def evo)

lemma evolves_createSession [evo]: "evolves s (snd (createSession c now rnd i ip agent s))"
  by (auto simp: createSession_def Let_def auth_wf_def split: sum.splits intro!: evolves_sessions sql_wf unique_on_insert)

lemma evolves_AuthenticateRequest [evo]: "evolves s (snd (AuthenticateRequest c now raw ip agent s))"
proof -
  have "evolves s (s\<lparr>au_sessions := tbl_update (\<lambda>j _. j = i) (\<lambda>x. x\<lparr>se_LastSeenAt := Some now\<rparr>) (au_sessions s)\<rparr>)" for i
    by (rule evolves_sessions) (auto simp: auth_wf_def intro!: sql_wf unique_on_update)
  then show ?thesis
    by (auto simp: AuthenticateRequest_def Let_def evo split: option.splits sum.splits intro: evolves_trans evo)
qed

lemma evolves_checkAndMarkCode [evo]: "evolves s (snd (checkAndMarkCode c i code s))"
  by (auto simp: checkAndMarkCode_def Let_def evolves_def auth_wf_def sql_wf intro: exI [of _ "[]"])

lemma evolves_verifyRecoveryCode [evo]: "evolves s (snd (verifyRecoveryCode c i code s))"
  by (auto simp: verifyRecoveryCode_def Let_def auth_wf_def split: option.splits intro!: evolves_secrets sql_wf)

lemma evolves_verifyTOTP [evo]: "evolves s (snd (verifyTOTP c now u code s))"
proof -
  obtain r s' where v: "verifyRecoveryCode c (fst u) code s = (r, s')" by force
  then have "evolves s s'" using evolves_verifyRecoveryCode [of s c "fst u" code] by simp
  then show ?thesis using v by (auto simp: verifyTOTP_def evo split: sum.splits)
qed

lemma tbl_wf_inserts: "tbl_wf t \<Longrightarrow> tbl_wf (fold (\<lambda>h. tbl_insert (f h)) hs t)"
  by (induction hs arbitrary: t) (simp_all add: sql_wf)

lemma evolves_storeRecoveryCodes [evo]: "evolves s (snd (storeRecoveryCodes i hs s))"
  by (auto simp: storeRecoveryCodes_def Let_def auth_wf_def sql_wf intro!: evolves_secrets tbl_wf_inserts)

lemma evolves_BeginTOTP [evo]: "evolves s (snd (BeginTOTP c now gen nonce u s))"
proof (cases gen)
  case (Some g)
  have "evolves s s'" if "with_users (UpdateTOTP now (fst u) k False) s = (r, s')" for k r s'
    using evolves_UpdateTOTP [of s now "fst u" k False] that by simp
  then show ?thesis using Some by (auto simp: BeginTOTP_def split: sum.splits prod.splits)
qed (simp add: BeginTOTP_def)

lemma evolves_DisableTOTP [evo]: "evolves s (snd (DisableTOTP c now u code s))"
proof -
  obtain r s' where v: "verifyTOTP c now u code s = (r, s')" by force
  then have "evolves s s'" using evolves_verifyTOTP [of s c now u code] by simp
  then show ?thesis using v
    by (auto simp: DisableTOTP_def evo split: sum.splits intro: evolves_trans [OF _ evolves_UpdateTOTP])
qed

lemma evolves_ResetTOTP [evo]: "evolves s (snd (ResetTOTP now i s))"
proof -
  obtain r s' where v: "with_users (UpdateTOTP now i [] False) s = (r, s')" by force
  then have e: "evolves s s'" using evolves_UpdateTOTP [of s now i "[]" False] by simp
  have "evolves s' (s'\<lparr>au_secrets := tbl_delete P (au_secrets s')\<rparr>)" for P
    by (rule evolves_secrets) (simp add: auth_wf_def sql_wf)
  then show ?thesis using v e by (auto simp: ResetTOTP_def split: sum.splits intro: evolves_trans)
qed

lemma evolves_EnableTOTP [evo]: "evolves s (snd (EnableTOTP c now rnd u code s))"
proof -
  have "evolves s s2" if "storeRecoveryCodes (fst u) hs s = (r, s1)"
    and "with_users (UpdateTOTP now (fst u) k True) s1 = (q, s2)" for hs r s1 k q s2
    using evolves_storeRecoveryCodes [of s "fst u" hs] evolves_UpdateTOTP [of s1 now "fst u" k True] that
    by (auto intro: evolves_trans)
  moreover have "evolves s s1" if "storeRecoveryCodes (fst u) hs s = (r, s1)" for hs r s1
    using evolves_storeRecoveryCodes [of s "fst u" hs] that by simp
  ultimately show ?thesis
    by (auto simp: EnableTOTP_def split: sum.splits prod.splits)
qed

lemma evolves_Register [evo]: "evolves s (snd (Register c now salt p s))"
  by (auto simp: Register_def evo split: sum.splits)

lemma evolves_Setup [evo]: "evolves s (snd (Setup c now salt p s))"
  by (auto simp: Setup_def evo split: sum.splits)

lemma evolves_UpdatePassword [evo]: "evolves s (snd (auth_UpdatePassword c now salt u pw s))"
  by (auto simp: auth_UpdatePassword_def evo split: sum.splits)

lemma evolves_ResetPassword [evo]: "evolves s (snd (ResetPassword c now rnd salt u s))"
proof -
  have "evolves s s'" if "with_users (user_UpdatePassword now (fst u) h) s = (r, s')" for h r s'
    using evolves_Password [of s now "fst u" h] that by simp
  then show ?thesis by (auto simp: ResetPassword_def Let_def split: sum.splits prod.splits)
qed

text \<open>An account is created, and its profile filled in at most.\<close>

lemma ldap_provision_states:
  obtains p r s1 where "with_users (user_Create now p) s = (r, s1)"
    and "snd (ldap_provision now name n e f s) = s1
      \<or> (\<exists>u. snd (ldap_provision now name n e f s) = snd (with_users (UpdateProfile now u) s1))"
proof -
  define p where "p = \<lparr>up_Username = (if n = [] then name else n),
    up_Email = (if e = [] then (if n = [] then name else n) @ ''@ldap.local'' else e), up_PasswordHash = [], up_IsAdmin = False\<rparr>"
  obtain r s1 where c: "with_users (user_Create now p) s = (r, s1)" by force
  have "snd (ldap_provision now name n e f s) = s1
      \<or> (\<exists>u. snd (ldap_provision now name n e f s) = snd (with_users (UpdateProfile now u) s1))"
    by (cases r; cases "ByUsername (au_users s1) name"; cases "f = []")
      (auto simp: ldap_provision_def Let_def p_def [symmetric] c)
  with c show thesis by (rule that)
qed

lemma evolves_ldap_provision [evo]: "evolves s (snd (ldap_provision now name n e f s))"
proof -
  obtain p r s1 where c: "with_users (user_Create now p) s = (r, s1)"
    and l: "snd (ldap_provision now name n e f s) = s1
      \<or> (\<exists>u. snd (ldap_provision now name n e f s) = snd (with_users (UpdateProfile now u) s1))"
    by (rule ldap_provision_states)
  have "evolves s s1" using evolves_Create [of s now p] c by simp
  then show ?thesis using l evolves_trans [OF _ evolves_Profile] by auto
qed

lemma evolves_loginLDAP [evo]: "evolves s (snd (loginLDAP c now name pw s))"
  by (simp add: loginLDAP_def evo split: option.splits sum.splits)

lemma evolves_count_failure [evo]: "evolves s (count_failure now key s)"
  by (simp add: count_failure_def evo)

lemma evolves_login_account [evo]: "evolves s (snd (login_account c now p s))"
proof -
  obtain r s' where l: "loginLDAP c now (lp_Username p) (lp_Password p) s = (r, s')" by force
  then have e: "evolves s s'" using evolves_loginLDAP [of s c now "lp_Username p" "lp_Password p"] by simp
  have f: "evolves s (count_failure now k s')" for k by (rule evolves_trans [OF e evolves_count_failure])
  show ?thesis using l e f by (auto simp: login_account_def Let_def evo split: sum.splits)
qed

lemma evolves_login_factor [evo]: "evolves s (snd (login_factor c now p u s))"
proof -
  obtain r s' where v: "verifyTOTP c now u (lp_TOTPCode p) s = (r, s')" by force
  then have e: "evolves s s'" using evolves_verifyTOTP [of s c now u "lp_TOTPCode p"] by simp
  have f: "evolves s (count_failure now k s')" for k by (rule evolves_trans [OF e evolves_count_failure])
  show ?thesis using v e f by (auto simp: login_factor_def split: sum.splits)
qed

text \<open>The states between the parts of a login.\<close>

lemma Login_states:
  assumes "login_account c now p (s0\<lparr>au_limiter := lim\<rparr>) = (r1, s1)" and "login_factor c now p u s1 = (r2, s2)"
    and "createSession c now rnd i ip agent (s2\<lparr>au_limiter := l\<rparr>) = (r4, s4)"
  shows "evolves s0 s1" and "evolves s0 s2" and "evolves s0 s4"
proof -
  have 1: "evolves (s0\<lparr>au_limiter := lim\<rparr>) s1" and 2: "evolves s1 s2" and 4: "evolves (s2\<lparr>au_limiter := l\<rparr>) s4"
    using evolves_login_account [of "s0\<lparr>au_limiter := lim\<rparr>" c now p] evolves_login_factor [of s1 c now p u]
      evolves_createSession [of "s2\<lparr>au_limiter := l\<rparr>" c now rnd i ip agent] assms by simp_all
  show e1: "evolves s0 s1" by (rule evolves_trans [OF evolves_limiter 1])
  show e2: "evolves s0 s2" by (rule evolves_trans [OF e1 2])
  show "evolves s0 s4" by (rule evolves_trans [OF e2 evolves_trans [OF evolves_limiter 4]])
qed

lemma evolves_Login [evo]: "evolves s (snd (Login c now rnd p s))"
proof -
  obtain ok lim where a: "allow now (login_key p) (au_limiter s) = (ok, lim)" by force
  obtain r1 s1 where l: "login_account c now p (s\<lparr>au_limiter := lim\<rparr>) = (r1, s1)" by force
  obtain r2 s2 where f: "login_factor c now p (projr r1) s1 = (r2, s2)" by force
  let ?s3 = "s2\<lparr>au_limiter := lim_reset (login_key p) (au_limiter s2)\<rparr>"
  obtain r4 s4 where g: "createSession c now rnd (fst (projr r1)) (lp_IP p) (lp_Agent p) ?s3 = (r4, s4)" by force
  show ?thesis
    using Login_states [OF l f g] a l f g
    by (auto simp: Login_def Let_def evo split: sum.splits)
qed

lemma evolves_VerifyPassword [evo]: "evolves s (snd (VerifyPassword c now name pw s))"
  by (auto simp: VerifyPassword_def Let_def count_failure_def evo split: sum.splits prod.splits)

lemma evolves_CreateSession [evo]: "evolves s (snd (CreateSession c now rnd u ip agent s))"
  using evolves_createSession [of s c now rnd "fst u" ip agent]
  by (cases "createSession c now rnd (fst u) ip agent s") (auto simp: CreateSession_def split: sum.splits)

text \<open>No operation takes away the rights of an administrator.\<close>

lemma evolves_admins:
  assumes "evolves s s'"
  shows "active_admins (au_users s) \<subseteq> active_admins (au_users s')"
proof -
  have "\<forall>y \<in> set ys. harmless (snd y) \<Longrightarrow> active_admins u \<subseteq> active_admins (fold user_step ys u)" for ys u
  proof (induction ys arbitrary: u)
    case (Cons y ys)
    then show ?case using user_step_admins [of y u] Cons.IH [of "user_step y u"] by auto
  qed simp
  then show ?thesis using assms unfolding evolves_def by metis
qed

section \<open>Reachable states\<close>

datatype auth_op =
    OpRegister "string option" register_params | OpSetup "string option" register_params
  | OpLogin "string option" login_params | OpGit string string | OpSession "string option" user string string
  | OpRequest string string string | OpLogout string
  | OpRevoke int int | OpRevokeOthers int string | OpRevokeAll int
  | OpBegin "(string \<times> string) option" "string option" user | OpEnable "nat \<Rightarrow> string option" user string
  | OpDisable user string | OpChange "string option" user string | OpReset "string option" "string option" user
  | OpReset2FA int | OpDatabase bool

definition auth_step :: "auth_cfg \<Rightarrow> int \<times> auth_op \<Rightarrow> auth_state \<Rightarrow> auth_state" where
  "auth_step c x s =
     (case x of (now, op) \<Rightarrow>
        (case op of
           OpRegister salt p \<Rightarrow> snd (Register c now salt p s)
         | OpSetup salt p \<Rightarrow> snd (Setup c now salt p s)
         | OpLogin rnd p \<Rightarrow> snd (Login c now rnd p s)
         | OpGit name pw \<Rightarrow> snd (VerifyPassword c now name pw s)
         | OpSession rnd u ip agent \<Rightarrow> snd (CreateSession c now rnd u ip agent s)
         | OpRequest raw ip agent \<Rightarrow> snd (AuthenticateRequest c now raw ip agent s)
         | OpLogout raw \<Rightarrow> snd (Logout c raw s)
         | OpRevoke i j \<Rightarrow> snd (RevokeSession i j s)
         | OpRevokeOthers i raw \<Rightarrow> snd (RevokeOtherSessions c i raw s)
         | OpRevokeAll i \<Rightarrow> snd (RevokeAllSessions i s)
         | OpBegin gen nonce u \<Rightarrow> snd (BeginTOTP c now gen nonce u s)
         | OpEnable rnd u code \<Rightarrow> snd (EnableTOTP c now rnd u code s)
         | OpDisable u code \<Rightarrow> snd (DisableTOTP c now u code s)
         | OpChange salt u pw \<Rightarrow> snd (auth_UpdatePassword c now salt u pw s)
         | OpReset rnd salt u \<Rightarrow> snd (ResetPassword c now rnd salt u s)
         | OpReset2FA i \<Rightarrow> snd (ResetTOTP now i s)
         | OpDatabase b \<Rightarrow> s\<lparr>au_users := (au_users s)\<lparr>us_down := b\<rparr>\<rparr>))"

lemma evolves_down: "evolves s (s\<lparr>au_users := (au_users s)\<lparr>us_down := b\<rparr>\<rparr>)"
proof -
  have "(au_users s)\<lparr>us_down := b\<rparr> = user_step (0, OpFault b) (au_users s)" by (simp add: user_step_def)
  then show ?thesis using user_ids_down [of b "au_users s"] unfolding evolves_def auth_wf_def
    by (auto simp: user_step_wf intro!: exI [of _ "[(0, OpFault b)]"])
qed

lemma evolves_step: "evolves s (auth_step c x s)"
proof (cases x)
  case (Pair now op)
  then show ?thesis
    by (cases op) (simp_all add: auth_step_def evo evolves_down RevokeSession_def RevokeOtherSessions_def RevokeAllSessions_def)
qed

lemma evolves_run: "evolves s (fold (auth_step c) xs s)"
proof (induction xs arbitrary: s)
  case (Cons x xs)
  then show ?case using evolves_trans [OF evolves_step Cons.IH] by simp
qed simp

lemma evolves_wf: "evolves s s' \<Longrightarrow> auth_wf s \<Longrightarrow> auth_wf s'"
  by (simp add: evolves_def)

lemma auth_New_wf: "auth_New sha kdf totp embedded users opts = (c, s) \<Longrightarrow> users_wf users \<Longrightarrow> auth_wf s"
  by (auto simp: auth_New_def auth_wf_def Let_def sql_wf)

end
