(* ===== verification/AuthClaims.thy ===== *)
theory AuthClaims
  imports AuthProps
begin

text \<open>
  What logging in promises: who gets a session and how long it is good for, that codes of the second factor
  are used once, that revoked sessions are gone, that the first administrator is created once, and that
  guessing is stopped.
\<close>

named_theorems frame \<open>parts of the state an operation leaves alone\<close>

section \<open>What the parts of a login leave alone\<close>

lemma with_users_frame [simp]:
  "au_sessions (snd (with_users op s)) = au_sessions s" "au_used (snd (with_users op s)) = au_used s"
  "au_secrets (snd (with_users op s)) = au_secrets s" "au_limiter (snd (with_users op s)) = au_limiter s"
  by (simp_all add: with_users_def split: prod.splits)

lemma with_users_frameD:
  assumes "with_users op s = (r, s')"
  shows "au_sessions s' = au_sessions s" "au_used s' = au_used s" "au_secrets s' = au_secrets s" "au_limiter s' = au_limiter s"
  using with_users_frame [of op s] assms by simp_all

definition other_tables :: "auth_state \<Rightarrow> session_row table \<times> used_code table \<times> secret_row table" where
  "other_tables s = (au_sessions s, au_used s, au_secrets s)"

lemma other_tables_simps [simp]:
  "other_tables (s\<lparr>au_limiter := l\<rparr>) = other_tables s" "other_tables (s\<lparr>au_users := us\<rparr>) = other_tables s"
  "other_tables (count_failure now k s) = other_tables s" "other_tables (snd (with_users op s)) = other_tables s"
  by (simp_all add: other_tables_def count_failure_def)

lemma other_tables_with_users: "with_users op s = (r, s') \<Longrightarrow> other_tables s' = other_tables s"
  using other_tables_simps(4) [of op s] by simp

lemma ldap_provision_frame [simp]:
  "other_tables (snd (ldap_provision now name n e f s)) = other_tables s"
  "au_limiter (snd (ldap_provision now name n e f s)) = au_limiter s"
proof -
  obtain p r s1 where c: "with_users (user_Create now p) s = (r, s1)"
    and l: "snd (ldap_provision now name n e f s) = s1
      \<or> (\<exists>u. snd (ldap_provision now name n e f s) = snd (with_users (UpdateProfile now u) s1))"
    by (rule ldap_provision_states)
  have "other_tables s1 = other_tables s" "au_limiter s1 = au_limiter s"
    using other_tables_with_users [OF c] with_users_frameD [OF c] by simp_all
  then show "other_tables (snd (ldap_provision now name n e f s)) = other_tables s"
    and "au_limiter (snd (ldap_provision now name n e f s)) = au_limiter s"
    using l by auto
qed

lemma loginLDAP_frame [simp]:
  "other_tables (snd (loginLDAP c now name pw s)) = other_tables s"
  "au_limiter (snd (loginLDAP c now name pw s)) = au_limiter s"
  by (simp_all add: loginLDAP_def split: option.splits sum.splits)

lemma other_tables_login_account [simp]: "other_tables (snd (login_account c now p s)) = other_tables s"
proof -
  obtain r s' where l: "loginLDAP c now (lp_Username p) (lp_Password p) s = (r, s')" by force
  then have "other_tables s' = other_tables s" using loginLDAP_frame(1) [of c now "lp_Username p" "lp_Password p" s] by simp
  then show ?thesis using l by (auto simp: login_account_def Let_def split: sum.splits)
qed

section \<open>The account that logs in\<close>

text \<open>The directory has accepted the name and the password.\<close>

definition ldap_accepts :: "auth_cfg \<Rightarrow> string \<Rightarrow> string \<Rightarrow> bool" where
  "ldap_accepts c username pw = (case ac_ldap c of None \<Rightarrow> False | Some directory \<Rightarrow> directory username pw \<noteq> None)"

text \<open>The account is in the table, with its present activity.\<close>

definition account_of :: "auth_state \<Rightarrow> user \<Rightarrow> bool" where
  "account_of s u \<longleftrightarrow> (\<exists>r. (fst u, r) \<in> set (rows (us_users (au_users s))) \<and> u_IsActive r = u_IsActive (snd u))"

lemma user_found:
  "ByUsername us name = Ok u \<Longrightarrow> u \<in> set (rows (us_users us))"
  "ByEmail us name = Ok u \<Longrightarrow> u \<in> set (rows (us_users us))"
  using tbl_find_Some [of _ "us_users us" "fst u" "snd u"]
  by (auto simp: ByUsername_def ByEmail_def user_scanOne_def split: if_splits option.splits)

lemma account_of_row: "u \<in> set (rows (us_users (au_users s))) \<Longrightarrow> account_of s u"
  by (cases u) (auto simp: account_of_def)

lemma created_account:
  assumes "auth_wf s" and "with_users (user_Create now p) s = (Ok u, s')"
  shows "u \<in> set (rows (us_users (au_users s')))" and "u_IsActive (snd u)"
proof -
  obtain us where c: "user_Create now p (au_users s) = (Ok u, us)" and s': "s' = s\<lparr>au_users := us\<rparr>"
    using assms(2) by (auto simp: with_users_def split: prod.splits sum.splits)
  have wf: "users_wf (au_users s)" using assms(1) by (simp add: auth_wf_def)
  obtain i r where u: "u = (i, r)" by force
  have f: "fst (user_Create now p (au_users s)) = Ok (i, r)" using c u by simp
  show "u \<in> set (rows (us_users (au_users s')))" "u_IsActive (snd u)"
    using user_Create_Ok [OF wf f] c s' u by simp_all
qed

lemma profile_account:
  assumes "(i, r) \<in> set (rows (us_users (au_users s)))"
  shows "account_of (snd (with_users (UpdateProfile now (i, r\<lparr>u_FullName := n\<rparr>)) s)) (i, r\<lparr>u_FullName := n\<rparr>)"
proof -
  let ?op = "UpdateProfile now (i, r\<lparr>u_FullName := n\<rparr>)"
  have "\<exists>q. (i, q) \<in> set (rows (us_users (snd (?op (au_users s))))) \<and> u_IsActive q = u_IsActive r"
    using assms by (fastforce simp: UpdateProfile_def user_update_def set_rows_update)
  moreover have "au_users (snd (with_users ?op s)) = snd (?op (au_users s))"
    by (simp add: with_users_def split: prod.splits)
  ultimately show ?thesis by (simp add: account_of_def)
qed

lemma ldap_provision_Ok:
  assumes wf: "auth_wf s" and l: "ldap_provision now name n e f s = (Ok u, s')"
  shows "account_of s' u"
proof -
  define p where "p = \<lparr>up_Username = (if n = [] then name else n),
    up_Email = (if e = [] then (if n = [] then name else n) @ ''@ldap.local'' else e), up_PasswordHash = [], up_IsAdmin = False\<rparr>"
  obtain r s1 where c: "with_users (user_Create now p) s = (r, s1)" by force
  show ?thesis
  proof (cases r)
    case (Inl err)
    then show ?thesis using l c account_of_row [OF user_found(1), of s1 name]
      by (auto simp: ldap_provision_def Let_def p_def [symmetric] split: sum.splits)
  next
    case (Inr v)
    obtain i q where v: "v = (i, q)" by force
    have row: "(i, q) \<in> set (rows (us_users (au_users s1)))" using created_account [OF wf] c Inr v by blast
    show ?thesis using l c Inr v account_of_row [OF row] profile_account [OF row]
      by (auto simp: ldap_provision_def Let_def p_def [symmetric] split: if_splits)
  qed
qed

lemma loginLDAP_Ok:
  assumes wf: "auth_wf s" and l: "loginLDAP c now name pw s = (Ok u, s')"
  shows "ldap_accepts c name pw" and "account_of s' u" and "ByUsername (au_users s) name = Ok v \<Longrightarrow> u = v \<and> s' = s"
proof -
  obtain directory ldapUser email0 fullName where d: "ac_ldap c = Some directory" "directory name pw = Some (ldapUser, email0, fullName)"
    using l by (auto simp: loginLDAP_def split: option.splits)
  then show "ldap_accepts c name pw" by (simp add: ldap_accepts_def)
  show "ByUsername (au_users s) name = Ok v \<Longrightarrow> u = v \<and> s' = s" using l d by (simp add: loginLDAP_def)
  show "account_of s' u"
    using l d account_of_row [OF user_found(1), of s name] account_of_row [OF user_found(2), of s email0] ldap_provision_Ok [OF wf]
    by (auto simp: loginLDAP_def split: sum.splits if_splits)
qed

text \<open>The password is the one of the local account, or the directory accepts it.\<close>

definition credentials_ok :: "auth_cfg \<Rightarrow> auth_state \<Rightarrow> login_params \<Rightarrow> user \<Rightarrow> bool" where
  "credentials_ok c s p u \<longleftrightarrow>
     (ByUsername (au_users s) (lp_Username p) = Ok u
        \<and> pw_Verify (ac_kdf c) (ac_hasher c) (lp_Password p) (u_PasswordHash (snd u)) = Ok ())
     \<or> ldap_accepts c (lp_Username p) (lp_Password p)"

lemma login_account_Ok:
  assumes wf: "auth_wf s" and l: "login_account c now p s = (Ok u, s1)"
  shows "credentials_ok c s p u \<and> u_IsActive (snd u) \<and> account_of s1 u"
proof (cases "ByUsername (au_users s) (lp_Username p)")
  case (Inl e)
  then obtain "loginLDAP c now (lp_Username p) (lp_Password p) s = (Ok u, s1)" "u_IsActive (snd u)"
    using l by (auto simp: login_account_def Let_def split: if_splits prod.splits sum.splits)
  then show ?thesis using loginLDAP_Ok [OF wf] by (auto simp: credentials_ok_def)
next
  case (Inr v)
  show ?thesis
  proof (cases "pw_Verify (ac_kdf c) (ac_hasher c) (lp_Password p) (u_PasswordHash (snd v))")
    case (Inr x)
    then show ?thesis using l \<open>ByUsername _ _ = Inr v\<close> account_of_row [OF user_found(1)]
      by (auto simp: login_account_def Let_def credentials_ok_def split: if_splits)
  next
    case (Inl x)
    then obtain ld: "loginLDAP c now (lp_Username p) (lp_Password p) s = (Ok u, s1)" and act: "u_IsActive (snd v)"
      using l \<open>ByUsername _ _ = Inr v\<close> by (auto simp: login_account_def Let_def split: if_splits prod.splits sum.splits)
    show ?thesis using loginLDAP_Ok [OF wf ld] act \<open>ByUsername _ _ = Inr v\<close> by (auto simp: credentials_ok_def)
  qed
qed

text \<open>The code is a valid TOTP code that was not used before, or an unused recovery code.\<close>

definition factor_ok :: "auth_cfg \<Rightarrow> int \<Rightarrow> auth_state \<Rightarrow> user \<Rightarrow> string \<Rightarrow> bool" where
  "factor_ok c now s u code =
     (case decryptSecret c (u_TOTPSecret (snd u)) of
        Inl _ \<Rightarrow> False
      | Inr secret \<Rightarrow>
          if ac_totp c now code secret
          then \<not> tbl_exists (\<lambda>_ r. uc_user r = fst u \<and> uc_hash r = hashString c code) (au_used s)
          else tbl_exists (\<lambda>_ r. sr_user r = fst u \<and> sr_name r = ''recovery'' \<and> sr_ciphertext r = hashString c code) (au_secrets s))"

lemma verifyTOTP_iff: "fst (verifyTOTP c now u code s) = Ok () \<longleftrightarrow> \<not> au_down s \<and> factor_ok c now s u code"
  using tbl_find_exists [of "\<lambda>_ r. sr_user r = fst u \<and> sr_name r = ''recovery'' \<and> sr_ciphertext r = hashString c code" "au_secrets s"]
  by (auto simp: verifyTOTP_def factor_ok_def checkAndMarkCode_def verifyRecoveryCode_def Let_def split: sum.splits option.splits if_splits)

lemma factor_ok_other_tables: "other_tables s = other_tables s' \<Longrightarrow> factor_ok c now s u code = factor_ok c now s' u code"
  by (simp add: factor_ok_def other_tables_def split: sum.splits)

lemma verifyTOTP_frame [simp]:
  "au_users (snd (verifyTOTP c now u code s)) = au_users s" "au_sessions (snd (verifyTOTP c now u code s)) = au_sessions s"
  "au_limiter (snd (verifyTOTP c now u code s)) = au_limiter s"
  by (auto simp: verifyTOTP_def checkAndMarkCode_def verifyRecoveryCode_def Let_def split: sum.splits option.splits)

lemma login_factor_frame [simp]:
  "au_users (snd (login_factor c now p u s)) = au_users s" "au_sessions (snd (login_factor c now p u s)) = au_sessions s"
  using verifyTOTP_frame [of c now u "lp_TOTPCode p" s]
  by (cases "verifyTOTP c now u (lp_TOTPCode p) s"; auto simp: login_factor_def count_failure_def split: sum.splits)+

lemma login_factor_Ok:
  assumes "\<not> au_down s"
  shows "fst (login_factor c now p u s) = Ok () \<longleftrightarrow>
     (u_TOTPEnabled (snd u) \<longrightarrow> lp_TOTPCode p \<noteq> [] \<and> factor_ok c now s u (lp_TOTPCode p))"
  using verifyTOTP_iff [of c now u "lp_TOTPCode p" s] assms
  by (cases "verifyTOTP c now u (lp_TOTPCode p) s") (auto simp: login_factor_def split: sum.splits)

lemma createSession_Ok:
  assumes "createSession c now rnd i ip agent s = (Ok (sess, raw), s')"
  shows "\<exists>r. (fst sess, r) \<in> set (rows (au_sessions s')) \<and> se_UserID r = i \<and> se_TokenHash r = token_Hash (ac_sha c) raw
      \<and> se_IP r = ip \<and> se_UserAgent r = agent \<and> se_ExpiresAt r = Some (now + session_life)"
    and "au_users s' = au_users s" and "\<not> au_down s"
  using assms by (auto simp: createSession_def token_New_def Let_def split: sum.splits option.splits if_splits)

section \<open>Sessions\<close>

lemma auth_wfD:
  assumes "auth_wf s"
  shows "users_wf (au_users s)" "tbl_wf (au_sessions s)" "unique_on se_TokenHash (au_sessions s)"
  using assms by (simp_all add: auth_wf_def)

text \<open>What a request with a session token gives.\<close>

lemma AuthenticateRequest_iff:
  assumes wf: "auth_wf s"
  shows "fst (AuthenticateRequest c now raw ip agent s) = Ok ((j, q), (i, r)) \<longleftrightarrow>
    \<not> au_down s \<and> (i, r) \<in> set (rows (au_sessions s)) \<and> se_TokenHash r = token_Hash (ac_sha c) raw
    \<and> \<not> session_expired now r
    \<and> \<not> (ac_bindIP c \<and> ip \<noteq> [] \<and> se_IP r \<noteq> [] \<and> se_IP r \<noteq> ip)
    \<and> \<not> (ac_bindAgent c \<and> agent \<noteq> [] \<and> se_UserAgent r \<noteq> [] \<and> se_UserAgent r \<noteq> agent)
    \<and> j = se_UserID r \<and> (j, q) \<in> set (rows (us_users (au_users s))) \<and> u_IsActive q" (is "?l \<longleftrightarrow> ?r")
proof
  assume ?l
  then have up: "\<not> au_down s"
    and f: "tbl_find (\<lambda>_ r. se_TokenHash r = token_Hash (ac_sha c) raw) (au_sessions s) = Some (i, r)"
    and u: "user_ByID (au_users s) (se_UserID r) = Ok (j, q)" and "u_IsActive q"
    and "\<not> session_expired now r"
    and "\<not> (ac_bindIP c \<and> ip \<noteq> [] \<and> se_IP r \<noteq> [] \<and> se_IP r \<noteq> ip)"
    and "\<not> (ac_bindAgent c \<and> agent \<noteq> [] \<and> se_UserAgent r \<noteq> [] \<and> se_UserAgent r \<noteq> agent)"
    by (auto simp: AuthenticateRequest_def Let_def split: if_splits option.splits sum.splits)
  then show ?r using tbl_find_Some [OF f] user_ByID_iff [OF auth_wfD(1) [OF wf], of "se_UserID r" j q] by blast
next
  assume r: ?r
  then have f: "tbl_find (\<lambda>_ r. se_TokenHash r = token_Hash (ac_sha c) raw) (au_sessions s) = Some (i, r)"
    and u: "user_ByID (au_users s) (se_UserID r) = Ok (j, q)"
    using find_unique [OF auth_wfD(3) [OF wf]] user_ByID_iff [OF auth_wfD(1) [OF wf], of "se_UserID r" j q] by blast+
  show ?l using r f u by (simp add: AuthenticateRequest_def Let_def)
qed

section \<open>Claims\<close>


definition plain_options :: auth_options where
  "plain_options = \<lparr>ao_Cipher = None, ao_MaxAttempt = 0, ao_Lockout = 0, ao_MinPasswordLength = 0,
     ao_BindIP = False, ao_BindAgent = False, ao_LDAP = None\<rparr>"

definition test_service :: "auth_cfg \<times> auth_state" where
  "test_service = auth_New (\<lambda>x. x) pad_kdf (\<lambda>now code secret. code = secret) [] users_New plain_options"


text \<open>C11: Login is sound. A login that succeeds was not locked out, the password is that of the named account or
  was accepted by the directory, the account is active, and, where the account has a second factor, the
  code given is a valid one that was not used before or an unused recovery code. The token returned
  authenticates that account, and no other, on every request from the same client until thirty days later.\<close>

theorem login_sound:
  assumes "auth_wf s" and "Login c now rnd p s = (Ok (u, sess, raw), s')"
  shows "fst (allow now (login_key p) (au_limiter s))
    \<and> credentials_ok c s p u \<and> u_IsActive (snd u)
    \<and> (u_TOTPEnabled (snd u) \<longrightarrow> lp_TOTPCode p \<noteq> [] \<and> factor_ok c now s u (lp_TOTPCode p))
    \<and> (\<forall>t \<le> now + session_life. \<exists>q r. fst (AuthenticateRequest c t raw (lp_IP p) (lp_Agent p) s') = Ok ((fst u, q), (fst sess, r)))"
proof -
  obtain ok lim where a: "allow now (login_key p) (au_limiter s) = (ok, lim)" by force
  let ?s = "s\<lparr>au_limiter := lim\<rparr>"
  obtain s1 where l: "login_account c now p ?s = (Ok u, s1)" and ok: ok
    using assms(2) a by (auto simp: Login_def Let_def split: if_splits prod.splits sum.splits)
  obtain s2 where f: "login_factor c now p u s1 = (Ok (), s2)"
    using assms(2) a ok l by (auto simp: Login_def Let_def split: prod.splits sum.splits)
  let ?s3 = "s2\<lparr>au_limiter := lim_reset (login_key p) (au_limiter s2)\<rparr>"
  have g: "createSession c now rnd (fst u) (lp_IP p) (lp_Agent p) ?s3 = (Ok (sess, raw), s')"
    using assms(2) a ok l f by (auto simp: Login_def Let_def split: prod.splits sum.splits)
  have wf: "auth_wf ?s" using assms(1) by (simp add: auth_wf_def)
  note acc = login_account_Ok [OF wf l]
  have cred: "credentials_ok c s p u" using acc by (simp add: credentials_ok_def)
  note g' = createSession_Ok [OF g]
  have s2: "au_users s2 = au_users s1" using login_factor_frame(1) [of c now p u s1] f by simp
  have up: "\<not> au_down s1" using g'(3) s2 by simp
  have "other_tables s1 = other_tables s" using other_tables_login_account [of c now p ?s] l by simp
  then have fac: "u_TOTPEnabled (snd u) \<longrightarrow> lp_TOTPCode p \<noteq> [] \<and> factor_ok c now s u (lp_TOTPCode p)"
    using login_factor_Ok [OF up, of c now p u] f factor_ok_other_tables [of s1 s] by simp
  have wf': "auth_wf s'" using evolves_wf [OF evolves_Login assms(1), of c now rnd p] assms(2) by simp
  obtain r where r: "(fst sess, r) \<in> set (rows (au_sessions s'))" "se_UserID r = fst u"
      "se_TokenHash r = token_Hash (ac_sha c) raw" "se_IP r = lp_IP p" "se_UserAgent r = lp_Agent p"
      "se_ExpiresAt r = Some (now + session_life)"
    using g'(1) by blast
  obtain q where q: "(fst u, q) \<in> set (rows (us_users (au_users s')))" "u_IsActive q"
    using acc g'(2) s2 by (auto simp: account_of_def)
  have "fst (AuthenticateRequest c t raw (lp_IP p) (lp_Agent p) s') = Ok ((fst u, q), (fst sess, r))"
    if "t \<le> now + session_life" for t
    using AuthenticateRequest_iff [OF wf'] r q g'(2) s2 up that by (auto simp: session_expired_def)
  with a ok cred acc fac show ?thesis by auto
qed

lemma login_factor_state:
  "fst (login_factor c now p u s) = Ok () \<Longrightarrow> \<exists>s'. login_factor c now p u s = (Ok (), s') \<and> au_users s' = au_users s \<and> au_sessions s' = au_sessions s"
  using login_factor_frame [of c now p u s] by (cases "login_factor c now p u s") auto

lemma Login_works:
  assumes up: "\<not> au_down s" and u: "ByUsername (au_users s) (lp_Username p) = Ok u" "u_IsActive (snd u)"
    and pw: "pw_Verify (ac_kdf c) (ac_hasher c) (lp_Password p) (u_PasswordHash (snd u)) = Ok ()"
    and tf: "u_TOTPEnabled (snd u) \<longrightarrow> lp_TOTPCode p \<noteq> [] \<and> factor_ok c now s u (lp_TOTPCode p)"
    and al: "fst (allow now (login_key p) (au_limiter s))"
    and tok: "token_New (ac_sha c) (Some raw) ''gls'' = Ok t" "\<not> tbl_exists (\<lambda>_ r. se_TokenHash r = tk_Hash t) (au_sessions s)"
  shows "\<exists>sess s'. Login c now (Some raw) p s = (Ok (u, sess, tk_Plain t), s')"
proof -
  obtain lim where a: "allow now (login_key p) (au_limiter s) = (True, lim)" using al by (metis prod.collapse)
  let ?s = "s\<lparr>au_limiter := lim\<rparr>"
  have l: "login_account c now p ?s = (Ok u, ?s)" using u pw by (simp add: login_account_def Let_def)
  have "factor_ok c now ?s u code = factor_ok c now s u code" for code by (rule factor_ok_other_tables) simp
  then have "fst (login_factor c now p u ?s) = Ok ()" using login_factor_Ok [of ?s c now p u] tf up by simp
  then obtain s2 where f: "login_factor c now p u ?s = (Ok (), s2)" "au_users s2 = au_users s" "au_sessions s2 = au_sessions s"
    using login_factor_state [of c now p u ?s] by auto
  let ?s3 = "s2\<lparr>au_limiter := lim_reset (login_key p) (au_limiter s2)\<rparr>"
  obtain sess s4 where g: "createSession c now (Some raw) (fst u) (lp_IP p) (lp_Agent p) ?s3 = (Ok (sess, tk_Plain t), s4)"
    using tok f(2,3) up by (simp add: createSession_def Let_def)
  show ?thesis using a l f(1) g by (simp add: Login_def Let_def)
qed

lemma allow_after_lockout:
  assumes "case li_attempts l key of None \<Rightarrow> True | Some rec \<Rightarrow> li_lockout l \<le> now - at_lastAt rec \<or> at_count rec < li_max l"
  shows "fst (allow now key l)"
  using assms by (auto simp: allow_def Let_def sweepLocked_def expired_def split: option.splits if_splits)


text \<open>The service of the examples after its setup, and a login to it.\<close>

definition root_params :: register_params where
  "root_params = \<lparr>rp_Username = ''root'', rp_Email = ''r@x'', rp_Password = ''longenough''\<rparr>"

definition root_state :: auth_state where
  "root_state = snd (Setup (fst test_service) 1 (Some ''salt'') root_params (snd test_service))"

definition root_login :: login_params where
  "root_login = \<lparr>lp_Username = ''root'', lp_Password = ''longenough'', lp_TOTPCode = [], lp_IP = ''ip'', lp_Agent = ''a''\<rparr>"

lemma test_service_simps [simp]:
  "ac_kdf (fst test_service) = pad_kdf" "ac_sha (fst test_service) = (\<lambda>x. x)"
  "ac_hasher (fst test_service) = NewHasher DefaultParams []"
  "au_users (snd test_service) = users_New" "au_sessions (snd test_service) = empty_table"
  "au_limiter (snd test_service) = newLoginLimiter 5 (minutes 15)" "ac_ldap (fst test_service) = None"
  by (simp_all add: test_service_def auth_New_def Let_def plain_options_def)

lemma root_account:
  obtains enc where "pw_Hash pad_kdf (Some ''salt'') (NewHasher DefaultParams []) ''longenough'' = Ok enc"
    and "root_state = (snd test_service)\<lparr>au_users := users_New\<lparr>us_users :=
      tbl_insert (new_user 1 \<lparr>up_Username = ''root'', up_Email = ''r@x'', up_PasswordHash = enc, up_IsAdmin = True\<rparr>) empty_table\<rparr>\<rparr>"
proof -
  obtain enc where e: "pw_Hash pad_kdf (Some ''salt'') (NewHasher DefaultParams []) ''longenough'' = Ok enc"
    by (simp add: pw_Hash_def Let_def)
  show thesis
    by (rule that [OF e]) (simp add: root_state_def Setup_def root_params_def isFirstUser_def users_New_def e with_users_def
        user_Create_def tbl_exists_def Let_def)
qed

lemma root_state_wf: "auth_wf root_state"
proof -
  have "auth_wf (snd test_service)"
    by (rule auth_New_wf [of _ _ _ _ users_New plain_options "fst test_service"])
      (simp_all add: test_service_def users_New_wf)
  then show ?thesis unfolding root_state_def by (rule evolves_wf [OF evolves_Setup])
qed

lemma root_ready:
  obtains u t where "\<not> au_down root_state" and "ByUsername (au_users root_state) (lp_Username root_login) = Ok u"
    and "u_IsActive (snd u)" and "\<not> u_TOTPEnabled (snd u)"
    and "pw_Verify (ac_kdf (fst test_service)) (ac_hasher (fst test_service)) (lp_Password root_login) (u_PasswordHash (snd u)) = Ok ()"
    and "li_attempts (au_limiter root_state) (login_key root_login) = None"
    and "token_New (ac_sha (fst test_service)) (Some ''abc'') ''gls'' = Ok t"
    and "\<not> tbl_exists (\<lambda>_ r. se_TokenHash r = tk_Hash t) (au_sessions root_state)" and "fst u = 1"
proof -
  obtain enc where e: "pw_Hash pad_kdf (Some ''salt'') (NewHasher DefaultParams []) ''longenough'' = Ok enc"
    and s: "root_state = (snd test_service)\<lparr>au_users := users_New\<lparr>us_users :=
      tbl_insert (new_user 1 \<lparr>up_Username = ''root'', up_Email = ''r@x'', up_PasswordHash = enc, up_IsAdmin = True\<rparr>) empty_table\<rparr>\<rparr>"
    by (rule root_account)
  obtain t where t: "token_New (\<lambda>x. x) (Some ''abc'') ''gls'' = Ok t" by (simp add: token_New_def Let_def)
  show thesis
    by (rule that [of "(1, new_user 1 \<lparr>up_Username = ''root'', up_Email = ''r@x'', up_PasswordHash = enc, up_IsAdmin = True\<rparr>)" t])
      (simp_all add: s t root_login_def users_New_def ByUsername_def user_scanOne_def tbl_find_def
        pw_Verify_own [OF pad_kdf_len e] newLoginLimiter_def tbl_exists_def)
qed


lemma root_logs_in:
  obtains u sess t s' where "Login (fst test_service) 2 (Some ''abc'') root_login root_state = (Ok (u, sess, t), s')"
  by (rule root_ready) (use Login_works [of root_state root_login _ "fst test_service" 2 "''abc''"] allow_after_lockout in fastforce)

theorem login_sound_witness:
  "\<exists>u sess raw s'. Login (fst test_service) 2 (Some ''abc'') root_login root_state = (Ok (u, sess, raw), s')
     \<and> credentials_ok (fst test_service) root_state root_login u
     \<and> (\<exists>q r. fst (AuthenticateRequest (fst test_service) 1000 raw ''ip'' ''a'' s') = Ok ((fst u, q), (fst sess, r)))"
proof -
  obtain u sess t s' where l: "Login (fst test_service) 2 (Some ''abc'') root_login root_state = (Ok (u, sess, t), s')"
    by (rule root_logs_in)
  have "(1000 :: int) \<le> 2 + session_life" by (simp add: session_life_def)
  with login_sound [OF root_state_wf l] l show ?thesis by (auto simp: root_login_def)
qed


text \<open>An account with the secret \<open>123456\<close> and its recovery codes.\<close>

definition totp_user :: user where
  "totp_user = (1, (new_user 1 \<lparr>up_Username = ''u'', up_Email = ''e'', up_PasswordHash = [], up_IsAdmin = False\<rparr>)
     \<lparr>u_TOTPEnabled := True, u_TOTPSecret := ''123456''\<rparr>)"


lemma Login_up:
  assumes "Login c now rnd p s = (Ok (u, sess, raw), s')"
  shows "\<not> au_down s'"
proof -
  obtain i ip agent s3 where "createSession c now rnd i ip agent s3 = (Ok (sess, raw), s')"
    using assms by (auto simp: Login_def Let_def split: if_splits prod.splits sum.splits)
  then show ?thesis using createSession_Ok(2,3) by metis
qed

lemma delete_sessions_wf: "auth_wf s \<Longrightarrow> auth_wf (snd (delete_sessions P s))"
  by (rule evolves_wf [OF evolves_delete_sessions])

lemma delete_sessions_request:
  assumes "auth_wf s" and "\<not> au_down s"
  shows "fst (AuthenticateRequest c now raw ip agent (snd (delete_sessions P s))) = Ok (u, x) \<longleftrightarrow>
     fst (AuthenticateRequest c now raw ip agent s) = Ok (u, x) \<and> \<not> P (fst x) (snd x)"
proof -
  obtain j q k r where ux: "u = (j, q)" "x = (k, r)" by (metis prod.collapse)
  let ?s = "snd (delete_sessions P s)"
  have "au_users ?s = au_users s" "(k, r) \<in> set (rows (au_sessions ?s)) \<longleftrightarrow> (k, r) \<in> set (rows (au_sessions s)) \<and> \<not> P k r"
    using assms(2) by (simp_all add: delete_sessions_def)
  then show ?thesis
    unfolding ux AuthenticateRequest_iff [OF assms(1)] AuthenticateRequest_iff [OF delete_sessions_wf [OF assms(1)]]
    by (simp only: fst_conv snd_conv) blast
qed

lemma request_session:
  assumes "auth_wf s" and "fst (AuthenticateRequest c now raw ip agent s) = Ok (u, x)"
  shows "se_UserID (snd x) = fst u" and "se_TokenHash (snd x) = token_Hash (ac_sha c) raw"
  using AuthenticateRequest_iff [OF assms(1), of c now raw ip agent "fst u" "snd u" "fst x" "snd x"] assms(2) by auto

text \<open>Revoked sessions are gone and others stay. After all sessions of an account were revoked no token
  authenticates it; after the other sessions were revoked exactly the current token still does; after
  one session was revoked exactly that session of that account is refused, and a foreign session key has no
  effect. Requests of other accounts are answered as before.\<close>

theorem sessions_revoked:
  assumes "auth_wf s" and "\<not> au_down s"
  shows "(fst (AuthenticateRequest c now raw ip agent (snd (RevokeAllSessions i s))) = Ok (u, x) \<longleftrightarrow>
      fst (AuthenticateRequest c now raw ip agent s) = Ok (u, x) \<and> fst u \<noteq> i)
    \<and> (fst (AuthenticateRequest c now raw ip agent (snd (RevokeOtherSessions c i cur s))) = Ok (u, x) \<longleftrightarrow>
      fst (AuthenticateRequest c now raw ip agent s) = Ok (u, x) \<and> (fst u = i \<longrightarrow> ac_sha c raw = ac_sha c cur))
    \<and> (fst (AuthenticateRequest c now raw ip agent (snd (RevokeSession i k s))) = Ok (u, x) \<longleftrightarrow>
      fst (AuthenticateRequest c now raw ip agent s) = Ok (u, x) \<and> \<not> (fst x = k \<and> fst u = i))"
proof (cases "fst (AuthenticateRequest c now raw ip agent s) = Ok (u, x)")
  case True
  note r = request_session [OF assms(1) True]
  show ?thesis
    unfolding RevokeAllSessions_def RevokeOtherSessions_def RevokeSession_def delete_sessions_request [OF assms]
    using True by (simp add: r)
next
  case False
  then show ?thesis
    unfolding RevokeAllSessions_def RevokeOtherSessions_def RevokeSession_def delete_sessions_request [OF assms] by simp
qed

theorem sessions_revoked_witness:
  "\<exists>u sess raw s'. Login (fst test_service) 2 (Some ''abc'') root_login root_state = (Ok (u, sess, raw), s')
     \<and> fst (AuthenticateRequest (fst test_service) 3 raw ''ip'' ''a'' (snd (RevokeAllSessions (fst u) s'))) \<noteq> Ok (u, sess)"
proof -
  obtain u sess t s' where l: "Login (fst test_service) 2 (Some ''abc'') root_login root_state = (Ok (u, sess, t), s')"
    by (rule root_logs_in)
  have "auth_wf s'" using evolves_wf [OF evolves_Login root_state_wf] l by (metis snd_conv)
  moreover have "\<not> au_down s'" using Login_up [OF l] .
  ultimately show ?thesis using sessions_revoked l by blast
qed

lemma isFirstUser_iff: "isFirstUser s = Ok b \<longleftrightarrow> \<not> au_down s \<and> b = (user_ids (au_users s) = {})"
  by (auto simp: isFirstUser_def user_ids_def)

lemma Setup_Ok:
  assumes "Setup c now salt p s = (Ok u, s')"
  shows "user_ids (au_users s) = {} \<and> (\<exists>hash. with_users (user_Create now \<lparr>up_Username = rp_Username p, up_Email = rp_Email p,
                up_PasswordHash = hash, up_IsAdmin = True\<rparr>) s = (Ok u, s'))"
proof -
  obtain b where b: "isFirstUser s = Ok b" using assms by (auto simp: Setup_def split: if_splits sum.splits)
  then have "b = (user_ids (au_users s) = {})" using isFirstUser_iff by blast
  then show ?thesis using assms b by (auto simp: Setup_def split: if_splits sum.splits)
qed

lemma Register_Ok:
  assumes "Register c now salt p s = (Ok u, s')"
  shows "\<exists>hash. with_users (user_Create now \<lparr>up_Username = rp_Username p, up_Email = rp_Email p,
                up_PasswordHash = hash, up_IsAdmin = (user_ids (au_users s) = {})\<rparr>) s = (Ok u, s')"
proof -
  obtain b where b: "isFirstUser s = Ok b" using assms by (auto simp: Register_def split: if_splits sum.splits)
  then have "b = (user_ids (au_users s) = {})" using isFirstUser_iff by blast
  then show ?thesis using assms b by (auto simp: Register_def split: if_splits sum.splits)
qed

lemma with_Create_Ok:
  assumes "auth_wf s" and "with_users (user_Create now p) s = (Ok u, s')"
  shows "u_IsAdmin (snd u) = up_IsAdmin p" and "user_ids (au_users s') = insert (fst u) (user_ids (au_users s))"
proof -
  obtain us where c: "user_Create now p (au_users s) = (Ok u, us)" and s': "s' = s\<lparr>au_users := us\<rparr>"
    using assms(2) by (auto simp: with_users_def split: prod.splits sum.splits)
  obtain i r where u: "u = (i, r)" by force
  have f: "fst (user_Create now p (au_users s)) = Ok (i, r)" using c u by simp
  show "u_IsAdmin (snd u) = up_IsAdmin p" "user_ids (au_users s') = insert (fst u) (user_ids (au_users s))"
    using user_Create_Ok [OF auth_wfD(1) [OF assms(1)] f] c s' u by (auto simp: user_ids_def)
qed

text \<open>There is one first administrator. Setup succeeds only on an instance without accounts and makes an
  administrator; from then on, whatever operations of the service follow, setup never succeeds again and
  registration never makes an administrator.\<close>

theorem setup_once:
  assumes "auth_wf s" and "Setup c now salt p s = (Ok u, s')" and "t = fold (auth_step c) xs s'"
  shows "user_ids (au_users s) = {} \<and> user_ids (au_users s') = {fst u} \<and> u_IsAdmin (snd u)
    \<and> \<not> is_ok (fst (Setup c now' salt' p' t))
    \<and> (\<forall>v t'. Register c now' salt' p' t = (Ok v, t') \<longrightarrow> \<not> u_IsAdmin (snd v))"
proof -
  obtain hash where h: "user_ids (au_users s) = {}" "with_users (user_Create now \<lparr>up_Username = rp_Username p,
      up_Email = rp_Email p, up_PasswordHash = hash, up_IsAdmin = True\<rparr>) s = (Ok u, s')"
    using Setup_Ok [OF assms(2)] by blast
  have ids: "user_ids (au_users s) = {}" "user_ids (au_users s') = {fst u}" "u_IsAdmin (snd u)"
    using h(1) with_Create_Ok [OF assms(1) h(2)] by simp_all
  have "auth_wf s'" using evolves_wf [OF evolves_Setup assms(1)] assms(2) by (metis snd_conv)
  then have wf: "auth_wf t" unfolding assms(3) by (rule evolves_wf [OF evolves_run])
  have "fst u \<in> user_ids (au_users t)" using evolves_run [of s' c xs] ids(2) assms(3) by (auto simp: evolves_def)
  then have ne: "user_ids (au_users t) \<noteq> {}" by blast
  have "\<not> is_ok (fst (Setup c now' salt' p' t))"
  proof (cases "fst (Setup c now' salt' p' t)")
    case (Inr v)
    then have "Setup c now' salt' p' t = (Ok v, snd (Setup c now' salt' p' t))" by (metis prod.collapse)
    then show ?thesis using Setup_Ok ne by blast
  qed simp
  moreover have "\<not> u_IsAdmin (snd v)" if reg: "Register c now' salt' p' t = (Ok v, t')" for v t'
  proof -
    obtain hash where "with_users (user_Create now' \<lparr>up_Username = rp_Username p', up_Email = rp_Email p',
        up_PasswordHash = hash, up_IsAdmin = (user_ids (au_users t) = {})\<rparr>) t = (Ok v, t')"
      using Register_Ok [OF reg] by blast
    from with_Create_Ok(1) [OF wf this] ne show ?thesis by simp
  qed
  ultimately show ?thesis using ids by blast
qed

theorem setup_once_witness:
  "\<not> is_ok (fst (Setup (fst test_service) 9 (Some ''pepper'') root_params
      (fold (auth_step (fst test_service)) [(4, OpReset2FA 1)] root_state)))"
proof -
  have wf: "auth_wf (snd test_service)"
    by (rule auth_New_wf [of _ _ _ _ users_New plain_options "fst test_service"]) (simp_all add: test_service_def users_New_wf)
  have "\<exists>u. fst (Setup (fst test_service) 1 (Some ''salt'') root_params (snd test_service)) = Ok u"
    by (simp add: Setup_def root_params_def isFirstUser_def users_New_def pw_Hash_def Let_def with_users_def user_Create_def
        tbl_exists_def user_ByID_def user_scanOne_def tbl_find_def)
  then obtain u where "Setup (fst test_service) 1 (Some ''salt'') root_params (snd test_service) = (Ok u, root_state)"
    unfolding root_state_def by (metis prod.collapse)
  from setup_once [OF wf this refl] show ?thesis by blast
qed

section \<open>Guessing\<close>

lemma login_account_wrong:
  assumes "login_account c now p s = (Err InvalidCredentials, s1)"
  shows "au_limiter s1 = lim_fail now (login_key p) (au_limiter s)"
proof -
  obtain r s' where l: "loginLDAP c now (lp_Username p) (lp_Password p) s = (r, s')" by force
  then have "au_limiter s' = au_limiter s" using loginLDAP_frame(2) [of c now "lp_Username p" "lp_Password p" s] by simp
  then show ?thesis using assms l by (auto simp: login_account_def Let_def count_failure_def split: sum.splits if_splits)
qed

lemma verifyTOTP_no_credentials: "fst (verifyTOTP c now u code s) \<noteq> Err InvalidCredentials"
  by (auto simp: verifyTOTP_def decryptSecret_def checkAndMarkCode_def verifyRecoveryCode_def Let_def
      split: sum.splits option.splits if_splits)

lemma login_factor_no_credentials: "fst (login_factor c now p u s) \<noteq> Err InvalidCredentials"
  using verifyTOTP_no_credentials [of c now u "lp_TOTPCode p" s]
  by (cases "verifyTOTP c now u (lp_TOTPCode p) s") (auto simp: login_factor_def split: sum.splits)

lemma createSession_no_credentials: "fst (createSession c now rnd i ip agent s) \<noteq> Err InvalidCredentials"
  by (auto simp: createSession_def Let_def split: sum.splits)

lemma Login_wrong:
  assumes "fst (Login c now rnd p s) = Err InvalidCredentials"
  shows "au_limiter (snd (Login c now rnd p s)) = lim_fail now (login_key p) (snd (allow now (login_key p) (au_limiter s)))"
proof -
  obtain ok lim where a: "allow now (login_key p) (au_limiter s) = (ok, lim)" by force
  obtain r s1 where l: "login_account c now p (s\<lparr>au_limiter := lim\<rparr>) = (r, s1)" by force
  show ?thesis
  proof (cases "ok \<and> is_ok r")
    case False
    then show ?thesis using assms a l login_account_wrong [of c now p "s\<lparr>au_limiter := lim\<rparr>" s1]
      by (cases r) (auto simp: Login_def Let_def split: if_splits)
  next
    case True
    then obtain u where r: "r = Ok u" by (cases r) auto
    obtain q s2 where f: "login_factor c now p u s1 = (q, s2)" by force
    let ?s3 = "s2\<lparr>au_limiter := lim_reset (login_key p) (au_limiter s2)\<rparr>"
    obtain x s4 where g: "createSession c now rnd (fst u) (lp_IP p) (lp_Agent p) ?s3 = (x, s4)" by force
    have "q \<noteq> Err InvalidCredentials" "x \<noteq> Err InvalidCredentials"
      using login_factor_no_credentials [of c now p u s1] f
        createSession_no_credentials [of c now rnd "fst u" "lp_IP p" "lp_Agent p" ?s3] g by simp_all
    then show ?thesis using assms a l True r f g
      by (cases q; cases x) (auto simp: Login_def Let_def split: if_splits)
  qed
qed

type_synonym guess = "int \<times> string option \<times> login_params"

fun guess_all :: "auth_cfg \<Rightarrow> guess list \<Rightarrow> auth_state \<Rightarrow> auth_state" where
  "guess_all c [] s = s"
| "guess_all c ((now, rnd, p) # gs) s = guess_all c gs (snd (Login c now rnd p s))"

fun all_wrong :: "auth_cfg \<Rightarrow> guess list \<Rightarrow> auth_state \<Rightarrow> bool" where
  "all_wrong c [] s \<longleftrightarrow> True"
| "all_wrong c ((now, rnd, p) # gs) s \<longleftrightarrow>
     fst (Login c now rnd p s) = Err InvalidCredentials \<and> all_wrong c gs (snd (Login c now rnd p s))"

text \<open>Times in order, none later than its predecessor by \<open>d\<close> or more.\<close>

fun close_in_time :: "int \<Rightarrow> int list \<Rightarrow> bool" where
  "close_in_time d (a # b # ts) \<longleftrightarrow> a \<le> b \<and> b - a < d \<and> close_in_time d (b # ts)"
| "close_in_time d _ \<longleftrightarrow> True"

lemma allow_const: "li_max (snd (allow now k l)) = li_max l" "li_lockout (snd (allow now k l)) = li_lockout l"
  using lim_step_const [of "(now, CallAllow k)" l] by simp_all

lemma fail_const: "li_max (lim_fail now k l) = li_max l" "li_lockout (lim_fail now k l) = li_lockout l"
  using lim_step_const [of "(now, CallFail k)" l] by simp_all

lemma Login_wrong_live:
  assumes "fst (Login c now rnd p s) = Err InvalidCredentials" and "now \<le> t" and "t - now < li_lockout (au_limiter s)"
  shows "live t (login_key p) (au_limiter (snd (Login c now rnd p s))) = 1 + live now (login_key p) (au_limiter s)"
    and "li_max (au_limiter (snd (Login c now rnd p s))) = li_max (au_limiter s)"
    and "li_lockout (au_limiter (snd (Login c now rnd p s))) = li_lockout (au_limiter s)"
  using live_fail [OF assms(2), of "login_key p" "login_key p" "snd (allow now (login_key p) (au_limiter s))"]
    live_allow [of now now "login_key p" "login_key p" "au_limiter s"] assms(3)
  unfolding Login_wrong [OF assms(1)] by (simp_all add: allow_const fail_const)

lemma guesses_counted:
  assumes "all_wrong c gs s" and "\<forall>g \<in> set gs. login_key (snd (snd g)) = key"
    and "close_in_time (li_lockout (au_limiter s)) (map fst gs @ [now])"
  shows "live now key (au_limiter (guess_all c gs s)) = int (length gs) + live (hd (map fst gs @ [now])) key (au_limiter s)
    \<and> li_max (au_limiter (guess_all c gs s)) = li_max (au_limiter s)"
  using assms
proof (induction c gs s rule: guess_all.induct)
  case (2 c t rnd p gs s)
  let ?s = "snd (Login c t rnd p s)" and ?t = "hd (map fst gs @ [now])"
  have close: "t \<le> ?t" "?t - t < li_lockout (au_limiter s)" "close_in_time (li_lockout (au_limiter s)) (map fst gs @ [now])"
    using "2.prems"(3) by (cases gs; simp)+
  have w: "fst (Login c t rnd p s) = Err InvalidCredentials" and k: "login_key p = key" using "2.prems"(1,2) by simp_all
  note one = Login_wrong_live [OF w close(1,2)]
  have "live now key (au_limiter (guess_all c gs ?s)) = int (length gs) + live ?t key (au_limiter ?s)
      \<and> li_max (au_limiter (guess_all c gs ?s)) = li_max (au_limiter ?s)"
    using "2.IH" "2.prems"(1,2) close(3) one(3) by simp
  then show ?case using one k by simp
qed simp

text \<open>Guessing is stopped. After as many wrong guesses for one name from one address as the limiter
  allows, each within the lockout time of the one before, the next login for that name from that address
  is refused as locked out, also with the right password and the right code, until the lockout time has passed.\<close>

theorem guessing_locks_out:
  assumes "0 < li_max (au_limiter s)" and "0 \<le> live (hd (map fst gs @ [now])) (login_key p) (au_limiter s)"
    and "all_wrong c gs s" and "\<forall>g \<in> set gs. login_key (snd (snd g)) = login_key p"
    and "close_in_time (li_lockout (au_limiter s)) (map fst gs @ [now])" and "li_max (au_limiter s) \<le> int (length gs)"
  shows "fst (Login c now rnd p (guess_all c gs s)) = Err LockedOut"
proof -
  let ?l = "au_limiter (guess_all c gs s)"
  have "li_max ?l \<le> live now (login_key p) ?l" "0 < li_max ?l"
    using guesses_counted [OF assms(3,4,5)] assms(1,2,6) by simp_all
  then have "\<not> fst (allow now (login_key p) ?l)" using allow_live [of ?l now "login_key p"] by simp
  then show ?thesis by (cases "allow now (login_key p) ?l") (simp add: Login_def Let_def)
qed

theorem guessing_locks_out_witness:
  "fst (Login (fst test_service) 500 (Some ''abc'') root_login (guess_all (fst test_service)
     [(10, None, root_login), (200, None, root_login)] ((snd test_service)\<lparr>au_limiter := newLoginLimiter 2 400\<rparr>))) = Err LockedOut"
proof -
  let ?s = "(snd test_service)\<lparr>au_limiter := newLoginLimiter 2 400\<rparr>"
  have "all_wrong (fst test_service) [(10, None, root_login), (200, None, root_login)] ?s"
    by (simp add: Login_def Let_def login_account_def loginLDAP_def count_failure_def ByUsername_def user_scanOne_def
        users_New_def tbl_find_def newLoginLimiter_def allow_def sweepLocked_def sweep_due_def lim_fail_def expired_def
        sweepInterval_def)
  moreover have "li_max (au_limiter ?s) = 2" "li_lockout (au_limiter ?s) = 400"
    "live (hd (map fst [(10, None, root_login), (200, None, root_login)] @ [500])) (login_key root_login) (au_limiter ?s) = 0"
    by (simp_all add: newLoginLimiter_def live_def)
  ultimately show ?thesis by (intro guessing_locks_out) simp_all
qed

section \<open>Enrolment\<close>

lemma secret_roundtrip:
  assumes "case ac_cipher c of None \<Rightarrow> \<not> has_prefix plain ''enc:'' | Some a \<Rightarrow> aead_ok a \<and> length nonce = ad_nonceSize a"
    and "encryptSecret c (Some nonce) plain = Ok stored"
  shows "decryptSecret c stored = Ok plain"
proof (cases "ac_cipher c")
  case None
  then show ?thesis using assms by (simp add: encryptSecret_def decryptSecret_def)
next
  case (Some a)
  then obtain sealed where e: "Encrypt (Some nonce) a plain = Ok sealed" and s: "stored = ''enc:'' @ hex_encode sealed"
    using assms(2) by (auto simp: encryptSecret_def split: sum.splits)
  have "Decrypt a sealed = Ok plain" using decrypt_encrypt [OF _ _ e] assms(1) Some by simp
  moreover have "has_prefix stored ''enc:''" "trim_prefix stored ''enc:'' = hex_encode sealed"
    using s by (simp_all add: has_prefix_def trim_prefix_def)
  ultimately show ?thesis using Some by (simp add: decryptSecret_def)
qed

text \<open>The account row after \<open>UpdateTOTP\<close>.\<close>

lemma with_UpdateTOTP:
  assumes "with_users (UpdateTOTP now i k e) s = (Ok x, s')"
  shows "\<not> au_down s" and "au_users s' = (au_users s)\<lparr>us_users := tbl_update (\<lambda>j _. j = i)
     (\<lambda>r. r\<lparr>u_TOTPSecret := k, u_TOTPEnabled := e, u_UpdatedAt := now\<rparr>) (us_users (au_users s))\<rparr>"
  using assms by (auto simp: with_users_def UpdateTOTP_def user_update_def split: if_splits)

lemma UpdateTOTP_row:
  assumes "auth_wf s" and "auth_wf s'" and "with_users (UpdateTOTP now i k e) s = (Ok x, s')" and "(i, r) \<in> set (rows (us_users (au_users s)))"
  shows "(i, r\<lparr>u_TOTPSecret := k, u_TOTPEnabled := e, u_UpdatedAt := now\<rparr>) \<in> set (rows (us_users (au_users s')))"
  using with_UpdateTOTP [OF assms(3)] assms(4) by (auto simp: set_rows_update)

lemma BeginTOTP_Ok:
  assumes "BeginTOTP c now gen nonce u s = (Ok x, s')"
  shows "\<exists>url enc. gen = Some (fst x, url) \<and> snd x = url \<and> encryptSecret c nonce (fst x) = Ok enc
     \<and> with_users (UpdateTOTP now (fst u) enc False) s = (Ok (), s')"
proof -
  obtain secret url where g: "gen = Some (secret, url)" using assms by (cases gen) (auto simp: BeginTOTP_def)
  obtain enc where e: "encryptSecret c nonce secret = Ok enc" using assms g by (cases "encryptSecret c nonce secret") (auto simp: BeginTOTP_def)
  obtain r t where w: "with_users (UpdateTOTP now (fst u) enc False) s = (r, t)" by force
  show ?thesis using assms g e w by (cases r) (auto simp: BeginTOTP_def)
qed

text \<open>Starting to enrol switches the second factor off. When an account that has a second factor asks for a new
  TOTP secret, which takes no code, its flag is cleared at once: from then on the password alone logs in,
  although turning the second factor off by the operation for it takes a valid code.\<close>

theorem begin_totp_drops_factor:
  assumes "auth_wf s" and "(i, r) \<in> set (rows (us_users (au_users s)))" and "u_IsActive r"
    and "BeginTOTP c now gen nonce (i, r) s = (Ok x, s')"
    and "lp_Username p = u_Username r" and "pw_Verify (ac_kdf c) (ac_hasher c) (lp_Password p) (u_PasswordHash r) = Ok ()"
    and "fst (allow t (login_key p) (au_limiter s'))"
    and "token_New (ac_sha c) (Some raw) ''gls'' = Ok tok" and "\<not> tbl_exists (\<lambda>_ r. se_TokenHash r = tk_Hash tok) (au_sessions s')"
  shows "\<exists>u sess s''. Login c t (Some raw) p s' = (Ok (u, sess, tk_Plain tok), s'') \<and> fst u = i \<and> \<not> u_TOTPEnabled (snd u)"
proof -
  obtain enc where w: "with_users (UpdateTOTP now i enc False) s = (Ok (), s')" using BeginTOTP_Ok [OF assms(4)] by auto
  have wf': "auth_wf s'" using evolves_wf [OF evolves_BeginTOTP assms(1)] assms(4) by (metis snd_conv)
  let ?r = "r\<lparr>u_TOTPSecret := enc, u_TOTPEnabled := False, u_UpdatedAt := now\<rparr>"
  have row: "(i, ?r) \<in> set (rows (us_users (au_users s')))" by (rule UpdateTOTP_row [OF assms(1) wf' w assms(2)])
  have up: "\<not> au_down s'" using with_UpdateTOTP [OF w] by simp
  have "ByUsername (au_users s') (lp_Username p) = Ok (i, ?r)"
    using ByUsername_iff [OF auth_wfD(1) [OF wf']] row up assms(5) by simp
  then have "\<exists>sess s''. Login c t (Some raw) p s' = (Ok ((i, ?r), sess, tk_Plain tok), s'')"
    using assms(3,6-9) up by (intro Login_works) simp_all
  then show ?thesis by fastforce
qed

text \<open>The example account with a second factor.\<close>

definition root_totp :: auth_state where
  "root_totp = snd (with_users (UpdateTOTP 2 1 ''123456'' True) root_state)"

lemma root_totp_wf: "auth_wf root_totp"
  unfolding root_totp_def by (rule evolves_wf [OF evolves_UpdateTOTP root_state_wf])

lemma root_totp_account:
  obtains r where "(1, r) \<in> set (rows (us_users (au_users root_totp)))" and "u_IsActive r" and "u_TOTPEnabled r"
    and "u_TOTPSecret r = ''123456''" and "u_Username r = ''root''" and "\<not> au_down root_totp"
    and "pw_Verify pad_kdf (NewHasher DefaultParams []) ''longenough'' (u_PasswordHash r) = Ok ()"
    and "au_sessions root_totp = empty_table" and "au_limiter root_totp = newLoginLimiter 5 (minutes 15)"
proof -
  obtain enc where e: "pw_Hash pad_kdf (Some ''salt'') (NewHasher DefaultParams []) ''longenough'' = Ok enc"
    and s: "root_state = (snd test_service)\<lparr>au_users := users_New\<lparr>us_users :=
      tbl_insert (new_user 1 \<lparr>up_Username = ''root'', up_Email = ''r@x'', up_PasswordHash = enc, up_IsAdmin = True\<rparr>) empty_table\<rparr>\<rparr>"
    by (rule root_account)
  show thesis
    by (rule that [of "(new_user 1 \<lparr>up_Username = ''root'', up_Email = ''r@x'', up_PasswordHash = enc, up_IsAdmin = True\<rparr>)
        \<lparr>u_TOTPSecret := ''123456'', u_TOTPEnabled := True, u_UpdatedAt := 2\<rparr>"])
      (simp_all add: root_totp_def s with_users_def UpdateTOTP_def user_update_def users_New_def tbl_update_def
        pw_Verify_own [OF pad_kdf_len e])
qed

theorem begin_totp_drops_factor_witness:
  "\<exists>r s' u sess t s''. (1, r) \<in> set (rows (us_users (au_users root_totp))) \<and> u_TOTPEnabled r
     \<and> snd (BeginTOTP (fst test_service) 3 (Some (''S'', ''url'')) None (1, r) root_totp) = s'
     \<and> Login (fst test_service) 4 (Some ''abc'') root_login s' = (Ok (u, sess, t), s'') \<and> fst u = 1"
proof -
  obtain r where r: "(1, r) \<in> set (rows (us_users (au_users root_totp)))" "u_IsActive r" "u_TOTPEnabled r"
      "u_Username r = ''root''" "\<not> au_down root_totp"
      "pw_Verify pad_kdf (NewHasher DefaultParams []) ''longenough'' (u_PasswordHash r) = Ok ()"
      "au_sessions root_totp = empty_table" "au_limiter root_totp = newLoginLimiter 5 (minutes 15)"
    by (rule root_totp_account)
  obtain s' where b: "BeginTOTP (fst test_service) 3 (Some (''S'', ''url'')) None (1, r) root_totp = (Ok (''S'', ''url''), s')"
    and s': "other_tables s' = other_tables root_totp" "au_limiter s' = au_limiter root_totp"
    using r(5) by (simp add: BeginTOTP_def encryptSecret_def test_service_def auth_New_def Let_def plain_options_def
        with_users_def UpdateTOTP_def user_update_def)
  obtain t where t: "token_New (\<lambda>x. x) (Some ''abc'') ''gls'' = Ok t" by (simp add: token_New_def Let_def)
  have "fst (allow 4 (login_key root_login) (au_limiter s'))"
    using s'(2) r(8) by (intro allow_after_lockout) (simp add: newLoginLimiter_def)
  moreover have "au_sessions s' = empty_table" using s'(1) r(7) by (simp add: other_tables_def)
  ultimately have "\<exists>u sess s''. Login (fst test_service) 4 (Some ''abc'') root_login s' = (Ok (u, sess, tk_Plain t), s'')
      \<and> fst u = 1 \<and> \<not> u_TOTPEnabled (snd u)"
    using r t by (intro begin_totp_drops_factor [OF root_totp_wf r(1,2) b]) (simp_all add: root_login_def tbl_exists_def)
  with r(1,3) b show ?thesis by (metis snd_conv)
qed

lemma vals_inserts: "vals (fold (\<lambda>h. tbl_insert (f h)) hs t) = f ` set hs \<union> vals t"
  by (induction hs arbitrary: t) auto

lemma EnableTOTP_Ok:
  assumes "EnableTOTP c now rnd u code s = (Ok recodes, s2)"
  obtains secret s1 where "decryptSecret c (u_TOTPSecret (snd u)) = Ok secret" and "ac_totp c now code secret"
    and "generateRecoveryCodes c rnd 10 = Ok (recodes, map (hashString c) recodes)"
    and "storeRecoveryCodes (fst u) (map (hashString c) recodes) s = (Ok (), s1)"
    and "with_users (UpdateTOTP now (fst u) (u_TOTPSecret (snd u)) True) s1 = (Ok (), s2)"
proof -
  obtain secret where d: "decryptSecret c (u_TOTPSecret (snd u)) = Ok secret" and t: "ac_totp c now code secret"
    using assms by (auto simp: EnableTOTP_def split: sum.splits if_splits)
  obtain rs hs where g: "generateRecoveryCodes c rnd 10 = Ok (rs, hs)"
    using assms d t by (auto simp: EnableTOTP_def split: sum.splits)
  then have hs: "hs = map (hashString c) rs" by (auto simp: generateRecoveryCodes_def Let_def split: option.splits)
  obtain x s1 where st: "storeRecoveryCodes (fst u) hs s = (x, s1)" by force
  obtain y s3 where w: "with_users (UpdateTOTP now (fst u) (u_TOTPSecret (snd u)) True) s1 = (y, s3)" by force
  have "rs = recodes \<and> x = Ok () \<and> y = Ok () \<and> s3 = s2"
    using assms d t g st w by (cases x; cases y) (auto simp: EnableTOTP_def)
  then show thesis using that [OF d t, of s1] g hs st w by simp
qed

lemma those_length: "those xs = Some ys \<Longrightarrow> length ys = length xs"
  by (induction xs arbitrary: ys) (auto split: option.splits)

text \<open>Enrolling works as a round trip. The secret shown to the user is the one that later codes are checked
  against, whether or not a cipher protects it at rest; with a valid code for it enrolment succeeds only for
  that secret, returns ten recovery codes, switches the second factor on, and each of the ten codes is
  then accepted at login as a recovery code.\<close>

theorem totp_enrolment:
  assumes "auth_wf s" and "case ac_cipher c of None \<Rightarrow> \<not> has_prefix secret ''enc:'' | Some a \<Rightarrow> aead_ok a \<and> length nonce = ad_nonceSize a"
    and "BeginTOTP c now (Some (secret, url)) (Some nonce) (i, r) s = (Ok x, s1)" and "user_ByID (au_users s1) i = Ok u1"
    and "EnableTOTP c now' rnd u1 code s1 = (Ok recodes, s2)"
  shows "x = (secret, url) \<and> decryptSecret c (u_TOTPSecret (snd u1)) = Ok secret \<and> ac_totp c now' code secret
    \<and> length recodes = 10
    \<and> (\<exists>u2. user_ByID (au_users s2) i = Ok u2 \<and> u_TOTPEnabled (snd u2) \<and> u_TOTPSecret (snd u2) = u_TOTPSecret (snd u1)
        \<and> (\<forall>k \<in> set recodes. \<forall>t. \<not> ac_totp c t k secret \<longrightarrow> factor_ok c t s2 u2 k))"
proof -
  obtain enc where x: "x = (secret, url)" and e: "encryptSecret c (Some nonce) secret = Ok enc"
    and w: "with_users (UpdateTOTP now i enc False) s = (Ok (), s1)"
    using BeginTOTP_Ok [OF assms(3)] by (cases x) auto
  have wf1: "auth_wf s1" using evolves_wf [OF evolves_BeginTOTP assms(1)] assms(3) by (metis snd_conv)
  have wf2: "auth_wf s2" using evolves_wf [OF evolves_EnableTOTP wf1] assms(5) by (metis snd_conv)
  obtain q where u1: "u1 = (i, q)" and row: "(i, q) \<in> set (rows (us_users (au_users s1)))"
    using user_ByID_iff [OF auth_wfD(1) [OF wf1]] assms(4) by (cases u1) auto
  have "u_TOTPSecret q = enc" using row with_UpdateTOTP(2) [OF w] by (auto simp: set_rows_update)
  then have d: "decryptSecret c (u_TOTPSecret q) = Ok secret" using secret_roundtrip [OF assms(2) e] by simp
  obtain s' where t: "ac_totp c now' code secret"
    and g: "generateRecoveryCodes c rnd 10 = Ok (recodes, map (hashString c) recodes)"
    and st: "storeRecoveryCodes i (map (hashString c) recodes) s1 = (Ok (), s')"
    and w2: "with_users (UpdateTOTP now' i (u_TOTPSecret q) True) s' = (Ok (), s2)"
    by (rule EnableTOTP_Ok [OF assms(5)]) (use d u1 in simp)
  have wf': "auth_wf s'" using evolves_wf [OF evolves_storeRecoveryCodes wf1] st by (metis snd_conv)
  have us': "au_users s' = au_users s1" and sec: "h \<in> set (map (hashString c) recodes) \<Longrightarrow>
      \<lparr>sr_user = i, sr_name = ''recovery'', sr_ciphertext = h\<rparr> \<in> vals (au_secrets s')" for h
    using st by (auto simp: storeRecoveryCodes_def Let_def vals_inserts split: if_splits)
  let ?q = "q\<lparr>u_TOTPSecret := u_TOTPSecret q, u_TOTPEnabled := True, u_UpdatedAt := now'\<rparr>"
  have "(i, ?q) \<in> set (rows (us_users (au_users s2)))" by (rule UpdateTOTP_row [OF wf' wf2 w2]) (use row us' in simp)
  moreover have "\<not> au_down s2" using with_UpdateTOTP [OF w2] by simp
  ultimately have u2: "user_ByID (au_users s2) i = Ok (i, ?q)" using user_ByID_iff [OF auth_wfD(1) [OF wf2]] by simp
  have "factor_ok c t s2 (i, ?q) k" if "k \<in> set recodes" "\<not> ac_totp c t k secret" for k t
    unfolding factor_ok_def tbl_exists_vals using d that(2) sec [of "hashString c k"] that(1) with_users_frameD(3) [OF w2]
    by (auto intro!: bexI [of _ "\<lparr>sr_user = i, sr_name = ''recovery'', sr_ciphertext = hashString c k\<rparr>"])
  moreover have "length recodes = 10" using g by (auto simp: generateRecoveryCodes_def Let_def split: option.splits dest!: those_length)
  ultimately show ?thesis using x d t u1 u2 by auto
qed

lemma those_Some: "those (map (\<lambda>_. Some x) xs) = Some (map (\<lambda>_. x) xs)"
  by (induction xs) simp_all

theorem totp_enrolment_witness:
  "\<exists>r s1 u1 recodes s2. BeginTOTP (fst test_service) 3 (Some (''654321'', ''url'')) (Some []) (1, r) root_totp = (Ok (''654321'', ''url''), s1)
     \<and> EnableTOTP (fst test_service) 4 (\<lambda>_. Some ''abcde'') u1 ''654321'' s1 = (Ok recodes, s2) \<and> length recodes = 10"
proof -
  let ?c = "fst test_service"
  obtain r where r: "(1, r) \<in> set (rows (us_users (au_users root_totp)))" "\<not> au_down root_totp" by (rule root_totp_account)
  have c: "ac_cipher ?c = None" "ac_totp ?c t a b = (a = b)" for t a b
    by (simp_all add: test_service_def auth_New_def Let_def plain_options_def)
  obtain s1 where b: "BeginTOTP ?c 3 (Some (''654321'', ''url'')) (Some []) (1, r) root_totp = (Ok (''654321'', ''url''), s1)"
    and w: "with_users (UpdateTOTP 3 1 ''654321'' False) root_totp = (Ok (), s1)"
    using r(2) by (simp add: BeginTOTP_def encryptSecret_def c with_users_def UpdateTOTP_def user_update_def)
  let ?q = "r\<lparr>u_TOTPSecret := ''654321'', u_TOTPEnabled := False, u_UpdatedAt := 3\<rparr>"
  have wf1: "auth_wf s1" using evolves_wf [OF evolves_BeginTOTP root_totp_wf] b by (metis snd_conv)
  have up: "\<not> au_down s1" using with_UpdateTOTP [OF w] by simp
  have u1: "user_ByID (au_users s1) 1 = Ok (1, ?q)"
    using UpdateTOTP_row [OF root_totp_wf wf1 w r(1)] user_ByID_iff [OF auth_wfD(1) [OF wf1]] up by simp
  obtain recodes s2 where e: "EnableTOTP ?c 4 (\<lambda>_. Some ''abcde'') (1, ?q) ''654321'' s1 = (Ok recodes, s2)"
    using up by (simp add: EnableTOTP_def decryptSecret_def has_prefix_def c generateRecoveryCodes_def those_Some Let_def
        storeRecoveryCodes_def with_users_def UpdateTOTP_def user_update_def)
  have "case ac_cipher ?c of None \<Rightarrow> \<not> has_prefix ''654321'' ''enc:'' | Some a \<Rightarrow> aead_ok a \<and> length [] = ad_nonceSize a"
    by (simp add: c has_prefix_def)
  from totp_enrolment [OF root_totp_wf this b u1 e] b e show ?thesis by blast
qed

end
