(* ===== verification/Pat.thy ===== *)
theory Pat
  imports AuthClaims
begin

text \<open>
  \<open>internal/service/pat/pat.go\<close>, personal access tokens, \<open>Perm\<close> of \<open>internal/domain/repo.go\<close>, and
  \<open>internal/service/auth/middleware.go\<close>, which finds the user of a request from a session or an access token.
  The state of the token service holds the tables \<open>access_tokens\<close> (\<open>token_hash\<close> is \<open>UNIQUE\<close>),
  \<open>token_classic_scopes\<close>, \<open>token_fine_grained_scopes\<close> and \<open>token_repositories\<close>.
\<close>

section \<open>Permission levels\<close>

datatype Perm = PermNone | PermRead | PermWrite | PermAdmin

primrec perm_int :: "Perm \<Rightarrow> int" where
  "perm_int PermNone = 0" | "perm_int PermRead = 1" | "perm_int PermWrite = 2" | "perm_int PermAdmin = 3"

instantiation Perm :: linorder
begin

definition less_eq_Perm :: "Perm \<Rightarrow> Perm \<Rightarrow> bool" where
  "less_eq_Perm p q \<longleftrightarrow> perm_int p \<le> perm_int q"

definition less_Perm :: "Perm \<Rightarrow> Perm \<Rightarrow> bool" where
  "less_Perm p q \<longleftrightarrow> perm_int p < perm_int q"

instance
proof
  fix x y z :: Perm
  show "x < y \<longleftrightarrow> x \<le> y \<and> \<not> y \<le> x" "x \<le> x" "x \<le> y \<or> y \<le> x"
    by (auto simp: less_eq_Perm_def less_Perm_def)
  show "x \<le> y \<Longrightarrow> y \<le> z \<Longrightarrow> x \<le> z" by (simp add: less_eq_Perm_def)
  show "x \<le> y \<Longrightarrow> y \<le> x \<Longrightarrow> x = y" by (cases x; cases y) (simp_all add: less_eq_Perm_def)
qed

end

definition ParsePerm :: "string \<Rightarrow> Perm" where
  "ParsePerm s =
     (if s = ''read'' then PermRead else if s = ''write'' then PermWrite else if s = ''admin'' then PermAdmin else PermNone)"

primrec perm_String :: "Perm \<Rightarrow> string" where
  "perm_String PermNone = ''none''" | "perm_String PermRead = ''read''"
| "perm_String PermWrite = ''write''" | "perm_String PermAdmin = ''admin''"

lemma ParsePerm_String [simp]: "ParsePerm (perm_String p) = p"
  by (cases p) (simp_all add: ParsePerm_def)

section \<open>Tokens\<close>

record token_grant =
  tg_RepoID :: int
  tg_Permission :: string

record AccessToken =
  ak_UserID :: int
  ak_Name :: string
  ak_TokenHash :: string
  ak_Kind :: string
  ak_Scopes :: "string list"
  ak_RepoGrants :: "token_grant list"
  ak_LastUsedAt :: "int option"
  ak_ExpiresAt :: "int option"

record token_row =
  tr_UserID :: int
  tr_Name :: string
  tr_TokenHash :: string
  tr_Kind :: string
  tr_LastUsedAt :: "int option"
  tr_ExpiresAt :: "int option"

record pat_state =
  pt_tokens :: "token_row table"
  pt_classic :: "(int \<times> string) table"
  pt_fine :: "(int \<times> string) table"
  pt_repos :: "(int \<times> token_grant) table"
  pt_down :: bool

datatype pat_error = PatNotFound | PatRandom | PatConstraint | PatDriver

record pat_params =
  pm_UserID :: int
  pm_Name :: string
  pm_Kind :: string
  pm_Scopes :: "string list"
  pm_Grants :: "token_grant list"
  pm_ExpiresAt :: "int option"

definition TokenClassic :: string where "TokenClassic = ''classic''"
definition TokenFineGrained :: string where "TokenFineGrained = ''fine_grained''"

definition pat_New :: pat_state where
  "pat_New = \<lparr>pt_tokens = empty_table, pt_classic = empty_table, pt_fine = empty_table, pt_repos = empty_table, pt_down = False\<rparr>"

definition insert_all :: "'r list \<Rightarrow> 'r table \<Rightarrow> 'r table" where
  "insert_all rs t = fold tbl_insert rs t"

definition insertScopes :: "int \<Rightarrow> string \<Rightarrow> string list \<Rightarrow> token_grant list \<Rightarrow> pat_state \<Rightarrow> pat_state" where
  "insertScopes tokenID kind scopes grants s =
     (if kind = TokenFineGrained
      then s\<lparr>pt_fine := insert_all (map (Pair tokenID) scopes) (pt_fine s),
             pt_repos := insert_all (map (Pair tokenID) grants) (pt_repos s)\<rparr>
      else s\<lparr>pt_classic := insert_all (map (Pair tokenID) scopes) (pt_classic s)\<rparr>)"

definition pat_Create ::
  "(string \<Rightarrow> string) \<Rightarrow> string option \<Rightarrow> pat_params \<Rightarrow> pat_state \<Rightarrow> (pat_error + (int \<times> AccessToken) \<times> string) \<times> pat_state" where
  "pat_Create sha rnd p s =
     (let kind = (if pm_Kind p = [] then TokenClassic else pm_Kind p) in
      case token_New sha rnd ''gitli'' of
        Inl _ \<Rightarrow> (Err PatRandom, s)
      | Inr tok \<Rightarrow>
          if pt_down s then (Err PatDriver, s)
          else if tbl_exists (\<lambda>_ r. tr_TokenHash r = tk_Hash tok) (pt_tokens s) then (Err PatConstraint, s)
          else let i = seq (pt_tokens s) + 1;
                   s' = s\<lparr>pt_tokens := tbl_insert \<lparr>tr_UserID = pm_UserID p, tr_Name = pm_Name p, tr_TokenHash = tk_Hash tok,
                          tr_Kind = kind, tr_LastUsedAt = None, tr_ExpiresAt = pm_ExpiresAt p\<rparr> (pt_tokens s)\<rparr>
               in (Ok ((i, \<lparr>ak_UserID = pm_UserID p, ak_Name = pm_Name p, ak_TokenHash = [], ak_Kind = kind,
                          ak_Scopes = pm_Scopes p, ak_RepoGrants = pm_Grants p, ak_LastUsedAt = None,
                          ak_ExpiresAt = pm_ExpiresAt p\<rparr>), tk_Plain tok),
                   insertScopes i kind (pm_Scopes p) (pm_Grants p) s'))"

definition token_of :: "token_row \<Rightarrow> AccessToken" where
  "token_of r = \<lparr>ak_UserID = tr_UserID r, ak_Name = tr_Name r, ak_TokenHash = tr_TokenHash r, ak_Kind = tr_Kind r,
     ak_Scopes = [], ak_RepoGrants = [], ak_LastUsedAt = tr_LastUsedAt r, ak_ExpiresAt = tr_ExpiresAt r\<rparr>"

definition pat_List :: "pat_state \<Rightarrow> int \<Rightarrow> pat_error + (int \<times> AccessToken) list" where
  "pat_List s userID =
     (if pt_down s then Err PatDriver
      else Ok (map (\<lambda>(i, r). (i, token_of r)) (tbl_select (\<lambda>_ r. tr_UserID r = userID) (pt_tokens s))))"

definition pat_Revoke :: "int \<Rightarrow> int \<Rightarrow> pat_state \<Rightarrow> (pat_error + unit) \<times> pat_state" where
  "pat_Revoke userID tokenID s =
     (if pt_down s then (Err PatDriver, s)
      else (Ok (), s\<lparr>pt_tokens := tbl_delete (\<lambda>i r. i = tokenID \<and> tr_UserID r = userID) (pt_tokens s)\<rparr>))"

definition of_token :: "int \<Rightarrow> (int \<times> 'a) table \<Rightarrow> 'a list" where
  "of_token i t = map (\<lambda>(_, r). snd r) (tbl_select (\<lambda>_ r. fst r = i) t)"

definition loadScopes :: "pat_state \<Rightarrow> int \<Rightarrow> AccessToken \<Rightarrow> pat_error + AccessToken" where
  "loadScopes s i t =
     (if pt_down s then Err PatDriver
      else if ak_Kind t = TokenFineGrained
      then Ok (t\<lparr>ak_Scopes := ak_Scopes t @ of_token i (pt_fine s), ak_RepoGrants := ak_RepoGrants t @ of_token i (pt_repos s)\<rparr>)
      else Ok (t\<lparr>ak_Scopes := ak_Scopes t @ of_token i (pt_classic s)\<rparr>))"

definition pat_Resolve ::
  "(string \<Rightarrow> string) \<Rightarrow> int \<Rightarrow> string \<Rightarrow> pat_state \<Rightarrow> (pat_error + int \<times> AccessToken) \<times> pat_state" where
  "pat_Resolve sha now raw s =
     (let hash = token_Hash sha raw in
      if pt_down s then (Err PatDriver, s)
      else case tbl_find (\<lambda>_ r. tr_TokenHash r = hash) (pt_tokens s) of
        None \<Rightarrow> (Err PatNotFound, s)
      | Some (i, r) \<Rightarrow>
          if (case tr_ExpiresAt r of None \<Rightarrow> False | Some e \<Rightarrow> e < now) then (Err PatNotFound, s)
          else case loadScopes s i (token_of r) of
            Inl e \<Rightarrow> (Err e, s)
          | Inr t \<Rightarrow> (Ok (i, t), s\<lparr>pt_tokens := tbl_update (\<lambda>j _. j = i) (\<lambda>x. x\<lparr>tr_LastUsedAt := Some now\<rparr>) (pt_tokens s)\<rparr>))"

definition HasRepoPermission :: "AccessToken \<Rightarrow> int \<Rightarrow> Perm \<Rightarrow> bool" where
  "HasRepoPermission t repoID need =
     (if ak_Kind t = TokenClassic then list_ex (\<lambda>sc. sc = ''repo'' \<or> sc = ''*'') (ak_Scopes t)
      else case List.find (\<lambda>g. tg_RepoID g = repoID) (ak_RepoGrants t) of
        None \<Rightarrow> False
      | Some g \<Rightarrow> ParsePerm (tg_Permission g) \<ge> need)"

section \<open>Requests\<close>

record http_request =
  rq_Authorization :: string
  rq_cookie :: "string option"
  rq_XForwardedFor :: string
  rq_RemoteAddr :: string
  rq_UserAgent :: string

record req_ctx =
  cx_user :: "user option"
  cx_token :: "(int \<times> AccessToken) option"

definition WithUser :: "user \<Rightarrow> req_ctx \<Rightarrow> req_ctx" where "WithUser u ctx = ctx\<lparr>cx_user := Some u\<rparr>"
definition UserFrom :: "req_ctx \<Rightarrow> user option" where "UserFrom ctx = cx_user ctx"
definition WithToken :: "int \<times> AccessToken \<Rightarrow> req_ctx \<Rightarrow> req_ctx" where "WithToken t ctx = ctx\<lparr>cx_token := Some t\<rparr>"
definition TokenFrom :: "req_ctx \<Rightarrow> (int \<times> AccessToken) option" where "TokenFrom ctx = cx_token ctx"

definition empty_ctx :: req_ctx where "empty_ctx = \<lparr>cx_user = None, cx_token = None\<rparr>"

definition extractCredential :: "http_request \<Rightarrow> string" where
  "extractCredential r =
     (if has_prefix (rq_Authorization r) ''Bearer '' then trim_space (trim_prefix (rq_Authorization r) ''Bearer '')
      else case rq_cookie r of Some v \<Rightarrow> v | None \<Rightarrow> [])"

definition isSessionToken :: "string \<Rightarrow> bool" where
  "isSessionToken raw = has_prefix raw ''gls_''"

text \<open>The host of \<open>net.SplitHostPort\<close>: what is before the last colon, between brackets for an IPv6 address.\<close>

definition after_byte :: "char \<Rightarrow> string \<Rightarrow> string" where
  "after_byte c s = drop (Suc (length (takeWhile (\<lambda>x. x \<noteq> c) s))) s"

definition before_last :: "char \<Rightarrow> string \<Rightarrow> string" where
  "before_last c s = rev (after_byte c (rev s))"

definition SplitHostPort :: "string \<Rightarrow> string option" where
  "SplitHostPort hp =
     (if CHR '':'' \<notin> set hp then None
      else if hd hp = CHR ''['' then
        (let host = tl (before_byte (CHR '']'') hp); rest = after_byte (CHR '']'') hp in
         if CHR '']'' \<notin> set hp \<or> rest = [] \<or> hd rest \<noteq> CHR '':'' \<or> CHR '':'' \<in> set (tl rest)
            \<or> CHR ''['' \<in> set (tl hp) \<or> CHR '']'' \<in> set rest then None
         else Some host)
      else
        (let host = before_last (CHR '':'') hp in
         if CHR '':'' \<in> set host \<or> CHR ''['' \<in> set hp \<or> CHR '']'' \<in> set hp then None else Some host))"

definition clientMeta :: "http_request \<Rightarrow> string \<times> string" where
  "clientMeta r =
     ((if rq_XForwardedFor r \<noteq> [] then
         (if CHR '','' \<in> set (rq_XForwardedFor r) then trim_space (before_byte (CHR '','') (rq_XForwardedFor r))
          else trim_space (rq_XForwardedFor r))
       else case SplitHostPort (rq_RemoteAddr r) of Some host \<Rightarrow> host | None \<Rightarrow> rq_RemoteAddr r),
      rq_UserAgent r)"

text \<open>The bearer token as an access token; the token service is missing in a service without a resolver.\<close>

definition bearer_user ::
  "auth_cfg \<Rightarrow> bool \<Rightarrow> int \<Rightarrow> string \<Rightarrow> auth_state \<times> pat_state \<Rightarrow> req_ctx \<times> auth_state \<times> pat_state" where
  "bearer_user c resolver now raw st =
     (case st of (s, ps) \<Rightarrow>
        if \<not> resolver then (empty_ctx, s, ps)
        else case pat_Resolve (ac_sha c) now raw ps of
          (Inl _, ps') \<Rightarrow> (empty_ctx, s, ps')
        | (Inr tok, ps') \<Rightarrow>
            (case user_ByID (au_users s) (ak_UserID (snd tok)) of
               Inl _ \<Rightarrow> (empty_ctx, s, ps')
             | Inr u \<Rightarrow> (WithUser u (WithToken tok empty_ctx), s, ps')))"

definition AuthenticateMiddleware ::
  "auth_cfg \<Rightarrow> bool \<Rightarrow> int \<Rightarrow> http_request \<Rightarrow> auth_state \<times> pat_state \<Rightarrow> req_ctx \<times> auth_state \<times> pat_state" where
  "AuthenticateMiddleware c resolver now r st =
     (let raw = extractCredential r in
      if raw = [] then (empty_ctx, st)
      else if isSessionToken raw then
        (case clientMeta r of (ip, agent) \<Rightarrow>
         case AuthenticateRequest c now raw ip agent (fst st) of
           (Inr (u, _), s') \<Rightarrow> (WithUser u empty_ctx, s', snd st)
         | (Inl _, s') \<Rightarrow> bearer_user c resolver now raw (s', snd st))
      else bearer_user c resolver now raw st)"

section \<open>Invariant\<close>

text \<open>Scopes and grants belong to keys that were handed out.\<close>

definition pat_wf :: "pat_state \<Rightarrow> bool" where
  "pat_wf s \<longleftrightarrow> tbl_wf (pt_tokens s) \<and> unique_on tr_TokenHash (pt_tokens s)
     \<and> (\<forall>x \<in> vals (pt_classic s) \<union> vals (pt_fine s). fst x \<le> seq (pt_tokens s))
     \<and> (\<forall>x \<in> vals (pt_repos s). fst x \<le> seq (pt_tokens s))"

lemma vals_insert_all: "vals (insert_all rs t) = set rs \<union> vals t"
  unfolding insert_all_def by (induction rs arbitrary: t) auto

lemma of_token_insert_all: "of_token i (insert_all (map (Pair j) xs) t) = of_token i t @ (if i = j then xs else [])"
  unfolding insert_all_def
proof (induction xs arbitrary: t)
  case (Cons x xs)
  then show ?case by (simp add: of_token_def select_insert)
qed simp

lemma of_token_fresh: "\<forall>x \<in> vals t. fst x \<le> k \<Longrightarrow> of_token (k + 1) t = []"
proof -
  assume "\<forall>x \<in> vals t. fst x \<le> k"
  then have "fst r \<le> k" if "(i, r) \<in> set (rows t)" for i r using that by blast
  then have "fst r \<noteq> k + 1" if "(i, r) \<in> set (rows t)" for i r using that by fastforce
  then have "tbl_select (\<lambda>_ r. fst r = k + 1) t = []" unfolding tbl_select_def filter_empty_conv by auto
  then show ?thesis by (simp add: of_token_def)
qed

lemma pat_New_wf: "pat_wf pat_New"
  by (simp add: pat_wf_def pat_New_def sql_wf)

lemma pat_Create_wf:
  assumes "pat_wf s"
  shows "pat_wf (snd (pat_Create sha rnd p s))"
proof -
  have le: "fst x \<le> seq (pt_tokens s) + 1" if "x \<in> vals (pt_classic s) \<union> vals (pt_fine s)" for x
    using assms that unfolding pat_wf_def by (meson Un_iff zle_add1_eq_le order.strict_implies_order)
  have le': "fst x \<le> seq (pt_tokens s) + 1" if "x \<in> vals (pt_repos s)" for x
    using assms that unfolding pat_wf_def by (meson Un_iff zle_add1_eq_le order.strict_implies_order)
  show ?thesis using assms le le'
    by (auto simp: pat_Create_def Let_def insertScopes_def pat_wf_def vals_insert_all sql_wf split: sum.splits intro!: unique_on_insert)
qed

lemma pat_Revoke_wf: "pat_wf s \<Longrightarrow> pat_wf (snd (pat_Revoke u i s))"
  by (auto simp: pat_Revoke_def pat_wf_def sql_wf unique_on_delete)

lemma pat_Resolve_wf:
  assumes "pat_wf s"
  shows "pat_wf (snd (pat_Resolve sha now raw s))"
proof -
  have "pat_wf (s\<lparr>pt_tokens := tbl_update (\<lambda>j _. j = i) (\<lambda>x. x\<lparr>tr_LastUsedAt := Some now\<rparr>) (pt_tokens s)\<rparr>)" for i
    using assms by (auto simp: pat_wf_def sql_wf intro!: unique_on_update)
  then show ?thesis using assms by (auto simp: pat_Resolve_def Let_def split: option.splits sum.splits)
qed

section \<open>Resolving\<close>

definition token_expired :: "int \<Rightarrow> token_row \<Rightarrow> bool" where
  "token_expired now r = (case tr_ExpiresAt r of None \<Rightarrow> False | Some e \<Rightarrow> e < now)"

text \<open>The token of a row with what belongs to it.\<close>

definition full_token :: "pat_state \<Rightarrow> int \<Rightarrow> token_row \<Rightarrow> AccessToken" where
  "full_token s i r = (if tr_Kind r = TokenFineGrained
     then (token_of r)\<lparr>ak_Scopes := of_token i (pt_fine s), ak_RepoGrants := of_token i (pt_repos s)\<rparr>
     else (token_of r)\<lparr>ak_Scopes := of_token i (pt_classic s)\<rparr>)"

lemma loadScopes_full: "\<not> pt_down s \<Longrightarrow> loadScopes s i (token_of r) = Ok (full_token s i r)"
  by (simp add: loadScopes_def full_token_def token_of_def)

lemma pat_Resolve_iff:
  assumes wf: "pat_wf s"
  shows "fst (pat_Resolve sha now raw s) = Ok (i, t) \<longleftrightarrow>
    \<not> pt_down s \<and> (\<exists>r. (i, r) \<in> set (rows (pt_tokens s)) \<and> tr_TokenHash r = token_Hash sha raw \<and> \<not> token_expired now r
       \<and> t = full_token s i r)" (is "?l \<longleftrightarrow> ?r")
proof
  assume ?l
  then obtain r where "\<not> pt_down s" and f: "tbl_find (\<lambda>_ r. tr_TokenHash r = token_Hash sha raw) (pt_tokens s) = Some (i, r)"
    and "\<not> token_expired now r" and "t = full_token s i r"
    by (auto simp: pat_Resolve_def Let_def token_expired_def loadScopes_full split: if_splits option.splits sum.splits)
  then show ?r using tbl_find_Some [OF f] by blast
next
  assume ?r
  then obtain r where r: "\<not> pt_down s" "(i, r) \<in> set (rows (pt_tokens s))" "tr_TokenHash r = token_Hash sha raw"
    "\<not> token_expired now r" "t = full_token s i r" by blast
  have "unique_on tr_TokenHash (pt_tokens s)" using wf by (simp add: pat_wf_def)
  then have "tbl_find (\<lambda>_ r. tr_TokenHash r = token_Hash sha raw) (pt_tokens s) = Some (i, r)"
    using find_unique r(2,3) by metis
  then show ?l using r by (simp add: pat_Resolve_def Let_def token_expired_def loadScopes_full)
qed

lemma pat_Resolve_none:
  assumes "pat_wf q" and "\<And>j x. (j, x) \<in> set (rows (pt_tokens q)) \<Longrightarrow> tr_TokenHash x = token_Hash sha raw \<Longrightarrow> token_expired now x"
  shows "\<not> is_ok (fst (pat_Resolve sha now raw q))"
  using pat_Resolve_iff [OF assms(1), of sha now raw] assms(2) by (cases "fst (pat_Resolve sha now raw q)") auto

lemma tbl_key: "tbl_wf t \<Longrightarrow> (i, r) \<in> set (rows t) \<Longrightarrow> (i, x) \<in> set (rows t) \<Longrightarrow> x = r"
  using tbl_by_id_find [of t i r] tbl_by_id_find [of t i x] by simp

lemma pat_Create_Ok:
  assumes wf: "pat_wf s" and c: "pat_Create sha rnd p s = (Ok ((i, t), raw), s')"
  defines "kind \<equiv> if pm_Kind p = [] then TokenClassic else pm_Kind p"
  obtains r where "i = seq (pt_tokens s) + 1" and "\<not> pt_down s'" and "pt_tokens s' = tbl_insert r (pt_tokens s)"
    and "tr_TokenHash r = token_Hash sha raw" and "tr_UserID r = pm_UserID p" and "tr_ExpiresAt r = pm_ExpiresAt p"
    and "ak_Kind t = kind" and "full_token s' i r = (token_of r)\<lparr>ak_Kind := kind, ak_Scopes := pm_Scopes p,
       ak_RepoGrants := (if kind = TokenFineGrained then pm_Grants p else [])\<rparr>"
proof -
  obtain tok where n: "token_New sha rnd ''gitli'' = Ok tok" and raw: "raw = tk_Plain tok" and up: "\<not> pt_down s"
    using c by (auto simp: pat_Create_def Let_def split: sum.splits if_splits)
  define r where "r = \<lparr>tr_UserID = pm_UserID p, tr_Name = pm_Name p, tr_TokenHash = tk_Hash tok,
                          tr_Kind = kind, tr_LastUsedAt = None, tr_ExpiresAt = pm_ExpiresAt p\<rparr>"
  have h: "tk_Hash tok = token_Hash sha raw" using n raw by (auto simp: token_New_def Let_def split: option.splits)
  have i: "i = seq (pt_tokens s) + 1" and k: "ak_Kind t = kind"
    and s': "s' = insertScopes i kind (pm_Scopes p) (pm_Grants p) (s\<lparr>pt_tokens := tbl_insert r (pt_tokens s)\<rparr>)"
    using c n by (auto simp: pat_Create_def Let_def kind_def r_def split: if_splits)
  have "of_token i (pt_classic s) = []" "of_token i (pt_fine s) = []" "of_token i (pt_repos s) = []"
    using wf unfolding i pat_wf_def by (auto intro!: of_token_fresh)
  then have "full_token s' i r = (token_of r)\<lparr>ak_Kind := kind, ak_Scopes := pm_Scopes p,
       ak_RepoGrants := (if kind = TokenFineGrained then pm_Grants p else [])\<rparr>"
    unfolding s' by (simp add: full_token_def insertScopes_def of_token_insert_all token_of_def r_def)
  with that [of r] i k h up s' show thesis by (simp add: r_def insertScopes_def split: if_splits)
qed

section \<open>Claims\<close>

text \<open>C14: An access token is good for what it was issued for. The token shown once resolves, until it expires,
  to the account, the kind, the scopes and, for a fine-grained token, the repository grants it was created
  with; after its expiry or after its owner revoked it, it resolves to nothing; another account cannot
  revoke it; and the permissions it gives on a repository are those of the first matching grant, or, for a
  classic token, those of the scopes \<open>repo\<close> and \<open>*\<close>.\<close>

theorem pat_lifecycle:
  assumes "pat_wf s" and "pat_Create sha rnd p s = (Ok ((i, t), raw), s')"
  shows "(if (case pm_ExpiresAt p of None \<Rightarrow> False | Some e \<Rightarrow> e < now) then \<not> is_ok (fst (pat_Resolve sha now raw s'))
       else \<exists>t'. fst (pat_Resolve sha now raw s') = Ok (i, t') \<and> ak_UserID t' = pm_UserID p \<and> ak_Kind t' = ak_Kind t
              \<and> ak_Scopes t' = pm_Scopes p
              \<and> (\<forall>repo need. HasRepoPermission t' repo need \<longleftrightarrow>
                    (if ak_Kind t = TokenClassic then ''repo'' \<in> set (pm_Scopes p) \<or> ''*'' \<in> set (pm_Scopes p)
                     else ak_Kind t = TokenFineGrained
                       \<and> (case List.find (\<lambda>g. tg_RepoID g = repo) (pm_Grants p) of
                            None \<Rightarrow> False | Some g \<Rightarrow> need \<le> ParsePerm (tg_Permission g)))))
    \<and> \<not> is_ok (fst (pat_Resolve sha now raw (snd (pat_Revoke (pm_UserID p) i s'))))
    \<and> (\<forall>v. v \<noteq> pm_UserID p \<longrightarrow> snd (pat_Revoke v i s') = s')"
proof -
  obtain r where i: "i = seq (pt_tokens s) + 1" and up: "\<not> pt_down s'" and tk: "pt_tokens s' = tbl_insert r (pt_tokens s)"
    and h: "tr_TokenHash r = token_Hash sha raw" and u: "tr_UserID r = pm_UserID p" and e: "tr_ExpiresAt r = pm_ExpiresAt p"
    and k: "ak_Kind t = (if pm_Kind p = [] then TokenClassic else pm_Kind p)"
    and full: "full_token s' i r = (token_of r)\<lparr>ak_Kind := (if pm_Kind p = [] then TokenClassic else pm_Kind p), ak_Scopes := pm_Scopes p,
       ak_RepoGrants := (if (if pm_Kind p = [] then TokenClassic else pm_Kind p) = TokenFineGrained then pm_Grants p else [])\<rparr>"
    by (rule pat_Create_Ok [OF assms])
  have wf': "pat_wf s'" using pat_Create_wf [OF assms(1)] assms(2) by (metis snd_conv)
  have wft: "tbl_wf (pt_tokens s')" and uni: "unique_on tr_TokenHash (pt_tokens s')" using wf' by (simp_all add: pat_wf_def)
  have row: "(i, r) \<in> set (rows (pt_tokens s'))" using tk i by simp
  have only: "j = i \<and> x = r" if "(j, x) \<in> set (rows (pt_tokens s'))" "tr_TokenHash x = token_Hash sha raw" for j x
    using unique_onD [OF uni that(1) row] that(2) h by simp
  have exp: "token_expired now r = (case pm_ExpiresAt p of None \<Rightarrow> False | Some e \<Rightarrow> e < now)" using e by (simp add: token_expired_def)
  have yes: "fst (pat_Resolve sha now raw s') = Ok (i, full_token s' i r)" if "\<not> token_expired now r"
    using pat_Resolve_iff [OF wf'] up row h that by blast
  have 1: "\<not> is_ok (fst (pat_Resolve sha now raw s'))" if "token_expired now r" using pat_Resolve_none [OF wf'] only that by blast
  have 2: "\<not> is_ok (fst (pat_Resolve sha now raw (snd (pat_Revoke (pm_UserID p) i s'))))"
    by (rule pat_Resolve_none [OF pat_Revoke_wf [OF wf']]) (use only up u in \<open>auto simp: pat_Revoke_def\<close>)
  have 3: "snd (pat_Revoke v i s') = s'" if "v \<noteq> pm_UserID p" for v
  proof -
    have "\<not> tbl_exists (\<lambda>j x. j = i \<and> tr_UserID x = v) (pt_tokens s')"
      using tbl_key [OF wft row] u that by (auto simp: tbl_exists_iff)
    then show ?thesis using up by (simp add: pat_Revoke_def tbl_delete_none)
  qed
  show ?thesis unfolding exp [symmetric]
    using 1 2 3 yes k full u by (auto simp: HasRepoPermission_def token_of_def list_ex_iff split: option.splits)
qed

definition bot_params :: pat_params where
  "bot_params = \<lparr>pm_UserID = 1, pm_Name = ''bot'', pm_Kind = ''fine_grained'', pm_Scopes = [''contents''],
     pm_Grants = [\<lparr>tg_RepoID = 7, tg_Permission = ''write''\<rparr>], pm_ExpiresAt = Some 100\<rparr>"

lemma bot_created:
  obtains i t raw s' where "pat_Create (\<lambda>x. x) (Some ''abc'') bot_params pat_New = (Ok ((i, t), raw), s')" and "ak_Kind t = TokenFineGrained"
  by (simp add: pat_Create_def token_New_def Let_def pat_New_def tbl_exists_def bot_params_def TokenFineGrained_def)

theorem pat_lifecycle_witness:
  "\<exists>i t raw s' t'. pat_Create (\<lambda>x. x) (Some ''abc'') bot_params pat_New = (Ok ((i, t), raw), s')
     \<and> fst (pat_Resolve (\<lambda>x. x) 100 raw s') = Ok (i, t')
     \<and> HasRepoPermission t' 7 PermWrite \<and> \<not> HasRepoPermission t' 7 PermAdmin \<and> \<not> HasRepoPermission t' 8 PermRead"
proof -
  obtain i t raw s' where c: "pat_Create (\<lambda>x. x) (Some ''abc'') bot_params pat_New = (Ok ((i, t), raw), s')"
    and k: "ak_Kind t = TokenFineGrained" by (rule bot_created)
  from pat_lifecycle [OF pat_New_wf c, of 100] obtain t' where
    "fst (pat_Resolve (\<lambda>x. x) 100 raw s') = Ok (i, t')"
    "\<And>repo need. HasRepoPermission t' repo need \<longleftrightarrow> (if ak_Kind t = TokenClassic then ''repo'' \<in> set (pm_Scopes bot_params) \<or> ''*'' \<in> set (pm_Scopes bot_params)
       else ak_Kind t = TokenFineGrained \<and> (case List.find (\<lambda>g. tg_RepoID g = repo) (pm_Grants bot_params) of
          None \<Rightarrow> False | Some g \<Rightarrow> need \<le> ParsePerm (tg_Permission g)))"
    by (auto simp: bot_params_def)
  then show ?thesis using c k
    by (auto simp: bot_params_def TokenClassic_def TokenFineGrained_def ParsePerm_def less_eq_Perm_def)
qed

lemma ctx_simps [simp]:
  "UserFrom empty_ctx = None" "UserFrom (WithUser u ctx) = Some u" "UserFrom (WithToken t ctx) = UserFrom ctx"
  "TokenFrom empty_ctx = None" "TokenFrom (WithUser u ctx) = TokenFrom ctx" "TokenFrom (WithToken t ctx) = Some t"
  by (simp_all add: UserFrom_def WithUser_def WithToken_def TokenFrom_def empty_ctx_def)

lemma bearer_user_Some:
  assumes "UserFrom (fst (bearer_user c res now raw (s, ps))) = Some u"
  shows "\<exists>tok. res \<and> TokenFrom (fst (bearer_user c res now raw (s, ps))) = Some tok
     \<and> fst (pat_Resolve (ac_sha c) now raw ps) = Ok tok \<and> user_ByID (au_users s) (ak_UserID (snd tok)) = Ok u"
proof -
  obtain x ps' where r: "pat_Resolve (ac_sha c) now raw ps = (x, ps')" by force
  show ?thesis using assms r
    by (cases res; cases x; cases "user_ByID (au_users s) (ak_UserID (snd (projr x)))") (auto simp: bearer_user_def)
qed

lemma request_users [simp]: "au_users (snd (AuthenticateRequest c now raw ip agent s)) = au_users s"
  by (auto simp: AuthenticateRequest_def Let_def Logout_def delete_sessions_def split: option.splits sum.splits)

text \<open>C15: A request acts for the account its credential belongs to. When the middleware finds a user, the request
  carried a credential, and either it is the token of a session of that account that authenticates from this
  client, and then the account is active, or it is an access token, passed on with the request, that
  resolves to that account. A request without credentials has no user.\<close>

theorem request_identity:
  assumes "auth_wf s" and "UserFrom (fst (AuthenticateMiddleware c res now r (s, ps))) = Some u"
  shows "extractCredential r \<noteq> [] \<and>
    (TokenFrom (fst (AuthenticateMiddleware c res now r (s, ps))) = None
       \<and> isSessionToken (extractCredential r) \<and> u_IsActive (snd u)
       \<and> (\<exists>x. fst (AuthenticateRequest c now (extractCredential r) (fst (clientMeta r)) (snd (clientMeta r)) s) = Ok (u, x))
     \<or> (\<exists>tok. TokenFrom (fst (AuthenticateMiddleware c res now r (s, ps))) = Some tok \<and> res
       \<and> fst (pat_Resolve (ac_sha c) now (extractCredential r) ps) = Ok tok \<and> fst u = ak_UserID (snd tok)))"
proof -
  let ?raw = "extractCredential r"
  obtain x s' where a: "AuthenticateRequest c now ?raw (fst (clientMeta r)) (snd (clientMeta r)) s = (x, s')" by force
  have us: "au_users s' = au_users s" using request_users [of c now ?raw "fst (clientMeta r)" "snd (clientMeta r)" s] a by simp
  have ne: "?raw \<noteq> []" using assms(2) by (auto simp: AuthenticateMiddleware_def Let_def)
  have id: "fst u = i" if "user_ByID (au_users s) i = Ok u" for i
    using that user_ByID_iff [OF auth_wfD(1) [OF assms(1)], of i "fst u" "snd u"] by simp
  show ?thesis
  proof (cases "isSessionToken ?raw \<and> is_ok x")
    case True
    then obtain v y where x: "x = Ok (v, y)" by (cases x) auto
    have "fst (AuthenticateRequest c now ?raw (fst (clientMeta r)) (snd (clientMeta r)) s) = Ok ((fst v, snd v), (fst y, snd y))"
      using a x by simp
    then have "u_IsActive (snd v)" unfolding AuthenticateRequest_iff [OF assms(1)] by blast
    then show ?thesis using assms(2) True a x ne by (auto simp: AuthenticateMiddleware_def Let_def case_prod_unfold)
  next
    case False
    then have m: "\<exists>q. AuthenticateMiddleware c res now r (s, ps) = bearer_user c res now ?raw (q, ps) \<and> au_users q = au_users s"
      using ne a us by (cases x) (auto simp: AuthenticateMiddleware_def Let_def case_prod_unfold)
    then show ?thesis using bearer_user_Some assms(2) ne id by metis
  qed
qed

text \<open>An access token outlives the deactivation of its account. For a deactivated account the middleware still
  accepts an unexpired access token and hands the account on to the handlers, while sessions and passwords
  of the same account are refused.\<close>

theorem token_outlives_deactivation:
  assumes "auth_wf s" and "\<not> au_down s" and "(i, q) \<in> set (rows (us_users (au_users s)))" and "\<not> u_IsActive q"
    and "fst (pat_Resolve (ac_sha c) now (extractCredential r) ps) = Ok tok" and "ak_UserID (snd tok) = i"
    and "extractCredential r \<noteq> []" and "\<not> isSessionToken (extractCredential r)"
  shows "UserFrom (fst (AuthenticateMiddleware c True now r (s, ps))) = Some (i, q)
    \<and> (\<forall>raw ip agent x. fst (AuthenticateRequest c now raw ip agent s) \<noteq> Ok ((i, q), x))"
proof -
  have "user_ByID (au_users s) i = Ok (i, q)" using user_ByID_iff [OF auth_wfD(1) [OF assms(1)]] assms(2,3) by simp
  moreover obtain ps' where "pat_Resolve (ac_sha c) now (extractCredential r) ps = (Ok tok, ps')"
    using assms(5) by (metis prod.collapse)
  ultimately have "UserFrom (fst (AuthenticateMiddleware c True now r (s, ps))) = Some (i, q)"
    using assms(6-8) by (simp add: AuthenticateMiddleware_def bearer_user_def Let_def)
  moreover have "fst (AuthenticateRequest c now raw ip agent s) \<noteq> Ok ((i, q), x)" for raw ip agent x
    using AuthenticateRequest_iff [OF assms(1), of c now raw ip agent i q "fst x" "snd x"] assms(4) by simp
  ultimately show ?thesis by blast
qed

text \<open>The example service with a deactivated account and an access token of it.\<close>

definition off_state :: auth_state where
  "off_state = snd (with_users (user_SetActive 2 1 False) root_state)"

lemma off_state_wf: "auth_wf off_state"
proof -
  have "users_wf (snd (user_SetActive 2 1 False (au_users root_state)))"
    using user_step_wf [of "au_users root_state" "(2, OpActive 1 False)"] auth_wfD(1) [OF root_state_wf] by (simp add: user_step_def)
  then show ?thesis using root_state_wf
    by (cases "user_SetActive 2 1 False (au_users root_state)") (simp add: off_state_def auth_wf_def with_users_def)
qed

lemma off_account:
  obtains q where "(1, q) \<in> set (rows (us_users (au_users off_state)))" and "\<not> u_IsActive q" and "\<not> au_down off_state"
proof -
  obtain enc where s: "root_state = (snd test_service)\<lparr>au_users := users_New\<lparr>us_users :=
      tbl_insert (new_user 1 \<lparr>up_Username = ''root'', up_Email = ''r@x'', up_PasswordHash = enc, up_IsAdmin = True\<rparr>) empty_table\<rparr>\<rparr>"
    by (rule root_account)
  show thesis
    by (rule that [of "(new_user 1 \<lparr>up_Username = ''root'', up_Email = ''r@x'', up_PasswordHash = enc, up_IsAdmin = True\<rparr>)
        \<lparr>u_IsActive := False, u_UpdatedAt := 2\<rparr>"])
      (simp_all add: off_state_def s with_users_def user_SetActive_def user_update_def users_New_def tbl_update_def)
qed

definition bot_request :: "string \<Rightarrow> http_request" where
  "bot_request raw = \<lparr>rq_Authorization = [], rq_cookie = Some raw, rq_XForwardedFor = [], rq_RemoteAddr = ''10.0.0.1:99'', rq_UserAgent = ''curl''\<rparr>"

lemma bot_request_simps [simp]:
  "extractCredential (bot_request raw) = raw"
  by (simp add: extractCredential_def bot_request_def has_prefix_def)

lemma bot_resolves:
  obtains raw ps t where "fst (pat_Resolve (ac_sha (fst test_service)) 5 raw ps) = Ok t" and "ak_UserID (snd t) = 1"
    and "raw \<noteq> []" and "\<not> isSessionToken raw"
proof -
  have "\<exists>t. fst (pat_Resolve (ac_sha (fst test_service)) 5 ''gitli_YWJj'' (snd (pat_Create (\<lambda>x. x) (Some ''abc'') bot_params pat_New))) = Ok t
      \<and> ak_UserID (snd t) = 1"
    by (simp add: pat_Create_def token_New_def Let_def pat_New_def tbl_exists_def bot_params_def TokenFineGrained_def
      pat_Resolve_def insertScopes_def tbl_find_def loadScopes_def token_of_def token_Hash_def b64_encode_def url_alphabet_def)
  moreover have "\<not> isSessionToken ''gitli_YWJj''" by (simp add: isSessionToken_def has_prefix_def)
  ultimately show thesis using that by blast
qed

theorem token_outlives_deactivation_witness:
  "\<exists>raw ps q. \<not> u_IsActive q \<and> UserFrom (fst (AuthenticateMiddleware (fst test_service) True 5 (bot_request raw) (off_state, ps))) = Some (1, q)"
proof -
  obtain q where q: "(1, q) \<in> set (rows (us_users (au_users off_state)))" "\<not> u_IsActive q" "\<not> au_down off_state" by (rule off_account)
  obtain raw ps t where t: "fst (pat_Resolve (ac_sha (fst test_service)) 5 raw ps) = Ok t" "ak_UserID (snd t) = 1" "raw \<noteq> []" "\<not> isSessionToken raw"
    by (rule bot_resolves)
  have "UserFrom (fst (AuthenticateMiddleware (fst test_service) True 5 (bot_request raw) (off_state, ps))) = Some (1, q)"
    using token_outlives_deactivation [OF off_state_wf q(3,1,2), of "fst test_service" 5 "bot_request raw" ps t] t by simp
  then show ?thesis using q(2) by blast
qed

theorem request_identity_witness:
  "\<exists>raw ps u. UserFrom (fst (AuthenticateMiddleware (fst test_service) True 5 (bot_request raw) (off_state, ps))) = Some u
     \<and> (\<exists>tok. TokenFrom (fst (AuthenticateMiddleware (fst test_service) True 5 (bot_request raw) (off_state, ps))) = Some tok
          \<and> fst u = ak_UserID (snd tok))"
proof -
  obtain q where q: "(1, q) \<in> set (rows (us_users (au_users off_state)))" "\<not> u_IsActive q" "\<not> au_down off_state" by (rule off_account)
  obtain raw ps t where t: "fst (pat_Resolve (ac_sha (fst test_service)) 5 raw ps) = Ok t" "ak_UserID (snd t) = 1" "raw \<noteq> []" "\<not> isSessionToken raw"
    by (rule bot_resolves)
  obtain ps' where r: "pat_Resolve (ac_sha (fst test_service)) 5 raw ps = (Ok t, ps')" using t(1) by (metis prod.collapse)
  have "user_ByID (au_users off_state) 1 = Ok (1, q)" using user_ByID_iff [OF auth_wfD(1) [OF off_state_wf]] q by simp
  then have u: "UserFrom (fst (AuthenticateMiddleware (fst test_service) True 5 (bot_request raw) (off_state, ps))) = Some (1, q)"
    using r t by (simp add: AuthenticateMiddleware_def bearer_user_def Let_def)
  obtain tok where "TokenFrom (fst (AuthenticateMiddleware (fst test_service) True 5 (bot_request raw) (off_state, ps))) = Some tok"
    "fst (1, q) = ak_UserID (snd tok)"
    using request_identity [OF off_state_wf u] t(4) by auto
  then show ?thesis using u by blast
qed

end
