(* ===== verification/AccountHttp.thy ===== *)
theory AccountHttp
  imports Pat Secutil "HOL-Library.AList"
begin

text \<open>
  The request handlers of \<open>internal/transport/http\<close> that change accounts and credentials: \<open>handlers_auth.go\<close>,
  \<open>handlers_user.go\<close>, \<open>handlers_admin_ext.go\<close>, the cache of Git credentials \<open>git_auth_cache.go\<close>, Basic
  authentication of \<open>handlers_githttp.go\<close>, the client address of \<open>util.go\<close>, and the user commands of
  \<open>internal/app/cli.go\<close>.

  The state \<open>server\<close> joins the authentication service, the access tokens and the cache. A handler takes
  the decoded request body and answers with the status code and the secrets it shows; audit records and
  the texts of answers are left out. The user of a request is the account the middleware found, as
  it was read. \<open>env\<close> holds the service configuration, \<open>net.ParseIP\<close> and the trusted networks (each by the
  addresses it contains).
\<close>

section \<open>The client address\<close>

definition isTrustedProxy :: "(string \<Rightarrow> nat list option) \<Rightarrow> (nat list \<Rightarrow> bool) list \<Rightarrow> string \<Rightarrow> bool" where
  "isTrustedProxy parse_ip nets addr =
     (case parse_ip (trim_space addr) of None \<Rightarrow> False | Some ip \<Rightarrow> list_ex (\<lambda>n. n ip) nets)"

text \<open>The loop over the hops, from the last to the first.\<close>

fun last_hop :: "(string \<Rightarrow> bool) \<Rightarrow> string list \<Rightarrow> string \<Rightarrow> string" where
  "last_hop trusted [] remoteHost = remoteHost"
| "last_hop trusted (part # parts) remoteHost =
     (let hop = trim_space part in
      if hop = [] then last_hop trusted parts remoteHost
      else if trusted hop then last_hop trusted parts remoteHost
      else hop)"

definition clientIP :: "(string \<Rightarrow> nat list option) \<Rightarrow> (nat list \<Rightarrow> bool) list \<Rightarrow> http_request \<Rightarrow> string" where
  "clientIP parse_ip nets r =
     (let remoteHost = (case SplitHostPort (rq_RemoteAddr r) of Some host \<Rightarrow> host | None \<Rightarrow> rq_RemoteAddr r) in
      if length nets = 0 \<or> \<not> isTrustedProxy parse_ip nets remoteHost then remoteHost
      else if rq_XForwardedFor r = [] then remoteHost
      else last_hop (isTrustedProxy parse_ip nets) (rev (split_on (CHR '','') (rq_XForwardedFor r))) remoteHost)"

section \<open>The cache of Git credentials\<close>

record gitAuthEntry =
  ge_user :: user
  ge_expires :: int
  ge_userID :: int

type_synonym gitAuthCache = "(string \<times> gitAuthEntry) list"

definition gitAuthTTL :: int where "gitAuthTTL = 60 * 1000000000"
definition gitAuthMaxEntries :: nat where "gitAuthMaxEntries = 4096"

definition gitAuthKey :: "(string \<Rightarrow> string) \<Rightarrow> string \<Rightarrow> string \<Rightarrow> string" where
  "gitAuthKey sha username pw = hex_encode (sha (username @ [CHR 0x00] @ pw))"

definition git_get ::
  "(string \<Rightarrow> string) \<Rightarrow> int \<Rightarrow> string \<Rightarrow> string \<Rightarrow> gitAuthCache \<Rightarrow> user option \<times> gitAuthCache" where
  "git_get sha now username pw es =
     (let key = gitAuthKey sha username pw in
      case map_of es key of
        None \<Rightarrow> (None, es)
      | Some entry \<Rightarrow> if now > ge_expires entry then (None, AList.delete key es) else (Some (ge_user entry), es))"

definition git_put ::
  "(string \<Rightarrow> string) \<Rightarrow> int \<Rightarrow> string \<Rightarrow> string \<Rightarrow> user \<Rightarrow> gitAuthCache \<Rightarrow> gitAuthCache" where
  "git_put sha now username pw u es =
     (let key = gitAuthKey sha username pw;
          es1 = (if length es \<ge> gitAuthMaxEntries then
                   (let kept = filter (\<lambda>(k, v). \<not> now > ge_expires v) es
                    in if length kept \<ge> gitAuthMaxEntries then [] else kept)
                 else es)
      in AList.update key \<lparr>ge_user = u, ge_expires = now + gitAuthTTL, ge_userID = fst u\<rparr> es1)"

definition git_invalidateUser :: "int \<Rightarrow> gitAuthCache \<Rightarrow> gitAuthCache" where
  "git_invalidateUser userID es = filter (\<lambda>(k, v). ge_userID v \<noteq> userID) es"

definition git_invalidate :: "gitAuthCache \<Rightarrow> gitAuthCache" where
  "git_invalidate es = []"

section \<open>The server\<close>

record server =
  sv_auth :: auth_state
  sv_pat :: pat_state
  sv_git :: gitAuthCache

record env =
  ev_cfg :: auth_cfg
  ev_parse_ip :: "string \<Rightarrow> nat list option"
  ev_nets :: "(nat list \<Rightarrow> bool) list"

abbreviation sv_users :: "server \<Rightarrow> user_store" where "sv_users s \<equiv> au_users (sv_auth s)"

type_synonym reply = "int \<times> string list"

definition on_auth :: "('a \<times> auth_state) \<Rightarrow> server \<Rightarrow> 'a \<times> server" where
  "on_auth x s = (fst x, s\<lparr>sv_auth := snd x\<rparr>)"

definition authenticateGitBasic ::
  "env \<Rightarrow> int \<Rightarrow> (string \<times> string) option \<Rightarrow> server \<Rightarrow> user option \<times> server" where
  "authenticateGitBasic e now basic s =
     (case basic of
        None \<Rightarrow> (None, s)
      | Some (username, pw) \<Rightarrow>
          if username = [] then (None, s)
          else if has_prefix pw ''gitli_'' then
            (case pat_Resolve (ac_sha (ev_cfg e)) now pw (sv_pat s) of (x, ps) \<Rightarrow>
              (let s' = s\<lparr>sv_pat := ps\<rparr> in
               case x of
                 Inl _ \<Rightarrow> (None, s')
               | Inr tok \<Rightarrow>
                   (case user_ByID (sv_users s') (ak_UserID (snd tok)) of
                      Inl _ \<Rightarrow> (None, s')
                    | Inr target \<Rightarrow>
                        if username \<noteq> u_Username (snd target) \<and> username \<noteq> ''git'' \<and> username \<noteq> ''oauth2'' then (None, s')
                        else (Some target, s'))))
          else
            (case git_get (ac_sha (ev_cfg e)) now username pw (sv_git s) of (cached, es) \<Rightarrow>
              (let s1 = s\<lparr>sv_git := es\<rparr> in
               case cached of
                 Some u \<Rightarrow> (Some u, s1)
               | None \<Rightarrow>
                   (case on_auth (VerifyPassword (ev_cfg e) now username pw (sv_auth s1)) s1 of (x, s2) \<Rightarrow>
                     (case x of
                        Inl _ \<Rightarrow> (None, s2)
                      | Inr u \<Rightarrow> (Some u, s2\<lparr>sv_git := git_put (ac_sha (ev_cfg e)) now username pw u (sv_git s2)\<rparr>))))))"

section \<open>Handlers of an account\<close>

definition handleRegister :: "env \<Rightarrow> int \<Rightarrow> string option \<Rightarrow> register_params \<Rightarrow> server \<Rightarrow> reply \<times> server" where
  "handleRegister e now salt req s =
     (case ValidateName (rp_Username req) of
        Inl _ \<Rightarrow> ((400, []), s)
      | Inr _ \<Rightarrow>
          (case on_auth (Register (ev_cfg e) now salt req (sv_auth s)) s of (x, s') \<Rightarrow>
            (case x of Inl _ \<Rightarrow> ((400, []), s') | Inr u \<Rightarrow> ((201, [u_Username (snd u)]), s'))))"

definition handleSetup :: "env \<Rightarrow> int \<Rightarrow> string option \<Rightarrow> register_params \<Rightarrow> server \<Rightarrow> reply \<times> server" where
  "handleSetup e now salt req s =
     (case ValidateName (rp_Username req) of
        Inl _ \<Rightarrow> ((400, []), s)
      | Inr _ \<Rightarrow>
          (case on_auth (Setup (ev_cfg e) now salt req (sv_auth s)) s of (x, s') \<Rightarrow>
            (case x of
               Inl err \<Rightarrow> ((if err = AlreadySetUp then 409 else 400, []), s')
             | Inr u \<Rightarrow> ((201, [u_Username (snd u)]), s'))))"

definition login_params_of :: "env \<Rightarrow> http_request \<Rightarrow> string \<Rightarrow> string \<Rightarrow> string \<Rightarrow> login_params" where
  "login_params_of e r username pw code =
     \<lparr>lp_Username = username, lp_Password = pw, lp_TOTPCode = code,
      lp_IP = clientIP (ev_parse_ip e) (ev_nets e) r, lp_Agent = rq_UserAgent r\<rparr>"

definition handleLogin ::
  "env \<Rightarrow> int \<Rightarrow> string option \<Rightarrow> http_request \<Rightarrow> string \<Rightarrow> string \<Rightarrow> string \<Rightarrow> server \<Rightarrow> reply \<times> server" where
  "handleLogin e now rnd r username pw code s =
     (case on_auth (Login (ev_cfg e) now rnd (login_params_of e r username pw code) (sv_auth s)) s of (x, s') \<Rightarrow>
       (case x of
          Inl err \<Rightarrow> ((if err = AccountInactive then 403 else 401, []), s')
        | Inr (u, sess, raw) \<Rightarrow> ((200, [raw]), s')))"

definition handleLogout :: "env \<Rightarrow> http_request \<Rightarrow> server \<Rightarrow> reply \<times> server" where
  "handleLogout e r s =
     (case rq_cookie r of
        None \<Rightarrow> ((200, []), s)
      | Some v \<Rightarrow> ((200, []), snd (on_auth (Logout (ev_cfg e) v (sv_auth s)) s)))"

definition reauth ::
  "env \<Rightarrow> int \<Rightarrow> string option \<Rightarrow> http_request \<Rightarrow> user \<Rightarrow> string \<Rightarrow> string \<Rightarrow> server \<Rightarrow> bool \<times> server" where
  "reauth e now rnd r u pw code s =
     (case on_auth (Login (ev_cfg e) now rnd (login_params_of e r (u_Username (snd u)) pw code) (sv_auth s)) s of (x, s') \<Rightarrow>
        (is_ok x, s'))"

definition handleChangePassword ::
  "env \<Rightarrow> int \<Rightarrow> string option \<Rightarrow> string option \<Rightarrow> http_request \<Rightarrow> user option \<Rightarrow> string \<Rightarrow> string \<Rightarrow> string \<Rightarrow> server \<Rightarrow> reply \<times> server" where
  "handleChangePassword e now rnd salt r user current newPw code s =
     (case user of
        None \<Rightarrow> ((401, []), s)
      | Some u \<Rightarrow>
          (case reauth e now rnd r u current code s of (ok, s1) \<Rightarrow>
            if \<not> ok then ((401, []), s1)
            else (case on_auth (auth_UpdatePassword (ev_cfg e) now salt u newPw (sv_auth s1)) s1 of (x, s2) \<Rightarrow>
              (case x of
                 Inl _ \<Rightarrow> ((400, []), s2)
               | Inr _ \<Rightarrow>
                   (let s3 = s2\<lparr>sv_git := git_invalidateUser (fst u) (sv_git s2)\<rparr> in
                    case rq_cookie r of
                      None \<Rightarrow> ((200, []), s3)
                    | Some v \<Rightarrow>
                        (case on_auth (RevokeOtherSessions (ev_cfg e) (fst u) v (sv_auth s3)) s3 of (y, s4) \<Rightarrow>
                          (if is_ok y then (200, []) else (500, []), s4)))))))"

definition handleRename ::
  "env \<Rightarrow> int \<Rightarrow> string option \<Rightarrow> http_request \<Rightarrow> user option \<Rightarrow> string \<Rightarrow> string \<Rightarrow> string \<Rightarrow> server \<Rightarrow> reply \<times> server" where
  "handleRename e now rnd r user newName pw code s =
     (case user of
        None \<Rightarrow> ((401, []), s)
      | Some u \<Rightarrow>
          (case ValidateName newName of
             Inl _ \<Rightarrow> ((400, []), s)
           | Inr _ \<Rightarrow>
               (case reauth e now rnd r u pw code s of (ok, s1) \<Rightarrow>
                 if \<not> ok then ((401, []), s1)
                 else (case on_auth (with_users (Rename now (fst u) newName) (sv_auth s1)) s1 of (x, s2) \<Rightarrow>
                   (if is_ok x then (200, []) else (400, []), s2)))))"

definition handleTOTPBegin ::
  "env \<Rightarrow> int \<Rightarrow> (string \<times> string) option \<Rightarrow> string option \<Rightarrow> user option \<Rightarrow> server \<Rightarrow> reply \<times> server" where
  "handleTOTPBegin e now gen nonce user s =
     (case user of
        None \<Rightarrow> ((401, []), s)
      | Some u \<Rightarrow>
          (case on_auth (BeginTOTP (ev_cfg e) now gen nonce u (sv_auth s)) s of (x, s') \<Rightarrow>
            (case x of Inl _ \<Rightarrow> ((500, []), s') | Inr (secret, uri) \<Rightarrow> ((200, [secret, uri]), s'))))"

definition handleTOTPEnable ::
  "env \<Rightarrow> int \<Rightarrow> (nat \<Rightarrow> string option) \<Rightarrow> user option \<Rightarrow> string \<Rightarrow> server \<Rightarrow> reply \<times> server" where
  "handleTOTPEnable e now rnd user code s =
     (case user of
        None \<Rightarrow> ((401, []), s)
      | Some u \<Rightarrow>
          (case on_auth (EnableTOTP (ev_cfg e) now rnd u code (sv_auth s)) s of (x, s') \<Rightarrow>
            (case x of Inl _ \<Rightarrow> ((400, []), s') | Inr codes \<Rightarrow> ((200, codes), s'))))"

definition handleTOTPDisable ::
  "env \<Rightarrow> int \<Rightarrow> string option \<Rightarrow> http_request \<Rightarrow> user option \<Rightarrow> string \<Rightarrow> string \<Rightarrow> server \<Rightarrow> reply \<times> server" where
  "handleTOTPDisable e now rnd r user pw code s =
     (case user of
        None \<Rightarrow> ((401, []), s)
      | Some u \<Rightarrow>
          (case reauth e now rnd r u pw code s of (ok, s1) \<Rightarrow>
            if \<not> ok then ((401, []), s1)
            else (case on_auth (DisableTOTP (ev_cfg e) now u code (sv_auth s1)) s1 of (x, s2) \<Rightarrow>
              (if is_ok x then (200, []) else (400, []), s2))))"

definition handleUpdateProfile :: "int \<Rightarrow> user option \<Rightarrow> user_row \<Rightarrow> server \<Rightarrow> reply \<times> server" where
  "handleUpdateProfile now user req s =
     (case user of
        None \<Rightarrow> ((401, []), s)
      | Some u \<Rightarrow>
          (let v = (fst u, (snd u)\<lparr>u_FullName := u_FullName req, u_Bio := u_Bio req, u_Website := u_Website req,
                                 u_Location := u_Location req\<rparr>) in
           case on_auth (with_users (UpdateProfile now v) (sv_auth s)) s of (x, s') \<Rightarrow>
             (if is_ok x then (200, []) else (500, []), s')))"

definition handleCreateToken ::
  "env \<Rightarrow> string option \<Rightarrow> user option \<Rightarrow> string \<Rightarrow> string \<Rightarrow> string list \<Rightarrow> token_grant list \<Rightarrow> server \<Rightarrow> reply \<times> server" where
  "handleCreateToken e rnd user name reqKind scopes reqGrants s =
     (case user of
        None \<Rightarrow> ((401, []), s)
      | Some u \<Rightarrow>
          (let kind = (if reqKind = TokenFineGrained then TokenFineGrained else TokenClassic);
               grants = map (\<lambda>g. if tg_Permission g = [] then g\<lparr>tg_Permission := ''read''\<rparr> else g) reqGrants in
           case pat_Create (ac_sha (ev_cfg e)) rnd \<lparr>pm_UserID = fst u, pm_Name = name, pm_Kind = kind, pm_Scopes = scopes,
                 pm_Grants = grants, pm_ExpiresAt = None\<rparr> (sv_pat s) of
             (Inl _, ps) \<Rightarrow> ((500, []), s\<lparr>sv_pat := ps\<rparr>)
           | (Inr (t, raw), ps) \<Rightarrow> ((201, [raw, ak_Name (snd t)]), s\<lparr>sv_pat := ps\<rparr>)))"

definition handleListTokens :: "user option \<Rightarrow> server \<Rightarrow> int \<times> (int \<times> AccessToken) list" where
  "handleListTokens user s =
     (case user of
        None \<Rightarrow> (401, [])
      | Some u \<Rightarrow>
          (case pat_List (sv_pat s) (fst u) of
             Inl _ \<Rightarrow> (500, []) | Inr ts \<Rightarrow> (200, map (\<lambda>(i, t). (i, t\<lparr>ak_TokenHash := []\<rparr>)) ts)))"

definition handleRevokeToken :: "user option \<Rightarrow> int option \<Rightarrow> server \<Rightarrow> reply \<times> server" where
  "handleRevokeToken user tid s =
     (case user of
        None \<Rightarrow> ((401, []), s)
      | Some u \<Rightarrow>
          (case tid of
             None \<Rightarrow> ((400, []), s)
           | Some i \<Rightarrow>
               (case pat_Revoke (fst u) i (sv_pat s) of (x, ps) \<Rightarrow>
                 (if is_ok x then (200, []) else (500, []), s\<lparr>sv_pat := ps\<rparr>))))"

definition handleListSessions :: "env \<Rightarrow> http_request \<Rightarrow> user option \<Rightarrow> server \<Rightarrow> int \<times> SessionInfo list" where
  "handleListSessions e r user s =
     (case user of
        None \<Rightarrow> (401, [])
      | Some u \<Rightarrow>
          (case ListSessions (ev_cfg e) (fst u) (case rq_cookie r of None \<Rightarrow> [] | Some v \<Rightarrow> v) (sv_auth s) of
             Inl _ \<Rightarrow> (500, []) | Inr xs \<Rightarrow> (200, xs)))"

definition handleRevokeSession :: "user option \<Rightarrow> int option \<Rightarrow> server \<Rightarrow> reply \<times> server" where
  "handleRevokeSession user sid s =
     (case user of
        None \<Rightarrow> ((401, []), s)
      | Some u \<Rightarrow>
          (case sid of
             None \<Rightarrow> ((400, []), s)
           | Some i \<Rightarrow>
               (case on_auth (RevokeSession (fst u) i (sv_auth s)) s of (x, s') \<Rightarrow>
                 (if is_ok x then (200, []) else (500, []), s'))))"

definition handleRevokeOtherSessions :: "env \<Rightarrow> http_request \<Rightarrow> user option \<Rightarrow> server \<Rightarrow> reply \<times> server" where
  "handleRevokeOtherSessions e r user s =
     (case user of
        None \<Rightarrow> ((401, []), s)
      | Some u \<Rightarrow>
          (case on_auth (RevokeOtherSessions (ev_cfg e) (fst u) (case rq_cookie r of None \<Rightarrow> [] | Some v \<Rightarrow> v) (sv_auth s)) s of (x, s') \<Rightarrow>
             (if is_ok x then (200, []) else (500, []), s')))"

section \<open>Handlers of administrators\<close>

text \<open>The status that refuses a request of someone who is not an administrator.\<close>

definition requireAdmin :: "user option \<Rightarrow> int option" where
  "requireAdmin user = (case user of None \<Rightarrow> Some 401 | Some u \<Rightarrow> if \<not> u_IsAdmin (snd u) then Some 403 else None)"

definition handleAdminSetActive ::
  "env \<Rightarrow> int \<Rightarrow> user option \<Rightarrow> int option \<Rightarrow> bool option \<Rightarrow> server \<Rightarrow> reply \<times> server" where
  "handleAdminSetActive e now admin uid active s =
     (case requireAdmin admin of
        Some status \<Rightarrow> ((status, []), s)
      | None \<Rightarrow>
     (case (uid, active) of
        (None, _) \<Rightarrow> ((400, []), s)
      | (_, None) \<Rightarrow> ((400, []), s)
      | (Some i, Some act) \<Rightarrow>
     (case user_ByID (sv_users s) i of
        Inl _ \<Rightarrow> ((404, []), s)
      | Inr u \<Rightarrow>
          if \<not> act \<and> u_IsAdmin (snd u) \<and> (case CountAdmins (sv_users s) of Inl _ \<Rightarrow> 0 | Inr n \<Rightarrow> n) \<le> 1 then ((400, []), s)
          else (case on_auth (with_users (user_SetActive now i act) (sv_auth s)) s of (x, s1) \<Rightarrow>
            (case x of
               Inl _ \<Rightarrow> ((500, []), s1)
             | Inr _ \<Rightarrow>
                 if \<not> act then
                   (let s2 = s1\<lparr>sv_git := git_invalidateUser i (sv_git s1)\<rparr> in
                    case on_auth (RevokeAllSessions i (sv_auth s2)) s2 of (y, s3) \<Rightarrow>
                      (if is_ok y then (200, []) else (500, []), s3))
                 else ((200, []), s1))))))"

definition handleAdminResetPassword ::
  "env \<Rightarrow> int \<Rightarrow> string option \<Rightarrow> string option \<Rightarrow> user option \<Rightarrow> int option \<Rightarrow> server \<Rightarrow> reply \<times> server" where
  "handleAdminResetPassword e now rnd salt admin uid s =
     (case requireAdmin admin of
        Some status \<Rightarrow> ((status, []), s)
      | None \<Rightarrow>
     (case uid of
        None \<Rightarrow> ((400, []), s)
      | Some i \<Rightarrow>
     (case user_ByID (sv_users s) i of
        Inl _ \<Rightarrow> ((404, []), s)
      | Inr u \<Rightarrow>
          (case on_auth (ResetPassword (ev_cfg e) now rnd salt u (sv_auth s)) s of (x, s1) \<Rightarrow>
            (case x of
               Inl _ \<Rightarrow> ((500, []), s1)
             | Inr tmp \<Rightarrow> ((200, [tmp]), s1\<lparr>sv_git := git_invalidateUser (fst u) (sv_git s1)\<rparr>))))))"

definition handleAdminReset2FA :: "env \<Rightarrow> int \<Rightarrow> user option \<Rightarrow> int option \<Rightarrow> server \<Rightarrow> reply \<times> server" where
  "handleAdminReset2FA e now admin uid s =
     (case requireAdmin admin of
        Some status \<Rightarrow> ((status, []), s)
      | None \<Rightarrow>
     (case uid of
        None \<Rightarrow> ((400, []), s)
      | Some i \<Rightarrow>
     (case user_ByID (sv_users s) i of
        Inl _ \<Rightarrow> ((404, []), s)
      | Inr u \<Rightarrow>
          (case on_auth (ResetTOTP now i (sv_auth s)) s of (x, s1) \<Rightarrow>
            (case x of
               Inl _ \<Rightarrow> ((500, []), s1)
             | Inr _ \<Rightarrow>
                 (let s2 = s1\<lparr>sv_git := git_invalidateUser i (sv_git s1)\<rparr> in
                  case on_auth (RevokeAllSessions i (sv_auth s2)) s2 of (y, s3) \<Rightarrow>
                    (if is_ok y then (200, []) else (500, []), s3)))))))"

section \<open>User commands\<close>

datatype cli_error = LastAdmin | CliUsers user_error | CliAuth auth_error | CliPassword pw_error | CliRandom | CliRepos

definition on_users :: "(user_store \<Rightarrow> (user_error + 'a) \<times> user_store) \<Rightarrow> server \<Rightarrow> (cli_error + 'a) \<times> server" where
  "on_users op s =
     (case op (sv_users s) of (r, us) \<Rightarrow>
        (case r of Inl x \<Rightarrow> Err (CliUsers x) | Inr y \<Rightarrow> Ok y, s\<lparr>sv_auth := (sv_auth s)\<lparr>au_users := us\<rparr>\<rparr>))"

definition ensureAnotherAdmin :: "server \<Rightarrow> int \<Rightarrow> cli_error + unit" where
  "ensureAnotherAdmin s exceptID =
     (case ListAll (sv_users s) of
        Inl x \<Rightarrow> Err (CliUsers x)
      | Inr us \<Rightarrow> if list_ex (\<lambda>(i, r). i \<noteq> exceptID \<and> u_IsAdmin r \<and> u_IsActive r) us then Ok () else Err LastAdmin)"

text \<open>The common shape of the commands: find the account, run a guard on it, change it.\<close>

definition cli_on ::
  "string \<Rightarrow> (user \<Rightarrow> cli_error + unit) \<Rightarrow> (user \<Rightarrow> server \<Rightarrow> (cli_error + unit) \<times> server) \<Rightarrow> server \<Rightarrow> (cli_error + unit) \<times> server" where
  "cli_on username guard change s =
     (case ByUsername (sv_users s) username of
        Inl x \<Rightarrow> (Err (CliUsers x), s)
      | Inr u \<Rightarrow> (case guard u of Inl x \<Rightarrow> (Err x, s) | Inr _ \<Rightarrow> change u s))"

definition CLIUserCreate ::
  "kdf \<Rightarrow> string \<Rightarrow> int \<Rightarrow> string option \<Rightarrow> string option \<Rightarrow> string \<Rightarrow> string \<Rightarrow> string \<Rightarrow> bool \<Rightarrow> server \<Rightarrow>
     (cli_error + user \<times> string) \<times> server" where
  "CLIUserCreate kdf pepper now key salt username email pwd0 admin s =
     (case (if pwd0 = [] then (case GenerateKey key of Inl _ \<Rightarrow> Err CliRandom | Inr k \<Rightarrow> Ok (hex_encode (take 12 k))) else Ok pwd0) of
        Inl x \<Rightarrow> (Err x, s)
      | Inr pwd \<Rightarrow>
          (case pw_Hash kdf salt (NewHasher DefaultParams pepper) pwd of
             Inl x \<Rightarrow> (Err (CliPassword x), s)
           | Inr hash \<Rightarrow>
               (case on_users (user_Create now \<lparr>up_Username = username, up_Email = email, up_PasswordHash = hash,
                     up_IsAdmin = admin\<rparr>) s of
                  (Inl x, s') \<Rightarrow> (Err x, s')
                | (Inr u, s') \<Rightarrow> (Ok (u, if pwd0 = [] then pwd else []), s'))))"

definition CLIUserSetAdmin :: "int \<Rightarrow> string \<Rightarrow> bool \<Rightarrow> server \<Rightarrow> (cli_error + unit) \<times> server" where
  "CLIUserSetAdmin now username admin s =
     cli_on username (\<lambda>u. if \<not> admin \<and> u_IsAdmin (snd u) then ensureAnotherAdmin s (fst u) else Ok ())
       (\<lambda>u. on_users (SetAdmin now (fst u) admin)) s"

definition CLIUserDisable :: "int \<Rightarrow> string \<Rightarrow> server \<Rightarrow> (cli_error + unit) \<times> server" where
  "CLIUserDisable now username s =
     cli_on username (\<lambda>u. if u_IsAdmin (snd u) then ensureAnotherAdmin s (fst u) else Ok ())
       (\<lambda>u. on_users (user_SetActive now (fst u) False)) s"

definition CLIUserEnable :: "int \<Rightarrow> string \<Rightarrow> server \<Rightarrow> (cli_error + unit) \<times> server" where
  "CLIUserEnable now username s = cli_on username (\<lambda>_. Ok ()) (\<lambda>u. on_users (user_SetActive now (fst u) True)) s"

definition CLIUserChangePassword ::
  "kdf \<Rightarrow> string \<Rightarrow> int \<Rightarrow> string option \<Rightarrow> string \<Rightarrow> string \<Rightarrow> server \<Rightarrow> (cli_error + unit) \<times> server" where
  "CLIUserChangePassword kdf pepper now salt username pwd s =
     cli_on username (\<lambda>_. Ok ())
       (\<lambda>u s. case pw_Hash kdf salt (NewHasher DefaultParams pepper) pwd of
                Inl x \<Rightarrow> (Err (CliPassword x), s)
              | Inr hash \<Rightarrow> on_users (user_UpdatePassword now (fst u) hash) s) s"

definition CLIUserChangeEmail :: "int \<Rightarrow> string \<Rightarrow> string \<Rightarrow> server \<Rightarrow> (cli_error + unit) \<times> server" where
  "CLIUserChangeEmail now username email s = cli_on username (\<lambda>_. Ok ()) (\<lambda>u. on_users (SetEmail now (fst u) email)) s"

definition CLIUserResetTOTP :: "int \<Rightarrow> string \<Rightarrow> server \<Rightarrow> (cli_error + unit) \<times> server" where
  "CLIUserResetTOTP now username s =
     cli_on username (\<lambda>_. Ok ())
       (\<lambda>u s. case on_auth (ResetTOTP now (fst u) (sv_auth s)) s of
                (Inl x, s') \<Rightarrow> (Err (CliAuth x), s') | (Inr y, s') \<Rightarrow> (Ok y, s')) s"

text \<open>\<open>listed\<close> tells whether the repositories could be listed; their removal, whose errors the command
  ignores, does not touch the accounts and is left out.\<close>

definition CLIUserPurge :: "bool \<Rightarrow> string \<Rightarrow> server \<Rightarrow> (cli_error + unit) \<times> server" where
  "CLIUserPurge listed username s =
     cli_on username (\<lambda>u. if u_IsAdmin (snd u) then ensureAnotherAdmin s (fst u) else Ok ())
       (\<lambda>u s. if \<not> listed then (Err CliRepos, s) else on_users (user_Delete (fst u)) s) s"

end
