(* ===== verification/AccountClaims.thy ===== *)
theory AccountClaims
  imports AccountHttp
begin

text \<open>
  What the account handlers and the user commands promise together: an instance with an active administrator
  keeps one, a deactivated account is locked out of sessions and Git at once, the client address cannot be
  forged, and what goes wrong when the second factor is to be switched off.
\<close>

section \<open>Steps of the server\<close>

lemma server_auth_simps [simp]:
  "sv_auth (snd (on_auth x s)) = snd x" "fst (on_auth x s) = fst x"
  by (simp_all add: on_auth_def)

text \<open>A handler that touches the authentication service only along \<open>evolves\<close>.\<close>

definition moves :: "server \<Rightarrow> server \<Rightarrow> bool" where
  "moves s s' \<longleftrightarrow> evolves (sv_auth s) (sv_auth s')"

lemma moves_refl [simp]: "moves s s"
  by (simp add: moves_def)

lemma moves_trans: "moves s1 s2 \<Longrightarrow> moves s2 s3 \<Longrightarrow> moves s1 s3"
  unfolding moves_def by (rule evolves_trans)

lemma moves_same [simp]: "moves s (s\<lparr>sv_git := g\<rparr>)" "moves s (s\<lparr>sv_pat := p\<rparr>)"
  "moves s (s'\<lparr>sv_git := g\<rparr>) = moves s s'" "moves s (s'\<lparr>sv_pat := p\<rparr>) = moves s s'"
  by (simp_all add: moves_def)

lemma moves_on_auth: "on_auth x s = (r, s') \<Longrightarrow> evolves (sv_auth s) (snd x) \<Longrightarrow> moves s s'"
  by (auto simp: moves_def on_auth_def)

lemma moves_reauth: "reauth e now rnd r u pw code s = (ok, s') \<Longrightarrow> moves s s'"
  by (auto simp: reauth_def moves_def on_auth_def evo)

lemma moves_register: "moves s (snd (handleRegister e now salt req s))" "moves s (snd (handleSetup e now salt req s))"
  by (auto simp: handleRegister_def handleSetup_def moves_def on_auth_def evo split: sum.splits)

lemma moves_login: "moves s (snd (handleLogin e now rnd r name pw code s))" "moves s (snd (handleLogout e r s))"
  by (auto simp: handleLogin_def handleLogout_def moves_def on_auth_def evo split: sum.splits option.splits)

lemma moves_change: "moves s (snd (handleChangePassword e now rnd salt r user cur new code s))"
proof (cases user)
  case (Some u)
  obtain ok s1 where 1: "reauth e now rnd r u cur code s = (ok, s1)" by force
  obtain x s2 where 2: "on_auth (auth_UpdatePassword (ev_cfg e) now salt u new (sv_auth s1)) s1 = (x, s2)" by force
  have m: "moves s s1" "moves s1 s2" using moves_reauth [OF 1] moves_on_auth [OF 2 evolves_UpdatePassword] by blast+
  have "moves s2 s4" if "on_auth (RevokeOtherSessions c i v (sv_auth s2)) (s2\<lparr>sv_git := g\<rparr>) = (y, s4)" for c i v g y s4
    using that by (auto simp: moves_def on_auth_def RevokeOtherSessions_def evo)
  then show ?thesis using Some 1 2 m moves_trans
    by (auto simp: handleChangePassword_def Let_def split: sum.splits option.splits prod.splits)
qed (simp add: handleChangePassword_def)

lemma moves_rename: "moves s (snd (handleRename e now rnd r user name pw code s))"
proof (cases user)
  case (Some u)
  obtain ok s1 where 1: "reauth e now rnd r u pw code s = (ok, s1)" by force
  obtain x s2 where 2: "on_auth (with_users (Rename now (fst u) name) (sv_auth s1)) s1 = (x, s2)" by force
  have "evolves t (snd (with_users (Rename now i name) t))" for t i
    by (rule evolves_with_users [of _ _ "(now, OpRename i name)"]) (simp_all add: user_step_def)
  then have "moves s s1" "moves s1 s2" using moves_reauth [OF 1] moves_on_auth [OF 2] by blast+
  then show ?thesis using Some 1 2 moves_trans [of s s1 s2] by (auto simp: handleRename_def split: sum.splits)
qed (simp add: handleRename_def)

lemma moves_totp:
  "moves s (snd (handleTOTPBegin e now gen nonce user s))" "moves s (snd (handleTOTPEnable e now f user code s))"
  by (auto simp: handleTOTPBegin_def handleTOTPEnable_def moves_def on_auth_def evo split: sum.splits option.splits)

lemma moves_totp_disable: "moves s (snd (handleTOTPDisable e now rnd r user pw code s))"
proof (cases user)
  case (Some u)
  obtain ok s1 where 1: "reauth e now rnd r u pw code s = (ok, s1)" by force
  obtain x s2 where 2: "on_auth (DisableTOTP (ev_cfg e) now u code (sv_auth s1)) s1 = (x, s2)" by force
  have "moves s s1" "moves s1 s2" using moves_reauth [OF 1] moves_on_auth [OF 2 evolves_DisableTOTP] by blast+
  then show ?thesis using Some 1 2 moves_trans [of s s1 s2] by (auto simp: handleTOTPDisable_def)
qed (simp add: handleTOTPDisable_def)

lemma moves_profile: "moves s (snd (handleUpdateProfile now user req s))"
  by (auto simp: handleUpdateProfile_def Let_def moves_def on_auth_def evo split: option.splits)

lemma moves_tokens:
  "moves s (snd (handleCreateToken e rnd user name k scopes grants s))" "moves s (snd (handleRevokeToken user tid s))"
  by (simp_all add: handleCreateToken_def handleRevokeToken_def Let_def case_prod_unfold split: option.splits sum.splits)

lemma moves_sessions:
  "moves s (snd (handleRevokeSession user sid s))" "moves s (snd (handleRevokeOtherSessions e r user s))"
  by (auto simp: handleRevokeSession_def handleRevokeOtherSessions_def moves_def on_auth_def RevokeSession_def
      RevokeOtherSessions_def evo split: option.splits)

lemma moves_git: "moves s (snd (authenticateGitBasic e now basic s))"
proof (cases basic)
  case (Some b)
  obtain name pw where b: "b = (name, pw)" by force
  obtain cached es where g: "git_get (ac_sha (ev_cfg e)) now name pw (sv_git s) = (cached, es)" by force
  obtain x s2 where v: "on_auth (VerifyPassword (ev_cfg e) now name pw (sv_auth s)) (s\<lparr>sv_git := es\<rparr>) = (x, s2)" by force
  have "moves s s2" using v by (auto simp: moves_def on_auth_def evo)
  then have "moves s (snd (authenticateGitBasic e now basic s))" if "\<not> has_prefix pw ''gitli_''"
    using Some b g v that by (cases cached; cases x) (auto simp: authenticateGitBasic_def Let_def)
  moreover have "moves s (snd (authenticateGitBasic e now basic s))" if "has_prefix pw ''gitli_''"
    using Some b that by (simp add: authenticateGitBasic_def Let_def case_prod_unfold split: sum.splits)
  ultimately show ?thesis by blast
qed (simp add: authenticateGitBasic_def)

section \<open>Administrators\<close>

definition admins :: "server \<Rightarrow> int set" where
  "admins s = active_admins (sv_users s)"

definition server_wf :: "server \<Rightarrow> bool" where
  "server_wf s \<longleftrightarrow> auth_wf (sv_auth s)"

text \<open>Consistency is kept, and so is the fact that someone can administer.\<close>

definition keeps :: "server \<Rightarrow> server \<Rightarrow> bool" where
  "keeps s s' \<longleftrightarrow> (server_wf s \<longrightarrow> server_wf s' \<and> (admins s \<noteq> {} \<longrightarrow> admins s' \<noteq> {}))"

lemma keeps_refl [simp]: "keeps s s"
  by (simp add: keeps_def)

lemma moves_keeps: "moves s s' \<Longrightarrow> keeps s s'"
  using evolves_admins [of "sv_auth s" "sv_auth s'"] evolves_wf [of "sv_auth s" "sv_auth s'"]
  by (auto simp: moves_def keeps_def server_wf_def admins_def)

lemma keeps_moves: "keeps s s' \<Longrightarrow> moves s' s'' \<Longrightarrow> keeps s s''"
  using moves_keeps [of s' s''] by (auto simp: keeps_def)

lemma server_users_wf: "server_wf s \<Longrightarrow> users_wf (sv_users s)"
  by (simp add: server_wf_def auth_wf_def)

lemma keeps_users:
  assumes "\<And>i. sv_auth s' = (sv_auth s)\<lparr>au_users := us\<rparr>" and "users_wf (sv_users s) \<Longrightarrow> users_wf us"
    and "server_wf s \<Longrightarrow> active_admins (sv_users s) \<noteq> {} \<Longrightarrow> active_admins us \<noteq> {}"
  shows "keeps s s'"
  using assms by (auto simp: keeps_def server_wf_def auth_wf_def admins_def)

lemma user_flag_wf:
  "users_wf us \<Longrightarrow> users_wf (snd (user_SetActive now i b us))" "users_wf us \<Longrightarrow> users_wf (snd (SetAdmin now i b us))"
  by (simp_all add: user_SetActive_def SetAdmin_def user_update_wf)

lemma on_users_state: "on_users op s = (r, s') \<Longrightarrow> sv_auth s' = (sv_auth s)\<lparr>au_users := snd (op (sv_users s))\<rparr>"
  by (auto simp: on_users_def case_prod_unfold)

lemma ensureAnotherAdmin_Ok:
  "ensureAnotherAdmin s i = Ok () \<Longrightarrow> \<exists>j \<in> active_admins (sv_users s). j \<noteq> i"
  by (auto simp: ensureAnotherAdmin_def ListAll_def active_admins_def list_ex_iff split: sum.splits if_splits)

lemma not_admin: "users_wf us \<Longrightarrow> (i, r) \<in> set (rows (us_users us)) \<Longrightarrow> \<not> u_IsAdmin r \<Longrightarrow> i \<notin> active_admins us"
  using tbl_key [OF users_wfD(1)] by (auto simp: active_admins_def)

text \<open>A guarded command leaves another administrator.\<close>

lemma cli_on_keeps:
  assumes "\<And>u s'. ByUsername (sv_users s) name = Ok u \<Longrightarrow> guard u = Ok () \<Longrightarrow> snd (change u s) = s' \<Longrightarrow> keeps s s'"
  shows "keeps s (snd (cli_on name guard change s))"
  using assms by (auto simp: cli_on_def split: sum.splits)

lemma remaining_admin:
  assumes "users_wf us" and "(i, r) \<in> set (rows (us_users us))" and "active_admins us \<noteq> {}"
    and "u_IsAdmin r \<Longrightarrow> \<exists>j \<in> active_admins us. j \<noteq> i"
  shows "\<exists>j \<in> active_admins us. j \<noteq> i"
proof (cases "u_IsAdmin r")
  case False
  obtain j where "j \<in> active_admins us" using assms(3) by blast
  then show ?thesis using not_admin [OF assms(1,2) False] by (intro bexI [of _ j]) auto
qed (rule assms(4))

lemma removal_keeps:
  assumes u: "ByUsername (sv_users s) name = Ok u" and g: "u_IsAdmin (snd u) \<Longrightarrow> ensureAnotherAdmin s (fst u) = Ok ()"
    and us: "sv_auth s' = (sv_auth s)\<lparr>au_users := us\<rparr>" and wf: "users_wf (sv_users s) \<Longrightarrow> users_wf us"
    and others: "\<And>j. j \<in> active_admins (sv_users s) \<Longrightarrow> j \<noteq> fst u \<Longrightarrow> j \<in> active_admins us"
  shows "keeps s s'"
proof (rule keeps_users [OF us wf])
  assume w: "server_wf s" and ne: "active_admins (sv_users s) \<noteq> {}"
  have row: "(fst u, snd u) \<in> set (rows (us_users (sv_users s)))" using user_found(1) [OF u] by simp
  show "active_admins us \<noteq> {}"
    using remaining_admin [OF server_users_wf [OF w] row ne] ensureAnotherAdmin_Ok [OF g] others by blast
qed

lemma keeps_set_admin: "keeps s (snd (CLIUserSetAdmin now name b s))"
  unfolding CLIUserSetAdmin_def
proof (rule cli_on_keeps)
  fix u s' assume u: "ByUsername (sv_users s) name = Ok u"
    and g: "(if \<not> b \<and> u_IsAdmin (snd u) then ensureAnotherAdmin s (fst u) else Ok ()) = Ok ()"
    and s': "snd (on_users (SetAdmin now (fst u) b) s) = s'"
  note st = on_users_state [of "SetAdmin now (fst u) b" s "fst (on_users (SetAdmin now (fst u) b) s)" s']
  show "keeps s s'"
  proof (cases b)
    case False
    show ?thesis
      by (rule removal_keeps [OF u _ st user_flag_wf(2)]) (use g False s' admins_changed(1) in \<open>auto simp: SetAdmin_def\<close>)
  next
    case True
    have "j \<in> active_admins (snd (SetAdmin now (fst u) True us))" if jj: "j \<in> active_admins us" for j us
    proof -
      obtain r where r: "(j, r) \<in> set (rows (us_users us))" "u_IsAdmin r" "u_IsActive r" using jj by (auto simp: active_admins_def)
      then have "(j, if j = fst u then r\<lparr>u_IsAdmin := True, u_UpdatedAt := now\<rparr> else r) \<in>
          set (rows (tbl_update (\<lambda>k _. k = fst u) (\<lambda>r. r\<lparr>u_IsAdmin := True, u_UpdatedAt := now\<rparr>) (us_users us)))"
        unfolding set_rows_update by blast
      with r show ?thesis by (auto simp: active_admins_def SetAdmin_def user_update_def)
    qed
    then show ?thesis by (intro keeps_users [OF st user_flag_wf(2)]) (use True s' in auto)
  qed
qed

lemma keeps_disable: "keeps s (snd (CLIUserDisable now name s))"
  unfolding CLIUserDisable_def
proof (rule cli_on_keeps)
  fix u s' assume u: "ByUsername (sv_users s) name = Ok u"
    and g: "(if u_IsAdmin (snd u) then ensureAnotherAdmin s (fst u) else Ok ()) = Ok ()"
    and s': "snd (on_users (user_SetActive now (fst u) False) s) = s'"
  note st = on_users_state [of "user_SetActive now (fst u) False" s "fst (on_users (user_SetActive now (fst u) False) s)" s']
  show "keeps s s'"
    by (rule removal_keeps [OF u _ st user_flag_wf(1)]) (use g s' admins_changed(1) in \<open>auto simp: user_SetActive_def\<close>)
qed

lemma keeps_purge: "keeps s (snd (CLIUserPurge listed name s))"
  unfolding CLIUserPurge_def
proof (rule cli_on_keeps)
  fix u s' assume u: "ByUsername (sv_users s) name = Ok u"
    and g: "(if u_IsAdmin (snd u) then ensureAnotherAdmin s (fst u) else Ok ()) = Ok ()"
    and s': "snd (if \<not> listed then (Err CliRepos, s) else on_users (user_Delete (fst u)) s) = s'"
  note st = on_users_state [of "user_Delete (fst u)" s "fst (on_users (user_Delete (fst u)) s)" s']
  show "keeps s s'"
  proof (cases listed)
    case True
    show ?thesis
      by (rule removal_keeps [OF u _ st user_Delete_wf]) (use g s' True admins_changed(2) in \<open>auto\<close>)
  qed (use s' in simp)
qed

text \<open>Activating an account takes no rights away.\<close>

lemma admins_activate: "active_admins us \<subseteq> active_admins (snd (user_SetActive now i True us))"
proof
  fix j assume "j \<in> active_admins us"
  then obtain r where r: "(j, r) \<in> set (rows (us_users us))" "u_IsAdmin r" "u_IsActive r" by (auto simp: active_admins_def)
  then have "(j, if j = i then r\<lparr>u_IsActive := True, u_UpdatedAt := now\<rparr> else r) \<in>
      set (rows (tbl_update (\<lambda>k _. k = i) (\<lambda>r. r\<lparr>u_IsActive := True, u_UpdatedAt := now\<rparr>) (us_users us)))"
    unfolding set_rows_update by blast
  with r show "j \<in> active_admins (snd (user_SetActive now i True us))"
    by (auto simp: active_admins_def user_SetActive_def user_update_def)
qed

lemma keeps_enable: "keeps s (snd (CLIUserEnable now name s))"
  unfolding CLIUserEnable_def
proof (rule cli_on_keeps)
  fix u s' assume s': "snd (on_users (user_SetActive now (fst u) True) s) = s'"
  note st = on_users_state [of "user_SetActive now (fst u) True" s "fst (on_users (user_SetActive now (fst u) True) s)" s']
  show "keeps s s'" using admins_activate [of "sv_users s" now "fst u"]
    by (intro keeps_users [OF st user_flag_wf(1)]) (use s' in auto)
qed

lemma moves_on_users:
  assumes "snd (op (sv_users s)) = user_step y (sv_users s)" and "harmless (snd y)"
  shows "moves s (snd (on_users op s))"
proof -
  have "evolves (sv_auth s) (snd (with_users op (sv_auth s)))" using evolves_with_users [of op "sv_auth s" y] assms by blast
  moreover have "sv_auth (snd (on_users op s)) = snd (with_users op (sv_auth s))"
    by (simp add: on_users_def with_users_def case_prod_unfold)
  ultimately show ?thesis by (simp add: moves_def)
qed

lemma keeps_cli_others:
  "keeps s (snd (CLIUserChangePassword kdf pepper now salt name pwd s))"
  "keeps s (snd (CLIUserChangeEmail now name email s))" "keeps s (snd (CLIUserResetTOTP now name s))"
proof -
  show "keeps s (snd (CLIUserChangePassword kdf pepper now salt name pwd s))"
    unfolding CLIUserChangePassword_def
    by (rule cli_on_keeps, rule moves_keeps)
      (auto split: sum.splits intro!: moves_on_users [of _ _ "(now, OpPassword _ _)"] simp: user_step_def)
  show "keeps s (snd (CLIUserChangeEmail now name email s))"
    unfolding CLIUserChangeEmail_def
    by (rule cli_on_keeps, rule moves_keeps)
      (auto intro!: moves_on_users [of _ _ "(now, OpEmail _ _)"] simp: user_step_def)
  show "keeps s (snd (CLIUserResetTOTP now name s))"
    unfolding CLIUserResetTOTP_def
    by (rule cli_on_keeps, rule moves_keeps) (auto simp: moves_def on_auth_def evo split: sum.splits prod.splits)
qed

lemma keeps_cli_create: "keeps s (snd (CLIUserCreate kdf pepper now key salt name email pwd b s))"
proof -
  have "moves s s'" if "on_users (user_Create now p) s = (x, s')" for p x s'
    using moves_on_users [of "user_Create now p" s "(now, OpCreate p)"] that by (simp add: user_step_def)
  then have "moves s (snd (CLIUserCreate kdf pepper now key salt name email pwd b s))"
    by (auto simp: CLIUserCreate_def split: sum.splits prod.splits)
  then show ?thesis by (rule moves_keeps)
qed

lemma tbl_count_two:
  assumes "tbl_wf t" and "1 < tbl_count P t"
  shows "\<exists>j r. (j, r) \<in> set (rows t) \<and> P j r \<and> j \<noteq> i"
proof -
  let ?xs = "tbl_select P t"
  have "distinct (map fst (rows t))" using assms(1) by (simp add: tbl_wf_def strict_sorted_iff)
  then have d: "distinct (map fst ?xs)" unfolding tbl_select_def by (rule distinct_map_filter_strong)
  obtain a b zs where xs: "?xs = a # b # zs" using assms(2) by (cases ?xs rule: remdups_adj.cases) (auto simp: tbl_count_def)
  have mem: "(fst x, snd x) \<in> set (rows t) \<and> P (fst x) (snd x)" if "x \<in> {a, b}" for x
    using that set_select [of "fst x" "snd x" P t] xs by auto
  show ?thesis
  proof (cases "fst a = i")
    case True
    then show ?thesis using d mem [of b] xs by (intro exI [of _ "fst b"] exI [of _ "snd b"]) auto
  next
    case False
    then show ?thesis using mem [of a] by (intro exI [of _ "fst a"] exI [of _ "snd a"]) auto
  qed
qed

lemma CountAdmins_two:
  assumes "users_wf us" and "CountAdmins us = Ok n" and "1 < n"
  shows "\<exists>j \<in> active_admins us. j \<noteq> i"
proof -
  have n: "n = tbl_count (\<lambda>_ r. u_IsAdmin r \<and> u_IsActive r) (us_users us)" using assms(2) by (simp add: CountAdmins_def split: if_splits)
  obtain j r where "(j, r) \<in> set (rows (us_users us))" "u_IsAdmin r" "u_IsActive r" "j \<noteq> i"
    using tbl_count_two [OF users_wfD(1) [OF assms(1)], of "\<lambda>_ r. u_IsAdmin r \<and> u_IsActive r" i] assms(3) unfolding n by blast
  then show ?thesis by (auto simp: active_admins_def)
qed

text \<open>The state after the flag was set, before sessions are revoked.\<close>

lemma set_active_keeps:
  assumes u: "user_ByID (sv_users s) i = Ok u"
    and g: "\<not> (\<not> act \<and> u_IsAdmin (snd u) \<and> (case CountAdmins (sv_users s) of Inl _ \<Rightarrow> 0 | Inr n \<Rightarrow> n) \<le> 1)"
    and o: "on_auth (with_users (user_SetActive now i act) (sv_auth s)) s = (x, s1)"
  shows "keeps s s1"
proof -
  have st: "sv_auth s1 = (sv_auth s)\<lparr>au_users := snd (user_SetActive now i act (sv_users s))\<rparr>"
    using o by (auto simp: on_auth_def with_users_def case_prod_unfold)
  show ?thesis
  proof (rule keeps_users [OF st user_flag_wf(1)])
    assume w: "server_wf s" and ne: "active_admins (sv_users s) \<noteq> {}"
    show "active_admins (snd (user_SetActive now i act (sv_users s))) \<noteq> {}"
    proof (cases act)
      case True
      then show ?thesis using admins_activate [of "sv_users s" now i] ne by auto
    next
      case False
      have row: "(i, snd u) \<in> set (rows (us_users (sv_users s)))"
        using user_ByID_iff [OF server_users_wf [OF w], of i "fst u" "snd u"] u by simp
      have "\<exists>j \<in> active_admins (sv_users s). j \<noteq> i" if "u_IsAdmin (snd u)"
        using g False that CountAdmins_two [OF server_users_wf [OF w]] by (auto split: sum.splits)
      then obtain j where "j \<in> active_admins (sv_users s)" "j \<noteq> i"
        using remaining_admin [OF server_users_wf [OF w] row ne] by blast
      then show ?thesis using admins_changed(1) [of j "sv_users s" i] by (auto simp: user_SetActive_def)
    qed
  qed
qed

lemma moves_revoke_all: "on_auth (RevokeAllSessions i (sv_auth s)) (s\<lparr>sv_git := g\<rparr>) = (y, s') \<Longrightarrow> moves s s'"
  by (auto simp: moves_def on_auth_def RevokeAllSessions_def evo)

lemma keeps_admin_set_active: "keeps s (snd (handleAdminSetActive e now admin uid active s))"
proof (cases "requireAdmin admin = None \<and> uid \<noteq> None \<and> active \<noteq> None \<and> is_ok (user_ByID (sv_users s) (the uid))")
  case True
  then obtain i act u where r: "requireAdmin admin = None" "uid = Some i" "active = Some act" "user_ByID (sv_users s) i = Ok u"
    by (cases "user_ByID (sv_users s) (the uid)") auto
  obtain x s1 where o: "on_auth (with_users (user_SetActive now i act) (sv_auth s)) s = (x, s1)" by force
  obtain y s3 where o3: "on_auth (RevokeAllSessions i (sv_auth s1)) (s1\<lparr>sv_git := git_invalidateUser i (sv_git s1)\<rparr>) = (y, s3)" by force
  show ?thesis
  proof (cases "\<not> act \<and> u_IsAdmin (snd u) \<and> (case CountAdmins (sv_users s) of Inl _ \<Rightarrow> 0 | Inr n \<Rightarrow> n) \<le> 1")
    case True
    then show ?thesis using r by (simp add: handleAdminSetActive_def)
  next
    case False
    have k: "keeps s s1" "keeps s s3" using set_active_keeps [OF r(4) False o] keeps_moves [OF _ moves_revoke_all [OF o3]] by blast+
    have "snd (handleAdminSetActive e now admin uid active s) \<in> {s1, s3}"
      using r False o o3 by (cases x; cases act) (auto simp: handleAdminSetActive_def Let_def)
    with k show ?thesis by auto
  qed
next
  case False
  then have "snd (handleAdminSetActive e now admin uid active s) = s"
    by (cases "requireAdmin admin"; cases uid; cases active; cases "user_ByID (sv_users s) (the uid)") (auto simp: handleAdminSetActive_def)
  then show ?thesis by simp
qed

lemma moves_admin_reset: "moves s (snd (handleAdminResetPassword e now rnd salt admin uid s))"
  by (auto simp: handleAdminResetPassword_def on_auth_def moves_def evo split: option.splits sum.splits)

lemma moves_admin_2fa: "moves s (snd (handleAdminReset2FA e now admin uid s))"
proof -
  have 1: "moves s s1" if "on_auth (ResetTOTP now i (sv_auth s)) s = (x, s1)" for i x s1
    using moves_on_auth [OF that evolves_ResetTOTP] .
  have 2: "moves s s3" if "on_auth (ResetTOTP now i (sv_auth s)) s = (x, s1)"
    and "on_auth (RevokeAllSessions i (sv_auth s1)) (s1\<lparr>sv_git := g\<rparr>) = (y, s3)" for i x s1 g y s3
    by (rule moves_trans [OF 1 [OF that(1)] moves_revoke_all [OF that(2)]])
  show ?thesis
    by (auto intro: 1 2 simp: handleAdminReset2FA_def Let_def split: option.splits sum.splits prod.splits)
qed

section \<open>Claims\<close>

datatype server_op =
    SrvRegister "string option" register_params | SrvSetup "string option" register_params
  | SrvLogin "string option" http_request string string string | SrvLogout http_request
  | SrvChange "string option" "string option" http_request "user option" string string string
  | SrvRename "string option" http_request "user option" string string string
  | SrvBegin "(string \<times> string) option" "string option" "user option"
  | SrvEnable "nat \<Rightarrow> string option" "user option" string
  | SrvDisable "string option" http_request "user option" string string
  | SrvProfile "user option" user_row
  | SrvToken "string option" "user option" string string "string list" "token_grant list" | SrvRevokeToken "user option" "int option"
  | SrvRevoke "user option" "int option" | SrvRevokeOthers http_request "user option"
  | SrvGit "(string \<times> string) option"
  | AdmActive "user option" "int option" "bool option" | AdmReset "string option" "string option" "user option" "int option"
  | Adm2FA "user option" "int option"
  | CliCreate "string option" "string option" string string string bool | CliSetAdmin string bool | CliDisable string
  | CliEnable string | CliPass "string option" string string | CliEmail string string | CliTOTP string | CliPurge bool string

definition server_step :: "env \<Rightarrow> string \<Rightarrow> int \<times> server_op \<Rightarrow> server \<Rightarrow> server" where
  "server_step e pepper x s =
     (case x of (now, op) \<Rightarrow>
        (case op of
           SrvRegister salt p \<Rightarrow> snd (handleRegister e now salt p s)
         | SrvSetup salt p \<Rightarrow> snd (handleSetup e now salt p s)
         | SrvLogin rnd r n p k \<Rightarrow> snd (handleLogin e now rnd r n p k s)
         | SrvLogout r \<Rightarrow> snd (handleLogout e r s)
         | SrvChange rnd salt r u a b k \<Rightarrow> snd (handleChangePassword e now rnd salt r u a b k s)
         | SrvRename rnd r u n p k \<Rightarrow> snd (handleRename e now rnd r u n p k s)
         | SrvBegin g nonce u \<Rightarrow> snd (handleTOTPBegin e now g nonce u s)
         | SrvEnable rnd u k \<Rightarrow> snd (handleTOTPEnable e now rnd u k s)
         | SrvDisable rnd r u p k \<Rightarrow> snd (handleTOTPDisable e now rnd r u p k s)
         | SrvProfile u q \<Rightarrow> snd (handleUpdateProfile now u q s)
         | SrvToken rnd u n k sc g \<Rightarrow> snd (handleCreateToken e rnd u n k sc g s)
         | SrvRevokeToken u i \<Rightarrow> snd (handleRevokeToken u i s)
         | SrvRevoke u i \<Rightarrow> snd (handleRevokeSession u i s)
         | SrvRevokeOthers r u \<Rightarrow> snd (handleRevokeOtherSessions e r u s)
         | SrvGit b \<Rightarrow> snd (authenticateGitBasic e now b s)
         | AdmActive a i b \<Rightarrow> snd (handleAdminSetActive e now a i b s)
         | AdmReset rnd salt a i \<Rightarrow> snd (handleAdminResetPassword e now rnd salt a i s)
         | Adm2FA a i \<Rightarrow> snd (handleAdminReset2FA e now a i s)
         | CliCreate key salt n m p b \<Rightarrow> snd (CLIUserCreate (ac_kdf (ev_cfg e)) pepper now key salt n m p b s)
         | CliSetAdmin n b \<Rightarrow> snd (CLIUserSetAdmin now n b s)
         | CliDisable n \<Rightarrow> snd (CLIUserDisable now n s)
         | CliEnable n \<Rightarrow> snd (CLIUserEnable now n s)
         | CliPass salt n p \<Rightarrow> snd (CLIUserChangePassword (ac_kdf (ev_cfg e)) pepper now salt n p s)
         | CliEmail n m \<Rightarrow> snd (CLIUserChangeEmail now n m s)
         | CliTOTP n \<Rightarrow> snd (CLIUserResetTOTP now n s)
         | CliPurge l n \<Rightarrow> snd (CLIUserPurge l n s)))"

lemmas moves_handlers = moves_register moves_login moves_change moves_rename moves_totp moves_totp_disable moves_profile
  moves_tokens moves_sessions moves_git moves_admin_reset moves_admin_2fa

lemma server_step_keeps: "keeps s (server_step e pepper x s)"
proof (cases x)
  case (Pair now op)
  then show ?thesis
    by (cases op) (simp_all add: server_step_def moves_keeps [OF moves_handlers(1)] moves_keeps [OF moves_handlers(2)]
        moves_keeps moves_handlers keeps_set_admin keeps_disable keeps_purge keeps_enable keeps_cli_others keeps_cli_create
        keeps_admin_set_active)
qed

lemma server_run_keeps: "keeps s (fold (server_step e pepper) xs s)"
proof (induction xs arbitrary: s)
  case (Cons x xs)
  have "keeps s (server_step e pepper x s)" by (rule server_step_keeps)
  with Cons.IH [of "server_step e pepper x s"] show ?case by (auto simp: keeps_def)
qed simp

text \<open>C16: An instance with an active administrator keeps one. Whatever requests and user commands follow, with
  whatever arguments, random values and times, also when the caller is not who they claim, some account
  stays both administrator and active; the guards on deactivation, on taking the right away and on
  purging an account see to it. All tables of accounts and sessions stay consistent meanwhile.\<close>

theorem last_admin_kept:
  assumes "server_wf s" and "admins s \<noteq> {}"
  shows "admins (fold (server_step e pepper) xs s) \<noteq> {} \<and> server_wf (fold (server_step e pepper) xs s)"
  using server_run_keeps [of s e pepper xs] assms by (simp add: keeps_def)

definition root_server :: server where
  "root_server = \<lparr>sv_auth = root_state, sv_pat = pat_New, sv_git = []\<rparr>"

definition test_env :: env where
  "test_env = \<lparr>ev_cfg = fst test_service, ev_parse_ip = (\<lambda>_. None), ev_nets = []\<rparr>"

lemma root_server_wf: "server_wf root_server"
  by (simp add: server_wf_def root_server_def root_state_wf)

lemma root_server_admins: "admins root_server \<noteq> {}"
proof -
  obtain enc where s: "root_state = (snd test_service)\<lparr>au_users := users_New\<lparr>us_users :=
      tbl_insert (new_user 1 \<lparr>up_Username = ''root'', up_Email = ''r@x'', up_PasswordHash = enc, up_IsAdmin = True\<rparr>) empty_table\<rparr>\<rparr>"
    by (rule root_account)
  show ?thesis by (simp add: admins_def root_server_def s active_admins_def)
qed

theorem last_admin_kept_witness:
  "admins (fold (server_step test_env []) [(5, CliDisable ''root''), (6, CliSetAdmin ''root'' False), (7, CliPurge True ''root'')] root_server) \<noteq> {}"
  using last_admin_kept [OF root_server_wf root_server_admins] by blast

section \<open>Switching the second factor off\<close>

lemma login_account_same:
  assumes "auth_wf s" and "ByUsername (au_users s) (lp_Username p) = Ok u" and "login_account c now p s = (Ok v, s1)"
  shows "v = u"
  using assms loginLDAP_Ok(3) [OF assms(1) _ assms(2)]
  by (auto simp: login_account_def Let_def split: if_splits sum.splits prod.splits)

lemma verifyTOTP_consumes:
  assumes wf: "auth_wf s" and v: "verifyTOTP c now u code s = (Ok (), s')"
    and one: "tbl_count (\<lambda>_ r. sr_user r = fst u \<and> sr_name r = ''recovery'' \<and> sr_ciphertext r = hashString c code) (au_secrets s) \<le> 1"
  shows "\<not> factor_ok c now s' u code"
proof -
  let ?P = "\<lambda>_ r. sr_user r = fst u \<and> sr_name r = ''recovery'' \<and> sr_ciphertext r = hashString c code"
  obtain secret where d: "decryptSecret c (u_TOTPSecret (snd u)) = Ok secret" using v by (auto simp: verifyTOTP_def split: sum.splits)
  show ?thesis
  proof (cases "ac_totp c now code secret")
    case True
    then show ?thesis using v d by (auto simp: verifyTOTP_def checkAndMarkCode_def factor_ok_def Let_def tbl_exists_insert split: if_splits)
  next
    case False
    obtain i r where f: "tbl_find ?P (au_secrets s) = Some (i, r)" and s': "au_secrets s' = tbl_delete (\<lambda>j _. j = i) (au_secrets s)"
      using v d False by (auto simp: verifyTOTP_def verifyRecoveryCode_def Let_def split: if_splits option.splits)
    have "tbl_wf (au_secrets s)" using wf by (simp add: auth_wf_def)
    from tbl_count_delete_id [where P = ?P, OF this conjunct1 conjunct2, OF tbl_find_Some [OF f] tbl_find_Some [OF f]] one
    have "\<not> tbl_exists ?P (au_secrets s')" unfolding s' using tbl_count_0 [of ?P "tbl_delete (\<lambda>j _. j = i) (au_secrets s)"] by simp
    then show ?thesis using d False by (simp add: factor_ok_def)
  qed
qed

lemma Login_consumes:
  assumes wf: "auth_wf s" and u: "ByUsername (au_users s) (lp_Username p) = Ok u" "u_TOTPEnabled (snd u)"
    and one: "tbl_count (\<lambda>_ r. sr_user r = fst u \<and> sr_name r = ''recovery'' \<and> sr_ciphertext r = hashString c (lp_TOTPCode p)) (au_secrets s) \<le> 1"
    and ok: "is_ok (fst (Login c now rnd p s))"
  shows "\<not> factor_ok c now (snd (Login c now rnd p s)) u (lp_TOTPCode p)"
proof -
  obtain v sess raw s' where L: "Login c now rnd p s = (Ok (v, sess, raw), s')"
    using ok by (cases "Login c now rnd p s"; cases "fst (Login c now rnd p s)") auto
  obtain lim where a: "allow now (login_key p) (au_limiter s) = (True, lim)"
    using L by (auto simp: Login_def Let_def split: if_splits prod.splits)
  let ?s = "s\<lparr>au_limiter := lim\<rparr>"
  obtain s1 where l: "login_account c now p ?s = (Ok v, s1)"
    using L a by (auto simp: Login_def Let_def split: prod.splits sum.splits)
  have wf': "auth_wf ?s" using wf by (simp add: auth_wf_def)
  have vu: "v = u" by (rule login_account_same [OF wf' _ l]) (simp add: u(1))
  have t1: "other_tables s1 = other_tables s" using other_tables_login_account [of c now p ?s] l by simp
  have wf1: "auth_wf s1" using evolves_wf [OF evolves_login_account wf', of c now p] l by simp
  obtain s2 where f: "login_factor c now p u s1 = (Ok (), s2)"
    using L a l vu by (auto simp: Login_def Let_def split: prod.splits sum.splits)
  then have v2: "verifyTOTP c now u (lp_TOTPCode p) s1 = (Ok (), s2)"
    using u(2) by (auto simp: login_factor_def split: if_splits prod.splits sum.splits)
  have "au_used s' = au_used s2 \<and> au_secrets s' = au_secrets s2"
    using L a l f vu by (auto simp: Login_def Let_def createSession_def split: prod.splits sum.splits if_splits)
  then have "factor_ok c now s' u (lp_TOTPCode p) = factor_ok c now s2 u (lp_TOTPCode p)" by (simp add: factor_ok_def split: sum.splits)
  moreover have "\<not> factor_ok c now s2 u (lp_TOTPCode p)"
    by (rule verifyTOTP_consumes [OF wf1 v2]) (use one t1 in \<open>simp add: other_tables_def\<close>)
  ultimately show ?thesis using L by simp
qed

lemma login_account_users:
  assumes "auth_wf s" and "ByUsername (au_users s) (lp_Username p) = Ok u"
  shows "au_users (snd (login_account c now p s)) = au_users s"
proof -
  obtain x s' where l: "loginLDAP c now (lp_Username p) (lp_Password p) s = (x, s')" by force
  have "s' = s" using l assms(2) by (auto simp: loginLDAP_def split: option.splits)
  then show ?thesis using l assms(2) by (auto simp: login_account_def Let_def count_failure_def split: sum.splits)
qed

lemma Login_users:
  assumes "auth_wf s" and "ByUsername (au_users s) (lp_Username p) = Ok u"
  shows "au_users (snd (Login c now rnd p s)) = au_users s"
proof -
  obtain ok lim where a: "allow now (login_key p) (au_limiter s) = (ok, lim)" by force
  obtain r1 s1 where l: "login_account c now p (s\<lparr>au_limiter := lim\<rparr>) = (r1, s1)" by force
  have wf: "auth_wf (s\<lparr>au_limiter := lim\<rparr>)" using assms(1) by (simp add: auth_wf_def)
  have 1: "au_users s1 = au_users s" using login_account_users [OF wf, of p u c now] assms(2) l by simp
  obtain r2 s2 where f: "login_factor c now p (projr r1) s1 = (r2, s2)" by force
  have 2: "au_users s2 = au_users s" using login_factor_frame(1) [of c now p "projr r1" s1] f 1 by simp
  obtain r4 s4 where g: "createSession c now rnd (fst (projr r1)) (lp_IP p) (lp_Agent p)
      (s2\<lparr>au_limiter := lim_reset (login_key p) (au_limiter s2)\<rparr>) = (r4, s4)" by force
  have 4: "au_users s4 = au_users s" using g 2 by (auto simp: createSession_def Let_def split: sum.splits if_splits)
  show ?thesis using a l f g 1 2 4 by (auto simp: Login_def Let_def split: sum.splits)
qed

text \<open>The second factor cannot be switched off through the web interface. For an account that has a second
  factor the handler never reports success, whatever password and code are sent, and the account keeps it: the
  check of the password consumes the code, which the second check of the same code then refuses. (Stored
  recovery codes of one account differ from each other.)\<close>

theorem totp_disable_never_succeeds:
  assumes "server_wf s" and "user_ByID (sv_users s) i = Ok u" and "u_TOTPEnabled (snd u)"
    and "tbl_count (\<lambda>_ r. sr_user r = i \<and> sr_name r = ''recovery'' \<and> sr_ciphertext r = hashString (ev_cfg e) code)
      (au_secrets (sv_auth s)) \<le> 1"
  shows "fst (fst (handleTOTPDisable e now rnd r (Some u) pw code s)) \<noteq> 200
    \<and> (\<exists>q. (i, q) \<in> set (rows (us_users (sv_users (snd (handleTOTPDisable e now rnd r (Some u) pw code s))))) \<and> u_TOTPEnabled q)"
proof -
  let ?c = "ev_cfg e" and ?p = "login_params_of e r (u_Username (snd u)) pw code"
  have wf: "auth_wf (sv_auth s)" using assms(1) by (simp add: server_wf_def)
  have row: "fst u = i" "(i, snd u) \<in> set (rows (us_users (sv_users s)))" "\<not> us_down (sv_users s)"
    using user_ByID_iff [OF auth_wfD(1) [OF wf], of i "fst u" "snd u"] assms(2) by auto
  have u: "ByUsername (sv_users s) (lp_Username ?p) = Ok u"
    using ByUsername_iff [OF auth_wfD(1) [OF wf], of _ i "snd u"] row by (cases u) (simp add: login_params_of_def)
  obtain x t where L: "Login ?c now rnd ?p (sv_auth s) = (x, t)" by force
  have code: "lp_TOTPCode ?p = code" by (simp add: login_params_of_def)
  have us: "au_users t = sv_users s" using Login_users [OF wf u] L by (metis snd_conv)
  show ?thesis
  proof (cases "is_ok x")
    case False
    then have "handleTOTPDisable e now rnd r (Some u) pw code s = ((401, []), s\<lparr>sv_auth := t\<rparr>)"
      using L by (simp add: handleTOTPDisable_def reauth_def on_auth_def)
    then show ?thesis using row assms(3) us by auto
  next
    case True
    then have "\<not> factor_ok ?c now t u code" using Login_consumes [OF wf u assms(3), of ?c now rnd] assms(4) L code row(1) by simp
    then have no: "fst (verifyTOTP ?c now u code t) \<noteq> Ok ()" by (simp add: verifyTOTP_iff)
    obtain y t2 where v: "verifyTOTP ?c now u code t = (y, t2)" by force
    then obtain err where "y = Err err" using no by (cases y) auto
    then have "handleTOTPDisable e now rnd r (Some u) pw code s = ((400, []), s\<lparr>sv_auth := t2\<rparr>)"
      using L True v assms(3) by (simp add: handleTOTPDisable_def reauth_def on_auth_def DisableTOTP_def)
    moreover have "au_users t2 = sv_users s" using verifyTOTP_frame(1) [of ?c now u code t] v us by simp
    ultimately show ?thesis using row assms(3) by auto
  qed
qed

definition some_request :: http_request where
  "some_request = \<lparr>rq_Authorization = [], rq_cookie = None, rq_XForwardedFor = [], rq_RemoteAddr = ''10.0.0.1:99'', rq_UserAgent = ''a''\<rparr>"

lemma root_totp_secrets: "au_secrets root_totp = empty_table"
proof -
  obtain enc where s: "root_state = (snd test_service)\<lparr>au_users := users_New\<lparr>us_users :=
      tbl_insert (new_user 1 \<lparr>up_Username = ''root'', up_Email = ''r@x'', up_PasswordHash = enc, up_IsAdmin = True\<rparr>) empty_table\<rparr>\<rparr>"
    by (rule root_account)
  show ?thesis by (simp add: root_totp_def s) (simp add: test_service_def auth_New_def Let_def)
qed

theorem totp_disable_never_succeeds_witness:
  "\<exists>u. u_TOTPEnabled (snd u) \<and> fst (fst (handleTOTPDisable test_env 9 (Some ''abc'') some_request (Some u) ''longenough'' ''123456''
     \<lparr>sv_auth = root_totp, sv_pat = pat_New, sv_git = []\<rparr>)) \<noteq> 200"
proof -
  let ?s = "\<lparr>sv_auth = root_totp, sv_pat = pat_New, sv_git = []\<rparr>"
  obtain r where r: "(1, r) \<in> set (rows (us_users (au_users root_totp)))" "u_TOTPEnabled r" "\<not> au_down root_totp" by (rule root_totp_account)
  have "user_ByID (sv_users ?s) 1 = Ok (1, r)" using user_ByID_iff [OF auth_wfD(1) [OF root_totp_wf]] r by simp
  from totp_disable_never_succeeds [OF _ this, of test_env "''123456''" 9 "Some ''abc''" some_request "''longenough''"] r(2)
  show ?thesis by (intro exI [of _ "(1, r)"]) (simp add: server_wf_def root_totp_wf root_totp_secrets tbl_count_def tbl_select_def)
qed

lemma request_active:
  assumes "auth_wf s" and "fst (AuthenticateRequest c now raw ip agent s) = Ok (u, x)"
  shows "u \<in> set (rows (us_users (au_users s)))" and "u_IsActive (snd u)"
proof -
  obtain j q i r where ux: "u = (j, q)" "x = (i, r)" by (metis prod.collapse)
  have "u \<in> set (rows (us_users (au_users s))) \<and> u_IsActive (snd u)"
    using assms(2) unfolding ux AuthenticateRequest_iff [OF assms(1)] snd_conv by (elim conjE, hypsubst) (intro conjI; assumption)
  then show "u \<in> set (rows (us_users (au_users s)))" "u_IsActive (snd u)" by blast+
qed

section \<open>Git credentials\<close>

text \<open>Entries of the cache know whose they are, and there are never more than the limit.\<close>

definition git_ok :: "gitAuthCache \<Rightarrow> bool" where
  "git_ok es \<longleftrightarrow> (\<forall>(k, v) \<in> set es. ge_userID v = fst (ge_user v)) \<and> length es \<le> gitAuthMaxEntries"

lemma set_AList_upd: "set (AList.update k v es) \<subseteq> insert (k, v) (set es)"
  by (induction es) auto

lemma length_AList_upd: "length (AList.update k v es) \<le> Suc (length es)"
  by (induction es) auto

lemma git_get_ok: "git_ok es \<Longrightarrow> git_ok (snd (git_get sha now n p es))"
proof -
  assume "git_ok es"
  moreover have "set (AList.delete k es) \<subseteq> set es" "length (AList.delete k es) \<le> length es" for k
    by (auto simp: AList.delete_eq)
  ultimately have "git_ok (AList.delete k es)" for k unfolding git_ok_def by (meson order_trans subsetD)
  with \<open>git_ok es\<close> show ?thesis by (auto simp: git_get_def Let_def split: option.splits)
qed

lemma git_put_ok:
  assumes "git_ok es"
  shows "git_ok (git_put sha now n p u es)"
proof -
  let ?e = "\<lparr>ge_user = u, ge_expires = now + gitAuthTTL, ge_userID = fst u\<rparr>"
  have "git_ok (AList.update k ?e xs)" if "set xs \<subseteq> set es" "length xs < gitAuthMaxEntries" for k xs
    using that assms set_AList_upd [of k ?e xs] length_AList_upd [of k ?e xs] unfolding git_ok_def by fastforce
  moreover have "length (filter P es) < gitAuthMaxEntries \<or> length (filter P es) \<ge> gitAuthMaxEntries" for P by linarith
  ultimately show ?thesis by (auto simp: git_put_def Let_def gitAuthMaxEntries_def)
qed

lemma git_get_user:
  assumes "git_ok es" and "git_get sha now n p es = (Some u, es')"
  shows "\<exists>k v. (k, v) \<in> set es \<and> ge_userID v = fst u"
  using assms by (fastforce simp: git_get_def git_ok_def Let_def split: option.splits if_splits dest: map_of_SomeD)

lemma VerifyPassword_active:
  assumes "VerifyPassword c now n p s = (Ok u, s')"
  shows "u \<in> set (rows (us_users (au_users s)))" and "u_IsActive (snd u)"
proof -
  have "ByUsername (au_users s) n = Ok u" "u_IsActive (snd u)"
    using assms by (auto simp: VerifyPassword_def Let_def split: prod.splits if_splits sum.splits)
  then show "u \<in> set (rows (us_users (au_users s)))" "u_IsActive (snd u)" using user_found(1) by blast+
qed

lemma git_basic_user:
  assumes "git_ok (sv_git s)" and "authenticateGitBasic e now (Some (n, p)) s = (Some u, s')" and "\<not> has_prefix p ''gitli_''"
  shows "(\<exists>k v. (k, v) \<in> set (sv_git s) \<and> ge_userID v = fst u) \<or> (u \<in> set (rows (us_users (sv_users s))) \<and> u_IsActive (snd u))"
proof -
  obtain cached es where g: "git_get (ac_sha (ev_cfg e)) now n p (sv_git s) = (cached, es)" by force
  obtain x t where v: "VerifyPassword (ev_cfg e) now n p (sv_auth s) = (x, t)" by force
  show ?thesis
  proof (cases cached)
    case (Some w)
    then have "w = u" using assms(2,3) g by (auto simp: authenticateGitBasic_def split: if_splits)
    then show ?thesis using git_get_user [OF assms(1)] g Some by blast
  next
    case None
    then have "x = Ok u" using assms(2,3) g v by (cases x) (auto simp: authenticateGitBasic_def Let_def on_auth_def split: if_splits)
    then show ?thesis using VerifyPassword_active v by blast
  qed
qed

text \<open>C17: A deactivated account is out at once. When the handler has reported that an account is deactivated,
  no session token authenticates it, and Basic authentication of Git with a user name and a password never
  yields it, neither from the database nor from the cache of credentials that were good a moment before.\<close>

theorem disabled_account_locked_out:
  assumes "server_wf s" and "git_ok (sv_git s)"
    and "handleAdminSetActive e now admin (Some i) (Some False) s = ((200, texts), s')"
  shows "(\<forall>t raw ip agent u x. fst (AuthenticateRequest (ev_cfg e) t raw ip agent (sv_auth s')) = Ok (u, x) \<longrightarrow> fst u \<noteq> i)
    \<and> (\<forall>t n p u s2. \<not> has_prefix p ''gitli_'' \<longrightarrow> authenticateGitBasic e t (Some (n, p)) s' = (Some u, s2) \<longrightarrow> fst u \<noteq> i)"
proof -
  obtain x s1 where o: "on_auth (with_users (user_SetActive now i False) (sv_auth s)) s = (x, s1)" by force
  have adm: "requireAdmin admin \<noteq> Some 200" by (simp add: requireAdmin_def split: option.splits)
  have h: "is_ok x \<and> snd (on_auth (RevokeAllSessions i (sv_auth s1)) (s1\<lparr>sv_git := git_invalidateUser i (sv_git s1)\<rparr>)) = s'
      \<and> is_ok (fst (RevokeAllSessions i (sv_auth s1)))"
    using assms(3) o adm by (cases x) (auto simp: handleAdminSetActive_def Let_def on_auth_def split: option.splits sum.splits if_splits)
  have git: "sv_git s' = git_invalidateUser i (sv_git s)" and auth: "sv_auth s' = snd (RevokeAllSessions i (sv_auth s1))"
    using h o by (auto simp: on_auth_def)
  have s1: "sv_auth s1 = (sv_auth s)\<lparr>au_users := snd (user_SetActive now i False (sv_users s))\<rparr>"
    using o by (auto simp: on_auth_def with_users_def case_prod_unfold)
  have up: "\<not> us_down (sv_users s)" using h o by (auto simp: on_auth_def with_users_def user_SetActive_def user_update_def split: if_splits)
  have wf1: "auth_wf (sv_auth s1)" using assms(1) s1 user_flag_wf(1) by (auto simp: server_wf_def auth_wf_def)
  have off: "\<not> u_IsActive r" if "(i, r) \<in> set (rows (us_users (sv_users s')))" for r
  proof -
    have "us_users (sv_users s') = tbl_update (\<lambda>j _. j = i) (\<lambda>r. r\<lparr>u_IsActive := False, u_UpdatedAt := now\<rparr>) (us_users (sv_users s))"
      using auth s1 up by (simp add: RevokeAllSessions_def delete_sessions_def user_SetActive_def user_update_def)
    then show ?thesis using that by (auto simp: set_rows_update)
  qed
  have wf': "auth_wf (sv_auth s')" unfolding auth RevokeAllSessions_def by (rule delete_sessions_wf [OF wf1])
  have "fst u \<noteq> i" if "fst (AuthenticateRequest (ev_cfg e) t raw ip agent (sv_auth s')) = Ok (u, x)" for t raw ip agent u x
    using request_active [OF wf' that] off [of "snd u"] by (metis prod.collapse)
  moreover have "fst u \<noteq> i" if "\<not> has_prefix p ''gitli_''" "authenticateGitBasic e t (Some (n, p)) s' = (Some u, s2)" for t n p u s2
  proof -
    have "git_ok (sv_git s')" using assms(2) unfolding git git_ok_def git_invalidateUser_def by (auto intro: le_trans [OF length_filter_le])
    from git_basic_user [OF this that(2,1)] show ?thesis using off [of "snd u"] unfolding git git_invalidateUser_def by auto
  qed
  ultimately show ?thesis by blast
qed

text \<open>A second account next to the administrator, signed in to Git.\<close>

theorem disabled_account_locked_out_witness:
  "\<exists>s a u s'. admins s \<noteq> {} \<and> handleAdminSetActive test_env 9 (Some a) (Some 2) (Some False) s = ((200, []), s')
     \<and> (2, u) \<in> set (rows (us_users (sv_users s)))
     \<and> map_option fst (fst (authenticateGitBasic test_env 10 (Some (''alice'', ''secret'')) s')) \<noteq> Some 2"
proof -
  obtain enc where rs: "root_state = (snd test_service)\<lparr>au_users := users_New\<lparr>us_users :=
      tbl_insert (new_user 1 \<lparr>up_Username = ''root'', up_Email = ''r@x'', up_PasswordHash = enc, up_IsAdmin = True\<rparr>) empty_table\<rparr>\<rparr>"
    by (rule root_account)
  define s where "s = snd (on_users (user_Create 3 alice) root_server)"
  have k: "keeps root_server s" unfolding s_def
    by (rule moves_keeps, rule moves_on_users [of _ _ "(3, OpCreate alice)"]) (simp_all add: user_step_def)
  then have wf: "server_wf s" and ad: "admins s \<noteq> {}" using root_server_wf root_server_admins by (auto simp: keeps_def)
  have us: "us_users (sv_users s) = tbl_insert (new_user 3 alice) (tbl_insert (new_user 1
      \<lparr>up_Username = ''root'', up_Email = ''r@x'', up_PasswordHash = enc, up_IsAdmin = True\<rparr>) empty_table)"
    and up: "\<not> us_down (sv_users s)" and git: "sv_git s = []"
    by (simp_all add: s_def on_users_def root_server_def rs user_Create_def users_New_def tbl_exists_def alice_def Let_def case_prod_unfold)
  have u: "user_ByID (sv_users s) 2 = Ok (2, new_user 3 alice)"
    using user_ByID_iff [OF server_users_wf [OF wf]] us up by simp
  define a where "a = (1 :: int, new_user 1 \<lparr>up_Username = ''root'', up_Email = ''r@x'', up_PasswordHash = enc, up_IsAdmin = True\<rparr>)"
  obtain s' where h: "handleAdminSetActive test_env 9 (Some a) (Some 2) (Some False) s = ((200, []), s')"
    using u up by (simp add: handleAdminSetActive_def requireAdmin_def a_def alice_def on_auth_def with_users_def user_SetActive_def
        user_update_def RevokeAllSessions_def delete_sessions_def Let_def)
  have "git_ok (sv_git s)" by (simp add: git git_ok_def)
  note locked = disabled_account_locked_out [OF wf this h, THEN conjunct2, rule_format]
  have "\<not> has_prefix ''secret'' ''gitli_''" by (simp add: has_prefix_def)
  then have out: "map_option fst (fst (authenticateGitBasic test_env 10 (Some (''alice'', ''secret'')) s')) \<noteq> Some 2"
  proof -
    obtain v s2 where r: "authenticateGitBasic test_env 10 (Some (''alice'', ''secret'')) s' = (v, s2)" by (rule prod.exhaust)
    show ?thesis using locked [of "''secret''" 10 "''alice''"] \<open>\<not> has_prefix ''secret'' ''gitli_''\<close> r by (cases v) simp_all
  qed
  have "(2, new_user 3 alice) \<in> set (rows (us_users (sv_users s)))" by (simp add: us)
  with ad h out show ?thesis by blast
qed

end
