(* ===== verification/Repos.thy ===== *)
theory Repos
  imports Pat Secutil
begin

text \<open>
  Repositories: \<open>internal/service/repo\<close> (\<open>repo.go\<close>, \<open>permission.go\<close>, \<open>softdelete.go\<close>, \<open>archive.go\<close>,
  \<open>rename.go\<close>, \<open>fork.go\<close>), \<open>internal/service/org/org.go\<close> and the layout of the repositories on disk,
  \<open>internal/infra/fsrepo\<close>.

  The state \<open>repo_db\<close> holds the tables and the disk: \<open>rd_disk\<close> maps the path of a bare repository to what it
  contains, an opaque string for the Git objects and references, and to the owner and name that its
  hook scripts carry. What the \<open>git\<close> program does to it is its documented behaviour: \<open>init\<close> leaves an
  existing repository as it is, \<open>clone\<close> fails on a missing source and on a target that exists. The file
  system (or the \<open>git\<close> program) fails as a whole, \<open>rd_fs_down\<close>. The tables fail with the accounts, whose
  store is an argument (\<open>us_down\<close>). Names are ASCII. Descriptions, counters of stars, sizes and licenses are left out.
\<close>

section \<open>State\<close>

record repo_row =
  rp_OwnerID :: int
  rp_OwnerType :: string
  rp_OrgID :: "int option"
  rp_Name :: string
  rp_DefaultBranch :: string
  rp_IsPrivate :: bool
  rp_IsFork :: bool
  rp_ForkID :: "int option"
  rp_ForksCount :: int
  rp_Archived :: bool
  rp_UpdatedAt :: int
  rp_DeletedAt :: "int option"

type_synonym repo = "int \<times> repo_row"

record org_row =
  og_Name :: string
  og_OwnerID :: int
  og_Archived :: bool

record org_team =
  te_OrgID :: int
  te_Name :: string
  te_Permission :: string

record team_member =
  me_TeamID :: int
  me_UserID :: int
  me_Role :: string

record collaborator =
  cl_RepoID :: int
  cl_UserID :: int
  cl_Permission :: string

record branch_protection =
  bp_RepoID :: int
  bp_Pattern :: string
  bp_RequireReview :: bool
  bp_RequireSigned :: bool
  bp_RequireCodeowners :: bool

record tag_protection =
  tp_RepoID :: int
  tp_Pattern :: string

record repo_redirect =
  rr_OldOwner :: string
  rr_OldName :: string
  rr_RepoID :: int

record disk_repo =
  dr_content :: string
  dr_hook :: "(string \<times> string) option"

record repo_db =
  rd_root :: string
  rd_repos :: "repo_row table"
  rd_orgs :: "org_row table"
  rd_teams :: "org_team table"
  rd_members :: "team_member table"
  rd_collabs :: "collaborator table"
  rd_branches :: "branch_protection table"
  rd_tags :: "tag_protection table"
  rd_redirects :: "repo_redirect table"
  rd_disk :: "string \<Rightarrow> disk_repo option"
  rd_fs_down :: bool

datatype repo_error = RepoNotFound | RepoExists | RepoName | RepoFS | RepoConstraint | RepoDriver

definition OwnerUser :: string where "OwnerUser = ''user''"
definition OwnerOrg :: string where "OwnerOrg = ''org''"

definition repos_New :: "string \<Rightarrow> repo_db" where
  "repos_New root = \<lparr>rd_root = root, rd_repos = empty_table, rd_orgs = empty_table, rd_teams = empty_table,
     rd_members = empty_table, rd_collabs = empty_table, rd_branches = empty_table, rd_tags = empty_table,
     rd_redirects = empty_table, rd_disk = (\<lambda>_. None), rd_fs_down = False\<rparr>"

section \<open>The layout on disk\<close>

text \<open>\<open>strings.ReplaceAll(s, "..", "-")\<close>\<close>

fun dots_to_dash :: "string \<Rightarrow> string" where
  "dots_to_dash [] = []"
| "dots_to_dash [c] = [c]"
| "dots_to_dash (c # d # s) =
     (if c = CHR ''.'' \<and> d = CHR ''.'' then CHR ''-'' # dots_to_dash s else c # dots_to_dash (d # s))"

definition sanitize :: "string \<Rightarrow> string" where
  "sanitize s =
     (let t = dots_to_dash (map (\<lambda>c. if c = CHR ''/'' then CHR ''-'' else c) (trim_space s))
      in if t = [] then ''_'' else map (\<lambda>c. if name_char c then c else CHR ''-'') t)"

definition containedIn :: "string \<Rightarrow> string \<Rightarrow> bool" where
  "containedIn root target \<longleftrightarrow> Clean target = Clean root \<or> has_prefix (Clean target) (Clean root @ ''/'')"

definition fs_Path :: "string \<Rightarrow> string \<Rightarrow> string \<Rightarrow> string" where
  "fs_Path root owner name =
     (let p = path_join [root, sanitize owner, sanitize name @ ''.git'']
      in if containedIn root p then p else path_join [root, ''_invalid_'', ''_invalid_.git''])"

definition fs_Init :: "string \<Rightarrow> (string \<Rightarrow> disk_repo option) \<Rightarrow> (string \<Rightarrow> disk_repo option)" where
  "fs_Init path d = (case d path of Some _ \<Rightarrow> d | None \<Rightarrow> d(path \<mapsto> \<lparr>dr_content = [], dr_hook = None\<rparr>))"

definition InstallHooks :: "string \<Rightarrow> string \<Rightarrow> string \<Rightarrow> (string \<Rightarrow> disk_repo option) \<Rightarrow> (string \<Rightarrow> disk_repo option)" where
  "InstallHooks path owner name d = d(path := map_option (\<lambda>r. r\<lparr>dr_hook := Some (owner, name)\<rparr>) (d path))"

definition fs_Remove :: "string \<Rightarrow> (string \<Rightarrow> disk_repo option) \<Rightarrow> (string \<Rightarrow> disk_repo option)" where
  "fs_Remove path d = d(path := None)"

definition fs_Move :: "string \<Rightarrow> string \<Rightarrow> (string \<Rightarrow> disk_repo option) \<Rightarrow> (string \<Rightarrow> disk_repo option) option" where
  "fs_Move src dst d =
     (case d src of
        None \<Rightarrow> None
      | Some r \<Rightarrow> if src = dst then Some d else if d dst \<noteq> None then None else Some (d(src := None, dst \<mapsto> r)))"

definition CloneLocal :: "string \<Rightarrow> string \<Rightarrow> (string \<Rightarrow> disk_repo option) \<Rightarrow> (string \<Rightarrow> disk_repo option) option" where
  "CloneLocal src dst d =
     (case d src of
        None \<Rightarrow> None
      | Some r \<Rightarrow> if d dst \<noteq> None then None else Some (d(dst \<mapsto> \<lparr>dr_content = dr_content r, dr_hook = None\<rparr>)))"

section \<open>Finding repositories\<close>

definition repo_scanOne :: "user_store \<Rightarrow> repo_db \<Rightarrow> (int \<Rightarrow> repo_row \<Rightarrow> bool) \<Rightarrow> repo_error + repo" where
  "repo_scanOne users db P =
     (if us_down users then Err RepoDriver
      else case tbl_find P (rd_repos db) of None \<Rightarrow> Err RepoNotFound | Some x \<Rightarrow> Ok x)"

definition repo_ByID :: "user_store \<Rightarrow> repo_db \<Rightarrow> int \<Rightarrow> repo_error + repo" where
  "repo_ByID users db i = repo_scanOne users db (\<lambda>j _. j = i)"

definition ByOwnerName :: "user_store \<Rightarrow> repo_db \<Rightarrow> int \<Rightarrow> string \<Rightarrow> repo_error + repo" where
  "ByOwnerName users db ownerID name = repo_scanOne users db (\<lambda>_ r. rp_OwnerID r = ownerID \<and> rp_Name r = name)"

text \<open>\<open>ORDER BY updated_at DESC LIMIT ? OFFSET ?\<close>\<close>

definition by_recency :: "nat \<Rightarrow> nat \<Rightarrow> repo list \<Rightarrow> repo list" where
  "by_recency limit offset rs = take limit (drop offset (sort_key (\<lambda>(_, r). - rp_UpdatedAt r) rs))"

definition repo_limit :: "int \<Rightarrow> nat" where
  "repo_limit limit = (if limit \<le> 0 \<or> limit > 100 then 30 else nat limit)"

definition ListByOwner :: "user_store \<Rightarrow> repo_db \<Rightarrow> int \<Rightarrow> int \<Rightarrow> int \<Rightarrow> repo_error + repo list" where
  "ListByOwner users db ownerID limit offset =
     (if us_down users then Err RepoDriver
      else Ok (by_recency (repo_limit limit) (nat offset) (tbl_select (\<lambda>_ r. rp_OwnerID r = ownerID) (rd_repos db))))"

definition ListPublic :: "user_store \<Rightarrow> repo_db \<Rightarrow> int \<Rightarrow> int \<Rightarrow> repo_error + repo list" where
  "ListPublic users db limit offset =
     (if us_down users then Err RepoDriver
      else Ok (by_recency (repo_limit limit) (nat offset)
             (tbl_select (\<lambda>_ r. \<not> rp_IsPrivate r \<and> \<not> rp_Archived r) (rd_repos db))))"

definition validateRepoName :: "string \<Rightarrow> repo_error + unit" where
  "validateRepoName name0 =
     (let name = trim_space name0 in
      if name = [] then Err RepoName
      else if contains_any name [CHR '' '', CHR ''/'', backslash] \<or> name = ''.'' \<or> name = ''..'' then Err RepoName
      else Ok ())"

text \<open>The directory of an owner: the name of the organization, of the account, or a number.\<close>

definition ownerSlug :: "user_store \<Rightarrow> repo_db \<Rightarrow> int \<Rightarrow> string \<Rightarrow> int option \<Rightarrow> string" where
  "ownerSlug users db ownerID ownerType orgID =
     (let org = (case orgID of
            Some oid \<Rightarrow> if ownerType = OwnerOrg \<and> \<not> us_down users then tbl_by_id oid (rd_orgs db) else None
          | None \<Rightarrow> None)
      in case org of
           Some x \<Rightarrow> og_Name x
         | None \<Rightarrow>
             (case if us_down users then None else tbl_by_id ownerID (us_users users) of
                Some u \<Rightarrow> u_Username u
              | None \<Rightarrow> ''owner-'' @ FormatInt ownerID))"

definition repo_path :: "user_store \<Rightarrow> repo_db \<Rightarrow> repo_row \<Rightarrow> string" where
  "repo_path users db r = fs_Path (rd_root db) (ownerSlug users db (rp_OwnerID r) (rp_OwnerType r) (rp_OrgID r)) (rp_Name r)"

section \<open>Creating and forking\<close>

record repo_params =
  ca_OwnerID :: int
  ca_OwnerType :: string
  ca_OrgID :: "int option"
  ca_Name :: string
  ca_DefaultBranch :: string
  ca_IsPrivate :: bool

definition new_repo :: "int \<Rightarrow> repo_params \<Rightarrow> repo_row" where
  "new_repo now p =
     \<lparr>rp_OwnerID = ca_OwnerID p, rp_OwnerType = (if ca_OwnerType p = [] then OwnerUser else ca_OwnerType p),
      rp_OrgID = ca_OrgID p, rp_Name = ca_Name p,
      rp_DefaultBranch = (if ca_DefaultBranch p = [] then ''main'' else ca_DefaultBranch p),
      rp_IsPrivate = ca_IsPrivate p, rp_IsFork = False, rp_ForkID = None, rp_ForksCount = 0,
      rp_Archived = False, rp_UpdatedAt = now, rp_DeletedAt = None\<rparr>"

text \<open>The name is free for the owner, or the reason why not.\<close>

definition name_free :: "user_store \<Rightarrow> repo_db \<Rightarrow> int \<Rightarrow> string \<Rightarrow> repo_error + unit" where
  "name_free users db ownerID name =
     (case ByOwnerName users db ownerID name of
        Inr _ \<Rightarrow> Err RepoExists
      | Inl e \<Rightarrow> if e \<noteq> RepoNotFound then Err e else Ok ())"

definition repo_Create :: "int \<Rightarrow> user_store \<Rightarrow> repo_params \<Rightarrow> repo_db \<Rightarrow> (repo_error + repo) \<times> repo_db" where
  "repo_Create now users p db =
     (let r = new_repo now p in
      case validateRepoName (rp_Name r) of Inl e \<Rightarrow> (Err e, db)
      | Inr _ \<Rightarrow>
     (case name_free users db (rp_OwnerID r) (rp_Name r) of Inl e \<Rightarrow> (Err e, db)
      | Inr _ \<Rightarrow>
          let db1 = db\<lparr>rd_repos := tbl_insert r (rd_repos db)\<rparr>;
              owner = ownerSlug users db (rp_OwnerID r) (rp_OwnerType r) (rp_OrgID r);
              path = fs_Path (rd_root db) owner (rp_Name r)
          in if rd_fs_down db then (Err RepoFS, db1)
             else let db2 = db1\<lparr>rd_disk := InstallHooks path owner (rp_Name r) (fs_Init path (rd_disk db1))\<rparr>
                  in (repo_ByID users db2 (seq (rd_repos db1)), db2)))"

record fork_params =
  fk_Source :: repo
  fk_TargetName :: string
  fk_OwnerID :: int
  fk_OwnerType :: string
  fk_OrgID :: "int option"

definition fork_row :: "int \<Rightarrow> fork_params \<Rightarrow> string \<Rightarrow> repo_row" where
  "fork_row now p name =
     \<lparr>rp_OwnerID = fk_OwnerID p, rp_OwnerType = (if fk_OwnerType p = [] then OwnerUser else fk_OwnerType p),
      rp_OrgID = fk_OrgID p, rp_Name = name, rp_DefaultBranch = rp_DefaultBranch (snd (fk_Source p)),
      rp_IsPrivate = rp_IsPrivate (snd (fk_Source p)), rp_IsFork = True, rp_ForkID = Some (fst (fk_Source p)),
      rp_ForksCount = 0, rp_Archived = False, rp_UpdatedAt = now, rp_DeletedAt = None\<rparr>"

definition Fork :: "int \<Rightarrow> user_store \<Rightarrow> fork_params \<Rightarrow> repo_db \<Rightarrow> (repo_error + repo) \<times> repo_db" where
  "Fork now users p db =
     (let src = snd (fk_Source p);
          name = (if fk_TargetName p = [] then rp_Name src else fk_TargetName p);
          r = fork_row now p name in
      case validateRepoName name of Inl e \<Rightarrow> (Err e, db)
      | Inr _ \<Rightarrow>
     (case name_free users db (rp_OwnerID r) name of Inl e \<Rightarrow> (Err e, db)
      | Inr _ \<Rightarrow>
          let dstOwner = ownerSlug users db (rp_OwnerID r) (rp_OwnerType r) (rp_OrgID r);
              srcPath = repo_path users db src;
              dstPath = fs_Path (rd_root db) dstOwner name
          in if rd_fs_down db then (Err RepoFS, db)
             else case CloneLocal srcPath dstPath (rd_disk db) of
               None \<Rightarrow> (Err RepoFS, db\<lparr>rd_disk := fs_Remove dstPath (rd_disk db)\<rparr>)
             | Some d \<Rightarrow>
                 let t = tbl_insert r (rd_repos db);
                     db1 = db\<lparr>rd_disk := InstallHooks dstPath dstOwner name d,
                       rd_repos := tbl_update (\<lambda>i _. i = fst (fk_Source p))
                         (\<lambda>x. x\<lparr>rp_ForksCount := rp_ForksCount x + 1, rp_UpdatedAt := now\<rparr>) t\<rparr>
                 in (repo_ByID users db1 (seq t), db1)))"

section \<open>Moving\<close>

definition update_repo :: "int \<Rightarrow> (repo_row \<Rightarrow> repo_row) \<Rightarrow> repo_db \<Rightarrow> repo_db" where
  "update_repo i f db = db\<lparr>rd_repos := tbl_update (\<lambda>j _. j = i) f (rd_repos db)\<rparr>"

text \<open>The move on disk that ends an operation: its failure is the answer, the tables are changed already.\<close>

definition move_repo :: "string \<Rightarrow> string \<Rightarrow> repo_db \<Rightarrow> (repo_error + unit) \<times> repo_db" where
  "move_repo src dst db =
     (if rd_fs_down db then (Err RepoFS, db)
      else case fs_Move src dst (rd_disk db) of
        None \<Rightarrow> (Err RepoFS, db) | Some d \<Rightarrow> (Ok (), db\<lparr>rd_disk := d\<rparr>))"

definition Transfer ::
  "int \<Rightarrow> user_store \<Rightarrow> int \<Rightarrow> int \<Rightarrow> string \<Rightarrow> int option \<Rightarrow> repo_db \<Rightarrow> (repo_error + unit) \<times> repo_db" where
  "Transfer now users i newOwnerID newOwnerType newOrgID db =
     (case repo_ByID users db i of
        Inl e \<Rightarrow> (Err e, db)
      | Inr (_, r) \<Rightarrow>
          let newOwner = ownerSlug users db newOwnerID newOwnerType newOrgID
          in move_repo (repo_path users db r) (fs_Path (rd_root db) newOwner (rp_Name r))
               (update_repo i (\<lambda>x. x\<lparr>rp_OwnerID := newOwnerID, rp_OwnerType := newOwnerType, rp_OrgID := newOrgID,
                  rp_UpdatedAt := now\<rparr>) db))"

definition put_redirect :: "repo_redirect \<Rightarrow> repo_redirect table \<Rightarrow> repo_redirect table" where
  "put_redirect x t =
     (let P = (\<lambda>_ y. rr_OldOwner y = rr_OldOwner x \<and> rr_OldName y = rr_OldName x)
      in if tbl_exists P t then tbl_update P (\<lambda>y. y\<lparr>rr_RepoID := rr_RepoID x\<rparr>) t else tbl_insert x t)"

definition repo_Rename :: "int \<Rightarrow> user_store \<Rightarrow> int \<Rightarrow> string \<Rightarrow> repo_db \<Rightarrow> (repo_error + unit) \<times> repo_db" where
  "repo_Rename now users i newName db =
     (case validateRepoName newName of Inl e \<Rightarrow> (Err e, db)
      | Inr _ \<Rightarrow>
     (case repo_ByID users db i of Inl e \<Rightarrow> (Err e, db)
      | Inr (_, r) \<Rightarrow>
          if rp_Name r = newName then (Ok (), db)
          else if is_ok (ByOwnerName users db (rp_OwnerID r) newName) then (Err RepoExists, db)
          else let owner = ownerSlug users db (rp_OwnerID r) (rp_OwnerType r) (rp_OrgID r);
                   db1 = update_repo i (\<lambda>x. x\<lparr>rp_Name := newName, rp_UpdatedAt := now\<rparr>) db
               in move_repo (fs_Path (rd_root db) owner (rp_Name r)) (fs_Path (rd_root db) owner newName)
                    (db1\<lparr>rd_redirects := put_redirect \<lparr>rr_OldOwner = owner, rr_OldName = rp_Name r, rr_RepoID = i\<rparr> (rd_redirects db1)\<rparr>)))"

definition repo_ResolveRedirect :: "user_store \<Rightarrow> repo_db \<Rightarrow> string \<Rightarrow> string \<Rightarrow> repo_error + int" where
  "repo_ResolveRedirect users db owner name =
     (case if us_down users then None
           else tbl_find (\<lambda>_ x. rr_OldOwner x = owner \<and> rr_OldName x = name) (rd_redirects db) of
        None \<Rightarrow> Err RepoNotFound | Some (_, x) \<Rightarrow> Ok (rr_RepoID x))"

section \<open>Deleting and archiving\<close>

definition SoftDelete :: "int \<Rightarrow> user_store \<Rightarrow> int \<Rightarrow> repo_db \<Rightarrow> (repo_error + unit) \<times> repo_db" where
  "SoftDelete now users i db =
     (if us_down users then (Err RepoDriver, db)
      else (Ok (), db\<lparr>rd_repos := tbl_update (\<lambda>j r. j = i \<and> rp_DeletedAt r = None)
             (\<lambda>r. r\<lparr>rp_DeletedAt := Some now, rp_UpdatedAt := now\<rparr>) (rd_repos db)\<rparr>))"

definition Restore :: "int \<Rightarrow> user_store \<Rightarrow> int \<Rightarrow> repo_db \<Rightarrow> (repo_error + unit) \<times> repo_db" where
  "Restore now users i db =
     (if us_down users then (Err RepoDriver, db)
      else (Ok (), update_repo i (\<lambda>r. r\<lparr>rp_DeletedAt := None, rp_UpdatedAt := now\<rparr>) db))"

definition IsDeleted :: "user_store \<Rightarrow> repo_db \<Rightarrow> int \<Rightarrow> repo_error + bool" where
  "IsDeleted users db i =
     (case if us_down users then None else tbl_by_id i (rd_repos db) of
        None \<Rightarrow> Err RepoNotFound | Some r \<Rightarrow> Ok (rp_DeletedAt r \<noteq> None))"

definition Purge :: "user_store \<Rightarrow> int \<Rightarrow> repo_db \<Rightarrow> (repo_error + unit) \<times> repo_db" where
  "Purge users i db =
     (case repo_ByID users db i of
        Inl e \<Rightarrow> (Err e, db)
      | Inr (_, r) \<Rightarrow>
          let db1 = db\<lparr>rd_repos := tbl_delete (\<lambda>j _. j = i) (rd_repos db)\<rparr>
          in if rd_fs_down db then (Err RepoFS, db1)
             else (Ok (), db1\<lparr>rd_disk := fs_Remove (repo_path users db r) (rd_disk db1)\<rparr>))"

definition ListDeletedByOwner :: "user_store \<Rightarrow> repo_db \<Rightarrow> int \<Rightarrow> repo_error + repo list" where
  "ListDeletedByOwner users db ownerID =
     (if us_down users then Err RepoDriver
      else Ok (sort_key (\<lambda>(_, r). - the (rp_DeletedAt r))
             (tbl_select (\<lambda>_ r. rp_OwnerID r = ownerID \<and> rp_DeletedAt r \<noteq> None) (rd_repos db))))"

definition day :: int where "day = 24 * 60 * 60 * 1000000000"

fun purge_all :: "user_store \<Rightarrow> int list \<Rightarrow> int \<Rightarrow> repo_db \<Rightarrow> int \<times> repo_db" where
  "purge_all users [] n db = (n, db)"
| "purge_all users (i # is) n db =
     (case Purge users i db of (x, db') \<Rightarrow> purge_all users is (if is_ok x then n + 1 else n) db')"

definition PurgeExpired :: "int \<Rightarrow> user_store \<Rightarrow> int \<Rightarrow> repo_db \<Rightarrow> (repo_error + int) \<times> repo_db" where
  "PurgeExpired now users retentionDays db =
     (let days = (if retentionDays \<le> 0 then 30 else retentionDays);
          cutoff = now - days * day
      in if us_down users then (Err RepoDriver, db)
         else case purge_all users (map fst (tbl_select
                  (\<lambda>_ r. case rp_DeletedAt r of None \<Rightarrow> False | Some t \<Rightarrow> t < cutoff) (rd_repos db))) 0 db of
           (n, db') \<Rightarrow> (Ok n, db'))"

definition Archive :: "int \<Rightarrow> user_store \<Rightarrow> int \<Rightarrow> bool \<Rightarrow> repo_db \<Rightarrow> (repo_error + unit) \<times> repo_db" where
  "Archive now users i archived db =
     (if us_down users then (Err RepoDriver, db)
      else (Ok (), update_repo i (\<lambda>r. r\<lparr>rp_Archived := archived, rp_UpdatedAt := now\<rparr>) db))"

definition IsArchived :: "user_store \<Rightarrow> repo_db \<Rightarrow> repo_row \<Rightarrow> bool" where
  "IsArchived users db r \<longleftrightarrow>
     (if rp_Archived r then True
      else case rp_OrgID r of
        Some oid \<Rightarrow> (case if us_down users then None else tbl_by_id oid (rd_orgs db) of
                     Some x \<Rightarrow> og_Archived x | None \<Rightarrow> False)
      | None \<Rightarrow> False)"

section \<open>Organizations\<close>

definition org_Create :: "user_store \<Rightarrow> string \<Rightarrow> int \<Rightarrow> repo_db \<Rightarrow> (repo_error + int \<times> org_row) \<times> repo_db" where
  "org_Create users name ownerID db =
     (if us_down users then (Err RepoDriver, db)
      else if tbl_exists (\<lambda>_ x. og_Name x = name) (rd_orgs db) then (Err RepoConstraint, db)
      else let x = \<lparr>og_Name = name, og_OwnerID = ownerID, og_Archived = False\<rparr>; t = tbl_insert x (rd_orgs db)
           in (Ok (seq t, x), db\<lparr>rd_orgs := t\<rparr>))"

definition org_find :: "user_store \<Rightarrow> repo_db \<Rightarrow> (int \<Rightarrow> org_row \<Rightarrow> bool) \<Rightarrow> repo_error + int \<times> org_row" where
  "org_find users db P =
     (if us_down users then Err RepoDriver
      else case tbl_find P (rd_orgs db) of None \<Rightarrow> Err RepoNotFound | Some x \<Rightarrow> Ok x)"

definition org_ByName :: "user_store \<Rightarrow> repo_db \<Rightarrow> string \<Rightarrow> repo_error + int \<times> org_row" where
  "org_ByName users db name = org_find users db (\<lambda>_ x. og_Name x = name)"

definition org_ByID :: "user_store \<Rightarrow> repo_db \<Rightarrow> int \<Rightarrow> repo_error + int \<times> org_row" where
  "org_ByID users db i = org_find users db (\<lambda>j _. j = i)"

definition org_CreateTeam :: "user_store \<Rightarrow> int \<Rightarrow> string \<Rightarrow> Perm \<Rightarrow> repo_db \<Rightarrow> (repo_error + int \<times> org_team) \<times> repo_db" where
  "org_CreateTeam users orgID name permission db =
     (if us_down users then (Err RepoDriver, db)
      else let x = \<lparr>te_OrgID = orgID, te_Name = name, te_Permission = perm_String permission\<rparr>; t = tbl_insert x (rd_teams db)
           in (Ok (seq t, x), db\<lparr>rd_teams := t\<rparr>))"

definition org_AddTeamMember :: "user_store \<Rightarrow> int \<Rightarrow> int \<Rightarrow> string \<Rightarrow> repo_db \<Rightarrow> (repo_error + unit) \<times> repo_db" where
  "org_AddTeamMember users teamID userID role db =
     (if us_down users then (Err RepoDriver, db)
      else (Ok (), db\<lparr>rd_members := tbl_insert \<lparr>me_TeamID = teamID, me_UserID = userID,
              me_Role = (if role = [] then ''member'' else role)\<rparr> (rd_members db)\<rparr>))"

text \<open>The rows of the join of teams and their members, as permissions.\<close>

definition team_perms :: "repo_db \<Rightarrow> int \<Rightarrow> int \<Rightarrow> Perm list" where
  "team_perms db orgID userID =
     concat (map (\<lambda>(i, t). map (\<lambda>_. ParsePerm (te_Permission t))
        (tbl_select (\<lambda>_ m. me_TeamID m = i \<and> me_UserID m = userID) (rd_members db)))
       (tbl_select (\<lambda>_ t. te_OrgID t = orgID) (rd_teams db)))"

definition TeamPermission :: "user_store \<Rightarrow> repo_db \<Rightarrow> int \<Rightarrow> int \<Rightarrow> repo_error + Perm" where
  "TeamPermission users db orgID userID =
     (if us_down users then Err RepoDriver
      else Ok (fold (\<lambda>p best. if p > best then p else best) (team_perms db orgID userID) PermNone))"

definition IsMember :: "user_store \<Rightarrow> repo_db \<Rightarrow> int \<Rightarrow> int \<Rightarrow> repo_error + bool" where
  "IsMember users db orgID userID =
     (case TeamPermission users db orgID userID of Inl e \<Rightarrow> Err e | Inr p \<Rightarrow> Ok (p > PermNone))"

section \<open>Permissions and protections\<close>

definition AddCollaborator :: "user_store \<Rightarrow> int \<Rightarrow> int \<Rightarrow> Perm \<Rightarrow> repo_db \<Rightarrow> (repo_error + unit) \<times> repo_db" where
  "AddCollaborator users repoID userID perm db =
     (if us_down users then (Err RepoDriver, db)
      else (Ok (), db\<lparr>rd_collabs := tbl_insert \<lparr>cl_RepoID = repoID, cl_UserID = userID, cl_Permission = perm_String perm\<rparr>
              (rd_collabs db)\<rparr>))"

definition CollaboratorPermission :: "user_store \<Rightarrow> repo_db \<Rightarrow> int \<Rightarrow> int \<Rightarrow> repo_error + Perm" where
  "CollaboratorPermission users db repoID userID =
     (if us_down users then Err RepoDriver
      else case tbl_find (\<lambda>_ c. cl_RepoID c = repoID \<and> cl_UserID c = userID) (rd_collabs db) of
        None \<Rightarrow> Ok PermNone | Some (_, c) \<Rightarrow> Ok (ParsePerm (cl_Permission c)))"

definition PermissionFor :: "user_store \<Rightarrow> repo_db \<Rightarrow> repo \<Rightarrow> int \<Rightarrow> bool \<Rightarrow> repo_error + Perm" where
  "PermissionFor users db rp userID isAdmin =
     (let r = snd rp; collab = CollaboratorPermission users db (fst rp) userID in
      if userID = 0 then Ok PermNone
      else if isAdmin then Ok PermAdmin
      else if rp_OwnerType r = OwnerUser \<and> rp_OwnerID r = userID then Ok PermAdmin
      else case (if rp_OwnerType r = OwnerOrg then rp_OrgID r else None) of
        None \<Rightarrow> collab
      | Some oid \<Rightarrow>
          (case TeamPermission users db oid userID of
             Inl e \<Rightarrow> Err e
           | Inr perm \<Rightarrow> if perm > PermNone then Ok perm else collab))"

definition AddBranchProtection ::
  "user_store \<Rightarrow> int \<Rightarrow> string \<Rightarrow> bool \<Rightarrow> bool \<Rightarrow> bool \<Rightarrow> repo_db \<Rightarrow> (repo_error + unit) \<times> repo_db" where
  "AddBranchProtection users repoID pat requireReview requireSigned requireCodeowners db =
     (if us_down users then (Err RepoDriver, db)
      else (Ok (), db\<lparr>rd_branches := tbl_insert \<lparr>bp_RepoID = repoID, bp_Pattern = pat, bp_RequireReview = requireReview,
              bp_RequireSigned = requireSigned, bp_RequireCodeowners = requireCodeowners\<rparr> (rd_branches db)\<rparr>))"

definition ListBranchProtections :: "user_store \<Rightarrow> repo_db \<Rightarrow> int \<Rightarrow> repo_error + branch_protection list" where
  "ListBranchProtections users db repoID =
     (if us_down users then Err RepoDriver else Ok (map snd (tbl_select (\<lambda>_ b. bp_RepoID b = repoID) (rd_branches db))))"

definition AddTagProtection :: "user_store \<Rightarrow> int \<Rightarrow> string \<Rightarrow> repo_db \<Rightarrow> (repo_error + unit) \<times> repo_db" where
  "AddTagProtection users repoID pat db =
     (if us_down users then (Err RepoDriver, db)
      else (Ok (), db\<lparr>rd_tags := tbl_insert \<lparr>tp_RepoID = repoID, tp_Pattern = pat\<rparr> (rd_tags db)\<rparr>))"

definition ListTagProtectionPatterns :: "user_store \<Rightarrow> repo_db \<Rightarrow> int \<Rightarrow> repo_error + string list" where
  "ListTagProtectionPatterns users db repoID =
     (if us_down users then Err RepoDriver
      else Ok (map (tp_Pattern \<circ> snd) (tbl_select (\<lambda>_ x. tp_RepoID x = repoID) (rd_tags db))))"

end
