(* ===== verification/RepoHttp.thy ===== *)
theory RepoHttp
  imports Repos AccountHttp
begin

text \<open>
  Who may do what to a repository over HTTP: \<open>handlers_repo.go\<close>, \<open>resolve.go\<close>, \<open>handlers_fork.go\<close>,
  \<open>handlers_org.go\<close> and \<open>gitRepoAccess\<close> of \<open>handlers_githttp.go\<close> in \<open>internal/transport/http\<close>.

  A request is its context after the authentication middleware (the account and the access token, if any) and
  the Basic credentials. The answer of an access check is a status code, or the repository with the account.
  Handlers answer with the status code. Bodies of answers, audit records and background jobs are left out.
\<close>

record site =
  si_server :: server
  si_repos :: repo_db

record visit =
  vi_ctx :: req_ctx
  vi_basic :: "(string \<times> string) option"

abbreviation si_users :: "site \<Rightarrow> user_store" where "si_users s \<equiv> sv_users (si_server s)"

section \<open>Access checks\<close>

text \<open>The repository of an owner and a name, both from the request.\<close>

definition url_repo :: "string \<Rightarrow> string \<Rightarrow> site \<Rightarrow> int + repo" where
  "url_repo owner name s =
     (if \<not> is_ok (ValidateName owner) \<or> \<not> is_ok (ValidateName name) then Err 400
      else case ByUsername (si_users s) owner of
        Inl _ \<Rightarrow> Err 404
      | Inr ownerUser \<Rightarrow>
          (case ByOwnerName (si_users s) (si_repos s) (fst ownerUser) name of Inl _ \<Rightarrow> Err 404 | Inr rp \<Rightarrow> Ok rp))"

definition caller :: "user option \<Rightarrow> int \<times> bool" where
  "caller u = (case u of None \<Rightarrow> (0, False) | Some x \<Rightarrow> (fst x, u_IsAdmin (snd x)))"

definition caller_perm :: "site \<Rightarrow> repo \<Rightarrow> user option \<Rightarrow> repo_error + Perm" where
  "caller_perm s rp u = PermissionFor (si_users s) (si_repos s) rp (fst (caller u)) (snd (caller u))"

definition resolveRepo :: "visit \<Rightarrow> string \<Rightarrow> string \<Rightarrow> Perm \<Rightarrow> site \<Rightarrow> int + repo \<times> user option" where
  "resolveRepo v owner repoName need s =
     (case url_repo owner repoName s of Inl e \<Rightarrow> Err e
      | Inr rp \<Rightarrow>
          if IsDeleted (si_users s) (si_repos s) (fst rp) = Ok True then Err 410
          else let u = UserFrom (vi_ctx v) in
            case caller_perm s rp u of Inl _ \<Rightarrow> Err 500
            | Inr perm \<Rightarrow>
                if rp_IsPrivate (snd rp) \<and> perm < PermRead then Err 404
                else if need \<ge> PermWrite \<and> IsArchived (si_users s) (si_repos s) (snd rp) then Err 403
                else if perm < need then Err 403
                else Ok (rp, u))"

definition tokenAllowsRepo :: "AccessToken \<Rightarrow> int \<Rightarrow> Perm \<Rightarrow> bool" where
  "tokenAllowsRepo tok repoID need =
     (let needWrite = (need \<ge> PermWrite) in
      if ak_Kind tok = TokenFineGrained then
        list_ex (\<lambda>g. tg_RepoID g = repoID \<and> (\<not> needWrite \<or> tg_Permission g = ''write'' \<or> tg_Permission g = ''admin''))
          (ak_RepoGrants tok)
      else
        (case List.find (\<lambda>sc. sc \<in> {''repo'', ''write:repo'', ''admin:repo'', ''read:repo''}) (ak_Scopes tok) of
           None \<Rightarrow> False
         | Some sc \<Rightarrow> if sc = ''read:repo'' then \<not> needWrite else True))"

text \<open>The account of a request: the session or token, else Basic credentials.\<close>

definition basic_user :: "env \<Rightarrow> int \<Rightarrow> visit \<Rightarrow> site \<Rightarrow> user option \<times> site" where
  "basic_user e now v s =
     (case UserFrom (vi_ctx v) of
        Some u \<Rightarrow> (Some u, s)
      | None \<Rightarrow>
          (case authenticateGitBasic e now (vi_basic v) (si_server s) of (u, sv) \<Rightarrow> (u, s\<lparr>si_server := sv\<rparr>)))"

definition loadRepoAndPerm ::
  "env \<Rightarrow> int \<Rightarrow> visit \<Rightarrow> string \<Rightarrow> string \<Rightarrow> Perm \<Rightarrow> site \<Rightarrow> (int + repo \<times> user option) \<times> site" where
  "loadRepoAndPerm e now v owner name need s =
     (case url_repo owner name s of Inl c \<Rightarrow> (Err c, s)
      | Inr rp \<Rightarrow>
          if IsDeleted (si_users s) (si_repos s) (fst rp) = Ok True then (Err 410, s)
          else case basic_user e now v s of (u, s1) \<Rightarrow>
            (case caller_perm s1 rp u of Inl _ \<Rightarrow> (Err 500, s1)
             | Inr perm \<Rightarrow>
                 if rp_IsPrivate (snd rp) \<and> perm < PermRead then (Err 404, s1)
                 else if perm < need then (Err 403, s1)
                 else case TokenFrom (vi_ctx v) of
                   None \<Rightarrow> (Ok (rp, u), s1)
                 | Some tok \<Rightarrow> if tokenAllowsRepo (snd tok) (fst rp) need then (Ok (rp, u), s1) else (Err 403, s1)))"

text \<open>The access check of the Git protocol; 301 stands for the redirect of a renamed repository.\<close>

definition gitRepoAccess ::
  "env \<Rightarrow> int \<Rightarrow> visit \<Rightarrow> string \<Rightarrow> string \<Rightarrow> Perm \<Rightarrow> site \<Rightarrow> (int + repo \<times> user option) \<times> site" where
  "gitRepoAccess e now v owner name0 need s =
     (let name = trim_suffix name0 ''.git'' in
      if \<not> is_ok (ValidateName owner) \<or> \<not> is_ok (ValidateName name) then (Err 400, s)
      else case basic_user e now v s of (u, s1) \<Rightarrow>
        (case ByUsername (si_users s1) owner of
           Inl _ \<Rightarrow> (Err 404, s1)
         | Inr ownerUser \<Rightarrow>
             (case ByOwnerName (si_users s1) (si_repos s1) (fst ownerUser) name of
                Inl _ \<Rightarrow>
                  (case repo_ResolveRedirect (si_users s1) (si_repos s1) owner name of
                     Inr targetID \<Rightarrow> (if is_ok (repo_ByID (si_users s1) (si_repos s1) targetID) then Err 301 else Err 404, s1)
                   | Inl _ \<Rightarrow> (Err 404, s1))
              | Inr rp \<Rightarrow>
                  (case caller_perm s1 rp u of
                     Inl _ \<Rightarrow> (Err 500, s1)
                   | Inr perm \<Rightarrow>
                       if rp_IsPrivate (snd rp) \<and> perm < PermRead then (Err 401, s1)
                       else if need \<le> PermRead \<and> \<not> rp_IsPrivate (snd rp) then (Ok (rp, u), s1)
                       else if perm < need then (Err (if u = None then 401 else 403), s1)
                       else (Ok (rp, u), s1)))))"

section \<open>Handlers of a repository\<close>

definition on_repos :: "('x \<times> repo_db) \<Rightarrow> site \<Rightarrow> 'x \<times> site" where
  "on_repos x s = (fst x, s\<lparr>si_repos := snd x\<rparr>)"

text \<open>Most handlers check access, run one operation of the service, and answer with a fixed code or 500.\<close>

definition repo_action ::
  "(int + repo \<times> user option) \<times> site \<Rightarrow> int \<Rightarrow> (repo \<Rightarrow> user_store \<Rightarrow> repo_db \<Rightarrow> (repo_error + 'b) \<times> repo_db) \<Rightarrow> int \<times> site" where
  "repo_action acc code op =
     (case acc of
        (Inl c, s) \<Rightarrow> (c, s)
      | (Inr (rp, _), s) \<Rightarrow>
          (case on_repos (op rp (si_users s) (si_repos s)) s of (x, s') \<Rightarrow> (if is_ok x then code else 500, s')))"

definition org_owner :: "string \<Rightarrow> user \<Rightarrow> site \<Rightarrow> int + int \<times> string \<times> int option" where
  "org_owner org u s =
     (if org = [] then Ok (fst u, OwnerUser, None)
      else case org_ByName (si_users s) (si_repos s) org of
        Inl _ \<Rightarrow> Err 400 | Inr (i, x) \<Rightarrow> Ok (og_OwnerID x, OwnerOrg, Some i))"

definition handleCreateRepo ::
  "int \<Rightarrow> visit \<Rightarrow> string \<Rightarrow> string \<Rightarrow> bool \<Rightarrow> string \<Rightarrow> site \<Rightarrow> int \<times> site" where
  "handleCreateRepo now v name defaultBranch private org s =
     (case UserFrom (vi_ctx v) of
        None \<Rightarrow> (401, s)
      | Some u \<Rightarrow>
          if \<not> is_ok (ValidateName name) then (400, s)
          else case org_owner org u s of
            Inl c \<Rightarrow> (c, s)
          | Inr (ownerID, ownerType, orgID) \<Rightarrow>
              (case on_repos (repo_Create now (si_users s) \<lparr>ca_OwnerID = ownerID, ca_OwnerType = ownerType,
                   ca_OrgID = orgID, ca_Name = name, ca_DefaultBranch = defaultBranch, ca_IsPrivate = private\<rparr> (si_repos s)) s of
                 (Inr _, s') \<Rightarrow> (201, s')
               | (Inl e, s') \<Rightarrow> (if e = RepoExists then 409 else 500, s')))"

definition handleDeleteRepo :: "env \<Rightarrow> int \<Rightarrow> visit \<Rightarrow> string \<Rightarrow> string \<Rightarrow> site \<Rightarrow> int \<times> site" where
  "handleDeleteRepo e now v owner name s =
     repo_action (loadRepoAndPerm e now v owner name PermAdmin s) 200 (\<lambda>rp us. SoftDelete now us (fst rp))"

definition handleRestoreRepo :: "int \<Rightarrow> visit \<Rightarrow> int option \<Rightarrow> site \<Rightarrow> int \<times> site" where
  "handleRestoreRepo now v rid s =
     (case UserFrom (vi_ctx v) of
        None \<Rightarrow> (401, s)
      | Some u \<Rightarrow>
          (case rid of None \<Rightarrow> (400, s)
           | Some i \<Rightarrow>
               (case repo_ByID (si_users s) (si_repos s) i of
                  Inl _ \<Rightarrow> (404, s)
                | Inr rp \<Rightarrow>
                    if rp_OwnerID (snd rp) \<noteq> fst u \<and> \<not> u_IsAdmin (snd u) then (403, s)
                    else (case on_repos (Restore now (si_users s) i (si_repos s)) s of
                            (x, s') \<Rightarrow> (if is_ok x then 200 else 500, s')))))"

definition handlePurgeDeletedRepo :: "visit \<Rightarrow> int option \<Rightarrow> site \<Rightarrow> int \<times> site" where
  "handlePurgeDeletedRepo v rid s =
     (case requireAdmin (UserFrom (vi_ctx v)) of
        Some c \<Rightarrow> (c, s)
      | None \<Rightarrow>
          (case rid of None \<Rightarrow> (400, s)
           | Some i \<Rightarrow> (case on_repos (Purge (si_users s) i (si_repos s)) s of (x, s') \<Rightarrow> (if is_ok x then 200 else 500, s'))))"

definition handleTransferRepo :: "env \<Rightarrow> int \<Rightarrow> visit \<Rightarrow> string \<Rightarrow> string \<Rightarrow> string \<Rightarrow> site \<Rightarrow> int \<times> site" where
  "handleTransferRepo e now v owner name newOwner s =
     (case loadRepoAndPerm e now v owner name PermAdmin s of
        (Inl c, s1) \<Rightarrow> (c, s1)
      | (Inr (rp, u), s1) \<Rightarrow>
          (case ByUsername (si_users s1) newOwner of
             Inl _ \<Rightarrow> (400, s1)
           | Inr target \<Rightarrow>
               repo_action (Ok (rp, u), s1) 200 (\<lambda>rp us. Transfer now us (fst rp) (fst target) OwnerUser None)))"

definition handleAddBranchProtection ::
  "env \<Rightarrow> int \<Rightarrow> visit \<Rightarrow> string \<Rightarrow> string \<Rightarrow> branch_protection \<Rightarrow> site \<Rightarrow> int \<times> site" where
  "handleAddBranchProtection e now v owner name b s =
     repo_action (loadRepoAndPerm e now v owner name PermAdmin s) 201
       (\<lambda>rp us. AddBranchProtection us (fst rp) (bp_Pattern b) (bp_RequireReview b) (bp_RequireSigned b) (bp_RequireCodeowners b))"

definition handleAddTagProtection :: "env \<Rightarrow> int \<Rightarrow> visit \<Rightarrow> string \<Rightarrow> string \<Rightarrow> string \<Rightarrow> site \<Rightarrow> int \<times> site" where
  "handleAddTagProtection e now v owner name pat s =
     repo_action (loadRepoAndPerm e now v owner name PermAdmin s) 201 (\<lambda>rp us. AddTagProtection us (fst rp) pat)"

definition handleAddCollaborator ::
  "env \<Rightarrow> int \<Rightarrow> visit \<Rightarrow> string \<Rightarrow> string \<Rightarrow> string \<Rightarrow> string \<Rightarrow> site \<Rightarrow> int \<times> site" where
  "handleAddCollaborator e now v owner name username permission s =
     (case loadRepoAndPerm e now v owner name PermAdmin s of
        (Inl c, s1) \<Rightarrow> (c, s1)
      | (Inr (rp, u), s1) \<Rightarrow>
          (case ByUsername (si_users s1) username of
             Inl _ \<Rightarrow> (400, s1)
           | Inr target \<Rightarrow>
               let p = ParsePerm permission; perm = (if p = PermNone then PermRead else p)
               in repo_action (Ok (rp, u), s1) 201 (\<lambda>rp us. AddCollaborator us (fst rp) (fst target) perm)))"

definition handleRenameRepo :: "env \<Rightarrow> int \<Rightarrow> visit \<Rightarrow> string \<Rightarrow> string \<Rightarrow> string \<Rightarrow> site \<Rightarrow> int \<times> site" where
  "handleRenameRepo e now v owner name newName s =
     (case loadRepoAndPerm e now v owner name PermAdmin s of
        (Inl c, s1) \<Rightarrow> (c, s1)
      | (Inr (rp, _), s1) \<Rightarrow>
          if \<not> is_ok (ValidateName newName) then (400, s1)
          else (case on_repos (repo_Rename now (si_users s1) (fst rp) newName (si_repos s1)) s1 of
                  (Inr _, s') \<Rightarrow> (200, s')
                | (Inl x, s') \<Rightarrow> (if x = RepoExists then 409 else 500, s')))"

definition handleArchiveRepo :: "env \<Rightarrow> int \<Rightarrow> visit \<Rightarrow> string \<Rightarrow> string \<Rightarrow> bool \<Rightarrow> site \<Rightarrow> int \<times> site" where
  "handleArchiveRepo e now v owner name archived s =
     repo_action (loadRepoAndPerm e now v owner name PermAdmin s) 200 (\<lambda>rp us. Archive now us (fst rp) archived)"

definition handleForkRepo ::
  "env \<Rightarrow> int \<Rightarrow> visit \<Rightarrow> string \<Rightarrow> string \<Rightarrow> string \<Rightarrow> string \<Rightarrow> site \<Rightarrow> int \<times> site" where
  "handleForkRepo e now v owner name targetName org s =
     (case UserFrom (vi_ctx v) of
        None \<Rightarrow> (401, s)
      | Some u \<Rightarrow>
          (case loadRepoAndPerm e now v owner name PermRead s of
             (Inl c, s1) \<Rightarrow> (c, s1)
           | (Inr (rp, _), s1) \<Rightarrow>
               (case org_owner org u s1 of
                  Inl c \<Rightarrow> (c, s1)
                | Inr (ownerID, ownerType, orgID) \<Rightarrow>
                    (case on_repos (Fork now (si_users s1) \<lparr>fk_Source = rp, fk_TargetName = targetName, fk_OwnerID = ownerID,
                        fk_OwnerType = ownerType, fk_OrgID = orgID\<rparr> (si_repos s1)) s1 of
                       (x, s') \<Rightarrow> (if is_ok x then 201 else 400, s')))))"

definition handleCreateOrg :: "visit \<Rightarrow> string \<Rightarrow> site \<Rightarrow> int \<times> site" where
  "handleCreateOrg v name s =
     (case UserFrom (vi_ctx v) of
        None \<Rightarrow> (401, s)
      | Some u \<Rightarrow>
          if \<not> is_ok (ValidateName name) then (400, s)
          else (case on_repos (org_Create (si_users s) name (fst u) (si_repos s)) s of
                  (x, s') \<Rightarrow> (if is_ok x then 201 else 500, s')))"

end
