(* ===== verification/Keys.thy ===== *)
theory Keys
  imports AccountHttp Owned
begin

text \<open>
  The public keys of accounts: \<open>internal/service/user/sshkey.go\<close> with \<open>fingerprintSigningKey\<close> of \<open>gpg.go\<close>, and
  their handlers in \<open>internal/transport/http/handlers_user.go\<close>. \<open>fp\<close> is the fingerprint of a parsed SSH key
  (\<^const>\<open>None\<close> when it does not parse), \<open>pgp\<close> the primary fingerprint of an armored key ring. The column
  \<open>fingerprint\<close> of \<open>ssh_keys\<close> is \<open>UNIQUE\<close>.
\<close>

section \<open>The service\<close>

record ssh_key =
  sk_UserID :: int
  sk_Title :: string
  sk_Fingerprint :: string
  sk_PublicKey :: string
  sk_CanAuthenticate :: bool
  sk_CanSign :: bool
  sk_LastUsedAt :: "int option"

record signing_key =
  gk_UserID :: int
  gk_KeyType :: string
  gk_Title :: string
  gk_Fingerprint :: string
  gk_PublicKey :: string

record key_store =
  ks_ssh :: "ssh_key table"
  ks_signing :: "signing_key table"

datatype key_error = KeyNoPurpose | KeyParse | KeyEmpty | KeyConstraint | KeyNotFound | KeyDriver

definition AddSSHKey ::
  "user_store \<Rightarrow> (string \<Rightarrow> string option) \<Rightarrow> int \<Rightarrow> string \<Rightarrow> string \<Rightarrow> bool \<Rightarrow> bool \<Rightarrow> key_store \<Rightarrow>
     (key_error + int \<times> ssh_key) \<times> key_store" where
  "AddSSHKey users fp userID title pubKey canAuthenticate canSign ks =
     (if \<not> canAuthenticate \<and> \<not> canSign then (Err KeyNoPurpose, ks)
      else case fp pubKey of
        None \<Rightarrow> (Err KeyParse, ks)
      | Some f \<Rightarrow>
          if us_down users then (Err KeyDriver, ks)
          else if tbl_exists (\<lambda>_ k. sk_Fingerprint k = f) (ks_ssh ks) then (Err KeyConstraint, ks)
          else let k = \<lparr>sk_UserID = userID, sk_Title = title, sk_Fingerprint = f, sk_PublicKey = pubKey,
                        sk_CanAuthenticate = canAuthenticate, sk_CanSign = canSign, sk_LastUsedAt = None\<rparr>;
                   t = tbl_insert k (ks_ssh ks)
               in (Ok (seq t, k), ks\<lparr>ks_ssh := t\<rparr>))"

definition ListSSHKeys :: "user_store \<Rightarrow> key_store \<Rightarrow> int \<Rightarrow> key_error + (int \<times> ssh_key) list" where
  "ListSSHKeys users ks userID =
     (if us_down users then Err KeyDriver else Ok (tbl_select (\<lambda>_ k. sk_UserID k = userID) (ks_ssh ks)))"

definition UpdateSSHKeyPurposes ::
  "user_store \<Rightarrow> int \<Rightarrow> int \<Rightarrow> bool \<Rightarrow> bool \<Rightarrow> key_store \<Rightarrow> (key_error + unit) \<times> key_store" where
  "UpdateSSHKeyPurposes users userID keyID canAuthenticate canSign ks =
     (if \<not> canAuthenticate \<and> \<not> canSign then (Err KeyNoPurpose, ks)
      else if us_down users then (Err KeyDriver, ks)
      else let P = (\<lambda>i k. i = keyID \<and> sk_UserID k = userID) in
        (if tbl_count P (ks_ssh ks) = 0 then Err KeyNotFound else Ok (),
         ks\<lparr>ks_ssh := tbl_update P (\<lambda>k. k\<lparr>sk_CanAuthenticate := canAuthenticate, sk_CanSign := canSign\<rparr>) (ks_ssh ks)\<rparr>))"

definition DeleteSSHKey :: "user_store \<Rightarrow> int \<Rightarrow> int \<Rightarrow> key_store \<Rightarrow> (key_error + unit) \<times> key_store" where
  "DeleteSSHKey users userID keyID ks =
     (if us_down users then (Err KeyDriver, ks)
      else (Ok (), ks\<lparr>ks_ssh := tbl_delete (\<lambda>i k. i = keyID \<and> sk_UserID k = userID) (ks_ssh ks)\<rparr>))"

text \<open>The join of accounts and keys; the account may be missing or inactive.\<close>

definition UserBySSHFingerprint :: "user_store \<Rightarrow> key_store \<Rightarrow> string \<Rightarrow> key_error + user" where
  "UserBySSHFingerprint users ks fingerprint =
     (if us_down users then Err KeyDriver
      else case List.find (\<lambda>(j, u). tbl_exists (\<lambda>_ k. sk_Fingerprint k = fingerprint \<and> sk_CanAuthenticate k \<and> sk_UserID k = j) (ks_ssh ks))
             (rows (us_users users)) of
        None \<Rightarrow> Err KeyNotFound | Some u \<Rightarrow> Ok u)"

definition TouchSSHKey :: "user_store \<Rightarrow> int \<Rightarrow> string \<Rightarrow> key_store \<Rightarrow> (key_error + unit) \<times> key_store" where
  "TouchSSHKey users now fingerprint ks =
     (if us_down users then (Err KeyDriver, ks)
      else (Ok (), ks\<lparr>ks_ssh := tbl_update (\<lambda>_ k. sk_Fingerprint k = fingerprint) (\<lambda>k. k\<lparr>sk_LastUsedAt := Some now\<rparr>) (ks_ssh ks)\<rparr>))"

definition fingerprintSigningKey :: "(string \<Rightarrow> string) \<Rightarrow> (string \<Rightarrow> string option) \<Rightarrow> string \<Rightarrow> key_error + string" where
  "fingerprintSigningKey sha pgp pubKey =
     (let trimmed = trim_space pubKey;
          plain = hex_encode (sha (join [CHR 0x0A] (str_fields trimmed)))
      in if trimmed = [] then Err KeyEmpty
         else if contains trimmed ''BEGIN PGP PUBLIC KEY BLOCK'' then
           (case pgp trimmed of Some f \<Rightarrow> Ok (to_upper (hex_encode f)) | None \<Rightarrow> Ok plain)
         else Ok plain)"

definition AddSigningKey ::
  "user_store \<Rightarrow> (string \<Rightarrow> string) \<Rightarrow> (string \<Rightarrow> string option) \<Rightarrow> int \<Rightarrow> string \<Rightarrow> string \<Rightarrow> string \<Rightarrow> key_store \<Rightarrow>
     (key_error + int \<times> signing_key) \<times> key_store" where
  "AddSigningKey users sha pgp userID keyType title pubKey ks =
     (case fingerprintSigningKey sha pgp pubKey of
        Inl e \<Rightarrow> (Err e, ks)
      | Inr f \<Rightarrow>
          if us_down users then (Err KeyDriver, ks)
          else let k = \<lparr>gk_UserID = userID, gk_KeyType = (if keyType = [] then ''gpg'' else keyType), gk_Title = title,
                        gk_Fingerprint = f, gk_PublicKey = pubKey\<rparr>;
                   t = tbl_insert k (ks_signing ks)
               in (Ok (seq t, k), ks\<lparr>ks_signing := t\<rparr>))"

definition ListSigningKeys :: "user_store \<Rightarrow> key_store \<Rightarrow> int \<Rightarrow> key_error + (int \<times> signing_key) list" where
  "ListSigningKeys users ks userID =
     (if us_down users then Err KeyDriver else Ok (tbl_select (\<lambda>_ k. gk_UserID k = userID) (ks_signing ks)))"

definition DeleteSigningKey :: "user_store \<Rightarrow> int \<Rightarrow> int \<Rightarrow> key_store \<Rightarrow> (key_error + unit) \<times> key_store" where
  "DeleteSigningKey users userID keyID ks =
     (if us_down users then (Err KeyDriver, ks)
      else (Ok (), ks\<lparr>ks_signing := tbl_delete (\<lambda>i k. i = keyID \<and> gk_UserID k = userID) (ks_signing ks)\<rparr>))"

definition SigningPublicKeys :: "user_store \<Rightarrow> key_store \<Rightarrow> int \<Rightarrow> key_error + string list" where
  "SigningPublicKeys users ks userID =
     (if us_down users then Err KeyDriver
      else Ok (map (gk_PublicKey \<circ> snd) (tbl_select (\<lambda>_ k. gk_UserID k = userID \<and> gk_KeyType k = ''gpg'') (ks_signing ks))
             @ map (sk_PublicKey \<circ> snd) (tbl_select (\<lambda>_ k. sk_UserID k = userID \<and> sk_CanSign k) (ks_ssh ks))))"

definition SigningKeyOwner :: "user_store \<Rightarrow> key_store \<Rightarrow> string \<Rightarrow> key_error + int \<times> string" where
  "SigningKeyOwner users ks fingerprint =
     (if us_down users then Err KeyNotFound
      else case tbl_find (\<lambda>_ k. gk_Fingerprint k = fingerprint) (ks_signing ks) of
        Some (_, k) \<Rightarrow> Ok (gk_UserID k, ''gpg'')
      | None \<Rightarrow>
          (case tbl_find (\<lambda>_ k. sk_Fingerprint k = fingerprint \<and> sk_CanSign k) (ks_ssh ks) of
             Some (_, k) \<Rightarrow> Ok (sk_UserID k, ''ssh'') | None \<Rightarrow> Err KeyNotFound))"

section \<open>The handlers\<close>

text \<open>A handler that runs an operation for the account of the request: 401 without one, 400 on an error.\<close>

definition key_action :: "user option \<Rightarrow> int \<Rightarrow> (int \<Rightarrow> key_store \<Rightarrow> (key_error + 'a) \<times> key_store) \<Rightarrow> key_store \<Rightarrow> int \<times> key_store" where
  "key_action u code op ks =
     (case u of None \<Rightarrow> (401, ks)
      | Some (i, _) \<Rightarrow> (case op i ks of (x, ks') \<Rightarrow> (if is_ok x then code else 400, ks')))"

definition handleAddSSHKey ::
  "user_store \<Rightarrow> (string \<Rightarrow> string option) \<Rightarrow> user option \<Rightarrow> string \<Rightarrow> string \<Rightarrow> bool option \<Rightarrow> bool option \<Rightarrow> key_store \<Rightarrow> int \<times> key_store" where
  "handleAddSSHKey users fp u title pubKey canAuthenticate canSign =
     key_action u 201 (\<lambda>i. AddSSHKey users fp i title pubKey (case canAuthenticate of None \<Rightarrow> True | Some b \<Rightarrow> b)
       (case canSign of None \<Rightarrow> False | Some b \<Rightarrow> b))"

definition handleUpdateSSHKey :: "user_store \<Rightarrow> user option \<Rightarrow> int option \<Rightarrow> bool \<Rightarrow> bool \<Rightarrow> key_store \<Rightarrow> int \<times> key_store" where
  "handleUpdateSSHKey users u keyID canAuthenticate canSign ks =
     (case keyID of
        None \<Rightarrow> (if u = None then 401 else 400, ks)
      | Some k \<Rightarrow> key_action u 200 (\<lambda>i. UpdateSSHKeyPurposes users i k canAuthenticate canSign) ks)"

text \<open>Deletions answer 500 on an error of the database.\<close>

definition key_deletion :: "user option \<Rightarrow> int option \<Rightarrow> (int \<Rightarrow> int \<Rightarrow> key_store \<Rightarrow> (key_error + unit) \<times> key_store) \<Rightarrow> key_store \<Rightarrow> int \<times> key_store" where
  "key_deletion u keyID op ks =
     (case u of None \<Rightarrow> (401, ks)
      | Some (i, _) \<Rightarrow>
          (case keyID of None \<Rightarrow> (400, ks)
           | Some k \<Rightarrow> (case op i k ks of (x, ks') \<Rightarrow> (if is_ok x then 200 else 500, ks'))))"

definition handleDeleteSSHKey :: "user_store \<Rightarrow> user option \<Rightarrow> int option \<Rightarrow> key_store \<Rightarrow> int \<times> key_store" where
  "handleDeleteSSHKey users u keyID = key_deletion u keyID (DeleteSSHKey users)"

definition handleAddSigningKey ::
  "user_store \<Rightarrow> (string \<Rightarrow> string) \<Rightarrow> (string \<Rightarrow> string option) \<Rightarrow> user option \<Rightarrow> string \<Rightarrow> string \<Rightarrow> string \<Rightarrow> key_store \<Rightarrow> int \<times> key_store" where
  "handleAddSigningKey users sha pgp u keyType title pubKey =
     key_action u 201 (\<lambda>i. AddSigningKey users sha pgp i keyType title pubKey)"

definition handleDeleteSigningKey :: "user_store \<Rightarrow> user option \<Rightarrow> int option \<Rightarrow> key_store \<Rightarrow> int \<times> key_store" where
  "handleDeleteSigningKey users u keyID = key_deletion u keyID (DeleteSigningKey users)"

end
