(* ===== verification/GitServe.thy ===== *)
theory GitServe
  imports RepoHttp Keys Glob
begin

text \<open>
  Serving Git: the server-side hook (\<open>internal/service/git/hook.go\<close>, \<open>internal/app/hook.go\<close>), the smart HTTP
  handler (\<open>handlers_githttp.go\<close>) and the built-in SSH server (\<open>internal/transport/ssh\<close>,
  \<open>internal/app/ssh_adapter.go\<close>).

  \<open>git receive-pack\<close> runs the \<open>pre-receive\<close> hook of the repository on the updates it was sent and changes the
  repository when the hook accepts them; what it makes of the content is a parameter (\<open>git_apply\<close>), as is
  the check of a commit signature. A repository without a hook accepts every update. The protocols
  themselves, compression and the \<open>post-receive\<close> hook are left out.
\<close>

section \<open>Reference updates\<close>

record RefUpdate =
  ru_Old :: string
  ru_New :: string
  ru_Ref :: string

definition BranchName :: "RefUpdate \<Rightarrow> string" where
  "BranchName u = (if has_prefix (ru_Ref u) ''refs/heads/'' then trim_prefix (ru_Ref u) ''refs/heads/'' else [])"

definition TagName :: "RefUpdate \<Rightarrow> string" where
  "TagName u = (if has_prefix (ru_Ref u) ''refs/tags/'' then trim_prefix (ru_Ref u) ''refs/tags/'' else [])"

definition trim_zeros :: "string \<Rightarrow> string" where
  "trim_zeros s = rev (dropWhile (\<lambda>c. c = CHR ''0'') (rev (dropWhile (\<lambda>c. c = CHR ''0'') s)))"

definition IsDelete :: "RefUpdate \<Rightarrow> bool" where
  "IsDelete u \<longleftrightarrow> trim_zeros (ru_New u) = []"

datatype hook_error =
    HookMalformed | HookTooLong | HookOwner | HookRepo | HookArchived | HookRules repo_error | HookSignature
  | BranchDelete string | BranchUnsigned string | BranchPush string | TagDelete string | TagPush string

text \<open>The lines of the input; a line that does not fit the buffer of the scanner is an error. The carriage return that the
  scanner drops goes with the white space.\<close>

definition hook_lines :: "string \<Rightarrow> string list" where
  "hook_lines input = (let ls = split_on (CHR 0x0A) input in if last ls = [] then butlast ls else ls)"

definition max_line :: nat where "max_line = 1048576"

fun parse_updates :: "string list \<Rightarrow> hook_error + RefUpdate list" where
  "parse_updates [] = Ok []"
| "parse_updates (text # texts) =
     (let line = trim_space text in
      if length text \<ge> max_line then Err HookTooLong
      else if line = [] then parse_updates texts
      else case str_fields line of
        [a, b, c] \<Rightarrow>
          (case parse_updates texts of Inl e \<Rightarrow> Err e
           | Inr us \<Rightarrow> Ok (\<lparr>ru_Old = a, ru_New = b, ru_Ref = c\<rparr> # us))
      | _ \<Rightarrow> Err HookMalformed)"

definition ParsePreReceive :: "string \<Rightarrow> hook_error + RefUpdate list" where
  "ParsePreReceive input = parse_updates (hook_lines input)"

section \<open>Protections\<close>

record ProtectionRule =
  pr_Pattern :: string
  pr_RequireReview :: bool
  pr_RequireSigned :: bool

definition git_MatchPattern :: "string \<Rightarrow> string \<Rightarrow> bool" where
  "git_MatchPattern pat name \<longleftrightarrow> match_loop pat name 0 0 None = Some True"

text \<open>The check of one commit: \<^const>\<open>None\<close> when it fails.\<close>

type_synonym sig_checker = "string \<Rightarrow> string \<Rightarrow> bool option"

definition checkSigned :: "sig_checker option \<Rightarrow> string \<Rightarrow> string \<Rightarrow> hook_error + bool" where
  "checkSigned checker repoPath sha =
     (case checker of None \<Rightarrow> Ok False
      | Some check \<Rightarrow> (case check repoPath sha of None \<Rightarrow> Err HookSignature | Some b \<Rightarrow> Ok b))"

fun check_branch :: "sig_checker option \<Rightarrow> string \<Rightarrow> string \<Rightarrow> RefUpdate \<Rightarrow> ProtectionRule list \<Rightarrow> hook_error + unit" where
  "check_branch sig repoPath name u [] = Ok ()"
| "check_branch sig repoPath name u (rule # rules) =
     (if git_MatchPattern (pr_Pattern rule) name then
        (if IsDelete u then Err (BranchDelete name)
         else if pr_RequireSigned rule then
           (case checkSigned sig repoPath (ru_New u) of
              Inl e \<Rightarrow> Err e
            | Inr b \<Rightarrow> if \<not> b then Err (BranchUnsigned name) else check_branch sig repoPath name u rules)
         else Err (BranchPush name))
      else check_branch sig repoPath name u rules)"

fun check_tag :: "string \<Rightarrow> RefUpdate \<Rightarrow> string list \<Rightarrow> hook_error + unit" where
  "check_tag name u [] = Ok ()"
| "check_tag name u (pat # pats) =
     (if git_MatchPattern pat name then (if IsDelete u then Err (TagDelete name) else Err (TagPush name))
      else check_tag name u pats)"

definition check_update ::
  "sig_checker option \<Rightarrow> string \<Rightarrow> ProtectionRule list \<Rightarrow> string list \<Rightarrow> RefUpdate \<Rightarrow> hook_error + unit" where
  "check_update sig repoPath branchRules tagRules u =
     (case (if BranchName u \<noteq> [] then check_branch sig repoPath (BranchName u) u branchRules else Ok ()) of
        Inl e \<Rightarrow> Err e
      | Inr _ \<Rightarrow> (if TagName u \<noteq> [] then check_tag (TagName u) u tagRules else Ok ()))"

fun check_updates ::
  "sig_checker option \<Rightarrow> string \<Rightarrow> ProtectionRule list \<Rightarrow> string list \<Rightarrow> RefUpdate list \<Rightarrow> hook_error + unit" where
  "check_updates sig repoPath branchRules tagRules [] = Ok ()"
| "check_updates sig repoPath branchRules tagRules (u # us) =
     (case check_update sig repoPath branchRules tagRules u of
        Inl e \<Rightarrow> Err e | Inr _ \<Rightarrow> check_updates sig repoPath branchRules tagRules us)"

definition BranchProtections :: "user_store \<Rightarrow> repo_db \<Rightarrow> int \<Rightarrow> repo_error + ProtectionRule list" where
  "BranchProtections users db repoID =
     (case ListBranchProtections users db repoID of Inl e \<Rightarrow> Err e
      | Inr bs \<Rightarrow> Ok (map (\<lambda>b. \<lparr>pr_Pattern = bp_Pattern b, pr_RequireReview = bp_RequireReview b,
                     pr_RequireSigned = bp_RequireSigned b\<rparr>) bs))"

definition EnforceProtections ::
  "user_store \<Rightarrow> repo_db \<Rightarrow> int \<Rightarrow> RefUpdate list \<Rightarrow> bool \<Rightarrow> string \<Rightarrow> sig_checker option \<Rightarrow> hook_error + unit" where
  "EnforceProtections users db repoID updates isAdmin repoPath sig =
     (if isAdmin then Ok ()
      else case BranchProtections users db repoID of Inl e \<Rightarrow> Err (HookRules e)
      | Inr branchRules \<Rightarrow>
          (case ListTagProtectionPatterns users db repoID of Inl e \<Rightarrow> Err (HookRules e)
           | Inr tagRules \<Rightarrow> check_updates sig repoPath branchRules tagRules updates))"

section \<open>The hook\<close>

definition runPreReceive ::
  "user_store \<Rightarrow> repo_db \<Rightarrow> sig_checker option \<Rightarrow> bool \<Rightarrow> string \<Rightarrow> string \<Rightarrow> string \<Rightarrow> hook_error + unit" where
  "runPreReceive users db sig isAdmin owner repoName input =
     (case ParsePreReceive input of Inl e \<Rightarrow> Err e
      | Inr updates \<Rightarrow>
          if updates = [] then Ok ()
          else case ByUsername users owner of Inl _ \<Rightarrow> Err HookOwner
          | Inr ownerUser \<Rightarrow>
              (case ByOwnerName users db (fst ownerUser) repoName of Inl _ \<Rightarrow> Err HookRepo
               | Inr rp \<Rightarrow>
                   if IsArchived users db (snd rp) then Err HookArchived
                   else EnforceProtections users db (fst rp) updates isAdmin (fs_Path (rd_root db) owner repoName) sig))"

text \<open>The lines that \<open>git\<close> writes to the hook.\<close>

definition print_updates :: "RefUpdate list \<Rightarrow> string" where
  "print_updates us = concat (map (\<lambda>u. ru_Old u @ '' '' @ ru_New u @ '' '' @ ru_Ref u @ [CHR 0x0A]) us)"

record git_program =
  gp_apply :: "RefUpdate list \<Rightarrow> string \<Rightarrow> string"
  gp_sig :: "sig_checker option"

text \<open>\<open>git receive-pack\<close> on the repository at a path; \<^const>\<open>None\<close> when there is none.\<close>

definition receive_pack ::
  "git_program \<Rightarrow> user_store \<Rightarrow> bool \<Rightarrow> string \<Rightarrow> RefUpdate list \<Rightarrow> repo_db \<Rightarrow> (hook_error + unit) option \<times> repo_db" where
  "receive_pack g users isAdmin path updates db =
     (case rd_disk db path of
        None \<Rightarrow> (None, db)
      | Some r \<Rightarrow>
          (case (case dr_hook r of None \<Rightarrow> Ok ()
                 | Some (owner, name) \<Rightarrow> runPreReceive users db (gp_sig g) isAdmin owner name (print_updates updates)) of
             Inl e \<Rightarrow> (Some (Err e), db)
           | Inr _ \<Rightarrow> (Some (Ok ()), db\<lparr>rd_disk := (rd_disk db)(path \<mapsto> r\<lparr>dr_content := gp_apply g updates (dr_content r)\<rparr>)\<rparr>)))"

section \<open>Git over HTTP\<close>

definition ValidateRepoPath :: "string \<Rightarrow> string \<Rightarrow> string option" where
  "ValidateRepoPath root repoPath =
     (if repoPath = [] \<or> CHR 0x00 \<in> set repoPath \<or> contains repoPath ''..''
         \<or> contains_any repoPath [CHR ''~'', backslash] then None
      else if Clean repoPath = Clean root then None
      else if \<not> has_prefix (Clean repoPath) (Clean root @ ''/'') then None
      else Some (Clean repoPath))"

datatype git_service = UploadPack | ReceivePack "RefUpdate list"

text \<open>The answer: the status code, and for a fetch the content that is served.\<close>

definition handleGitService ::
  "env \<Rightarrow> git_program \<Rightarrow> int \<Rightarrow> visit \<Rightarrow> string \<Rightarrow> string \<Rightarrow> git_service \<Rightarrow> site \<Rightarrow> (int \<times> string option) \<times> site" where
  "handleGitService e g now v owner name service s =
     (let need = (case service of UploadPack \<Rightarrow> PermRead | ReceivePack _ \<Rightarrow> PermWrite) in
      case gitRepoAccess e now v owner name need s of
        (Inl c, s1) \<Rightarrow> ((c, None), s1)
      | (Inr (rp, gu), s1) \<Rightarrow>
          (case ValidateRepoPath (rd_root (si_repos s1)) (fs_Path (rd_root (si_repos s1)) owner (rp_Name (snd rp))) of
             None \<Rightarrow> ((400, None), s1)
           | Some path \<Rightarrow>
               (case service of
                  UploadPack \<Rightarrow> ((200, map_option dr_content (rd_disk (si_repos s1) path)), s1)
                | ReceivePack updates \<Rightarrow>
                    (case receive_pack g (si_users s1) (snd (caller gu)) path updates (si_repos s1) of
                       (_, db) \<Rightarrow> ((200, None), s1\<lparr>si_repos := db\<rparr>)))))"

section \<open>Git over SSH\<close>

definition git_verbs :: "string list" where
  "git_verbs = [''git-upload-pack'', ''git-receive-pack'', ''git-upload-archive'']"

definition IsAllowedVerb :: "string \<Rightarrow> bool" where
  "IsAllowedVerb verb \<longleftrightarrow> verb \<in> set git_verbs"

definition quote_char :: char where "quote_char = CHR 0x27"

text \<open>\<open>strings.Trim(s, cutset)\<close>\<close>

definition trim_chars :: "string \<Rightarrow> string \<Rightarrow> string" where
  "trim_chars cs s = rev (dropWhile (\<lambda>c. c \<in> set cs) (rev (dropWhile (\<lambda>c. c \<in> set cs) s)))"

definition ParseCommand :: "string \<Rightarrow> string option" where
  "ParseCommand cmd0 =
     (let cmd = trim_space cmd0 in
      if cmd = [] \<or> CHR 0x00 \<in> set cmd then None
      else case List.find (\<lambda>verb. IsAllowedVerb verb \<and> has_prefix cmd (verb @ '' '')) git_verbs of
        None \<Rightarrow> None
      | Some verb \<Rightarrow>
          let arg0 = trim_chars [quote_char, CHR 0x22] (trim_prefix cmd (verb @ '' ''));
              arg = trim_prefix arg0 ''/''
          in if contains_any arg0 (''|&;<>$'' @ [CHR 0x60, CHR 0x0A, CHR 0x0D]) then None
             else if ''..'' \<in> set (split_on (CHR ''/'') arg) then None
             else Some (verb @ '' '' @ arg))"

definition AuthorizeSSHKey ::
  "user_store \<Rightarrow> key_store \<Rightarrow> deploy_key sql \<Rightarrow> repo_db \<Rightarrow> string \<Rightarrow> (string \<times> bool) option" where
  "AuthorizeSSHKey users ks dks db fingerprint =
     (case UserBySSHFingerprint users ks fingerprint of
        Inr u \<Rightarrow> Some (u_Username (snd u), False)
      | Inl _ \<Rightarrow>
          (case Resolve dks fingerprint of
             Inl _ \<Rightarrow> None
           | Inr (repoID, readOnly) \<Rightarrow>
               (case repo_ByID users db repoID of
                  Inl _ \<Rightarrow> None
                | Inr rp \<Rightarrow>
                    (case user_ByID users (rp_OwnerID (snd rp)) of
                       Inl _ \<Rightarrow> None | Inr owner \<Rightarrow> Some (u_Username (snd owner), readOnly)))))"

definition ssh_authorize ::
  "user_store \<Rightarrow> key_store \<Rightarrow> deploy_key sql \<Rightarrow> repo_db \<Rightarrow> string \<Rightarrow> string \<Rightarrow> (string \<times> bool) option" where
  "ssh_authorize users ks dks db connUser fingerprint =
     (case AuthorizeSSHKey users ks dks db fingerprint of
        None \<Rightarrow> None
      | Some (username, readOnly) \<Rightarrow>
          if connUser \<noteq> username \<and> connUser \<noteq> ''git'' then None else Some (username, readOnly))"

definition splitGitCommand :: "string \<Rightarrow> (string \<times> string) option" where
  "splitGitCommand command =
     map_option (\<lambda>v. (v, drop (Suc (length v)) command)) (List.find (\<lambda>v. has_prefix command (v @ '' '')) git_verbs)"

definition splitOwnerRepo :: "string \<Rightarrow> string \<times> string" where
  "splitOwnerRepo ref = (if CHR ''/'' \<in> set ref then (before_byte (CHR ''/'') ref, after_byte (CHR ''/'') ref) else (ref, ref))"

text \<open>The name of a repository after following a rename.\<close>

definition follow_rename :: "user_store \<Rightarrow> repo_db \<Rightarrow> string \<Rightarrow> string \<Rightarrow> string" where
  "follow_rename users db owner name =
     (case ByUsername users owner of
        Inl _ \<Rightarrow> name
      | Inr ownerUser \<Rightarrow>
          if is_ok (ByOwnerName users db (fst ownerUser) name) then name
          else (case repo_ResolveRedirect users db owner name of
                  Inl _ \<Rightarrow> name
                | Inr i \<Rightarrow> (case repo_ByID users db i of Inl _ \<Rightarrow> name | Inr target \<Rightarrow> rp_Name (snd target))))"

text \<open>The command line that \<open>Dispatch\<close> runs: the verb and the path.\<close>

definition Dispatch :: "user_store \<Rightarrow> repo_db \<Rightarrow> string \<Rightarrow> string \<Rightarrow> (string \<times> string) option" where
  "Dispatch users db username command =
     (case splitGitCommand command of
        None \<Rightarrow> None
      | Some (verb, repoRef) \<Rightarrow>
          (case splitOwnerRepo (trim_suffix (trim_prefix repoRef ''/'') ''.git'') of (owner, name) \<Rightarrow>
             if \<not> is_ok (ValidateName owner) \<or> \<not> is_ok (ValidateName name) then None
             else map_option (\<lambda>p. (verb, p))
               (ValidateRepoPath (rd_root db) (fs_Path (rd_root db) owner (follow_rename users db owner name)))))"

definition runCommand :: "user_store \<Rightarrow> repo_db \<Rightarrow> string \<Rightarrow> bool \<Rightarrow> string \<Rightarrow> (string \<times> string) option" where
  "runCommand users db username readOnly raw =
     (case ParseCommand raw of
        None \<Rightarrow> None
      | Some cmd \<Rightarrow>
          if readOnly \<and> has_prefix cmd ''git-receive-pack'' then None else Dispatch users db username cmd)"

text \<open>A session: the key, the command, and for a push the updates that follow. The answer is what a fetch
  serves. Both touches of the keys come first.\<close>

definition ssh_session ::
  "git_program \<Rightarrow> user_store \<Rightarrow> key_store \<Rightarrow> deploy_key sql \<Rightarrow> string \<Rightarrow> string \<Rightarrow> string \<Rightarrow> RefUpdate list \<Rightarrow> repo_db \<Rightarrow>
     string option \<times> repo_db" where
  "ssh_session g users ks dks connUser fingerprint raw updates db =
     (case ssh_authorize users ks dks db connUser fingerprint of
        None \<Rightarrow> (None, db)
      | Some (username, readOnly) \<Rightarrow>
          (case runCommand users db username readOnly raw of
             None \<Rightarrow> (None, db)
           | Some (verb, path) \<Rightarrow>
               if verb = ''git-receive-pack'' then (None, snd (receive_pack g users False path updates db))
               else (map_option dr_content (rd_disk db path), db)))"

end
