(* ===== verification/RepoPaths.thy ===== *)
theory RepoPaths
  imports GitServe
begin

text \<open>
  Where repositories are on disk. For validated names the path of a repository is the root, the owner and the
  name, so that paths separate owners and names, and the paths that \<open>fsrepo\<close> makes pass the check of \<open>gitcmd\<close>.
\<close>

section \<open>Validated names\<close>

lemma name_char_space: "name_char c \<Longrightarrow> \<not> is_space c"
  by (auto simp: name_char_def alnum_def is_space_def)

lemma dots_to_dash_id: "\<not> contains s ''..'' \<Longrightarrow> dots_to_dash s = s"
  by (induction s rule: dots_to_dash.induct) (auto simp: has_prefix_def)

lemma ValidateName_iff:
  "ValidateName n = Ok () \<longleftrightarrow> n \<noteq> ''.'' \<and> \<not> contains n ''..'' \<and> nameRe n"
proof -
  have "\<not> contains_any n [CHR ''/'', backslash, CHR ''~'']" if "nameRe n"
    using that by (auto simp: nameRe_def contains_any_def list_ex_iff list_all_iff name_char_def alnum_def backslash_def)
  then show ?thesis by (auto simp: ValidateName_def nameRe_def has_prefix_def)
qed

lemma valid_chars: "ValidateName n = Ok () \<Longrightarrow> list_all name_char n"
  by (simp add: ValidateName_iff nameRe_def)

lemma sanitize_valid:
  assumes "ValidateName n = Ok ()"
  shows "sanitize n = n"
proof -
  note chars = valid_chars [OF assms]
  have "trim_space n = n" using chars name_char_space by (intro trim_space_id) (auto simp: list_all_iff)
  moreover have "map (\<lambda>c. if c = CHR ''/'' then CHR ''-'' else c) n = n"
    using ValidateName_proper [OF assms] by (intro map_idI) (auto simp: proper_def)
  moreover have "dots_to_dash n = n" using assms by (simp add: ValidateName_iff dots_to_dash_id)
  moreover have "map (\<lambda>c. if name_char c then c else CHR ''-'') n = n"
    using chars by (intro map_idI) (auto simp: list_all_iff)
  moreover have "n \<noteq> []" using ValidateName_proper [OF assms] by (simp add: proper_def)
  ultimately show ?thesis by (simp add: sanitize_def)
qed

section \<open>Paths\<close>

text \<open>A usable root: absolute, not the root of the file system, and accepted by \<open>gitcmd\<close>.\<close>

definition good_root :: "string \<Rightarrow> bool" where
  "good_root root \<longleftrightarrow> is_rooted root \<and> Clean root \<noteq> ''/'' \<and> \<not> contains (Clean root) ''..''
     \<and> list_all (\<lambda>c. c \<noteq> CHR 0x00 \<and> c \<noteq> CHR ''~'' \<and> c \<noteq> backslash) (Clean root)"

definition below :: "string \<Rightarrow> string \<Rightarrow> string \<Rightarrow> string" where
  "below root owner name = Clean root @ ''/'' @ owner @ ''/'' @ name @ ''.git''"

lemma proper_git: "ValidateName n = Ok () \<Longrightarrow> proper (n @ ''.git'')"
  using ValidateName_proper [of n] by (auto simp: proper_def append_eq_Cons_conv)

lemma path_of_valid:
  assumes "good_root root" and "ValidateName owner = Ok ()" and "ValidateName name = Ok ()"
  shows "fs_Path root owner name = below root owner name" and "Clean (below root owner name) = below root owner name"
proof -
  have r: "is_rooted root" "Clean root \<noteq> ''/''" using assms(1) by (simp_all add: good_root_def)
  have ro: "is_rooted (root @ ''/'' @ owner)" using r(1) by (simp add: is_rooted_def has_prefix_iff)
  have co: "Clean (root @ ''/'' @ owner) = Clean root @ ''/'' @ owner"
    by (rule Clean_child [OF r ValidateName_proper [OF assms(2)]])
  have "Clean ((root @ ''/'' @ owner) @ ''/'' @ (name @ ''.git'')) = (Clean root @ ''/'' @ owner) @ ''/'' @ (name @ ''.git'')"
    using Clean_child [OF ro _ proper_git [OF assms(3)]] co ValidateName_proper [OF assms(2)] rooted_Clean [of root] r(1)
    by (auto simp: proper_def append_eq_Cons_conv)
  then have c: "Clean (root @ ''/'' @ owner @ ''/'' @ name @ ''.git'') = below root owner name" by (simp add: below_def)
  have "is_rooted (root @ ''/'' @ owner @ ''/'' @ name @ ''.git'')" using r(1) by (simp add: is_rooted_def has_prefix_iff)
  from Clean_idem [OF this] show i: "Clean (below root owner name) = below root owner name" unfolding c .
  have "root \<noteq> []" "owner \<noteq> []" using r(1) ValidateName_proper [OF assms(2)]
    by (auto simp: is_rooted_def has_prefix_def proper_def)
  then have "path_join [root, owner, name @ ''.git''] = below root owner name" using c by (simp add: path_join_def)
  moreover have "containedIn root (below root owner name)"
    by (simp add: containedIn_def i) (simp add: below_def has_prefix_iff)
  ultimately show "fs_Path root owner name = below root owner name"
    using assms(2,3) by (simp add: fs_Path_def sanitize_valid)
qed

lemma below_inj:
  assumes "ValidateName o1 = Ok ()" and "ValidateName o2 = Ok ()"
  shows "below root o1 n1 = below root o2 n2 \<longleftrightarrow> o1 = o2 \<and> n1 = n2"
proof -
  have "takeWhile (\<lambda>c. c \<noteq> CHR ''/'') (w @ CHR ''/'' # n) = w" if "ValidateName w = Ok ()" for w n
    using ValidateName_proper [OF that] by (subst takeWhile_append2) (auto simp: proper_def)
  from this [OF assms(1)] this [OF assms(2)] have "o1 = o2 \<and> n1 = n2" if "o1 @ CHR ''/'' # n1 = o2 @ CHR ''/'' # n2"
    using that by (metis append_Cons append_same_eq list.inject same_append_eq)
  then show ?thesis by (auto simp: below_def)
qed

text \<open>Two dots in a row.\<close>

lemma contains_dots_append:
  "contains (xs @ ys) ''..'' \<longleftrightarrow> contains xs ''..'' \<or> contains ys ''..''
     \<or> xs \<noteq> [] \<and> ys \<noteq> [] \<and> last xs = CHR ''.'' \<and> hd ys = CHR ''.''"
proof (induction xs)
  case (Cons x xs)
  then show ?case by (cases xs; cases ys) (auto simp: has_prefix_def)
qed simp

lemma path_accepted:
  assumes "good_root root" and "ValidateName owner = Ok ()" and "ValidateName name = Ok ()"
  shows "ValidateRepoPath root (below root owner name) = Some (below root owner name)"
proof -
  let ?p = "below root owner name"
  have dots: "\<not> contains w ''..''" "w \<noteq> []" "last w \<noteq> CHR ''.''" "hd w \<noteq> CHR ''.''"
    and chars: "list_all (\<lambda>c. c \<noteq> CHR 0x00 \<and> c \<noteq> CHR ''~'' \<and> c \<noteq> backslash) w" if "ValidateName w = Ok ()" for w
    using that by (auto simp: ValidateName_iff nameRe_def alnum_def list_all_iff name_char_def backslash_def)
  have nd: "\<not> contains ?p ''..''"
    using assms(1) dots [OF assms(2)] dots [OF assms(3)]
    by (simp add: below_def contains_dots_append good_root_def has_prefix_def)
  have "list_all (\<lambda>c. c \<noteq> CHR 0x00 \<and> c \<noteq> CHR ''~'' \<and> c \<noteq> backslash) ?p"
    unfolding below_def list_all_append using assms(1) chars [OF assms(2)] chars [OF assms(3)]
    by (simp add: good_root_def backslash_def)
  then have "CHR 0x00 \<notin> set ?p" "\<not> contains_any ?p [CHR ''~'', backslash]"
    by (auto simp: contains_any_def list_ex_iff list_all_iff)
  moreover have "?p \<noteq> []" "?p \<noteq> Clean root" "has_prefix ?p (Clean root @ ''/'')"
    by (simp_all add: below_def has_prefix_iff)
  ultimately show ?thesis
    using nd path_of_valid(2) [OF assms] by (simp add: ValidateRepoPath_def)
qed


lemma valid_demo [simp]:
  "ValidateName ''alice'' = Ok ()" "ValidateName ''mallory'' = Ok ()" "ValidateName ''bob'' = Ok ()"
  "ValidateName ''app'' = Ok ()" "ValidateName ''lib'' = Ok ()" "ValidateName ''tool'' = Ok ()"
  by (simp_all add: ValidateName_iff has_prefix_def nameRe_def name_char_def alnum_def)

lemma good_demo: "good_root ''/repos''" "Clean ''/repos'' = ''/repos''"
proof -
  show "Clean ''/repos'' = ''/repos''" by (simp add: Clean_def is_rooted_def has_prefix_def)
  then show "good_root ''/repos''" by (simp add: good_root_def is_rooted_def has_prefix_def backslash_def)
qed


end
