(* ===== verification/RepoClaims.thy ===== *)
theory RepoClaims
  imports RepoPaths AccountClaims
begin

text \<open>
  What holds of access to repositories, and where names of owners and directories on disk part. \<open>granted\<close> says
  what gives an account a permission; access checks are sound for it. The directory of a repository is
  that of the name of its owner, which is not the owner: renames, organizations and transfers let one
  account reach or destroy the directory of another.
\<close>

section \<open>Grants\<close>

definition granted :: "repo_db \<Rightarrow> repo \<Rightarrow> user \<Rightarrow> Perm \<Rightarrow> bool" where
  "granted db rp u p \<longleftrightarrow>
     u_IsAdmin (snd u)
     \<or> rp_OwnerType (snd rp) = OwnerUser \<and> rp_OwnerID (snd rp) = fst u
     \<or> (\<exists>oid t m. rp_OwnerType (snd rp) = OwnerOrg \<and> rp_OrgID (snd rp) = Some oid \<and> t \<in> set (rows (rd_teams db))
          \<and> te_OrgID (snd t) = oid \<and> m \<in> vals (rd_members db) \<and> me_TeamID m = fst t \<and> me_UserID m = fst u
          \<and> p \<le> ParsePerm (te_Permission (snd t)))
     \<or> (\<exists>c \<in> vals (rd_collabs db). cl_RepoID c = fst rp \<and> cl_UserID c = fst u \<and> p \<le> ParsePerm (cl_Permission c))"

lemma perm_bounds [simp]: "PermNone \<le> p" "p \<le> PermAdmin" "PermNone < p \<longleftrightarrow> p \<noteq> PermNone" for p :: Perm
  by (cases p; simp add: less_eq_Perm_def less_Perm_def)+

lemma fold_best: "fold (\<lambda>p best. if p > best then p else best) ps b \<in> insert b (set ps)" for b :: Perm
proof (induction ps arbitrary: b)
  case (Cons p ps)
  show ?case using Cons.IH [of "if p > b then p else b"] by (auto split: if_splits)
qed simp

lemma TeamPermission_granted:
  assumes "TeamPermission users db oid i = Ok perm" and "perm \<noteq> PermNone"
  shows "\<exists>t m. t \<in> set (rows (rd_teams db)) \<and> te_OrgID (snd t) = oid \<and> m \<in> vals (rd_members db)
    \<and> me_TeamID m = fst t \<and> me_UserID m = i \<and> perm = ParsePerm (te_Permission (snd t))"
proof -
  have "perm \<in> set (team_perms db oid i)"
    using assms fold_best [of "team_perms db oid i" PermNone] by (auto simp: TeamPermission_def split: if_splits)
  then show ?thesis by (force simp: team_perms_def)
qed

lemma PermissionFor_granted:
  assumes "PermissionFor users db rp i adm = Ok perm" and "p \<le> perm" and "p \<noteq> PermNone"
    and "adm = u_IsAdmin q"
  shows "i \<noteq> 0 \<and> granted db rp (i, q) p"
proof -
  have "perm \<noteq> PermNone" using assms(2,3) by (cases p; cases perm; simp add: less_eq_Perm_def)
  then have i: "i \<noteq> 0" using assms(1) by (auto simp: PermissionFor_def Let_def)
  have collab: ?thesis if "CollaboratorPermission users db (fst rp) i = Ok perm"
    using that i assms(2) \<open>perm \<noteq> PermNone\<close>
    by (fastforce simp: CollaboratorPermission_def granted_def split: if_splits option.splits dest: tbl_find_Some)
  show ?thesis
  proof (cases "adm \<or> rp_OwnerType (snd rp) = OwnerUser \<and> rp_OwnerID (snd rp) = i")
    case True
    then show ?thesis using i assms(4) by (auto simp: granted_def)
  next
    case False
    then consider oid where "rp_OwnerType (snd rp) = OwnerOrg" "rp_OrgID (snd rp) = Some oid"
        "TeamPermission users db oid i = Ok perm"
      | "CollaboratorPermission users db (fst rp) i = Ok perm"
      using assms(1) i by (auto simp: PermissionFor_def Let_def split: if_splits option.splits sum.splits)
    then show ?thesis
    proof cases
      case 1
      then show ?thesis using TeamPermission_granted [OF 1(3) \<open>perm \<noteq> PermNone\<close>] i assms(2) by (auto simp: granted_def)
    qed (rule collab)
  qed
qed

lemma PermissionFor_defined:
  assumes "\<not> us_down users"
  shows "\<exists>perm. PermissionFor users db rp i adm = Ok perm"
proof -
  have "\<exists>p. CollaboratorPermission users db (fst rp) i = Ok p"
    using assms by (cases "tbl_find (\<lambda>_ c. cl_RepoID c = fst rp \<and> cl_UserID c = i) (rd_collabs db)")
      (auto simp: CollaboratorPermission_def)
  then obtain c where c: "CollaboratorPermission users db (fst rp) i = Ok c" by blast
  have t: "\<exists>p. TeamPermission users db oid i = Ok p" for oid using assms by (simp add: TeamPermission_def)
  show ?thesis
  proof (cases "if rp_OwnerType (snd rp) = OwnerOrg then rp_OrgID (snd rp) else None")
    case None
    then show ?thesis using c by (simp add: PermissionFor_def Let_def)
  next
    case (Some oid)
    with t [of oid] c show ?thesis by (auto simp: PermissionFor_def Let_def)
  qed
qed

lemma caller_granted:
  assumes "caller_perm s rp u = Ok perm" and "p \<le> perm" and "p \<noteq> PermNone"
  shows "\<exists>x. u = Some x \<and> granted (si_repos s) rp x p"
proof (cases u)
  case None
  then have "perm = PermNone" using assms(1) by (simp add: caller_perm_def caller_def PermissionFor_def Let_def)
  then show ?thesis using assms(2,3) by (cases p; simp add: less_eq_Perm_def)
next
  case (Some x)
  then show ?thesis using PermissionFor_granted [of "si_users s" "si_repos s" rp "fst x" "u_IsAdmin (snd x)" perm p "snd x"] assms
    by (simp add: caller_perm_def caller_def)
qed

lemma find_sorted:
  "sorted_wrt (<) (map fst xs) \<Longrightarrow> List.find P xs = Some (m, x) \<Longrightarrow> (j, y) \<in> set xs \<Longrightarrow> P (j, y) \<Longrightarrow> m \<le> j" for j :: int
  by (induction xs) (force split: if_splits)+

lemma repo_scanOne_Ok:
  assumes "repo_scanOne us db P = Ok rp"
  shows "rp \<in> set (rows (rd_repos db))" and "P (fst rp) (snd rp)" and "\<not> us_down us"
  using assms tbl_find_Some [of P "rd_repos db" "fst rp" "snd rp"]
  by (auto simp: repo_scanOne_def split: if_splits option.splits)

lemma url_repo_Ok:
  assumes "url_repo owner name s = Ok rp"
  shows "\<exists>x. ByUsername (si_users s) owner = Ok x \<and> ByOwnerName (si_users s) (si_repos s) (fst x) name = Ok rp"
  using assms by (auto simp: url_repo_def split: if_splits sum.splits)

lemma basic_user_repos: "basic_user e now v s = (u, s1) \<Longrightarrow> si_repos s1 = si_repos s"
  by (auto simp: basic_user_def split: option.splits prod.splits)

lemma loadRepoAndPerm_Ok:
  assumes "loadRepoAndPerm e now v owner name need s = (Ok (rp, u), s')"
  shows "url_repo owner name s = Ok rp" and "IsDeleted (si_users s) (si_repos s) (fst rp) \<noteq> Ok True"
    and "basic_user e now v s = (u, s')" and "\<exists>perm. caller_perm s' rp u = Ok perm \<and> \<not> perm < need"
    and "pred_option (\<lambda>tok. tokenAllowsRepo (snd tok) (fst rp) need) (TokenFrom (vi_ctx v))"
proof -
  obtain x where url: "url_repo owner name s = Ok x" and del: "IsDeleted (si_users s) (si_repos s) (fst x) \<noteq> Ok True"
    using assms by (cases "url_repo owner name s") (simp_all add: loadRepoAndPerm_def split: if_splits)
  obtain w s1 where b: "basic_user e now v s = (w, s1)" by (cases "basic_user e now v s")
  obtain perm where p: "caller_perm s1 x w = Ok perm"
    using assms url del b by (cases "caller_perm s1 x w") (simp_all add: loadRepoAndPerm_def)
  have res: "rp = x" "u = w" "s' = s1" "\<not> perm < need"
    and tok: "pred_option (\<lambda>tok. tokenAllowsRepo (snd tok) (fst x) need) (TokenFrom (vi_ctx v))"
    using assms url del b p
    by (cases "TokenFrom (vi_ctx v)"; simp add: loadRepoAndPerm_def split: if_splits)+
  show "url_repo owner name s = Ok rp" and "IsDeleted (si_users s) (si_repos s) (fst rp) \<noteq> Ok True"
    and "basic_user e now v s = (u, s')" and "\<exists>perm. caller_perm s' rp u = Ok perm \<and> \<not> perm < need"
    and "pred_option (\<lambda>tok. tokenAllowsRepo (snd tok) (fst rp) need) (TokenFrom (vi_ctx v))"
    using url del b p res tok by blast+
qed

text \<open>C19: Access to a repository over HTTP is sound. Whenever the check that guards the handlers of a repository
  lets a request through that needs some permission, the answer is a repository of the table with the name in
  the URL, owned by the account in the URL, not deleted; the request has an account, and something grants
  that account the permission: it is an administrator, the owner, in a team of the organization, or a
  collaborator. An access token of the request allows it as well.\<close>

theorem repo_access_sound:
  assumes "loadRepoAndPerm e now v owner name need s = (Ok (rp, u), s')" and "need \<noteq> PermNone"
    and "tbl_wf (rd_repos (si_repos s))"
  shows "rp \<in> set (rows (rd_repos (si_repos s'))) \<and> rp_Name (snd rp) = name \<and> rp_DeletedAt (snd rp) = None
    \<and> (\<exists>o'. ByUsername (si_users s) owner = Ok o' \<and> rp_OwnerID (snd rp) = fst o')
    \<and> (\<exists>x. u = Some x \<and> granted (si_repos s') rp x need)
    \<and> pred_option (\<lambda>tok. tokenAllowsRepo (snd tok) (fst rp) need) (TokenFrom (vi_ctx v))"
proof -
  note ok = loadRepoAndPerm_Ok [OF assms(1)]
  obtain x where x: "ByUsername (si_users s) owner = Ok x" "ByOwnerName (si_users s) (si_repos s) (fst x) name = Ok rp"
    using url_repo_Ok [OF ok(1)] by blast
  note row = repo_scanOne_Ok [OF x(2) [unfolded ByOwnerName_def]]
  have "tbl_by_id (fst rp) (rd_repos (si_repos s)) = Some (snd rp)"
    using tbl_by_id_iff [OF assms(3)] row(1) by simp
  then have "rp_DeletedAt (snd rp) = None" using ok(2) row(3) by (simp add: IsDeleted_def)
  moreover have "\<exists>y. u = Some y \<and> granted (si_repos s') rp y need"
    using ok(4) caller_granted [OF _ _ assms(2), of s' rp u] by (metis not_less)
  ultimately show ?thesis using x(1) row(1,2) basic_user_repos [OF ok(3)] ok(5) by auto
qed

text \<open>Three accounts; Alice has the private repository \<open>app\<close>, Mallory the public one \<open>tool\<close>.\<close>

definition demo_user :: "string \<Rightarrow> user_row" where
  "demo_user name = new_user 1 \<lparr>up_Username = name, up_Email = name @ ''@x'', up_PasswordHash = ''h'', up_IsAdmin = False\<rparr>"

definition demo_users :: user_store where
  "demo_users = users_New\<lparr>us_users := \<lparr>seq = 3,
     rows = [(1, demo_user ''alice''), (2, demo_user ''mallory''), (3, demo_user ''bob'')]\<rparr>\<rparr>"

definition demo_repo :: "int \<Rightarrow> string \<Rightarrow> bool \<Rightarrow> repo_row" where
  "demo_repo owner name private = new_repo 1 \<lparr>ca_OwnerID = owner, ca_OwnerType = OwnerUser, ca_OrgID = None, ca_Name = name,
     ca_DefaultBranch = [], ca_IsPrivate = private\<rparr>"

definition demo_dir :: "string \<Rightarrow> string \<Rightarrow> disk_repo" where
  "demo_dir owner name = \<lparr>dr_content = owner @ '' code'', dr_hook = Some (owner, name)\<rparr>"

definition demo_db :: repo_db where
  "demo_db = (repos_New ''/repos'')\<lparr>
     rd_repos := \<lparr>seq = 2, rows = [(1, demo_repo 1 ''app'' True), (2, demo_repo 2 ''tool'' False)]\<rparr>,
     rd_disk := [below ''/repos'' ''alice'' ''app'' \<mapsto> demo_dir ''alice'' ''app'',
       below ''/repos'' ''mallory'' ''tool'' \<mapsto> demo_dir ''mallory'' ''tool'']\<rparr>"

definition demo_site :: site where
  "demo_site = \<lparr>si_server = \<lparr>sv_auth = (snd test_service)\<lparr>au_users := demo_users\<rparr>, sv_pat = pat_New, sv_git = []\<rparr>, si_repos = demo_db\<rparr>"

definition visit_of :: "int \<Rightarrow> string \<Rightarrow> visit" where
  "visit_of i name = \<lparr>vi_ctx = \<lparr>cx_user = Some (i, demo_user name), cx_token = None\<rparr>, vi_basic = None\<rparr>"

lemma demo_users_simps [simp]: "si_users demo_site = demo_users" "\<not> us_down demo_users"
  "ByUsername demo_users ''alice'' = Ok (1, demo_user ''alice'')" "ByUsername demo_users ''mallory'' = Ok (2, demo_user ''mallory'')"
  "ByUsername demo_users ''bob'' = Ok (3, demo_user ''bob'')"
  by (simp_all add: demo_site_def demo_users_def users_New_def ByUsername_def user_scanOne_def tbl_find_def demo_user_def)

lemma demo_user_simps [simp]: "u_Username (demo_user n) = n" "\<not> u_IsAdmin (demo_user n)"
  by (simp_all add: demo_user_def)

lemma visit_simps [simp]: "UserFrom (vi_ctx (visit_of i n)) = Some (i, demo_user n)" "TokenFrom (vi_ctx (visit_of i n)) = None"
  by (simp_all add: visit_of_def UserFrom_def TokenFrom_def)

lemma demo_repo_simps [simp]: "rp_OwnerID (demo_repo i n p) = i" "rp_OwnerType (demo_repo i n p) = OwnerUser"
  "rp_OrgID (demo_repo i n p) = None" "rp_Name (demo_repo i n p) = n" "rp_DeletedAt (demo_repo i n p) = None"
  "rp_IsPrivate (demo_repo i n p) = p" "\<not> rp_Archived (demo_repo i n p)"
  by (simp_all add: demo_repo_def new_repo_def OwnerUser_def)

lemma demo_repos: "rd_repos demo_db = \<lparr>seq = 2, rows = [(1, demo_repo 1 ''app'' True), (2, demo_repo 2 ''tool'' False)]\<rparr>"
  "rd_root demo_db = ''/repos''" "\<not> rd_fs_down demo_db" "si_repos demo_site = demo_db"
  by (simp_all add: demo_db_def repos_New_def demo_site_def)

text \<open>An owner gets everywhere.\<close>

lemma owner_passes:
  assumes "ByUsername (si_users s) owner = Ok (k, q)" and "ByOwnerName (si_users s) (si_repos s) k name = Ok (j, r)"
    and "ValidateName owner = Ok ()" and "ValidateName name = Ok ()" and "rp_OwnerType r = OwnerUser" and "rp_OwnerID r = k"
    and "IsDeleted (si_users s) (si_repos s) j = Ok False"
    and "UserFrom (vi_ctx v) = Some (k, q')" and "TokenFrom (vi_ctx v) = None" and "k \<noteq> 0"
  shows "loadRepoAndPerm e now v owner name need s = (Ok ((j, r), Some (k, q')), s)"
proof -
  have "url_repo owner name s = Ok (j, r)" using assms(1-4) by (simp add: url_repo_def)
  moreover have "basic_user e now v s = (Some (k, q'), s)" using assms(8) by (simp add: basic_user_def)
  moreover have "caller_perm s (j, r) (Some (k, q')) = Ok PermAdmin"
    using assms(5,6,10) by (simp add: caller_perm_def caller_def PermissionFor_def Let_def)
  moreover have "\<not> PermAdmin < need" by (simp add: not_less)
  ultimately show ?thesis using assms(7,9) by (simp add: loadRepoAndPerm_def) (simp add: less_Perm_def)
qed

lemma owner_access:
  assumes "si_users s = demo_users" and "rd_repos (si_repos s) = rd_repos demo_db"
  shows "loadRepoAndPerm e now (visit_of 1 ''alice'') ''alice'' ''app'' need s
      = (Ok ((1, demo_repo 1 ''app'' True), Some (1, demo_user ''alice'')), s)"
    and "loadRepoAndPerm e now (visit_of 2 ''mallory'') ''mallory'' ''tool'' need s
      = (Ok ((2, demo_repo 2 ''tool'' False), Some (2, demo_user ''mallory'')), s)"
  using assms by (auto intro!: owner_passes simp: IsDeleted_def tbl_by_id_def demo_repos ByOwnerName_def repo_scanOne_def tbl_find_def)

lemmas demo_access = owner_access [OF demo_users_simps(1) arg_cong [OF demo_repos(4), of rd_repos]]

theorem repo_access_sound_witness:
  "granted demo_db (1, demo_repo 1 ''app'' True) (1, demo_user ''alice'') PermAdmin"
  using repo_access_sound [OF demo_access(1) [of _ _ PermAdmin]] by (simp add: demo_repos tbl_wf_def)

end
