(* ===== verification/RepoSharing.thy ===== *)
theory RepoSharing
  imports RepoClaims
begin

text \<open>
  Where names and directories part. The directory of a repository is named after its owner: an organization may
  have the name of an account, an account that is renamed leaves its directory behind, and a transfer does
  not look at what the new owner has.
\<close>

section \<open>An organization with the name of an account\<close>

lemma slug_user:
  assumes "users_wf us" and "ByUsername us name = Ok (k, q)"
  shows "ownerSlug us db k OwnerUser oid = name"
proof -
  have "\<not> us_down us" "(k, q) \<in> set (rows (us_users us))" "u_Username q = name"
    using assms(2) ByUsername_iff [OF assms(1)] by auto
  moreover from this have "tbl_by_id k (us_users us) = Some q" using tbl_by_id_iff [OF users_wfD(1) [OF assms(1)]] by blast
  ultimately show ?thesis by (simp add: ownerSlug_def Let_def OwnerUser_def OwnerOrg_def split: option.split)
qed

lemma slug_org:
  assumes "tbl_wf (rd_orgs db)" and "org_ByName us db name = Ok (i, x)"
  shows "ownerSlug us db w OwnerOrg (Some i) = name"
proof -
  have "\<not> us_down us" "(i, x) \<in> set (rows (rd_orgs db))" "og_Name x = name"
    using assms(2) tbl_find_Some [of _ "rd_orgs db" i x]
    by (auto simp: org_ByName_def org_find_def split: if_splits option.splits dest!: tbl_find_Some)
  moreover from this have "tbl_by_id i (rd_orgs db) = Some x" using tbl_by_id_iff [OF assms(1)] by blast
  ultimately show ?thesis by (simp add: ownerSlug_def Let_def OwnerOrg_def)
qed

text \<open>A fork whose clone fails takes the directory of its target away.\<close>

lemma Fork_takes_directory:
  assumes "fs_Path (rd_root db) (ownerSlug us db (fk_OwnerID p) (fk_OwnerType p) (fk_OrgID p)) (fk_TargetName p) = path"
    and "rd_disk db path \<noteq> None" and "\<not> rd_fs_down db" and "fk_TargetName p \<noteq> []" and "fk_OwnerType p \<noteq> []"
    and "validateRepoName (fk_TargetName p) = Ok ()" and "name_free us db (fk_OwnerID p) (fk_TargetName p) = Ok ()"
  shows "Fork now us p db = (Err RepoFS, db\<lparr>rd_disk := fs_Remove path (rd_disk db)\<rparr>)"
proof -
  have "CloneLocal src path (rd_disk db) = None" for src
    using assms(2) by (auto simp: CloneLocal_def split: option.splits)
  then show ?thesis using assms by (simp add: Fork_def fork_row_def Let_def)
qed

lemma validateRepoName_valid: "ValidateName n = Ok () \<Longrightarrow> validateRepoName n = Ok ()"
proof -
  assume v: "ValidateName n = Ok ()"
  have c: "list_all name_char n" "proper n" using v by (simp_all add: valid_chars ValidateName_proper)
  then have "trim_space n = n" using name_char_space by (intro trim_space_id) (auto simp: list_all_iff)
  moreover have "\<not> contains_any n [CHR '' '', CHR ''/'', backslash]"
    using c(1) by (auto simp: contains_any_def list_ex_iff list_all_iff name_char_def alnum_def backslash_def)
  ultimately show ?thesis using c(2) by (simp add: validateRepoName_def proper_def)
qed

text \<open>C20: Forking can destroy a repository of somebody else. When an organization has the name of an account, forking
  anything readable into the organization under the name of a repository of that account finds the
  directory taken, answers 400, and has removed the directory of the account's repository, whose row
  stays. No access to that repository is asked for.\<close>

theorem fork_destroys_foreign_repository:
  assumes "users_wf (si_users s)" and "tbl_wf (rd_orgs (si_repos s))" and "\<not> rd_fs_down (si_repos s)"
    and "UserFrom (vi_ctx v) = Some u" and "loadRepoAndPerm e now v owner name PermRead s = (Ok (src, w), s)"
    and "org_ByName (si_users s) (si_repos s) victim = Ok (i, x)" and "ValidateName target = Ok ()" and "victim \<noteq> []"
    and "ByOwnerName (si_users s) (si_repos s) (og_OwnerID x) target = Err RepoNotFound"
    and "ByUsername (si_users s) victim = Ok (k, q)" and "(j, r) \<in> set (rows (rd_repos (si_repos s)))"
    and "rp_OwnerID r = k" and "rp_OwnerType r = OwnerUser" and "rp_Name r = target"
    and "rd_disk (si_repos s) (repo_path (si_users s) (si_repos s) r) = Some d"
  shows "\<exists>s'. handleForkRepo e now v owner name target victim s = (400, s')
    \<and> rd_disk (si_repos s') (repo_path (si_users s') (si_repos s') r) = None
    \<and> (j, r) \<in> set (rows (rd_repos (si_repos s'))) \<and> ByOwnerName (si_users s') (si_repos s') k target \<noteq> Err RepoNotFound"
proof -
  let ?us = "si_users s" and ?db = "si_repos s"
  let ?p = "\<lparr>fk_Source = src, fk_TargetName = target, fk_OwnerID = og_OwnerID x, fk_OwnerType = OwnerOrg, fk_OrgID = Some i\<rparr>"
  let ?path = "fs_Path (rd_root ?db) victim target"
  let ?db' = "?db\<lparr>rd_disk := fs_Remove ?path (rd_disk ?db)\<rparr>"
  have path: "repo_path ?us db' r = fs_Path (rd_root db') victim target" for db'
    using slug_user [OF assms(1,10), of db' "rp_OrgID r"] assms(12-14) by (simp add: repo_path_def)
  have t: "target \<noteq> []" using ValidateName_proper [OF assms(7)] by (simp add: proper_def)
  have "Fork now ?us ?p ?db = (Err RepoFS, ?db')"
    using slug_org [OF assms(2,6)] assms(3,9,15) path [of ?db] t validateRepoName_valid [OF assms(7)]
    by (intro Fork_takes_directory) (simp_all add: name_free_def OwnerOrg_def)
  then have "handleForkRepo e now v owner name target victim s = (400, s\<lparr>si_repos := ?db'\<rparr>)"
    using assms(4-6,8) by (simp add: handleForkRepo_def org_owner_def on_repos_def)
  moreover have "ByOwnerName ?us ?db' k target \<noteq> Err RepoNotFound"
    using assms(11-14) by (auto simp: ByOwnerName_def repo_scanOne_def tbl_find_def find_None_iff split: option.splits)
  ultimately show ?thesis using path [of ?db'] assms(11) by (simp add: fs_Remove_def)
qed

lemma demo_dirs: "rd_disk demo_db (below ''/repos'' ''alice'' ''app'') = Some (demo_dir ''alice'' ''app'')"
  "rd_disk demo_db (below ''/repos'' ''mallory'' ''tool'') = Some (demo_dir ''mallory'' ''tool'')"
  by (simp_all add: demo_db_def below_inj)

text \<open>Mallory makes an organization named like Alice.\<close>

definition trap_site :: site where
  "trap_site = snd (handleCreateOrg (visit_of 2 ''mallory'') ''alice'' demo_site)"

lemma trap_site: "trap_site = demo_site\<lparr>si_repos := demo_db\<lparr>rd_orgs := \<lparr>seq = 1,
    rows = [(1, \<lparr>og_Name = ''alice'', og_OwnerID = 2, og_Archived = False\<rparr>)]\<rparr>\<rparr>\<rparr>"
  by (simp add: trap_site_def handleCreateOrg_def on_repos_def org_Create_def tbl_exists_def Let_def)
     (simp add: demo_site_def demo_db_def repos_New_def tbl_insert_def empty_table_def)

lemma demo_paths [simp]:
  "fs_Path ''/repos'' ''alice'' ''app'' = below ''/repos'' ''alice'' ''app''"
  "fs_Path ''/repos'' ''mallory'' ''tool'' = below ''/repos'' ''mallory'' ''tool''"
  using path_of_valid(1) [OF good_demo(1)] by simp_all

lemma demo_users_wf: "users_wf demo_users"
  by (simp add: users_wf_def demo_users_def users_New_def tbl_wf_def unique_on_def demo_user_def)

theorem fork_destroys_foreign_repository_witness:
  "\<exists>s'. handleForkRepo test_env 9 (visit_of 2 ''mallory'') ''mallory'' ''tool'' ''app'' ''alice'' trap_site = (400, s')
     \<and> rd_disk (si_repos s') (repo_path (si_users s') (si_repos s') (demo_repo 1 ''app'' True)) = None"
proof -
  have facts: "si_users trap_site = demo_users" "rd_root (si_repos trap_site) = ''/repos''"
    "rd_repos (si_repos trap_site) = rd_repos demo_db" "rd_disk (si_repos trap_site) = rd_disk demo_db"
    "\<not> rd_fs_down (si_repos trap_site)" "tbl_wf (rd_orgs (si_repos trap_site))"
    "org_ByName demo_users (si_repos trap_site) ''alice'' = Ok (1, \<lparr>og_Name = ''alice'', og_OwnerID = 2, og_Archived = False\<rparr>)"
    using demo_users_simps(1)
    by (simp_all add: trap_site demo_repos tbl_wf_def org_ByName_def org_find_def tbl_find_def)
  have path: "repo_path demo_users (si_repos trap_site) (demo_repo 1 ''app'' True) = below ''/repos'' ''alice'' ''app''"
    using slug_user [OF demo_users_wf, of "''alice''"] facts(2) by (simp add: repo_path_def)
  note access = owner_access(2) [OF facts(1,3)]
  have rows: "(1, demo_repo 1 ''app'' True) \<in> set (rows (rd_repos (si_repos trap_site)))"
    and free: "ByOwnerName demo_users (si_repos trap_site) 2 ''app'' = Err RepoNotFound"
    and disk: "rd_disk (si_repos trap_site) (below ''/repos'' ''alice'' ''app'') = Some (demo_dir ''alice'' ''app'')"
    using facts(3,4) by (simp_all add: demo_repos demo_dirs ByOwnerName_def repo_scanOne_def tbl_find_def)
  have "\<exists>s'. handleForkRepo test_env 9 (visit_of 2 ''mallory'') ''mallory'' ''tool'' ''app'' ''alice'' trap_site = (400, s')
    \<and> rd_disk (si_repos s') (repo_path (si_users s') (si_repos s') (demo_repo 1 ''app'' True)) = None
    \<and> (1, demo_repo 1 ''app'' True) \<in> set (rows (rd_repos (si_repos s')))
    \<and> ByOwnerName (si_users s') (si_repos s') 1 ''app'' \<noteq> Err RepoNotFound"
    by (rule fork_destroys_foreign_repository [OF _ facts(6,5) _ access facts(7) [folded facts(1)] _ _ _ _ rows _ _ _ disk [folded path, folded facts(1)]])
      (simp_all add: facts(1) free demo_users_wf)
  then show ?thesis by blast
qed

section \<open>An account with the former name of another\<close>

lemma repo_Create_Ok:
  assumes "repo_Create now us p db = (Ok (j, r), db')" and "tbl_wf (rd_repos db)" and "ca_OwnerType p \<noteq> []"
  shows "r = new_repo now p" and "rd_root db' = rd_root db" and "j = seq (rd_repos db) + 1"
    and "rd_disk db' = InstallHooks (fs_Path (rd_root db) (ownerSlug us db (ca_OwnerID p) (ca_OwnerType p) (ca_OrgID p)) (ca_Name p))
      (ownerSlug us db (ca_OwnerID p) (ca_OwnerType p) (ca_OrgID p)) (ca_Name p)
      (fs_Init (fs_Path (rd_root db) (ownerSlug us db (ca_OwnerID p) (ca_OwnerType p) (ca_OrgID p)) (ca_Name p)) (rd_disk db))"
    and "rd_orgs db' = rd_orgs db" and "rd_repos db' = tbl_insert r (rd_repos db)"
proof -
  have row: "rp_OwnerID (new_repo now p) = ca_OwnerID p" "rp_OwnerType (new_repo now p) = ca_OwnerType p"
    "rp_OrgID (new_repo now p) = ca_OrgID p" "rp_Name (new_repo now p) = ca_Name p"
    using assms(3) by (simp_all add: new_repo_def)
  let ?t = "tbl_insert (new_repo now p) (rd_repos db)"
  let ?owner = "ownerSlug us db (ca_OwnerID p) (ca_OwnerType p) (ca_OrgID p)"
  let ?path = "fs_Path (rd_root db) ?owner (ca_Name p)"
  let ?db' = "db\<lparr>rd_repos := ?t, rd_disk := InstallHooks ?path ?owner (ca_Name p) (fs_Init ?path (rd_disk db))\<rparr>"
  have v: "validateRepoName (ca_Name p) = Ok ()"
    using assms(1) by (cases "validateRepoName (ca_Name p)") (simp_all add: repo_Create_def row)
  moreover have f: "name_free us db (ca_OwnerID p) (ca_Name p) = Ok ()"
    using assms(1) v by (cases "name_free us db (ca_OwnerID p) (ca_Name p)") (simp_all add: repo_Create_def row)
  moreover have "\<not> rd_fs_down db" using assms(1) v f by (cases "rd_fs_down db") (simp_all add: repo_Create_def row)
  ultimately have "repo_Create now us p db = (repo_ByID us ?db' (seq (rd_repos db) + 1), ?db')"
    by (simp add: repo_Create_def row Let_def)
  then have d: "db' = ?db'" and "repo_ByID us db' (seq (rd_repos db) + 1) = Ok (j, r)"
    using assms(1) by simp_all
  then have "(j, r) \<in> set (rows ?t)" "j = seq (rd_repos db) + 1"
    using repo_scanOne_Ok(1,2) [of us db' "\<lambda>i _. i = seq (rd_repos db) + 1" "(j, r)"] by (simp_all add: repo_ByID_def d)
  then show "j = seq (rd_repos db) + 1" "r = new_repo now p" using fresh_row [OF assms(2), of r] by simp_all
  then show "rd_root db' = rd_root db" "rd_orgs db' = rd_orgs db" "rd_repos db' = tbl_insert r (rd_repos db)"
    by (simp_all add: d)
  show "rd_disk db' = InstallHooks (fs_Path (rd_root db) (ownerSlug us db (ca_OwnerID p) (ca_OwnerType p) (ca_OrgID p)) (ca_Name p))
      (ownerSlug us db (ca_OwnerID p) (ca_OwnerType p) (ca_OrgID p)) (ca_Name p)
      (fs_Init (fs_Path (rd_root db) (ownerSlug us db (ca_OwnerID p) (ca_OwnerType p) (ca_OrgID p)) (ca_Name p)) (rd_disk db))"
    by (simp add: d)
qed

text \<open>A renamed account leaves its repositories to whoever takes its former name: the rename changes the account
  alone, and the next account of the former name that creates a repository with the name of one of the
  renamed account's gets the directory of that repository with everything in it, while the rows of the
  renamed account now stand for directories under the new name.\<close>

theorem former_name_inherits_repositories:
  assumes "users_wf us" and "tbl_wf (rd_repos db)" and "ByUsername us name = Ok (k, q)"
    and "rp_OwnerID r = k" and "rp_OwnerType r = OwnerUser" and "rd_disk db (repo_path us db r) = Some d"
    and "Rename t1 k name' us = (Ok (), us1)"
    and "user_Create t2 p us1 = (Ok (k2, q2), us2)" and "up_Username p = name"
    and "repo_Create t3 us2 \<lparr>ca_OwnerID = k2, ca_OwnerType = OwnerUser, ca_OrgID = None, ca_Name = rp_Name r,
      ca_DefaultBranch = b, ca_IsPrivate = pv\<rparr> db = (Ok (j2, r2), db2)"
  shows "k2 \<noteq> k \<and> rp_OwnerID r2 = k2 \<and> repo_path us2 db2 r2 = repo_path us db r
    \<and> map_option dr_content (rd_disk db2 (repo_path us2 db2 r2)) = Some (dr_content d)
    \<and> repo_path us2 db2 r = fs_Path (rd_root db) name' (rp_Name r)"
proof -
  have kq: "(k, q) \<in> set (rows (us_users us))" using assms(3) ByUsername_iff [OF assms(1)] by simp
  have wf1: "users_wf us1" using Rename_wf [OF assms(1), of t1 k name'] assms(7) by simp
  have "fst (Rename t1 k name' us) = Ok ()" using assms(7) by simp
  then have up: "us_users us1 = tbl_update (\<lambda>j _. j = k) (\<lambda>x. x\<lparr>u_Username := name', u_UpdatedAt := t1\<rparr>) (us_users us)"
    by (rule Rename_Ok) (use assms(7) in simp)
  have kq1: "(k, q\<lparr>u_Username := name', u_UpdatedAt := t1\<rparr>) \<in> set (rows (us_users us1))"
    using kq by (auto simp: up set_rows_update)
  have wf2: "users_wf us2" using user_Create_wf [OF wf1, of t2 p] assms(8) by simp
  note new = user_Create_Ok [OF wf1, of t2 p k2 q2]
  have us2: "k2 = seq (us_users us1) + 1" "u_Username q2 = name" "us_users us2 = tbl_insert q2 (us_users us1)" "\<not> us_down us2"
    using new(1,2,8,9) assms(8,9) by simp_all
  have "ByUsername us2 name = Ok (k2, q2)" "ByUsername us2 name' = Ok (k, q\<lparr>u_Username := name', u_UpdatedAt := t1\<rparr>)"
    using us2 kq1 by (simp_all add: ByUsername_iff [OF wf2])
  note slug = slug_user [OF wf2 this(1)] slug_user [OF wf2 this(2)] slug_user [OF assms(1,3)]
  have "k2 \<noteq> k" using tbl_wf_bound [OF users_wfD(1) [OF wf1] kq1] us2(1) by simp
  moreover note c = repo_Create_Ok [OF assms(10,2)]
  have r2: "rp_OwnerID r2 = k2" "rp_OwnerType r2 = OwnerUser" "rp_OrgID r2 = None" "rp_Name r2 = rp_Name r"
    using c(1) by (simp_all add: OwnerUser_def new_repo_def)
  have path: "repo_path us db r = fs_Path (rd_root db) name (rp_Name r)" using slug(3) assms(4,5) by (simp add: repo_path_def)
  moreover have "repo_path us2 db2 r2 = fs_Path (rd_root db) name (rp_Name r)" "repo_path us2 db2 r = fs_Path (rd_root db) name' (rp_Name r)"
    using slug(1,2) r2 c(2) assms(4,5) by (simp_all add: repo_path_def OwnerUser_def)
  moreover have "map_option dr_content (rd_disk db2 (fs_Path (rd_root db) name (rp_Name r))) = Some (dr_content d)"
    using c(4) slug(1) assms(6) path by (simp add: OwnerUser_def InstallHooks_def fs_Init_def)
  ultimately show ?thesis using r2(1) by simp
qed

text \<open>Alice becomes Carol; somebody registers as Alice and creates \<open>app\<close>.\<close>

definition carol_users :: user_store where
  "carol_users = snd (Rename 5 1 ''carol'' demo_users)"

definition heir_users :: user_store where
  "heir_users = snd (user_Create 6 alice carol_users)"

definition heir_app :: repo_params where
  "heir_app = \<lparr>ca_OwnerID = 4, ca_OwnerType = OwnerUser, ca_OrgID = None, ca_Name = ''app'', ca_DefaultBranch = [], ca_IsPrivate = False\<rparr>"

theorem former_name_inherits_repositories_witness:
  "\<exists>r2 db2. repo_Create 7 heir_users heir_app demo_db = (Ok (3, r2), db2)
     \<and> map_option dr_content (rd_disk db2 (repo_path heir_users db2 r2)) = Some ''alice code''"
proof -
  have 1: "Rename 5 1 ''carol'' demo_users = (Ok (), carol_users)"
    and 2: "user_Create 6 alice carol_users = (Ok (4, new_user 6 alice), heir_users)"
    by (simp_all add: carol_users_def heir_users_def demo_users_def demo_user_def user_eval)
  have up: "\<not> us_down heir_users" by (simp add: carol_users_def heir_users_def demo_users_def demo_user_def user_eval)
  have "validateRepoName ''app'' = Ok ()" by (rule validateRepoName_valid) simp
  moreover have "name_free heir_users demo_db 4 ''app'' = Ok ()"
    using up by (simp add: name_free_def ByOwnerName_def repo_scanOne_def tbl_find_def demo_repos)
  moreover have row: "rp_OwnerID (new_repo 7 heir_app) = 4" "rp_Name (new_repo 7 heir_app) = ''app''"
    by (simp_all add: new_repo_def heir_app_def)
  moreover have "repo_ByID heir_users db 3 = Ok (3, r)" if "rd_repos db = tbl_insert r (rd_repos demo_db)" for r db
    using up that by (simp add: repo_ByID_def repo_scanOne_def tbl_find_def demo_repos)
  ultimately obtain r2 db2 where c: "repo_Create 7 heir_users heir_app demo_db = (Ok (3, r2), db2)"
    by (auto simp: repo_Create_def Let_def demo_repos tbl_insert_def)
  have path: "repo_path demo_users demo_db (demo_repo 1 ''app'' True) = below ''/repos'' ''alice'' ''app''"
    using slug_user [OF demo_users_wf, of "''alice''" 1] by (simp add: repo_path_def demo_repos)
  have disk: "rd_disk demo_db (repo_path demo_users demo_db (demo_repo 1 ''app'' True)) = Some (demo_dir ''alice'' ''app'')"
    by (simp add: path demo_dirs)
  have "map_option dr_content (rd_disk db2 (repo_path heir_users db2 r2)) = Some ''alice code''"
    using former_name_inherits_repositories [OF demo_users_wf _ demo_users_simps(3) _ _ disk 1 2, of 7 "[]" False 3 r2 db2] c
    by (auto simp: demo_repos tbl_wf_def alice_def heir_app_def demo_dir_def path)
  with c show ?thesis by blast
qed

section \<open>A transfer onto a name that is taken\<close>

lemma tbl_find_first:
  assumes "tbl_wf t" and "(j, y) \<in> set (rows t)" and "P j y"
    and "\<And>m x. (m, x) \<in> set (rows t) \<Longrightarrow> P m x \<Longrightarrow> j \<le> m"
  shows "tbl_find P t = Some (j, y)"
proof -
  have "tbl_find P t \<noteq> None" using assms(2,3) by (auto simp: tbl_find_None)
  then obtain m x where f: "tbl_find P t = Some (m, x)" by auto
  then have "m \<le> j" using find_sorted [of "rows t" _ m x j y] assms(1-3) by (simp add: tbl_find_def tbl_wf_def)
  moreover have mx: "(m, x) \<in> set (rows t)" "P m x" using tbl_find_Some [OF f] by simp_all
  ultimately have "m = j" using assms(4) by force
  then show ?thesis using f mx assms(1,2) tbl_wf_id_unique [of t j x y] by simp
qed

text \<open>A transfer is not checked against the repositories of the new owner: an owner who transfers a repository to
  somebody with a repository of the same name, created later, gets the answer 500 after the table has been
  changed. The address of the victim's repository then stands for the transferred row on the victim's
  directory, and who was a collaborator before the transfer has the rights of one there.\<close>

theorem transfer_hijacks_repository:
  assumes "users_wf (si_users s)" and "tbl_wf (rd_repos (si_repos s))" and "\<not> rd_fs_down (si_repos s)"
    and "loadRepoAndPerm e now v owner name PermAdmin s = (Ok ((j, r), w), s)"
    and "ByUsername (si_users s) victim = Ok (k, q)" and "ValidateName victim = Ok ()"
    and "ByOwnerName (si_users s) (si_repos s) k name = Ok (i, r')" and "rp_OwnerType r' = OwnerUser" and "j < i"
    and "rd_disk (si_repos s) (repo_path (si_users s) (si_repos s) r') = Some d"
    and "repo_path (si_users s) (si_repos s) r \<noteq> repo_path (si_users s) (si_repos s) r'"
    and "CollaboratorPermission (si_users s) (si_repos s) j m = Ok PermAdmin" and "m \<noteq> 0"
  shows "\<exists>s' r2. handleTransferRepo e now v owner name victim s = (500, s')
    \<and> url_repo victim name s' = Ok (j, r2) \<and> rd_disk (si_repos s') = rd_disk (si_repos s)
    \<and> repo_path (si_users s') (si_repos s') r2 = repo_path (si_users s) (si_repos s) r'
    \<and> caller_perm s' (j, r2) (Some (m, mq)) = Ok PermAdmin"
proof -
  let ?us = "si_users s" and ?db = "si_repos s"
  let ?f = "\<lambda>x :: repo_row. x\<lparr>rp_OwnerID := k, rp_OwnerType := OwnerUser, rp_OrgID := None, rp_UpdatedAt := now\<rparr>"
  let ?db' = "update_repo j ?f ?db"
  let ?P = "\<lambda>_ x. rp_OwnerID x = k \<and> rp_Name x = name"
  note ok = loadRepoAndPerm_Ok [OF assms(4)]
  obtain x :: user where "ByOwnerName ?us ?db (fst x) name = Ok (j, r)" using url_repo_Ok [OF ok(1)] by blast
  from repo_scanOne_Ok [OF this [unfolded ByOwnerName_def]]
  have row: "(j, r) \<in> set (rows (rd_repos ?db))" "rp_Name r = name" "\<not> us_down ?us" by simp_all
  have byid: "repo_ByID ?us ?db j = Ok (j, r)"
    using tbl_find_by_id [OF assms(2) row(1), of "\<lambda>m _. m = j"] row(3) by (simp add: repo_ByID_def repo_scanOne_def)
  have found: "tbl_find ?P (rd_repos ?db) = Some (i, r')"
    using assms(7) by (simp add: ByOwnerName_def repo_scanOne_def split: if_splits option.splits)
  have r': "rp_OwnerID r' = k" "rp_Name r' = name" using tbl_find_Some [OF found] by simp_all
  have path: "repo_path ?us db' z = fs_Path (rd_root db') victim name"
    if "rp_OwnerID z = k" "rp_OwnerType z = OwnerUser" "rp_Name z = name" for z db'
    using slug_user [OF assms(1,5)] that by (simp add: repo_path_def)
  have "fs_Move (repo_path ?us ?db r) (fs_Path (rd_root ?db) victim name) (rd_disk ?db) = None"
    using assms(8,10,11) path [of r' ?db] r' by (auto simp: fs_Move_def split: option.splits)
  then have "Transfer now ?us j k OwnerUser None ?db = (Err RepoFS, ?db')"
    using byid slug_user [OF assms(1,5)] row(2) assms(3)
    by (simp add: Transfer_def move_repo_def Let_def) (simp add: update_repo_def)
  then have "handleTransferRepo e now v owner name victim s = (500, s\<lparr>si_repos := ?db'\<rparr>)"
    using assms(4,5) by (simp add: handleTransferRepo_def repo_action_def on_repos_def)
  moreover have "tbl_find ?P (rd_repos ?db') = Some (j, ?f r)"
  proof (rule tbl_find_first)
    show "tbl_wf (rd_repos ?db')" using assms(2) by (simp add: update_repo_def tbl_wf_update)
    show "(j, ?f r) \<in> set (rows (rd_repos ?db'))" using row(1) by (auto simp: update_repo_def set_rows_update)
    show "?P j (?f r)" using row(2) by simp
    fix n y assume y: "(n, y) \<in> set (rows (rd_repos ?db'))" "?P n y"
    show "j \<le> n"
    proof (cases "n = j")
      case False
      then have "(n, y) \<in> set (rows (rd_repos ?db))" using y(1) by (auto simp: update_repo_def set_rows_update)
      then have "i \<le> n" using find_sorted [of "rows (rd_repos ?db)" _ i r' n y] found y(2) assms(2)
        by (simp add: tbl_find_def tbl_wf_def)
      then show ?thesis using assms(9) by simp
    qed simp
  qed
  then have "url_repo victim name (s\<lparr>si_repos := ?db'\<rparr>) = Ok (j, ?f r)"
    using assms(5,6) row(3) ok(1) by (auto simp: url_repo_def ByOwnerName_def repo_scanOne_def is_ok_def split: if_splits sum.splits)
  moreover have "rd_disk ?db' = rd_disk ?db" "rd_root ?db' = rd_root ?db" "rd_collabs ?db' = rd_collabs ?db"
    by (simp_all add: update_repo_def)
  moreover from this(3) have "caller_perm (s\<lparr>si_repos := ?db'\<rparr>) (j, ?f r) (Some (m, mq)) = Ok PermAdmin"
    using assms(12,13) row(3)
    by (simp add: caller_perm_def caller_def PermissionFor_def Let_def CollaboratorPermission_def OwnerUser_def OwnerOrg_def)
  ultimately show ?thesis using path [of "?f r" ?db'] path [of r' ?db] row(2) r' assms(8)
    by (intro exI [of _ "s\<lparr>si_repos := ?db'\<rparr>"] exI [of _ "?f r"]) simp
qed

text \<open>Mallory's repository \<open>app\<close> is older than Alice's, and Bob is a collaborator of it.\<close>

definition clash_db :: repo_db where
  "clash_db = demo_db\<lparr>rd_repos := \<lparr>seq = 2, rows = [(1, demo_repo 2 ''app'' False), (2, demo_repo 1 ''app'' True)]\<rparr>,
     rd_collabs := \<lparr>seq = 1, rows = [(1, \<lparr>cl_RepoID = 1, cl_UserID = 3, cl_Permission = ''admin''\<rparr>)]\<rparr>\<rparr>"

lemma clash_db_simps [simp]: "rd_repos clash_db = \<lparr>seq = 2, rows = [(1, demo_repo 2 ''app'' False), (2, demo_repo 1 ''app'' True)]\<rparr>"
  "rd_root clash_db = ''/repos''" "\<not> rd_fs_down clash_db" "rd_disk clash_db = rd_disk demo_db"
  by (simp_all add: clash_db_def demo_repos)

theorem transfer_hijacks_repository_witness:
  "\<exists>s' r2. handleTransferRepo test_env 9 (visit_of 2 ''mallory'') ''mallory'' ''app'' ''alice'' (demo_site\<lparr>si_repos := clash_db\<rparr>) = (500, s')
     \<and> url_repo ''alice'' ''app'' s' = Ok (1, r2) \<and> repo_path (si_users s') (si_repos s') r2 = below ''/repos'' ''alice'' ''app''
     \<and> caller_perm s' (1, r2) (Some (3, demo_user ''bob'')) = Ok PermAdmin"
proof -
  let ?s = "demo_site\<lparr>si_repos := clash_db\<rparr>"
  have us: "si_users ?s = demo_users" using demo_users_simps(1) by simp
  have found: "ByOwnerName demo_users clash_db 1 ''app'' = Ok (2, demo_repo 1 ''app'' True)"
    "ByOwnerName demo_users clash_db 2 ''app'' = Ok (1, demo_repo 2 ''app'' False)"
    by (simp_all add: ByOwnerName_def repo_scanOne_def tbl_find_def)
  have access: "loadRepoAndPerm test_env 9 (visit_of 2 ''mallory'') ''mallory'' ''app'' PermAdmin ?s
      = (Ok ((1, demo_repo 2 ''app'' False), Some (2, demo_user ''mallory'')), ?s)"
    by (rule owner_passes) (simp_all add: us found IsDeleted_def tbl_by_id_def)
  have path: "repo_path demo_users clash_db (demo_repo 1 ''app'' True) = below ''/repos'' ''alice'' ''app''"
    "repo_path demo_users clash_db (demo_repo 2 ''app'' False) = below ''/repos'' ''mallory'' ''app''"
    using slug_user [OF demo_users_wf, of "''alice''" 1] slug_user [OF demo_users_wf, of "''mallory''" 2]
      path_of_valid(1) [OF good_demo(1), of "''mallory''" "''app''"] by (simp_all add: repo_path_def)
  have "CollaboratorPermission demo_users clash_db 1 3 = Ok PermAdmin"
    by (simp add: CollaboratorPermission_def clash_db_def tbl_find_def ParsePerm_def)
  then show ?thesis
    using transfer_hijacks_repository [OF _ _ _ access _ _ _ _ _ _ _ _ _, of "''alice''" 1 "demo_user ''alice''" 2
        "demo_repo 1 ''app'' True" "demo_dir ''alice'' ''app''" 3 "demo_user ''bob''"]
    by (auto simp: us found path below_inj demo_users_wf tbl_wf_def demo_dirs)
qed

section \<open>Renaming\<close>

lemma tbl_find_ex: "(m, y) \<in> set (rows t) \<Longrightarrow> P m y \<Longrightarrow> tbl_find P t \<noteq> None"
  by (auto simp only: tbl_find_None)

lemma put_redirect_found:
  "tbl_find (\<lambda>_ y. rr_OldOwner y = a \<and> rr_OldName y = b) (put_redirect \<lparr>rr_OldOwner = a, rr_OldName = b, rr_RepoID = i\<rparr> t)
     \<noteq> None"
  "(m, y) \<in> set (rows (put_redirect \<lparr>rr_OldOwner = a, rr_OldName = b, rr_RepoID = i\<rparr> t)) \<Longrightarrow>
     rr_OldOwner y = a \<Longrightarrow> rr_OldName y = b \<Longrightarrow> rr_RepoID y = i"
proof -
  let ?P = "\<lambda>_ y. rr_OldOwner y = a \<and> rr_OldName y = b"
  show "tbl_find ?P (put_redirect \<lparr>rr_OldOwner = a, rr_OldName = b, rr_RepoID = i\<rparr> t) \<noteq> None"
  proof (cases "tbl_exists ?P t")
    case True
    then obtain m y where "(m, y) \<in> set (rows t)" "?P m y" by (auto simp: tbl_exists_iff)
    then have "(m, y\<lparr>rr_RepoID := i\<rparr>) \<in> set (rows (put_redirect \<lparr>rr_OldOwner = a, rr_OldName = b, rr_RepoID = i\<rparr> t))"
      using True by (force simp: put_redirect_def set_rows_update)
    then show ?thesis by (rule tbl_find_ex) (use \<open>?P m y\<close> in simp)
  next
    case False
    then have "(seq t + 1, \<lparr>rr_OldOwner = a, rr_OldName = b, rr_RepoID = i\<rparr>) \<in>
        set (rows (put_redirect \<lparr>rr_OldOwner = a, rr_OldName = b, rr_RepoID = i\<rparr> t))" by (simp add: put_redirect_def)
    then show ?thesis by (rule tbl_find_ex) simp
  qed
  assume y: "(m, y) \<in> set (rows (put_redirect \<lparr>rr_OldOwner = a, rr_OldName = b, rr_RepoID = i\<rparr> t))"
    "rr_OldOwner y = a" "rr_OldName y = b"
  show "rr_RepoID y = i"
  proof (cases "tbl_exists ?P t")
    case True
    then have "\<exists>x. (m, x) \<in> set (rows t) \<and> y = (if ?P m x then x\<lparr>rr_RepoID := i\<rparr> else x)"
      using y(1) by (simp add: put_redirect_def set_rows_update)
    then obtain x where x: "y = (if ?P m x then x\<lparr>rr_RepoID := i\<rparr> else x)" by blast
    show ?thesis
    proof (cases "?P m x")
      case False
      then have "y = x" by (simp only: x if_False)
      then show ?thesis using y(2,3) False by blast
    qed (simp add: x)
  next
    case False
    with y(1) have "(m, y) \<in> set (rows t) \<or> y = \<lparr>rr_OldOwner = a, rr_OldName = b, rr_RepoID = i\<rparr>"
      by (simp add: put_redirect_def) blast
    then show ?thesis
    proof
      assume "(m, y) \<in> set (rows t)"
      with y(2,3) False show ?thesis by (auto simp: tbl_exists_iff)
    qed simp
  qed
qed

lemma ResolveRedirect_put:
  assumes "\<not> us_down us" and "rd_redirects db = put_redirect \<lparr>rr_OldOwner = a, rr_OldName = b, rr_RepoID = i\<rparr> t"
  shows "repo_ResolveRedirect us db a b = Ok i"
proof -
  obtain m y where f: "tbl_find (\<lambda>_ y. rr_OldOwner y = a \<and> rr_OldName y = b) (rd_redirects db) = Some (m, y)"
    using put_redirect_found(1) [of a b i t] assms(2) by fastforce
  then show ?thesis using tbl_find_Some [OF f] put_redirect_found(2) [of m y a b i t] assms by (simp add: repo_ResolveRedirect_def)
qed

text \<open>An owner has no two repositories of one name.\<close>

definition names_unique :: "repo_db \<Rightarrow> bool" where
  "names_unique db \<longleftrightarrow> unique_on (\<lambda>r. (rp_OwnerID r, rp_Name r)) (rd_repos db)"

lemma names_uniqueD:
  assumes "names_unique db" and "(i, r) \<in> set (rows (rd_repos db))" and "(j, x) \<in> set (rows (rd_repos db))"
    and "rp_OwnerID r = rp_OwnerID x" and "rp_Name r = rp_Name x"
  shows "j = i \<and> x = r"
proof -
  have "inj_on (\<lambda>(i, r). (rp_OwnerID r, rp_Name r)) (set (rows (rd_repos db)))"
    using assms(1) by (simp add: names_unique_def unique_on_def distinct_map)
  then show ?thesis using assms(2-5) by (auto dest: inj_onD [of _ _ "(i, r)" "(j, x)"])
qed

lemma rename_effect:
  assumes "users_wf us" and "tbl_wf (rd_repos db)" and "names_unique db" and "ByUsername us owner = Ok (k, q)"
    and "ByOwnerName us db k old = Ok (i, r)" and "rp_OwnerType r = OwnerUser" and "new \<noteq> old"
    and "repo_Rename now us i new db = (Ok (), db')"
  shows "ByOwnerName us db' k new = Ok (i, r\<lparr>rp_Name := new, rp_UpdatedAt := now\<rparr>)"
    and "ByOwnerName us db' k old = Err RepoNotFound" and "repo_ResolveRedirect us db' owner old = Ok i"
    and "fs_Move (fs_Path (rd_root db) owner old) (fs_Path (rd_root db) owner new) (rd_disk db) = Some (rd_disk db')"
    and "rd_root db' = rd_root db" and "is_ok (repo_ByID us db' i)"
proof -
  let ?f = "\<lambda>x :: repo_row. x\<lparr>rp_Name := new, rp_UpdatedAt := now\<rparr>"
  let ?db1 = "(update_repo i ?f db)\<lparr>rd_redirects := put_redirect \<lparr>rr_OldOwner = owner, rr_OldName = old, rr_RepoID = i\<rparr> (rd_redirects db)\<rparr>"
  from repo_scanOne_Ok [OF assms(5) [unfolded ByOwnerName_def]]
  have row: "(i, r) \<in> set (rows (rd_repos db))" "rp_OwnerID r = k" "rp_Name r = old" "\<not> us_down us" by simp_all
  have byid: "repo_ByID us db i = Ok (i, r)"
    using tbl_find_by_id [OF assms(2) row(1), of "\<lambda>m _. m = i"] row(4) by (simp add: repo_ByID_def repo_scanOne_def)
  have slug: "ownerSlug us db k OwnerUser (rp_OrgID r) = owner" by (rule slug_user [OF assms(1,4)])
  have v: "validateRepoName new = Ok ()"
    using assms(8) by (cases "validateRepoName new") (simp_all add: repo_Rename_def)
  have free: "\<not> is_ok (ByOwnerName us db k new)"
    using assms(7,8) v byid row(2,3) by (auto simp: repo_Rename_def split: if_splits)
  have mv: "move_repo (fs_Path (rd_root db) owner old) (fs_Path (rd_root db) owner new) ?db1 = (Ok (), db')"
    using assms(6-8) v byid row(2,3) free slug by (simp add: repo_Rename_def Let_def update_repo_def)
  then have fs: "fs_Move (fs_Path (rd_root db) owner old) (fs_Path (rd_root db) owner new) (rd_disk db) = Some (rd_disk db')"
    and db': "rd_repos db' = rd_repos ?db1" "rd_redirects db' = rd_redirects ?db1" "rd_root db' = rd_root db"
    by (auto simp: move_repo_def update_repo_def split: if_splits option.splits)
  show "fs_Move (fs_Path (rd_root db) owner old) (fs_Path (rd_root db) owner new) (rd_disk db) = Some (rd_disk db')"
    "rd_root db' = rd_root db" by (rule fs, rule db'(3))
  show "repo_ResolveRedirect us db' owner old = Ok i"
    by (rule ResolveRedirect_put [OF row(4)]) (use db'(2) in simp)
  have rows': "(m, x) \<in> set (rows (rd_repos db')) \<longleftrightarrow> (\<exists>y. (m, y) \<in> set (rows (rd_repos db)) \<and> x = (if m = i then ?f y else y))" for m x
    by (auto simp: db'(1) update_repo_def set_rows_update)
  have only: "y = r" if "(i, y) \<in> set (rows (rd_repos db))" for y using tbl_wf_id_unique [OF assms(2) row(1) that] by simp
  have nonew: "\<not> (rp_OwnerID y = k \<and> rp_Name y = new)" if "(m, y) \<in> set (rows (rd_repos db))" for m y
    using free that row(4) by (auto simp: ByOwnerName_def repo_scanOne_def is_ok_def tbl_find_None split: option.splits)
  have "tbl_find (\<lambda>_ x. rp_OwnerID x = k \<and> rp_Name x = new) (rd_repos db') = Some (i, ?f r)"
  proof (rule tbl_find_by_id)
    show "tbl_wf (rd_repos db')" using assms(2) by (simp add: db'(1) update_repo_def tbl_wf_update)
    show "(i, ?f r) \<in> set (rows (rd_repos db'))" using row(1) rows' by auto
    show "rp_OwnerID (?f r) = k \<and> rp_Name (?f r) = new" using row(2) by simp
  qed (use rows' nonew in \<open>auto split: if_splits\<close>)
  then show "ByOwnerName us db' k new = Ok (i, ?f r)" using row(4) by (simp add: ByOwnerName_def repo_scanOne_def)
  have "tbl_find (\<lambda>_ x. rp_OwnerID x = k \<and> rp_Name x = old) (rd_repos db') = None"
    unfolding tbl_find_None
  proof (intro ballI, clarify)
    fix m x assume x: "(m, x) \<in> set (rows (rd_repos db'))" "k = rp_OwnerID x" "old = rp_Name x"
    then obtain y where y: "(m, y) \<in> set (rows (rd_repos db))" "x = (if m = i then ?f y else y)" using rows' by blast
    show False
    proof (cases "m = i")
      case False
      then have "x = y" using y(2) by simp
      then show ?thesis using names_uniqueD [OF assms(3) row(1) y(1)] row(2,3) x(2,3) False by simp
    qed (use x(3) y(2) assms(7) in simp)
  qed
  then show "ByOwnerName us db' k old = Err RepoNotFound" using row(4) by (simp add: ByOwnerName_def repo_scanOne_def)
  have "tbl_exists (\<lambda>j _. j = i) (rd_repos db')" using row(1) rows' by (auto simp: tbl_exists_iff)
  then show "is_ok (repo_ByID us db' i)"
    using tbl_find_exists [of "\<lambda>j _. j = i" "rd_repos db'"] row(4) by (auto simp: repo_ByID_def repo_scanOne_def is_ok_def split: option.splits)
qed

text \<open>A renamed repository is found under its new name and leads there from its old one: after a rename that
  succeeds, the new name of the owner gives the repository, Git clients that ask for the old name are
  redirected, and the directory has moved with all it contains, the old place being empty.\<close>

theorem repo_rename_moves:
  assumes "users_wf (si_users s)" and "tbl_wf (rd_repos (si_repos s))" and "names_unique (si_repos s)"
    and "ByUsername (si_users s) owner = Ok (k, q)" and "ByOwnerName (si_users s) (si_repos s) k old = Ok (i, r)"
    and "rp_OwnerType r = OwnerUser" and "new \<noteq> old" and "repo_Rename now (si_users s) i new (si_repos s) = (Ok (), db')"
    and "good_root (rd_root (si_repos s))" and "ValidateName owner = Ok ()" and "ValidateName old = Ok ()" and "ValidateName new = Ok ()"
  shows "url_repo owner new (s\<lparr>si_repos := db'\<rparr>) = Ok (i, r\<lparr>rp_Name := new, rp_UpdatedAt := now\<rparr>)
    \<and> fst (gitRepoAccess e now \<lparr>vi_ctx = empty_ctx, vi_basic = None\<rparr> owner (old @ ''.git'') need (s\<lparr>si_repos := db'\<rparr>)) = Err 301
    \<and> rd_disk db' (fs_Path (rd_root db') owner new) = rd_disk (si_repos s) (fs_Path (rd_root db') owner old)
    \<and> rd_disk db' (fs_Path (rd_root db') owner old) = None"
proof -
  note eff = rename_effect [OF assms(1-8)]
  have ne: "fs_Path (rd_root (si_repos s)) owner old \<noteq> fs_Path (rd_root (si_repos s)) owner new"
    using path_of_valid(1) [OF assms(9,10)] assms(7,11,12) below_inj [OF assms(10,10)] by simp
  have "url_repo owner new (s\<lparr>si_repos := db'\<rparr>) = Ok (i, r\<lparr>rp_Name := new, rp_UpdatedAt := now\<rparr>)"
    using eff(1) assms(4,10,12) by (simp add: url_repo_def)
  moreover have "basic_user e now \<lparr>vi_ctx = empty_ctx, vi_basic = None\<rparr> t = (None, t)" for t
    by (simp add: basic_user_def UserFrom_def empty_ctx_def authenticateGitBasic_def)
  then have "fst (gitRepoAccess e now \<lparr>vi_ctx = empty_ctx, vi_basic = None\<rparr> owner (old @ ''.git'') need (s\<lparr>si_repos := db'\<rparr>)) = Err 301"
    using eff(2,3,6) assms(4,10,11) by (simp add: gitRepoAccess_def)
  moreover have "rd_disk db' = (rd_disk (si_repos s))(fs_Path (rd_root db') owner old := None,
      fs_Path (rd_root db') owner new := rd_disk (si_repos s) (fs_Path (rd_root db') owner old))"
    using eff(4,5) ne by (auto simp: fs_Move_def split: option.splits if_splits)
  ultimately show ?thesis using ne eff(5) by simp
qed

lemma app_found: "ByOwnerName demo_users demo_db 1 ''app'' = Ok (1, demo_repo 1 ''app'' True)"
  by (simp add: ByOwnerName_def repo_scanOne_def tbl_find_def demo_repos)

lemma app_renamed: obtains db' where "repo_Rename 5 demo_users 1 ''lib'' demo_db = (Ok (), db')"
proof -
  have found: "\<not> is_ok (ByOwnerName demo_users demo_db 1 ''lib'')"
    by (simp add: ByOwnerName_def repo_scanOne_def tbl_find_def demo_repos is_ok_def)
  have id: "repo_ByID demo_users demo_db 1 = Ok (1, demo_repo 1 ''app'' True)"
    by (simp add: repo_ByID_def repo_scanOne_def tbl_find_def demo_repos)
  have path: "fs_Path ''/repos'' ''alice'' n = below ''/repos'' ''alice'' n" if "ValidateName n = Ok ()" for n
    by (rule path_of_valid(1) [OF good_demo(1) _ that]) simp
  have "rd_disk demo_db (below ''/repos'' ''alice'' ''lib'') = None"
    by (simp add: demo_db_def below_inj)
  then have "fs_Move (fs_Path ''/repos'' ''alice'' ''app'') (fs_Path ''/repos'' ''alice'' ''lib'') (rd_disk demo_db) \<noteq> None"
    using path by (simp add: fs_Move_def demo_dirs below_inj)
  then show thesis
    using that id found slug_user [OF demo_users_wf demo_users_simps(3)] validateRepoName_valid [of "''lib''"]
    by (auto simp: repo_Rename_def Let_def move_repo_def update_repo_def demo_repos)
qed

theorem repo_rename_moves_witness:
  "\<exists>db'. repo_Rename 5 demo_users 1 ''lib'' demo_db = (Ok (), db') \<and> rd_disk db' (fs_Path (rd_root db') ''alice'' ''app'') = None
     \<and> rd_disk db' (fs_Path (rd_root db') ''alice'' ''lib'') = Some (demo_dir ''alice'' ''app'')"
proof -
  obtain db' where r: "repo_Rename 5 demo_users 1 ''lib'' demo_db = (Ok (), db')" by (rule app_renamed)
  have "rd_root db' = ''/repos''"
    using rename_effect(5) [OF demo_users_wf _ _ demo_users_simps(3) app_found _ _ r]
    by (simp add: demo_repos tbl_wf_def names_unique_def unique_on_def)
  then show ?thesis
    using repo_rename_moves [of demo_site "''alice''" 1 "demo_user ''alice''" "''app''" 1 "demo_repo 1 ''app'' True" "''lib''" 5 db'] r app_found
    by (simp add: demo_users_wf demo_repos tbl_wf_def names_unique_def unique_on_def good_demo demo_dirs)
qed

end
