(* ===== verification/GitClaims.thy ===== *)
theory GitClaims
  imports RepoSharing
begin

text \<open>
  What holds of pushes: the hook reads what \<open>git\<close> writes, accepts exactly what the protections allow, and a push
  over HTTP changes a repository only for those who may write and within its protections. The built-in SSH
  server, a renamed repository and access tokens are where this does not carry over.
\<close>

section \<open>Updates as lines\<close>

text \<open>A field of an update line: not empty, no white space. References of Git and object names are.\<close>

definition field :: "string \<Rightarrow> bool" where
  "field w \<longleftrightarrow> w \<noteq> [] \<and> list_all (\<lambda>c. \<not> is_space c) w"

definition update_line :: "RefUpdate \<Rightarrow> string" where
  "update_line u = ru_Old u @ '' '' @ ru_New u @ '' '' @ ru_Ref u"

definition printable :: "RefUpdate \<Rightarrow> bool" where
  "printable u \<longleftrightarrow> field (ru_Old u) \<and> field (ru_New u) \<and> field (ru_Ref u) \<and> length (update_line u) < max_line"

lemma space_chars [simp]: "is_space CHR '' ''" "is_space CHR 0x0A" by (simp_all add: is_space_def)

lemma str_fields_update:
  assumes "printable u"
  shows "str_fields (update_line u) = [ru_Old u, ru_New u, ru_Ref u]"
proof -
  have f: "\<forall>c \<in> set (ru_Old u). \<not> is_space c" "\<forall>c \<in> set (ru_New u). \<not> is_space c"
    "\<forall>c \<in> set (ru_Ref u). \<not> is_space c" "ru_Old u \<noteq> []" "ru_New u \<noteq> []" "ru_Ref u \<noteq> []"
    using assms by (auto simp: printable_def field_def list_all_iff)
  show ?thesis using fields_acc_word [OF f(3), of "[]" "[]"] f
    by (simp add: str_fields_def update_line_def fields_acc_word)
qed

lemma trim_space_ends:
  assumes "s \<noteq> []" and "\<not> is_space (hd s)" and "\<not> is_space (last s)"
  shows "trim_space s = s"
proof -
  have "dropWhile is_space xs = xs" if "xs \<noteq> []" "\<not> is_space (hd xs)" for xs using that by (cases xs) simp_all
  from this [OF assms(1,2)] this [of "rev s"] assms show ?thesis by (simp add: trim_space_def trim_left_def hd_rev)
qed

lemma trim_update_line:
  assumes "printable u"
  shows "trim_space (update_line u) = update_line u"
proof (rule trim_space_ends)
  have "\<not> is_space (hd w)" "\<not> is_space (last w)" if "field w" for w
    using that by (cases w; simp add: field_def list_all_iff)+
  then show "\<not> is_space (hd (update_line u))" "\<not> is_space (last (update_line u))" "update_line u \<noteq> []"
    using assms by (auto simp: printable_def update_line_def field_def hd_append)
qed

lemma hook_lines_print:
  assumes "list_all printable us"
  shows "hook_lines (print_updates us) = map update_line us"
proof -
  have nl: "CHR 0x0A \<notin> set (update_line u)" if "printable u" for u
  proof -
    have "CHR 0x0A \<notin> set w" if "field w" for w
      using that by (auto simp: field_def list_all_iff is_space_def)
    then show ?thesis using that by (simp add: printable_def update_line_def)
  qed
  have "split_on (CHR 0x0A) (print_updates us) = map update_line us @ [[]]"
    using assms
  proof (induction us)
    case (Cons u us)
    have "split_on (CHR 0x0A) (update_line u @ CHR 0x0A # print_updates us) = [update_line u] @ (map update_line us @ [[]])"
      using Cons nl [of u] by (simp add: split_on_append split_on_no_sep)
    then show ?case by (simp add: print_updates_def update_line_def)
  qed (simp add: print_updates_def)
  then show ?thesis by (simp add: hook_lines_def)
qed

lemma parse_printed: "list_all printable us \<Longrightarrow> parse_updates (map update_line us) = Ok us"
proof (induction us)
  case (Cons u us)
  have "length (update_line u) < max_line" "update_line u \<noteq> []" using Cons.prems by (simp_all add: printable_def update_line_def)
  then show ?case
    using Cons trim_update_line [of u] str_fields_update [of u] by (simp add: Let_def)
qed simp

lemma parse_updates_fields:
  "parse_updates ls = Ok us \<Longrightarrow> list_all (\<lambda>u. field (ru_Old u) \<and> field (ru_New u) \<and> field (ru_Ref u)) us"
proof (induction ls arbitrary: us)
  case (Cons l ls)
  show ?case
  proof (cases "trim_space l = []")
    case True
    then show ?thesis using Cons by (simp add: Let_def split: if_splits)
  next
    case False
    then obtain a b c vs where f: "str_fields (trim_space l) = [a, b, c]" and vs: "parse_updates ls = Ok vs"
      and us: "us = \<lparr>ru_Old = a, ru_New = b, ru_Ref = c\<rparr> # vs"
      using Cons.prems by (simp add: Let_def split: if_splits list.splits sum.splits)
    have "field w" if "w \<in> {a, b, c}" for w
      using str_fields_parts [of w "trim_space l"] that f by (auto simp: field_def list_all_iff)
    then show ?thesis using us Cons.IH [OF vs] by simp
  qed
qed simp

lemma prereceive_parse: "list_all printable us \<Longrightarrow> ParsePreReceive (print_updates us) = Ok us"
  by (simp add: ParsePreReceive_def hook_lines_print parse_printed)

text \<open>The hook reads back the updates that \<open>git\<close> writes to it, all of them, in order, for any number of updates
  whose fields have no white space and whose lines fit the buffer of the scanner; and the updates it
  returns for any input have such fields.\<close>

theorem prereceive_roundtrip:
  assumes "list_all printable us"
  shows "ParsePreReceive (print_updates us) = Ok us
    \<and> (ParsePreReceive input = Ok vs \<longrightarrow> list_all (\<lambda>u. field (ru_Old u) \<and> field (ru_New u) \<and> field (ru_Ref u)) vs)"
  using assms parse_updates_fields [of "hook_lines input" vs] by (simp add: prereceive_parse) (simp add: ParsePreReceive_def)

definition push_main :: RefUpdate where
  "push_main = \<lparr>ru_Old = ''1a'', ru_New = ''2b'', ru_Ref = ''refs/heads/main''\<rparr>"

lemma push_main_printable: "printable push_main"
  by (simp add: printable_def push_main_def field_def is_space_def update_line_def max_line_def)

theorem prereceive_roundtrip_witness:
  "ParsePreReceive (print_updates [push_main, push_main]) = Ok [push_main, push_main]"
  using prereceive_roundtrip [of "[push_main, push_main]"] push_main_printable by simp

section \<open>What the protections allow\<close>

definition update_allowed :: "sig_checker option \<Rightarrow> string \<Rightarrow> ProtectionRule list \<Rightarrow> string list \<Rightarrow> RefUpdate \<Rightarrow> bool" where
  "update_allowed sig path rules tags u \<longleftrightarrow>
     (BranchName u \<noteq> [] \<longrightarrow> (\<forall>rule \<in> set rules. glob (pr_Pattern rule) (BranchName u) \<longrightarrow>
        \<not> IsDelete u \<and> pr_RequireSigned rule \<and> checkSigned sig path (ru_New u) = Ok True))
     \<and> (TagName u \<noteq> [] \<longrightarrow> (\<forall>pat \<in> set tags. \<not> glob pat (TagName u)))"

lemma git_MatchPattern_glob: "CHR ''*'' \<notin> set name \<Longrightarrow> git_MatchPattern pat name = glob pat name"
  by (simp add: git_MatchPattern_def match_loop_total)

lemma check_branch_Ok:
  "check_branch sig path name u rules = Ok () \<longleftrightarrow> (\<forall>rule \<in> set rules. git_MatchPattern (pr_Pattern rule) name \<longrightarrow>
     \<not> IsDelete u \<and> pr_RequireSigned rule \<and> checkSigned sig path (ru_New u) = Ok True)"
  by (induction sig path name u rules rule: check_branch.induct) (auto split: sum.splits)

lemma check_tag_Ok: "check_tag name u pats = Ok () \<longleftrightarrow> (\<forall>pat \<in> set pats. \<not> git_MatchPattern pat name)"
  by (induction name u pats rule: check_tag.induct) auto

lemma parts_no_star: "CHR ''*'' \<notin> set (ru_Ref u) \<Longrightarrow> CHR ''*'' \<notin> set (BranchName u) \<and> CHR ''*'' \<notin> set (TagName u)"
  by (auto simp: BranchName_def TagName_def trim_prefix_def split: if_splits dest: in_set_dropD)

lemma check_update_Ok:
  assumes "CHR ''*'' \<notin> set (ru_Ref u)"
  shows "check_update sig path rules tags u = Ok () \<longleftrightarrow> update_allowed sig path rules tags u"
proof -
  have "check_update sig path rules tags u = Ok () \<longleftrightarrow>
      (BranchName u \<noteq> [] \<longrightarrow> check_branch sig path (BranchName u) u rules = Ok ())
      \<and> (TagName u \<noteq> [] \<longrightarrow> check_tag (TagName u) u tags = Ok ())"
    by (cases "check_branch sig path (BranchName u) u rules") (simp_all add: check_update_def)
  then show ?thesis
    using parts_no_star [OF assms] by (simp add: update_allowed_def check_branch_Ok check_tag_Ok git_MatchPattern_glob)
qed

lemma check_updates_Ok:
  "list_all (\<lambda>u. CHR ''*'' \<notin> set (ru_Ref u)) us \<Longrightarrow>
     check_updates sig path rules tags us = Ok () \<longleftrightarrow> list_all (update_allowed sig path rules tags) us"
proof (induction us)
  case (Cons u us)
  then show ?case using check_update_Ok [of u sig path rules tags]
    by (cases "check_update sig path rules tags u") simp_all
qed simp

definition branch_rules :: "repo_db \<Rightarrow> int \<Rightarrow> ProtectionRule list" where
  "branch_rules db i = map (\<lambda>b. \<lparr>pr_Pattern = bp_Pattern b, pr_RequireReview = bp_RequireReview b, pr_RequireSigned = bp_RequireSigned b\<rparr>)
     (map snd (tbl_select (\<lambda>_ b. bp_RepoID b = i) (rd_branches db)))"

definition tag_rules :: "repo_db \<Rightarrow> int \<Rightarrow> string list" where
  "tag_rules db i = map (tp_Pattern \<circ> snd) (tbl_select (\<lambda>_ x. tp_RepoID x = i) (rd_tags db))"

lemma enforced_iff:
  "list_all (\<lambda>u. CHR ''*'' \<notin> set (ru_Ref u)) us \<Longrightarrow> EnforceProtections users db i us isAdmin path sig = Ok () \<longleftrightarrow>
     isAdmin \<or> \<not> us_down users \<and> list_all (update_allowed sig path (branch_rules db i) (tag_rules db i)) us"
  using check_updates_Ok [of us]
  by (simp add: EnforceProtections_def BranchProtections_def ListBranchProtections_def ListTagProtectionPatterns_def
      branch_rules_def tag_rules_def)

text \<open>C21: The hook accepts exactly the pushes that the protections of the repository allow. An administrator may do
  everything. Otherwise the tables have to be readable and every update allowed: a branch that some pattern
  covers is never deleted and takes commits only when each rule that covers it asks for signatures and the
  new tip has one; a tag that a pattern covers does not change. The order of the rules does not matter.
  Names of references contain no star, which Git sees to.\<close>

theorem protections_exact:
  assumes "list_all (\<lambda>u. CHR ''*'' \<notin> set (ru_Ref u)) us"
  shows "EnforceProtections users db i us isAdmin path sig = Ok () \<longleftrightarrow>
    isAdmin \<or> \<not> us_down users \<and> list_all (update_allowed sig path (branch_rules db i) (tag_rules db i)) us"
  by (rule enforced_iff [OF assms])

definition guarded_db :: repo_db where
  "guarded_db = demo_db\<lparr>rd_branches := \<lparr>seq = 1, rows = [(1, \<lparr>bp_RepoID = 1, bp_Pattern = ''ma*'', bp_RequireReview = False,
     bp_RequireSigned = True, bp_RequireCodeowners = False\<rparr>)]\<rparr>\<rparr>"

theorem protections_exact_witness:
  "EnforceProtections demo_users guarded_db 1 [push_main] False ''/repos/alice/app.git'' None \<noteq> Ok ()
   \<and> EnforceProtections demo_users guarded_db 1 [push_main] False ''/repos/alice/app.git'' (Some (\<lambda>_ _. Some True)) = Ok ()"
proof -
  have star: "list_all (\<lambda>u. CHR ''*'' \<notin> set (ru_Ref u)) [push_main]" by (simp add: push_main_def)
  have rules: "branch_rules guarded_db 1 = [\<lparr>pr_Pattern = ''ma*'', pr_RequireReview = False, pr_RequireSigned = True\<rparr>]"
    "tag_rules guarded_db 1 = []"
    by (simp_all add: branch_rules_def tag_rules_def guarded_db_def tbl_select_def demo_db_def repos_New_def)
  have name: "BranchName push_main = ''main''" "\<not> IsDelete push_main" "glob ''ma*'' ''main''"
    by (simp_all add: BranchName_def push_main_def has_prefix_def trim_prefix_def IsDelete_def trim_zeros_def)
  show ?thesis unfolding protections_exact [OF star] rules
    using name by (simp add: update_allowed_def checkSigned_def)
qed

section \<open>Pushing over HTTP\<close>

lemma gitRepoAccess_lookup:
  assumes "gitRepoAccess e now v owner name need s = (Ok (rp, u), s1)"
  shows "basic_user e now v s = (u, s1)"
    and "\<exists>x. ByUsername (si_users s1) owner = Ok x
      \<and> ByOwnerName (si_users s1) (si_repos s1) (fst x) (trim_suffix name ''.git'') = Ok rp"
    and "\<exists>perm. caller_perm s1 rp u = Ok perm \<and> (need \<le> perm \<or> need \<le> PermRead \<and> \<not> rp_IsPrivate (snd rp))
      \<and> (rp_IsPrivate (snd rp) \<longrightarrow> PermRead \<le> perm)"
    and "is_ok (ValidateName owner)" and "is_ok (ValidateName (trim_suffix name ''.git''))"
proof -
  let ?n = "trim_suffix name ''.git''"
  have v: "is_ok (ValidateName owner)" "is_ok (ValidateName ?n)"
    using assms by (auto simp: gitRepoAccess_def Let_def split: if_splits)
  obtain w t where b: "basic_user e now v s = (w, t)" by (cases "basic_user e now v s")
  obtain x where x: "ByUsername (si_users t) owner = Ok x"
    using assms v b by (cases "ByUsername (si_users t) owner") (simp_all add: gitRepoAccess_def Let_def)
  obtain y where y: "ByOwnerName (si_users t) (si_repos t) (fst x) ?n = Ok y"
    using assms v b x
    by (cases "ByOwnerName (si_users t) (si_repos t) (fst x) ?n"; cases "repo_ResolveRedirect (si_users t) (si_repos t) owner ?n")
      (simp_all add: gitRepoAccess_def Let_def split: if_splits)
  obtain perm where p: "caller_perm t y w = Ok perm"
    using assms v b x y by (cases "caller_perm t y w") (simp_all add: gitRepoAccess_def Let_def)
  have "y = rp \<and> w = u \<and> t = s1 \<and> (need \<le> perm \<or> need \<le> PermRead \<and> \<not> rp_IsPrivate (snd rp))
      \<and> (rp_IsPrivate (snd rp) \<longrightarrow> PermRead \<le> perm)"
    using assms v b x y p by (simp add: gitRepoAccess_def Let_def not_less split: if_splits)
  then show "basic_user e now v s = (u, s1)" "\<exists>x. ByUsername (si_users s1) owner = Ok x
      \<and> ByOwnerName (si_users s1) (si_repos s1) (fst x) ?n = Ok rp"
    "\<exists>perm. caller_perm s1 rp u = Ok perm \<and> (need \<le> perm \<or> need \<le> PermRead \<and> \<not> rp_IsPrivate (snd rp))
      \<and> (rp_IsPrivate (snd rp) \<longrightarrow> PermRead \<le> perm)"
    using b x y p by blast+
  show "is_ok (ValidateName owner)" "is_ok (ValidateName ?n)" by (rule v)+
qed

lemma gitRepoAccess_repos: "gitRepoAccess e now v owner name need s = (acc, s1) \<Longrightarrow> si_repos s1 = si_repos s"
  using basic_user_repos [of e now v s] by (cases "basic_user e now v s")
    (auto simp: gitRepoAccess_def Let_def split: if_splits sum.splits prod.splits)

lemma runPreReceive_found:
  assumes "list_all printable us" and "us \<noteq> []" and "ByUsername users owner = Ok x"
    and "ByOwnerName users db (fst x) name = Ok rp"
  shows "runPreReceive users db sig isAdmin owner name (print_updates us) =
    (if IsArchived users db (snd rp) then Err HookArchived
     else EnforceProtections users db (fst rp) us isAdmin (fs_Path (rd_root db) owner name) sig)"
  using assms prereceive_parse [OF assms(1)] by (simp add: runPreReceive_def)

lemma receive_pack_changes:
  assumes "receive_pack g users isAdmin path us db = (x, db')" and "db' \<noteq> db"
  shows "\<exists>r. rd_disk db path = Some r \<and> rd_disk db' = (rd_disk db)(path \<mapsto> r\<lparr>dr_content := gp_apply g us (dr_content r)\<rparr>)
    \<and> (\<forall>owner name. dr_hook r = Some (owner, name) \<longrightarrow>
         runPreReceive users db (gp_sig g) isAdmin owner name (print_updates us) = Ok ())"
  using assms by (auto simp: receive_pack_def split: option.splits sum.splits prod.splits)


text \<open>Alice pushes signed commits to the protected branch.\<close>

definition demo_git :: "sig_checker option \<Rightarrow> git_program" where
  "demo_git sig = \<lparr>gp_apply = (\<lambda>us c. c @ ''!''), gp_sig = sig\<rparr>"

definition guarded_site :: site where
  "guarded_site = demo_site\<lparr>si_repos := guarded_db\<rparr>"

lemma guarded_simps [simp]: "si_users guarded_site = demo_users" "si_repos guarded_site = guarded_db"
  "rd_repos guarded_db = rd_repos demo_db" "rd_root guarded_db = ''/repos''" "rd_disk guarded_db = rd_disk demo_db"
  using demo_users_simps(1) by (simp_all add: guarded_site_def guarded_db_def demo_repos)

lemma demo_found:
  assumes "rd_repos db = rd_repos demo_db"
  shows "ByOwnerName demo_users db 1 ''app'' = Ok (1, demo_repo 1 ''app'' True)"
    and "ByOwnerName demo_users db 2 ''tool'' = Ok (2, demo_repo 2 ''tool'' False)"
  using assms by (simp_all add: ByOwnerName_def repo_scanOne_def tbl_find_def demo_repos)

lemma demo_git_access:
  assumes "si_users s = demo_users" and "rd_repos (si_repos s) = rd_repos demo_db"
  shows "gitRepoAccess e now (visit_of 1 ''alice'') ''alice'' ''app.git'' need s
     = (Ok ((1, demo_repo 1 ''app'' True), Some (1, demo_user ''alice'')), s)"
proof -
  have "trim_suffix ''app.git'' ''.git'' = ''app''" using trim_suffix_append [of "''app''" "''.git''"] by simp
  moreover have "caller_perm s (1, demo_repo 1 ''app'' True) (Some (1, demo_user ''alice'')) = Ok PermAdmin"
    by (simp add: caller_perm_def caller_def PermissionFor_def)
  moreover have "\<not> PermAdmin < PermRead" "\<not> PermAdmin < need" by (simp_all add: not_less)
  ultimately show ?thesis using assms demo_found(1) [OF assms(2)]
    by (simp add: gitRepoAccess_def basic_user_def)
qed

lemma demo_hooks:
  assumes "ValidateName n = Ok ()" and "rd_disk demo_db (fs_Path ''/repos'' ''alice'' n) = Some d"
  shows "dr_hook d = Some (''alice'', n)"
  using assms path_of_valid(1) [OF good_demo(1) valid_demo(1) assms(1)]
  by (auto simp: demo_db_def below_inj demo_dir_def split: if_splits)

lemma push_rules: "branch_rules guarded_db 1 = [\<lparr>pr_Pattern = ''ma*'', pr_RequireReview = False, pr_RequireSigned = True\<rparr>]"
    "tag_rules guarded_db 1 = []"
    and push_name: "BranchName push_main = ''main''" "\<not> IsDelete push_main" "glob ''ma*'' ''main''" "TagName push_main = []"
    and push_star: "list_all (\<lambda>u. CHR ''*'' \<notin> set (ru_Ref u)) [push_main]"
  by (simp_all add: branch_rules_def tag_rules_def guarded_db_def tbl_select_def demo_db_def repos_New_def
      BranchName_def TagName_def push_main_def has_prefix_def trim_prefix_def IsDelete_def trim_zeros_def)


section \<open>Pushing after a rename\<close>

lemma fs_Move_target: "fs_Move src dst d = Some d' \<Longrightarrow> d' dst = d src"
  by (auto simp: fs_Move_def split: option.splits if_splits)

text \<open>A renamed repository takes no pushes any more: its hook still carries the old name, under which the hook command
  does not find the repository, so that every push, also that of an administrator, is refused and changes nothing.\<close>

theorem rename_breaks_push:
  assumes "users_wf us" and "tbl_wf (rd_repos db)" and "names_unique db" and "ByUsername us owner = Ok (k, q)"
    and "ByOwnerName us db k old = Ok (i, r)" and "rp_OwnerType r = OwnerUser" and "new \<noteq> old"
    and "repo_Rename now us i new db = (Ok (), db')"
    and "rd_disk db (fs_Path (rd_root db) owner old) = Some d" and "dr_hook d = Some (owner, old)"
    and "list_all printable ups" and "ups \<noteq> []"
  shows "receive_pack g us isAdmin (fs_Path (rd_root db') owner new) ups db' = (Some (Err HookRepo), db')"
proof -
  note eff = rename_effect [OF assms(1-8)]
  have "rd_disk db' (fs_Path (rd_root db') owner new) = Some d"
    using fs_Move_target [OF eff(4)] eff(5) assms(9) by simp
  moreover have "runPreReceive us db' (gp_sig g) isAdmin owner old (print_updates ups) = Err HookRepo"
    using prereceive_parse [OF assms(11)] assms(4,12) eff(2) by (simp add: runPreReceive_def)
  ultimately show ?thesis using assms(10) by (simp add: receive_pack_def)
qed

theorem rename_breaks_push_witness:
  "\<exists>db'. repo_Rename 5 demo_users 1 ''lib'' demo_db = (Ok (), db')
     \<and> fst (receive_pack (demo_git None) demo_users True (fs_Path (rd_root db') ''alice'' ''lib'') [push_main] db') = Some (Err HookRepo)"
proof -
  obtain db' where r: "repo_Rename 5 demo_users 1 ''lib'' demo_db = (Ok (), db')" by (rule app_renamed)
  moreover have "receive_pack (demo_git None) demo_users True (fs_Path (rd_root db') ''alice'' ''lib'') [push_main] db' = (Some (Err HookRepo), db')"
    by (rule rename_breaks_push [OF demo_users_wf _ _ demo_users_simps(3) demo_found(1) [of demo_db] _ _ r, where d = "demo_dir ''alice'' ''app''"])
      (simp_all add: demo_repos demo_dirs push_main_printable tbl_wf_def names_unique_def unique_on_def demo_dir_def)
  ultimately show ?thesis by auto
qed

section \<open>SSH\<close>

lemma trim_chars_quoted:
  assumes "w \<noteq> []" and "hd w \<noteq> quote_char" and "hd w \<noteq> CHR 0x22" and "last w \<noteq> quote_char" and "last w \<noteq> CHR 0x22"
  shows "trim_chars [quote_char, CHR 0x22] (quote_char # w @ [quote_char]) = w"
proof -
  have d: "dropWhile (\<lambda>c. c \<in> set [quote_char, CHR 0x22]) (xs @ ys) = xs @ ys"
    if "xs \<noteq> []" "hd xs \<noteq> quote_char" "hd xs \<noteq> CHR 0x22" for xs ys
    using that by (cases xs) simp_all
  have "dropWhile (\<lambda>c. c \<in> set [quote_char, CHR 0x22]) (quote_char # w @ [quote_char]) = w @ [quote_char]"
    using d [OF assms(1-3), of "[quote_char]"] by simp
  then show ?thesis using d [of "rev w" "[]"] assms by (simp add: trim_chars_def hd_rev)
qed

text \<open>The command that a Git client sends to fetch.\<close>

definition fetch_command :: "string \<Rightarrow> string \<Rightarrow> string" where
  "fetch_command owner name = ''git-upload-pack '' @ [quote_char] @ ''/'' @ owner @ ''/'' @ name @ ''.git'' @ [quote_char]"

lemma ParseCommand_fetch:
  assumes "ValidateName owner = Ok ()" and "ValidateName name = Ok ()"
  shows "ParseCommand (fetch_command owner name) = Some (''git-upload-pack '' @ owner @ ''/'' @ name @ ''.git'')"
proof -
  let ?arg = "''/'' @ owner @ ''/'' @ name @ ''.git''"
  have good: "list_all (\<lambda>c. c \<notin> set (''|&;<>$'' @ [CHR 0x60, CHR 0x0A, CHR 0x0D]) \<and> c \<noteq> CHR 0x00) w"
    if "ValidateName w = Ok ()" for w
    using valid_chars [OF that] by (auto simp: list_all_iff name_char_def alnum_def)
  have t: "trim_space (fetch_command owner name) = fetch_command owner name"
    by (rule trim_space_ends) (simp_all add: fetch_command_def is_space_def quote_char_def)
  have q: "trim_chars [quote_char, CHR 0x22] (quote_char # ?arg @ [quote_char]) = ?arg"
    by (rule trim_chars_quoted) (simp_all add: quote_char_def)
  have nul: "CHR 0x00 \<notin> set (fetch_command owner name)"
    using good [OF assms(1)] good [OF assms(2)] by (auto simp: fetch_command_def quote_char_def list_all_iff)
  have meta: "\<not> contains_any ?arg (''|&;<>$'' @ [CHR 0x60, CHR 0x0A, CHR 0x0D])"
    using good [OF assms(1)] good [OF assms(2)] by (auto simp: contains_any_def list_ex_iff list_all_iff)
  have "split_on (CHR ''/'') (owner @ ''/'' @ name @ ''.git'') = [owner, name @ ''.git'']"
    using ValidateName_proper [OF assms(1)] proper_git [OF assms(2)]
    by (simp add: split_on_append split_on_no_sep proper_def)
  then have dots: "''..'' \<notin> set (split_on (CHR ''/'') (owner @ ''/'' @ name @ ''.git''))"
    using ValidateName_proper [OF assms(1)] proper_git [OF assms(2)] by (simp only: proper_def) auto
  have find: "List.find (\<lambda>verb. IsAllowedVerb verb \<and> has_prefix (fetch_command owner name) (verb @ '' '')) git_verbs = Some ''git-upload-pack''"
    by (simp add: git_verbs_def IsAllowedVerb_def fetch_command_def has_prefix_def)
  have "trim_prefix (fetch_command owner name) (''git-upload-pack'' @ '' '') = quote_char # ?arg @ [quote_char]"
    using trim_prefix_append [of "''git-upload-pack '' " "quote_char # ?arg @ [quote_char]"] by (simp add: fetch_command_def)
  moreover have "trim_prefix ?arg ''/'' = owner @ ''/'' @ name @ ''.git''" using trim_prefix_append [of "''/''"] by simp
  moreover have "fetch_command owner name \<noteq> []" by (simp add: fetch_command_def)
  ultimately show ?thesis unfolding ParseCommand_def t Let_def using nul find q meta dots by simp
qed

lemma splitGitCommand_fetch: "splitGitCommand (''git-upload-pack '' @ arg) = Some (''git-upload-pack'', arg)"
  by (simp add: splitGitCommand_def git_verbs_def has_prefix_def)

lemma splitOwnerRepo_valid:
  assumes "ValidateName owner = Ok ()"
  shows "splitOwnerRepo (owner @ ''/'' @ name) = (owner, name)"
proof -
  have "takeWhile (\<lambda>x. x \<noteq> CHR ''/'') (owner @ CHR ''/'' # name) = owner"
    using ValidateName_proper [OF assms] by (subst takeWhile_append2) (auto simp: proper_def)
  then show ?thesis by (simp add: splitOwnerRepo_def before_byte_def after_byte_def)
qed

lemma Dispatch_fetch:
  assumes "good_root (rd_root db)" and "ValidateName owner = Ok ()" and "ValidateName name = Ok ()"
    and "ByUsername users owner = Ok (k, q)" and "ByOwnerName users db k name = Ok rp"
  shows "Dispatch users db username (''git-upload-pack '' @ owner @ ''/'' @ name @ ''.git'')
    = Some (''git-upload-pack'', fs_Path (rd_root db) owner name)"
proof -
  have "trim_prefix (owner @ ''/'' @ name @ ''.git'') ''/'' = owner @ ''/'' @ name @ ''.git''"
    using ValidateName_proper [OF assms(2)] by (cases owner) (auto simp: trim_prefix_def has_prefix_def proper_def)
  moreover have "trim_suffix (owner @ ''/'' @ name @ ''.git'') ''.git'' = owner @ ''/'' @ name"
    using trim_suffix_append [of "owner @ ''/'' @ name" "''.git''"] by simp
  ultimately show ?thesis
    using assms(2-5) path_of_valid(1) [OF assms(1-3)] path_accepted [OF assms(1-3)]
    unfolding Dispatch_def splitGitCommand_fetch
    by (simp add: splitOwnerRepo_valid [OF assms(2)] follow_rename_def del: append_Cons append_Nil)
qed

text \<open>Over SSH everybody reads everything. Whoever holds any authenticated key, of an account or a deploy key of some
  repository, gets the content of every repository by naming it, private ones included; the same account
  without any grant is turned away by the check of Git over HTTP with 401.\<close>

theorem ssh_serves_everyone:
  assumes "ssh_authorize (si_users s) ks dks (si_repos s) connUser fingerprint = Some (username, readOnly)"
    and "ByUsername (si_users s) owner = Ok (k, q)" and "ByOwnerName (si_users s) (si_repos s) k name = Ok rp"
    and "good_root (rd_root (si_repos s))" and "ValidateName owner = Ok ()" and "ValidateName name = Ok ()"
    and "rd_disk (si_repos s) (fs_Path (rd_root (si_repos s)) owner name) = Some d"
    and "UserFrom (vi_ctx v) = Some x" and "rp_IsPrivate (snd rp)" and "\<not> granted (si_repos s) rp x PermRead"
  shows "ssh_session g (si_users s) ks dks connUser fingerprint (fetch_command owner name) ups (si_repos s) = (Some (dr_content d), si_repos s)
    \<and> gitRepoAccess e now v owner (name @ ''.git'') PermRead s = (Err 401, s)"
proof -
  have "ssh_session g (si_users s) ks dks connUser fingerprint (fetch_command owner name) ups (si_repos s) = (Some (dr_content d), si_repos s)"
    using assms(1,7) ParseCommand_fetch [OF assms(5,6)] Dispatch_fetch [OF assms(4-6,2,3), of username]
    by (simp add: ssh_session_def runCommand_def has_prefix_def)
  moreover have "\<not> us_down (si_users s)" using repo_scanOne_Ok(3) [OF assms(3) [unfolded ByOwnerName_def]] .
  then obtain perm where p: "caller_perm s rp (Some x) = Ok perm"
    using PermissionFor_defined unfolding caller_perm_def by blast
  then have "perm < PermRead" using caller_granted [OF p, of PermRead] assms(10) by (auto simp: not_less [symmetric])
  then have "gitRepoAccess e now v owner (name @ ''.git'') PermRead s = (Err 401, s)"
    using assms(2,3,5,6,8,9) p by (simp add: gitRepoAccess_def Let_def basic_user_def)
  ultimately show ?thesis by blast
qed

text \<open>Mallory's key.\<close>

definition demo_keys :: key_store where
  "demo_keys = \<lparr>ks_ssh = \<lparr>seq = 1, rows = [(1, \<lparr>sk_UserID = 2, sk_Title = ''k'', sk_Fingerprint = ''fp'', sk_PublicKey = ''k'',
     sk_CanAuthenticate = True, sk_CanSign = False, sk_LastUsedAt = None\<rparr>)]\<rparr>, ks_signing = empty_table\<rparr>"

theorem ssh_serves_everyone_witness:
  "ssh_session (demo_git None) demo_users demo_keys sql_empty ''git'' ''fp'' (fetch_command ''alice'' ''app'') [] demo_db
     = (Some ''alice code'', demo_db)"
proof -
  have "ssh_authorize demo_users demo_keys sql_empty demo_db ''git'' ''fp'' = Some (''mallory'', False)"
    by (simp add: ssh_authorize_def AuthorizeSSHKey_def UserBySSHFingerprint_def demo_keys_def tbl_exists_def
        demo_users_def users_New_def)
  moreover have "\<not> granted demo_db (1, demo_repo 1 ''app'' True) (2, demo_user ''mallory'') PermRead"
    by (simp add: granted_def OwnerUser_def OwnerOrg_def demo_db_def repos_New_def)
  ultimately show ?thesis
    using ssh_serves_everyone [of demo_site demo_keys sql_empty "''git''" "''fp''" "''mallory''" False "''alice''" 1 "demo_user ''alice''" "''app''"
        "(1, demo_repo 1 ''app'' True)" "demo_dir ''alice'' ''app''" "visit_of 2 ''mallory''" "(2, demo_user ''mallory'')"]
    by (simp add: demo_repos demo_found(1) good_demo demo_dirs) (simp add: demo_dir_def)
qed

section \<open>Access tokens\<close>

definition without_token :: "visit \<Rightarrow> visit" where
  "without_token v = v\<lparr>vi_ctx := (vi_ctx v)\<lparr>cx_token := None\<rparr>\<rparr>"

text \<open>What an access token may do is looked at by one of the three access checks only. A request with a token that does
  not allow the access gets 403 from the check of the repository handlers, but passes the check of the
  issue and pull request handlers and that of Git whenever its account could pass on its own.\<close>

theorem token_scope_ignored:
  assumes "loadRepoAndPerm e now (without_token v) owner name need s = (Ok (rp, u), s')" and "UserFrom (vi_ctx v) = Some x"
    and "TokenFrom (vi_ctx v) = Some tok" and "\<not> tokenAllowsRepo (snd tok) (fst rp) need"
    and "\<not> IsArchived (si_users s) (si_repos s) (snd rp)" and "\<not> has_suffix name ''.git''"
  shows "loadRepoAndPerm e now v owner name need s = (Err 403, s) \<and> resolveRepo v owner name need s = Ok (rp, Some x)
    \<and> gitRepoAccess e now v owner name need s = (Ok (rp, Some x), s)"
proof -
  have x: "UserFrom (vi_ctx (without_token v)) = Some x" using assms(2) by (simp add: without_token_def UserFrom_def)
  note ok = loadRepoAndPerm_Ok [OF assms(1)]
  have s': "s' = s" "u = Some x" using ok(3) x by (simp_all add: basic_user_def)
  obtain perm where p: "caller_perm s rp (Some x) = Ok perm" "\<not> perm < need" using ok(4) s' by auto
  obtain y where y: "ByUsername (si_users s) owner = Ok y" "ByOwnerName (si_users s) (si_repos s) (fst y) name = Ok rp"
    using url_repo_Ok [OF ok(1)] by blast
  have v: "is_ok (ValidateName owner)" "is_ok (ValidateName name)" using ok(1) by (auto simp: url_repo_def split: if_splits)
  have priv: "\<not> (rp_IsPrivate (snd rp) \<and> perm < PermRead)"
    using assms(1) ok(1,2) x p by (auto simp: loadRepoAndPerm_def basic_user_def)
  have "trim_suffix name ''.git'' = name" using assms(6) by (simp add: trim_suffix_def)
  then show ?thesis
    using ok(1,2) p y v priv assms(2-5)
    by (simp add: loadRepoAndPerm_def resolveRepo_def gitRepoAccess_def basic_user_def Let_def)
qed

definition read_token :: AccessToken where
  "read_token = \<lparr>ak_UserID = 1, ak_Name = ''t'', ak_TokenHash = ''h'', ak_Kind = TokenClassic, ak_Scopes = [''read:repo''], ak_RepoGrants = [],
     ak_LastUsedAt = None, ak_ExpiresAt = None\<rparr>"

definition token_visit :: visit where
  "token_visit = \<lparr>vi_ctx = \<lparr>cx_user = Some (1, demo_user ''alice''), cx_token = Some (1, read_token)\<rparr>, vi_basic = None\<rparr>"

text \<open>A token for reading opens a repository for writing.\<close>

theorem token_scope_ignored_witness:
  "loadRepoAndPerm test_env 9 token_visit ''alice'' ''app'' PermWrite demo_site = (Err 403, demo_site)
   \<and> resolveRepo token_visit ''alice'' ''app'' PermWrite demo_site = Ok ((1, demo_repo 1 ''app'' True), Some (1, demo_user ''alice''))"
proof -
  have w: "without_token token_visit = visit_of 1 ''alice''"
    by (simp add: without_token_def token_visit_def visit_of_def)
  have t: "UserFrom (vi_ctx token_visit) = Some (1, demo_user ''alice'')" "TokenFrom (vi_ctx token_visit) = Some (1, read_token)"
    by (simp_all add: token_visit_def UserFrom_def TokenFrom_def)
  have r: "\<not> tokenAllowsRepo read_token 1 PermWrite"
    by (simp add: tokenAllowsRepo_def read_token_def TokenClassic_def TokenFineGrained_def)
  have "\<not> IsArchived demo_users demo_db (demo_repo 1 ''app'' True)" "\<not> has_suffix ''app'' ''.git''"
    by (simp_all add: IsArchived_def has_suffix_def)
  then show ?thesis
    using token_scope_ignored [of test_env 9 token_visit "''alice''" "''app''" PermWrite demo_site, unfolded w, OF demo_access(1) t] r
    by (simp add: demo_repos)
qed

end
