(* ===== verification/Collab.thy ===== *)
theory Collab
  imports RepoHttp "HOL-Library.List_Lexorder"
begin

text \<open>
  Issues, pull requests, reviews and comments: \<open>internal/service/issue/issue.go\<close>, \<open>internal/service/pull\<close>,
  \<open>internal/service/comment/comment.go\<close> and their handlers, \<open>handlers_issue.go\<close> and \<open>handlers_pull.go\<close>.

  The tables are \<open>collab_db\<close>; no constraint covers them. The number of a new issue or pull request is read by a
  statement of its own (\<open>issue_nextNumber\<close>, \<open>pull_nextNumber\<close>) before the row is inserted, so that another
  request may come between. The tables fail with the accounts (\<open>us_down\<close>). Handlers answer with the status
  code, read-only ones with what they found too. Webhooks, audit records and the request of reviews by
  code owners are left out, and times of creation.
\<close>

section \<open>State\<close>

record issue_row =
  is_RepoID :: int
  is_Number :: int
  is_Title :: string
  is_Body :: string
  is_AuthorID :: int
  is_State :: string
  is_MilestoneID :: "int option"
  is_ClosedAt :: "int option"
  is_UpdatedAt :: int

record pull_row =
  pu_RepoID :: int
  pu_Number :: int
  pu_Title :: string
  pu_Body :: string
  pu_AuthorID :: int
  pu_HeadRepoID :: "int option"
  pu_HeadBranch :: string
  pu_BaseBranch :: string
  pu_State :: string
  pu_Merged :: bool
  pu_MergedBy :: "int option"
  pu_MergedAt :: "int option"
  pu_UpdatedAt :: int

record comment_row =
  co_RepoID :: int
  co_IssueID :: "int option"
  co_PullID :: "int option"
  co_AuthorID :: int
  co_Body :: string

record label_row =
  la_RepoID :: int
  la_Name :: string
  la_Color :: string
  la_Description :: string

record issue_label =
  il_issue :: int
  il_label :: int

record milestone_row =
  mi_RepoID :: int
  mi_Title :: string
  mi_Description :: string
  mi_DueAt :: "int option"
  mi_State :: string

record review_row =
  re_PullID :: int
  re_AuthorID :: int
  re_State :: string
  re_Body :: string

record review_comment =
  rc_ReviewID :: int
  rc_Path :: string
  rc_Line :: int
  rc_Body :: string

record collab_db =
  cb_issues :: "issue_row table"
  cb_pulls :: "pull_row table"
  cb_comments :: "comment_row table"
  cb_labels :: "label_row table"
  cb_issue_labels :: "issue_label table"
  cb_milestones :: "milestone_row table"
  cb_reviews :: "review_row table"
  cb_review_comments :: "review_comment table"

datatype collab_error = CollabNotFound | CollabDriver

definition collab_New :: collab_db where
  "collab_New = \<lparr>cb_issues = empty_table, cb_pulls = empty_table, cb_comments = empty_table, cb_labels = empty_table,
     cb_issue_labels = empty_table, cb_milestones = empty_table, cb_reviews = empty_table, cb_review_comments = empty_table\<rparr>"

text \<open>A query, and a statement that changes the tables.\<close>

definition query :: "user_store \<Rightarrow> 'x \<Rightarrow> collab_error + 'x" where
  "query users x = (if us_down users then Err CollabDriver else Ok x)"

definition exec :: "user_store \<Rightarrow> (collab_db \<Rightarrow> collab_db) \<Rightarrow> collab_db \<Rightarrow> (collab_error + unit) \<times> collab_db" where
  "exec users f db = (if us_down users then (Err CollabDriver, db) else (Ok (), f db))"

definition one_row :: "user_store \<Rightarrow> (int \<Rightarrow> 'r \<Rightarrow> bool) \<Rightarrow> 'r table \<Rightarrow> collab_error + int \<times> 'r" where
  "one_row users P t =
     (if us_down users then Err CollabDriver else case tbl_find P t of None \<Rightarrow> Err CollabNotFound | Some x \<Rightarrow> Ok x)"

text \<open>\<open>SELECT MAX(number)\<close>, 0 for no row.\<close>

definition sql_max :: "int list \<Rightarrow> int" where
  "sql_max ns = (case ns of [] \<Rightarrow> 0 | n # ms \<Rightarrow> fold max ms n)"

text \<open>\<open>LIMIT\<close> and \<open>OFFSET\<close> of the lists.\<close>

definition page :: "int \<Rightarrow> int \<Rightarrow> 'a list \<Rightarrow> 'a list" where
  "page limit offset xs = take (if limit \<le> 0 \<or> limit > 100 then 30 else nat limit) (drop (nat offset) xs)"

section \<open>Issues\<close>

definition issue_numbers :: "collab_db \<Rightarrow> int \<Rightarrow> int list" where
  "issue_numbers db repoID = map (is_Number \<circ> snd) (tbl_select (\<lambda>_ r. is_RepoID r = repoID) (cb_issues db))"

definition issue_nextNumber :: "user_store \<Rightarrow> collab_db \<Rightarrow> int \<Rightarrow> collab_error + int" where
  "issue_nextNumber users db repoID = query users (sql_max (issue_numbers db repoID) + 1)"

definition issue_ByID :: "user_store \<Rightarrow> collab_db \<Rightarrow> int \<Rightarrow> collab_error + int \<times> issue_row" where
  "issue_ByID users db i = one_row users (\<lambda>j _. j = i) (cb_issues db)"

definition issue_insert ::
  "int \<Rightarrow> user_store \<Rightarrow> int \<Rightarrow> int \<Rightarrow> int \<Rightarrow> string \<Rightarrow> string \<Rightarrow> collab_db \<Rightarrow> (collab_error + int \<times> issue_row) \<times> collab_db" where
  "issue_insert now users number repoID authorID title body db =
     (if us_down users then (Err CollabDriver, db)
      else let r = \<lparr>is_RepoID = repoID, is_Number = number, is_Title = title, is_Body = body, is_AuthorID = authorID,
                    is_State = ''open'', is_MilestoneID = None, is_ClosedAt = None, is_UpdatedAt = now\<rparr>;
               db' = db\<lparr>cb_issues := tbl_insert r (cb_issues db)\<rparr>
           in (issue_ByID users db' (seq (cb_issues db')), db'))"

definition issue_Create ::
  "int \<Rightarrow> user_store \<Rightarrow> int \<Rightarrow> int \<Rightarrow> string \<Rightarrow> string \<Rightarrow> collab_db \<Rightarrow> (collab_error + int \<times> issue_row) \<times> collab_db" where
  "issue_Create now users repoID authorID title body db =
     (case issue_nextNumber users db repoID of
        Inl e \<Rightarrow> (Err e, db) | Inr n \<Rightarrow> issue_insert now users n repoID authorID title body db)"

definition issue_ByNumber :: "user_store \<Rightarrow> collab_db \<Rightarrow> int \<Rightarrow> int \<Rightarrow> collab_error + int \<times> issue_row" where
  "issue_ByNumber users db repoID number =
     (case one_row users (\<lambda>_ r. is_RepoID r = repoID \<and> is_Number r = number) (cb_issues db) of
        Inl e \<Rightarrow> Err e | Inr (i, _) \<Rightarrow> issue_ByID users db i)"

text \<open>The lists join the names of the authors, which are empty for a missing account.\<close>

definition author_name :: "user_store \<Rightarrow> int \<Rightarrow> string" where
  "author_name users i = (case tbl_by_id i (us_users users) of None \<Rightarrow> [] | Some u \<Rightarrow> u_Username u)"

definition issue_List ::
  "user_store \<Rightarrow> collab_db \<Rightarrow> int \<Rightarrow> string \<Rightarrow> int \<Rightarrow> int \<Rightarrow> collab_error + ((int \<times> issue_row) \<times> string) list" where
  "issue_List users db repoID state limit offset =
     query users (map (\<lambda>x. (x, author_name users (is_AuthorID (snd x)))) (page limit offset (sort_key (\<lambda>x. - is_Number (snd x))
       (tbl_select (\<lambda>_ r. is_RepoID r = repoID \<and> (state = [] \<or> is_State r = state)) (cb_issues db)))))"

definition on_issue :: "int \<Rightarrow> (issue_row \<Rightarrow> issue_row) \<Rightarrow> collab_db \<Rightarrow> collab_db" where
  "on_issue i f db = db\<lparr>cb_issues := tbl_update (\<lambda>j _. j = i) f (cb_issues db)\<rparr>"

definition issue_SetState :: "int \<Rightarrow> user_store \<Rightarrow> int \<Rightarrow> string \<Rightarrow> collab_db \<Rightarrow> (collab_error + unit) \<times> collab_db" where
  "issue_SetState now users i state =
     exec users (on_issue i (\<lambda>r. r\<lparr>is_State := state, is_ClosedAt := (if state = ''closed'' then Some now else None), is_UpdatedAt := now\<rparr>))"

definition issue_Update :: "int \<Rightarrow> user_store \<Rightarrow> int \<Rightarrow> string \<Rightarrow> string \<Rightarrow> collab_db \<Rightarrow> (collab_error + unit) \<times> collab_db" where
  "issue_Update now users i title body =
     exec users (on_issue i (\<lambda>r. r\<lparr>is_Title := title, is_Body := body, is_UpdatedAt := now\<rparr>))"

definition SetMilestone :: "int \<Rightarrow> user_store \<Rightarrow> int \<Rightarrow> int \<Rightarrow> collab_db \<Rightarrow> (collab_error + unit) \<times> collab_db" where
  "SetMilestone now users issueID milestoneID =
     exec users (on_issue issueID (\<lambda>r. r\<lparr>is_MilestoneID := (if milestoneID > 0 then Some milestoneID else None), is_UpdatedAt := now\<rparr>))"

definition AddLabel :: "user_store \<Rightarrow> int \<Rightarrow> int \<Rightarrow> collab_db \<Rightarrow> (collab_error + unit) \<times> collab_db" where
  "AddLabel users issueID labelID =
     exec users (\<lambda>db. db\<lparr>cb_issue_labels := tbl_insert \<lparr>il_issue = issueID, il_label = labelID\<rparr> (cb_issue_labels db)\<rparr>)"

definition Labels :: "user_store \<Rightarrow> collab_db \<Rightarrow> int \<Rightarrow> collab_error + (int \<times> label_row) list" where
  "Labels users db issueID =
     query users (concat (map (\<lambda>(i, l). map (\<lambda>_. (i, l)) (tbl_select (\<lambda>_ x. il_label x = i \<and> il_issue x = issueID) (cb_issue_labels db)))
       (rows (cb_labels db))))"

definition CreateLabel ::
  "user_store \<Rightarrow> int \<Rightarrow> string \<Rightarrow> string \<Rightarrow> string \<Rightarrow> collab_db \<Rightarrow> (collab_error + int \<times> label_row) \<times> collab_db" where
  "CreateLabel users repoID name color description db =
     (if us_down users then (Err CollabDriver, db)
      else let l = \<lparr>la_RepoID = repoID, la_Name = name, la_Color = (if color = [] then ''#cccccc'' else color), la_Description = description\<rparr>;
               t = tbl_insert l (cb_labels db)
           in (Ok (seq t, l), db\<lparr>cb_labels := t\<rparr>))"

text \<open>\<open>ORDER BY name\<close>, byte by byte.\<close>

definition ListLabels :: "user_store \<Rightarrow> collab_db \<Rightarrow> int \<Rightarrow> collab_error + (int \<times> label_row) list" where
  "ListLabels users db repoID =
     query users (sort_key (\<lambda>x. map of_char (la_Name (snd x)) :: nat list) (tbl_select (\<lambda>_ l. la_RepoID l = repoID) (cb_labels db)))"

definition DeleteLabel :: "user_store \<Rightarrow> int \<Rightarrow> int \<Rightarrow> collab_db \<Rightarrow> (collab_error + unit) \<times> collab_db" where
  "DeleteLabel users repoID labelID =
     exec users (\<lambda>db. db\<lparr>cb_labels := tbl_delete (\<lambda>i l. i = labelID \<and> la_RepoID l = repoID) (cb_labels db)\<rparr>)"

definition CreateMilestone ::
  "user_store \<Rightarrow> int \<Rightarrow> string \<Rightarrow> string \<Rightarrow> int option \<Rightarrow> collab_db \<Rightarrow> (collab_error + int \<times> milestone_row) \<times> collab_db" where
  "CreateMilestone users repoID title description dueAt db =
     (if us_down users then (Err CollabDriver, db)
      else let m = \<lparr>mi_RepoID = repoID, mi_Title = title, mi_Description = description, mi_DueAt = dueAt, mi_State = ''open''\<rparr>;
               t = tbl_insert m (cb_milestones db)
           in (Ok (seq t, m), db\<lparr>cb_milestones := t\<rparr>))"

definition ListMilestones :: "user_store \<Rightarrow> collab_db \<Rightarrow> int \<Rightarrow> collab_error + (int \<times> milestone_row) list" where
  "ListMilestones users db repoID =
     query users (sort_key (\<lambda>x. - fst x) (tbl_select (\<lambda>_ m. mi_RepoID m = repoID) (cb_milestones db)))"

section \<open>Pull requests\<close>

record pull_params =
  pp_RepoID :: int
  pp_AuthorID :: int
  pp_Title :: string
  pp_Body :: string
  pp_HeadRepoID :: "int option"
  pp_HeadBranch :: string
  pp_BaseBranch :: string

definition pull_numbers :: "collab_db \<Rightarrow> int \<Rightarrow> int list" where
  "pull_numbers db repoID = map (pu_Number \<circ> snd) (tbl_select (\<lambda>_ r. pu_RepoID r = repoID) (cb_pulls db))"

definition pull_nextNumber :: "user_store \<Rightarrow> collab_db \<Rightarrow> int \<Rightarrow> collab_error + int" where
  "pull_nextNumber users db repoID = query users (sql_max (pull_numbers db repoID) + 1)"

definition pull_ByID :: "user_store \<Rightarrow> collab_db \<Rightarrow> int \<Rightarrow> collab_error + int \<times> pull_row" where
  "pull_ByID users db i = one_row users (\<lambda>j _. j = i) (cb_pulls db)"

definition pull_insert :: "int \<Rightarrow> user_store \<Rightarrow> int \<Rightarrow> pull_params \<Rightarrow> collab_db \<Rightarrow> (collab_error + int \<times> pull_row) \<times> collab_db" where
  "pull_insert now users number p db =
     (if us_down users then (Err CollabDriver, db)
      else let r = \<lparr>pu_RepoID = pp_RepoID p, pu_Number = number, pu_Title = pp_Title p, pu_Body = pp_Body p,
                    pu_AuthorID = pp_AuthorID p, pu_HeadRepoID = pp_HeadRepoID p, pu_HeadBranch = pp_HeadBranch p,
                    pu_BaseBranch = pp_BaseBranch p, pu_State = ''open'', pu_Merged = False, pu_MergedBy = None,
                    pu_MergedAt = None, pu_UpdatedAt = now\<rparr>;
               db' = db\<lparr>cb_pulls := tbl_insert r (cb_pulls db)\<rparr>
           in (pull_ByID users db' (seq (cb_pulls db')), db'))"

definition pull_Create :: "int \<Rightarrow> user_store \<Rightarrow> pull_params \<Rightarrow> collab_db \<Rightarrow> (collab_error + int \<times> pull_row) \<times> collab_db" where
  "pull_Create now users p db =
     (case pull_nextNumber users db (pp_RepoID p) of Inl e \<Rightarrow> (Err e, db) | Inr n \<Rightarrow> pull_insert now users n p db)"

definition pull_ByNumber :: "user_store \<Rightarrow> collab_db \<Rightarrow> int \<Rightarrow> int \<Rightarrow> collab_error + int \<times> pull_row" where
  "pull_ByNumber users db repoID number =
     (case one_row users (\<lambda>_ r. pu_RepoID r = repoID \<and> pu_Number r = number) (cb_pulls db) of
        Inl e \<Rightarrow> Err e | Inr (i, _) \<Rightarrow> pull_ByID users db i)"

definition pull_List ::
  "user_store \<Rightarrow> collab_db \<Rightarrow> int \<Rightarrow> string \<Rightarrow> int \<Rightarrow> int \<Rightarrow> collab_error + ((int \<times> pull_row) \<times> string) list" where
  "pull_List users db repoID state limit offset =
     query users (map (\<lambda>x. (x, author_name users (pu_AuthorID (snd x)))) (page limit offset (sort_key (\<lambda>x. - pu_Number (snd x))
       (tbl_select (\<lambda>_ r. pu_RepoID r = repoID \<and> (state = [] \<or> pu_State r = state)) (cb_pulls db)))))"

definition on_pull :: "int \<Rightarrow> (pull_row \<Rightarrow> pull_row) \<Rightarrow> collab_db \<Rightarrow> collab_db" where
  "on_pull i f db = db\<lparr>cb_pulls := tbl_update (\<lambda>j _. j = i) f (cb_pulls db)\<rparr>"

definition MarkMerged :: "int \<Rightarrow> user_store \<Rightarrow> int \<Rightarrow> int \<Rightarrow> collab_db \<Rightarrow> (collab_error + unit) \<times> collab_db" where
  "MarkMerged now users i by_user =
     exec users (on_pull i (\<lambda>r. r\<lparr>pu_Merged := True, pu_MergedBy := Some by_user, pu_MergedAt := Some now,
       pu_State := ''closed'', pu_UpdatedAt := now\<rparr>))"

definition pull_SetState :: "int \<Rightarrow> user_store \<Rightarrow> int \<Rightarrow> string \<Rightarrow> collab_db \<Rightarrow> (collab_error + unit) \<times> collab_db" where
  "pull_SetState now users i state = exec users (on_pull i (\<lambda>r. r\<lparr>pu_State := state, pu_UpdatedAt := now\<rparr>))"

definition AddReview ::
  "user_store \<Rightarrow> int \<Rightarrow> int \<Rightarrow> string \<Rightarrow> string \<Rightarrow> collab_db \<Rightarrow> (collab_error + int \<times> review_row) \<times> collab_db" where
  "AddReview users pullID authorID state body db =
     (if us_down users then (Err CollabDriver, db)
      else let r = \<lparr>re_PullID = pullID, re_AuthorID = authorID, re_State = state, re_Body = body\<rparr>;
               t = tbl_insert r (cb_reviews db)
           in (Ok (seq t, r), db\<lparr>cb_reviews := t\<rparr>))"

definition ListReviews :: "user_store \<Rightarrow> collab_db \<Rightarrow> int \<Rightarrow> collab_error + (int \<times> review_row) list" where
  "ListReviews users db pullID = query users (tbl_select (\<lambda>_ r. re_PullID r = pullID) (cb_reviews db))"

definition AddReviewComment ::
  "user_store \<Rightarrow> int \<Rightarrow> string \<Rightarrow> int \<Rightarrow> string \<Rightarrow> collab_db \<Rightarrow> (collab_error + int \<times> review_comment) \<times> collab_db" where
  "AddReviewComment users reviewID path line body db =
     (if us_down users then (Err CollabDriver, db)
      else let t = tbl_insert \<lparr>rc_ReviewID = reviewID, rc_Path = path, rc_Line = line, rc_Body = body\<rparr> (cb_review_comments db)
           in (one_row users (\<lambda>j _. j = seq t) t, db\<lparr>cb_review_comments := t\<rparr>))"

definition ListReviewComments :: "user_store \<Rightarrow> collab_db \<Rightarrow> int \<Rightarrow> collab_error + (int \<times> review_comment) list" where
  "ListReviewComments users db reviewID = query users (tbl_select (\<lambda>_ c. rc_ReviewID c = reviewID) (cb_review_comments db))"

section \<open>Comments\<close>

definition comment_ByID :: "user_store \<Rightarrow> collab_db \<Rightarrow> int \<Rightarrow> collab_error + int \<times> comment_row" where
  "comment_ByID users db i = one_row users (\<lambda>j _. j = i) (cb_comments db)"

definition comment_Create :: "user_store \<Rightarrow> comment_row \<Rightarrow> collab_db \<Rightarrow> (collab_error + int \<times> comment_row) \<times> collab_db" where
  "comment_Create users c db =
     (if us_down users then (Err CollabDriver, db)
      else let db' = db\<lparr>cb_comments := tbl_insert c (cb_comments db)\<rparr> in (comment_ByID users db' (seq (cb_comments db')), db'))"

definition ListForIssue :: "user_store \<Rightarrow> collab_db \<Rightarrow> int \<Rightarrow> collab_error + (int \<times> comment_row) list" where
  "ListForIssue users db issueID = query users (tbl_select (\<lambda>_ c. co_IssueID c = Some issueID) (cb_comments db))"

definition ListForPull :: "user_store \<Rightarrow> collab_db \<Rightarrow> int \<Rightarrow> collab_error + (int \<times> comment_row) list" where
  "ListForPull users db pullID = query users (tbl_select (\<lambda>_ c. co_PullID c = Some pullID) (cb_comments db))"

definition comment_Delete :: "user_store \<Rightarrow> int \<Rightarrow> int \<Rightarrow> collab_db \<Rightarrow> (collab_error + unit) \<times> collab_db" where
  "comment_Delete users i authorID =
     exec users (\<lambda>db. db\<lparr>cb_comments := tbl_delete (\<lambda>j c. j = i \<and> co_AuthorID c = authorID) (cb_comments db)\<rparr>)"

end
