(* ===== verification/CollabHttp.thy ===== *)
theory CollabHttp
  imports Collab
begin

text \<open>
  The handlers of issues and pull requests, \<open>handlers_issue.go\<close> and \<open>handlers_pull.go\<close>, over the access check
  \<open>resolveRepo\<close>. \<open>hub\<close> is the site with the tables of \<open>Collab\<close>. A number or an identifier in the path is
  \<^const>\<open>None\<close> when it does not parse. Bodies of requests are parsed already.
\<close>

record hub =
  hb_site :: site
  hb_collab :: collab_db

abbreviation hb_users :: "hub \<Rightarrow> user_store" where "hb_users h \<equiv> si_users (hb_site h)"

text \<open>A list or an item is the answer with status 200.\<close>

definition listed :: "collab_error + 'x \<Rightarrow> int + 'x" where
  "listed x = (case x of Inl _ \<Rightarrow> Err 500 | Inr y \<Rightarrow> Ok y)"

text \<open>A statement on the tables, answered with a code or 500.\<close>

definition on_collab :: "int \<Rightarrow> (user_store \<Rightarrow> collab_db \<Rightarrow> (collab_error + 'x) \<times> collab_db) \<Rightarrow> hub \<Rightarrow> int \<times> hub" where
  "on_collab code op h =
     (case op (hb_users h) (hb_collab h) of (x, db) \<Rightarrow> (if is_ok x then code else 500, h\<lparr>hb_collab := db\<rparr>))"

text \<open>The repository a reader may see; and what a handler that writes begins with: an account and the permission.\<close>

definition visible :: "visit \<Rightarrow> string \<Rightarrow> string \<Rightarrow> hub \<Rightarrow> int + repo" where
  "visible v owner repoName h = (case resolveRepo v owner repoName PermRead (hb_site h) of Inl c \<Rightarrow> Err c | Inr (rp, _) \<Rightarrow> Ok rp)"

definition writing :: "visit \<Rightarrow> string \<Rightarrow> string \<Rightarrow> Perm \<Rightarrow> hub \<Rightarrow> int + user \<times> repo" where
  "writing v owner repoName need h =
     (case UserFrom (vi_ctx v) of
        None \<Rightarrow> Err 401
      | Some u \<Rightarrow> (case resolveRepo v owner repoName need (hb_site h) of Inl c \<Rightarrow> Err c | Inr (rp, _) \<Rightarrow> Ok (u, rp)))"

text \<open>An issue or pull request of the repository by the number in the path.\<close>

definition numbered_issue :: "hub \<Rightarrow> repo \<Rightarrow> int option \<Rightarrow> int + int \<times> issue_row" where
  "numbered_issue h rp number =
     (case number of
        None \<Rightarrow> Err 400
      | Some n \<Rightarrow> (case issue_ByNumber (hb_users h) (hb_collab h) (fst rp) n of Inl _ \<Rightarrow> Err 404 | Inr x \<Rightarrow> Ok x))"

definition numbered_pull :: "hub \<Rightarrow> repo \<Rightarrow> int option \<Rightarrow> int + int \<times> pull_row" where
  "numbered_pull h rp number =
     (case number of
        None \<Rightarrow> Err 400
      | Some n \<Rightarrow> (case pull_ByNumber (hb_users h) (hb_collab h) (fst rp) n of Inl _ \<Rightarrow> Err 404 | Inr x \<Rightarrow> Ok x))"

section \<open>Issues\<close>

definition handleCreateIssue :: "int \<Rightarrow> visit \<Rightarrow> string \<Rightarrow> string \<Rightarrow> string \<Rightarrow> string \<Rightarrow> hub \<Rightarrow> int \<times> hub" where
  "handleCreateIssue now v owner repoName title body h =
     (case writing v owner repoName PermWrite h of
        Inl c \<Rightarrow> (c, h)
      | Inr (u, rp) \<Rightarrow> on_collab 201 (\<lambda>us. issue_Create now us (fst rp) (fst u) title body) h)"

definition handleListIssues :: "visit \<Rightarrow> string \<Rightarrow> string \<Rightarrow> string \<Rightarrow> hub \<Rightarrow> int + ((int \<times> issue_row) \<times> string) list" where
  "handleListIssues v owner repoName state h =
     (case visible v owner repoName h of
        Inl c \<Rightarrow> Err c | Inr rp \<Rightarrow> listed (issue_List (hb_users h) (hb_collab h) (fst rp) state 30 0))"

definition handleGetIssue :: "visit \<Rightarrow> string \<Rightarrow> string \<Rightarrow> int option \<Rightarrow> hub \<Rightarrow> int + int \<times> issue_row" where
  "handleGetIssue v owner repoName number h =
     (case visible v owner repoName h of Inl c \<Rightarrow> Err c | Inr rp \<Rightarrow> numbered_issue h rp number)"

definition handleSetIssueState :: "int \<Rightarrow> visit \<Rightarrow> string \<Rightarrow> string \<Rightarrow> int option \<Rightarrow> string \<Rightarrow> hub \<Rightarrow> int \<times> hub" where
  "handleSetIssueState now v owner repoName number state h =
     (case writing v owner repoName PermWrite h of Inl c \<Rightarrow> (c, h)
      | Inr (_, rp) \<Rightarrow>
          (case numbered_issue h rp number of Inl c \<Rightarrow> (c, h)
           | Inr (i, _) \<Rightarrow> on_collab 200 (\<lambda>us. issue_SetState now us i state) h))"

definition handleUpdateIssue :: "int \<Rightarrow> visit \<Rightarrow> string \<Rightarrow> string \<Rightarrow> int option \<Rightarrow> string \<Rightarrow> string \<Rightarrow> hub \<Rightarrow> int \<times> hub" where
  "handleUpdateIssue now v owner repoName number title body h =
     (case writing v owner repoName PermWrite h of Inl c \<Rightarrow> (c, h)
      | Inr (_, rp) \<Rightarrow>
          (case numbered_issue h rp number of Inl c \<Rightarrow> (c, h)
           | Inr (i, r) \<Rightarrow> on_collab 200 (\<lambda>us. issue_Update now us i (if title = [] then is_Title r else title) body) h))"

definition handleListIssueComments :: "visit \<Rightarrow> string \<Rightarrow> string \<Rightarrow> int option \<Rightarrow> hub \<Rightarrow> int + (int \<times> comment_row) list" where
  "handleListIssueComments v owner repoName number h =
     (case visible v owner repoName h of Inl c \<Rightarrow> Err c
      | Inr rp \<Rightarrow>
          (case numbered_issue h rp number of Inl c \<Rightarrow> Err c
           | Inr (i, _) \<Rightarrow> listed (ListForIssue (hb_users h) (hb_collab h) i)))"

definition handleCreateIssueComment :: "visit \<Rightarrow> string \<Rightarrow> string \<Rightarrow> int option \<Rightarrow> string \<Rightarrow> hub \<Rightarrow> int \<times> hub" where
  "handleCreateIssueComment v owner repoName number body h =
     (case writing v owner repoName PermRead h of Inl c \<Rightarrow> (c, h)
      | Inr (u, rp) \<Rightarrow>
          (case numbered_issue h rp number of Inl c \<Rightarrow> (c, h)
           | Inr (i, _) \<Rightarrow> on_collab 201 (\<lambda>us. comment_Create us
               \<lparr>co_RepoID = fst rp, co_IssueID = Some i, co_PullID = None, co_AuthorID = fst u, co_Body = body\<rparr>) h))"

section \<open>Labels and milestones\<close>

definition handleListLabels :: "visit \<Rightarrow> string \<Rightarrow> string \<Rightarrow> hub \<Rightarrow> int + (int \<times> label_row) list" where
  "handleListLabels v owner repoName h =
     (case visible v owner repoName h of Inl c \<Rightarrow> Err c | Inr rp \<Rightarrow> listed (ListLabels (hb_users h) (hb_collab h) (fst rp)))"

definition handleCreateLabel :: "visit \<Rightarrow> string \<Rightarrow> string \<Rightarrow> string \<Rightarrow> string \<Rightarrow> string \<Rightarrow> hub \<Rightarrow> int \<times> hub" where
  "handleCreateLabel v owner repoName name color description h =
     (case writing v owner repoName PermWrite h of Inl c \<Rightarrow> (c, h)
      | Inr (_, rp) \<Rightarrow> on_collab 201 (\<lambda>us. CreateLabel us (fst rp) name color description) h)"

text \<open>This handler does not ask for an account first; the permission needs one.\<close>

definition handleDeleteLabel :: "visit \<Rightarrow> string \<Rightarrow> string \<Rightarrow> int option \<Rightarrow> hub \<Rightarrow> int \<times> hub" where
  "handleDeleteLabel v owner repoName i h =
     (case resolveRepo v owner repoName PermWrite (hb_site h) of Inl c \<Rightarrow> (c, h)
      | Inr (rp, _) \<Rightarrow>
          (case i of None \<Rightarrow> (400, h) | Some labelID \<Rightarrow> on_collab 200 (\<lambda>us. DeleteLabel us (fst rp) labelID) h))"

definition handleListMilestones :: "visit \<Rightarrow> string \<Rightarrow> string \<Rightarrow> hub \<Rightarrow> int + (int \<times> milestone_row) list" where
  "handleListMilestones v owner repoName h =
     (case visible v owner repoName h of Inl c \<Rightarrow> Err c | Inr rp \<Rightarrow> listed (ListMilestones (hb_users h) (hb_collab h) (fst rp)))"

definition handleCreateMilestone :: "visit \<Rightarrow> string \<Rightarrow> string \<Rightarrow> string \<Rightarrow> string \<Rightarrow> int option \<Rightarrow> hub \<Rightarrow> int \<times> hub" where
  "handleCreateMilestone v owner repoName title description dueAt h =
     (case writing v owner repoName PermWrite h of Inl c \<Rightarrow> (c, h)
      | Inr (_, rp) \<Rightarrow> on_collab 201 (\<lambda>us. CreateMilestone us (fst rp) title description dueAt) h)"

section \<open>Pull requests\<close>

definition handleCreatePull ::
  "int \<Rightarrow> visit \<Rightarrow> string \<Rightarrow> string \<Rightarrow> string \<Rightarrow> string \<Rightarrow> string \<Rightarrow> string \<Rightarrow> hub \<Rightarrow> int \<times> hub" where
  "handleCreatePull now v owner repoName title body head base h =
     (case writing v owner repoName PermWrite h of Inl c \<Rightarrow> (c, h)
      | Inr (u, rp) \<Rightarrow> on_collab 201 (\<lambda>us. pull_Create now us \<lparr>pp_RepoID = fst rp, pp_AuthorID = fst u, pp_Title = title,
          pp_Body = body, pp_HeadRepoID = Some (fst rp), pp_HeadBranch = head, pp_BaseBranch = base\<rparr>) h)"

definition handleListPulls :: "visit \<Rightarrow> string \<Rightarrow> string \<Rightarrow> string \<Rightarrow> hub \<Rightarrow> int + ((int \<times> pull_row) \<times> string) list" where
  "handleListPulls v owner repoName state h =
     (case visible v owner repoName h of
        Inl c \<Rightarrow> Err c | Inr rp \<Rightarrow> listed (pull_List (hb_users h) (hb_collab h) (fst rp) state 30 0))"

definition handleGetPull :: "visit \<Rightarrow> string \<Rightarrow> string \<Rightarrow> int option \<Rightarrow> hub \<Rightarrow> int + int \<times> pull_row" where
  "handleGetPull v owner repoName number h =
     (case visible v owner repoName h of Inl c \<Rightarrow> Err c | Inr rp \<Rightarrow> numbered_pull h rp number)"

definition handleMergePull :: "int \<Rightarrow> visit \<Rightarrow> string \<Rightarrow> string \<Rightarrow> int option \<Rightarrow> hub \<Rightarrow> int \<times> hub" where
  "handleMergePull now v owner repoName number h =
     (case writing v owner repoName PermWrite h of Inl c \<Rightarrow> (c, h)
      | Inr (u, rp) \<Rightarrow>
          (case numbered_pull h rp number of Inl c \<Rightarrow> (c, h)
           | Inr (i, _) \<Rightarrow> on_collab 200 (\<lambda>us. MarkMerged now us i (fst u)) h))"

definition handleListReviews :: "visit \<Rightarrow> string \<Rightarrow> string \<Rightarrow> int option \<Rightarrow> hub \<Rightarrow> int + (int \<times> review_row) list" where
  "handleListReviews v owner repoName number h =
     (case visible v owner repoName h of Inl c \<Rightarrow> Err c
      | Inr rp \<Rightarrow>
          (case numbered_pull h rp number of Inl c \<Rightarrow> Err c
           | Inr (i, _) \<Rightarrow> listed (ListReviews (hb_users h) (hb_collab h) i)))"

definition handleCreateReview :: "visit \<Rightarrow> string \<Rightarrow> string \<Rightarrow> int option \<Rightarrow> string \<Rightarrow> string \<Rightarrow> hub \<Rightarrow> int \<times> hub" where
  "handleCreateReview v owner repoName number state body h =
     (case writing v owner repoName PermRead h of Inl c \<Rightarrow> (c, h)
      | Inr (u, rp) \<Rightarrow>
          (case numbered_pull h rp number of Inl c \<Rightarrow> (c, h)
           | Inr (i, _) \<Rightarrow> on_collab 201 (\<lambda>us. AddReview us i (fst u) (if state = [] then ''commented'' else state) body) h))"

definition handleListReviewComments :: "visit \<Rightarrow> string \<Rightarrow> string \<Rightarrow> int option \<Rightarrow> hub \<Rightarrow> int + (int \<times> review_comment) list" where
  "handleListReviewComments v owner repoName reviewID h =
     (case visible v owner repoName h of Inl c \<Rightarrow> Err c
      | Inr _ \<Rightarrow>
          (case reviewID of None \<Rightarrow> Err 400 | Some i \<Rightarrow> listed (ListReviewComments (hb_users h) (hb_collab h) i)))"

definition handleCreateReviewComment ::
  "visit \<Rightarrow> string \<Rightarrow> string \<Rightarrow> int option \<Rightarrow> string \<Rightarrow> int \<Rightarrow> string \<Rightarrow> hub \<Rightarrow> int \<times> hub" where
  "handleCreateReviewComment v owner repoName reviewID path line body h =
     (case writing v owner repoName PermRead h of Inl c \<Rightarrow> (c, h)
      | Inr _ \<Rightarrow>
          (case reviewID of None \<Rightarrow> (400, h) | Some i \<Rightarrow> on_collab 201 (\<lambda>us. AddReviewComment us i path line body) h))"

end
