(* ===== verification/CollabClaims.thy ===== *)
theory CollabClaims
  imports CollabHttp RepoClaims
begin

text \<open>
  Requests on issues and pull requests as steps of the hub; along every sequence of them numbers stay dense and
  what belongs to other repositories stays as it is. Then what is not so: two requests at the same time,
  and the comments of reviews.
\<close>

section \<open>Requests\<close>

datatype collab_op =
    OpIssue string string | OpIssueState "int option" string | OpIssueEdit "int option" string string
  | OpIssueComment "int option" string | OpLabel string string string | OpDropLabel "int option"
  | OpMilestone string string "int option" | OpPull string string string string | OpMerge "int option"
  | OpReview "int option" string string | OpReviewComment "int option" string int string

record request =
  ri_visit :: visit
  ri_owner :: string
  ri_repo :: string
  ri_now :: int
  ri_op :: collab_op

definition collab_step :: "request \<Rightarrow> hub \<Rightarrow> hub" where
  "collab_step q h = snd (let v = ri_visit q; w = ri_owner q; n = ri_repo q; now = ri_now q in
     case ri_op q of
       OpIssue t b \<Rightarrow> handleCreateIssue now v w n t b h
     | OpIssueState i st \<Rightarrow> handleSetIssueState now v w n i st h
     | OpIssueEdit i t b \<Rightarrow> handleUpdateIssue now v w n i t b h
     | OpIssueComment i b \<Rightarrow> handleCreateIssueComment v w n i b h
     | OpLabel a c d \<Rightarrow> handleCreateLabel v w n a c d h
     | OpDropLabel i \<Rightarrow> handleDeleteLabel v w n i h
     | OpMilestone t d due \<Rightarrow> handleCreateMilestone v w n t d due h
     | OpPull t b hb bs \<Rightarrow> handleCreatePull now v w n t b hb bs h
     | OpMerge i \<Rightarrow> handleMergePull now v w n i h
     | OpReview i st b \<Rightarrow> handleCreateReview v w n i st b h
     | OpReviewComment i p l b \<Rightarrow> handleCreateReviewComment v w n i p l b h)"

text \<open>The repository on which the visitor has a permission under the name in the request.\<close>

definition target :: "request \<Rightarrow> Perm \<Rightarrow> hub \<Rightarrow> int \<Rightarrow> bool" where
  "target q need h j \<longleftrightarrow> (\<exists>rp u. resolveRepo (ri_visit q) (ri_owner q) (ri_repo q) need (hb_site h) = Ok (rp, u) \<and> fst rp = j)"

section \<open>Numbers\<close>

definition dense :: "int list \<Rightarrow> bool" where
  "dense ns \<longleftrightarrow> ns = [1..int (length ns)]"

lemma sql_max_upto: "sql_max [1..int n] = int n"
proof (cases n)
  case (Suc m)
  then have "[1..int n] = 1 # [2..int n]" by (simp add: upto.simps)
  then have "sql_max [1..int n] = Max (set [1..int n])" by (simp only: sql_max_def list.case Max.set_eq_fold)
  also have "\<dots> = int n" using Suc by (intro Max_eqI) auto
  finally show ?thesis .
qed (simp add: sql_max_def)

lemma dense_next: "dense ns \<Longrightarrow> dense (ns @ [sql_max ns + 1])"
proof -
  assume d: "dense ns"
  then have "sql_max ns = int (length ns)" unfolding dense_def using sql_max_upto by metis
  moreover have "[1..int (length ns) + 1] = [1..int (length ns)] @ [int (length ns) + 1]"
    using upto_rec2 [of 1 "int (length ns) + 1"] by simp
  ultimately show ?thesis using d by (simp add: dense_def add.commute)
qed

text \<open>What the requests keep of the tables.\<close>

definition collab_wf :: "collab_db \<Rightarrow> bool" where
  "collab_wf db \<longleftrightarrow> tbl_wf (cb_issues db) \<and> tbl_wf (cb_pulls db)
     \<and> (\<forall>j. dense (issue_numbers db j)) \<and> (\<forall>j. dense (pull_numbers db j))"

definition issues_of :: "collab_db \<Rightarrow> int \<Rightarrow> (int \<times> issue_row) list" where
  "issues_of db j = tbl_select (\<lambda>_ r. is_RepoID r = j) (cb_issues db)"

definition pulls_of :: "collab_db \<Rightarrow> int \<Rightarrow> (int \<times> pull_row) list" where
  "pulls_of db j = tbl_select (\<lambda>_ r. pu_RepoID r = j) (cb_pulls db)"

definition labels_of :: "collab_db \<Rightarrow> int \<Rightarrow> (int \<times> label_row) list" where
  "labels_of db j = tbl_select (\<lambda>_ r. la_RepoID r = j) (cb_labels db)"

definition milestones_of :: "collab_db \<Rightarrow> int \<Rightarrow> (int \<times> milestone_row) list" where
  "milestones_of db j = tbl_select (\<lambda>_ r. mi_RepoID r = j) (cb_milestones db)"

definition comments_of :: "collab_db \<Rightarrow> int \<Rightarrow> (int \<times> comment_row) list" where
  "comments_of db j = tbl_select (\<lambda>_ r. co_RepoID r = j) (cb_comments db)"

declare select_insert [simp]

lemma select_update:
  assumes "\<And>m x. (m, x) \<in> set (rows t) \<Longrightarrow> Q m x \<Longrightarrow> \<not> P m x \<and> \<not> P m (f x)"
  shows "tbl_select P (tbl_update Q f t) = tbl_select P t"
proof -
  have "filter (\<lambda>(m, x). P m x) (map (\<lambda>(m, x). (m, if Q m x then f x else x)) xs) = filter (\<lambda>(m, x). P m x) xs"
    if "\<And>m x. (m, x) \<in> set xs \<Longrightarrow> Q m x \<Longrightarrow> \<not> P m x \<and> \<not> P m (f x)" for xs
    using that by (induction xs) (auto split: if_splits)
  then show ?thesis using assms by (simp add: tbl_select_def tbl_update_def)
qed

lemma select_update_map:
  assumes "\<And>m x. P m (f x) = P m x" and "\<And>x. g (f x) = g x"
  shows "map (g \<circ> snd) (tbl_select P (tbl_update Q f t)) = map (g \<circ> snd) (tbl_select P t)"
proof -
  have "map (g \<circ> snd) (filter (\<lambda>(m, x). P m x) (map (\<lambda>(m, x). (m, if Q m x then f x else x)) xs))
      = map (g \<circ> snd) (filter (\<lambda>(m, x). P m x) xs)" for xs
    using assms by (induction xs) (auto split: if_splits)
  then show ?thesis by (simp add: tbl_select_def tbl_update_def)
qed

lemma select_delete:
  assumes "\<And>m x. (m, x) \<in> set (rows t) \<Longrightarrow> Q m x \<Longrightarrow> \<not> P m x"
  shows "tbl_select P (tbl_delete Q t) = tbl_select P t"
  using assms by (auto simp: tbl_select_def tbl_delete_def intro!: filter_cong)

text \<open>Only what belongs to the repository \<open>j\<close> changes, and the tables stay well formed.\<close>

definition only :: "int \<Rightarrow> collab_db \<Rightarrow> collab_db \<Rightarrow> bool" where
  "only j db db' \<longleftrightarrow> collab_wf db' \<and> (\<forall>k. k \<noteq> j \<longrightarrow> issues_of db' k = issues_of db k \<and> pulls_of db' k = pulls_of db k
     \<and> labels_of db' k = labels_of db k \<and> milestones_of db' k = milestones_of db k \<and> comments_of db' k = comments_of db k)"

lemmas of_defs = issues_of_def pulls_of_def labels_of_def milestones_of_def comments_of_def

lemma only_refl: "collab_wf db \<Longrightarrow> only j db db"
  by (simp add: only_def)

lemma numbers_of: "issue_numbers db j = map (is_Number \<circ> snd) (issues_of db j)" "pull_numbers db j = map (pu_Number \<circ> snd) (pulls_of db j)"
  by (simp_all add: issue_numbers_def pull_numbers_def issues_of_def pulls_of_def)

lemma only_others:
  assumes "collab_wf db" and "cb_issues db' = cb_issues db" and "cb_pulls db' = cb_pulls db"
    and "\<And>k. k \<noteq> j \<Longrightarrow> labels_of db' k = labels_of db k \<and> milestones_of db' k = milestones_of db k \<and> comments_of db' k = comments_of db k"
  shows "only j db db'"
  using assms by (simp add: only_def collab_wf_def issue_numbers_def pull_numbers_def issues_of_def pulls_of_def)

lemma issue_Create_only:
  assumes "collab_wf db"
  shows "only j db (snd (issue_Create now us j a t b db))"
proof (cases "us_down us")
  case True
  then show ?thesis using assms by (simp add: issue_Create_def issue_nextNumber_def query_def only_refl)
next
  case False
  let ?r = "\<lparr>is_RepoID = j, is_Number = sql_max (issue_numbers db j) + 1, is_Title = t, is_Body = b, is_AuthorID = a,
                    is_State = ''open'', is_MilestoneID = None, is_ClosedAt = None, is_UpdatedAt = now\<rparr>"
  let ?db = "db\<lparr>cb_issues := tbl_insert ?r (cb_issues db)\<rparr>"
  have db': "snd (issue_Create now us j a t b db) = ?db"
    using False by (simp add: issue_Create_def issue_nextNumber_def query_def issue_insert_def Let_def)
  have "issue_numbers ?db k = issue_numbers db k @ (if k = j then [sql_max (issue_numbers db j) + 1] else [])" for k
    by (simp add: issue_numbers_def)
  then have "dense (issue_numbers ?db k)" for k using assms dense_next by (simp add: collab_wf_def)
  moreover have "pull_numbers ?db k = pull_numbers db k" for k by (simp add: pull_numbers_def)
  ultimately have "collab_wf ?db" using assms unfolding collab_wf_def by (simp add: tbl_wf_insert)
  then show ?thesis unfolding db' only_def by (simp add: of_defs)
qed

lemma pull_Create_only:
  assumes "collab_wf db" and "pp_RepoID p = j"
  shows "only j db (snd (pull_Create now us p db))"
proof (cases "us_down us")
  case True
  then show ?thesis using assms by (simp add: pull_Create_def pull_nextNumber_def query_def only_refl)
next
  case False
  let ?r = "\<lparr>pu_RepoID = pp_RepoID p, pu_Number = sql_max (pull_numbers db j) + 1, pu_Title = pp_Title p, pu_Body = pp_Body p,
     pu_AuthorID = pp_AuthorID p, pu_HeadRepoID = pp_HeadRepoID p, pu_HeadBranch = pp_HeadBranch p,
     pu_BaseBranch = pp_BaseBranch p, pu_State = ''open'', pu_Merged = False, pu_MergedBy = None,
     pu_MergedAt = None, pu_UpdatedAt = now\<rparr>"
  let ?db = "db\<lparr>cb_pulls := tbl_insert ?r (cb_pulls db)\<rparr>"
  have db': "snd (pull_Create now us p db) = ?db"
    using False assms(2) by (simp add: pull_Create_def pull_nextNumber_def query_def pull_insert_def Let_def)
  have "pull_numbers ?db k = pull_numbers db k @ (if k = j then [sql_max (pull_numbers db j) + 1] else [])" for k
    using assms(2) by (simp add: pull_numbers_def)
  then have "dense (pull_numbers ?db k)" for k using assms dense_next by (simp add: collab_wf_def)
  moreover have "issue_numbers ?db k = issue_numbers db k" for k by (simp add: issue_numbers_def)
  ultimately have "collab_wf ?db" using assms unfolding collab_wf_def by (simp add: tbl_wf_insert)
  then show ?thesis unfolding db' only_def by (simp add: of_defs assms(2))
qed

text \<open>A change of one row that keeps its repository and number.\<close>

lemma on_issue_only:
  assumes "collab_wf db" and "(i, r) \<in> set (rows (cb_issues db))" and "is_RepoID r = j"
    and "\<And>x. is_RepoID (f x) = is_RepoID x" and "\<And>x. is_Number (f x) = is_Number x"
  shows "only j db (on_issue i f db)"
proof -
  have same: "issues_of (on_issue i f db) k = issues_of db k" if "k \<noteq> j" for k
  proof -
    have "is_RepoID x \<noteq> k \<and> is_RepoID (f x) \<noteq> k" if "(i, x) \<in> set (rows (cb_issues db))" for x
      using tbl_wf_id_unique [OF _ assms(2) that] assms(1,3,4) \<open>k \<noteq> j\<close> by (simp add: collab_wf_def)
    then have "tbl_select (\<lambda>_ r. is_RepoID r = k) (tbl_update (\<lambda>j _. j = i) f (cb_issues db)) = tbl_select (\<lambda>_ r. is_RepoID r = k) (cb_issues db)"
      by (intro select_update) blast
    then show ?thesis by (simp add: issues_of_def on_issue_def)
  qed
  have "issue_numbers (on_issue i f db) k = issue_numbers db k" for k
    unfolding issue_numbers_def on_issue_def using assms(4,5) by (simp add: select_update_map)
  moreover have "pull_numbers (on_issue i f db) k = pull_numbers db k" for k by (simp add: pull_numbers_def on_issue_def)
  moreover have "tbl_wf (cb_issues (on_issue i f db))" "tbl_wf (cb_pulls (on_issue i f db))"
    using assms(1) by (simp_all add: collab_wf_def on_issue_def tbl_wf_update)
  ultimately have "collab_wf (on_issue i f db)" using assms(1) by (simp add: collab_wf_def)
  then show ?thesis unfolding only_def using same by (simp add: of_defs on_issue_def)
qed

lemma on_pull_only:
  assumes "collab_wf db" and "(i, r) \<in> set (rows (cb_pulls db))" and "pu_RepoID r = j"
    and "\<And>x. pu_RepoID (f x) = pu_RepoID x" and "\<And>x. pu_Number (f x) = pu_Number x"
  shows "only j db (on_pull i f db)"
proof -
  have same: "pulls_of (on_pull i f db) k = pulls_of db k" if "k \<noteq> j" for k
  proof -
    have "pu_RepoID x \<noteq> k \<and> pu_RepoID (f x) \<noteq> k" if "(i, x) \<in> set (rows (cb_pulls db))" for x
      using tbl_wf_id_unique [OF _ assms(2) that] assms(1,3,4) \<open>k \<noteq> j\<close> by (simp add: collab_wf_def)
    then have "tbl_select (\<lambda>_ r. pu_RepoID r = k) (tbl_update (\<lambda>j _. j = i) f (cb_pulls db)) = tbl_select (\<lambda>_ r. pu_RepoID r = k) (cb_pulls db)"
      by (intro select_update) blast
    then show ?thesis by (simp add: pulls_of_def on_pull_def)
  qed
  have "pull_numbers (on_pull i f db) k = pull_numbers db k" for k
    unfolding pull_numbers_def on_pull_def using assms(4,5) by (simp add: select_update_map)
  moreover have "issue_numbers (on_pull i f db) k = issue_numbers db k" for k by (simp add: issue_numbers_def on_pull_def)
  moreover have "tbl_wf (cb_issues (on_pull i f db))" "tbl_wf (cb_pulls (on_pull i f db))"
    using assms(1) by (simp_all add: collab_wf_def on_pull_def tbl_wf_update)
  ultimately have "collab_wf (on_pull i f db)" using assms(1) by (simp add: collab_wf_def)
  then show ?thesis unfolding only_def using same by (simp add: of_defs on_pull_def)
qed

lemma one_row_Ok: "one_row us P t = Ok (i, r) \<Longrightarrow> (i, r) \<in> set (rows t) \<and> P i r \<and> \<not> us_down us"
  using tbl_find_Some [of P t i r] by (simp add: one_row_def split: if_splits option.splits)

lemma numbered_issue_row:
  assumes "numbered_issue h rp number = Ok (i, r)" and "tbl_wf (cb_issues (hb_collab h))"
  shows "(i, r) \<in> set (rows (cb_issues (hb_collab h))) \<and> is_RepoID r = fst rp"
proof -
  let ?P = "\<lambda>n. \<lambda>_ r. is_RepoID r = fst rp \<and> is_Number r = n"
  obtain n where n: "number = Some n" and b: "issue_ByNumber (hb_users h) (hb_collab h) (fst rp) n = Ok (i, r)"
    using assms(1) by (auto simp: numbered_issue_def split: option.splits sum.splits)
  then obtain m x where mx: "one_row (hb_users h) (?P n) (cb_issues (hb_collab h)) = Ok (m, x)"
    and i: "issue_ByID (hb_users h) (hb_collab h) m = Ok (i, r)"
    by (auto simp: issue_ByNumber_def split: sum.splits)
  show ?thesis using one_row_Ok [OF mx] one_row_Ok [OF i [unfolded issue_ByID_def]] tbl_wf_id_unique [OF assms(2), of i x r] by auto
qed

lemma numbered_pull_row:
  assumes "numbered_pull h rp number = Ok (i, r)" and "tbl_wf (cb_pulls (hb_collab h))"
  shows "(i, r) \<in> set (rows (cb_pulls (hb_collab h))) \<and> pu_RepoID r = fst rp"
proof -
  let ?P = "\<lambda>n. \<lambda>_ r. pu_RepoID r = fst rp \<and> pu_Number r = n"
  obtain n where n: "number = Some n" and b: "pull_ByNumber (hb_users h) (hb_collab h) (fst rp) n = Ok (i, r)"
    using assms(1) by (auto simp: numbered_pull_def split: option.splits sum.splits)
  then obtain m x where mx: "one_row (hb_users h) (?P n) (cb_pulls (hb_collab h)) = Ok (m, x)"
    and i: "pull_ByID (hb_users h) (hb_collab h) m = Ok (i, r)"
    by (auto simp: pull_ByNumber_def split: sum.splits)
  show ?thesis using one_row_Ok [OF mx] one_row_Ok [OF i [unfolded pull_ByID_def]] tbl_wf_id_unique [OF assms(2), of i x r] by auto
qed

section \<open>Steps\<close>

lemma on_collab_site [simp]: "hb_site (snd (on_collab c op h)) = hb_site h"
  by (simp add: on_collab_def split: prod.splits)

lemma on_collab_db: "hb_collab (snd (on_collab c op h)) = snd (op (hb_users h) (hb_collab h))"
  by (simp add: on_collab_def split: prod.splits)

lemma step_site:
  "(\<And>y. hb_site (snd (f y)) = hb_site h) \<Longrightarrow> hb_site (snd (case x of Inl c \<Rightarrow> (c, h) | Inr y \<Rightarrow> f y)) = hb_site h"
  by (cases x) simp_all

lemma step_site_opt:
  "(\<And>y. hb_site (snd (f y)) = hb_site h) \<Longrightarrow> hb_site (snd (case x of None \<Rightarrow> (c, h) | Some y \<Rightarrow> f y)) = hb_site h"
  by (cases x) simp_all

lemmas handler_defs = handleCreateIssue_def handleSetIssueState_def handleUpdateIssue_def
  handleCreateIssueComment_def handleCreateLabel_def handleDeleteLabel_def handleCreateMilestone_def
  handleCreatePull_def handleMergePull_def handleCreateReview_def handleCreateReviewComment_def

lemma collab_step_site: "hb_site (collab_step q h) = hb_site h"
  by (cases "ri_op q")
    (simp_all add: collab_step_def handler_defs step_site step_site_opt case_prod_unfold)

text \<open>Comments may come from readers; everything else needs the permission to write.\<close>

definition reading :: "collab_op \<Rightarrow> bool" where
  "reading x \<longleftrightarrow> (case x of OpIssueComment _ _ \<Rightarrow> True | OpReview _ _ _ \<Rightarrow> True | OpReviewComment _ _ _ _ \<Rightarrow> True | _ \<Rightarrow> False)"

lemma exec_only: "collab_wf db \<Longrightarrow> only j db (f db) \<Longrightarrow> only j db (snd (exec us f db))"
  by (simp add: exec_def only_refl)

lemma only_labels:
  "collab_wf db \<Longrightarrow> only j db (snd (CreateLabel us j a c d db))"
  "collab_wf db \<Longrightarrow> only j db (snd (DeleteLabel us j i db))"
  "collab_wf db \<Longrightarrow> only j db (snd (CreateMilestone us j a c due db))"
  by (auto simp: CreateLabel_def CreateMilestone_def DeleteLabel_def Let_def only_refl of_defs
      intro!: only_others exec_only select_delete)

lemma only_comment:
  assumes "collab_wf db" and "co_RepoID c = j"
  shows "only j db (snd (comment_Create us c db))" "issues_of (snd (comment_Create us c db)) = issues_of db"
    "pulls_of (snd (comment_Create us c db)) = pulls_of db" "labels_of (snd (comment_Create us c db)) = labels_of db"
    "milestones_of (snd (comment_Create us c db)) = milestones_of db"
  using assms by (auto simp: comment_Create_def Let_def only_refl of_defs fun_eq_iff intro!: only_others)

definition touches :: "request \<Rightarrow> hub \<Rightarrow> hub \<Rightarrow> bool" where
  "touches q h h' \<longleftrightarrow> hb_collab h' = hb_collab h \<or>
     (\<exists>j. target q (if reading (ri_op q) then PermRead else PermWrite) h j \<and> only j (hb_collab h) (hb_collab h'))"

lemma writing_touches:
  assumes "need = (if reading (ri_op q) then PermRead else PermWrite)"
    and "\<And>x rp. only (fst rp) (hb_collab h) (hb_collab (snd (f (x, rp))))"
  shows "touches q h (snd (case writing (ri_visit q) (ri_owner q) (ri_repo q) need h of Inl c \<Rightarrow> (c, h) | Inr x \<Rightarrow> f x))"
proof (cases "writing (ri_visit q) (ri_owner q) (ri_repo q) need h")
  case (Inr y)
  then obtain rp u where r: "resolveRepo (ri_visit q) (ri_owner q) (ri_repo q) need (hb_site h) = Ok (rp, u)" and y: "y = (fst y, rp)"
    by (cases y) (auto simp: writing_def split: option.splits sum.splits)
  have "only (fst rp) (hb_collab h) (hb_collab (snd (f y)))" using assms(2) [of rp "fst y"] y by simp
  then show ?thesis using r Inr assms(1) by (auto simp: touches_def target_def)
qed (simp add: touches_def)

lemma on_numbered_issue:
  assumes "collab_wf (hb_collab h)"
    and "\<And>i r. (i, r) \<in> set (rows (cb_issues (hb_collab h))) \<Longrightarrow> is_RepoID r = fst rp \<Longrightarrow> only (fst rp) (hb_collab h) (hb_collab (snd (g (i, r))))"
  shows "only (fst rp) (hb_collab h) (hb_collab (snd (case numbered_issue h rp m of Inl c \<Rightarrow> (c, h) | Inr x \<Rightarrow> g x)))"
proof (cases "numbered_issue h rp m")
  case (Inr x)
  then show ?thesis using numbered_issue_row [of h rp m "fst x" "snd x"] assms(2) [of "fst x" "snd x"] assms(1)
    by (cases x) (simp add: collab_wf_def)
qed (simp add: assms(1) only_refl)

lemma on_numbered_pull:
  assumes "collab_wf (hb_collab h)"
    and "\<And>i r. (i, r) \<in> set (rows (cb_pulls (hb_collab h))) \<Longrightarrow> pu_RepoID r = fst rp \<Longrightarrow> only (fst rp) (hb_collab h) (hb_collab (snd (g (i, r))))"
  shows "only (fst rp) (hb_collab h) (hb_collab (snd (case numbered_pull h rp m of Inl c \<Rightarrow> (c, h) | Inr x \<Rightarrow> g x)))"
proof (cases "numbered_pull h rp m")
  case (Inr x)
  then show ?thesis using numbered_pull_row [of h rp m "fst x" "snd x"] assms(2) [of "fst x" "snd x"] assms(1)
    by (cases x) (simp add: collab_wf_def)
qed (simp add: assms(1) only_refl)

lemma only_reviews:
  "collab_wf db \<Longrightarrow> only j db (snd (AddReview us i a st b db))" "collab_wf db \<Longrightarrow> only j db (snd (AddReviewComment us i p l b db))"
  by (auto simp: AddReview_def AddReviewComment_def Let_def only_refl of_defs intro!: only_others)

lemma issue_changes_only:
  assumes "collab_wf db" and "(i, r) \<in> set (rows (cb_issues db))" and "is_RepoID r = j"
  shows "only j db (snd (issue_SetState now us i st db))" "only j db (snd (issue_Update now us i t b db))"
  using assms by (auto simp: issue_SetState_def issue_Update_def intro!: exec_only on_issue_only)

lemma merge_only:
  assumes "collab_wf db" and "(i, r) \<in> set (rows (cb_pulls db))" and "pu_RepoID r = j"
  shows "only j db (snd (MarkMerged now us i a db))"
  using assms by (auto simp: MarkMerged_def intro!: exec_only on_pull_only)

lemmas op_only = issue_Create_only pull_Create_only only_labels only_comment(1) only_reviews issue_changes_only merge_only

lemma step_touches:
  assumes wf: "collab_wf (hb_collab h)"
  shows "touches q h (collab_step q h)"
proof (cases "ri_op q")
  case (OpIssue t b)
  show ?thesis unfolding collab_step_def handleCreateIssue_def OpIssue Let_def collab_op.case
    by (rule writing_touches) (auto simp: OpIssue reading_def on_collab_db wf intro: op_only)
next
  case (OpIssueState i st)
  show ?thesis unfolding collab_step_def handleSetIssueState_def OpIssueState Let_def collab_op.case
    by (rule writing_touches) (auto simp: OpIssueState reading_def on_collab_db wf intro!: on_numbered_issue op_only)
next
  case (OpIssueEdit i t b)
  show ?thesis unfolding collab_step_def handleUpdateIssue_def OpIssueEdit Let_def collab_op.case
    by (rule writing_touches) (auto simp: OpIssueEdit reading_def on_collab_db wf intro!: on_numbered_issue op_only)
next
  case (OpIssueComment i b)
  show ?thesis unfolding collab_step_def handleCreateIssueComment_def OpIssueComment Let_def collab_op.case
    by (rule writing_touches) (auto simp: OpIssueComment reading_def on_collab_db wf intro!: on_numbered_issue op_only)
next
  case (OpLabel a c d)
  show ?thesis unfolding collab_step_def handleCreateLabel_def OpLabel Let_def collab_op.case
    by (rule writing_touches) (auto simp: OpLabel reading_def on_collab_db wf intro!: op_only)
next
  case (OpDropLabel i)
  show ?thesis
    by (cases "resolveRepo (ri_visit q) (ri_owner q) (ri_repo q) PermWrite (hb_site h)")
      (auto simp: collab_step_def handleDeleteLabel_def OpDropLabel touches_def target_def reading_def on_collab_db only_labels(2) [OF wf]
        split: option.split)
next
  case (OpMilestone t d due)
  show ?thesis unfolding collab_step_def handleCreateMilestone_def OpMilestone Let_def collab_op.case
    by (rule writing_touches) (auto simp: OpMilestone reading_def on_collab_db wf intro!: op_only)
next
  case (OpPull t b hb bs)
  show ?thesis unfolding collab_step_def handleCreatePull_def OpPull Let_def collab_op.case
    by (rule writing_touches) (auto simp: OpPull reading_def on_collab_db wf intro!: op_only)
next
  case (OpMerge i)
  show ?thesis unfolding collab_step_def handleMergePull_def OpMerge Let_def collab_op.case
    by (rule writing_touches) (auto simp: OpMerge reading_def on_collab_db wf intro!: on_numbered_pull op_only)
next
  case (OpReview i st b)
  show ?thesis unfolding collab_step_def handleCreateReview_def OpReview Let_def collab_op.case
    by (rule writing_touches) (auto simp: OpReview reading_def on_collab_db wf intro!: on_numbered_pull op_only)
next
  case (OpReviewComment i p l b)
  show ?thesis unfolding collab_step_def handleCreateReviewComment_def OpReviewComment Let_def collab_op.case
    by (rule writing_touches) (auto simp: OpReviewComment reading_def on_collab_db wf only_refl split: option.split intro!: op_only)
qed

section \<open>Who changes what\<close>

lemma step_frame:
  assumes "\<And>y. F (hb_collab (snd (f y))) = F (hb_collab h)"
  shows "F (hb_collab (snd (case x of Inl c \<Rightarrow> (c, h) | Inr y \<Rightarrow> f y))) = F (hb_collab h)"
    and "F (hb_collab (snd (case z of None \<Rightarrow> (c, h) | Some y \<Rightarrow> f y))) = F (hb_collab h)"
  using assms by (cases x; cases z; simp)+

lemma reading_frame:
  assumes "reading (ri_op q)"
  shows "cb_issues (hb_collab (collab_step q h)) = cb_issues (hb_collab h)"
    "cb_pulls (hb_collab (collab_step q h)) = cb_pulls (hb_collab h)"
    "cb_labels (hb_collab (collab_step q h)) = cb_labels (hb_collab h)"
    "cb_milestones (hb_collab (collab_step q h)) = cb_milestones (hb_collab h)"
  using assms by (cases "ri_op q"; simp add: reading_def collab_step_def handler_defs step_frame case_prod_unfold on_collab_db
      comment_Create_def AddReview_def AddReviewComment_def Let_def)+

lemma resolveRepo_granted:
  assumes "resolveRepo v owner repoName need s = Ok (rp, u)" and "need \<noteq> PermNone"
  shows "rp \<in> set (rows (rd_repos (si_repos s)))" and "u = UserFrom (vi_ctx v)" and "\<exists>x. u = Some x \<and> granted (si_repos s) rp x need"
proof -
  obtain y where url: "url_repo owner repoName s = Ok y" and del: "IsDeleted (si_users s) (si_repos s) (fst y) \<noteq> Ok True"
    using assms by (cases "url_repo owner repoName s") (simp_all add: resolveRepo_def split: if_splits)
  obtain perm where p: "caller_perm s y (UserFrom (vi_ctx v)) = Ok perm"
    using assms url del by (cases "caller_perm s y (UserFrom (vi_ctx v))") (simp_all add: resolveRepo_def Let_def)
  have ok: "y = rp" "u = UserFrom (vi_ctx v)" "need \<le> perm"
    using assms url del p by (simp_all add: resolveRepo_def Let_def not_less split: if_splits)
  obtain z :: user where "ByOwnerName (si_users s) (si_repos s) (fst z) repoName = Ok rp" using url_repo_Ok [OF url] ok(1) by blast
  then show "rp \<in> set (rows (rd_repos (si_repos s)))" using repo_scanOne_Ok(1) by (simp add: ByOwnerName_def)
  show "u = UserFrom (vi_ctx v)" by (rule ok(2))
  show "\<exists>x. u = Some x \<and> granted (si_repos s) rp x need" using caller_granted [OF p ok(3) assms(2)] ok(1,2) by simp
qed

text \<open>The account of a request has no permission on the repository.\<close>

definition stranger :: "hub \<Rightarrow> repo \<Rightarrow> Perm \<Rightarrow> request \<Rightarrow> bool" where
  "stranger h rp need q \<longleftrightarrow> (\<forall>x. UserFrom (vi_ctx (ri_visit q)) = Some x \<longrightarrow> \<not> granted (si_repos (hb_site h)) rp x need)"

lemma stranger_target:
  assumes "stranger h (j, r) need q" and "need \<noteq> PermNone" and "tbl_wf (rd_repos (si_repos (hb_site h)))"
    and "(j, r) \<in> set (rows (rd_repos (si_repos (hb_site h))))"
  shows "\<not> target q need h j"
proof
  assume "target q need h j"
  then obtain rp u where t: "resolveRepo (ri_visit q) (ri_owner q) (ri_repo q) need (hb_site h) = Ok (rp, u)" "fst rp = j"
    by (auto simp: target_def)
  note g = resolveRepo_granted [OF t(1) assms(2)]
  have "snd rp = r" using tbl_wf_id_unique [OF assms(3), of j "snd rp" r] g(1) t(2) assms(4) by (cases rp) simp
  then show False using g(2,3) assms(1) t(2) by (cases rp) (auto simp: stranger_def)
qed

lemma step_wf: "collab_wf (hb_collab h) \<Longrightarrow> collab_wf (hb_collab (collab_step q h))"
  using step_touches [of h q] by (auto simp: touches_def only_def)

lemma step_stranger:
  assumes "collab_wf (hb_collab h)" and "stranger h (j, r) PermWrite q" and "tbl_wf (rd_repos (si_repos (hb_site h)))"
    and "(j, r) \<in> set (rows (rd_repos (si_repos (hb_site h))))"
  shows "issues_of (hb_collab (collab_step q h)) j = issues_of (hb_collab h) j \<and> pulls_of (hb_collab (collab_step q h)) j = pulls_of (hb_collab h) j
    \<and> labels_of (hb_collab (collab_step q h)) j = labels_of (hb_collab h) j
    \<and> milestones_of (hb_collab (collab_step q h)) j = milestones_of (hb_collab h) j"
proof (cases "reading (ri_op q)")
  case True
  then show ?thesis using reading_frame by (simp add: of_defs)
next
  case False
  then consider "hb_collab (collab_step q h) = hb_collab h"
    | m where "target q PermWrite h m" "only m (hb_collab h) (hb_collab (collab_step q h))"
    using step_touches [OF assms(1), of q] by (auto simp: touches_def)
  then show ?thesis
  proof cases
    case 2
    then have "m \<noteq> j" using stranger_target [OF assms(2) _ assms(3,4)] by auto
    then show ?thesis using 2(2) by (simp add: only_def)
  qed simp
qed

lemma run_wf: "collab_wf (hb_collab h) \<Longrightarrow> collab_wf (hb_collab (fold collab_step qs h)) \<and> hb_site (fold collab_step qs h) = hb_site h"
  by (induction qs arbitrary: h) (simp_all add: step_wf collab_step_site)

lemma dense_position:
  assumes "dense ns" and "k < length ns"
  shows "ns ! k = int k + 1"
proof -
  have "ns ! k = [1..int (length ns)] ! k" using assms(1) by (simp add: dense_def)
  then show ?thesis using assms(2) by simp
qed

lemma numbers_distinct: "dense ns \<Longrightarrow> distinct ns"
  unfolding dense_def by (metis distinct_upto)

lemma number_found:
  assumes "collab_wf db" and "(i, r) \<in> set (rows (cb_issues db))" and "\<not> us_down us"
  shows "issue_ByNumber us db (is_RepoID r) (is_Number r) = Ok (i, r)"
proof -
  let ?P = "\<lambda>_ x. is_RepoID x = is_RepoID r \<and> is_Number x = is_Number r"
  have wf: "tbl_wf (cb_issues db)" and d: "distinct (map (is_Number \<circ> snd) (issues_of db (is_RepoID r)))"
    using assms(1) numbers_distinct by (simp_all add: collab_wf_def numbers_of)
  have "tbl_find ?P (cb_issues db) = Some (i, r)"
  proof (rule tbl_find_by_id [OF wf assms(2)])
    fix m x assume m: "(m, x) \<in> set (rows (cb_issues db))" "?P m x"
    then have "(m, x) \<in> set (issues_of db (is_RepoID r))" "(i, r) \<in> set (issues_of db (is_RepoID r))"
      using assms(2) by (auto simp: issues_of_def tbl_select_def)
    moreover have "inj_on (is_Number \<circ> snd) (set (issues_of db (is_RepoID r)))" using d by (simp add: distinct_map)
    ultimately have "(m, x) = (i, r)" using m(2) by (elim inj_onD) simp_all
    then show "m = i" by simp
  qed simp
  moreover have "tbl_find (\<lambda>m _. m = i) (cb_issues db) = Some (i, r)"
    by (rule tbl_find_by_id [OF wf assms(2)]) simp_all
  ultimately show ?thesis using assms(3) by (simp add: issue_ByNumber_def issue_ByID_def one_row_def)
qed

text \<open>The issues of a repository, and its pull requests, are numbered 1, 2, 3 and so on in the order in which they were
  opened, whatever sequence of requests the hub serves, one after the other, and the number of an issue finds it.\<close>

theorem numbers_stay_dense:
  fixes qs :: "request list" and h :: hub
  assumes "collab_wf (hb_collab h)"
  defines "db \<equiv> hb_collab (fold collab_step qs h)"
  shows "issue_numbers db j = [1..int (length (issues_of db j))] \<and> pull_numbers db j = [1..int (length (pulls_of db j))]
    \<and> (\<forall>(i, r) \<in> set (issues_of db j). \<not> us_down us \<longrightarrow> issue_ByNumber us db j (is_Number r) = Ok (i, r))"
proof -
  have wf: "collab_wf db" using run_wf [OF assms(1)] by (simp add: db_def)
  then have "dense (issue_numbers db j)" "dense (pull_numbers db j)" by (simp_all add: collab_wf_def)
  moreover have "length (issue_numbers db j) = length (issues_of db j)" "length (pull_numbers db j) = length (pulls_of db j)"
    by (simp_all add: numbers_of)
  moreover have "issue_ByNumber us db j (is_Number r) = Ok (i, r)" if "(i, r) \<in> set (issues_of db j)" "\<not> us_down us" for i r
    using number_found [OF wf, of i r us] that by (auto simp: issues_of_def tbl_select_def)
  ultimately show ?thesis by (auto simp: dense_def)
qed

text \<open>C23: Nobody without write permission changes the issues, pull requests, labels or milestones of a repository: they are
  the same after every sequence of requests by accounts that are not granted that permission.\<close>

theorem strangers_change_nothing:
  assumes "collab_wf (hb_collab h)" and "tbl_wf (rd_repos (si_repos (hb_site h)))"
    and "(j, r) \<in> set (rows (rd_repos (si_repos (hb_site h))))" and "list_all (stranger h (j, r) PermWrite) qs"
  shows "issues_of (hb_collab (fold collab_step qs h)) j = issues_of (hb_collab h) j
    \<and> pulls_of (hb_collab (fold collab_step qs h)) j = pulls_of (hb_collab h) j
    \<and> labels_of (hb_collab (fold collab_step qs h)) j = labels_of (hb_collab h) j
    \<and> milestones_of (hb_collab (fold collab_step qs h)) j = milestones_of (hb_collab h) j"
  using assms
proof (induction qs arbitrary: h)
  case (Cons q qs)
  have "stranger (collab_step q h) = stranger h" by (simp add: stranger_def fun_eq_iff collab_step_site)
  then have "list_all (stranger (collab_step q h) (j, r) PermWrite) qs" using Cons.prems(4) by simp
  then show ?case
    using Cons.IH [of "collab_step q h"] Cons.prems step_wf [OF Cons.prems(1)] step_stranger [OF Cons.prems(1) _ Cons.prems(2,3), of q]
    by (simp add: collab_step_site)
qed simp

text \<open>Alice opens two issues and closes the first; Mallory tries to open one.\<close>

definition demo_hub :: hub where
  "demo_hub = \<lparr>hb_site = demo_site, hb_collab = collab_New\<rparr>"

definition alice_asks :: "collab_op \<Rightarrow> request" where
  "alice_asks x = \<lparr>ri_visit = visit_of 1 ''alice'', ri_owner = ''alice'', ri_repo = ''app'', ri_now = 7, ri_op = x\<rparr>"

definition mallory_asks :: "collab_op \<Rightarrow> request" where
  "mallory_asks x = \<lparr>ri_visit = visit_of 2 ''mallory'', ri_owner = ''alice'', ri_repo = ''app'', ri_now = 7, ri_op = x\<rparr>"

lemma collab_New_wf: "collab_wf collab_New"
  by (simp add: collab_wf_def collab_New_def issue_numbers_def pull_numbers_def tbl_select_def dense_def)

lemma demo_hub_simps [simp]: "hb_site demo_hub = demo_site" "hb_collab demo_hub = collab_New"
  by (simp_all add: demo_hub_def)

lemma demo_resolve: "resolveRepo (visit_of 1 ''alice'') ''alice'' ''app'' need demo_site = Ok ((1, demo_repo 1 ''app'' True), Some (1, demo_user ''alice''))"
proof -
  note ok = loadRepoAndPerm_Ok [OF demo_access(1) [of test_env 0 need]]
  have "\<not> PermAdmin < p" for p by (simp add: not_less)
  moreover have "caller_perm demo_site (1, demo_repo 1 ''app'' True) (Some (1, demo_user ''alice'')) = Ok PermAdmin"
    by (simp add: caller_perm_def caller_def PermissionFor_def)
  ultimately show ?thesis using ok(1,2) by (simp add: resolveRepo_def IsArchived_def)
qed

lemma issue_step:
  "hb_site h = demo_site \<Longrightarrow> hb_collab (collab_step (alice_asks (OpIssue t [])) h) = snd (issue_Create 7 demo_users 1 1 t [] (hb_collab h))"
  by (simp add: collab_step_def alice_asks_def handleCreateIssue_def writing_def demo_resolve on_collab_db)

lemma created: "\<not> us_down us \<Longrightarrow> issues_of (snd (issue_Create now us j a t b db)) j = issues_of db j @
    [(seq (cb_issues db) + 1, \<lparr>is_RepoID = j, is_Number = sql_max (issue_numbers db j) + 1, is_Title = t, is_Body = b,
      is_AuthorID = a, is_State = ''open'', is_MilestoneID = None, is_ClosedAt = None, is_UpdatedAt = now\<rparr>)]"
  by (simp add: issue_Create_def issue_nextNumber_def query_def issue_insert_def issues_of_def Let_def)

theorem numbers_stay_dense_witness:
  "issue_numbers (hb_collab (fold collab_step (map alice_asks [OpIssue ''a'' [], OpIssue ''b'' []]) demo_hub)) 1 = [1, 2]"
proof -
  let ?qs = "map alice_asks [OpIssue ''a'' [], OpIssue ''b'' []]"
  have "length (issues_of (hb_collab (fold collab_step ?qs demo_hub)) 1) = 2"
    by (simp add: issue_step collab_step_site created) (simp add: issues_of_def collab_New_def tbl_select_def)
  moreover have "[1..2] = [1, 2 :: int]" by (simp add: upto.simps)
  ultimately show ?thesis using numbers_stay_dense [of demo_hub ?qs 1] collab_New_wf by simp
qed

theorem strangers_change_nothing_witness:
  "issues_of (hb_collab (fold collab_step (map mallory_asks [OpIssue ''spam'' [], OpMerge (Some 1)]) (collab_step (alice_asks (OpIssue ''a'' [])) demo_hub))) 1
     = issues_of (hb_collab (collab_step (alice_asks (OpIssue ''a'' [])) demo_hub)) 1"
proof -
  let ?h = "collab_step (alice_asks (OpIssue ''a'' [])) demo_hub"
  have site: "hb_site ?h = demo_site" by (simp add: collab_step_site)
  have wf: "collab_wf (hb_collab ?h)" by (rule step_wf) (simp add: collab_New_wf)
  have "\<not> granted demo_db (1, demo_repo 1 ''app'' True) (2, demo_user ''mallory'') PermWrite"
    by (simp add: granted_def OwnerUser_def OwnerOrg_def demo_db_def repos_New_def)
  then show ?thesis
    using strangers_change_nothing [OF wf, of 1 "demo_repo 1 ''app'' True" "map mallory_asks [OpIssue ''spam'' [], OpMerge (Some 1)]"]
    by (simp add: site demo_repos tbl_wf_def stranger_def mallory_asks_def)
qed

section \<open>Two requests at the same time\<close>

text \<open>Two issues opened at the same time can get the same number, and then one of them is lost to every address: when
  both requests read the next number before either inserts its row, both rows have it, and no number leads
  to the second.\<close>

theorem number_race_hides_issue:
  assumes "collab_wf db" and "issue_nextNumber us db j = Ok n"
    and "issue_insert now us n j a t b db = (x1, db1)" and "issue_insert now' us n j a' t' b' db1 = (x2, db2)"
  shows "\<exists>i r. x2 = Ok (i, r) \<and> is_Number r = n \<and> (i, r) \<in> set (issues_of db2 j) \<and> issue_numbers db2 j = issue_numbers db j @ [n, n]
    \<and> (\<forall>m. issue_ByNumber us db2 j m \<noteq> Ok (i, r))"
proof -
  have up: "\<not> us_down us" and n: "n = sql_max (issue_numbers db j) + 1"
    using assms(2) by (auto simp: issue_nextNumber_def query_def split: if_splits)
  define r1 where "r1 = \<lparr>is_RepoID = j, is_Number = n, is_Title = t, is_Body = b, is_AuthorID = a, is_State = ''open'',
    is_MilestoneID = None, is_ClosedAt = None, is_UpdatedAt = now\<rparr>"
  define r2 where "r2 = \<lparr>is_RepoID = j, is_Number = n, is_Title = t', is_Body = b', is_AuthorID = a', is_State = ''open'',
    is_MilestoneID = None, is_ClosedAt = None, is_UpdatedAt = now'\<rparr>"
  let ?t = "cb_issues db"
  have db1: "db1 = db\<lparr>cb_issues := tbl_insert r1 ?t\<rparr>" using assms(3) up by (auto simp: issue_insert_def Let_def r1_def)
  then have db2: "db2 = db\<lparr>cb_issues := tbl_insert r2 (tbl_insert r1 ?t)\<rparr>" and x2: "x2 = issue_ByID us db2 (seq ?t + 2)"
    using assms(4) up by (auto simp: issue_insert_def Let_def r2_def add.commute)
  have wf: "tbl_wf ?t" using assms(1) by (simp add: collab_wf_def)
  then have wf2: "tbl_wf (cb_issues db2)" by (simp add: db2 tbl_wf_insert)
  have row: "(seq ?t + 2, r2) \<in> set (rows (cb_issues db2))" by (simp add: db2)
  have "x2 = Ok (seq ?t + 2, r2)"
    using tbl_find_by_id [OF wf2 row, of "\<lambda>m _. m = seq ?t + 2"] up by (simp add: x2 issue_ByID_def one_row_def)
  moreover have "issue_numbers db2 j = issue_numbers db j @ [n, n]" by (simp add: issue_numbers_def db2 r1_def r2_def)
  moreover have "issue_ByNumber us db2 j m \<noteq> Ok (seq ?t + 2, r2)" for m
  proof
    assume e: "issue_ByNumber us db2 j m = Ok (seq ?t + 2, r2)"
    let ?P = "\<lambda>_ r. is_RepoID r = j \<and> is_Number r = m"
    obtain k y where ky: "one_row us ?P (cb_issues db2) = Ok (k, y)" and "issue_ByID us db2 k = Ok (seq ?t + 2, r2)"
      using e by (auto simp: issue_ByNumber_def split: sum.splits)
    then have k: "k = seq ?t + 2" using one_row_Ok [of us "\<lambda>j _. j = k" "cb_issues db2"] by (simp add: issue_ByID_def)
    then have "y = r2" using one_row_Ok [OF ky] tbl_wf_id_unique [OF wf2 row] by auto
    then have m: "m = n" using one_row_Ok [OF ky] by (simp add: r2_def)
    have "(seq ?t + 1, r1) \<in> set (rows (cb_issues db2))" by (simp add: db2)
    moreover have "?P (seq ?t + 1) r1" by (simp add: r1_def m)
    moreover have "tbl_find ?P (cb_issues db2) = Some (k, y)" using ky up by (simp add: one_row_def split: option.splits)
    ultimately have "k \<le> seq ?t + 1" using find_sorted [of "rows (cb_issues db2)" _ k y "seq ?t + 1" r1] wf2
      by (simp add: tbl_find_def tbl_wf_def)
    then show False using k by simp
  qed
  ultimately show ?thesis using row by (auto simp: issues_of_def tbl_select_def r2_def)
qed

theorem number_race_hides_issue_witness:
  "\<exists>db1 db2 i r x. issue_insert 7 demo_users 1 1 1 ''a'' [] collab_New = (x, db1) \<and> issue_insert 7 demo_users 1 1 2 ''b'' [] db1 = (Ok (i, r), db2)
     \<and> (\<forall>m. issue_ByNumber demo_users db2 1 m \<noteq> Ok (i, r))"
proof -
  obtain x db1 where 1: "issue_insert 7 demo_users 1 1 1 ''a'' [] collab_New = (x, db1)" by force
  obtain y db2 where 2: "issue_insert 7 demo_users 1 1 2 ''b'' [] db1 = (y, db2)" by force
  have "issue_nextNumber demo_users collab_New 1 = Ok 1"
    by (simp add: issue_nextNumber_def query_def issue_numbers_def collab_New_def tbl_select_def sql_max_def)
  from number_race_hides_issue [OF collab_New_wf this 1 2] 1 2 show ?thesis by blast
qed

section \<open>Comments of reviews\<close>

text \<open>The comments of a review are open to everybody who can read some repository: the handler checks access to the
  repository in the request, not to that of the review, and answers with all comments of any review that is
  asked for, also where the reviews themselves are refused with 404.\<close>

theorem review_comments_leak:
  assumes "visible v owner name h = Ok rp" and "\<not> us_down (hb_users h)"
    and "url_repo owner' name' (hb_site h) = Ok rp'" and "rp_IsPrivate (snd rp')"
    and "IsDeleted (hb_users h) (si_repos (hb_site h)) (fst rp') = Ok False"
    and "UserFrom (vi_ctx v) = Some x" and "\<not> granted (si_repos (hb_site h)) rp' x PermRead"
  shows "handleListReviewComments v owner name (Some i) h = Ok (filter (\<lambda>(_, c). rc_ReviewID c = i) (rows (cb_review_comments (hb_collab h))))
    \<and> handleListReviews v owner' name' number h = Err 404"
proof -
  obtain perm where p: "caller_perm (hb_site h) rp' (Some x) = Ok perm"
    using PermissionFor_defined assms(2) unfolding caller_perm_def by blast
  then have "perm < PermRead" using caller_granted [OF p, of PermRead] assms(7) by (auto simp: not_less [symmetric])
  then have "resolveRepo v owner' name' PermRead (hb_site h) = Err 404"
    using assms(3-6) p by (simp add: resolveRepo_def)
  then show ?thesis
    using assms(1,2) by (simp add: handleListReviewComments_def handleListReviews_def visible_def listed_def ListReviewComments_def query_def tbl_select_def)
qed

text \<open>Alice's review has one comment.\<close>

definition review_hub :: hub where
  "review_hub = demo_hub\<lparr>hb_collab := collab_New\<lparr>cb_review_comments := \<lparr>seq = 1,
     rows = [(1, \<lparr>rc_ReviewID = 5, rc_Path = ''x'', rc_Line = 3, rc_Body = ''secret''\<rparr>)]\<rparr>\<rparr>\<rparr>"

theorem review_comments_leak_witness:
  "\<exists>c. handleListReviewComments (visit_of 2 ''mallory'') ''mallory'' ''tool'' (Some 5) review_hub = Ok [(1, c)] \<and> rc_Body c = ''secret''
     \<and> handleListReviews (visit_of 2 ''mallory'') ''alice'' ''app'' (Some 1) review_hub = Err 404"
proof -
  have site: "hb_site review_hub = demo_site" by (simp add: review_hub_def)
  have v: "visible (visit_of 2 ''mallory'') ''mallory'' ''tool'' review_hub = Ok (2, demo_repo 2 ''tool'' False)"
  proof -
    note ok = loadRepoAndPerm_Ok [OF demo_access(2) [of test_env 0 PermRead]]
    have "caller_perm demo_site (2, demo_repo 2 ''tool'' False) (Some (2, demo_user ''mallory'')) = Ok PermAdmin"
      by (simp add: caller_perm_def caller_def PermissionFor_def)
    moreover have "\<not> PermAdmin < PermRead" by (simp add: not_less)
    ultimately show ?thesis using ok(1,2) by (simp add: visible_def resolveRepo_def site IsArchived_def)
  qed
  have u: "url_repo ''alice'' ''app'' demo_site = Ok (1, demo_repo 1 ''app'' True)"
    by (rule loadRepoAndPerm_Ok(1) [OF demo_access(1) [of test_env 0 PermRead]])
  have d: "IsDeleted demo_users demo_db 1 = Ok False" by (simp add: IsDeleted_def tbl_by_id_def demo_repos)
  have g: "\<not> granted demo_db (1, demo_repo 1 ''app'' True) (2, demo_user ''mallory'') PermRead"
    by (simp add: granted_def OwnerUser_def OwnerOrg_def demo_db_def repos_New_def)
  show ?thesis
    using review_comments_leak [OF v _ u [folded site], of "(2, demo_user ''mallory'')" 5 "Some 1"] d g
    by (simp add: site demo_repos) (simp add: review_hub_def)
qed

end
