(* ===== verification/Like.thy ===== *)
theory Like
  imports Prelude
begin

text \<open>
  The operator \<open>LIKE\<close> of SQL with \<open>ESCAPE '\'\<close> and the patterns of \<open>src/internal/service/store/store.go\<close>.
  SQLite ignores the case of ASCII letters, PostgreSQL does not; the argument \<open>cf\<close> is the map of bytes the
  driver compares under. Its facts show that an escaped text matches itself only, as a prefix or anywhere.
\<close>

fun like :: "(char \<Rightarrow> char) \<Rightarrow> string \<Rightarrow> string \<Rightarrow> bool" where
  "like cf [] s \<longleftrightarrow> s = []"
| "like cf (c # p) [] \<longleftrightarrow> c = CHR ''%'' \<and> like cf p []"
| "like cf (c # p) (x # s) \<longleftrightarrow>
     (if c = CHR ''%'' then like cf p (x # s) \<or> like cf (c # p) s
      else if c = CHR 0x5C then (case p of [] \<Rightarrow> False | d # q \<Rightarrow> cf d = cf x \<and> like cf q s)
      else (c = CHR ''_'' \<or> cf c = cf x) \<and> like cf p s)"

text \<open>\<open>EscapeLike\<close>: the backslash is doubled first, then the two wildcards get one.\<close>

definition ReplaceByte :: "char \<Rightarrow> string \<Rightarrow> string \<Rightarrow> string" where
  "ReplaceByte c new s = concat (map (\<lambda>x. if x = c then new else [x]) s)"

definition EscapeLike :: "string \<Rightarrow> string" where
  "EscapeLike s =
     (let s1 = ReplaceByte (CHR 0x5C) [CHR 0x5C, CHR 0x5C] s;
          s2 = ReplaceByte (CHR ''%'') [CHR 0x5C, CHR ''%''] s1
      in ReplaceByte (CHR ''_'') [CHR 0x5C, CHR ''_''] s2)"

definition ContainsPattern :: "string \<Rightarrow> string" where
  "ContainsPattern s = ''%'' @ EscapeLike s @ ''%''"

definition PrefixPattern :: "string \<Rightarrow> string" where
  "PrefixPattern s = EscapeLike s @ ''%''"

lemma EscapeLike_Nil [simp]: "EscapeLike [] = []"
  by (simp add: EscapeLike_def ReplaceByte_def)

lemma EscapeLike_Cons [simp]:
  "EscapeLike (c # s) =
     (if c \<in> {CHR 0x5C, CHR ''%'', CHR ''_''} then [CHR 0x5C, c] else [c]) @ EscapeLike s"
  by (auto simp: EscapeLike_def ReplaceByte_def)

lemma like_percent: "like cf (CHR ''%'' # p) s \<longleftrightarrow> (\<exists>t. suffix t s \<and> like cf p t)"
proof (induction s)
  case (Cons x s)
  then show ?case by (auto simp: suffix_Cons)
qed simp

lemma like_any [simp]: "like cf ''%'' s"
  by (induction s) simp_all

text \<open>An escaped text consumes exactly a text that is equal to it under \<open>cf\<close>.\<close>

lemma like_escaped:
  "like cf (EscapeLike p @ q) s \<longleftrightarrow>
     length p \<le> length s \<and> map cf (take (length p) s) = map cf p \<and> like cf q (drop (length p) s)"
proof (induction p arbitrary: s)
  case (Cons c p)
  show ?case
  proof (cases s)
    case Nil
    then show ?thesis by simp
  next
    case (Cons x s')
    then show ?thesis using Cons.IH [of s'] by (cases "c \<in> {CHR 0x5C, CHR ''%'', CHR ''_''}") auto
  qed
qed simp

lemma like_prefix_aux:
  "length p \<le> length s \<and> map cf (take (length p) s) = map cf p \<longleftrightarrow> prefix (map cf p) (map cf s)"
proof -
  have "prefix (map cf p) (map cf s) \<longleftrightarrow> take (length p) (map cf s) = map cf p"
    by (metis append_eq_conv_conj length_map prefix_def)
  also have "\<dots> \<longleftrightarrow> length p \<le> length s \<and> map cf (take (length p) s) = map cf p"
    by (auto simp: take_map dest: arg_cong [of _ _ length])
  finally show ?thesis by simp
qed

lemma like_PrefixPattern: "like cf (PrefixPattern p) s \<longleftrightarrow> prefix (map cf p) (map cf s)"
  by (simp add: PrefixPattern_def like_escaped like_prefix_aux)

lemma suffix_map_iff: "suffix t (map f s) \<longleftrightarrow> (\<exists>u. suffix u s \<and> t = map f u)"
  by (force simp: suffix_def map_eq_append_conv)

lemma like_ContainsPattern: "like cf (ContainsPattern p) s \<longleftrightarrow> sublist (map cf p) (map cf s)"
proof -
  have "like cf (ContainsPattern p) s \<longleftrightarrow> (\<exists>t. suffix t s \<and> prefix (map cf p) (map cf t))"
    by (simp add: ContainsPattern_def like_percent like_escaped like_prefix_aux)
  also have "\<dots> \<longleftrightarrow> (\<exists>t. suffix t (map cf s) \<and> prefix (map cf p) t)"
    by (auto simp: suffix_map_iff)
  also have "\<dots> \<longleftrightarrow> sublist (map cf p) (map cf s)"
    by (auto simp: sublist_def suffix_def prefix_def)
  finally show ?thesis .
qed

end
