(* ===== verification/AuditLog.thy ===== *)
theory AuditLog
  imports Like AccountHttp "HOL-Library.Multiset" "HOL-Library.List_Lexorder" "HOL-Library.Char_ord"
begin

text \<open>
  The audit log: \<open>internal/service/audit\<close> (\<open>audit.go\<close>, \<open>alert.go\<close>, \<open>stats.go\<close>) and its handlers,
  \<open>handlers_audit.go\<close>.

  The tables are \<open>audit_db\<close>. A time of the interface is in nanoseconds, \<open>created_at\<close> in seconds: the text that
  \<open>dbTime\<close> makes has seconds, and comparing such texts (of the years 0 to 9999) is comparing seconds.
  \<open>ad_fold\<close> is the comparison of bytes under \<open>LIKE\<close>. The writer in the background is \<open>audit_svc\<close>: the queue, the
  entries that a worker has received and not yet written, the number of idle workers, and the warnings of
  the log. Its steps are \<open>audit_step\<close>. An export reads the table once for every chunk, and other requests come
  between: \<open>streamCSV\<close> and \<open>streamJSON\<close> take the databases that their queries see.
\<close>

section \<open>State\<close>

record entry =
  en_ActorID :: "int option"
  en_ActorType :: string
  en_Action :: string
  en_TargetType :: string
  en_TargetID :: "int option"
  en_TargetName :: string
  en_IP :: string
  en_Detail :: string
  en_Event :: string
  en_Resource :: string
  en_OldValue :: string
  en_NewValue :: string
  en_Result :: string
  en_ErrorMessage :: string
  en_RequestID :: string
  en_UserAgent :: string
  en_Metadata :: string

record event_row = entry +
  al_CreatedAt :: int

record alert_rule =
  ar_Name :: string
  ar_Event :: string
  ar_Threshold :: int
  ar_WindowSec :: int
  ar_Channel :: string
  ar_Target :: string
  ar_Enabled :: bool
  ar_LastFiredAt :: "int option"
  ar_CreatedAt :: int

text \<open>A row of the archive is the former key and the row.\<close>

record audit_db =
  ad_logs :: "event_row table"
  ad_archive :: "(int \<times> event_row) table"
  ad_rules :: "alert_rule table"
  ad_fold :: "char \<Rightarrow> char"
  ad_down :: bool

datatype audit_error = AuditStore | ErrAuditNotFound | ErrAlertNotFound | WriterFailed

definition dbTime :: "int \<Rightarrow> int" where
  "dbTime t = t div 1000000000"

section \<open>Writing\<close>

text \<open>The defaults of \<open>write\<close>, and the row it inserts.\<close>

definition entry_defaults :: "entry \<Rightarrow> entry" where
  "entry_defaults e =
     (let e = (if en_Result e = [] then e\<lparr>en_Result := ''success''\<rparr> else e);
          e = (if en_ActorType e = [] then e\<lparr>en_ActorType := ''user''\<rparr> else e);
          e = (if en_Event e = [] then e\<lparr>en_Event := en_Action e\<rparr> else e);
          e = (if en_Action e = [] then e\<lparr>en_Action := en_Event e\<rparr> else e)
      in if en_Resource e = [] then e\<lparr>en_Resource := before_byte (CHR ''.'') (en_Event e)\<rparr> else e)"

definition row_of :: "int \<Rightarrow> entry \<Rightarrow> event_row" where
  "row_of now e = entry.extend e (event_row.fields (dbTime now))"

definition audit_write :: "int \<Rightarrow> entry \<Rightarrow> audit_db \<Rightarrow> (audit_error + unit) \<times> audit_db" where
  "audit_write now e db =
     (if ad_down db then (Err AuditStore, db)
      else (Ok (), db\<lparr>ad_logs := tbl_insert (row_of now (entry_defaults e)) (ad_logs db)\<rparr>))"

section \<open>Queries\<close>

record audit_query =
  aq_Event :: string
  aq_ActorID :: "int option"
  aq_Target :: string
  aq_Result :: string
  aq_From :: "int option"
  aq_To :: "int option"
  aq_Limit :: int
  aq_Offset :: int

definition aq_matches :: "(char \<Rightarrow> char) \<Rightarrow> audit_query \<Rightarrow> event_row \<Rightarrow> bool" where
  "aq_matches cf f r \<longleftrightarrow>
     (aq_Event f \<noteq> [] \<longrightarrow> like cf (PrefixPattern (aq_Event f)) (en_Event r)) \<and>
     (case aq_ActorID f of None \<Rightarrow> True | Some i \<Rightarrow> en_ActorID r = Some i) \<and>
     (aq_Target f \<noteq> [] \<longrightarrow>
        en_TargetType r = aq_Target f \<or> like cf (ContainsPattern (aq_Target f)) (en_TargetName r)) \<and>
     (aq_Result f \<noteq> [] \<longrightarrow> en_Result r = aq_Result f) \<and>
     (case aq_From f of None \<Rightarrow> True | Some t \<Rightarrow> dbTime t \<le> al_CreatedAt r) \<and>
     (case aq_To f of None \<Rightarrow> True | Some t \<Rightarrow> al_CreatedAt r \<le> dbTime t)"

text \<open>The rows of the filter, newest first. SQLite reads a negative offset as zero.\<close>

definition aq_rows :: "audit_db \<Rightarrow> audit_query \<Rightarrow> (int \<times> event_row) list" where
  "aq_rows db f = rev (tbl_select (\<lambda>_. aq_matches (ad_fold db) f) (ad_logs db))"

definition aq_limit :: "audit_query \<Rightarrow> nat" where
  "aq_limit f = (if aq_Limit f \<le> 0 \<or> aq_Limit f > 200 then 50 else nat (aq_Limit f))"

text \<open>\<open>scanLogs\<close>: the queries do not select \<open>detail\<close>, so the field of the answer is empty.\<close>

definition scanLogs :: "(int \<times> event_row) list \<Rightarrow> (int \<times> event_row) list" where
  "scanLogs xs = map (\<lambda>(i, r). (i, r\<lparr>en_Detail := []\<rparr>)) xs"

definition audit_Query :: "audit_db \<Rightarrow> audit_query \<Rightarrow> audit_error + (int \<times> event_row) list" where
  "audit_Query db f =
     (if ad_down db then Err AuditStore else Ok (scanLogs (take (aq_limit f) (drop (nat (aq_Offset f)) (aq_rows db f)))))"

definition audit_List :: "audit_db \<Rightarrow> int \<Rightarrow> int \<Rightarrow> audit_error + (int \<times> event_row) list" where
  "audit_List db limit off =
     audit_Query db \<lparr>aq_Event = [], aq_ActorID = None, aq_Target = [], aq_Result = [], aq_From = None, aq_To = None,
       aq_Limit = limit, aq_Offset = off\<rparr>"

definition audit_Get :: "audit_db \<Rightarrow> int \<Rightarrow> audit_error + (int \<times> event_row)" where
  "audit_Get db i =
     (if ad_down db then Err AuditStore
      else case tbl_find (\<lambda>j _. j = i) (ad_logs db) of None \<Rightarrow> Err ErrAuditNotFound | Some x \<Rightarrow> Ok (hd (scanLogs [x])))"

definition audit_Count :: "audit_db \<Rightarrow> audit_query \<Rightarrow> audit_error + nat" where
  "audit_Count db f = map_sum id length (audit_Query db (f\<lparr>aq_Limit := 200, aq_Offset := 0\<rparr>))"

section \<open>Export\<close>

text \<open>A writer that fails after a number of writes, or never.\<close>

record writer =
  wr_out :: string
  wr_left :: "nat option"

definition wr_write :: "string \<Rightarrow> writer \<Rightarrow> bool \<times> writer" where
  "wr_write p w =
     (case wr_left w of
        None \<Rightarrow> (True, w\<lparr>wr_out := wr_out w @ p\<rparr>)
      | Some 0 \<Rightarrow> (False, w)
      | Some (Suc n) \<Rightarrow> (True, w\<lparr>wr_out := wr_out w @ p, wr_left := Some n\<rparr>))"

text \<open>\<open>time.Format(time.RFC3339)\<close> in UTC: the civil date of a number of days since 1970.\<close>

definition civil :: "int \<Rightarrow> int \<times> int \<times> int" where
  "civil days =
     (let z = days + 719468; era = z div 146097; doe = z mod 146097;
          yoe = (doe - doe div 1460 + doe div 36524 - doe div 146096) div 365;
          doy = doe - (365 * yoe + yoe div 4 - yoe div 100);
          mp = (5 * doy + 2) div 153;
          d = doy - (153 * mp + 2) div 5 + 1;
          m = (if mp < 10 then mp + 3 else mp - 9)
      in (yoe + era * 400 + (if m \<le> 2 then 1 else 0), m, d))"

definition pad :: "nat \<Rightarrow> int \<Rightarrow> string" where
  "pad n i = (let s = nat_str (nat i) in replicate (n - length s) (CHR ''0'') @ s)"

definition rfc3339 :: "int \<Rightarrow> string" where
  "rfc3339 t =
     (let (y, m, d) = civil (t div 86400); s = t mod 86400
      in pad 4 y @ ''-'' @ pad 2 m @ ''-'' @ pad 2 d @ ''T'' @
         pad 2 (s div 3600) @ '':'' @ pad 2 (s div 60 mod 60) @ '':'' @ pad 2 (s mod 60) @ ''Z'')"

definition idStr :: "int option \<Rightarrow> string" where
  "idStr i = (case i of None \<Rightarrow> [] | Some n \<Rightarrow> FormatInt n)"

definition csv_header :: string where
  "csv_header = ''id,created_at,actor_id,actor_type,event,resource,action,target_type,target_id,result,actor_ip'' @ [CHR 0x0A]"

definition csv_line :: "int \<times> event_row \<Rightarrow> string" where
  "csv_line x =
     (case x of (i, a) \<Rightarrow>
       join '','' [FormatInt i, rfc3339 (al_CreatedAt a), idStr (en_ActorID a), en_ActorType a, en_Event a, en_Resource a,
         en_Action a, en_TargetType a, idStr (en_TargetID a), en_Result a, en_IP a] @ [CHR 0x0A])"

text \<open>The rows of one chunk: what was written before a failure, and whether there was one.\<close>

fun csv_rows :: "(int \<times> event_row) list \<Rightarrow> int \<Rightarrow> writer \<Rightarrow> bool \<times> int \<times> writer" where
  "csv_rows [] cnt w = (True, cnt, w)"
| "csv_rows (a # logs) cnt w =
     (let (ok, w1) = wr_write (csv_line a) w in if ok then csv_rows logs (cnt + 1) w1 else (False, cnt, w1))"

partial_function (option) csv_loop ::
    "(nat \<Rightarrow> audit_db) \<Rightarrow> audit_query \<Rightarrow> nat \<Rightarrow> int \<Rightarrow> int \<Rightarrow> writer \<Rightarrow> ((int \<times> audit_error option) \<times> writer) option" where
  "csv_loop dbs f k offset cnt w =
     (case audit_Query (dbs k) (f\<lparr>aq_Offset := offset, aq_Limit := 500\<rparr>) of
        Err e \<Rightarrow> Some ((cnt, Some e), w)
      | Ok logs \<Rightarrow>
          if logs = [] then Some ((cnt, None), w)
          else case csv_rows logs cnt w of
                 (ok, c, w1) \<Rightarrow>
                   if ok then csv_loop dbs f (k + 1) (offset + int (length logs)) c w1
                   else Some ((c, Some WriterFailed), w1))"

definition streamCSV :: "(nat \<Rightarrow> audit_db) \<Rightarrow> audit_query \<Rightarrow> writer \<Rightarrow> ((int \<times> audit_error option) \<times> writer) option" where
  "streamCSV dbs f w =
     (let (ok, w1) = wr_write csv_header w in
      if ok then csv_loop dbs f 0 0 0 w1 else Some ((0, Some WriterFailed), w1))"

text \<open>\<open>marshal\<close> stands for \<open>json.Marshal\<close> of a row.\<close>

fun json_rows ::
    "(int \<times> event_row \<Rightarrow> string) \<Rightarrow> (int \<times> event_row) list \<Rightarrow> bool \<Rightarrow> int \<Rightarrow> writer \<Rightarrow> bool \<times> int \<times> writer" where
  "json_rows marshal [] first cnt w = (True, cnt, w)"
| "json_rows marshal (a # logs) first cnt w =
     (let (ok, w1) = (if first then (True, w) else wr_write [CHR '','', CHR 0x0A] w) in
      if \<not> ok then (False, cnt, w1)
      else let (ok, w2) = wr_write (marshal a) w1 in
           if \<not> ok then (False, cnt, w2) else json_rows marshal logs False (cnt + 1) w2)"

partial_function (option) json_loop ::
    "(int \<times> event_row \<Rightarrow> string) \<Rightarrow> (nat \<Rightarrow> audit_db) \<Rightarrow> audit_query \<Rightarrow> nat \<Rightarrow> int \<Rightarrow> bool \<Rightarrow> int \<Rightarrow> writer
      \<Rightarrow> ((int \<times> audit_error option) \<times> writer) option" where
  "json_loop marshal dbs f k offset first cnt w =
     (case audit_Query (dbs k) (f\<lparr>aq_Offset := offset, aq_Limit := 500\<rparr>) of
        Err e \<Rightarrow> Some ((cnt, Some e), w)
      | Ok logs \<Rightarrow>
          if logs = [] then Some ((cnt, None), w)
          else case json_rows marshal logs first cnt w of
                 (ok, c, w1) \<Rightarrow>
                   if ok then json_loop marshal dbs f (k + 1) (offset + int (length logs)) False c w1
                   else Some ((c, Some WriterFailed), w1))"

definition streamJSON ::
    "(int \<times> event_row \<Rightarrow> string) \<Rightarrow> (nat \<Rightarrow> audit_db) \<Rightarrow> audit_query \<Rightarrow> writer
      \<Rightarrow> ((int \<times> audit_error option) \<times> writer) option" where
  "streamJSON marshal dbs f w =
     (let (ok, w1) = wr_write [CHR ''['', CHR 0x0A] w in
      if \<not> ok then Some ((0, Some WriterFailed), w1)
      else case json_loop marshal dbs f 0 0 True 0 w1 of
             None \<Rightarrow> None
           | Some ((cnt, err), w2) \<Rightarrow>
               if err \<noteq> None then Some ((cnt, err), w2)
               else let (ok, w3) = wr_write [CHR 0x0A, CHR '']'', CHR 0x0A] w2
                    in Some ((cnt, if ok then None else Some WriterFailed), w3))"

definition audit_Stream ::
    "(int \<times> event_row \<Rightarrow> string) \<Rightarrow> (nat \<Rightarrow> audit_db) \<Rightarrow> audit_query \<Rightarrow> string \<Rightarrow> writer
      \<Rightarrow> ((int \<times> audit_error option) \<times> writer) option" where
  "audit_Stream marshal dbs f format w =
     (let f = f\<lparr>aq_Limit := 0\<rparr> in if format = ''json'' then streamJSON marshal dbs f w else streamCSV dbs f w)"

section \<open>Archive\<close>

text \<open>\<open>AddDate(0, 0, -days)\<close> in a zone whose clock does not change.\<close>

definition archive_cutoff :: "int \<Rightarrow> int \<Rightarrow> int" where
  "archive_cutoff now days = dbTime (now - days * 86400 * 1000000000)"

definition archive_insert :: "int \<Rightarrow> audit_db \<Rightarrow> audit_db" where
  "archive_insert c db = db\<lparr>ad_archive := fold tbl_insert (tbl_select (\<lambda>_ r. al_CreatedAt r < c) (ad_logs db)) (ad_archive db)\<rparr>"

definition archive_delete :: "int \<Rightarrow> audit_db \<Rightarrow> audit_db" where
  "archive_delete c db = db\<lparr>ad_logs := tbl_delete (\<lambda>_ r. al_CreatedAt r < c) (ad_logs db)\<rparr>"

definition audit_Archive :: "int \<Rightarrow> int \<Rightarrow> audit_db \<Rightarrow> (audit_error + nat) \<times> audit_db" where
  "audit_Archive now retentionDays db =
     (if retentionDays \<le> 0 then (Ok 0, db)
      else if ad_down db then (Err AuditStore, db)
      else let c = archive_cutoff now retentionDays; db1 = archive_insert c db
           in (Ok (tbl_count (\<lambda>_ r. al_CreatedAt r < c) (ad_logs db1)), archive_delete c db1))"

section \<open>Alert rules\<close>

definition AlertRuleByID :: "audit_db \<Rightarrow> int \<Rightarrow> audit_error + (int \<times> alert_rule)" where
  "AlertRuleByID db i =
     (if ad_down db then Err AuditStore
      else case tbl_find (\<lambda>j _. j = i) (ad_rules db) of None \<Rightarrow> Err ErrAlertNotFound | Some x \<Rightarrow> Ok x)"

definition CreateAlertRule :: "int \<Rightarrow> alert_rule \<Rightarrow> audit_db \<Rightarrow> (audit_error + int \<times> alert_rule) \<times> audit_db" where
  "CreateAlertRule now r db =
     (let r = (if ar_Channel r = [] then r\<lparr>ar_Channel := ''email''\<rparr> else r);
          r = (if ar_Threshold r \<le> 0 then r\<lparr>ar_Threshold := 10\<rparr> else r);
          r = (if ar_WindowSec r \<le> 0 then r\<lparr>ar_WindowSec := 300\<rparr> else r)
      in if ad_down db then (Err AuditStore, db)
         else let t = tbl_insert (r\<lparr>ar_LastFiredAt := None, ar_CreatedAt := dbTime now\<rparr>) (ad_rules db);
                  db1 = db\<lparr>ad_rules := t\<rparr>
              in (AlertRuleByID db1 (seq t), db1))"

definition ListAlertRules :: "audit_db \<Rightarrow> audit_error + (int \<times> alert_rule) list" where
  "ListAlertRules db = (if ad_down db then Err AuditStore else Ok (rows (ad_rules db)))"

definition UpdateAlertRule ::
    "int \<Rightarrow> string \<Rightarrow> string \<Rightarrow> int \<Rightarrow> int \<Rightarrow> string \<Rightarrow> string \<Rightarrow> bool \<Rightarrow> audit_db \<Rightarrow> (audit_error + unit) \<times> audit_db" where
  "UpdateAlertRule i name event threshold windowSec channel target enabled db =
     (if ad_down db then (Err AuditStore, db)
      else (Ok (), db\<lparr>ad_rules := tbl_update (\<lambda>j _. j = i) (\<lambda>r. r\<lparr>
          ar_Name := (if name \<noteq> [] then name else ar_Name r),
          ar_Event := (if event \<noteq> [] then event else ar_Event r),
          ar_Threshold := (if threshold > 0 then threshold else ar_Threshold r),
          ar_WindowSec := (if windowSec > 0 then windowSec else ar_WindowSec r),
          ar_Channel := (if channel \<noteq> [] then channel else ar_Channel r),
          ar_Target := (if target \<noteq> [] then target else ar_Target r),
          ar_Enabled := enabled\<rparr>) (ad_rules db)\<rparr>))"

definition DeleteAlertRule :: "int \<Rightarrow> audit_db \<Rightarrow> (audit_error + unit) \<times> audit_db" where
  "DeleteAlertRule i db =
     (if ad_down db then (Err AuditStore, db) else (Ok (), db\<lparr>ad_rules := tbl_delete (\<lambda>j _. j = i) (ad_rules db)\<rparr>))"

definition alert_count :: "int \<Rightarrow> audit_db \<Rightarrow> alert_rule \<Rightarrow> nat" where
  "alert_count now db r =
     tbl_count (\<lambda>_ a. like (ad_fold db) (PrefixPattern (ar_Event r)) (en_Event a) \<and>
                      dbTime (now - ar_WindowSec r * 1000000000) \<le> al_CreatedAt a) (ad_logs db)"

definition EvaluateAlerts :: "int \<Rightarrow> audit_db \<Rightarrow> audit_error + ((int \<times> alert_rule) \<times> nat) list" where
  "EvaluateAlerts now db =
     (case ListAlertRules db of
        Err e \<Rightarrow> Err e
      | Ok rules \<Rightarrow> Ok (concat (map (\<lambda>(i, r).
          if \<not> ar_Enabled r then []
          else let n = alert_count now db r in if int n \<ge> ar_Threshold r then [((i, r), n)] else []) rules)))"

definition MarkAlertFired :: "int \<Rightarrow> int \<Rightarrow> audit_db \<Rightarrow> (audit_error + unit) \<times> audit_db" where
  "MarkAlertFired now i db =
     (if ad_down db then (Err AuditStore, db)
      else (Ok (), db\<lparr>ad_rules := tbl_update (\<lambda>j _. j = i) (\<lambda>r. r\<lparr>ar_LastFiredAt := Some now\<rparr>) (ad_rules db)\<rparr>))"

section \<open>Statistics\<close>

text \<open>\<open>GROUP BY\<close> and \<open>COUNT(*)\<close>, the groups in the order of their keys.\<close>

definition group_count :: "('k :: linorder) list \<Rightarrow> ('k \<times> nat) list" where
  "group_count ks = map (\<lambda>k. (k, length (filter ((=) k) ks))) (remdups (sort ks))"

text \<open>\<open>ORDER BY COUNT(*) DESC LIMIT 50\<close>; the database may order groups of the same size otherwise.\<close>

definition top_counts :: "('k :: linorder) list \<Rightarrow> ('k \<times> nat) list" where
  "top_counts ks = take 50 (sort_key (\<lambda>(_, n). - int n) (group_count ks))"

record audit_stats =
  st_ByDay :: "(string \<times> nat) list"
  st_ByEvent :: "(string \<times> nat) list"
  st_ByActor :: "(string \<times> nat) list"

definition StatsSince :: "int \<Rightarrow> audit_db \<Rightarrow> audit_error + audit_stats" where
  "StatsSince since db =
     (if ad_down db then Err AuditStore
      else let rs = map snd (tbl_select (\<lambda>_ r. dbTime since \<le> al_CreatedAt r) (ad_logs db))
           in Ok \<lparr>st_ByDay = group_count (map (\<lambda>r. take 10 (rfc3339 (al_CreatedAt r))) rs),
                  st_ByEvent = top_counts (map en_Event rs),
                  st_ByActor = map (\<lambda>(i, n). (FormatInt i, n)) (top_counts (List.map_filter en_ActorID rs))\<rparr>)"

section \<open>The writer in the background\<close>

record audit_svc =
  aw_db :: audit_db
  aw_queue :: "entry list"
  aw_busy :: "entry list"
  aw_idle :: nat
  aw_stopped :: bool
  aw_warned :: "entry list"

definition audit_queue_cap :: nat where "audit_queue_cap = 1024"

definition audit_New :: "audit_db \<Rightarrow> audit_svc" where
  "audit_New db = \<lparr>aw_db = db, aw_queue = [], aw_busy = [], aw_idle = 0, aw_stopped = False, aw_warned = []\<rparr>"

text \<open>A write whose failure is a warning in the log.\<close>

definition write_or_warn :: "int \<Rightarrow> entry \<Rightarrow> audit_svc \<Rightarrow> audit_svc" where
  "write_or_warn now e s =
     (case audit_write now e (aw_db s) of
        (Err _, _) \<Rightarrow> s\<lparr>aw_warned := aw_warned s @ [e]\<rparr>
      | (Ok _, db) \<Rightarrow> s\<lparr>aw_db := db\<rparr>)"

definition audit_Log :: "int \<Rightarrow> entry \<Rightarrow> audit_svc \<Rightarrow> audit_svc" where
  "audit_Log now e s =
     (if length (aw_queue s) < audit_queue_cap then s\<lparr>aw_queue := aw_queue s @ [e]\<rparr> else write_or_warn now e s)"

definition audit_Record :: "int \<Rightarrow> entry \<Rightarrow> audit_svc \<Rightarrow> (audit_error + unit) \<times> audit_svc" where
  "audit_Record now e s = (case audit_write now e (aw_db s) of (r, db) \<Rightarrow> (r, s\<lparr>aw_db := db\<rparr>))"

definition audit_Start :: "audit_svc \<Rightarrow> audit_svc" where
  "audit_Start s = s\<lparr>aw_idle := aw_idle s + 2\<rparr>"

text \<open>
  The two steps of a worker that is idle, between which \<open>select\<close> chooses at random when both can happen, and the
  end of the write it is busy with.
\<close>

definition worker_receive :: "audit_svc \<Rightarrow> audit_svc option" where
  "worker_receive s =
     (case aw_queue s of
        [] \<Rightarrow> None
      | e # q \<Rightarrow>
          if aw_idle s = 0 then None
          else Some (s\<lparr>aw_queue := q, aw_busy := aw_busy s @ [e], aw_idle := aw_idle s - 1\<rparr>))"

definition worker_return :: "audit_svc \<Rightarrow> audit_svc option" where
  "worker_return s = (if aw_stopped s \<and> aw_idle s > 0 then Some (s\<lparr>aw_idle := aw_idle s - 1\<rparr>) else None)"

definition worker_write :: "int \<Rightarrow> nat \<Rightarrow> audit_svc \<Rightarrow> audit_svc option" where
  "worker_write now i s =
     (if i < length (aw_busy s)
      then Some (write_or_warn now (aw_busy s ! i)
             (s\<lparr>aw_busy := take i (aw_busy s) @ drop (Suc i) (aw_busy s), aw_idle := aw_idle s + 1\<rparr>))
      else None)"

text \<open>\<open>Stop\<close> closes the channel and returns when no worker is left.\<close>

definition audit_close :: "audit_svc \<Rightarrow> audit_svc" where "audit_close s = s\<lparr>aw_stopped := True\<rparr>"
definition audit_waited :: "audit_svc \<Rightarrow> bool" where "audit_waited s \<longleftrightarrow> aw_stopped s \<and> aw_idle s = 0 \<and> aw_busy s = []"

datatype audit_act =
    ALog int entry | ARecord int entry | AStart | AReceive | AWrite int nat | AReturn | AStop
  | AArchive int int | ADatabase bool

fun audit_step :: "audit_act \<Rightarrow> audit_svc \<Rightarrow> audit_svc option" where
  "audit_step (ALog now e) s = Some (audit_Log now e s)"
| "audit_step (ARecord now e) s = Some (snd (audit_Record now e s))"
| "audit_step AStart s = Some (audit_Start s)"
| "audit_step AReceive s = worker_receive s"
| "audit_step (AWrite now i) s = worker_write now i s"
| "audit_step AReturn s = worker_return s"
| "audit_step AStop s = Some (audit_close s)"
| "audit_step (AArchive now days) s = Some (s\<lparr>aw_db := snd (audit_Archive now days (aw_db s))\<rparr>)"
| "audit_step (ADatabase d) s = Some (s\<lparr>aw_db := (aw_db s)\<lparr>ad_down := d\<rparr>\<rparr>)"

fun audit_run :: "audit_act list \<Rightarrow> audit_svc \<Rightarrow> audit_svc option" where
  "audit_run [] s = Some s"
| "audit_run (a # as) s = (case audit_step a s of None \<Rightarrow> None | Some s1 \<Rightarrow> audit_run as s1)"

section \<open>Entries of the callers\<close>

definition no_entry :: entry where
  "no_entry = \<lparr>en_ActorID = None, en_ActorType = [], en_Action = [], en_TargetType = [], en_TargetID = None,
     en_TargetName = [], en_IP = [], en_Detail = [], en_Event = [], en_Resource = [], en_OldValue = [], en_NewValue = [],
     en_Result = [], en_ErrorMessage = [], en_RequestID = [], en_UserAgent = [], en_Metadata = []\<rparr>"

text \<open>\<open>ip\<close> is the answer of \<open>clientIP\<close>, \<open>reqID\<close> the header of the request.\<close>

definition auditAction :: "user option \<Rightarrow> string \<Rightarrow> http_request \<Rightarrow> string \<Rightarrow> int \<Rightarrow> string \<Rightarrow> string \<Rightarrow> entry" where
  "auditAction u ip rq reqID userID action result =
     (let n = length (before_byte (CHR ''.'') action);
          resource = (if n < length action \<and> n > 0 then take n action else action)
      in no_entry\<lparr>en_ActorID := Some userID,
           en_ActorType := (case u of Some (_, r) \<Rightarrow> if u_IsAdmin r then ''admin'' else ''user'' | None \<Rightarrow> ''user''),
           en_Action := action, en_Event := action, en_Resource := resource, en_TargetType := resource,
           en_Result := result, en_IP := ip, en_UserAgent := rq_UserAgent rq, en_RequestID := reqID\<rparr>)"

definition auditLogin :: "string \<Rightarrow> http_request \<Rightarrow> string \<Rightarrow> int option \<Rightarrow> string \<Rightarrow> bool \<Rightarrow> entry" where
  "auditLogin ip rq reqID userID action ok =
     (let result = (if ok then ''success'' else ''failure'');
          event = (if action = ''login'' then ''auth.login.'' @ result else ''auth.'' @ action)
      in no_entry\<lparr>en_ActorID := userID, en_ActorType := ''user'', en_Event := event, en_Resource := ''auth'',
           en_Action := event, en_Result := result, en_IP := ip, en_UserAgent := rq_UserAgent rq, en_RequestID := reqID\<rparr>)"

definition auditPermissionDenied :: "string \<Rightarrow> int \<Rightarrow> string \<Rightarrow> string \<Rightarrow> entry" where
  "auditPermissionDenied ip userID resource action =
     no_entry\<lparr>en_ActorID := Some userID, en_Action := ''permission.denied'', en_TargetType := ''repo'', en_IP := ip,
       en_Detail := resource @ '':'' @ action\<rparr>"

definition cliAudit :: "string \<Rightarrow> string \<Rightarrow> entry" where
  "cliAudit event detail =
     no_entry\<lparr>en_ActorType := ''system'', en_Event := event, en_Resource := before_byte (CHR ''.'') event,
       en_Action := event, en_Result := ''success'', en_IP := ''127.0.0.1'', en_Detail := detail\<rparr>"

definition auditPushEvent :: "int \<Rightarrow> string \<Rightarrow> string \<Rightarrow> string \<Rightarrow> string list \<Rightarrow> string \<Rightarrow> string \<Rightarrow> string \<Rightarrow> entry" where
  "auditPushEvent repoID event owner repoName refs actorName result errMsg =
     no_entry\<lparr>en_ActorType := ''user'', en_Event := event, en_Resource := ''git'', en_Action := event,
       en_TargetType := ''repo'', en_TargetID := Some repoID, en_TargetName := owner @ ''/'' @ repoName,
       en_Result := result, en_ErrorMessage := errMsg,
       en_Metadata := [CHR ''{'', CHR 0x22] @ ''refs'' @ [CHR 0x22, CHR '':'', CHR 0x22] @ join '','' refs @
         [CHR 0x22, CHR '','', CHR 0x22] @ ''actor'' @ [CHR 0x22, CHR '':'', CHR 0x22] @ actorName @ [CHR 0x22, CHR ''}'']\<rparr>"

section \<open>Handlers\<close>

text \<open>\<open>strconv.ParseInt(s, 10, 64)\<close>\<close>

definition ParseInt :: "string \<Rightarrow> int option" where
  "ParseInt s =
     (let neg = has_prefix s ''-''; d = (if neg \<or> has_prefix s ''+'' then tl s else s)
      in if d = [] \<or> (\<exists>c \<in> set d. \<not> (48 \<le> (of_char c :: nat) \<and> (of_char c :: nat) \<le> 57)) then None
         else let n = (if neg then - int (nat_val d) else int (nat_val d))
              in if - (2 ^ 63) \<le> n \<and> n < 2 ^ 63 then Some n else None)"

text \<open>\<open>time.Parse\<close> with a layout is an argument; the first layout that fits decides.\<close>

definition parseTimeParam :: "(string \<Rightarrow> string \<Rightarrow> int option) \<Rightarrow> string \<Rightarrow> int option" where
  "parseTimeParam time_Parse v =
     (case List.map_filter (\<lambda>layout. time_Parse layout v) [''2006-01-02T15:04:05Z07:00'', ''2006-01-02T15:04'', ''2006-01-02''] of
        [] \<Rightarrow> None | t # _ \<Rightarrow> Some t)"

definition parseAuditQuery :: "(string \<Rightarrow> string \<Rightarrow> int option) \<Rightarrow> (string \<Rightarrow> string) \<Rightarrow> audit_query" where
  "parseAuditQuery time_Parse get =
     \<lparr>aq_Event = get ''event'',
      aq_ActorID = (if get ''actor_id'' \<noteq> [] then ParseInt (get ''actor_id'') else None),
      aq_Target = get ''target'', aq_Result = get ''result'',
      aq_From = (if get ''from'' \<noteq> [] then parseTimeParam time_Parse (get ''from'') else None),
      aq_To = (if get ''to'' \<noteq> [] then parseTimeParam time_Parse (get ''to'') else None),
      aq_Limit = (case ParseInt (get ''limit'') of Some n \<Rightarrow> n | None \<Rightarrow> 0),
      aq_Offset = (case ParseInt (get ''offset'') of Some n \<Rightarrow> n | None \<Rightarrow> 0)\<rparr>"

definition reply_rows :: "audit_error + 'a list \<Rightarrow> int \<times> 'a list" where
  "reply_rows r = (case r of Err _ \<Rightarrow> (500, []) | Ok xs \<Rightarrow> (200, xs))"

definition handleAuditQuery :: "user option \<Rightarrow> audit_query \<Rightarrow> audit_db \<Rightarrow> int \<times> (int \<times> event_row) list" where
  "handleAuditQuery admin q db =
     (case requireAdmin admin of Some c \<Rightarrow> (c, []) | None \<Rightarrow> reply_rows (audit_Query db q))"

definition handleAuditGet :: "user option \<Rightarrow> int option \<Rightarrow> audit_db \<Rightarrow> int \<times> (int \<times> event_row) list" where
  "handleAuditGet admin uid db =
     (case requireAdmin admin of
        Some c \<Rightarrow> (c, [])
      | None \<Rightarrow>
          (case uid of
             None \<Rightarrow> (400, [])
           | Some i \<Rightarrow> (case audit_Get db i of Err _ \<Rightarrow> (404, []) | Ok a \<Rightarrow> (200, [a]))))"

text \<open>An export answers 200 whatever happens after its first byte; \<^const>\<open>None\<close> for one that does not end.\<close>

definition handleAuditExport ::
    "(int \<times> event_row \<Rightarrow> string) \<Rightarrow> user option \<Rightarrow> string \<Rightarrow> audit_query \<Rightarrow> (nat \<Rightarrow> audit_db) \<Rightarrow> writer \<Rightarrow> (int \<times> string) option" where
  "handleAuditExport marshal admin format q dbs w =
     (case requireAdmin admin of
        Some c \<Rightarrow> Some (c, [])
      | None \<Rightarrow>
          map_option (\<lambda>(_, w1). (200, wr_out w1))
            (audit_Stream marshal dbs q (if format \<noteq> ''json'' then ''csv'' else format) w))"

definition handleAuditStats :: "int \<Rightarrow> user option \<Rightarrow> string \<Rightarrow> audit_db \<Rightarrow> int \<times> audit_stats list" where
  "handleAuditStats now admin days_param db =
     (case requireAdmin admin of
        Some c \<Rightarrow> (c, [])
      | None \<Rightarrow>
          let days = (case ParseInt days_param of Some n \<Rightarrow> if n > 0 \<and> n \<le> 365 then n else 30 | None \<Rightarrow> 30)
          in (case StatsSince (now - days * 86400 * 1000000000) db of Err _ \<Rightarrow> (500, []) | Ok st \<Rightarrow> (200, [st])))"

definition handleAuditArchive :: "int \<Rightarrow> int \<Rightarrow> user option \<Rightarrow> string \<Rightarrow> audit_db \<Rightarrow> (int \<times> nat) \<times> audit_db" where
  "handleAuditArchive now RetentionDays admin param db =
     (case requireAdmin admin of
        Some c \<Rightarrow> ((c, 0), db)
      | None \<Rightarrow>
          let days = (case ParseInt param of Some n \<Rightarrow> n | None \<Rightarrow> RetentionDays)
          in (case audit_Archive now days db of (Err _, db1) \<Rightarrow> ((500, 0), db1) | (Ok n, db1) \<Rightarrow> ((200, n), db1)))"

definition handleListAlertRules :: "user option \<Rightarrow> audit_db \<Rightarrow> int \<times> (int \<times> alert_rule) list" where
  "handleListAlertRules admin db =
     (case requireAdmin admin of Some c \<Rightarrow> (c, []) | None \<Rightarrow> reply_rows (ListAlertRules db))"

text \<open>\<open>req\<close> is \<^const>\<open>None\<close> when the body is not the JSON of a rule.\<close>

definition handleCreateAlertRule :: "int \<Rightarrow> user option \<Rightarrow> alert_rule option \<Rightarrow> audit_db \<Rightarrow> int \<times> audit_db" where
  "handleCreateAlertRule now admin req db =
     (case requireAdmin admin of
        Some c \<Rightarrow> (c, db)
      | None \<Rightarrow>
          (case req of
             None \<Rightarrow> (400, db)
           | Some r \<Rightarrow> (case CreateAlertRule now r db of (Err _, db1) \<Rightarrow> (500, db1) | (Ok _, db1) \<Rightarrow> (201, db1))))"

definition handleDeleteAlertRule :: "user option \<Rightarrow> int option \<Rightarrow> audit_db \<Rightarrow> int \<times> audit_db" where
  "handleDeleteAlertRule admin uid db =
     (case requireAdmin admin of
        Some c \<Rightarrow> (c, db)
      | None \<Rightarrow>
          (case uid of
             None \<Rightarrow> (400, db)
           | Some i \<Rightarrow> (case DeleteAlertRule i db of (Err _, db1) \<Rightarrow> (500, db1) | (Ok _, db1) \<Rightarrow> (200, db1))))"

definition handleMyActivity :: "user option \<Rightarrow> audit_query \<Rightarrow> audit_db \<Rightarrow> int \<times> (int \<times> event_row) list" where
  "handleMyActivity u q db =
     (case u of None \<Rightarrow> (401, []) | Some (i, _) \<Rightarrow> reply_rows (audit_Query db (q\<lparr>aq_ActorID := Some i\<rparr>)))"

end
