(* ===== verification/AuditClaims.thy ===== *)
theory AuditClaims
  imports AuditLog
begin

text \<open>
  What holds of the audit log: an entry that was handed over is in the tables, the archive, the queue, with a
  worker or among the warnings, exactly once, whatever the order of the steps; an export ends as soon as
  the table rests, and prints every row of the filter once, newest first, when nobody writes meanwhile.
\<close>

section \<open>Conservation of entries\<close>

definition written :: "audit_db \<Rightarrow> entry multiset" where
  "written db = image_mset (\<lambda>(_, r). entry.truncate r) (mset (rows (ad_logs db)))
     + image_mset (\<lambda>(_, _, r). entry.truncate r) (mset (rows (ad_archive db)))"

definition in_flight :: "audit_svc \<Rightarrow> entry multiset" where
  "in_flight s = mset (aw_queue s) + mset (aw_busy s) + mset (aw_warned s)"

text \<open>The entries handed over in a run: those of \<open>Log\<close>, and those of \<open>Record\<close> whose caller was told \<open>nil\<close>.\<close>

fun handed :: "audit_act list \<Rightarrow> audit_svc \<Rightarrow> entry multiset" where
  "handed [] s = {#}"
| "handed (a # as) s =
     (case a of
        ALog _ e \<Rightarrow> {#e#}
      | ARecord now e \<Rightarrow> (if is_ok (fst (audit_Record now e s)) then {#e#} else {#})
      | _ \<Rightarrow> {#}) + (case audit_step a s of None \<Rightarrow> {#} | Some s1 \<Rightarrow> handed as s1)"

lemma truncate_row_of [simp]: "entry.truncate (row_of now e) = e"
  by (simp add: row_of_def entry.truncate_def entry.extend_def event_row.fields_def)

lemma written_insert:
  "written (db\<lparr>ad_logs := tbl_insert (row_of now e) (ad_logs db)\<rparr>) = written db + {#e#}"
  by (simp add: written_def)

lemma written_down [simp]: "written (db\<lparr>ad_down := d\<rparr>) = written db"
  by (simp add: written_def)

lemma audit_write_written:
  "audit_write now e db = (r, db1) \<Longrightarrow> written db1 = written db + (if is_ok r then {#entry_defaults e#} else {#})"
  by (auto simp: audit_write_def written_insert split: if_splits)

lemma rows_fold_insert:
  "map snd (rows (fold tbl_insert xs t)) = map snd (rows t) @ xs"
  by (induction xs arbitrary: t) simp_all

lemma image_mset_rows: "image_mset (\<lambda>(_, r). g r) (mset xs) = image_mset g (mset (map snd xs))"
  by (induction xs) auto

lemma filter_parts:
  "image_mset g (mset (filter (\<lambda>(_, r). \<not> P r) xs)) + image_mset g (mset (filter (\<lambda>(_, r). P r) xs)) = image_mset g (mset xs)"
  by (induction xs) auto

lemma archived_rows:
  "image_mset (\<lambda>(_, _, r). g r) (mset (rows (fold tbl_insert xs t)))
     = image_mset (\<lambda>(_, _, r). g r) (mset (rows t)) + image_mset (\<lambda>(_, r). g r) (mset xs)"
proof (induction xs arbitrary: t)
  case (Cons x xs)
  then show ?case by (cases x) simp
qed simp

lemma audit_Archive_written: "written (snd (audit_Archive now days db)) = written db"
proof (cases "days \<le> 0 \<or> ad_down db")
  case True
  then show ?thesis by (auto simp: audit_Archive_def)
next
  case False
  then show ?thesis
    using filter_parts [of "\<lambda>(_, r). entry.truncate r" "\<lambda>r. al_CreatedAt r < archive_cutoff now days" "rows (ad_logs db)"]
    by (simp add: audit_Archive_def Let_def archive_delete_def archive_insert_def written_def archived_rows tbl_select_def
        tbl_delete_def ac_simps)
qed

text \<open>The balance of a state, which every step keeps.\<close>

definition balance :: "audit_svc \<Rightarrow> entry multiset" where
  "balance s = written (aw_db s) + image_mset entry_defaults (in_flight s)"

lemma write_or_warn_balance: "balance (write_or_warn now e s) = balance s + {#entry_defaults e#}"
  by (auto simp: write_or_warn_def balance_def in_flight_def dest: audit_write_written split: prod.splits sum.splits)

lemma audit_Log_balance: "balance (audit_Log now e s) = balance s + {#entry_defaults e#}"
  by (simp add: audit_Log_def write_or_warn_balance) (simp add: balance_def in_flight_def)

lemma audit_Record_balance:
  "balance (snd (audit_Record now e s)) = balance s + (if is_ok (fst (audit_Record now e s)) then {#entry_defaults e#} else {#})"
  by (auto simp: audit_Record_def balance_def in_flight_def dest: audit_write_written split: prod.splits)

lemma worker_receive_balance: "worker_receive s = Some s1 \<Longrightarrow> balance s1 = balance s"
  by (auto simp: worker_receive_def balance_def in_flight_def split: list.splits if_splits)

lemma worker_return_balance: "worker_return s = Some s1 \<Longrightarrow> balance s1 = balance s"
  by (auto simp: worker_return_def balance_def in_flight_def split: if_splits)

lemma mset_take_drop: "i < length xs \<Longrightarrow> mset xs = mset (take i xs @ drop (Suc i) xs) + {#xs ! i#}"
  by (metis id_take_nth_drop add_mset_add_single mset.simps(2) mset_append union_mset_add_mset_right)

lemma worker_write_balance:
  assumes "worker_write now i s = Some s1"
  shows "balance s1 = balance s"
proof -
  from assms have i: "i < length (aw_busy s)" and s1: "s1 = write_or_warn now (aw_busy s ! i)
      (s\<lparr>aw_busy := take i (aw_busy s) @ drop (Suc i) (aw_busy s), aw_idle := aw_idle s + 1\<rparr>)"
    by (auto simp: worker_write_def split: if_splits)
  then show ?thesis
    using mset_take_drop [OF i] by (simp add: write_or_warn_balance) (simp add: balance_def in_flight_def)
qed

lemma audit_run_balance:
  "audit_run acts s = Some s1 \<Longrightarrow> balance s1 = balance s + image_mset entry_defaults (handed acts s)"
proof (induction acts arbitrary: s)
  case (Cons a acts)
  then obtain s2 where s2: "audit_step a s = Some s2" "audit_run acts s2 = Some s1"
    by (auto split: option.splits)
  note IH = Cons.IH [OF s2(2)]
  show ?case
  proof (cases a)
    case (ALog now e)
    then show ?thesis using IH s2(1) audit_Log_balance [of now e s] by auto
  next
    case (ARecord now e)
    then show ?thesis using IH s2(1) audit_Record_balance [of now e s] by auto
  next
    case AStart
    then show ?thesis using IH s2(1) by (auto simp: audit_Start_def balance_def in_flight_def)
  next
    case AReceive
    then show ?thesis using IH s2(1) worker_receive_balance [of s s2] by simp
  next
    case (AWrite now i)
    then show ?thesis using IH s2(1) worker_write_balance [of now i s s2] by simp
  next
    case AReturn
    then show ?thesis using IH s2(1) worker_return_balance [of s s2] by simp
  next
    case AStop
    then show ?thesis using IH s2(1) by (auto simp: audit_close_def balance_def in_flight_def)
  next
    case (AArchive now days)
    then show ?thesis using IH s2(1) audit_Archive_written [of now days "aw_db s"] by (auto simp: balance_def in_flight_def)
  next
    case (ADatabase d)
    then show ?thesis using IH s2(1) by (auto simp: balance_def in_flight_def)
  qed
qed simp

lemma write_or_warn_queue [simp]: "aw_queue (write_or_warn now e s) = aw_queue s"
  by (auto simp: write_or_warn_def split: prod.splits sum.splits)

lemma audit_step_queue:
  "audit_step a s = Some s1 \<Longrightarrow> length (aw_queue s) \<le> audit_queue_cap \<Longrightarrow> length (aw_queue s1) \<le> audit_queue_cap"
  by (cases a) (auto simp: audit_Log_def audit_Record_def audit_Start_def worker_receive_def worker_return_def
      worker_write_def audit_close_def split: prod.splits list.splits if_splits)

lemma audit_run_queue:
  "audit_run acts s = Some s1 \<Longrightarrow> length (aw_queue s) \<le> audit_queue_cap \<Longrightarrow> length (aw_queue s1) \<le> audit_queue_cap"
  by (induction acts arbitrary: s) (auto split: option.splits dest: audit_step_queue)

section \<open>Export\<close>

definition export_rows :: "audit_db \<Rightarrow> audit_query \<Rightarrow> (int \<times> event_row) list" where
  "export_rows db f = scanLogs (aq_rows db f)"

lemma aq_matches_window [simp]:
  "aq_matches cf (f\<lparr>aq_Limit := l\<rparr>) = aq_matches cf f" "aq_matches cf (f\<lparr>aq_Offset := i\<rparr>) = aq_matches cf f"
  by (simp_all add: aq_matches_def fun_eq_iff)

lemma export_rows_window [simp]:
  "export_rows db (f\<lparr>aq_Limit := l\<rparr>) = export_rows db f" "export_rows db (f\<lparr>aq_Offset := i\<rparr>) = export_rows db f"
  by (simp_all add: export_rows_def aq_rows_def)

text \<open>The limit 500 of the export is above 200, so every chunk has 50 rows.\<close>

lemma Query_chunk:
  "audit_Query db (f\<lparr>aq_Offset := int n, aq_Limit := 500\<rparr>) =
     (if ad_down db then Err AuditStore else Ok (take 50 (drop n (export_rows db f))))"
  by (simp add: audit_Query_def aq_limit_def export_rows_def aq_rows_def scanLogs_def take_map drop_map)

lemma wr_write_ok: "wr_left w = None \<Longrightarrow> wr_write p w = (True, w\<lparr>wr_out := wr_out w @ p\<rparr>)"
  by (simp add: wr_write_def)

lemma csv_rows_ok:
  "wr_left w = None \<Longrightarrow>
     csv_rows logs c w = (True, c + int (length logs), w\<lparr>wr_out := wr_out w @ concat (map csv_line logs)\<rparr>)"
  by (induction logs arbitrary: c w) (simp_all add: wr_write_ok)

text \<open>What separates the values of the JSON array.\<close>

definition json_items :: "(int \<times> event_row \<Rightarrow> string) \<Rightarrow> bool \<Rightarrow> (int \<times> event_row) list \<Rightarrow> string" where
  "json_items marshal first logs =
     (if first \<or> logs = [] then [] else [CHR '','', CHR 0x0A]) @ join [CHR '','', CHR 0x0A] (map marshal logs)"

lemma json_items_Cons:
  "json_items marshal first (a # logs) =
     (if first then [] else [CHR '','', CHR 0x0A]) @ marshal a @ json_items marshal False logs"
  by (cases logs) (simp_all add: json_items_def)

lemma json_items_append:
  "logs \<noteq> [] \<Longrightarrow> json_items marshal first (logs @ rest) = json_items marshal first logs @ json_items marshal False rest"
proof (induction logs arbitrary: first)
  case (Cons a logs)
  then show ?case by (cases "logs = []") (simp_all add: json_items_Cons, simp add: json_items_def)
qed simp

lemma json_rows_ok:
  "wr_left w = None \<Longrightarrow>
     json_rows marshal logs first c w = (True, c + int (length logs), w\<lparr>wr_out := wr_out w @ json_items marshal first logs\<rparr>)"
proof (induction logs arbitrary: first c w)
  case Nil
  then show ?case by (simp add: json_items_def)
next
  case (Cons a logs)
  then show ?case by (simp add: wr_write_ok json_items_Cons)
qed

lemma chunk_next: "take 50 (drop n M) @ drop (n + length (take 50 (drop n M))) M = drop n M"
  by (metis append_take_drop_id drop_drop length_take min_def nat_le_linear add.commute drop_all take_all length_drop)

lemma csv_loop_exact:
  assumes "\<And>k. dbs k = db" and up: "\<not> ad_down db"
  shows "wr_left w = None \<Longrightarrow>
     csv_loop dbs f k (int n) c w =
       Some ((c + int (length (drop n (export_rows db f))), None),
             w\<lparr>wr_out := wr_out w @ concat (map csv_line (drop n (export_rows db f)))\<rparr>)"
proof (induction "length (export_rows db f) - n" arbitrary: n k c w rule: less_induct)
  case less
  define M where "M = export_rows db f"
  define C where "C = take 50 (drop n M)"
  show ?case
  proof (cases "C = []")
    case True
    then show ?thesis using assms by (subst csv_loop.simps) (simp add: Query_chunk C_def M_def)
  next
    case False
    then have n: "n < length M" by (simp add: C_def)
    have M: "C @ drop (n + length C) M = drop n M" unfolding C_def by (rule chunk_next)
    then have "length C + length (drop (n + length C) M) = length (drop n M)" by (metis length_append)
    moreover have "length M - (n + length C) < length M - n" using False n by (cases C) auto
    moreover have "concat (map csv_line (drop n M)) = concat (map csv_line C) @ concat (map csv_line (drop (n + length C) M))"
      by (simp flip: M)
    ultimately show ?thesis
      using less.hyps [of "n + length C" "w\<lparr>wr_out := wr_out w @ concat (map csv_line C)\<rparr>" "k + 1" "c + int (length C)"]
        less.prems False assms
      by (subst csv_loop.simps) (simp add: Query_chunk csv_rows_ok flip: M_def C_def)
  qed
qed


lemma json_loop_exact:
  assumes "\<And>k. dbs k = db" and up: "\<not> ad_down db"
  shows "wr_left w = None \<Longrightarrow>
     json_loop marshal dbs f k (int n) first c w =
       Some ((c + int (length (drop n (export_rows db f))), None),
             w\<lparr>wr_out := wr_out w @ json_items marshal first (drop n (export_rows db f))\<rparr>)"
proof (induction "length (export_rows db f) - n" arbitrary: n k c w first rule: less_induct)
  case less
  define M where "M = export_rows db f"
  define C where "C = take 50 (drop n M)"
  show ?case
  proof (cases "C = []")
    case True
    then show ?thesis
      using assms by (subst json_loop.simps) (simp add: Query_chunk C_def M_def json_items_def)
  next
    case False
    then have n: "n < length M" by (simp add: C_def)
    have M: "C @ drop (n + length C) M = drop n M" unfolding C_def by (rule chunk_next)
    then have "length C + length (drop (n + length C) M) = length (drop n M)" by (metis length_append)
    moreover have "length M - (n + length C) < length M - n" using False n by (cases C) auto
    moreover have "json_items marshal first (drop n M) =
        json_items marshal first C @ json_items marshal False (drop (n + length C) M)"
      using json_items_append [OF False] by (simp flip: M)
    ultimately show ?thesis
      using less.hyps [of "n + length C" "w\<lparr>wr_out := wr_out w @ json_items marshal first C\<rparr>" "k + 1" False "c + int (length C)"]
        less.prems False assms
      by (subst json_loop.simps) (simp add: Query_chunk json_rows_ok flip: M_def C_def)
  qed
qed

text \<open>
  Both loops return once the table rests: before that, the chunks that are left of the changing table; after it,
  the rows that are left.
\<close>

lemma chunk_size: "audit_Query db (f\<lparr>aq_Offset := int n, aq_Limit := 500\<rparr>) = Ok logs \<Longrightarrow> logs \<noteq> [] \<Longrightarrow>
    length (export_rows db f) - (n + length logs) < length (export_rows db f) - n"
  by (auto simp: Query_chunk split: if_splits)

lemma export_induct:
  fixes K :: nat
  assumes rests: "\<And>k. K \<le> k \<Longrightarrow> dbs k = dbs K"
    and step: "\<And>k n. (\<And>logs. audit_Query (dbs k) ((f :: audit_query)\<lparr>aq_Offset := int n, aq_Limit := 500\<rparr>) = Ok logs \<Longrightarrow> logs \<noteq> [] \<Longrightarrow>
        P (k + 1) (n + length logs)) \<Longrightarrow> P k n"
  shows "P k n"
proof (induction "(K - k, length (export_rows (dbs K) f) - n)" arbitrary: k n
    rule: wf_induct_rule [OF wf_lex_prod [OF wf_less_than wf_less_than]])
  case 1
  show ?case
  proof (rule step, rule 1)
    fix logs
    assume "audit_Query (dbs k) (f\<lparr>aq_Offset := int n, aq_Limit := 500\<rparr>) = Ok logs" "logs \<noteq> []"
    then show "((K - (k + 1), length (export_rows (dbs K) f) - (n + length logs)),
        (K - k, length (export_rows (dbs K) f) - n)) \<in> less_than <*lex*> less_than"
      using chunk_size [where db = "dbs k" and f = f and n = n and logs = logs] rests [of k] by (cases "k < K") auto
  qed
qed

lemma csv_loop_returns:
  assumes "\<And>k. K \<le> k \<Longrightarrow> dbs k = dbs K"
  shows "\<forall>c w. csv_loop dbs f k (int n) c w \<noteq> None"
proof (rule export_induct [where K = K and dbs = dbs and f = f and P = "\<lambda>k n. \<forall>c w. csv_loop dbs f k (int n) c w \<noteq> None", OF assms])
  fix k n
  assume next_chunk: "\<And>logs. audit_Query (dbs k) (f\<lparr>aq_Offset := int n, aq_Limit := 500\<rparr>) = Ok logs \<Longrightarrow> logs \<noteq> [] \<Longrightarrow>
      \<forall>c w. csv_loop dbs f (k + 1) (int (n + length logs)) c w \<noteq> None"
  show "\<forall>c w. csv_loop dbs f k (int n) c w \<noteq> None"
    using next_chunk by (subst csv_loop.simps) (auto split: sum.splits prod.splits)
qed

lemma json_loop_returns:
  assumes "\<And>k. K \<le> k \<Longrightarrow> dbs k = dbs K"
  shows "\<forall>first c w. json_loop marshal dbs f k (int n) first c w \<noteq> None"
proof (rule export_induct [where K = K and dbs = dbs and f = f and P = "\<lambda>k n. \<forall>first c w. json_loop marshal dbs f k (int n) first c w \<noteq> None", OF assms])
  fix k n
  assume next_chunk: "\<And>logs. audit_Query (dbs k) (f\<lparr>aq_Offset := int n, aq_Limit := 500\<rparr>) = Ok logs \<Longrightarrow> logs \<noteq> [] \<Longrightarrow>
      \<forall>first c w. json_loop marshal dbs f (k + 1) (int (n + length logs)) first c w \<noteq> None"
  show "\<forall>first c w. json_loop marshal dbs f k (int n) first c w \<noteq> None"
    using next_chunk by (subst json_loop.simps) (auto split: sum.splits prod.splits)
qed

lemma audit_Stream_returns:
  assumes "\<And>k. K \<le> k \<Longrightarrow> dbs k = dbs K"
  shows "audit_Stream marshal dbs f format w \<noteq> None"
proof -
  have csv: "csv_loop dbs g 0 0 c v \<noteq> None" for g c v
    using csv_loop_returns [where K = K and dbs = dbs and n = 0 and k = 0 and f = g, OF assms] by simp
  have json: "json_loop marshal dbs g 0 0 first c v \<noteq> None" for g first c v
    using json_loop_returns [where K = K and dbs = dbs and n = 0 and k = 0 and f = g, OF assms] by simp
  obtain ok1 w1 where w1: "wr_write csv_header w = (ok1, w1)" by (cases "wr_write csv_header w") auto
  obtain ok2 w2 where w2: "wr_write [CHR ''['', CHR 0x0A] w = (ok2, w2)" by (cases "wr_write [CHR ''['', CHR 0x0A] w") auto
  obtain c e w3 where w3: "json_loop marshal dbs (f\<lparr>aq_Limit := 0\<rparr>) 0 0 True 0 w2 = Some ((c, e), w3)"
    using json [of "f\<lparr>aq_Limit := 0\<rparr>" True 0 w2] by auto
  show ?thesis
  proof (cases "format = ''json''")
    case True
    then show ?thesis using w2 w3 by (simp add: audit_Stream_def streamJSON_def split_beta)
  next
    case False
    then show ?thesis using w1 csv by (simp add: audit_Stream_def streamCSV_def)
  qed
qed

definition export_text :: "(int \<times> event_row \<Rightarrow> string) \<Rightarrow> string \<Rightarrow> (int \<times> event_row) list \<Rightarrow> string" where
  "export_text marshal format logs =
     (if format = ''json'' then [CHR ''['', CHR 0x0A] @ join [CHR '','', CHR 0x0A] (map marshal logs) @ [CHR 0x0A, CHR '']'', CHR 0x0A]
      else csv_header @ concat (map csv_line logs))"

lemma audit_Stream_exact:
  assumes "\<And>k. dbs k = db" and "\<not> ad_down db" and "wr_left w = None"
  shows "audit_Stream marshal dbs f format w =
     Some ((int (length (export_rows db f)), None), w\<lparr>wr_out := wr_out w @ export_text marshal format (export_rows db f)\<rparr>)"
proof (cases "format = ''json''")
  case True
  then show ?thesis
    using assms json_loop_exact [of dbs db "w\<lparr>wr_out := wr_out w @ [CHR ''['', CHR 0x0A]\<rparr>" marshal "f\<lparr>aq_Limit := 0\<rparr>" 0 0 True 0]
    by (simp add: audit_Stream_def streamJSON_def wr_write_ok export_text_def json_items_def)
next
  case False
  then show ?thesis
    using assms csv_loop_exact [of dbs db "w\<lparr>wr_out := wr_out w @ csv_header\<rparr>" "f\<lparr>aq_Limit := 0\<rparr>" 0 0 0]
    by (simp add: audit_Stream_def streamCSV_def wr_write_ok export_text_def)
qed

text \<open>A table and its rows.\<close>

lemma export_rows_newest:
  assumes "tbl_wf (ad_logs db)"
  shows "sorted_wrt (>) (map fst (export_rows db f))"
    and "(i, r) \<in> set (export_rows db f) \<longleftrightarrow>
      (\<exists>r0. (i, r0) \<in> set (rows (ad_logs db)) \<and> aq_matches (ad_fold db) f r0 \<and> r = r0\<lparr>en_Detail := []\<rparr>)"
proof -
  have keys: "map fst (export_rows db f) = rev (map fst (tbl_select (\<lambda>_. aq_matches (ad_fold db) f) (ad_logs db)))"
    by (simp add: export_rows_def scanLogs_def aq_rows_def rev_map comp_def split_beta)
  have "sorted_wrt (<) (map fst (tbl_select (\<lambda>_. aq_matches (ad_fold db) f) (ad_logs db)))"
    using assms by (auto simp: tbl_wf_def tbl_select_def sorted_wrt_map intro: sorted_wrt_filter)
  then show "sorted_wrt (>) (map fst (export_rows db f))" unfolding keys by (simp add: sorted_wrt_rev)
  show "(i, r) \<in> set (export_rows db f) \<longleftrightarrow>
      (\<exists>r0. (i, r0) \<in> set (rows (ad_logs db)) \<and> aq_matches (ad_fold db) f r0 \<and> r = r0\<lparr>en_Detail := []\<rparr>)"
    unfolding export_rows_def scanLogs_def aq_rows_def by (force simp: tbl_select_def)
qed

lemma matches_all:
  "aq_matches cf \<lparr>aq_Event = [], aq_ActorID = None, aq_Target = [], aq_Result = [], aq_From = None, aq_To = None,
     aq_Limit = l, aq_Offset = i\<rparr> r"
  by (simp add: aq_matches_def)

section \<open>Claims\<close>


text \<open>An entry waits, a worker takes it, the database fails, the retention runs, the service stops.\<close>

definition demo_audit :: audit_db where
  "demo_audit = \<lparr>ad_logs = empty_table, ad_archive = empty_table, ad_rules = empty_table, ad_fold = id, ad_down = False\<rparr>"

definition demo_acts :: "audit_act list" where
  "demo_acts =
     [AStart, ALog 0 (cliAudit ''user.create'' []), AReceive, ARecord 0 (cliAudit ''user.disable'' []), AWrite 5000000000 0,
      AArchive 864000000000000 1, ALog 0 (cliAudit ''user.enable'' []), AStop, AReturn, AReturn]"


text \<open>C25: An export of the audit log returns whenever the table rests after some chunk, whatever was written,
  archived or failed before, and whether the client takes the bytes or not. Where nothing changes meanwhile
  and the client takes everything, the file is the text of all rows of the filter, each once, the newest first,
  and the count is their number.\<close>

theorem audit_export_returns:
  assumes rests: "\<And>k. K \<le> k \<Longrightarrow> dbs k = dbs K"
  shows "(\<exists>r. audit_Stream marshal dbs f format w = Some r) \<and>
    (K = 0 \<and> \<not> ad_down (dbs 0) \<and> tbl_wf (ad_logs (dbs 0)) \<and> wr_left w = None \<longrightarrow>
      (\<exists>logs. audit_Stream marshal dbs f format w
          = Some ((int (length logs), None), w\<lparr>wr_out := wr_out w @ export_text marshal format logs\<rparr>) \<and>
        sorted_wrt (>) (map fst logs) \<and>
        (\<forall>i r. (i, r) \<in> set logs \<longleftrightarrow>
          (\<exists>r0. (i, r0) \<in> set (rows (ad_logs (dbs 0))) \<and> aq_matches (ad_fold (dbs 0)) f r0 \<and> r = r0\<lparr>en_Detail := []\<rparr>))))"
proof (intro conjI impI)
  show "\<exists>r. audit_Stream marshal dbs f format w = Some r"
    using audit_Stream_returns [where K = K and dbs = dbs, OF rests] by auto
  assume "K = 0 \<and> \<not> ad_down (dbs 0) \<and> tbl_wf (ad_logs (dbs 0)) \<and> wr_left w = None"
  then have K: "K = 0" and up: "\<not> ad_down (dbs 0)" and wf: "tbl_wf (ad_logs (dbs 0))" and w: "wr_left w = None" by simp_all
  have "dbs k = dbs 0" for k using rests K by simp
  from audit_Stream_exact [OF this up w] export_rows_newest [OF wf]
  show "\<exists>logs. audit_Stream marshal dbs f format w
          = Some ((int (length logs), None), w\<lparr>wr_out := wr_out w @ export_text marshal format logs\<rparr>) \<and>
        sorted_wrt (>) (map fst logs) \<and>
        (\<forall>i r. (i, r) \<in> set logs \<longleftrightarrow>
          (\<exists>r0. (i, r0) \<in> set (rows (ad_logs (dbs 0))) \<and> aq_matches (ad_fold (dbs 0)) f r0 \<and> r = r0\<lparr>en_Detail := []\<rparr>))"
    by (intro exI [of _ "export_rows (dbs 0) f"]) simp
qed

text \<open>Two rows, of which the filter takes one, while a third is written after the first chunk or never.\<close>

definition demo_log :: audit_db where
  "demo_log = demo_audit\<lparr>ad_logs := tbl_insert (row_of 1000000000 (entry_defaults (cliAudit ''repo.delete'' [])))
     (tbl_insert (row_of 0 (entry_defaults (cliAudit ''user.create'' []))) empty_table)\<rparr>"

definition demo_filter :: audit_query where
  "demo_filter = \<lparr>aq_Event = ''user'', aq_ActorID = None, aq_Target = [], aq_Result = [], aq_From = None, aq_To = None,
     aq_Limit = 0, aq_Offset = 0\<rparr>"

theorem audit_export_returns_witness:
  "(\<exists>r. audit_Stream (\<lambda>_. []) (\<lambda>k. if k < 1 then demo_log else demo_audit) demo_filter ''csv'' \<lparr>wr_out = [], wr_left = Some 1\<rparr> = Some r) \<and>
   (\<exists>logs. audit_Stream (\<lambda>_. []) (\<lambda>_. demo_log) demo_filter ''csv'' \<lparr>wr_out = [], wr_left = None\<rparr>
       = Some ((int (length logs), None), \<lparr>wr_out = export_text (\<lambda>_. []) ''csv'' logs, wr_left = None\<rparr>) \<and>
     (\<exists>r. (1, r) \<in> set logs))"
proof
  show "\<exists>r. audit_Stream (\<lambda>_. []) (\<lambda>k. if k < 1 then demo_log else demo_audit) demo_filter ''csv''
      \<lparr>wr_out = [], wr_left = Some 1\<rparr> = Some r"
    by (rule conjunct1 [OF audit_export_returns [where K = 1]]) simp
  have "\<not> ad_down demo_log" "tbl_wf (ad_logs demo_log)"
    by (simp_all add: demo_log_def demo_audit_def tbl_wf_insert)
  moreover have "(1, row_of 0 (entry_defaults (cliAudit ''user.create'' []))) \<in> set (rows (ad_logs demo_log))"
    by (simp add: demo_log_def demo_audit_def)
  moreover have "aq_matches (ad_fold demo_log) demo_filter (row_of 0 (entry_defaults (cliAudit ''user.create'' [])))"
    by (simp add: aq_matches_def demo_filter_def demo_log_def demo_audit_def like_PrefixPattern row_of_def entry.extend_def
        entry_defaults_def cliAudit_def no_entry_def Let_def)
  ultimately show "\<exists>logs. audit_Stream (\<lambda>_. []) (\<lambda>_. demo_log) demo_filter ''csv'' \<lparr>wr_out = [], wr_left = None\<rparr>
       = Some ((int (length logs), None), \<lparr>wr_out = export_text (\<lambda>_. []) ''csv'' logs, wr_left = None\<rparr>) \<and>
     (\<exists>r. (1, r) \<in> set logs)"
    using audit_export_returns [where K = 0 and dbs = "\<lambda>_. demo_log" and f = demo_filter and marshal = "\<lambda>_. []"
        and format = "''csv''" and w = "\<lparr>wr_out = [], wr_left = None\<rparr>"] by fastforce
qed

end
