(* ===== verification/OAuth.thy ===== *)
theory OAuth
  imports AccountHttp
begin

text \<open>
  The OAuth provider: \<open>internal/service/oauth\<close> (\<open>oauth.go\<close>, \<open>flow.go\<close>) and \<open>handlers_oauth.go\<close>.

  The tables are \<open>oauth_db\<close>; lists of addresses and scopes are one text each, as stored. \<open>sha\<close> is the digest of
  \<open>infra/token\<close>, random bytes are arguments (\<^const>\<open>None\<close> when the source fails), \<open>url_Parse\<close> gives scheme, host and
  fragment of an address. The transaction of \<open>IssueCode\<close> is one step. The exchange of a code consists of several
  statements: \<open>exchange_find\<close> reads and checks, \<open>exchange_finish\<close> deletes the code and inserts the token.
\<close>

section \<open>State\<close>

record oauth_app =
  oa_OwnerID :: int
  oa_Name :: string
  oa_ClientID :: string
  oa_SecretHash :: string
  oa_RedirectURIs :: string
  oa_Scopes :: string

record oauth_auth =
  oz_UserID :: int
  oz_AppID :: int
  oz_Scopes :: string

record oauth_code =
  oc_Hash :: string
  oc_AppID :: int
  oc_UserID :: int
  oc_RedirectURI :: string
  oc_Scopes :: string
  oc_ExpiresAt :: int

record oauth_token =
  ot_Hash :: string
  ot_AppID :: int
  ot_UserID :: int
  ot_Scopes :: string
  ot_ExpiresAt :: "int option"

record oauth_db =
  od_apps :: "oauth_app table"
  od_auths :: "oauth_auth table"
  od_codes :: "oauth_code table"
  od_tokens :: "oauth_token table"
  od_down :: bool

datatype oauth_error =
    OANotFound | OAInvalidClient | OAInvalidGrant | OARandom | OADriver | OAConstraint
  | OANoName | OANoRedirect | OABadURL | OABadScheme | OANoHost | OAFragment

definition oauth_New :: oauth_db where
  "oauth_New = \<lparr>od_apps = empty_table, od_auths = empty_table, od_codes = empty_table, od_tokens = empty_table, od_down = False\<rparr>"

text \<open>An \<open>App\<close> as \<open>scanApp\<close> reads it.\<close>

record OApp =
  App_ID :: int
  App_OwnerID :: int
  App_Name :: string
  App_ClientID :: string
  App_RedirectURIs :: "string list"
  App_Scopes :: "string list"

section \<open>Applications\<close>

definition LFc :: char where "LFc = CHR 0x0A"

definition randID :: "string option \<Rightarrow> string \<Rightarrow> oauth_error + string" where
  "randID rnd pfx = (case rnd of None \<Rightarrow> Err OARandom | Some buf \<Rightarrow> Ok (pfx @ b64_encode url_alphabet buf))"

definition ValidateRedirectURIFormat ::
    "(string \<Rightarrow> (string \<times> string \<times> string) option) \<Rightarrow> string \<Rightarrow> oauth_error + unit" where
  "ValidateRedirectURIFormat url_Parse raw =
     (case url_Parse (trim_space raw) of
        None \<Rightarrow> Err OABadURL
      | Some (scheme, host, fragment) \<Rightarrow>
          if scheme \<noteq> ''http'' \<and> scheme \<noteq> ''https'' then Err OABadScheme
          else if host = [] then Err OANoHost
          else if fragment \<noteq> [] then Err OAFragment
          else Ok ())"

definition scanApp :: "(int \<Rightarrow> oauth_app \<Rightarrow> bool) \<Rightarrow> oauth_db \<Rightarrow> oauth_error + OApp" where
  "scanApp P db =
     (if od_down db then Err OADriver
      else case tbl_find P (od_apps db) of
             None \<Rightarrow> Err OANotFound
           | Some (i, r) \<Rightarrow> Ok \<lparr>App_ID = i, App_OwnerID = oa_OwnerID r, App_Name = oa_Name r, App_ClientID = oa_ClientID r,
               App_RedirectURIs = (if oa_RedirectURIs r \<noteq> [] then split_on LFc (oa_RedirectURIs r) else []),
               App_Scopes = (if oa_Scopes r \<noteq> [] then str_fields (oa_Scopes r) else [])\<rparr>)"

definition AppByID :: "oauth_db \<Rightarrow> int \<Rightarrow> oauth_error + OApp" where
  "AppByID db i = scanApp (\<lambda>j _. j = i) db"

definition AppByClientID :: "oauth_db \<Rightarrow> string \<Rightarrow> oauth_error + OApp" where
  "AppByClientID db cid = scanApp (\<lambda>_ r. oa_ClientID r = cid) db"

fun first_error :: "('a \<Rightarrow> 'e + unit) \<Rightarrow> 'a list \<Rightarrow> 'e option" where
  "first_error f [] = None"
| "first_error f (x # xs) = (case f x of Err e \<Rightarrow> Some e | Ok _ \<Rightarrow> first_error f xs)"

text \<open>\<open>rnd1\<close> makes the client's name, \<open>rnd2\<close> its secret.\<close>

definition CreateApp ::
    "(string \<Rightarrow> string) \<Rightarrow> (string \<Rightarrow> (string \<times> string \<times> string) option) \<Rightarrow> string option \<Rightarrow> string option \<Rightarrow>
     int \<Rightarrow> string \<Rightarrow> string list \<Rightarrow> string list \<Rightarrow> oauth_db \<Rightarrow> (oauth_error + OApp \<times> string) \<times> oauth_db" where
  "CreateApp sha url_Parse rnd1 rnd2 ownerID name redirectURIs scopes db =
     (if name = [] then (Err OANoName, db)
      else if redirectURIs = [] then (Err OANoRedirect, db)
      else case first_error (ValidateRedirectURIFormat url_Parse) redirectURIs of
        Some e \<Rightarrow> (Err e, db)
      | None \<Rightarrow>
          (case randID rnd1 ''glo_'' of
             Err e \<Rightarrow> (Err e, db)
           | Ok clientID \<Rightarrow>
               (case randID rnd2 ''glsec_'' of
                  Err e \<Rightarrow> (Err e, db)
                | Ok secret \<Rightarrow>
                    if od_down db then (Err OADriver, db)
                    else if tbl_exists (\<lambda>_ r. oa_ClientID r = clientID) (od_apps db) then (Err OAConstraint, db)
                    else let t = tbl_insert \<lparr>oa_OwnerID = ownerID, oa_Name = name, oa_ClientID = clientID,
                               oa_SecretHash = token_Hash sha secret, oa_RedirectURIs = join [LFc] redirectURIs,
                               oa_Scopes = join '' '' scopes\<rparr> (od_apps db);
                             db1 = db\<lparr>od_apps := t\<rparr>
                         in (map_sum id (\<lambda>app. (app, secret)) (AppByID db1 (seq t)), db1))))"

definition ListAppsByOwner :: "oauth_db \<Rightarrow> int \<Rightarrow> oauth_error + OApp list" where
  "ListAppsByOwner db ownerID =
     (if od_down db then Err OADriver
      else Ok (concat (map (\<lambda>(i, _). case AppByID db i of Err _ \<Rightarrow> [] | Ok a \<Rightarrow> [a])
             (rev (tbl_select (\<lambda>_ r. oa_OwnerID r = ownerID) (od_apps db))))))"

definition DeleteApp :: "int \<Rightarrow> int \<Rightarrow> oauth_db \<Rightarrow> (oauth_error + unit) \<times> oauth_db" where
  "DeleteApp ownerID appID db =
     (if od_down db then (Err OADriver, db)
      else (Ok (), db\<lparr>od_apps := tbl_delete (\<lambda>i r. i = appID \<and> oa_OwnerID r = ownerID) (od_apps db)\<rparr>))"

definition VerifyClient :: "(string \<Rightarrow> string) \<Rightarrow> oauth_db \<Rightarrow> string \<Rightarrow> string \<Rightarrow> oauth_error + OApp" where
  "VerifyClient sha db clientID secret =
     (if od_down db then Err OADriver
      else case tbl_find (\<lambda>_ r. oa_ClientID r = clientID) (od_apps db) of
             None \<Rightarrow> Err OAInvalidClient
           | Some (i, r) \<Rightarrow> if \<not> token_Verify sha secret (oa_SecretHash r) then Err OAInvalidClient else AppByID db i)"

definition ValidateRedirectURI :: "OApp \<Rightarrow> string \<Rightarrow> bool" where
  "ValidateRedirectURI app uri = list_ex (\<lambda>r. r = uri) (App_RedirectURIs app)"

definition SupportedScopes :: "string list" where
  "SupportedScopes = [''read:user'', ''read:repo'', ''write:repo'']"

definition FilterScopes :: "string list \<Rightarrow> string list" where
  "FilterScopes scopes = filter (\<lambda>sc. sc \<in> set SupportedScopes) scopes"

section \<open>Codes and tokens\<close>

record authorize_params =
  zp_AppID :: int
  zp_UserID :: int
  zp_RedirectURI :: string
  zp_Scopes :: "string list"

definition codeTTL :: int where "codeTTL = 10 * 60 * 1000000000"
definition tokenTTL :: int where "tokenTTL = 365 * 24 * 3600 * 1000000000"

text \<open>The consent: \<open>INSERT ... ON CONFLICT (user_id, app_id) DO UPDATE\<close>.\<close>

definition upsert_auth :: "authorize_params \<Rightarrow> oauth_auth table \<Rightarrow> oauth_auth table" where
  "upsert_auth p t =
     (let P = (\<lambda>_ r. oz_UserID r = zp_UserID p \<and> oz_AppID r = zp_AppID p); sc = join '' '' (zp_Scopes p)
      in if tbl_exists P t then tbl_update P (\<lambda>r. r\<lparr>oz_Scopes := sc\<rparr>) t
         else tbl_insert \<lparr>oz_UserID = zp_UserID p, oz_AppID = zp_AppID p, oz_Scopes = sc\<rparr> t)"

definition IssueCode ::
    "(string \<Rightarrow> string) \<Rightarrow> string option \<Rightarrow> int \<Rightarrow> authorize_params \<Rightarrow> oauth_db \<Rightarrow> (oauth_error + string) \<times> oauth_db" where
  "IssueCode sha rnd now p db =
     (case randID rnd ''gla_'' of Err e \<Rightarrow> (Err e, db) | Ok code \<Rightarrow>
          if od_down db then (Err OADriver, db)
          else if tbl_exists (\<lambda>_ r. oc_Hash r = token_Hash sha code) (od_codes db) then (Err OAConstraint, db)
          else (Ok code, db\<lparr>
              od_codes := tbl_insert \<lparr>oc_Hash = token_Hash sha code, oc_AppID = zp_AppID p, oc_UserID = zp_UserID p,
                oc_RedirectURI = zp_RedirectURI p, oc_Scopes = join '' '' (zp_Scopes p), oc_ExpiresAt = now + codeTTL\<rparr> (od_codes db),
              od_auths := upsert_auth p (od_auths db)\<rparr>))"

definition delete_code :: "(string \<Rightarrow> string) \<Rightarrow> string \<Rightarrow> oauth_db \<Rightarrow> oauth_db" where
  "delete_code sha code db =
     (if od_down db then db else db\<lparr>od_codes := tbl_delete (\<lambda>_ r. oc_Hash r = token_Hash sha code) (od_codes db)\<rparr>)"

text \<open>The statements before the code is deleted; an expired code is deleted here.\<close>

definition exchange_find ::
    "(string \<Rightarrow> string) \<Rightarrow> int \<Rightarrow> string \<Rightarrow> string \<Rightarrow> string \<Rightarrow> string \<Rightarrow> oauth_db \<Rightarrow> (oauth_error + oauth_code) \<times> oauth_db" where
  "exchange_find sha now clientID secret code redirectURI db =
     (case VerifyClient sha db clientID secret of
        Err e \<Rightarrow> (Err e, db)
      | Ok app \<Rightarrow>
          if od_down db then (Err OADriver, db)
          else (case tbl_find (\<lambda>_ r. oc_Hash r = token_Hash sha code) (od_codes db) of
            None \<Rightarrow> (Err OAInvalidGrant, db)
          | Some (_, c) \<Rightarrow>
              if App_ID app \<noteq> oc_AppID c then (Err OAInvalidGrant, db)
              else if now > oc_ExpiresAt c then (Err OAInvalidGrant, delete_code sha code db)
              else if redirectURI \<noteq> [] \<and> redirectURI \<noteq> oc_RedirectURI c then (Err OAInvalidGrant, db)
              else (Ok c, db)))"

record token_response =
  rs_AccessToken :: string
  rs_ExpiresIn :: int
  rs_Scope :: string

definition exchange_finish ::
    "(string \<Rightarrow> string) \<Rightarrow> string option \<Rightarrow> int \<Rightarrow> string \<Rightarrow> oauth_code \<Rightarrow> oauth_db \<Rightarrow> (oauth_error + token_response) \<times> oauth_db" where
  "exchange_finish sha rnd now code c db =
     (let db1 = delete_code sha code db in
      case randID rnd ''glat_'' of
        Err e \<Rightarrow> (Err e, db1)
      | Ok access \<Rightarrow>
          if od_down db1 then (Err OADriver, db1)
          else if tbl_exists (\<lambda>_ r. ot_Hash r = token_Hash sha access) (od_tokens db1) then (Err OAConstraint, db1)
          else (Ok \<lparr>rs_AccessToken = access, rs_ExpiresIn = 365 * 24 * 3600, rs_Scope = oc_Scopes c\<rparr>,
                db1\<lparr>od_tokens := tbl_insert \<lparr>ot_Hash = token_Hash sha access, ot_AppID = oc_AppID c, ot_UserID = oc_UserID c,
                  ot_Scopes = oc_Scopes c, ot_ExpiresAt = Some (now + tokenTTL)\<rparr> (od_tokens db1)\<rparr>))"

definition ExchangeCode ::
    "(string \<Rightarrow> string) \<Rightarrow> string option \<Rightarrow> int \<Rightarrow> string \<Rightarrow> string \<Rightarrow> string \<Rightarrow> string \<Rightarrow> oauth_db
      \<Rightarrow> (oauth_error + token_response) \<times> oauth_db" where
  "ExchangeCode sha rnd now clientID secret code redirectURI db =
     (case exchange_find sha now clientID secret code redirectURI db of
        (Err e, db1) \<Rightarrow> (Err e, db1)
      | (Ok c, db1) \<Rightarrow> exchange_finish sha rnd now code c db1)"

definition TokenUser :: "(string \<Rightarrow> string) \<Rightarrow> int \<Rightarrow> string \<Rightarrow> oauth_db \<Rightarrow> oauth_error + int \<times> string list" where
  "TokenUser sha now accessToken db =
     (if od_down db then Err OADriver
      else case tbl_find (\<lambda>_ r. ot_Hash r = token_Hash sha accessToken) (od_tokens db) of
        None \<Rightarrow> Err OAInvalidGrant
      | Some (_, t) \<Rightarrow>
          if (case ot_ExpiresAt t of Some x \<Rightarrow> now > x | None \<Rightarrow> False) then Err OAInvalidGrant
          else Ok (ot_UserID t, if ot_Scopes t \<noteq> [] then str_fields (ot_Scopes t) else []))"

text \<open>A row of \<open>ListAuthorizations\<close>: the key, the consent, name and client of the application, empty when it is gone.\<close>

definition ListAuthorizations :: "oauth_db \<Rightarrow> int \<Rightarrow> oauth_error + (int \<times> oauth_auth \<times> string \<times> string \<times> string list) list" where
  "ListAuthorizations db userID =
     (if od_down db then Err OADriver
      else Ok (map (\<lambda>(i, a). case tbl_by_id (oz_AppID a) (od_apps db) of
             None \<Rightarrow> (i, a, [], [], str_fields (oz_Scopes a))
           | Some p \<Rightarrow> (i, a, oa_Name p, oa_ClientID p, str_fields (oz_Scopes a)))
         (rev (tbl_select (\<lambda>_ a. oz_UserID a = userID) (od_auths db)))))"

definition RevokeAuthorization :: "int \<Rightarrow> int \<Rightarrow> oauth_db \<Rightarrow> (oauth_error + unit) \<times> oauth_db" where
  "RevokeAuthorization userID appID db =
     (if od_down db then (Err OADriver, db)
      else (Ok (), db\<lparr>
          od_auths := tbl_delete (\<lambda>_ r. oz_UserID r = userID \<and> oz_AppID r = appID) (od_auths db),
          od_tokens := tbl_delete (\<lambda>_ r. ot_UserID r = userID \<and> ot_AppID r = appID) (od_tokens db)\<rparr>))"

section \<open>Handlers\<close>

text \<open>The provider is always there (\<open>deps.OAuth\<close> is set at start-up).\<close>

record token_form =
  fm_grant_type :: string
  fm_client_id :: string
  fm_client_secret :: string
  fm_code :: string
  fm_redirect_uri :: string

text \<open>\<open>form\<close> is \<^const>\<open>None\<close> when it cannot be parsed; \<open>basic\<close> the credentials of the header.\<close>

definition handleOAuthToken ::
    "(string \<Rightarrow> string) \<Rightarrow> string option \<Rightarrow> int \<Rightarrow> token_form option \<Rightarrow> (string \<times> string) option \<Rightarrow> oauth_db
      \<Rightarrow> (int \<times> token_response option) \<times> oauth_db" where
  "handleOAuthToken sha rnd now form basic db =
     (case form of
        None \<Rightarrow> ((400, None), db)
      | Some f \<Rightarrow>
          if fm_grant_type f \<noteq> ''authorization_code'' then ((400, None), db)
          else let (cid, secret) = (case basic of Some up \<Rightarrow> up | None \<Rightarrow> (fm_client_id f, fm_client_secret f))
               in (case ExchangeCode sha rnd now cid secret (fm_code f) (fm_redirect_uri f) db of
                     (Err _, db1) \<Rightarrow> ((400, None), db1)
                   | (Ok resp, db1) \<Rightarrow> ((200, Some resp), db1)))"

definition handleOAuthUserInfo ::
    "(string \<Rightarrow> string) \<Rightarrow> int \<Rightarrow> http_request \<Rightarrow> user_store \<Rightarrow> oauth_db \<Rightarrow> int \<times> (user \<times> string list) option" where
  "handleOAuthUserInfo sha now rq us db =
     (let auth = rq_Authorization rq in
      if \<not> has_prefix auth ''Bearer '' then (401, None)
      else case TokenUser sha now (trim_prefix auth ''Bearer '') db of
        Err _ \<Rightarrow> (401, None)
      | Ok (i, scopes) \<Rightarrow> (case user_ByID us i of Err _ \<Rightarrow> (404, None) | Ok u \<Rightarrow> (200, Some (u, scopes))))"

definition handleOAuthAuthorizeInfo ::
    "user option \<Rightarrow> string \<Rightarrow> string \<Rightarrow> string \<Rightarrow> oauth_db \<Rightarrow> int \<times> (string \<times> string \<times> string list) option" where
  "handleOAuthAuthorizeInfo u client_id redirect scope db =
     (if u = None then (401, None)
      else case AppByClientID db client_id of
        Err _ \<Rightarrow> (404, None)
      | Ok app \<Rightarrow>
          if \<not> ValidateRedirectURI app redirect then (400, None)
          else (200, Some (App_Name app, App_ClientID app, FilterScopes (str_fields scope))))"

record approve_req =
  ap_ClientID :: string
  ap_RedirectURI :: string
  ap_Scopes :: "string list"
  ap_State :: string

definition handleOAuthApprove ::
    "(string \<Rightarrow> string) \<Rightarrow> string option \<Rightarrow> int \<Rightarrow> user option \<Rightarrow> approve_req option \<Rightarrow> oauth_db \<Rightarrow> (int \<times> string) \<times> oauth_db" where
  "handleOAuthApprove sha rnd now u req db =
     (case u of
        None \<Rightarrow> ((401, []), db)
      | Some (uid, _) \<Rightarrow>
          (case req of
             None \<Rightarrow> ((400, []), db)
           | Some q \<Rightarrow>
               (case AppByClientID db (ap_ClientID q) of
                  Err _ \<Rightarrow> ((404, []), db)
                | Ok app \<Rightarrow>
                    if \<not> ValidateRedirectURI app (ap_RedirectURI q) then ((400, []), db)
                    else (case IssueCode sha rnd now \<lparr>zp_AppID = App_ID app, zp_UserID = uid,
                                 zp_RedirectURI = ap_RedirectURI q, zp_Scopes = FilterScopes (ap_Scopes q)\<rparr> db of
                            (Err _, db1) \<Rightarrow> ((500, []), db1)
                          | (Ok code, db1) \<Rightarrow>
                              ((200, ap_RedirectURI q @ ''?code='' @ code @
                                 (if ap_State q \<noteq> [] then ''&state='' @ ap_State q else [])), db1)))))"

definition handleListOAuthApps :: "user option \<Rightarrow> oauth_db \<Rightarrow> int \<times> OApp list" where
  "handleListOAuthApps u db =
     (case u of None \<Rightarrow> (401, []) | Some (uid, _) \<Rightarrow>
        (case ListAppsByOwner db uid of Err _ \<Rightarrow> (500, []) | Ok apps \<Rightarrow> (200, apps)))"

definition handleCreateOAuthApp ::
    "(string \<Rightarrow> string) \<Rightarrow> (string \<Rightarrow> (string \<times> string \<times> string) option) \<Rightarrow> string option \<Rightarrow> string option \<Rightarrow> user option \<Rightarrow>
     (string \<times> string list \<times> string list) option \<Rightarrow> oauth_db \<Rightarrow> (int \<times> (OApp \<times> string) option) \<times> oauth_db" where
  "handleCreateOAuthApp sha url_Parse rnd1 rnd2 u req db =
     (case u of
        None \<Rightarrow> ((401, None), db)
      | Some (uid, _) \<Rightarrow>
          (case req of
             None \<Rightarrow> ((400, None), db)
           | Some (name, uris, scopes) \<Rightarrow>
               (case CreateApp sha url_Parse rnd1 rnd2 uid name uris (FilterScopes scopes) db of
                  (Err _, db1) \<Rightarrow> ((400, None), db1)
                | (Ok x, db1) \<Rightarrow> ((201, Some x), db1))))"

definition handleDeleteOAuthApp :: "user option \<Rightarrow> int option \<Rightarrow> oauth_db \<Rightarrow> int \<times> oauth_db" where
  "handleDeleteOAuthApp u idp db =
     (case u of
        None \<Rightarrow> (401, db)
      | Some (uid, _) \<Rightarrow>
          (case idp of
             None \<Rightarrow> (400, db)
           | Some i \<Rightarrow> (case DeleteApp uid i db of (Err _, db1) \<Rightarrow> (500, db1) | (Ok _, db1) \<Rightarrow> (200, db1))))"

definition handleListOAuthAuthorizations ::
    "user option \<Rightarrow> oauth_db \<Rightarrow> int \<times> (int \<times> oauth_auth \<times> string \<times> string \<times> string list) list" where
  "handleListOAuthAuthorizations u db =
     (case u of None \<Rightarrow> (401, []) | Some (uid, _) \<Rightarrow>
        (case ListAuthorizations db uid of Err _ \<Rightarrow> (500, []) | Ok xs \<Rightarrow> (200, xs)))"

definition handleRevokeOAuthAuthorization :: "user option \<Rightarrow> int option \<Rightarrow> oauth_db \<Rightarrow> int \<times> oauth_db" where
  "handleRevokeOAuthAuthorization u idp db =
     (case u of
        None \<Rightarrow> (401, db)
      | Some (uid, _) \<Rightarrow>
          (case idp of
             None \<Rightarrow> (400, db)
           | Some i \<Rightarrow> (case RevokeAuthorization uid i db of (Err _, db1) \<Rightarrow> (500, db1) | (Ok _, db1) \<Rightarrow> (200, db1))))"

end
