(* ===== verification/OAuthClaims.thy ===== *)
theory OAuthClaims
  imports OAuth
begin

text \<open>
  What holds of the OAuth provider along every sequence of requests: a token stands for a consent of its account
  and for a client that proved itself; a code gives one token; revoking a consent ends its tokens, but not
  the codes that wait.
\<close>

section \<open>Sequences of requests\<close>

datatype oauth_req =
    QCreate "string option" "string option" "user option" "(string \<times> string list \<times> string list) option"
  | QDelete "user option" "int option"
  | QApprove "string option" int "user option" "approve_req option"
  | QToken "string option" int "token_form option" "(string \<times> string) option"
  | QRevoke "user option" "int option"
  | QDatabase bool

primrec oauth_step ::
    "(string \<Rightarrow> string) \<Rightarrow> (string \<Rightarrow> (string \<times> string \<times> string) option) \<Rightarrow> oauth_req \<Rightarrow> oauth_db \<Rightarrow> oauth_db" where
  "oauth_step sha url (QCreate rnd1 rnd2 u req) db = snd (handleCreateOAuthApp sha url rnd1 rnd2 u req db)"
| "oauth_step sha url (QDelete u i) db = snd (handleDeleteOAuthApp u i db)"
| "oauth_step sha url (QApprove rnd now u req) db = snd (handleOAuthApprove sha rnd now u req db)"
| "oauth_step sha url (QToken rnd now form basic) db = snd (handleOAuthToken sha rnd now form basic db)"
| "oauth_step sha url (QRevoke u i) db = snd (handleRevokeOAuthAuthorization u i db)"
| "oauth_step sha url (QDatabase d) db = db\<lparr>od_down := d\<rparr>"

definition oauth_run ::
    "(string \<Rightarrow> string) \<Rightarrow> (string \<Rightarrow> (string \<times> string \<times> string) option) \<Rightarrow> oauth_req list \<Rightarrow> oauth_db \<Rightarrow> oauth_db" where
  "oauth_run sha url qs db = fold (oauth_step sha url) qs db"

lemma oauth_run_simps [simp]:
  "oauth_run sha url [] db = db"
  "oauth_run sha url (q # qs) db = oauth_run sha url qs (oauth_step sha url q db)"
  "oauth_run sha url (qs @ ps) db = oauth_run sha url ps (oauth_run sha url qs db)"
  by (simp_all add: oauth_run_def)

section \<open>Scopes\<close>

lemma fields_join: "\<forall>w \<in> set ws. w \<noteq> [] \<and> (\<forall>c \<in> set w. \<not> is_space c) \<Longrightarrow> str_fields (join '' '' ws) = ws"
proof (induction "'' ''" ws rule: join.induct)
  case 1
  then show ?case by (simp add: str_fields_def)
next
  case (2 w)
  then show ?case using fields_acc_word [of w "[]" "[]"] by (simp add: str_fields_def)
next
  case (3 w v ws)
  have "is_space (CHR '' '')" by (simp add: is_space_def)
  then show ?case using 3 fields_acc_word [of w "CHR '' '' # join '' '' (v # ws)" "[]"] by (simp add: str_fields_def)
qed

lemma FilterScopes_fields: "str_fields (join '' '' (FilterScopes scopes)) = FilterScopes scopes"
  by (rule fields_join) (auto simp: FilterScopes_def SupportedScopes_def is_space_def)

section \<open>What an operation does to codes and tokens\<close>

lemma randID_Ok: "randID rnd pfx = Ok s \<longleftrightarrow> (\<exists>buf. rnd = Some buf \<and> s = pfx @ b64_encode url_alphabet buf)"
  by (auto simp: randID_def split: option.splits)

lemma CreateApp_tables:
  "od_codes (snd (CreateApp sha url r1 r2 o1 n us sc db)) = od_codes db"
  "od_tokens (snd (CreateApp sha url r1 r2 o1 n us sc db)) = od_tokens db"
  by (auto simp: CreateApp_def Let_def split: option.splits sum.splits)

lemma create_tables [simp]:
  "od_codes (snd (handleCreateOAuthApp sha url r1 r2 u req db)) = od_codes db"
  "od_tokens (snd (handleCreateOAuthApp sha url r1 r2 u req db)) = od_tokens db"
  using CreateApp_tables [of sha url r1 r2]
  by (auto simp: handleCreateOAuthApp_def split: option.splits prod.splits sum.splits) (metis snd_conv)+

lemma delete_tables [simp]:
  "od_codes (snd (handleDeleteOAuthApp u i db)) = od_codes db"
  "od_tokens (snd (handleDeleteOAuthApp u i db)) = od_tokens db"
  by (auto simp: handleDeleteOAuthApp_def DeleteApp_def split: option.splits prod.splits sum.splits if_splits)

lemma revoke_tables:
  "od_codes (snd (handleRevokeOAuthAuthorization u i db)) = od_codes db"
  "(k, t) \<in> set (rows (od_tokens (snd (handleRevokeOAuthAuthorization u i db)))) \<Longrightarrow> (k, t) \<in> set (rows (od_tokens db))"
  by (auto simp: handleRevokeOAuthAuthorization_def RevokeAuthorization_def split: option.splits prod.splits sum.splits if_splits)

text \<open>The code row that an approval stores.\<close>

definition approved_code :: "(string \<Rightarrow> string) \<Rightarrow> string \<Rightarrow> int \<Rightarrow> int \<Rightarrow> int \<Rightarrow> approve_req \<Rightarrow> oauth_code" where
  "approved_code sha buf now appID uid q =
     \<lparr>oc_Hash = token_Hash sha (''gla_'' @ b64_encode url_alphabet buf), oc_AppID = appID, oc_UserID = uid,
      oc_RedirectURI = ap_RedirectURI q, oc_Scopes = join '' '' (FilterScopes (ap_Scopes q)), oc_ExpiresAt = now + codeTTL\<rparr>"

lemma IssueCode_Ok:
  assumes "IssueCode sha rnd now p db = (Ok code, db1)"
  obtains buf where "rnd = Some buf" "code = ''gla_'' @ b64_encode url_alphabet buf"
    "db1 = db\<lparr>od_codes := tbl_insert \<lparr>oc_Hash = token_Hash sha code, oc_AppID = zp_AppID p, oc_UserID = zp_UserID p,
       oc_RedirectURI = zp_RedirectURI p, oc_Scopes = join '' '' (zp_Scopes p), oc_ExpiresAt = now + codeTTL\<rparr> (od_codes db),
       od_auths := upsert_auth p (od_auths db)\<rparr>"
  using assms by (auto simp: IssueCode_def randID_Ok split: sum.splits if_splits)

lemma IssueCode_Err: "IssueCode sha rnd now p db = (Err e, db1) \<Longrightarrow> db1 = db"
  by (auto simp: IssueCode_def split: sum.splits if_splits)

lemma approve_cases:
  obtains (refused) "snd (handleOAuthApprove sha rnd now u req db) = db" "fst (fst (handleOAuthApprove sha rnd now u req db)) \<noteq> 200"
  | (issued) buf uid r q app au loc where "rnd = Some buf" "u = Some (uid, r)" "req = Some q"
      "AppByClientID db (ap_ClientID q) = Ok app" "ValidateRedirectURI app (ap_RedirectURI q)"
      "handleOAuthApprove sha rnd now u req db = ((200, loc),
         db\<lparr>od_codes := tbl_insert (approved_code sha buf now (App_ID app) uid q) (od_codes db), od_auths := au\<rparr>)"
proof (cases u)
  case (Some ur)
  obtain uid r where u: "u = Some (uid, r)" using Some by (cases ur) auto
  show thesis
  proof (cases req)
    case (Some q)
    show thesis
    proof (cases "AppByClientID db (ap_ClientID q)")
      case (Inr app)
      show thesis
      proof (cases "ValidateRedirectURI app (ap_RedirectURI q)")
        case True
        define p where "p = \<lparr>zp_AppID = App_ID app, zp_UserID = uid, zp_RedirectURI = ap_RedirectURI q,
          zp_Scopes = FilterScopes (ap_Scopes q)\<rparr>"
        obtain res db1 where i: "IssueCode sha rnd now p db = (res, db1)" by (cases "IssueCode sha rnd now p db")
        show thesis
        proof (cases res)
          case (Inl e)
          then show thesis using refused i IssueCode_Err [of sha rnd now p db e db1] u Some Inr True
            by (simp add: handleOAuthApprove_def p_def)
        next
          case (Inr code)
          with i have "IssueCode sha rnd now p db = (Ok code, db1)" by simp
          from IssueCode_Ok [OF this] obtain buf where b: "rnd = Some buf" "code = ''gla_'' @ b64_encode url_alphabet buf"
            "db1 = db\<lparr>od_codes := tbl_insert (approved_code sha buf now (App_ID app) uid q) (od_codes db),
               od_auths := upsert_auth p (od_auths db)\<rparr>"
            by (auto simp: p_def approved_code_def)
          show thesis
            using issued [OF b(1) u Some \<open>AppByClientID db (ap_ClientID q) = Ok app\<close> True, of _ "upsert_auth p (od_auths db)"]
              u Some \<open>AppByClientID db (ap_ClientID q) = Ok app\<close> True i Inr b(3)
            by (simp add: handleOAuthApprove_def p_def)
        qed
      next
        case False
        then show thesis using refused u Some Inr by (simp add: handleOAuthApprove_def)
      qed
    next
      case (Inl e)
      then show thesis using refused u Some by (simp add: handleOAuthApprove_def)
    qed
  next
    case None
    then show thesis using refused u by (simp add: handleOAuthApprove_def)
  qed
next
  case None
  then show thesis using refused by (simp add: handleOAuthApprove_def)
qed

lemma exchange_find_cases:
  assumes "exchange_find sha now cid secret code redir db = (res, db1)"
  shows "(\<exists>e. res = Err e \<and> (db1 = db \<or> db1 = delete_code sha code db)) \<or>
    (\<exists>c k app. res = Ok c \<and> db1 = db \<and> \<not> od_down db \<and> (k, c) \<in> set (rows (od_codes db)) \<and> oc_Hash c = token_Hash sha code \<and>
       VerifyClient sha db cid secret = Ok app \<and> App_ID app = oc_AppID c \<and> now \<le> oc_ExpiresAt c \<and>
       (redir = [] \<or> redir = oc_RedirectURI c))"
  using assms by (auto simp: exchange_find_def split: sum.splits if_splits option.splits prod.splits dest: tbl_find_Some)

text \<open>The token row that an exchange stores.\<close>

definition exchanged_token :: "(string \<Rightarrow> string) \<Rightarrow> string \<Rightarrow> int \<Rightarrow> oauth_code \<Rightarrow> oauth_token" where
  "exchanged_token sha access now c =
     \<lparr>ot_Hash = token_Hash sha access, ot_AppID = oc_AppID c, ot_UserID = oc_UserID c, ot_Scopes = oc_Scopes c,
      ot_ExpiresAt = Some (now + tokenTTL)\<rparr>"

lemma exchange_finish_cases:
  assumes "exchange_finish sha rnd now code c db = (res, db1)"
  shows "(\<exists>e. res = Err e \<and> db1 = delete_code sha code db) \<or>
    (\<exists>resp. res = Ok resp \<and> \<not> od_down db \<and> rs_Scope resp = oc_Scopes c \<and>
       \<not> tbl_exists (\<lambda>_ r. ot_Hash r = token_Hash sha (rs_AccessToken resp)) (od_tokens db) \<and>
       db1 = (delete_code sha code db)\<lparr>od_tokens := tbl_insert (exchanged_token sha (rs_AccessToken resp) now c) (od_tokens db)\<rparr>)"
  using assms by (auto simp: exchange_finish_def exchanged_token_def delete_code_def Let_def split: sum.splits if_splits)

lemma exchange_cases:
  assumes "ExchangeCode sha rnd now cid secret code redir db = (res, db1)"
  shows "(\<exists>e. res = Err e \<and> (db1 = db \<or> db1 = delete_code sha code db)) \<or>
    (\<exists>resp c k app. res = Ok resp \<and> \<not> od_down db \<and> (k, c) \<in> set (rows (od_codes db)) \<and> oc_Hash c = token_Hash sha code \<and>
       VerifyClient sha db cid secret = Ok app \<and> App_ID app = oc_AppID c \<and> now \<le> oc_ExpiresAt c \<and>
       (redir = [] \<or> redir = oc_RedirectURI c) \<and> rs_Scope resp = oc_Scopes c \<and>
       \<not> tbl_exists (\<lambda>_ r. ot_Hash r = token_Hash sha (rs_AccessToken resp)) (od_tokens db) \<and>
       db1 = (delete_code sha code db)\<lparr>od_tokens := tbl_insert (exchanged_token sha (rs_AccessToken resp) now c) (od_tokens db)\<rparr>)"
proof -
  obtain fr fd where f: "exchange_find sha now cid secret code redir db = (fr, fd)" by fastforce
  show ?thesis
  proof (cases fr)
    case (Inl e)
    then show ?thesis using exchange_find_cases [OF f] assms f by (auto simp: ExchangeCode_def)
  next
    case (Inr c)
    from exchange_find_cases [OF f] Inr have fd: "fd = db" by auto
    have "exchange_finish sha rnd now code c db = (res, db1)" using assms f Inr fd by (simp add: ExchangeCode_def)
    from exchange_finish_cases [OF this] exchange_find_cases [OF f] Inr show ?thesis by blast
  qed
qed

section \<open>Every token goes back to a consent\<close>

definition client_of :: "token_form \<Rightarrow> (string \<times> string) option \<Rightarrow> string \<times> string" where
  "client_of f basic = (case basic of Some up \<Rightarrow> up | None \<Rightarrow> (fm_client_id f, fm_client_secret f))"

text \<open>The code was issued in the history \<open>qs\<close>: its account asked for it, for a registered address of the application.\<close>

definition code_issued ::
    "(string \<Rightarrow> string) \<Rightarrow> (string \<Rightarrow> (string \<times> string \<times> string) option) \<Rightarrow> oauth_req list \<Rightarrow> approve_req \<Rightarrow> oauth_code \<Rightarrow> bool" where
  "code_issued sha url qs q c \<longleftrightarrow>
     (\<exists>as bs buf t r app. qs = as @ QApprove (Some buf) t (Some (oc_UserID c, r)) (Some q) # bs \<and>
        AppByClientID (oauth_run sha url as oauth_New) (ap_ClientID q) = Ok app \<and>
        ValidateRedirectURI app (ap_RedirectURI q) \<and>
        fst (fst (handleOAuthApprove sha (Some buf) t (Some (oc_UserID c, r)) (Some q) (oauth_run sha url as oauth_New))) = 200 \<and>
        c = approved_code sha buf t (App_ID app) (oc_UserID c) q)"

text \<open>The token is the answer to a client that proved itself and brought such a code in time.\<close>

definition token_granted ::
    "(string \<Rightarrow> string) \<Rightarrow> (string \<Rightarrow> (string \<times> string \<times> string) option) \<Rightarrow> oauth_req list \<Rightarrow> approve_req \<Rightarrow> oauth_token \<Rightarrow> bool" where
  "token_granted sha url qs q t \<longleftrightarrow>
     (\<exists>as bs rnd now f basic resp c app cid secret. qs = as @ QToken rnd now (Some f) basic # bs \<and>
        fst (handleOAuthToken sha rnd now (Some f) basic (oauth_run sha url as oauth_New)) = (200, Some resp) \<and>
        client_of f basic = (cid, secret) \<and>
        VerifyClient sha (oauth_run sha url as oauth_New) cid secret = Ok app \<and>
        code_issued sha url as q c \<and> App_ID app = oc_AppID c \<and> oc_Hash c = token_Hash sha (fm_code f) \<and> now \<le> oc_ExpiresAt c \<and>
        (fm_redirect_uri f = [] \<or> fm_redirect_uri f = ap_RedirectURI q) \<and>
        t = exchanged_token sha (rs_AccessToken resp) now c)"

lemma code_issued_more: "code_issued sha url qs q c \<Longrightarrow> code_issued sha url (qs @ ps) q c"
  unfolding code_issued_def by fastforce

lemma token_granted_more: "token_granted sha url qs q t \<Longrightarrow> token_granted sha url (qs @ ps) q t"
  unfolding token_granted_def by fastforce

definition grants_ok :: "(string \<Rightarrow> string) \<Rightarrow> (string \<Rightarrow> (string \<times> string \<times> string) option) \<Rightarrow> oauth_req list \<Rightarrow> oauth_db \<Rightarrow> bool" where
  "grants_ok sha url qs db \<longleftrightarrow>
     (\<forall>k c. (k, c) \<in> set (rows (od_codes db)) \<longrightarrow> (\<exists>q. code_issued sha url qs q c)) \<and>
     (\<forall>k t. (k, t) \<in> set (rows (od_tokens db)) \<longrightarrow> (\<exists>q. token_granted sha url qs q t))"

lemma grants_ok_subset:
  assumes "grants_ok sha url qs db"
    and "set (rows (od_codes db1)) \<subseteq> set (rows (od_codes db))" and "set (rows (od_tokens db1)) \<subseteq> set (rows (od_tokens db))"
  shows "grants_ok sha url (qs @ ps) db1"
  using assms unfolding grants_ok_def by (meson code_issued_more token_granted_more subset_iff)

lemma delete_code_tables:
  "set (rows (od_codes (delete_code sha code db))) \<subseteq> set (rows (od_codes db))" "od_tokens (delete_code sha code db) = od_tokens db"
  by (auto simp: delete_code_def)

lemma handleOAuthToken_form:
  assumes "fm_grant_type f = ''authorization_code''" and "client_of f basic = (cid, secret)"
  shows "handleOAuthToken sha rnd now (Some f) basic db =
     (case ExchangeCode sha rnd now cid secret (fm_code f) (fm_redirect_uri f) db of
        (Err _, db1) \<Rightarrow> ((400, None), db1) | (Ok resp, db1) \<Rightarrow> ((200, Some resp), db1))"
  using assms by (simp add: handleOAuthToken_def client_of_def)

lemma grants_ok_token:
  assumes ok: "grants_ok sha url qs db" and db: "db = oauth_run sha url qs oauth_New"
  shows "grants_ok sha url (qs @ [QToken rnd now form basic]) (snd (handleOAuthToken sha rnd now form basic db))"
proof (cases "\<exists>f. form = Some f \<and> fm_grant_type f = ''authorization_code''")
  case False
  then have "snd (handleOAuthToken sha rnd now form basic db) = db"
    by (auto simp: handleOAuthToken_def split: option.splits)
  then show ?thesis using grants_ok_subset [OF ok] by simp
next
  case True
  then obtain f where f: "form = Some f" "fm_grant_type f = ''authorization_code''" by blast
  obtain cid secret where cl: "client_of f basic = (cid, secret)" by (cases "client_of f basic")
  obtain res db1 where x: "ExchangeCode sha rnd now cid secret (fm_code f) (fm_redirect_uri f) db = (res, db1)" by fastforce
  note h = handleOAuthToken_form [OF f(2) cl, of sha rnd now db]
  show ?thesis
  proof (cases res)
    case (Inl e)
    with exchange_cases [OF x] have "db1 = db \<or> db1 = delete_code sha (fm_code f) db" by auto
    then show ?thesis using grants_ok_subset [OF ok, of db1] delete_code_tables [of sha "fm_code f" db] x h Inl f(1) by auto
  next
    case (Inr resp)
    with exchange_cases [OF x] obtain c k app where c: "(k, c) \<in> set (rows (od_codes db))" "oc_Hash c = token_Hash sha (fm_code f)"
      "VerifyClient sha db cid secret = Ok app" "App_ID app = oc_AppID c" "now \<le> oc_ExpiresAt c"
      "fm_redirect_uri f = [] \<or> fm_redirect_uri f = oc_RedirectURI c"
      and db1: "db1 = (delete_code sha (fm_code f) db)\<lparr>od_tokens := tbl_insert (exchanged_token sha (rs_AccessToken resp) now c) (od_tokens db)\<rparr>"
      by auto
    from ok c(1) obtain q where q: "code_issued sha url qs q c" unfolding grants_ok_def by blast
    then have red: "oc_RedirectURI c = ap_RedirectURI q" unfolding code_issued_def approved_code_def by (metis oauth_code.select_convs(4))
    have reply: "fst (handleOAuthToken sha rnd now (Some f) basic db) = (200, Some resp)" using h x Inr by simp
    have "token_granted sha url (qs @ [QToken rnd now form basic]) q (exchanged_token sha (rs_AccessToken resp) now c)"
      unfolding token_granted_def f(1)
      by (rule exI [of _ qs], rule exI [of _ "[]"], rule exI [of _ rnd], rule exI [of _ now], rule exI [of _ f], rule exI [of _ basic],
          rule exI [of _ resp], rule exI [of _ c], rule exI [of _ app], rule exI [of _ cid], rule exI [of _ secret])
        (use reply cl c q red db in simp)
    moreover have "grants_ok sha url (qs @ [QToken rnd now form basic]) (delete_code sha (fm_code f) db)"
      using grants_ok_subset [OF ok] delete_code_tables [of sha "fm_code f" db] by simp
    ultimately show ?thesis
      using x h Inr f(1) db1 delete_code_tables(2) [of sha "fm_code f" db] by (auto simp: grants_ok_def)
  qed
qed

lemma grants_ok_approve:
  assumes ok: "grants_ok sha url qs db" and db: "db = oauth_run sha url qs oauth_New"
  shows "grants_ok sha url (qs @ [QApprove rnd now u req]) (snd (handleOAuthApprove sha rnd now u req db))"
proof (cases rule: approve_cases [of sha rnd now u req db])
  case refused
  then show ?thesis using grants_ok_subset [OF ok] by simp
next
  case (issued buf uid r q app au loc)
  define c where "c = approved_code sha buf now (App_ID app) uid q"
  have "oc_UserID c = uid" by (simp add: c_def approved_code_def)
  then have "code_issued sha url (qs @ [QApprove rnd now u req]) q c"
    unfolding code_issued_def issued(1-3)
    by (intro exI [of _ qs] exI [of _ "[]"] exI [of _ buf] exI [of _ now] exI [of _ r] exI [of _ app])
      (use issued db in \<open>simp add: c_def\<close>)
  moreover have "grants_ok sha url (qs @ [QApprove rnd now u req]) db" using grants_ok_subset [OF ok] by simp
  ultimately show ?thesis using issued(6) by (auto simp: grants_ok_def c_def)
qed

lemma grants_ok_run: "grants_ok sha url qs (oauth_run sha url qs oauth_New)"
proof (induction qs rule: rev_induct)
  case Nil
  then show ?case by (simp add: grants_ok_def oauth_New_def)
next
  case (snoc q qs)
  define db where "db = oauth_run sha url qs oauth_New"
  note ok = snoc [folded db_def]
  show ?case
  proof (cases q)
    case (QApprove rnd now u req)
    then show ?thesis using grants_ok_approve [OF ok db_def] by (simp add: db_def)
  next
    case (QToken rnd now form basic)
    then show ?thesis using grants_ok_token [OF ok db_def] by (simp add: db_def)
  next
    case (QRevoke u i)
    have "set (rows (od_tokens (snd (handleRevokeOAuthAuthorization u i db)))) \<subseteq> set (rows (od_tokens db))"
      by (auto dest: revoke_tables(2))
    then have "grants_ok sha url (qs @ [q]) (snd (handleRevokeOAuthAuthorization u i db))"
      using grants_ok_subset [OF ok] revoke_tables(1) [where u = u and i = i and db = db] by simp
    then show ?thesis using QRevoke by (simp add: db_def)
  qed (use grants_ok_subset [OF ok] in \<open>simp_all flip: db_def\<close>)
qed

section \<open>A code is good for one token\<close>

definition code_absent :: "(string \<Rightarrow> string) \<Rightarrow> string \<Rightarrow> oauth_db \<Rightarrow> bool" where
  "code_absent sha code db \<longleftrightarrow> (\<forall>(k, c) \<in> set (rows (od_codes db)). oc_Hash c \<noteq> token_Hash sha code)"

text \<open>The random source gives a code with the same digest again.\<close>

definition repeats_code :: "(string \<Rightarrow> string) \<Rightarrow> string \<Rightarrow> oauth_req \<Rightarrow> bool" where
  "repeats_code sha code q \<longleftrightarrow>
     (case q of QApprove (Some buf) _ _ _ \<Rightarrow> sha (''gla_'' @ b64_encode url_alphabet buf) = sha code | _ \<Rightarrow> False)"

lemma code_absent_subset:
  "code_absent sha code db \<Longrightarrow> set (rows (od_codes db1)) \<subseteq> set (rows (od_codes db)) \<Longrightarrow> code_absent sha code db1"
  by (auto simp: code_absent_def)

lemma token_codes: "set (rows (od_codes (snd (handleOAuthToken sha rnd now form basic db)))) \<subseteq> set (rows (od_codes db))"
proof (cases "\<exists>f. form = Some f \<and> fm_grant_type f = ''authorization_code''")
  case False
  then show ?thesis by (auto simp: handleOAuthToken_def split: option.splits)
next
  case True
  then obtain f where f: "form = Some f" "fm_grant_type f = ''authorization_code''" by blast
  obtain cid secret where cl: "client_of f basic = (cid, secret)" by (cases "client_of f basic")
  obtain res db1 where x: "ExchangeCode sha rnd now cid secret (fm_code f) (fm_redirect_uri f) db = (res, db1)" by fastforce
  from exchange_cases [OF x] have "set (rows (od_codes db1)) \<subseteq> set (rows (od_codes db))"
    using delete_code_tables(1) [of sha "fm_code f" db] by auto
  then show ?thesis using x f(1) handleOAuthToken_form [OF f(2) cl, of sha rnd now db] by (auto split: sum.splits)
qed

lemma code_absent_step:
  assumes "code_absent sha code db" and "\<not> repeats_code sha code q"
  shows "code_absent sha code (oauth_step sha url q db)"
proof (cases q)
  case (QApprove rnd now u req)
  show ?thesis
  proof (cases rule: approve_cases [of sha rnd now u req db])
    case refused
    then show ?thesis using assms(1) QApprove by simp
  next
    case (issued buf uid r q' app au loc)
    then show ?thesis using assms QApprove by (auto simp: code_absent_def approved_code_def repeats_code_def)
  qed
next
  case (QToken rnd now form basic)
  then show ?thesis using code_absent_subset [OF assms(1)] token_codes by simp
next
  case (QRevoke u i)
  then show ?thesis using assms(1) revoke_tables(1) by (simp add: code_absent_def)
qed (use assms(1) in \<open>simp_all add: code_absent_def\<close>)

lemma code_absent_run:
  "code_absent sha code db \<Longrightarrow> \<forall>q \<in> set qs. \<not> repeats_code sha code q \<Longrightarrow> code_absent sha code (oauth_run sha url qs db)"
  by (induction qs arbitrary: db) (simp_all add: code_absent_step)

lemma exchange_absent:
  assumes "fst (handleOAuthToken sha rnd now (Some f) basic db) = (200, Some resp)"
  shows "code_absent sha (fm_code f) (snd (handleOAuthToken sha rnd now (Some f) basic db))" "\<not> code_absent sha (fm_code f) db"
proof -
  have t: "fm_grant_type f = ''authorization_code''" using assms by (auto simp: handleOAuthToken_def split: if_splits)
  obtain cid secret where cl: "client_of f basic = (cid, secret)" by (cases "client_of f basic")
  obtain res db1 where x: "ExchangeCode sha rnd now cid secret (fm_code f) (fm_redirect_uri f) db = (res, db1)" by fastforce
  note h = handleOAuthToken_form [OF t cl, of sha rnd now db]
  have res: "res = Ok resp" using assms h x by (cases res) auto
  from exchange_cases [OF x] res show "code_absent sha (fm_code f) (snd (handleOAuthToken sha rnd now (Some f) basic db))"
    "\<not> code_absent sha (fm_code f) db"
    using h x by (auto simp: code_absent_def delete_code_def)
qed

lemma token_reply:
  "fst (handleOAuthToken sha rnd now (Some f) basic db) = (400, None) \<or>
   (\<exists>resp. fst (handleOAuthToken sha rnd now (Some f) basic db) = (200, Some resp))"
  by (auto simp: handleOAuthToken_def split_beta split: sum.splits prod.splits)

text \<open>An exchange reads the applications and the codes only.\<close>

lemma exchange_other_tables:
  assumes "od_apps db' = od_apps db" and "od_codes db' = od_codes db" and "od_down db' = od_down db"
  shows "exchange_find sha now cid secret code redir db = (Ok c, d) \<Longrightarrow>
    exchange_find sha now cid secret code redir db' = (Ok c, db')"
  using assms by (auto simp: exchange_find_def VerifyClient_def AppByID_def scanApp_def split: sum.splits if_splits option.splits prod.splits)

lemma revoked_tables:
  assumes "\<not> od_down db" and db2: "db2 = snd (RevokeAuthorization uid app db)"
  shows "\<not> tbl_exists (\<lambda>_ r. oz_UserID r = uid \<and> oz_AppID r = app) (od_auths db2)"
    and "\<not> tbl_exists (\<lambda>_ r. ot_UserID r = uid \<and> ot_AppID r = app) (od_tokens db2)"
    and "od_apps db2 = od_apps db" "od_codes db2 = od_codes db" "od_down db2 = od_down db"
    and "tbl_exists P (od_tokens db2) \<Longrightarrow> tbl_exists P (od_tokens db)"
  using assms(1) unfolding db2 by (auto simp: RevokeAuthorization_def tbl_exists_delete tbl_exists_def list_ex_iff)

lemma TokenUser_new:
  assumes "\<not> tbl_exists (\<lambda>_ r. ot_Hash r = token_Hash sha access) (od_tokens db)" and "\<not> od_down db"
    and "od_tokens db3 = tbl_insert (exchanged_token sha access now c) (od_tokens db)" and "\<not> od_down db3"
  shows "\<exists>scopes. TokenUser sha now access db3 = Ok (oc_UserID c, scopes)"
proof -
  have "tbl_find (\<lambda>_ r. ot_Hash r = token_Hash sha access) (od_tokens db3) = Some (seq (od_tokens db) + 1, exchanged_token sha access now c)"
    unfolding assms(3) by (rule find_first_new [OF assms(1)]) (simp add: exchanged_token_def)
  then show ?thesis using assms(4) by (simp add: TokenUser_def exchanged_token_def tokenTTL_def)
qed

section \<open>Claims\<close>

text \<open>C26: Along every sequence of requests, a token that the provider accepts goes back to a consent: the account it
  stands for approved the request of an application, to an address the application registered, a client
  that proved to be this application brought the code in time, and the scopes are those of the approval that
  the provider knows, no more.\<close>

theorem token_means_consent:
  assumes "TokenUser sha now tok (oauth_run sha url qs oauth_New) = Ok (uid, scopes)"
  shows "\<exists>q t. token_granted sha url qs q t \<and> ot_Hash t = token_Hash sha tok \<and> ot_UserID t = uid \<and>
    scopes = FilterScopes (ap_Scopes q) \<and> (\<forall>x. ot_ExpiresAt t = Some x \<longrightarrow> now \<le> x)"
proof -
  define db where "db = oauth_run sha url qs oauth_New"
  from assms obtain k t where t: "tbl_find (\<lambda>_ r. ot_Hash r = token_Hash sha tok) (od_tokens db) = Some (k, t)"
    "ot_UserID t = uid" "scopes = (if ot_Scopes t \<noteq> [] then str_fields (ot_Scopes t) else [])"
    "\<forall>x. ot_ExpiresAt t = Some x \<longrightarrow> now \<le> x"
    by (auto simp: TokenUser_def simp flip: db_def split: if_splits option.splits)
  from tbl_find_Some [OF t(1)] have row: "(k, t) \<in> set (rows (od_tokens db))" "ot_Hash t = token_Hash sha tok" by auto
  obtain q where q: "token_granted sha url qs q t"
    using grants_ok_run [of sha url qs] row(1) unfolding grants_ok_def db_def by blast
  then have sc: "ot_Scopes t = join '' '' (FilterScopes (ap_Scopes q))"
    unfolding token_granted_def code_issued_def exchanged_token_def approved_code_def
    by (metis oauth_code.select_convs(5) oauth_token.select_convs(4))
  have "scopes = FilterScopes (ap_Scopes q)"
    using t(3) sc FilterScopes_fields [of "ap_Scopes q"] by (auto simp: str_fields_def)
  with q row(2) t show ?thesis by blast
qed

text \<open>A code gives one token. After an exchange that answered with a token, whatever is requested, no exchange
  of the same code answers with one again, by any client, unless the random source repeats a code.\<close>

theorem code_exchanged_once:
  assumes "handleOAuthToken sha rnd now (Some f) basic db = ((200, Some resp), db1)"
    and "\<forall>q \<in> set qs. \<not> repeats_code sha (fm_code f) q" and "fm_code f' = fm_code f"
  shows "fst (handleOAuthToken sha rnd' now' (Some f') basic' (oauth_run sha url qs db1)) = (400, None)"
proof -
  have "code_absent sha (fm_code f) db1" using exchange_absent(1) [of sha rnd now f basic db resp] assms(1) by simp
  then have "code_absent sha (fm_code f') (oauth_run sha url qs db1)" using code_absent_run assms(2,3) by simp
  then have no: "fst (handleOAuthToken sha rnd' now' (Some f') basic' (oauth_run sha url qs db1)) \<noteq> (200, Some r)" for r
    using exchange_absent(2) by blast
  then show ?thesis using token_reply [of sha rnd' now' f' basic' "oauth_run sha url qs db1"] by blast
qed

text \<open>Revoking the consent to an application ends every token of the account for it, but not a code that waits:
  whoever could exchange one before the revocation still gets a token after it, which the provider then accepts
  for the account although no consent is stored.\<close>

theorem revocation_spares_codes:
  assumes "ExchangeCode sha rnd now cid secret code redir db = (Ok resp, db1)"
  shows "\<exists>uid app db2 db3. RevokeAuthorization uid app db = (Ok (), db2) \<and>
    \<not> tbl_exists (\<lambda>_ r. ot_UserID r = uid \<and> ot_AppID r = app) (od_tokens db2) \<and>
    ExchangeCode sha rnd now cid secret code redir db2 = (Ok resp, db3) \<and>
    \<not> tbl_exists (\<lambda>_ r. oz_UserID r = uid \<and> oz_AppID r = app) (od_auths db3) \<and>
    (\<exists>scopes. TokenUser sha now (rs_AccessToken resp) db3 = Ok (uid, scopes))"
proof -
  obtain fr d where f: "exchange_find sha now cid secret code redir db = (fr, d)" by fastforce
  obtain c where fr: "fr = Ok c" using assms f by (cases fr) (auto simp: ExchangeCode_def)
  with exchange_find_cases [OF f] have d: "d = db" and up: "\<not> od_down db" by auto
  have c: "exchange_find sha now cid secret code redir db = (Ok c, db)" using f fr d by simp
  have fin: "exchange_finish sha rnd now code c db = (Ok resp, db1)" using assms c by (simp add: ExchangeCode_def)
  define db2 where "db2 = snd (RevokeAuthorization (oc_UserID c) (oc_AppID c) db)"
  note r = revoked_tables [OF up db2_def]
  from exchange_finish_cases [OF fin] have new: "\<not> tbl_exists (\<lambda>_ t. ot_Hash t = token_Hash sha (rs_AccessToken resp)) (od_tokens db)"
    by auto
  then have new2: "\<not> tbl_exists (\<lambda>_ t. ot_Hash t = token_Hash sha (rs_AccessToken resp)) (od_tokens db2)" using r(6) by blast
  have resp: "randID rnd ''glat_'' = Ok (rs_AccessToken resp)"
    "resp = \<lparr>rs_AccessToken = rs_AccessToken resp, rs_ExpiresIn = 365 * 24 * 3600, rs_Scope = oc_Scopes c\<rparr>"
    using fin by (auto simp: exchange_finish_def Let_def split: sum.splits if_splits)
  define db3 where "db3 = (delete_code sha code db2)\<lparr>od_tokens := tbl_insert (exchanged_token sha (rs_AccessToken resp) now c) (od_tokens db2)\<rparr>"
  have "exchange_finish sha rnd now code c db2 = (Ok resp, db3)"
    using resp new2 r(5) up by (simp add: exchange_finish_def delete_code_def db3_def exchanged_token_def Let_def)
  then have "ExchangeCode sha rnd now cid secret code redir db2 = (Ok resp, db3)"
    using exchange_other_tables [OF r(3,4,5) c] by (simp add: ExchangeCode_def)
  moreover have "RevokeAuthorization (oc_UserID c) (oc_AppID c) db = (Ok (), db2)"
    using up by (simp add: db2_def RevokeAuthorization_def)
  moreover have "\<not> tbl_exists (\<lambda>_ r. oz_UserID r = oc_UserID c \<and> oz_AppID r = oc_AppID c) (od_auths db3)"
    using r(1,5) up by (simp add: db3_def delete_code_def)
  moreover have "\<exists>scopes. TokenUser sha now (rs_AccessToken resp) db3 = Ok (oc_UserID c, scopes)"
    by (rule TokenUser_new [OF new2]) (use r(5) up in \<open>simp_all add: db3_def delete_code_def\<close>)
  ultimately show ?thesis using r(2) by blast
qed

definition demo_url :: "string \<Rightarrow> (string \<times> string \<times> string) option" where
  "demo_url raw = Some (''https'', ''app.example'', [])"

definition demo_approve :: approve_req where
  "demo_approve = \<lparr>ap_ClientID = ''glo_'', ap_RedirectURI = ''https://app.example/cb'', ap_Scopes = [''read:user'', ''all''], ap_State = []\<rparr>"

definition demo_form :: token_form where
  "demo_form = \<lparr>fm_grant_type = ''authorization_code'', fm_client_id = ''glo_'', fm_client_secret = ''glsec_'', fm_code = ''gla_'',
     fm_redirect_uri = []\<rparr>"

definition demo_consent :: "oauth_req list" where
  "demo_consent =
     [QCreate (Some []) (Some []) (Some (7, new_user 0 alice)) (Some (''app'', [''https://app.example/cb''], [])),
      QApprove (Some []) 0 (Some (1, new_user 0 alice)) (Some demo_approve)]"

definition demo_oauth :: oauth_db where
  "demo_oauth = oauth_run id demo_url demo_consent oauth_New"

lemma demo_exchange:
  "fst (handleOAuthToken id (Some []) 5 (Some demo_form) None demo_oauth)
     = (200, Some \<lparr>rs_AccessToken = ''glat_'', rs_ExpiresIn = 365 * 24 * 3600, rs_Scope = ''read:user''\<rparr>)"
  by code_simp

lemma demo_token:
  "TokenUser id 6 ''glat_'' (oauth_run id demo_url (demo_consent @ [QToken (Some []) 5 (Some demo_form) None]) oauth_New)
     = Ok (1, [''read:user''])"
  by code_simp

theorem token_means_consent_witness:
  "\<exists>q t. token_granted id demo_url (demo_consent @ [QToken (Some []) 5 (Some demo_form) None]) q t \<and> ot_UserID t = 1 \<and>
     [''read:user''] = FilterScopes (ap_Scopes q)"
  using token_means_consent [OF demo_token] by blast

theorem code_exchanged_once_witness:
  "fst (handleOAuthToken id (Some ''x'') 6 (Some demo_form) None
     (oauth_run id demo_url [QApprove (Some ''y'') 6 (Some (1, new_user 0 alice)) (Some demo_approve)]
       (snd (handleOAuthToken id (Some []) 5 (Some demo_form) None demo_oauth)))) = (400, None)"
proof (rule code_exchanged_once)
  show "handleOAuthToken id (Some []) 5 (Some demo_form) None demo_oauth =
    ((200, Some \<lparr>rs_AccessToken = ''glat_'', rs_ExpiresIn = 365 * 24 * 3600, rs_Scope = ''read:user''\<rparr>),
     snd (handleOAuthToken id (Some []) 5 (Some demo_form) None demo_oauth))"
    using demo_exchange by (simp add: prod_eq_iff)
  have "''gla_'' @ b64_encode url_alphabet ''y'' \<noteq> ''gla_''" by code_simp
  then show "\<forall>q \<in> set [QApprove (Some ''y'') 6 (Some (1, new_user 0 alice)) (Some demo_approve)].
      \<not> repeats_code id (fm_code demo_form) q"
    by (simp add: repeats_code_def demo_form_def)
qed simp

theorem revocation_spares_codes_witness:
  "\<exists>uid app db2 db3 resp. RevokeAuthorization uid app demo_oauth = (Ok (), db2) \<and>
     ExchangeCode id (Some []) 5 ''glo_'' ''glsec_'' ''gla_'' [] db2 = (Ok resp, db3) \<and>
     (\<exists>scopes. TokenUser id 5 (rs_AccessToken resp) db3 = Ok (uid, scopes))"
proof -
  have "is_ok (fst (ExchangeCode id (Some []) 5 ''glo_'' ''glsec_'' ''gla_'' [] demo_oauth))" by code_simp
  then obtain resp db1 where "ExchangeCode id (Some []) 5 ''glo_'' ''glsec_'' ''gla_'' [] demo_oauth = (Ok resp, db1)"
    by (cases "ExchangeCode id (Some []) 5 ''glo_'' ''glsec_'' ''gla_'' [] demo_oauth") (auto simp: is_ok_def split: sum.splits)
  from revocation_spares_codes [OF this] show ?thesis by blast
qed

end
