(* ===== verification/IpAllow.thy ===== *)
theory IpAllow
  imports Secutil
begin

text \<open>
  The address lists of organizations: \<open>internal/service/ipallow/ipallow.go\<close>. \<open>parse_ip\<close> is \<open>net.ParseIP\<close> (the bytes
  of an address), \<open>parse_cidr\<close> is \<open>net.ParseCIDR\<close> (address and mask of a network); \<open>IPNet.Contains\<close> is modelled.
  \<open>ip_enabled\<close> holds the organizations with the column \<open>ip_allowlist_enabled\<close>; \<open>ip_faulty\<close> says of which table the
  statements fail.
\<close>

section \<open>Networks\<close>

record ip_net =
  in_IP :: "nat list"
  in_Mask :: "nat list"

definition CIDRMask :: "nat \<Rightarrow> nat list" where
  "CIDRMask bits = replicate (bits div 8) 255"

definition networkNumberAndMask :: "ip_net \<Rightarrow> (nat list \<times> nat list) option" where
  "networkNumberAndMask n =
     (case (case To4 (in_IP n) of Some ip \<Rightarrow> Some ip | None \<Rightarrow> if length (in_IP n) = 16 then Some (in_IP n) else None) of
        None \<Rightarrow> None
      | Some ip \<Rightarrow>
          if length (in_Mask n) = 4 then (if length ip = 4 then Some (ip, in_Mask n) else None)
          else if length (in_Mask n) = 16 then Some (ip, if length ip = 4 then drop 12 (in_Mask n) else in_Mask n)
          else None)"

definition net_Contains :: "ip_net \<Rightarrow> nat list \<Rightarrow> bool" where
  "net_Contains n ip0 =
     (case networkNumberAndMask n of
        None \<Rightarrow> ip0 = []
      | Some (nn, m) \<Rightarrow>
          let ip = (case To4 ip0 of Some x \<Rightarrow> x | None \<Rightarrow> ip0) in
          length ip = length nn \<and>
          list_all (\<lambda>((a, k), b). and (a :: nat) k = and b k) (zip (zip nn m) ip))"

section \<open>The service\<close>

record ip_rule =
  ir_OrgID :: int
  ir_CIDR :: string
  ir_Description :: string
  ir_Enabled :: bool

record ip_store =
  ip_rules :: "ip_rule table"
  ip_enabled :: "int list"
  ip_faulty :: "string \<Rightarrow> bool"

datatype ip_error = IpEmpty | IpInvalid string | IpDriver | IpNotFound

record ip_parsers =
  parse_ip :: "string \<Rightarrow> nat list option"
  parse_cidr :: "string \<Rightarrow> (nat list \<times> nat list) option"

definition ValidateCIDR :: "ip_parsers \<Rightarrow> string \<Rightarrow> ip_error + unit" where
  "ValidateCIDR P s0 =
     (let s = trim_space s0 in
      if s = [] then Err IpEmpty
      else if contains s ''/'' then (if parse_cidr P s = None then Err (IpInvalid s) else Ok ())
      else if parse_ip P s = None then Err (IpInvalid s)
      else Ok ())"

definition netOf :: "ip_parsers \<Rightarrow> string \<Rightarrow> ip_net option" where
  "netOf P s =
     (if contains s ''/'' then map_option (\<lambda>(ip, m). \<lparr>in_IP = ip, in_Mask = m\<rparr>) (parse_cidr P s)
      else case parse_ip P s of
             None \<Rightarrow> None
           | Some ip \<Rightarrow> Some \<lparr>in_IP = ip, in_Mask = CIDRMask (if To4 ip = None then 128 else 32)\<rparr>)"

definition ip_ByID :: "int \<Rightarrow> ip_store \<Rightarrow> ip_error + int \<times> ip_rule" where
  "ip_ByID i s =
     (if ip_faulty s ''ip_allowlist'' then Err IpDriver
      else case tbl_find (\<lambda>j _. j = i) (ip_rules s) of None \<Rightarrow> Err IpNotFound | Some x \<Rightarrow> Ok x)"

definition ip_Add ::
    "ip_parsers \<Rightarrow> int \<Rightarrow> string \<Rightarrow> string \<Rightarrow> bool \<Rightarrow> ip_store \<Rightarrow> (ip_error + int \<times> ip_rule) \<times> ip_store" where
  "ip_Add P orgID cidr description on s =
     (case ValidateCIDR P cidr of
        Err e \<Rightarrow> (Err e, s)
      | Ok _ \<Rightarrow>
          if ip_faulty s ''ip_allowlist'' then (Err IpDriver, s)
          else let t = tbl_insert \<lparr>ir_OrgID = orgID, ir_CIDR = trim_space cidr, ir_Description = description, ir_Enabled = on\<rparr> (ip_rules s);
                   s1 = s\<lparr>ip_rules := t\<rparr>
               in (ip_ByID (seq t) s1, s1))"

definition ip_List :: "int \<Rightarrow> ip_store \<Rightarrow> ip_error + (int \<times> ip_rule) list" where
  "ip_List orgID s =
     (if ip_faulty s ''ip_allowlist'' then Err IpDriver else Ok (tbl_select (\<lambda>_ r. ir_OrgID r = orgID) (ip_rules s)))"

definition ip_Delete :: "int \<Rightarrow> int \<Rightarrow> ip_store \<Rightarrow> (ip_error + unit) \<times> ip_store" where
  "ip_Delete orgID i s =
     (if ip_faulty s ''ip_allowlist'' then (Err IpDriver, s)
      else (Ok (), s\<lparr>ip_rules := tbl_delete (\<lambda>j r. j = i \<and> ir_OrgID r = orgID) (ip_rules s)\<rparr>))"

definition ip_SetEnabled :: "int \<Rightarrow> bool \<Rightarrow> ip_store \<Rightarrow> (ip_error + unit) \<times> ip_store" where
  "ip_SetEnabled orgID on s =
     (if ip_faulty s ''orgs'' then (Err IpDriver, s)
      else (Ok (), s\<lparr>ip_enabled := (if on then List.insert orgID (ip_enabled s) else filter (\<lambda>i. i \<noteq> orgID) (ip_enabled s))\<rparr>))"

definition ip_Enabled :: "int \<Rightarrow> ip_store \<Rightarrow> ip_error + bool" where
  "ip_Enabled orgID s = (if ip_faulty s ''orgs'' then Err IpDriver else Ok (orgID \<in> set (ip_enabled s)))"

fun ip_loop :: "ip_parsers \<Rightarrow> nat list \<Rightarrow> (int \<times> ip_rule) list \<Rightarrow> bool" where
  "ip_loop P ip [] = False"
| "ip_loop P ip ((i, r) # rs) =
     (if \<not> ir_Enabled r then ip_loop P ip rs
      else if (case netOf P (ir_CIDR r) of None \<Rightarrow> False | Some n \<Rightarrow> net_Contains n ip) then True
      else ip_loop P ip rs)"

definition ip_Check :: "ip_parsers \<Rightarrow> int \<Rightarrow> string \<Rightarrow> ip_store \<Rightarrow> ip_error + bool" where
  "ip_Check P orgID clientIP s =
     (case ip_Enabled orgID s of
        Err _ \<Rightarrow> Ok True
      | Ok on \<Rightarrow>
          if \<not> on then Ok True
          else (case ip_List orgID s of
                  Err e \<Rightarrow> Err e
                | Ok rules \<Rightarrow>
                    (case parse_ip P (trim_space clientIP) of None \<Rightarrow> Ok False | Some ip \<Rightarrow> Ok (ip_loop P ip rules))))"

section \<open>What a list admits\<close>

lemma ip_loop_iff:
  "ip_loop P ip rs \<longleftrightarrow>
     (\<exists>(i, r) \<in> set rs. ir_Enabled r \<and> (\<exists>n. netOf P (ir_CIDR r) = Some n \<and> net_Contains n ip))"
  by (induction rs) (auto split: option.splits if_splits)

lemma and_255 [simp]: "b < 256 \<Longrightarrow> and (b :: nat) 255 = b"
  using take_bit_eq_mask [of 8 b] by (simp add: take_bit_nat_eq_self mask_eq_exp_minus_1)

lemma zip_replicate_255:
  assumes "length xs = length ys" and "\<forall>b \<in> set xs. b < 256" and "\<forall>b \<in> set ys. b < 256"
  shows "list_all (\<lambda>((a, k), b). and (a :: nat) k = and b k) (zip (zip xs (replicate (length xs) 255)) ys) \<longleftrightarrow> xs = ys"
  using assms by (induction xs ys rule: list_induct2) auto

text \<open>The canonical form of an address: four bytes where it has them.\<close>

definition canonical :: "nat list \<Rightarrow> nat list" where
  "canonical ip = (case To4 ip of Some x \<Rightarrow> x | None \<Rightarrow> ip)"

definition ip_bytes :: "nat list \<Rightarrow> bool" where
  "ip_bytes ip \<longleftrightarrow> (length ip = 4 \<or> length ip = 16) \<and> (\<forall>b \<in> set ip. b < 256)"

lemma To4_length: "To4 ip = Some x \<Longrightarrow> length x = 4"
  by (auto simp: To4_def split: if_splits)

lemma canonical_bytes: "ip_bytes ip \<Longrightarrow> \<forall>b \<in> set (canonical ip). b < 256"
  by (auto simp: ip_bytes_def canonical_def To4_def split: option.splits if_splits dest: in_set_dropD)

text \<open>A rule that is one address contains this address only, in either of its forms.\<close>

lemma single_Contains:
  assumes a: "ip_bytes a" and b: "ip_bytes b"
  shows "net_Contains \<lparr>in_IP = a, in_Mask = CIDRMask (if To4 a = None then 128 else 32)\<rparr> b \<longleftrightarrow> canonical a = canonical b"
proof (cases "To4 a")
  case (Some x)
  have x: "length x = 4" using Some by (rule To4_length)
  have n: "networkNumberAndMask \<lparr>in_IP = a, in_Mask = CIDRMask (if To4 a = None then 128 else 32)\<rparr> = Some (x, replicate (length x) 255)"
    using Some x by (simp add: networkNumberAndMask_def CIDRMask_def)
  have "length (canonical b) = length x \<longrightarrow>
      (list_all (\<lambda>((a, k), b). and a k = and b k) (zip (zip x (replicate (length x) 255)) (canonical b)) \<longleftrightarrow> x = canonical b)"
    using zip_replicate_255 [of x "canonical b"] canonical_bytes [OF a] canonical_bytes [OF b] Some by (auto simp: canonical_def)
  then show ?thesis using n Some by (auto simp: net_Contains_def canonical_def Let_def)
next
  case None
  then have la: "length a = 16" using a by (auto simp: ip_bytes_def To4_def)
  have n: "networkNumberAndMask \<lparr>in_IP = a, in_Mask = CIDRMask (if To4 a = None then 128 else 32)\<rparr> = Some (a, replicate (length a) 255)"
    using None la by (simp add: networkNumberAndMask_def CIDRMask_def)
  have "length (canonical b) = length a \<longrightarrow>
      (list_all (\<lambda>((a, k), b). and a k = and b k) (zip (zip a (replicate (length a) 255)) (canonical b)) \<longleftrightarrow> a = canonical b)"
    using zip_replicate_255 [of a "canonical b"] a canonical_bytes [OF b] by (auto simp: ip_bytes_def)
  then show ?thesis using n None by (auto simp: net_Contains_def canonical_def Let_def)
qed

end
