(* ===== verification/RbacHttp.thy ===== *)
theory RbacHttp
  imports RbacProps RepoHttp IpAllow
begin

text \<open>
  Access control over HTTP: \<open>handlers_rbac.go\<close>, \<open>handlers_ipallow.go\<close>, the middleware \<open>middleware_permission.go\<close>, and
  the two groups of routes of \<open>server.go\<close> behind it.

  The state \<open>portal\<close> holds the accounts, organizations and repositories (\<open>site\<close>), the permission service with its
  cache, and the address lists. \<open>site\<close> and the permission service are two views of one database; the handlers
  here read names from the first and change only what the second holds. A request is \<open>call\<close>: its account
  and token (\<open>visit\<close>), the address of the client, the path, the time, and the order in which the cache is swept.
  A body that is not the expected JSON is \<^const>\<open>None\<close>. Handlers answer with the status code; audit
  records are left out.
\<close>

record portal =
  po_site :: site
  po_rbac :: rbac_service
  po_ip :: ip_store

record call =
  ca_visit :: visit
  ca_clientIP :: string
  ca_path :: string
  ca_now :: int
  ca_order :: "string list"

record http_env =
  he_env :: env
  he_parsers :: ip_parsers

abbreviation call_user :: "call \<Rightarrow> user option" where "call_user c \<equiv> UserFrom (vi_ctx (ca_visit c))"
abbreviation po_users :: "portal \<Rightarrow> user_store" where "po_users p \<equiv> si_users (po_site p)"
abbreviation po_org :: "string \<Rightarrow> portal \<Rightarrow> repo_error + int \<times> org_row" where
  "po_org org p \<equiv> org_ByName (po_users p) (si_repos (po_site p)) org"

section \<open>The middleware\<close>

definition trimGitSuffix :: "string \<Rightarrow> string" where
  "trimGitSuffix s = (if length s > 4 \<and> has_suffix s ''.git'' then take (length s - 4) s else s)"

definition repoFromURL :: "site \<Rightarrow> string \<Rightarrow> string \<Rightarrow> repo option" where
  "repoFromURL s owner name =
     (if owner = [] \<or> name = [] then None
      else if \<not> is_ok (ValidateName owner) \<or> \<not> is_ok (ValidateName name) then None
      else case ByUsername (si_users s) owner of
        Err _ \<Rightarrow> None
      | Ok u \<Rightarrow> (case ByOwnerName (si_users s) (si_repos s) (fst u) name of Err _ \<Rightarrow> None | Ok rp \<Rightarrow> Some rp))"

definition rbac_check :: "call \<Rightarrow> user \<Rightarrow> requirement \<Rightarrow> portal \<Rightarrow> bool \<times> portal" where
  "rbac_check c u req p =
     (case Check (ca_order c) (ca_now c) (po_rbac p) (fst u) (u_IsAdmin (snd u)) req of (ok, s) \<Rightarrow> (ok, p\<lparr>po_rbac := s\<rparr>))"

definition repo_requirement :: "string \<Rightarrow> string \<Rightarrow> int \<Rightarrow> requirement" where
  "repo_requirement resource action repoID =
     \<lparr>req_Resource = resource, req_Action = action, req_RepoID = repoID, req_OrgID = 0\<rparr>"

definition org_requirement :: "string \<Rightarrow> string \<Rightarrow> int \<Rightarrow> requirement" where
  "org_requirement resource action orgID =
     \<lparr>req_Resource = resource, req_Action = action, req_RepoID = 0, req_OrgID = orgID\<rparr>"

definition RequirePermission ::
    "string \<Rightarrow> string \<Rightarrow> call \<Rightarrow> string \<Rightarrow> string \<Rightarrow> (portal \<Rightarrow> int \<times> portal) \<Rightarrow> portal \<Rightarrow> int \<times> portal" where
  "RequirePermission resource action c owner repo next p =
     (case call_user c of
        None \<Rightarrow> (401, p)
      | Some u \<Rightarrow>
          (case repoFromURL (po_site p) owner (trimGitSuffix repo) of
             None \<Rightarrow> (404, p)
           | Some rp \<Rightarrow>
               (case rbac_check c u (repo_requirement resource action (fst rp)) p of
                  (ok, p1) \<Rightarrow> if \<not> ok then (403, p1) else next p1)))"

text \<open>The list of addresses is not asked for administrators and for paths with \<open>/ip-allowlist\<close>; an error of it admits.\<close>

definition ip_denied :: "http_env \<Rightarrow> call \<Rightarrow> user \<Rightarrow> int \<Rightarrow> portal \<Rightarrow> bool" where
  "ip_denied e c u orgID p \<longleftrightarrow>
     \<not> u_IsAdmin (snd u) \<and> \<not> contains (ca_path c) ''/ip-allowlist'' \<and>
     ip_Check (he_parsers e) orgID (ca_clientIP c) (po_ip p) = Ok False"

definition RequireOrgPermission ::
    "string \<Rightarrow> string \<Rightarrow> http_env \<Rightarrow> call \<Rightarrow> string \<Rightarrow> (portal \<Rightarrow> int \<times> portal) \<Rightarrow> portal \<Rightarrow> int \<times> portal" where
  "RequireOrgPermission resource action e c org next p =
     (case call_user c of
        None \<Rightarrow> (401, p)
      | Some u \<Rightarrow>
          (case po_org org p of
             Err _ \<Rightarrow> (404, p)
           | Ok (oid, _) \<Rightarrow>
               if ip_denied e c u oid p then (403, p)
               else (case rbac_check c u (org_requirement resource action oid) p of
                       (ok, p1) \<Rightarrow> if \<not> ok then (403, p1) else next p1)))"

section \<open>Handlers of organizations\<close>

definition on_rbac :: "(rbac_error + 'a) \<times> rbac_service \<Rightarrow> int \<Rightarrow> int \<Rightarrow> portal \<Rightarrow> int \<times> portal" where
  "on_rbac x code fail p = (if is_ok (fst x) then code else fail, p\<lparr>po_rbac := snd x\<rparr>)"

text \<open>The account of a request, the organization of the path: the first lines of the handlers.\<close>

definition org_handler :: "call \<Rightarrow> string \<Rightarrow> (user \<Rightarrow> int \<Rightarrow> portal \<Rightarrow> int \<times> portal) \<Rightarrow> portal \<Rightarrow> int \<times> portal" where
  "org_handler c org h p =
     (case call_user c of
        None \<Rightarrow> (401, p)
      | Some u \<Rightarrow> (case po_org org p of Err _ \<Rightarrow> (404, p) | Ok (oid, _) \<Rightarrow> h u oid p))"

definition team_handler :: "call \<Rightarrow> int option \<Rightarrow> (user \<Rightarrow> int \<Rightarrow> portal \<Rightarrow> int \<times> portal) \<Rightarrow> portal \<Rightarrow> int \<times> portal" where
  "team_handler c teamID h p =
     (case call_user c of
        None \<Rightarrow> (401, p)
      | Some u \<Rightarrow> (case teamID of None \<Rightarrow> (400, p) | Some t \<Rightarrow> h u t p))"

definition handleAddOrgMember :: "call \<Rightarrow> string \<Rightarrow> (string \<times> int option \<times> string) option \<Rightarrow> portal \<Rightarrow> int \<times> portal" where
  "handleAddOrgMember c org req =
     org_handler c org (\<lambda>u oid p.
       case req of
         None \<Rightarrow> (400, p)
       | Some (username, roleID, membership) \<Rightarrow>
           (case ByUsername (po_users p) username of
              Err _ \<Rightarrow> (400, p)
            | Ok target \<Rightarrow> on_rbac (AddOrgMember (po_rbac p) (fst u) oid (fst target) roleID membership) 201 500 p))"

definition handleRemoveOrgMember :: "call \<Rightarrow> string \<Rightarrow> string \<Rightarrow> portal \<Rightarrow> int \<times> portal" where
  "handleRemoveOrgMember c org username =
     org_handler c org (\<lambda>u oid p.
       case ByUsername (po_users p) username of
         Err _ \<Rightarrow> (400, p)
       | Ok target \<Rightarrow> on_rbac (RemoveOrgMember (po_rbac p) (fst u) oid (fst target)) 200 500 p)"

record team_req =
  tq_Name :: string
  tq_Description :: string
  tq_ParentTeamID :: "int option"
  tq_RoleID :: "int option"
  tq_Permission :: string

definition handleCreateTeam :: "call \<Rightarrow> string \<Rightarrow> team_req option \<Rightarrow> portal \<Rightarrow> int \<times> portal" where
  "handleCreateTeam c org req =
     org_handler c org (\<lambda>u oid p.
       case req of
         None \<Rightarrow> (400, p)
       | Some q \<Rightarrow>
           on_rbac (CreateTeam (po_rbac p) \<lparr>ct_OrgID = oid, ct_Name = tq_Name q, ct_Description = tq_Description q,
             ct_ParentTeamID = tq_ParentTeamID q, ct_RoleID = tq_RoleID q, ct_Permission = tq_Permission q\<rparr>) 201 400 p)"

definition handleReparentTeam :: "call \<Rightarrow> int option \<Rightarrow> int option option \<Rightarrow> portal \<Rightarrow> int \<times> portal" where
  "handleReparentTeam c teamID req =
     team_handler c teamID (\<lambda>u t p.
       case req of None \<Rightarrow> (400, p) | Some parent \<Rightarrow> on_rbac (ReparentTeam (po_rbac p) t parent) 200 400 p)"

definition handleAddTeamMember :: "call \<Rightarrow> int option \<Rightarrow> (string \<times> string) option \<Rightarrow> portal \<Rightarrow> int \<times> portal" where
  "handleAddTeamMember c teamID req =
     team_handler c teamID (\<lambda>u t p.
       case req of
         None \<Rightarrow> (400, p)
       | Some (username, role) \<Rightarrow>
           (case ByUsername (po_users p) username of
              Err _ \<Rightarrow> (400, p)
            | Ok target \<Rightarrow> on_rbac (AddTeamMember (po_rbac p) (fst u) t (fst target) role) 201 500 p))"

definition handleRemoveTeamMember :: "call \<Rightarrow> int option \<Rightarrow> string \<Rightarrow> portal \<Rightarrow> int \<times> portal" where
  "handleRemoveTeamMember c teamID username =
     team_handler c teamID (\<lambda>u t p.
       case ByUsername (po_users p) username of
         Err _ \<Rightarrow> (400, p)
       | Ok target \<Rightarrow> on_rbac (RemoveTeamMember (po_rbac p) (fst u) t (fst target)) 200 500 p)"

definition handleGrantTeamRepo :: "call \<Rightarrow> int option \<Rightarrow> (int \<times> int option \<times> string) option \<Rightarrow> portal \<Rightarrow> int \<times> portal" where
  "handleGrantTeamRepo c teamID req =
     team_handler c teamID (\<lambda>u t p.
       case req of
         None \<Rightarrow> (400, p)
       | Some (repoID, roleID, permission) \<Rightarrow>
           on_rbac (GrantTeamRepo (po_rbac p) (fst u) t repoID roleID permission) 201 500 p)"

fun parsePermissions :: "string list \<Rightarrow> parse_error + permission list" where
  "parsePermissions [] = Ok []"
| "parsePermissions (s # ss) =
     (case ParsePermission s of
        Err e \<Rightarrow> Err e
      | Ok x \<Rightarrow> (case parsePermissions ss of Err e \<Rightarrow> Err e | Ok xs \<Rightarrow> Ok (x # xs)))"

record role_req =
  rq_Name :: string
  rq_Scope :: string
  rq_Permissions :: "string list"

definition handleCreateRole :: "call \<Rightarrow> string \<Rightarrow> role_req option \<Rightarrow> portal \<Rightarrow> int \<times> portal" where
  "handleCreateRole c org req =
     org_handler c org (\<lambda>u oid p.
       case req of
         None \<Rightarrow> (400, p)
       | Some q \<Rightarrow>
           (case parsePermissions (rq_Permissions q) of
              Err _ \<Rightarrow> (400, p)
            | Ok perms \<Rightarrow>
                on_rbac (CreateRole (po_rbac p) \<lparr>cr_ActorID = fst u, cr_OrgID = oid, cr_Name = rq_Name q,
                  cr_Permissions = perms, cr_Scope = rq_Scope q\<rparr>) 201 500 p))"

definition handleDeleteRole :: "call \<Rightarrow> int option \<Rightarrow> portal \<Rightarrow> int \<times> portal" where
  "handleDeleteRole c roleID =
     team_handler c roleID (\<lambda>u i p. on_rbac (DeleteRole (po_rbac p) (fst u) i) 200 400 p)"

section \<open>Handlers of address lists\<close>

definition on_ip :: "(ip_error + 'a) \<times> ip_store \<Rightarrow> int \<Rightarrow> int \<Rightarrow> portal \<Rightarrow> int \<times> portal" where
  "on_ip x code fail p = (if is_ok (fst x) then code else fail, p\<lparr>po_ip := snd x\<rparr>)"

definition handleListIPAllow :: "string \<Rightarrow> portal \<Rightarrow> int \<times> (int \<times> ip_rule) list \<times> bool" where
  "handleListIPAllow org p =
     (case po_org org p of
        Err _ \<Rightarrow> (404, [], False)
      | Ok (oid, _) \<Rightarrow>
          (case ip_List oid (po_ip p) of
             Err _ \<Rightarrow> (500, [], False)
           | Ok rules \<Rightarrow> (200, rules, ip_Enabled oid (po_ip p) = Ok True)))"

definition handleAddIPAllow :: "http_env \<Rightarrow> call \<Rightarrow> string \<Rightarrow> (string \<times> string \<times> bool option) option \<Rightarrow> portal \<Rightarrow> int \<times> portal" where
  "handleAddIPAllow e c org req =
     org_handler c org (\<lambda>u oid p.
       case req of
         None \<Rightarrow> (400, p)
       | Some (cidr, description, on) \<Rightarrow>
           on_ip (ip_Add (he_parsers e) oid cidr description (case on of None \<Rightarrow> True | Some b \<Rightarrow> b) (po_ip p)) 201 400 p)"

definition handleDeleteIPAllow :: "call \<Rightarrow> string \<Rightarrow> int option \<Rightarrow> portal \<Rightarrow> int \<times> portal" where
  "handleDeleteIPAllow c org idp =
     org_handler c org (\<lambda>u oid p.
       case idp of None \<Rightarrow> (400, p) | Some i \<Rightarrow> on_ip (ip_Delete oid i (po_ip p)) 200 500 p)"

definition handleToggleIPAllow :: "call \<Rightarrow> string \<Rightarrow> bool option \<Rightarrow> portal \<Rightarrow> int \<times> portal" where
  "handleToggleIPAllow c org req =
     org_handler c org (\<lambda>u oid p.
       case req of None \<Rightarrow> (400, p) | Some on \<Rightarrow> on_ip (ip_SetEnabled oid on (po_ip p)) 200 500 p)"

section \<open>Handlers of repositories\<close>

definition rbac_status :: "rbac_error + unit \<Rightarrow> int" where
  "rbac_status r =
     (case r of
        Ok _ \<Rightarrow> 201
      | Err e \<Rightarrow> if e = ErrPrivilegeEscalation \<or> e = ErrRoleScope then 403 else if e = ErrRoleNotFound then 400 else 500)"

definition handleSetCollaborator ::
    "http_env \<Rightarrow> call \<Rightarrow> string \<Rightarrow> string \<Rightarrow> (string \<times> int option \<times> string) option \<Rightarrow> portal \<Rightarrow> int \<times> portal" where
  "handleSetCollaborator e c owner repo req p =
     (case loadRepoAndPerm (he_env e) (ca_now c) (ca_visit c) owner repo PermAdmin (po_site p) of
        (Err code, s) \<Rightarrow> (code, p\<lparr>po_site := s\<rparr>)
      | (Ok (rp, u), s) \<Rightarrow>
          (let p1 = p\<lparr>po_site := s\<rparr> in
           case req of
             None \<Rightarrow> (400, p1)
           | Some (username, roleID, permission) \<Rightarrow>
               (case ByUsername (po_users p1) username of
                  Err _ \<Rightarrow> (400, p1)
                | Ok target \<Rightarrow>
                    (case SetCollaborator (po_rbac p1) (fst (caller u)) (fst rp) (fst target) roleID permission of
                       (r, rs) \<Rightarrow> (rbac_status r, p1\<lparr>po_rbac := rs\<rparr>)))))"

definition repo_handler :: "call \<Rightarrow> string \<Rightarrow> string \<Rightarrow> (user \<Rightarrow> int \<Rightarrow> portal \<Rightarrow> int \<times> portal) \<Rightarrow> portal \<Rightarrow> int \<times> portal" where
  "repo_handler c owner repo h p =
     (case call_user c of
        None \<Rightarrow> (401, p)
      | Some u \<Rightarrow>
          (case repoFromURL (po_site p) owner (trimGitSuffix repo) of None \<Rightarrow> (404, p) | Some rp \<Rightarrow> h u (fst rp) p))"

definition handleRemoveCollaborator :: "call \<Rightarrow> string \<Rightarrow> string \<Rightarrow> string \<Rightarrow> portal \<Rightarrow> int \<times> portal" where
  "handleRemoveCollaborator c owner repo username =
     repo_handler c owner repo (\<lambda>u rid p.
       case ByUsername (po_users p) username of
         Err _ \<Rightarrow> (400, p)
       | Ok target \<Rightarrow> on_rbac (RemoveCollaborator (po_rbac p) (fst u) rid (fst target)) 200 500 p)"

text \<open>The request has the rule without its repository, which comes from the path.\<close>

definition handleAddBranchRule :: "call \<Rightarrow> string \<Rightarrow> string \<Rightarrow> branch_rule option \<Rightarrow> portal \<Rightarrow> int \<times> portal" where
  "handleAddBranchRule c owner repo req =
     repo_handler c owner repo (\<lambda>u rid p.
       case req of None \<Rightarrow> (400, p) | Some b \<Rightarrow> on_rbac (AddBranchRule (po_rbac p) (fst u) (b\<lparr>bp_repo := rid\<rparr>)) 201 500 p)"

definition handleListBranchRules :: "string \<Rightarrow> string \<Rightarrow> portal \<Rightarrow> int \<times> (int \<times> branch_rule) list" where
  "handleListBranchRules owner repo p =
     (case repoFromURL (po_site p) owner (trimGitSuffix repo) of
        None \<Rightarrow> (404, [])
      | Some rp \<Rightarrow> (case ListBranchRules (rb_db (po_rbac p)) (fst rp) of Err _ \<Rightarrow> (500, []) | Ok rules \<Rightarrow> (200, rules)))"

section \<open>The routes\<close>

text \<open>The two groups of \<open>server.go\<close>: organizations behind \<open>org:admin\<close>, repositories behind \<open>settings:write\<close>.\<close>

datatype org_call =
    PostMembers "(string \<times> int option \<times> string) option" | DeleteMember string
  | PostTeams "team_req option" | PostReparent "int option" "int option option"
  | PostTeamMembers "int option" "(string \<times> string) option" | DeleteTeamMember "int option" string
  | PostTeamRepos "int option" "(int \<times> int option \<times> string) option"
  | PostAllow "(string \<times> string \<times> bool option) option" | DeleteAllow "int option" | PutToggle "bool option"
  | PostRoles "role_req option" | DeleteRoleCall "int option"

datatype repo_call =
    PostCollaborators "(string \<times> int option \<times> string) option" | DeleteCollaborator string
  | PostBranchRules "branch_rule option"

primrec org_routes :: "http_env \<Rightarrow> call \<Rightarrow> string \<Rightarrow> org_call \<Rightarrow> portal \<Rightarrow> int \<times> portal" where
  "org_routes e c org (PostMembers req) = handleAddOrgMember c org req"
| "org_routes e c org (DeleteMember username) = handleRemoveOrgMember c org username"
| "org_routes e c org (PostTeams req) = handleCreateTeam c org req"
| "org_routes e c org (PostReparent t req) = handleReparentTeam c t req"
| "org_routes e c org (PostTeamMembers t req) = handleAddTeamMember c t req"
| "org_routes e c org (DeleteTeamMember t username) = handleRemoveTeamMember c t username"
| "org_routes e c org (PostTeamRepos t req) = handleGrantTeamRepo c t req"
| "org_routes e c org (PostAllow req) = handleAddIPAllow e c org req"
| "org_routes e c org (DeleteAllow i) = handleDeleteIPAllow c org i"
| "org_routes e c org (PutToggle req) = handleToggleIPAllow c org req"
| "org_routes e c org (PostRoles req) = handleCreateRole c org req"
| "org_routes e c org (DeleteRoleCall i) = handleDeleteRole c i"

primrec repo_routes :: "http_env \<Rightarrow> call \<Rightarrow> string \<Rightarrow> string \<Rightarrow> repo_call \<Rightarrow> portal \<Rightarrow> int \<times> portal" where
  "repo_routes e c owner repo (PostCollaborators req) = handleSetCollaborator e c owner repo req"
| "repo_routes e c owner repo (DeleteCollaborator username) = handleRemoveCollaborator c owner repo username"
| "repo_routes e c owner repo (PostBranchRules req) = handleAddBranchRule c owner repo req"

definition serve_org :: "http_env \<Rightarrow> call \<Rightarrow> string \<Rightarrow> org_call \<Rightarrow> portal \<Rightarrow> int \<times> portal" where
  "serve_org e c org r = RequireOrgPermission ''org'' ''admin'' e c org (org_routes e c org r)"

definition serve_repo :: "http_env \<Rightarrow> call \<Rightarrow> string \<Rightarrow> string \<Rightarrow> repo_call \<Rightarrow> portal \<Rightarrow> int \<times> portal" where
  "serve_repo e c owner repo r = RequirePermission ''settings'' ''write'' c owner repo (repo_routes e c owner repo r)"

end
