(* ===== verification/RbacHttpClaims.thy ===== *)
theory RbacHttpClaims
  imports RbacHttp RepoClaims
begin

text \<open>
  What holds of access control over HTTP: behind the middleware nothing changes without the permission that
  the tables give, whatever the cache holds; which addresses a list admits; and how far the
  permission on one organization reaches.
\<close>

section \<open>Requests\<close>

datatype access_call = OrgCall call string org_call | RepoCall call string string repo_call

primrec call_of :: "access_call \<Rightarrow> call" where
  "call_of (OrgCall c org r) = c"
| "call_of (RepoCall c owner repo r) = c"

primrec serve :: "http_env \<Rightarrow> access_call \<Rightarrow> portal \<Rightarrow> int \<times> portal" where
  "serve e (OrgCall c org r) = serve_org e c org r"
| "serve e (RepoCall c owner repo r) = serve_repo e c owner repo r"

text \<open>
  The states of an instance: it starts with an empty cache, serves these requests, and anything else may happen to
  accounts, organizations and repositories in between.
\<close>

inductive portal_reachable :: "http_env \<Rightarrow> portal \<Rightarrow> bool" for e where
  start: "po_rbac p = New db \<Longrightarrow> portal_reachable e p"
| served: "portal_reachable e p \<Longrightarrow> dom (entry (rb_cache (po_rbac p))) \<subseteq> set (ca_order (call_of a)) \<Longrightarrow>
    portal_reachable e (snd (serve e a p))"
| elsewhere: "portal_reachable e p \<Longrightarrow> portal_reachable e (p\<lparr>po_site := s\<rparr>)"

section \<open>The cache stays true\<close>

lemma on_rbac_sel [simp]: "po_rbac (snd (on_rbac x code fail p)) = snd x" "po_ip (snd (on_rbac x code fail p)) = po_ip p"
  "po_site (snd (on_rbac x code fail p)) = po_site p"
  by (simp_all add: on_rbac_def)

lemma on_ip_sel [simp]: "po_rbac (snd (on_ip x code fail p)) = po_rbac p" "po_site (snd (on_ip x code fail p)) = po_site p"
  by (simp_all add: on_ip_def)

lemma org_handler_inv:
  assumes "service_inv (po_rbac p)" and "\<And>u oid. service_inv (po_rbac (snd (h u oid p)))"
  shows "service_inv (po_rbac (snd (org_handler c org h p)))"
  using assms by (auto simp: org_handler_def split: option.splits sum.splits)

lemma team_handler_inv:
  assumes "service_inv (po_rbac p)" and "\<And>u t. service_inv (po_rbac (snd (h u t p)))"
  shows "service_inv (po_rbac (snd (team_handler c teamID h p)))"
  using assms by (auto simp: team_handler_def split: option.splits)

lemma repo_handler_inv:
  assumes "service_inv (po_rbac p)" and "\<And>u i. service_inv (po_rbac (snd (h u i p)))"
  shows "service_inv (po_rbac (snd (repo_handler c owner repo h p)))"
  using assms by (auto simp: repo_handler_def split: option.splits)

lemmas org_handlers =
  handleAddOrgMember_def handleRemoveOrgMember_def handleCreateTeam_def handleReparentTeam_def handleAddTeamMember_def
  handleRemoveTeamMember_def handleGrantTeamRepo_def handleAddIPAllow_def handleDeleteIPAllow_def handleToggleIPAllow_def
  handleCreateRole_def handleDeleteRole_def

lemma org_routes_inv:
  assumes inv: "service_inv (po_rbac p)"
  shows "service_inv (po_rbac (snd (org_routes e c org r p)))"
proof (cases r)
  case (PostMembers req)
  show ?thesis unfolding PostMembers org_routes.simps handleAddOrgMember_def
    by (rule org_handler_inv [OF inv]) (simp add: inv member_ops_inv split: option.split sum.split prod.split)
next
  case (DeleteMember username)
  show ?thesis unfolding DeleteMember org_routes.simps handleRemoveOrgMember_def
    by (rule org_handler_inv [OF inv]) (simp add: inv member_ops_inv split: sum.split)
next
  case (PostTeams req)
  show ?thesis unfolding PostTeams org_routes.simps handleCreateTeam_def
    by (rule org_handler_inv [OF inv]) (simp add: inv global_ops_inv split: option.split)
next
  case (PostReparent t req)
  show ?thesis unfolding PostReparent org_routes.simps handleReparentTeam_def
    by (rule team_handler_inv [OF inv]) (simp add: inv global_ops_inv split: option.split)
next
  case (PostTeamMembers t req)
  show ?thesis unfolding PostTeamMembers org_routes.simps handleAddTeamMember_def
    by (rule team_handler_inv [OF inv]) (simp add: inv member_ops_inv split: option.split sum.split prod.split)
next
  case (DeleteTeamMember t username)
  show ?thesis unfolding DeleteTeamMember org_routes.simps handleRemoveTeamMember_def
    by (rule team_handler_inv [OF inv]) (simp add: inv member_ops_inv split: sum.split)
next
  case (PostTeamRepos t req)
  show ?thesis unfolding PostTeamRepos org_routes.simps handleGrantTeamRepo_def
    by (rule team_handler_inv [OF inv]) (simp add: inv global_ops_inv split: option.split prod.split)
next
  case (PostAllow req)
  show ?thesis unfolding PostAllow org_routes.simps handleAddIPAllow_def
    by (rule org_handler_inv [OF inv]) (simp add: inv split: option.split prod.split)
next
  case (DeleteAllow i)
  show ?thesis unfolding DeleteAllow org_routes.simps handleDeleteIPAllow_def
    by (rule org_handler_inv [OF inv]) (simp add: inv split: option.split)
next
  case (PutToggle req)
  show ?thesis unfolding PutToggle org_routes.simps handleToggleIPAllow_def
    by (rule org_handler_inv [OF inv]) (simp add: inv split: option.split)
next
  case (PostRoles req)
  show ?thesis unfolding PostRoles org_routes.simps handleCreateRole_def
    by (rule org_handler_inv [OF inv]) (simp add: inv global_ops_inv split: option.split sum.split)
next
  case (DeleteRoleCall i)
  show ?thesis unfolding DeleteRoleCall org_routes.simps handleDeleteRole_def
    by (rule team_handler_inv [OF inv]) (simp add: inv global_ops_inv)
qed

lemma repo_routes_inv:
  assumes inv: "service_inv (po_rbac p)"
  shows "service_inv (po_rbac (snd (repo_routes e c owner repo r p)))"
proof (cases r)
  case (PostCollaborators req)
  obtain acc s where acc: "loadRepoAndPerm (he_env e) (ca_now c) (ca_visit c) owner repo PermAdmin (po_site p) = (acc, s)" by fastforce
  have set: "SetCollaborator (po_rbac p) a i t role m = (x, rs) \<Longrightarrow> service_inv rs" for a i t role m x rs
    using member_ops_inv(5) [OF inv, of a i t role m] by simp
  show ?thesis unfolding PostCollaborators repo_routes.simps handleSetCollaborator_def acc
    by (simp add: inv Let_def split: sum.split prod.split option.split) (use set in blast)
next
  case (DeleteCollaborator username)
  show ?thesis unfolding DeleteCollaborator repo_routes.simps handleRemoveCollaborator_def
    by (rule repo_handler_inv [OF inv]) (simp add: inv member_ops_inv split: sum.split)
next
  case (PostBranchRules req)
  show ?thesis unfolding PostBranchRules repo_routes.simps handleAddBranchRule_def
    by (rule repo_handler_inv [OF inv]) (simp add: inv AddBranchRule_inv split: option.split)
qed

text \<open>What a check of the middleware means: it changes the cache only, keeps it true, and says what the tables say.\<close>

lemma rbac_check_facts:
  assumes "service_inv (po_rbac p)" and "wf_req req" and "dom (entry (rb_cache (po_rbac p))) \<subseteq> set (ca_order c)"
    and "rbac_check c u req p = (ok, p1)"
  shows "ok \<longleftrightarrow> u_IsAdmin (snd u) \<or> evaluate (rb_db (po_rbac p)) (fst u) req = Ok True"
    and "service_inv (po_rbac p1)" and "rb_db (po_rbac p1) = rb_db (po_rbac p)" and "po_site p1 = po_site p" and "po_ip p1 = po_ip p"
proof -
  obtain b s where s: "Check (ca_order c) (ca_now c) (po_rbac p) (fst u) (u_IsAdmin (snd u)) req = (b, s)" by fastforce
  then have *: "ok = b" "p1 = p\<lparr>po_rbac := s\<rparr>" using assms(4) by (simp_all add: rbac_check_def)
  show "ok \<longleftrightarrow> u_IsAdmin (snd u) \<or> evaluate (rb_db (po_rbac p)) (fst u) req = Ok True"
    using Check_answer [OF assms(1,2), of "ca_order c" "ca_now c" "fst u" "u_IsAdmin (snd u)"] s * by simp
  show "service_inv (po_rbac p1)"
    using Check_inv [OF assms(1,2,3), of "ca_now c" "fst u" "u_IsAdmin (snd u)"] s * by simp
  show "rb_db (po_rbac p1) = rb_db (po_rbac p)"
    using Check_db [of "ca_order c" "ca_now c" "po_rbac p" "fst u" "u_IsAdmin (snd u)" req] s * by simp
  show "po_site p1 = po_site p" "po_ip p1 = po_ip p" using * by simp_all
qed

lemma org_req_wf [simp]: "wf_req (org_requirement ''org'' ''admin'' i)" "wf_req (repo_requirement ''settings'' ''write'' i)"
  by (simp_all add: wf_req_def org_requirement_def repo_requirement_def)

text \<open>A request behind the middleware is refused, with the tables as they are, or reaches its handler.\<close>

definition org_admitted :: "http_env \<Rightarrow> call \<Rightarrow> string \<Rightarrow> portal \<Rightarrow> bool" where
  "org_admitted e c org p \<longleftrightarrow>
     (\<exists>u oid og. call_user c = Some u \<and> po_org org p = Ok (oid, og) \<and>
        (u_IsAdmin (snd u) \<or> evaluate (rb_db (po_rbac p)) (fst u) (org_requirement ''org'' ''admin'' oid) = Ok True) \<and>
        (u_IsAdmin (snd u) \<or> contains (ca_path c) ''/ip-allowlist'' \<or>
           ip_Check (he_parsers e) oid (ca_clientIP c) (po_ip p) \<noteq> Ok False))"

definition repo_admitted :: "call \<Rightarrow> string \<Rightarrow> string \<Rightarrow> portal \<Rightarrow> bool" where
  "repo_admitted c owner repo p \<longleftrightarrow>
     (\<exists>u rp. call_user c = Some u \<and> repoFromURL (po_site p) owner (trimGitSuffix repo) = Some rp \<and>
        (u_IsAdmin (snd u) \<or> evaluate (rb_db (po_rbac p)) (fst u) (repo_requirement ''settings'' ''write'' (fst rp)) = Ok True))"

lemma serve_org_cases:
  assumes inv: "service_inv (po_rbac p)" and ord: "dom (entry (rb_cache (po_rbac p))) \<subseteq> set (ca_order c)"
  obtains (refused) code p1 where "serve_org e c org r p = (code, p1)" "code \<in> {401, 403, 404}" "\<not> org_admitted e c org p"
      "service_inv (po_rbac p1)" "rb_db (po_rbac p1) = rb_db (po_rbac p)" "po_ip p1 = po_ip p" "po_site p1 = po_site p"
  | (reached) p1 where "serve_org e c org r p = org_routes e c org r p1" "org_admitted e c org p"
      "service_inv (po_rbac p1)" "rb_db (po_rbac p1) = rb_db (po_rbac p)" "po_ip p1 = po_ip p" "po_site p1 = po_site p"
proof (cases "call_user c")
  case None
  then show thesis using refused [of 401 p] inv by (simp add: serve_org_def RequireOrgPermission_def org_admitted_def)
next
  case (Some u)
  show thesis
  proof (cases "po_org org p")
    case (Inl x)
    then show thesis using refused [of 404 p] inv Some by (simp add: serve_org_def RequireOrgPermission_def org_admitted_def)
  next
    case (Inr y)
    obtain oid o' where o: "po_org org p = Ok (oid, o')" using Inr by (cases y) auto
    show thesis
    proof (cases "ip_denied e c u oid p")
      case True
      then have "\<not> org_admitted e c org p" using Some o by (auto simp: org_admitted_def ip_denied_def)
      then show thesis using refused [of 403 p] inv Some o True by (simp add: serve_org_def RequireOrgPermission_def)
    next
      case False
      obtain ok p1 where k: "rbac_check c u (org_requirement ''org'' ''admin'' oid) p = (ok, p1)" by fastforce
      note f = rbac_check_facts [OF inv _ ord k, simplified]
      have s: "serve_org e c org r p = (if ok then org_routes e c org r p1 else (403, p1))"
        using Some o False k by (simp add: serve_org_def RequireOrgPermission_def)
      have adm: "org_admitted e c org p \<longleftrightarrow> ok" using f(1) Some o False by (auto simp: org_admitted_def ip_denied_def)
      show thesis
      proof (cases ok)
        case True
        then show thesis using reached [of p1] f s adm by simp
      next
        case False
        then show thesis using refused [of 403 p1] f s adm by simp
      qed
    qed
  qed
qed

lemma serve_repo_cases:
  assumes inv: "service_inv (po_rbac p)" and ord: "dom (entry (rb_cache (po_rbac p))) \<subseteq> set (ca_order c)"
  obtains (refused) code p1 where "serve_repo e c owner repo r p = (code, p1)" "code \<in> {401, 403, 404}" "\<not> repo_admitted c owner repo p"
      "service_inv (po_rbac p1)" "rb_db (po_rbac p1) = rb_db (po_rbac p)" "po_ip p1 = po_ip p" "po_site p1 = po_site p"
  | (reached) p1 where "serve_repo e c owner repo r p = repo_routes e c owner repo r p1" "repo_admitted c owner repo p"
      "service_inv (po_rbac p1)" "rb_db (po_rbac p1) = rb_db (po_rbac p)" "po_ip p1 = po_ip p" "po_site p1 = po_site p"
proof (cases "call_user c")
  case None
  then show thesis using refused [of 401 p] inv by (simp add: serve_repo_def RequirePermission_def repo_admitted_def)
next
  case (Some u)
  show thesis
  proof (cases "repoFromURL (po_site p) owner (trimGitSuffix repo)")
    case None
    then show thesis using refused [of 404 p] inv Some by (simp add: serve_repo_def RequirePermission_def repo_admitted_def)
  next
    case (Some rp)
    obtain ok p1 where k: "rbac_check c u (repo_requirement ''settings'' ''write'' (fst rp)) p = (ok, p1)" by fastforce
    note f = rbac_check_facts [OF inv _ ord k, simplified]
    have s: "serve_repo e c owner repo r p = (if ok then repo_routes e c owner repo r p1 else (403, p1))"
      using Some \<open>call_user c = Some u\<close> k by (simp add: serve_repo_def RequirePermission_def)
    have adm: "repo_admitted c owner repo p \<longleftrightarrow> ok" using f(1) Some \<open>call_user c = Some u\<close> by (auto simp: repo_admitted_def)
    show thesis
    proof (cases ok)
      case True
      then show thesis using reached [of p1] f s adm by simp
    next
      case False
      then show thesis using refused [of 403 p1] f s adm by simp
    qed
  qed
qed

lemma serve_inv:
  assumes inv: "service_inv (po_rbac p)" and "dom (entry (rb_cache (po_rbac p))) \<subseteq> set (ca_order (call_of a))"
  shows "service_inv (po_rbac (snd (serve e a p)))"
proof (cases a)
  case (OrgCall c org r)
  have ord: "dom (entry (rb_cache (po_rbac p))) \<subseteq> set (ca_order c)" using assms(2) OrgCall by simp
  show ?thesis unfolding OrgCall serve.simps
    by (rule serve_org_cases [OF inv ord, of e org r]) (simp_all add: org_routes_inv)
next
  case (RepoCall c owner repo r)
  have ord: "dom (entry (rb_cache (po_rbac p))) \<subseteq> set (ca_order c)" using assms(2) RepoCall by simp
  show ?thesis unfolding RepoCall serve.simps
    by (rule serve_repo_cases [OF inv ord, of e owner repo r]) (simp_all add: repo_routes_inv)
qed

lemma portal_reachable_inv: "portal_reachable e p \<Longrightarrow> service_inv (po_rbac p)"
  by (induction rule: portal_reachable.induct) (simp_all add: New_inv serve_inv)

section \<open>What the routes of a repository leave alone\<close>

definition same_roles :: "rbac_db \<Rightarrow> rbac_db \<Rightarrow> bool" where
  "same_roles d1 d2 \<longleftrightarrow>
     db_permissions d1 = db_permissions d2 \<and> db_roles d1 = db_roles d2 \<and> db_role_permissions d1 = db_role_permissions d2 \<and>
     db_teams d1 = db_teams d2 \<and> db_team_members d1 = db_team_members d2 \<and> db_org_members d1 = db_org_members d2 \<and>
     db_team_repos d1 = db_team_repos d2"

lemma same_roles_refl [simp]: "same_roles d d" by (simp add: same_roles_def)

lemma repo_ops_same_roles:
  "same_roles (rb_db (snd (SetCollaborator s a i t role m))) (rb_db s)"
  "same_roles (rb_db (snd (RemoveCollaborator s a i t))) (rb_db s)"
  "same_roles (rb_db (snd (AddBranchRule s a b))) (rb_db s)"
  by (auto simp: SetCollaborator_def RemoveCollaborator_def AddBranchRule_def same_roles_def Let_def split: sum.split)

lemma repo_handler_same:
  assumes "\<And>u i. same_roles (rb_db (po_rbac (snd (h u i p)))) (rb_db (po_rbac p)) \<and> po_ip (snd (h u i p)) = po_ip p"
  shows "same_roles (rb_db (po_rbac (snd (repo_handler c owner repo h p)))) (rb_db (po_rbac p)) \<and>
    po_ip (snd (repo_handler c owner repo h p)) = po_ip p"
  using assms by (simp add: repo_handler_def split: option.split)

lemma repo_routes_same:
  "same_roles (rb_db (po_rbac (snd (repo_routes e c owner repo r p)))) (rb_db (po_rbac p)) \<and>
   po_ip (snd (repo_routes e c owner repo r p)) = po_ip p"
proof (cases r)
  case (PostCollaborators req)
  obtain acc s where acc: "loadRepoAndPerm (he_env e) (ca_now c) (ca_visit c) owner repo PermAdmin (po_site p) = (acc, s)" by fastforce
  have set: "SetCollaborator (po_rbac p) a i t role m = (x, rs) \<Longrightarrow> same_roles (rb_db rs) (rb_db (po_rbac p))" for a i t role m x rs
    using repo_ops_same_roles(1) [of "po_rbac p" a i t role m] by simp
  show ?thesis unfolding PostCollaborators repo_routes.simps handleSetCollaborator_def acc
    by (simp add: Let_def split: sum.split prod.split option.split) (use set in blast)
next
  case (DeleteCollaborator username)
  show ?thesis unfolding DeleteCollaborator repo_routes.simps handleRemoveCollaborator_def
    by (rule repo_handler_same) (simp add: repo_ops_same_roles split: sum.split)
next
  case (PostBranchRules req)
  show ?thesis unfolding PostBranchRules repo_routes.simps handleAddBranchRule_def
    by (rule repo_handler_same) (simp add: repo_ops_same_roles split: option.split)
qed

primrec admitted :: "http_env \<Rightarrow> access_call \<Rightarrow> portal \<Rightarrow> bool" where
  "admitted e (OrgCall c org r) p \<longleftrightarrow> org_admitted e c org p"
| "admitted e (RepoCall c owner repo r) p \<longleftrightarrow> repo_admitted c owner repo p"

section \<open>The permission of one organization\<close>

lemma org_evaluate_any: "evaluate db u (org_requirement a b i) = evaluate db u (org_requirement a b j)"
  by (simp add: evaluate_def org_requirement_def split: sum.split)

lemma upsert_member:
  "\<exists>k m. (k, m) \<in> set (rows (upsert (\<lambda>m. om_org m = g \<and> om_user m = u) (\<lambda>m. m\<lparr>om_role := r, om_membership := s\<rparr>)
       \<lparr>om_org = g, om_user = u, om_role = r, om_membership = s\<rparr> t)) \<and> om_org m = g \<and> om_user m = u \<and> om_role m = r"
proof (cases "tbl_exists (\<lambda>_ m. om_org m = g \<and> om_user m = u) t")
  case True
  then obtain k m where "(k, m) \<in> set (rows t)" "om_org m = g" "om_user m = u" by (auto simp: tbl_exists_iff)
  then show ?thesis using True
    by (intro exI [of _ k] exI [of _ "m\<lparr>om_role := r, om_membership := s\<rparr>"]) (auto simp: upsert_def set_rows_update)
next
  case False
  then show ?thesis
    by (intro exI [of _ "seq t + 1"] exI [of _ "\<lparr>om_org = g, om_user = u, om_role = r, om_membership = s\<rparr>"]) (simp add: upsert_def)
qed

lemma member_added:
  assumes "\<not> db_faulty (rb_db s) ''org_members''"
  shows "is_ok (fst (AddOrgMember s a g u (Some r) m))" "r \<in> member_role_set (rb_db (snd (AddOrgMember s a g u (Some r) m))) u"
  using assms upsert_member [where g = g and u = u and r = "Some r" and t = "db_org_members (rb_db s)"]
  by (auto simp: AddOrgMember_def Let_def member_role_set_def) blast+

lemma team_joined:
  assumes "\<not> db_faulty (rb_db s) ''team_members''"
  shows "is_ok (fst (AddTeamMember s a t u m))" "t \<in> user_team_set (rb_db (snd (AddTeamMember s a t u m))) u"
  using assms by (force simp: AddTeamMember_def Let_def user_team_set_def)+

section \<open>Claims\<close>


text \<open>C28: The permission to administer one organization is the permission to administer all: whoever passes the
  check for an organization can give himself any role in any other organization that has no address list
  against him, and join any team of the instance.\<close>

theorem org_admin_reaches_everywhere:
  assumes "portal_reachable e p" and ord: "dom (entry (rb_cache (po_rbac p))) \<subseteq> set (ca_order c)"
    and own: "org_admitted e c own_org p" and u: "call_user c = Some u"
    and other: "po_org org p = Ok (oid, og)" and free: "\<not> ip_denied e c u oid p"
    and self: "ByUsername (po_users p) name = Ok u"
    and up: "\<not> db_faulty (rb_db (po_rbac p)) ''org_members''" "\<not> db_faulty (rb_db (po_rbac p)) ''team_members''"
  shows "(\<exists>p1. serve_org e c org (PostMembers (Some (name, Some role, m))) p = (201, p1) \<and>
      role \<in> member_role_set (rb_db (po_rbac p1)) (fst u)) \<and>
    (\<exists>p1. serve_org e c org (PostTeamMembers (Some t) (Some (name, m))) p = (201, p1) \<and>
      t \<in> user_team_set (rb_db (po_rbac p1)) (fst u))"
proof -
  have inv: "service_inv (po_rbac p)" using assms(1) by (rule portal_reachable_inv)
  from own u obtain i where "u_IsAdmin (snd u) \<or> evaluate (rb_db (po_rbac p)) (fst u) (org_requirement ''org'' ''admin'' i) = Ok True"
    by (auto simp: org_admitted_def)
  then have "u_IsAdmin (snd u) \<or> evaluate (rb_db (po_rbac p)) (fst u) (org_requirement ''org'' ''admin'' oid) = Ok True"
    using org_evaluate_any by metis
  then have adm: "org_admitted e c org p" using u other free unfolding org_admitted_def ip_denied_def by blast
  have "\<exists>p1. serve_org e c org (PostMembers (Some (name, Some role, m))) p = (201, p1) \<and>
      role \<in> member_role_set (rb_db (po_rbac p1)) (fst u)"
  proof (rule serve_org_cases [OF inv ord, of e org "PostMembers (Some (name, Some role, m))"], goal_cases)
    case 1
    then show ?case using adm by simp
  next
    case (2 p1)
    then have "\<not> db_faulty (rb_db (po_rbac p1)) ''org_members''" using up by simp
    note a = member_added(1) [where a = "fst u" and g = oid and u = "fst u" and r = role and m = m, OF this]
      member_added(2) [where a = "fst u" and g = oid and u = "fst u" and r = role and m = m, OF this]
    show ?case using 2 u other self a by (auto simp: handleAddOrgMember_def org_handler_def on_rbac_def)
  qed
  moreover have "\<exists>p1. serve_org e c org (PostTeamMembers (Some t) (Some (name, m))) p = (201, p1) \<and>
      t \<in> user_team_set (rb_db (po_rbac p1)) (fst u)"
  proof (rule serve_org_cases [OF inv ord, of e org "PostTeamMembers (Some t) (Some (name, m))"], goal_cases)
    case 1
    then show ?case using adm by simp
  next
    case (2 p1)
    then have "\<not> db_faulty (rb_db (po_rbac p1)) ''team_members''" using up by simp
    note a = team_joined(1) [where a = "fst u" and t = t and u = "fst u" and m = m, OF this]
      team_joined(2) [where a = "fst u" and t = t and u = "fst u" and m = m, OF this]
    show ?case using 2 u other self a by (auto simp: handleAddTeamMember_def team_handler_def on_rbac_def)
  qed
  ultimately show ?thesis by blast
qed

text \<open>Mallory is owner of \<open>hers\<close>, with a role that may administer it; \<open>bank\<close> has the team 5.\<close>

definition two_orgs :: site where
  "two_orgs = demo_site\<lparr>si_repos := demo_db\<lparr>rd_orgs := \<lparr>seq = 2,
     rows = [(1, \<lparr>og_Name = ''hers'', og_OwnerID = 2, og_Archived = False\<rparr>),
             (2, \<lparr>og_Name = ''bank'', og_OwnerID = 1, og_Archived = False\<rparr>)]\<rparr>\<rparr>\<rparr>"

definition two_roles :: rbac_db where
  "two_roles = (empty_db (\<lambda>_. False))\<lparr>
     db_permissions := tbl_of [perm ''org'' ''admin''],
     db_roles := tbl_of [\<lparr>ro_org = Some 1, ro_name = ''boss'', ro_builtin = False, ro_scope = ''org''\<rparr>],
     db_role_permissions := tbl_of [(1, 1)],
     db_org_members := tbl_of [\<lparr>om_org = 1, om_user = 2, om_role = Some 1, om_membership = ''owner''\<rparr>]\<rparr>"

definition no_lists :: ip_store where
  "no_lists = \<lparr>ip_rules = empty_table, ip_enabled = [], ip_faulty = (\<lambda>_. False)\<rparr>"

definition two_portal :: portal where
  "two_portal = \<lparr>po_site = two_orgs, po_rbac = New two_roles, po_ip = no_lists\<rparr>"

definition asks :: "int \<Rightarrow> string \<Rightarrow> call" where
  "asks i name = \<lparr>ca_visit = visit_of i name, ca_clientIP = [], ca_path = [], ca_now = 0, ca_order = []\<rparr>"

definition some_env :: http_env where
  "some_env = \<lparr>he_env = test_env, he_parsers = \<lparr>parse_ip = (\<lambda>_. None), parse_cidr = (\<lambda>_. None)\<rparr>\<rparr>"

lemma two_portal_ready:
  "portal_reachable e two_portal" "dom (entry (rb_cache (po_rbac two_portal))) \<subseteq> set (ca_order (asks i n))"
  by (rule portal_reachable.start [of _ two_roles]) (simp_all add: two_portal_def New_def newPermCache_def)

lemma two_portal_orgs:
  "po_org ''hers'' two_portal = Ok (1, \<lparr>og_Name = ''hers'', og_OwnerID = 2, og_Archived = False\<rparr>)"
  "po_org ''bank'' two_portal = Ok (2, \<lparr>og_Name = ''bank'', og_OwnerID = 1, og_Archived = False\<rparr>)"
  "po_users two_portal = demo_users" "rb_db (po_rbac two_portal) = two_roles" "po_ip two_portal = no_lists"
  by (simp_all add: two_portal_def two_orgs_def demo_site_def org_ByName_def org_find_def tbl_find_def New_def)

lemmas two_portal_facts = two_portal_orgs two_portal_orgs(1,2) [unfolded two_portal_orgs(3)]

lemma two_roles_evaluate:
  "evaluate two_roles 2 (org_requirement ''org'' ''admin'' i) = Ok True" "evaluate two_roles 1 (org_requirement ''org'' ''admin'' i) = Ok False"
  by (simp_all add: evaluate_def org_requirement_def EffectivePermissions_def collectOrgRoleIDs_def userTeams_def two_roles_def
      empty_db_def tbl_of_def org_member_roles_def tbl_select_def rolePermissions_def role_perm_join_def perm_def)

lemma no_lists_admit: "ip_Check P i ip no_lists = Ok True"
  by (simp add: ip_Check_def ip_Enabled_def no_lists_def)

lemma asks_user [simp]: "call_user (asks i n) = Some (i, demo_user n)"
  by (simp add: asks_def)


theorem org_admin_reaches_everywhere_witness:
  "\<exists>p1. serve_org some_env (asks 2 ''mallory'') ''bank'' (PostTeamMembers (Some 5) (Some (''mallory'', []))) two_portal = (201, p1) \<and>
     5 \<in> user_team_set (rb_db (po_rbac p1)) 2"
proof -
  have own: "org_admitted some_env (asks 2 ''mallory'') ''hers'' two_portal"
    by (simp add: org_admitted_def two_portal_facts two_roles_evaluate no_lists_admit)
  have free: "\<not> ip_denied some_env (asks 2 ''mallory'') (2, demo_user ''mallory'') 2 two_portal"
    by (simp add: ip_denied_def two_portal_facts no_lists_admit)
  have self: "ByUsername (po_users two_portal) ''mallory'' = Ok (2, demo_user ''mallory'')" by (simp add: two_portal_orgs)
  have up: "\<not> db_faulty (rb_db (po_rbac two_portal)) t" for t by (simp add: two_portal_orgs two_roles_def empty_db_def)
  show ?thesis
    using org_admin_reaches_everywhere [OF two_portal_ready own asks_user two_portal_orgs(2) free self up up] by simp
qed

text \<open>The addresses that an entry of a list names.\<close>

definition admits :: "ip_parsers \<Rightarrow> string \<Rightarrow> nat list \<Rightarrow> bool" where
  "admits P cidr ip \<longleftrightarrow>
     (if contains cidr ''/'' then (\<exists>a m. parse_cidr P cidr = Some (a, m) \<and> net_Contains \<lparr>in_IP = a, in_Mask = m\<rparr> ip)
      else (\<exists>a. parse_ip P cidr = Some a \<and> canonical a = canonical ip))"

lemma admits_iff:
  assumes "\<And>x a. parse_ip P x = Some a \<Longrightarrow> ip_bytes a" and "ip_bytes ip"
  shows "(\<exists>n. netOf P cidr = Some n \<and> net_Contains n ip) \<longleftrightarrow> admits P cidr ip"
  using assms by (auto simp: netOf_def admits_def single_Contains split: option.splits)

text \<open>C29: An address list that is in force admits exactly the addresses of its enabled entries: for an entry with a slash
  the addresses of its network, which agree with it under the mask, for any other entry the one address it
  names, in its form of four bytes or of sixteen. A client whose address does not parse is not admitted.\<close>

theorem ip_list_exact:
  assumes "\<And>x a. parse_ip P x = Some a \<Longrightarrow> ip_bytes a"
    and "\<not> ip_faulty s ''orgs''" and "\<not> ip_faulty s ''ip_allowlist''" and "orgID \<in> set (ip_enabled s)"
  shows "ip_Check P orgID c s = Ok (\<exists>ip. parse_ip P (trim_space c) = Some ip \<and>
     (\<exists>(i, r) \<in> set (rows (ip_rules s)). ir_OrgID r = orgID \<and> ir_Enabled r \<and> admits P (ir_CIDR r) ip))"
proof (cases "parse_ip P (trim_space c)")
  case None
  then show ?thesis using assms by (simp add: ip_Check_def ip_Enabled_def ip_List_def)
next
  case (Some ip)
  have "ip_bytes ip" using assms(1) Some by simp
  then have "ip_loop P ip rs \<longleftrightarrow> (\<exists>(i, r) \<in> set rs. ir_Enabled r \<and> admits P (ir_CIDR r) ip)" for rs
    using admits_iff [of P ip, OF assms(1)] by (simp add: ip_loop_iff)
  then have "ip_Check P orgID c s =
      Ok (\<exists>(i, r) \<in> set (tbl_select (\<lambda>_ r. ir_OrgID r = orgID) (ip_rules s)). ir_Enabled r \<and> admits P (ir_CIDR r) ip)"
    using assms Some by (simp add: ip_Check_def ip_Enabled_def ip_List_def)
  then show ?thesis using Some by (auto simp: tbl_select_def)
qed

text \<open>An entry of one address, a client that comes in the longer form of it.\<close>

definition one_parser :: ip_parsers where
  "one_parser = \<lparr>parse_ip = (\<lambda>x. if x = ''10.0.0.7'' then Some (replicate 10 0 @ [255, 255, 10, 0, 0, 7])
     else if x = ''10.0.0.8'' then Some [10, 0, 0, 8] else None), parse_cidr = (\<lambda>_. None)\<rparr>"

definition one_list :: ip_store where
  "one_list = \<lparr>ip_rules = tbl_of [\<lparr>ir_OrgID = 1, ir_CIDR = ''10.0.0.7'', ir_Description = [], ir_Enabled = True\<rparr>],
     ip_enabled = [1], ip_faulty = (\<lambda>_. False)\<rparr>"

theorem ip_list_exact_witness:
  "ip_Check one_parser 1 '' 10.0.0.7'' one_list = Ok True \<and> ip_Check one_parser 1 ''10.0.0.8'' one_list = Ok False"
proof -
  have b: "parse_ip one_parser x = Some a \<Longrightarrow> ip_bytes a" for x a
    by (auto simp: one_parser_def ip_bytes_def split: if_splits)
  have t: "trim_space '' 10.0.0.7'' = ''10.0.0.7''" "trim_space ''10.0.0.8'' = ''10.0.0.8''" by code_simp+
  have c: "\<not> contains ''10.0.0.7'' ''/''" by (simp add: has_prefix_def)
  have k: "canonical (replicate 10 0 @ [255, 255, 10, 0, 0, 7]) = [10, 0, 0, 7]" "canonical [10, 0, 0, 8] = [10, 0, 0, 8]" by code_simp+
  note k2 = k [simplified]
  have p: "\<not> ip_faulty one_list ''orgs''" "\<not> ip_faulty one_list ''ip_allowlist''" "1 \<in> set (ip_enabled one_list)" by (simp_all add: one_list_def)
  have e: "ip_Check one_parser 1 c one_list = Ok (\<exists>ip. parse_ip one_parser (trim_space c) = Some ip \<and>
      (\<exists>(i, r) \<in> set (rows (ip_rules one_list)). ir_OrgID r = 1 \<and> ir_Enabled r \<and> admits one_parser (ir_CIDR r) ip))" for c
    by (rule ip_list_exact [OF _ p]) (rule b)
  have "ip_Check one_parser 1 '' 10.0.0.7'' one_list = Ok True"
    unfolding e t by (simp add: one_list_def tbl_of_def admits_def c del: contains.simps) (simp add: one_parser_def)
  moreover have "ip_Check one_parser 1 ''10.0.0.8'' one_list = Ok False"
    unfolding e t by (simp add: one_list_def tbl_of_def admits_def c del: contains.simps) (simp add: one_parser_def k2)
  ultimately show ?thesis by blast
qed

end
