(* ===== verification/Lfs.thy ===== *)
theory Lfs
  imports RepoHttp
begin

text \<open>
  Large files: \<open>internal/service/lfs/lfs.go\<close> and \<open>locks.go\<close>, with their handlers in \<open>handlers_misc.go\<close> and
  \<open>handlers_lfs_locks.go\<close>.

  \<open>lf_disk\<close> maps the paths of files to their contents. The files that \<open>Put\<close> writes first under temporary names are
  left out: a file appears under its name by a rename, complete or not at all. \<open>lf_readonly\<close> says that the disk
  refuses changes, \<open>lf_down\<close> that the database does. An upload is the bytes that arrive and whether reading
  them ends with an error. The tables have no \<open>UNIQUE\<close> constraints.
\<close>

section \<open>State\<close>

record lfs_object =
  lo_RepoID :: int
  lo_OID :: string
  lo_Size :: int
  lo_Path :: string

record lfs_lock =
  lk_RepoID :: int
  lk_Path :: string
  lk_UserID :: int

record lfs_state =
  lf_root :: string
  lf_objects :: "lfs_object table"
  lf_locks :: "lfs_lock table"
  lf_disk :: "string \<Rightarrow> string option"
  lf_readonly :: bool
  lf_down :: bool

record upload =
  up_bytes :: string
  up_broken :: bool

datatype lfs_error = LfNotFound | LfBadOID | LfDisk | LfRead | LfSize int int | LfDriver | LfLocked | LfLockInvalid

definition lfs_New :: "string \<Rightarrow> lfs_state" where
  "lfs_New root = \<lparr>lf_root = root, lf_objects = empty_table, lf_locks = empty_table, lf_disk = (\<lambda>_. None),
     lf_readonly = False, lf_down = False\<rparr>"

section \<open>Objects\<close>

definition VerifyOID :: "string \<Rightarrow> bool" where
  "VerifyOID oid \<longleftrightarrow>
     length oid = 64 \<and>
     list_all (\<lambda>c. let n = (of_char c :: nat) in (48 \<le> n \<and> n \<le> 57) \<or> (97 \<le> n \<and> n \<le> 102)) oid"

definition lfs_Path :: "lfs_state \<Rightarrow> string \<Rightarrow> lfs_error + string" where
  "lfs_Path s oid =
     (if \<not> VerifyOID oid then Err LfBadOID
      else Ok (path_join [lf_root s, take 2 oid, take 2 (drop 2 oid), oid]))"

definition lfs_Exists :: "lfs_state \<Rightarrow> string \<Rightarrow> bool" where
  "lfs_Exists s oid = (case lfs_Path s oid of Err _ \<Rightarrow> False | Ok p \<Rightarrow> lf_disk s p \<noteq> None)"

text \<open>The file of an object: written to a temporary file, checked for its size, renamed.\<close>

definition lfs_write :: "string \<Rightarrow> int \<Rightarrow> upload \<Rightarrow> lfs_state \<Rightarrow> (lfs_error + unit) \<times> lfs_state" where
  "lfs_write p len r s =
     (if lf_readonly s then (Err LfDisk, s)
      else if up_broken r then (Err LfRead, s)
      else if int (length (up_bytes r)) \<noteq> len then (Err (LfSize (int (length (up_bytes r))) len), s)
      else (Ok (), s\<lparr>lf_disk := (lf_disk s)(p \<mapsto> up_bytes r)\<rparr>))"

definition lfs_Put :: "int \<Rightarrow> string \<Rightarrow> int \<Rightarrow> upload \<Rightarrow> lfs_state \<Rightarrow> (lfs_error + unit) \<times> lfs_state" where
  "lfs_Put repoID oid len r s =
     (case lfs_Path s oid of
        Err e \<Rightarrow> (Err e, s)
      | Ok p \<Rightarrow>
          (case (if lfs_Exists s oid then (Ok (), s) else lfs_write p len r s) of
             (Err e, s1) \<Rightarrow> (Err e, s1)
           | (Ok _, s1) \<Rightarrow>
               if lf_down s1 then (Err LfDriver, s1)
               else (Ok (), s1\<lparr>lf_objects := tbl_insert
                       \<lparr>lo_RepoID = repoID, lo_OID = oid, lo_Size = len, lo_Path = p\<rparr> (lf_objects s1)\<rparr>)))"

definition lfs_Get :: "lfs_state \<Rightarrow> int \<Rightarrow> string \<Rightarrow> lfs_error + string \<times> int" where
  "lfs_Get s repoID oid =
     (if \<not> VerifyOID oid then Err LfBadOID
      else if lf_down s then Err LfDriver
      else case tbl_find (\<lambda>_ r. lo_RepoID r = repoID \<and> lo_OID r = oid) (lf_objects s) of
             None \<Rightarrow> Err LfNotFound
           | Some (_, r) \<Rightarrow>
               (case lfs_Path s oid of
                  Err e \<Rightarrow> Err e
                | Ok p \<Rightarrow> (case lf_disk s p of None \<Rightarrow> Err LfNotFound | Some content \<Rightarrow> Ok (content, lo_Size r))))"

definition lfs_Delete :: "int \<Rightarrow> string \<Rightarrow> lfs_state \<Rightarrow> (lfs_error + unit) \<times> lfs_state" where
  "lfs_Delete repoID oid s =
     (case lfs_Path s oid of
        Err e \<Rightarrow> (Err e, s)
      | Ok p \<Rightarrow>
          if lf_disk s p \<noteq> None \<and> lf_readonly s then (Err LfDisk, s)
          else let s1 = s\<lparr>lf_disk := (lf_disk s)(p := None)\<rparr> in
               if lf_down s1 then (Err LfDriver, s1)
               else (Ok (), s1\<lparr>lf_objects := tbl_delete (\<lambda>_ r. lo_RepoID r = repoID \<and> lo_OID r = oid) (lf_objects s1)\<rparr>))"

section \<open>Locks\<close>

definition validLockPath :: "string \<Rightarrow> bool" where
  "validLockPath path \<longleftrightarrow>
     (if path = [] then False
      else if contains path ''..'' then False
      else list_all (\<lambda>c. let n = (of_char c :: nat) in \<not> (n < 32 \<or> n = 127)) path)"

definition lockByPath :: "lfs_state \<Rightarrow> int \<Rightarrow> string \<Rightarrow> lfs_error + (int \<times> lfs_lock) option" where
  "lockByPath s repoID path =
     (if lf_down s then Err LfDriver else Ok (tbl_find (\<lambda>_ l. lk_RepoID l = repoID \<and> lk_Path l = path) (lf_locks s)))"

definition lockByID :: "lfs_state \<Rightarrow> int \<Rightarrow> lfs_error + int \<times> lfs_lock" where
  "lockByID s i =
     (if lf_down s then Err LfDriver
      else case tbl_find (\<lambda>j _. j = i) (lf_locks s) of None \<Rightarrow> Err LfNotFound | Some l \<Rightarrow> Ok l)"

text \<open>
  \<open>Lock\<close>: the checks with the query for a lock of the path, then the insert. They are separate definitions
  because another request may come in between. The first gives an answer, or \<^const>\<open>None\<close> to go on.
\<close>

definition lock_check :: "lfs_state \<Rightarrow> int \<Rightarrow> int \<Rightarrow> string \<Rightarrow> (lfs_error + int \<times> lfs_lock) option" where
  "lock_check s repoID userID path =
     (if \<not> validLockPath path then Some (Err LfLockInvalid)
      else case lockByPath s repoID path of
        Err e \<Rightarrow> Some (Err e)
      | Ok (Some l) \<Rightarrow> Some (if lk_UserID (snd l) = userID then Ok l else Err LfLocked)
      | Ok None \<Rightarrow> None)"

definition lock_insert :: "int \<Rightarrow> int \<Rightarrow> string \<Rightarrow> lfs_state \<Rightarrow> (lfs_error + int \<times> lfs_lock) \<times> lfs_state" where
  "lock_insert repoID userID path s =
     (if lf_down s then (Err LfDriver, s)
      else let t = tbl_insert \<lparr>lk_RepoID = repoID, lk_Path = path, lk_UserID = userID\<rparr> (lf_locks s);
               s1 = s\<lparr>lf_locks := t\<rparr>
           in (lockByID s1 (seq t), s1))"

definition lfs_Lock :: "int \<Rightarrow> int \<Rightarrow> string \<Rightarrow> lfs_state \<Rightarrow> (lfs_error + int \<times> lfs_lock) \<times> lfs_state" where
  "lfs_Lock repoID userID path s =
     (case lock_check s repoID userID path of Some x \<Rightarrow> (x, s) | None \<Rightarrow> lock_insert repoID userID path s)"

definition lfs_Unlock :: "int \<Rightarrow> int \<Rightarrow> int \<Rightarrow> lfs_state \<Rightarrow> (lfs_error + unit) \<times> lfs_state" where
  "lfs_Unlock repoID userID lockID s =
     (let P = (\<lambda>i l. i = lockID \<and> lk_RepoID l = repoID \<and> lk_UserID l = userID) in
      if lf_down s then (Err LfDriver, s)
      else if tbl_count P (lf_locks s) = 0 then (Err LfNotFound, s)
      else (Ok (), s\<lparr>lf_locks := tbl_delete P (lf_locks s)\<rparr>))"

definition ListLocks :: "lfs_state \<Rightarrow> int \<Rightarrow> lfs_error + (int \<times> lfs_lock) list" where
  "ListLocks s repoID = (if lf_down s then Err LfDriver else Ok (tbl_select (\<lambda>_ l. lk_RepoID l = repoID) (lf_locks s)))"

section \<open>Handlers\<close>

text \<open>A request to the large files of a repository; a body that does not parse, or an identifier, is \<^const>\<open>None\<close>.\<close>

record store =
  sr_site :: site
  sr_lfs :: lfs_state

record request =
  rq_env :: env
  rq_now :: int
  rq_visit :: visit
  rq_owner :: string
  rq_repo :: string

datatype lfs_answer = NoBody | Content string | Actions "(string \<times> int \<times> string \<times> string) list" | Locked "int \<times> lfs_lock"
  | LockList "(int \<times> lfs_lock) list"

text \<open>What every handler begins with: the repository and the account, or the code of the refusal.\<close>

definition with_repo ::
    "request \<Rightarrow> Perm \<Rightarrow> (repo \<Rightarrow> int \<Rightarrow> lfs_state \<Rightarrow> (int \<times> lfs_answer) \<times> lfs_state) \<Rightarrow> store \<Rightarrow> (int \<times> lfs_answer) \<times> store" where
  "with_repo q need h t =
     (case loadRepoAndPerm (rq_env q) (rq_now q) (rq_visit q) (rq_owner q) (rq_repo q) need (sr_site t) of
        (Err code, s) \<Rightarrow> ((code, NoBody), t\<lparr>sr_site := s\<rparr>)
      | (Ok (rp, u), s) \<Rightarrow> (case h rp (fst (caller u)) (sr_lfs t) of (a, l) \<Rightarrow> (a, t\<lparr>sr_site := s, sr_lfs := l\<rparr>)))"

fun batch_objects :: "lfs_state \<Rightarrow> string \<Rightarrow> (string \<times> int) list \<Rightarrow> (string \<times> int \<times> string \<times> string) list option" where
  "batch_objects s base [] = Some []"
| "batch_objects s base ((oid, len) # objs) =
     (if \<not> VerifyOID oid then None
      else map_option (\<lambda>out. (oid, len, if lfs_Exists s oid then ''download'' else ''upload'', base @ oid) # out)
             (batch_objects s base objs))"

definition handleLFSBatch :: "request \<Rightarrow> (string \<times> int) list option \<Rightarrow> store \<Rightarrow> (int \<times> lfs_answer) \<times> store" where
  "handleLFSBatch q req =
     with_repo q PermWrite (\<lambda>rp u s.
       case req of
         None \<Rightarrow> ((400, NoBody), s)
       | Some objs \<Rightarrow>
           (case batch_objects s (''/api/v1/repos/'' @ rq_owner q @ ''/'' @ rq_repo q @ ''/lfs/objects/'') objs of
              None \<Rightarrow> ((400, NoBody), s)
            | Some out \<Rightarrow> ((200, Actions out), s)))"

definition handleLFSUpload :: "request \<Rightarrow> string \<Rightarrow> int \<Rightarrow> upload \<Rightarrow> store \<Rightarrow> (int \<times> lfs_answer) \<times> store" where
  "handleLFSUpload q oid contentLength body =
     with_repo q PermWrite (\<lambda>rp u s.
       if \<not> VerifyOID oid then ((400, NoBody), s)
       else (case lfs_Put (fst rp) oid (if contentLength < 0 then 0 else contentLength) body s of
               (r, s1) \<Rightarrow> ((if is_ok r then 200 else 400, NoBody), s1)))"

definition handleLFSDownload :: "request \<Rightarrow> string \<Rightarrow> store \<Rightarrow> (int \<times> lfs_answer) \<times> store" where
  "handleLFSDownload q oid =
     with_repo q PermRead (\<lambda>rp u s.
       case lfs_Get s (fst rp) oid of
         Err e \<Rightarrow> ((if e = LfNotFound then 404 else 400, NoBody), s)
       | Ok (content, _) \<Rightarrow> ((200, Content content), s))"

definition handleCreateLFSLock :: "request \<Rightarrow> string option \<Rightarrow> store \<Rightarrow> (int \<times> lfs_answer) \<times> store" where
  "handleCreateLFSLock q req =
     with_repo q PermWrite (\<lambda>rp u s.
       case req of
         None \<Rightarrow> ((400, NoBody), s)
       | Some path \<Rightarrow>
           (case lfs_Lock (fst rp) u path s of
              (Ok l, s1) \<Rightarrow> ((201, Locked l), s1)
            | (Err e, s1) \<Rightarrow> ((if e = LfLockInvalid then 400 else if e = LfLocked then 409 else 500, NoBody), s1)))"

definition handleUnlockLFSLock :: "request \<Rightarrow> int option \<Rightarrow> store \<Rightarrow> (int \<times> lfs_answer) \<times> store" where
  "handleUnlockLFSLock q lockID =
     with_repo q PermWrite (\<lambda>rp u s.
       case lockID of
         None \<Rightarrow> ((400, NoBody), s)
       | Some i \<Rightarrow>
           (case lfs_Unlock (fst rp) u i s of
              (Ok _, s1) \<Rightarrow> ((200, NoBody), s1)
            | (Err e, s1) \<Rightarrow> ((if e = LfNotFound then 404 else 500, NoBody), s1)))"

definition handleListLFSLocks :: "request \<Rightarrow> store \<Rightarrow> (int \<times> lfs_answer) \<times> store" where
  "handleListLFSLocks q =
     with_repo q PermRead (\<lambda>rp u s.
       case ListLocks s (fst rp) of Err _ \<Rightarrow> ((500, NoBody), s) | Ok ls \<Rightarrow> ((200, LockList ls), s))"

datatype lfs_call =
    Batch "(string \<times> int) list option" | Upload string int upload | Download string
  | CreateLock "string option" | RemoveLock "int option" | AllLocks

primrec lfs_serve :: "request \<Rightarrow> lfs_call \<Rightarrow> store \<Rightarrow> (int \<times> lfs_answer) \<times> store" where
  "lfs_serve q (Batch req) = handleLFSBatch q req"
| "lfs_serve q (Upload oid n body) = handleLFSUpload q oid n body"
| "lfs_serve q (Download oid) = handleLFSDownload q oid"
| "lfs_serve q (CreateLock req) = handleCreateLFSLock q req"
| "lfs_serve q (RemoveLock i) = handleUnlockLFSLock q i"
| "lfs_serve q AllLocks = handleListLFSLocks q"

end
