(* ===== verification/LfsClaims.thy ===== *)
theory LfsClaims
  imports Lfs RepoClaims
begin

text \<open>
  What holds of large files: objects never change once they are there, so the first upload under a name is
  what everyone gets; the name is all one needs to read an object of another repository; and locks of
  files are exclusive, as long as the two statements of a lock are not interleaved.
\<close>

section \<open>Runs\<close>

text \<open>A step: whatever happened to accounts, repositories, disk and database, then a request.\<close>

type_synonym lfs_event = "site \<times> bool \<times> bool \<times> request \<times> lfs_call"

fun before_event :: "lfs_event \<Rightarrow> store \<Rightarrow> store" where
  "before_event (w, ro, dn, q, c) t = t\<lparr>sr_site := w, sr_lfs := (sr_lfs t)\<lparr>lf_readonly := ro, lf_down := dn\<rparr>\<rparr>"

definition lfs_step :: "lfs_event \<Rightarrow> store \<Rightarrow> store" where
  "lfs_step ev t = (case ev of (_, _, _, q, c) \<Rightarrow> snd (lfs_serve q c (before_event ev t)))"

definition lfs_run :: "lfs_event list \<Rightarrow> store \<Rightarrow> store" where
  "lfs_run evs t = fold lfs_step evs t"

abbreviation access :: "request \<Rightarrow> Perm \<Rightarrow> site \<Rightarrow> (int + repo \<times> user option) \<times> site" where
  "access q need s \<equiv> loadRepoAndPerm (rq_env q) (rq_now q) (rq_visit q) (rq_owner q) (rq_repo q) need s"

lemma with_repo_keeps:
  assumes "P (sr_lfs t)" and "\<And>rp u s. access q need (sr_site t) = (Ok (rp, u), s) \<Longrightarrow> P (snd (h rp (fst (caller u)) (sr_lfs t)))"
  shows "P (sr_lfs (snd (with_repo q need h t)))"
proof -
  obtain r s where "access q need (sr_site t) = (r, s)" by fastforce
  then show ?thesis using assms by (cases r) (auto simp: with_repo_def split: prod.split)
qed

lemma with_repo_Ok:
  "access q need (sr_site t) = (Ok (rp, u), s) \<Longrightarrow>
   with_repo q need h t = (fst (h rp (fst (caller u)) (sr_lfs t)), t\<lparr>sr_site := s, sr_lfs := snd (h rp (fst (caller u)) (sr_lfs t))\<rparr>)"
  by (simp add: with_repo_def split: prod.split)

lemma lfs_run_induct:
  assumes "P (sr_lfs t)" and "\<And>s ro dn. P s \<Longrightarrow> P (s\<lparr>lf_readonly := ro, lf_down := dn\<rparr>)"
    and "\<And>q c t. P (sr_lfs t) \<Longrightarrow> P (sr_lfs (snd (lfs_serve q c t)))"
  shows "P (sr_lfs (lfs_run evs t))"
  using assms(1) unfolding lfs_run_def
proof (induction evs arbitrary: t)
  case (Cons ev evs)
  obtain w ro dn q c where ev: "ev = (w, ro, dn, q, c)" by (cases ev)
  have "P (sr_lfs (lfs_step ev t))" using assms(2,3) Cons.prems by (simp add: ev lfs_step_def)
  then show ?case using Cons.IH by simp
qed simp

section \<open>Objects stay\<close>

definition stored :: "int \<Rightarrow> string \<Rightarrow> string \<Rightarrow> lfs_state \<Rightarrow> bool" where
  "stored rid oid content s \<longleftrightarrow>
     (\<exists>p. lfs_Path s oid = Ok p \<and> lf_disk s p = Some content) \<and>
     tbl_exists (\<lambda>_ r. lo_RepoID r = rid \<and> lo_OID r = oid) (lf_objects s)"

lemma lfs_Path_cong: "lf_root s = lf_root s' \<Longrightarrow> lfs_Path s oid = lfs_Path s' oid"
  by (simp add: lfs_Path_def)

lemma lfs_Put_keeps:
  "lf_root (snd (lfs_Put rid oid n r s)) = lf_root s"
  "lf_disk s p = Some content \<Longrightarrow> lf_disk (snd (lfs_Put rid oid n r s)) p = Some content"
  "tbl_exists P (lf_objects s) \<Longrightarrow> tbl_exists P (lf_objects (snd (lfs_Put rid oid n r s)))"
  "lf_locks (snd (lfs_Put rid oid n r s)) = lf_locks s"
  by (auto simp: lfs_Put_def lfs_write_def lfs_Exists_def tbl_exists_insert split: sum.split)

lemma stored_Put: "stored rid oid content s \<Longrightarrow> stored rid oid content (snd (lfs_Put rid' oid' n r s))"
  using lfs_Path_cong [OF lfs_Put_keeps(1)] by (auto simp: stored_def lfs_Put_keeps)

lemma lock_ops_keep:
  "lf_root (snd (lfs_Lock rid u path s)) = lf_root s" "lf_disk (snd (lfs_Lock rid u path s)) = lf_disk s"
  "lf_objects (snd (lfs_Lock rid u path s)) = lf_objects s"
  "lf_root (snd (lfs_Unlock rid u i s)) = lf_root s" "lf_disk (snd (lfs_Unlock rid u i s)) = lf_disk s"
  "lf_objects (snd (lfs_Unlock rid u i s)) = lf_objects s"
  by (simp_all add: lfs_Lock_def lock_insert_def lfs_Unlock_def Let_def split: option.split)

lemma stored_cong:
  "lf_root s = lf_root s' \<Longrightarrow> lf_disk s = lf_disk s' \<Longrightarrow> lf_objects s = lf_objects s' \<Longrightarrow>
     stored rid oid content s = stored rid oid content s'"
  using lfs_Path_cong [of s s'] by (simp add: stored_def)

lemma stored_flags: "stored rid oid content (s\<lparr>lf_readonly := ro, lf_down := dn\<rparr>) = stored rid oid content s"
  by (rule stored_cong) simp_all

lemmas stored_locks = stored_cong [OF lock_ops_keep(1-3)] stored_cong [OF lock_ops_keep(4-6)]

text \<open>Every handler but the upload and those of locks leaves the state as it is.\<close>

lemma stored_serve:
  assumes "stored rid oid content (sr_lfs t)"
  shows "stored rid oid content (sr_lfs (snd (lfs_serve q c t)))"
proof (cases c)
  case (Batch req)
  show ?thesis unfolding Batch lfs_serve.simps handleLFSBatch_def
    by (rule with_repo_keeps [where P = "stored rid oid content", OF assms]) (simp add: assms split: option.split)
next
  case (Upload oid' n body)
  show ?thesis unfolding Upload lfs_serve.simps handleLFSUpload_def
    by (rule with_repo_keeps [where P = "stored rid oid content", OF assms]) (simp add: assms stored_Put split: prod.split, metis assms snd_conv stored_Put)
next
  case (Download oid')
  show ?thesis unfolding Download lfs_serve.simps handleLFSDownload_def
    by (rule with_repo_keeps [where P = "stored rid oid content", OF assms]) (simp add: assms split: sum.split prod.split)
next
  case (CreateLock req)
  show ?thesis unfolding CreateLock lfs_serve.simps handleCreateLFSLock_def
    by (rule with_repo_keeps [where P = "stored rid oid content", OF assms])
      (simp add: assms split: option.split sum.split prod.split, metis assms snd_conv stored_locks(1))
next
  case (RemoveLock i)
  show ?thesis unfolding RemoveLock lfs_serve.simps handleUnlockLFSLock_def
    by (rule with_repo_keeps [where P = "stored rid oid content", OF assms])
      (simp add: assms split: option.split sum.split prod.split, metis assms snd_conv stored_locks(2))
next
  case AllLocks
  show ?thesis unfolding AllLocks lfs_serve.simps handleListLFSLocks_def
    by (rule with_repo_keeps [where P = "stored rid oid content", OF assms]) (simp add: assms split: sum.split)
qed

lemma stored_run: "stored rid oid content (sr_lfs t) \<Longrightarrow> stored rid oid content (sr_lfs (lfs_run evs t))"
  by (rule lfs_run_induct [where P = "stored rid oid content"]) (simp_all add: stored_flags stored_serve)

lemma stored_Get:
  assumes "stored rid oid content s" and "\<not> lf_down s"
  shows "\<exists>n. lfs_Get s rid oid = Ok (content, n)"
proof -
  obtain p where p: "lfs_Path s oid = Ok p" "lf_disk s p = Some content" using assms(1) by (auto simp: stored_def)
  have v: "VerifyOID oid" using p(1) by (simp add: lfs_Path_def split: if_splits)
  obtain i r where "tbl_find (\<lambda>_ r. lo_RepoID r = rid \<and> lo_OID r = oid) (lf_objects s) = Some (i, r)"
    using assms(1) tbl_find_exists unfolding stored_def by (metis not_None_eq surj_pair)
  then show ?thesis using p v assms(2) by (simp add: lfs_Get_def)
qed

lemma lfs_Put_stores:
  assumes "fst (lfs_Put rid oid n b s) = Ok ()"
  shows "stored rid oid (if lfs_Exists s oid then the (lf_disk s (projr (lfs_Path s oid))) else up_bytes b) (snd (lfs_Put rid oid n b s))"
    and "lfs_Exists s oid \<or> (int (length (up_bytes b)) = n \<and> \<not> up_broken b)"
  using assms
  by (auto simp: lfs_Put_def lfs_write_def lfs_Exists_def stored_def tbl_exists_insert lfs_Path_def split: if_splits sum.splits)

section \<open>Locks\<close>

definition one_holder :: "lfs_state \<Rightarrow> bool" where
  "one_holder s \<longleftrightarrow> tbl_wf (lf_locks s) \<and> unique_on (\<lambda>l. (lk_RepoID l, lk_Path l)) (lf_locks s)"

lemma one_holder_ops:
  assumes "one_holder s"
  shows "one_holder (snd (lfs_Lock rid u path s))" and "one_holder (snd (lfs_Unlock rid u i s))"
    and "one_holder (snd (lfs_Put rid oid n b s))"
  using assms
  by (auto simp: one_holder_def lfs_Lock_def lock_check_def lock_insert_def lockByPath_def lfs_Unlock_def Let_def lfs_Put_keeps
      tbl_find_None tbl_exists_iff split: option.split if_splits intro!: tbl_wf_insert tbl_wf_delete unique_on_insert unique_on_delete)

lemma lock_rows_Lock: "x \<in> set (rows (lf_locks s)) \<Longrightarrow> x \<in> set (rows (lf_locks (snd (lfs_Lock rid u path s))))"
  by (simp add: lfs_Lock_def lock_insert_def Let_def split: option.split)

lemma lock_rows_Unlock:
  "(i, l) \<in> set (rows (lf_locks s)) \<Longrightarrow>
   (i, l) \<in> set (rows (lf_locks (snd (lfs_Unlock rid u j s)))) \<or> (i = j \<and> lk_RepoID l = rid \<and> lk_UserID l = u)"
  by (auto simp: lfs_Unlock_def Let_def)

definition removes :: "request \<Rightarrow> lfs_call \<Rightarrow> site \<Rightarrow> int \<Rightarrow> lfs_lock \<Rightarrow> bool" where
  "removes q c w i l \<longleftrightarrow>
     c = RemoveLock (Some i) \<and>
     (\<exists>rp u s. access q PermWrite w = (Ok (rp, u), s) \<and> lk_RepoID l = fst rp \<and> lk_UserID l = fst (caller u))"

text \<open>What a request does to the locks: nothing, one \<open>Lock\<close>, or one \<open>Unlock\<close>.\<close>

lemma lfs_serve_locks:
  "lf_locks (sr_lfs (snd (lfs_serve q c t))) = lf_locks (sr_lfs t) \<or>
   (\<exists>rid u path. sr_lfs (snd (lfs_serve q c t)) = snd (lfs_Lock rid u path (sr_lfs t))) \<or>
   (\<exists>rp u i s. c = RemoveLock (Some i) \<and> access q PermWrite (sr_site t) = (Ok (rp, u), s) \<and>
      sr_lfs (snd (lfs_serve q c t)) = snd (lfs_Unlock (fst rp) (fst (caller u)) i (sr_lfs t)))"
proof (cases c)
  case (Batch req)
  show ?thesis unfolding Batch lfs_serve.simps handleLFSBatch_def
    by (rule disjI1, rule with_repo_keeps [where P = "\<lambda>s. lf_locks s = lf_locks (sr_lfs t)"]) (simp_all split: option.split)
next
  case (Upload oid n body)
  show ?thesis unfolding Upload lfs_serve.simps handleLFSUpload_def
    by (rule disjI1, rule with_repo_keeps [where P = "\<lambda>s. lf_locks s = lf_locks (sr_lfs t)"])
      (simp_all add: lfs_Put_keeps split: prod.split, metis lfs_Put_keeps(4) snd_conv)
next
  case (Download oid)
  show ?thesis unfolding Download lfs_serve.simps handleLFSDownload_def
    by (rule disjI1, rule with_repo_keeps [where P = "\<lambda>s. lf_locks s = lf_locks (sr_lfs t)"]) (simp_all split: sum.split prod.split)
next
  case (CreateLock req)
  show ?thesis
  proof (cases "\<exists>x s path. access q PermWrite (sr_site t) = (Ok x, s) \<and> req = Some path")
    case True
    then obtain rp u s path where x: "access q PermWrite (sr_site t) = (Ok (rp, u), s)" "req = Some path" by auto
    then have "sr_lfs (snd (lfs_serve q c t)) = snd (lfs_Lock (fst rp) (fst (caller u)) path (sr_lfs t))"
      by (simp add: CreateLock handleCreateLFSLock_def with_repo_Ok split: prod.split sum.split)
    then show ?thesis by blast
  next
    case False
    then show ?thesis
      by (intro disjI1, unfold CreateLock lfs_serve.simps handleCreateLFSLock_def)
        (rule with_repo_keeps [where P = "\<lambda>s. lf_locks s = lf_locks (sr_lfs t)"]; cases req; simp)
  qed
next
  case (RemoveLock req)
  show ?thesis
  proof (cases "\<exists>x s i. access q PermWrite (sr_site t) = (Ok x, s) \<and> req = Some i")
    case True
    then obtain rp u s i where x: "access q PermWrite (sr_site t) = (Ok (rp, u), s)" "req = Some i" by auto
    then have "sr_lfs (snd (lfs_serve q c t)) = snd (lfs_Unlock (fst rp) (fst (caller u)) i (sr_lfs t))"
      by (simp add: RemoveLock handleUnlockLFSLock_def with_repo_Ok split: prod.split sum.split)
    then show ?thesis using x RemoveLock by blast
  next
    case False
    then show ?thesis
      by (intro disjI1, unfold RemoveLock lfs_serve.simps handleUnlockLFSLock_def)
        (rule with_repo_keeps [where P = "\<lambda>s. lf_locks s = lf_locks (sr_lfs t)"]; cases req; simp)
  qed
next
  case AllLocks
  show ?thesis unfolding AllLocks lfs_serve.simps handleListLFSLocks_def
    by (rule disjI1, rule with_repo_keeps [where P = "\<lambda>s. lf_locks s = lf_locks (sr_lfs t)"]) (simp_all split: sum.split)
qed

lemma one_holder_serve: "one_holder (sr_lfs t) \<Longrightarrow> one_holder (sr_lfs (snd (lfs_serve q c t)))"
  using lfs_serve_locks [of q c t] one_holder_ops(1,2) by (metis one_holder_def)

lemma one_holder_run: "one_holder (sr_lfs t) \<Longrightarrow> one_holder (sr_lfs (lfs_run evs t))"
  by (rule lfs_run_induct [where P = one_holder]) (simp_all add: one_holder_serve, simp add: one_holder_def)

lemma lock_insert_facts:
  assumes "\<not> lf_down s"
  shows "is_ok (fst (lock_insert rid u path s))" and "lf_down (snd (lock_insert rid u path s)) = lf_down s"
    and "lf_locks (snd (lock_insert rid u path s)) = tbl_insert \<lparr>lk_RepoID = rid, lk_Path = path, lk_UserID = u\<rparr> (lf_locks s)"
proof -
  have "tbl_find (\<lambda>j _. j = seq (lf_locks s) + 1) (tbl_insert l (lf_locks s)) \<noteq> None" for l
    unfolding tbl_find_None by auto
  then show "is_ok (fst (lock_insert rid u path s))"
    using assms by (auto simp: lock_insert_def lockByID_def Let_def split: option.split)
qed (use assms in \<open>simp_all add: lock_insert_def Let_def\<close>)

text \<open>Two requests whose queries both come before both inserts get the same path both.\<close>

lemma locks_race:
  assumes "lock_check s rid u1 path = None" and "lock_check s rid u2 path = None"
  shows "is_ok (fst (lock_insert rid u1 path s))"
    and "is_ok (fst (lock_insert rid u2 path (snd (lock_insert rid u1 path s))))"
    and "\<not> one_holder (snd (lock_insert rid u2 path (snd (lock_insert rid u1 path s))))"
proof -
  have "\<not> lf_down s" using assms(1) by (auto simp: lock_check_def lockByPath_def split: if_splits)
  then show "is_ok (fst (lock_insert rid u1 path s))" "is_ok (fst (lock_insert rid u2 path (snd (lock_insert rid u1 path s))))"
    "\<not> one_holder (snd (lock_insert rid u2 path (snd (lock_insert rid u1 path s))))"
    by (simp_all add: lock_insert_facts one_holder_def unique_on_def)
qed

section \<open>Claims\<close>


text \<open>C31: The name of an object is the key to it: whoever may write to any repository gets the bytes of every object of
  the instance whose name he knows, also those of private repositories, by an upload to his own
  repository of anything at all, which is answered 200 and not even read.\<close>

theorem lfs_reads_across_repositories:
  assumes p: "lfs_Path (sr_lfs t) oid = Ok p" "lf_disk (sr_lfs t) p = Some content" and db: "\<not> lf_down (sr_lfs t)"
    and acc: "access q PermWrite (sr_site t) = (Ok (rp, u), s)" and again: "access q PermRead s = (Ok (rp, u2), s2)"
  shows "\<exists>t1. handleLFSUpload q oid n b t = ((200, NoBody), t1) \<and> fst (handleLFSDownload q oid t1) = (200, Content content)"
proof -
  let ?x = "lfs_Put (fst rp) oid (if n < 0 then 0 else n) b (sr_lfs t)"
  let ?t1 = "t\<lparr>sr_site := s, sr_lfs := snd ?x\<rparr>"
  have v: "VerifyOID oid" using p(1) by (simp add: lfs_Path_def split: if_splits)
  have e: "lfs_Exists (sr_lfs t) oid" using p by (simp add: lfs_Exists_def)
  have ok: "fst ?x = Ok ()" using p(1) e db by (simp add: lfs_Put_def)
  have st: "stored (fst rp) oid content (snd ?x)" using lfs_Put_stores(1) [OF ok] e p by simp
  have "\<not> lf_down (snd ?x)" using p(1) e db by (simp add: lfs_Put_def)
  then obtain k where g: "lfs_Get (snd ?x) (fst rp) oid = Ok (content, k)" using stored_Get [OF st] by blast
  have "handleLFSUpload q oid n b t = ((200, NoBody), ?t1)"
    using v ok by (cases ?x) (simp add: handleLFSUpload_def with_repo_Ok [OF acc])
  moreover have "fst (handleLFSDownload q oid ?t1) = (200, Content content)"
    using g again by (simp add: handleLFSDownload_def with_repo_Ok)
  ultimately show ?thesis by blast
qed

text \<open>Requests that come one after the other give a file to one account at a time: after any of them no path of a repository has
  two locks, and a request ends a lock only if it is the removal of this lock by the account that holds
  it, through the repository it belongs to.\<close>

theorem lfs_locks_exclusive:
  assumes "sr_lfs t0 = lfs_New root"
  shows "unique_on (\<lambda>l. (lk_RepoID l, lk_Path l)) (lf_locks (sr_lfs (lfs_run evs t0))) \<and>
    (\<forall>i l w ro dn q c. (i, l) \<in> set (rows (lf_locks (sr_lfs (lfs_run evs t0)))) \<longrightarrow>
       (i, l) \<in> set (rows (lf_locks (sr_lfs (lfs_step (w, ro, dn, q, c) (lfs_run evs t0))))) \<or> removes q c w i l)"
proof (intro conjI allI impI)
  have "one_holder (sr_lfs t0)" using assms by (simp add: one_holder_def lfs_New_def)
  from one_holder_run [OF this, of evs] show "unique_on (\<lambda>l. (lk_RepoID l, lk_Path l)) (lf_locks (sr_lfs (lfs_run evs t0)))"
    by (simp add: one_holder_def)
  fix i l w ro dn q c
  let ?t = "before_event (w, ro, dn, q, c) (lfs_run evs t0)"
  assume "(i, l) \<in> set (rows (lf_locks (sr_lfs (lfs_run evs t0))))"
  then have il: "(i, l) \<in> set (rows (lf_locks (sr_lfs ?t)))" by simp
  show "(i, l) \<in> set (rows (lf_locks (sr_lfs (lfs_step (w, ro, dn, q, c) (lfs_run evs t0))))) \<or> removes q c w i l"
    using lfs_serve_locks [of q c ?t]
  proof (elim disjE exE conjE)
    fix rp u j s
    assume r: "c = RemoveLock (Some j)" "access q PermWrite (sr_site ?t) = (Ok (rp, u), s)"
      and x: "sr_lfs (snd (lfs_serve q c ?t)) = snd (lfs_Unlock (fst rp) (fst (caller u)) j (sr_lfs ?t))"
    have e: "sr_lfs (lfs_step (w, ro, dn, q, c) (lfs_run evs t0)) = sr_lfs (snd (lfs_serve q c ?t))" by (simp add: lfs_step_def)
    show ?thesis unfolding e x using lock_rows_Unlock [OF il, of "fst rp" "fst (caller u)" j] r by (auto simp: removes_def)
  qed (use lock_rows_Lock [OF il] il in \<open>simp_all add: lfs_step_def\<close>)
qed

text \<open>Alice keeps an object in her private repository; Mallory knows its name.\<close>

definition some_oid :: string where "some_oid = replicate 64 CHR ''a''"

definition ask_lfs :: "int \<Rightarrow> string \<Rightarrow> string \<Rightarrow> request" where
  "ask_lfs i name repo = \<lparr>rq_env = test_env, rq_now = 0, rq_visit = visit_of i name, rq_owner = name, rq_repo = repo\<rparr>"

definition demo_store :: store where
  "demo_store = \<lparr>sr_site = demo_site, sr_lfs = lfs_New ''/lfs''\<rparr>"

definition ten_bytes :: upload where "ten_bytes = \<lparr>up_bytes = ''top secret'', up_broken = False\<rparr>"

lemma some_oid_ok: "VerifyOID some_oid" by code_simp

lemma demo_lfs_access:
  "access (ask_lfs 1 ''alice'' ''app'') need demo_site = (Ok ((1, demo_repo 1 ''app'' True), Some (1, demo_user ''alice'')), demo_site)"
  "access (ask_lfs 2 ''mallory'' ''tool'') need demo_site = (Ok ((2, demo_repo 2 ''tool'' False), Some (2, demo_user ''mallory'')), demo_site)"
  by (simp_all add: ask_lfs_def demo_access)

lemma alice_uploads:
  "\<exists>t1. handleLFSUpload (ask_lfs 1 ''alice'' ''app'') some_oid 10 ten_bytes demo_store = ((200, NoBody), t1) \<and>
     sr_site t1 = demo_site \<and> \<not> lf_down (sr_lfs t1) \<and>
     lf_disk (sr_lfs t1) = (\<lambda>_. None)(path_join [''/lfs'', ''aa'', ''aa'', some_oid] \<mapsto> ''top secret'') \<and> lf_root (sr_lfs t1) = ''/lfs''"
proof -
  have "lfs_Path (lfs_New ''/lfs'') some_oid = Ok (path_join [''/lfs'', ''aa'', ''aa'', some_oid])"
    using some_oid_ok by (simp add: lfs_Path_def lfs_New_def some_oid_def numeral_eq_Suc)
  then show ?thesis
    by (simp add: handleLFSUpload_def with_repo_Ok demo_store_def demo_lfs_access some_oid_ok lfs_Put_def lfs_Exists_def
        lfs_write_def ten_bytes_def) (simp add: lfs_New_def)
qed


theorem lfs_reads_across_repositories_witness:
  "\<exists>t1 t2. handleLFSUpload (ask_lfs 1 ''alice'' ''app'') some_oid 10 ten_bytes demo_store = ((200, NoBody), t1) \<and>
     handleLFSUpload (ask_lfs 2 ''mallory'' ''tool'') some_oid 0 \<lparr>up_bytes = [], up_broken = False\<rparr> t1 = ((200, NoBody), t2) \<and>
     fst (handleLFSDownload (ask_lfs 2 ''mallory'' ''tool'') some_oid t2) = (200, Content ''top secret'')"
proof -
  obtain t1 where t1: "handleLFSUpload (ask_lfs 1 ''alice'' ''app'') some_oid 10 ten_bytes demo_store = ((200, NoBody), t1)"
    "sr_site t1 = demo_site" "\<not> lf_down (sr_lfs t1)"
    "lf_disk (sr_lfs t1) = (\<lambda>_. None)(path_join [''/lfs'', ''aa'', ''aa'', some_oid] \<mapsto> ''top secret'')" "lf_root (sr_lfs t1) = ''/lfs''"
    using alice_uploads by blast
  have p: "lfs_Path (sr_lfs t1) some_oid = Ok (path_join [''/lfs'', ''aa'', ''aa'', some_oid])"
    using some_oid_ok t1(5) by (simp add: lfs_Path_def some_oid_def numeral_eq_Suc)
  have acc: "access (ask_lfs 2 ''mallory'' ''tool'') need (sr_site t1)
      = (Ok ((2, demo_repo 2 ''tool'' False), Some (2, demo_user ''mallory'')), demo_site)" for need
    using demo_lfs_access(2) t1(2) by simp
  have c: "lf_disk (sr_lfs t1) (path_join [''/lfs'', ''aa'', ''aa'', some_oid]) = Some ''top secret''" using t1(4) by simp
  show ?thesis
    using lfs_reads_across_repositories [OF p c t1(3) acc demo_lfs_access(2), of 0 "\<lparr>up_bytes = [], up_broken = False\<rparr>"] t1(1) by blast
qed

theorem lfs_locks_exclusive_witness:
  "unique_on (\<lambda>l. (lk_RepoID l, lk_Path l)) (lf_locks (sr_lfs (lfs_run
     [(demo_site, False, False, ask_lfs 1 ''alice'' ''app'', CreateLock (Some ''a.psd''))] demo_store)))"
  using lfs_locks_exclusive [of demo_store "''/lfs''"] by (simp add: demo_store_def)

end
