(* ===== verification/ApiGate.thy ===== *)
theory ApiGate
  imports Pat
begin

text \<open>
  What stands before the routes of the API: the rate limiter, the guard of an instance that is not set up, the
  check against forged requests (\<open>internal/transport/http/middleware\<close>: \<open>ratelimit.go\<close>, \<open>setup_guard.go\<close>,
  \<open>csrf.go\<close>) and their order in \<open>server.go\<close>.

  Times are nanoseconds. \<open>Allow\<close> reads the clock twice, once to sweep and once to decide; both are arguments.
\<close>

section \<open>The rate limiter\<close>

record rateWindow =
  rw_count :: int
  rw_start :: int

record RateLimiter =
  rl_hits :: "string \<Rightarrow> rateWindow option"
  rl_limit :: int
  rl_window :: int
  rl_lastGCed :: int

definition NewRateLimiter :: "int \<Rightarrow> int \<Rightarrow> int \<Rightarrow> RateLimiter" where
  "NewRateLimiter limit window now =
     \<lparr>rl_hits = (\<lambda>_. None), rl_limit = (if limit \<le> 0 then 5 else limit),
      rl_window = (if window \<le> 0 then 15 * 60 * 1000000000 else window), rl_lastGCed = now\<rparr>"

definition rl_gcLocked :: "int \<Rightarrow> RateLimiter \<Rightarrow> RateLimiter" where
  "rl_gcLocked now r =
     (if now - rl_lastGCed r < rl_window r then r
      else r\<lparr>rl_hits := (\<lambda>k. case rl_hits r k of
                 None \<Rightarrow> None
               | Some w \<Rightarrow> if now - rw_start w \<ge> rl_window r then None else Some w),
             rl_lastGCed := now\<rparr>)"

definition rl_Allow :: "int \<Rightarrow> int \<Rightarrow> string \<Rightarrow> RateLimiter \<Rightarrow> bool \<times> RateLimiter" where
  "rl_Allow gcNow now key r0 =
     (let r = rl_gcLocked gcNow r0;
          fresh = (True, r\<lparr>rl_hits := (rl_hits r)(key \<mapsto> \<lparr>rw_count = 1, rw_start = now\<rparr>)\<rparr>)
      in case rl_hits r key of
           None \<Rightarrow> fresh
         | Some w \<Rightarrow>
             if now - rw_start w \<ge> rl_window r then fresh
             else if rw_count w \<ge> rl_limit r then (False, r)
             else (True, r\<lparr>rl_hits := (rl_hits r)(key \<mapsto> w\<lparr>rw_count := rw_count w + 1\<rparr>)\<rparr>))"

definition rl_Reset :: "string \<Rightarrow> RateLimiter \<Rightarrow> RateLimiter" where
  "rl_Reset key r = r\<lparr>rl_hits := (rl_hits r)(key := None)\<rparr>"

section \<open>Forged requests\<close>

text \<open>The token of a request: its cookie, or a fresh one, which the answer sets.\<close>

definition ensureCSRFCookie :: "string option \<Rightarrow> string \<Rightarrow> string" where
  "ensureCSRFCookie cookie rnd =
     (case cookie of
        Some v \<Rightarrow> if v \<noteq> [] then v else b64_encode url_alphabet rnd
      | None \<Rightarrow> b64_encode url_alphabet rnd)"

definition isSafeMethod :: "string \<Rightarrow> bool" where
  "isSafeMethod m \<longleftrightarrow> m \<in> {''GET'', ''HEAD'', ''OPTIONS'', ''TRACE''}"

text \<open>\<open>token\<close> is that of the context, empty when \<open>IssueCSRF\<close> did not come before.\<close>

definition CSRF :: "string \<Rightarrow> string option \<Rightarrow> string \<Rightarrow> string \<Rightarrow> string \<Rightarrow> (unit \<Rightarrow> int + 'a) \<Rightarrow> int + 'a" where
  "CSRF token0 cookie rnd method header next =
     (let token = (if token0 = [] then ensureCSRFCookie cookie rnd else token0) in
      if isSafeMethod method then next ()
      else if header \<noteq> token then Err 403
      else next ())"

definition IssueCSRF :: "string \<Rightarrow> string option \<Rightarrow> string \<Rightarrow> (string \<Rightarrow> 'a) \<Rightarrow> 'a" where
  "IssueCSRF token0 cookie rnd next = next (if token0 = [] then ensureCSRFCookie cookie rnd else token0)"

section \<open>The guard before the setup\<close>

definition SetupGuard :: "auth_error + bool \<Rightarrow> string list \<Rightarrow> string \<Rightarrow> (unit \<Rightarrow> int + 'a) \<Rightarrow> int + 'a" where
  "SetupGuard initialized open_paths path next =
     (if path \<in> set open_paths \<or> has_prefix path ''/api/v1/setup/'' then next ()
      else case initialized of
        Err _ \<Rightarrow> Err 500
      | Ok b \<Rightarrow> if \<not> b then Err 412 else next ())"

section \<open>The gate of the API\<close>

record api_request =
  ar_http :: http_request
  ar_clientIP :: string
  ar_path :: string
  ar_method :: string
  ar_cookie :: "string option"
  ar_header :: string
  ar_rnd :: string

record gate =
  ga_limiter :: RateLimiter
  ga_auth :: auth_state
  ga_pat :: pat_state

definition apiLim :: "int \<Rightarrow> RateLimiter" where
  "apiLim now = NewRateLimiter 600 (60 * 1000000000) now"

definition setup_allowed :: "string list" where
  "setup_allowed = [''/api/v1/version'', ''/api/v1/setup/status'', ''/api/v1/setup'']"

text \<open>
  The middleware in the order of \<open>server.go\<close>: a code of refusal, or the context with which the request goes on to
  its route. The account is resolved between the guard and the check of the token.
\<close>

definition api_gate ::
    "auth_cfg \<Rightarrow> bool \<Rightarrow> int \<Rightarrow> int \<Rightarrow> api_request \<Rightarrow> gate \<Rightarrow> (int + req_ctx) \<times> gate" where
  "api_gate c resolver gcNow now r g =
     IssueCSRF [] (ar_cookie r) (ar_rnd r) (\<lambda>token.
       case rl_Allow gcNow now (ar_clientIP r) (ga_limiter g) of
         (ok, lim) \<Rightarrow>
           if \<not> ok then (Err 429, g\<lparr>ga_limiter := lim\<rparr>)
           else case SetupGuard (IsInitialized (ga_auth g)) setup_allowed (ar_path r) (\<lambda>_. Ok ()) of
             Err code \<Rightarrow> (Err code, g\<lparr>ga_limiter := lim\<rparr>)
           | Ok _ \<Rightarrow>
               (case AuthenticateMiddleware c resolver now (ar_http r) (ga_auth g, ga_pat g) of
                  (ctx, a, p) \<Rightarrow>
                    (CSRF token (ar_cookie r) (ar_rnd r) (ar_method r) (ar_header r) (\<lambda>_. Ok ctx),
                     g\<lparr>ga_limiter := lim, ga_auth := a, ga_pat := p\<rparr>)))"

text \<open>A request that changes something passes only with the token in its header, which no other site can read; one that
  comes without the cookie only by guessing the fresh token, also when it has an access token.\<close>

lemma api_gate_passes:
  assumes "fst (api_gate c resolver gcNow now r g) = Ok ctx" and "\<not> isSafeMethod (ar_method r)"
  shows "ar_header r = ensureCSRFCookie (ar_cookie r) (ar_rnd r)"
proof -
  let ?t = "ensureCSRFCookie (ar_cookie r) (ar_rnd r)"
  have "CSRF ?t (ar_cookie r) (ar_rnd r) (ar_method r) (ar_header r) (\<lambda>_. Ok ctx) = Ok ctx"
    using assms(1) by (auto simp: api_gate_def IssueCSRF_def CSRF_def Let_def split: prod.splits if_splits sum.splits)
  then show ?thesis using assms(2) by (auto simp: CSRF_def Let_def split: if_splits)
qed

section \<open>Runs of the limiter\<close>

datatype rate_event = AllowCall string int int | ResetCall string

text \<open>A run, with the calls so far: the key, the time and the answer.\<close>

fun rl_step :: "rate_event \<Rightarrow> (string \<times> int \<times> bool) list \<times> RateLimiter \<Rightarrow> (string \<times> int \<times> bool) list \<times> RateLimiter" where
  "rl_step (AllowCall k t1 t2) (calls, r) = (case rl_Allow t1 t2 k r of (ok, r') \<Rightarrow> (calls @ [(k, t2, ok)], r'))"
| "rl_step (ResetCall k) (calls, r) = (calls, rl_Reset k r)"

definition rl_run :: "rate_event list \<Rightarrow> (string \<times> int \<times> bool) list \<times> RateLimiter \<Rightarrow> (string \<times> int \<times> bool) list \<times> RateLimiter" where
  "rl_run es st = fold rl_step es st"

text \<open>The clock does not run backwards.\<close>

fun timed :: "int \<Rightarrow> rate_event list \<Rightarrow> bool" where
  "timed now [] \<longleftrightarrow> True"
| "timed now (AllowCall k t1 t2 # es) \<longleftrightarrow> now \<le> t1 \<and> t1 \<le> t2 \<and> timed t2 es"
| "timed now (ResetCall k # es) \<longleftrightarrow> timed now es"

text \<open>The times of the calls of a key that were admitted.\<close>

definition admitted_at :: "string \<Rightarrow> (string \<times> int \<times> bool) list \<Rightarrow> int list" where
  "admitted_at k calls = map (\<lambda>(_, t, _). t) (filter (\<lambda>(k', _, ok). k' = k \<and> ok) calls)"

lemma admitted_at_simps [simp]:
  "admitted_at k [] = []" "admitted_at k (xs @ ys) = admitted_at k xs @ admitted_at k ys"
  "admitted_at k ((k', t, ok) # xs) = (if k' = k \<and> ok then [t] else []) @ admitted_at k xs"
  by (simp_all add: admitted_at_def)

section \<open>Windows\<close>

text \<open>The admitted calls of a key fall into windows, which start at least a length apart and hold at most the limit.\<close>

definition windows_ok :: "int \<Rightarrow> int \<Rightarrow> (int \<times> int list) list \<Rightarrow> bool" where
  "windows_ok W L G \<longleftrightarrow>
     (\<forall>(s, ts) \<in> set G. int (length ts) \<le> L \<and> (\<forall>t \<in> set ts. s \<le> t \<and> t < s + W)) \<and>
     sorted_wrt (\<lambda>(s, _) (s', _). s + W \<le> s') G"

definition within :: "int \<Rightarrow> int \<Rightarrow> int list \<Rightarrow> int" where
  "within T W ts = int (length (filter (\<lambda>t. T \<le> t \<and> t < T + W) ts))"

lemma within_simps [simp]: "within T W [] = 0" "within T W (xs @ ys) = within T W xs + within T W ys"
  by (simp_all add: within_def)

lemma within_le: "int (length ts) \<le> L \<Longrightarrow> within T W ts \<le> L"
  unfolding within_def by (metis length_filter_le of_nat_le_iff order_trans)

lemma within_none: "(\<And>t. t \<in> set ts \<Longrightarrow> t < T \<or> T + W \<le> t) \<Longrightarrow> within T W ts = 0"
  by (force simp: within_def filter_empty_conv)

lemma windows_ok_Cons:
  "windows_ok W L ((s, ts) # G) \<longleftrightarrow>
     int (length ts) \<le> L \<and> (\<forall>t \<in> set ts. s \<le> t \<and> t < s + W) \<and> (\<forall>(s', _) \<in> set G. s + W \<le> s') \<and> windows_ok W L G"
  by (auto simp: windows_ok_def)

lemma windows_after:
  assumes "windows_ok W L G" and "\<forall>(s, _) \<in> set G. T + W \<le> s"
  shows "within T W (concat (map snd G)) = 0"
  using assms by (intro within_none) (fastforce simp: windows_ok_def)

lemma windows_from:
  assumes "windows_ok W L G" and "\<forall>(s, _) \<in> set G. T \<le> s" and "0 \<le> L"
  shows "within T W (concat (map snd G)) \<le> L"
proof (cases G)
  case (Cons g G')
  obtain s ts where g: "g = (s, ts)" by fastforce
  have ok: "int (length ts) \<le> L" "windows_ok W L G'" "\<forall>(s', _) \<in> set G'. s + W \<le> s'"
    using assms(1) unfolding Cons g windows_ok_Cons by blast+
  have "T \<le> s" using assms(2) Cons g by simp
  then have "\<forall>(s', _) \<in> set G'. T + W \<le> s'" using ok(3) by fastforce
  then show ?thesis using windows_after [OF ok(2)] within_le [OF ok(1)] by (simp add: Cons g)
qed (use assms(3) in simp)

lemma windows_bound:
  assumes "windows_ok W L G" and "0 \<le> L"
  shows "within T W (concat (map snd G)) \<le> 2 * L"
  using assms(1)
proof (induction G)
  case (Cons g G)
  obtain s ts where g: "g = (s, ts)" by fastforce
  have ok: "int (length ts) \<le> L" "\<forall>t \<in> set ts. s \<le> t \<and> t < s + W" "\<forall>(s', _) \<in> set G. s + W \<le> s'" "windows_ok W L G"
    using Cons.prems unfolding g windows_ok_Cons by blast+
  show ?case
  proof (cases "\<forall>(s', _) \<in> set G. T \<le> s'")
    case True
    then show ?thesis using windows_from [OF ok(4) True assms(2)] within_le [OF ok(1), of T W] by (simp add: g)
  next
    case False
    then obtain s' ts' where "(s', ts') \<in> set G" "s' < T" by fastforce
    then have "s + W \<le> T" using ok(3) by fastforce
    then have "within T W ts = 0" using ok(2) by (intro within_none) fastforce
    then show ?thesis using Cons.IH [OF ok(4)] by (simp add: g)
  qed
qed (use assms(2) in simp)

lemma windows_ok_snoc:
  "windows_ok W L (G @ [(s, ts)]) \<longleftrightarrow>
     windows_ok W L G \<and> int (length ts) \<le> L \<and> (\<forall>t \<in> set ts. s \<le> t \<and> t < s + W) \<and> (\<forall>(s', _) \<in> set G. s' + W \<le> s)"
  by (auto simp: windows_ok_def sorted_wrt_append)

section \<open>The invariants of a run\<close>

definition rl_ok :: "int \<Rightarrow> RateLimiter \<Rightarrow> bool" where
  "rl_ok now r \<longleftrightarrow> 0 < rl_limit r \<and> 0 < rl_window r \<and>
     (\<forall>k w. rl_hits r k = Some w \<longrightarrow> 1 \<le> rw_count w \<and> rw_count w \<le> rl_limit r \<and> rw_start w \<le> now)"

definition counted :: "string \<Rightarrow> (string \<times> int \<times> bool) list \<Rightarrow> RateLimiter \<Rightarrow> bool" where
  "counted k calls r \<longleftrightarrow>
     (\<forall>w. rl_hits r k = Some w \<longrightarrow> rw_count w \<le> int (length (filter (\<lambda>t. rw_start w \<le> t) (admitted_at k calls))))"

definition grouped :: "string \<Rightarrow> int \<Rightarrow> (string \<times> int \<times> bool) list \<Rightarrow> RateLimiter \<Rightarrow> bool" where
  "grouped k now calls r \<longleftrightarrow>
     (\<exists>G. windows_ok (rl_window r) (rl_limit r) G \<and> concat (map snd G) = admitted_at k calls \<and>
        (case rl_hits r k of
           None \<Rightarrow> \<forall>(s, _) \<in> set G. s + rl_window r \<le> now
         | Some w \<Rightarrow> \<exists>G' ts. G = G' @ [(rw_start w, ts)] \<and> int (length ts) \<le> rw_count w))"

lemma grouped_cong:
  "rl_window r' = rl_window r \<Longrightarrow> rl_limit r' = rl_limit r \<Longrightarrow> rl_hits r' k = rl_hits r k \<Longrightarrow>
     admitted_at k calls' = admitted_at k calls \<Longrightarrow> grouped k t calls' r' = grouped k t calls r"
  unfolding grouped_def by (simp only:)

lemma gc_sel [simp]: "rl_window (rl_gcLocked t r) = rl_window r" "rl_limit (rl_gcLocked t r) = rl_limit r"
  by (simp_all add: rl_gcLocked_def)

lemma gc_hits:
  "rl_hits (rl_gcLocked t r) k = rl_hits r k \<or>
   (\<exists>w. rl_hits r k = Some w \<and> rw_start w + rl_window r \<le> t \<and> rl_hits (rl_gcLocked t r) k = None)"
  by (auto simp: rl_gcLocked_def split: option.split)

lemma gc_Some: "rl_hits (rl_gcLocked t r) k = Some w \<Longrightarrow> rl_hits r k = Some w"
  using gc_hits [of t r k] by auto

lemma gc_ok: "rl_ok now r \<Longrightarrow> now \<le> t \<Longrightarrow> rl_ok t (rl_gcLocked t r)"
  unfolding rl_ok_def using gc_Some [of t r] by (metis gc_sel order_trans)

lemma gc_counted: "counted k calls r \<Longrightarrow> counted k calls (rl_gcLocked t r)"
  using gc_hits [of t r k] by (auto simp: counted_def)

lemma windows_expired:
  assumes "windows_ok W L (G @ [(s, ts)])" and "s + W \<le> t" and "0 < W"
  shows "\<forall>(s', _) \<in> set (G @ [(s, ts)]). s' + W \<le> t"
  using assms by (fastforce simp: windows_ok_snoc)

lemma gc_grouped:
  assumes "grouped k now calls r" and "rl_ok now r" and "now \<le> t"
  shows "grouped k t calls (rl_gcLocked t r)"
proof -
  obtain G where G: "windows_ok (rl_window r) (rl_limit r) G" "concat (map snd G) = admitted_at k calls"
    "case rl_hits r k of None \<Rightarrow> \<forall>(s, _) \<in> set G. s + rl_window r \<le> now
     | Some w \<Rightarrow> \<exists>G' ts. G = G' @ [(rw_start w, ts)] \<and> int (length ts) \<le> rw_count w"
    using assms(1) unfolding grouped_def by blast
  from gc_hits [of t r k] consider
      "rl_hits (rl_gcLocked t r) k = None" "rl_hits r k = None"
    | w where "rl_hits (rl_gcLocked t r) k = Some w" "rl_hits r k = Some w"
    | w where "rl_hits r k = Some w" "rw_start w + rl_window r \<le> t" "rl_hits (rl_gcLocked t r) k = None"
    by (cases "rl_hits r k") auto
  then have "case rl_hits (rl_gcLocked t r) k of None \<Rightarrow> \<forall>(s, _) \<in> set G. s + rl_window r \<le> t
     | Some w \<Rightarrow> \<exists>G' ts. G = G' @ [(rw_start w, ts)] \<and> int (length ts) \<le> rw_count w"
  proof cases
    case 1
    then show ?thesis using G(3) assms(3) by fastforce
  next
    case (2 w)
    then show ?thesis using G(3) by simp
  next
    case (3 w)
    obtain G' ts where G': "G = G' @ [(rw_start w, ts)]" using G(3) 3(1) by auto
    have "0 < rl_window r" using assms(2) by (simp add: rl_ok_def)
    then show ?thesis using windows_expired [OF G(1) [unfolded G'] 3(2)] 3(3) G' by simp
  qed
  then show ?thesis unfolding grouped_def gc_sel using G(1,2) by blast
qed

text \<open>The three ways an admitted or refused call changes the limiter after the sweep.\<close>

lemma Allow_cases:
  obtains (fresh) "rl_Allow t1 t2 k r = (True, (rl_gcLocked t1 r)\<lparr>rl_hits := (rl_hits (rl_gcLocked t1 r))(k \<mapsto> \<lparr>rw_count = 1, rw_start = t2\<rparr>)\<rparr>)"
      "\<And>w. rl_hits (rl_gcLocked t1 r) k = Some w \<Longrightarrow> rw_start w + rl_window r \<le> t2"
  | (refused) w where "rl_Allow t1 t2 k r = (False, rl_gcLocked t1 r)" "rl_hits (rl_gcLocked t1 r) k = Some w"
      "t2 < rw_start w + rl_window r" "rl_limit r \<le> rw_count w"
  | (counted) w where "rl_Allow t1 t2 k r = (True, (rl_gcLocked t1 r)\<lparr>rl_hits := (rl_hits (rl_gcLocked t1 r))(k \<mapsto> w\<lparr>rw_count := rw_count w + 1\<rparr>)\<rparr>)"
      "rl_hits (rl_gcLocked t1 r) k = Some w" "t2 < rw_start w + rl_window r" "rw_count w < rl_limit r"
proof (cases "rl_hits (rl_gcLocked t1 r) k")
  case None
  then show thesis using fresh by (simp add: rl_Allow_def Let_def)
next
  case (Some w)
  consider "rw_start w + rl_window r \<le> t2" | "t2 < rw_start w + rl_window r" "rl_limit r \<le> rw_count w"
    | "t2 < rw_start w + rl_window r" "rw_count w < rl_limit r" by linarith
  then show thesis
  proof cases
    case 1
    then show thesis using Some by (intro fresh) (simp_all add: rl_Allow_def Let_def)
  next
    case 2
    then show thesis using Some by (intro refused [of w]) (simp_all add: rl_Allow_def Let_def)
  next
    case 3
    then show thesis using Some by (intro counted [of w]) (simp_all add: rl_Allow_def Let_def)
  qed
qed

lemma Allow_sel [simp]: "rl_window (snd (rl_Allow t1 t2 k r)) = rl_window r" "rl_limit (snd (rl_Allow t1 t2 k r)) = rl_limit r"
  by (rule Allow_cases [of t1 t2 k r]; simp)+

lemma Allow_ok:
  assumes "rl_ok now r" and "now \<le> t1" and "t1 \<le> t2"
  shows "rl_ok t2 (snd (rl_Allow t1 t2 k r))"
proof -
  have g: "rl_ok t2 (rl_gcLocked t1 r)" using gc_ok [OF assms(1,2)] assms(3) unfolding rl_ok_def by (meson order_trans)
  show ?thesis
    by (rule Allow_cases [of t1 t2 k r]) (use g in \<open>force simp: rl_ok_def\<close>)+
qed

lemma Allow_counted:
  assumes "rl_ok now r" and "now \<le> t1" and "t1 \<le> t2" and "counted k calls r"
  shows "counted k (calls @ [(k', t2, fst (rl_Allow t1 t2 k' r))]) (snd (rl_Allow t1 t2 k' r))"
proof -
  have g: "counted k calls (rl_gcLocked t1 r)" using assms(4) by (rule gc_counted)
  have ok: "rl_ok t1 (rl_gcLocked t1 r)" using gc_ok [OF assms(1,2)] .
  show ?thesis
  proof (cases "k' = k")
    case False
    then show ?thesis by (cases rule: Allow_cases [of t1 t2 k' r]) (use g in \<open>simp_all add: counted_def\<close>)
  next
    case True
    show ?thesis
    proof (cases rule: Allow_cases [of t1 t2 k' r])
      case fresh
      then show ?thesis using True by (simp add: counted_def)
    next
      case (refused w)
      then show ?thesis using True g by (simp add: counted_def)
    next
      case (counted w)
      have "rw_start w \<le> t2" using ok counted(2) assms(3) unfolding rl_ok_def by (meson order_trans)
      then show ?thesis using True g counted by (simp add: counted_def)
    qed
  qed
qed

lemma Allow_grouped:
  assumes ok: "rl_ok now r" and t: "now \<le> t1" "t1 \<le> t2" and gr: "grouped k now calls r"
  shows "grouped k t2 (calls @ [(k', t2, fst (rl_Allow t1 t2 k' r))]) (snd (rl_Allow t1 t2 k' r))"
proof -
  let ?r = "rl_gcLocked t1 r" and ?W = "rl_window r" and ?L = "rl_limit r"
  have ok1: "rl_ok t1 ?r" using gc_ok [OF ok t(1)] .
  obtain G where G: "windows_ok ?W ?L G" "concat (map snd G) = admitted_at k calls"
    and last: "case rl_hits ?r k of None \<Rightarrow> \<forall>(s, _) \<in> set G. s + ?W \<le> t1
      | Some w \<Rightarrow> \<exists>G' ts. G = G' @ [(rw_start w, ts)] \<and> int (length ts) \<le> rw_count w"
    using gc_grouped [OF gr ok t(1)] unfolding grouped_def gc_sel by blast
  have same: "grouped k t2 calls ?r"
    unfolding grouped_def gc_sel using G last t(2) by (intro exI [of _ G]) (fastforce split: option.splits)
  show ?thesis
  proof (cases "k' = k")
    case False
    have "rl_hits (snd (rl_Allow t1 t2 k' r)) k = rl_hits ?r k"
      by (cases rule: Allow_cases [of t1 t2 k' r]) (use False in simp_all)
    then show ?thesis using same grouped_cong [of "snd (rl_Allow t1 t2 k' r)" ?r k] False by simp
  next
    case True
    show ?thesis
    proof (cases rule: Allow_cases [of t1 t2 k' r])
      case fresh
      have "\<forall>(s, _) \<in> set G. s + ?W \<le> t2"
      proof (cases "rl_hits ?r k")
        case None
        then show ?thesis using last t(2) by fastforce
      next
        case (Some w)
        then obtain G' ts where G': "G = G' @ [(rw_start w, ts)]" using last by auto
        have "rw_start w + ?W \<le> t2" using fresh(2) Some True by simp
        then show ?thesis using windows_expired [of ?W ?L G' "rw_start w" ts t2] G(1) G' ok by (simp add: rl_ok_def)
      qed
      then have "windows_ok ?W ?L (G @ [(t2, [t2])])" using G(1) ok by (simp add: windows_ok_snoc rl_ok_def)
      then show ?thesis using fresh(1) True G(2) by (simp add: grouped_def) (intro exI [of _ "G @ [(t2, [t2])]"], simp)
    next
      case (refused w)
      then show ?thesis using True same by (simp add: grouped_def)
    next
      case (counted w)
      obtain G' ts where G': "G = G' @ [(rw_start w, ts)]" "int (length ts) \<le> rw_count w" using last counted(2) True by auto
      have "rw_start w \<le> t2" using ok1 counted(2) t(2) unfolding rl_ok_def by (meson order_trans)
      then have "windows_ok ?W ?L (G' @ [(rw_start w, ts @ [t2])])" using G(1) G' counted(3,4) by (simp add: windows_ok_snoc)
      then show ?thesis using counted(1) True G(2) G'
        by (simp add: grouped_def) (intro exI [of _ "G' @ [(rw_start w, ts @ [t2])]"], simp)
    qed
  qed
qed

text \<open>A run from one state: the invariants hold at the time of its last call.\<close>

lemma rl_run_Cons: "rl_run (e # es) st = rl_run es (rl_step e st)"
  by (simp add: rl_run_def)

lemma rl_run_append: "rl_run (es @ fs) st = rl_run fs (rl_run es st)"
  by (simp add: rl_run_def)

lemma rl_run_calls: "fst (rl_run es (cs @ ds, r)) = cs @ fst (rl_run es (ds, r)) \<and> snd (rl_run es (cs @ ds, r)) = snd (rl_run es (ds, r))"
proof (induction es arbitrary: ds r)
  case (Cons e es)
  show ?case
  proof (cases e)
    case (AllowCall k t1 t2)
    obtain ok r' where "rl_Allow t1 t2 k r = (ok, r')" by fastforce
    then show ?thesis using Cons.IH [of "ds @ [(k, t2, ok)]" r'] by (simp add: rl_run_Cons AllowCall)
  next
    case (ResetCall k)
    then show ?thesis using Cons.IH [of ds "rl_Reset k r"] by (simp add: rl_run_Cons)
  qed
qed (simp add: rl_run_def)

fun last_time :: "int \<Rightarrow> rate_event list \<Rightarrow> int" where
  "last_time now [] = now"
| "last_time now (AllowCall k t1 t2 # es) = last_time t2 es"
| "last_time now (ResetCall k # es) = last_time now es"

lemma timed_append: "timed now (es @ fs) \<longleftrightarrow> timed now es \<and> timed (last_time now es) fs"
  by (induction now es rule: timed.induct) auto

lemma Reset_facts [simp]: "rl_window (rl_Reset k r) = rl_window r" "rl_limit (rl_Reset k r) = rl_limit r"
  "rl_ok now r \<Longrightarrow> rl_ok now (rl_Reset k r)" "counted k' calls r \<Longrightarrow> counted k' calls (rl_Reset k r)"
  by (simp_all add: rl_Reset_def rl_ok_def counted_def)

lemma run_ok:
  assumes "timed now es" and "rl_ok now r" and "counted k calls r"
  shows "rl_ok (last_time now es) (snd (rl_run es (calls, r))) \<and>
    counted k (fst (rl_run es (calls, r))) (snd (rl_run es (calls, r))) \<and>
    rl_window (snd (rl_run es (calls, r))) = rl_window r \<and> rl_limit (snd (rl_run es (calls, r))) = rl_limit r"
  using assms
proof (induction es arbitrary: now calls r)
  case (Cons e es)
  show ?case
  proof (cases e)
    case (AllowCall k' t1 t2)
    obtain ok r' where a: "rl_Allow t1 t2 k' r = (ok, r')" by fastforce
    have t: "now \<le> t1" "t1 \<le> t2" "timed t2 es" using Cons.prems(1) AllowCall by simp_all
    have "rl_ok t2 r'" using Allow_ok [OF Cons.prems(2) t(1,2), of k'] a by simp
    moreover have "counted k (calls @ [(k', t2, ok)]) r'" using Allow_counted [OF Cons.prems(2) t(1,2) Cons.prems(3), of k'] a by simp
    moreover have "rl_window r' = rl_window r" "rl_limit r' = rl_limit r"
      using Allow_sel [of t1 t2 k' r] unfolding a by simp_all
    ultimately show ?thesis using Cons.IH [OF t(3)] a by (simp add: rl_run_Cons AllowCall)
  next
    case (ResetCall k')
    then show ?thesis using Cons.IH [of now "rl_Reset k' r" calls] Cons.prems by (simp add: rl_run_Cons)
  qed
qed (simp add: rl_run_def)

lemma run_grouped:
  assumes "timed now es" and "rl_ok now r" and "grouped k now calls r" and "ResetCall k \<notin> set es"
  shows "grouped k (last_time now es) (fst (rl_run es (calls, r))) (snd (rl_run es (calls, r)))"
  using assms
proof (induction es arbitrary: now calls r)
  case (Cons e es)
  show ?case
  proof (cases e)
    case (AllowCall k' t1 t2)
    obtain ok r' where a: "rl_Allow t1 t2 k' r = (ok, r')" by fastforce
    have t: "now \<le> t1" "t1 \<le> t2" "timed t2 es" using Cons.prems(1) AllowCall by simp_all
    have "rl_ok t2 r'" using Allow_ok [OF Cons.prems(2) t(1,2), of k'] a by simp
    moreover have "grouped k t2 (calls @ [(k', t2, ok)]) r'" using Allow_grouped [OF Cons.prems(2) t(1,2) Cons.prems(3), of k'] a by simp
    ultimately show ?thesis using Cons.IH [OF t(3)] Cons.prems(4) a by (simp add: rl_run_Cons AllowCall)
  next
    case (ResetCall k')
    then have "k' \<noteq> k" using Cons.prems(4) by auto
    then have "grouped k now calls (rl_Reset k' r)"
      using Cons.prems(3) grouped_cong [of "rl_Reset k' r" r k calls calls now] by (simp add: rl_Reset_def)
    then show ?thesis using Cons.IH [of now "rl_Reset k' r" calls] Cons.prems ResetCall by (simp add: rl_run_Cons)
  qed
qed (simp add: rl_run_def)

lemma grouped_start:
  assumes "rl_ok now r"
  shows "grouped k now [] r"
proof (cases "rl_hits r k")
  case None
  then show ?thesis by (simp add: grouped_def windows_ok_def) (intro exI [of _ "[]"], simp)
next
  case (Some w)
  then have "1 \<le> rw_count w" "0 < rl_limit r" using assms by (auto simp: rl_ok_def)
  then show ?thesis using Some by (simp add: grouped_def) (intro exI [of _ "[(rw_start w, [])]"], simp add: windows_ok_def)
qed

section \<open>Claims\<close>

text \<open>C32: The limiter keeps its promise as far as fixed windows can: as long as a key is not reset, no stretch of time of the
  length of a window sees more than twice the limit of its calls admitted, wherever it starts; and a call is
  refused only when in the last such stretch the limit was reached. Neither the sweeps nor other
  keys change this.\<close>

theorem rate_limit_bounds:
  assumes "r0 = NewRateLimiter limit window now" and t: "timed now (before @ es)" and no: "ResetCall k \<notin> set es"
    and b: "rl_run before ([], r0) = (calls0, r1)" and e: "rl_run es ([], r1) = (calls, r2)"
  shows "int (length (filter (\<lambda>t. T \<le> t \<and> t < T + rl_window r0) (admitted_at k calls))) \<le> 2 * rl_limit r0 \<and>
    (\<forall>t1 t2. \<not> fst (rl_Allow t1 t2 k r2) \<longrightarrow>
       rl_limit r0 \<le> int (length (filter (\<lambda>t. t2 - rl_window r0 < t) (admitted_at k (calls0 @ calls)))))"
proof (intro conjI allI impI)
  have ok0: "rl_ok now r0" "counted k [] r0" using assms(1) by (simp_all add: NewRateLimiter_def rl_ok_def counted_def)
  have t': "timed now before" "timed (last_time now before) es" using t by (simp_all add: timed_append)
  from run_ok [OF t'(1) ok0] have ok1: "rl_ok (last_time now before) r1" "counted k calls0 r1"
    "rl_window r1 = rl_window r0" "rl_limit r1 = rl_limit r0" by (simp_all add: b)
  have all: "rl_run es (calls0, r1) = (calls0 @ calls, r2)"
    using rl_run_calls [of es calls0 "[]" r1] e by (simp add: prod_eq_iff)
  from run_ok [OF t'(2) ok1(1,2)] have ok2: "rl_ok (last_time (last_time now before) es) r2" "counted k (calls0 @ calls) r2"
    "rl_window r2 = rl_window r0" "rl_limit r2 = rl_limit r0" by (simp_all add: all ok1)
  have "grouped k (last_time (last_time now before) es) calls r2"
    using run_grouped [OF t'(2) ok1(1) grouped_start [OF ok1(1)] no] by (simp add: e)
  then obtain G where "windows_ok (rl_window r0) (rl_limit r0) G" "concat (map snd G) = admitted_at k calls"
    unfolding grouped_def ok2 by blast
  then show "int (length (filter (\<lambda>t. T \<le> t \<and> t < T + rl_window r0) (admitted_at k calls))) \<le> 2 * rl_limit r0"
    using windows_bound [of "rl_window r0" "rl_limit r0" G T] ok0(1) by (simp add: within_def rl_ok_def)
  fix t1 t2
  assume "\<not> fst (rl_Allow t1 t2 k r2)"
  then obtain w where w: "rl_hits (rl_gcLocked t1 r2) k = Some w" "t2 < rw_start w + rl_window r2" "rl_limit r2 \<le> rw_count w"
    by (cases rule: Allow_cases [of t1 t2 k r2]) auto
  have "rw_count w \<le> int (length (filter (\<lambda>t. rw_start w \<le> t) (admitted_at k (calls0 @ calls))))"
    using ok2(2) gc_Some [OF w(1)] unfolding counted_def by blast
  also have "\<dots> \<le> int (length (filter (\<lambda>t. t2 - rl_window r0 < t) (admitted_at k (calls0 @ calls))))"
  proof -
    have "length (filter (\<lambda>t. rw_start w \<le> t) ts) \<le> length (filter (\<lambda>t. t2 - rl_window r0 < t) ts)" for ts
      using w(2) ok2(3) by (induction ts) auto
    then show ?thesis using of_nat_mono by blast
  qed
  finally show "rl_limit r0 \<le> int (length (filter (\<lambda>t. t2 - rl_window r0 < t) (admitted_at k (calls0 @ calls))))"
    using w(3) ok2(4) by simp
qed

text \<open>A limit of one call in ten nanoseconds: the second call is refused, the third comes late enough.\<close>

theorem rate_limit_bounds_witness:
  "length (filter (\<lambda>t. 0 \<le> t \<and> t < 10) (admitted_at ''ip'' (fst (rl_run [AllowCall ''ip'' 1 1, AllowCall ''ip'' 5 5, AllowCall ''ip'' 11 11]
      ([], NewRateLimiter 1 10 0))))) \<le> 2 \<and>
   map (\<lambda>(_, _, ok). ok) (fst (rl_run [AllowCall ''ip'' 1 1, AllowCall ''ip'' 5 5, AllowCall ''ip'' 11 11] ([], NewRateLimiter 1 10 0)))
     = [True, False, True]"
proof -
  let ?es = "[AllowCall ''ip'' 1 1, AllowCall ''ip'' 5 5, AllowCall ''ip'' 11 11]"
  obtain calls r where r: "rl_run ?es ([], NewRateLimiter 1 10 0) = (calls, r)" by fastforce
  have "rl_window (NewRateLimiter 1 10 0) = 10" "rl_limit (NewRateLimiter 1 10 0) = 1" by (simp_all add: NewRateLimiter_def)
  then have "length (filter (\<lambda>t. 0 \<le> t \<and> t < 10) (admitted_at ''ip'' calls)) \<le> 2"
    using rate_limit_bounds [where limit = 1 and window = 10 and now = 0 and before = "[]" and ?calls0.0 = "[]" and k = "''ip''" and T = 0, OF refl _ _ _ r] by (simp add: rl_run_def)
  moreover have "map (\<lambda>(_, _, ok). ok) (fst (rl_run ?es ([], NewRateLimiter 1 10 0))) = [True, False, True]"
    by (simp add: rl_run_def rl_Allow_def rl_gcLocked_def NewRateLimiter_def Let_def)
  ultimately show ?thesis by (simp add: r)
qed

end
