(* ===== verification/Migrate.thy ===== *)
theory Migrate
  imports Prelude "HOL-Library.List_Lexorder" "HOL-Library.Char_ord"
begin

text \<open>
  Schema migrations: \<open>internal/db/migrate.go\<close>.

  The database engine is a parameter: \<open>en_exec\<close> runs one statement on the data, \<^const>\<open>None\<close> when it fails, and
  \<open>en_commits\<close> says which statements end the transaction they come in (on MySQL those that change the
  schema; on SQLite and PostgreSQL none). The ledger \<open>schema_migrations\<close> is a list of versions and names,
  its version is the primary key; the migrations themselves leave it alone. \<open>md_down\<close> says that the database does not
  answer. \<open>sort.Slice\<close> leaves the order of equal versions open; here they keep theirs.
\<close>

section \<open>Scripts\<close>

record migration =
  mg_Version :: string
  mg_Name :: string
  mg_UpSQL :: string

definition stripSQLComments :: "string \<Rightarrow> string" where
  "stripSQLComments s =
     trim_space (join [CHR 0x0A] (filter (\<lambda>line. \<not> has_prefix (trim_space line) ''--'') (split_on (CHR 0x0A) s)))"

definition splitStatements :: "string \<Rightarrow> string list" where
  "splitStatements sqlText = filter (\<lambda>s. s \<noteq> []) (map stripSQLComments (split_on (CHR '';'') sqlText))"

definition after_last :: "char \<Rightarrow> string \<Rightarrow> string" where
  "after_last c s = last (split_on c s)"

definition load_one :: "string \<Rightarrow> string \<Rightarrow> migration" where
  "load_one p content =
     (let base = after_last (CHR ''/'') p;
          version = before_byte (CHR ''_'') base;
          name = (if CHR ''_'' \<in> set base then drop (length version + 1) base else base)
      in \<lparr>mg_Version = trim_suffix version ''.sql'', mg_Name = trim_suffix name ''.sql'', mg_UpSQL = content\<rparr>)"

fun LoadMigrations :: "(string \<Rightarrow> string option) \<Rightarrow> string list \<Rightarrow> migration list option" where
  "LoadMigrations readFile [] = Some []"
| "LoadMigrations readFile (p # ps) =
     (case readFile p of
        None \<Rightarrow> None
      | Some b \<Rightarrow> map_option (\<lambda>ms. load_one p b # ms) (LoadMigrations readFile ps))"

section \<open>Running them\<close>

record 'd engine =
  en_exec :: "string \<Rightarrow> 'd \<Rightarrow> 'd option"
  en_commits :: "string \<Rightarrow> bool"

record 'd database =
  md_ledger :: "(string \<times> string) list"
  md_data :: 'd
  md_down :: bool

datatype mig_error = MigDriver | MigExec string | MigRecord string

text \<open>The statements of a script in a transaction: the data at the end, if none fails, and what a rollback restores.\<close>

fun exec_all :: "'d engine \<Rightarrow> string list \<Rightarrow> 'd \<Rightarrow> 'd \<Rightarrow> 'd option \<times> 'd" where
  "exec_all E [] saved cur = (Some cur, saved)"
| "exec_all E (s # ss) saved cur =
     (let saved1 = (if en_commits E s then cur else saved) in
      case en_exec E s cur of
        None \<Rightarrow> (None, saved1)
      | Some cur1 \<Rightarrow> exec_all E ss (if en_commits E s then cur1 else saved1) cur1)"

definition applyOne :: "'d engine \<Rightarrow> migration \<Rightarrow> 'd database \<Rightarrow> mig_error option \<times> 'd database" where
  "applyOne E m db =
     (case exec_all E (splitStatements (mg_UpSQL m)) (md_data db) (md_data db) of
        (None, saved) \<Rightarrow> (Some (MigExec (mg_Version m)), db\<lparr>md_data := saved\<rparr>)
      | (Some cur, saved) \<Rightarrow>
          if mg_Version m \<in> fst ` set (md_ledger db) then (Some (MigRecord (mg_Version m)), db\<lparr>md_data := saved\<rparr>)
          else (None, db\<lparr>md_ledger := md_ledger db @ [(mg_Version m, mg_Name m)], md_data := cur\<rparr>))"

definition appliedVersions :: "'d database \<Rightarrow> string list" where
  "appliedVersions db = map fst (md_ledger db)"

fun apply_loop :: "'d engine \<Rightarrow> string list \<Rightarrow> int \<Rightarrow> migration list \<Rightarrow> 'd database \<Rightarrow> (int \<times> mig_error option) \<times> 'd database" where
  "apply_loop E applied n [] db = ((n, None), db)"
| "apply_loop E applied n (m # ms) db =
     (if mg_Version m \<in> set applied then apply_loop E applied n ms db
      else case applyOne E m db of
             (Some e, db1) \<Rightarrow> ((n, Some e), db1)
           | (None, db1) \<Rightarrow> apply_loop E applied (n + 1) ms db1)"

definition ApplyMigrations :: "'d engine \<Rightarrow> migration list \<Rightarrow> 'd database \<Rightarrow> (int \<times> mig_error option) \<times> 'd database" where
  "ApplyMigrations E migs db =
     (if md_down db then ((0, Some MigDriver), db)
      else apply_loop E (appliedVersions db) 0 (sort_key mg_Version migs) db)"

section \<open>How scripts split\<close>

text \<open>A comment that fills its line is dropped; but a semicolon ends the statement wherever it stands, also in a comment
  or in a text.\<close>

lemma split_examples:
  "splitStatements (''-- users'' @ [CHR 0x0A] @ ''CREATE TABLE u (i INT); DROP TABLE v;'') = [''CREATE TABLE u (i INT)'', ''DROP TABLE v'']"
  "splitStatements (''-- a; b'' @ [CHR 0x0A] @ ''SELECT 1;'') = [''b'' @ [CHR 0x0A] @ ''SELECT 1'']"
  "splitStatements (''INSERT ('' @ [CHR 0x27] @ ''x;y'' @ [CHR 0x27] @ '');'') = [''INSERT ('' @ [CHR 0x27] @ ''x'', ''y'' @ [CHR 0x27] @ '')'']"
  by code_simp+

lemma load_example:
  "mg_Version (load_one ''sqlite/0009_repo_soft_delete.sql'' s) = ''0009''"
  "mg_Name (load_one ''sqlite/0009_repo_soft_delete.sql'' s) = ''repo_soft_delete''"
  by code_simp+

section \<open>The loop\<close>

lemma applyOne_ledger:
  "md_down (snd (applyOne E m db)) = md_down db"
  "fst (applyOne E m db) = None \<Longrightarrow> appliedVersions (snd (applyOne E m db)) = appliedVersions db @ [mg_Version m]"
  "fst (applyOne E m db) \<noteq> None \<Longrightarrow> appliedVersions (snd (applyOne E m db)) = appliedVersions db"
  by (auto simp: applyOne_def appliedVersions_def split: prod.splits option.splits if_splits)

lemma apply_loop_append:
  "apply_loop E A n (ms @ ms') db =
     (case apply_loop E A n ms db of ((k, None), db1) \<Rightarrow> apply_loop E A k ms' db1 | ((k, Some e), db1) \<Rightarrow> ((k, Some e), db1))"
  by (induction E A n ms db rule: apply_loop.induct) (auto split: prod.split option.split)

lemma apply_loop_shift:
  "apply_loop E A (n + k) ms db = (case apply_loop E A n ms db of ((c, e), db1) \<Rightarrow> ((c + k, e), db1))"
proof (induction ms arbitrary: n db)
  case (Cons m ms)
  show ?case using Cons.IH [of n db] Cons.IH [of "n + 1"] by (auto simp: algebra_simps split: prod.split option.split)
qed simp

lemma apply_loop_cong:
  "(\<And>m. m \<in> set ms \<Longrightarrow> mg_Version m \<in> set A \<longleftrightarrow> mg_Version m \<in> set B) \<Longrightarrow> apply_loop E A n ms db = apply_loop E B n ms db"
  by (induction ms arbitrary: n db) (auto split: prod.split option.split)

lemma apply_loop_done: "\<forall>m \<in> set ms. mg_Version m \<in> set A \<Longrightarrow> apply_loop E A n ms db = ((n, None), db)"
  by (induction ms) auto

lemma apply_loop_versions:
  assumes "apply_loop E A n ms db = ((k, None), db1)"
  shows "set (appliedVersions db1) = set (appliedVersions db) \<union> {v \<in> mg_Version ` set ms. v \<notin> set A} \<and> md_down db1 = md_down db"
  using assms
proof (induction ms arbitrary: n db)
  case (Cons m ms)
  show ?case
  proof (cases "mg_Version m \<in> set A")
    case True
    then show ?thesis using Cons by auto
  next
    case False
    obtain e db2 where a: "applyOne E m db = (e, db2)" by fastforce
    then have e: "e = None" using Cons.prems False by (cases e) simp_all
    then show ?thesis using Cons.IH [of "n + 1" db2] Cons.prems False a applyOne_ledger(1,2) [of E m db] by auto
  qed
qed simp

lemma insort_key_append:
  "\<forall>y \<in> set ys. f x \<le> f y \<Longrightarrow> insort_key f x (xs @ ys) = insort_key f x xs @ ys"
proof (induction xs)
  case Nil
  then show ?case by (cases ys) simp_all
qed simp

lemma sort_key_append:
  "\<forall>x \<in> set xs. \<forall>y \<in> set ys. f x \<le> f y \<Longrightarrow> sort_key f (xs @ ys) = sort_key f xs @ sort_key f ys"
  by (induction xs) (simp_all add: insort_key_append)

lemma sort_key_sorted: "sorted (map f xs) \<Longrightarrow> sort_key f xs = xs"
proof (induction xs)
  case (Cons x xs)
  then show ?case using insort_key_append [of xs f x "[]"] by simp
qed simp

text \<open>Without implicit commits a rollback restores the data of the start.\<close>

lemma exec_all_rollback: "\<forall>s. \<not> en_commits E s \<Longrightarrow> exec_all E ss saved cur = (r, d) \<Longrightarrow> d = saved"
  by (induction E ss saved cur rule: exec_all.induct) (auto simp: Let_def split: option.splits)

lemma applyOne_fails:
  assumes "\<forall>s. \<not> en_commits E s" and "applyOne E m db = (Some e, db1)"
  shows "db1 = db \<and> e \<in> {MigExec (mg_Version m), MigRecord (mg_Version m)}"
  using assms exec_all_rollback [OF assms(1)]
  by (fastforce simp: applyOne_def split: prod.splits option.splits if_splits)

definition pending :: "'d database \<Rightarrow> migration list \<Rightarrow> migration list" where
  "pending db migs = filter (\<lambda>m. mg_Version m \<notin> set (appliedVersions db)) (sort_key mg_Version migs)"

lemma apply_loop_filter: "apply_loop E A n ms db = apply_loop E A n (filter (\<lambda>m. mg_Version m \<notin> set A) ms) db"
  by (induction E A n ms db rule: apply_loop.induct) (auto split: prod.split option.split)

lemma apply_loop_fails:
  assumes "\<forall>s. \<not> en_commits E s" and "apply_loop E A n ms db = ((k, Some e), db1)" and "\<forall>m \<in> set ms. mg_Version m \<notin> set A"
  shows "\<exists>i < length ms. k = n + int i \<and> apply_loop E A n (take i ms) db = ((k, None), db1) \<and>
    e \<in> {MigExec (mg_Version (ms ! i)), MigRecord (mg_Version (ms ! i))}"
  using assms(2,3)
proof (induction ms arbitrary: n db)
  case (Cons m ms)
  obtain e' db2 where a: "applyOne E m db = (e', db2)" by fastforce
  show ?case
  proof (cases e')
    case None
    then have "apply_loop E A (n + 1) ms db2 = ((k, Some e), db1)" using Cons.prems a by simp
    from Cons.IH [OF this] Cons.prems(2) obtain i where "i < length ms" "k = n + 1 + int i"
      "apply_loop E A (n + 1) (take i ms) db2 = ((k, None), db1)" "e \<in> {MigExec (mg_Version (ms ! i)), MigRecord (mg_Version (ms ! i))}"
      by auto
    then show ?thesis using a None Cons.prems(2) by (intro exI [of _ "Suc i"]) simp
  next
    case (Some x)
    then have "e = x" "db1 = db2" "k = n" using Cons.prems a by simp_all
    then show ?thesis using applyOne_fails [OF assms(1)] a Some by (intro exI [of _ 0]) auto
  qed
qed simp

section \<open>Claims\<close>

text \<open>C33: An instance that is upgraded ends where a fresh one ends: when later releases only add migrations with higher
  versions, running the old ones and then all of them gives the same data, the same ledger, the same count and
  the same error as running all at once, on any engine; and running again what was run changes nothing. On an engine without implicit
  commits a failure leaves exactly what the migrations before the failing one, in the order of their versions,
  leave on their own.\<close>

theorem migrations_incremental:
  assumes new: "\<forall>a \<in> set old. \<forall>b \<in> set new. mg_Version a < mg_Version b"
    and run: "ApplyMigrations E old db = ((n, None), db1)"
  shows "ApplyMigrations E (old @ new) db =
      (case ApplyMigrations E (old @ new) db1 of ((k, e), db2) \<Rightarrow> ((n + k, e), db2)) \<and>
    ApplyMigrations E old db1 = ((0, None), db1) \<and>
    (\<forall>migs k e db2. ApplyMigrations E migs db = ((k, Some e), db2) \<and> (\<forall>s. \<not> en_commits E s) \<longrightarrow>
       0 \<le> k \<and> nat k < length (pending db migs) \<and>
       ApplyMigrations E (take (nat k) (pending db migs)) db = ((k, None), db2))"
proof (intro conjI allI impI)
  have up: "\<not> md_down db" using run by (auto simp: ApplyMigrations_def split: if_splits)
  let ?A = "appliedVersions db" and ?old = "sort_key mg_Version old" and ?new = "sort_key mg_Version new"
  have first: "apply_loop E ?A 0 ?old db = ((n, None), db1)" using run up by (simp add: ApplyMigrations_def)
  note v = apply_loop_versions [OF first]
  have s: "sort_key mg_Version (old @ new) = ?old @ ?new" using new by (intro sort_key_append) fastforce
  have up1: "\<not> md_down db1" using v up by simp
  have olds: "\<forall>m \<in> set old. mg_Version m \<in> set (appliedVersions db1)" using v by auto
  have "mg_Version m \<in> set ?A \<longleftrightarrow> mg_Version m \<in> set (appliedVersions db1)" if "m \<in> set ?new" for m
  proof -
    have "mg_Version m \<notin> mg_Version ` set old" using that new by (metis imageE less_irrefl set_sort)
    then show ?thesis using v by auto
  qed
  then have same: "apply_loop E ?A j ?new db1 = apply_loop E (appliedVersions db1) j ?new db1" for j by (rule apply_loop_cong)
  show "ApplyMigrations E (old @ new) db = (case ApplyMigrations E (old @ new) db1 of ((k, e), db2) \<Rightarrow> ((n + k, e), db2))"
    using apply_loop_shift [of E "appliedVersions db1" 0 n ?new db1] up up1 first olds
    by (simp add: ApplyMigrations_def s apply_loop_append apply_loop_done same add.commute)
  show "ApplyMigrations E old db1 = ((0, None), db1)" using up1 olds by (simp add: ApplyMigrations_def apply_loop_done)
  fix migs k e db2
  assume f: "ApplyMigrations E migs db = ((k, Some e), db2) \<and> (\<forall>s. \<not> en_commits E s)"
  then have "apply_loop E ?A 0 (pending db migs) db = ((k, Some e), db2)"
    using up apply_loop_filter [of E ?A 0 "sort_key mg_Version migs" db] by (simp add: ApplyMigrations_def pending_def)
  from apply_loop_fails [OF _ this] f obtain i where i: "i < length (pending db migs)" "k = int i"
    "apply_loop E ?A 0 (take i (pending db migs)) db = ((k, None), db2)" by (auto simp: pending_def)
  have "sorted (map mg_Version (pending db migs))" unfolding pending_def by (rule sorted_filter) simp
  then have "sorted (map mg_Version (take i (pending db migs)))" unfolding take_map [symmetric] by (rule sorted_wrt_take)
  then have "sort_key mg_Version (take i (pending db migs)) = take i (pending db migs)" by (rule sort_key_sorted)
  then show "0 \<le> k" "nat k < length (pending db migs)" "ApplyMigrations E (take (nat k) (pending db migs)) db = ((k, None), db2)"
    using i up by (simp_all add: ApplyMigrations_def)
qed

text \<open>An engine that records the statements it has seen and refuses one of them; on the second kind every statement commits.\<close>

definition log_engine :: "bool \<Rightarrow> string list engine" where
  "log_engine commits = \<lparr>en_exec = (\<lambda>s d. if s = ''BAD'' then None else Some (d @ [s])), en_commits = (\<lambda>_. commits)\<rparr>"

definition empty_database :: "string list database" where
  "empty_database = \<lparr>md_ledger = [], md_data = [], md_down = False\<rparr>"

definition script :: "string \<Rightarrow> string \<Rightarrow> migration" where
  "script v sql = \<lparr>mg_Version = v, mg_Name = v, mg_UpSQL = sql\<rparr>"

text \<open>Where statements commit by themselves, a script that fails in the middle leaves its first half, and the next run
  executes that half again.\<close>

lemma half_a_migration:
  "ApplyMigrations (log_engine True) [script ''0001'' ''A;BAD''] empty_database
     = ((0, Some (MigExec ''0001'')), empty_database\<lparr>md_data := [''A'']\<rparr>)"
  "ApplyMigrations (log_engine False) [script ''0001'' ''A;BAD''] empty_database = ((0, Some (MigExec ''0001'')), empty_database)"
  by code_simp+

theorem migrations_incremental_witness:
  "fst (ApplyMigrations (log_engine False) [script ''0001'' ''A;B'', script ''0002'' ''C''] empty_database) = (2, None)"
proof -
  have run: "ApplyMigrations (log_engine False) [script ''0001'' ''A;B''] empty_database
      = ((1, None), empty_database\<lparr>md_ledger := [(''0001'', ''0001'')], md_data := [''A'', ''B'']\<rparr>)"
    by code_simp
  have again: "fst (ApplyMigrations (log_engine False) [script ''0001'' ''A;B'', script ''0002'' ''C'']
      (empty_database\<lparr>md_ledger := [(''0001'', ''0001'')], md_data := [''A'', ''B'']\<rparr>)) = (1, None)"
    by code_simp
  have "mg_Version (script ''0001'' ''A;B'') < mg_Version (script ''0002'' ''C'')" by code_simp
  then have "\<forall>a \<in> set [script ''0001'' ''A;B'']. \<forall>b \<in> set [script ''0002'' ''C'']. mg_Version a < mg_Version b" by simp
  from conjunct1 [OF migrations_incremental [OF this run]] again show ?thesis by (simp split: prod.splits)
qed

end
