(* ===== verification/Ci.thy ===== *)
theory Ci
  imports Secrets "HOL-Library.List_Lexorder" "HOL-Library.Char_ord"
begin

text \<open>
  The older CI service: \<open>internal/service/ci\<close> (pipelines, jobs, artifacts, caches, runners) and
  \<open>internal/service/cisecret\<close> (sealed secrets of a repository).

  \<open>ci_down\<close> says that the database fails. The tables have no \<open>UNIQUE\<close> constraint but the one on the hash of a
  runner's token. A cipher is an AEAD, \<^const>\<open>None\<close> when none is configured.
\<close>

section \<open>State\<close>

record ci_pipeline =
  cip_RepoID :: int
  cip_CommitSHA :: string
  cip_Ref :: string
  cip_Status :: string

record ci_job =
  cij_PipelineID :: int
  cij_Name :: string
  cij_Stage :: string
  cij_Status :: string
  cij_RunnerID :: "int option"
  cij_Script :: string
  cij_LogPath :: string
  cij_StartedAt :: "int option"
  cij_FinishedAt :: "int option"

record ci_artifact =
  cia_JobID :: int
  cia_Name :: string
  cia_StoredPath :: string
  cia_SizeBytes :: int

record ci_cache =
  cic_RepoID :: int
  cic_Key :: string
  cic_StoredPath :: string
  cic_SizeBytes :: int

record ci_runner =
  cir_Name :: string
  cir_TokenHash :: string
  cir_Tags :: string
  cir_Status :: string
  cir_LastSeen :: "int option"

record ci_secret =
  cis_RepoID :: int
  cis_Name :: string
  cis_Ciphertext :: string

record ci_state =
  ci_pipelines :: "ci_pipeline table"
  ci_jobs :: "ci_job table"
  ci_artifacts :: "ci_artifact table"
  ci_caches :: "ci_cache table"
  ci_runners :: "ci_runner table"
  ci_secrets :: "ci_secret table"
  ci_down :: bool

datatype ci_error = CiNotFound | CiDriver | CiRandom | CiConstraint | CiCancelled | CiFailed
  | CisNotFound | CisInvalidRepo | CisNoName | CisNoCipher | CisDecode | CisCrypto crypto_error

text \<open>A statement that fails with the database.\<close>

definition ci_query :: "ci_state \<Rightarrow> 'a \<Rightarrow> ci_error + 'a" where
  "ci_query s x = (if ci_down s then Err CiDriver else Ok x)"

definition ci_exec :: "(ci_state \<Rightarrow> ci_state) \<Rightarrow> ci_state \<Rightarrow> (ci_error + unit) \<times> ci_state" where
  "ci_exec f s = (if ci_down s then (Err CiDriver, s) else (Ok (), f s))"

section \<open>Pipelines and jobs\<close>

definition ci_CreatePipeline :: "int \<Rightarrow> string \<Rightarrow> string \<Rightarrow> ci_state \<Rightarrow> (ci_error + int \<times> ci_pipeline) \<times> ci_state" where
  "ci_CreatePipeline repoID commitSHA ref s =
     (let p = \<lparr>cip_RepoID = repoID, cip_CommitSHA = commitSHA, cip_Ref = ref, cip_Status = ''pending''\<rparr> in
      if ci_down s then (Err CiDriver, s)
      else let t = tbl_insert p (ci_pipelines s) in (Ok (seq t, p), s\<lparr>ci_pipelines := t\<rparr>))"

definition PipelineRepoID :: "ci_state \<Rightarrow> int \<Rightarrow> ci_error + int" where
  "PipelineRepoID s pipelineID =
     (if ci_down s then Err CiDriver
      else case tbl_find (\<lambda>i _. i = pipelineID) (ci_pipelines s) of
             None \<Rightarrow> Err CiNotFound | Some (_, p) \<Rightarrow> Ok (cip_RepoID p))"

definition AddJob :: "int \<Rightarrow> string \<Rightarrow> string \<Rightarrow> string \<Rightarrow> ci_state \<Rightarrow> (ci_error + int \<times> ci_job) \<times> ci_state" where
  "AddJob pipelineID name stage script s =
     (let j = \<lparr>cij_PipelineID = pipelineID, cij_Name = name, cij_Stage = stage, cij_Status = ''pending'', cij_RunnerID = None,
                cij_Script = script, cij_LogPath = [], cij_StartedAt = None, cij_FinishedAt = None\<rparr> in
      if ci_down s then (Err CiDriver, s)
      else let t = tbl_insert j (ci_jobs s) in (Ok (seq t, j), s\<lparr>ci_jobs := t\<rparr>))"

definition ListPipelines :: "ci_state \<Rightarrow> int \<Rightarrow> int \<Rightarrow> ci_error + (int \<times> ci_pipeline) list" where
  "ListPipelines s repoID limit0 =
     (let limit = (if limit0 \<le> 0 \<or> limit0 > 200 then 50 else limit0) in
      ci_query s (take (nat limit) (rev (tbl_select (\<lambda>_ p. cip_RepoID p = repoID) (ci_pipelines s)))))"

definition ListJobs :: "ci_state \<Rightarrow> int \<Rightarrow> ci_error + (int \<times> ci_job) list" where
  "ListJobs s pipelineID = ci_query s (tbl_select (\<lambda>_ j. cij_PipelineID j = pipelineID) (ci_jobs s))"

text \<open>\<open>ClaimJob\<close>: the query of the oldest pending job and its guarded update, in one transaction.\<close>

definition ci_ClaimJob :: "int \<Rightarrow> int \<Rightarrow> ci_state \<Rightarrow> (ci_error + (int \<times> ci_job) option) \<times> ci_state" where
  "ci_ClaimJob now runnerID s =
     (if ci_down s then (Err CiDriver, s)
      else case tbl_find (\<lambda>_ j. cij_Status j = ''pending'') (ci_jobs s) of
             None \<Rightarrow> (Ok None, s)
           | Some (i, j) \<Rightarrow>
               let P = (\<lambda>k x. k = i \<and> cij_Status x = ''pending'');
                   f = (\<lambda>x. x\<lparr>cij_Status := ''running'', cij_RunnerID := Some runnerID, cij_StartedAt := Some now\<rparr>)
               in if tbl_count P (ci_jobs s) = 0 then (Ok None, s)
                  else (Ok (Some (i, f j)), s\<lparr>ci_jobs := tbl_update P f (ci_jobs s)\<rparr>))"

definition ci_CompleteJob :: "int \<Rightarrow> int \<Rightarrow> string \<Rightarrow> string \<Rightarrow> ci_state \<Rightarrow> (ci_error + unit) \<times> ci_state" where
  "ci_CompleteJob now jobID status logPath =
     ci_exec (\<lambda>s. s\<lparr>ci_jobs := tbl_update (\<lambda>i _. i = jobID)
       (\<lambda>j. j\<lparr>cij_Status := status, cij_LogPath := logPath, cij_FinishedAt := Some now\<rparr>) (ci_jobs s)\<rparr>)"

text \<open>\<open>RunWith\<close>: \<open>slot\<close> says whether a place of the semaphore was free before the context ended; the job itself is
  \<open>exec\<close>, which may change the state and ends with an error or not.\<close>

definition RunWith ::
    "int \<Rightarrow> int \<Rightarrow> bool \<Rightarrow> int \<Rightarrow> (ci_state \<Rightarrow> bool \<times> ci_state) \<Rightarrow> ci_state \<Rightarrow> (ci_error + unit) \<times> ci_state" where
  "RunWith now finish slot jobID exec s =
     (if \<not> slot then (Err CiCancelled, s)
      else case ci_exec (\<lambda>s. s\<lparr>ci_jobs := tbl_update (\<lambda>i _. i = jobID)
                  (\<lambda>j. j\<lparr>cij_Status := ''running'', cij_StartedAt := Some now\<rparr>) (ci_jobs s)\<rparr>) s of
             (Err e, s1) \<Rightarrow> (Err e, s1)
           | (Ok _, s1) \<Rightarrow>
               (case exec s1 of
                  (failed, s2) \<Rightarrow>
                    (case ci_exec (\<lambda>s. s\<lparr>ci_jobs := tbl_update (\<lambda>i _. i = jobID)
                         (\<lambda>j. j\<lparr>cij_Status := (if failed then ''failed'' else ''success''), cij_FinishedAt := Some finish\<rparr>) (ci_jobs s)\<rparr>) s2 of
                       (Err e, s3) \<Rightarrow> (Err e, s3)
                     | (Ok _, s3) \<Rightarrow> (if failed then Err CiFailed else Ok (), s3))))"

section \<open>Artifacts\<close>

definition AddArtifact :: "int \<Rightarrow> string \<Rightarrow> string \<Rightarrow> int \<Rightarrow> ci_state \<Rightarrow> (ci_error + int \<times> ci_artifact) \<times> ci_state" where
  "AddArtifact jobID name storedPath n s =
     (let a = \<lparr>cia_JobID = jobID, cia_Name = name, cia_StoredPath = storedPath, cia_SizeBytes = n\<rparr> in
      if ci_down s then (Err CiDriver, s)
      else let t = tbl_insert a (ci_artifacts s) in (Ok (seq t, a), s\<lparr>ci_artifacts := t\<rparr>))"

definition ListArtifacts :: "ci_state \<Rightarrow> int \<Rightarrow> ci_error + (int \<times> ci_artifact) list" where
  "ListArtifacts s jobID = ci_query s (tbl_select (\<lambda>_ a. cia_JobID a = jobID) (ci_artifacts s))"

definition ListArtifactsByPipeline :: "ci_state \<Rightarrow> int \<Rightarrow> ci_error + (int \<times> ci_artifact) list" where
  "ListArtifactsByPipeline s pipelineID =
     ci_query s (tbl_select (\<lambda>_ a. tbl_exists (\<lambda>i j. i = cia_JobID a \<and> cij_PipelineID j = pipelineID) (ci_jobs s)) (ci_artifacts s))"

definition DeleteArtifact :: "int \<Rightarrow> ci_state \<Rightarrow> (ci_error + unit) \<times> ci_state" where
  "DeleteArtifact i = ci_exec (\<lambda>s. s\<lparr>ci_artifacts := tbl_delete (\<lambda>k _. k = i) (ci_artifacts s)\<rparr>)"

text \<open>The join from an artifact over its job to its pipeline.\<close>

definition ArtifactRepoID :: "ci_state \<Rightarrow> int \<Rightarrow> ci_error + int" where
  "ArtifactRepoID s artifactID =
     (if ci_down s then Err CiDriver
      else case tbl_by_id artifactID (ci_artifacts s) of
        None \<Rightarrow> Err CiNotFound
      | Some a \<Rightarrow>
          (case tbl_by_id (cia_JobID a) (ci_jobs s) of
             None \<Rightarrow> Err CiNotFound
           | Some j \<Rightarrow>
               (case tbl_by_id (cij_PipelineID j) (ci_pipelines s) of None \<Rightarrow> Err CiNotFound | Some p \<Rightarrow> Ok (cip_RepoID p))))"

section \<open>Caches\<close>

definition PutCache :: "int \<Rightarrow> string \<Rightarrow> string \<Rightarrow> int \<Rightarrow> ci_state \<Rightarrow> (ci_error + unit) \<times> ci_state" where
  "PutCache repoID key storedPath n s =
     (if ci_down s then (Err CiDriver, s)
      else case tbl_find (\<lambda>_ c. cic_RepoID c = repoID \<and> cic_Key c = key) (ci_caches s) of
             None \<Rightarrow> (Ok (), s\<lparr>ci_caches := tbl_insert
                        \<lparr>cic_RepoID = repoID, cic_Key = key, cic_StoredPath = storedPath, cic_SizeBytes = n\<rparr> (ci_caches s)\<rparr>)
           | Some (i, _) \<Rightarrow> (Ok (), s\<lparr>ci_caches := tbl_update (\<lambda>k _. k = i)
                        (\<lambda>c. c\<lparr>cic_StoredPath := storedPath, cic_SizeBytes := n\<rparr>) (ci_caches s)\<rparr>))"

definition GetCache :: "ci_state \<Rightarrow> int \<Rightarrow> string \<Rightarrow> ci_error + int \<times> ci_cache" where
  "GetCache s repoID key =
     (if ci_down s then Err CiDriver
      else case tbl_find (\<lambda>_ c. cic_RepoID c = repoID \<and> cic_Key c = key) (ci_caches s) of None \<Rightarrow> Err CiNotFound | Some x \<Rightarrow> Ok x)"

definition ListCache :: "ci_state \<Rightarrow> int \<Rightarrow> ci_error + (int \<times> ci_cache) list" where
  "ListCache s repoID = ci_query s (tbl_select (\<lambda>_ c. cic_RepoID c = repoID) (ci_caches s))"

definition DeleteCache :: "int \<Rightarrow> string \<Rightarrow> ci_state \<Rightarrow> (ci_error + unit) \<times> ci_state" where
  "DeleteCache repoID key =
     ci_exec (\<lambda>s. s\<lparr>ci_caches := tbl_delete (\<lambda>_ c. cic_RepoID c = repoID \<and> cic_Key c = key) (ci_caches s)\<rparr>)"

section \<open>Runners\<close>

definition hashRunnerToken :: "(string \<Rightarrow> string) \<Rightarrow> string \<Rightarrow> string" where
  "hashRunnerToken sha token = hex_encode (sha token)"

definition RegisterRunner ::
    "(string \<Rightarrow> string) \<Rightarrow> string option \<Rightarrow> string \<Rightarrow> string \<Rightarrow> ci_state \<Rightarrow> (ci_error + int \<times> string) \<times> ci_state" where
  "RegisterRunner sha rnd name tags s =
     (case rnd of
        None \<Rightarrow> (Err CiRandom, s)
      | Some buf \<Rightarrow>
          let token = ''glcr_'' @ hex_encode buf; h = hashRunnerToken sha token in
          if ci_down s then (Err CiDriver, s)
          else if tbl_exists (\<lambda>_ r. cir_TokenHash r = h) (ci_runners s) then (Err CiConstraint, s)
          else let t = tbl_insert \<lparr>cir_Name = name, cir_TokenHash = h, cir_Tags = tags, cir_Status = ''offline'', cir_LastSeen = None\<rparr>
                         (ci_runners s)
               in (Ok (seq t, token), s\<lparr>ci_runners := t\<rparr>))"

definition AuthenticateRunner :: "(string \<Rightarrow> string) \<Rightarrow> ci_state \<Rightarrow> int \<Rightarrow> string \<Rightarrow> ci_error + bool" where
  "AuthenticateRunner sha s i token =
     (if ci_down s then Err CiDriver
      else case tbl_find (\<lambda>k _. k = i) (ci_runners s) of
             None \<Rightarrow> Ok False
           | Some (_, r) \<Rightarrow> Ok (token_subtleEqual (hashRunnerToken sha token) (cir_TokenHash r)))"

definition ListRunners :: "ci_state \<Rightarrow> ci_error + (int \<times> ci_runner) list" where
  "ListRunners s = ci_query s (rows (ci_runners s))"

definition SetRunnerStatus :: "int \<Rightarrow> string \<Rightarrow> ci_state \<Rightarrow> (ci_error + unit) \<times> ci_state" where
  "SetRunnerStatus i status =
     ci_exec (\<lambda>s. s\<lparr>ci_runners := tbl_update (\<lambda>k _. k = i) (\<lambda>r. r\<lparr>cir_Status := status\<rparr>) (ci_runners s)\<rparr>)"

definition DeleteRunner :: "int \<Rightarrow> ci_state \<Rightarrow> (ci_error + unit) \<times> ci_state" where
  "DeleteRunner i = ci_exec (\<lambda>s. s\<lparr>ci_runners := tbl_delete (\<lambda>k _. k = i) (ci_runners s)\<rparr>)"

section \<open>Secrets\<close>

definition encPrefix :: string where "encPrefix = ''enc:''"

definition cis_encrypt :: "string option \<Rightarrow> aead option \<Rightarrow> string \<Rightarrow> ci_error + string" where
  "cis_encrypt rnd cipher plain =
     (case cipher of
        None \<Rightarrow> Ok plain
      | Some c \<Rightarrow> (case Encrypt rnd c plain of Err e \<Rightarrow> Err (CisCrypto e) | Ok sealed \<Rightarrow> Ok (encPrefix @ hex_encode sealed)))"

definition cis_decrypt :: "aead option \<Rightarrow> string \<Rightarrow> ci_error + string" where
  "cis_decrypt cipher stored =
     (if \<not> has_prefix stored encPrefix then Ok stored
      else case cipher of
        None \<Rightarrow> Err CisNoCipher
      | Some c \<Rightarrow>
          (case hex_decode (trim_prefix stored encPrefix) of
             None \<Rightarrow> Err CisDecode
           | Some raw \<Rightarrow> (case Decrypt c raw of Err e \<Rightarrow> Err (CisCrypto e) | Ok plain \<Rightarrow> Ok plain)))"

abbreviation is_secret :: "int \<Rightarrow> string \<Rightarrow> ci_secret \<Rightarrow> bool" where
  "is_secret repoID name r \<equiv> cis_RepoID r = repoID \<and> cis_Name r = name"

definition secret_Set :: "string option \<Rightarrow> aead option \<Rightarrow> int \<Rightarrow> string \<Rightarrow> string \<Rightarrow> ci_state \<Rightarrow> (ci_error + unit) \<times> ci_state" where
  "secret_Set rnd cipher repoID name value s =
     (if repoID \<le> 0 then (Err CisInvalidRepo, s)
      else if name = [] then (Err CisNoName, s)
      else case cis_encrypt rnd cipher value of
        Err e \<Rightarrow> (Err e, s)
      | Ok stored \<Rightarrow>
          if ci_down s then (Err CiDriver, s)
          else (case tbl_find (\<lambda>_. is_secret repoID name) (ci_secrets s) of
                  None \<Rightarrow> (Ok (), s\<lparr>ci_secrets := tbl_insert
                     \<lparr>cis_RepoID = repoID, cis_Name = name, cis_Ciphertext = stored\<rparr> (ci_secrets s)\<rparr>)
                | Some (i, _) \<Rightarrow>
                    (Ok (), s\<lparr>ci_secrets := tbl_update (\<lambda>k _. k = i) (\<lambda>r. r\<lparr>cis_Ciphertext := stored\<rparr>) (ci_secrets s)\<rparr>)))"

definition secret_List :: "ci_state \<Rightarrow> int \<Rightarrow> ci_error + string list" where
  "secret_List s repoID =
     ci_query s (sort (map (\<lambda>(_, r). cis_Name r) (tbl_select (\<lambda>_ r. cis_RepoID r = repoID) (ci_secrets s))))"

definition secret_Delete :: "int \<Rightarrow> string \<Rightarrow> ci_state \<Rightarrow> (ci_error + unit) \<times> ci_state" where
  "secret_Delete repoID name s =
     (if ci_down s then (Err CiDriver, s)
      else if tbl_count (\<lambda>_. is_secret repoID name) (ci_secrets s) = 0 then (Err CisNotFound, s)
      else (Ok (), s\<lparr>ci_secrets := tbl_delete (\<lambda>_. is_secret repoID name) (ci_secrets s)\<rparr>))"

definition secret_Get :: "aead option \<Rightarrow> ci_state \<Rightarrow> int \<Rightarrow> string \<Rightarrow> ci_error + string" where
  "secret_Get cipher s repoID name =
     (if ci_down s then Err CiDriver
      else case tbl_find (\<lambda>_. is_secret repoID name) (ci_secrets s) of
             None \<Rightarrow> Err CisNotFound | Some (_, r) \<Rightarrow> cis_decrypt cipher (cis_Ciphertext r))"

end
