(* ===== verification/CiHttp.thy ===== *)
theory CiHttp
  imports RbacHttp Ci
begin

text \<open>
  The handlers of the older CI service, \<open>handlers_ci.go\<close>, and of its secrets, in \<open>handlers_topic.go\<close>. A body
  that does not parse, or an identifier in the path, is \<^const>\<open>None\<close>. Audit records are left out.
\<close>

record works =
  wk_portal :: portal
  wk_ci :: ci_state
  wk_cipher :: "aead option"

record ci_call =
  cq_env :: http_env
  cq_call :: call
  cq_owner :: string
  cq_repo :: string

abbreviation wk_site :: "works \<Rightarrow> site" where "wk_site w \<equiv> po_site (wk_portal w)"

text \<open>What the handlers of a repository begin with.\<close>

definition ci_repo ::
    "ci_call \<Rightarrow> Perm \<Rightarrow> 'a \<Rightarrow> (repo \<Rightarrow> works \<Rightarrow> (int \<times> 'a) \<times> works) \<Rightarrow> works \<Rightarrow> (int \<times> 'a) \<times> works" where
  "ci_repo q need nothing h w =
     (case loadRepoAndPerm (he_env (cq_env q)) (ca_now (cq_call q)) (ca_visit (cq_call q)) (cq_owner q) (cq_repo q) need (wk_site w) of
        (Err code, s) \<Rightarrow> ((code, nothing), w\<lparr>wk_portal := (wk_portal w)\<lparr>po_site := s\<rparr>\<rparr>)
      | (Ok (rp, _), s) \<Rightarrow> h rp (w\<lparr>wk_portal := (wk_portal w)\<lparr>po_site := s\<rparr>\<rparr>))"

definition on_ci :: "(ci_error + 'b) \<times> ci_state \<Rightarrow> int \<Rightarrow> works \<Rightarrow> (int \<times> unit) \<times> works" where
  "on_ci x code w = ((if is_ok (fst x) then code else 500, ()), w\<lparr>wk_ci := snd x\<rparr>)"

definition ci_listed :: "ci_error + 'a list \<Rightarrow> int \<times> 'a list" where
  "ci_listed r = (case r of Err _ \<Rightarrow> (500, []) | Ok xs \<Rightarrow> (200, xs))"

section \<open>Pipelines and caches\<close>

definition handleCreatePipeline :: "ci_call \<Rightarrow> (string \<times> string) option \<Rightarrow> works \<Rightarrow> (int \<times> unit) \<times> works" where
  "handleCreatePipeline q req =
     ci_repo q PermWrite () (\<lambda>rp w.
       case req of
         None \<Rightarrow> ((400, ()), w)
       | Some (commitSHA, ref) \<Rightarrow>
           if commitSHA = [] then ((400, ()), w) else on_ci (ci_CreatePipeline (fst rp) commitSHA ref (wk_ci w)) 201 w)"

definition handleListPipelines :: "ci_call \<Rightarrow> works \<Rightarrow> (int \<times> (int \<times> ci_pipeline) list) \<times> works" where
  "handleListPipelines q = ci_repo q PermRead [] (\<lambda>rp w. (ci_listed (ListPipelines (wk_ci w) (fst rp) 0), w))"

definition handleListCache :: "ci_call \<Rightarrow> works \<Rightarrow> (int \<times> (int \<times> ci_cache) list) \<times> works" where
  "handleListCache q = ci_repo q PermRead [] (\<lambda>rp w. (ci_listed (ListCache (wk_ci w) (fst rp)), w))"

definition handleDeleteCache :: "ci_call \<Rightarrow> string \<Rightarrow> works \<Rightarrow> (int \<times> unit) \<times> works" where
  "handleDeleteCache q key =
     ci_repo q PermWrite () (\<lambda>rp w. if key = [] then ((400, ()), w) else on_ci (DeleteCache (fst rp) key (wk_ci w)) 200 w)"

section \<open>By identifier\<close>

text \<open>Reading what belongs to a pipeline: the repository is that of the pipeline, the permission that of \<open>RBAC.Check\<close>.\<close>

definition of_pipeline :: "ci_call \<Rightarrow> int option \<Rightarrow> (int \<Rightarrow> works \<Rightarrow> int \<times> 'a list) \<Rightarrow> works \<Rightarrow> (int \<times> 'a list) \<times> works" where
  "of_pipeline q idp h w =
     (case call_user (cq_call q) of
        None \<Rightarrow> ((401, []), w)
      | Some u \<Rightarrow>
          (case idp of
             None \<Rightarrow> ((400, []), w)
           | Some i \<Rightarrow>
               (case PipelineRepoID (wk_ci w) i of
                  Err _ \<Rightarrow> ((404, []), w)
                | Ok repoID \<Rightarrow>
                    (case rbac_check (cq_call q) u (repo_requirement ''actions'' ''read'' repoID) (wk_portal w) of
                       (ok, p1) \<Rightarrow>
                         let w1 = w\<lparr>wk_portal := p1\<rparr> in if \<not> ok then ((403, []), w1) else (h i w1, w1)))))"

definition handleListPipelineArtifacts :: "ci_call \<Rightarrow> int option \<Rightarrow> works \<Rightarrow> (int \<times> (int \<times> ci_artifact) list) \<times> works" where
  "handleListPipelineArtifacts q idp = of_pipeline q idp (\<lambda>i w. ci_listed (ListArtifactsByPipeline (wk_ci w) i))"

definition handleListPipelineJobs :: "ci_call \<Rightarrow> int option \<Rightarrow> works \<Rightarrow> (int \<times> (int \<times> ci_job) list) \<times> works" where
  "handleListPipelineJobs q idp = of_pipeline q idp (\<lambda>i w. ci_listed (ListJobs (wk_ci w) i))"

definition handleDeleteArtifact :: "ci_call \<Rightarrow> int option \<Rightarrow> works \<Rightarrow> (int \<times> unit) \<times> works" where
  "handleDeleteArtifact q idp w =
     (case call_user (cq_call q) of
        None \<Rightarrow> ((401, ()), w)
      | Some u \<Rightarrow>
          (case idp of
             None \<Rightarrow> ((400, ()), w)
           | Some i \<Rightarrow>
               (case ArtifactRepoID (wk_ci w) i of
                  Err _ \<Rightarrow> ((404, ()), w)
                | Ok repoID \<Rightarrow>
                    (case repo_ByID (si_users (wk_site w)) (si_repos (wk_site w)) repoID of
                       Inl _ \<Rightarrow> ((404, ()), w)
                     | Inr rp \<Rightarrow>
                         (case caller_perm (wk_site w) rp (Some u) of
                            Inl _ \<Rightarrow> ((500, ()), w)
                          | Inr pm \<Rightarrow>
                              if pm < PermWrite then ((403, ()), w)
                              else on_ci (DeleteArtifact i (wk_ci w)) 200 w)))))"

section \<open>Runners\<close>

definition ci_admin :: "ci_call \<Rightarrow> 'a \<Rightarrow> (works \<Rightarrow> (int \<times> 'a) \<times> works) \<Rightarrow> works \<Rightarrow> (int \<times> 'a) \<times> works" where
  "ci_admin q nothing h w = (case requireAdmin (call_user (cq_call q)) of Some code \<Rightarrow> ((code, nothing), w) | None \<Rightarrow> h w)"

text \<open>The body is read only when the request has one; \<open>\<^const>\<open>None\<close>\<close> is one that does not parse.\<close>

definition handleCreateCIRunner ::
    "(string \<Rightarrow> string) \<Rightarrow> string option \<Rightarrow> ci_call \<Rightarrow> int \<Rightarrow> (string \<times> string) option \<Rightarrow> works \<Rightarrow> (int \<times> unit) \<times> works" where
  "handleCreateCIRunner sha rnd q contentLength req =
     ci_admin q () (\<lambda>w.
       case (if contentLength > 0 then req else Some ([], [])) of
         None \<Rightarrow> ((400, ()), w)
       | Some (name, tags) \<Rightarrow> on_ci (RegisterRunner sha rnd name tags (wk_ci w)) 201 w)"

definition handleListCIRunners :: "ci_call \<Rightarrow> works \<Rightarrow> (int \<times> (int \<times> ci_runner) list) \<times> works" where
  "handleListCIRunners q = ci_admin q [] (\<lambda>w. (ci_listed (ListRunners (wk_ci w)), w))"

definition handleUpdateCIRunner :: "ci_call \<Rightarrow> int option \<Rightarrow> string option \<Rightarrow> works \<Rightarrow> (int \<times> unit) \<times> works" where
  "handleUpdateCIRunner q idp req =
     ci_admin q () (\<lambda>w.
       case idp of
         None \<Rightarrow> ((400, ()), w)
       | Some i \<Rightarrow> (case req of None \<Rightarrow> ((400, ()), w) | Some status \<Rightarrow> on_ci (SetRunnerStatus i status (wk_ci w)) 200 w))"

definition handleDeleteCIRunner :: "ci_call \<Rightarrow> int option \<Rightarrow> works \<Rightarrow> (int \<times> unit) \<times> works" where
  "handleDeleteCIRunner q idp =
     ci_admin q () (\<lambda>w. case idp of None \<Rightarrow> ((400, ()), w) | Some i \<Rightarrow> on_ci (DeleteRunner i (wk_ci w)) 200 w)"

section \<open>Secrets\<close>

definition handleListCISecrets :: "ci_call \<Rightarrow> works \<Rightarrow> (int \<times> string list) \<times> works" where
  "handleListCISecrets q = ci_repo q PermAdmin [] (\<lambda>rp w. (ci_listed (secret_List (wk_ci w) (fst rp)), w))"

definition handleSetCISecret :: "string option \<Rightarrow> ci_call \<Rightarrow> (string \<times> string) option \<Rightarrow> works \<Rightarrow> (int \<times> unit) \<times> works" where
  "handleSetCISecret rnd q req =
     ci_repo q PermAdmin () (\<lambda>rp w.
       case req of
         None \<Rightarrow> ((400, ()), w)
       | Some (name, value) \<Rightarrow>
           (case secret_Set rnd (wk_cipher w) (fst rp) name value (wk_ci w) of
              (r, s) \<Rightarrow> ((if is_ok r then 200 else 400, ()), w\<lparr>wk_ci := s\<rparr>)))"

definition handleDeleteCISecret :: "ci_call \<Rightarrow> string \<Rightarrow> works \<Rightarrow> (int \<times> unit) \<times> works" where
  "handleDeleteCISecret q name =
     ci_repo q PermAdmin () (\<lambda>rp w.
       case secret_Delete (fst rp) name (wk_ci w) of
         (Ok _, s) \<Rightarrow> ((200, ()), w\<lparr>wk_ci := s\<rparr>)
       | (Err e, s) \<Rightarrow> ((if e = CisNotFound then 404 else 500, ()), w\<lparr>wk_ci := s\<rparr>))"

end
