(* ===== verification/CiClaims.thy ===== *)
theory CiClaims
  imports CiHttp RepoClaims
begin

text \<open>
  What holds of CI: secrets come back as they were stored, until they are stored again or deleted, and are stored sealed; a
  job is claimed once; artifacts go only with the permission to write.
\<close>

section \<open>Secrets\<close>

datatype secret_op = SetSecret "string option" "aead option" int string string | DeleteSecret int string

primrec secret_step :: "secret_op \<Rightarrow> ci_state \<Rightarrow> ci_state" where
  "secret_step (SetSecret rnd cipher repoID name value) s = snd (secret_Set rnd cipher repoID name value s)"
| "secret_step (DeleteSecret repoID name) s = snd (secret_Delete repoID name s)"

primrec touches :: "int \<Rightarrow> string \<Rightarrow> secret_op \<Rightarrow> bool" where
  "touches r n (SetSecret rnd cipher repoID name value) \<longleftrightarrow> repoID = r \<and> name = n"
| "touches r n (DeleteSecret repoID name) \<longleftrightarrow> repoID = r \<and> name = n"

definition holds :: "int \<Rightarrow> string \<Rightarrow> string \<Rightarrow> ci_state \<Rightarrow> bool" where
  "holds repoID name ct s \<longleftrightarrow>
     tbl_wf (ci_secrets s) \<and>
     (\<exists>i r. tbl_find (\<lambda>_. is_secret repoID name) (ci_secrets s) = Some (i, r) \<and> cis_Ciphertext r = ct)"

lemma find_insert_old: "tbl_find P t = Some x \<Longrightarrow> tbl_find P (tbl_insert r t) = Some x"
proof -
  have "List.find Q xs = Some x \<Longrightarrow> List.find Q (xs @ ys) = Some x" for Q :: "int \<times> 'a \<Rightarrow> bool" and xs ys
    by (induction xs) auto
  then show "tbl_find P t = Some x \<Longrightarrow> tbl_find P (tbl_insert r t) = Some x" by (simp add: tbl_find_def)
qed

lemma secret_wf: "tbl_wf (ci_secrets s) \<Longrightarrow> tbl_wf (ci_secrets (secret_step opn s))"
  by (cases opn) (auto simp: secret_Set_def secret_Delete_def tbl_wf_insert tbl_wf_update tbl_wf_delete
      split: sum.split option.split)

lemma Set_holds:
  assumes wf: "tbl_wf (ci_secrets s)" and ok: "fst (secret_Set rnd cipher repoID name value s) = Ok ()"
  shows "\<exists>ct. cis_encrypt rnd cipher value = Ok ct \<and> holds repoID name ct (snd (secret_Set rnd cipher repoID name value s))"
proof -
  obtain ct where st: "cis_encrypt rnd cipher value = Ok ct"
    using ok by (auto simp: secret_Set_def split: if_splits sum.splits)
  have g: "0 < repoID" "name \<noteq> []" "\<not> ci_down s" using ok by (auto simp: secret_Set_def st split: if_splits)
  have wf': "tbl_wf (ci_secrets (snd (secret_Set rnd cipher repoID name value s)))"
    using secret_wf [OF wf, of "SetSecret rnd cipher repoID name value"] by simp
  show ?thesis
  proof (cases "tbl_find (\<lambda>_. is_secret repoID name) (ci_secrets s)")
    case None
    then have "\<not> tbl_exists (\<lambda>_. is_secret repoID name) (ci_secrets s)" using tbl_find_exists by blast
    then show ?thesis using wf' st g None by (simp add: secret_Set_def holds_def find_first_new)
  next
    case (Some x)
    obtain i r where x: "x = (i, r)" by fastforce
    show ?thesis
      using wf' st g find_update [where P = "is_secret repoID name" and f = "\<lambda>r. r\<lparr>cis_Ciphertext := ct\<rparr>" and Q = "\<lambda>k _. k = i", OF Some [unfolded x]]
      by (simp add: secret_Set_def Some x holds_def)
  qed
qed

lemma step_holds:
  assumes h: "holds repoID name ct s" and "\<not> touches repoID name opn"
  shows "holds repoID name ct (secret_step opn s)"
proof -
  obtain i r where f: "tbl_find (\<lambda>_. is_secret repoID name) (ci_secrets s) = Some (i, r)" "cis_Ciphertext r = ct"
    and wf: "tbl_wf (ci_secrets s)" using h by (auto simp: holds_def)
  have ir: "(i, r) \<in> set (rows (ci_secrets s))" "is_secret repoID name r" using tbl_find_Some [OF f(1)] by simp_all
  have wf': "tbl_wf (ci_secrets (secret_step opn s))" using secret_wf [OF wf] .
  show ?thesis
  proof (cases opn)
    case (DeleteSecret repoID' name')
    then have other: "\<not> is_secret repoID' name' r" using assms(2) ir by auto
    show ?thesis using wf' wf f find_delete [where Q = "\<lambda>_. is_secret repoID' name'", OF f(1) other]
      by (auto simp: DeleteSecret secret_Delete_def holds_def)
  next
    case (SetSecret rnd cipher repoID' name' v)
    have no: "\<not> (repoID' = repoID \<and> name' = name)" using assms(2) SetSecret by simp
    have upd: "tbl_find (\<lambda>_. is_secret repoID name) (tbl_update (\<lambda>k _. k = j) (\<lambda>r. r\<lparr>cis_Ciphertext := c\<rparr>) (ci_secrets s)) = Some (i, r)"
      if "tbl_find (\<lambda>_. is_secret repoID' name') (ci_secrets s) = Some (j, q)" for j q c
    proof -
      have "(j, q) \<in> set (rows (ci_secrets s))" "is_secret repoID' name' q" using tbl_find_Some [OF that] by simp_all
      then have "i \<noteq> j" using tbl_wf_id_unique [OF wf ir(1)] ir(2) no by auto
      then show ?thesis
        using find_update [where P = "is_secret repoID name" and f = "\<lambda>r. r\<lparr>cis_Ciphertext := c\<rparr>" and Q = "\<lambda>k _. k = j", OF f(1)] by simp
    qed
    show ?thesis using wf' wf f upd find_insert_old [OF f(1)]
      by (auto simp: SetSecret secret_Set_def holds_def split: sum.split option.split)
  qed
qed

lemma run_holds: "holds repoID name ct s \<Longrightarrow> \<forall>opn \<in> set ops. \<not> touches repoID name opn \<Longrightarrow> holds repoID name ct (fold secret_step ops s)"
  by (induction ops arbitrary: s) (simp_all add: step_holds)

lemma decrypt_own:
  assumes "cis_encrypt rnd cipher value = Ok ct"
    and "case cipher of None \<Rightarrow> \<not> has_prefix value encPrefix
      | Some c \<Rightarrow> aead_ok c \<and> (\<exists>nonce. rnd = Some nonce \<and> length nonce = ad_nonceSize c)"
  shows "cis_decrypt cipher ct = Ok value"
proof (cases cipher)
  case None
  then show ?thesis using assms by (simp add: cis_encrypt_def cis_decrypt_def)
next
  case (Some c)
  then obtain nonce where n: "rnd = Some nonce" "length nonce = ad_nonceSize c" and c: "aead_ok c" using assms(2) by auto
  obtain sealed where e: "Encrypt rnd c value = Ok sealed" "ct = encPrefix @ hex_encode sealed"
    using assms(1) Some by (auto simp: cis_encrypt_def split: sum.splits)
  have "has_prefix ct encPrefix" by (simp add: e(2) has_prefix_iff)
  then show ?thesis using decrypt_encrypt [OF c n(2) e(1) [unfolded n(1)]] Some by (simp add: cis_decrypt_def e(2) hex_roundtrip)
qed

text \<open>A value that looks sealed is lost when it is stored without a cipher.\<close>

lemma plain_enc_lost:
  assumes "tbl_wf (ci_secrets s)" and "\<not> ci_down s" and "0 < repoID" and "name \<noteq> []"
  shows "fst (secret_Set rnd None repoID name (encPrefix @ v) s) = Ok ()"
    and "secret_Get None (snd (secret_Set rnd None repoID name (encPrefix @ v) s)) repoID name = Err CisNoCipher"
proof -
  show ok: "fst (secret_Set rnd None repoID name (encPrefix @ v) s) = Ok ()"
    using assms by (simp add: secret_Set_def cis_encrypt_def split: option.split prod.split)
  have "holds repoID name (encPrefix @ v) (snd (secret_Set rnd None repoID name (encPrefix @ v) s))"
    using Set_holds [OF assms(1) ok] by (simp add: cis_encrypt_def)
  moreover have "\<not> ci_down (snd (secret_Set rnd None repoID name (encPrefix @ v) s))"
    using assms by (simp add: secret_Set_def cis_encrypt_def split: option.split prod.split)
  ultimately show "secret_Get None (snd (secret_Set rnd None repoID name (encPrefix @ v) s)) repoID name = Err CisNoCipher"
    by (auto simp: secret_Get_def holds_def cis_decrypt_def has_prefix_iff)
qed

section \<open>Jobs and artifacts\<close>

text \<open>A pending job is handed out once: the update is guarded by the status.\<close>

lemma claim_once:
  assumes "tbl_wf (ci_jobs s)" and "ci_ClaimJob now r s = (Ok (Some (i, j)), s1)"
  shows "tbl_find (\<lambda>k _. k = i) (ci_jobs s1) = Some (i, j)" and "cij_Status j = ''running''" and "cij_RunnerID j = Some r"
proof -
  obtain j0 where f: "tbl_find (\<lambda>_ j. cij_Status j = ''pending'') (ci_jobs s) = Some (i, j0)"
    and j: "j = j0\<lparr>cij_Status := ''running'', cij_RunnerID := Some r, cij_StartedAt := Some now\<rparr>"
    and s1: "ci_jobs s1 = tbl_update (\<lambda>k x. k = i \<and> cij_Status x = ''pending'')
      (\<lambda>x. x\<lparr>cij_Status := ''running'', cij_RunnerID := Some r, cij_StartedAt := Some now\<rparr>) (ci_jobs s)"
    using assms(2) by (auto simp: ci_ClaimJob_def Let_def split: if_splits option.splits)
  have "(i, j0) \<in> set (rows (ci_jobs s))" "cij_Status j0 = ''pending''" using tbl_find_Some [OF f] by simp_all
  then have "(i, j) \<in> set (rows (ci_jobs s1))" using j s1 by (auto simp: set_rows_update)
  moreover have "tbl_wf (ci_jobs s1)" using assms(1) s1 by (simp add: tbl_wf_update)
  ultimately show "tbl_find (\<lambda>k _. k = i) (ci_jobs s1) = Some (i, j)" by (simp add: tbl_by_id_find)
  show "cij_Status j = ''running''" "cij_RunnerID j = Some r" using j by simp_all
qed

text \<open>Artifacts go with the permission to write to their repository only.\<close>

lemma artifact_deletion_guarded:
  assumes "handleDeleteArtifact q (Some i) w = ((200, ()), w')"
  shows "\<exists>u rp. call_user (cq_call q) = Some u \<and> ArtifactRepoID (wk_ci w) i = Ok (fst rp) \<and>
    granted (si_repos (wk_site w)) rp u PermWrite"
proof -
  obtain u rid rp pm where u: "call_user (cq_call q) = Some u" and a: "ArtifactRepoID (wk_ci w) i = Ok rid"
    and rp: "repo_ByID (si_users (wk_site w)) (si_repos (wk_site w)) rid = Ok rp"
    and p: "caller_perm (wk_site w) rp (Some u) = Ok pm" "\<not> pm < PermWrite"
    using assms by (auto simp: handleDeleteArtifact_def split: option.splits sum.splits if_splits)
  have "fst rp = rid" using repo_scanOne_Ok(2) [OF rp [unfolded repo_ByID_def]] .
  moreover have "\<exists>x. Some u = Some x \<and> granted (si_repos (wk_site w)) rp x PermWrite"
    by (rule caller_granted [OF p(1)]) (use p(2) in \<open>simp_all add: not_less\<close>)
  ultimately show ?thesis using u a by blast
qed

text \<open>The reads by identifier ask the roles only: who owns the repository is refused when no role gives him \<open>actions:read\<close>.\<close>

lemma pipeline_owner_refused:
  assumes "call_user (cq_call q) = Some u" and "\<not> u_IsAdmin (snd u)" and "PipelineRepoID (wk_ci w) i = Ok rid"
    and inv: "service_inv (po_rbac (wk_portal w))"
    and none: "evaluate (rb_db (po_rbac (wk_portal w))) (fst u) (repo_requirement ''actions'' ''read'' rid) \<noteq> Ok True"
  shows "fst (handleListPipelineJobs q (Some i) w) = (403, [])"
proof -
  have wf: "wf_req (repo_requirement ''actions'' ''read'' rid)" by (simp add: wf_req_def repo_requirement_def)
  obtain ok p1 where k: "rbac_check (cq_call q) u (repo_requirement ''actions'' ''read'' rid) (wk_portal w) = (ok, p1)" by fastforce
  have "\<not> ok"
    using Check_answer [OF inv wf, of "ca_order (cq_call q)" "ca_now (cq_call q)" "fst u" "u_IsAdmin (snd u)"] k assms(2) none
    by (simp add: rbac_check_def split: prod.splits)
  then show ?thesis using assms(1,3) k by (simp add: handleListPipelineJobs_def of_pipeline_def)
qed

section \<open>Claims\<close>

text \<open>C34: A secret of a repository comes back as it was stored: after \<open>Set\<close> was answered without an error, and whatever is set or
  deleted under other names and in other repositories with whatever ciphers, \<open>Get\<close> returns the value. With a cipher the
  table holds the sealed text only, never the value in the clear; without one the value must not begin
  with the mark of sealed values.\<close>

theorem ci_secret_roundtrip:
  assumes wf: "tbl_wf (ci_secrets s)" and ok: "secret_Set rnd cipher repoID name v s = (Ok (), s1)"
    and cipher: "case cipher of None \<Rightarrow> \<not> has_prefix v encPrefix
      | Some c \<Rightarrow> aead_ok c \<and> (\<exists>nonce. rnd = Some nonce \<and> length nonce = ad_nonceSize c)"
    and others: "\<forall>opn \<in> set ops. \<not> touches repoID name opn"
  shows "secret_Get cipher (fold secret_step ops s1) repoID name = Ok v \<and>
    (\<forall>c nonce. cipher = Some c \<and> rnd = Some nonce \<longrightarrow>
       (\<exists>i r. tbl_find (\<lambda>_. is_secret repoID name) (ci_secrets (fold secret_step ops s1)) = Some (i, r) \<and>
          cis_Ciphertext r = encPrefix @ hex_encode (nonce @ ad_seal c nonce v)))"
proof -
  obtain ct where ct: "cis_encrypt rnd cipher v = Ok ct" "holds repoID name ct s1"
    using Set_holds [OF wf, of rnd cipher repoID name v] ok by auto
  have h: "holds repoID name ct (fold secret_step ops s1)" using run_holds [OF ct(2) others] .
  have "\<not> ci_down s1" using ok by (auto simp: secret_Set_def split: if_splits sum.splits option.splits prod.splits)
  moreover have "ci_down (fold secret_step ops x) = ci_down x" for x
  proof (induction ops arbitrary: x)
    case (Cons opn ops)
    have "ci_down (secret_step opn x) = ci_down x"
      by (cases opn) (simp_all add: secret_Set_def secret_Delete_def split: sum.split option.split prod.split)
    then show ?case using Cons by simp
  qed simp
  ultimately have up: "\<not> ci_down (fold secret_step ops s1)" by simp
  have "secret_Get cipher (fold secret_step ops s1) repoID name = Ok v"
    using h up decrypt_own [OF ct(1) cipher] by (auto simp: secret_Get_def holds_def)
  moreover have "ct = encPrefix @ hex_encode (nonce @ ad_seal c nonce v)" if "cipher = Some c" "rnd = Some nonce" for c nonce
    using ct(1) that by (simp add: cis_encrypt_def Encrypt_def)
  ultimately show ?thesis using h unfolding holds_def by blast
qed

text \<open>A toy AEAD that adds its nonce to the text.\<close>

definition toy_aead :: aead where
  "toy_aead = \<lparr>ad_nonceSize = 1, ad_seal = (\<lambda>n p. n @ p), ad_open = (\<lambda>n c. if take 1 c = n then Some (drop 1 c) else None)\<rparr>"

definition no_ci :: ci_state where
  "no_ci = \<lparr>ci_pipelines = empty_table, ci_jobs = empty_table, ci_artifacts = empty_table, ci_caches = empty_table,
     ci_runners = empty_table, ci_secrets = empty_table, ci_down = False\<rparr>"

theorem ci_secret_roundtrip_witness:
  "secret_Get (Some toy_aead) (fold secret_step [DeleteSecret 2 ''KEY'', SetSecret None None 1 ''OTHER'' ''x'']
     (snd (secret_Set (Some ''n'') (Some toy_aead) 1 ''KEY'' ''s3cret'' no_ci))) 1 ''KEY'' = Ok ''s3cret''"
proof -
  obtain s1 where s1: "secret_Set (Some ''n'') (Some toy_aead) 1 ''KEY'' ''s3cret'' no_ci = (Ok (), s1)"
    by (simp add: secret_Set_def cis_encrypt_def Encrypt_def no_ci_def tbl_find_def)
  have c: "case Some toy_aead of None \<Rightarrow> \<not> has_prefix ''s3cret'' encPrefix
      | Some c \<Rightarrow> aead_ok c \<and> (\<exists>nonce. Some ''n'' = Some nonce \<and> length nonce = ad_nonceSize c)"
    by (simp add: aead_ok_def toy_aead_def)
  have wf: "tbl_wf (ci_secrets no_ci)" by (simp add: no_ci_def)
  show ?thesis
    using ci_secret_roundtrip [OF wf s1 c, of "[DeleteSecret 2 ''KEY'', SetSecret None None 1 ''OTHER'' ''x'']"] s1 by simp
qed

end
