(* ===== verification/Desk.thy ===== *)
theory Desk
  imports RepoHttp Owned Social PathRules
begin

text \<open>
  What people keep and share in small, over HTTP: the handlers of saved replies (\<open>handlers_savedreply.go\<close>),
  webhooks of an account (\<open>handlers_userwebhook.go\<close>), reactions and subscriptions (\<open>handlers_reaction.go\<close>), blocks,
  notification preferences and the policy for second factors of an organization (\<open>handlers_prefs.go\<close>), profiles and
  follows (\<open>handlers_profile.go\<close>), deploy keys (\<open>handlers_deploykey.go\<close>) and path permissions (\<open>handlers_pathperm.go\<close>); and the two
  services \<open>internal/service/notifpref\<close> and \<open>internal/service/org2fa\<close>.

  \<open>desk\<close> is the site with the tables of these services. A body that does not parse, or an identifier in the
  path, is \<^const>\<open>None\<close>. Handlers that change something answer with the status code; audit records are left out.
\<close>

section \<open>Preferences and policies\<close>

type_synonym pref = "int \<times> string \<times> string"
type_synonym policy = "int \<times> bool"

definition pref_Get :: "pref sql \<Rightarrow> int \<Rightarrow> string \<Rightarrow> unit + string option" where
  "pref_Get s userID key =
     (if down s then Err ()
      else Ok (map_option (\<lambda>(_, r). snd (snd r)) (tbl_find (\<lambda>_ r. fst r = userID \<and> fst (snd r) = key) (tab s))))"

definition pref_Delete :: "int \<Rightarrow> string \<Rightarrow> pref sql \<Rightarrow> (unit + unit) \<times> pref sql" where
  "pref_Delete userID key s =
     (if down s then (Err (), s)
      else (Ok (), s\<lparr>tab := tbl_delete (\<lambda>_ r. fst r = userID \<and> fst (snd r) = key) (tab s)\<rparr>))"

definition pref_Set :: "int \<Rightarrow> string \<Rightarrow> string \<Rightarrow> pref sql \<Rightarrow> (unit + unit) \<times> pref sql" where
  "pref_Set userID key v s =
     (case pref_Delete userID key s of
        (Err e, s1) \<Rightarrow> (Err e, s1)
      | (Ok _, s1) \<Rightarrow> if down s1 then (Err (), s1) else (Ok (), s1\<lparr>tab := tbl_insert (userID, key, v) (tab s1)\<rparr>))"

text \<open>The map that \<open>All\<close> builds: of two rows with one key the later wins.\<close>

definition pref_All :: "pref sql \<Rightarrow> int \<Rightarrow> unit + (string \<Rightarrow> string option)" where
  "pref_All s userID =
     (if down s then Err ()
      else Ok (fold (\<lambda>(_, r) m. m(fst (snd r) \<mapsto> snd (snd r))) (tbl_select (\<lambda>_ r. fst r = userID) (tab s)) (\<lambda>_. None)))"

definition policy_Set :: "int \<Rightarrow> bool \<Rightarrow> policy sql \<Rightarrow> (unit + unit) \<times> policy sql" where
  "policy_Set orgID required s =
     (if down s then (Err (), s)
      else (Ok (), s\<lparr>tab := tbl_insert (orgID, required) (tbl_delete (\<lambda>_ r. fst r = orgID) (tab s))\<rparr>))"

definition policy_Get :: "policy sql \<Rightarrow> int \<Rightarrow> unit + bool" where
  "policy_Get s orgID =
     (if down s then Err ()
      else Ok (case tbl_find (\<lambda>_ r. fst r = orgID) (tab s) of None \<Rightarrow> False | Some (_, r) \<Rightarrow> snd r))"

section \<open>Requests\<close>

record desk =
  de_site :: site
  de_replies :: "reply sql"
  de_hooks :: "user_hook sql"
  de_keys :: "deploy_key sql"
  de_paths :: "path_rule sql"
  de_reactions :: "reaction sql"
  de_subs :: "sub_key sql"
  de_blocks :: "(int \<times> int) sql"
  de_follows :: "(int \<times> int) sql"
  de_prefs :: "pref sql"
  de_policies :: "policy sql"

record desk_request =
  dr_env :: env
  dr_now :: int
  dr_visit :: visit
  dr_owner :: string
  dr_repo :: string
  dr_validate :: "string \<Rightarrow> bool \<Rightarrow> sec_error + unit"
  dr_fingerprint :: "string \<Rightarrow> string option"

abbreviation dr_user :: "desk_request \<Rightarrow> user option" where "dr_user q \<equiv> UserFrom (vi_ctx (dr_visit q))"
abbreviation de_users :: "desk \<Rightarrow> user_store" where "de_users d \<equiv> si_users (de_site d)"

text \<open>The account of a request, or 401.\<close>

definition as_user :: "desk_request \<Rightarrow> (int \<Rightarrow> desk \<Rightarrow> int \<times> desk) \<Rightarrow> desk \<Rightarrow> int \<times> desk" where
  "as_user q h d = (case dr_user q of None \<Rightarrow> (401, d) | Some u \<Rightarrow> h (fst u) d)"

definition as_repo_admin :: "desk_request \<Rightarrow> (int \<Rightarrow> desk \<Rightarrow> int \<times> desk) \<Rightarrow> desk \<Rightarrow> int \<times> desk" where
  "as_repo_admin q h d =
     (case loadRepoAndPerm (dr_env q) (dr_now q) (dr_visit q) (dr_owner q) (dr_repo q) PermAdmin (de_site d) of
        (Err code, s) \<Rightarrow> (code, d\<lparr>de_site := s\<rparr>)
      | (Ok (rp, _), s) \<Rightarrow> h (fst rp) (d\<lparr>de_site := s\<rparr>))"

text \<open>A result, a code for success, a code for each error.\<close>

definition answer :: "int \<Rightarrow> ('e \<Rightarrow> int) \<Rightarrow> 'e + 'a \<Rightarrow> int" where
  "answer code fail r = (case r of Err e \<Rightarrow> fail e | Ok _ \<Rightarrow> code)"

definition not_found_or :: "owned_error \<Rightarrow> int" where
  "not_found_or e = (if e = OwnedNotFound then 404 else 500)"

section \<open>Saved replies and webhooks\<close>

definition handleListSavedReplies :: "desk_request \<Rightarrow> desk \<Rightarrow> int + (int \<times> reply) list" where
  "handleListSavedReplies q d =
     (case dr_user q of None \<Rightarrow> Err 401
      | Some u \<Rightarrow> (case reply_List (de_replies d) (fst u) of Err _ \<Rightarrow> Err 500 | Ok rs \<Rightarrow> Ok rs))"

definition handleCreateSavedReply :: "desk_request \<Rightarrow> (string \<times> string) option \<Rightarrow> desk \<Rightarrow> int \<times> desk" where
  "handleCreateSavedReply q req =
     as_user q (\<lambda>u d. case req of
         None \<Rightarrow> (400, d)
       | Some (title, body) \<Rightarrow>
           (case reply_Create u title body (de_replies d) of (r, s) \<Rightarrow> (answer 201 (\<lambda>_. 400) r, d\<lparr>de_replies := s\<rparr>)))"

definition handleUpdateSavedReply :: "desk_request \<Rightarrow> int option \<Rightarrow> (string \<times> string) option \<Rightarrow> desk \<Rightarrow> int \<times> desk" where
  "handleUpdateSavedReply q idp req =
     as_user q (\<lambda>u d. case idp of
         None \<Rightarrow> (400, d)
       | Some i \<Rightarrow>
           (case req of
              None \<Rightarrow> (400, d)
            | Some (title, body) \<Rightarrow>
                (case reply_Update u i title body (de_replies d) of
                   (r, s) \<Rightarrow> (answer 200 (\<lambda>_. 404) r, d\<lparr>de_replies := s\<rparr>))))"

definition handleDeleteSavedReply :: "desk_request \<Rightarrow> int option \<Rightarrow> desk \<Rightarrow> int \<times> desk" where
  "handleDeleteSavedReply q idp =
     as_user q (\<lambda>u d. case idp of
         None \<Rightarrow> (400, d)
       | Some i \<Rightarrow> (case reply_Delete u i (de_replies d) of (r, s) \<Rightarrow> (answer 200 (\<lambda>_. 500) r, d\<lparr>de_replies := s\<rparr>)))"

definition handleCreateUserWebhook :: "desk_request \<Rightarrow> (string \<times> string \<times> string list) option \<Rightarrow> desk \<Rightarrow> int \<times> desk" where
  "handleCreateUserWebhook q req =
     as_user q (\<lambda>u d. case req of
         None \<Rightarrow> (400, d)
       | Some (url, secret, events) \<Rightarrow>
           (case hook_Create (dr_validate q) u url secret events (de_hooks d) of
              (r, s) \<Rightarrow> (answer 201 (\<lambda>_. 400) r, d\<lparr>de_hooks := s\<rparr>)))"

definition handleListUserWebhooks :: "desk_request \<Rightarrow> desk \<Rightarrow> int + hook_view list" where
  "handleListUserWebhooks q d =
     (case dr_user q of None \<Rightarrow> Err 401
      | Some u \<Rightarrow> (case hook_List (de_hooks d) (fst u) of Err _ \<Rightarrow> Err 500 | Ok hs \<Rightarrow> Ok (map (\<lambda>h. h\<lparr>hk_Secret := []\<rparr>) hs)))"

definition handleDeleteUserWebhook :: "desk_request \<Rightarrow> int option \<Rightarrow> desk \<Rightarrow> int \<times> desk" where
  "handleDeleteUserWebhook q idp =
     as_user q (\<lambda>u d. case idp of
         None \<Rightarrow> (400, d)
       | Some i \<Rightarrow> (case hook_Delete u i (de_hooks d) of (r, s) \<Rightarrow> (answer 200 not_found_or r, d\<lparr>de_hooks := s\<rparr>)))"

definition handleUpdateUserWebhook :: "desk_request \<Rightarrow> int option \<Rightarrow> bool option \<Rightarrow> desk \<Rightarrow> int \<times> desk" where
  "handleUpdateUserWebhook q idp req =
     as_user q (\<lambda>u d. case idp of
         None \<Rightarrow> (400, d)
       | Some i \<Rightarrow>
           (case req of
              None \<Rightarrow> (400, d)
            | Some active \<Rightarrow> (case SetActive u i active (de_hooks d) of (r, s) \<Rightarrow> (answer 200 not_found_or r, d\<lparr>de_hooks := s\<rparr>))))"

section \<open>Reactions and subscriptions\<close>

text \<open>The target of a reaction or subscription is a type and a number; neither handler looks at what it names.\<close>

definition handleAddReaction :: "desk_request \<Rightarrow> (string \<times> int \<times> string) option \<Rightarrow> desk \<Rightarrow> int \<times> desk" where
  "handleAddReaction q req =
     as_user q (\<lambda>u d. case req of
         None \<Rightarrow> (400, d)
       | Some (ty, i, emoji) \<Rightarrow>
           (case reaction_Add \<lparr>re_user = u, re_type = ty, re_target = i, re_emoji = emoji\<rparr> (de_reactions d) of
              (r, s) \<Rightarrow> (answer 200 (\<lambda>_. 400) r, d\<lparr>de_reactions := s\<rparr>)))"

definition handleRemoveReaction :: "desk_request \<Rightarrow> (string \<times> int \<times> string) option \<Rightarrow> desk \<Rightarrow> int \<times> desk" where
  "handleRemoveReaction q req =
     as_user q (\<lambda>u d. case req of
         None \<Rightarrow> (400, d)
       | Some (ty, i, emoji) \<Rightarrow>
           (case reaction_Remove \<lparr>re_user = u, re_type = ty, re_target = i, re_emoji = emoji\<rparr> (de_reactions d) of
              (r, s) \<Rightarrow> (answer 200 (\<lambda>_. 400) r, d\<lparr>de_reactions := s\<rparr>)))"

text \<open>The counts by emoji, and the reactions of the caller when there is one.\<close>

definition handleListReactions ::
  "desk_request \<Rightarrow> string \<Rightarrow> int option \<Rightarrow> desk \<Rightarrow> int + (string \<times> nat) list \<times> string list option" where
  "handleListReactions q ty target d =
     (case target of None \<Rightarrow> Err 400
      | Some i \<Rightarrow>
          (case reaction_List (de_reactions d) ty i of
             Inl _ \<Rightarrow> Err 500
           | Inr counts \<Rightarrow>
               (case dr_user q of
                  None \<Rightarrow> Ok (counts, None)
                | Some u \<Rightarrow>
                    (case reaction_ListByUser (de_reactions d) (fst u) ty i of
                       Inl _ \<Rightarrow> Err 500 | Inr mine \<Rightarrow> Ok (counts, Some mine)))))"

definition handleSubscribe :: "desk_request \<Rightarrow> (string \<times> int) option \<Rightarrow> desk \<Rightarrow> int \<times> desk" where
  "handleSubscribe q req =
     as_user q (\<lambda>u d. case req of
         None \<Rightarrow> (400, d)
       | Some k \<Rightarrow> (case Subscribe (u, k) (de_subs d) of (r, s) \<Rightarrow> (answer 200 (\<lambda>_. 400) r, d\<lparr>de_subs := s\<rparr>)))"

definition handleUnsubscribe :: "desk_request \<Rightarrow> (string \<times> int) option \<Rightarrow> desk \<Rightarrow> int \<times> desk" where
  "handleUnsubscribe q req =
     as_user q (\<lambda>u d. case req of
         None \<Rightarrow> (400, d)
       | Some k \<Rightarrow> (case Unsubscribe (u, k) (de_subs d) of (r, s) \<Rightarrow> (answer 200 (\<lambda>_. 400) r, d\<lparr>de_subs := s\<rparr>)))"

definition handleGetSubscription :: "desk_request \<Rightarrow> string \<Rightarrow> int option \<Rightarrow> desk \<Rightarrow> int + bool" where
  "handleGetSubscription q ty target d =
     (case target of None \<Rightarrow> Err 400
      | Some i \<Rightarrow>
          (case dr_user q of
             None \<Rightarrow> Ok False
           | Some u \<Rightarrow> (case IsSubscribed (de_subs d) (fst u, ty, i) of Inl _ \<Rightarrow> Err 500 | Inr b \<Rightarrow> Ok b)))"

section \<open>Blocks, preferences, policies\<close>

definition handleBlockUser :: "desk_request \<Rightarrow> string option \<Rightarrow> desk \<Rightarrow> int \<times> desk" where
  "handleBlockUser q req =
     as_user q (\<lambda>u d. case req of
         None \<Rightarrow> (400, d)
       | Some name \<Rightarrow>
           (case ByUsername (de_users d) name of
              Inl _ \<Rightarrow> (404, d)
            | Inr t \<Rightarrow>
                (case Block (u, fst t) (de_blocks d) of (r, s) \<Rightarrow> (answer 200 (\<lambda>_. 400) r, d\<lparr>de_blocks := s\<rparr>))))"

definition handleUnblockUser :: "desk_request \<Rightarrow> string \<Rightarrow> desk \<Rightarrow> int \<times> desk" where
  "handleUnblockUser q name =
     as_user q (\<lambda>u d.
       case ByUsername (de_users d) name of
         Inl _ \<Rightarrow> (404, d)
       | Inr t \<Rightarrow>
           (case Unblock (u, fst t) (de_blocks d) of (r, s) \<Rightarrow> (answer 200 (\<lambda>_. 500) r, d\<lparr>de_blocks := s\<rparr>)))"

text \<open>The accounts of a list of numbers; those that do not exist are left out.\<close>

definition known_users :: "desk \<Rightarrow> int list \<Rightarrow> user list" where
  "known_users d = List.map_filter (\<lambda>i. case user_ByID (de_users d) i of Inl _ \<Rightarrow> None | Inr u \<Rightarrow> Some u)"

definition handleListBlockedUsers :: "desk_request \<Rightarrow> desk \<Rightarrow> int + string list" where
  "handleListBlockedUsers q d =
     (case dr_user q of None \<Rightarrow> Err 401
      | Some u \<Rightarrow>
          (case ListBlocked (de_blocks d) (fst u) of
             Inl _ \<Rightarrow> Err 500 | Inr ids \<Rightarrow> Ok (map (\<lambda>b. u_Username (snd b)) (known_users d ids))))"

definition handleListNotifPrefs :: "desk_request \<Rightarrow> desk \<Rightarrow> int + (string \<Rightarrow> string option)" where
  "handleListNotifPrefs q d =
     (case dr_user q of None \<Rightarrow> Err 401
      | Some u \<Rightarrow> (case pref_All (de_prefs d) (fst u) of Inl _ \<Rightarrow> Err 500 | Inr m \<Rightarrow> Ok m))"

definition handleSetNotifPref :: "desk_request \<Rightarrow> (string \<times> string) option \<Rightarrow> desk \<Rightarrow> int \<times> desk" where
  "handleSetNotifPref q req =
     as_user q (\<lambda>u d. case req of
         None \<Rightarrow> (400, d)
       | Some (key, v) \<Rightarrow>
           if key = [] then (400, d)
           else case pref_Set u key v (de_prefs d) of (r, s) \<Rightarrow> (answer 200 (\<lambda>_. 500) r, d\<lparr>de_prefs := s\<rparr>))"

definition orgAdmin :: "desk_request \<Rightarrow> string \<Rightarrow> desk \<Rightarrow> int + int" where
  "orgAdmin q org d =
     (case dr_user q of None \<Rightarrow> Err 401
      | Some u \<Rightarrow>
          (case org_ByName (de_users d) (si_repos (de_site d)) org of
             Inl _ \<Rightarrow> Err 404
           | Inr (i, x) \<Rightarrow> if og_OwnerID x \<noteq> fst u \<and> \<not> u_IsAdmin (snd u) then Err 403 else Ok i))"

definition handleGetOrg2FAPolicy :: "desk_request \<Rightarrow> string \<Rightarrow> desk \<Rightarrow> int + bool" where
  "handleGetOrg2FAPolicy q org d =
     (case orgAdmin q org d of Inl c \<Rightarrow> Err c
      | Inr i \<Rightarrow> (case policy_Get (de_policies d) i of Inl _ \<Rightarrow> Err 500 | Inr b \<Rightarrow> Ok b))"

definition handleSetOrg2FAPolicy :: "desk_request \<Rightarrow> string \<Rightarrow> bool option \<Rightarrow> desk \<Rightarrow> int \<times> desk" where
  "handleSetOrg2FAPolicy q org req d =
     (case orgAdmin q org d of Inl c \<Rightarrow> (c, d)
      | Inr i \<Rightarrow>
          (case req of
             None \<Rightarrow> (400, d)
           | Some b \<Rightarrow> (case policy_Set i b (de_policies d) of (r, s) \<Rightarrow> (answer 200 (\<lambda>_. 500) r, d\<lparr>de_policies := s\<rparr>))))"

section \<open>Profiles and follows\<close>

text \<open>What anybody is told of an account.\<close>

record public_user =
  pu_ID :: int
  pu_Username :: string
  pu_Email :: string
  pu_FullName :: string
  pu_Bio :: string
  pu_AvatarURL :: string
  pu_Website :: string
  pu_Location :: string
  pu_IsAdmin :: bool
  pu_TOTPEnabled :: bool

definition publicUser :: "user \<Rightarrow> public_user" where
  "publicUser u =
     \<lparr>pu_ID = fst u, pu_Username = u_Username (snd u), pu_Email = u_Email (snd u), pu_FullName = u_FullName (snd u),
      pu_Bio = u_Bio (snd u), pu_AvatarURL = u_AvatarURL (snd u), pu_Website = u_Website (snd u),
      pu_Location = u_Location (snd u), pu_IsAdmin = u_IsAdmin (snd u), pu_TOTPEnabled = u_TOTPEnabled (snd u)\<rparr>"

record profile =
  pf_User :: public_user
  pf_Repos :: "repo list"
  pf_Followers :: nat
  pf_Following :: nat
  pf_IsFollowing :: bool

text \<open>Failing queries for repositories and counts count as nothing.\<close>

definition handleUserProfile :: "desk_request \<Rightarrow> string \<Rightarrow> desk \<Rightarrow> int + profile" where
  "handleUserProfile q name d =
     (if \<not> is_ok (ValidateName name) then Err 400
      else case ByUsername (de_users d) name of
        Inl _ \<Rightarrow> Err 404
      | Inr user \<Rightarrow>
          let repos = (case ListByOwner (de_users d) (si_repos (de_site d)) (fst user) 30 0 of Inl _ \<Rightarrow> [] | Inr rs \<Rightarrow> rs);
              counts = (case Counts (de_follows d) (fst user) of Inl _ \<Rightarrow> (0, 0) | Inr c \<Rightarrow> c)
          in Ok \<lparr>pf_User = publicUser user, pf_Repos = repos, pf_Followers = fst counts, pf_Following = snd counts,
                 pf_IsFollowing = (case dr_user q of None \<Rightarrow> False | Some u \<Rightarrow> IsFollowing (de_follows d) (fst u) (fst user))\<rparr>)"

definition handleFollowUser :: "desk_request \<Rightarrow> string \<Rightarrow> desk \<Rightarrow> int \<times> desk" where
  "handleFollowUser q name =
     as_user q (\<lambda>u d.
       case ByUsername (de_users d) name of
         Inl _ \<Rightarrow> (404, d)
       | Inr t \<Rightarrow>
           (case Follow (u, fst t) (de_follows d) of (r, s) \<Rightarrow> (answer 200 (\<lambda>_. 400) r, d\<lparr>de_follows := s\<rparr>)))"

definition handleUnfollowUser :: "desk_request \<Rightarrow> string \<Rightarrow> desk \<Rightarrow> int \<times> desk" where
  "handleUnfollowUser q name =
     as_user q (\<lambda>u d.
       case ByUsername (de_users d) name of
         Inl _ \<Rightarrow> (404, d)
       | Inr t \<Rightarrow>
           (case Unfollow (u, fst t) (de_follows d) of (r, s) \<Rightarrow> (answer 200 (\<lambda>_. 500) r, d\<lparr>de_follows := s\<rparr>)))"

definition listFollowUsers :: "bool \<Rightarrow> string \<Rightarrow> desk \<Rightarrow> int + public_user list" where
  "listFollowUsers followers name d =
     (case ByUsername (de_users d) name of
        Inl _ \<Rightarrow> Err 404
      | Inr t \<Rightarrow>
          let ids = (case (if followers then ListFollowers else ListFollowing) (de_follows d) (fst t) 100 of
                       Inl _ \<Rightarrow> [] | Inr is \<Rightarrow> is)
          in Ok (map publicUser (known_users d ids)))"

section \<open>Deploy keys and path permissions\<close>

definition handleListDeployKeys :: "desk_request \<Rightarrow> desk \<Rightarrow> (int + (int \<times> deploy_key) list) \<times> desk" where
  "handleListDeployKeys q d =
     (case loadRepoAndPerm (dr_env q) (dr_now q) (dr_visit q) (dr_owner q) (dr_repo q) PermAdmin (de_site d) of
        (Inl c, s) \<Rightarrow> (Err c, d\<lparr>de_site := s\<rparr>)
      | (Inr (rp, _), s) \<Rightarrow>
          (case key_List (de_keys d) (fst rp) of
             Inl _ \<Rightarrow> (Err 500, d\<lparr>de_site := s\<rparr>) | Inr ks \<Rightarrow> (Ok ks, d\<lparr>de_site := s\<rparr>)))"

text \<open>A key is for reading unless the body says otherwise.\<close>

definition handleAddDeployKey :: "desk_request \<Rightarrow> (string \<times> string \<times> bool option) option \<Rightarrow> desk \<Rightarrow> int \<times> desk" where
  "handleAddDeployKey q req =
     as_repo_admin q (\<lambda>repo d. case req of
         None \<Rightarrow> (400, d)
       | Some (title, pubKey, ro) \<Rightarrow>
           (case key_Add (dr_fingerprint q) repo title pubKey (case ro of None \<Rightarrow> True | Some b \<Rightarrow> b) (de_keys d) of
              (r, s) \<Rightarrow> (answer 201 (\<lambda>_. 400) r, d\<lparr>de_keys := s\<rparr>)))"

definition handleUpdateDeployKey :: "desk_request \<Rightarrow> int option \<Rightarrow> bool option \<Rightarrow> desk \<Rightarrow> int \<times> desk" where
  "handleUpdateDeployKey q idp req =
     as_repo_admin q (\<lambda>repo d. case idp of
         None \<Rightarrow> (400, d)
       | Some i \<Rightarrow>
           (case req of
              None \<Rightarrow> (400, d)
            | Some ro \<Rightarrow> (case SetReadOnly repo i ro (de_keys d) of (r, s) \<Rightarrow> (answer 200 (\<lambda>_. 404) r, d\<lparr>de_keys := s\<rparr>))))"

definition handleDeleteDeployKey :: "desk_request \<Rightarrow> int option \<Rightarrow> desk \<Rightarrow> int \<times> desk" where
  "handleDeleteDeployKey q idp =
     as_repo_admin q (\<lambda>repo d. case idp of
         None \<Rightarrow> (400, d)
       | Some i \<Rightarrow> (case key_Delete repo i (de_keys d) of (r, s) \<Rightarrow> (answer 200 (\<lambda>_. 500) r, d\<lparr>de_keys := s\<rparr>)))"

definition handleListPathPermissions :: "desk_request \<Rightarrow> desk \<Rightarrow> (int + (int \<times> path_rule) list) \<times> desk" where
  "handleListPathPermissions q d =
     (case loadRepoAndPerm (dr_env q) (dr_now q) (dr_visit q) (dr_owner q) (dr_repo q) PermRead (de_site d) of
        (Inl c, s) \<Rightarrow> (Err c, d\<lparr>de_site := s\<rparr>)
      | (Inr (rp, _), s) \<Rightarrow>
          (case pathperm_List (fst rp) (de_paths d) of
             Inl _ \<Rightarrow> (Err 500, d\<lparr>de_site := s\<rparr>) | Inr rs \<Rightarrow> (Ok rs, d\<lparr>de_site := s\<rparr>)))"

definition handleCreatePathPermission :: "desk_request \<Rightarrow> (string \<times> string) option \<Rightarrow> desk \<Rightarrow> int \<times> desk" where
  "handleCreatePathPermission q req =
     as_repo_admin q (\<lambda>repo d. case req of
         None \<Rightarrow> (400, d)
       | Some (pattern, permission) \<Rightarrow>
           (case pathperm_Create repo pattern permission (de_paths d) of
              (r, s) \<Rightarrow> (answer 201 (\<lambda>_. 400) r, d\<lparr>de_paths := s\<rparr>)))"

definition handleDeletePathPermission :: "desk_request \<Rightarrow> int option \<Rightarrow> desk \<Rightarrow> int \<times> desk" where
  "handleDeletePathPermission q idp =
     as_repo_admin q (\<lambda>repo d. case idp of
         None \<Rightarrow> (400, d)
       | Some i \<Rightarrow> (case pathperm_Delete repo i (de_paths d) of (r, s) \<Rightarrow> (answer 200 (\<lambda>_. 404) r, d\<lparr>de_paths := s\<rparr>)))"

section \<open>All requests\<close>

datatype desk_call =
    CreateReply "(string \<times> string) option"
  | UpdateReply "int option" "(string \<times> string) option"
  | DeleteReply "int option"
  | CreateHook "(string \<times> string \<times> string list) option"
  | UpdateHook "int option" "bool option"
  | DeleteHook "int option"
  | AddReaction "(string \<times> int \<times> string) option"
  | RemoveReaction "(string \<times> int \<times> string) option"
  | SubscribeTo "(string \<times> int) option"
  | UnsubscribeFrom "(string \<times> int) option"
  | BlockUser "string option"
  | UnblockUser string
  | FollowUser string
  | UnfollowUser string
  | SetNotifPref "(string \<times> string) option"
  | SetPolicy string "bool option"
  | AddKey "(string \<times> string \<times> bool option) option"
  | UpdateKey "int option" "bool option"
  | DeleteKey "int option"
  | CreatePathRule "(string \<times> string) option"
  | DeletePathRule "int option"

primrec desk_serve :: "desk_call \<Rightarrow> desk_request \<Rightarrow> desk \<Rightarrow> int \<times> desk" where
  "desk_serve (CreateReply b) q d = handleCreateSavedReply q b d"
| "desk_serve (UpdateReply i b) q d = handleUpdateSavedReply q i b d"
| "desk_serve (DeleteReply i) q d = handleDeleteSavedReply q i d"
| "desk_serve (CreateHook b) q d = handleCreateUserWebhook q b d"
| "desk_serve (UpdateHook i b) q d = handleUpdateUserWebhook q i b d"
| "desk_serve (DeleteHook i) q d = handleDeleteUserWebhook q i d"
| "desk_serve (AddReaction b) q d = handleAddReaction q b d"
| "desk_serve (RemoveReaction b) q d = handleRemoveReaction q b d"
| "desk_serve (SubscribeTo b) q d = handleSubscribe q b d"
| "desk_serve (UnsubscribeFrom b) q d = handleUnsubscribe q b d"
| "desk_serve (BlockUser b) q d = handleBlockUser q b d"
| "desk_serve (UnblockUser n) q d = handleUnblockUser q n d"
| "desk_serve (FollowUser n) q d = handleFollowUser q n d"
| "desk_serve (UnfollowUser n) q d = handleUnfollowUser q n d"
| "desk_serve (SetNotifPref b) q d = handleSetNotifPref q b d"
| "desk_serve (SetPolicy n b) q d = handleSetOrg2FAPolicy q n b d"
| "desk_serve (AddKey b) q d = handleAddDeployKey q b d"
| "desk_serve (UpdateKey i b) q d = handleUpdateDeployKey q i b d"
| "desk_serve (DeleteKey i) q d = handleDeleteDeployKey q i d"
| "desk_serve (CreatePathRule b) q d = handleCreatePathPermission q b d"
| "desk_serve (DeletePathRule i) q d = handleDeletePathPermission q i d"

text \<open>Requests one after the other, with their answers.\<close>

fun desk_run :: "(desk_call \<times> desk_request) list \<Rightarrow> desk \<Rightarrow> int list \<times> desk" where
  "desk_run [] d = ([], d)"
| "desk_run ((c, q) # xs) d = (case desk_serve c q d of (r, d1) \<Rightarrow> case desk_run xs d1 of (rs, d2) \<Rightarrow> (r # rs, d2))"

end
