(* ===== verification/DeskClaims.thy ===== *)
theory DeskClaims
  imports Desk RepoClaims
begin

text \<open>
  What holds of the requests of \<open>Desk\<close>: the records of an account change on its own requests only, deploy keys
  and path permissions with administration of the repository only, policies with that of the organization only; and
  what a profile tells anybody.
\<close>

section \<open>Whose records change\<close>

text \<open>The records of an account: saved replies, webhooks, reactions, subscriptions, blocks, follows, preferences.\<close>

record personal =
  pe_replies :: "(int \<times> reply) list"
  pe_hooks :: "(int \<times> user_hook) list"
  pe_reactions :: "(int \<times> reaction) list"
  pe_subs :: "(int \<times> sub_key) list"
  pe_blocks :: "(int \<times> int \<times> int) list"
  pe_follows :: "(int \<times> int \<times> int) list"
  pe_prefs :: "(int \<times> pref) list"

definition personal_of :: "int \<Rightarrow> desk \<Rightarrow> personal" where
  "personal_of v d =
     \<lparr>pe_replies = replies_of v (de_replies d), pe_hooks = hooks_of v (de_hooks d),
      pe_reactions = tbl_select (\<lambda>_ r. re_user r = v) (tab (de_reactions d)),
      pe_subs = tbl_select (\<lambda>_ k. fst k = v) (tab (de_subs d)), pe_blocks = tbl_select (\<lambda>_ k. fst k = v) (tab (de_blocks d)),
      pe_follows = tbl_select (\<lambda>_ k. fst k = v) (tab (de_follows d)), pe_prefs = tbl_select (\<lambda>_ r. fst r = v) (tab (de_prefs d))\<rparr>"

definition of_repo :: "int \<Rightarrow> desk \<Rightarrow> (int \<times> deploy_key) list \<times> (int \<times> path_rule) list" where
  "of_repo r d = (keys_of r (de_keys d), repo_rules r (de_paths d))"

definition of_org :: "int \<Rightarrow> desk \<Rightarrow> (int \<times> policy) list" where
  "of_org i d = tbl_select (\<lambda>_ p. fst p = i) (tab (de_policies d))"

lemma foreign_rows:
  "v \<noteq> u \<Longrightarrow> tbl_select (\<lambda>_ r. own r = v) (tbl_delete (\<lambda>j r. own r = u \<and> P j r) t) = tbl_select (\<lambda>_ r. own r = v) t"
  "v \<noteq> u \<Longrightarrow> tbl_select (\<lambda>_ r. own r = v) (tbl_delete (\<lambda>j r. P j r \<and> own r = u) t) = tbl_select (\<lambda>_ r. own r = v) t"
  "own k \<noteq> v \<Longrightarrow> tbl_select (\<lambda>_ r. own r = v) (tbl_delete (\<lambda>_ r. r = k) t) = tbl_select (\<lambda>_ r. own r = v) t"
  "own k = u \<Longrightarrow> v \<noteq> u \<Longrightarrow> tbl_select (\<lambda>_ r. own r = v) (tbl_delete (\<lambda>_ r. r = k) t) = tbl_select (\<lambda>_ r. own r = v) t"
  by (auto intro!: select_delete_other)

lemma foreign_update:
  "v \<noteq> u \<Longrightarrow> (\<And>r. own (f r) = own r) \<Longrightarrow>
     tbl_select (\<lambda>_ r. own r = v) (tbl_update (\<lambda>j r. P j r \<and> own r = u) f t) = tbl_select (\<lambda>_ r. own r = v) t"
  by (auto intro!: select_update_other)

lemmas desk_handlers = handleCreateSavedReply_def handleUpdateSavedReply_def handleDeleteSavedReply_def
  handleCreateUserWebhook_def handleUpdateUserWebhook_def handleDeleteUserWebhook_def handleAddReaction_def
  handleRemoveReaction_def handleSubscribe_def handleUnsubscribe_def handleBlockUser_def handleUnblockUser_def
  handleFollowUser_def handleUnfollowUser_def handleSetNotifPref_def handleSetOrg2FAPolicy_def
  handleAddDeployKey_def handleUpdateDeployKey_def handleDeleteDeployKey_def handleCreatePathPermission_def
  handleDeletePathPermission_def as_user_def as_repo_admin_def

text \<open>The operations leave the rows of other owners as they are.\<close>

lemma foreign_services:
  assumes "v \<noteq> u"
  shows "replies_of v (snd (reply_Create u t b s1)) = replies_of v s1"
    and "replies_of v (snd (reply_Update u i t b s1)) = replies_of v s1"
    and "replies_of v (snd (reply_Delete u i s1)) = replies_of v s1"
    and "hooks_of v (snd (hook_Create va u t b es s2)) = hooks_of v s2"
    and "hooks_of v (snd (SetActive u i a s2)) = hooks_of v s2"
    and "hooks_of v (snd (hook_Delete u i s2)) = hooks_of v s2"
    and "tbl_select (\<lambda>_ r. fst r = v) (tab (snd (pref_Set u t b s3))) = tbl_select (\<lambda>_ r. fst r = v) (tab s3)"
    and "tbl_select (\<lambda>_ r. fst r = v) (tab (snd (policy_Set u a s4))) = tbl_select (\<lambda>_ r. fst r = v) (tab s4)"
  using assms
  by (auto simp: reply_Create_def reply_Update_def reply_Delete_def hook_Create_def SetActive_def hook_Delete_def
      pref_Set_def pref_Delete_def policy_Set_def Let_def select_insert foreign_rows foreign_update
      split: sum.split prod.split intro!: select_delete_other select_update_other)

lemma foreign_relations:
  assumes "own k \<noteq> v"
  shows "tbl_select (\<lambda>_ r. own r = v) (tbl_insert k t) = tbl_select (\<lambda>_ r. own r = v) t"
    and "tbl_select (\<lambda>_ r. own r = v) (tbl_delete (\<lambda>_ r. r = k) t) = tbl_select (\<lambda>_ r. own r = v) t"
  using assms by (auto simp: select_insert intro!: select_delete_other)

lemma foreign_repo:
  assumes "v \<noteq> u"
  shows "keys_of v (snd (key_Add fp u t b a s1)) = keys_of v s1"
    and "keys_of v (snd (SetReadOnly u i a s1)) = keys_of v s1"
    and "keys_of v (snd (key_Delete u i s1)) = keys_of v s1"
    and "repo_rules v (snd (pathperm_Create u t b s2)) = repo_rules v s2"
    and "repo_rules v (snd (pathperm_Delete u i s2)) = repo_rules v s2"
  using assms
  by (auto simp: key_Add_def SetReadOnly_def key_Delete_def pathperm_Create_def pathperm_Delete_def Let_def select_insert
      split: sum.split option.split intro!: select_delete_other select_update_other)

lemmas relation_ops = reaction_Add_def reaction_Remove_def Subscribe_def Unsubscribe_def Block_def Unblock_def
  Follow_def Unfollow_def

lemmas foreign = foreign_services foreign_relations foreign_repo

lemma desk_personal:
  assumes "\<And>u. dr_user q = Some u \<Longrightarrow> fst u \<noteq> v"
  shows "personal_of v (snd (desk_serve c q d)) = personal_of v d"
proof (cases "dr_user q")
  case None
  then show ?thesis
    by (cases c) (auto simp: desk_handlers personal_of_def orgAdmin_def case_prod_unfold split: option.split sum.split)
next
  case (Some u)
  with assms have "v \<noteq> fst u" "fst u \<noteq> v" by blast+
  with Some show ?thesis
    by (cases c)
      (auto simp: desk_handlers personal_of_def relation_ops foreign case_prod_unfold split: option.split sum.split)
qed

lemma desk_repo:
  assumes "of_repo r (snd (desk_serve c q d)) \<noteq> of_repo r d"
  shows "\<exists>rp u s. loadRepoAndPerm (dr_env q) (dr_now q) (dr_visit q) (dr_owner q) (dr_repo q) PermAdmin (de_site d) =
    (Ok (rp, u), s) \<and> fst rp = r"
proof (rule ccontr)
  assume no: "\<not> ?thesis"
  obtain a s where l: "loadRepoAndPerm (dr_env q) (dr_now q) (dr_visit q) (dr_owner q) (dr_repo q) PermAdmin (de_site d) = (a, s)"
    by fastforce
  have "of_repo r (snd (desk_serve c q d)) = of_repo r d"
  proof (cases a)
    case Inl
    with l show ?thesis
      by (cases c) (auto simp: desk_handlers of_repo_def split: option.split sum.split prod.split)
  next
    case (Inr b)
    with no l have "r \<noteq> fst (fst b)" by (metis prod.collapse)
    with l Inr show ?thesis
      by (cases c) (auto simp: desk_handlers of_repo_def foreign case_prod_unfold split: option.split sum.split)
  qed
  with assms show False by blast
qed

lemma desk_org:
  assumes "of_org i (snd (desk_serve c q d)) \<noteq> of_org i d"
  shows "\<exists>u x. dr_user q = Some u \<and> (i, x) \<in> set (rows (rd_orgs (si_repos (de_site d)))) \<and>
    (og_OwnerID x = fst u \<or> u_IsAdmin (snd u))"
proof (rule ccontr)
  assume no: "\<not> ?thesis"
  have admin: "i \<noteq> j" if "orgAdmin q org d = Ok j" for org j
    using no that
    by (auto simp: orgAdmin_def org_ByName_def org_find_def dest!: tbl_find_Some split: option.splits sum.splits if_splits)
  have "of_org i (snd (desk_serve c q d)) = of_org i d"
  proof (cases "\<exists>org b. c = SetPolicy org b")
    case True
    then show ?thesis
      using admin by (auto simp: desk_handlers of_org_def dest!: admin simp: foreign case_prod_unfold split: option.split sum.split)
  next
    case False
    then show ?thesis
      by (cases c) (auto simp: desk_handlers of_org_def split: option.split sum.split prod.split)
  qed
  with assms show False by blast
qed

text \<open>Administration of a repository that the check of the request finds comes from a row of the tables.\<close>

lemma repo_admin_granted:
  assumes "loadRepoAndPerm e now v owner name PermAdmin s = (Ok (rp, u), s')"
  shows "\<exists>x. u = Some x \<and> fst (basic_user e now v s) = Some x \<and> rp \<in> set (rows (rd_repos (si_repos s)))
    \<and> granted (si_repos s) rp x PermAdmin"
proof -
  note ok = loadRepoAndPerm_Ok [OF assms]
  obtain perm where p: "caller_perm s' rp u = Ok perm" "PermAdmin \<le> perm" using ok(4) by (auto simp: not_less)
  obtain x where "u = Some x" "granted (si_repos s') rp x PermAdmin" using caller_granted [OF p] by auto
  moreover have "rp \<in> set (rows (rd_repos (si_repos s)))"
    using url_repo_Ok [OF ok(1)] repo_scanOne_Ok(1) unfolding ByOwnerName_def by blast
  ultimately show ?thesis using ok(3) basic_user_repos [OF ok(3)] by simp
qed

text \<open>C35: What is stored for somebody changes on their request only. Whatever requests are made for saved replies,
  webhooks, reactions, subscriptions, blocks, follows, preferences, deploy keys and path permissions, in any order:
  when none of them is signed in as an account, none of the records of that account changes. A request that changes
  the deploy keys or path permissions of a repository has an account to which a row of the tables gives administration
  of the repository, and one that changes the policy of an organization is signed in as its owner or as an administrator.\<close>

theorem personal_records_private:
  "((\<forall>(c, q) \<in> set xs. \<forall>u. dr_user q = Some u \<longrightarrow> fst u \<noteq> v) \<longrightarrow> personal_of v (snd (desk_run xs d)) = personal_of v d)
   \<and> (of_repo r (snd (desk_serve c q d)) \<noteq> of_repo r d \<longrightarrow>
        (\<exists>row x. fst (basic_user (dr_env q) (dr_now q) (dr_visit q) (de_site d)) = Some x
           \<and> (r, row) \<in> set (rows (rd_repos (si_repos (de_site d)))) \<and> granted (si_repos (de_site d)) (r, row) x PermAdmin))
   \<and> (of_org i (snd (desk_serve c q d)) \<noteq> of_org i d \<longrightarrow>
        (\<exists>u x. dr_user q = Some u \<and> (i, x) \<in> set (rows (rd_orgs (si_repos (de_site d))))
           \<and> (og_OwnerID x = fst u \<or> u_IsAdmin (snd u))))"
proof (intro conjI impI)
  show "personal_of v (snd (desk_run xs d)) = personal_of v d"
    if "\<forall>(c, q) \<in> set xs. \<forall>u. dr_user q = Some u \<longrightarrow> fst u \<noteq> v"
    using that
  proof (induction xs d rule: desk_run.induct)
    case (2 c q xs d)
    then show ?case using desk_personal [of q v c d] by (force split: prod.split)
  qed simp
  show "\<exists>row x. fst (basic_user (dr_env q) (dr_now q) (dr_visit q) (de_site d)) = Some x
      \<and> (r, row) \<in> set (rows (rd_repos (si_repos (de_site d)))) \<and> granted (si_repos (de_site d)) (r, row) x PermAdmin"
    if "of_repo r (snd (desk_serve c q d)) \<noteq> of_repo r d"
    using desk_repo [OF that] repo_admin_granted by (metis prod.collapse)
qed (rule desk_org)

text \<open>Mallory writes a saved reply, follows Alice and tries a path permission on her repository; then Alice does.\<close>

definition demo_desk :: desk where
  "demo_desk = \<lparr>de_site = demo_site, de_replies = sql_empty, de_hooks = sql_empty, de_keys = sql_empty, de_paths = sql_empty,
     de_reactions = sql_empty, de_subs = sql_empty, de_blocks = sql_empty, de_follows = sql_empty, de_prefs = sql_empty,
     de_policies = sql_empty\<rparr>"

definition desk_asks :: "int \<Rightarrow> string \<Rightarrow> desk_request" where
  "desk_asks i name = \<lparr>dr_env = test_env, dr_now = 0, dr_visit = visit_of i name, dr_owner = ''alice'', dr_repo = ''app'',
     dr_validate = (\<lambda>_ _. Ok ()), dr_fingerprint = Some\<rparr>"

definition mallory_calls :: "(desk_call \<times> desk_request) list" where
  "mallory_calls = map (\<lambda>c. (c, desk_asks 2 ''mallory''))
     [CreateReply (Some (''hi'', ''there'')), FollowUser ''alice'', CreatePathRule (Some (''docs'', ''write''))]"

lemma desk_asks_simps [simp]:
  "dr_env (desk_asks i n) = test_env" "dr_now (desk_asks i n) = 0" "dr_visit (desk_asks i n) = visit_of i n"
  "dr_owner (desk_asks i n) = ''alice''" "dr_repo (desk_asks i n) = ''app''" "UserFrom (vi_ctx (visit_of i n)) = Some (i, demo_user n)"
  by (simp_all add: desk_asks_def visit_of_def UserFrom_def)

lemma docs_pattern: "validatePattern ''docs'' = Ok ()"
  by code_simp

lemma alice_changes_rules:
  "of_repo 1 (snd (desk_serve (CreatePathRule (Some (''docs'', ''write''))) (desk_asks 1 ''alice'') demo_desk)) \<noteq> of_repo 1 demo_desk"
  using demo_access(1) [of test_env 0 PermAdmin]
  by (simp add: desk_handlers of_repo_def demo_desk_def sql_empty_def pathperm_Create_def validPermissions_def
      docs_pattern select_insert Let_def)

theorem personal_records_private_witness:
  "personal_of 1 (snd (desk_run mallory_calls demo_desk)) = personal_of 1 demo_desk
   \<and> (\<exists>row x. (1, row) \<in> set (rows (rd_repos (si_repos demo_site))) \<and> granted (si_repos demo_site) (1, row) x PermAdmin)"
proof -
  have "\<forall>(c, q) \<in> set mallory_calls. \<forall>u. dr_user q = Some u \<longrightarrow> fst u \<noteq> 1" by (simp add: mallory_calls_def)
  moreover have "de_site demo_desk = demo_site" by (simp add: demo_desk_def)
  ultimately show ?thesis
    using personal_records_private [of mallory_calls 1 demo_desk 1 "CreatePathRule (Some (''docs'', ''write''))" "desk_asks 1 ''alice''"]
      alice_changes_rules by (simp del: desk_serve.simps) blast
qed

section \<open>What a profile tells\<close>

text \<open>A profile shows private repositories. For an account with at most thirty repositories, the profile that is
  answered to anybody, signed in or not, lists every one of them, private ones too, and the email address of the
  account; while a visitor without an account is refused by the check of the repository itself.\<close>

theorem profile_shows_private_repositories:
  assumes "ByUsername (de_users d) name = Ok u" and "is_ok (ValidateName name)"
    and "(i, row) \<in> set (rows (rd_repos (si_repos (de_site d))))" and "rp_OwnerID row = fst u" and "rp_IsPrivate row"
    and "length (tbl_select (\<lambda>_ r. rp_OwnerID r = fst u) (rd_repos (si_repos (de_site d)))) \<le> 30"
  shows "(\<exists>p. handleUserProfile q name d = Ok p \<and> (i, row) \<in> set (pf_Repos p) \<and> pu_Email (pf_User p) = u_Email (snd u))
    \<and> (UserFrom (vi_ctx v) = None \<longrightarrow> resolveRepo v name (rp_Name row) need (de_site d) \<noteq> Ok ((i, row), w))"
proof (intro conjI impI)
  have "\<not> us_down (de_users d)" using assms(1) by (auto simp: ByUsername_def user_scanOne_def split: if_splits)
  moreover have "(i, row) \<in> set (by_recency 30 0 (tbl_select (\<lambda>_ r. rp_OwnerID r = fst u) (rd_repos (si_repos (de_site d)))))"
    using assms(3,4,6) by (simp add: by_recency_def tbl_select_def)
  ultimately show "\<exists>p. handleUserProfile q name d = Ok p \<and> (i, row) \<in> set (pf_Repos p) \<and> pu_Email (pf_User p) = u_Email (snd u)"
    using assms(1,2) by (simp add: handleUserProfile_def ListByOwner_def repo_limit_def publicUser_def Let_def)
  show "resolveRepo v name (rp_Name row) need (de_site d) \<noteq> Ok ((i, row), w)" if "UserFrom (vi_ctx v) = None"
    using that assms(5)
    by (auto simp: resolveRepo_def caller_perm_def caller_def PermissionFor_def Let_def less_Perm_def
        split: sum.split if_splits)
qed

theorem profile_shows_private_repositories_witness:
  "\<exists>p. handleUserProfile (desk_asks 2 ''mallory'') ''alice'' demo_desk = Ok p \<and> (1, demo_repo 1 ''app'' True) \<in> set (pf_Repos p)"
proof -
  have "(1, demo_repo 1 ''app'' True) \<in> set (rows (rd_repos (si_repos (de_site demo_desk))))"
    and "rp_OwnerID (demo_repo 1 ''app'' True) = 1" and "rp_IsPrivate (demo_repo 1 ''app'' True)"
    and "length (tbl_select (\<lambda>_ r. rp_OwnerID r = 1) (rd_repos (si_repos (de_site demo_desk)))) \<le> 30"
    by (simp_all add: demo_desk_def demo_site_def demo_db_def tbl_select_def demo_repo_def new_repo_def)
  moreover have "is_ok (ValidateName ''alice'')" by code_simp
  moreover have "ByUsername (de_users demo_desk) ''alice'' = Ok (1, demo_user ''alice'')" by (simp add: demo_desk_def)
  ultimately show ?thesis
    using profile_shows_private_repositories [of demo_desk "''alice''" "(1, demo_user ''alice'')" 1 "demo_repo 1 ''app'' True"
        "desk_asks 2 ''mallory''"]
    by (simp del: Product_Type.split_paired_Ex) blast
qed

end
