(* ===== verification/Boards.thy ===== *)
theory Boards
  imports Stores Codec
begin

text \<open>
  Discussions and project boards of a repository: \<open>internal/service/discussion\<close> and \<open>internal/service/project\<close>.

  \<open>board_db\<close> holds the three tables of each and whether the driver fails; an operation fails as a whole. Creation
  times and the descriptions of categories are left out. A result of \<open>QueryRow\<close> with no row is a missing row;
  \<open>ORDER BY position, id\<close> is a stable sort by position of the rows, which are in the order of their keys.
\<close>

section \<open>State\<close>

record category =
  ct_RepoID :: int
  ct_Name :: string
  ct_IsAnswerable :: bool

record discussion =
  ds_RepoID :: int
  ds_CategoryID :: "int option"
  ds_Title :: string
  ds_Body :: string
  ds_AuthorID :: int
  ds_IsAnswered :: bool

record discussion_comment =
  dc_DiscussionID :: int
  dc_AuthorID :: int
  dc_Body :: string
  dc_IsAnswer :: bool

record project =
  pj_OwnerID :: int
  pj_RepoID :: "int option"
  pj_Name :: string
  pj_Description :: string

record board_column =
  bc_ProjectID :: int
  bc_Name :: string
  bc_Position :: int

record card =
  cd_ColumnID :: int
  cd_IssueID :: "int option"
  cd_PullID :: "int option"
  cd_Title :: string
  cd_Position :: int

record board_db =
  bo_categories :: "category table"
  bo_discussions :: "discussion table"
  bo_comments :: "discussion_comment table"
  bo_projects :: "project table"
  bo_columns :: "board_column table"
  bo_cards :: "card table"
  bo_down :: bool

datatype board_error = BoardNotFound | NotAnswerable | ProjectName | BoardDriver

definition boards_New :: board_db where
  "boards_New = \<lparr>bo_categories = empty_table, bo_discussions = empty_table, bo_comments = empty_table,
     bo_projects = empty_table, bo_columns = empty_table, bo_cards = empty_table, bo_down = False\<rparr>"

section \<open>Discussions\<close>

definition DefaultCategories :: "(string \<times> bool) list" where
  "DefaultCategories = [(''Announcements'', False), (''General'', False), (''Ideas'', False), (''Q&A'', True)]"

definition EnsureCategories :: "int \<Rightarrow> board_db \<Rightarrow> (board_error + unit) \<times> board_db" where
  "EnsureCategories repoID db =
     (if bo_down db then (Err BoardDriver, db)
      else if tbl_count (\<lambda>_ c. ct_RepoID c = repoID) (bo_categories db) > 0 then (Ok (), db)
      else (Ok (), db\<lparr>bo_categories := fold (\<lambda>(name, answerable).
              tbl_insert \<lparr>ct_RepoID = repoID, ct_Name = name, ct_IsAnswerable = answerable\<rparr>) DefaultCategories (bo_categories db)\<rparr>))"

definition ListCategories :: "board_db \<Rightarrow> int \<Rightarrow> board_error + (int \<times> category) list" where
  "ListCategories db repoID =
     (if bo_down db then Err BoardDriver else Ok (tbl_select (\<lambda>_ c. ct_RepoID c = repoID) (bo_categories db)))"

definition discussion_ByID :: "board_db \<Rightarrow> int \<Rightarrow> board_error + int \<times> discussion" where
  "discussion_ByID db i =
     (if bo_down db then Err BoardDriver
      else case tbl_find (\<lambda>j _. j = i) (bo_discussions db) of None \<Rightarrow> Err BoardNotFound | Some d \<Rightarrow> Ok d)"

definition discussion_Create ::
  "int \<Rightarrow> int \<Rightarrow> int option \<Rightarrow> string \<Rightarrow> string \<Rightarrow> board_db \<Rightarrow> (board_error + int \<times> discussion) \<times> board_db" where
  "discussion_Create repoID authorID categoryID title body db =
     (if bo_down db then (Err BoardDriver, db)
      else let t = tbl_insert \<lparr>ds_RepoID = repoID, ds_CategoryID = categoryID, ds_Title = title, ds_Body = body,
                      ds_AuthorID = authorID, ds_IsAnswered = False\<rparr> (bo_discussions db);
               db' = db\<lparr>bo_discussions := t\<rparr>
           in (discussion_ByID db' (seq t), db'))"

definition discussion_limit :: "int \<Rightarrow> nat" where
  "discussion_limit limit = (if limit \<le> 0 \<or> limit > 100 then 30 else nat limit)"

definition discussion_List :: "board_db \<Rightarrow> int \<Rightarrow> int option \<Rightarrow> int \<Rightarrow> board_error + (int \<times> discussion) list" where
  "discussion_List db repoID categoryID limit =
     (if bo_down db then Err BoardDriver
      else Ok (take (discussion_limit limit) (rev (tbl_select
             (\<lambda>_ d. ds_RepoID d = repoID \<and> (categoryID = None \<or> ds_CategoryID d = categoryID)) (bo_discussions db)))))"

definition discussion_AddComment ::
  "int \<Rightarrow> int \<Rightarrow> string \<Rightarrow> board_db \<Rightarrow> (board_error + int \<times> discussion_comment) \<times> board_db" where
  "discussion_AddComment discussionID authorID body db =
     (if bo_down db then (Err BoardDriver, db)
      else let c = \<lparr>dc_DiscussionID = discussionID, dc_AuthorID = authorID, dc_Body = body, dc_IsAnswer = False\<rparr>;
               t = tbl_insert c (bo_comments db)
           in (Ok (seq t, c), db\<lparr>bo_comments := t\<rparr>))"

definition discussion_ListComments :: "board_db \<Rightarrow> int \<Rightarrow> board_error + (int \<times> discussion_comment) list" where
  "discussion_ListComments db discussionID =
     (if bo_down db then Err BoardDriver else Ok (tbl_select (\<lambda>_ c. dc_DiscussionID c = discussionID) (bo_comments db)))"

text \<open>Only a discussion of an answerable category takes an answer; a category that is gone is none.\<close>

definition answerable :: "board_db \<Rightarrow> discussion \<Rightarrow> bool" where
  "answerable db d =
     (case ds_CategoryID d of None \<Rightarrow> False
      | Some c \<Rightarrow> (case tbl_find (\<lambda>j _. j = c) (bo_categories db) of None \<Rightarrow> False | Some (_, x) \<Rightarrow> ct_IsAnswerable x))"

definition MarkAnswer :: "int \<Rightarrow> int \<Rightarrow> board_db \<Rightarrow> (board_error + unit) \<times> board_db" where
  "MarkAnswer discussionID commentID db =
     (case discussion_ByID db discussionID of
        Inl e \<Rightarrow> (Err e, db)
      | Inr (_, d) \<Rightarrow>
          if \<not> answerable db d then (Err NotAnswerable, db)
          else let cleared = tbl_update (\<lambda>_ c. dc_DiscussionID c = discussionID) (\<lambda>c. c\<lparr>dc_IsAnswer := False\<rparr>) (bo_comments db);
                   marked = tbl_update (\<lambda>i c. i = commentID \<and> dc_DiscussionID c = discussionID) (\<lambda>c. c\<lparr>dc_IsAnswer := True\<rparr>) cleared
               in (Ok (), db\<lparr>bo_comments := marked,
                     bo_discussions := tbl_update (\<lambda>i _. i = discussionID) (\<lambda>x. x\<lparr>ds_IsAnswered := True\<rparr>) (bo_discussions db)\<rparr>))"

definition discussion_Delete :: "int \<Rightarrow> int \<Rightarrow> board_db \<Rightarrow> (board_error + unit) \<times> board_db" where
  "discussion_Delete discussionID authorID db =
     (if bo_down db then (Err BoardDriver, db)
      else (Ok (), db\<lparr>bo_discussions := tbl_delete (\<lambda>i d. i = discussionID \<and> ds_AuthorID d = authorID) (bo_discussions db)\<rparr>))"

section \<open>Project boards\<close>

definition DefaultColumns :: "string list" where
  "DefaultColumns = [''To Do'', ''In Progress'', ''Done'']"

definition project_ByID :: "board_db \<Rightarrow> int \<Rightarrow> board_error + int \<times> project" where
  "project_ByID db i =
     (if bo_down db then Err BoardDriver
      else case tbl_find (\<lambda>j _. j = i) (bo_projects db) of None \<Rightarrow> Err BoardNotFound | Some p \<Rightarrow> Ok p)"

text \<open>The project and its columns in one transaction.\<close>

definition project_Create ::
  "int \<Rightarrow> int option \<Rightarrow> string \<Rightarrow> string \<Rightarrow> board_db \<Rightarrow> (board_error + int \<times> project) \<times> board_db" where
  "project_Create ownerID repoID name description db =
     (if name = [] then (Err ProjectName, db)
      else if bo_down db then (Err BoardDriver, db)
      else let t = tbl_insert \<lparr>pj_OwnerID = ownerID, pj_RepoID = repoID, pj_Name = name, pj_Description = description\<rparr> (bo_projects db);
               cs = fold (\<lambda>(i, cname). tbl_insert \<lparr>bc_ProjectID = seq t, bc_Name = cname, bc_Position = int i\<rparr>)
                      (enumerate 0 DefaultColumns) (bo_columns db);
               db' = db\<lparr>bo_projects := t, bo_columns := cs\<rparr>
           in (project_ByID db' (seq t), db'))"

definition ListByRepo :: "board_db \<Rightarrow> int \<Rightarrow> board_error + (int \<times> project) list" where
  "ListByRepo db repoID =
     (if bo_down db then Err BoardDriver
      else Ok (List.map_filter (\<lambda>(i, _). case project_ByID db i of Inl _ \<Rightarrow> None | Inr p \<Rightarrow> Some p)
             (rev (tbl_select (\<lambda>_ p. pj_RepoID p = Some repoID) (bo_projects db)))))"

definition listCards :: "board_db \<Rightarrow> int \<Rightarrow> board_error + (int \<times> card) list" where
  "listCards db columnID =
     (if bo_down db then Err BoardDriver
      else Ok (sort_key (\<lambda>(_, c). cd_Position c) (tbl_select (\<lambda>_ c. cd_ColumnID c = columnID) (bo_cards db))))"

text \<open>A board: the project, its columns in order, each with its cards in order.\<close>

type_synonym board = "(int \<times> project) \<times> ((int \<times> board_column) \<times> (int \<times> card) list) list"

definition Board :: "board_db \<Rightarrow> int \<Rightarrow> board_error + board" where
  "Board db projectID =
     (case project_ByID db projectID of Inl e \<Rightarrow> Err e
      | Inr p \<Rightarrow>
          Ok (p, map (\<lambda>c. (c, case listCards db (fst c) of Inl _ \<Rightarrow> [] | Inr cs \<Rightarrow> cs))
                   (sort_key (\<lambda>(_, c). bc_Position c) (tbl_select (\<lambda>_ c. bc_ProjectID c = projectID) (bo_columns db)))))"

text \<open>\<open>COALESCE(MAX(position)+1,0)\<close>\<close>

definition next_position :: "int list \<Rightarrow> int" where
  "next_position ps = (case ps of [] \<Rightarrow> 0 | p # qs \<Rightarrow> fold max qs p + 1)"

definition AddCard ::
  "int \<Rightarrow> int option \<Rightarrow> int option \<Rightarrow> string \<Rightarrow> board_db \<Rightarrow> (board_error + int \<times> card) \<times> board_db" where
  "AddCard columnID issueID pullID title db =
     (if bo_down db then (Err BoardDriver, db)
      else let pos = next_position (map (\<lambda>(_, c). cd_Position c) (tbl_select (\<lambda>_ c. cd_ColumnID c = columnID) (bo_cards db)));
               c = \<lparr>cd_ColumnID = columnID, cd_IssueID = issueID, cd_PullID = pullID, cd_Title = title, cd_Position = pos\<rparr>;
               t = tbl_insert c (bo_cards db)
           in (Ok (seq t, c), db\<lparr>bo_cards := t\<rparr>))"

definition MoveCard :: "int \<Rightarrow> int \<Rightarrow> int \<Rightarrow> board_db \<Rightarrow> (board_error + unit) \<times> board_db" where
  "MoveCard cardID columnID position db =
     (if bo_down db then (Err BoardDriver, db)
      else let n = tbl_count (\<lambda>i _. i = cardID) (bo_cards db);
               db' = db\<lparr>bo_cards := tbl_update (\<lambda>i _. i = cardID)
                       (\<lambda>c. c\<lparr>cd_ColumnID := columnID, cd_Position := position\<rparr>) (bo_cards db)\<rparr>
           in if n = 0 then (Err BoardNotFound, db') else (Ok (), db'))"

definition DeleteCard :: "int \<Rightarrow> board_db \<Rightarrow> (board_error + unit) \<times> board_db" where
  "DeleteCard cardID db =
     (if bo_down db then (Err BoardDriver, db)
      else (Ok (), db\<lparr>bo_cards := tbl_delete (\<lambda>i _. i = cardID) (bo_cards db)\<rparr>))"

definition AddColumn :: "int \<Rightarrow> string \<Rightarrow> board_db \<Rightarrow> (board_error + int \<times> board_column) \<times> board_db" where
  "AddColumn projectID name db =
     (if bo_down db then (Err BoardDriver, db)
      else let pos = next_position (map (\<lambda>(_, c). bc_Position c) (tbl_select (\<lambda>_ c. bc_ProjectID c = projectID) (bo_columns db)));
               c = \<lparr>bc_ProjectID = projectID, bc_Name = name, bc_Position = pos\<rparr>;
               t = tbl_insert c (bo_columns db)
           in (Ok (seq t, c), db\<lparr>bo_columns := t\<rparr>))"

definition project_Delete :: "int \<Rightarrow> board_db \<Rightarrow> (board_error + unit) \<times> board_db" where
  "project_Delete projectID db =
     (if bo_down db then (Err BoardDriver, db)
      else (Ok (), db\<lparr>
        bo_cards := tbl_delete (\<lambda>_ c. tbl_exists (\<lambda>i x. i = cd_ColumnID c \<and> bc_ProjectID x = projectID) (bo_columns db)) (bo_cards db),
        bo_columns := tbl_delete (\<lambda>_ c. bc_ProjectID c = projectID) (bo_columns db),
        bo_projects := tbl_delete (\<lambda>i _. i = projectID) (bo_projects db)\<rparr>))"

end
