(* ===== verification/Pages.thy ===== *)
theory Pages
  imports Stores Codec "HOL-Library.List_Lexorder" "HOL-Library.Char_ord"
begin

text \<open>
  What a repository or an account publishes: \<open>internal/service/wiki\<close>, \<open>gist\<close>, \<open>release\<close> and \<open>topic\<close>.

  Each is one table and whether the driver fails, releases two tables. None of the tables has a \<open>UNIQUE\<close> constraint,
  so a slug or a tag may occur twice in a repository; a query for one row answers the oldest. Times are left out.
  The path of an asset below the directory of attachments is the number of the release and the name of the file.
\<close>

section \<open>Wiki pages\<close>

record wiki_page =
  wp_RepoID :: int
  wp_Slug :: string
  wp_Title :: string
  wp_Body :: string

datatype page_error = PageNotFound | PageDriver

definition wiki_one :: "wiki_page sql \<Rightarrow> (int \<Rightarrow> wiki_page \<Rightarrow> bool) \<Rightarrow> page_error + int \<times> wiki_page" where
  "wiki_one s P =
     (if down s then Err PageDriver else case tbl_find P (tab s) of None \<Rightarrow> Err PageNotFound | Some p \<Rightarrow> Ok p)"

definition BySlug :: "wiki_page sql \<Rightarrow> int \<Rightarrow> string \<Rightarrow> page_error + int \<times> wiki_page" where
  "BySlug s repoID slug = wiki_one s (\<lambda>_ p. wp_RepoID p = repoID \<and> wp_Slug p = slug)"

definition wiki_ByID :: "wiki_page sql \<Rightarrow> int \<Rightarrow> page_error + int \<times> wiki_page" where
  "wiki_ByID s i = wiki_one s (\<lambda>j _. j = i)"

definition wiki_Create ::
  "int \<Rightarrow> string \<Rightarrow> string \<Rightarrow> string \<Rightarrow> wiki_page sql \<Rightarrow> (page_error + int \<times> wiki_page) \<times> wiki_page sql" where
  "wiki_Create repoID slug title body s =
     (if down s then (Err PageDriver, s)
      else let t = tbl_insert \<lparr>wp_RepoID = repoID, wp_Slug = slug, wp_Title = title, wp_Body = body\<rparr> (tab s);
               s' = s\<lparr>tab := t\<rparr>
           in (wiki_ByID s' (seq t), s'))"

text \<open>\<open>ORDER BY slug\<close>: by the slug, pages with one slug in any order; here the older first.\<close>

definition wiki_List :: "wiki_page sql \<Rightarrow> int \<Rightarrow> page_error + (int \<times> wiki_page) list" where
  "wiki_List s repoID =
     (if down s then Err PageDriver
      else Ok (sort_key (\<lambda>(_, p). wp_Slug p) (tbl_select (\<lambda>_ p. wp_RepoID p = repoID) (tab s))))"

definition wiki_Update :: "int \<times> wiki_page \<Rightarrow> wiki_page sql \<Rightarrow> (page_error + unit) \<times> wiki_page sql" where
  "wiki_Update p s =
     (if down s then (Err PageDriver, s)
      else let n = tbl_count (\<lambda>i _. i = fst p) (tab s);
               s' = s\<lparr>tab := tbl_update (\<lambda>i _. i = fst p)
                      (\<lambda>x. x\<lparr>wp_Title := wp_Title (snd p), wp_Body := wp_Body (snd p)\<rparr>) (tab s)\<rparr>
           in if n = 0 then (Err PageNotFound, s') else (Ok (), s'))"

definition wiki_Delete :: "int \<Rightarrow> string \<Rightarrow> wiki_page sql \<Rightarrow> (page_error + unit) \<times> wiki_page sql" where
  "wiki_Delete repoID slug s =
     (if down s then (Err PageDriver, s)
      else let n = tbl_count (\<lambda>_ p. wp_RepoID p = repoID \<and> wp_Slug p = slug) (tab s);
               s' = s\<lparr>tab := tbl_delete (\<lambda>_ p. wp_RepoID p = repoID \<and> wp_Slug p = slug) (tab s)\<rparr>
           in if n = 0 then (Err PageNotFound, s') else (Ok (), s'))"

section \<open>Gists\<close>

record gist =
  gi_UserID :: int
  gi_Description :: string
  gi_IsPublic :: bool

definition gist_ByID :: "gist sql \<Rightarrow> int \<Rightarrow> page_error + int \<times> gist" where
  "gist_ByID s i =
     (if down s then Err PageDriver else case tbl_find (\<lambda>j _. j = i) (tab s) of None \<Rightarrow> Err PageNotFound | Some g \<Rightarrow> Ok g)"

definition gist_Create :: "int \<Rightarrow> string \<Rightarrow> bool \<Rightarrow> gist sql \<Rightarrow> (page_error + int \<times> gist) \<times> gist sql" where
  "gist_Create userID description isPublic s =
     (if down s then (Err PageDriver, s)
      else let t = tbl_insert \<lparr>gi_UserID = userID, gi_Description = description, gi_IsPublic = isPublic\<rparr> (tab s);
               s' = s\<lparr>tab := t\<rparr>
           in (gist_ByID s' (seq t), s'))"

definition gist_ListByUser :: "gist sql \<Rightarrow> int \<Rightarrow> page_error + (int \<times> gist) list" where
  "gist_ListByUser s userID =
     (if down s then Err PageDriver else Ok (rev (tbl_select (\<lambda>_ g. gi_UserID g = userID) (tab s))))"

definition gist_Delete :: "int \<Rightarrow> int \<Rightarrow> gist sql \<Rightarrow> (page_error + unit) \<times> gist sql" where
  "gist_Delete userID i s =
     (if down s then (Err PageDriver, s)
      else let n = tbl_count (\<lambda>j g. j = i \<and> gi_UserID g = userID) (tab s);
               s' = s\<lparr>tab := tbl_delete (\<lambda>j g. j = i \<and> gi_UserID g = userID) (tab s)\<rparr>
           in if n = 0 then (Err PageNotFound, s') else (Ok (), s'))"

section \<open>Releases\<close>

record release =
  rl_RepoID :: int
  rl_AuthorID :: int
  rl_Tag :: string
  rl_Name :: string
  rl_Body :: string
  rl_IsDraft :: bool
  rl_IsPrerelease :: bool

type_synonym asset_path = "int \<times> string"

record asset =
  as_ReleaseID :: int
  as_Name :: string
  as_SizeBytes :: int
  as_StoredPath :: asset_path

record release_db =
  rl_releases :: "release table"
  rl_assets :: "asset table"
  rl_down :: bool

definition release_one :: "release_db \<Rightarrow> (int \<Rightarrow> release \<Rightarrow> bool) \<Rightarrow> page_error + int \<times> release" where
  "release_one s P =
     (if rl_down s then Err PageDriver else case tbl_find P (rl_releases s) of None \<Rightarrow> Err PageNotFound | Some r \<Rightarrow> Ok r)"

definition release_byID :: "release_db \<Rightarrow> int \<Rightarrow> page_error + int \<times> release" where
  "release_byID s i = release_one s (\<lambda>j _. j = i)"

definition ByTag :: "release_db \<Rightarrow> int \<Rightarrow> string \<Rightarrow> page_error + int \<times> release" where
  "ByTag s repoID tag = release_one s (\<lambda>_ r. rl_RepoID r = repoID \<and> rl_Tag r = tag)"

definition release_Create ::
  "int \<Rightarrow> int \<Rightarrow> string \<Rightarrow> string \<Rightarrow> string \<Rightarrow> release_db \<Rightarrow> (page_error + int \<times> release) \<times> release_db" where
  "release_Create repoID authorID tag name body s =
     (if rl_down s then (Err PageDriver, s)
      else let t = tbl_insert \<lparr>rl_RepoID = repoID, rl_AuthorID = authorID, rl_Tag = tag, rl_Name = name, rl_Body = body,
                      rl_IsDraft = True, rl_IsPrerelease = False\<rparr> (rl_releases s);
               s' = s\<lparr>rl_releases := t\<rparr>
           in (release_byID s' (seq t), s'))"

definition release_List :: "release_db \<Rightarrow> int \<Rightarrow> page_error + (int \<times> release) list" where
  "release_List s repoID =
     (if rl_down s then Err PageDriver else Ok (rev (tbl_select (\<lambda>_ r. rl_RepoID r = repoID) (rl_releases s))))"

definition Publish :: "int \<Rightarrow> release_db \<Rightarrow> (page_error + unit) \<times> release_db" where
  "Publish i s =
     (if rl_down s then (Err PageDriver, s)
      else let n = tbl_count (\<lambda>j _. j = i) (rl_releases s);
               s' = s\<lparr>rl_releases := tbl_update (\<lambda>j _. j = i) (\<lambda>r. r\<lparr>rl_IsDraft := False\<rparr>) (rl_releases s)\<rparr>
           in if n = 0 then (Err PageNotFound, s') else (Ok (), s'))"

definition AddAsset :: "int \<Rightarrow> string \<Rightarrow> int \<Rightarrow> asset_path \<Rightarrow> release_db \<Rightarrow> (page_error + int \<times> asset) \<times> release_db" where
  "AddAsset releaseID name sz storedPath s =
     (if rl_down s then (Err PageDriver, s)
      else let a = \<lparr>as_ReleaseID = releaseID, as_Name = name, as_SizeBytes = sz, as_StoredPath = storedPath\<rparr>;
               t = tbl_insert a (rl_assets s)
           in (Ok (seq t, a), s\<lparr>rl_assets := t\<rparr>))"

definition ListAssets :: "release_db \<Rightarrow> int \<Rightarrow> page_error + (int \<times> asset) list" where
  "ListAssets s releaseID =
     (if rl_down s then Err PageDriver else Ok (tbl_select (\<lambda>_ a. as_ReleaseID a = releaseID) (rl_assets s)))"

section \<open>Topics\<close>

record topic_row =
  tr_RepoID :: int
  tr_Topic :: string

datatype topic_error = TopicRepo | TopicRequired | TopicLong | TopicHyphen | TopicChar char | TopicDriver

definition topic_MaxLength :: nat where "topic_MaxLength = 50"

definition topic_char :: "char \<Rightarrow> bool" where
  "topic_char c = (let n = of_char c :: nat in 97 \<le> n \<and> n \<le> 122 \<or> 48 \<le> n \<and> n \<le> 57 \<or> c = CHR ''-'' \<or> c = CHR ''.'')"

definition topic_Validate :: "string \<Rightarrow> topic_error + unit" where
  "topic_Validate name =
     (if name = [] then Err TopicRequired
      else if length name > topic_MaxLength then Err TopicLong
      else if has_prefix name ''-'' then Err TopicHyphen
      else case List.find (\<lambda>c. \<not> topic_char c) name of Some c \<Rightarrow> Err (TopicChar c) | None \<Rightarrow> Ok ())"

definition topic_normalize :: "string \<Rightarrow> topic_error + string" where
  "topic_normalize name0 =
     (let name = to_lower (trim_space name0) in
      case topic_Validate name of Inl e \<Rightarrow> Err e | Inr _ \<Rightarrow> Ok name)"

definition topic_Add :: "int \<Rightarrow> string \<Rightarrow> topic_row sql \<Rightarrow> (topic_error + unit) \<times> topic_row sql" where
  "topic_Add repoID name0 s =
     (if repoID \<le> 0 then (Err TopicRepo, s)
      else case topic_normalize name0 of
        Inl e \<Rightarrow> (Err e, s)
      | Inr name \<Rightarrow>
          if down s then (Err TopicDriver, s)
          else if tbl_count (\<lambda>_ r. tr_RepoID r = repoID \<and> tr_Topic r = name) (tab s) > 0 then (Ok (), s)
          else (Ok (), s\<lparr>tab := tbl_insert \<lparr>tr_RepoID = repoID, tr_Topic = name\<rparr> (tab s)\<rparr>))"

definition topic_Remove :: "int \<Rightarrow> string \<Rightarrow> topic_row sql \<Rightarrow> (topic_error + unit) \<times> topic_row sql" where
  "topic_Remove repoID name0 s =
     (if repoID \<le> 0 then (Err TopicRepo, s)
      else case topic_normalize name0 of
        Inl e \<Rightarrow> (Err e, s)
      | Inr name \<Rightarrow>
          if down s then (Err TopicDriver, s)
          else (Ok (), s\<lparr>tab := tbl_delete (\<lambda>_ r. tr_RepoID r = repoID \<and> tr_Topic r = name) (tab s)\<rparr>))"

definition topic_List :: "topic_row sql \<Rightarrow> int \<Rightarrow> topic_error + string list" where
  "topic_List s repoID =
     (if down s then Err TopicDriver else Ok (map (\<lambda>(_, r). tr_Topic r) (tbl_select (\<lambda>_ r. tr_RepoID r = repoID) (tab s))))"

end
