(* ===== verification/Workspace.thy ===== *)
theory Workspace
  imports RepoHttp Boards Pages
begin

text \<open>
  The handlers over discussions, project boards, wiki pages, gists, releases and topics:
  \<open>handlers_discussion.go\<close>, \<open>handlers_project.go\<close>, \<open>handlers_wiki_gist_release.go\<close> and the topics of \<open>handlers_topic.go\<close>.

  \<open>bench\<close> is the site with the tables of these services and the files of the assets. A body that does not parse, or
  an identifier in the path, is \<^const>\<open>None\<close>. A handler answers with the code of an error or with what the response
  carries. Audit records and the events that handlers send are left out.
\<close>

section \<open>Requests\<close>

record bench =
  be_site :: site
  be_boards :: board_db
  be_wiki :: "wiki_page sql"
  be_gists :: "gist sql"
  be_releases :: release_db
  be_topics :: "topic_row sql"
  be_files :: "asset_path \<Rightarrow> string option"

record bench_request =
  bq_env :: env
  bq_now :: int
  bq_visit :: visit
  bq_owner :: string
  bq_repo :: string

type_synonym 'a handler = "bench \<Rightarrow> (int + 'a) \<times> bench"

abbreviation bq_user :: "bench_request \<Rightarrow> user option" where "bq_user q \<equiv> UserFrom (vi_ctx (bq_visit q))"

definition refuse :: "int \<Rightarrow> 'a handler" where
  "refuse code b = (Err code, b)"

text \<open>The account of a request, or 401.\<close>

definition signed_in :: "bench_request \<Rightarrow> (user \<Rightarrow> 'a handler) \<Rightarrow> 'a handler" where
  "signed_in q h = (case bq_user q of None \<Rightarrow> refuse 401 | Some u \<Rightarrow> h u)"

text \<open>The repository of the URL with a permission: by session, token or Basic credentials, or by session only.\<close>

definition with_loaded_repo :: "bench_request \<Rightarrow> Perm \<Rightarrow> (int \<Rightarrow> 'a handler) \<Rightarrow> 'a handler" where
  "with_loaded_repo q need h b =
     (case loadRepoAndPerm (bq_env q) (bq_now q) (bq_visit q) (bq_owner q) (bq_repo q) need (be_site b) of
        (Inl c, s) \<Rightarrow> (Err c, b\<lparr>be_site := s\<rparr>)
      | (Inr (rp, _), s) \<Rightarrow> h (fst rp) (b\<lparr>be_site := s\<rparr>))"

definition with_session_repo :: "bench_request \<Rightarrow> Perm \<Rightarrow> (int \<Rightarrow> 'a handler) \<Rightarrow> 'a handler" where
  "with_session_repo q need h b =
     (case resolveRepo (bq_visit q) (bq_owner q) (bq_repo q) need (be_site b) of
        Inl c \<Rightarrow> (Err c, b) | Inr (rp, _) \<Rightarrow> h (fst rp) b)"

text \<open>A part of the request that may not parse.\<close>

definition parsed :: "'b option \<Rightarrow> ('b \<Rightarrow> 'a handler) \<Rightarrow> 'a handler" where
  "parsed x h = (case x of None \<Rightarrow> refuse 400 | Some y \<Rightarrow> h y)"

text \<open>A query, and an operation that changes one of the services, with the code for its errors.\<close>

definition reads :: "('e \<Rightarrow> int) \<Rightarrow> (bench \<Rightarrow> 'e + 'a) \<Rightarrow> 'a handler" where
  "reads fail f b = (case f b of Inl e \<Rightarrow> (Err (fail e), b) | Inr x \<Rightarrow> (Ok x, b))"

definition on_boards :: "('e \<Rightarrow> int) \<Rightarrow> (board_db \<Rightarrow> ('e + 'a) \<times> board_db) \<Rightarrow> 'a handler" where
  "on_boards fail f b =
     (case f (be_boards b) of (r, s) \<Rightarrow> (case r of Inl e \<Rightarrow> Err (fail e) | Inr x \<Rightarrow> Ok x, b\<lparr>be_boards := s\<rparr>))"

definition on_wiki :: "('e \<Rightarrow> int) \<Rightarrow> (wiki_page sql \<Rightarrow> ('e + 'a) \<times> wiki_page sql) \<Rightarrow> 'a handler" where
  "on_wiki fail f b =
     (case f (be_wiki b) of (r, s) \<Rightarrow> (case r of Inl e \<Rightarrow> Err (fail e) | Inr x \<Rightarrow> Ok x, b\<lparr>be_wiki := s\<rparr>))"

definition on_gists :: "('e \<Rightarrow> int) \<Rightarrow> (gist sql \<Rightarrow> ('e + 'a) \<times> gist sql) \<Rightarrow> 'a handler" where
  "on_gists fail f b =
     (case f (be_gists b) of (r, s) \<Rightarrow> (case r of Inl e \<Rightarrow> Err (fail e) | Inr x \<Rightarrow> Ok x, b\<lparr>be_gists := s\<rparr>))"

definition on_releases :: "('e \<Rightarrow> int) \<Rightarrow> (release_db \<Rightarrow> ('e + 'a) \<times> release_db) \<Rightarrow> 'a handler" where
  "on_releases fail f b =
     (case f (be_releases b) of (r, s) \<Rightarrow> (case r of Inl e \<Rightarrow> Err (fail e) | Inr x \<Rightarrow> Ok x, b\<lparr>be_releases := s\<rparr>))"

section \<open>Discussions\<close>

text \<open>The result of seeding the categories is ignored.\<close>

definition seed_categories :: "int \<Rightarrow> bench \<Rightarrow> bench" where
  "seed_categories repo b = b\<lparr>be_boards := snd (EnsureCategories repo (be_boards b))\<rparr>"

definition handleListDiscussionCategories :: "bench_request \<Rightarrow> (int \<times> category) list handler" where
  "handleListDiscussionCategories q =
     with_loaded_repo q PermRead (\<lambda>repo b. reads (\<lambda>_. 500) (\<lambda>b. ListCategories (be_boards b) repo) (seed_categories repo b))"

definition handleListDiscussions :: "bench_request \<Rightarrow> int option \<Rightarrow> (int \<times> discussion) list handler" where
  "handleListDiscussions q cat =
     with_loaded_repo q PermRead (\<lambda>repo. reads (\<lambda>_. 500) (\<lambda>b. discussion_List (be_boards b) repo cat 50))"

definition handleCreateDiscussion :: "bench_request \<Rightarrow> (string \<times> string \<times> int option) option \<Rightarrow> (int \<times> discussion) handler" where
  "handleCreateDiscussion q req =
     signed_in q (\<lambda>u. with_loaded_repo q PermWrite (\<lambda>repo b.
       parsed req (\<lambda>(title, body, cat). on_boards (\<lambda>_. 500) (discussion_Create repo (fst u) cat title body)) (seed_categories repo b)))"

text \<open>The discussion of the path, which must be one of the repository.\<close>

definition repo_discussion :: "int \<Rightarrow> int \<Rightarrow> (discussion \<Rightarrow> 'a handler) \<Rightarrow> 'a handler" where
  "repo_discussion repo i h b =
     (case discussion_ByID (be_boards b) i of
        Inl _ \<Rightarrow> (Err 404, b) | Inr (_, d) \<Rightarrow> if ds_RepoID d \<noteq> repo then (Err 404, b) else h d b)"

definition handleGetDiscussion ::
  "bench_request \<Rightarrow> int option \<Rightarrow> (discussion \<times> (int \<times> discussion_comment) list) handler" where
  "handleGetDiscussion q idp =
     with_loaded_repo q PermRead (\<lambda>repo. parsed idp (\<lambda>i. repo_discussion repo i (\<lambda>d b.
       (Ok (d, case discussion_ListComments (be_boards b) i of Inl _ \<Rightarrow> [] | Inr cs \<Rightarrow> cs), b))))"

definition handleCreateDiscussionComment ::
  "bench_request \<Rightarrow> int option \<Rightarrow> string option \<Rightarrow> (int \<times> discussion_comment) handler" where
  "handleCreateDiscussionComment q idp req =
     signed_in q (\<lambda>u. with_loaded_repo q PermRead (\<lambda>repo. parsed idp (\<lambda>i. repo_discussion repo i (\<lambda>_.
       parsed req (\<lambda>body. on_boards (\<lambda>_. 500) (discussion_AddComment i (fst u) body))))))"

definition handleMarkDiscussionAnswer :: "bench_request \<Rightarrow> int option \<Rightarrow> int option \<Rightarrow> unit handler" where
  "handleMarkDiscussionAnswer q idp req =
     signed_in q (\<lambda>u. with_loaded_repo q PermWrite (\<lambda>repo. parsed idp (\<lambda>i. repo_discussion repo i (\<lambda>_.
       parsed req (\<lambda>commentID. on_boards (\<lambda>_. 400) (MarkAnswer i commentID))))))"

section \<open>Project boards\<close>

definition handleListProjects :: "bench_request \<Rightarrow> (int \<times> project) list handler" where
  "handleListProjects q = with_loaded_repo q PermRead (\<lambda>repo. reads (\<lambda>_. 500) (\<lambda>b. ListByRepo (be_boards b) repo))"

definition handleCreateProject :: "bench_request \<Rightarrow> (string \<times> string) option \<Rightarrow> (int \<times> project) handler" where
  "handleCreateProject q req =
     signed_in q (\<lambda>u. with_loaded_repo q PermWrite (\<lambda>repo. parsed req (\<lambda>(name, description).
       on_boards (\<lambda>_. 400) (project_Create (fst u) (Some repo) name description))))"

text \<open>A board of no repository is shown in every repository.\<close>

definition handleGetProject :: "bench_request \<Rightarrow> int option \<Rightarrow> board handler" where
  "handleGetProject q idp =
     with_loaded_repo q PermRead (\<lambda>repo. parsed idp (\<lambda>i b.
       case Board (be_boards b) i of
         Inl _ \<Rightarrow> (Err 404, b)
       | Inr x \<Rightarrow> if pj_RepoID (snd (fst x)) \<noteq> None \<and> pj_RepoID (snd (fst x)) \<noteq> Some repo then (Err 404, b) else (Ok x, b)))"

text \<open>The handlers of cards and columns check the repository of the URL and take the column, the card or the board
  from the request as it is.\<close>

definition handleAddProjectCard ::
  "bench_request \<Rightarrow> (int \<times> int option \<times> int option \<times> string) option \<Rightarrow> (int \<times> card) handler" where
  "handleAddProjectCard q req =
     signed_in q (\<lambda>_. with_loaded_repo q PermWrite (\<lambda>_. parsed req (\<lambda>(column, issue, pull, title).
       on_boards (\<lambda>_. 500) (AddCard column issue pull title))))"

definition handleMoveProjectCard :: "bench_request \<Rightarrow> int option \<Rightarrow> (int \<times> int) option \<Rightarrow> unit handler" where
  "handleMoveProjectCard q cardID req =
     signed_in q (\<lambda>_. with_loaded_repo q PermWrite (\<lambda>_. parsed cardID (\<lambda>i. parsed req (\<lambda>(column, position).
       on_boards (\<lambda>_. 404) (MoveCard i column position)))))"

definition handleDeleteProjectCard :: "bench_request \<Rightarrow> int option \<Rightarrow> unit handler" where
  "handleDeleteProjectCard q cardID =
     signed_in q (\<lambda>_. with_loaded_repo q PermWrite (\<lambda>_. parsed cardID (\<lambda>i. on_boards (\<lambda>_. 500) (DeleteCard i))))"

definition handleAddProjectColumn :: "bench_request \<Rightarrow> int option \<Rightarrow> string option \<Rightarrow> (int \<times> board_column) handler" where
  "handleAddProjectColumn q idp req =
     signed_in q (\<lambda>_. with_loaded_repo q PermWrite (\<lambda>_. parsed idp (\<lambda>i. parsed req (\<lambda>name.
       on_boards (\<lambda>_. 500) (AddColumn i name)))))"

section \<open>Wiki\<close>

definition handleListWikiPages :: "bench_request \<Rightarrow> (int \<times> wiki_page) list handler" where
  "handleListWikiPages q = with_session_repo q PermRead (\<lambda>repo. reads (\<lambda>_. 500) (\<lambda>b. wiki_List (be_wiki b) repo))"

definition handleGetWikiPage :: "bench_request \<Rightarrow> string \<Rightarrow> (int \<times> wiki_page) handler" where
  "handleGetWikiPage q slug = with_session_repo q PermRead (\<lambda>repo. reads (\<lambda>_. 404) (\<lambda>b. BySlug (be_wiki b) repo slug))"

definition handleCreateWikiPage :: "bench_request \<Rightarrow> (string \<times> string \<times> string) option \<Rightarrow> (int \<times> wiki_page) handler" where
  "handleCreateWikiPage q req =
     signed_in q (\<lambda>_. with_session_repo q PermWrite (\<lambda>repo. parsed req (\<lambda>(slug, title, body).
       on_wiki (\<lambda>_. 500) (wiki_Create repo slug title body))))"

text \<open>The title stays when the body has none.\<close>

definition handleUpdateWikiPage ::
  "bench_request \<Rightarrow> string \<Rightarrow> (string \<times> string) option \<Rightarrow> unit handler" where
  "handleUpdateWikiPage q slug req =
     signed_in q (\<lambda>_. with_session_repo q PermWrite (\<lambda>repo b.
       case BySlug (be_wiki b) repo slug of
         Inl _ \<Rightarrow> (Err 404, b)
       | Inr (i, page) \<Rightarrow>
           parsed req (\<lambda>(title, body).
             on_wiki (\<lambda>_. 500) (wiki_Update (i, page\<lparr>wp_Title := if title = [] then wp_Title page else title, wp_Body := body\<rparr>))) b))"

definition handleDeleteWikiPage :: "bench_request \<Rightarrow> string \<Rightarrow> unit handler" where
  "handleDeleteWikiPage q slug =
     signed_in q (\<lambda>_. with_session_repo q PermWrite (\<lambda>repo. on_wiki (\<lambda>_. 404) (wiki_Delete repo slug)))"

section \<open>Gists\<close>

definition handleListGists :: "bench_request \<Rightarrow> (int \<times> gist) list handler" where
  "handleListGists q = signed_in q (\<lambda>u. reads (\<lambda>_. 500) (\<lambda>b. gist_ListByUser (be_gists b) (fst u)))"

definition handleCreateGist :: "bench_request \<Rightarrow> (string \<times> bool) option \<Rightarrow> (int \<times> gist) handler" where
  "handleCreateGist q req =
     signed_in q (\<lambda>u. parsed req (\<lambda>(description, public). on_gists (\<lambda>_. 500) (gist_Create (fst u) description public)))"

definition handleGetGist :: "bench_request \<Rightarrow> int option \<Rightarrow> (int \<times> gist) handler" where
  "handleGetGist q idp =
     signed_in q (\<lambda>u. parsed idp (\<lambda>i b.
       case gist_ByID (be_gists b) i of
         Inl _ \<Rightarrow> (Err 404, b)
       | Inr g \<Rightarrow>
           if \<not> gi_IsPublic (snd g) \<and> gi_UserID (snd g) \<noteq> fst u \<and> \<not> u_IsAdmin (snd u) then (Err 404, b) else (Ok g, b)))"

definition handleDeleteGist :: "bench_request \<Rightarrow> int option \<Rightarrow> unit handler" where
  "handleDeleteGist q idp = signed_in q (\<lambda>u. parsed idp (\<lambda>i. on_gists (\<lambda>_. 404) (gist_Delete (fst u) i)))"

section \<open>Releases\<close>

text \<open>Drafts are listed and answered like published releases.\<close>

definition handleListReleases :: "bench_request \<Rightarrow> (int \<times> release) list handler" where
  "handleListReleases q = with_session_repo q PermRead (\<lambda>repo. reads (\<lambda>_. 500) (\<lambda>b. release_List (be_releases b) repo))"

definition handleGetRelease :: "bench_request \<Rightarrow> string \<Rightarrow> (int \<times> release) handler" where
  "handleGetRelease q tag = with_session_repo q PermRead (\<lambda>repo. reads (\<lambda>_. 404) (\<lambda>b. ByTag (be_releases b) repo tag))"

definition handleCreateRelease :: "bench_request \<Rightarrow> (string \<times> string \<times> string) option \<Rightarrow> (int \<times> release) handler" where
  "handleCreateRelease q req =
     signed_in q (\<lambda>u. with_session_repo q PermWrite (\<lambda>repo. parsed req (\<lambda>(tag, name, body).
       on_releases (\<lambda>_. 500) (release_Create repo (fst u) tag name body))))"

definition repo_release :: "int \<Rightarrow> string \<Rightarrow> (int \<Rightarrow> 'a handler) \<Rightarrow> 'a handler" where
  "repo_release repo tag h b =
     (case ByTag (be_releases b) repo tag of Inl _ \<Rightarrow> (Err 404, b) | Inr rel \<Rightarrow> h (fst rel) b)"

definition handlePublishRelease :: "bench_request \<Rightarrow> string \<Rightarrow> unit handler" where
  "handlePublishRelease q tag =
     signed_in q (\<lambda>_. with_session_repo q PermWrite (\<lambda>repo. repo_release repo tag (\<lambda>i. on_releases (\<lambda>_. 500) (Publish i))))"

definition handleListReleaseAssets :: "bench_request \<Rightarrow> string \<Rightarrow> (int \<times> asset) list handler" where
  "handleListReleaseAssets q tag =
     with_session_repo q PermRead (\<lambda>repo. repo_release repo tag (\<lambda>i. reads (\<lambda>_. 500) (\<lambda>b. ListAssets (be_releases b) i)))"

text \<open>An upload: what is read of the body, whether the body was read to its end, and whether the directory and the file
  can be made. The file is truncated before the body is read, and what was read stays when reading fails.\<close>

record asset_upload =
  ul_name :: string
  ul_content :: string
  ul_complete :: bool
  ul_creates :: bool

definition handleUploadReleaseAsset :: "bench_request \<Rightarrow> string \<Rightarrow> asset_upload \<Rightarrow> (int \<times> asset) handler" where
  "handleUploadReleaseAsset q tag x =
     signed_in q (\<lambda>_. with_session_repo q PermWrite (\<lambda>repo. repo_release repo tag (\<lambda>i b.
       if ul_name x = [] then (Err 400, b)
       else if \<not> is_ok (ValidateName (ul_name x)) then (Err 400, b)
       else if \<not> ul_creates x then (Err 500, b)
       else let b' = b\<lparr>be_files := (be_files b)((i, ul_name x) \<mapsto> ul_content x)\<rparr> in
         if \<not> ul_complete x then (Err 500, b')
         else on_releases (\<lambda>_. 500) (AddAsset i (ul_name x) (int (length (ul_content x))) (i, ul_name x)) b')))"

definition handleDownloadReleaseAsset :: "bench_request \<Rightarrow> string \<Rightarrow> string \<Rightarrow> string handler" where
  "handleDownloadReleaseAsset q tag name =
     with_session_repo q PermRead (\<lambda>repo. repo_release repo tag (\<lambda>i b.
       case ListAssets (be_releases b) i of
         Inl _ \<Rightarrow> (Err 500, b)
       | Inr assets \<Rightarrow>
           (case List.find (\<lambda>(_, a). as_Name a = name) assets of
              None \<Rightarrow> (Err 404, b)
            | Some (_, a) \<Rightarrow> (case be_files b (as_StoredPath a) of None \<Rightarrow> (Err 404, b) | Some c \<Rightarrow> (Ok c, b)))))"

section \<open>Topics\<close>

definition handleListTopics :: "bench_request \<Rightarrow> string list handler" where
  "handleListTopics q = with_loaded_repo q PermRead (\<lambda>repo. reads (\<lambda>_. 500) (\<lambda>b. topic_List (be_topics b) repo))"

text \<open>One operation for each name, until one fails.\<close>

fun for_topics ::
  "(string \<Rightarrow> topic_row sql \<Rightarrow> (topic_error + unit) \<times> topic_row sql) \<Rightarrow> string list \<Rightarrow> topic_row sql \<Rightarrow>
     (topic_error + unit) \<times> topic_row sql" where
  "for_topics f [] s = (Ok (), s)"
| "for_topics f (n # ns) s = (case f n s of (Inl e, s1) \<Rightarrow> (Err e, s1) | (Inr _, s1) \<Rightarrow> for_topics f ns s1)"

text \<open>The topics there are go first, then those of the body come; the topics of before are not put back.\<close>

definition handleSetTopics :: "bench_request \<Rightarrow> string list option \<Rightarrow> string list handler" where
  "handleSetTopics q req =
     with_loaded_repo q PermWrite (\<lambda>repo. parsed req (\<lambda>names b.
       case topic_List (be_topics b) repo of
         Inl _ \<Rightarrow> (Err 500, b)
       | Inr existing \<Rightarrow>
           (case for_topics (topic_Remove repo) existing (be_topics b) of
              (Inl _, s1) \<Rightarrow> (Err 500, b\<lparr>be_topics := s1\<rparr>)
            | (Inr _, s1) \<Rightarrow>
                (case for_topics (topic_Add repo) names s1 of
                   (Inl _, s2) \<Rightarrow> (Err 400, b\<lparr>be_topics := s2\<rparr>)
                 | (Inr _, s2) \<Rightarrow>
                     (case topic_List s2 repo of
                        Inl _ \<Rightarrow> (Err 500, b\<lparr>be_topics := s2\<rparr>) | Inr ts \<Rightarrow> (Ok ts, b\<lparr>be_topics := s2\<rparr>))))))"

section \<open>All requests\<close>

datatype bench_call =
    Categories
  | CreateDiscussion "(string \<times> string \<times> int option) option"
  | CommentDiscussion "int option" "string option"
  | AnswerDiscussion "int option" "int option"
  | CreateProject "(string \<times> string) option"
  | CreateColumn "int option" "string option"
  | CreateCard "(int \<times> int option \<times> int option \<times> string) option"
  | ShiftCard "int option" "(int \<times> int) option"
  | RemoveCard "int option"
  | CreateWikiPage "(string \<times> string \<times> string) option"
  | UpdateWikiPage string "(string \<times> string) option"
  | DeleteWikiPage string
  | CreateGist "(string \<times> bool) option"
  | DeleteGist "int option"
  | CreateRelease "(string \<times> string \<times> string) option"
  | PublishRelease string
  | UploadAsset string asset_upload
  | SetTopics "string list option"

text \<open>What a request leaves behind.\<close>

primrec bench_serve :: "bench_call \<Rightarrow> bench_request \<Rightarrow> bench \<Rightarrow> bench" where
  "bench_serve Categories q b = snd (handleListDiscussionCategories q b)"
| "bench_serve (CreateDiscussion x) q b = snd (handleCreateDiscussion q x b)"
| "bench_serve (CommentDiscussion i x) q b = snd (handleCreateDiscussionComment q i x b)"
| "bench_serve (AnswerDiscussion i x) q b = snd (handleMarkDiscussionAnswer q i x b)"
| "bench_serve (CreateProject x) q b = snd (handleCreateProject q x b)"
| "bench_serve (CreateColumn i x) q b = snd (handleAddProjectColumn q i x b)"
| "bench_serve (CreateCard x) q b = snd (handleAddProjectCard q x b)"
| "bench_serve (ShiftCard i x) q b = snd (handleMoveProjectCard q i x b)"
| "bench_serve (RemoveCard i) q b = snd (handleDeleteProjectCard q i b)"
| "bench_serve (CreateWikiPage x) q b = snd (handleCreateWikiPage q x b)"
| "bench_serve (UpdateWikiPage n x) q b = snd (handleUpdateWikiPage q n x b)"
| "bench_serve (DeleteWikiPage n) q b = snd (handleDeleteWikiPage q n b)"
| "bench_serve (CreateGist x) q b = snd (handleCreateGist q x b)"
| "bench_serve (DeleteGist i) q b = snd (handleDeleteGist q i b)"
| "bench_serve (CreateRelease x) q b = snd (handleCreateRelease q x b)"
| "bench_serve (PublishRelease n) q b = snd (handlePublishRelease q n b)"
| "bench_serve (UploadAsset n x) q b = snd (handleUploadReleaseAsset q n x b)"
| "bench_serve (SetTopics x) q b = snd (handleSetTopics q x b)"

definition bench_run :: "(bench_call \<times> bench_request) list \<Rightarrow> bench \<Rightarrow> bench" where
  "bench_run = fold (\<lambda>(c, q). bench_serve c q)"

end
