(* ===== verification/WorkspaceClaims.thy ===== *)
theory WorkspaceClaims
  imports Workspace RepoClaims
begin

text \<open>
  What holds of the requests of \<open>Workspace\<close>: what a repository publishes changes with permission to write in it only,
  uploaded files come back, an accepted answer is one at most; and the boards that any writer of any repository changes.
\<close>

section \<open>What a repository publishes\<close>

text \<open>The discussions, boards, pages, releases with their assets and files, and topics of a repository.\<close>

abbreviation releases_of :: "int \<Rightarrow> bench \<Rightarrow> (int \<times> release) list" where
  "releases_of r b \<equiv> tbl_select (\<lambda>_ x. rl_RepoID x = r) (rl_releases (be_releases b))"

definition release_ids :: "int \<Rightarrow> bench \<Rightarrow> int set" where
  "release_ids r b = fst ` set (releases_of r b)"

record published_items =
  pi_discussions :: "(int \<times> discussion) list"
  pi_projects :: "(int \<times> project) list"
  pi_pages :: "(int \<times> wiki_page) list"
  pi_releases :: "(int \<times> release) list"
  pi_assets :: "(int \<times> asset) list"
  pi_files :: "asset_path \<Rightarrow> string option"
  pi_topics :: "(int \<times> topic_row) list"

definition published :: "int \<Rightarrow> bench \<Rightarrow> published_items" where
  "published r b =
     \<lparr>pi_discussions = tbl_select (\<lambda>_ d. ds_RepoID d = r) (bo_discussions (be_boards b)),
      pi_projects = tbl_select (\<lambda>_ p. pj_RepoID p = Some r) (bo_projects (be_boards b)),
      pi_pages = tbl_select (\<lambda>_ p. wp_RepoID p = r) (tab (be_wiki b)),
      pi_releases = releases_of r b,
      pi_assets = tbl_select (\<lambda>_ a. as_ReleaseID a \<in> release_ids r b) (rl_assets (be_releases b)),
      pi_files = be_files b |` {p. fst p \<in> release_ids r b},
      pi_topics = tbl_select (\<lambda>_ t. tr_RepoID t = r) (tab (be_topics b))\<rparr>"

definition bench_wf :: "bench \<Rightarrow> bool" where
  "bench_wf b \<longleftrightarrow> tbl_wf (bo_discussions (be_boards b)) \<and> tbl_wf (tab (be_wiki b)) \<and> tbl_wf (rl_releases (be_releases b))
     \<and> (\<forall>(j, a) \<in> set (rows (rl_assets (be_releases b))). as_StoredPath a = (as_ReleaseID a, as_Name a))"

text \<open>Nothing gives the account of the request, if it has one, permission to write in the repository.\<close>

definition no_writer :: "bench_request \<Rightarrow> int \<Rightarrow> bench \<Rightarrow> bool" where
  "no_writer q r b \<longleftrightarrow> \<not> (\<exists>x row. fst (basic_user (bq_env q) (bq_now q) (bq_visit q) (be_site b)) = Some x
     \<and> (r, row) \<in> set (rows (rd_repos (si_repos (be_site b)))) \<and> granted (si_repos (be_site b)) (r, row) x PermWrite)"

lemma url_repo_row: "url_repo owner name s = Ok rp \<Longrightarrow> rp \<in> set (rows (rd_repos (si_repos s)))"
  using url_repo_Ok [of owner name s rp] repo_scanOne_Ok(1) unfolding ByOwnerName_def by blast

lemma with_loaded_repo_cases:
  obtains (refused) code s where "with_loaded_repo q need h b = (Err code, b\<lparr>be_site := s\<rparr>)"
  | (let_in) repo s where "with_loaded_repo q need h b = h repo (b\<lparr>be_site := s\<rparr>)" and "need = PermWrite \<Longrightarrow> no_writer q r b \<Longrightarrow> repo \<noteq> r"
proof (cases "loadRepoAndPerm (bq_env q) (bq_now q) (bq_visit q) (bq_owner q) (bq_repo q) need (be_site b)")
  case (Pair a s)
  show ?thesis
  proof (cases a)
    case (Inl c)
    with Pair refused show ?thesis by (simp add: with_loaded_repo_def)
  next
    case (Inr y)
    then obtain rp u where ok: "loadRepoAndPerm (bq_env q) (bq_now q) (bq_visit q) (bq_owner q) (bq_repo q) need (be_site b) = (Ok (rp, u), s)"
      using Pair by (cases y) auto
    note l = loadRepoAndPerm_Ok [OF ok]
    have "fst rp \<noteq> r" if w: "need = PermWrite" "no_writer q r b"
    proof
      assume "fst rp = r"
      then obtain row where row: "rp = (r, row)" by (cases rp) auto
      obtain perm where "caller_perm s rp u = Ok perm" "PermWrite \<le> perm" using l(4) unfolding w(1) by (auto simp: not_less)
      then obtain x where "u = Some x" "granted (si_repos s) rp x PermWrite" using caller_granted by blast
      then show False using w(2) l(3) basic_user_repos [OF l(3)] url_repo_row [OF l(1)] row by (auto simp: no_writer_def)
    qed
    then show ?thesis using let_in [of "fst rp" s] ok by (simp add: with_loaded_repo_def)
  qed
qed

lemma session_repo_cases:
  obtains (refused) code where "with_session_repo q need h b = (Err code, b)"
  | (let_in) repo where "with_session_repo q need h b = h repo b" and "need = PermWrite \<Longrightarrow> no_writer q r b \<Longrightarrow> repo \<noteq> r"
proof (cases "resolveRepo (bq_visit q) (bq_owner q) (bq_repo q) need (be_site b)")
  case (Inl c)
  with refused show ?thesis by (simp add: with_session_repo_def)
next
  case (Inr y)
  obtain rp u where y: "y = (rp, u)" by (cases y)
  obtain perm where p: "url_repo (bq_owner q) (bq_repo q) (be_site b) = Ok rp" "u = UserFrom (vi_ctx (bq_visit q))"
      "caller_perm (be_site b) rp u = Ok perm" "\<not> perm < need"
    using Inr y by (auto simp: resolveRepo_def Let_def split: sum.splits if_splits)
  have "fst rp \<noteq> r" if w: "need = PermWrite" "no_writer q r b"
  proof
    assume "fst rp = r"
    then obtain row where row: "rp = (r, row)" by (cases rp) auto
    have "PermWrite \<le> perm" using p(4) w(1) by (simp add: not_less)
    then obtain x where "u = Some x" "granted (si_repos (be_site b)) rp x PermWrite" using caller_granted [OF p(3)] by blast
    then show False using w(2) p(2) url_repo_row [OF p(1)] row by (auto simp: no_writer_def basic_user_def)
  qed
  then show ?thesis using let_in [of "fst rp"] Inr y by (simp add: with_session_repo_def)
qed

section \<open>Only writers change it\<close>

lemma published_site [simp]: "published r (b\<lparr>be_site := s\<rparr>) = published r b" "bench_wf (b\<lparr>be_site := s\<rparr>) = bench_wf b"
  "no_writer q r (b\<lparr>be_boards := x\<rparr>) = no_writer q r b"
  by (simp_all add: published_def release_ids_def bench_wf_def no_writer_def)

lemma update_others:
  assumes "tbl_wf t" and "(i, x) \<in> set (rows t)" and "\<not> P x" and "\<And>y. P (f y) = P y"
  shows "tbl_select (\<lambda>_ y. P y) (tbl_update (\<lambda>j _. j = i) f t) = tbl_select (\<lambda>_ y. P y) t"
proof -
  have "tbl_update (\<lambda>j _. j = i) f t = tbl_update (\<lambda>j y. j = i \<and> \<not> P y) f t"
  proof -
    have "j = i \<longleftrightarrow> j = i \<and> \<not> P y" if "(j, y) \<in> set (rows t)" for j y
      using that assms(2,3) tbl_by_id_iff [OF assms(1)] by (metis option.inject)
    then show ?thesis unfolding tbl_update_def by (auto intro!: arg_cong [where f = "\<lambda>r. t\<lparr>rows := r\<rparr>"] map_cong)
  qed
  also have "tbl_select (\<lambda>_ y. P y) \<dots> = tbl_select (\<lambda>_ y. P y) t"
    using assms(4) by (auto intro!: select_update_other)
  finally show ?thesis .
qed

lemma for_topics_keep:
  assumes keep: "\<And>n s. tbl_select P (tab (snd (f n s))) = tbl_select P (tab s)"
  shows "tbl_select P (tab (snd (for_topics f ns s))) = tbl_select P (tab s)"
proof (induction ns arbitrary: s)
  case (Cons n ns)
  obtain a s1 where f: "f n s = (a, s1)" by fastforce
  then show ?case using keep [of n s] Cons.IH [of s1] by (cases a) simp_all
qed simp

lemmas bench_ops = on_boards_def on_wiki_def on_gists_def on_releases_def parsed_def refuse_def reads_def
  repo_discussion_def repo_release_def seed_categories_def

lemma foreign_discussions:
  "repo \<noteq> r \<Longrightarrow> tbl_select (\<lambda>_ d. ds_RepoID d = r) (bo_discussions (snd (discussion_Create repo u cat t x db)))
     = tbl_select (\<lambda>_ d. ds_RepoID d = r) (bo_discussions db)"
  "bo_projects (snd (discussion_Create repo u cat t x db)) = bo_projects db"
  "bo_discussions (snd (EnsureCategories repo db)) = bo_discussions db"
  "bo_projects (snd (EnsureCategories repo db)) = bo_projects db"
  "bo_discussions (snd (discussion_AddComment i u t db)) = bo_discussions db"
  "bo_projects (snd (discussion_AddComment i u t db)) = bo_projects db"
  "bo_projects (snd (MarkAnswer i j db)) = bo_projects db"
  by (auto simp: discussion_Create_def EnsureCategories_def discussion_AddComment_def MarkAnswer_def Let_def select_insert
      split: sum.split)

lemma foreign_answer:
  assumes "tbl_wf (bo_discussions db)" and "discussion_ByID db i = Ok (j, d)" and "ds_RepoID d \<noteq> r"
  shows "tbl_select (\<lambda>_ d. ds_RepoID d = r) (bo_discussions (snd (MarkAnswer i c db))) = tbl_select (\<lambda>_ d. ds_RepoID d = r) (bo_discussions db)"
proof -
  have "(i, d) \<in> set (rows (bo_discussions db))"
    using assms(2) by (auto simp: discussion_ByID_def split: if_splits option.splits dest: tbl_find_Some)
  then show ?thesis
    using assms by (auto simp: MarkAnswer_def Let_def intro!: update_others [where P = "\<lambda>d. ds_RepoID d = r"])
qed

lemma foreign_projects:
  "repo \<noteq> r \<Longrightarrow> tbl_select (\<lambda>_ p. pj_RepoID p = Some r) (bo_projects (snd (project_Create u (Some repo) n t db)))
     = tbl_select (\<lambda>_ p. pj_RepoID p = Some r) (bo_projects db)"
  "bo_discussions (snd (project_Create u (Some repo) n t db)) = bo_discussions db"
  "bo_discussions (snd (AddCard k a p t db)) = bo_discussions db" "bo_projects (snd (AddCard k a p t db)) = bo_projects db"
  "bo_discussions (snd (MoveCard i k x db)) = bo_discussions db" "bo_projects (snd (MoveCard i k x db)) = bo_projects db"
  "bo_discussions (snd (DeleteCard i db)) = bo_discussions db" "bo_projects (snd (DeleteCard i db)) = bo_projects db"
  "bo_discussions (snd (AddColumn j t db)) = bo_discussions db" "bo_projects (snd (AddColumn j t db)) = bo_projects db"
  by (auto simp: project_Create_def AddCard_def MoveCard_def DeleteCard_def AddColumn_def Let_def select_insert)

lemma foreign_pages:
  "repo \<noteq> r \<Longrightarrow> tbl_select (\<lambda>_ p. wp_RepoID p = r) (tab (snd (wiki_Create repo n t x s))) = tbl_select (\<lambda>_ p. wp_RepoID p = r) (tab s)"
  "repo \<noteq> r \<Longrightarrow> tbl_select (\<lambda>_ p. wp_RepoID p = r) (tab (snd (wiki_Delete repo n s))) = tbl_select (\<lambda>_ p. wp_RepoID p = r) (tab s)"
  "repo \<noteq> r \<Longrightarrow> tbl_select (\<lambda>_ t. tr_RepoID t = r) (tab (snd (topic_Add repo n z))) = tbl_select (\<lambda>_ t. tr_RepoID t = r) (tab z)"
  "repo \<noteq> r \<Longrightarrow> tbl_select (\<lambda>_ t. tr_RepoID t = r) (tab (snd (topic_Remove repo n z))) = tbl_select (\<lambda>_ t. tr_RepoID t = r) (tab z)"
  by (auto simp: wiki_Create_def wiki_Delete_def topic_Add_def topic_Remove_def Let_def select_insert
      split: sum.split intro!: select_delete_other)

lemma foreign_page_update:
  assumes "tbl_wf (tab s)" and "BySlug s repo slug = Ok (i, p)" and "repo \<noteq> r"
  shows "tbl_select (\<lambda>_ p. wp_RepoID p = r) (tab (snd (wiki_Update (i, p') s))) = tbl_select (\<lambda>_ p. wp_RepoID p = r) (tab s)"
proof -
  have "(i, p) \<in> set (rows (tab s))" "wp_RepoID p = repo"
    using assms(2) by (auto simp: BySlug_def wiki_one_def split: if_splits option.splits dest: tbl_find_Some)
  then show ?thesis
    using assms by (auto simp: wiki_Update_def Let_def intro!: update_others [where P = "\<lambda>p. wp_RepoID p = r"])
qed

lemma foreign_release:
  assumes "bench_wf b" and "ByTag (be_releases b) repo tag = Ok (i, x)" and "repo \<noteq> r"
  shows "i \<notin> release_ids r b"
    and "tbl_select (\<lambda>_ x. rl_RepoID x = r) (rl_releases (snd (Publish i (be_releases b)))) = releases_of r b"
proof -
  have row: "(i, x) \<in> set (rows (rl_releases (be_releases b)))" "rl_RepoID x = repo"
    using assms(2) by (auto simp: ByTag_def release_one_def split: if_splits option.splits dest: tbl_find_Some)
  have wf: "tbl_wf (rl_releases (be_releases b))" using assms(1) by (simp add: bench_wf_def)
  show "i \<notin> release_ids r b"
    using row assms(3) tbl_by_id_iff [OF wf] by (auto simp: release_ids_def) (metis option.inject)
  show "tbl_select (\<lambda>_ x. rl_RepoID x = r) (rl_releases (snd (Publish i (be_releases b)))) = releases_of r b"
    using row wf assms(3) by (auto simp: Publish_def Let_def intro!: update_others [where P = "\<lambda>x. rl_RepoID x = r"])
qed

lemma foreign_releases:
  "repo \<noteq> r \<Longrightarrow> tbl_select (\<lambda>_ x. rl_RepoID x = r) (rl_releases (snd (release_Create repo u t n x z)))
     = tbl_select (\<lambda>_ x. rl_RepoID x = r) (rl_releases z)"
  "rl_assets (snd (release_Create repo u t n x z)) = rl_assets z"
  "rl_assets (snd (Publish i z)) = rl_assets z"
  "rl_releases (snd (AddAsset i n k p z)) = rl_releases z"
  "i \<notin> A \<Longrightarrow> tbl_select (\<lambda>_ a. as_ReleaseID a \<in> A) (rl_assets (snd (AddAsset i n k p z))) = tbl_select (\<lambda>_ a. as_ReleaseID a \<in> A) (rl_assets z)"
  by (auto simp: release_Create_def Publish_def AddAsset_def Let_def select_insert)

lemma restrict_other: "fst p \<notin> A \<Longrightarrow> m(p \<mapsto> x) |` {p. fst p \<in> A} = m |` {p. fst p \<in> A}"
  by (auto simp: restrict_map_def fun_eq_iff)

lemmas bench_handlers = handleListDiscussionCategories_def handleCreateDiscussion_def handleCreateDiscussionComment_def
  handleMarkDiscussionAnswer_def handleCreateProject_def handleAddProjectColumn_def handleAddProjectCard_def
  handleMoveProjectCard_def handleDeleteProjectCard_def handleCreateWikiPage_def handleUpdateWikiPage_def
  handleDeleteWikiPage_def handleCreateGist_def handleDeleteGist_def handleCreateRelease_def handlePublishRelease_def
  handleUploadReleaseAsset_def handleSetTopics_def

text \<open>A handler behind a check for writing changes nothing of other repositories when what runs behind it does not.\<close>

lemma behind_repo:
  assumes "bench_wf b" and "no_writer q r b"
    and "\<And>repo b. bench_wf b \<Longrightarrow> repo \<noteq> r \<Longrightarrow> published r (snd (h repo b)) = published r b"
  shows "published r (snd (with_loaded_repo q PermWrite h b)) = published r b"
proof (cases rule: with_loaded_repo_cases [where q = q and need = PermWrite and h = h and b = b and r = r])
  case (let_in repo s)
  with assms(2) have "repo \<noteq> r" by simp
  with assms(1,3) let_in(1) show ?thesis by simp
qed simp

lemma behind_session:
  assumes "bench_wf b" and "no_writer q r b"
    and "\<And>repo b. bench_wf b \<Longrightarrow> repo \<noteq> r \<Longrightarrow> published r (snd (h repo b)) = published r b"
  shows "published r (snd (with_session_repo q PermWrite h b)) = published r b"
proof (cases rule: session_repo_cases [where q = q and need = PermWrite and h = h and b = b and r = r])
  case (let_in repo)
  with assms(2) have "repo \<noteq> r" by simp
  with assms(1,3) let_in(1) show ?thesis by simp
qed simp

lemma behind_read:
  assumes "\<And>repo b. published r (snd (h repo b)) = published r b"
  shows "published r (snd (with_loaded_repo q need h b)) = published r b"
  by (cases rule: with_loaded_repo_cases [where q = q and need = need and h = h and b = b and r = r]) (simp_all add: assms)

lemma behind_sign_in: "(\<And>u. published r (snd (h u b)) = published r b) \<Longrightarrow> published r (snd (signed_in q h b)) = published r b"
  by (simp add: signed_in_def refuse_def split: option.split)

lemmas published_split = published_def release_ids_def

lemma release_ids_upload:
  "release_ids r (b\<lparr>be_files := f\<rparr>) = release_ids r b"
  "release_ids r (b\<lparr>be_files := f, be_releases := snd (AddAsset i n k p (be_releases b))\<rparr>) = release_ids r b"
  by (simp_all add: release_ids_def foreign_releases)

lemma foreign_upload:
  assumes "i \<notin> release_ids r b"
  shows "published r (b\<lparr>be_files := (be_files b)((i, n) \<mapsto> x)\<rparr>) = published r b"
    and "published r (b\<lparr>be_files := (be_files b)((i, n) \<mapsto> x), be_releases := snd (AddAsset i n k p (be_releases b))\<rparr>) = published r b"
  using assms by (simp_all add: published_def release_ids_upload foreign_releases restrict_other)

lemma foreign_topics:
  assumes "repo \<noteq> r"
  shows "for_topics (topic_Remove repo) ns s = (a, s1) \<Longrightarrow> tbl_select (\<lambda>_ t. tr_RepoID t = r) (tab s1) = tbl_select (\<lambda>_ t. tr_RepoID t = r) (tab s)"
    and "for_topics (topic_Add repo) ns s = (a, s1) \<Longrightarrow> tbl_select (\<lambda>_ t. tr_RepoID t = r) (tab s1) = tbl_select (\<lambda>_ t. tr_RepoID t = r) (tab s)"
  using for_topics_keep [of "\<lambda>_ t. tr_RepoID t = r" "topic_Remove repo" ns s] for_topics_keep [of "\<lambda>_ t. tr_RepoID t = r" "topic_Add repo" ns s]
    foreign_pages(3,4) [OF assms] by auto

lemma published_step:
  assumes "bench_wf b" and "no_writer q r b"
  shows "published r (bench_serve c q b) = published r b"
proof (cases c)
  case Categories
  show ?thesis unfolding Categories bench_serve.simps bench_handlers
    by (rule behind_read) (simp add: published_split foreign_discussions bench_ops split: sum.split)
next
  case (CreateDiscussion x)
  show ?thesis unfolding CreateDiscussion bench_serve.simps bench_handlers
    by (intro behind_sign_in behind_repo assms)
      (auto simp: published_split foreign_discussions bench_ops case_prod_unfold split: option.split)
next
  case (CommentDiscussion i x)
  show ?thesis unfolding CommentDiscussion bench_serve.simps bench_handlers
    by (intro behind_sign_in behind_read)
      (auto simp: published_split foreign_discussions bench_ops case_prod_unfold split: option.split sum.split)
next
  case (AnswerDiscussion i x)
  show ?thesis unfolding AnswerDiscussion bench_serve.simps bench_handlers
    by (intro behind_sign_in behind_repo assms)
      (auto simp: published_split foreign_discussions foreign_answer bench_wf_def bench_ops case_prod_unfold split: option.split sum.split)
next
  case (CreateProject x)
  show ?thesis unfolding CreateProject bench_serve.simps bench_handlers
    by (intro behind_sign_in behind_repo assms)
      (auto simp: published_split foreign_projects bench_ops case_prod_unfold split: option.split)
next
  case (CreateColumn i x)
  show ?thesis unfolding CreateColumn bench_serve.simps bench_handlers
    by (intro behind_sign_in behind_repo assms)
      (auto simp: published_split foreign_projects bench_ops case_prod_unfold split: option.split)
next
  case (CreateCard x)
  show ?thesis unfolding CreateCard bench_serve.simps bench_handlers
    by (intro behind_sign_in behind_repo assms)
      (auto simp: published_split foreign_projects bench_ops case_prod_unfold split: option.split)
next
  case (ShiftCard i x)
  show ?thesis unfolding ShiftCard bench_serve.simps bench_handlers
    by (intro behind_sign_in behind_repo assms)
      (auto simp: published_split foreign_projects bench_ops case_prod_unfold split: option.split)
next
  case (RemoveCard i)
  show ?thesis unfolding RemoveCard bench_serve.simps bench_handlers
    by (intro behind_sign_in behind_repo assms)
      (auto simp: published_split foreign_projects bench_ops case_prod_unfold split: option.split)
next
  case (CreateWikiPage x)
  show ?thesis unfolding CreateWikiPage bench_serve.simps bench_handlers
    by (intro behind_sign_in behind_session assms)
      (auto simp: published_split foreign_pages bench_ops case_prod_unfold split: option.split)
next
  case (UpdateWikiPage n x)
  show ?thesis unfolding UpdateWikiPage bench_serve.simps bench_handlers
    by (intro behind_sign_in behind_session assms)
      (auto simp: published_split foreign_page_update bench_wf_def bench_ops case_prod_unfold split: option.split sum.split)
next
  case (DeleteWikiPage n)
  show ?thesis unfolding DeleteWikiPage bench_serve.simps bench_handlers
    by (intro behind_sign_in behind_session assms)
      (auto simp: published_split foreign_pages bench_ops case_prod_unfold split: option.split)
next
  case (CreateGist x)
  show ?thesis unfolding CreateGist bench_serve.simps bench_handlers
    by (intro behind_sign_in) (auto simp: published_split bench_ops case_prod_unfold split: option.split)
next
  case (DeleteGist x)
  show ?thesis unfolding DeleteGist bench_serve.simps bench_handlers
    by (intro behind_sign_in) (auto simp: published_split bench_ops case_prod_unfold split: option.split)
next
  case (CreateRelease x)
  show ?thesis unfolding CreateRelease bench_serve.simps bench_handlers
    by (intro behind_sign_in behind_session assms)
      (auto simp: published_split foreign_releases bench_ops case_prod_unfold split: option.split)
next
  case (PublishRelease n)
  show ?thesis unfolding PublishRelease bench_serve.simps bench_handlers
    by (intro behind_sign_in behind_session assms)
      (auto simp: published_split foreign_releases foreign_release(2) bench_ops case_prod_unfold split: option.split sum.split)
next
  case (UploadAsset n x)
  show ?thesis unfolding UploadAsset bench_serve.simps bench_handlers
    by (intro behind_sign_in behind_session assms)
      (auto simp: foreign_upload foreign_release(1) Let_def bench_ops case_prod_unfold split: option.split sum.split)
next
  case (SetTopics x)
  show ?thesis unfolding SetTopics bench_serve.simps bench_handlers
    by (intro behind_repo assms)
      (auto simp: published_split bench_ops foreign_topics split: option.split sum.split prod.split)
qed

section \<open>What every request keeps\<close>

text \<open>A property of the tables that every operation keeps is kept by every handler.\<close>

lemma kept_behind:
  assumes "\<And>repo b. P b \<Longrightarrow> P (snd (h repo b))" and "\<And>b s. P (b\<lparr>be_site := s\<rparr>) = P b" and "P b"
  shows "P (snd (with_loaded_repo q need h b))" and "P (snd (with_session_repo q need h b))"
  using assms by (auto simp: with_loaded_repo_def with_session_repo_def split: prod.split sum.split)

lemma kept_signed_in: "(\<And>u b. P b \<Longrightarrow> P (snd (h u b))) \<Longrightarrow> P b \<Longrightarrow> P (snd (signed_in q h b))"
  by (simp add: signed_in_def refuse_def split: option.split)

lemma bench_wf_parts:
  "bench_wf b \<Longrightarrow> tbl_wf (bo_discussions x) \<Longrightarrow> bench_wf (b\<lparr>be_boards := x\<rparr>)"
  "bench_wf b \<Longrightarrow> tbl_wf (tab w) \<Longrightarrow> bench_wf (b\<lparr>be_wiki := w\<rparr>)"
  "bench_wf (b\<lparr>be_gists := g\<rparr>) = bench_wf b" "bench_wf (b\<lparr>be_topics := t\<rparr>) = bench_wf b" "bench_wf (b\<lparr>be_files := f\<rparr>) = bench_wf b"
  "bench_wf b \<Longrightarrow> tbl_wf (rl_releases z) \<Longrightarrow>
     (\<forall>(j, a) \<in> set (rows (rl_assets z)). as_StoredPath a = (as_ReleaseID a, as_Name a)) \<Longrightarrow> bench_wf (b\<lparr>be_releases := z\<rparr>)"
  by (simp_all add: bench_wf_def)

lemma services_wf:
  "tbl_wf (bo_discussions db) \<Longrightarrow> tbl_wf (bo_discussions (snd (discussion_Create i u cat t x db)))"
  "tbl_wf (bo_discussions db) \<Longrightarrow> tbl_wf (bo_discussions (snd (MarkAnswer i j db)))"
  "bench_wf b \<Longrightarrow> tbl_wf (tab (snd (wiki_Create i n t x (be_wiki b))))"
  "bench_wf b \<Longrightarrow> tbl_wf (tab (snd (wiki_Update p (be_wiki b))))"
  "bench_wf b \<Longrightarrow> tbl_wf (tab (snd (wiki_Delete i n (be_wiki b))))"
  "bench_wf b \<Longrightarrow> bench_wf (b\<lparr>be_releases := snd (release_Create i u t n x (be_releases b))\<rparr>)"
  "bench_wf b \<Longrightarrow> bench_wf (b\<lparr>be_releases := snd (Publish i (be_releases b))\<rparr>)"
  "bench_wf b \<Longrightarrow> bench_wf (b\<lparr>be_files := f, be_releases := snd (AddAsset i n sz (i, n) (be_releases b))\<rparr>)"
  by (auto simp: bench_wf_def discussion_Create_def MarkAnswer_def wiki_Create_def wiki_Update_def wiki_Delete_def
      release_Create_def Publish_def AddAsset_def Let_def tbl_wf_insert tbl_wf_delete tbl_wf_update split: sum.split)

lemma boards_wf:
  "bench_wf b \<Longrightarrow> tbl_wf (bo_discussions (be_boards b))"
  by (simp add: bench_wf_def)

lemmas board_same = foreign_discussions(3,5) foreign_projects(2,3,5,7,9)

lemma bench_wf_step:
  assumes "bench_wf b"
  shows "bench_wf (bench_serve c q b)"
  by (cases c)
    (auto simp: bench_handlers bench_ops case_prod_unfold Let_def board_same services_wf boards_wf bench_wf_parts(3-5)
      intro!: kept_signed_in [of bench_wf] kept_behind [of bench_wf] bench_wf_parts(1,2) assms
      split: option.split sum.split prod.split)


section \<open>Uploaded files come back\<close>

text \<open>A release answers to the tag, has an asset of the name, and the file is there.\<close>

definition served :: "int \<Rightarrow> string \<Rightarrow> string \<Rightarrow> int \<Rightarrow> string \<Rightarrow> bench \<Rightarrow> bool" where
  "served r tag n i content b \<longleftrightarrow>
     (\<exists>x. ByTag (be_releases b) r tag = Ok (i, x))
     \<and> (\<exists>a \<in> snd ` set (rows (rl_assets (be_releases b))). as_ReleaseID a = i \<and> as_Name a = n)
     \<and> be_files b (i, n) = Some content"

lemma served_same [simp]:
  "served r tag n i x (b\<lparr>be_site := s\<rparr>) = served r tag n i x b" "served r tag n i x (b\<lparr>be_boards := d\<rparr>) = served r tag n i x b"
  "served r tag n i x (b\<lparr>be_wiki := w\<rparr>) = served r tag n i x b" "served r tag n i x (b\<lparr>be_gists := g\<rparr>) = served r tag n i x b"
  "served r tag n i x (b\<lparr>be_topics := t\<rparr>) = served r tag n i x b"
  by (simp_all add: served_def)

lemma find_append: "List.find P (xs @ ys) = (case List.find P xs of None \<Rightarrow> List.find P ys | Some x \<Rightarrow> Some x)"
  by (induction xs) auto

lemma find_kept:
  assumes "\<And>x. P (f x) = P x"
  shows "List.find (\<lambda>(_, x). P x) (map (\<lambda>(j, x). (j, if Q j x then f x else x)) xs) =
    map_option (\<lambda>(j, x). (j, if Q j x then f x else x)) (List.find (\<lambda>(_, x). P x) xs)"
proof (induction xs)
  case (Cons z xs)
  obtain j x where "z = (j, x)" by fastforce
  then show ?case using Cons assms by (cases "P x"; cases "Q j x") simp_all
qed simp

lemma ByTag_kept:
  assumes "ByTag z r tag = Ok (i, x)"
  shows "\<exists>x. ByTag (snd (release_Create j u t m y z)) r tag = Ok (i, x)"
    and "\<exists>x. ByTag (snd (Publish j z)) r tag = Ok (i, x)"
proof -
  have up: "\<not> rl_down z" and f: "List.find (\<lambda>(_, x). rl_RepoID x = r \<and> rl_Tag x = tag) (rows (rl_releases z)) = Some (i, x)"
    using assms by (auto simp: ByTag_def release_one_def tbl_find_def split: if_splits option.splits)
  show "\<exists>x. ByTag (snd (release_Create j u t m y z)) r tag = Ok (i, x)"
    using up f by (simp add: ByTag_def release_one_def tbl_find_def release_Create_def Let_def find_append)
  show "\<exists>x. ByTag (snd (Publish j z)) r tag = Ok (i, x)"
    using up f find_kept [of "\<lambda>z :: release. rl_RepoID z = r \<and> rl_Tag z = tag" "\<lambda>z. z\<lparr>rl_IsDraft := False\<rparr>" "\<lambda>k _. k = j"]
    by (simp add: ByTag_def release_one_def tbl_find_def Publish_def Let_def tbl_update_def)
qed

lemma ByTag_AddAsset [simp]: "ByTag (snd (AddAsset j m k p z)) r tag = ByTag z r tag"
  by (simp add: ByTag_def release_one_def AddAsset_def Let_def)

lemma assets_kept:
  "set (rows (rl_assets z)) \<subseteq> set (rows (rl_assets (snd (AddAsset j m k p z))))"
  by (auto simp: AddAsset_def Let_def)

lemma served_ops:
  assumes "served r tag n i x b"
  shows "served r tag n i x (b\<lparr>be_releases := snd (release_Create j u t m y (be_releases b))\<rparr>)"
    and "served r tag n i x (b\<lparr>be_releases := snd (Publish j (be_releases b))\<rparr>)"
    and "m \<noteq> n \<Longrightarrow> served r tag n i x (b\<lparr>be_files := (be_files b)((j, m) \<mapsto> y)\<rparr>)"
    and "m \<noteq> n \<Longrightarrow> served r tag n i x
           (b\<lparr>be_files := (be_files b)((j, m) \<mapsto> y), be_releases := snd (AddAsset j m k (j, m) (be_releases b))\<rparr>)"
proof -
  obtain y where y: "ByTag (be_releases b) r tag = Ok (i, y)" using assms by (auto simp: served_def)
  note kept = ByTag_kept [OF y]
  show "served r tag n i x (b\<lparr>be_releases := snd (release_Create j u t m y (be_releases b))\<rparr>)" for y
    using assms kept(1) by (simp add: served_def foreign_releases)
  show "served r tag n i x (b\<lparr>be_releases := snd (Publish j (be_releases b))\<rparr>)"
    using assms kept(2) by (simp add: served_def foreign_releases)
  show "served r tag n i x (b\<lparr>be_files := (be_files b)((j, m) \<mapsto> y)\<rparr>)" if "m \<noteq> n" for y
    using assms that by (simp add: served_def)
  show "served r tag n i x
      (b\<lparr>be_files := (be_files b)((j, m) \<mapsto> y), be_releases := snd (AddAsset j m k (j, m) (be_releases b))\<rparr>)" if "m \<noteq> n" for y
  proof -
    have "snd ` set (rows (rl_assets (be_releases b))) \<subseteq> snd ` set (rows (rl_assets (snd (AddAsset j m k (j, m) (be_releases b)))))"
      using assets_kept by (rule image_mono)
    with assms have "\<exists>a \<in> snd ` set (rows (rl_assets (snd (AddAsset j m k (j, m) (be_releases b))))). as_ReleaseID a = i \<and> as_Name a = n"
      unfolding served_def by blast
    then show ?thesis using assms that by (simp add: served_def)
  qed
qed

lemma served_step:
  assumes "served r tag n i x b" and "\<And>t y. c = UploadAsset t y \<Longrightarrow> ul_name y \<noteq> n"
  shows "served r tag n i x (bench_serve c q b)"
  using assms(2)
  by (cases c)
    (auto simp: bench_handlers bench_ops case_prod_unfold Let_def served_ops
      intro!: kept_signed_in [of "served r tag n i x"] kept_behind [of "served r tag n i x"] assms(1)
      split: option.split sum.split prod.split)

lemma served_run:
  assumes "served r tag n i x b" and "\<forall>(c, q) \<in> set xs. \<forall>t y. c = UploadAsset t y \<longrightarrow> ul_name y \<noteq> n"
  shows "served r tag n i x (bench_run xs b)"
  using assms
proof (induction xs arbitrary: b)
  case (Cons z xs)
  obtain c q where z: "z = (c, q)" by fastforce
  have "served r tag n i x (bench_serve c q b)" using Cons.prems z by (auto intro: served_step)
  with Cons z show ?case by (simp add: bench_run_def)
qed (simp add: bench_run_def)

lemma find_hit: "List.find P xs = Some x \<Longrightarrow> x \<in> set xs \<and> P x"
  by (induction xs) (auto split: if_splits)

text \<open>What a successful upload leaves.\<close>

lemma upload_served:
  assumes "handleUploadReleaseAsset q tag x b = (Ok a, b1)" and "resolveRepo (bq_visit q) (bq_owner q) (bq_repo q) PermWrite (be_site b) = Ok (rp, u)"
  shows "\<exists>i. served (fst rp) tag (ul_name x) i (ul_content x) b1"
proof -
  obtain i rel where rel: "ByTag (be_releases b) (fst rp) tag = Ok (i, rel)"
    using assms by (auto simp: handleUploadReleaseAsset_def signed_in_def refuse_def with_session_repo_def repo_release_def
        split: option.splits sum.splits)
  let ?add = "AddAsset i (ul_name x) (int (length (ul_content x))) (i, ul_name x) (be_releases b)"
  have up: "\<not> rl_down (be_releases b)" using rel by (auto simp: ByTag_def release_one_def split: if_splits)
  have b1: "b1 = b\<lparr>be_files := (be_files b)((i, ul_name x) \<mapsto> ul_content x), be_releases := snd ?add\<rparr>"
    using assms rel by (auto simp: handleUploadReleaseAsset_def signed_in_def refuse_def with_session_repo_def repo_release_def
        on_releases_def Let_def case_prod_unfold split: option.splits sum.splits if_splits)
  have "\<exists>y \<in> snd ` set (rows (rl_assets (snd ?add))). as_ReleaseID y = i \<and> as_Name y = ul_name x"
    using up by (simp add: AddAsset_def Let_def)
  then have "served (fst rp) tag (ul_name x) i (ul_content x) b1" using rel by (simp add: b1 served_def)
  then show ?thesis ..
qed

lemma download_served:
  assumes "bench_wf b" and "served r tag n i x b" and "resolveRepo (bq_visit q) (bq_owner q) (bq_repo q) PermRead (be_site b) = Ok (rp, u)"
    and "fst rp = r"
  shows "handleDownloadReleaseAsset q tag n b = (Ok x, b)"
proof -
  obtain y where y: "ByTag (be_releases b) r tag = Ok (i, y)" and fl: "be_files b (i, n) = Some x"
    and row: "\<exists>a \<in> snd ` set (rows (rl_assets (be_releases b))). as_ReleaseID a = i \<and> as_Name a = n"
    using assms(2) by (auto simp: served_def)
  have up: "\<not> rl_down (be_releases b)" using y by (auto simp: ByTag_def release_one_def split: if_splits)
  let ?as = "tbl_select (\<lambda>_ a. as_ReleaseID a = i) (rl_assets (be_releases b))"
  have "\<not> (\<nexists>z. z \<in> set ?as \<and> (case z of (_, a) \<Rightarrow> as_Name a = n))" using row by fastforce
  then obtain j a where f: "List.find (\<lambda>(_, a). as_Name a = n) ?as = Some (j, a)"
    by (metis find_None_iff not_Some_eq prod.collapse)
  then have "(j, a) \<in> set (rows (rl_assets (be_releases b)))" "as_ReleaseID a = i" "as_Name a = n"
    using find_hit [OF f] by simp_all
  with assms(1) have "as_StoredPath a = (i, n)" by (auto simp: bench_wf_def)
  then show ?thesis using assms(3,4) y f fl up
    by (simp add: handleDownloadReleaseAsset_def with_session_repo_def repo_release_def ListAssets_def)
qed

text \<open>C37: An uploaded file comes back. After an upload to a release that succeeded, and whatever requests follow that
  upload no file of that name, every request that may read the repository downloads what was uploaded.\<close>

theorem asset_roundtrip:
  assumes "bench_wf b" and "handleUploadReleaseAsset q tag x b = (Ok a, b1)"
    and "resolveRepo (bq_visit q) (bq_owner q) (bq_repo q) PermWrite (be_site b) = Ok (rp, u)"
    and "\<forall>(c, q) \<in> set xs. \<forall>t y. c = UploadAsset t y \<longrightarrow> ul_name y \<noteq> ul_name x"
    and "resolveRepo (bq_visit q') (bq_owner q') (bq_repo q') PermRead (be_site (bench_run xs b1)) = Ok (rp', u')" and "fst rp' = fst rp"
  shows "handleDownloadReleaseAsset q' tag (ul_name x) (bench_run xs b1) = (Ok (ul_content x), bench_run xs b1)"
proof -
  have b1: "bench_wf b1" using bench_wf_step [OF assms(1), of "UploadAsset tag x" q] assms(2) by simp
  have "bench_wf (bench_run xs b1)" using b1
    by (induction xs arbitrary: b1) (auto simp: bench_run_def bench_wf_step split: prod.split)
  moreover obtain i where "served (fst rp) tag (ul_name x) i (ul_content x) (bench_run xs b1)"
    using upload_served [OF assms(2,3)] served_run [OF _ assms(4)] by blast
  ultimately show ?thesis using download_served assms(5,6) by blast
qed

section \<open>Boards of other repositories\<close>

text \<open>C38: Cards belong to nobody. Whoever may write in one repository, his own, deletes any card of a board of any
  other repository, even of one that he may not read, and takes a card to a column of his choice, where its title is
  shown: the handlers check the repository of the URL and never compare it with that of the card.\<close>

theorem cards_cross_repositories:
  assumes "bq_user q = Some x"
    and "loadRepoAndPerm (bq_env q) (bq_now q) (bq_visit q) (bq_owner q) (bq_repo q) PermWrite (be_site b) = (Ok (rp, u), s)"
    and "\<not> bo_down (be_boards b)"
    and card: "(i, c) \<in> set (rows (bo_cards (be_boards b)))" and "(cd_ColumnID c, col) \<in> set (rows (bo_columns (be_boards b)))"
    and "(bc_ProjectID col, pj) \<in> set (rows (bo_projects (be_boards b)))" and "pj_RepoID pj = Some r"
    and "r \<noteq> fst rp" and "\<not> granted (si_repos (be_site b)) (r, row) x PermRead"
  shows "fst (handleDeleteProjectCard q (Some i) b) = Ok ()
    \<and> (\<forall>y. (i, y) \<notin> set (rows (bo_cards (be_boards (snd (handleDeleteProjectCard q (Some i) b))))))
    \<and> fst (handleMoveProjectCard q (Some i) (Some (k, p)) b) = Ok ()
    \<and> (\<exists>cs. listCards (be_boards (snd (handleMoveProjectCard q (Some i) (Some (k, p)) b))) k = Ok cs
          \<and> (i, c\<lparr>cd_ColumnID := k, cd_Position := p\<rparr>) \<in> set cs)"
proof -
  have n: "tbl_count (\<lambda>j _. j = i) (bo_cards (be_boards b)) \<noteq> 0"
    using card tbl_count_pos [of "\<lambda>j _. j = i" "bo_cards (be_boards b)"] by (auto simp: tbl_exists_iff)
  have del: "handleDeleteProjectCard q (Some i) b = (Ok (), b\<lparr>be_site := s, be_boards := snd (DeleteCard i (be_boards b))\<rparr>)"
    using assms(1-3) by (simp add: handleDeleteProjectCard_def signed_in_def with_loaded_repo_def parsed_def on_boards_def DeleteCard_def)
  have mv: "handleMoveProjectCard q (Some i) (Some (k, p)) b = (Ok (), b\<lparr>be_site := s, be_boards := snd (MoveCard i k p (be_boards b))\<rparr>)"
    using assms(1-3) n by (simp add: handleMoveProjectCard_def signed_in_def with_loaded_repo_def parsed_def on_boards_def MoveCard_def)
  have "(i, c\<lparr>cd_ColumnID := k, cd_Position := p\<rparr>) \<in> set (rows (bo_cards (snd (MoveCard i k p (be_boards b)))))"
    using assms(3) card by (auto simp: MoveCard_def Let_def set_rows_update intro!: exI [of _ c])
  moreover have "\<not> bo_down (snd (MoveCard i k p (be_boards b)))" using assms(3) by (simp add: MoveCard_def Let_def)
  ultimately show ?thesis
    using assms(3) del mv by (simp add: listCards_def DeleteCard_def)
qed

section \<open>Accepted answers\<close>

text \<open>A discussion has one accepted answer at most.\<close>

definition answers :: "int \<Rightarrow> board_db \<Rightarrow> (int \<times> discussion_comment) list" where
  "answers i db = tbl_select (\<lambda>_ c. dc_DiscussionID c = i \<and> dc_IsAnswer c) (bo_comments db)"

text \<open>A comment of another discussion as the answer leaves the discussion answered, with no answer.\<close>

lemma answered_without_answer:
  assumes "discussion_ByID db i = Ok (i, d)" and "answerable db d"
    and "\<And>c. (j, c) \<in> set (rows (bo_comments db)) \<Longrightarrow> dc_DiscussionID c \<noteq> i"
  shows "fst (MarkAnswer i j db) = Ok () \<and> answers i (snd (MarkAnswer i j db)) = []
    \<and> (\<exists>d'. discussion_ByID (snd (MarkAnswer i j db)) i = Ok (i, d') \<and> ds_IsAnswered d')"
proof -
  have up: "\<not> bo_down db" and f: "tbl_find (\<lambda>k _. k = i) (bo_discussions db) = Some (i, d)"
    using assms(1) by (auto simp: discussion_ByID_def split: if_splits option.splits)
  let ?cleared = "tbl_update (\<lambda>_ c. dc_DiscussionID c = i) (\<lambda>c. c\<lparr>dc_IsAnswer := False\<rparr>) (bo_comments db)"
  let ?marked = "tbl_update (\<lambda>k c. k = j \<and> dc_DiscussionID c = i) (\<lambda>c. c\<lparr>dc_IsAnswer := True\<rparr>) ?cleared"
  have none: "\<not> dc_IsAnswer y" if y: "(k, y) \<in> set (rows ?marked)" and "dc_DiscussionID y = i" for k y
  proof -
    obtain y1 where y1: "(k, y1) \<in> set (rows ?cleared)" "y = (if k = j \<and> dc_DiscussionID y1 = i then y1\<lparr>dc_IsAnswer := True\<rparr> else y1)"
      using y unfolding set_rows_update by blast
    obtain y0 where y0: "(k, y0) \<in> set (rows (bo_comments db))" "y1 = (if dc_DiscussionID y0 = i then y0\<lparr>dc_IsAnswer := False\<rparr> else y0)"
      using y1(1) unfolding set_rows_update by blast
    show ?thesis using assms(3) [of y0] y0 y1(2) that(2) by (cases "k = j"; cases "dc_DiscussionID y0 = i") auto
  qed
  then have "tbl_select (\<lambda>_ c. dc_DiscussionID c = i \<and> dc_IsAnswer c) ?marked = []"
    by (auto simp: tbl_select_def filter_empty_conv)
  then have "answers i (snd (MarkAnswer i j db)) = []"
    using assms(1,2) by (simp add: answers_def MarkAnswer_def Let_def)
  moreover have "\<exists>d'. tbl_find (\<lambda>k _. k = i) (tbl_update (\<lambda>k _. k = i) (\<lambda>x. x\<lparr>ds_IsAnswered := True\<rparr>) (bo_discussions db)) = Some (i, d') \<and> ds_IsAnswered d'"
  proof -
    have "List.find (\<lambda>(k, _). k = i) (map (\<lambda>(k, x). (k, if k = i then x\<lparr>ds_IsAnswered := True\<rparr> else x)) xs) = Some (i, d\<lparr>ds_IsAnswered := True\<rparr>)"
      if "List.find (\<lambda>(k, _). k = i) xs = Some (i, d)" for xs :: "(int \<times> discussion) list"
      using that by (induction xs) (auto split: if_splits)
    then show ?thesis using f by (auto simp: tbl_find_def tbl_update_def)
  qed
  ultimately show ?thesis using assms(1,2) up by (auto simp: MarkAnswer_def Let_def discussion_ByID_def split: option.splits)
qed

section \<open>Examples\<close>

text \<open>Alice owns the private repository \<open>app\<close>, Mallory the repository \<open>tool\<close>. Alice's repository has a board with a card
  and a release.\<close>

definition demo_card :: card where
  "demo_card = \<lparr>cd_ColumnID = 1, cd_IssueID = None, cd_PullID = None, cd_Title = ''secret'', cd_Position = 0\<rparr>"

definition demo_boards :: board_db where
  "demo_boards = (snd (project_Create 1 (Some 1) ''plan'' [] boards_New))\<lparr>bo_cards := tbl_insert demo_card empty_table\<rparr>"

definition demo_releases :: release_db where
  "demo_releases = snd (release_Create 1 1 ''v1'' [] [] \<lparr>rl_releases = empty_table, rl_assets = empty_table, rl_down = False\<rparr>)"

definition demo_bench :: bench where
  "demo_bench = \<lparr>be_site = demo_site, be_boards = demo_boards, be_wiki = sql_empty, be_gists = sql_empty,
     be_releases = demo_releases, be_topics = sql_empty, be_files = Map.empty\<rparr>"

definition bench_asks :: "int \<Rightarrow> string \<Rightarrow> string \<Rightarrow> bench_request" where
  "bench_asks i name repo = \<lparr>bq_env = test_env, bq_now = 0, bq_visit = visit_of i name, bq_owner = name, bq_repo = repo\<rparr>"

lemma bench_asks_simps [simp]:
  "bq_env (bench_asks i n r) = test_env" "bq_now (bench_asks i n r) = 0" "bq_visit (bench_asks i n r) = visit_of i n"
  "bq_owner (bench_asks i n r) = n" "bq_repo (bench_asks i n r) = r" "UserFrom (vi_ctx (visit_of i n)) = Some (i, demo_user n)"
  by (simp_all add: bench_asks_def visit_of_def UserFrom_def)

lemma demo_bench_simps [simp]:
  "be_site demo_bench = demo_site" "be_boards demo_bench = demo_boards" "be_releases demo_bench = demo_releases"
  "be_topics demo_bench = sql_empty" "be_files demo_bench = Map.empty"
  by (simp_all add: demo_bench_def)

lemma demo_release: "rl_releases demo_releases = \<lparr>seq = 1, rows = [(1, \<lparr>rl_RepoID = 1, rl_AuthorID = 1, rl_Tag = ''v1'',
    rl_Name = [], rl_Body = [], rl_IsDraft = True, rl_IsPrerelease = False\<rparr>)]\<rparr>" "\<not> rl_down demo_releases" "rl_assets demo_releases = empty_table"
  by (simp_all add: demo_releases_def release_Create_def Let_def tbl_insert_def)

lemma demo_bench_wf: "bench_wf demo_bench"
  by (simp add: bench_wf_def demo_bench_def demo_boards_def project_Create_def boards_New_def demo_release sql_empty_def tbl_wf_def Let_def)

lemma topic_go: "topic_normalize ''Go'' = Ok ''go''"
  by code_simp

lemma no_rows [simp]: "tbl_select P empty_table = []"
  by (simp add: tbl_select_def)

lemma alice_sets_topic: "published 1 (bench_serve (SetTopics (Some [''Go''])) (bench_asks 1 ''alice'' ''app'') demo_bench) \<noteq> published 1 demo_bench"
proof -
  have "pi_topics (published 1 (bench_serve (SetTopics (Some [''Go''])) (bench_asks 1 ''alice'' ''app'') demo_bench)) \<noteq> []"
    using demo_access(1) [of test_env 0 PermWrite]
    by (simp add: handleSetTopics_def with_loaded_repo_def parsed_def topic_List_def sql_empty_def topic_Add_def topic_go
        published_def select_insert tbl_count_def)
  moreover have "pi_topics (published 1 demo_bench) = []" by (simp add: published_def sql_empty_def)
  ultimately show ?thesis by metis
qed


text \<open>Alice uploads a file; then Mallory sets topics, and Alice downloads.\<close>

lemma resolve_loaded:
  assumes "loadRepoAndPerm e now v owner name need s = (Ok (rp, u), s')" and "UserFrom (vi_ctx v) = Some x" 
    and "\<not> rp_Archived (snd rp)" and "rp_OrgID (snd rp) = None"
  shows "resolveRepo v owner name need s = Ok (rp, u)"
proof -
  note l = loadRepoAndPerm_Ok [OF assms(1)]
  have u: "u = Some x" "s' = s" using l(3) assms(2) by (auto simp: basic_user_def)
  show ?thesis using assms l u by (auto simp: resolveRepo_def loadRepoAndPerm_def basic_user_def IsArchived_def Let_def
        split: sum.splits if_splits option.splits)
qed

lemma alice_resolves: "be_site b = demo_site \<Longrightarrow> resolveRepo (visit_of 1 ''alice'') ''alice'' ''app'' need (be_site b)
    = Ok ((1, demo_repo 1 ''app'' True), Some (1, demo_user ''alice''))"
  using resolve_loaded [OF demo_access(1) [of test_env 0 need]] by simp

definition demo_upload :: asset_upload where
  "demo_upload = \<lparr>ul_name = ''a'', ul_content = ''data'', ul_complete = True, ul_creates = True\<rparr>"

lemma asset_name: "ValidateName ''a'' = Ok ()"
  by code_simp

lemma alice_uploads_asset:
  "\<exists>a. handleUploadReleaseAsset (bench_asks 1 ''alice'' ''app'') ''v1'' demo_upload demo_bench =
     (Ok a, demo_bench\<lparr>be_files := [(1, ''a'') \<mapsto> ''data''],
        be_releases := snd (AddAsset 1 ''a'' 4 (1, ''a'') demo_releases)\<rparr>)"
  using alice_resolves [of demo_bench PermWrite]
  by (simp add: handleUploadReleaseAsset_def signed_in_def with_session_repo_def repo_release_def ByTag_def release_one_def
      demo_release tbl_find_def demo_upload_def asset_name on_releases_def AddAsset_def Let_def)

lemma topics_site: "be_site b = demo_site \<Longrightarrow> be_site (bench_serve (SetTopics x) (bench_asks 2 ''mallory'' ''tool'') b) = demo_site"
  using demo_access(2) [of test_env 0 PermWrite]
  by (simp add: handleSetTopics_def with_loaded_repo_def parsed_def refuse_def split: option.split sum.split prod.split)

theorem asset_roundtrip_witness:
  "fst (handleDownloadReleaseAsset (bench_asks 1 ''alice'' ''app'') ''v1'' ''a''
     (bench_run [(SetTopics (Some []), bench_asks 2 ''mallory'' ''tool'')]
       (snd (handleUploadReleaseAsset (bench_asks 1 ''alice'' ''app'') ''v1'' demo_upload demo_bench)))) = Ok ''data''"
proof -
  let ?q = "bench_asks 1 ''alice'' ''app''" and ?xs = "[(SetTopics (Some []), bench_asks 2 ''mallory'' ''tool'')]"
  obtain a b1 where up: "handleUploadReleaseAsset ?q ''v1'' demo_upload demo_bench = (Ok a, b1)" and site: "be_site b1 = demo_site"
    using alice_uploads_asset by fastforce
  have "be_site (bench_run ?xs b1) = demo_site" using topics_site [OF site] by (simp add: bench_run_def del: bench_serve.simps)
  note last = alice_resolves [OF this, of PermRead]
  have "handleDownloadReleaseAsset ?q ''v1'' (ul_name demo_upload) (bench_run ?xs b1) = (Ok (ul_content demo_upload), bench_run ?xs b1)"
    by (rule asset_roundtrip [OF demo_bench_wf up _ _ _ refl])
      (use alice_resolves [of demo_bench PermWrite] last in \<open>simp_all\<close>)
  then show ?thesis using up by (simp add: demo_upload_def)
qed

text \<open>Mallory, who may not read \<open>app\<close>, deletes its card.\<close>

lemma demo_card_row:
  "rows (bo_cards demo_boards) = [(1, demo_card)]" "\<not> bo_down demo_boards"
  "(1, \<lparr>bc_ProjectID = 1, bc_Name = ''To Do'', bc_Position = 0\<rparr>) \<in> set (rows (bo_columns demo_boards))"
  "(1, \<lparr>pj_OwnerID = 1, pj_RepoID = Some 1, pj_Name = ''plan'', pj_Description = []\<rparr>) \<in> set (rows (bo_projects demo_boards))"
  by (simp_all add: demo_boards_def project_Create_def boards_New_def Let_def DefaultColumns_def)

lemma mallory_outside: "\<not> granted demo_db (1, demo_repo 1 ''app'' True) (2, demo_user ''mallory'') p"
  by (simp add: granted_def demo_db_def repos_New_def OwnerUser_def OwnerOrg_def)

theorem cards_cross_repositories_witness:
  "fst (handleDeleteProjectCard (bench_asks 2 ''mallory'' ''tool'') (Some 1) demo_bench) = Ok ()
   \<and> (\<forall>y. (1, y) \<notin> set (rows (bo_cards (be_boards (snd (handleDeleteProjectCard (bench_asks 2 ''mallory'' ''tool'') (Some 1) demo_bench))))))"
  using cards_cross_repositories [of "bench_asks 2 ''mallory'' ''tool''" "(2, demo_user ''mallory'')" demo_bench
      "(2, demo_repo 2 ''tool'' False)" "Some (2, demo_user ''mallory'')" demo_site 1 demo_card
      "\<lparr>bc_ProjectID = 1, bc_Name = ''To Do'', bc_Position = 0\<rparr>"
      "\<lparr>pj_OwnerID = 1, pj_RepoID = Some 1, pj_Name = ''plan'', pj_Description = []\<rparr>" 1 "demo_repo 1 ''app'' True"]
    demo_access(2) [of test_env 0 PermWrite] demo_card_row mallory_outside
  by (simp add: demo_card_def demo_repos)

end
