(* ===== verification/Packages.thy ===== *)
theory Packages
  imports Stores Codec "HOL-Library.Word" "HOL-Library.List_Lexorder" "HOL-Library.Char_ord"
begin

text \<open>
  The package registries: the content-addressed store of \<open>internal/service/package\<close>, the packages of
  \<open>internal/service/pkgsvc\<close> and the container images of \<open>internal/service/registry\<close>.

  \<open>depot\<close> holds the tables, the files of the store by digest, the staged files of uploads by path, and whether the
  database or the disk fails. The digest SHA-256 is the parameter \<open>sha\<close>, on bytes. What is read of a body is its
  content and whether it was read to the end. The temporary files of the store have fresh names and are gone when
  \<open>Put\<close> returns, so they do not appear. No table but that of the blobs has a \<open>UNIQUE\<close> constraint, and that of the
  uploads on the identifier; a query for one row answers the oldest that fits. The tag of an image holds the digest of its
  manifest, as in SQLite; times are left out.
\<close>

section \<open>State\<close>

record blob_row =
  bl_Digest :: string
  bl_Size :: int

record pkg_version =
  pv_RepoID :: int
  pv_Type :: string
  pv_Name :: string
  pv_Version :: string
  pv_Metadata :: string

record pkg_file =
  pf_VersionID :: int
  pf_Filename :: string
  pf_BlobID :: int

record docker_manifest =
  dm_RepoID :: int
  dm_Name :: string
  dm_Digest :: string
  dm_MediaType :: string
  dm_Content :: string

record docker_tag =
  dt_RepoID :: int
  dt_Name :: string
  dt_Tag :: string
  dt_Manifest :: string

record docker_upload =
  du_RepoID :: int
  du_UUID :: string
  du_Path :: string

record depot =
  dp_blobs :: "blob_row table"
  dp_versions :: "pkg_version table"
  dp_pkgfiles :: "pkg_file table"
  dp_manifests :: "docker_manifest table"
  dp_tags :: "docker_tag table"
  dp_uploads :: "docker_upload table"
  dp_files :: "string \<Rightarrow> string option"
  dp_staged :: "string \<Rightarrow> string option"
  dp_down :: bool
  dp_disk_down :: bool

datatype depot_error = DepotNotFound | BadType | BadDigest | BadVersion | DigestMismatch | EmptyReference | BadMediaType
  | DepotConstraint | DepotDriver | DepotDisk | BodyBroken

definition depot_New :: depot where
  "depot_New = \<lparr>dp_blobs = empty_table, dp_versions = empty_table, dp_pkgfiles = empty_table, dp_manifests = empty_table,
     dp_tags = empty_table, dp_uploads = empty_table, dp_files = Map.empty, dp_staged = Map.empty, dp_down = False,
     dp_disk_down = False\<rparr>"

type_synonym body = "string \<times> bool"

section \<open>The store of blobs\<close>

definition lower_hex :: "char \<Rightarrow> bool" where
  "lower_hex c = (let n = of_char c :: nat in 48 \<le> n \<and> n \<le> 57 \<or> 97 \<le> n \<and> n \<le> 102)"

definition digestHexLen :: nat where "digestHexLen = 64"

definition validateDigest :: "string \<Rightarrow> depot_error + unit" where
  "validateDigest digest =
     (if length digest \<noteq> digestHexLen then Err BadDigest
      else if \<not> list_all lower_hex digest then Err BadDigest
      else if hex_decode digest = None then Err BadDigest
      else Ok ())"

text \<open>An existing file is kept; the row is inserted \<open>ON CONFLICT DO NOTHING\<close>. The file stays when the insert fails.\<close>

definition blob_Put :: "(string \<Rightarrow> string) \<Rightarrow> body \<Rightarrow> depot \<Rightarrow> (depot_error + string \<times> int) \<times> depot" where
  "blob_Put sha r s =
     (if dp_disk_down s then (Err DepotDisk, s)
      else if \<not> snd r then (Err BodyBroken, s)
      else let digest = hex_encode (sha (fst r)); n = int (length (fst r));
               s1 = (if dp_files s digest \<noteq> None then s else s\<lparr>dp_files := (dp_files s)(digest \<mapsto> fst r)\<rparr>)
           in if dp_down s then (Err DepotDriver, s1)
              else (Ok (digest, n),
                    if tbl_exists (\<lambda>_ b. bl_Digest b = digest) (dp_blobs s1) then s1
                    else s1\<lparr>dp_blobs := tbl_insert \<lparr>bl_Digest = digest, bl_Size = n\<rparr> (dp_blobs s1)\<rparr>))"

definition blob_Open :: "string \<Rightarrow> depot \<Rightarrow> depot_error + string" where
  "blob_Open digest s =
     (case validateDigest digest of
        Inl e \<Rightarrow> Err e
      | Inr _ \<Rightarrow> if dp_disk_down s then Err DepotDisk
               else case dp_files s digest of None \<Rightarrow> Err DepotDisk | Some c \<Rightarrow> Ok c)"

definition blob_Verify :: "(string \<Rightarrow> string) \<Rightarrow> string \<Rightarrow> depot \<Rightarrow> depot_error + bool" where
  "blob_Verify sha digest s =
     (case validateDigest digest of
        Inl e \<Rightarrow> Err e
      | Inr _ \<Rightarrow> if dp_disk_down s then Err DepotDisk
               else Ok (case dp_files s digest of None \<Rightarrow> False | Some c \<Rightarrow> hex_encode (sha c) = digest))"

definition blob_Delete :: "string \<Rightarrow> depot \<Rightarrow> (depot_error + unit) \<times> depot" where
  "blob_Delete digest s =
     (case validateDigest digest of
        Inl e \<Rightarrow> (Err e, s)
      | Inr _ \<Rightarrow>
          if dp_disk_down s then (Err DepotDisk, s)
          else let s1 = s\<lparr>dp_files := (dp_files s)(digest := None)\<rparr> in
            if dp_down s then (Err DepotDriver, s1)
            else (Ok (), s1\<lparr>dp_blobs := tbl_delete (\<lambda>_ b. bl_Digest b = digest) (dp_blobs s1)\<rparr>))"

section \<open>Packages\<close>

definition pkg_validTypes :: "string \<Rightarrow> bool" where
  "pkg_validTypes t \<longleftrightarrow> t \<in> {''generic'', ''npm'', ''go'', ''maven''}"

definition NPMTarballURL :: "string \<Rightarrow> string \<Rightarrow> string" where
  "NPMTarballURL name version = name @ ''/-/'' @ name @ ''-'' @ version @ ''.tgz''"

definition GoModulePath :: "string \<Rightarrow> string \<Rightarrow> string" where
  "GoModulePath owner repo = owner @ ''/'' @ repo"

definition MavenPath :: "string \<Rightarrow> string \<Rightarrow> string \<Rightarrow> string \<Rightarrow> string" where
  "MavenPath groupID artifactID version filename =
     (let group = map (\<lambda>c. if c = CHR ''.'' then CHR ''/'' else c) groupID
      in group @ ''/'' @ artifactID @ ''/'' @ version @ ''/'' @ filename)"

definition GenericPath :: "string \<Rightarrow> string \<Rightarrow> string \<Rightarrow> string" where
  "GenericPath pkgName version filename = pkgName @ ''/'' @ version @ ''/'' @ filename"

definition ValidateVersion :: "string \<Rightarrow> depot_error + unit" where
  "ValidateVersion v =
     (if v = [] then Err BadVersion else if contains v ''/'' \<or> contains v ''..'' then Err BadVersion else Ok ())"

definition PublishVersion :: "int \<Rightarrow> string \<Rightarrow> string \<Rightarrow> string \<Rightarrow> string \<Rightarrow> depot \<Rightarrow> (depot_error + int) \<times> depot" where
  "PublishVersion repoID pkgType name version metadata s =
     (if \<not> pkg_validTypes pkgType then (Err BadType, s)
      else if dp_down s then (Err DepotDriver, s)
      else let t = tbl_insert \<lparr>pv_RepoID = repoID, pv_Type = pkgType, pv_Name = name, pv_Version = version,
                      pv_Metadata = metadata\<rparr> (dp_versions s)
           in (Ok (seq t), s\<lparr>dp_versions := t\<rparr>))"

definition same_version :: "int \<Rightarrow> string \<Rightarrow> string \<Rightarrow> string \<Rightarrow> pkg_version \<Rightarrow> bool" where
  "same_version repoID pkgType name version v \<longleftrightarrow>
     pv_RepoID v = repoID \<and> pv_Type v = pkgType \<and> pv_Name v = name \<and> pv_Version v = version"

definition GetVersion :: "depot \<Rightarrow> int \<Rightarrow> string \<Rightarrow> string \<Rightarrow> string \<Rightarrow> depot_error + int \<times> pkg_version" where
  "GetVersion s repoID pkgType name version =
     (if dp_down s then Err DepotDriver
      else case tbl_find (\<lambda>_. same_version repoID pkgType name version) (dp_versions s) of
        None \<Rightarrow> Err DepotNotFound | Some v \<Rightarrow> Ok v)"

definition ListVersions :: "depot \<Rightarrow> int \<Rightarrow> string \<Rightarrow> string \<Rightarrow> depot_error + (int \<times> pkg_version) list" where
  "ListVersions s repoID pkgType name =
     (if dp_down s then Err DepotDriver
      else Ok (tbl_select (\<lambda>_ v. pv_RepoID v = repoID \<and> pv_Type v = pkgType \<and> pv_Name v = name) (dp_versions s)))"

definition AddFile :: "(string \<Rightarrow> string) \<Rightarrow> int \<Rightarrow> string \<Rightarrow> body \<Rightarrow> depot \<Rightarrow> (depot_error + string) \<times> depot" where
  "AddFile sha versionID filename r s =
     (case blob_Put sha r s of
        (Inl e, s1) \<Rightarrow> (Err e, s1)
      | (Inr (digest, _), s1) \<Rightarrow>
          (case tbl_find (\<lambda>_ b. bl_Digest b = digest) (dp_blobs s1) of
             None \<Rightarrow> (Err DepotNotFound, s1)
           | Some (blobID, _) \<Rightarrow>
               (Ok digest, s1\<lparr>dp_pkgfiles := tbl_insert \<lparr>pf_VersionID = versionID, pf_Filename = filename,
                              pf_BlobID = blobID\<rparr> (dp_pkgfiles s1)\<rparr>)))"

text \<open>The first file of the name whose blob has a row, with the digest and the size.\<close>

definition file_blob :: "depot \<Rightarrow> int \<Rightarrow> string \<Rightarrow> blob_row option" where
  "file_blob s versionID filename =
     map_option snd (List.find (\<lambda>_. True) (concat (map (\<lambda>(_, f). tbl_select (\<lambda>j _. j = pf_BlobID f) (dp_blobs s))
       (tbl_select (\<lambda>_ f. pf_VersionID f = versionID \<and> pf_Filename f = filename) (dp_pkgfiles s)))))"

definition OpenFile :: "depot \<Rightarrow> int \<Rightarrow> string \<Rightarrow> depot_error + string \<times> int" where
  "OpenFile s versionID filename =
     (if dp_down s then Err DepotDriver
      else case file_blob s versionID filename of
        None \<Rightarrow> Err DepotNotFound
      | Some b \<Rightarrow> (case blob_Open (bl_Digest b) s of Inl e \<Rightarrow> Err e | Inr c \<Rightarrow> Ok (c, bl_Size b)))"

definition DeleteVersion :: "int \<Rightarrow> depot \<Rightarrow> (depot_error + unit) \<times> depot" where
  "DeleteVersion versionID s =
     (if dp_down s then (Err DepotDriver, s)
      else (Ok (), s\<lparr>dp_pkgfiles := tbl_delete (\<lambda>_ f. pf_VersionID f = versionID) (dp_pkgfiles s),
                    dp_versions := tbl_delete (\<lambda>i _. i = versionID) (dp_versions s)\<rparr>))"

section \<open>Container images\<close>

definition digest_prefix :: string where "digest_prefix = ''sha256:''"

definition ValidateDigest :: "string \<Rightarrow> bool" where
  "ValidateDigest d \<longleftrightarrow>
     length d = length digest_prefix + 64 \<and> take (length digest_prefix) d = digest_prefix
     \<and> list_all lower_hex (drop (length digest_prefix) d)"

definition DigestOf :: "(string \<Rightarrow> string) \<Rightarrow> string \<Rightarrow> string" where
  "DigestOf sha body = digest_prefix @ hex_encode (sha body)"

definition StagedPath :: "depot \<Rightarrow> int \<Rightarrow> string \<Rightarrow> depot_error + string" where
  "StagedPath s repoID uuid =
     (if dp_down s then Err DepotDriver
      else case tbl_find (\<lambda>_ u. du_RepoID u = repoID \<and> du_UUID u = uuid) (dp_uploads s) of
        None \<Rightarrow> Err DepotNotFound | Some (_, u) \<Rightarrow> Ok (du_Path u))"

text \<open>A version 4 UUID of sixteen random bytes.\<close>

definition hex_of :: "8 word list \<Rightarrow> string" where
  "hex_of bs = hex_encode (map (\<lambda>b. char_of (unat b)) bs)"

definition newUUID :: "8 word list \<Rightarrow> string" where
  "newUUID b0 =
     (let b1 = b0[6 := or (and (b0 ! 6) 0x0f) 0x40];
          b = b1[8 := or (and (b1 ! 8) 0x3f) 0x80]
      in hex_of (take 4 b) @ ''-'' @ hex_of (take 2 (drop 4 b)) @ ''-'' @ hex_of (take 2 (drop 6 b)) @ ''-''
         @ hex_of (take 2 (drop 8 b)) @ ''-'' @ hex_of (take 6 (drop 10 b)))"

definition StartUpload :: "8 word list \<Rightarrow> int \<Rightarrow> string \<Rightarrow> depot \<Rightarrow> (depot_error + string) \<times> depot" where
  "StartUpload rnd repoID path s =
     (let uuid = newUUID rnd in
      if dp_down s then (Err DepotDriver, s)
      else if tbl_exists (\<lambda>_ u. du_UUID u = uuid) (dp_uploads s) then (Err DepotConstraint, s)
      else (Ok uuid, s\<lparr>dp_uploads := tbl_insert \<lparr>du_RepoID = repoID, du_UUID = uuid, du_Path = path\<rparr> (dp_uploads s)\<rparr>))"

definition openStaged :: "string \<Rightarrow> depot \<Rightarrow> depot_error + string" where
  "openStaged path s =
     (if path = [] then Err DepotNotFound
      else if dp_disk_down s then Err DepotDisk
      else case dp_staged s path of None \<Rightarrow> Err DepotNotFound | Some c \<Rightarrow> Ok c)"

text \<open>The file goes into the store before its digest is compared.\<close>

definition commitStaged :: "(string \<Rightarrow> string) \<Rightarrow> string \<Rightarrow> string \<Rightarrow> depot \<Rightarrow> (depot_error + unit) \<times> depot" where
  "commitStaged sha path digest s =
     (case openStaged path s of
        Inl e \<Rightarrow> (Err e, s)
      | Inr c \<Rightarrow>
          (case blob_Put sha (c, True) s of
             (Inl e, s1) \<Rightarrow> (Err e, s1)
           | (Inr (got, _), s1) \<Rightarrow> (if got \<noteq> trim_prefix digest digest_prefix then Err DigestMismatch else Ok (), s1)))"

definition FinishUpload :: "(string \<Rightarrow> string) \<Rightarrow> int \<Rightarrow> string \<Rightarrow> string \<Rightarrow> depot \<Rightarrow> (depot_error + unit) \<times> depot" where
  "FinishUpload sha repoID uuid digest s =
     (if \<not> ValidateDigest digest then (Err BadDigest, s)
      else case StagedPath s repoID uuid of
        Inl e \<Rightarrow> (Err e, s)
      | Inr path \<Rightarrow>
          (case commitStaged sha path digest s of
             (Inl e, s1) \<Rightarrow> (Err e, s1)
           | (Inr _, s1) \<Rightarrow>
               if dp_down s1 then (Err DepotDriver, s1)
               else (Ok (), s1\<lparr>dp_uploads := tbl_delete (\<lambda>_ u. du_RepoID u = repoID \<and> du_UUID u = uuid) (dp_uploads s1)\<rparr>)))"

text \<open>One transaction; a tag is a new row each time it is pushed.\<close>

definition PutManifest ::
  "(string \<Rightarrow> string) \<Rightarrow> int \<Rightarrow> string \<Rightarrow> string \<Rightarrow> string \<Rightarrow> string \<Rightarrow> depot \<Rightarrow> (depot_error + string) \<times> depot" where
  "PutManifest sha repoID name reference mediaType body s =
     (if reference = [] then (Err EmptyReference, s)
      else if dp_down s then (Err DepotDriver, s)
      else let digest = DigestOf sha body;
               m = \<lparr>dm_RepoID = repoID, dm_Name = name, dm_Digest = digest, dm_MediaType = mediaType, dm_Content = body\<rparr>;
               s1 = s\<lparr>dp_manifests := tbl_insert m (dp_manifests s)\<rparr>
           in (Ok digest,
               if ValidateDigest reference then s1
               else s1\<lparr>dp_tags := tbl_insert \<lparr>dt_RepoID = repoID, dt_Name = name, dt_Tag = reference, dt_Manifest = digest\<rparr> (dp_tags s1)\<rparr>))"

definition list_media_type :: "string \<Rightarrow> bool" where
  "list_media_type t \<longleftrightarrow> t \<in> {''application/vnd.oci.image.index.v1+json'',
     ''application/vnd.docker.distribution.manifest.list.v2+json''}"

definition PutManifestList ::
  "(string \<Rightarrow> string) \<Rightarrow> int \<Rightarrow> string \<Rightarrow> string \<Rightarrow> string \<Rightarrow> string \<Rightarrow> depot \<Rightarrow> (depot_error + string) \<times> depot" where
  "PutManifestList sha repoID name reference mediaType body s =
     (if \<not> list_media_type mediaType then (Err BadMediaType, s) else PutManifest sha repoID name reference mediaType body s)"

text \<open>By digest: the newest manifest of the repository. By tag: the newest row of the tag that has a manifest of its digest,
  and a manifest of that digest, of whatever repository; the oldest is taken of several.\<close>

definition GetManifest :: "depot \<Rightarrow> int \<Rightarrow> string \<Rightarrow> string \<Rightarrow> depot_error + docker_manifest" where
  "GetManifest s repoID name reference =
     (if dp_down s then Err DepotDriver
      else if ValidateDigest reference then
        (case rev (tbl_select (\<lambda>_ m. dm_RepoID m = repoID \<and> dm_Name m = name \<and> dm_Digest m = reference) (dp_manifests s)) of
           [] \<Rightarrow> Err DepotNotFound | (_, m) # _ \<Rightarrow> Ok m)
      else
        (case concat (map (\<lambda>(_, t). tbl_select (\<lambda>_ m. dm_Digest m = dt_Manifest t) (dp_manifests s))
                (rev (tbl_select (\<lambda>_ t. dt_RepoID t = repoID \<and> dt_Name t = name \<and> dt_Tag t = reference) (dp_tags s)))) of
           [] \<Rightarrow> Err DepotNotFound | (_, m) # _ \<Rightarrow> Ok m))"

definition ListTags :: "depot \<Rightarrow> int \<Rightarrow> string \<Rightarrow> depot_error + string list" where
  "ListTags s repoID name =
     (if dp_down s then Err DepotDriver
      else Ok (sort (map (\<lambda>(_, t). dt_Tag t) (tbl_select (\<lambda>_ t. dt_RepoID t = repoID \<and> dt_Name t = name) (dp_tags s)))))"

text \<open>One transaction, undone when there is no such manifest.\<close>

definition DeleteManifest :: "int \<Rightarrow> string \<Rightarrow> string \<Rightarrow> depot \<Rightarrow> (depot_error + unit) \<times> depot" where
  "DeleteManifest repoID name digest s =
     (if \<not> ValidateDigest digest then (Err BadDigest, s)
      else if dp_down s then (Err DepotDriver, s)
      else if tbl_count (\<lambda>_ m. dm_RepoID m = repoID \<and> dm_Name m = name \<and> dm_Digest m = digest) (dp_manifests s) = 0
      then (Err DepotNotFound, s)
      else (Ok (), s\<lparr>
        dp_tags := tbl_delete (\<lambda>_ t. dt_RepoID t = repoID \<and> dt_Name t = name \<and> dt_Manifest t = digest) (dp_tags s),
        dp_manifests := tbl_delete (\<lambda>_ m. dm_RepoID m = repoID \<and> dm_Name m = name \<and> dm_Digest m = digest) (dp_manifests s)\<rparr>))"

definition GetBlob :: "string \<Rightarrow> depot \<Rightarrow> depot_error + string" where
  "GetBlob digest s = blob_Open (trim_prefix digest digest_prefix) s"

end
