(* ===== verification/PackagesHttp.thy ===== *)
theory PackagesHttp
  imports RepoHttp Packages
begin

text \<open>
  The handlers of the registries: \<open>handlers_registry.go\<close> and \<open>handlers_package.go\<close>. The state is the site with the depot.
  A request carries the parameters of the path and of the query, the body, and for an upload the fresh path of the staged
  file and sixteen random bytes. A handler answers with the code of an error or with what the response carries.
\<close>

section \<open>Requests\<close>

record yard =
  yd_site :: site
  yd_depot :: depot

record yard_request =
  yq_env :: env
  yq_now :: int
  yq_visit :: visit
  yq_owner :: string
  yq_repo :: string
  yq_body :: body
  yq_path :: string
  yq_random :: "8 word list"

text \<open>The access check of the image registry: no look at deleted repositories, at the scopes of a token, or at whether
  the repository is private.\<close>

definition ociRepoAccess :: "yard_request \<Rightarrow> Perm \<Rightarrow> site \<Rightarrow> (int + repo) \<times> site" where
  "ociRepoAccess q need s =
     (case basic_user (yq_env q) (yq_now q) (yq_visit q) s of (u, s1) \<Rightarrow>
        (case ByUsername (si_users s1) (yq_owner q) of
           Inl _ \<Rightarrow> (Err 404, s1)
         | Inr ownerUser \<Rightarrow>
             (case ByOwnerName (si_users s1) (si_repos s1) (fst ownerUser) (yq_repo q) of
                Inl _ \<Rightarrow> (Err 404, s1)
              | Inr rp \<Rightarrow>
                  (case caller_perm s1 rp u of
                     Inl _ \<Rightarrow> (Err 500, s1)
                   | Inr perm \<Rightarrow> if perm < need then (Err (if u = None then 401 else 403), s1) else (Ok rp, s1)))))"

definition oci :: "yard_request \<Rightarrow> Perm \<Rightarrow> (int \<Rightarrow> depot \<Rightarrow> (int + 'a) \<times> depot) \<Rightarrow> yard \<Rightarrow> (int + 'a) \<times> yard" where
  "oci q need h y =
     (case ociRepoAccess q need (yd_site y) of
        (Inl c, s) \<Rightarrow> (Err c, y\<lparr>yd_site := s\<rparr>)
      | (Inr rp, s) \<Rightarrow> (case h (fst rp) (yd_depot y) of (r, d) \<Rightarrow> (r, y\<lparr>yd_site := s, yd_depot := d\<rparr>)))"

definition pkg :: "yard_request \<Rightarrow> Perm \<Rightarrow> (int \<Rightarrow> depot \<Rightarrow> (int + 'a) \<times> depot) \<Rightarrow> yard \<Rightarrow> (int + 'a) \<times> yard" where
  "pkg q need h y =
     (case loadRepoAndPerm (yq_env q) (yq_now q) (yq_visit q) (yq_owner q) (yq_repo q) need (yd_site y) of
        (Inl c, s) \<Rightarrow> (Err c, y\<lparr>yd_site := s\<rparr>)
      | (Inr (rp, _), s) \<Rightarrow> (case h (fst rp) (yd_depot y) of (r, d) \<Rightarrow> (r, y\<lparr>yd_site := s, yd_depot := d\<rparr>)))"

definition answers_with :: "('e \<Rightarrow> int) \<Rightarrow> ('e + 'a) \<times> depot \<Rightarrow> (int + 'a) \<times> depot" where
  "answers_with fail x = (case fst x of Inl e \<Rightarrow> Err (fail e) | Inr r \<Rightarrow> Ok r, snd x)"

section \<open>Images\<close>

text \<open>The staged file is made before the row and removed when there is none.\<close>

definition handleBlobUploadStart :: "yard_request \<Rightarrow> yard \<Rightarrow> (int + string) \<times> yard" where
  "handleBlobUploadStart q =
     oci q PermWrite (\<lambda>repo d.
       if dp_disk_down d then (Err 500, d)
       else case StartUpload (yq_random q) repo (yq_path q) (d\<lparr>dp_staged := (dp_staged d)(yq_path q \<mapsto> [])\<rparr>) of
         (Inl _, d1) \<Rightarrow> (Err 500, d1\<lparr>dp_staged := (dp_staged d1)(yq_path q := None)\<rparr>)
       | (Inr uuid, d1) \<Rightarrow> (Ok uuid, d1))"

text \<open>The body is appended to the staged file, whatever the file holds.\<close>

definition handleBlobUploadFinish :: "(string \<Rightarrow> string) \<Rightarrow> yard_request \<Rightarrow> string \<Rightarrow> string \<Rightarrow> yard \<Rightarrow> (int + string) \<times> yard" where
  "handleBlobUploadFinish sha q uuid digest =
     oci q PermWrite (\<lambda>repo d.
       if \<not> ValidateDigest digest then (Err 400, d)
       else case StagedPath d repo uuid of
         Inl _ \<Rightarrow> (Err 404, d)
       | Inr path \<Rightarrow>
           (case if dp_disk_down d then None else dp_staged d path of
              None \<Rightarrow> (Err 404, d)
            | Some c \<Rightarrow>
                let d1 = d\<lparr>dp_staged := (dp_staged d)(path \<mapsto> c @ fst (yq_body q))\<rparr> in
                if \<not> snd (yq_body q) then (Err 500, d1)
                else case FinishUpload sha repo uuid digest d1 of
                  (Inl _, d2) \<Rightarrow> (Err 400, d2) | (Inr _, d2) \<Rightarrow> (Ok digest, d2)))"

definition isDigestReference :: "string \<Rightarrow> bool" where
  "isDigestReference ref = contains ref '':''"

definition manifest_limit :: nat where "manifest_limit = 262144"

text \<open>At most \<open>manifest_limit\<close> bytes of the body are read, the rest is ignored.\<close>

definition handlePutManifest :: "(string \<Rightarrow> string) \<Rightarrow> yard_request \<Rightarrow> string \<Rightarrow> string \<Rightarrow> yard \<Rightarrow> (int + string) \<times> yard" where
  "handlePutManifest sha q reference mediaType =
     oci q PermWrite (\<lambda>repo d.
       if length (fst (yq_body q)) < manifest_limit \<and> \<not> snd (yq_body q) then (Err 400, d)
       else let body = take manifest_limit (fst (yq_body q)) in
         answers_with (\<lambda>_. 400)
           ((if isDigestReference reference then PutManifestList else PutManifest) sha repo (yq_repo q) reference mediaType body d))"

definition handleGetManifest :: "yard_request \<Rightarrow> string \<Rightarrow> yard \<Rightarrow> (int + docker_manifest) \<times> yard" where
  "handleGetManifest q reference =
     oci q PermRead (\<lambda>repo d.
       case GetManifest d repo (yq_repo q) reference of
         Inl _ \<Rightarrow> (Err 404, d)
       | Inr m \<Rightarrow>
           (Ok (if dm_MediaType m = [] then m\<lparr>dm_MediaType := ''application/vnd.docker.distribution.manifest.v2+json''\<rparr> else m), d))"

definition handleListTags :: "yard_request \<Rightarrow> yard \<Rightarrow> (int + string list) \<times> yard" where
  "handleListTags q = oci q PermRead (\<lambda>repo d. answers_with (\<lambda>_. 500) (ListTags d repo (yq_repo q), d))"

text \<open>The repository plays no part in the answer.\<close>

definition handleGetBlob :: "yard_request \<Rightarrow> string \<Rightarrow> yard \<Rightarrow> (int + string) \<times> yard" where
  "handleGetBlob q digest = oci q PermRead (\<lambda>repo d. answers_with (\<lambda>_. 404) (GetBlob digest d, d))"

section \<open>Packages\<close>

definition handleListPackageVersions :: "yard_request \<Rightarrow> string \<Rightarrow> string \<Rightarrow> yard \<Rightarrow> (int + (int \<times> pkg_version) list) \<times> yard" where
  "handleListPackageVersions q typ name =
     pkg q PermRead (\<lambda>repo d.
       if \<not> pkg_validTypes typ then (Err 400, d)
       else if name = [] then (Err 400, d)
       else answers_with (\<lambda>_. 500) (ListVersions d repo typ name, d))"

text \<open>The version stays when its file fails.\<close>

definition handlePublishPackageVersion ::
  "(string \<Rightarrow> string) \<Rightarrow> yard_request \<Rightarrow> string \<Rightarrow> string \<Rightarrow> string \<Rightarrow> string \<Rightarrow> yard \<Rightarrow> (int + int \<times> string) \<times> yard" where
  "handlePublishPackageVersion sha q typ name version filename =
     pkg q PermWrite (\<lambda>repo d.
       if \<not> pkg_validTypes typ then (Err 400, d)
       else if name = [] then (Err 400, d)
       else if \<not> is_ok (ValidateVersion version) then (Err 400, d)
       else if filename = [] then (Err 400, d)
       else case PublishVersion repo typ name version [] d of
         (Inl _, d1) \<Rightarrow> (Err 500, d1)
       | (Inr i, d1) \<Rightarrow>
           (case AddFile sha i filename (yq_body q) d1 of
              (Inl _, d2) \<Rightarrow> (Err 500, d2) | (Inr digest, d2) \<Rightarrow> (Ok (i, digest), d2)))"

definition depot_code :: "depot_error \<Rightarrow> int" where
  "depot_code e = (if e = DepotNotFound then 404 else 500)"

definition handleDownloadPackageFile ::
  "yard_request \<Rightarrow> string \<Rightarrow> string \<Rightarrow> string \<Rightarrow> string \<Rightarrow> yard \<Rightarrow> (int + string) \<times> yard" where
  "handleDownloadPackageFile q typ name version filename =
     pkg q PermRead (\<lambda>repo d.
       if \<not> pkg_validTypes typ then (Err 400, d)
       else case GetVersion d repo typ name version of
         Inl e \<Rightarrow> (Err (depot_code e), d)
       | Inr v \<Rightarrow>
           (case OpenFile d (fst v) filename of Inl e \<Rightarrow> (Err (depot_code e), d) | Inr (c, _) \<Rightarrow> (Ok c, d)))"

section \<open>All requests\<close>

datatype yard_call =
    StartBlob
  | FinishBlob string string
  | PushManifest string string
  | PublishPackage string string string string

primrec yard_serve :: "(string \<Rightarrow> string) \<Rightarrow> yard_call \<Rightarrow> yard_request \<Rightarrow> yard \<Rightarrow> yard" where
  "yard_serve sha StartBlob q y = snd (handleBlobUploadStart q y)"
| "yard_serve sha (FinishBlob uuid digest) q y = snd (handleBlobUploadFinish sha q uuid digest y)"
| "yard_serve sha (PushManifest reference mt) q y = snd (handlePutManifest sha q reference mt y)"
| "yard_serve sha (PublishPackage typ name version filename) q y =
     snd (handlePublishPackageVersion sha q typ name version filename y)"

definition yard_run :: "(string \<Rightarrow> string) \<Rightarrow> (yard_call \<times> yard_request) list \<Rightarrow> yard \<Rightarrow> yard" where
  "yard_run sha = fold (\<lambda>(c, q). yard_serve sha c q)"

end
