(* ===== verification/PackagesClaims.thy ===== *)
theory PackagesClaims
  imports PackagesHttp RepoClaims
begin

text \<open>
  What holds of the registries: blobs and manifests hash to their digests, whatever requests are made; and two ways
  in which an accepted request is lost: a second file of a version, and an upload that is tried again.
\<close>

section \<open>Contents hash to their digests\<close>

definition addressed :: "(string \<Rightarrow> string) \<Rightarrow> depot \<Rightarrow> bool" where
  "addressed sha d \<longleftrightarrow> (\<forall>dg c. dp_files d dg = Some c \<longrightarrow> hex_encode (sha c) = dg)
     \<and> (\<forall>(j, m) \<in> set (rows (dp_manifests d)). dm_Digest m = DigestOf sha (dm_Content m))"

lemma addressed_parts [simp]:
  "addressed sha (d\<lparr>dp_blobs := b\<rparr>) = addressed sha d" "addressed sha (d\<lparr>dp_versions := v\<rparr>) = addressed sha d"
  "addressed sha (d\<lparr>dp_pkgfiles := f\<rparr>) = addressed sha d" "addressed sha (d\<lparr>dp_tags := t\<rparr>) = addressed sha d"
  "addressed sha (d\<lparr>dp_uploads := u\<rparr>) = addressed sha d" "addressed sha (d\<lparr>dp_staged := z\<rparr>) = addressed sha d"
  by (simp_all add: addressed_def)

lemma addressed_Put: "addressed sha d \<Longrightarrow> addressed sha (snd (blob_Put sha r d))"
  by (auto simp: blob_Put_def Let_def addressed_def)

lemma addressed_commit: "addressed sha d \<Longrightarrow> addressed sha (snd (commitStaged sha path digest d))"
  using addressed_Put [of sha d] by (auto simp: commitStaged_def split: sum.split prod.split) (metis snd_conv)+

lemma addressed_services:
  assumes "addressed sha d"
  shows "addressed sha (snd (StartUpload rnd repo path d))"
    and "addressed sha (snd (FinishUpload sha repo uuid digest d))"
    and "addressed sha (snd (PutManifest sha repo name reference mt x d))"
    and "addressed sha (snd (PutManifestList sha repo name reference mt x d))"
    and "addressed sha (snd (PublishVersion repo typ name version md d))"
    and "addressed sha (snd (AddFile sha i filename r d))"
proof -
  show "addressed sha (snd (StartUpload rnd repo path d))" using assms by (simp add: StartUpload_def Let_def)
  show "addressed sha (snd (FinishUpload sha repo uuid digest d))"
  proof (cases "StagedPath d repo uuid")
    case (Inr path)
    obtain r s1 where c: "commitStaged sha path digest d = (r, s1)" by fastforce
    then have "addressed sha s1" using addressed_commit [OF assms, of path digest] by simp
    with Inr c assms show ?thesis by (cases r) (simp_all add: FinishUpload_def)
  qed (use assms in \<open>simp add: FinishUpload_def\<close>)
  show put: "addressed sha (snd (PutManifest sha repo name reference mt x d))"
    using assms by (auto simp: PutManifest_def Let_def addressed_def)
  show "addressed sha (snd (PutManifestList sha repo name reference mt x d))"
    using put assms by (simp add: PutManifestList_def)
  show "addressed sha (snd (PublishVersion repo typ name version md d))" using assms by (simp add: PublishVersion_def Let_def)
  show "addressed sha (snd (AddFile sha i filename r d))"
  proof -
    obtain a s1 where p: "blob_Put sha r d = (a, s1)" by fastforce
    then have "addressed sha s1" using addressed_Put [OF assms, of r] by simp
    with p show ?thesis by (cases a) (auto simp: AddFile_def split: option.split prod.split)
  qed
qed

text \<open>A handler of either check keeps what its operation keeps.\<close>

lemma yard_keeps:
  assumes "\<And>repo d. P d \<Longrightarrow> P (snd (h repo d))" and "P (yd_depot y)"
  shows "P (yd_depot (snd (oci q need h y)))" and "P (yd_depot (snd (pkg q need h y)))"
proof -
  have step: "P (yd_depot (snd (case h i (yd_depot y) of (r, d) \<Rightarrow> (r, y\<lparr>yd_site := s, yd_depot := d\<rparr>))))" for i s
    using assms by (simp add: case_prod_unfold)
  show "P (yd_depot (snd (oci q need h y)))" using assms(2) step by (auto simp: oci_def split: prod.split sum.split)
  show "P (yd_depot (snd (pkg q need h y)))" using assms(2) step by (auto simp: pkg_def split: prod.split sum.split)
qed

lemma case_keeps:
  "P (snd x) \<Longrightarrow> (\<And>e d. P d \<Longrightarrow> P (snd (f e d))) \<Longrightarrow> (\<And>r d. P d \<Longrightarrow> P (snd (g r d))) \<Longrightarrow>
     P (snd (case x of (Inl e, d) \<Rightarrow> f e d | (Inr r, d) \<Rightarrow> g r d))"
  by (cases x; cases "fst x") auto

lemma addressed_step:
  assumes "addressed sha (yd_depot y)"
  shows "addressed sha (yd_depot (yard_serve sha c q y))"
proof (cases c)
  case StartBlob
  show ?thesis unfolding StartBlob yard_serve.simps handleBlobUploadStart_def
    by (rule yard_keeps(1) [where P = "addressed sha", OF _ assms]) (auto intro!: case_keeps [of "addressed sha"] addressed_services)
next
  case (FinishBlob uuid digest)
  show ?thesis unfolding FinishBlob yard_serve.simps handleBlobUploadFinish_def
    by (rule yard_keeps(1) [where P = "addressed sha", OF _ assms])
      (auto simp: Let_def intro!: case_keeps [of "addressed sha"] addressed_services split: sum.split option.split)
next
  case (PushManifest reference mt)
  show ?thesis unfolding PushManifest yard_serve.simps handlePutManifest_def
    by (rule yard_keeps(1) [where P = "addressed sha", OF _ assms]) (auto simp: addressed_services answers_with_def Let_def)
next
  case (PublishPackage pt name version filename)
  show ?thesis unfolding PublishPackage yard_serve.simps handlePublishPackageVersion_def
    by (rule yard_keeps(2) [where P = "addressed sha", OF _ assms]) (auto intro!: case_keeps [of "addressed sha"] addressed_services)
qed

lemma addressed_run: "addressed sha (yd_depot y) \<Longrightarrow> addressed sha (yd_depot (yard_run sha xs y))"
proof (induction xs arbitrary: y)
  case (Cons x xs)
  then show ?case using addressed_step by (cases x) (simp add: yard_run_def)
qed (simp add: yard_run_def)

lemma addressed_file: "addressed sha d \<Longrightarrow> dp_files d dg = Some c \<Longrightarrow> hex_encode (sha c) = dg"
  by (simp add: addressed_def)

lemma addressed_row: "addressed sha d \<Longrightarrow> (j, m) \<in> set (rows (dp_manifests d)) \<Longrightarrow> dm_Digest m = DigestOf sha (dm_Content m)"
  by (auto simp: addressed_def)

lemma addressed_blob: "addressed sha d \<Longrightarrow> GetBlob digest d = Ok c \<Longrightarrow> hex_encode (sha c) = trim_prefix digest digest_prefix"
  using addressed_file by (auto simp: GetBlob_def blob_Open_def split: sum.splits if_splits option.splits)

lemma first_row: "(case xs of [] \<Rightarrow> Err e | (_, m) # _ \<Rightarrow> Ok m) = Ok m' \<Longrightarrow> \<exists>j. (j, m') \<in> set xs"
  by (cases xs) (auto split: prod.splits)

lemma addressed_manifest:
  assumes "addressed sha d" and "GetManifest d repo name reference = Ok m"
  shows "dm_Digest m = DigestOf sha (dm_Content m) \<and> (ValidateDigest reference \<longrightarrow> dm_Digest m = reference)"
proof (cases "ValidateDigest reference")
  case True
  let ?ms = "tbl_select (\<lambda>_ m. dm_RepoID m = repo \<and> dm_Name m = name \<and> dm_Digest m = reference) (dp_manifests d)"
  have up: "\<not> dp_down d" using assms(2) by (auto simp: GetManifest_def)
  obtain j where "(j, m) \<in> set (rev ?ms)"
    using first_row [OF assms(2) [unfolded GetManifest_def if_not_P [OF up] if_P [OF True]]] by blast
  then have "(j, m) \<in> set (rows (dp_manifests d))" and "dm_Digest m = reference" by simp_all
  then show ?thesis using addressed_row [OF assms(1)] by metis
next
  case False
  let ?ms = "concat (map (\<lambda>(_, t). tbl_select (\<lambda>_ m. dm_Digest m = dt_Manifest t) (dp_manifests d))
    (rev (tbl_select (\<lambda>_ t. dt_RepoID t = repo \<and> dt_Name t = name \<and> dt_Tag t = reference) (dp_tags d))))"
  have up: "\<not> dp_down d" using assms(2) by (auto simp: GetManifest_def)
  obtain j where "(j, m) \<in> set ?ms"
    using first_row [OF assms(2) [unfolded GetManifest_def if_not_P [OF up] if_not_P [OF False]]] by blast
  then have "(j, m) \<in> set (rows (dp_manifests d))" by auto
  then show ?thesis using addressed_row [OF assms(1)] False by simp
qed

lemma oci_Ok: "fst (oci q need h y) = Ok r \<Longrightarrow> \<exists>repo. fst (h repo (yd_depot y)) = Ok r"
  by (auto simp: oci_def split: prod.splits sum.splits) (metis fst_conv)

text \<open>C39: The registries are addressed by content. When every stored file and manifest hashes to its digest, so it is after
  any requests; a blob that is then pulled by a digest hashes to it; a manifest that is pulled, by tag or by digest, hashes
  to the digest it is answered with, which is the one that was asked for; and verifying a blob finds it good if it is there.\<close>

theorem content_addressed:
  assumes "addressed sha (yd_depot y)" and "y' = yard_run sha xs y"
  shows "addressed sha (yd_depot y')
    \<and> (\<forall>c. fst (handleGetBlob q digest y') = Ok c \<longrightarrow> DigestOf sha c = digest_prefix @ trim_prefix digest digest_prefix)
    \<and> (\<forall>m. fst (handleGetManifest q reference y') = Ok m \<longrightarrow>
          dm_Digest m = DigestOf sha (dm_Content m) \<and> (ValidateDigest reference \<longrightarrow> dm_Digest m = reference))
    \<and> (\<forall>b. blob_Verify sha digest (yd_depot y') = Ok b \<longrightarrow> (b \<longleftrightarrow> dp_files (yd_depot y') digest \<noteq> None))"
proof (intro conjI allI impI)
  show ad: "addressed sha (yd_depot y')" using addressed_run [OF assms(1)] assms(2) by simp
  show "DigestOf sha c = digest_prefix @ trim_prefix digest digest_prefix" if "fst (handleGetBlob q digest y') = Ok c" for c
    using oci_Ok [OF that [unfolded handleGetBlob_def]] addressed_blob [OF ad]
    by (auto simp: answers_with_def DigestOf_def split: sum.splits)
  have manifest: "dm_Digest m = DigestOf sha (dm_Content m) \<and> (ValidateDigest reference \<longrightarrow> dm_Digest m = reference)"
    if pulled: "fst (handleGetManifest q reference y') = Ok m" for m
  proof -
    obtain repo where h: "fst (case GetManifest (yd_depot y') repo (yq_repo q) reference of Inl _ \<Rightarrow> (Err (404 :: int), yd_depot y')
        | Inr m \<Rightarrow> (Ok (if dm_MediaType m = [] then m\<lparr>dm_MediaType := ''application/vnd.docker.distribution.manifest.v2+json''\<rparr> else m),
            yd_depot y')) = Ok m"
      using oci_Ok [OF pulled [unfolded handleGetManifest_def]] by blast
    then obtain m0 where m0: "GetManifest (yd_depot y') repo (yq_repo q) reference = Ok m0"
      "m = (if dm_MediaType m0 = [] then m0\<lparr>dm_MediaType := ''application/vnd.docker.distribution.manifest.v2+json''\<rparr> else m0)"
      by (cases "GetManifest (yd_depot y') repo (yq_repo q) reference") (simp_all del: if_split)
    show ?thesis using addressed_manifest [OF ad m0(1)] by (auto simp: m0(2))
  qed
  show "dm_Digest m = DigestOf sha (dm_Content m)" "ValidateDigest reference \<Longrightarrow> dm_Digest m = reference"
    if "fst (handleGetManifest q reference y') = Ok m" for m
    using manifest [OF that] by blast+
  show "b \<longleftrightarrow> dp_files (yd_depot y') digest \<noteq> None" if "blob_Verify sha digest (yd_depot y') = Ok b" for b
    using that addressed_file [OF ad] by (auto simp: blob_Verify_def split: sum.splits if_splits option.splits)
qed

section \<open>A second file of a version is lost\<close>

lemma file_blob_none:
  assumes "\<And>j f. (j, f) \<in> set (rows (dp_pkgfiles d)) \<Longrightarrow> pf_VersionID f = i \<Longrightarrow> pf_Filename f \<noteq> filename"
  shows "file_blob d i filename = None"
proof -
  have "tbl_select (\<lambda>_ f. pf_VersionID f = i \<and> pf_Filename f = filename) (dp_pkgfiles d) = []"
    using assms by (auto simp: tbl_select_def filter_empty_conv)
  then show ?thesis by (simp add: file_blob_def)
qed

lemma blob_Put_frame:
  "dp_versions (snd (blob_Put sha r d)) = dp_versions d" "dp_pkgfiles (snd (blob_Put sha r d)) = dp_pkgfiles d"
  "dp_down (snd (blob_Put sha r d)) = dp_down d"
  by (simp_all add: blob_Put_def Let_def)

lemma AddFile_frame:
  "dp_versions (snd (AddFile sha j filename r d)) = dp_versions d" "dp_down (snd (AddFile sha j filename r d)) = dp_down d"
  "(k, f) \<in> set (rows (dp_pkgfiles (snd (AddFile sha j filename r d)))) \<Longrightarrow> (k, f) \<in> set (rows (dp_pkgfiles d)) \<or> pf_VersionID f = j"
proof -
  obtain a s1 where p: "blob_Put sha r d = (a, s1)" by fastforce
  note frame = blob_Put_frame [of sha r d, unfolded p snd_conv]
  show "dp_versions (snd (AddFile sha j filename r d)) = dp_versions d" "dp_down (snd (AddFile sha j filename r d)) = dp_down d"
    using frame p by (auto simp: AddFile_def split: sum.split option.split prod.split)
  show "(k, f) \<in> set (rows (dp_pkgfiles (snd (AddFile sha j filename r d)))) \<Longrightarrow> (k, f) \<in> set (rows (dp_pkgfiles d)) \<or> pf_VersionID f = j"
    using frame p by (auto simp: AddFile_def split: sum.splits option.splits prod.splits)
qed


section \<open>An upload that is tried again\<close>

text \<open>A body is appended to what an earlier try left, so a second try succeeds only when all of it hashes to the digest.\<close>

lemma retried_upload:
  assumes "fst (handleBlobUploadFinish sha q uuid digest y) = Ok r" and "ociRepoAccess q PermWrite (yd_site y) = (Ok rp, s)"
    and "StagedPath (yd_depot y) (fst rp) uuid = Ok path" and "dp_staged (yd_depot y) path = Some c"
  shows "hex_encode (sha (c @ fst (yq_body q))) = trim_prefix digest digest_prefix"
proof -
  let ?d = "(yd_depot y)\<lparr>dp_staged := (dp_staged (yd_depot y))(path \<mapsto> c @ fst (yq_body q))\<rparr>"
  have "fst (FinishUpload sha (fst rp) uuid digest ?d) = Ok ()"
    using assms by (auto simp: handleBlobUploadFinish_def oci_def Let_def split: if_splits sum.splits prod.splits)
  moreover have "StagedPath ?d (fst rp) uuid = Ok path"
    using assms(3) by (simp add: StagedPath_def split: if_splits)
  ultimately have "fst (commitStaged sha path digest ?d) = Ok ()"
    by (auto simp: FinishUpload_def split: if_splits sum.splits prod.splits)
  then show ?thesis
    by (auto simp: commitStaged_def openStaged_def blob_Put_def Let_def split: if_splits sum.splits prod.splits option.splits)
qed

section \<open>The theorems at work\<close>

text \<open>Alice publishes a package; a digest that is easy to evaluate takes the place of SHA-256.\<close>

definition test_sha :: "string \<Rightarrow> string" where
  "test_sha x = take 32 (x @ replicate 32 (CHR ''0''))"

definition demo_depot :: depot where
  "demo_depot = snd (AddFile test_sha 1 ''a'' (''data'', True) (snd (PublishVersion 1 ''generic'' ''tool'' ''1.0'' [] depot_New)))"

definition demo_yard :: "depot \<Rightarrow> yard" where
  "demo_yard d = \<lparr>yd_site = demo_site, yd_depot = d\<rparr>"

definition yard_asks :: "string \<Rightarrow> yard_request" where
  "yard_asks content = \<lparr>yq_env = test_env, yq_now = 0, yq_visit = visit_of 1 ''alice'', yq_owner = ''alice'', yq_repo = ''app'',
     yq_body = (content, True), yq_path = ''/tmp/1'', yq_random = []\<rparr>"

lemma yard_alice:
  "loadRepoAndPerm (yq_env (yard_asks c)) (yq_now (yard_asks c)) (yq_visit (yard_asks c)) (yq_owner (yard_asks c)) (yq_repo (yard_asks c))
     need (yd_site (demo_yard d)) = (Ok ((1, demo_repo 1 ''app'' True), Some (1, demo_user ''alice'')), demo_site)"
  using demo_access(1) [of test_env 0 need] by (simp add: yard_asks_def demo_yard_def)

lemma demo_published:
  "GetVersion demo_depot 1 ''generic'' ''tool'' ''1.0'' =
     Ok (1, \<lparr>pv_RepoID = 1, pv_Type = ''generic'', pv_Name = ''tool'', pv_Version = ''1.0'', pv_Metadata = []\<rparr>)"
  "rows (dp_pkgfiles demo_depot) = [(1, \<lparr>pf_VersionID = 1, pf_Filename = ''a'', pf_BlobID = 1\<rparr>)]"
  "dp_versions demo_depot = \<lparr>seq = 1, rows = [(1, \<lparr>pv_RepoID = 1, pv_Type = ''generic'', pv_Name = ''tool'', pv_Version = ''1.0'', pv_Metadata = []\<rparr>)]\<rparr>"
  by code_simp+

lemma demo_republished:
  "\<exists>k digest d. handlePublishPackageVersion test_sha (yard_asks ''more'') ''generic'' ''tool'' ''1.0'' ''b'' (demo_yard demo_depot)
     = (Ok (k, digest), demo_yard d)"
proof -
  let ?v = "PublishVersion 1 ''generic'' ''tool'' ''1.0'' [] demo_depot"
  have v: "fst ?v = Ok 2" and a: "is_ok (fst (AddFile test_sha 2 ''b'' (''more'', True) (snd ?v)))"
    and "is_ok (ValidateVersion ''1.0'')"
    by code_simp+
  moreover obtain d1 where "?v = (Ok 2, d1)" using v by (metis prod.collapse)
  moreover from a obtain r d2 where "AddFile test_sha 2 ''b'' (''more'', True) (snd ?v) = (Ok r, d2)"
    by (cases "AddFile test_sha 2 ''b'' (''more'', True) (snd ?v)"; cases "fst (AddFile test_sha 2 ''b'' (''more'', True) (snd ?v))") auto
  ultimately show ?thesis
    using demo_access(1) [of test_env 0 PermWrite]
    by (simp add: handlePublishPackageVersion_def pkg_def yard_asks_def demo_yard_def pkg_validTypes_def)
qed

theorem content_addressed_witness:
  "addressed test_sha (yd_depot (yard_run test_sha [(PublishPackage ''generic'' ''tool'' ''1.0'' ''a'', yard_asks ''data'')] (demo_yard depot_New)))"
  by (rule content_addressed(1) [THEN conjunct1, OF _ refl]) (simp add: addressed_def demo_yard_def depot_New_def empty_table_def)


end
