(* ===== verification/Spec2Isabelle.thy ===== *)
theory Spec2Isabelle
  imports RbacClaims PathRules RunnerClaims Secutil Social Owned AccountClaims GitClaims CollabClaims AuditClaims OAuthClaims RbacHttpClaims LfsClaims ApiGate Migrate CiClaims DeskClaims WorkspaceClaims PackagesClaims
begin

text \<open>
  gitli is a self-hosted Git service: one Go process with a SQL database, an HTTP interface, Git over HTTP and
  SSH, and runners that fetch jobs. This development models the parts of it that decide who may do what:
  accounts, credentials and sessions, access control, the runner protocol, the small owned and related
  records, and the text rules (globs, code owners, paths, validation) that these decisions rest on.

  Conventions. A Go struct is a \<open>record\<close> without the columns that no modelled operation reads (descriptions,
  avatars, some times); an enumeration is a \<open>datatype\<close>, except where the code compares strings. A SQL table is
  a \<open>table\<close> of the theory \<open>Prelude\<close>: rows in insertion order with their keys, and the last key handed out
  (\<open>AUTOINCREMENT\<close>: keys are never used again). \<open>UNIQUE\<close> constraints of \<open>src/internal/migrations\<close> are guards of
  the inserts. An operation of a service takes what it reads from outside (the time in nanoseconds, random
  bytes, \<^const>\<open>None\<close> when the source fails) as arguments, and returns the result, an error or a value (\<open>Err\<close>,
  \<open>Ok\<close>), and the new state. A flag of the state says that the database is down; every statement of an
  operation then fails, so the branches of the code that handle such failures are there. Operations are
  atomic, as their SQL statements and the mutexes of the code make them; where the code issues several
  statements and another request can come between, the model says so (\<open>claim_select\<close> and \<open>claim_update\<close>).
  Go integers are unbounded integers where they are keys and counts, words where their width matters. Text is a
  list of bytes; white space and letter case are those of ASCII.

  Shared theories.
  \<^item> \<open>Prelude\<close>: results, strings of Go's \<open>strings\<close> and \<open>strconv\<close>, tables and the facts about them.
  \<^item> \<open>Codec\<close>: \<open>encoding/hex\<close>, \<open>encoding/base64\<close>, the verbs of \<open>fmt.Sscanf\<close> in use, comparison in
    constant time; round trips of the encodings.
  \<^item> \<open>Stores\<close>: the contracts of a relation between pairs and of records with an owner, as locales; their facts
    (refinement of a set of pairs, separation of owners) are proved once and reached by interpretation.

  Access control (\<open>src/internal/service/rbac\<close>).
  \<^item> \<open>Glob\<close>: the three glob matchers (\<open>rbac.MatchPattern\<close>, \<open>codeowners.globMatch\<close>,
    \<open>pathperm.globMatch\<close>) and their loops with backtracking; they return on every input and decide the
    declarative relation \<open>glob\<close>.
  \<^item> \<open>RbacModel\<close> (\<open>model.go\<close>, \<open>permissions.go\<close>), \<open>PermCache\<close> (\<open>cache.go\<close>), \<open>Rbac\<close>,
    \<open>RbacTeams\<close>, \<open>RbacEval\<close>, \<open>RbacManage\<close> (\<open>rbac.go\<close>, \<open>manage.go\<close>): the permissions, the cache of decisions,
    the tables, the nesting of teams, the evaluation and the management operations. The state is
    \<open>rbac_db\<close> with the cache; \<open>rbac_step\<close> is the relation of all operations and \<open>rbac_reachable\<close> its states.
  \<^item> \<open>RbacProps\<close> and \<open>RbacClaims\<close>: the decision of \<open>Check\<close> is the one the tables give, cached or not; the
    set of effective permissions is the declarative one; teams stay a forest; nobody grants more than
    he has; where the nesting limit and the organization of a team role are not enforced.
  \<^item> \<open>PathRules\<close>: \<open>service/pathperm\<close> and \<open>service/codeowners\<close>: the longest rule, the last owner rule.

  Runners (\<open>src/internal/service/runner\<close>, \<open>transport/http/handlers_runner.go\<close>).
  \<^item> \<open>Runner\<close>: the registry, jobs and logs. \<open>RunnerHttp\<close>: the handlers, the step \<open>http_step\<close> of a request and
    the life of a job. \<open>RunnerClaims\<close>: isolation of runners, exclusive claims, bounds of logs.

  Accounts.
  \<^item> \<open>Limiter\<close>: \<open>service/auth/limiter.go\<close>, against the count of failures in the history of calls.
  \<^item> \<open>Secrets\<close>: \<open>infra/token\<close>, \<open>infra/crypto\<close>, \<open>infra/password\<close>, \<open>infra/weakpass\<close>.
  \<^item> \<open>Users\<close>: \<open>service/user/user.go\<close> and \<open>admin.go\<close>. \<open>Auth\<close>: \<open>service/auth/auth.go\<close>: registration, login,
    sessions, the second factor, passwords, LDAP.
  \<^item> \<open>AuthProps\<close> and \<open>AuthClaims\<close>: \<open>evolves\<close> is what every operation keeps; on it rest the invariant,
    soundness and success of a login, revocation, the single use of codes, the one setup.
  \<^item> \<open>Pat\<close>: \<open>service/pat\<close> and the authentication middleware. \<open>AccountHttp\<close>: the handlers of
    accounts and of the administrator, Basic authentication for Git with its cache, the client
    address, and the user commands of \<open>internal/app/cli.go\<close>. \<open>AccountClaims\<close>: what holds of all these
    together: the last administrator stays, a deactivated account is out.

  Repositories and Git.
  \<^item> \<open>Repos\<close>: \<open>service/repo\<close>, \<open>service/org/org.go\<close>, \<open>infra/fsrepo\<close>. The state \<open>repo_db\<close> holds the tables and the disk: a
    map from paths to what a bare repository contains. \<open>RepoHttp\<close>: the three access checks
    (\<open>loadRepoAndPerm\<close>, \<open>resolveRepo\<close>, \<open>gitRepoAccess\<close>) and the handlers that change repositories.
  \<^item> \<open>Keys\<close>: SSH and signing keys of accounts. \<open>GitServe\<close>: the \<open>pre-receive\<close> hook with branch and tag
    protections, the handler of Git over HTTP, the built-in SSH server; \<open>git\<close> itself is a parameter.
  \<^item> \<open>RepoPaths\<close>: paths of validated names are apart. \<open>RepoClaims\<close>: who passes the access check was granted it.
    \<open>RepoSharing\<close>: renaming, and where directories named after owners let one owner reach what belongs to
    another. \<open>GitClaims\<close>: the hook accepts what the protections allow, a push over HTTP respects both; SSH
    and access tokens do not.

  Issues and pull requests.
  \<^item> \<open>Collab\<close> (\<open>service/issue\<close>, \<open>service/pull\<close>: numbering, states, comments), \<open>CollabHttp\<close> (their handlers), \<open>CollabClaims\<close>:
    strangers change nothing, the numbers of a repository stay dense as long as no two requests
    interleave, and a trace in which they take the same number.

  The audit log.
  \<^item> \<open>Like\<close>: the SQL operator \<open>LIKE\<close> with its escapes and the patterns the services build; \<open>AuditLog\<close>:
    \<open>service/audit\<close> and \<open>handlers_audit.go\<close>: the queue with its bound, the worker as steps, queries and exports.
    An export reads the table again for every chunk, so it takes the tables it sees as a sequence. \<open>AuditClaims\<close>:
    every entry taken is written, waiting, or counted as lost; the loops of an export return.

  The OAuth provider.
  \<^item> \<open>OAuth\<close>: \<open>service/oauth\<close> and \<open>handlers_oauth.go\<close>: applications, codes, consents, tokens. \<open>OAuthClaims\<close>: a token that is
    accepted goes back to an approval, a code gives one token, what the revocation of a consent leaves.

  Access control over HTTP.
  \<^item> \<open>IpAllow\<close>: \<open>service/ipallow\<close>, with Go's \<open>IPNet.Contains\<close>. \<open>RbacHttp\<close>: \<open>handlers_rbac.go\<close>, \<open>handlers_ipallow.go\<close>, the
    middleware \<open>middleware_permission.go\<close> and the groups of routes behind it. \<open>RbacHttpClaims\<close>: nothing changes without
    the permission that the tables give; the permission of one organization reaches all; what a list admits.

  Large files, CI, and what stands around the service.
  \<^item> \<open>Lfs\<close>: \<open>service/lfs\<close> (objects on disk, locks) with its handlers; a run is a list of requests, with anything else
    happening in between. \<open>LfsClaims\<close>: the first upload of an object stays; its name gives it to everyone; locks are
    exclusive unless two of them interleave (\<open>locks_race\<close>).
  \<^item> \<open>Ci\<close>: \<open>service/ci\<close> and \<open>service/cisecret\<close>; \<open>CiHttp\<close>: \<open>handlers_ci.go\<close> and the secrets of \<open>handlers_topic.go\<close>;
    \<open>CiClaims\<close>: secrets come back as stored, a job is claimed once, who may delete artifacts, who may read jobs.
  \<^item> \<open>ApiGate\<close>: the middleware before every route of the API (rate limiter, guard before the setup, forged
    requests), in its order, and the bounds of the limiter over runs of calls.
  \<^item> \<open>Migrate\<close>: \<open>internal/db/migrate.go\<close>: splitting of scripts, the ledger, transactions; an upgrade in steps equals one at once.

  What a repository publishes, and what an account keeps.
  \<^item> \<open>Desk\<close>: saved replies, user webhooks, reactions, subscriptions, blocks, notification preferences, the policies on a
    second factor, profiles and follows, deploy keys and path permissions, with their services and handlers, on top
    of \<open>Owned\<close> and \<open>Social\<close>. \<open>DeskClaims\<close>: personal records change on requests of their account only, those of
    a repository or organization on requests of its administrators; what a profile shows.
  \<^item> \<open>Boards\<close> (\<open>service/discussion\<close>, \<open>service/project\<close>), \<open>Pages\<close> (\<open>service/wiki\<close>, \<open>service/gist\<close>, \<open>service/release\<close>,
    \<open>service/topic\<close>), \<open>Workspace\<close> (their handlers). \<open>WorkspaceClaims\<close>: all of it changes with permission to write
    only, except the cards of boards, which any writer of any repository moves and deletes; the files of a release
    come back as uploaded.
  \<^item> \<open>Packages\<close> (\<open>service/package\<close>, \<open>service/pkgsvc\<close>, \<open>service/registry\<close>), \<open>PackagesHttp\<close> (\<open>handlers_registry.go\<close>,
    \<open>handlers_package.go\<close>). \<open>PackagesClaims\<close>: contents hash to their digests after any requests; a version that is
    published twice, and an upload that is tried twice, are lost.

  Other records and rules.
  \<^item> \<open>Social\<close> (follows, blocks, subscriptions, reactions), \<open>Owned\<close> (saved replies, deploy keys, user webhooks),
    \<open>Secutil\<close> (\<open>infra/secutil\<close>: names, references, paths, outbound addresses).

  Bounds and fuel. No definition has fuel. The matchers are \<open>partial_function (option)\<close> and come with the theorem that
  they return for every pattern and text; the loops of an audit export are too, and return
  whenever the table rests after some chunk (\<open>audit_export_returns\<close>); the walks over the ancestors of a team are \<open>function\<close>s with their
  termination proofs (a visited set or the depth limit bounds them).

  Parameters. SHA-256, SHA-1, Argon2, AES-GCM, the TOTP library, the LDAP client, the breach service, name
  resolution, the engine that runs a SQL script, the parsers of URLs, addresses, times and JSON, and the SQL function \<open>LENGTH\<close> are arguments or fields; what a theorem needs of
  them is a hypothesis (a key derivation returns keys of the length asked for, an AEAD opens what it sealed),
  and the witnesses give instances.

  Not modelled: the Git and SSH protocols as bytes and what the \<open>git\<close> program does to objects and prints (trees,
  diffs, archives, mirrors, imports), backups, mail, OIDC and SAML (protocols of foreign libraries), rendering, search
  and digests, the delivery of webhooks, configuration and start-up, and the services whose operations are single
  statements without a decision. Concurrency inside an operation is modelled only where it is stated.
\<close>

end
